(* ===== verification/Kit_Prelude.thy ===== *)
theory Kit_Prelude
  imports Main "HOL-Library.Word" "HOL-Library.Multiset"
begin

text \<open>
  What every component of the kit shares: the machine integer types, the list lemmas that
  the queue and array proofs use, the collections of simplification rules, and the two
  client interfaces that the clocked components are stated against:
  \<^item> \<open>clocked_machine\<close>: a component that is initialised once and then stepped by one input
    per clock cycle; an invariant that every cycle keeps holds in every reachable state;
  \<^item> \<open>fifo_view\<close>: a component whose state has a list of outstanding items, to which a
    cycle appends what it accepts and from whose front it takes what it releases; what is
    released over a whole run is then what was accepted, in order, without loss;
  \<^item> \<open>ledger_view\<close>: the same for a component that chooses the order itself.
  Each is interpreted on the components' own definitions, in their theories.
\<close>

unbundle bit_operations_syntax

type_synonym u8 = "8 word"
type_synonym u16 = "16 word"
type_synonym u32 = "32 word"
type_synonym u64 = "64 word"

named_theorems kit_bytes \<comment> \<open>byte and bit level characterisations\<close>
named_theorems ddr_defs \<comment> \<open>unfolding rules of the DDR model\<close>
named_theorems llc_defs \<comment> \<open>unfolding rules of the cache model\<close>

section \<open>Lists and words\<close>

lemma sum_list_update_nat:
  assumes "i < length xs"
  shows "(\<Sum>x\<leftarrow>xs[i := y]. f x) + (f (xs ! i) :: nat) = (\<Sum>x\<leftarrow>xs. f x) + f y"
  using assms
proof (induction xs arbitrary: i)
  case (Cons x xs)
  then show ?case by (cases i) auto
qed simp

lemma list_all_update:
  "list_all P xs \<Longrightarrow> P y \<Longrightarrow> list_all P (xs[i := y])"
  by (auto simp: list_all_iff dest: set_update_subset_insert [THEN subsetD])

lemma unat_add_one:
  "unat (x + 1) = (if x = - 1 then 0 else Suc (unat (x :: 'a::len word)))"
  by (auto simp: add.commute [of x] unatSuc add_eq_0_iff)

lemma unat_ucast_widen:
  assumes "LENGTH('a) \<le> LENGTH('b)"
  shows "unat (ucast (x :: 'a::len word) :: 'b::len word) = unat x"
proof -
  have "unat x < 2 ^ LENGTH('a)" by (rule unsigned_less)
  also have "\<dots> \<le> (2 :: nat) ^ LENGTH('b)" using assms by (intro power_increasing) auto
  finally show ?thesis by (simp add: unsigned_ucast_eq take_bit_nat_eq_self)
qed

lemma last_drop_nth: "i < length xs \<Longrightarrow> hd (drop i xs) = xs ! i"
  by (rule hd_drop_conv_nth)

lemma find_append:
  "find P (xs @ ys) = (case find P xs of None \<Rightarrow> find P ys | Some x \<Rightarrow> Some x)"
  by (induction xs) auto

text \<open>The index a search loop returns: the first element that satisfies the test.\<close>

fun first_index :: "('a \<Rightarrow> bool) \<Rightarrow> 'a list \<Rightarrow> nat option" where
  "first_index P [] = None"
| "first_index P (x # xs) = (if P x then Some 0 else map_option Suc (first_index P xs))"

lemma first_index_Some:
  "first_index P xs = Some i \<Longrightarrow> i < length xs \<and> P (xs ! i) \<and> (\<forall>j<i. \<not> P (xs ! j))"
proof (induction xs arbitrary: i)
  case (Cons x xs)
  show ?case
  proof (cases "P x")
    case False
    with Cons.prems obtain j where "i = Suc j" and "first_index P xs = Some j" by auto
    with Cons.IH [of j] False show ?thesis by (auto simp: less_Suc_eq_0_disj)
  qed (use Cons.prems in auto)
qed simp

lemma first_index_None: "first_index P xs = None \<longleftrightarrow> (\<forall>x\<in>set xs. \<not> P x)"
  by (induction xs) auto

lemma first_index_append_Some:
  "first_index P xs = Some j \<Longrightarrow> first_index P (xs @ ys) = Some j"
  by (induction xs arbitrary: j) (auto split: if_splits)

lemma first_index_append_None:
  "first_index P xs = None \<Longrightarrow> first_index P (xs @ ys) = map_option (\<lambda>j. length xs + j) (first_index P ys)"
  by (induction xs) (cases "first_index P ys"; auto split: if_splits)+

section \<open>Clocked machines\<close>

text \<open>A run steps a component through a list of per-cycle inputs; \<open>allowed\<close> says that the
  environment meets its obligation in every cycle of the run.\<close>

fun run_cycles :: "('i \<Rightarrow> 's \<Rightarrow> 's) \<Rightarrow> 'i list \<Rightarrow> 's \<Rightarrow> 's" where
  "run_cycles tick [] s = s"
| "run_cycles tick (i # is) s = run_cycles tick is (tick i s)"

fun allowed :: "('i \<Rightarrow> 's \<Rightarrow> bool) \<Rightarrow> ('i \<Rightarrow> 's \<Rightarrow> 's) \<Rightarrow> 'i list \<Rightarrow> 's \<Rightarrow> bool" where
  "allowed env tick [] s = True"
| "allowed env tick (i # is) s = (env i s \<and> allowed env tick is (tick i s))"

lemma allowed_True [simp]: "allowed (\<lambda>_ _. True) tick is s"
  by (induction "is" arbitrary: s) auto

text \<open>What a per-cycle observation collects over a run.\<close>

fun collect :: "('i \<Rightarrow> 's \<Rightarrow> 'a list) \<Rightarrow> ('i \<Rightarrow> 's \<Rightarrow> 's) \<Rightarrow> 'i list \<Rightarrow> 's \<Rightarrow> 'a list" where
  "collect obs tick [] s = []"
| "collect obs tick (i # is) s = obs i s @ collect obs tick is (tick i s)"

lemma run_cycles_append:
  "run_cycles tick (is @ js) s = run_cycles tick js (run_cycles tick is s)"
  by (induction "is" arbitrary: s) auto

locale clocked_machine =
  fixes start :: "'s"
    and tick :: "'i \<Rightarrow> 's \<Rightarrow> 's"
    and env :: "'i \<Rightarrow> 's \<Rightarrow> bool"
    and inv :: "'s \<Rightarrow> bool"
  assumes inv_start: "inv start"
    and inv_tick: "inv s \<Longrightarrow> env i s \<Longrightarrow> inv (tick i s)"
begin

lemma inv_run: "inv s \<Longrightarrow> allowed env tick is s \<Longrightarrow> inv (run_cycles tick is s)"
  by (induction "is" arbitrary: s) (auto intro: inv_tick)

lemma inv_reachable: "allowed env tick is start \<Longrightarrow> inv (run_cycles tick is start)"
  by (rule inv_run [OF inv_start])

end

locale fifo_view = clocked_machine +
  fixes waiting :: "'s \<Rightarrow> 'a list"
    and accepted :: "'i \<Rightarrow> 's \<Rightarrow> 'a list"
    and released :: "'i \<Rightarrow> 's \<Rightarrow> 'a list"
  assumes waiting_start: "waiting start = []"
    and waiting_tick:
      "inv s \<Longrightarrow> env i s \<Longrightarrow> released i s @ waiting (tick i s) = waiting s @ accepted i s"
begin

lemma fifo_run:
  "inv s \<Longrightarrow> allowed env tick is s \<Longrightarrow>
   collect released tick is s @ waiting (run_cycles tick is s) =
   waiting s @ collect accepted tick is s"
proof (induction "is" arbitrary: s)
  case (Cons i "is")
  then have "released i s @ waiting (tick i s) = waiting s @ accepted i s"
    and "inv (tick i s)"
    by (auto intro: waiting_tick inv_tick)
  with Cons show ?case by (metis allowed.simps(2) append.assoc collect.simps(2) run_cycles.simps(2))
qed simp

lemma released_in_order:
  "allowed env tick is start \<Longrightarrow>
   collect released tick is start @ waiting (run_cycles tick is start) =
   collect accepted tick is start"
  using fifo_run [OF inv_start] by (simp add: waiting_start)

end

text \<open>When the order is the component's choice: every item owed is paid once, and no other.\<close>

locale ledger_view = clocked_machine +
  fixes owed :: "'s \<Rightarrow> 'a multiset"
    and due :: "'i \<Rightarrow> 's \<Rightarrow> 'a list"
    and paid :: "'i \<Rightarrow> 's \<Rightarrow> 'a list"
  assumes owed_start: "owed start = {#}"
    and owed_tick:
      "inv s \<Longrightarrow> env i s \<Longrightarrow> mset (paid i s) + owed (tick i s) = owed s + mset (due i s)"
begin

lemma ledger_run:
  "inv s \<Longrightarrow> allowed env tick is s \<Longrightarrow>
   mset (collect paid tick is s) + owed (run_cycles tick is s) =
   owed s + mset (collect due tick is s)"
proof (induction "is" arbitrary: s)
  case (Cons i "is")
  then have "mset (paid i s) + owed (tick i s) = owed s + mset (due i s)"
    and "inv (tick i s)"
    by (auto intro: owed_tick inv_tick)
  with Cons show ?case
    by (metis (no_types, opaque_lifting) add.assoc allowed.simps(2) collect.simps(2) mset_append run_cycles.simps(2))
qed simp

lemma paid_once:
  "allowed env tick is start \<Longrightarrow>
   mset (collect paid tick is start) + owed (run_cycles tick is start) =
   mset (collect due tick is start)"
  using ledger_run [OF inv_start] by (simp add: owed_start)

end

end
