(* ===== verification/Compat.thy ===== *)
theory Compat
  imports Kit_Prelude
begin

text \<open>
  \<^verbatim>\<open>include/axi_interconnect_compat.h\<close>: the build parameters of the kit with the static
  assertions that bind them, and the wire carriers with their byte and bit access.

  A \<^verbatim>\<open>wire<N>\<close> with \<^verbatim>\<open>N <= 128\<close> is a built-in unsigned integer: here a word of the carrier's
  width, and the functions below are the integral branches of the source's templates. A wider
  wire is \<^verbatim>\<open>wide_bits<N>\<close>, an array of 64-bit lanes: here the list of the lanes, with its own
  byte access. The lemmas at the end show that the lanes implement the same byte access on the
  word they stand for, so that the components above can carry a 256-bit beat as a
  \<open>256 word\<close>.
\<close>

section \<open>Build parameters\<close>

text \<open>The macros of the header that the model depends on. The beat width
  (\<^verbatim>\<open>AXI_KIT_SIM_DDR_BEAT_BYTES\<close>) is 32, the value the 256-bit DDR port requires; \<open>DDR_BASE\<close> is
  the macro \<^verbatim>\<open>AXI_KIT_DDR_BASE\<close> with its default from \<^verbatim>\<open>AXI_Interconnect.cpp\<close>.\<close>

record kit_config =
  SIM_DDR_READ_LATENCY :: u32
  SIM_DDR_WRITE_RESP_LATENCY :: u32
  SIM_DDR_MAX_OUTSTANDING :: nat
  SIM_DDR_WRITE_QUEUE_DEPTH :: nat
  SIM_DDR_WRITE_ACCEPT_GAP :: nat
  SIM_DDR_WRITE_DATA_FIFO_DEPTH :: nat
  SIM_DDR_WRITE_DRAIN_GAP :: nat
  SIM_DDR_READ_TO_WRITE_TURNAROUND :: nat
  SIM_DDR_WRITE_TO_READ_TURNAROUND :: nat
  SIM_DDR_WRITE_DRAIN_HIGH_WATERMARK :: nat
  SIM_DDR_WRITE_DRAIN_LOW_WATERMARK :: nat
  AXI_ID_WIDTH :: nat
  LLC_DCACHE_READ_MISS_NOALLOC :: bool
  MAX_OUTSTANDING :: nat
  MAX_READ_OUTSTANDING_PER_MASTER :: nat
  MAX_WRITE_OUTSTANDING :: nat
  MAX_WRITE_TRANSACTION_BYTES :: nat
  UART_BASE :: u32
  MMIO_BASE :: u32
  MMIO_SIZE :: u32
  DDR_BASE :: u32

definition default_kit_config :: kit_config where
  "default_kit_config = \<lparr>
     SIM_DDR_READ_LATENCY = 50,
     SIM_DDR_WRITE_RESP_LATENCY = 1,
     SIM_DDR_MAX_OUTSTANDING = 8,
     SIM_DDR_WRITE_QUEUE_DEPTH = 8,
     SIM_DDR_WRITE_ACCEPT_GAP = 0,
     SIM_DDR_WRITE_DATA_FIFO_DEPTH = 8,
     SIM_DDR_WRITE_DRAIN_GAP = 0,
     SIM_DDR_READ_TO_WRITE_TURNAROUND = 0,
     SIM_DDR_WRITE_TO_READ_TURNAROUND = 0,
     SIM_DDR_WRITE_DRAIN_HIGH_WATERMARK = 8,
     SIM_DDR_WRITE_DRAIN_LOW_WATERMARK = 0,
     AXI_ID_WIDTH = 6,
     LLC_DCACHE_READ_MISS_NOALLOC = False,
     MAX_OUTSTANDING = 8,
     MAX_READ_OUTSTANDING_PER_MASTER = 4,
     MAX_WRITE_OUTSTANDING = 8,
     MAX_WRITE_TRANSACTION_BYTES = 64,
     UART_BASE = 0x10000000,
     MMIO_BASE = 0x10000000,
     MMIO_SIZE = 0x1000,
     DDR_BASE = 0\<rparr>"

text \<open>The static assertions: a build with other values does not compile.\<close>

definition kit_config_ok :: "kit_config \<Rightarrow> bool" where
  "kit_config_ok c \<longleftrightarrow>
     AXI_ID_WIDTH c > 0 \<and> AXI_ID_WIDTH c \<le> 7 \<and>
     MAX_OUTSTANDING c \<le> 2 ^ AXI_ID_WIDTH c \<and>
     SIM_DDR_WRITE_QUEUE_DEPTH c > 0 \<and>
     SIM_DDR_WRITE_DATA_FIFO_DEPTH c > 0 \<and>
     SIM_DDR_WRITE_DRAIN_HIGH_WATERMARK c > 0 \<and>
     SIM_DDR_WRITE_DRAIN_HIGH_WATERMARK c \<le> SIM_DDR_WRITE_DATA_FIFO_DEPTH c \<and>
     SIM_DDR_WRITE_DRAIN_LOW_WATERMARK c < SIM_DDR_WRITE_DRAIN_HIGH_WATERMARK c \<and>
     MAX_READ_OUTSTANDING_PER_MASTER c \<le> MAX_OUTSTANDING c \<and>
     MAX_WRITE_OUTSTANDING c \<le> 2 ^ AXI_ID_WIDTH c"

lemma default_kit_config_ok: "kit_config_ok default_kit_config"
  by (simp add: kit_config_ok_def default_kit_config_def)

section \<open>Byte and bit access of an integral carrier\<close>

definition get_byte :: "'a::len word \<Rightarrow> nat \<Rightarrow> u8" where
  "get_byte value byte_idx =
     (if byte_idx \<ge> LENGTH('a) div 8 then 0
      else ucast (drop_bit (byte_idx * 8) value AND 0xFF))"

definition set_byte :: "'a::len word \<Rightarrow> nat \<Rightarrow> u8 \<Rightarrow> 'a word" where
  "set_byte value byte_idx byte =
     (if byte_idx \<ge> LENGTH('a) div 8 then value
      else (value AND NOT (push_bit (byte_idx * 8) 0xFF)) OR push_bit (byte_idx * 8) (ucast byte))"

definition get_u32 :: "'a::len word \<Rightarrow> nat \<Rightarrow> u32" where
  "get_u32 value word_idx =
     fold (\<lambda>byte out. out OR push_bit (byte * 8) (ucast (get_byte value (word_idx * 4 + byte))))
       [0..<4] 0"

definition set_u32 :: "'a::len word \<Rightarrow> nat \<Rightarrow> u32 \<Rightarrow> 'a word" where
  "set_u32 value word_idx w =
     fold (\<lambda>byte v. set_byte v (word_idx * 4 + byte) (ucast (drop_bit (byte * 8) w AND 0xFF)))
       [0..<4] value"

definition test_bit :: "'a::len word \<Rightarrow> nat \<Rightarrow> bool" where
  "test_bit value bit_idx =
     (drop_bit (bit_idx mod 8) (get_byte value (bit_idx div 8)) AND 1 \<noteq> 0)"

definition set_bit :: "'a::len word \<Rightarrow> nat \<Rightarrow> bool \<Rightarrow> 'a word" where
  "set_bit value bit_idx enabled =
     (let byte_idx = bit_idx div 8;
          byte = get_byte value byte_idx;
          m = (push_bit (bit_idx mod 8) 1 :: u8)
      in set_byte value byte_idx (if enabled then byte OR m else byte AND NOT m))"

definition low_u32 :: "'a::len word \<Rightarrow> u32" where
  "low_u32 value = get_u32 value 0"

definition low_u64 :: "'a::len word \<Rightarrow> u64" where
  "low_u64 value =
     fold (\<lambda>byte out. out OR push_bit (byte * 8) (ucast (get_byte value byte))) [0..<8] 0"

definition hex_digit :: "u8 \<Rightarrow> char" where
  "hex_digit n = ''0123456789abcdef'' ! unat n"

definition hex_string :: "'a::len word \<Rightarrow> nat \<Rightarrow> string" where
  "hex_string value byte_count =
     ''0x'' @ concat (map (\<lambda>idx. let byte = get_byte value idx
                                in [hex_digit (drop_bit 4 byte), hex_digit (byte AND 0x0F)])
                        (rev [0..<byte_count]))"

section \<open>The lanes of a wide wire\<close>

definition wide_lane_count :: "nat \<Rightarrow> nat" where
  "wide_lane_count bits = (bits + 63) div 64"

definition wide_trim :: "nat \<Rightarrow> u64 list \<Rightarrow> u64 list" where
  "wide_trim bits lanes =
     (if bits mod 64 \<noteq> 0
      then lanes[wide_lane_count bits - 1 :=
                   lanes ! (wide_lane_count bits - 1) AND (push_bit (bits mod 64) 1 - 1)]
      else lanes)"

definition wide_clear :: "nat \<Rightarrow> u64 list" where
  "wide_clear bits = replicate (wide_lane_count bits) 0"

definition wide_assign :: "nat \<Rightarrow> 128 word \<Rightarrow> u64 list" where
  "wide_assign bits value =
     (let lanes = (wide_clear bits)[0 := ucast value]
      in wide_trim bits
           (if wide_lane_count bits > 1 then lanes[1 := ucast (drop_bit 64 value)] else lanes))"

definition wide_or :: "nat \<Rightarrow> u64 list \<Rightarrow> u64 list \<Rightarrow> u64 list" where
  "wide_or bits xs ys = wide_trim bits (map2 (OR) xs ys)"

definition wide_get_byte :: "nat \<Rightarrow> u64 list \<Rightarrow> nat \<Rightarrow> u8" where
  "wide_get_byte bits lanes byte_idx =
     (let lane_idx = byte_idx div 8 in
      if lane_idx \<ge> wide_lane_count bits then 0
      else ucast (drop_bit ((byte_idx mod 8) * 8) (lanes ! lane_idx) AND 0xFF))"

definition wide_set_byte :: "nat \<Rightarrow> u64 list \<Rightarrow> nat \<Rightarrow> u8 \<Rightarrow> u64 list" where
  "wide_set_byte bits lanes byte_idx byte =
     (let lane_idx = byte_idx div 8 in
      if lane_idx \<ge> wide_lane_count bits then lanes
      else let shift = (byte_idx mod 8) * 8;
               cleared = lanes ! lane_idx AND NOT (push_bit shift 0xFF)
           in wide_trim bits (lanes[lane_idx := cleared OR push_bit shift (ucast byte)]))"

text \<open>The word a list of lanes stands for, lane 0 lowest.\<close>

primrec wide_word :: "u64 list \<Rightarrow> 'a::len word" where
  "wide_word [] = 0"
| "wide_word (l # ls) = ucast l OR push_bit 64 (wide_word ls)"

section \<open>Byte access, bit by bit\<close>

lemma ff_mask: "(0xFF :: 'a::len word) = mask 8"
  by (simp add: mask_eq_exp_minus_1)

lemma bit_get_byte [kit_bytes]:
  "bit (get_byte (v :: 'a::len word) i) n \<longleftrightarrow> i < LENGTH('a) div 8 \<and> n < 8 \<and> bit v (8 * i + n)"
  unfolding get_byte_def ff_mask
  by (auto simp add: bit_simps not_le mult.commute)

lemma bit_set_byte [kit_bytes]:
  "bit (set_byte (v :: 'a::len word) i b) n \<longleftrightarrow>
     (if i < LENGTH('a) div 8 \<and> 8 * i \<le> n \<and> n < 8 * i + 8 then bit b (n - 8 * i) else bit v n)"
  unfolding set_byte_def ff_mask
  by (auto simp add: bit_simps not_le mult.commute dest: bit_imp_le_length)

lemma get_set_byte [kit_bytes]:
  "get_byte (set_byte (v :: 'a::len word) i b) j =
     (if i = j \<and> i < LENGTH('a) div 8 then b else get_byte v j)"
proof (cases "i = j \<and> i < LENGTH('a) div 8")
  case True
  then show ?thesis by (intro bit_word_eqI) (auto simp: kit_bytes)
next
  case False
  have "8 * i \<le> 8 * j + n \<Longrightarrow> 8 * j + n < 8 * i + 8 \<Longrightarrow> n < 8 \<Longrightarrow> i = j" for n
    by linarith
  with False show ?thesis by (intro bit_word_eqI) (auto simp: kit_bytes)
qed

lemma get_byte_0 [simp]: "get_byte 0 i = 0"
  by (intro bit_word_eqI) (simp add: kit_bytes)

lemma word_eq_bytesI:
  fixes v w :: "'a::len word"
  assumes "8 dvd LENGTH('a)" and "\<And>i. i < LENGTH('a) div 8 \<Longrightarrow> get_byte v i = get_byte w i"
  shows "v = w"
proof (rule bit_word_eqI)
  fix n assume n: "n < LENGTH('a)"
  let ?i = "n div 8"
  from assms(1) n have i: "?i < LENGTH('a) div 8" by (metis less_mult_imp_div_less dvd_div_mult_self)
  have "bit (get_byte v ?i) (n mod 8) = bit (get_byte w ?i) (n mod 8)" using assms(2) [OF i] by simp
  with i show "bit v n = bit w n" by (simp add: kit_bytes)
qed

lemma test_bit_iff:
  assumes "8 dvd LENGTH('a)"
  shows "test_bit (v :: 'a::len word) i \<longleftrightarrow> bit v i"
proof -
  have "test_bit v i \<longleftrightarrow> bit (get_byte v (i div 8)) (i mod 8)"
    by (simp add: test_bit_def and_one_eq bit_iff_odd_drop_bit odd_iff_mod_2_eq_one) 
  also have "\<dots> \<longleftrightarrow> bit v i"
  proof (cases "i < LENGTH('a)")
    case True
    with assms have "i div 8 < LENGTH('a) div 8"
      by (metis less_mult_imp_div_less dvd_div_mult_self)
    then show ?thesis by (simp add: kit_bytes)
  next
    case False
    then show ?thesis by (auto simp: kit_bytes dest: bit_imp_le_length)
  qed
  finally show ?thesis .
qed

lemma bit_wide_word [kit_bytes]:
  "bit (wide_word ls :: 'a::len word) n \<longleftrightarrow>
     n < LENGTH('a) \<and> n div 64 < length ls \<and> bit (ls ! (n div 64)) (n mod 64)"
proof (induction ls arbitrary: n)
  case (Cons l ls)
  show ?case
  proof (cases "n < 64")
    case True
    then show ?thesis by (auto simp: bit_simps)
  next
    case False
    then have "n div 64 = Suc ((n - 64) div 64)" and "n mod 64 = (n - 64) mod 64"
      by (simp_all add: le_div_geq le_mod_geq)
    with False show ?thesis 
      by (auto simp: bit_simps Cons.IH dest: bit_imp_le_length)
  qed
qed simp
definition wide_ok :: "nat \<Rightarrow> u64 list \<Rightarrow> bool" where
  "wide_ok bits lanes \<longleftrightarrow> length lanes = wide_lane_count bits \<and> wide_trim bits lanes = lanes"

lemma length_wide_trim [simp]: "length (wide_trim bits ls) = length ls"
  by (simp add: wide_trim_def)

lemma push_bit_1_minus_1: "(push_bit k 1 - 1 :: 'a::len word) = mask k"
  by (simp add: mask_eq_exp_minus_1 push_bit_eq_mult)

lemma byte_lane:
  fixes n i :: nat
  assumes "n < 8"
  shows "(8 * i + n) div 64 = i div 8" and "(8 * i + n) mod 64 = 8 * (i mod 8) + n"
proof -
  obtain q r where i: "i = 8 * q + r" and r: "r < 8"
    by (metis mult_div_mod_eq mod_less_divisor zero_less_numeral)
  have e: "8 * i + n = 64 * q + (8 * r + n)" by (simp add: i)
  have lt: "8 * r + n < 64" using assms r by linarith
  show "(8 * i + n) div 64 = i div 8" unfolding e using lt r by (simp add: i)
  show "(8 * i + n) mod 64 = 8 * (i mod 8) + n" unfolding e using lt r by (simp add: i)
qed

lemma lane_count_split:
  assumes "bits = 64 * q + r" and "0 < r" and "r < 64"
  shows "wide_lane_count bits = Suc q"
proof -
  have "wide_lane_count bits = q + (r + 63) div 64"
    unfolding wide_lane_count_def assms(1) by (simp add: add.assoc)
  moreover have "(r + 63) div 64 = 1" using assms(2,3) by (intro div_nat_eqI) auto
  ultimately show ?thesis by simp
qed

lemma lane_count_covers: "bits \<le> 64 * wide_lane_count bits"
proof -
  obtain q r where i: "bits = 64 * q + r" and r: "r < 64"
    by (metis mult_div_mod_eq mod_less_divisor zero_less_numeral)
  then show ?thesis using lane_count_split [OF i _ r]
    by (cases "r = 0") (auto simp: wide_lane_count_def)
qed

lemma byte_in_lane_count:
  assumes "i < bits div 8" shows "i div 8 < wide_lane_count bits"
proof -
  have "8 * i < bits" using assms by linarith
  also have "\<dots> \<le> 64 * wide_lane_count bits" by (rule lane_count_covers)
  finally show ?thesis by (simp add: less_mult_imp_div_less)
qed

lemma pow2_minus_1: "(2 ^ k - 1 :: 'a::len word) = mask k"
  by (simp add: mask_eq_exp_minus_1)

lemma bit_wide_trim:
  assumes len: "length ls = wide_lane_count bits" and i: "i < length ls"
  shows "bit (wide_trim bits ls ! i) n \<longleftrightarrow> bit (ls ! i) n \<and> 64 * i + n < bits"
proof -
  obtain q r where b: "bits = 64 * q + r" and r: "r < 64"
    by (metis mult_div_mod_eq mod_less_divisor zero_less_numeral)
  have n: "n < 64" if "bit (ls ! i) n" using that bit_imp_le_length [of "ls ! i" n] by simp
  show ?thesis
  proof (cases "r = 0")
    case True
    with b len have "length ls = q" by (simp add: wide_lane_count_def)
    with i n True b show ?thesis by (auto simp: wide_trim_def)
  next
    case False
    with b r len have l: "length ls = Suc q" using lane_count_split [OF b] by simp
    have m: "bits mod 64 = r" using b r by simp
    show ?thesis
    proof (cases "i = q")
      case True
      with False m l len n b show ?thesis
        by (auto simp: wide_trim_def pow2_minus_1 bit_simps)
    next
      case nq: False
      with i l have "i < q" by simp
      with nq False m l len n b show ?thesis by (auto simp: wide_trim_def)
    qed
  qed
qed

lemma wide_word_trim:
  assumes "length ls = wide_lane_count LENGTH('a)"
  shows "wide_word (wide_trim LENGTH('a) ls) = (wide_word ls :: 'a::len word)"
  by (intro bit_word_eqI) (use assms in \<open>auto simp: kit_bytes bit_wide_trim\<close>)

text \<open>A byte of the wide word is a byte of one lane.\<close>

lemma get_byte_wide_word:
  assumes "length ls = wide_lane_count LENGTH('a)" and i: "i < LENGTH('a) div 8"
  shows "get_byte (wide_word ls :: 'a::len word) i = get_byte (ls ! (i div 8)) (i mod 8)"
proof (rule bit_word_eqI)
  fix n assume "n < LENGTH(8)"
  then have n: "n < 8" by simp
  have "8 * i + n < LENGTH('a)" using i n by linarith
  with n i byte_in_lane_count [OF i] byte_lane [OF n, of i] assms
  show "bit (get_byte (wide_word ls :: 'a word) i) n = bit (get_byte (ls ! (i div 8)) (i mod 8)) n"
    by (simp add: kit_bytes)
qed

lemma wide_get_byte_lane:
  "wide_get_byte bits ls i =
     (if i div 8 < wide_lane_count bits then get_byte (ls ! (i div 8)) (i mod 8) else 0)"
  using mod_less_divisor [of 8 i] by (auto simp: wide_get_byte_def get_byte_def Let_def not_le)

lemma wide_set_byte_lane:
  "wide_set_byte bits ls i b =
     (if i div 8 < wide_lane_count bits
      then wide_trim bits (ls[i div 8 := set_byte (ls ! (i div 8)) (i mod 8) b]) else ls)"
  using mod_less_divisor [of 8 i] by (auto simp: wide_set_byte_def set_byte_def Let_def not_le)

lemma wide_set_byte_refines:
  fixes ls :: "u64 list" and b :: u8
  assumes len: "length ls = wide_lane_count LENGTH('a)" and w: "8 dvd LENGTH('a)"
  shows "wide_word (wide_set_byte LENGTH('a) ls i b) = set_byte (wide_word ls :: 'a::len word) i b"
proof (cases "i < LENGTH('a) div 8")
  case True
  let ?L = "ls[i div 8 := set_byte (ls ! (i div 8)) (i mod 8) b]"
  have "get_byte (wide_word ?L :: 'a word) j = get_byte (set_byte (wide_word ls :: 'a word) i b) j"
    if j: "j < LENGTH('a) div 8" for j
  proof -
    have "i = j \<longleftrightarrow> i div 8 = j div 8 \<and> i mod 8 = j mod 8" by (metis mult_div_mod_eq)
    with j True len byte_in_lane_count [OF True] show ?thesis
      by (auto simp: get_byte_wide_word nth_list_update get_set_byte)
  qed
  then have "(wide_word ?L :: 'a word) = set_byte (wide_word ls) i b"
    by (rule word_eq_bytesI [OF w])
  with byte_in_lane_count [OF True] len wide_word_trim [where 'a = 'a, of ?L] show ?thesis
    by (simp add: wide_set_byte_lane)
next
  case False
  with w have above: "LENGTH('a) \<le> 8 * i" by (auto elim: dvdE)
  have "bit (wide_word (ls[i div 8 := set_byte (ls ! (i div 8)) (i mod 8) b]) :: 'a word) n =
        bit (wide_word ls :: 'a word) n" if n: "n < LENGTH('a)" for n
  proof -
    have "n div 64 = i div 8 \<Longrightarrow> \<not> 8 * (i mod 8) \<le> n mod 64"
      using above n mult_div_mod_eq [of 64 n] mult_div_mod_eq [of 8 i] by linarith
    with n len show ?thesis
      by (cases "n div 64 = i div 8") (auto simp: kit_bytes)
  qed
  then have "(wide_word (ls[i div 8 := set_byte (ls ! (i div 8)) (i mod 8) b]) :: 'a word) = wide_word ls"
    by (rule bit_word_eqI)
  with False len wide_word_trim [where 'a = 'a, of "ls[i div 8 := set_byte (ls ! (i div 8)) (i mod 8) b]"]
  show ?thesis by (simp add: set_byte_def wide_set_byte_lane)
qed

lemma wide_get_byte_refines:
  fixes ls :: "u64 list"
  assumes ok: "wide_ok LENGTH('a) ls" and w: "8 dvd LENGTH('a)"
  shows "wide_get_byte LENGTH('a) ls i = get_byte (wide_word ls :: 'a::len word) i"
proof (cases "i < LENGTH('a) div 8")
  case True
  with ok byte_in_lane_count [OF True] show ?thesis
    by (simp add: wide_get_byte_lane get_byte_wide_word wide_ok_def)
next
  case False
  with w have above: "LENGTH('a) \<le> 8 * i" by (auto elim: dvdE)
  have "\<not> bit (get_byte (ls ! (i div 8)) (i mod 8)) n"
    if lane: "i div 8 < wide_lane_count LENGTH('a)" for n
  proof (cases "n < 8")
    case n: True
    have "\<not> 64 * (i div 8) + (8 * (i mod 8) + n) < LENGTH('a)"
      using above mult_div_mod_eq [of 8 i] by linarith
    then have "\<not> bit (ls ! (i div 8)) (8 * (i mod 8) + n)"
      using bit_wide_trim [of ls "LENGTH('a)" "i div 8" "8 * (i mod 8) + n"] ok lane
      by (auto simp: wide_ok_def)
    then show ?thesis by (simp add: kit_bytes)
  qed (simp add: kit_bytes)
  with False show ?thesis
    by (auto simp: wide_get_byte_lane get_byte_def intro!: bit_word_eqI)
qed

lemma wide_set_byte_ok:
  assumes "wide_ok bits ls" shows "wide_ok bits (wide_set_byte bits ls i b)"
proof -
  have tt: "wide_trim bits (wide_trim bits xs) = wide_trim bits xs"
    if "length xs = wide_lane_count bits" for xs
    using that by (auto intro!: nth_equalityI bit_word_eqI simp: bit_wide_trim)
  from assms show ?thesis
    by (auto simp: wide_ok_def wide_set_byte_lane tt)
qed


lemma upt_4: "[0..<4] = [0, 1, 2, 3 :: nat]" by (simp add: upt_rec)

lemma get_u32_byte:
  assumes "b < 4" shows "get_byte (get_u32 v w) b = get_byte v (w * 4 + b)"
proof (rule bit_word_eqI)
  fix n assume "n < LENGTH(8)"
  then have n: "n < 8" by simp
  from assms have "b = 0 \<or> b = 1 \<or> b = 2 \<or> b = 3" by linarith
  with n show "bit (get_byte (get_u32 v w) b) n = bit (get_byte v (w * 4 + b)) n"
    by (elim disjE) (auto simp: get_u32_def upt_4 bit_get_byte bit_simps)
qed

lemma set_u32_byte:
  "get_byte (set_u32 (v :: 'a::len word) w x) i =
     (if w * 4 \<le> i \<and> i < w * 4 + 4 \<and> i < LENGTH('a) div 8 then get_byte x (i - w * 4) else get_byte v i)"
proof -
  have b: "ucast (drop_bit (b * 8) x AND 0xFF) = get_byte x b" if "b < 4" for b
    using that by (simp add: get_byte_def)
  have "set_u32 v w x =
      set_byte (set_byte (set_byte (set_byte v (w * 4) (get_byte x 0)) (w * 4 + 1) (get_byte x 1))
        (w * 4 + 2) (get_byte x 2)) (w * 4 + 3) (get_byte x 3)"
    using b [of 0] b [of 1] b [of 2] b [of 3] by (simp add: set_u32_def upt_4)
  moreover have "w * 4 \<le> i \<Longrightarrow> i < w * 4 + 4 \<Longrightarrow>
      i = w * 4 \<or> i = w * 4 + 1 \<or> i = w * 4 + 2 \<or> i = w * 4 + 3" by linarith
  ultimately show ?thesis by (auto simp: get_set_byte)
qed

lemma get_set_u32:
  fixes v :: "'a::len word"
  assumes "w * 4 + 4 \<le> LENGTH('a) div 8"
  shows "get_u32 (set_u32 v w x) w' = (if w = w' then x else get_u32 v w')"
proof (rule word_eq_bytesI)
  fix b assume "b < LENGTH(32) div 8"
  then have b: "b < 4" by simp
  have "w * 4 \<le> w' * 4 + b \<Longrightarrow> w' * 4 + b < w * 4 + 4 \<Longrightarrow> w = w'" using b by linarith
  with b assms show "get_byte (get_u32 (set_u32 v w x) w') b =
      get_byte (if w = w' then x else get_u32 v w') b"
    by (auto simp: get_u32_byte set_u32_byte)
qed simp

section \<open>What the carriers promise\<close>

text \<open>the 64-bit lanes of a wide wire implement the byte access of the word they stand for.
  Reading a byte from well-formed lanes reads it from the word, writing one writes it to the
  word, and the written lanes are well-formed again.\<close>

theorem wide_lanes_refine_word:
  fixes ls :: "u64 list"
  assumes "wide_ok LENGTH('a::len) ls" and "8 dvd LENGTH('a)"
  shows "wide_get_byte LENGTH('a) ls i = get_byte (wide_word ls :: 'a word) i \<and>
    wide_word (wide_set_byte LENGTH('a) ls i b) = set_byte (wide_word ls :: 'a word) i b \<and>
    wide_ok LENGTH('a) (wide_set_byte LENGTH('a) ls i b)"
proof (intro conjI)
  show "wide_word (wide_set_byte LENGTH('a) ls i b) = set_byte (wide_word ls :: 'a word) i b"
    using assms by (intro wide_set_byte_refines) (simp_all add: wide_ok_def)
qed (use assms in \<open>simp_all add: wide_get_byte_refines wide_set_byte_ok\<close>)

theorem wide_lanes_refine_word_witness:
  "wide_get_byte LENGTH(256) [0x1122334455667788, 0, 0, 0x99] 24 =
     get_byte (wide_word [0x1122334455667788, 0, 0, 0x99] :: 256 word) 24 \<and>
   wide_word (wide_set_byte LENGTH(256) [0x1122334455667788, 0, 0, 0x99] 24 0xAB) =
     set_byte (wide_word [0x1122334455667788, 0, 0, 0x99] :: 256 word) 24 0xAB \<and>
   wide_ok LENGTH(256) (wide_set_byte LENGTH(256) [0x1122334455667788, 0, 0, 0x99] 24 0xAB)"
  by (rule wide_lanes_refine_word) (simp_all add: wide_ok_def wide_trim_def wide_lane_count_def)

text \<open>32-bit words are stored in a wide value independently: reading the word just written
  returns it, and every other word is what it was.\<close>

theorem u32_word_round_trip:
  fixes v :: "'a::len word"
  assumes "w * 4 + 4 \<le> LENGTH('a) div 8"
  shows "get_u32 (set_u32 v w x) w = x \<and> (w' \<noteq> w \<longrightarrow> get_u32 (set_u32 v w x) w' = get_u32 v w')"
  using assms by (simp add: get_set_u32)

theorem u32_word_round_trip_witness:
  "get_u32 (set_u32 (0x5 :: 256 word) 7 0xDEADBEEF) 7 = 0xDEADBEEF \<and>
   get_u32 (set_u32 (0x5 :: 256 word) 7 0xDEADBEEF) 0 = get_u32 (0x5 :: 256 word) 0"
  using u32_word_round_trip [of 7 "0x5 :: 256 word" "0xDEADBEEF" 0] by simp

end
