(* ===== verification/Axi4_IO.thy ===== *)
theory Axi4_IO
  imports Compat
begin

text \<open>
  \<^verbatim>\<open>sim_ddr/include/SimDDR_IO.h\<close>: the five AXI4 channels of one port, each with its handshake
  pair. The narrow wires (\<^verbatim>\<open>wire<2>\<close>, \<^verbatim>\<open>wire<3>\<close>, \<^verbatim>\<open>wire<8>\<close>) have an 8-bit carrier, the
  256-bit data beat is a \<open>256 word\<close> and its 32 strobe bits a \<open>32 word\<close>.
\<close>

type_synonym axi_data = "256 word"
type_synonym axi_strb = "32 word"

definition AXI_DATA_BYTES :: nat where "AXI_DATA_BYTES = 32"
definition AXI_SIZE_CODE :: u8 where "AXI_SIZE_CODE = 5"

definition AXI_BURST_FIXED :: u8 where "AXI_BURST_FIXED = 0"
definition AXI_BURST_INCR :: u8 where "AXI_BURST_INCR = 1"
definition AXI_BURST_WRAP :: u8 where "AXI_BURST_WRAP = 2"

definition AXI_RESP_OKAY :: u8 where "AXI_RESP_OKAY = 0"
definition AXI_RESP_EXOKAY :: u8 where "AXI_RESP_EXOKAY = 1"
definition AXI_RESP_SLVERR :: u8 where "AXI_RESP_SLVERR = 2"
definition AXI_RESP_DECERR :: u8 where "AXI_RESP_DECERR = 3"

record axi4_aw =
  awvalid :: bool
  awready :: bool
  awid :: u8
  awaddr :: u32
  awlen :: u8
  awsize :: u8
  awburst :: u8

record axi4_w =
  wvalid :: bool
  wready :: bool
  wdata :: axi_data
  wstrb :: axi_strb
  wlast :: bool

record axi4_b =
  bvalid :: bool
  bready :: bool
  bid :: u8
  bresp :: u8

record axi4_ar =
  arvalid :: bool
  arready :: bool
  arid :: u8
  araddr :: u32
  arlen :: u8
  arsize :: u8
  arburst :: u8

record axi4_r =
  rvalid :: bool
  rready :: bool
  rid :: u8
  rdata :: axi_data
  rresp :: u8
  rlast :: bool

record axi_io =
  io_aw :: axi4_aw
  io_w :: axi4_w
  io_b :: axi4_b
  io_ar :: axi4_ar
  io_r :: axi4_r

text \<open>All wires low, the value-initialised \<^verbatim>\<open>SimDDR_IO_t{}\<close>.\<close>

definition axi_io_zero :: axi_io where
  "axi_io_zero = \<lparr>
     io_aw = \<lparr>awvalid = False, awready = False, awid = 0, awaddr = 0, awlen = 0, awsize = 0, awburst = 0\<rparr>,
     io_w = \<lparr>wvalid = False, wready = False, wdata = 0, wstrb = 0, wlast = False\<rparr>,
     io_b = \<lparr>bvalid = False, bready = False, bid = 0, bresp = 0\<rparr>,
     io_ar = \<lparr>arvalid = False, arready = False, arid = 0, araddr = 0, arlen = 0, arsize = 0, arburst = 0\<rparr>,
     io_r = \<lparr>rvalid = False, rready = False, rid = 0, rdata = 0, rresp = 0, rlast = False\<rparr>\<rparr>"

text \<open>
  The wires a slave sees are driven from two sides. \<open>connect_master m io\<close> puts the
  master-driven wires of \<open>m\<close> on the port \<open>io\<close> and leaves the slave-driven ones: the
  environment of a slave in one clock cycle.
\<close>

definition connect_master :: "axi_io \<Rightarrow> axi_io \<Rightarrow> axi_io" where
  "connect_master m io = io\<lparr>
     io_aw := (io_aw m)\<lparr>awready := awready (io_aw io)\<rparr>,
     io_w := (io_w m)\<lparr>wready := wready (io_w io)\<rparr>,
     io_b := (io_b io)\<lparr>bready := bready (io_b m)\<rparr>,
     io_ar := (io_ar m)\<lparr>arready := arready (io_ar io)\<rparr>,
     io_r := (io_r io)\<lparr>rready := rready (io_r m)\<rparr>\<rparr>"

definition aw_fires :: "axi_io \<Rightarrow> bool" where
  "aw_fires io \<longleftrightarrow> awvalid (io_aw io) \<and> awready (io_aw io)"
definition w_fires :: "axi_io \<Rightarrow> bool" where
  "w_fires io \<longleftrightarrow> wvalid (io_w io) \<and> wready (io_w io)"
definition b_fires :: "axi_io \<Rightarrow> bool" where
  "b_fires io \<longleftrightarrow> bvalid (io_b io) \<and> bready (io_b io)"
definition ar_fires :: "axi_io \<Rightarrow> bool" where
  "ar_fires io \<longleftrightarrow> arvalid (io_ar io) \<and> arready (io_ar io)"
definition r_fires :: "axi_io \<Rightarrow> bool" where
  "r_fires io \<longleftrightarrow> rvalid (io_r io) \<and> rready (io_r io)"

lemmas fires_defs = aw_fires_def w_fires_def b_fires_def ar_fires_def r_fires_def

end
