(* ===== verification/Phys_Mem.thy ===== *)
theory Phys_Mem
  imports Compat
begin

text \<open>
  \<^verbatim>\<open>include/PhysMemory.h\<close>, the standalone branch: the backing RAM is an array of 32-bit words
  reached through the pointer \<^verbatim>\<open>p_memory\<close>. Here it is \<open>None\<close> for a null pointer and otherwise
  a function from the word index. The RAM window starts at \<open>PMEM_RAM_BASE\<close>; an address
  below it is used as an offset as it is, so the two halves of the address space alias. The
  array's length is not known to this code, which never checks an index against it.

  The contract the DDR model relies on, a byte store in which a read returns the last byte
  written at an address of the same cell, is the locale \<open>byte_store\<close>; the interpretation at
  the end discharges it for the word array with its read-modify-write.
\<close>

type_synonym pmem = "(u32 \<Rightarrow> u32) option"

definition PMEM_RAM_BASE :: u32 where "PMEM_RAM_BASE = 0x80000000"

definition axi_kit_pmem_offset :: "u32 \<Rightarrow> u32" where
  "axi_kit_pmem_offset paddr = (if paddr \<ge> PMEM_RAM_BASE then paddr - PMEM_RAM_BASE else paddr)"

definition pmem_word_index :: "u32 \<Rightarrow> u32" where
  "pmem_word_index paddr = drop_bit 2 (axi_kit_pmem_offset paddr AND NOT 3)"

definition pmem_read :: "pmem \<Rightarrow> u32 \<Rightarrow> u32" where
  "pmem_read m paddr = (case m of None \<Rightarrow> 0 | Some ram \<Rightarrow> ram (pmem_word_index paddr))"

definition pmem_write :: "pmem \<Rightarrow> u32 \<Rightarrow> u32 \<Rightarrow> pmem" where
  "pmem_write m paddr data =
     (case m of None \<Rightarrow> None | Some ram \<Rightarrow> Some (ram(pmem_word_index paddr := data)))"

section \<open>The byte store contract\<close>

locale byte_store =
  fixes load :: "'m \<Rightarrow> u32 \<Rightarrow> u8"
    and store :: "'m \<Rightarrow> u32 \<Rightarrow> u8 \<Rightarrow> 'm"
    and cell :: "u32 \<Rightarrow> u32"
    and present :: "'m \<Rightarrow> bool"
  assumes load_store:
      "present m \<Longrightarrow> load (store m a b) a' = (if cell a = cell a' then b else load m a')"
    and present_store: "present m \<Longrightarrow> present (store m a b)"
    and cells_apart:
      "i < 2 ^ 31 \<Longrightarrow> j < 2 ^ 31 \<Longrightarrow> cell (a + of_nat i) = cell (a + of_nat j) \<Longrightarrow> i = j"
begin

text \<open>Storing the enabled bytes of a beat at consecutive addresses.\<close>

lemma present_beat:
  "present m \<Longrightarrow>
   present (fold (\<lambda>i m. if en i then store m (a + of_nat i) (d i) else m) is m)"
  by (induction "is" arbitrary: m) (auto simp: present_store)

lemma load_after_beat:
  assumes "present m" and "n \<le> 2 ^ 31"
  shows "load (fold (\<lambda>i m. if en i then store m (a + of_nat i) (d i) else m) [0..<n] m) a' =
     (case find (\<lambda>i. en i \<and> cell (a + of_nat i) = cell a') [0..<n] of
        None \<Rightarrow> load m a' | Some i \<Rightarrow> d i)"
  using assms
proof (induction n)
  case (Suc n)
  let ?hit = "\<lambda>i. en i \<and> cell (a + of_nat i) = cell a'"
  let ?f = "fold (\<lambda>i m. if en i then store m (a + of_nat i) (d i) else m)"
  have pn: "present (?f [0..<n] m)" using Suc.prems present_beat by blast
  have apart: "i = n" if "i < n" "?hit i" "?hit n" for i
    using that Suc.prems(2) by (intro cells_apart [of i n a]) auto
  have IH: "load (?f [0..<n] m) a' =
      (case find ?hit [0..<n] of None \<Rightarrow> load m a' | Some i \<Rightarrow> d i)"
    using Suc by auto
  have fnd: "find ?hit ([0..<n] @ [n]) =
      (case find ?hit [0..<n] of None \<Rightarrow> (if ?hit n then Some n else None) | Some i \<Rightarrow> Some i)"
    by (simp add: find_append split: option.split)
  have hitn: "find ?hit [0..<n] = None" if "?hit n"
    using apart that by (auto simp: find_None_iff)
  show ?case
    using IH pn hitn fnd by (auto simp: load_store split: option.splits)
qed simp

corollary load_own_byte:
  assumes "present m" and "n \<le> 2 ^ 31" and "i < n" and "en i"
  shows "load (fold (\<lambda>i m. if en i then store m (a + of_nat i) (d i) else m) [0..<n] m)
           (a + of_nat i) = d i"
proof -
  have "find (\<lambda>j. en j \<and> cell (a + of_nat j) = cell (a + of_nat i)) [0..<n] = Some i"
  proof (rule find_Some_iff [THEN iffD2], intro exI [of _ i] conjI)
    show "\<forall>j<i. \<not> (en ([0..<n] ! j) \<and> cell (a + of_nat ([0..<n] ! j)) = cell (a + of_nat i))"
    proof (intro allI impI notI)
      fix j assume "j < i" "en ([0..<n] ! j) \<and> cell (a + of_nat ([0..<n] ! j)) = cell (a + of_nat i)"
      with assms cells_apart [of j i a] show False by simp
    qed
  qed (use assms in auto)
  with assms show ?thesis by (simp add: load_after_beat)
qed

end

end
