(* ===== verification/Sim_DDR.thy ===== *)
theory Sim_DDR
  imports Axi4_IO Phys_Mem
begin

text \<open>
  \<^verbatim>\<open>sim_ddr/SimDDR.cpp\<close> and \<^verbatim>\<open>sim_ddr/include/SimDDR.h\<close>: the DDR model behind one AXI4 port.

  The class is the record \<open>sim_ddr\<close>, its queues are lists with the front first, the vector of
  read transactions is a list, and an index that is -1 when absent is an option. Cooldown
  counters are only loaded from constants and counted down, so they are naturals; the
  latency counters count up at their 32-bit width. \<open>ddr_comb_outputs\<close> is phase 1 of a clock cycle,
  \<open>ddr_seq\<close> the clock edge, one definition per section of \<^verbatim>\<open>seq()\<close>, in its order.
  Debug printing (\<^verbatim>\<open>focus_write_line\<close>, \<^verbatim>\<open>print_state\<close>, \<^verbatim>\<open>DCACHE_LOG\<close>) is left out.
\<close>

section \<open>State\<close>

record write_txn =
  wt_addr :: u32
  wt_id :: u8
  wt_len :: u8
  wt_size :: u8
  wt_burst :: u8
  beats_accepted :: u16
  beats_drained :: u16
  data_done :: bool

record write_resp_pending =
  wr_id :: u8
  wr_addr :: u32
  wr_latency_cnt :: u32

record write_beat_pending =
  wb_addr :: u32
  wb_data :: axi_data
  wb_strb :: axi_strb

record read_txn =
  rt_addr :: u32
  rt_id :: u8
  rt_len :: u8
  rt_size :: u8
  rt_burst :: u8
  rt_beat_cnt :: u8
  rt_latency_cnt :: u32
  rt_in_data_phase :: bool
  rt_complete :: bool

datatype backend_mode = ServiceNone | ServiceRead | ServiceWrite

record sim_ddr =
  ddr_io :: axi_io
  p_memory :: pmem
  w_active :: bool
  w_current :: write_txn
  w_pending :: "write_txn list"
  w_data_fifo :: "write_beat_pending list"
  w_accept_cooldown :: nat
  w_drain_cooldown :: nat
  w_drain_mode :: bool
  w_resp_queue :: "write_resp_pending list"
  r_transactions :: "read_txn list"
  r_rr_index :: nat
  r_selected_idx :: "nat option"
  r_active_idx :: "nat option"
  backend_last_service_mode :: backend_mode
  backend_turnaround_cooldown :: nat
  backend_read_grant :: bool
  backend_write_grant :: bool
  backend_switch_pending :: bool
  backend_any_request_pending :: bool
  backend_switch_target_mode :: backend_mode

definition write_txn_zero :: write_txn where
  "write_txn_zero = \<lparr>wt_addr = 0, wt_id = 0, wt_len = 0, wt_size = 0, wt_burst = 0,
     beats_accepted = 0, beats_drained = 0, data_done = False\<rparr>"

text \<open>\<^verbatim>\<open>init()\<close> clears the state and the slave-driven wires; the master's wires and the backing
  memory keep what they hold.\<close>

definition ddr_init :: "sim_ddr \<Rightarrow> sim_ddr" where
  "ddr_init s = s\<lparr>
     w_active := False,
     w_current := write_txn_zero,
     w_pending := [],
     w_data_fifo := [],
     w_accept_cooldown := 0,
     w_drain_cooldown := 0,
     w_drain_mode := False,
     w_resp_queue := [],
     r_transactions := [],
     r_rr_index := 0,
     r_selected_idx := None,
     r_active_idx := None,
     backend_last_service_mode := ServiceNone,
     backend_turnaround_cooldown := 0,
     backend_read_grant := False,
     backend_write_grant := False,
     backend_switch_pending := False,
     backend_any_request_pending := False,
     backend_switch_target_mode := ServiceNone,
     ddr_io := (ddr_io s)\<lparr>
       io_aw := (io_aw (ddr_io s))\<lparr>awready := False\<rparr>,
       io_w := (io_w (ddr_io s))\<lparr>wready := False\<rparr>,
       io_b := (io_b (ddr_io s))\<lparr>bvalid := False, bid := 0, bresp := AXI_RESP_OKAY\<rparr>,
       io_ar := (io_ar (ddr_io s))\<lparr>arready := False\<rparr>,
       io_r := (io_r (ddr_io s))\<lparr>rvalid := False, rid := 0, rdata := 0,
                 rresp := AXI_RESP_OKAY, rlast := False\<rparr>\<rparr>\<rparr>"

section \<open>Memory access\<close>

text \<open>One iteration of the byte loops: a read-modify-write of the word that holds the byte, and
  the byte of that word.\<close>

definition mem_store_byte :: "pmem \<Rightarrow> u32 \<Rightarrow> u8 \<Rightarrow> pmem" where
  "mem_store_byte m byte_addr byte =
     (let word_addr = byte_addr AND NOT 3;
          shift = unat (byte_addr AND 3) * 8;
          msk = push_bit shift 0xFF;
          old_word = pmem_read m word_addr;
          new_word = (old_word AND NOT msk) OR push_bit shift (ucast byte)
      in pmem_write m word_addr new_word)"

definition mem_load_byte :: "pmem \<Rightarrow> u32 \<Rightarrow> u8" where
  "mem_load_byte m byte_addr =
     (let word_addr = byte_addr AND NOT 3;
          shift = unat (byte_addr AND 3) * 8
      in ucast (drop_bit shift (pmem_read m word_addr) AND 0xFF))"

definition do_memory_write :: "pmem \<Rightarrow> u32 \<Rightarrow> axi_data \<Rightarrow> axi_strb \<Rightarrow> pmem" where
  "do_memory_write m addr data strb =
     (case m of None \<Rightarrow> m
      | Some _ \<Rightarrow>
          fold (\<lambda>byte m. if test_bit strb byte
                         then mem_store_byte m (addr + of_nat byte) (get_byte data byte) else m)
            [0..<AXI_DATA_BYTES] m)"

definition do_memory_read :: "pmem \<Rightarrow> u32 \<Rightarrow> axi_data" where
  "do_memory_read m addr =
     (case m of None \<Rightarrow> 0xDEADBEEF
      | Some _ \<Rightarrow>
          fold (\<lambda>byte data. set_byte data byte (mem_load_byte m (addr + of_nat byte)))
            [0..<AXI_DATA_BYTES] 0)"

section \<open>Combinational logic\<close>

definition read_ready :: "read_txn \<Rightarrow> bool" where
  "read_ready t \<longleftrightarrow> rt_in_data_phase t \<and> \<not> rt_complete t"

definition find_next_ready_transaction :: "sim_ddr \<Rightarrow> nat option" where
  "find_next_ready_transaction s =
     (let count = length (r_transactions s) in
      if r_transactions s = [] then None
      else find (\<lambda>idx. read_ready (r_transactions s ! idx))
             (map (\<lambda>i. (r_rr_index s + i) mod count) [0..<count]))"

fun turnaround_cycles :: "kit_config \<Rightarrow> backend_mode \<Rightarrow> backend_mode \<Rightarrow> nat" where
  "turnaround_cycles k ServiceRead ServiceWrite = SIM_DDR_READ_TO_WRITE_TURNAROUND k"
| "turnaround_cycles k ServiceWrite ServiceRead = SIM_DDR_WRITE_TO_READ_TURNAROUND k"
| "turnaround_cycles k _ _ = 0"

definition select_read_transaction :: "sim_ddr \<Rightarrow> sim_ddr" where
  "select_read_transaction s =
     (let selected =
        (case r_active_idx s of
           Some a \<Rightarrow> if a < length (r_transactions s) \<and> read_ready (r_transactions s ! a)
                     then Some a else None
         | None \<Rightarrow> None)
      in s\<lparr>r_selected_idx :=
             (case selected of Some a \<Rightarrow> Some a | None \<Rightarrow> find_next_ready_transaction s)\<rparr>)"

definition find_write_data_target :: "sim_ddr \<Rightarrow> nat option" where
  "find_write_data_target s = first_index (\<lambda>t. \<not> data_done t) (w_pending s)"

definition find_write_drain_target :: "sim_ddr \<Rightarrow> nat option" where
  "find_write_drain_target s = first_index (\<lambda>t. beats_drained t < beats_accepted t) (w_pending s)"

definition head_write_needs_drain :: "sim_ddr \<Rightarrow> bool" where
  "head_write_needs_drain s =
     (case w_pending s of [] \<Rightarrow> False
      | head # _ \<Rightarrow> data_done head \<and> beats_drained head < beats_accepted head)"

definition should_enter_write_drain_mode :: "kit_config \<Rightarrow> sim_ddr \<Rightarrow> bool" where
  "should_enter_write_drain_mode k s =
     (if w_data_fifo s = [] then False
      else head_write_needs_drain s \<or>
           length (w_data_fifo s) \<ge> SIM_DDR_WRITE_DRAIN_HIGH_WATERMARK k)"

definition should_keep_write_drain_mode :: "kit_config \<Rightarrow> sim_ddr \<Rightarrow> bool" where
  "should_keep_write_drain_mode k s =
     (if w_data_fifo s = [] then False
      else if head_write_needs_drain s then True
      else length (w_data_fifo s) > SIM_DDR_WRITE_DRAIN_LOW_WATERMARK k)"

text \<open>The service the arbiter wants this cycle.\<close>

definition backend_write_ready :: "sim_ddr \<Rightarrow> bool" where
  "backend_write_ready s \<longleftrightarrow>
     w_drain_mode s \<and> w_data_fifo s \<noteq> [] \<and> w_drain_cooldown s = 0 \<and>
     find_write_drain_target s \<noteq> None"

definition backend_desired :: "kit_config \<Rightarrow> sim_ddr \<Rightarrow> backend_mode" where
  "backend_desired k s =
     (let rd_ready = (r_selected_idx s \<noteq> None);
          read_burst_active =
            (rd_ready \<and> r_active_idx s \<noteq> None \<and> r_selected_idx s = r_active_idx s);
          wr_ready = backend_write_ready s
      in if backend_last_service_mode s = ServiceWrite \<and> wr_ready \<and>
            should_keep_write_drain_mode k s then ServiceWrite
         else if read_burst_active then ServiceRead
         else if backend_last_service_mode s = ServiceRead \<and> rd_ready then ServiceRead
         else if rd_ready then ServiceRead
         else if wr_ready then ServiceWrite
         else ServiceNone)"

definition update_backend_arbitration :: "kit_config \<Rightarrow> sim_ddr \<Rightarrow> sim_ddr" where
  "update_backend_arbitration k s =
     (let any = (r_selected_idx s \<noteq> None \<or> backend_write_ready s);
          s0 = s\<lparr>backend_read_grant := False, backend_write_grant := False,
                 backend_switch_pending := False, backend_any_request_pending := any,
                 backend_switch_target_mode := ServiceNone\<rparr>;
          desired = backend_desired k s
      in if \<not> any \<or> backend_turnaround_cooldown s \<noteq> 0 then s0
         else if desired = ServiceNone then s0
         else if backend_last_service_mode s \<noteq> ServiceNone \<and>
                 desired \<noteq> backend_last_service_mode s \<and>
                 turnaround_cycles k (backend_last_service_mode s) desired \<noteq> 0
              then s0\<lparr>backend_switch_pending := True, backend_switch_target_mode := desired\<rparr>
         else s0\<lparr>backend_read_grant := (desired = ServiceRead),
                 backend_write_grant := (desired = ServiceWrite)\<rparr>)"

text \<open>The address of a transaction's current beat: the burst type is not consulted, every burst
  is incrementing.\<close>

definition read_beat_addr :: "read_txn \<Rightarrow> u32" where
  "read_beat_addr t = rt_addr t + push_bit (unat (rt_size t)) (ucast (rt_beat_cnt t))"

definition write_beat_addr :: "write_txn \<Rightarrow> u32" where
  "write_beat_addr t = wt_addr t + push_bit (unat (wt_size t)) (ucast (beats_accepted t))"

definition comb_read_channel :: "kit_config \<Rightarrow> sim_ddr \<Rightarrow> sim_ddr" where
  "comb_read_channel k s =
     (let io = ddr_io s;
          ar = (io_ar io)\<lparr>arready := length (r_transactions s) < SIM_DDR_MAX_OUTSTANDING k\<rparr>;
          r0 = (io_r io)\<lparr>rvalid := False, rid := 0, rdata := 0, rresp := AXI_RESP_OKAY,
                         rlast := False\<rparr>;
          r = (case r_selected_idx s of
                 Some i \<Rightarrow>
                   if backend_read_grant s
                   then let txn = r_transactions s ! i
                        in r0\<lparr>rvalid := True, rid := rt_id txn,
                              rdata := do_memory_read (p_memory s) (read_beat_addr txn),
                              rresp := AXI_RESP_OKAY,
                              rlast := (rt_beat_cnt txn = rt_len txn)\<rparr>
                   else r0
               | None \<Rightarrow> r0)
      in s\<lparr>ddr_io := io\<lparr>io_ar := ar, io_r := r\<rparr>\<rparr>)"

definition comb_write_channel :: "kit_config \<Rightarrow> sim_ddr \<Rightarrow> sim_ddr" where
  "comb_write_channel k s =
     (let io = ddr_io s;
          aw = (io_aw io)\<lparr>awready := length (w_pending s) < SIM_DDR_WRITE_QUEUE_DEPTH k\<rparr>;
          wch = (io_w io)\<lparr>wready :=
                  (find_write_data_target s \<noteq> None \<and>
                   length (w_data_fifo s) < SIM_DDR_WRITE_DATA_FIFO_DEPTH k \<and>
                   w_accept_cooldown s = 0 \<and> \<not> w_drain_mode s)\<rparr>;
          b0 = (io_b io)\<lparr>bvalid := False, bid := 0, bresp := AXI_RESP_OKAY\<rparr>;
          bch = (case w_resp_queue s of
                   [] \<Rightarrow> b0
                 | front # _ \<Rightarrow>
                     if SIM_DDR_WRITE_RESP_LATENCY k = 0 \<or>
                        wr_latency_cnt front \<ge> SIM_DDR_WRITE_RESP_LATENCY k
                     then b0\<lparr>bvalid := True, bid := wr_id front, bresp := AXI_RESP_OKAY\<rparr>
                     else b0)
      in s\<lparr>ddr_io := io\<lparr>io_aw := aw, io_w := wch, io_b := bch\<rparr>\<rparr>)"

definition ddr_comb_outputs :: "kit_config \<Rightarrow> sim_ddr \<Rightarrow> sim_ddr" where
  "ddr_comb_outputs k s =
     comb_write_channel k (comb_read_channel k
       (update_backend_arbitration k (select_read_transaction s)))"

section \<open>The clock edge\<close>

definition seq_cooldowns :: "sim_ddr \<Rightarrow> sim_ddr" where
  "seq_cooldowns s = s\<lparr>
     backend_turnaround_cooldown := backend_turnaround_cooldown s - 1,
     w_accept_cooldown := w_accept_cooldown s - 1,
     w_drain_cooldown := w_drain_cooldown s - 1\<rparr>"

definition seq_b_handshake :: "sim_ddr \<Rightarrow> sim_ddr" where
  "seq_b_handshake s =
     (if b_fires (ddr_io s) then s\<lparr>w_resp_queue := tl (w_resp_queue s)\<rparr> else s)"

definition seq_age_responses :: "sim_ddr \<Rightarrow> sim_ddr" where
  "seq_age_responses s =
     s\<lparr>w_resp_queue := map (\<lambda>resp. resp\<lparr>wr_latency_cnt := wr_latency_cnt resp + 1\<rparr>)
                         (w_resp_queue s)\<rparr>"

definition new_write_txn :: "axi4_aw \<Rightarrow> write_txn" where
  "new_write_txn aw = \<lparr>wt_addr = awaddr aw, wt_id = awid aw, wt_len = awlen aw,
     wt_size = awsize aw, wt_burst = awburst aw,
     beats_accepted = 0, beats_drained = 0, data_done = False\<rparr>"

definition seq_aw_handshake :: "sim_ddr \<Rightarrow> sim_ddr" where
  "seq_aw_handshake s =
     (if aw_fires (ddr_io s)
      then s\<lparr>w_pending := w_pending s @ [new_write_txn (io_aw (ddr_io s))]\<rparr> else s)"

definition seq_w_handshake :: "kit_config \<Rightarrow> sim_ddr \<Rightarrow> sim_ddr" where
  "seq_w_handshake k s =
     (if w_fires (ddr_io s)
      then (case find_write_data_target s of
              None \<Rightarrow> s
            | Some target_idx \<Rightarrow>
                let txn = w_pending s ! target_idx;
                    wch = io_w (ddr_io s);
                    beat = \<lparr>wb_addr = write_beat_addr txn, wb_data = wdata wch,
                            wb_strb = wstrb wch\<rparr>;
                    txn' = txn\<lparr>beats_accepted := beats_accepted txn + 1,
                               data_done := (if wlast wch then True else data_done txn)\<rparr>
                in s\<lparr>w_data_fifo := w_data_fifo s @ [beat],
                     w_pending := (w_pending s)[target_idx := txn'],
                     w_accept_cooldown := SIM_DDR_WRITE_ACCEPT_GAP k\<rparr>)
      else s)"

definition seq_enter_drain :: "kit_config \<Rightarrow> sim_ddr \<Rightarrow> sim_ddr" where
  "seq_enter_drain k s =
     (if \<not> w_drain_mode s \<and> should_enter_write_drain_mode k s
      then s\<lparr>w_drain_mode := True\<rparr> else s)"

definition seq_drain_beat :: "kit_config \<Rightarrow> sim_ddr \<Rightarrow> sim_ddr" where
  "seq_drain_beat k s =
     (if backend_write_grant s \<and> w_drain_mode s \<and> w_data_fifo s \<noteq> [] \<and> w_drain_cooldown s = 0
      then (case find_write_drain_target s of
              None \<Rightarrow> s
            | Some target_idx \<Rightarrow>
                let beat = hd (w_data_fifo s);
                    txn = w_pending s ! target_idx
                in s\<lparr>w_data_fifo := tl (w_data_fifo s),
                     p_memory := do_memory_write (p_memory s) (wb_addr beat) (wb_data beat)
                                   (wb_strb beat),
                     w_pending := (w_pending s)[target_idx :=
                                    txn\<lparr>beats_drained := beats_drained txn + 1\<rparr>],
                     w_drain_cooldown := SIM_DDR_WRITE_DRAIN_GAP k\<rparr>)
      else s)"

definition write_retirable :: "write_txn \<Rightarrow> bool" where
  "write_retirable t \<longleftrightarrow> data_done t \<and> beats_drained t = ucast (wt_len t) + 1"

definition new_write_resp :: "write_txn \<Rightarrow> write_resp_pending" where
  "new_write_resp t = \<lparr>wr_id = wt_id t, wr_addr = wt_addr t, wr_latency_cnt = 0\<rparr>"

text \<open>The loop of \<^verbatim>\<open>retire_completed_writes\<close>: the pending queue and the response queue.\<close>

fun retire_loop ::
  "write_txn list \<Rightarrow> write_resp_pending list \<Rightarrow> write_txn list \<times> write_resp_pending list" where
  "retire_loop [] resps = ([], resps)"
| "retire_loop (front # rest) resps =
     (if write_retirable front then retire_loop rest (resps @ [new_write_resp front])
      else (front # rest, resps))"

definition retire_completed_writes :: "sim_ddr \<Rightarrow> sim_ddr" where
  "retire_completed_writes s =
     (case retire_loop (w_pending s) (w_resp_queue s) of
        (pend, resps) \<Rightarrow> s\<lparr>w_pending := pend, w_resp_queue := resps\<rparr>)"

definition seq_leave_drain :: "kit_config \<Rightarrow> sim_ddr \<Rightarrow> sim_ddr" where
  "seq_leave_drain k s =
     (if w_drain_mode s \<and> \<not> should_keep_write_drain_mode k s
      then s\<lparr>w_drain_mode := False\<rparr> else s)"

definition seq_write_debug :: "sim_ddr \<Rightarrow> sim_ddr" where
  "seq_write_debug s = s\<lparr>
     w_active := (w_pending s \<noteq> [] \<or> w_data_fifo s \<noteq> []),
     w_current := (case w_pending s of [] \<Rightarrow> write_txn_zero | t # _ \<Rightarrow> t)\<rparr>"

definition new_read_txn :: "axi4_ar \<Rightarrow> read_txn" where
  "new_read_txn ar = \<lparr>rt_addr = araddr ar, rt_id = arid ar, rt_len = arlen ar,
     rt_size = arsize ar, rt_burst = arburst ar, rt_beat_cnt = 0, rt_latency_cnt = 0,
     rt_in_data_phase = False, rt_complete = False\<rparr>"

definition seq_ar_handshake :: "sim_ddr \<Rightarrow> sim_ddr" where
  "seq_ar_handshake s =
     (if ar_fires (ddr_io s)
      then s\<lparr>r_transactions := r_transactions s @ [new_read_txn (io_ar (ddr_io s))]\<rparr> else s)"

definition seq_r_handshake :: "sim_ddr \<Rightarrow> sim_ddr" where
  "seq_r_handshake s =
     (case r_selected_idx s of
        None \<Rightarrow> s
      | Some sel \<Rightarrow>
          if backend_read_grant s \<and> r_fires (ddr_io s)
          then let txn = (r_transactions s ! sel)\<lparr>rt_beat_cnt := rt_beat_cnt (r_transactions s ! sel) + 1\<rparr>
               in if rlast (io_r (ddr_io s))
                  then s\<lparr>r_transactions := (r_transactions s)[sel := txn\<lparr>rt_complete := True\<rparr>],
                         r_active_idx := None,
                         r_rr_index := (sel + 1) mod (max 1 (length (r_transactions s)))\<rparr>
                  else s\<lparr>r_transactions := (r_transactions s)[sel := txn],
                         r_active_idx := Some sel\<rparr>
          else s)"

definition age_read_txn :: "kit_config \<Rightarrow> read_txn \<Rightarrow> read_txn" where
  "age_read_txn k t =
     (if \<not> rt_in_data_phase t \<and> \<not> rt_complete t
      then let cnt = rt_latency_cnt t + 1
           in t\<lparr>rt_latency_cnt := cnt,
                rt_in_data_phase := (if cnt \<ge> SIM_DDR_READ_LATENCY k then True
                                     else rt_in_data_phase t)\<rparr>
      else t)"

definition seq_age_reads :: "kit_config \<Rightarrow> sim_ddr \<Rightarrow> sim_ddr" where
  "seq_age_reads k s = s\<lparr>r_transactions := map (age_read_txn k) (r_transactions s)\<rparr>"

text \<open>The compaction loop: completed transactions go, and each one that lies below the active
  index, as the index stands at that moment, moves it down.\<close>

fun compact_reads :: "nat \<Rightarrow> read_txn list \<Rightarrow> nat option \<Rightarrow> read_txn list \<times> nat option" where
  "compact_reads src [] active = ([], active)"
| "compact_reads src (t # ts) active =
     (if rt_complete t
      then compact_reads (Suc src) ts
             (case active of Some a \<Rightarrow> if src < a then Some (a - 1) else Some a | None \<Rightarrow> None)
      else (case compact_reads (Suc src) ts active of (kept, active') \<Rightarrow> (t # kept, active')))"

definition seq_compact_reads :: "sim_ddr \<Rightarrow> sim_ddr" where
  "seq_compact_reads s =
     (case compact_reads 0 (r_transactions s) (r_active_idx s) of
        (kept, active) \<Rightarrow> s\<lparr>r_transactions := kept, r_active_idx := active\<rparr>)"

definition seq_fix_indices :: "sim_ddr \<Rightarrow> sim_ddr" where
  "seq_fix_indices s = s\<lparr>
     r_rr_index := (if r_transactions s \<noteq> [] \<and> r_rr_index s \<ge> length (r_transactions s)
                    then 0 else r_rr_index s),
     r_active_idx := (case r_active_idx s of
                        Some a \<Rightarrow> if a \<ge> length (r_transactions s) then None else Some a
                      | None \<Rightarrow> None)\<rparr>"

definition seq_backend_mode :: "kit_config \<Rightarrow> sim_ddr \<Rightarrow> sim_ddr" where
  "seq_backend_mode k s =
     (if \<not> backend_any_request_pending s \<and> backend_turnaround_cooldown s = 0
      then s\<lparr>backend_last_service_mode := ServiceNone\<rparr>
      else if backend_switch_pending s
      then s\<lparr>backend_turnaround_cooldown :=
               turnaround_cycles k (backend_last_service_mode s) (backend_switch_target_mode s),
             backend_last_service_mode := ServiceNone\<rparr>
      else if backend_read_grant s then s\<lparr>backend_last_service_mode := ServiceRead\<rparr>
      else if backend_write_grant s then s\<lparr>backend_last_service_mode := ServiceWrite\<rparr>
      else s)"

definition ddr_seq_write :: "kit_config \<Rightarrow> sim_ddr \<Rightarrow> sim_ddr" where
  "ddr_seq_write k s =
     seq_write_debug (seq_leave_drain k (retire_completed_writes (seq_drain_beat k
       (seq_enter_drain k (seq_w_handshake k (seq_aw_handshake (seq_age_responses
         (seq_b_handshake (seq_cooldowns s)))))))))"

definition ddr_seq_read :: "kit_config \<Rightarrow> sim_ddr \<Rightarrow> sim_ddr" where
  "ddr_seq_read k s =
     seq_fix_indices (seq_compact_reads (seq_age_reads k (seq_r_handshake (seq_ar_handshake s))))"

definition ddr_seq :: "kit_config \<Rightarrow> sim_ddr \<Rightarrow> sim_ddr" where
  "ddr_seq k s = seq_backend_mode k (ddr_seq_read k (ddr_seq_write k s))"

text \<open>
  One clock cycle as the simulator drives it: the slave's outputs, the master's wires
  connected, the edge. \<open>ddr_sampled\<close> is the state with the wires the edge samples.
\<close>

definition ddr_sampled :: "kit_config \<Rightarrow> axi_io \<Rightarrow> sim_ddr \<Rightarrow> sim_ddr" where
  "ddr_sampled k i s =
     (let s' = ddr_comb_outputs k s in s'\<lparr>ddr_io := connect_master i (ddr_io s')\<rparr>)"

definition ddr_cycle :: "kit_config \<Rightarrow> axi_io \<Rightarrow> sim_ddr \<Rightarrow> sim_ddr" where
  "ddr_cycle k i s = ddr_seq k (ddr_sampled k i s)"

definition ddr_reset :: "pmem \<Rightarrow> sim_ddr" where
  "ddr_reset m = ddr_init \<lparr>ddr_io = axi_io_zero, p_memory = m,
     w_active = False, w_current = write_txn_zero, w_pending = [], w_data_fifo = [],
     w_accept_cooldown = 0, w_drain_cooldown = 0, w_drain_mode = False, w_resp_queue = [],
     r_transactions = [], r_rr_index = 0, r_selected_idx = None, r_active_idx = None,
     backend_last_service_mode = ServiceNone, backend_turnaround_cooldown = 0,
     backend_read_grant = False, backend_write_grant = False, backend_switch_pending = False,
     backend_any_request_pending = False, backend_switch_target_mode = ServiceNone\<rparr>"

end
