(* ===== verification/DDR_Memory.thy ===== *)
theory DDR_Memory
  imports Sim_DDR
begin

text \<open>
  The memory side of the DDR model: \<^verbatim>\<open>SimDDR::do_memory_read\<close> and \<^verbatim>\<open>SimDDR::do_memory_write\<close>
  over the word array of \<^verbatim>\<open>PhysMemory.h\<close>. The word array with its read-modify-write is a byte
  store (the interpretation \<open>ram\<close> of \<open>byte_store\<close>), so a beat read back after a beat written is
  the old beat with the strobed bytes replaced, and no other byte of the RAM moves.
\<close>

unbundle bit_operations_syntax

section \<open>The backing memory as a byte store\<close>

text \<open>The 2 GB half of the address space an address falls into does not matter.\<close>

definition mem_cell :: "u32 \<Rightarrow> u32" where
  "mem_cell a = take_bit 31 a"

definition ram_present :: "pmem \<Rightarrow> bool" where
  "ram_present m \<longleftrightarrow> m \<noteq> None"

lemma unat_u32_lt: "unat (a :: u32) < 2 ^ 32"
  using unsigned_less [of a, where 'a = nat] by simp

lemma pmem_offset_eq: "axi_kit_pmem_offset a = take_bit 31 a"
proof (rule word_unat_eq_iff [THEN iffD2])
  have lt: "unat a < 2 ^ 32" by (rule unat_u32_lt)
  have t: "unat (take_bit 31 a) = unat a mod 2 ^ 31"
    unfolding unsigned_take_bit_eq by (rule take_bit_eq_mod)
  show "unat (axi_kit_pmem_offset a) = unat (take_bit 31 a)"
  proof (cases "PMEM_RAM_BASE \<le> a")
    case True
    then have "2 ^ 31 \<le> unat a" by (simp add: PMEM_RAM_BASE_def word_le_nat_alt)
    moreover from True have "unat (a - PMEM_RAM_BASE) = unat a - 2 ^ 31"
      by (simp add: unat_sub PMEM_RAM_BASE_def)
    ultimately show ?thesis using True lt t
      by (simp add: axi_kit_pmem_offset_def mod_if)
  next
    case False
    then have "unat a < 2 ^ 31" by (simp add: PMEM_RAM_BASE_def word_le_nat_alt not_le)
    with False t show ?thesis by (simp add: axi_kit_pmem_offset_def)
  qed
qed

lemma bit_3: "bit (3 :: u32) n \<longleftrightarrow> n < 2"
proof -
  have "(3 :: u32) = mask 2" by (simp add: mask_eq_exp_minus_1)
  then show ?thesis by (simp only: bit_mask_iff) auto
qed

lemma bit_and_3: "bit (a AND (3 :: u32)) n \<longleftrightarrow> bit a n \<and> n < 2"
  by (simp only: bit_and_iff bit_3)

lemma bit_mem_cell: "bit (mem_cell a) n \<longleftrightarrow> n < 31 \<and> bit a n"
  by (simp only: mem_cell_def bit_take_bit_iff)

lemma word_index_eq: "pmem_word_index (a AND NOT 3) = drop_bit 2 (mem_cell a)"
proof (rule bit_word_eqI)
  fix n assume "n < LENGTH(32)"
  show "bit (pmem_word_index (a AND NOT 3)) n \<longleftrightarrow> bit (drop_bit 2 (mem_cell a)) n"
    unfolding pmem_word_index_def pmem_offset_eq bit_drop_bit_eq bit_and_iff bit_not_iff
      bit_take_bit_iff bit_mem_cell bit_3 o_def
    by (auto dest: bit_imp_le_length)
qed

lemma same_cell_iff:
  "mem_cell a = mem_cell a' \<longleftrightarrow>
   pmem_word_index (a AND NOT 3) = pmem_word_index (a' AND NOT 3) \<and> a AND 3 = a' AND 3"
proof
  assume c: "mem_cell a = mem_cell a'"
  have "bit (a AND 3) n \<longleftrightarrow> bit (a' AND 3) n" for n
    using arg_cong [OF c, of "\<lambda>w. bit w n"] unfolding bit_mem_cell bit_and_3 by auto
  then have "a AND 3 = a' AND 3" by (intro bit_word_eqI) blast
  with c show "pmem_word_index (a AND NOT 3) = pmem_word_index (a' AND NOT 3) \<and> a AND 3 = a' AND 3"
    unfolding word_index_eq by simp
next
  assume r: "pmem_word_index (a AND NOT 3) = pmem_word_index (a' AND NOT 3) \<and> a AND 3 = a' AND 3"
  show "mem_cell a = mem_cell a'"
  proof (rule bit_word_eqI)
    fix n assume n: "n < LENGTH(32)"
    show "bit (mem_cell a) n = bit (mem_cell a') n"
    proof (cases "n < 2")
      case True
      have "bit (a AND 3) n \<longleftrightarrow> bit (a' AND 3) n" using r by (elim conjE) (erule arg_cong)
      with True show ?thesis unfolding bit_and_3 bit_mem_cell by simp
    next
      case False
      then obtain k where k: "n = 2 + k" by (metis le_Suc_ex not_less)
      have "bit (drop_bit 2 (mem_cell a)) k \<longleftrightarrow> bit (drop_bit 2 (mem_cell a')) k"
        using r unfolding word_index_eq by (elim conjE) (erule arg_cong)
      then show ?thesis unfolding k bit_drop_bit_eq o_def .
    qed
  qed
qed

lemma low_bits_lt_4: "unat (a AND (3::u32)) < 4"
proof -
  have "a AND 3 \<le> 3" by (rule word_and_le1)
  then show ?thesis by (simp add: word_le_nat_alt)
qed

lemma mem_load_byte_get:
  "mem_load_byte m a = get_byte (pmem_read m (a AND NOT 3)) (unat (a AND 3))"
  using low_bits_lt_4 [of a] by (simp add: mem_load_byte_def get_byte_def Let_def)

lemma mem_store_byte_set:
  "mem_store_byte m a b =
   pmem_write m (a AND NOT 3) (set_byte (pmem_read m (a AND NOT 3)) (unat (a AND 3)) b)"
  using low_bits_lt_4 [of a] by (simp add: mem_store_byte_def set_byte_def Let_def)

lemma mem_load_store:
  assumes "ram_present m"
  shows "mem_load_byte (mem_store_byte m a b) a' =
     (if mem_cell a = mem_cell a' then b else mem_load_byte m a')"
proof -
  from assms obtain ram where m: "m = Some ram" by (auto simp: ram_present_def)
  show ?thesis
    using low_bits_lt_4 [of a] low_bits_lt_4 [of a']
    by (auto simp: m mem_load_byte_get mem_store_byte_set pmem_read_def pmem_write_def same_cell_iff
        get_set_byte word_unat_eq_iff [of "a AND 3"])
qed

lemma cells_apart:
  assumes "i < 2 ^ 31" and "j < 2 ^ 31"
    and "mem_cell (a + of_nat i) = mem_cell (a + of_nat j)"
  shows "i = j"
proof -
  have e: "unat (mem_cell (a + of_nat k)) = (unat a + k) mod 2 ^ 31" for k
  proof -
    have "unat (mem_cell (a + of_nat k)) = ((unat a + k) mod 2 ^ 32) mod 2 ^ 31"
      by (simp add: mem_cell_def unsigned_take_bit_eq take_bit_eq_mod unat_word_ariths unat_of_nat mod_add_right_eq)
    also have "\<dots> = (unat a + k) mod 2 ^ 31"
      by (rule mod_mod_cancel) simp
    finally show ?thesis .
  qed
  from assms(3) have "(unat a + i) mod 2 ^ 31 = (unat a + j) mod 2 ^ 31" by (metis e)
  then obtain q1 q2 where q: "unat a + i + 2 ^ 31 * q1 = unat a + j + 2 ^ 31 * q2"
    by (auto simp: nat_mod_eq_iff)
  have "q1 = q2"
    using q assms(1,2) by simp
  with q show ?thesis by simp
qed

interpretation ram: byte_store mem_load_byte mem_store_byte mem_cell ram_present
proof
  show "ram_present m \<Longrightarrow> ram_present (mem_store_byte m a b)" for m a b
    by (auto simp: ram_present_def mem_store_byte_def pmem_write_def Let_def)
qed (use mem_load_store cells_apart in blast)+

section \<open>Beats\<close>

lemma get_byte_read_fold:
  fixes f :: "nat \<Rightarrow> u8" and w :: axi_data
  shows "n \<le> 32 \<Longrightarrow> k < 32 \<Longrightarrow>
   get_byte (fold (\<lambda>byte data. set_byte data byte (f byte)) [0..<n] w) k =
   (if k < n then f k else get_byte w k)"
  by (induction n) (auto simp: get_set_byte less_Suc_eq)

lemma get_byte_do_memory_read:
  assumes "ram_present m" and "k < 32"
  shows "get_byte (do_memory_read m addr) k = mem_load_byte m (addr + of_nat k)"
  using assms by (auto simp: do_memory_read_def ram_present_def AXI_DATA_BYTES_def get_byte_read_fold)

lemma do_memory_write_fold:
  assumes "ram_present m"
  shows "do_memory_write m addr data strb =
     fold (\<lambda>i m. if test_bit strb i then mem_store_byte m (addr + of_nat i) (get_byte data i) else m)
       [0..<32] m"
  using assms by (auto simp: do_memory_write_def ram_present_def AXI_DATA_BYTES_def)

lemma present_do_memory_write: "ram_present m \<Longrightarrow> ram_present (do_memory_write m addr data strb)"
  by (simp only: do_memory_write_fold ram.present_beat)

lemma load_do_memory_write_own:
  assumes "ram_present m" and "k < 32" and "test_bit strb k"
  shows "mem_load_byte (do_memory_write m addr data strb) (addr + of_nat k) = get_byte data k"
  unfolding do_memory_write_fold [OF assms(1)]
  by (rule ram.load_own_byte) (use assms in auto)

lemma load_do_memory_write_other:
  assumes "ram_present m"
    and "\<And>i. i < 32 \<Longrightarrow> test_bit strb i \<Longrightarrow> mem_cell (addr + of_nat i) \<noteq> mem_cell a"
  shows "mem_load_byte (do_memory_write m addr data strb) a = mem_load_byte m a"
proof -
  have "find (\<lambda>i. test_bit strb i \<and> mem_cell (addr + of_nat i) = mem_cell a) [0..<32] = None"
    using assms(2) by (auto simp: find_None_iff)
  then show ?thesis
    unfolding do_memory_write_fold [OF assms(1)]
    by (subst ram.load_after_beat) (use assms in auto)
qed

lemma get_byte_read_write:
  assumes "ram_present m" and "k < 32"
  shows "get_byte (do_memory_read (do_memory_write m addr data strb) addr) k =
     (if test_bit strb k then get_byte data k else get_byte (do_memory_read m addr) k)"
proof (cases "test_bit strb k")
  case False
  have "mem_load_byte (do_memory_write m addr data strb) (addr + of_nat k) =
        mem_load_byte m (addr + of_nat k)"
  proof (rule load_do_memory_write_other)
    fix i assume "i < 32" "test_bit strb i"
    with False assms show "mem_cell (addr + of_nat i) \<noteq> mem_cell (addr + of_nat k)"
      by (auto dest!: ram.cells_apart [rotated 2])
  qed (use assms in auto)
  with False assms show ?thesis
    by (simp add: get_byte_do_memory_read present_do_memory_write)
qed (use assms in \<open>simp add: get_byte_do_memory_read present_do_memory_write load_do_memory_write_own\<close>)

end
