(* ===== verification/DDR_Protocol.thy ===== *)
theory DDR_Protocol
  imports DDR_Memory "HOL-Library.Multiset"
begin

text \<open>
  The protocol side of the DDR model: what a clock cycle does to each queue, as equations over
  the state before it and the master's wires, and what follows for whole runs. Three views of
  the write side are interpretations of \<open>fifo_view\<close>: the responses owed, the beats between the
  W channel and the memory, and the beat addresses the accepted AWs announce. The read side
  keeps its invariant as a \<open>clocked_machine\<close>.
\<close>

section \<open>The sampled wires\<close>

lemmas ddr_comb_defs = ddr_comb_outputs_def comb_write_channel_def comb_read_channel_def
  update_backend_arbitration_def select_read_transaction_def Let_def

lemma ddr_sampled_frame [simp]:
  "w_pending (ddr_sampled k i s) = w_pending s"
  "w_data_fifo (ddr_sampled k i s) = w_data_fifo s"
  "w_resp_queue (ddr_sampled k i s) = w_resp_queue s"
  "w_drain_mode (ddr_sampled k i s) = w_drain_mode s"
  "w_accept_cooldown (ddr_sampled k i s) = w_accept_cooldown s"
  "w_drain_cooldown (ddr_sampled k i s) = w_drain_cooldown s"
  "p_memory (ddr_sampled k i s) = p_memory s"
  "r_transactions (ddr_sampled k i s) = r_transactions s"
  "r_rr_index (ddr_sampled k i s) = r_rr_index s"
  "r_active_idx (ddr_sampled k i s) = r_active_idx s"
  "backend_last_service_mode (ddr_sampled k i s) = backend_last_service_mode s"
  "backend_turnaround_cooldown (ddr_sampled k i s) = backend_turnaround_cooldown s"
  by (simp_all add: ddr_sampled_def ddr_comb_defs)

lemma find_targets_cong:
  "w_pending s = w_pending s' \<Longrightarrow> find_write_data_target s = find_write_data_target s'"
  "w_pending s = w_pending s' \<Longrightarrow> find_write_drain_target s = find_write_drain_target s'"
  by (simp_all add: find_write_data_target_def find_write_drain_target_def)

lemma sampled_aw [simp]:
  "io_aw (ddr_io (ddr_sampled k i s)) =
     (io_aw i)\<lparr>awready := length (w_pending s) < SIM_DDR_WRITE_QUEUE_DEPTH k\<rparr>"
  by (simp add: ddr_sampled_def connect_master_def ddr_comb_defs)

lemma sampled_w [simp]:
  "io_w (ddr_io (ddr_sampled k i s)) =
     (io_w i)\<lparr>wready := (find_write_data_target s \<noteq> None \<and>
        length (w_data_fifo s) < SIM_DDR_WRITE_DATA_FIFO_DEPTH k \<and>
        w_accept_cooldown s = 0 \<and> \<not> w_drain_mode s)\<rparr>"
  by (simp add: ddr_sampled_def connect_master_def ddr_comb_defs find_write_data_target_def)

lemma sampled_ar [simp]:
  "io_ar (ddr_io (ddr_sampled k i s)) =
     (io_ar i)\<lparr>arready := length (r_transactions s) < SIM_DDR_MAX_OUTSTANDING k\<rparr>"
  by (simp add: ddr_sampled_def connect_master_def ddr_comb_defs)

definition ddr_b_ready :: "kit_config \<Rightarrow> write_resp_pending list \<Rightarrow> bool" where
  "ddr_b_ready k q = (case q of [] \<Rightarrow> False
     | r # _ \<Rightarrow> SIM_DDR_WRITE_RESP_LATENCY k = 0 \<or> SIM_DDR_WRITE_RESP_LATENCY k \<le> wr_latency_cnt r)"

lemma sampled_b:
  "io_b (ddr_io (ddr_sampled k i s)) =
     (io_b (ddr_io s))\<lparr>bvalid := ddr_b_ready k (w_resp_queue s), bready := bready (io_b i),
       bid := if ddr_b_ready k (w_resp_queue s) then wr_id (hd (w_resp_queue s)) else 0,
       bresp := AXI_RESP_OKAY\<rparr>"
  by (cases "w_resp_queue s")
    (simp_all add: ddr_sampled_def connect_master_def ddr_comb_defs ddr_b_ready_def)

section \<open>Arbitration\<close>

definition switch_needed :: "kit_config \<Rightarrow> sim_ddr \<Rightarrow> bool" where
  "switch_needed k s \<longleftrightarrow>
     backend_last_service_mode s \<noteq> ServiceNone \<and>
     backend_desired k s \<noteq> backend_last_service_mode s \<and>
     turnaround_cycles k (backend_last_service_mode s) (backend_desired k s) \<noteq> 0"

lemma arbitration_grants:
  "backend_read_grant (update_backend_arbitration k s) \<longleftrightarrow>
     (r_selected_idx s \<noteq> None \<or> backend_write_ready s) \<and> backend_turnaround_cooldown s = 0 \<and>
     backend_desired k s = ServiceRead \<and> \<not> switch_needed k s"
  "backend_write_grant (update_backend_arbitration k s) \<longleftrightarrow>
     (r_selected_idx s \<noteq> None \<or> backend_write_ready s) \<and> backend_turnaround_cooldown s = 0 \<and>
     backend_desired k s = ServiceWrite \<and> \<not> switch_needed k s"
  "backend_switch_pending (update_backend_arbitration k s) \<longleftrightarrow>
     (r_selected_idx s \<noteq> None \<or> backend_write_ready s) \<and> backend_turnaround_cooldown s = 0 \<and>
     backend_desired k s \<noteq> ServiceNone \<and> switch_needed k s"
  unfolding update_backend_arbitration_def switch_needed_def Let_def
  by (cases "backend_desired k s"; auto)+

lemma desired_read: "backend_desired k s = ServiceRead \<Longrightarrow> r_selected_idx s \<noteq> None"
  by (simp add: backend_desired_def Let_def split: if_splits)

lemma desired_write:
  "backend_desired k s = ServiceWrite \<Longrightarrow> backend_write_ready s"
  by (simp add: backend_desired_def Let_def split: if_splits)

lemma sampled_grants:
  "backend_read_grant (ddr_sampled k i s) =
     backend_read_grant (update_backend_arbitration k (select_read_transaction s))"
  "backend_write_grant (ddr_sampled k i s) =
     backend_write_grant (update_backend_arbitration k (select_read_transaction s))"
  "backend_switch_pending (ddr_sampled k i s) =
     backend_switch_pending (update_backend_arbitration k (select_read_transaction s))"
  "r_selected_idx (ddr_sampled k i s) = r_selected_idx (select_read_transaction s)"
  by (simp_all add: ddr_sampled_def ddr_comb_outputs_def comb_write_channel_def
      comb_read_channel_def Let_def, simp add: update_backend_arbitration_def Let_def)

lemma select_frame [simp]:
  "w_drain_mode (select_read_transaction s) = w_drain_mode s"
  "w_data_fifo (select_read_transaction s) = w_data_fifo s"
  "w_drain_cooldown (select_read_transaction s) = w_drain_cooldown s"
  "backend_write_ready (select_read_transaction s) = backend_write_ready s"
  "find_write_drain_target (select_read_transaction s) = find_write_drain_target s"
  "r_transactions (select_read_transaction s) = r_transactions s"
  "r_active_idx (select_read_transaction s) = r_active_idx s"
  "backend_last_service_mode (select_read_transaction s) = backend_last_service_mode s"
  "backend_turnaround_cooldown (select_read_transaction s) = backend_turnaround_cooldown s"
  by (simp_all add: select_read_transaction_def backend_write_ready_def
      find_write_drain_target_def Let_def)

lemma write_grant_ready:
  assumes "backend_write_grant (ddr_sampled k i s)"
  shows "w_drain_mode s" "w_data_fifo s \<noteq> []" "w_drain_cooldown s = 0"
    "find_write_drain_target s \<noteq> None"
  using desired_write [of k "select_read_transaction s"] assms
  unfolding sampled_grants arbitration_grants
  by (simp_all add: backend_write_ready_def)

lemma read_grant_selected:
  "backend_read_grant (ddr_sampled k i s) \<Longrightarrow> r_selected_idx (ddr_sampled k i s) \<noteq> None"
  unfolding sampled_grants arbitration_grants by (auto dest: desired_read)

section \<open>One cycle, queue by queue\<close>

text \<open>The read half of the edge does not touch the write state, and the other way round.\<close>

lemma ddr_seq_read_frame [simp]:
  "w_pending (ddr_seq_read k s) = w_pending s"
  "w_data_fifo (ddr_seq_read k s) = w_data_fifo s"
  "w_resp_queue (ddr_seq_read k s) = w_resp_queue s"
  "w_drain_mode (ddr_seq_read k s) = w_drain_mode s"
  "w_accept_cooldown (ddr_seq_read k s) = w_accept_cooldown s"
  "w_drain_cooldown (ddr_seq_read k s) = w_drain_cooldown s"
  "p_memory (ddr_seq_read k s) = p_memory s"
  by (simp_all add: ddr_seq_read_def seq_fix_indices_def seq_compact_reads_def seq_age_reads_def
      seq_r_handshake_def seq_ar_handshake_def Let_def split: option.splits prod.splits)

lemma seq_backend_mode_frame [simp]:
  "w_pending (seq_backend_mode k s) = w_pending s"
  "w_data_fifo (seq_backend_mode k s) = w_data_fifo s"
  "w_resp_queue (seq_backend_mode k s) = w_resp_queue s"
  "w_drain_mode (seq_backend_mode k s) = w_drain_mode s"
  "w_accept_cooldown (seq_backend_mode k s) = w_accept_cooldown s"
  "w_drain_cooldown (seq_backend_mode k s) = w_drain_cooldown s"
  "p_memory (seq_backend_mode k s) = p_memory s"
  "r_transactions (seq_backend_mode k s) = r_transactions s"
  "r_active_idx (seq_backend_mode k s) = r_active_idx s"
  "r_rr_index (seq_backend_mode k s) = r_rr_index s"
  by (simp_all add: seq_backend_mode_def)

lemmas ddr_seq_write_defs = ddr_seq_write_def seq_write_debug_def seq_leave_drain_def
  seq_drain_beat_def seq_enter_drain_def seq_w_handshake_def
  seq_aw_handshake_def seq_age_responses_def seq_b_handshake_def seq_cooldowns_def Let_def

text \<open>The pending queue up to the point where completed writes retire, and what retiring does.\<close>

definition after_aw :: "axi_io \<Rightarrow> write_txn list \<Rightarrow> write_txn list" where
  "after_aw io p = (if aw_fires io then p @ [new_write_txn (io_aw io)] else p)"

definition after_w :: "axi_io \<Rightarrow> write_txn list \<Rightarrow> write_txn list" where
  "after_w io p =
     (case first_index (\<lambda>t. \<not> data_done t) p of
        None \<Rightarrow> p
      | Some j \<Rightarrow>
          if w_fires io
          then p[j := (p ! j)\<lparr>beats_accepted := beats_accepted (p ! j) + 1,
                              data_done := (if wlast (io_w io) then True else data_done (p ! j))\<rparr>]
          else p)"

definition after_drain :: "bool \<Rightarrow> write_txn list \<Rightarrow> write_txn list" where
  "after_drain granted p =
     (case first_index (\<lambda>t. beats_drained t < beats_accepted t) p of
        None \<Rightarrow> p
      | Some j \<Rightarrow> if granted then p[j := (p ! j)\<lparr>beats_drained := beats_drained (p ! j) + 1\<rparr>] else p)"

lemma seq_write_head:
  "w_pending (seq_w_handshake k (seq_aw_handshake s)) =
     after_w (ddr_io s) (after_aw (ddr_io s) (w_pending s))"
  "ddr_io (seq_w_handshake k (seq_aw_handshake s)) = ddr_io s"
  "w_drain_mode (seq_w_handshake k (seq_aw_handshake s)) = w_drain_mode s"
  "w_resp_queue (seq_w_handshake k (seq_aw_handshake s)) = w_resp_queue s"
  "w_drain_cooldown (seq_w_handshake k (seq_aw_handshake s)) = w_drain_cooldown s"
  "p_memory (seq_w_handshake k (seq_aw_handshake s)) = p_memory s"
  "backend_write_grant (seq_w_handshake k (seq_aw_handshake s)) = backend_write_grant s"
  by (simp_all add: seq_w_handshake_def seq_aw_handshake_def after_w_def after_aw_def Let_def
      find_write_data_target_def split: option.splits)

text \<open>The beat the W channel hands over, addressed by the oldest transaction still taking data.\<close>

definition data_target :: "write_txn list \<Rightarrow> write_txn" where
  "data_target p = p ! the (first_index (\<lambda>t. \<not> data_done t) p)"

definition beats_taken :: "kit_config \<Rightarrow> axi_io \<Rightarrow> sim_ddr \<Rightarrow> write_beat_pending list" where
  "beats_taken k i s =
     (if w_fires (ddr_io (ddr_sampled k i s))
      then [\<lparr>wb_addr = write_beat_addr (data_target (w_pending s)), wb_data = wdata (io_w i),
             wb_strb = wstrb (io_w i)\<rparr>]
      else [])"

definition beats_committed :: "kit_config \<Rightarrow> axi_io \<Rightarrow> sim_ddr \<Rightarrow> write_beat_pending list" where
  "beats_committed k i s =
     (if backend_write_grant (ddr_sampled k i s) then [hd (w_data_fifo s)] else [])"

definition commit_beat :: "write_beat_pending \<Rightarrow> pmem \<Rightarrow> pmem" where
  "commit_beat b m = do_memory_write m (wb_addr b) (wb_data b) (wb_strb b)"

lemma w_fires_target:
  "w_fires (ddr_io (ddr_sampled k i s)) \<Longrightarrow>
   \<not> w_drain_mode s \<and> length (w_data_fifo s) < SIM_DDR_WRITE_DATA_FIFO_DEPTH k \<and>
   (\<exists>j. first_index (\<lambda>t. \<not> data_done t) (w_pending s) = Some j)"
  by (auto simp: w_fires_def find_write_data_target_def)

lemma no_w_when_granted:
  "backend_write_grant (ddr_sampled k i s) \<Longrightarrow> \<not> w_fires (ddr_io (ddr_sampled k i s))"
  using w_fires_target write_grant_ready by blast

lemma first_index_after_aw:
  "first_index P p = Some j \<Longrightarrow> first_index P (after_aw io p) = Some j \<and> after_aw io p ! j = p ! j"
  by (auto simp: after_aw_def nth_append first_index_append_Some dest: first_index_Some)

text \<open>The pre-edge stages in one step.\<close>

definition write_head :: "kit_config \<Rightarrow> sim_ddr \<Rightarrow> sim_ddr" where
  "write_head k s = seq_w_handshake k (seq_aw_handshake (seq_age_responses (seq_b_handshake (seq_cooldowns s))))"

lemma write_head_eq:
  "w_pending (write_head k s) = after_w (ddr_io s) (after_aw (ddr_io s) (w_pending s))"
  "w_drain_mode (write_head k s) = w_drain_mode s"
  "w_drain_cooldown (write_head k s) = w_drain_cooldown s - 1"
  "p_memory (write_head k s) = p_memory s"
  "backend_write_grant (write_head k s) = backend_write_grant s"
  "w_resp_queue (write_head k s) =
     map (\<lambda>resp. resp\<lparr>wr_latency_cnt := wr_latency_cnt resp + 1\<rparr>)
       (if b_fires (ddr_io s) then tl (w_resp_queue s) else w_resp_queue s)"
  by (simp_all add: write_head_def seq_write_head)
    (simp_all add: seq_age_responses_def seq_b_handshake_def seq_cooldowns_def)

lemma write_head_fifo:
  "w_data_fifo (write_head k (ddr_sampled k i s)) = w_data_fifo s @ beats_taken k i s"
proof (cases "w_fires (ddr_io (ddr_sampled k i s))")
  case True
  then obtain j where j: "first_index (\<lambda>t. \<not> data_done t) (w_pending s) = Some j"
    using w_fires_target by blast
  have p: "w_pending (seq_aw_handshake (seq_age_responses (seq_b_handshake (seq_cooldowns (ddr_sampled k i s)))))
      = after_aw (ddr_io (ddr_sampled k i s)) (w_pending s)"
    and io: "ddr_io (seq_aw_handshake (seq_age_responses (seq_b_handshake (seq_cooldowns (ddr_sampled k i s)))))
      = ddr_io (ddr_sampled k i s)"
    and f: "w_data_fifo (seq_aw_handshake (seq_age_responses (seq_b_handshake (seq_cooldowns (ddr_sampled k i s)))))
      = w_data_fifo s"
    by (simp_all add: seq_aw_handshake_def seq_age_responses_def seq_b_handshake_def
        seq_cooldowns_def after_aw_def)
  from first_index_after_aw [OF j, of "ddr_io (ddr_sampled k i s)"] j True show ?thesis
    by (simp add: write_head_def seq_w_handshake_def find_write_data_target_def p io f
        beats_taken_def data_target_def Let_def)
next
  case False
  then show ?thesis
    by (simp add: write_head_def seq_w_handshake_def seq_aw_handshake_def seq_age_responses_def
        seq_b_handshake_def seq_cooldowns_def beats_taken_def Let_def)
qed

lemma ddr_seq_write_head:
  "ddr_seq_write k s = seq_write_debug (seq_leave_drain k (retire_completed_writes
     (seq_drain_beat k (seq_enter_drain k (write_head k s)))))"
  by (simp add: ddr_seq_write_def write_head_def)

lemma enter_drain_frame [simp]:
  "w_pending (seq_enter_drain k s) = w_pending s"
  "w_data_fifo (seq_enter_drain k s) = w_data_fifo s"
  "w_resp_queue (seq_enter_drain k s) = w_resp_queue s"
  "p_memory (seq_enter_drain k s) = p_memory s"
  "w_drain_cooldown (seq_enter_drain k s) = w_drain_cooldown s"
  "backend_write_grant (seq_enter_drain k s) = backend_write_grant s"
  "w_drain_mode s \<Longrightarrow> w_drain_mode (seq_enter_drain k s)"
  by (simp_all add: seq_enter_drain_def)

lemma retire_frame [simp]:
  "w_data_fifo (retire_completed_writes s) = w_data_fifo s"
  "p_memory (retire_completed_writes s) = p_memory s"
  "w_pending (retire_completed_writes s) = fst (retire_loop (w_pending s) (w_resp_queue s))"
  "w_resp_queue (retire_completed_writes s) = snd (retire_loop (w_pending s) (w_resp_queue s))"
  by (simp_all add: retire_completed_writes_def split: prod.splits)

lemma leave_drain_frame [simp]:
  "w_pending (seq_write_debug (seq_leave_drain k s)) = w_pending s"
  "w_data_fifo (seq_write_debug (seq_leave_drain k s)) = w_data_fifo s"
  "w_resp_queue (seq_write_debug (seq_leave_drain k s)) = w_resp_queue s"
  "p_memory (seq_write_debug (seq_leave_drain k s)) = p_memory s"
  by (simp_all add: seq_leave_drain_def seq_write_debug_def)

text \<open>A granted drain takes the front beat; otherwise the stage changes nothing.\<close>

definition drained_pending :: "kit_config \<Rightarrow> axi_io \<Rightarrow> sim_ddr \<Rightarrow> write_txn list" where
  "drained_pending k i s =
     (let io = ddr_io (ddr_sampled k i s)
      in after_drain (backend_write_grant (ddr_sampled k i s)) (after_w io (after_aw io (w_pending s))))"

lemma drain_stage:
  fixes k i s
  defines "s1 \<equiv> seq_enter_drain k (write_head k (ddr_sampled k i s))"
  shows "w_data_fifo (seq_drain_beat k s1) =
      (if backend_write_grant (ddr_sampled k i s) then tl (w_data_fifo s)
       else w_data_fifo s @ beats_taken k i s)" (is ?fifo)
    and "p_memory (seq_drain_beat k s1) = fold commit_beat (beats_committed k i s) (p_memory s)" (is ?mem)
    and "w_pending (seq_drain_beat k s1) = drained_pending k i s" (is ?pend)
    and "w_resp_queue (seq_drain_beat k s1) = w_resp_queue s1" (is ?resp)
proof -
  let ?io = "ddr_io (ddr_sampled k i s)"
  have "?fifo \<and> ?mem \<and> ?pend \<and> ?resp"
  proof (cases "backend_write_grant (ddr_sampled k i s)")
    case True
    note g = write_grant_ready [OF True]
    from no_w_when_granted [OF True] have nw: "\<not> w_fires ?io" .
    then have nb: "beats_taken k i s = []" by (simp add: beats_taken_def)
    from g(4) obtain j where j: "first_index (\<lambda>t. beats_drained t < beats_accepted t) (w_pending s) = Some j"
      by (auto simp: find_write_drain_target_def)
    have pend: "w_pending s1 = after_aw ?io (w_pending s)"
      using nw by (simp add: s1_def write_head_eq after_w_def split: option.splits)
    have fifo: "w_data_fifo s1 = w_data_fifo s"
      by (simp add: s1_def write_head_fifo nb)
    have s1: "backend_write_grant s1" "w_drain_mode s1" "w_drain_cooldown s1 = 0" "p_memory s1 = p_memory s"
      using True g by (simp_all add: s1_def write_head_eq)
    from pend have dp: "drained_pending k i s = after_drain True (w_pending s1)"
      using True nw by (simp add: drained_pending_def after_w_def Let_def split: option.splits)
    show ?thesis
      using s1 g fifo first_index_after_aw [OF j, of ?io] True
      by (simp add: seq_drain_beat_def find_write_drain_target_def pend Let_def commit_beat_def
          beats_committed_def dp after_drain_def nb)
  next
    case False
    then have "\<not> backend_write_grant s1" by (simp add: s1_def write_head_eq)
    with False show ?thesis
      by (simp add: seq_drain_beat_def s1_def write_head_eq write_head_fifo beats_committed_def
          drained_pending_def after_drain_def Let_def split: option.splits)
  qed
  then show ?fifo ?mem ?pend ?resp by simp_all
qed

lemma cycle_writes:
  "w_data_fifo (ddr_cycle k i s) =
     (if backend_write_grant (ddr_sampled k i s) then tl (w_data_fifo s)
      else w_data_fifo s @ beats_taken k i s)"
  "p_memory (ddr_cycle k i s) = fold commit_beat (beats_committed k i s) (p_memory s)"
  "w_pending (ddr_cycle k i s) = fst (retire_loop (drained_pending k i s)
     (w_resp_queue (write_head k (ddr_sampled k i s))))"
  "w_resp_queue (ddr_cycle k i s) = snd (retire_loop (drained_pending k i s)
     (w_resp_queue (write_head k (ddr_sampled k i s))))"
  by (simp_all add: ddr_cycle_def ddr_seq_def ddr_seq_write_head drain_stage)

section \<open>Runs: beats, responses, memory\<close>

interpretation ddr_beats:
  fifo_view "ddr_reset m" "ddr_cycle k" "\<lambda>_ _. True" "\<lambda>_. True"
    w_data_fifo "beats_taken k" "beats_committed k" for k m
proof
  show "w_data_fifo (ddr_reset m) = []" by (simp add: ddr_reset_def ddr_init_def)
  show "beats_committed k i s @ w_data_fifo (ddr_cycle k i s) = w_data_fifo s @ beats_taken k i s"
    for i s
    using write_grant_ready [of k i s] no_w_when_granted [of k i s]
    by (auto simp: cycle_writes beats_committed_def beats_taken_def)
qed simp_all

lemma memory_run:
  "p_memory (run_cycles (ddr_cycle k) is s) =
   fold commit_beat (collect (beats_committed k) (ddr_cycle k) is s) (p_memory s)"
  by (induction "is" arbitrary: s) (simp_all add: cycle_writes)

lemma retire_loop_ids:
  "map wr_id (snd (retire_loop p q)) @ map wt_id (fst (retire_loop p q)) = map wr_id q @ map wt_id p"
  by (induction p q rule: retire_loop.induct) (auto simp: new_write_resp_def)

lemma after_ids [simp]:
  "map wt_id (after_w io p) = map wt_id p"
  "map wt_id (after_drain g p) = map wt_id p"
  by (auto simp: after_w_def after_drain_def map_update split: option.splits dest!: first_index_Some
      intro!: nth_equalityI simp: nth_list_update)

definition aw_taken :: "kit_config \<Rightarrow> axi_io \<Rightarrow> sim_ddr \<Rightarrow> axi4_aw list" where
  "aw_taken k i s = (if aw_fires (ddr_io (ddr_sampled k i s)) then [io_aw i] else [])"

definition b_given :: "kit_config \<Rightarrow> axi_io \<Rightarrow> sim_ddr \<Rightarrow> u8 list" where
  "b_given k i s =
     (if b_fires (ddr_io (ddr_sampled k i s)) then [bid (io_b (ddr_io (ddr_sampled k i s)))] else [])"

lemma b_fires_front:
  "b_fires (ddr_io (ddr_sampled k i s)) \<Longrightarrow>
   \<exists>r rs. w_resp_queue s = r # rs \<and> bid (io_b (ddr_io (ddr_sampled k i s))) = wr_id r"
  by (cases "w_resp_queue s") (simp_all add: b_fires_def sampled_b ddr_b_ready_def)

lemma head_resp_ids:
  "b_given k i s @ map wr_id (w_resp_queue (write_head k (ddr_sampled k i s))) =
   map wr_id (w_resp_queue s)"
  using b_fires_front [of k i s] by (auto simp: b_given_def write_head_eq o_def)

lemma drained_pending_ids:
  "map wt_id (drained_pending k i s) = map wt_id (w_pending s) @ map awid (aw_taken k i s)"
  by (simp add: drained_pending_def Let_def after_aw_def aw_taken_def new_write_txn_def)

interpretation ddr_responses:
  fifo_view "ddr_reset m" "ddr_cycle k" "\<lambda>_ _. True" "\<lambda>_. True"
    "\<lambda>s. map wr_id (w_resp_queue s) @ map wt_id (w_pending s)"
    "\<lambda>i s. map awid (aw_taken k i s)" "b_given k" for k m
proof
  show "b_given k i s @ map wr_id (w_resp_queue (ddr_cycle k i s)) @ map wt_id (w_pending (ddr_cycle k i s)) =
      (map wr_id (w_resp_queue s) @ map wt_id (w_pending s)) @ map awid (aw_taken k i s)" for i s
    by (simp add: cycle_writes retire_loop_ids drained_pending_ids flip: head_resp_ids [of k i s])
qed (simp_all add: ddr_reset_def ddr_init_def)

end
