(* ===== verification/DDR_Writes.thy ===== *)
theory DDR_Writes
  imports DDR_Protocol
begin

text \<open>
  The write path of the DDR model under a master that raises \<^verbatim>\<open>wlast\<close> exactly on a burst's last
  beat. The beats of the accepted bursts go through three places, to be taken from the W
  channel, in the data FIFO, and committed to memory; each place is a contiguous segment of the
  address sequence the AW channel announced. From the segments follows that a response is
  given only after all beats of its burst are in memory.
\<close>

section \<open>Beats of a burst\<close>

definition txn_addrs :: "write_txn \<Rightarrow> nat \<Rightarrow> nat \<Rightarrow> u32 list" where
  "txn_addrs t a b = map (\<lambda>j. wt_addr t + push_bit (unat (wt_size t)) (of_nat j)) [a..<b]"

abbreviation acc :: "write_txn \<Rightarrow> nat" where "acc t \<equiv> unat (beats_accepted t)"
abbreviation drn :: "write_txn \<Rightarrow> nat" where "drn t \<equiv> unat (beats_drained t)"
abbreviation tot :: "write_txn \<Rightarrow> nat" where "tot t \<equiv> Suc (unat (wt_len t))"

definition to_take :: "write_txn list \<Rightarrow> u32 list" where
  "to_take p = concat (map (\<lambda>t. txn_addrs t (acc t) (tot t)) p)"
definition in_fifo :: "write_txn list \<Rightarrow> u32 list" where
  "in_fifo p = concat (map (\<lambda>t. txn_addrs t (drn t) (acc t)) p)"
definition to_commit :: "write_txn list \<Rightarrow> u32 list" where
  "to_commit p = concat (map (\<lambda>t. txn_addrs t (drn t) (tot t)) p)"

lemmas segments_defs = to_take_def in_fifo_def to_commit_def

definition write_txn_ok :: "write_txn \<Rightarrow> bool" where
  "write_txn_ok t \<longleftrightarrow> drn t \<le> acc t \<and> acc t \<le> tot t \<and> (data_done t \<longleftrightarrow> acc t = tot t)"

text \<open>Only the oldest unfinished burst has begun to take data.\<close>

fun one_open :: "write_txn list \<Rightarrow> bool" where
  "one_open [] = True"
| "one_open (t # ts) =
     (if data_done t then one_open ts
      else list_all (\<lambda>u. beats_accepted u = 0 \<and> \<not> data_done u) ts)"

definition pend_ok :: "write_txn list \<Rightarrow> bool" where
  "pend_ok p \<longleftrightarrow> list_all write_txn_ok p \<and> one_open p"

lemma txn_addrs_empty [simp]: "b \<le> a \<Longrightarrow> txn_addrs t a b = []"
  by (simp add: txn_addrs_def)

lemma txn_addrs_Cons:
  "a < b \<Longrightarrow> txn_addrs t a b = (wt_addr t + push_bit (unat (wt_size t)) (of_nat a)) # txn_addrs t (Suc a) b"
  by (simp add: txn_addrs_def upt_conv_Cons)

lemma txn_addrs_snoc:
  "a \<le> b \<Longrightarrow> txn_addrs t a (Suc b) = txn_addrs t a b @ [wt_addr t + push_bit (unat (wt_size t)) (of_nat b)]"
  by (simp add: txn_addrs_def)

lemma txn_addrs_cong:
  "wt_addr t = wt_addr t' \<Longrightarrow> wt_size t = wt_size t' \<Longrightarrow> txn_addrs t a b = txn_addrs t' a b"
  by (simp add: txn_addrs_def)

lemma write_beat_addr_nth:
  "write_beat_addr t = wt_addr t + push_bit (unat (wt_size t)) (of_nat (acc t))"
  by (simp add: write_beat_addr_def)

lemma unat_u8_less: "unat (x :: u8) < 256"
  using unsigned_less [of x, where 'a = nat] by simp

lemma unat_inc_u16: "unat x \<le> 256 \<Longrightarrow> unat (x + 1 :: u16) = Suc (unat x)"
  by (auto simp: unat_add_one unsigned_minus_1_eq_mask mask_eq_exp_minus_1)

lemma retirable_done: "write_retirable t \<Longrightarrow> write_txn_ok t \<Longrightarrow> drn t = tot t \<and> acc t = tot t"
  using unat_u8_less [of "wt_len t"]
  by (auto simp: write_retirable_def write_txn_ok_def unat_inc_u16 unat_ucast_widen)

section \<open>The stages on the pending queue\<close>

lemma retire_loop_split:
  "retire_loop p q = (dropWhile write_retirable p, q @ map new_write_resp (takeWhile write_retirable p))"
  by (induction p q rule: retire_loop.induct) auto

lemma pend_ok_aw:
  assumes "pend_ok p"
  shows "pend_ok (after_aw io p)"
proof -
  have n: "write_txn_ok (new_write_txn a) \<and> beats_accepted (new_write_txn a) = 0 \<and> \<not> data_done (new_write_txn a)" for a
    by (simp add: new_write_txn_def write_txn_ok_def)
  have "one_open (p @ [new_write_txn a])" if "one_open p" for a
    using that n by (induction p) auto
  with assms n show ?thesis by (auto simp: pend_ok_def after_aw_def)
qed

definition aw_addrs :: "axi4_aw \<Rightarrow> u32 list" where
  "aw_addrs aw = map (\<lambda>j. awaddr aw + push_bit (unat (awsize aw)) (of_nat j)) [0..<Suc (unat (awlen aw))]"

lemma segments_aw:
  "to_take (after_aw io p) = to_take p @ (if aw_fires io then aw_addrs (io_aw io) else [])"
  "in_fifo (after_aw io p) = in_fifo p"
  "to_commit (after_aw io p) = to_commit p @ (if aw_fires io then aw_addrs (io_aw io) else [])"
  by (simp_all add: after_aw_def segments_defs new_write_txn_def txn_addrs_def aw_addrs_def)

lemma after_w_Cons:
  "after_w io (t # ts) =
     (if data_done t then t # after_w io ts
      else if w_fires io
      then t\<lparr>beats_accepted := beats_accepted t + 1, data_done := wlast (io_w io)\<rparr> # ts
      else t # ts)"
  by (auto simp: after_w_def split: option.splits)

lemma after_drain_Cons:
  "after_drain g (t # ts) =
     (if beats_drained t < beats_accepted t
      then (if g then t\<lparr>beats_drained := beats_drained t + 1\<rparr> # ts else t # ts)
      else t # after_drain g ts)"
  by (auto simp: after_drain_def split: option.splits)

lemma data_target_Cons:
  "\<exists>u\<in>set (t # ts). \<not> data_done u \<Longrightarrow>
   data_target (t # ts) = (if data_done t then data_target ts else t)"
  using first_index_None [of "\<lambda>t. \<not> data_done t" ts] by (auto simp: data_target_def)

lemma segments_Cons:
  "to_take (t # ts) = txn_addrs t (acc t) (tot t) @ to_take ts"
  "in_fifo (t # ts) = txn_addrs t (drn t) (acc t) @ in_fifo ts"
  "to_commit (t # ts) = txn_addrs t (drn t) (tot t) @ to_commit ts"
  by (simp_all add: segments_defs)

lemma pend_ok_Cons:
  "pend_ok (t # ts) \<longleftrightarrow> write_txn_ok t \<and>
     (if data_done t then pend_ok ts
      else list_all write_txn_ok ts \<and> list_all (\<lambda>u. beats_accepted u = 0 \<and> \<not> data_done u) ts)"
  by (auto simp: pend_ok_def)

lemma fresh_in_fifo:
  "list_all write_txn_ok ts \<Longrightarrow> list_all (\<lambda>u. beats_accepted u = 0 \<and> \<not> data_done u) ts \<Longrightarrow> in_fifo ts = []"
  by (induction ts) (auto simp: in_fifo_def write_txn_ok_def)

text \<open>A beat taken on a transaction that is still open.\<close>

definition take_beat :: "bool \<Rightarrow> write_txn \<Rightarrow> write_txn" where
  "take_beat fin t = t\<lparr>beats_accepted := beats_accepted t + 1, data_done := fin\<rparr>"

lemma take_beat_txn:
  assumes "write_txn_ok t" and "\<not> data_done t" and "fin \<longleftrightarrow> acc t = unat (wt_len t)"
  shows "write_txn_ok (take_beat fin t)" (is ?ok)
    and "acc t < tot t" (is ?less)
    and "acc (take_beat fin t) = Suc (acc t)" (is ?acc)
proof -
  from assms(1,2) show ?less by (auto simp: write_txn_ok_def)
  then have "acc t \<le> 256" using unat_u8_less [of "wt_len t"] by simp
  then show ?acc by (simp add: take_beat_def unat_inc_u16)
  then show ?ok using \<open>?less\<close> assms by (auto simp: write_txn_ok_def take_beat_def)
qed

lemma take_beat_fields [simp]:
  "wt_addr (take_beat l t) = wt_addr t" "wt_size (take_beat l t) = wt_size t"
  "wt_len (take_beat l t) = wt_len t" "wt_id (take_beat l t) = wt_id t"
  "beats_drained (take_beat l t) = beats_drained t"
  by (simp_all add: take_beat_def)

lemma txn_addrs_take_beat [simp]: "txn_addrs (take_beat l t) a b = txn_addrs t a b"
  by (rule txn_addrs_cong) simp_all

lemma stage_w:
  assumes "pend_ok p" and "w_fires io" and "\<exists>u\<in>set p. \<not> data_done u"
    and "wlast (io_w io) \<longleftrightarrow> acc (data_target p) = unat (wt_len (data_target p))"
  shows "pend_ok (after_w io p) \<and>
    write_beat_addr (data_target p) # to_take (after_w io p) = to_take p \<and>
    in_fifo (after_w io p) = in_fifo p @ [write_beat_addr (data_target p)] \<and>
    to_commit (after_w io p) = to_commit p"
  using assms
proof (induction p)
  case (Cons t ts)
  show ?case
  proof (cases "data_done t")
    case True
    then have target: "data_target (t # ts) = data_target ts"
      using Cons.prems(3) by (simp add: data_target_Cons)
    have "acc t = tot t" using Cons.prems(1) True by (simp add: pend_ok_Cons write_txn_ok_def)
    then have empty: "txn_addrs t (acc t) (tot t) = []" by simp
    from Cons.IH Cons.prems True target show ?thesis
      by (simp add: after_w_Cons pend_ok_Cons segments_Cons empty)
  next
    case False
    let ?t' = "take_beat (wlast (io_w io)) t"
    have target: "data_target (t # ts) = t" using Cons.prems(3) False by (simp add: data_target_Cons)
    have w: "after_w io (t # ts) = ?t' # ts" using False Cons.prems(2) by (simp add: after_w_Cons take_beat_def)
    have p: "write_txn_ok t" "list_all write_txn_ok ts"
      "list_all (\<lambda>u. beats_accepted u = 0 \<and> \<not> data_done u) ts"
      using Cons.prems(1) False by (simp_all add: pend_ok_Cons)
    have "one_open ts" using p(3) by (cases ts) auto
    then have "pend_ok (?t' # ts)"
      using take_beat_txn(1) [OF p(1) False Cons.prems(4) [unfolded target]] p
      by (simp add: pend_ok_Cons) (simp add: pend_ok_def)
    moreover have "in_fifo ts = []" using p(2,3) by (rule fresh_in_fifo)
    moreover note take_beat_txn(2,3) [OF p(1) False Cons.prems(4) [unfolded target]]
    moreover have "drn t \<le> acc t" using p(1) by (simp add: write_txn_ok_def)
    ultimately show ?thesis
      by (simp add: w target segments_Cons write_beat_addr_nth txn_addrs_snoc [of _ "acc t"]
          txn_addrs_Cons [of "acc t"])
  qed
qed simp

lemma after_w_idle: "\<not> w_fires io \<Longrightarrow> after_w io p = p"
  by (simp add: after_w_def split: option.splits)

definition drain_beat :: "write_txn \<Rightarrow> write_txn" where
  "drain_beat t = t\<lparr>beats_drained := beats_drained t + 1\<rparr>"

lemma drain_beat_fields [simp]:
  "wt_addr (drain_beat t) = wt_addr t" "wt_size (drain_beat t) = wt_size t"
  "wt_len (drain_beat t) = wt_len t" "wt_id (drain_beat t) = wt_id t"
  "beats_accepted (drain_beat t) = beats_accepted t" "data_done (drain_beat t) = data_done t"
  by (simp_all add: drain_beat_def)

lemma txn_addrs_drain_beat [simp]: "txn_addrs (drain_beat t) a b = txn_addrs t a b"
  by (rule txn_addrs_cong) simp_all

lemma drain_beat_txn:
  assumes "write_txn_ok t" and "beats_drained t < beats_accepted t"
  shows "write_txn_ok (drain_beat t)" and "drn (drain_beat t) = Suc (drn t)" and "drn t < acc t"
proof -
  show lt: "drn t < acc t" using assms(2) by (simp add: word_less_nat_alt)
  then have "drn t \<le> 256"
    using assms(1) unat_u8_less [of "wt_len t"] by (simp add: write_txn_ok_def)
  then show d: "drn (drain_beat t) = Suc (drn t)" by (simp add: drain_beat_def unat_inc_u16)
  show "write_txn_ok (drain_beat t)" using assms(1) lt d by (simp add: write_txn_ok_def)
qed

lemma stage_drain:
  assumes "pend_ok p" and "\<exists>u\<in>set p. beats_drained u < beats_accepted u"
  shows "pend_ok (after_drain True p) \<and>
    hd (in_fifo p) # in_fifo (after_drain True p) = in_fifo p \<and>
    hd (in_fifo p) # to_commit (after_drain True p) = to_commit p \<and>
    to_take (after_drain True p) = to_take p \<and> in_fifo p \<noteq> []"
  using assms
proof (induction p)
  case (Cons t ts)
  show ?case
  proof (cases "beats_drained t < beats_accepted t")
    case True
    have "write_txn_ok t" using Cons.prems(1) by (simp add: pend_ok_Cons)
    note d = drain_beat_txn [OF this True]
    have "after_drain True (t # ts) = drain_beat t # ts"
      using True by (simp add: after_drain_Cons drain_beat_def)
    moreover have "acc t \<le> tot t" using \<open>write_txn_ok t\<close> by (simp add: write_txn_ok_def)
    ultimately show ?thesis
      using Cons.prems(1) d
      by (simp add: pend_ok_Cons segments_Cons txn_addrs_Cons [of "drn t"])
  next
    case False
    have ok: "write_txn_ok t" and "acc t \<le> drn t"
      using Cons.prems(1) False by (simp_all add: pend_ok_Cons word_less_nat_alt)
    then have same: "drn t = acc t" by (simp add: write_txn_ok_def)
    have more: "\<exists>u\<in>set ts. beats_drained u < beats_accepted u" using Cons.prems(2) False by auto
    have full: "data_done t"
    proof (rule ccontr)
      assume "\<not> data_done t"
      with Cons.prems(1) have "\<forall>u\<in>set ts. beats_accepted u = 0" by (auto simp: pend_ok_Cons list_all_iff)
      with more show False by auto
    qed
    with ok have "acc t = tot t" by (simp add: write_txn_ok_def)
    then show ?thesis
      using Cons.IH more Cons.prems(1) full False ok same
      by (simp add: after_drain_Cons pend_ok_Cons segments_Cons)
  qed
qed simp

lemma after_drain_idle: "\<not> g \<Longrightarrow> after_drain g p = p"
  by (simp add: after_drain_def split: option.splits)

lemma stage_retire:
  assumes "pend_ok p"
  shows "pend_ok (dropWhile write_retirable p) \<and>
    to_take (dropWhile write_retirable p) = to_take p \<and>
    in_fifo (dropWhile write_retirable p) = in_fifo p \<and>
    to_commit (dropWhile write_retirable p) = to_commit p"
  using assms
proof (induction p)
  case (Cons t ts)
  show ?case
  proof (cases "write_retirable t")
    case True
    have "write_txn_ok t" "pend_ok ts" using Cons.prems True by (auto simp: pend_ok_Cons write_retirable_def)
    with retirable_done [OF True] Cons.IH True show ?thesis by (simp add: segments_Cons)
  qed (use Cons.prems in simp)
qed simp

section \<open>The invariant and the segment views\<close>

definition write_inv :: "sim_ddr \<Rightarrow> bool" where
  "write_inv s \<longleftrightarrow> pend_ok (w_pending s) \<and> map wb_addr (w_data_fifo s) = in_fifo (w_pending s)"

text \<open>The master's obligation: \<^verbatim>\<open>wlast\<close> on the last beat of the burst being filled, and only there.\<close>

definition write_env :: "kit_config \<Rightarrow> axi_io \<Rightarrow> sim_ddr \<Rightarrow> bool" where
  "write_env k i s \<longleftrightarrow>
     (w_fires (ddr_io (ddr_sampled k i s)) \<longrightarrow>
      (wlast (io_w i) \<longleftrightarrow>
         beats_accepted (data_target (w_pending s)) = ucast (wt_len (data_target (w_pending s)))))"

lemma wlast_as_nat:
  "beats_accepted t = (ucast (wt_len t) :: u16) \<longleftrightarrow> acc t = unat (wt_len t)"
  by (simp add: word_unat_eq_iff unat_ucast_widen)

lemma data_target_after_aw:
  "\<exists>u\<in>set p. \<not> data_done u \<Longrightarrow> data_target (after_aw io p) = data_target p"
proof -
  assume "\<exists>u\<in>set p. \<not> data_done u"
  then obtain j where j: "first_index (\<lambda>t. \<not> data_done t) p = Some j"
    using first_index_None [of "\<lambda>t. \<not> data_done t" p] by (meson not_None_eq)
  from first_index_after_aw [OF j, of io] j show ?thesis by (simp add: data_target_def)
qed

lemma aw_addrs_ready: "aw_addrs (aw\<lparr>awready := r\<rparr>) = aw_addrs aw"
  unfolding aw_addrs_def by simp

lemma aw_addrs_taken:
  "(if aw_fires (ddr_io (ddr_sampled k i s)) then aw_addrs (io_aw (ddr_io (ddr_sampled k i s))) else []) =
   concat (map aw_addrs (aw_taken k i s))"
  by (simp add: aw_taken_def aw_addrs_ready)

lemma w_fires_open:
  assumes "w_fires (ddr_io (ddr_sampled k i s))"
  shows "\<exists>u\<in>set (w_pending s). \<not> data_done u"
proof -
  obtain j where "first_index (\<lambda>t. \<not> data_done t) (w_pending s) = Some j"
    using w_fires_target [OF assms] by blast
  from first_index_Some [OF this] show ?thesis by (auto intro: bexI [OF _ nth_mem])
qed

lemma head_stage:
  fixes k i s
  defines "io \<equiv> ddr_io (ddr_sampled k i s)"
  assumes inv: "write_inv s" and env: "write_env k i s"
  shows "pend_ok (after_w io (after_aw io (w_pending s))) \<and>
    map wb_addr (beats_taken k i s) @ to_take (after_w io (after_aw io (w_pending s))) =
      to_take (w_pending s) @ concat (map aw_addrs (aw_taken k i s)) \<and>
    in_fifo (after_w io (after_aw io (w_pending s))) =
      in_fifo (w_pending s) @ map wb_addr (beats_taken k i s) \<and>
    to_commit (after_w io (after_aw io (w_pending s))) =
      to_commit (w_pending s) @ concat (map aw_addrs (aw_taken k i s))"
proof (cases "w_fires io")
  case True
  have op: "\<exists>u\<in>set (w_pending s). \<not> data_done u"
    using True unfolding io_def by (rule w_fires_open)
  then have op': "\<exists>u\<in>set (after_aw io (w_pending s)). \<not> data_done u" by (auto simp: after_aw_def)
  have last: "wlast (io_w io) \<longleftrightarrow>
      acc (data_target (after_aw io (w_pending s))) = unat (wt_len (data_target (after_aw io (w_pending s))))"
    using env True op by (simp add: write_env_def io_def data_target_after_aw wlast_as_nat)
  have "pend_ok (after_aw io (w_pending s))" using inv by (simp add: write_inv_def pend_ok_aw)
  from stage_w [OF this True op' last] True op show ?thesis
    by (simp add: segments_aw data_target_after_aw beats_taken_def io_def aw_addrs_taken)
next
  case False
  with inv show ?thesis
    by (simp add: after_w_idle write_inv_def pend_ok_aw segments_aw io_def aw_addrs_taken beats_taken_def)
qed

lemma cycle_segments:
  assumes inv: "write_inv s" and env: "write_env k i s"
  shows "write_inv (ddr_cycle k i s)"
    and "map wb_addr (beats_taken k i s) @ to_take (w_pending (ddr_cycle k i s)) =
      to_take (w_pending s) @ concat (map aw_addrs (aw_taken k i s))"
    and "map wb_addr (beats_committed k i s) @ to_commit (w_pending (ddr_cycle k i s)) =
      to_commit (w_pending s) @ concat (map aw_addrs (aw_taken k i s))"
proof -
  let ?io = "ddr_io (ddr_sampled k i s)"
  let ?g = "backend_write_grant (ddr_sampled k i s)"
  let ?p = "after_w ?io (after_aw ?io (w_pending s))"
  note h = head_stage [OF assms]
  have pend: "w_pending (ddr_cycle k i s) = dropWhile write_retirable (after_drain ?g ?p)"
    by (simp add: cycle_writes retire_loop_split drained_pending_def Let_def)
  have fifo_ne: "\<exists>u\<in>set ?p. beats_drained u < beats_accepted u" if g: ?g
  proof -
    have "?p = after_aw ?io (w_pending s)" using no_w_when_granted [OF g] by (simp add: after_w_idle)
    moreover obtain j where "first_index (\<lambda>t. beats_drained t < beats_accepted t) (w_pending s) = Some j"
      using write_grant_ready(4) [OF g] by (auto simp: find_write_drain_target_def)
    ultimately show ?thesis using first_index_Some by (fastforce simp: after_aw_def)
  qed
  have d: "pend_ok (after_drain ?g ?p) \<and>
      map wb_addr (beats_committed k i s) @ in_fifo (after_drain ?g ?p) = in_fifo ?p \<and>
      map wb_addr (beats_committed k i s) @ to_commit (after_drain ?g ?p) = to_commit ?p \<and>
      to_take (after_drain ?g ?p) = to_take ?p"
  proof (cases ?g)
    case True
    note f = write_grant_ready(2) [OF True]
    have "beats_taken k i s = []" using no_w_when_granted [OF True] by (simp add: beats_taken_def)
    with h have "in_fifo ?p = map wb_addr (w_data_fifo s)" using inv by (simp add: write_inv_def)
    with f have "wb_addr (hd (w_data_fifo s)) = hd (in_fifo ?p)" by (simp add: hd_map)
    with stage_drain [of ?p] fifo_ne [OF True] h True show ?thesis
      by (simp add: beats_committed_def)
  qed (use h in \<open>simp add: after_drain_idle beats_committed_def\<close>)
  note r = stage_retire [OF d [THEN conjunct1]]
  show "map wb_addr (beats_taken k i s) @ to_take (w_pending (ddr_cycle k i s)) =
      to_take (w_pending s) @ concat (map aw_addrs (aw_taken k i s))"
    using h d r by (simp add: pend)
  show "map wb_addr (beats_committed k i s) @ to_commit (w_pending (ddr_cycle k i s)) =
      to_commit (w_pending s) @ concat (map aw_addrs (aw_taken k i s))"
    using h d r by (simp add: pend)
  have "beats_committed k i s @ w_data_fifo (ddr_cycle k i s) = w_data_fifo s @ beats_taken k i s"
    by (rule ddr_beats.waiting_tick) simp_all
  then have "map wb_addr (beats_committed k i s) @ map wb_addr (w_data_fifo (ddr_cycle k i s)) =
      map wb_addr (w_data_fifo s) @ map wb_addr (beats_taken k i s)"
    by (metis map_append)
  also have "\<dots> = in_fifo ?p" using inv h by (simp add: write_inv_def)
  also have "\<dots> = map wb_addr (beats_committed k i s) @ in_fifo (after_drain ?g ?p)"
    using d by simp
  finally have "map wb_addr (w_data_fifo (ddr_cycle k i s)) = in_fifo (after_drain ?g ?p)" by simp
  with r show "write_inv (ddr_cycle k i s)" by (simp add: write_inv_def pend)
qed

lemma write_inv_reset: "write_inv (ddr_reset m)"
  by (simp add: write_inv_def ddr_reset_def ddr_init_def pend_ok_def in_fifo_def)

lemma no_segments_reset [simp]:
  "to_take (w_pending (ddr_reset m)) = []" "to_commit (w_pending (ddr_reset m)) = []"
  "w_pending (ddr_reset m) = []"
  by (simp_all add: ddr_reset_def ddr_init_def segments_defs)

interpretation ddr_taken:
  fifo_view "ddr_reset m" "ddr_cycle k" "write_env k" write_inv
    "\<lambda>s. to_take (w_pending s)" "\<lambda>i s. concat (map aw_addrs (aw_taken k i s))"
    "\<lambda>i s. map wb_addr (beats_taken k i s)" for k m
  by unfold_locales (auto simp: write_inv_reset to_take_def dest: cycle_segments(1) cycle_segments(2) [unfolded to_take_def])

interpretation ddr_committed:
  fifo_view "ddr_reset m" "ddr_cycle k" "write_env k" write_inv
    "\<lambda>s. to_commit (w_pending s)" "\<lambda>i s. concat (map aw_addrs (aw_taken k i s))"
    "\<lambda>i s. map wb_addr (beats_committed k i s)" for k m
  by unfold_locales (auto simp: to_commit_def dest: cycle_segments(3) [unfolded to_commit_def])

text \<open>Whole bursts leave the pending queue in the order in which the AW channel brought them.\<close>

definition burst_of :: "write_txn \<Rightarrow> u8 \<times> u32 \<times> u8 \<times> u8" where
  "burst_of t = (wt_id t, wt_addr t, wt_len t, wt_size t)"

definition aw_burst :: "axi4_aw \<Rightarrow> u8 \<times> u32 \<times> u8 \<times> u8" where
  "aw_burst aw = (awid aw, awaddr aw, awlen aw, awsize aw)"

definition bursts_retired :: "kit_config \<Rightarrow> axi_io \<Rightarrow> sim_ddr \<Rightarrow> (u8 \<times> u32 \<times> u8 \<times> u8) list" where
  "bursts_retired k i s = map burst_of (takeWhile write_retirable (drained_pending k i s))"

lemma burst_after [simp]:
  "map burst_of (after_w io p) = map burst_of p"
  "map burst_of (after_drain g p) = map burst_of p"
  by (auto simp: after_w_def after_drain_def burst_of_def split: option.splits dest!: first_index_Some
      intro!: nth_equalityI simp: nth_list_update)

lemma drained_pending_bursts:
  "map burst_of (drained_pending k i s) = map burst_of (w_pending s) @ map aw_burst (aw_taken k i s)"
  by (simp add: drained_pending_def Let_def after_aw_def aw_taken_def new_write_txn_def burst_of_def aw_burst_def)

interpretation ddr_bursts:
  fifo_view "ddr_reset m" "ddr_cycle k" "\<lambda>_ _. True" "\<lambda>_. True"
    "\<lambda>s. map burst_of (w_pending s)" "\<lambda>i s. map aw_burst (aw_taken k i s)" "bursts_retired k" for k m
proof
  show "bursts_retired k i s @ map burst_of (w_pending (ddr_cycle k i s)) =
      map burst_of (w_pending s) @ map aw_burst (aw_taken k i s)" for i s
    by (simp add: cycle_writes retire_loop_split bursts_retired_def flip: drained_pending_bursts map_append)
qed simp_all

lemma collect_map:
  "collect (\<lambda>i s. map f (obs i s)) tick is s = map f (collect obs tick is s)"
  by (induction "is" arbitrary: s) auto

lemma collect_concat_map:
  "collect (\<lambda>i s. concat (map f (obs i s))) tick is s = concat (map f (collect obs tick is s))"
  by (induction "is" arbitrary: s) auto

lemma length_txn_addrs: "length (txn_addrs t a b) = b - a"
  by (simp add: txn_addrs_def)

lemma to_commit_bounded:
  "map burst_of p = map aw_burst aws \<Longrightarrow> length (to_commit p) \<le> length (concat (map aw_addrs aws))"
proof (induction p arbitrary: aws)
  case (Cons t ts)
  then obtain aw rest where aws: "aws = aw # rest" "burst_of t = aw_burst aw" "map burst_of ts = map aw_burst rest"
    by (cases aws) auto
  from aws(2) have "length (txn_addrs t (drn t) (tot t)) \<le> length (aw_addrs aw)"
    by (auto simp: burst_of_def aw_burst_def aw_addrs_def length_txn_addrs)
  with Cons.IH [OF aws(3)] show ?case by (simp only: segments_Cons aws list.map concat.simps length_append)
qed (simp add: to_commit_def)

lemma append_longer_prefix:
  "xs @ ys = us @ vs \<Longrightarrow> length ys \<le> length vs \<Longrightarrow> \<exists>ws. xs = us @ ws"
  by (auto simp: append_eq_append_conv2)

text \<open>The committed beats cover every burst that has left the pending queue.\<close>

lemma retired_bursts_committed:
  assumes "allowed (write_env k) (ddr_cycle k) ios (ddr_reset m)"
  defines "s \<equiv> run_cycles (ddr_cycle k) ios (ddr_reset m)"
    and "aws \<equiv> collect (aw_taken k) (ddr_cycle k) ios (ddr_reset m)"
  assumes n: "n + length (w_pending s) \<le> length aws"
  shows "\<exists>rest. map wb_addr (collect (beats_committed k) (ddr_cycle k) ios (ddr_reset m)) =
    concat (map aw_addrs (take n aws)) @ rest"
proof -
  define l where "l = length aws - length (w_pending s)"
  have all: "map wb_addr (collect (beats_committed k) (ddr_cycle k) ios (ddr_reset m)) @ to_commit (w_pending s) =
      concat (map aw_addrs aws)"
    using ddr_committed.released_in_order [OF assms(1)] by (simp add: collect_map collect_concat_map s_def aws_def)
  have "collect (bursts_retired k) (ddr_cycle k) ios (ddr_reset m) @ map burst_of (w_pending s) = map aw_burst aws"
    using ddr_bursts.released_in_order [of k ios m] by (simp add: collect_map s_def aws_def)
  moreover have "length (collect (bursts_retired k) (ddr_cycle k) ios (ddr_reset m)) = l"
    using arg_cong [OF calculation, of length] by (simp add: l_def)
  ultimately have "map burst_of (w_pending s) = map aw_burst (drop l aws)"
    by (metis append_eq_conv_conj drop_map)
  then have le: "length (to_commit (w_pending s)) \<le> length (concat (map aw_addrs (drop l aws)))"
    by (rule to_commit_bounded)
  have "concat (map aw_addrs aws) = concat (map aw_addrs (take l aws)) @ concat (map aw_addrs (drop l aws))"
    by (metis append_take_drop_id concat_append map_append)
  with all le obtain ws where w:
    "map wb_addr (collect (beats_committed k) (ddr_cycle k) ios (ddr_reset m)) = concat (map aw_addrs (take l aws)) @ ws"
    by (metis append_longer_prefix)
  have "take l aws = take n aws @ take (l - n) (drop n aws)"
    using n by (metis l_def le_add_diff_inverse add_le_imp_le_diff take_add)
  with w show ?thesis by simp
qed

end
