(* ===== verification/DDR_Reads.thy ===== *)
theory DDR_Reads
  imports DDR_Protocol
begin

text \<open>
  The read path of the DDR model. The beats on the R channel are, in any run, whole bursts one
  after the other and a beginning of the one being served; the bursts are those the AR channel
  brought, each once, in an order the arbiter chooses.
\<close>

section \<open>Bursts\<close>

type_synonym read_burst = "u8 \<times> u32 \<times> u8 \<times> u8"

definition ar_burst :: "axi4_ar \<Rightarrow> read_burst" where
  "ar_burst ar = (arid ar, araddr ar, arlen ar, arsize ar)"

definition read_burst_of :: "read_txn \<Rightarrow> read_burst" where
  "read_burst_of t = (rt_id t, rt_addr t, rt_len t, rt_size t)"

text \<open>A burst's beats as (id, address, last).\<close>

fun burst_beats :: "read_burst \<Rightarrow> (u8 \<times> u32 \<times> bool) list" where
  "burst_beats (i, a, l, sz) =
     map (\<lambda>j. (i, a + push_bit (unat sz) (of_nat j), j = unat l)) [0..<Suc (unat l)]"

definition ar_taken :: "kit_config \<Rightarrow> axi_io \<Rightarrow> sim_ddr \<Rightarrow> axi4_ar list" where
  "ar_taken k i s = (if ar_fires (ddr_io (ddr_sampled k i s)) then [io_ar i] else [])"

definition chosen_read :: "sim_ddr \<Rightarrow> read_txn" where
  "chosen_read s = r_transactions s ! the (r_selected_idx (select_read_transaction s))"

definition r_given :: "kit_config \<Rightarrow> axi_io \<Rightarrow> sim_ddr \<Rightarrow> (u8 \<times> u32 \<times> bool) list" where
  "r_given k i s =
     (if r_fires (ddr_io (ddr_sampled k i s))
      then [(rid (io_r (ddr_io (ddr_sampled k i s))), read_beat_addr (chosen_read s),
             rlast (io_r (ddr_io (ddr_sampled k i s))))]
      else [])"

definition reads_finished :: "kit_config \<Rightarrow> axi_io \<Rightarrow> sim_ddr \<Rightarrow> read_burst list" where
  "reads_finished k i s =
     (if r_fires (ddr_io (ddr_sampled k i s)) \<and> rlast (io_r (ddr_io (ddr_sampled k i s)))
      then [read_burst_of (chosen_read s)] else [])"

text \<open>The beats of the burst being served that have been given.\<close>

definition partial_burst :: "sim_ddr \<Rightarrow> (u8 \<times> u32 \<times> bool) list" where
  "partial_burst s =
     (case r_active_idx s of
        None \<Rightarrow> []
      | Some a \<Rightarrow> take (unat (rt_beat_cnt (r_transactions s ! a)))
                    (burst_beats (read_burst_of (r_transactions s ! a))))"

definition read_txn_ok :: "read_txn \<Rightarrow> bool" where
  "read_txn_ok t \<longleftrightarrow> \<not> rt_complete t \<and> rt_beat_cnt t \<le> rt_len t"

definition read_inv :: "sim_ddr \<Rightarrow> bool" where
  "read_inv s \<longleftrightarrow>
     list_all read_txn_ok (r_transactions s) \<and>
     (\<forall>a. r_active_idx s = Some a \<longrightarrow>
        a < length (r_transactions s) \<and> rt_in_data_phase (r_transactions s ! a)) \<and>
     (\<forall>i<length (r_transactions s).
        rt_beat_cnt (r_transactions s ! i) \<noteq> 0 \<longrightarrow> r_active_idx s = Some i)"

lemma read_inv_ok: "read_inv s \<Longrightarrow> j < length (r_transactions s) \<Longrightarrow> read_txn_ok (r_transactions s ! j)"
  unfolding read_inv_def list_all_length by blast

lemma read_inv_active:
  "read_inv s \<Longrightarrow> r_active_idx s = Some a \<Longrightarrow>
   a < length (r_transactions s) \<and> rt_in_data_phase (r_transactions s ! a)"
  unfolding read_inv_def by blast

section \<open>What the R channel carries\<close>

lemma sampled_r:
  "io_r (ddr_io (ddr_sampled k i s)) =
     (if backend_read_grant (ddr_sampled k i s)
      then \<lparr>rvalid = True, rready = rready (io_r i), rid = rt_id (chosen_read s),
            rdata = do_memory_read (p_memory s) (read_beat_addr (chosen_read s)),
            rresp = AXI_RESP_OKAY, rlast = (rt_beat_cnt (chosen_read s) = rt_len (chosen_read s))\<rparr>
      else \<lparr>rvalid = False, rready = rready (io_r i), rid = 0, rdata = 0, rresp = AXI_RESP_OKAY,
            rlast = False\<rparr>)"
proof -
  let ?u = "update_backend_arbitration k (select_read_transaction s)"
  have sel: "r_selected_idx ?u = r_selected_idx (select_read_transaction s)"
    "r_transactions ?u = r_transactions s" "p_memory ?u = p_memory s"
    by (simp_all add: update_backend_arbitration_def Let_def) (simp add: select_read_transaction_def Let_def)
  have g: "backend_read_grant (ddr_sampled k i s) = backend_read_grant ?u" by (rule sampled_grants)
  have n: "backend_read_grant ?u \<Longrightarrow> \<exists>j. r_selected_idx (select_read_transaction s) = Some j"
    using read_grant_selected [of k i s] unfolding g sampled_grants by auto
  have io: "io_r (ddr_io (ddr_sampled k i s)) =
      (io_r (ddr_io (comb_read_channel k ?u)))\<lparr>rready := rready (io_r i)\<rparr>"
    by (simp add: ddr_sampled_def connect_master_def ddr_comb_outputs_def comb_write_channel_def Let_def)
  show ?thesis
    unfolding g io using n
    by (cases "r_selected_idx (select_read_transaction s)")
      (auto simp: comb_read_channel_def Let_def sel chosen_read_def)
qed

lemma r_fires_grant:
  "r_fires (ddr_io (ddr_sampled k i s)) \<longleftrightarrow>
   backend_read_grant (ddr_sampled k i s) \<and> rready (io_r i)"
  by (simp add: r_fires_def sampled_r)

section \<open>Selection\<close>

lemma find_next_Some:
  assumes "find_next_ready_transaction s = Some j"
  shows "j < length (r_transactions s) \<and> read_ready (r_transactions s ! j)"
proof -
  let ?n = "length (r_transactions s)"
  from assms have ne: "r_transactions s \<noteq> []"
    by (auto simp: find_next_ready_transaction_def split: if_splits)
  from assms ne obtain m where "m < ?n" "read_ready (r_transactions s ! j)"
      "j = (r_rr_index s + m) mod ?n"
    by (auto simp: find_next_ready_transaction_def Let_def find_Some_iff)
  with ne show ?thesis by simp
qed

lemma find_next_None:
  assumes "find_next_ready_transaction s = None" and "j < length (r_transactions s)"
  shows "\<not> read_ready (r_transactions s ! j)"
proof
  let ?n = "length (r_transactions s)"
  assume ready: "read_ready (r_transactions s ! j)"
  define m where "m = (j + (?n - r_rr_index s mod ?n)) mod ?n"
  have "(r_rr_index s + m) mod ?n = (r_rr_index s mod ?n + (j + (?n - r_rr_index s mod ?n))) mod ?n"
    unfolding m_def by (simp only: mod_add_left_eq mod_add_right_eq)
  also have "r_rr_index s mod ?n + (j + (?n - r_rr_index s mod ?n)) = j + ?n"
    using assms(2) mod_less_divisor [of ?n "r_rr_index s"] by linarith
  finally have "(r_rr_index s + m) mod ?n = j" using assms(2) by simp
  moreover have "m < ?n" using assms(2) unfolding m_def by (intro mod_less_divisor) linarith
  ultimately show False
    using assms ready by (auto simp: find_next_ready_transaction_def Let_def find_None_iff split: if_splits)
qed

lemma selected_ready:
  assumes "r_selected_idx (select_read_transaction s) = Some j"
  shows "j < length (r_transactions s)" and "read_ready (r_transactions s ! j)"
  using assms find_next_Some [of s j]
  by (auto simp: select_read_transaction_def Let_def split: option.splits if_splits)

lemma selected_active:
  assumes "read_inv s" and "r_active_idx s = Some a"
  shows "r_selected_idx (select_read_transaction s) = Some a"
  using assms
  by (auto simp: read_inv_def select_read_transaction_def Let_def read_ready_def list_all_length read_txn_ok_def)

section \<open>One cycle\<close>

text \<open>No write stage touches the read state or the wires.\<close>

definition read_part :: "sim_ddr \<Rightarrow> _" where
  "read_part s = (r_transactions s, r_active_idx s, r_rr_index s, r_selected_idx s,
     backend_read_grant s, ddr_io s)"

lemma read_part_seq_cooldowns [simp]: "read_part (seq_cooldowns s) = read_part s"
  by (simp add: read_part_def seq_cooldowns_def Let_def split: option.splits prod.splits)

lemma read_part_seq_b_handshake [simp]: "read_part (seq_b_handshake s) = read_part s"
  by (simp add: read_part_def seq_b_handshake_def Let_def split: option.splits prod.splits)

lemma read_part_seq_age_responses [simp]: "read_part (seq_age_responses s) = read_part s"
  by (simp add: read_part_def seq_age_responses_def Let_def split: option.splits prod.splits)

lemma read_part_seq_aw_handshake [simp]: "read_part (seq_aw_handshake s) = read_part s"
  by (simp add: read_part_def seq_aw_handshake_def Let_def split: option.splits prod.splits)

lemma read_part_seq_w_handshake [simp]: "read_part (seq_w_handshake k s) = read_part s"
  by (simp add: read_part_def seq_w_handshake_def Let_def split: option.splits prod.splits)

lemma read_part_seq_enter_drain [simp]: "read_part (seq_enter_drain k s) = read_part s"
  by (simp add: read_part_def seq_enter_drain_def Let_def split: option.splits prod.splits)

lemma read_part_seq_drain_beat [simp]: "read_part (seq_drain_beat k s) = read_part s"
  by (simp add: read_part_def seq_drain_beat_def Let_def split: option.splits prod.splits)

lemma read_part_retire_completed_writes [simp]: "read_part (retire_completed_writes s) = read_part s"
  by (simp add: read_part_def retire_completed_writes_def Let_def split: option.splits prod.splits)

lemma read_part_seq_leave_drain [simp]: "read_part (seq_leave_drain k s) = read_part s"
  by (simp add: read_part_def seq_leave_drain_def Let_def split: option.splits prod.splits)

lemma read_part_seq_write_debug [simp]: "read_part (seq_write_debug s) = read_part s"
  by (simp add: read_part_def seq_write_debug_def Let_def split: option.splits prod.splits)

lemma read_part_write: "read_part (ddr_seq_write k s) = read_part s"
  by (simp add: ddr_seq_write_def)

lemma ddr_seq_write_frame [simp]:
  "r_transactions (ddr_seq_write k s) = r_transactions s"
  "r_active_idx (ddr_seq_write k s) = r_active_idx s"
  "r_rr_index (ddr_seq_write k s) = r_rr_index s"
  "r_selected_idx (ddr_seq_write k s) = r_selected_idx s"
  "backend_read_grant (ddr_seq_write k s) = backend_read_grant s"
  "ddr_io (ddr_seq_write k s) = ddr_io s"
  using read_part_write [of k s] by (simp_all add: read_part_def)

lemma compact_none [simp]:
  "compact_reads src ts None = (filter (\<lambda>t. \<not> rt_complete t) ts, None)"
  by (induction ts arbitrary: src) auto

lemma compact_incomplete:
  "list_all (\<lambda>t. \<not> rt_complete t) ts \<Longrightarrow> compact_reads src ts a = (ts, a)"
  by (induction ts arbitrary: src) auto

lemma age_fields [simp]:
  "rt_complete (age_read_txn k t) = rt_complete t"
  "rt_beat_cnt (age_read_txn k t) = rt_beat_cnt t"
  "rt_len (age_read_txn k t) = rt_len t"
  "read_burst_of (age_read_txn k t) = read_burst_of t"
  "rt_in_data_phase t \<Longrightarrow> rt_in_data_phase (age_read_txn k t)"
  by (simp_all add: age_read_txn_def Let_def read_burst_of_def)

definition bump :: "read_txn \<Rightarrow> read_txn" where
  "bump t = t\<lparr>rt_beat_cnt := rt_beat_cnt t + 1\<rparr>"

lemma bump_fields [simp]:
  "rt_complete (bump t) = rt_complete t" "rt_len (bump t) = rt_len t"
  "read_burst_of (bump t) = read_burst_of t" "rt_in_data_phase (bump t) = rt_in_data_phase t"
  by (simp_all add: bump_def read_burst_of_def)

definition arrived :: "kit_config \<Rightarrow> axi_io \<Rightarrow> sim_ddr \<Rightarrow> read_txn list" where
  "arrived k i s = r_transactions s @ map new_read_txn (ar_taken k i s)"

lemma new_read_ready: "new_read_txn (ar\<lparr>arready := b\<rparr>) = new_read_txn ar"
  by (simp add: new_read_txn_def)

lemma seq_ar_eq:
  "r_transactions (seq_ar_handshake (ddr_seq_write k (ddr_sampled k i s))) = arrived k i s"
  "r_active_idx (seq_ar_handshake s1) = r_active_idx s1"
  "r_selected_idx (seq_ar_handshake s1) = r_selected_idx s1"
  "backend_read_grant (seq_ar_handshake s1) = backend_read_grant s1"
  "ddr_io (seq_ar_handshake s1) = ddr_io s1"
  "r_rr_index (seq_ar_handshake s1) = r_rr_index s1"
  by (simp_all add: seq_ar_handshake_def arrived_def ar_taken_def new_read_ready)

text \<open>The list before compaction.\<close>

definition r_stage :: "kit_config \<Rightarrow> axi_io \<Rightarrow> sim_ddr \<Rightarrow> read_txn list \<times> nat option" where
  "r_stage k i s =
     (let sel = the (r_selected_idx (select_read_transaction s));
          ts = arrived k i s
      in if r_fires (ddr_io (ddr_sampled k i s))
         then if rlast (io_r (ddr_io (ddr_sampled k i s)))
              then (ts[sel := (bump (ts ! sel))\<lparr>rt_complete := True\<rparr>], None)
              else (ts[sel := bump (ts ! sel)], Some sel)
         else (ts, r_active_idx s))"

lemma seq_r_eq:
  "(r_transactions (seq_r_handshake (seq_ar_handshake (ddr_seq_write k (ddr_sampled k i s)))),
    r_active_idx (seq_r_handshake (seq_ar_handshake (ddr_seq_write k (ddr_sampled k i s))))) = r_stage k i s"
proof (cases "r_fires (ddr_io (ddr_sampled k i s))")
  case True
  then have g: "backend_read_grant (ddr_sampled k i s)" by (simp add: r_fires_grant)
  then obtain j where j: "r_selected_idx (select_read_transaction s) = Some j"
    using read_grant_selected [of k i s] by (auto simp: sampled_grants)
  show ?thesis
    using True g j by (simp add: seq_r_handshake_def seq_ar_eq r_stage_def Let_def sampled_grants(4) bump_def)
next
  case False
  then show ?thesis
    by (simp add: seq_r_handshake_def seq_ar_eq r_stage_def Let_def split: option.splits)
qed

lemma cycle_reads:
  "(r_transactions (ddr_cycle k i s), r_active_idx (ddr_cycle k i s)) =
     (case r_stage k i s of (ts, act) \<Rightarrow>
       case compact_reads 0 (map (age_read_txn k) ts) act of (kept, act') \<Rightarrow>
         (kept, case act' of Some a \<Rightarrow> if a \<ge> length kept then None else Some a | None \<Rightarrow> None))"
  unfolding seq_r_eq [symmetric]
  by (simp add: ddr_cycle_def ddr_seq_def ddr_seq_read_def seq_fix_indices_def seq_compact_reads_def
      seq_age_reads_def split: prod.splits option.splits)

lemma filter_update_done:
  assumes "list_all (\<lambda>t. \<not> rt_complete t) ts" and "j < length ts" and "rt_complete c"
  shows "filter (\<lambda>t. \<not> rt_complete t) (ts[j := c]) = take j ts @ drop (Suc j) ts"
proof -
  have "list_all (\<lambda>t. \<not> rt_complete t) (take j ts)" "list_all (\<lambda>t. \<not> rt_complete t) (drop (Suc j) ts)"
    using assms(1) by (auto simp: list_all_iff dest: in_set_takeD in_set_dropD)
  then show ?thesis using assms(2,3)
    by (simp add: upd_conv_take_nth_drop list_all_iff)
qed

lemma arrived_incomplete:
  "read_inv s \<Longrightarrow> list_all (\<lambda>t. \<not> rt_complete t) (arrived k i s)"
  by (auto simp: arrived_def read_inv_def read_txn_ok_def list_all_iff new_read_txn_def)

lemma fires_selected:
  assumes "r_fires (ddr_io (ddr_sampled k i s))"
  obtains j where "r_selected_idx (select_read_transaction s) = Some j" "j < length (r_transactions s)"
    "chosen_read s = r_transactions s ! j" "read_ready (r_transactions s ! j)"
proof -
  from assms have "backend_read_grant (ddr_sampled k i s)" by (simp add: r_fires_grant)
  then obtain j where "r_selected_idx (select_read_transaction s) = Some j"
    using read_grant_selected [of k i s] by (auto simp: sampled_grants)
  with that selected_ready [of s j] show ?thesis by (auto simp: chosen_read_def)
qed

lemma cycle_reads_last:
  assumes "read_inv s" and "r_fires (ddr_io (ddr_sampled k i s))" and "rlast (io_r (ddr_io (ddr_sampled k i s)))"
    and "r_selected_idx (select_read_transaction s) = Some j"
  shows "r_transactions (ddr_cycle k i s) =
      map (age_read_txn k) (take j (arrived k i s) @ drop (Suc j) (arrived k i s))"
    and "r_active_idx (ddr_cycle k i s) = None"
proof -
  have j: "j < length (arrived k i s)" using selected_ready(1) [OF assms(4)] by (simp add: arrived_def)
  let ?c = "(bump (arrived k i s ! j))\<lparr>rt_complete := True\<rparr>"
  have "filter (\<lambda>t. \<not> rt_complete t) (map (age_read_txn k) ((arrived k i s)[j := ?c])) =
      map (age_read_txn k) (take j (arrived k i s) @ drop (Suc j) (arrived k i s))"
    using filter_update_done [OF arrived_incomplete [OF assms(1)] j, of ?c]
    by (simp only: filter_map o_def age_fields) simp
  then have "(r_transactions (ddr_cycle k i s), r_active_idx (ddr_cycle k i s)) =
      (map (age_read_txn k) (take j (arrived k i s) @ drop (Suc j) (arrived k i s)), None)"
    using assms by (simp add: cycle_reads r_stage_def Let_def)
  then show "r_transactions (ddr_cycle k i s) =
      map (age_read_txn k) (take j (arrived k i s) @ drop (Suc j) (arrived k i s))"
    and "r_active_idx (ddr_cycle k i s) = None" by simp_all
qed

lemma cycle_reads_more:
  assumes "read_inv s" and "r_fires (ddr_io (ddr_sampled k i s))" and "\<not> rlast (io_r (ddr_io (ddr_sampled k i s)))"
    and "r_selected_idx (select_read_transaction s) = Some j"
  shows "r_transactions (ddr_cycle k i s) =
      map (age_read_txn k) ((arrived k i s)[j := bump (arrived k i s ! j)])"
    and "r_active_idx (ddr_cycle k i s) = Some j"
proof -
  have j: "j < length (arrived k i s)" using selected_ready(1) [OF assms(4)] by (simp add: arrived_def)
  have "list_all (\<lambda>t. \<not> rt_complete t) ((arrived k i s)[j := bump (arrived k i s ! j)])"
    using arrived_incomplete [OF assms(1)] j by (intro list_all_update) (auto simp: list_all_length)
  then have "list_all (\<lambda>t. \<not> rt_complete t) (map (age_read_txn k) ((arrived k i s)[j := bump (arrived k i s ! j)]))"
    by (simp add: list_all_iff)
  note c = compact_incomplete [OF this]
  have "(r_transactions (ddr_cycle k i s), r_active_idx (ddr_cycle k i s)) =
      (map (age_read_txn k) ((arrived k i s)[j := bump (arrived k i s ! j)]), Some j)"
    using assms j by (simp add: cycle_reads r_stage_def Let_def c)
  then show "r_transactions (ddr_cycle k i s) =
      map (age_read_txn k) ((arrived k i s)[j := bump (arrived k i s ! j)])"
    and "r_active_idx (ddr_cycle k i s) = Some j" by simp_all
qed

lemma cycle_reads_idle:
  assumes "read_inv s" and "\<not> r_fires (ddr_io (ddr_sampled k i s))"
  shows "r_transactions (ddr_cycle k i s) = map (age_read_txn k) (arrived k i s)"
    and "r_active_idx (ddr_cycle k i s) = r_active_idx s"
proof -
  have "list_all (\<lambda>t. \<not> rt_complete t) (map (age_read_txn k) (arrived k i s))"
    using arrived_incomplete [OF assms(1)] by (simp add: list_all_iff)
  note c = compact_incomplete [OF this]
  have "(r_transactions (ddr_cycle k i s), r_active_idx (ddr_cycle k i s)) =
      (map (age_read_txn k) (arrived k i s), r_active_idx s)"
  proof (cases "r_active_idx s")
    case None
    then show ?thesis using assms(2) c by (simp add: cycle_reads r_stage_def Let_def)
  next
    case (Some a)
    then have "a < length (arrived k i s)" using assms(1) by (simp add: read_inv_def arrived_def)
    then show ?thesis using assms(2) c Some by (simp add: cycle_reads r_stage_def Let_def)
  qed
  then show "r_transactions (ddr_cycle k i s) = map (age_read_txn k) (arrived k i s)"
    and "r_active_idx (ddr_cycle k i s) = r_active_idx s" by simp_all
qed

section \<open>The read invariant\<close>

lemma read_txn_ok_age [simp]: "read_txn_ok (age_read_txn k t) = read_txn_ok t"
  by (simp add: read_txn_ok_def)

lemma arrived_ok: "read_inv s \<Longrightarrow> list_all read_txn_ok (arrived k i s)"
proof -
  assume "read_inv s"
  then have "list_all read_txn_ok (r_transactions s)" by (simp add: read_inv_def)
  moreover have "read_txn_ok (new_read_txn ar)" for ar by (simp add: read_txn_ok_def new_read_txn_def)
  ultimately show ?thesis by (simp add: arrived_def list_all_iff ball_Un)
qed

lemma arrived_nth: "j < length (r_transactions s) \<Longrightarrow> arrived k i s ! j = r_transactions s ! j"
  by (simp add: arrived_def nth_append)

lemma arrived_fresh:
  assumes "read_inv s" and "n < length (arrived k i s)" and "rt_beat_cnt (arrived k i s ! n) \<noteq> 0"
  shows "r_active_idx s = Some n"
proof (cases "n < length (r_transactions s)")
  case True
  with assms(3) have "rt_beat_cnt (r_transactions s ! n) \<noteq> 0" by (simp add: arrived_nth)
  with True assms(1) show ?thesis unfolding read_inv_def by blast
next
  case False
  then have "rt_beat_cnt (arrived k i s ! n) = 0"
    using assms(2) by (simp add: arrived_def nth_append new_read_txn_def)
  with assms(3) show ?thesis by simp
qed

lemma idle_others:
  assumes "read_inv s" and "r_selected_idx (select_read_transaction s) = Some j"
    and "n < length (arrived k i s)" and "n \<noteq> j"
  shows "rt_beat_cnt (arrived k i s ! n) = 0"
proof (rule ccontr)
  assume "rt_beat_cnt (arrived k i s ! n) \<noteq> 0"
  then have "r_active_idx s = Some n" by (rule arrived_fresh [OF assms(1,3)])
  with selected_active [OF assms(1)] assms(2,4) show False by force
qed

lemma bump_ok:
  assumes "read_txn_ok t" and "rt_beat_cnt t \<noteq> rt_len t"
  shows "read_txn_ok (bump t)" and "unat (rt_beat_cnt (bump t)) = Suc (unat (rt_beat_cnt t))"
proof -
  have lt: "rt_beat_cnt t < rt_len t" using assms by (simp add: read_txn_ok_def order_less_le)
  then have "rt_beat_cnt t \<noteq> - 1" by (metis not_less word_order.extremum)
  then show u: "unat (rt_beat_cnt (bump t)) = Suc (unat (rt_beat_cnt t))"
    by (simp add: bump_def unat_add_one)
  from lt u show "read_txn_ok (bump t)"
    using assms(1) by (simp add: read_txn_ok_def word_le_nat_alt word_less_nat_alt)
qed

lemma read_inv_tick:
  assumes inv: "read_inv s"
  shows "read_inv (ddr_cycle k i s)"
proof (cases "r_fires (ddr_io (ddr_sampled k i s))")
  case False
  let ?ts = "arrived k i s"
  show ?thesis
    unfolding read_inv_def cycle_reads_idle [OF inv False] length_map
  proof (intro conjI allI impI)
    show "list_all read_txn_ok (map (age_read_txn k) ?ts)"
      using arrived_ok [OF inv, of k i] by (simp add: list_all_iff)
  next
    fix a assume a: "r_active_idx s = Some a"
    then have "a < length (r_transactions s)" "rt_in_data_phase (r_transactions s ! a)"
      using inv by (simp_all add: read_inv_def)
    then show "a < length ?ts" "rt_in_data_phase (map (age_read_txn k) ?ts ! a)"
      by (simp_all add: arrived_def nth_append)
  next
    fix n assume "n < length ?ts" "rt_beat_cnt (map (age_read_txn k) ?ts ! n) \<noteq> 0"
    then show "r_active_idx s = Some n" by (intro arrived_fresh [OF inv]) simp_all
  qed
next
  case True
  then obtain j where j: "r_selected_idx (select_read_transaction s) = Some j"
    "j < length (r_transactions s)" "chosen_read s = r_transactions s ! j" "read_ready (r_transactions s ! j)"
    by (rule fires_selected)
  let ?ts = "arrived k i s"
  have jl: "j < length ?ts" using j(2) by (simp add: arrived_def)
  note others = idle_others [OF inv j(1)]
  show ?thesis
  proof (cases "rlast (io_r (ddr_io (ddr_sampled k i s)))")
    case last: True
    have "list_all read_txn_ok (take j ?ts @ drop (Suc j) ?ts)"
      using arrived_ok [OF inv, of k i] by (auto simp: list_all_iff dest: in_set_takeD in_set_dropD)
    moreover have "rt_beat_cnt ((take j ?ts @ drop (Suc j) ?ts) ! n) = 0"
      if "n < length (take j ?ts @ drop (Suc j) ?ts)" for n
      using that others [of n k i] others [of "Suc n" k i] jl
      by (cases "n < j") (simp_all add: nth_append)
    moreover define us where "us = take j ?ts @ drop (Suc j) ?ts"
    ultimately have "list_all read_txn_ok us" "\<And>n. n < length us \<Longrightarrow> rt_beat_cnt (us ! n) = 0"
      by blast+
    then show ?thesis
      unfolding read_inv_def cycle_reads_last [OF inv True last j(1)] us_def [symmetric]
      by (simp add: list_all_iff)
  next
    case more: False
    let ?us = "?ts[j := bump (?ts ! j)]"
    have ne: "rt_beat_cnt (?ts ! j) \<noteq> rt_len (?ts ! j)"
      using more True j(2) by (simp add: sampled_r r_fires_grant j(3) arrived_nth)
    have "read_txn_ok (?ts ! j)" using arrived_ok [OF inv] jl by (simp add: list_all_length)
    from bump_ok(1) [OF this ne] arrived_ok [OF inv, of k i]
    have ok: "list_all read_txn_ok ?us" by (simp add: list_all_update)
    have phase: "rt_in_data_phase (?ts ! j)" using j(2,4) by (simp add: arrived_nth read_ready_def)
    show ?thesis
      unfolding read_inv_def cycle_reads_more [OF inv True more j(1)] length_map
    proof (intro conjI allI impI)
      show "list_all read_txn_ok (map (age_read_txn k) ?us)" using ok by (simp add: list_all_iff)
    next
      fix a assume "Some j = Some a"
      with jl phase show "a < length ?us" "rt_in_data_phase (map (age_read_txn k) ?us ! a)" by auto
    next
      fix n assume n: "n < length ?us" "rt_beat_cnt (map (age_read_txn k) ?us ! n) \<noteq> 0"
      show "Some j = Some n"
      proof (rule ccontr)
        assume "Some j \<noteq> Some n"
        with n have "rt_beat_cnt (?ts ! n) \<noteq> 0" "n < length ?ts" "n \<noteq> j" by simp_all
        with others [of n k i] show False by blast
      qed
    qed
  qed
qed

interpretation ddr_reads: clocked_machine "ddr_reset m" "ddr_cycle k" "\<lambda>_ _. True" read_inv for k m
  by unfold_locales (simp_all add: read_inv_tick, simp add: read_inv_def ddr_reset_def ddr_init_def)

section \<open>The views\<close>

lemma length_burst_beats: "length (burst_beats (read_burst_of t)) = Suc (unat (rt_len t))"
  by (simp add: read_burst_of_def)

lemma nth_burst_beats:
  assumes "rt_beat_cnt t \<le> rt_len t"
  shows "burst_beats (read_burst_of t) ! unat (rt_beat_cnt t) =
    (rt_id t, read_beat_addr t, rt_beat_cnt t = rt_len t)"
proof -
  have "unat (rt_beat_cnt t) < Suc (unat (rt_len t))"
    using assms by (simp add: word_le_nat_alt)
  then have "[0..<Suc (unat (rt_len t))] ! unat (rt_beat_cnt t) = unat (rt_beat_cnt t)"
    by (simp del: upt_Suc)
  with \<open>unat (rt_beat_cnt t) < _\<close> show ?thesis
    by (simp add: read_burst_of_def read_beat_addr_def word_unat_eq_iff del: upt_Suc)
qed

lemma given_beat:
  assumes "r_fires (ddr_io (ddr_sampled k i s))"
  shows "r_given k i s = [(rt_id (chosen_read s), read_beat_addr (chosen_read s),
     rt_beat_cnt (chosen_read s) = rt_len (chosen_read s))]"
    and "rlast (io_r (ddr_io (ddr_sampled k i s))) \<longleftrightarrow> rt_beat_cnt (chosen_read s) = rt_len (chosen_read s)"
  using assms by (simp_all add: r_given_def sampled_r r_fires_grant)

lemma partial_chosen:
  assumes "read_inv s" and "r_selected_idx (select_read_transaction s) = Some j"
  shows "partial_burst s = take (unat (rt_beat_cnt (r_transactions s ! j)))
     (burst_beats (read_burst_of (r_transactions s ! j)))"
proof (cases "r_active_idx s")
  case None
  have "rt_beat_cnt (r_transactions s ! j) = 0"
  proof (rule ccontr)
    assume "rt_beat_cnt (r_transactions s ! j) \<noteq> 0"
    with selected_ready(1) [OF assms(2)] assms(1) have "r_active_idx s = Some j"
      unfolding read_inv_def by blast
    with None show False by simp
  qed
  with None show ?thesis by (simp add: partial_burst_def)
next
  case (Some a)
  from selected_active [OF assms(1) Some] assms(2) Some show ?thesis by (simp add: partial_burst_def)
qed

lemma partial_tick:
  assumes inv: "read_inv s"
  shows "partial_burst s @ r_given k i s =
    concat (map burst_beats (reads_finished k i s)) @ partial_burst (ddr_cycle k i s)"
proof (cases "r_fires (ddr_io (ddr_sampled k i s))")
  case False
  have "partial_burst (ddr_cycle k i s) = partial_burst s"
  proof (cases "r_active_idx s")
    case (Some a)
    then have "a < length (r_transactions s)" using read_inv_active [OF inv] by blast
    with Some show ?thesis
      by (simp add: partial_burst_def cycle_reads_idle [OF inv False] arrived_def nth_append)
  qed (simp add: partial_burst_def cycle_reads_idle [OF inv False])
  with False show ?thesis by (simp add: r_given_def reads_finished_def)
next
  case True
  then obtain j where j: "r_selected_idx (select_read_transaction s) = Some j"
    "j < length (r_transactions s)" "chosen_read s = r_transactions s ! j" "read_ready (r_transactions s ! j)"
    by (rule fires_selected)
  let ?t = "chosen_read s"
  let ?bs = "burst_beats (read_burst_of ?t)" and ?n = "unat (rt_beat_cnt ?t)"
  have ok: "read_txn_ok ?t" unfolding j(3) by (rule read_inv_ok [OF inv j(2)])
  then have le: "rt_beat_cnt ?t \<le> rt_len ?t" by (simp add: read_txn_ok_def)
  have p: "partial_burst s = take ?n ?bs" unfolding j(3) by (rule partial_chosen [OF inv j(1)])
  have n: "?n < length ?bs" using le by (simp only: length_burst_beats word_le_nat_alt less_Suc_eq_le)
  have g: "partial_burst s @ r_given k i s = take (Suc ?n) ?bs"
    unfolding p given_beat(1) [OF True] take_Suc_conv_app_nth [OF n] nth_burst_beats [OF le] by (rule refl)
  show ?thesis
  proof (cases "rt_beat_cnt ?t = rt_len ?t")
    case last: True
    have l: "rlast (io_r (ddr_io (ddr_sampled k i s)))" using last given_beat(2) [OF True] by blast
    have "take (Suc ?n) ?bs = ?bs" unfolding last by (rule take_all) (simp only: length_burst_beats le_refl)
    moreover have "partial_burst (ddr_cycle k i s) = []"
      by (simp add: partial_burst_def cycle_reads_last(2) [OF inv True l j(1)])
    ultimately show ?thesis using g l True by (simp add: reads_finished_def)
  next
    case more: False
    have l: "\<not> rlast (io_r (ddr_io (ddr_sampled k i s)))" using more given_beat(2) [OF True] by blast
    have "partial_burst (ddr_cycle k i s) = take (Suc ?n) ?bs"
      using bump_ok(2) [OF ok more] j(2)
      by (simp add: partial_burst_def cycle_reads_more [OF inv True l j(1)] arrived_def nth_append flip: j(3))
    with g l True show ?thesis by (simp add: reads_finished_def)
  qed
qed

lemma bursts_tick:
  assumes inv: "read_inv s"
  shows "mset (reads_finished k i s) + mset (map read_burst_of (r_transactions (ddr_cycle k i s))) =
    mset (map read_burst_of (r_transactions s)) + mset (map ar_burst (ar_taken k i s))"
proof -
  have a: "map read_burst_of (arrived k i s) = map read_burst_of (r_transactions s) @ map ar_burst (ar_taken k i s)"
    by (simp add: arrived_def read_burst_of_def new_read_txn_def ar_burst_def)
  have age: "map read_burst_of (map (age_read_txn k) ts) = map read_burst_of ts" for ts by simp
  show ?thesis
  proof (cases "r_fires (ddr_io (ddr_sampled k i s))")
    case False
    then show ?thesis
      by (simp only: cycle_reads_idle [OF inv False] age a reads_finished_def) simp
  next
    case True
    then obtain j where j: "r_selected_idx (select_read_transaction s) = Some j"
      "j < length (r_transactions s)" "chosen_read s = r_transactions s ! j" "read_ready (r_transactions s ! j)"
      by (rule fires_selected)
    let ?ts = "arrived k i s"
    have jl: "j < length ?ts" and tj: "?ts ! j = chosen_read s"
      using j(2,3) by (simp_all add: arrived_def nth_append)
    show ?thesis
    proof (cases "rlast (io_r (ddr_io (ddr_sampled k i s)))")
      case last: True
      have "mset (map read_burst_of ?ts) =
          add_mset (read_burst_of (chosen_read s)) (mset (map read_burst_of (take j ?ts @ drop (Suc j) ?ts)))"
        by (subst id_take_nth_drop [OF jl]) (simp add: tj)
      with True last show ?thesis
        by (simp only: cycle_reads_last(1) [OF inv True last j(1)] age reads_finished_def a [symmetric]
            mset_append [symmetric]) simp
    next
      case more: False
      have "map read_burst_of (?ts[j := bump (?ts ! j)]) = map read_burst_of ?ts"
        using jl by (simp add: map_update) (metis list_update_id nth_map)
      with more show ?thesis
        by (simp only: cycle_reads_more(1) [OF inv True more j(1)] age a reads_finished_def) simp
    qed
  qed
qed

interpretation ddr_read_bursts:
  ledger_view "ddr_reset m" "ddr_cycle k" "\<lambda>_ _. True" read_inv
    "\<lambda>s. mset (map read_burst_of (r_transactions s))"
    "\<lambda>i s. map ar_burst (ar_taken k i s)" "reads_finished k" for k m
  by unfold_locales (simp add: ddr_reset_def ddr_init_def, rule bursts_tick)

interpretation ddr_read_beats:
  fifo_view "ddr_reset m" "ddr_cycle k" "\<lambda>_ _. True" read_inv
    partial_burst "r_given k" "\<lambda>i s. concat (map burst_beats (reads_finished k i s))" for k m
  by unfold_locales
    (simp add: partial_burst_def ddr_reset_def ddr_init_def, rule partial_tick [symmetric])

end
