(* ===== verification/DDR_Timing.thy ===== *)
theory DDR_Timing
  imports DDR_Writes DDR_Reads
begin

text \<open>
  Capacity and timing of the DDR model: the queues never outgrow their configured depths, a
  change of direction costs its turnaround, and a read that has the device to itself is
  answered after exactly the configured latency, one beat per cycle.
\<close>

section \<open>Capacities\<close>

definition ddr_bounds :: "kit_config \<Rightarrow> sim_ddr \<Rightarrow> bool" where
  "ddr_bounds k s \<longleftrightarrow>
     length (w_pending s) \<le> SIM_DDR_WRITE_QUEUE_DEPTH k \<and>
     length (w_data_fifo s) \<le> SIM_DDR_WRITE_DATA_FIFO_DEPTH k \<and>
     length (r_transactions s) \<le> SIM_DDR_MAX_OUTSTANDING k"

lemma after_length [simp]:
  "length (after_w io p) = length p" "length (after_drain g p) = length p"
  by (simp_all add: after_w_def after_drain_def split: option.splits)

lemma arrived_bound:
  "length (r_transactions s) \<le> SIM_DDR_MAX_OUTSTANDING k \<Longrightarrow>
   length (arrived k i s) \<le> SIM_DDR_MAX_OUTSTANDING k"
  by (simp add: arrived_def ar_taken_def ar_fires_def)

lemma reads_bound:
  assumes inv: "read_inv s" and "length (r_transactions s) \<le> SIM_DDR_MAX_OUTSTANDING k"
  shows "length (r_transactions (ddr_cycle k i s)) \<le> SIM_DDR_MAX_OUTSTANDING k"
proof -
  have b: "length (arrived k i s) \<le> SIM_DDR_MAX_OUTSTANDING k" by (rule arrived_bound [OF assms(2)])
  show ?thesis
  proof (cases "r_fires (ddr_io (ddr_sampled k i s))")
    case False
    with b show ?thesis by (simp add: cycle_reads_idle [OF inv])
  next
    case True
    then obtain j where j: "r_selected_idx (select_read_transaction s) = Some j" by (rule fires_selected)
    show ?thesis
      using b cycle_reads_last(1) [OF inv True _ j] cycle_reads_more(1) [OF inv True _ j]
      by (cases "rlast (io_r (ddr_io (ddr_sampled k i s)))") auto
  qed
qed

lemma writes_bound:
  assumes "ddr_bounds k s"
  shows "length (w_pending (ddr_cycle k i s)) \<le> SIM_DDR_WRITE_QUEUE_DEPTH k"
    and "length (w_data_fifo (ddr_cycle k i s)) \<le> SIM_DDR_WRITE_DATA_FIFO_DEPTH k"
proof -
  have "length (drained_pending k i s) \<le> SIM_DDR_WRITE_QUEUE_DEPTH k"
    using assms by (simp add: drained_pending_def Let_def after_aw_def aw_fires_def ddr_bounds_def)
  moreover have "length (dropWhile write_retirable p) \<le> length p" for p by (rule length_dropWhile_le)
  ultimately show "length (w_pending (ddr_cycle k i s)) \<le> SIM_DDR_WRITE_QUEUE_DEPTH k"
    by (simp add: cycle_writes retire_loop_split) (meson order_trans)
  have "length (w_data_fifo s @ beats_taken k i s) \<le> SIM_DDR_WRITE_DATA_FIFO_DEPTH k"
    using assms w_fires_target [of k i s] by (auto simp: beats_taken_def ddr_bounds_def)
  then show "length (w_data_fifo (ddr_cycle k i s)) \<le> SIM_DDR_WRITE_DATA_FIFO_DEPTH k"
    by (auto simp: cycle_writes)
qed

interpretation ddr_capacity:
  clocked_machine "ddr_reset m" "ddr_cycle k" "\<lambda>_ _. True" "\<lambda>s. read_inv s \<and> ddr_bounds k s" for k m
proof
  show "read_inv (ddr_reset m) \<and> ddr_bounds k (ddr_reset m)"
    using ddr_reads.inv_start by (simp add: ddr_bounds_def ddr_reset_def ddr_init_def)
  show "read_inv (ddr_cycle k i s) \<and> ddr_bounds k (ddr_cycle k i s)"
    if "read_inv s \<and> ddr_bounds k s" for i s
    using that writes_bound [of k s i] reads_bound [of s k i] read_inv_tick [of s k i]
    by (simp add: ddr_bounds_def)
qed

section \<open>Turnaround\<close>

definition grants_given :: "kit_config \<Rightarrow> axi_io \<Rightarrow> sim_ddr \<Rightarrow> backend_mode list" where
  "grants_given k i s =
     (if backend_read_grant (ddr_sampled k i s) then [ServiceRead] else []) @
     (if backend_write_grant (ddr_sampled k i s) then [ServiceWrite] else [])"

lemma seq_keeps_turnaround:
  "backend_turnaround_cooldown (ddr_seq_read k s) = backend_turnaround_cooldown s"
  "backend_any_request_pending (ddr_seq_read k s) = backend_any_request_pending s"
  "backend_switch_pending (ddr_seq_read k s) = backend_switch_pending s"
  "backend_last_service_mode (ddr_seq_read k s) = backend_last_service_mode s"
  "backend_switch_target_mode (ddr_seq_read k s) = backend_switch_target_mode s"
  "backend_write_grant (ddr_seq_read k s) = backend_write_grant s"
  by (simp_all add: ddr_seq_read_def seq_fix_indices_def seq_compact_reads_def seq_age_reads_def
      seq_r_handshake_def seq_ar_handshake_def Let_def split: option.splits prod.splits)

definition turn_part :: "sim_ddr \<Rightarrow> _" where
  "turn_part s = (backend_turnaround_cooldown s, backend_any_request_pending s,
     backend_switch_pending s, backend_last_service_mode s, backend_switch_target_mode s,
     backend_write_grant s)"

lemma turn_part_stages:
  "turn_part (seq_b_handshake s) = turn_part s"
  "turn_part (seq_age_responses s) = turn_part s"
  "turn_part (seq_aw_handshake s) = turn_part s"
  "turn_part (seq_enter_drain k s) = turn_part s"
  "turn_part (retire_completed_writes s) = turn_part s"
  "turn_part (seq_leave_drain k s) = turn_part s"
  "turn_part (seq_write_debug s) = turn_part s"
  by (simp_all add: turn_part_def seq_b_handshake_def seq_age_responses_def seq_aw_handshake_def
      seq_enter_drain_def retire_completed_writes_def seq_leave_drain_def seq_write_debug_def
      split: prod.splits)

lemma turn_part_w: "turn_part (seq_w_handshake k s) = turn_part s"
  by (simp add: turn_part_def seq_w_handshake_def Let_def split: option.splits)

lemma turn_part_drain: "turn_part (seq_drain_beat k s) = turn_part s"
  by (simp add: turn_part_def seq_drain_beat_def Let_def split: option.splits)

lemma seq_write_turnaround:
  "backend_turnaround_cooldown (ddr_seq_write k s) = backend_turnaround_cooldown s - 1"
  "backend_any_request_pending (ddr_seq_write k s) = backend_any_request_pending s"
  "backend_switch_pending (ddr_seq_write k s) = backend_switch_pending s"
  "backend_last_service_mode (ddr_seq_write k s) = backend_last_service_mode s"
  "backend_switch_target_mode (ddr_seq_write k s) = backend_switch_target_mode s"
  "backend_write_grant (ddr_seq_write k s) = backend_write_grant s"
proof -
  have "turn_part (ddr_seq_write k s) = turn_part (seq_cooldowns s)"
    by (simp add: ddr_seq_write_def turn_part_stages turn_part_w turn_part_drain)
  then show
    "backend_turnaround_cooldown (ddr_seq_write k s) = backend_turnaround_cooldown s - 1"
    "backend_any_request_pending (ddr_seq_write k s) = backend_any_request_pending s"
    "backend_switch_pending (ddr_seq_write k s) = backend_switch_pending s"
    "backend_last_service_mode (ddr_seq_write k s) = backend_last_service_mode s"
    "backend_switch_target_mode (ddr_seq_write k s) = backend_switch_target_mode s"
    "backend_write_grant (ddr_seq_write k s) = backend_write_grant s"
    by (simp_all add: turn_part_def seq_cooldowns_def)
qed

lemma sampled_switch:
  "backend_switch_pending (ddr_sampled k i s) \<Longrightarrow>
   backend_switch_target_mode (ddr_sampled k i s) = backend_desired k (select_read_transaction s)"
proof -
  assume "backend_switch_pending (ddr_sampled k i s)"
  then have "backend_switch_pending (update_backend_arbitration k (select_read_transaction s))"
    by (simp add: sampled_grants)
  then have "backend_switch_target_mode (update_backend_arbitration k (select_read_transaction s)) =
      backend_desired k (select_read_transaction s)"
    by (auto simp: update_backend_arbitration_def Let_def split: if_splits)
  then show ?thesis
    by (simp add: ddr_sampled_def ddr_comb_outputs_def comb_write_channel_def comb_read_channel_def Let_def)
qed

lemma sampled_any:
  "backend_switch_pending (ddr_sampled k i s) \<Longrightarrow> backend_any_request_pending (ddr_sampled k i s)"
proof -
  assume "backend_switch_pending (ddr_sampled k i s)"
  then have "backend_switch_pending (update_backend_arbitration k (select_read_transaction s))"
    by (simp add: sampled_grants)
  then have "backend_any_request_pending (update_backend_arbitration k (select_read_transaction s))"
    by (auto simp: update_backend_arbitration_def Let_def split: if_splits)
  then show ?thesis
    by (simp add: ddr_sampled_def ddr_comb_outputs_def comb_write_channel_def comb_read_channel_def Let_def)
qed

lemma switch_cycle:
  assumes "backend_switch_pending (ddr_sampled k i s)"
  shows "backend_turnaround_cooldown (ddr_cycle k i s) =
      turnaround_cycles k (backend_last_service_mode s) (backend_desired k (select_read_transaction s))"
    and "grants_given k i s = []"
proof -
  show "backend_turnaround_cooldown (ddr_cycle k i s) =
      turnaround_cycles k (backend_last_service_mode s) (backend_desired k (select_read_transaction s))"
    using assms sampled_any [OF assms] sampled_switch [OF assms]
    by (simp add: ddr_cycle_def ddr_seq_def seq_backend_mode_def seq_keeps_turnaround seq_write_turnaround)
  show "grants_given k i s = []"
    using assms unfolding grants_given_def sampled_grants arbitration_grants by auto
qed

lemma cooldown_cycle:
  assumes "backend_turnaround_cooldown s \<noteq> 0"
  shows "backend_turnaround_cooldown (ddr_cycle k i s) = backend_turnaround_cooldown s - 1"
    and "grants_given k i s = []"
proof -
  have sw: "\<not> backend_switch_pending (ddr_sampled k i s)"
    using assms unfolding sampled_grants arbitration_grants by auto
  show "backend_turnaround_cooldown (ddr_cycle k i s) = backend_turnaround_cooldown s - 1"
    using sw
    by (simp add: ddr_cycle_def ddr_seq_def seq_backend_mode_def seq_keeps_turnaround seq_write_turnaround)
  show "grants_given k i s = []"
    using assms unfolding grants_given_def sampled_grants arbitration_grants by auto
qed

lemma cooldown_run:
  "length is \<le> backend_turnaround_cooldown s \<Longrightarrow> collect (grants_given k) (ddr_cycle k) is s = []"
proof (induction "is" arbitrary: s)
  case (Cons i "is")
  then have "backend_turnaround_cooldown s \<noteq> 0" by auto
  from cooldown_cycle [OF this, of k i] Cons show ?case by simp
qed simp

section \<open>The latency of a lone read\<close>

definition ar_request :: "read_burst \<Rightarrow> axi_io \<Rightarrow> axi_io" where
  "ar_request b io = (case b of (i, a, l, sz) \<Rightarrow>
     io\<lparr>io_ar := \<lparr>arvalid = True, arready = False, arid = i, araddr = a, arlen = l, arsize = sz,
                  arburst = AXI_BURST_INCR\<rparr>\<rparr>)"

text \<open>The other wires of a master that only reads and always takes its data.\<close>

definition reader_idle :: axi_io where
  "reader_idle = axi_io_zero\<lparr>io_r := (io_r axi_io_zero)\<lparr>rready := True\<rparr>\<rparr>"

text \<open>The device with nothing but the transaction \<open>t\<close> in it.\<close>

definition alone :: "read_txn \<Rightarrow> sim_ddr \<Rightarrow> bool" where
  "alone t s \<longleftrightarrow> r_transactions s = [t] \<and> r_rr_index s = 0 \<and>
     r_active_idx s = (if rt_beat_cnt t = 0 then None else Some 0) \<and>
     w_pending s = [] \<and> w_data_fifo s = [] \<and> backend_turnaround_cooldown s = 0 \<and>
     backend_last_service_mode s \<noteq> ServiceWrite"

lemma no_write_service: "w_data_fifo s = [] \<Longrightarrow> \<not> backend_write_ready (select_read_transaction s)"
  by (simp add: backend_write_ready_def)

lemma alone_inv: "alone t s \<Longrightarrow> read_txn_ok t \<Longrightarrow> (rt_beat_cnt t \<noteq> 0 \<longrightarrow> rt_in_data_phase t) \<Longrightarrow> read_inv s"
  by (auto simp: alone_def read_inv_def)

lemma alone_selected:
  assumes "alone t s" and "read_txn_ok t" and "rt_beat_cnt t \<noteq> 0 \<longrightarrow> rt_in_data_phase t"
  shows "r_selected_idx (select_read_transaction s) = (if rt_in_data_phase t then Some 0 else None)"
  using assms
  by (auto simp: alone_def select_read_transaction_def find_next_ready_transaction_def read_ready_def
      read_txn_ok_def Let_def)

lemma alone_grants:
  assumes "alone t s" and "read_txn_ok t" and "rt_beat_cnt t \<noteq> 0 \<longrightarrow> rt_in_data_phase t"
  shows "backend_read_grant (ddr_sampled k i s) \<longleftrightarrow> rt_in_data_phase t"
    and "\<not> backend_write_grant (ddr_sampled k i s)"
    and "\<not> backend_switch_pending (ddr_sampled k i s)"
proof -
  let ?s = "select_read_transaction s"
  have sel: "r_selected_idx ?s = (if rt_in_data_phase t then Some 0 else None)"
    by (rule alone_selected [OF assms])
  have nw: "\<not> backend_write_ready ?s" using assms(1) by (intro no_write_service) (simp add: alone_def)
  have mode: "backend_last_service_mode s \<noteq> ServiceWrite" "backend_turnaround_cooldown s = 0"
    using assms(1) by (simp_all add: alone_def)
  have des: "backend_desired k ?s = (if rt_in_data_phase t then ServiceRead else ServiceNone)"
    using sel nw by (simp add: backend_desired_def Let_def)
  have sw: "rt_in_data_phase t \<Longrightarrow> \<not> switch_needed k ?s"
    using mode des by (cases "backend_last_service_mode s") (simp_all add: switch_needed_def)
  show "backend_read_grant (ddr_sampled k i s) \<longleftrightarrow> rt_in_data_phase t"
    using sel mode des sw by (auto simp: sampled_grants arbitration_grants)
  show "\<not> backend_write_grant (ddr_sampled k i s)"
    using des by (simp add: sampled_grants arbitration_grants)
  show "\<not> backend_switch_pending (ddr_sampled k i s)"
    using sel nw des sw by (auto simp: sampled_grants arbitration_grants)
qed

lemma quiet_modes:
  assumes "\<not> backend_switch_pending (ddr_sampled k i s)" and "\<not> backend_write_grant (ddr_sampled k i s)"
    and "backend_turnaround_cooldown s = 0" and "backend_last_service_mode s \<noteq> ServiceWrite"
  shows "backend_turnaround_cooldown (ddr_cycle k i s) = 0"
    and "backend_last_service_mode (ddr_cycle k i s) \<noteq> ServiceWrite"
  using assms
  by (simp_all add: ddr_cycle_def ddr_seq_def seq_backend_mode_def seq_keeps_turnaround seq_write_turnaround)

lemma quiet_writes:
  assumes "w_pending s = []" and "w_data_fifo s = []" and "\<not> awvalid (io_aw i)" and "\<not> wvalid (io_w i)"
    and "\<not> backend_write_grant (ddr_sampled k i s)"
  shows "w_pending (ddr_cycle k i s) = []" and "w_data_fifo (ddr_cycle k i s) = []"
  using assms
  by (simp_all add: cycle_writes retire_loop_split drained_pending_def Let_def after_aw_def
      after_w_idle after_drain_idle aw_fires_def w_fires_def beats_taken_def)

lemma quiet_rr:
  assumes "r_rr_index s = 0"
    and "r_fires (ddr_io (ddr_sampled k i s)) \<longrightarrow> \<not> rlast (io_r (ddr_io (ddr_sampled k i s)))"
  shows "r_rr_index (ddr_cycle k i s) = 0"
proof -
  have "r_rr_index (seq_r_handshake (seq_ar_handshake (ddr_seq_write k (ddr_sampled k i s)))) = 0"
    using assms by (auto simp: seq_r_handshake_def seq_ar_eq Let_def split: option.splits)
  then show ?thesis
    by (simp add: ddr_cycle_def ddr_seq_def ddr_seq_read_def seq_fix_indices_def seq_compact_reads_def
        seq_age_reads_def split: prod.splits)
qed

lemma alone_tick:
  assumes al: "alone t s" and ok: "read_txn_ok t" and ph: "rt_beat_cnt t \<noteq> 0 \<longrightarrow> rt_in_data_phase t"
  shows "r_given k reader_idle s = (if rt_in_data_phase t then [burst_beats (read_burst_of t) ! unat (rt_beat_cnt t)] else [])"
    and "\<not> rt_in_data_phase t \<Longrightarrow> alone (age_read_txn k t) (ddr_cycle k reader_idle s)"
    and "rt_in_data_phase t \<Longrightarrow> rt_beat_cnt t \<noteq> rt_len t \<Longrightarrow>
      alone (age_read_txn k (bump t)) (ddr_cycle k reader_idle s)"
proof -
  note inv = alone_inv [OF al ok ph]
  note gr = alone_grants [OF al ok ph, of k reader_idle]
  have fires: "r_fires (ddr_io (ddr_sampled k reader_idle s)) \<longleftrightarrow> rt_in_data_phase t"
    using gr(1) by (simp add: r_fires_grant reader_idle_def)
  have sel: "r_selected_idx (select_read_transaction s) = (if rt_in_data_phase t then Some 0 else None)"
    by (rule alone_selected [OF al ok ph])
  have ts: "r_transactions s = [t]" "r_rr_index s = 0" "w_pending s = []" "w_data_fifo s = []"
    "backend_turnaround_cooldown s = 0" "backend_last_service_mode s \<noteq> ServiceWrite"
    using al by (simp_all add: alone_def)
  have arr: "arrived k reader_idle s = [t]"
    by (simp add: arrived_def ts ar_taken_def ar_fires_def reader_idle_def axi_io_zero_def)
  have le: "rt_beat_cnt t \<le> rt_len t" using ok by (simp add: read_txn_ok_def)
  have chosen: "rt_in_data_phase t \<Longrightarrow> chosen_read s = t" using sel ts by (simp add: chosen_read_def)
  have lst: "rt_in_data_phase t \<Longrightarrow> rlast (io_r (ddr_io (ddr_sampled k reader_idle s))) \<longleftrightarrow> rt_beat_cnt t = rt_len t"
    using given_beat(2) [of k reader_idle s] fires chosen by simp
  show "r_given k reader_idle s = (if rt_in_data_phase t then [burst_beats (read_burst_of t) ! unat (rt_beat_cnt t)] else [])"
    using given_beat(1) [of k reader_idle s] fires chosen nth_burst_beats [OF le]
    by (auto simp: r_given_def)
  have idle: "\<not> awvalid (io_aw reader_idle)" "\<not> wvalid (io_w reader_idle)"
    by (simp_all add: reader_idle_def axi_io_zero_def)
  note quiet = quiet_modes [OF gr(3) gr(2) ts(5,6)] quiet_writes [OF ts(3,4) idle gr(2)]
  show "alone (age_read_txn k t) (ddr_cycle k reader_idle s)" if n: "\<not> rt_in_data_phase t"
  proof -
    have nf: "\<not> r_fires (ddr_io (ddr_sampled k reader_idle s))" using fires n by simp
    have "rt_beat_cnt t = 0" using ph n by blast
    then show ?thesis
      using quiet quiet_rr [OF ts(2), of k reader_idle] nf cycle_reads_idle [OF inv nf] arr al
      by (simp add: alone_def)
  qed
  show "alone (age_read_txn k (bump t)) (ddr_cycle k reader_idle s)"
    if n: "rt_in_data_phase t" and m: "rt_beat_cnt t \<noteq> rt_len t"
  proof -
    have f: "r_fires (ddr_io (ddr_sampled k reader_idle s))" using fires n by simp
    have nl: "\<not> rlast (io_r (ddr_io (ddr_sampled k reader_idle s)))" using lst n m by simp
    have sel0: "r_selected_idx (select_read_transaction s) = Some 0" using sel n by simp
    have "unat (rt_beat_cnt (bump t)) \<noteq> 0" using bump_ok(2) [OF ok m] by simp
    then have "rt_beat_cnt (bump t) \<noteq> 0" by auto
    then show ?thesis
      using quiet quiet_rr [OF ts(2), of k reader_idle] nl cycle_reads_more [OF inv f nl sel0] arr
      by (simp add: alone_def)
  qed
qed

lemma age_in_phase [simp]: "rt_in_data_phase t \<Longrightarrow> age_read_txn k t = t"
  by (simp add: age_read_txn_def)

lemma data_run:
  "alone t s \<Longrightarrow> read_txn_ok t \<Longrightarrow> rt_in_data_phase t \<Longrightarrow>
   unat (rt_beat_cnt t) + n \<le> Suc (unat (rt_len t)) \<Longrightarrow>
   collect (r_given k) (ddr_cycle k) (replicate n reader_idle) s =
   take n (drop (unat (rt_beat_cnt t)) (burst_beats (read_burst_of t)))"
proof (induction n arbitrary: t s)
  case (Suc n)
  let ?c = "unat (rt_beat_cnt t)" and ?bs = "burst_beats (read_burst_of t)"
  note tick = alone_tick [OF Suc.prems(1,2), of k]
  have c: "?c < length ?bs" using Suc.prems(4) by (simp only: length_burst_beats)
  have hd: "r_given k reader_idle s = [?bs ! ?c]" using tick(1) Suc.prems(3) by simp
  have rest: "drop ?c ?bs = ?bs ! ?c # drop (Suc ?c) ?bs" using c by (rule Cons_nth_drop_Suc [symmetric])
  show ?case
  proof (cases "rt_beat_cnt t = rt_len t")
    case True
    with Suc.prems(4) have "n = 0" by simp
    with hd rest show ?thesis by simp
  next
    case False
    note b = bump_ok [OF Suc.prems(2) False]
    have "alone (bump t) (ddr_cycle k reader_idle s)" using tick(3) Suc.prems(3) False by simp
    from Suc.IH [OF this b(1)] b(2) Suc.prems(3,4) hd rest show ?thesis by simp
  qed
qed simp

lemma wait_run:
  "alone t s \<Longrightarrow> read_txn_ok t \<Longrightarrow> rt_beat_cnt t = 0 \<Longrightarrow> \<not> rt_in_data_phase t \<Longrightarrow>
   rt_latency_cnt t < SIM_DDR_READ_LATENCY k \<Longrightarrow>
   n \<le> unat (SIM_DDR_READ_LATENCY k) - unat (rt_latency_cnt t) + Suc (unat (rt_len t)) \<Longrightarrow>
   collect (r_given k) (ddr_cycle k) (replicate n reader_idle) s =
   take (n - (unat (SIM_DDR_READ_LATENCY k) - unat (rt_latency_cnt t))) (burst_beats (read_burst_of t))"
proof (induction n arbitrary: t s)
  case (Suc n)
  let ?L = "SIM_DDR_READ_LATENCY k"
  let ?t = "age_read_txn k t"
  note tick = alone_tick [OF Suc.prems(1,2), of k]
  have al: "alone ?t (ddr_cycle k reader_idle s)" and none: "r_given k reader_idle s = []"
    using tick(1,2) Suc.prems(3,4) by simp_all
  have "rt_latency_cnt t \<noteq> - 1" using Suc.prems(5) by (metis not_less word_order.extremum)
  then have u: "unat (rt_latency_cnt t + 1) = Suc (unat (rt_latency_cnt t))" by (simp add: unat_add_one)
  have lt: "unat (rt_latency_cnt t) < unat ?L" using Suc.prems(5) by (simp add: word_less_nat_alt)
  have nc: "\<not> rt_complete t" using Suc.prems(2) by (simp add: read_txn_ok_def)
  have age: "?t = t\<lparr>rt_latency_cnt := rt_latency_cnt t + 1,
      rt_in_data_phase := (?L \<le> rt_latency_cnt t + 1)\<rparr>"
    using Suc.prems(4) nc by (simp add: age_read_txn_def Let_def)
  show ?case
  proof (cases "?L \<le> rt_latency_cnt t + 1")
    case True
    then have "unat ?L = Suc (unat (rt_latency_cnt t))" using u lt by (simp add: word_le_nat_alt)
    with data_run [OF al, of n k] True Suc.prems none age show ?thesis
      by (simp add: read_txn_ok_def read_burst_of_def)
  next
    case False
    with Suc.IH [OF al] Suc.prems none age u lt show ?thesis
      by (simp add: read_txn_ok_def read_burst_of_def not_le)
  qed
qed simp

lemma ar_cycle_reset:
  fixes b
  assumes "0 < SIM_DDR_MAX_OUTSTANDING k"
  defines "t0 \<equiv> new_read_txn (io_ar (ar_request b reader_idle))"
  shows "alone (age_read_txn k t0) (ddr_cycle k (ar_request b reader_idle) (ddr_reset m))"
    and "r_given k (ar_request b reader_idle) (ddr_reset m) = []"
proof -
  obtain i a l sz where b: "b = (i, a, l, sz)" by (cases b) auto
  let ?s = "ddr_reset m" and ?i = "ar_request b reader_idle"
  have inv: "read_inv ?s" by (rule ddr_reads.inv_start)
  have ts: "r_transactions ?s = []" "r_rr_index ?s = 0" "w_pending ?s = []" "w_data_fifo ?s = []"
    "backend_turnaround_cooldown ?s = 0" "backend_last_service_mode ?s \<noteq> ServiceWrite" "r_active_idx ?s = None"
    by (simp_all add: ddr_reset_def ddr_init_def)
  have sel: "r_selected_idx (select_read_transaction ?s) = None"
    by (simp add: select_read_transaction_def find_next_ready_transaction_def ts Let_def)
  have nw: "\<not> backend_write_ready (select_read_transaction ?s)" using ts(4) by (rule no_write_service)
  have gr: "\<not> backend_read_grant (ddr_sampled k ?i ?s)" "\<not> backend_write_grant (ddr_sampled k ?i ?s)"
    "\<not> backend_switch_pending (ddr_sampled k ?i ?s)"
    using sel nw by (simp_all add: sampled_grants arbitration_grants)
  have nf: "\<not> r_fires (ddr_io (ddr_sampled k ?i ?s))" using gr(1) by (simp add: r_fires_grant)
  then show "r_given k ?i ?s = []" by (simp add: r_given_def)
  have arr: "arrived k ?i ?s = [t0]"
    using assms(1) by (simp add: arrived_def ts ar_taken_def ar_fires_def t0_def ar_request_def b)
  have idle: "\<not> awvalid (io_aw ?i)" "\<not> wvalid (io_w ?i)"
    by (simp_all add: b ar_request_def reader_idle_def axi_io_zero_def)
  note quiet = quiet_modes [OF gr(3) gr(2) ts(5,6)] quiet_writes [OF ts(3,4) idle gr(2)]
  have "rt_beat_cnt t0 = 0" by (simp add: t0_def new_read_txn_def)
  then show "alone (age_read_txn k t0) (ddr_cycle k ?i ?s)"
    using quiet quiet_rr [OF ts(2), of k ?i] nf cycle_reads_idle [OF inv nf] arr ts(7)
    by (simp add: alone_def)
qed

lemma lone_read_run:
  assumes "0 < SIM_DDR_MAX_OUTSTANDING k" and "1 \<le> SIM_DDR_READ_LATENCY k"
    and "b = (i, a, l, sz)" and n: "n \<le> unat (SIM_DDR_READ_LATENCY k) + unat l"
  shows "collect (r_given k) (ddr_cycle k) (ar_request b reader_idle # replicate n reader_idle) (ddr_reset m) =
    take (Suc n - unat (SIM_DDR_READ_LATENCY k)) (burst_beats b)"
proof -
  let ?L = "SIM_DDR_READ_LATENCY k"
  let ?t0 = "new_read_txn (io_ar (ar_request b reader_idle))"
  let ?t = "age_read_txn k ?t0"
  note al = ar_cycle_reset [OF assms(1), of b m]
  have burst: "read_burst_of ?t = b"
    by (simp add: read_burst_of_def new_read_txn_def ar_request_def assms(3) age_read_txn_def Let_def)
  have ok: "read_txn_ok ?t" "rt_beat_cnt ?t = 0" "rt_len ?t = l" "rt_latency_cnt ?t = 1"
    "rt_in_data_phase ?t \<longleftrightarrow> ?L \<le> 1"
    by (simp_all add: read_txn_ok_def new_read_txn_def ar_request_def assms(3) age_read_txn_def Let_def)
  show ?thesis
  proof (cases "?L \<le> 1")
    case True
    with assms(2) have "?L = 1" by (intro order_antisym)
    with data_run [OF al(1) ok(1), of n k] ok True n al(2) burst show ?thesis by simp
  next
    case False
    then have "1 < ?L" by simp
    then have "1 < unat ?L" by (simp add: word_less_nat_alt)
    with wait_run [OF al(1) ok(1,2), of k n] ok False \<open>1 < ?L\<close> n al(2) burst show ?thesis by simp
  qed
qed

end
