(* ===== verification/DDR_Props.thy ===== *)
theory DDR_Props
  imports DDR_Timing
begin

text \<open>
  What \<^verbatim>\<open>sim_ddr/SimDDR.cpp\<close> promises to the master on its AXI4 port, over every run from
  reset. The witnesses run a small device configuration on concrete inputs.
\<close>

section \<open>Writes\<close>

text \<open>C9: write responses come in the order of the write addresses. In any run from reset, the
  ids on the B channel, then the ids of the responses still queued, then those of the bursts
  still pending are exactly the ids the AW channel accepted, in that order: no response is
  lost, duplicated or overtaken.\<close>

theorem ddr_responses_in_order:
  "collect (b_given k) (ddr_cycle k) ios (ddr_reset m) @
     map wr_id (w_resp_queue (run_cycles (ddr_cycle k) ios (ddr_reset m))) @
     map wt_id (w_pending (run_cycles (ddr_cycle k) ios (ddr_reset m))) =
   map awid (collect (aw_taken k) (ddr_cycle k) ios (ddr_reset m))"
  using ddr_responses.released_in_order [of k ios m] by (simp add: collect_map)

text \<open>C10: the memory is the initial one with a prefix of the accepted write beats committed to
  it, each once and in the order in which the W channel took them; the beats not yet
  committed are the data FIFO.\<close>

theorem ddr_memory_commits_in_order:
  "\<exists>n. p_memory (run_cycles (ddr_cycle k) ios (ddr_reset m)) =
         fold commit_beat (take n (collect (beats_taken k) (ddr_cycle k) ios (ddr_reset m))) m \<and>
       w_data_fifo (run_cycles (ddr_cycle k) ios (ddr_reset m)) =
         drop n (collect (beats_taken k) (ddr_cycle k) ios (ddr_reset m))"
proof -
  have "p_memory (ddr_reset m) = m" by (simp add: ddr_reset_def ddr_init_def)
  with ddr_beats.released_in_order [of k ios m] memory_run [of k ios "ddr_reset m"] show ?thesis
    by (intro exI [of _ "length (collect (beats_committed k) (ddr_cycle k) ios (ddr_reset m))"])
      (simp flip: ddr_beats.released_in_order)
qed

text \<open>C11: under a master that raises \<^verbatim>\<open>wlast\<close> on the last beat of each burst and only there, the
  write beats are addressed as the accepted bursts announce: burst after burst in AW order,
  beat j of a burst at \<^verbatim>\<open>awaddr + (j << awsize)\<close>, with the beats still to come making up the rest.\<close>

theorem ddr_write_beats_follow_bursts:
  assumes "allowed (write_env k) (ddr_cycle k) ios (ddr_reset m)"
  shows "map wb_addr (collect (beats_taken k) (ddr_cycle k) ios (ddr_reset m)) @
      to_take (w_pending (run_cycles (ddr_cycle k) ios (ddr_reset m))) =
    concat (map aw_addrs (collect (aw_taken k) (ddr_cycle k) ios (ddr_reset m)))"
  using ddr_taken.released_in_order [OF assms] by (simp add: collect_map collect_concat_map)


text \<open>a beat read back where a beat was written holds the written byte in every strobed lane
  and the old byte in every other lane.\<close>

theorem ddr_read_after_write:
  assumes "ram_present m" and "n < 32"
  shows "get_byte (do_memory_read (do_memory_write m addr data strb) addr) n =
    (if test_bit strb n then get_byte data n else get_byte (do_memory_read m addr) n)"
  using assms by (rule get_byte_read_write)

section \<open>Reads\<close>

text \<open>C13: the R channel carries whole bursts. In any run from reset the beats given, as (id,
  address, last), are the complete beat sequences of some bursts one after the other, followed
  by a beginning of the burst being served; the bursts served and those still held are
  together exactly the bursts the AR channel accepted. So beats of two bursts never
  interleave, \<^verbatim>\<open>rlast\<close> marks the last beat and only it, and no burst is lost or served twice.\<close>

theorem ddr_reads_whole_bursts:
  "collect (r_given k) (ddr_cycle k) ios (ddr_reset m) =
     concat (map burst_beats (collect (reads_finished k) (ddr_cycle k) ios (ddr_reset m))) @
     partial_burst (run_cycles (ddr_cycle k) ios (ddr_reset m)) \<and>
   mset (collect (reads_finished k) (ddr_cycle k) ios (ddr_reset m)) +
     mset (map read_burst_of (r_transactions (run_cycles (ddr_cycle k) ios (ddr_reset m)))) =
   mset (map ar_burst (collect (ar_taken k) (ddr_cycle k) ios (ddr_reset m)))"
  using ddr_read_beats.released_in_order [of k ios m] ddr_read_bursts.paid_once [of k ios m]
  by (simp add: collect_map collect_concat_map)

text \<open>a beat on the R channel carries, lane by lane, the bytes of the memory from the beat's
  address on.\<close>

theorem ddr_read_data:
  assumes "ram_present (p_memory s)" and "rvalid (io_r (ddr_io (ddr_sampled k i s)))" and "n < 32"
  shows "get_byte (rdata (io_r (ddr_io (ddr_sampled k i s)))) n =
    mem_load_byte (p_memory s) (read_beat_addr (chosen_read s) + of_nat n)"
  using assms by (simp add: sampled_r get_byte_do_memory_read split: if_splits)

text \<open>C14: a read that has the device to itself is answered on time. Accepted in cycle 0 after
  reset, with the master always ready, its beat j is on the R channel in cycle
  \<^verbatim>\<open>SIM_DDR_LATENCY\<close> + j: none before, one per cycle after.\<close>

theorem ddr_lone_read_latency:
  assumes "0 < SIM_DDR_MAX_OUTSTANDING k" and "1 \<le> SIM_DDR_READ_LATENCY k"
    and "n \<le> unat (SIM_DDR_READ_LATENCY k) + unat l"
  shows "collect (r_given k) (ddr_cycle k)
      (ar_request (i, a, l, sz) reader_idle # replicate n reader_idle) (ddr_reset m) =
    take (Suc n - unat (SIM_DDR_READ_LATENCY k)) (burst_beats (i, a, l, sz))"
  by (rule lone_read_run [OF assms(1,2) refl assms(3)])

section \<open>The shared backend\<close>

text \<open>C15: changing direction costs its turnaround. When the arbiter decides in a cycle to switch
  from one direction to the other, no beat of either direction is granted in that cycle nor in
  the following cycles that the configured turnaround of that switch counts.\<close>

theorem ddr_turnaround_respected:
  assumes "backend_switch_pending (ddr_sampled k i s)"
    and "length ios \<le> turnaround_cycles k (backend_last_service_mode s)
           (backend_desired k (select_read_transaction s))"
  shows "collect (grants_given k) (ddr_cycle k) (i # ios) s = []"
  using switch_cycle [OF assms(1)] assms(2) by (simp add: cooldown_run)

text \<open>C16: the queues respect their configured depths in every reachable state, whatever the
  master does: the handshakes push back before one overflows.\<close>

theorem ddr_queue_bounds:
  "ddr_bounds k (run_cycles (ddr_cycle k) ios (ddr_reset m))"
  using ddr_capacity.inv_reachable [of k ios m] by simp

section \<open>Concrete runs\<close>

definition run_config :: kit_config where
  "run_config = default_kit_config\<lparr>SIM_DDR_READ_LATENCY := 2, SIM_DDR_READ_TO_WRITE_TURNAROUND := 2\<rparr>"

definition run_port :: axi_io where
  "run_port = axi_io_zero\<lparr>io_b := (io_b axi_io_zero)\<lparr>bready := True\<rparr>,
     io_r := (io_r axi_io_zero)\<lparr>rready := True\<rparr>\<rparr>"

definition aw_beat :: "u8 \<Rightarrow> u32 \<Rightarrow> u8 \<Rightarrow> axi_io" where
  "aw_beat i a l = run_port\<lparr>io_aw := \<lparr>awvalid = True, awready = False, awid = i, awaddr = a,
     awlen = l, awsize = AXI_SIZE_CODE, awburst = AXI_BURST_INCR\<rparr>\<rparr>"

definition w_beat :: "axi_data \<Rightarrow> bool \<Rightarrow> axi_io" where
  "w_beat d l = run_port\<lparr>io_w := \<lparr>wvalid = True, wready = False, wdata = d, wstrb = 0xF, wlast = l\<rparr>\<rparr>"

definition ar_beat :: "u8 \<Rightarrow> u32 \<Rightarrow> u8 \<Rightarrow> axi_io" where
  "ar_beat i a l = run_port\<lparr>io_ar := \<lparr>arvalid = True, arready = False, arid = i, araddr = a,
     arlen = l, arsize = AXI_SIZE_CODE, arburst = AXI_BURST_INCR\<rparr>\<rparr>"

text \<open>Two write bursts, of two beats and of one, until both responses are given.\<close>

definition two_writes :: "axi_io list" where
  "two_writes = [aw_beat 5 0x80000000 1, w_beat 0x11 False, w_beat 0x22 True, aw_beat 6 0x80000100 0,
     run_port, w_beat 0x33 True, run_port, run_port, run_port]"

theorem ddr_write_beats_follow_bursts_witness:
  "allowed (write_env run_config) (ddr_cycle run_config) two_writes (ddr_reset None) \<and>
   map wb_addr (collect (beats_taken run_config) (ddr_cycle run_config) two_writes (ddr_reset None)) @
     to_take (w_pending (run_cycles (ddr_cycle run_config) two_writes (ddr_reset None))) =
   concat (map aw_addrs (collect (aw_taken run_config) (ddr_cycle run_config) two_writes (ddr_reset None)))"
proof -
  have h: "allowed (write_env run_config) (ddr_cycle run_config) two_writes (ddr_reset None)"
    by code_simp
  from ddr_write_beats_follow_bursts [OF h] h show ?thesis by (rule conjI [rotated])
qed


theorem ddr_read_after_write_witness:
  "get_byte (do_memory_read (do_memory_write (Some (\<lambda>_. 0x55555555)) 0x80000010 0xABCD 2) 0x80000010) 1 = 0xAB"
  using ddr_read_after_write [of "Some (\<lambda>_. 0x55555555)" 1 "0x80000010" "0xABCD" 2]
  by (simp add: ram_present_def test_bit_def get_byte_def)

definition busy_reads :: "axi_io list" where
  "busy_reads = [ar_beat 1 0x80000000 0, run_port]"

theorem ddr_read_data_witness:
  "get_byte (rdata (io_r (ddr_io (ddr_sampled run_config run_port
     (run_cycles (ddr_cycle run_config) busy_reads (ddr_reset (Some (\<lambda>_. 0x55555555)))))))) 3 =
   mem_load_byte (p_memory (run_cycles (ddr_cycle run_config) busy_reads (ddr_reset (Some (\<lambda>_. 0x55555555)))))
     (read_beat_addr (chosen_read (run_cycles (ddr_cycle run_config) busy_reads (ddr_reset (Some (\<lambda>_. 0x55555555))))) + of_nat 3)"
proof (rule ddr_read_data)
  show "ram_present (p_memory (run_cycles (ddr_cycle run_config) busy_reads (ddr_reset (Some (\<lambda>_. 0x55555555)))))"
    by code_simp
  show "rvalid (io_r (ddr_io (ddr_sampled run_config run_port
     (run_cycles (ddr_cycle run_config) busy_reads (ddr_reset (Some (\<lambda>_. 0x55555555)))))))"
  proof -
    have "backend_read_grant (update_backend_arbitration run_config (select_read_transaction
        (run_cycles (ddr_cycle run_config) busy_reads (ddr_reset (Some (\<lambda>_. 0x55555555))))))"
      by code_simp
    then show ?thesis by (simp add: sampled_r sampled_grants(1))
  qed
qed simp

theorem ddr_lone_read_latency_witness:
  "collect (r_given run_config) (ddr_cycle run_config)
     (ar_request (4, 0x80000040, 1, 5) reader_idle # replicate 3 reader_idle) (ddr_reset None) =
   take (Suc 3 - unat (SIM_DDR_READ_LATENCY run_config)) (burst_beats (4, 0x80000040, 1, 5))"
  by (rule ddr_lone_read_latency) (simp_all add: run_config_def default_kit_config_def)

text \<open>A read burst while written data waits to be drained, then the switch.\<close>

definition read_then_write :: "axi_io list" where
  "read_then_write = [ar_beat 1 0x80000000 0, aw_beat 5 0x80000000 0, w_beat 0x11 True]"

theorem ddr_turnaround_respected_witness:
  "backend_switch_pending (ddr_sampled run_config run_port
     (run_cycles (ddr_cycle run_config) read_then_write (ddr_reset None))) \<and>
   collect (grants_given run_config) (ddr_cycle run_config) [run_port, run_port, run_port]
     (run_cycles (ddr_cycle run_config) read_then_write (ddr_reset None)) = []"
proof -
  let ?s = "run_cycles (ddr_cycle run_config) read_then_write (ddr_reset None)"
  have h: "backend_switch_pending (ddr_sampled run_config run_port ?s)" by code_simp
  have "length [run_port, run_port] \<le> turnaround_cycles run_config (backend_last_service_mode ?s)
      (backend_desired run_config (select_read_transaction ?s))"
    by code_simp
  from ddr_turnaround_respected [OF h this] h show ?thesis by (rule conjI [rotated])
qed

section \<open>Order of reads\<close>

definition three_reads :: "axi_io list" where
  "three_reads = [ar_beat 1 0x80000000 0, ar_beat 7 0x80000100 0, ar_beat 7 0x80000200 0]"

definition stalled :: axi_io where
  "stalled = run_port\<lparr>io_r := (io_r axi_io_zero)\<lparr>rready := False\<rparr>\<rparr>"

text \<open>reads of one id can be answered out of order. The class comment of \<^verbatim>\<open>SimDDR.h\<close> promises
  round-robin fairness between bursts, but the index of the next burst is taken before the
  finished one leaves the list, so it lands one past the neighbour: with three bursts ready
  the third is served before the second, here where both carry the same id.\<close>

theorem ddr_same_id_reads_reordered:
  "collect (r_given run_config) (ddr_cycle run_config)
     (map (\<lambda>i. i\<lparr>io_r := io_r stalled\<rparr>) three_reads @ [stalled, stalled, run_port, run_port, run_port])
     (ddr_reset None) =
   [(1, 0x80000000, True), (7, 0x80000200, True), (7, 0x80000100, True)]"
  by code_simp

end
