(* ===== verification/Route_Shape.thy ===== *)
theory Route_Shape
  imports Compat
begin

text \<open>
  \<^verbatim>\<open>include/axi_dual_port_route_shape.h\<close>: the combinational decisions of the dual-port bridge,
  shared between the interconnect model and its RTL: address routing and beat shapes, the
  issue gates that keep a read and a write of one line apart, the scan of the pending table,
  the ring pointers, and the byte lanes of the 64-bit reference packing. Every function is pure;
  a C struct is a record, and 8-bit arithmetic wraps as in the source. A shift by the operand's
  width or more, undefined in C++, yields 0 here; the properties stay within the widths.
\<close>

section \<open>Results\<close>

record route_shape =
  rs_ddr_port :: bool
  rs_mmio_port :: bool
  rs_supported :: bool
  rs_axi_len :: u8
  rs_axi_size :: u8

record route_support =
  rp_ddr_port :: bool
  rp_mmio_port :: bool
  rp_supported :: bool

record axi_beat_shape =
  bs_total_beats :: u8
  bs_axi_len :: u8
  bs_axi_size :: u8

record issue_gate_result =
  bridge_arready :: bool
  axi_arvalid :: bool
  bridge_awready :: bool
  axi_awvalid :: bool
  ar_hazard :: bool
  ar_would_issue :: bool
  aw_same_cycle_read_hazard :: bool
  aw_hazard :: bool
  ar_fire :: bool
  aw_fire :: bool

record req_steer_result =
  ddr_req_valid :: bool
  mmio_req_valid :: bool
  steer_req_ready :: bool

record resp_mux_control =
  ddr_resp_ready :: bool
  mmio_resp_ready :: bool
  mux_resp_valid :: bool
  select_mmio :: bool

record resp_accept_control =
  axi_rready :: bool
  rd_resp_accept :: bool
  axi_bready :: bool
  wr_resp_accept :: bool

record req_accept_control =
  accept_cache :: bool
  accept_bypass :: bool
  accept_write :: bool
  accept_slot :: u8
  accept_axi_id :: u8
  accept_total_beats :: u8

record pending_scan_result =
  free_found :: bool
  free_slot :: u8
  axi_id_found :: bool
  scan_axi_id :: u8
  match_found :: bool
  match_slot :: u8
  complete_found :: bool
  complete_slot :: u8

record issue_select_control =
  sel_issue_valid :: bool
  sel_mode2_ddr_aligned :: bool
  sel_issue_addr :: u32
  sel_issue_size :: u8
  sel_issue_axi_id :: u8
  sel_issue_beat_idx :: u8
  sel_issue_total_beats :: u8

record mode2_shape =
  m2_single_axi_beat :: bool
  m2_issue_addr :: u32
  m2_issue_size :: u8

record downstream_issue_shape =
  ds_issue_addr :: u32
  ds_issue_size :: u8
  ds_extract_from_aligned_beat :: bool
  ds_total_beats :: u8
  ds_axi_len :: u8
  ds_axi_size :: u8

record source_resp_mux_control =
  src_resp_valid :: bool
  src_select_read :: bool
  src_rd_pop :: bool
  src_wr_pop :: bool

record resp_route_control =
  rd_complete_rsp_space :: bool
  rd_complete_push :: bool
  cache_rd_rsp_push :: bool
  bypass_rd_rsp_push :: bool
  wr_match_rsp_space :: bool
  cache_wr_rsp_push :: bool
  bypass_wr_rsp_push :: bool

record fifo_ptr_control =
  next_head :: u8
  next_tail :: u8
  next_count :: u8

record write_pack64 =
  axi_wdata :: u64
  axi_wstrb :: u32

record read_pack64 =
  merged_data :: u64
  final_data :: u64

record read_resp_control =
  rd_last_beat :: bool
  next_resp_code :: u8

record queue_control =
  rd_issue_space :: bool
  wr_aw_space :: bool
  wr_w_space :: bool
  cache_rd_rsp_valid :: bool
  bypass_rd_rsp_valid :: bool
  cache_wr_rsp_valid :: bool
  bypass_wr_rsp_valid :: bool
  cache_rd_rsp_space :: bool
  bypass_rd_rsp_space :: bool
  cache_wr_rsp_space :: bool
  bypass_wr_rsp_space :: bool
  rd_issue_handshake :: bool
  wr_aw_handshake :: bool
  wr_w_handshake :: bool
  rd_issue_push :: bool
  rd_issue_pop :: bool
  wr_aw_push :: bool
  wr_aw_pop :: bool
  wr_w_push :: bool
  wr_w_pop :: bool

record slot_hazard_result =
  primary_slot_hazard :: bool
  secondary_slot_hazard :: bool

record hazard_match_result =
  ddr_line_match :: bool
  mmio_line_match :: bool
  ddr_id_match :: bool
  mmio_id_match :: bool

section \<open>Routing and shapes\<close>

definition AXI_DUAL_PORT_MMIO_TOTAL_SIZE :: u8 where "AXI_DUAL_PORT_MMIO_TOTAL_SIZE = 3"
definition AXI_DUAL_PORT_AXI_SIZE_32B :: u8 where "AXI_DUAL_PORT_AXI_SIZE_32B = 2"
definition AXI_DUAL_PORT_AXI_SIZE_256B :: u8 where "AXI_DUAL_PORT_AXI_SIZE_256B = 5"
definition AXI_DUAL_PORT_DDR_BEAT_BYTES :: u8 where "AXI_DUAL_PORT_DDR_BEAT_BYTES = 32"

definition AXI_DUAL_PORT_AXI_ID_MASK_FOR_WIDTH :: "u8 \<Rightarrow> u32" where
  "AXI_DUAL_PORT_AXI_ID_MASK_FOR_WIDTH width =
     (if width \<ge> 8 then 0xFF else push_bit (unat width) 1 - 1)"

definition axi_dual_port_is_ddr_addr :: "u32 \<Rightarrow> u32 \<Rightarrow> bool" where
  "axi_dual_port_is_ddr_addr addr ddr_base \<longleftrightarrow> addr \<ge> ddr_base"

definition axi_dual_port_mmio_request_supported :: "u8 \<Rightarrow> bool" where
  "axi_dual_port_mmio_request_supported total_size \<longleftrightarrow> total_size = AXI_DUAL_PORT_MMIO_TOTAL_SIZE"

definition axi_dual_port_axi_size_for_beat_bytes :: "u8 \<Rightarrow> u8" where
  "axi_dual_port_axi_size_for_beat_bytes beat_bytes =
     (if beat_bytes = 32 then 5 else if beat_bytes = 16 then 4 else if beat_bytes = 8 then 3 else 2)"

definition axi_dual_port_axi_len_for_beat_bytes :: "u8 \<Rightarrow> u8 \<Rightarrow> u8" where
  "axi_dual_port_axi_len_for_beat_bytes total_size beat_bytes =
     (if beat_bytes = 0 then 0
      else let bytes = ucast total_size + 1 :: u32;
               beats = (bytes + ucast beat_bytes - 1) div ucast beat_bytes
           in if beats > 0 then ucast (beats - 1) else 0)"

definition axi_dual_port_axi_beat_shape :: "u8 \<Rightarrow> u8 \<Rightarrow> axi_beat_shape" where
  "axi_dual_port_axi_beat_shape total_size beat_bytes =
     (let len = axi_dual_port_axi_len_for_beat_bytes total_size beat_bytes
      in \<lparr>bs_total_beats = len + 1, bs_axi_len = len,
           bs_axi_size = axi_dual_port_axi_size_for_beat_bytes beat_bytes\<rparr>)"

definition axi_dual_port_route_support :: "u32 \<Rightarrow> u8 \<Rightarrow> u32 \<Rightarrow> route_support" where
  "axi_dual_port_route_support addr total_size ddr_base =
     (let ddr = axi_dual_port_is_ddr_addr addr ddr_base
      in \<lparr>rp_ddr_port = ddr, rp_mmio_port = \<not> ddr,
           rp_supported = (ddr \<or> axi_dual_port_mmio_request_supported total_size)\<rparr>)"

definition axi_dual_port_ddr_axi_len :: "u8 \<Rightarrow> u8" where
  "axi_dual_port_ddr_axi_len total_size =
     axi_dual_port_axi_len_for_beat_bytes total_size AXI_DUAL_PORT_DDR_BEAT_BYTES"

definition axi_dual_port_route_shape :: "u32 \<Rightarrow> u8 \<Rightarrow> u32 \<Rightarrow> route_shape" where
  "axi_dual_port_route_shape addr total_size ddr_base =
     (let route = axi_dual_port_route_support addr total_size ddr_base
      in \<lparr>rs_ddr_port = rp_ddr_port route, rs_mmio_port = rp_mmio_port route,
           rs_supported = rp_supported route,
           rs_axi_len = (if rp_ddr_port route then axi_dual_port_ddr_axi_len total_size else 0),
           rs_axi_size = (if rp_ddr_port route then AXI_DUAL_PORT_AXI_SIZE_256B
                          else AXI_DUAL_PORT_AXI_SIZE_32B)\<rparr>)"

definition axi_dual_port_mask_axi_id :: "u8 \<Rightarrow> u8 \<Rightarrow> u8" where
  "axi_dual_port_mask_axi_id id_value id_width =
     ucast (ucast id_value AND AXI_DUAL_PORT_AXI_ID_MASK_FOR_WIDTH id_width)"

definition axi_dual_port_resize_axi_id :: "u8 \<Rightarrow> u8 \<Rightarrow> u8 \<Rightarrow> u8" where
  "axi_dual_port_resize_axi_id id_value in_id_width out_id_width =
     axi_dual_port_mask_axi_id (axi_dual_port_mask_axi_id id_value in_id_width) out_id_width"

section \<open>Gates and steering\<close>

definition axi_dual_port_issue_gate ::
  "bool \<Rightarrow> bool \<Rightarrow> u32 \<Rightarrow> bool \<Rightarrow> bool \<Rightarrow> bool \<Rightarrow> bool \<Rightarrow> u32 \<Rightarrow> bool \<Rightarrow> bool \<Rightarrow> issue_gate_result" where
  "axi_dual_port_issue_gate bridge_arvalid' axi_arready' ar_line ar_slot_hazard ar_pending_write_hazard
     bridge_awvalid' axi_awready' aw_line aw_slot_hazard aw_pending_read_hazard =
     (let ar_hz = ar_slot_hazard \<or> ar_pending_write_hazard;
          ar_would = bridge_arvalid' \<and> \<not> ar_hz;
          same_cycle = ar_would \<and> ar_line = aw_line;
          aw_hz = aw_slot_hazard \<or> aw_pending_read_hazard \<or> same_cycle;
          arv = bridge_arvalid' \<and> \<not> ar_hz;
          awv = bridge_awvalid' \<and> \<not> aw_hz
      in \<lparr>bridge_arready = (axi_arready' \<and> \<not> ar_hz), axi_arvalid = arv,
           bridge_awready = (axi_awready' \<and> \<not> aw_hz), axi_awvalid = awv,
           ar_hazard = ar_hz, ar_would_issue = ar_would, aw_same_cycle_read_hazard = same_cycle,
           aw_hazard = aw_hz, ar_fire = (arv \<and> axi_arready'), aw_fire = (awv \<and> axi_awready')\<rparr>)"

definition axi_dual_port_req_steer :: "bool \<Rightarrow> bool \<Rightarrow> bool \<Rightarrow> bool \<Rightarrow> bool \<Rightarrow> req_steer_result" where
  "axi_dual_port_req_steer req_valid req_to_ddr req_supported ddr_req_ready mmio_req_ready =
     \<lparr>ddr_req_valid = (req_valid \<and> req_to_ddr),
      mmio_req_valid = (req_valid \<and> \<not> req_to_ddr \<and> req_supported),
      steer_req_ready = (if req_to_ddr then ddr_req_ready else req_supported \<and> mmio_req_ready)\<rparr>"

definition axi_dual_port_resp_mux_control :: "bool \<Rightarrow> bool \<Rightarrow> bool \<Rightarrow> resp_mux_control" where
  "axi_dual_port_resp_mux_control ddr_resp_valid mmio_resp_valid resp_ready =
     \<lparr>ddr_resp_ready = (\<not> mmio_resp_valid \<and> resp_ready),
      mmio_resp_ready = (mmio_resp_valid \<and> resp_ready),
      mux_resp_valid = (if mmio_resp_valid then mmio_resp_valid else ddr_resp_valid),
      select_mmio = mmio_resp_valid\<rparr>"

definition axi_bridge_resp_accept_control :: "bool \<Rightarrow> bool \<Rightarrow> bool \<Rightarrow> bool \<Rightarrow> bool \<Rightarrow> resp_accept_control" where
  "axi_bridge_resp_accept_control axi_rvalid rd_match_found axi_bvalid wr_match_found wr_match_rsp_space' =
     \<lparr>axi_rready = rd_match_found,
      rd_resp_accept = (axi_rvalid \<and> rd_match_found),
      axi_bready = (wr_match_found \<and> wr_match_rsp_space'),
      wr_resp_accept = (axi_bvalid \<and> wr_match_found \<and> wr_match_rsp_space')\<rparr>"

text \<open>What the accept decision reads of the pending tables and issue queues.\<close>

record accept_inputs =
  rd_free_found :: bool
  rd_free_slot :: u8
  rd_axi_id_found :: bool
  rd_axi_id :: u8
  in_rd_issue_space :: bool
  wr_free_found :: bool
  wr_free_slot :: u8
  wr_axi_id_found :: bool
  wr_axi_id :: u8
  in_wr_aw_space :: bool
  in_wr_w_space :: bool

definition no_accept :: req_accept_control where
  "no_accept = \<lparr>accept_cache = False, accept_bypass = False, accept_write = False,
     accept_slot = 0, accept_axi_id = 0, accept_total_beats = 0\<rparr>"

definition accept_source :: "bool \<Rightarrow> bool \<Rightarrow> u8 \<Rightarrow> accept_inputs \<Rightarrow> req_accept_control" where
  "accept_source from_cache req_write total_beats i =
     (if req_write
      then if wr_free_found i \<and> wr_axi_id_found i \<and> in_wr_aw_space i \<and> in_wr_w_space i
           then \<lparr>accept_cache = from_cache, accept_bypass = \<not> from_cache, accept_write = True,
                 accept_slot = wr_free_slot i, accept_axi_id = wr_axi_id i,
                 accept_total_beats = total_beats\<rparr>
           else no_accept
      else if rd_free_found i \<and> rd_axi_id_found i \<and> in_rd_issue_space i
           then \<lparr>accept_cache = from_cache, accept_bypass = \<not> from_cache, accept_write = False,
                 accept_slot = rd_free_slot i, accept_axi_id = rd_axi_id i,
                 accept_total_beats = total_beats\<rparr>
           else no_accept)"

definition axi_bridge_req_accept_control ::
  "bool \<Rightarrow> bool \<Rightarrow> u8 \<Rightarrow> bool \<Rightarrow> bool \<Rightarrow> u8 \<Rightarrow> accept_inputs \<Rightarrow> req_accept_control" where
  "axi_bridge_req_accept_control cache_req_valid cache_req_write cache_total_beats
     bypass_req_valid bypass_req_write bypass_total_beats i =
     (if cache_req_valid then accept_source True cache_req_write cache_total_beats i
      else if bypass_req_valid then accept_source False bypass_req_write bypass_total_beats i
      else no_accept)"

section \<open>The pending table\<close>

definition axi_bridge_scan_packed_id :: "u64 \<Rightarrow> u8 \<Rightarrow> u8 \<Rightarrow> u8" where
  "axi_bridge_scan_packed_id packed_ids slot id_width =
     (let shift = slot * id_width
      in axi_dual_port_mask_axi_id (ucast (drop_bit (unat shift) packed_ids)) id_width)"

definition scan_init :: pending_scan_result where
  "scan_init = \<lparr>free_found = False, free_slot = 0, axi_id_found = False, scan_axi_id = 0,
     match_found = False, match_slot = 0, complete_found = False, complete_slot = 0\<rparr>"

definition scan_slot_id :: "bool \<Rightarrow> u8 \<Rightarrow> u64 \<Rightarrow> u8 \<Rightarrow> u8" where
  "scan_slot_id slot_id_mode id_width packed_ids slot =
     (if slot_id_mode then slot else axi_bridge_scan_packed_id packed_ids slot id_width)"

text \<open>One iteration of the slot loop over the result and the set of used ids.\<close>

definition scan_step ::
  "bool \<Rightarrow> u8 \<Rightarrow> u32 \<Rightarrow> u32 \<Rightarrow> u64 \<Rightarrow> u8 \<Rightarrow> nat \<Rightarrow>
   pending_scan_result \<times> u64 \<Rightarrow> pending_scan_result \<times> u64" where
  "scan_step slot_id_mode id_width valid_mask complete_mask packed_ids masked_match_id slot acc =
     (case acc of (out, used_ids) \<Rightarrow>
       let valid = (drop_bit slot valid_mask AND 1 \<noteq> 0);
           slot_id = scan_slot_id slot_id_mode id_width packed_ids (of_nat slot);
           out = (if \<not> free_found out \<and> \<not> valid
                  then out\<lparr>free_found := True, free_slot := of_nat slot\<rparr> else out);
           used_ids = (if valid \<and> \<not> slot_id_mode then used_ids OR push_bit (unat slot_id) 1 else used_ids);
           out = (if \<not> match_found out \<and> valid \<and> slot_id = masked_match_id
                  then out\<lparr>match_found := True, match_slot := of_nat slot\<rparr> else out);
           out = (if \<not> complete_found out \<and> valid \<and> drop_bit slot complete_mask AND 1 \<noteq> 0
                  then out\<lparr>complete_found := True, complete_slot := of_nat slot\<rparr> else out)
       in (out, used_ids))"

definition axi_bridge_pending_scan_control ::
  "u8 \<Rightarrow> u8 \<Rightarrow> u32 \<Rightarrow> u32 \<Rightarrow> u64 \<Rightarrow> u8 \<Rightarrow> pending_scan_result" where
  "axi_bridge_pending_scan_control entry_count id_width valid_mask complete_mask packed_ids match_id =
     (let id_count = ucast (push_bit (unat id_width) 1 :: u32) :: u16;
          slot_id_mode = (id_count \<ge> ucast entry_count);
          masked_match_id = axi_dual_port_mask_axi_id match_id id_width;
          (out, used_ids) =
            fold (scan_step slot_id_mode id_width valid_mask complete_mask packed_ids masked_match_id)
              [0..<unat entry_count] (scan_init, 0)
      in if slot_id_mode
         then out\<lparr>axi_id_found := free_found out,
                  scan_axi_id := axi_dual_port_mask_axi_id (free_slot out) id_width\<rparr>
         else fold (\<lambda>id out. if \<not> axi_id_found out \<and> drop_bit id used_ids AND 1 = 0
                             then out\<lparr>axi_id_found := True, scan_axi_id := of_nat id\<rparr> else out)
                [0..<unat id_count] out)"

section \<open>Issue shapes\<close>

definition axi_bridge_align_down_addr :: "u32 \<Rightarrow> u8 \<Rightarrow> u32" where
  "axi_bridge_align_down_addr addr align_bytes =
     (if align_bytes \<le> 1 then addr else (addr div ucast align_bytes) * ucast align_bytes)"

definition axi_bridge_mode2_single_axi_beat :: "u32 \<Rightarrow> u8 \<Rightarrow> u8 \<Rightarrow> bool" where
  "axi_bridge_mode2_single_axi_beat addr total_size axi_data_bytes \<longleftrightarrow>
     (let req_bytes = ucast total_size + 1 :: u16;
          beat_addr = axi_bridge_align_down_addr addr axi_data_bytes;
          end_byte = (addr - beat_addr) + ucast req_bytes
      in req_bytes \<le> ucast axi_data_bytes \<and> end_byte \<le> ucast axi_data_bytes)"

definition axi_bridge_mode2_issue_addr :: "u32 \<Rightarrow> u8 \<Rightarrow> u8 \<Rightarrow> u8 \<Rightarrow> u32" where
  "axi_bridge_mode2_issue_addr addr total_size line_bytes axi_data_bytes =
     (if axi_bridge_mode2_single_axi_beat addr total_size axi_data_bytes
      then axi_bridge_align_down_addr addr axi_data_bytes
      else axi_bridge_align_down_addr addr line_bytes)"

definition axi_bridge_mode2_issue_size :: "u32 \<Rightarrow> u8 \<Rightarrow> u8 \<Rightarrow> u8 \<Rightarrow> u8" where
  "axi_bridge_mode2_issue_size addr total_size line_bytes axi_data_bytes =
     (if axi_bridge_mode2_single_axi_beat addr total_size axi_data_bytes
      then axi_data_bytes - 1 else line_bytes - 1)"

definition axi_bridge_mode2_shape :: "u32 \<Rightarrow> u8 \<Rightarrow> u8 \<Rightarrow> u8 \<Rightarrow> mode2_shape" where
  "axi_bridge_mode2_shape addr total_size line_bytes axi_data_bytes =
     (let single = axi_bridge_mode2_single_axi_beat addr total_size axi_data_bytes
      in \<lparr>m2_single_axi_beat = single,
           m2_issue_addr = (if single then axi_bridge_align_down_addr addr axi_data_bytes
                            else axi_bridge_align_down_addr addr line_bytes),
           m2_issue_size = (if single then axi_data_bytes - 1 else line_bytes - 1)\<rparr>)"

definition axi_bridge_downstream_read_issue_shape ::
  "bool \<Rightarrow> u32 \<Rightarrow> u8 \<Rightarrow> u8 \<Rightarrow> u8 \<Rightarrow> bool \<Rightarrow> downstream_issue_shape" where
  "axi_bridge_downstream_read_issue_shape mmio_port addr total_size line_bytes axi_data_bytes
     force_ddr_aligned =
     (let (iaddr, isize, extract) =
        (if mmio_port then (addr, AXI_DUAL_PORT_MMIO_TOTAL_SIZE, False)
         else if force_ddr_aligned
         then let m = axi_bridge_mode2_shape addr total_size line_bytes axi_data_bytes
              in (m2_issue_addr m, m2_issue_size m, m2_single_axi_beat m \<or> m2_issue_addr m \<noteq> addr)
         else if (ucast total_size + 1 :: u16) \<le> ucast axi_data_bytes
         then (axi_bridge_align_down_addr addr axi_data_bytes, axi_data_bytes - 1, True)
         else (addr, total_size, False));
        beat = axi_dual_port_axi_beat_shape isize (if mmio_port then 4 else axi_data_bytes)
      in \<lparr>ds_issue_addr = iaddr, ds_issue_size = isize, ds_extract_from_aligned_beat = extract,
           ds_total_beats = bs_total_beats beat, ds_axi_len = bs_axi_len beat,
           ds_axi_size = (if mmio_port then AXI_DUAL_PORT_AXI_SIZE_32B else bs_axi_size beat)\<rparr>)"

definition axi_bridge_downstream_write_issue_shape ::
  "bool \<Rightarrow> u32 \<Rightarrow> u8 \<Rightarrow> u8 \<Rightarrow> u8 \<Rightarrow> bool \<Rightarrow> downstream_issue_shape" where
  "axi_bridge_downstream_write_issue_shape mmio_port addr total_size line_bytes axi_data_bytes
     force_ddr_aligned =
     (axi_bridge_downstream_read_issue_shape mmio_port addr total_size line_bytes axi_data_bytes
        force_ddr_aligned)\<lparr>ds_extract_from_aligned_beat := False\<rparr>"

text \<open>The slot a queue entry points at.\<close>

record issue_slot =
  slot_valid :: bool
  slot_from_cache :: bool
  slot_mode2_ddr_aligned :: bool
  slot_addr :: u32
  slot_size :: u8
  slot_axi_id :: u8
  slot_beat_idx :: u8
  slot_total_beats :: u8

definition axi_bridge_issue_select_control ::
  "bool \<Rightarrow> bool \<Rightarrow> bool \<Rightarrow> issue_slot \<Rightarrow> u8 \<Rightarrow> u8 \<Rightarrow> issue_select_control" where
  "axi_bridge_issue_select_control queue_has_entry ready_to_issue issue_done sl line_bytes axi_data_bytes =
     (let aligned = (\<not> slot_from_cache sl \<and> slot_mode2_ddr_aligned sl);
          m = axi_bridge_mode2_shape (slot_addr sl) (slot_size sl) line_bytes axi_data_bytes
      in \<lparr>sel_issue_valid = (queue_has_entry \<and> slot_valid sl \<and> ready_to_issue \<and> \<not> issue_done),
           sel_mode2_ddr_aligned = aligned,
           sel_issue_addr = (if aligned then m2_issue_addr m else slot_addr sl),
           sel_issue_size = (if aligned then m2_issue_size m else slot_size sl),
           sel_issue_axi_id = slot_axi_id sl, sel_issue_beat_idx = slot_beat_idx sl,
           sel_issue_total_beats = slot_total_beats sl\<rparr>)"

section \<open>Responses and queues\<close>

definition axi_bridge_source_resp_mux_control :: "bool \<Rightarrow> bool \<Rightarrow> bool \<Rightarrow> source_resp_mux_control" where
  "axi_bridge_source_resp_mux_control rd_valid wr_valid resp_ready =
     (let valid = rd_valid \<or> wr_valid
      in \<lparr>src_resp_valid = valid, src_select_read = rd_valid,
           src_rd_pop = (valid \<and> resp_ready \<and> rd_valid),
           src_wr_pop = (valid \<and> resp_ready \<and> \<not> rd_valid \<and> wr_valid)\<rparr>)"

definition axi_bridge_resp_route_control ::
  "bool \<Rightarrow> bool \<Rightarrow> bool \<Rightarrow> bool \<Rightarrow> bool \<Rightarrow> bool \<Rightarrow> bool \<Rightarrow> bool \<Rightarrow> resp_route_control" where
  "axi_bridge_resp_route_control rd_complete_found rd_complete_from_cache cache_rd_rsp_space'
     bypass_rd_rsp_space' wr_match_from_cache cache_wr_rsp_space' bypass_wr_rsp_space' wr_resp_accept' =
     (let rd_space = (if rd_complete_from_cache then cache_rd_rsp_space' else bypass_rd_rsp_space');
          push = rd_complete_found \<and> rd_space
      in \<lparr>rd_complete_rsp_space = rd_space, rd_complete_push = push,
           cache_rd_rsp_push = (push \<and> rd_complete_from_cache),
           bypass_rd_rsp_push = (push \<and> \<not> rd_complete_from_cache),
           wr_match_rsp_space = (if wr_match_from_cache then cache_wr_rsp_space' else bypass_wr_rsp_space'),
           cache_wr_rsp_push = (wr_resp_accept' \<and> wr_match_from_cache),
           bypass_wr_rsp_push = (wr_resp_accept' \<and> \<not> wr_match_from_cache)\<rparr>)"

definition axi_bridge_next_ptr :: "u8 \<Rightarrow> u8 \<Rightarrow> u8" where
  "axi_bridge_next_ptr ptr_value depth =
     (if depth \<le> 1 then 0 else if ptr_value = depth - 1 then 0 else ptr_value + 1)"

definition axi_bridge_fifo_ptr_control :: "u8 \<Rightarrow> u8 \<Rightarrow> u8 \<Rightarrow> bool \<Rightarrow> bool \<Rightarrow> u8 \<Rightarrow> fifo_ptr_control" where
  "axi_bridge_fifo_ptr_control head tail cnt push pop depth =
     \<lparr>next_head = (if pop then axi_bridge_next_ptr head depth else head),
      next_tail = (if push then axi_bridge_next_ptr tail depth else tail),
      next_count = (if push \<and> \<not> pop then cnt + 1
                    else if \<not> push \<and> pop then cnt - 1 else cnt)\<rparr>"

definition axi_bridge_get_byte64 :: "u64 \<Rightarrow> u8 \<Rightarrow> u8" where
  "axi_bridge_get_byte64 value byte_idx =
     (if byte_idx \<ge> 8 then 0 else ucast (drop_bit (unat byte_idx * 8) value AND 0xFF))"

definition axi_bridge_set_byte64 :: "u64 \<Rightarrow> u8 \<Rightarrow> u8 \<Rightarrow> u64" where
  "axi_bridge_set_byte64 value byte_idx byte_value =
     (if byte_idx \<ge> 8 then value
      else let shift = unat byte_idx * 8; msk = push_bit shift 0xFF
           in (value AND NOT msk) OR (push_bit shift (ucast byte_value) AND msk))"

definition axi_bridge_write_pack64 ::
  "u64 \<Rightarrow> u32 \<Rightarrow> u32 \<Rightarrow> u32 \<Rightarrow> u8 \<Rightarrow> bool \<Rightarrow> u8 \<Rightarrow> u8 \<Rightarrow> write_pack64" where
  "axi_bridge_write_pack64 line_data line_strb req_addr issued_addr beat_idx mode2_ddr_aligned
     line_bytes axi_data_bytes =
     (let byte_off = sint (req_addr - issued_addr)
      in fold (\<lambda>byte_idx out.
           let dst_byte = sint (ucast beat_idx * ucast axi_data_bytes + of_nat byte_idx :: u32);
               src_byte = (if mode2_ddr_aligned then dst_byte - byte_off else dst_byte)
           in if src_byte \<ge> 0 \<and> src_byte < int (unat line_bytes)
              then out\<lparr>axi_wdata := axi_bridge_set_byte64 (axi_wdata out) (of_nat byte_idx)
                                     (axi_bridge_get_byte64 line_data (of_int src_byte)),
                       axi_wstrb := (if drop_bit (nat src_byte) line_strb AND 1 \<noteq> 0
                                     then axi_wstrb out OR push_bit byte_idx 1 else axi_wstrb out)\<rparr>
              else out)
          [0..<unat axi_data_bytes] \<lparr>axi_wdata = 0, axi_wstrb = 0\<rparr>)"

definition axi_bridge_read_pack64 ::
  "u64 \<Rightarrow> u64 \<Rightarrow> u32 \<Rightarrow> u32 \<Rightarrow> u8 \<Rightarrow> bool \<Rightarrow> u8 \<Rightarrow> u8 \<Rightarrow> read_pack64" where
  "axi_bridge_read_pack64 current_data beat_data req_addr issued_addr beat_idx mode2_ddr_aligned
     read_resp_bytes axi_data_bytes =
     (let byte_off = sint (req_addr - issued_addr);
          merged = fold (\<lambda>byte_idx merged.
            let dst_byte = sint (ucast beat_idx * ucast axi_data_bytes + of_nat byte_idx :: u32)
            in if dst_byte \<ge> 0 \<and> dst_byte < int (unat read_resp_bytes)
               then axi_bridge_set_byte64 merged (of_int dst_byte)
                      (axi_bridge_get_byte64 beat_data (of_nat byte_idx))
               else merged)
            [0..<unat axi_data_bytes] current_data
      in if \<not> mode2_ddr_aligned then \<lparr>merged_data = merged, final_data = merged\<rparr>
         else \<lparr>merged_data = merged,
               final_data = fold (\<lambda>dst_byte final.
                 let src_byte = int dst_byte + byte_off
                 in if src_byte \<ge> 0 \<and> src_byte < int (unat read_resp_bytes)
                    then axi_bridge_set_byte64 final (of_nat dst_byte)
                           (axi_bridge_get_byte64 merged (of_int src_byte))
                    else final)
                 [0..<unat read_resp_bytes] 0\<rparr>)"

definition axi_bridge_read_resp_control :: "bool \<Rightarrow> u8 \<Rightarrow> u8 \<Rightarrow> bool \<Rightarrow> u8 \<Rightarrow> u8 \<Rightarrow> read_resp_control" where
  "axi_bridge_read_resp_control rd_match_found rd_beats_done rd_total_beats axi_rlast axi_rresp
     current_resp_code =
     \<lparr>rd_last_beat = (rd_match_found \<and> (rd_beats_done + 1 = rd_total_beats \<or> axi_rlast)),
      next_resp_code = (if axi_rresp AND 3 \<noteq> 0 then axi_rresp AND 3 else current_resp_code AND 3)\<rparr>"

text \<open>The queue counts and the port handshakes the queue control reads.\<close>

record queue_inputs =
  rd_issue_count :: u8
  wr_aw_count :: u8
  wr_w_count :: u8
  cache_rd_rsp_count :: u8
  bypass_rd_rsp_count :: u8
  cache_wr_rsp_count :: u8
  bypass_wr_rsp_count :: u8
  q_accept_cache :: bool
  q_accept_bypass :: bool
  q_accept_write :: bool
  rd_issue_valid :: bool
  q_axi_arready :: bool
  wr_aw_valid :: bool
  q_axi_awready :: bool
  wr_w_valid :: bool
  q_axi_wready :: bool
  q_axi_wlast :: bool

definition axi_bridge_queue_control :: "queue_inputs \<Rightarrow> u8 \<Rightarrow> u8 \<Rightarrow> queue_control" where
  "axi_bridge_queue_control i read_depth write_depth =
     (let accept_any = q_accept_cache i \<or> q_accept_bypass i;
          ar_hs = rd_issue_valid i \<and> q_axi_arready i;
          aw_hs = wr_aw_valid i \<and> q_axi_awready i;
          w_hs = wr_w_valid i \<and> q_axi_wready i
      in \<lparr>rd_issue_space = (rd_issue_count i < read_depth),
           wr_aw_space = (wr_aw_count i < write_depth),
           wr_w_space = (wr_w_count i < write_depth),
           cache_rd_rsp_valid = (cache_rd_rsp_count i \<noteq> 0),
           bypass_rd_rsp_valid = (bypass_rd_rsp_count i \<noteq> 0),
           cache_wr_rsp_valid = (cache_wr_rsp_count i \<noteq> 0),
           bypass_wr_rsp_valid = (bypass_wr_rsp_count i \<noteq> 0),
           cache_rd_rsp_space = (cache_rd_rsp_count i < read_depth),
           bypass_rd_rsp_space = (bypass_rd_rsp_count i < read_depth),
           cache_wr_rsp_space = (cache_wr_rsp_count i < write_depth),
           bypass_wr_rsp_space = (bypass_wr_rsp_count i < write_depth),
           rd_issue_handshake = ar_hs, wr_aw_handshake = aw_hs, wr_w_handshake = w_hs,
           rd_issue_push = (accept_any \<and> \<not> q_accept_write i), rd_issue_pop = ar_hs,
           wr_aw_push = (accept_any \<and> q_accept_write i), wr_aw_pop = aw_hs,
           wr_w_push = (accept_any \<and> q_accept_write i), wr_w_pop = (w_hs \<and> q_axi_wlast i)\<rparr>)"

definition axi_dual_port_slot_hazard :: "bool \<Rightarrow> bool \<Rightarrow> bool \<Rightarrow> slot_hazard_result" where
  "axi_dual_port_slot_hazard first_free_found second_free_found primary_fire =
     \<lparr>primary_slot_hazard = (\<not> first_free_found),
      secondary_slot_hazard = (\<not> first_free_found \<or> (primary_fire \<and> \<not> second_free_found))\<rparr>"

definition axi_dual_port_hazard_match ::
  "bool \<Rightarrow> bool \<Rightarrow> u32 \<Rightarrow> u8 \<Rightarrow> u32 \<Rightarrow> u32 \<Rightarrow> u8 \<Rightarrow> u8 \<Rightarrow> hazard_match_result" where
  "axi_dual_port_hazard_match entry_valid entry_port entry_line entry_id ddr_line mmio_line ddr_id mmio_id =
     \<lparr>ddr_line_match = (entry_valid \<and> \<not> entry_port \<and> entry_line = ddr_line),
      mmio_line_match = (entry_valid \<and> entry_port \<and> entry_line = mmio_line),
      ddr_id_match = (entry_valid \<and> \<not> entry_port \<and> entry_id = ddr_id),
      mmio_id_match = (entry_valid \<and> entry_port \<and> entry_id = mmio_id)\<rparr>"

end
