(* ===== verification/Route_Props.thy ===== *)
theory Route_Props
  imports Route_Shape
begin

text \<open>
  What the bridge's decisions guarantee: the issue gate never lets a read and a write of one
  line go in the same cycle, the pending scan hands out only free slots and unused ids, the ring
  pointers implement a bounded queue, an issue shape covers the bytes of its request, and the
  byte packing of writes and reads is inverse.
\<close>

unbundle bit_operations_syntax

section \<open>The issue gate\<close>

text \<open>C29: the issue gate is safe and its handshakes agree. It never fires a read and a write of
  the same line in one cycle, never fires into a hazard, and each side fires exactly when the
  bridge sees valid and ready together and when the port does.\<close>

theorem issue_gate_safe:
  fixes arv arr ar_slot ar_pend awv awr aw_slot aw_pend :: bool and ar_line aw_line :: u32
  defines "g \<equiv> axi_dual_port_issue_gate arv arr ar_line ar_slot ar_pend awv awr aw_line aw_slot aw_pend"
  shows "\<not> (ar_fire g \<and> aw_fire g \<and> ar_line = aw_line) \<and>
    \<not> (ar_fire g \<and> (ar_slot \<or> ar_pend)) \<and> \<not> (aw_fire g \<and> (aw_slot \<or> aw_pend)) \<and>
    (ar_fire g \<longleftrightarrow> arv \<and> bridge_arready g) \<and> (ar_fire g \<longleftrightarrow> axi_arvalid g \<and> arr) \<and>
    (aw_fire g \<longleftrightarrow> awv \<and> bridge_awready g) \<and> (aw_fire g \<longleftrightarrow> axi_awvalid g \<and> awr)"
  by (auto simp: g_def axi_dual_port_issue_gate_def Let_def)

section \<open>The pending scan\<close>

lemma and_1_bit: "(drop_bit n w AND 1 \<noteq> 0) \<longleftrightarrow> bit w n"
  by (simp add: bit_iff_and_drop_bit_eq_1 and_one_eq mod_2_eq_odd)

definition found_slot :: "nat option \<Rightarrow> u8" where
  "found_slot r = (case r of None \<Rightarrow> 0 | Some s \<Rightarrow> of_nat s)"

definition ids_of :: "bool \<Rightarrow> u8 \<Rightarrow> u32 \<Rightarrow> u64 \<Rightarrow> nat \<Rightarrow> u64" where
  "ids_of mode w valid packed n =
     fold (\<lambda>s used. if bit valid s \<and> \<not> mode
                    then used OR push_bit (unat (scan_slot_id mode w packed (of_nat s))) 1 else used)
       [0..<n] 0"

text \<open>The slot loop, with the slot's id as a function.\<close>

lemma scan_step_eq:
  "scan_step mode w valid complete packed m n (out, used) =
   (let out = (if \<not> free_found out \<and> \<not> bit valid n then out\<lparr>free_found := True, free_slot := of_nat n\<rparr> else out);
        used = (if bit valid n \<and> \<not> mode then used OR push_bit (unat (scan_slot_id mode w packed (of_nat n))) 1 else used);
        out = (if \<not> match_found out \<and> bit valid n \<and> scan_slot_id mode w packed (of_nat n) = m
               then out\<lparr>match_found := True, match_slot := of_nat n\<rparr> else out);
        out = (if \<not> complete_found out \<and> bit valid n \<and> bit complete n
               then out\<lparr>complete_found := True, complete_slot := of_nat n\<rparr> else out)
    in (out, used))"
  unfolding scan_step_def and_1_bit by (simp only: prod.case Let_def)

lemma find_upt_Suc:
  "find P [0..<Suc n] =
   (case find P [0..<n] of None \<Rightarrow> if P n then Some n else None | Some s \<Rightarrow> Some s)"
  by (simp add: find_append split: option.split)

lemma scan_fold:
  "fold (scan_step mode w valid complete packed m) [0..<n] (scan_init, 0) =
   (scan_init\<lparr>
      free_found := find (\<lambda>s. \<not> bit valid s) [0..<n] \<noteq> None,
      free_slot := found_slot (find (\<lambda>s. \<not> bit valid s) [0..<n]),
      match_found := find (\<lambda>s. bit valid s \<and> scan_slot_id mode w packed (of_nat s) = m) [0..<n] \<noteq> None,
      match_slot := found_slot (find (\<lambda>s. bit valid s \<and> scan_slot_id mode w packed (of_nat s) = m) [0..<n]),
      complete_found := find (\<lambda>s. bit valid s \<and> bit complete s) [0..<n] \<noteq> None,
      complete_slot := found_slot (find (\<lambda>s. bit valid s \<and> bit complete s) [0..<n])\<rparr>,
    ids_of mode w valid packed n)"
proof -
  define sid where "sid s = scan_slot_id mode w packed (of_nat s)" for s
  define live where "live s \<longleftrightarrow> bit valid s \<and> \<not> mode" for s
  have ids: "ids_of mode w valid packed (Suc n) =
      (if live n then ids_of mode w valid packed n OR push_bit (unat (sid n)) 1
       else ids_of mode w valid packed n)" for n
    unfolding ids_of_def live_def sid_def by (cases mode) simp_all
  show ?thesis
    unfolding sid_def [symmetric]
  proof (induction n)
    case (Suc n)
    have unroll: "fold (scan_step mode w valid complete packed m) [0..<Suc n] (scan_init, 0) =
        scan_step mode w valid complete packed m n
          (fold (scan_step mode w valid complete packed m) [0..<n] (scan_init, 0))"
      by simp
    show ?case
      unfolding unroll Suc.IH ids find_upt_Suc scan_step_eq sid_def [symmetric] live_def [symmetric]
      by (cases "find (\<lambda>s. \<not> bit valid s) [0..<n]"; cases "find (\<lambda>s. bit valid s \<and> sid s = m) [0..<n]";
          cases "find (\<lambda>s. bit valid s \<and> bit complete s) [0..<n]"; cases "bit valid n";
          simp add: found_slot_def Let_def scan_init_def)
  qed (simp add: scan_init_def found_slot_def ids_of_def)
qed

lemma bit_ids_of:
  "bit (ids_of mode w valid packed n) k \<longleftrightarrow>
   k < 64 \<and> \<not> mode \<and> (\<exists>s<n. bit valid s \<and> unat (scan_slot_id mode w packed (of_nat s)) = k)"
proof (induction n)
  case (Suc n)
  define sid where "sid s = unat (scan_slot_id mode w packed (of_nat s))" for s
  have step: "ids_of mode w valid packed (Suc n) =
      (if bit valid n \<and> \<not> mode then ids_of mode w valid packed n OR push_bit (sid n) 1
       else ids_of mode w valid packed n)"
    unfolding ids_of_def sid_def by (cases mode) simp_all
  have one: "bit (push_bit (sid n) (1 :: u64)) k \<longleftrightarrow> k < 64 \<and> sid n = k"
    unfolding bit_push_bit_iff bit_1_iff by auto
  have "bit (ids_of mode w valid packed (Suc n)) k \<longleftrightarrow>
      bit (ids_of mode w valid packed n) k \<or> (bit valid n \<and> \<not> mode \<and> k < 64 \<and> sid n = k)"
    unfolding step using one by (cases "bit valid n"; cases mode) (simp_all only: if_True if_False simp_thms bit_or_iff)
  with Suc.IH show ?case
    unfolding sid_def [symmetric] by (simp only: less_Suc_eq) blast
qed (simp add: ids_of_def)

lemma id_fold:
  "fold (\<lambda>n' out. if \<not> axi_id_found out \<and> drop_bit n' used AND 1 = 0
                  then out\<lparr>axi_id_found := True, scan_axi_id := of_nat n'\<rparr> else out)
     [0..<n] out =
   (if axi_id_found out then out
    else case find (\<lambda>n'. \<not> bit used n') [0..<n] of None \<Rightarrow> out
         | Some n' \<Rightarrow> out\<lparr>axi_id_found := True, scan_axi_id := of_nat n'\<rparr>)"
proof (induction n)
  case (Suc n)
  have "drop_bit n used AND 1 = 0 \<longleftrightarrow> \<not> bit used n" using and_1_bit [of n used] by blast
  with Suc.IH show ?case by (simp add: find_append split: option.split)
qed simp

lemma id_count_unat:
  assumes "unat w \<le> 6"
  shows "unat (ucast (push_bit (unat w) 1 :: u32) :: u16) = 2 ^ unat w"
proof -
  from assms have "unat w \<in> {0, 1, 2, 3, 4, 5, 6}" by auto
  then show ?thesis by auto
qed

lemma unat_mask_axi_id:
  assumes "unat w \<le> 6"
  shows "unat (axi_dual_port_mask_axi_id x w) = unat x mod 2 ^ unat w"
proof -
  have "\<not> 8 \<le> w" using assms by (simp add: word_le_nat_alt)
  then have "axi_dual_port_mask_axi_id x w = ucast (take_bit (unat w) (ucast x :: u32))"
    by (simp add: axi_dual_port_mask_axi_id_def AXI_DUAL_PORT_AXI_ID_MASK_FOR_WIDTH_def
        take_bit_eq_mask mask_eq_exp_minus_1)
  also have "\<dots> = take_bit (unat w) x"
    by (rule bit_word_eqI) (auto simp: bit_ucast_iff bit_take_bit_iff)
  finally show ?thesis
    unfolding unsigned_take_bit_eq [symmetric] take_bit_eq_mod [symmetric] by simp
qed

lemma slot_unat: "s < 32 \<Longrightarrow> unat (of_nat s :: u8) = s"
  by (simp add: unat_of_nat)

lemma find_uptD:
  "find P [0..<n] = Some s \<Longrightarrow> s < n \<and> P s \<and> (\<forall>j < s. \<not> P j)"
  by (auto simp: find_Some_iff)

lemma scan_unfold:
  fixes n w mid :: u8 and valid complete :: u32 and packed :: u64
  assumes "unat n \<le> 32" and "unat w \<le> 6"
  defines "mode \<equiv> unat n \<le> 2 ^ unat w"
  defines "m \<equiv> axi_dual_port_mask_axi_id mid w"
  defines "out \<equiv> fst (fold (scan_step mode w valid complete packed m) [0..<unat n] (scan_init, 0))"
  shows "axi_bridge_pending_scan_control n w valid complete packed mid =
     (if mode then out\<lparr>axi_id_found := free_found out, scan_axi_id := axi_dual_port_mask_axi_id (free_slot out) w\<rparr>
      else case find (\<lambda>i. \<not> bit (ids_of mode w valid packed (unat n)) i) [0..<2 ^ unat w] of
             None \<Rightarrow> out | Some i \<Rightarrow> out\<lparr>axi_id_found := True, scan_axi_id := of_nat i\<rparr>)"
proof -
  have mode: "(ucast n :: u16) \<le> ucast (push_bit (unat w) 1 :: u32) \<longleftrightarrow> mode"
    unfolding mode_def word_le_nat_alt id_count_unat [OF assms(2)] by (simp add: unat_ucast_widen)
  have f: "fold (scan_step mode w valid complete packed m) [0..<unat n] (scan_init, 0) =
      (out, ids_of mode w valid packed (unat n))"
    unfolding out_def scan_fold by simp
  have none: "\<not> axi_id_found out"
    unfolding out_def scan_fold by (simp add: scan_init_def)
  show ?thesis
    unfolding axi_bridge_pending_scan_control_def Let_def id_count_unat [OF assms(2)] mode m_def [symmetric]
      f prod.case id_fold
    by (simp only: none if_False)
qed

text \<open>A search below \<open>n\<close>: \<open>found\<close> tells whether some index has the property, and \<open>s\<close> is then the lowest.\<close>

definition finds_lowest :: "nat \<Rightarrow> (nat \<Rightarrow> bool) \<Rightarrow> bool \<Rightarrow> nat \<Rightarrow> bool" where
  "finds_lowest n P found s \<longleftrightarrow>
     (found \<longleftrightarrow> (\<exists>i<n. P i)) \<and> (found \<longrightarrow> s < n \<and> P s \<and> (\<forall>i < s. \<not> P i))"

lemma finds_lowest_find:
  assumes "n \<le> 256"
  shows "finds_lowest n P (find P [0..<n] \<noteq> None) (unat (found_slot (find P [0..<n])))"
proof (cases "find P [0..<n]")
  case None
  then show ?thesis by (auto simp: finds_lowest_def find_None_iff)
next
  case (Some i)
  note i = find_uptD [OF Some]
  then have "unat (of_nat i :: u8) = i" using assms by (simp add: unat_of_nat)
  then show ?thesis using i by (auto simp: Some finds_lowest_def found_slot_def)
qed

lemma finds_lowest_cong: "(\<And>i. i < n \<Longrightarrow> P i \<longleftrightarrow> Q i) \<Longrightarrow> finds_lowest n P found s \<Longrightarrow> finds_lowest n Q found s"
  unfolding finds_lowest_def by (metis order.strict_trans)

text \<open>C30: the scan of the pending table finds exactly what there is. A free slot is found exactly when some slot is
  not valid, a match exactly when some valid slot has the id of the response, a finished one exactly when some
  valid slot is complete, and each is the lowest such slot. With no more slots than ids (then a
  slot's id is its index) an AXI id is found exactly when a slot is free, and is the free slot's index;
  otherwise it is found exactly when some id of the width belongs to no valid slot, and is the
  lowest of them. In both cases the id is within the width and no valid slot has it.\<close>

theorem pending_scan_sound:
  fixes n w :: u8
  assumes "unat n \<le> 32" and "unat w \<le> 6"
  shows "let r = axi_bridge_pending_scan_control n w valid complete packed mid;
             sid = (\<lambda>s. scan_slot_id (unat n \<le> 2 ^ unat w) w packed (of_nat s))
         in finds_lowest (unat n) (\<lambda>s. \<not> bit valid s) (free_found r) (unat (free_slot r)) \<and>
            finds_lowest (unat n) (\<lambda>s. bit valid s \<and> sid s = axi_dual_port_mask_axi_id mid w)
              (match_found r) (unat (match_slot r)) \<and>
            finds_lowest (unat n) (\<lambda>s. bit valid s \<and> bit complete s) (complete_found r) (unat (complete_slot r)) \<and>
            (if unat n \<le> 2 ^ unat w
             then finds_lowest (unat n) (\<lambda>s. \<not> bit valid s) (axi_id_found r) (unat (scan_axi_id r))
             else finds_lowest (2 ^ unat w) (\<lambda>i. \<forall>s<unat n. bit valid s \<longrightarrow> unat (sid s) \<noteq> i)
                    (axi_id_found r) (unat (scan_axi_id r))) \<and>
            (axi_id_found r \<longrightarrow> unat (scan_axi_id r) < 2 ^ unat w \<and>
               (\<forall>s<unat n. bit valid s \<longrightarrow> sid s \<noteq> scan_axi_id r))"
proof -
  define mode where "mode \<longleftrightarrow> unat n \<le> 2 ^ unat w"
  define sid where "sid s = scan_slot_id mode w packed (of_nat s)" for s :: nat
  define m where "m = axi_dual_port_mask_axi_id mid w"
  define r where "r = axi_bridge_pending_scan_control n w valid complete packed mid"
  define F where "F = find (\<lambda>s. \<not> bit valid s) [0..<unat n]"
  define M where "M = find (\<lambda>s. bit valid s \<and> sid s = m) [0..<unat n]"
  define K where "K = find (\<lambda>s. bit valid s \<and> bit complete s) [0..<unat n]"
  define J where "J = find (\<lambda>i. \<not> bit (ids_of mode w valid packed (unat n)) i) [0..<2 ^ unat w]"
  note unf = scan_unfold [OF assms, of valid complete packed mid, folded mode_def m_def r_def, folded J_def,
      unfolded scan_fold, folded F_def, folded sid_def, folded M_def, folded K_def]
  have fields: "free_found r = (F \<noteq> None)" "free_slot r = found_slot F" "match_found r = (M \<noteq> None)"
    "match_slot r = found_slot M" "complete_found r = (K \<noteq> None)" "complete_slot r = found_slot K"
    "axi_id_found r = (if mode then F \<noteq> None else J \<noteq> None)"
    "scan_axi_id r = (if mode then axi_dual_port_mask_axi_id (found_slot F) w else found_slot J)"
    unfolding unf by (auto simp: scan_init_def found_slot_def split: option.split)
  have n256: "unat n \<le> 256" using assms(1) by simp
  have pow: "(2 :: nat) ^ unat w \<le> 2 ^ 6" using assms(2) by (intro power_increasing) auto
  have slots: "finds_lowest (unat n) (\<lambda>s. \<not> bit valid s) (free_found r) (unat (free_slot r))"
    "finds_lowest (unat n) (\<lambda>s. bit valid s \<and> sid s = m) (match_found r) (unat (match_slot r))"
    "finds_lowest (unat n) (\<lambda>s. bit valid s \<and> bit complete s) (complete_found r) (unat (complete_slot r))"
    unfolding fields F_def M_def K_def by (rule finds_lowest_find [OF n256])+
  have ids: "if mode then finds_lowest (unat n) (\<lambda>s. \<not> bit valid s) (axi_id_found r) (unat (scan_axi_id r))
      else finds_lowest (2 ^ unat w) (\<lambda>i. \<forall>s<unat n. bit valid s \<longrightarrow> unat (sid s) \<noteq> i)
        (axi_id_found r) (unat (scan_axi_id r))"
  proof (cases mode)
    case True
    have "unat (scan_axi_id r) = unat (free_slot r)" if "free_found r"
    proof -
      have "unat (free_slot r) < 2 ^ unat w" using slots(1) that True unfolding mode_def finds_lowest_def by simp
      then show ?thesis using True by (simp add: fields unat_mask_axi_id [OF assms(2)])
    qed
    then show ?thesis using slots(1) True by (auto simp: finds_lowest_def fields(1,7))
  next
    case False
    have "finds_lowest (2 ^ unat w) (\<lambda>i. \<not> bit (ids_of mode w valid packed (unat n)) i) (axi_id_found r)
        (unat (scan_axi_id r))"
      unfolding fields J_def using False finds_lowest_find pow by simp
    then have "finds_lowest (2 ^ unat w) (\<lambda>i. \<forall>s<unat n. bit valid s \<longrightarrow> unat (sid s) \<noteq> i) (axi_id_found r)
        (unat (scan_axi_id r))"
      by (rule finds_lowest_cong [rotated]) (use False pow in \<open>auto simp: bit_ids_of sid_def\<close>)
    then show ?thesis using False by simp
  qed
  have fresh: "unat (scan_axi_id r) < 2 ^ unat w \<and> (\<forall>s<unat n. bit valid s \<longrightarrow> sid s \<noteq> scan_axi_id r)" if "axi_id_found r"
  proof (cases mode)
    case True
    have "unat (sid s) = s" if "s < unat n" for s
      using that True assms(1) by (simp add: sid_def scan_slot_id_def slot_unat)
    then show ?thesis using ids that True unfolding mode_def finds_lowest_def by (metis order.strict_trans2)
  next
    case False
    then show ?thesis using ids that unfolding finds_lowest_def by auto
  qed
  show ?thesis
    unfolding Let_def r_def [symmetric] mode_def [symmetric] sid_def [symmetric] m_def [symmetric]
    using slots ids fresh by blast
qed

text \<open>Eight slots and two id bits; slots 0, 1 and 3 are valid with ids 0, 1 and 3, slot 1 is complete and the
  response has id 1: slot 2 is free, slot 1 matches and is the finished one, id 2 is fresh.\<close>

theorem pending_scan_sound_witness:
  "let r = axi_bridge_pending_scan_control 8 2 0b1011 0b0010 0b11100100 1;
       sid = (\<lambda>s. scan_slot_id (unat (8 :: u8) \<le> 2 ^ unat (2 :: u8)) 2 0b11100100 (of_nat s))
   in finds_lowest (unat (8 :: u8)) (\<lambda>s. \<not> bit (0b1011 :: u32) s) (free_found r) (unat (free_slot r)) \<and>
      finds_lowest (unat (8 :: u8)) (\<lambda>s. bit (0b1011 :: u32) s \<and> sid s = axi_dual_port_mask_axi_id 1 2)
        (match_found r) (unat (match_slot r)) \<and>
      finds_lowest (unat (8 :: u8)) (\<lambda>s. bit (0b1011 :: u32) s \<and> bit (0b0010 :: u32) s)
        (complete_found r) (unat (complete_slot r)) \<and>
      finds_lowest (2 ^ unat (2 :: u8)) (\<lambda>i. \<forall>s<unat (8 :: u8). bit (0b1011 :: u32) s \<longrightarrow> unat (sid s) \<noteq> i)
        (axi_id_found r) (unat (scan_axi_id r))"
  using pending_scan_sound [of 8 2 "0b1011" "0b0010" "0b11100100" 1] unfolding Let_def by simp

section \<open>The ring pointers\<close>

text \<open>The queue a ring stands for: \<open>cnt\<close> entries from the head on, around the end.\<close>

definition ring_list :: "(nat \<Rightarrow> 'a) \<Rightarrow> u8 \<Rightarrow> u8 \<Rightarrow> u8 \<Rightarrow> 'a list" where
  "ring_list mem head cnt depth = map (\<lambda>i. mem ((unat head + i) mod unat depth)) [0..<unat cnt]"

definition ring_ok :: "u8 \<Rightarrow> u8 \<Rightarrow> u8 \<Rightarrow> u8 \<Rightarrow> bool" where
  "ring_ok head tail cnt depth \<longleftrightarrow> 0 < depth \<and> head < depth \<and> cnt \<le> depth \<and>
     unat tail = (unat head + unat cnt) mod unat depth"

lemma unat_add_one_less: "x < (y :: u8) \<Longrightarrow> unat (x + 1) = Suc (unat x)"
  by (metis not_less unat_add_one word_order.extremum)

lemma next_ptr_mod:
  assumes "p < depth"
  shows "unat (axi_bridge_next_ptr p depth) = Suc (unat p) mod unat depth"
proof (cases "depth \<le> 1")
  case True
  with assms have "unat depth = 1 \<and> unat p = 0" by (simp add: word_le_nat_alt word_less_nat_alt)
  with True show ?thesis by (simp add: axi_bridge_next_ptr_def)
next
  case False
  have d: "unat (depth - 1) = unat depth - 1" using False by (simp add: unat_sub word_le_nat_alt)
  show ?thesis
  proof (cases "p = depth - 1")
    case True
    then have "Suc (unat p) = unat depth" using d False by (simp add: word_le_nat_alt)
    with True False show ?thesis by (simp add: axi_bridge_next_ptr_def)
  next
    case ne: False
    then have "unat p \<noteq> unat depth - 1" using d by (metis word_unat_eq_iff)
    then have "Suc (unat p) < unat depth" using assms by (simp add: word_less_nat_alt)
    with ne False assms show ?thesis
      by (simp add: axi_bridge_next_ptr_def unat_add_one_less)
  qed
qed

text \<open>C31: the ring pointers implement a bounded queue. On a well-formed ring, with a push only
  where there is space and a pop only where there is an entry, the new pointers are well-formed
  and stand for the old queue without its front, if it was popped, followed by the new entry,
  if one was pushed at the tail.\<close>

theorem fifo_ptr_refines_queue:
  assumes ok: "ring_ok head tail cnt depth" and room: "push \<Longrightarrow> cnt < depth" and some: "pop \<Longrightarrow> 0 < cnt"
  shows "let c = axi_bridge_fifo_ptr_control head tail cnt push pop depth;
             mem' = (if push then mem(unat tail := x) else mem)
         in ring_ok (next_head c) (next_tail c) (next_count c) depth \<and>
            ring_list mem' (next_head c) (next_count c) depth =
              (if pop then tl (ring_list mem head cnt depth) else ring_list mem head cnt depth) @
              (if push then [x] else [])"
proof -
  let ?c = "axi_bridge_fifo_ptr_control head tail cnt push pop depth"
  let ?D = "unat depth" and ?h = "unat head" and ?n = "unat cnt"
  define mem' where "mem' = (if push then mem(unat tail := x) else mem)"
  have D: "0 < ?D" "?h < ?D" "?n \<le> ?D" and tl: "unat tail = (?h + ?n) mod ?D"
    using ok by (auto simp: ring_ok_def word_less_nat_alt word_le_nat_alt)
  have tlt: "tail < depth" using tl D(1) by (simp add: word_less_nat_alt)
  have hd: "head < depth" using ok by (simp add: ring_ok_def)
  have pop1: "pop \<Longrightarrow> unat (cnt - 1) = ?n - 1"
    using some by (simp add: unat_sub word_le_nat_alt word_less_nat_alt Suc_le_eq)
  have pos: "pop \<Longrightarrow> 0 < ?n" using some by (simp add: word_less_nat_alt)
  have lt: "push \<Longrightarrow> ?n < ?D" using room by (simp add: word_less_nat_alt)
  have push1: "push \<Longrightarrow> unat (cnt + 1) = Suc ?n" using room by (simp add: unat_add_one_less)
  have nh: "unat (next_head ?c) = (?h + (if pop then 1 else 0)) mod ?D"
    using next_ptr_mod [OF hd] D(2) by (simp add: axi_bridge_fifo_ptr_control_def)
  have nt: "unat (next_tail ?c) = (?h + ?n + (if push then 1 else 0)) mod ?D"
    using next_ptr_mod [OF tlt] by (simp add: axi_bridge_fifo_ptr_control_def tl mod_Suc_eq)
  have nc: "unat (next_count ?c) = ?n + (if push then 1 else 0) - (if pop then 1 else 0)"
    using pop1 push1 pos by (simp add: axi_bridge_fifo_ptr_control_def)
  have wf: "ring_ok (next_head ?c) (next_tail ?c) (next_count ?c) depth"
    using D nh nt nc lt pos
    by (auto simp: ring_ok_def word_less_nat_alt word_le_nat_alt mod_add_left_eq)
  have apart: "(?h + i) mod ?D \<noteq> (?h + j) mod ?D" if "i < j" "j < ?D" for i j
  proof
    assume "(?h + i) mod ?D = (?h + j) mod ?D"
    then obtain q1 q2 where "?h + i + ?D * q1 = ?h + j + ?D * q2" by (auto simp: nat_mod_eq_iff)
    then have q: "i + ?D * q1 = j + ?D * q2" by simp
    then have "i mod ?D = j mod ?D" by (metis mod_mult_self2)
    with that show False by simp
  qed
  have old: "mem' ((?h + i) mod ?D) = mem ((?h + i) mod ?D)" if "i < ?n" for i
    using apart [of i ?n] that lt by (auto simp: mem'_def tl)
  have new: "push \<Longrightarrow> mem' ((?h + ?n) mod ?D) = x" by (simp add: mem'_def tl)
  have base: "map (\<lambda>i. mem' ((?h + i) mod ?D)) [a..<?n] = map (\<lambda>i. mem ((?h + i) mod ?D)) [a..<?n]" for a
    using old by auto
  have shift: "ring_list mem' (next_head ?c) (next_count ?c) depth =
      map (\<lambda>i. mem' ((?h + i) mod ?D)) [(if pop then 1 else 0)..<?n + (if push then 1 else 0)]"
  proof (rule nth_equalityI)
    fix i assume "i < length (ring_list mem' (next_head ?c) (next_count ?c) depth)"
    then have "i < ?n + (if push then 1 else 0) - (if pop then 1 else 0)" by (simp add: ring_list_def nc)
    then show "ring_list mem' (next_head ?c) (next_count ?c) depth ! i =
        map (\<lambda>i. mem' ((?h + i) mod ?D)) [(if pop then 1 else 0)..<?n + (if push then 1 else 0)] ! i"
      by (simp add: ring_list_def nc nh mod_add_left_eq add.assoc)
  qed (simp add: ring_list_def nc)
  have "ring_list mem' (next_head ?c) (next_count ?c) depth =
      (if pop then tl (ring_list mem head cnt depth) else ring_list mem head cnt depth) @ (if push then [x] else [])"
  proof -
    have t: "tl (map f [0..<?n]) = map f [1..<?n]" for f :: "nat \<Rightarrow> 'a"
      by (simp only: map_tl [symmetric] tl_upt One_nat_def)
    have u: "map f [a..<?n + (if push then 1 else 0)] = map f [a..<?n] @ (if push then [f ?n] else [])"
      if "a \<le> ?n" for f :: "nat \<Rightarrow> 'a" and a
      using that by simp
    have "(if pop then 1 else 0) \<le> ?n" using pos by (simp add: Suc_le_eq)
    note v = u [OF this, of "\<lambda>i. mem' ((?h + i) mod ?D)", unfolded base]
    show ?thesis
      unfolding shift v unfolding ring_list_def using new by (auto simp only: t if_True if_False split: if_split)
  qed
  with wf show ?thesis unfolding Let_def mem'_def by blast
qed

theorem fifo_ptr_refines_queue_witness:
  "let c = axi_bridge_fifo_ptr_control 3 1 2 True True 4;
       mem' = (if True then (\<lambda>i. i * 10)(unat (1 :: u8) := 77) else (\<lambda>i. i * 10))
   in ring_ok (next_head c) (next_tail c) (next_count c) 4 \<and>
      ring_list mem' (next_head c) (next_count c) 4 =
        (if True then tl (ring_list (\<lambda>i. i * 10) 3 2 4) else ring_list (\<lambda>i. i * 10) 3 2 4) @
        (if True then [77] else [])"
  by (rule fifo_ptr_refines_queue) (simp_all add: ring_ok_def)

section \<open>Issue shapes\<close>

lemma u8_le_255: "unat (x :: u8) \<le> 255"
  using unsigned_less [of x, where 'a = nat] by simp

lemma u32_lt: "unat (x :: u32) < 2 ^ 32"
  using unsigned_less [of x, where 'a = nat] by simp

lemma unat_sum_small:
  "unat (x :: u32) + unat y < 2 ^ 32 \<Longrightarrow> unat (x + y) = unat x + unat y"
  by (simp add: unat_plus_if')

lemma unat_ucast_8_32: "unat (ucast (x :: u8) :: u32) = unat x"
  by (rule unat_ucast_widen) simp

lemma unat_axi_len:
  assumes "b \<noteq> 0"
  shows "unat (axi_dual_port_axi_len_for_beat_bytes t b) = unat t div unat b"
proof -
  have b0: "0 < unat b" using assms by (simp add: unat_gt_0)
  have sum: "unat (ucast t + ucast b :: u32) = unat t + unat b"
    using u8_le_255 [of t] u8_le_255 [of b] by (subst unat_sum_small) (simp_all add: unat_ucast_8_32)
  define beats where "beats = (ucast t + ucast b :: u32) div ucast b"
  have ub: "unat beats = Suc (unat t div unat b)"
    using b0 div_add_self2 [of "unat b" "unat t"] unfolding beats_def unat_div sum unat_ucast_8_32
    by linarith
  have pos: "0 < beats" using ub by (simp add: word_less_nat_alt)
  have pred: "unat (beats - 1) = unat t div unat b"
    using ub pos by (simp add: unat_sub word_le_nat_alt)
  have "unat t div unat b \<le> 255" using u8_le_255 [of t] by (meson div_le_dividend order_trans)
  then have "unat (ucast (beats - 1) :: u8) = unat t div unat b"
    by (simp add: unsigned_ucast_eq take_bit_nat_eq_self pred)
  then show ?thesis
    using assms pos by (simp add: axi_dual_port_axi_len_for_beat_bytes_def Let_def beats_def)
qed

lemma unat_align_down:
  assumes "b \<noteq> 0"
  shows "unat (axi_bridge_align_down_addr a b) = unat a - unat a mod unat b"
proof (cases "b \<le> 1")
  case True
  have "0 < b" using assms by (simp add: word_neq_0_conv)
  then have "unat b = 1" using True by (simp add: word_le_nat_alt word_less_nat_alt)
  with True show ?thesis by (simp add: axi_bridge_align_down_addr_def)
next
  case False
  have "unat a div unat b * unat b \<le> unat a" by simp
  then have "unat a div unat b * unat b < 2 ^ 32" using u32_lt [of a] by (rule le_less_trans)
  then have "unat ((a div ucast b) * ucast b) = unat a div unat b * unat b"
    by (simp add: unat_mult_lem [THEN iffD1] unat_div unat_ucast_8_32 unat_word_ariths)
  with False show ?thesis
    by (simp add: axi_bridge_align_down_addr_def minus_mod_eq_div_mult)
qed

lemma single_beat_iff:
  assumes "d \<noteq> 0"
  shows "axi_bridge_mode2_single_axi_beat a t d \<longleftrightarrow> unat a mod unat d + unat t < unat d"
proof -
  define off where "off = a - axi_bridge_align_down_addr a d"
  have "axi_bridge_align_down_addr a d \<le> a"
    by (simp add: word_le_nat_alt unat_align_down [OF assms])
  then have off: "unat off = unat a mod unat d"
    by (simp add: off_def unat_sub unat_align_down [OF assms])
  have req: "unat (ucast t + 1 :: u16) = Suc (unat t)"
    using u8_le_255 [of t] by (simp add: unat_add_one unat_ucast_widen) (auto simp: word_unat_eq_iff unat_ucast_widen unsigned_minus_1_eq_mask mask_eq_exp_minus_1)
  have m: "unat a mod unat d \<le> 255"
  proof -
    have "0 < unat d" using assms by (simp add: unat_gt_0)
    then have "unat a mod unat d < unat d" by (rule mod_less_divisor)
    with u8_le_255 [of d] show ?thesis by linarith
  qed
  have "unat (off + ucast (ucast t + 1 :: u16)) = unat a mod unat d + Suc (unat t)"
    using m u8_le_255 [of t]
    by (subst unat_sum_small) (simp_all add: off unat_ucast_widen req)
  then show ?thesis
    unfolding axi_bridge_mode2_single_axi_beat_def Let_def off_def [symmetric] word_le_nat_alt
    by (simp add: req unat_ucast_widen unat_ucast_8_32) linarith
qed

text \<open>The issued burst covers the request. When the request lies in one aligned line, under
  forced alignment, or, without it, does not straddle a data beat if it fits in one, the DDR
  shape starts at or below the request, ends at or above its end, and its beats carry all
  issued bytes.\<close>

theorem issue_shape_covers_request:
  fixes d line t :: u8 and a :: u32
  assumes "4 \<le> d" and "line \<noteq> 0"
    and "force \<Longrightarrow> unat a mod unat line + unat t < unat line"
    and "\<not> force \<Longrightarrow> unat t < unat d \<Longrightarrow> unat a mod unat d + unat t < unat d"
  shows "let s = axi_bridge_downstream_read_issue_shape False a t line d force
         in unat (ds_issue_addr s) \<le> unat a \<and>
            unat a + unat t \<le> unat (ds_issue_addr s) + unat (ds_issue_size s) \<and>
            unat (ds_issue_size s) < unat (ds_total_beats s) * unat d"
proof -
  define s where "s = axi_bridge_downstream_read_issue_shape False a t line d force"
  have d4: "4 \<le> unat d" using assms(1) by (simp add: word_le_nat_alt)
  then have d0: "d \<noteq> 0" by auto
  have pred: "unat (x - 1) = unat x - 1" if "x \<noteq> 0" for x :: u8
    using that by (simp add: unat_sub word_le_nat_alt unat_gt_0 Suc_le_eq)
  have cover: "unat a - unat a mod b \<le> unat a \<and> unat a + unat t \<le> unat a - unat a mod b + (b - 1)"
    if "unat a mod b + unat t < b" for b
  proof -
    have "unat a mod b \<le> unat a" by simp
    with that show ?thesis by linarith
  qed
  have small: "((ucast t + 1 :: u16) \<le> ucast d) \<longleftrightarrow> unat t < unat d"
    using u8_le_255 [of t]
    by (simp add: word_le_nat_alt unat_ucast_widen unat_add_one)
      (auto simp: word_unat_eq_iff unat_ucast_widen unsigned_minus_1_eq_mask mask_eq_exp_minus_1)
  have fields: "unat (ds_issue_addr s) \<le> unat a \<and>
      unat a + unat t \<le> unat (ds_issue_addr s) + unat (ds_issue_size s)"
  proof (cases force)
    case True
    show ?thesis
    proof (cases "axi_bridge_mode2_single_axi_beat a t d")
      case single: True
      with cover [of "unat d"] True show ?thesis
        by (simp add: s_def axi_bridge_downstream_read_issue_shape_def axi_bridge_mode2_shape_def Let_def
            unat_align_down [OF d0] pred [OF d0] single_beat_iff [OF d0])
    next
      case multi: False
      with cover [of "unat line"] assms(3) True show ?thesis
        by (simp add: s_def axi_bridge_downstream_read_issue_shape_def axi_bridge_mode2_shape_def Let_def
            unat_align_down [OF assms(2)] pred [OF assms(2)])
    qed
  next
    case False
    with cover [of "unat d"] assms(4) small show ?thesis
      by (cases "unat t < unat d")
        (simp_all add: s_def axi_bridge_downstream_read_issue_shape_def Let_def
            unat_align_down [OF d0] pred [OF d0])
  qed
  have len: "ds_total_beats s = axi_dual_port_axi_len_for_beat_bytes (ds_issue_size s) d + 1"
    by (simp add: s_def axi_bridge_downstream_read_issue_shape_def axi_dual_port_axi_beat_shape_def
        Let_def split: prod.split)
  have "unat (ds_issue_size s) div unat d \<le> 255 div 4"
    using u8_le_255 [of "ds_issue_size s"] d4 by (intro div_le_mono2 [THEN order_trans, OF _ _ div_le_mono]) auto
  then have n255: "unat (axi_dual_port_axi_len_for_beat_bytes (ds_issue_size s) d) \<noteq> unat (- 1 :: u8)"
    by (simp add: unat_axi_len [OF d0] unsigned_minus_1_eq_mask mask_eq_exp_minus_1)
  then have "axi_dual_port_axi_len_for_beat_bytes (ds_issue_size s) d \<noteq> - 1" by metis
  then have "unat (ds_total_beats s) = Suc (unat (ds_issue_size s) div unat d)"
    unfolding len by (simp add: unat_add_one unat_axi_len [OF d0])
  then have "unat (ds_issue_size s) < unat (ds_total_beats s) * unat d"
    using d4 by (simp add: dividend_less_times_div mult.commute)
  with fields show ?thesis unfolding s_def Let_def by blast
qed

theorem issue_shape_covers_request_witness:
  "let s = axi_bridge_downstream_read_issue_shape False 0x80000024 7 64 32 False
   in unat (ds_issue_addr s) \<le> unat (0x80000024 :: u32) \<and>
      unat (0x80000024 :: u32) + unat (7 :: u8) \<le> unat (ds_issue_addr s) + unat (ds_issue_size s) \<and>
      unat (ds_issue_size s) < unat (ds_total_beats s) * unat (32 :: u8)"
  by (rule issue_shape_covers_request) simp_all

section \<open>Byte packing\<close>

lemma get_byte64: "axi_bridge_get_byte64 v i = get_byte v (unat i)"
  by (simp add: axi_bridge_get_byte64_def get_byte_def word_le_nat_alt)

lemma set_byte64: "axi_bridge_set_byte64 v i b = set_byte v (unat i) b"
proof -
  have "push_bit k (ucast b) AND push_bit k 0xFF = (push_bit k (ucast b) :: u64)" for k
    by (rule bit_word_eqI) (auto simp: bit_and_iff bit_push_bit_iff ff_mask bit_mask_iff bit_ucast_iff
        dest: bit_imp_le_length)
  then show ?thesis
    by (simp add: axi_bridge_set_byte64_def set_byte_def word_le_nat_alt Let_def)
qed

lemma uint_less_nat: "unat (w :: 'a::len word) < m \<longleftrightarrow> uint w < int m"
  by (metis of_nat_less_iff of_nat_unat)

lemma sint_small: "unat (w :: u32) < 2 ^ 31 \<Longrightarrow> sint w = int (unat w)"
proof -
  assume "unat w < 2 ^ 31"
  then have "uint w < 2 ^ 31" unfolding uint_less_nat by simp
  moreover have "- (2 ^ 31) \<le> uint w" by (rule order_trans [of _ 0]) simp_all
  ultimately have "signed_take_bit 31 (uint w) = uint w" by (intro signed_take_bit_int_eq_self) simp_all
  then show ?thesis by (simp add: sint_uint)
qed

lemma dst_byte:
  fixes j n :: u8
  assumes "i < 256"
  shows "sint (ucast j * ucast n + of_nat i :: u32) = int (unat j * unat n + i)"
proof -
  have p: "unat j * unat n \<le> 255 * 255" using u8_le_255 by (intro mult_le_mono)
  have "unat (ucast j * ucast n :: u32) = unat j * unat n"
    using p by (simp add: unat_word_ariths unat_ucast_8_32)
  moreover have "unat (of_nat i :: u32) = i" using assms by (simp add: unat_of_nat)
  ultimately have u: "unat (ucast j * ucast n + of_nat i :: u32) = unat j * unat n + i"
    using p assms by (subst unat_sum_small) simp_all
  with p assms show ?thesis by (subst sint_small) simp_all
qed

lemma of_nat_u8: "i < 256 \<Longrightarrow> unat (of_nat i :: u8) = i"
  by (simp add: unat_of_nat)

text \<open>The two packing loops, byte by byte.\<close>

lemma set_loop:
  fixes v :: u64
  assumes "n \<le> 256" and "k < 8"
    and inj: "\<And>i j. i < n \<Longrightarrow> j < n \<Longrightarrow> P i \<Longrightarrow> P j \<Longrightarrow> unat (at i) = unat (at j) \<Longrightarrow> i = j"
  shows "get_byte (fold (\<lambda>i v. if P i then axi_bridge_set_byte64 v (at i) (f i) else v) [0..<n] v) k =
    (case find (\<lambda>i. P i \<and> unat (at i) = k) [0..<n] of None \<Rightarrow> get_byte v k | Some i \<Rightarrow> f i)"
  using assms
proof (induction n)
  case (Suc n)
  have none: "find (\<lambda>i. P i \<and> unat (at i) = k) [0..<n] = None" if "P n" "unat (at n) = k"
    unfolding find_None_iff
  proof
    assume "\<exists>i. i \<in> set [0..<n] \<and> P i \<and> unat (at i) = k"
    then obtain i where "i < n" "P i" "unat (at i) = k" by auto
    with Suc.prems(3) [of i n] that show False by simp
  qed
  have "get_byte (fold (\<lambda>i v. if P i then axi_bridge_set_byte64 v (at i) (f i) else v) [0..<n] v) k =
      (case find (\<lambda>i. P i \<and> unat (at i) = k) [0..<n] of None \<Rightarrow> get_byte v k | Some i \<Rightarrow> f i)"
    by (rule Suc.IH) (use Suc.prems in auto)
  with none Suc.prems(2) show ?case
    by (auto simp: set_byte64 get_set_byte find_append split: option.split)
qed simp

lemma fold_wdata:
  "axi_wdata (fold (\<lambda>i out. if P i then out\<lparr>axi_wdata := axi_bridge_set_byte64 (axi_wdata out) (at i) (f i),
       axi_wstrb := g i out\<rparr> else out) is out) =
   fold (\<lambda>i v. if P i then axi_bridge_set_byte64 v (at i) (f i) else v) is (axi_wdata out)"
  by (induction "is" arbitrary: out) auto

lemma find_eq_upt: "find (\<lambda>i. P i \<and> i = (k :: nat)) [0..<n] = (if k < n \<and> P k then Some k else None)"
  by (induction n) (auto simp: find_append less_Suc_eq split: option.split)

definition pack_src :: "u32 \<Rightarrow> u32 \<Rightarrow> bool \<Rightarrow> int \<Rightarrow> int" where
  "pack_src req issued aligned dst = (if aligned then dst - sint (req - issued) else dst)"

lemma fold_upt_cong:
  "(\<And>i x. i < n \<Longrightarrow> f i x = g i x) \<Longrightarrow> fold f [0..<n] v = fold g [0..<n] v"
  by (rule fold_cong) (auto simp: fun_eq_iff)

lemma unat_of_int_u8: "0 \<le> z \<Longrightarrow> z < 256 \<Longrightarrow> unat (of_int z :: u8) = nat z"
  by (cases z rule: int_cases) (simp_all add: unat_of_nat)

lemma int_less_uint: "int m < uint (w :: u8) \<longleftrightarrow> m < unat w"
  by (metis of_nat_less_iff of_nat_unat)

lemma write_pack_byte:
  fixes n :: u8
  assumes n: "unat n \<le> 8" and k: "k < unat n"
  shows "get_byte (axi_wdata (axi_bridge_write_pack64 line strb req issued j al lb n)) k =
    (let src = pack_src req issued al (int (unat j * unat n + k))
     in if 0 \<le> src \<and> src < int (unat lb) then get_byte line (nat src) else 0)"
proof -
  define src where "src i = pack_src req issued al (int (unat j * unat n + i))" for i
  define P where "P i \<longleftrightarrow> 0 \<le> src i \<and> src i < int (unat lb)" for i
  have srcs: "(if al then sint (ucast j * ucast n + of_nat i :: u32) - sint (req - issued)
      else sint (ucast j * ucast n + of_nat i :: u32)) = src i" if "i < unat n" for i
    using that n by (simp add: dst_byte pack_src_def src_def)
  have "axi_wdata (axi_bridge_write_pack64 line strb req issued j al lb n) =
      fold (\<lambda>i v. if P i then axi_bridge_set_byte64 v (of_nat i) (axi_bridge_get_byte64 line (of_int (src i))) else v)
        [0..<unat n] 0"
    unfolding axi_bridge_write_pack64_def Let_def fold_wdata
    by (subst fold_upt_cong [where g = "\<lambda>i v. if P i then axi_bridge_set_byte64 v (of_nat i)
        (axi_bridge_get_byte64 line (of_int (src i))) else v"]) (simp_all add: srcs P_def)
  also have "get_byte \<dots> k = (case find (\<lambda>i. P i \<and> unat (of_nat i :: u8) = k) [0..<unat n] of
      None \<Rightarrow> get_byte (0 :: u64) k | Some i \<Rightarrow> axi_bridge_get_byte64 line (of_int (src i)))"
    by (rule set_loop) (use n k in \<open>auto simp: of_nat_u8\<close>)
  also have "find (\<lambda>i. P i \<and> unat (of_nat i :: u8) = k) [0..<unat n] = find (\<lambda>i. P i \<and> i = k) [0..<unat n]"
    using n by (intro find_cong) (auto simp: of_nat_u8)
  also have "\<dots> = (if P k then Some k else None)" using k by (simp add: find_eq_upt)
  finally have "get_byte (axi_wdata (axi_bridge_write_pack64 line strb req issued j al lb n)) k =
      (if P k then axi_bridge_get_byte64 line (of_int (src k)) else 0)" by simp
  moreover have "P k \<Longrightarrow> axi_bridge_get_byte64 line (of_int (src k)) = get_byte line (nat (src k))"
    using unsigned_less [of lb, where 'a = int] by (simp add: get_byte64 P_def unat_of_int_u8)
  ultimately show ?thesis by (simp add: Let_def P_def src_def)
qed

lemma read_merge_byte:
  fixes n :: u8
  assumes n: "unat n \<le> 8" and k: "k < 8"
  shows "get_byte (merged_data (axi_bridge_read_pack64 cur beat req issued j al rb n)) k =
    (if unat j * unat n \<le> k \<and> k < unat j * unat n + unat n \<and> k < unat rb
     then get_byte beat (k - unat j * unat n) else get_byte cur k)"
proof -
  define dst where "dst i = unat j * unat n + i" for i
  have dst_inj: "dst i = dst i' \<Longrightarrow> i = i'" for i i' by (simp add: dst_def)
  have dsts: "sint (ucast j * ucast n + of_nat i :: u32) = int (dst i)" if "i < unat n" for i
    using that n by (simp add: dst_byte dst_def)
  have "merged_data (axi_bridge_read_pack64 cur beat req issued j al rb n) =
      fold (\<lambda>i v. if dst i < unat rb then axi_bridge_set_byte64 v (of_int (int (dst i))) (axi_bridge_get_byte64 beat (of_nat i)) else v)
        [0..<unat n] cur"
    unfolding axi_bridge_read_pack64_def Let_def
    by (cases al; subst fold_upt_cong [where g = "\<lambda>i v. if dst i < unat rb then axi_bridge_set_byte64 v (of_int (int (dst i)))
        (axi_bridge_get_byte64 beat (of_nat i)) else v"]) (simp_all add: dsts int_less_uint)
  also have "get_byte \<dots> k = (case find (\<lambda>i. dst i < unat rb \<and> unat (of_int (int (dst i)) :: u8) = k) [0..<unat n] of
      None \<Rightarrow> get_byte cur k | Some i \<Rightarrow> axi_bridge_get_byte64 beat (of_nat i))"
    by (rule set_loop) (use n k u8_le_255 [of rb] in \<open>auto simp: unat_of_nat dst_inj\<close>)
  also have "find (\<lambda>i. dst i < unat rb \<and> unat (of_int (int (dst i)) :: u8) = k) [0..<unat n] =
      find (\<lambda>i. (unat j * unat n \<le> k \<and> k < unat rb) \<and> i = k - unat j * unat n) [0..<unat n]"
  proof (rule find_cong [OF refl])
    fix i
    have "unat (of_int (int (dst i)) :: u8) = dst i" if "dst i < unat rb"
      using that u8_le_255 [of rb] by (simp add: unat_of_nat)
    then have "(dst i < unat rb \<and> unat (of_int (int (dst i)) :: u8) = k) \<longleftrightarrow> dst i < unat rb \<and> dst i = k"
      by metis
    also have "\<dots> \<longleftrightarrow> (unat j * unat n \<le> k \<and> k < unat rb) \<and> i = k - unat j * unat n"
      unfolding dst_def by auto
    finally show "(dst i < unat rb \<and> unat (of_int (int (dst i)) :: u8) = k) \<longleftrightarrow>
      (unat j * unat n \<le> k \<and> k < unat rb) \<and> i = k - unat j * unat n" .
  qed
  also have "\<dots> = (if k - unat j * unat n < unat n \<and> unat j * unat n \<le> k \<and> k < unat rb
      then Some (k - unat j * unat n) else None)"
    by (rule find_eq_upt)
  finally have found: "get_byte (merged_data (axi_bridge_read_pack64 cur beat req issued j al rb n)) k =
      (case (if k - unat j * unat n < unat n \<and> unat j * unat n \<le> k \<and> k < unat rb
             then Some (k - unat j * unat n) else None) of
         None \<Rightarrow> get_byte cur k | Some i \<Rightarrow> axi_bridge_get_byte64 beat (of_nat i))" .
  have at: "axi_bridge_get_byte64 beat (of_nat (k - unat j * unat n)) = get_byte beat (k - unat j * unat n)"
    unfolding get_byte64 by (subst of_nat_u8) (use k in simp_all)
  have "(k - unat j * unat n < unat n \<and> unat j * unat n \<le> k \<and> k < unat rb) \<longleftrightarrow>
      (unat j * unat n \<le> k \<and> k < unat j * unat n + unat n \<and> k < unat rb)"
    by auto
  with found at show ?thesis by (simp only: option.case split: if_split) blast
qed

lemma read_final_byte:
  assumes k: "k < 8"
  shows "get_byte (final_data (axi_bridge_read_pack64 cur beat req issued j True rb n)) k =
    (let src = int k + sint (req - issued)
     in if k < unat rb \<and> 0 \<le> src \<and> src < int (unat rb)
        then get_byte (merged_data (axi_bridge_read_pack64 cur beat req issued j True rb n)) (nat src) else 0)"
proof -
  define m where "m = merged_data (axi_bridge_read_pack64 cur beat req issued j True rb n)"
  define src where "src i = int i + sint (req - issued)" for i
  define P where "P i \<longleftrightarrow> 0 \<le> src i \<and> src i < int (unat rb)" for i
  have "final_data (axi_bridge_read_pack64 cur beat req issued j True rb n) =
      fold (\<lambda>i v. if P i then axi_bridge_set_byte64 v (of_nat i) (axi_bridge_get_byte64 m (of_int (src i))) else v)
        [0..<unat rb] 0"
    unfolding m_def P_def src_def axi_bridge_read_pack64_def Let_def
    by (simp only: not_True_eq_False if_False read_pack64.select_convs)
  also have "get_byte \<dots> k = (case find (\<lambda>i. P i \<and> unat (of_nat i :: u8) = k) [0..<unat rb] of
      None \<Rightarrow> get_byte (0 :: u64) k | Some i \<Rightarrow> axi_bridge_get_byte64 m (of_int (src i)))"
    by (rule set_loop) (use k u8_le_255 [of rb] in \<open>auto simp: of_nat_u8\<close>)
  also have "find (\<lambda>i. P i \<and> unat (of_nat i :: u8) = k) [0..<unat rb] = find (\<lambda>i. P i \<and> i = k) [0..<unat rb]"
    using u8_le_255 [of rb] by (intro find_cong) (auto simp: of_nat_u8)
  also have "\<dots> = (if k < unat rb \<and> P k then Some k else None)" by (rule find_eq_upt)
  finally have "get_byte (final_data (axi_bridge_read_pack64 cur beat req issued j True rb n)) k =
      (if k < unat rb \<and> P k then axi_bridge_get_byte64 m (of_int (src k)) else 0)" by simp
  moreover have "P k \<Longrightarrow> axi_bridge_get_byte64 m (of_int (src k)) = get_byte m (nat (src k))"
    using unsigned_less [of rb, where 'a = int] by (simp add: get_byte64 P_def unat_of_int_u8)
  ultimately show ?thesis by (simp add: Let_def P_def src_def m_def)
qed

text \<open>Packing to an aligned beat and unpacking it are inverse. For a request \<open>off\<close> bytes above
  the issued address, byte i of the line lands in byte i + \<open>off\<close> of the beat, and reading that
  beat back at the same address gives byte i, as far as the beat and the response reach.\<close>

theorem aligned_pack_round_trip:
  fixes n rb lb :: u8 and line cur :: u64 and strb req issued :: u32
  assumes "unat n \<le> 8" and "unat (req - issued) = off"
    and "i + off < unat n" and "i + off < unat rb" and "i < unat lb"
  defines "w \<equiv> axi_wdata (axi_bridge_write_pack64 line strb req issued 0 True lb n)"
  shows "get_byte w (i + off) = get_byte line i \<and>
    get_byte (final_data (axi_bridge_read_pack64 cur w req issued 0 True rb n)) i = get_byte line i"
proof -
  have off: "sint (req - issued) = int off"
    using assms by (subst sint_small) (simp_all add: assms(2))
  have i8: "i < 8" "i + off < 8" using assms(1,3) by linarith+
  have byte: "get_byte w (i + off) = get_byte line i"
    using write_pack_byte [OF assms(1,3), of line strb req issued 0 True lb] assms(5)
    by (simp add: w_def pack_src_def off Let_def int_less_uint)
  have "get_byte (final_data (axi_bridge_read_pack64 cur w req issued 0 True rb n)) i =
      get_byte (merged_data (axi_bridge_read_pack64 cur w req issued 0 True rb n)) (i + off)"
    using read_final_byte [OF i8(1), of cur w req issued 0 rb n] assms(4)
      int_less_uint [of "i + off" rb]
    by (simp add: Let_def off nat_add_distrib)
  also have "\<dots> = get_byte w (i + off)"
    using read_merge_byte [OF assms(1) i8(2), of cur w req issued 0 True rb] assms(3,4) by simp
  finally show ?thesis using byte by simp
qed

theorem aligned_pack_round_trip_witness:
  "get_byte (axi_wdata (axi_bridge_write_pack64 0x0000000000AABBCC 0b111 0x1002 0x1000 0 True 8 8)) (1 + 2) =
     get_byte (0x0000000000AABBCC :: u64) 1 \<and>
   get_byte (final_data (axi_bridge_read_pack64 0
     (axi_wdata (axi_bridge_write_pack64 0x0000000000AABBCC 0b111 0x1002 0x1000 0 True 8 8))
     0x1002 0x1000 0 True 8 8)) 1 = get_byte (0x0000000000AABBCC :: u64) 1"
  by (rule aligned_pack_round_trip) simp_all

text \<open>a line cut into beats is put together again. Packing the beats of an unaligned burst
  one by one and merging them in order restores the first bytes of the line, all those the beats
  carry, and keeps the rest of the read buffer.\<close>

theorem burst_pack_round_trip:
  fixes n :: u8
  assumes "unat n \<le> 8" and "m * unat n \<le> 8" and "i < 8"
  shows "get_byte (fold (\<lambda>j cur. merged_data (axi_bridge_read_pack64 cur
        (axi_wdata (axi_bridge_write_pack64 line strb a a (of_nat j) False 8 n)) a a (of_nat j) False 8 n))
      [0..<m] cur) i =
    (if i < m * unat n then get_byte line i else get_byte cur i)"
  using assms(2)
proof (induction m)
  case (Suc m)
  let ?j = "of_nat m :: u8"
  have fit: "m * unat n + unat n \<le> 8" using Suc.prems by simp
  show ?case
  proof (cases "n = 0")
    case False
    then have "0 < unat n" by (simp add: unat_gt_0)
    then have "m \<le> m * unat n" by simp
    with fit have "m < 256" by linarith
    then have j: "unat ?j = m" by (rule of_nat_u8)
    have byte: "get_byte (axi_wdata (axi_bridge_write_pack64 line strb a a ?j False 8 n)) k = get_byte line (m * unat n + k)"
      if "k < unat n" for k
    proof -
      have "int (m * unat n + k) < 8" using that fit by linarith
      with write_pack_byte [OF assms(1) that, of line strb a a ?j False 8] show ?thesis
        unfolding Let_def pack_src_def j if_False nat_int by simp
    qed
    show ?thesis
      using Suc.IH fit byte [of "i - m * unat n"]
      by (simp add: read_merge_byte [OF assms(1,3)] j)
  qed (use Suc.IH in \<open>simp add: axi_bridge_read_pack64_def\<close>)
qed simp

theorem burst_pack_round_trip_witness:
  "get_byte (fold (\<lambda>j cur. merged_data (axi_bridge_read_pack64 cur
        (axi_wdata (axi_bridge_write_pack64 0x1122334455667788 0xFF 0x40 0x40 (of_nat j) False 8 4)) 0x40 0x40 (of_nat j) False 8 4))
      [0..<2] 0) 6 =
    (if 6 < 2 * unat (4 :: u8) then get_byte (0x1122334455667788 :: u64) 6 else get_byte (0 :: u64) 6)"
  by (rule burst_pack_round_trip) simp_all

end
