(* ===== verification/Axi_Router.thy ===== *)
theory Axi_Router
  imports Axi4_IO
begin

text \<open>
  \<^verbatim>\<open>axi_interconnect/AXI_Router_AXI4.cpp\<close> with the address map \<^verbatim>\<open>include/axi_mmio_map.h\<close>: one
  AXI4 master port is routed to the DDR or to the MMIO bus. Reads remember their target by
  AXI id in two tables of 256 entries, functions of the id here; writes are one stream at a
  time. \<open>router_cycle\<close> runs the two combinational phases and the clock edge over the wires the
  master and the two slaves drive in a cycle.
\<close>

section \<open>State and phases\<close>

record router =
  r_route_valid :: "u8 \<Rightarrow> bool"
  r_route_to_mmio :: "u8 \<Rightarrow> bool"
  r_drive_valid :: bool
  r_drive_to_mmio :: bool
  r_drive_id :: u8
  rw_active :: bool
  w_to_mmio :: bool

definition kAxiMmioRanges :: "kit_config \<Rightarrow> (u32 \<times> u32) list" where
  "kAxiMmioRanges k = [(MMIO_BASE k, MMIO_SIZE k)]"

definition is_mmio_addr :: "kit_config \<Rightarrow> u32 \<Rightarrow> bool" where
  "is_mmio_addr k addr \<longleftrightarrow>
     list_ex (\<lambda>(base, size). addr \<ge> base \<and> addr < base + size) (kAxiMmioRanges k)"

definition router_init :: router where
  "router_init = \<lparr>r_route_valid = (\<lambda>_. False), r_route_to_mmio = (\<lambda>_. False),
     r_drive_valid = False, r_drive_to_mmio = False, r_drive_id = 0,
     rw_active = False, w_to_mmio = False\<rparr>"

definition router_comb_outputs :: "router \<Rightarrow> axi_io \<Rightarrow> axi_io \<Rightarrow> axi_io \<Rightarrow> router \<times> axi_io" where
  "router_comb_outputs s up ddr mmio =
     (let mmio_r_match = rvalid (io_r mmio) \<and> r_route_valid s (rid (io_r mmio)) \<and>
                         r_route_to_mmio s (rid (io_r mmio));
          ddr_r_match = rvalid (io_r ddr) \<and> r_route_valid s (rid (io_r ddr)) \<and>
                        \<not> r_route_to_mmio s (rid (io_r ddr));
          src = (if mmio_r_match then io_r mmio else io_r ddr);
          any = mmio_r_match \<or> ddr_r_match;
          s' = (if any then s\<lparr>r_drive_valid := True, r_drive_to_mmio := mmio_r_match, r_drive_id := rid src\<rparr>
                else s\<lparr>r_drive_valid := False, r_drive_to_mmio := False, r_drive_id := 0\<rparr>);
          r = (if any
               then (io_r up)\<lparr>rvalid := rvalid src, rid := rid src, rdata := rdata src,
                              rresp := rresp src, rlast := rlast src\<rparr>
               else (io_r up)\<lparr>rvalid := False, rid := 0, rdata := 0, rresp := AXI_RESP_OKAY,
                              rlast := False\<rparr>);
          bsrc = (if w_to_mmio s then io_b mmio else io_b ddr);
          b = (if rw_active s
               then (io_b up)\<lparr>bvalid := bvalid bsrc, bid := bid bsrc, bresp := bresp bsrc\<rparr>
               else (io_b up)\<lparr>bvalid := False, bid := 0, bresp := AXI_RESP_OKAY\<rparr>)
      in (s', up\<lparr>io_ar := (io_ar up)\<lparr>arready := False\<rparr>, io_aw := (io_aw up)\<lparr>awready := False\<rparr>,
                 io_w := (io_w up)\<lparr>wready := False\<rparr>, io_r := r, io_b := b\<rparr>))"

text \<open>The request wires of one slave: AR, AW and W, each driven when \<open>go\<close> holds.\<close>

definition drive_ar :: "bool \<Rightarrow> axi4_ar \<Rightarrow> axi4_ar \<Rightarrow> axi4_ar" where
  "drive_ar go up dst =
     (if go then dst\<lparr>arvalid := True, araddr := araddr up, arid := arid up, arlen := arlen up,
                     arsize := arsize up, arburst := arburst up\<rparr>
      else dst\<lparr>arvalid := False\<rparr>)"

definition drive_aw :: "bool \<Rightarrow> axi4_aw \<Rightarrow> axi4_aw \<Rightarrow> axi4_aw" where
  "drive_aw go up dst =
     (if go then dst\<lparr>awvalid := True, awaddr := awaddr up, awid := awid up, awlen := awlen up,
                     awsize := awsize up, awburst := awburst up\<rparr>
      else dst\<lparr>awvalid := False\<rparr>)"

definition drive_w :: "bool \<Rightarrow> axi4_w \<Rightarrow> axi4_w \<Rightarrow> axi4_w" where
  "drive_w go up dst =
     (if go then dst\<lparr>wvalid := True, wdata := wdata up, wstrb := wstrb up, wlast := wlast up\<rparr>
      else dst\<lparr>wvalid := False, wlast := False\<rparr>)"

definition router_comb_inputs ::
  "kit_config \<Rightarrow> router \<Rightarrow> axi_io \<Rightarrow> axi_io \<Rightarrow> axi_io \<Rightarrow> axi_io \<times> axi_io \<times> axi_io" where
  "router_comb_inputs k s up ddr mmio =
     (let ar_sel_mmio = is_mmio_addr k (araddr (io_ar up));
          ar_ready = (if ar_sel_mmio then arready (io_ar mmio) else arready (io_ar ddr));
          arv = arvalid (io_ar up);
          aw_sel_mmio = is_mmio_addr k (awaddr (io_aw up));
          aw_target_ready = (if aw_sel_mmio then awready (io_aw mmio) else awready (io_aw ddr));
          aw_hs_now = awvalid (io_aw up) \<and> aw_target_ready;
          aw_ready = (if \<not> rw_active s then aw_target_ready else False);
          awv = \<not> rw_active s \<and> awvalid (io_aw up);
          w_sel_mmio = (if rw_active s then w_to_mmio s else if aw_hs_now then aw_sel_mmio else False);
          w_open = rw_active s \<or> aw_hs_now;
          w_ready = (if w_open then if w_sel_mmio then wready (io_w mmio) else wready (io_w ddr) else False);
          wv = w_open \<and> wvalid (io_w up)
      in (up\<lparr>io_ar := (io_ar up)\<lparr>arready := ar_ready\<rparr>, io_aw := (io_aw up)\<lparr>awready := aw_ready\<rparr>,
             io_w := (io_w up)\<lparr>wready := w_ready\<rparr>\<rparr>,
          ddr\<lparr>io_ar := drive_ar (arv \<and> \<not> ar_sel_mmio) (io_ar up) (io_ar ddr),
              io_aw := drive_aw (awv \<and> \<not> aw_sel_mmio) (io_aw up) (io_aw ddr),
              io_w := drive_w (wv \<and> \<not> w_sel_mmio) (io_w up) (io_w ddr),
              io_r := (io_r ddr)\<lparr>rready :=
                (if r_drive_valid s \<and> \<not> r_drive_to_mmio s then rready (io_r up) else False)\<rparr>,
              io_b := (io_b ddr)\<lparr>bready :=
                (if rw_active s \<and> \<not> w_to_mmio s then bready (io_b up) else False)\<rparr>\<rparr>,
          mmio\<lparr>io_ar := drive_ar (arv \<and> ar_sel_mmio) (io_ar up) (io_ar mmio),
               io_aw := drive_aw (awv \<and> aw_sel_mmio) (io_aw up) (io_aw mmio),
               io_w := drive_w (wv \<and> w_sel_mmio) (io_w up) (io_w mmio),
               io_r := (io_r mmio)\<lparr>rready :=
                 (if r_drive_valid s \<and> r_drive_to_mmio s then rready (io_r up) else False)\<rparr>,
               io_b := (io_b mmio)\<lparr>bready :=
                 (if rw_active s \<and> w_to_mmio s then bready (io_b up) else False)\<rparr>\<rparr>))"

definition router_seq :: "kit_config \<Rightarrow> router \<Rightarrow> axi_io \<Rightarrow> axi_io \<Rightarrow> axi_io \<Rightarrow> router" where
  "router_seq k s up ddr mmio =
     (let s = (if ar_fires up
               then s\<lparr>r_route_valid := (r_route_valid s)(arid (io_ar up) := True),
                      r_route_to_mmio := (r_route_to_mmio s)(arid (io_ar up) :=
                        is_mmio_addr k (araddr (io_ar up)))\<rparr> else s);
          s = (if r_fires up \<and> rlast (io_r up)
               then s\<lparr>r_route_valid := (r_route_valid s)(rid (io_r up) := False),
                      r_route_to_mmio := (r_route_to_mmio s)(rid (io_r up) := False)\<rparr> else s);
          s = (if aw_fires up
               then s\<lparr>rw_active := True, w_to_mmio := is_mmio_addr k (awaddr (io_aw up))\<rparr> else s)
      in if rw_active s \<and> b_fires (if w_to_mmio s then mmio else ddr)
         then s\<lparr>rw_active := False\<rparr> else s)"

text \<open>One cycle: what the master and the two slaves drive, and the wires after both phases.\<close>

record router_inputs =
  up_in :: axi_io
  ddr_in :: axi_io
  mmio_in :: axi_io

definition router_wires :: "kit_config \<Rightarrow> router_inputs \<Rightarrow> router \<Rightarrow> router \<times> axi_io \<times> axi_io \<times> axi_io" where
  "router_wires k i s =
     (case router_comb_outputs s (up_in i) (ddr_in i) (mmio_in i) of
        (s', up) \<Rightarrow> (s', router_comb_inputs k s' up (ddr_in i) (mmio_in i)))"

definition router_cycle :: "kit_config \<Rightarrow> router_inputs \<Rightarrow> router \<Rightarrow> router" where
  "router_cycle k i s = (case router_wires k i s of (s', up, ddr, mmio) \<Rightarrow> router_seq k s' up ddr mmio)"

abbreviation up_wires :: "kit_config \<Rightarrow> router_inputs \<Rightarrow> router \<Rightarrow> axi_io" where
  "up_wires k i s \<equiv> fst (snd (router_wires k i s))"
abbreviation ddr_wires :: "kit_config \<Rightarrow> router_inputs \<Rightarrow> router \<Rightarrow> axi_io" where
  "ddr_wires k i s \<equiv> fst (snd (snd (router_wires k i s)))"
abbreviation mmio_wires :: "kit_config \<Rightarrow> router_inputs \<Rightarrow> router \<Rightarrow> axi_io" where
  "mmio_wires k i s \<equiv> snd (snd (snd (router_wires k i s)))"

section \<open>Routing in one cycle\<close>

lemmas router_comb_defs = router_wires_def router_comb_outputs_def router_comb_inputs_def
  drive_ar_def drive_aw_def drive_w_def Let_def

lemma is_mmio_range:
  assumes "unat (MMIO_BASE k) + unat (MMIO_SIZE k) < 2 ^ 32"
  shows "is_mmio_addr k a \<longleftrightarrow> unat (MMIO_BASE k) \<le> unat a \<and> unat a < unat (MMIO_BASE k) + unat (MMIO_SIZE k)"
proof -
  have "unat (MMIO_BASE k + MMIO_SIZE k) = unat (MMIO_BASE k) + unat (MMIO_SIZE k)"
    using assms by (simp add: unat_plus_if')
  then show ?thesis
    by (simp add: is_mmio_addr_def kAxiMmioRanges_def word_le_nat_alt word_less_nat_alt)
qed

lemma ar_routing:
  "ar_fires (ddr_wires k i s) \<longleftrightarrow> ar_fires (up_wires k i s) \<and> \<not> is_mmio_addr k (araddr (io_ar (up_in i)))"
  "ar_fires (mmio_wires k i s) \<longleftrightarrow> ar_fires (up_wires k i s) \<and> is_mmio_addr k (araddr (io_ar (up_in i)))"
  by (auto simp: router_comb_defs ar_fires_def)

lemma aw_routing:
  "aw_fires (ddr_wires k i s) \<longleftrightarrow> aw_fires (up_wires k i s) \<and> \<not> is_mmio_addr k (awaddr (io_aw (up_in i)))"
  "aw_fires (mmio_wires k i s) \<longleftrightarrow> aw_fires (up_wires k i s) \<and> is_mmio_addr k (awaddr (io_aw (up_in i)))"
  by (auto simp: router_comb_defs aw_fires_def)

definition write_target :: "kit_config \<Rightarrow> router_inputs \<Rightarrow> router \<Rightarrow> bool" where
  "write_target k i s = (if rw_active s then w_to_mmio s else is_mmio_addr k (awaddr (io_aw (up_in i))))"

lemma w_routing:
  "w_fires (ddr_wires k i s) \<longleftrightarrow> w_fires (up_wires k i s) \<and> \<not> write_target k i s"
  "w_fires (mmio_wires k i s) \<longleftrightarrow> w_fires (up_wires k i s) \<and> write_target k i s"
  by (auto simp: router_comb_defs w_fires_def write_target_def)

lemma r_routing:
  "r_fires (ddr_wires k i s) \<longleftrightarrow> r_fires (up_wires k i s) \<and> \<not> r_route_to_mmio s (rid (io_r (up_wires k i s)))"
  "r_fires (mmio_wires k i s) \<longleftrightarrow> r_fires (up_wires k i s) \<and> r_route_to_mmio s (rid (io_r (up_wires k i s)))"
  by (auto simp: router_comb_defs r_fires_def)

lemma b_routing:
  "b_fires (ddr_wires k i s) \<longleftrightarrow> b_fires (up_wires k i s) \<and> \<not> w_to_mmio s"
  "b_fires (mmio_wires k i s) \<longleftrightarrow> b_fires (up_wires k i s) \<and> w_to_mmio s"
  by (auto simp: router_comb_defs b_fires_def)

lemma r_payload:
  assumes "r_fires (up_wires k i s)"
  defines "src \<equiv> io_r (if r_route_to_mmio s (rid (io_r (up_wires k i s))) then mmio_in i else ddr_in i)"
  shows "rid (io_r (up_wires k i s)) = rid src \<and> rdata (io_r (up_wires k i s)) = rdata src \<and>
    rresp (io_r (up_wires k i s)) = rresp src \<and> rlast (io_r (up_wires k i s)) = rlast src \<and>
    r_route_valid s (rid src)"
  using assms(1) by (auto simp: router_comb_defs r_fires_def src_def split: if_splits)

section \<open>Routing over runs\<close>

text \<open>Per id: the target an accepted read goes to, and the target its last beat comes from.\<close>

definition read_sent :: "kit_config \<Rightarrow> u8 \<Rightarrow> router_inputs \<Rightarrow> router \<Rightarrow> bool list" where
  "read_sent k n i s =
     (if ar_fires (up_wires k i s) \<and> arid (io_ar (up_in i)) = n
      then [is_mmio_addr k (araddr (io_ar (up_in i)))] else [])"

definition read_answered :: "kit_config \<Rightarrow> u8 \<Rightarrow> router_inputs \<Rightarrow> router \<Rightarrow> bool list" where
  "read_answered k n i s =
     (if r_fires (up_wires k i s) \<and> rlast (io_r (up_wires k i s)) \<and> rid (io_r (up_wires k i s)) = n
      then [r_fires (mmio_wires k i s)] else [])"

definition read_pending :: "u8 \<Rightarrow> router \<Rightarrow> bool list" where
  "read_pending n s = (if r_route_valid s n then [r_route_to_mmio s n] else [])"

text \<open>The master's obligation: an id is not used again while a read of it is outstanding.\<close>

definition fresh_ids :: "kit_config \<Rightarrow> router_inputs \<Rightarrow> router \<Rightarrow> bool" where
  "fresh_ids k i s \<longleftrightarrow> \<not> (ar_fires (up_wires k i s) \<and> r_route_valid s (arid (io_ar (up_in i))))"

lemma router_seq_tables:
  "r_route_valid (router_seq k s up ddr mmio) n \<longleftrightarrow>
     (r_route_valid s n \<or> (ar_fires up \<and> arid (io_ar up) = n)) \<and>
     \<not> (r_fires up \<and> rlast (io_r up) \<and> rid (io_r up) = n)"
  "r_route_to_mmio (router_seq k s up ddr mmio) n \<longleftrightarrow>
     (if ar_fires up \<and> arid (io_ar up) = n then is_mmio_addr k (araddr (io_ar up)) else r_route_to_mmio s n) \<and>
     \<not> (r_fires up \<and> rlast (io_r up) \<and> rid (io_r up) = n)"
  unfolding router_seq_def Let_def
  by (cases "ar_fires up"; cases "r_fires up \<and> rlast (io_r up)"; auto)+

lemma wires_tables:
  "r_route_valid (fst (router_wires k i s)) = r_route_valid s"
  "r_route_to_mmio (fst (router_wires k i s)) = r_route_to_mmio s"
  "rw_active (fst (router_wires k i s)) = rw_active s"
  "w_to_mmio (fst (router_wires k i s)) = w_to_mmio s"
  by (simp_all add: router_comb_defs)

lemma up_address:
  "araddr (io_ar (up_wires k i s)) = araddr (io_ar (up_in i))"
  "arid (io_ar (up_wires k i s)) = arid (io_ar (up_in i))"
  "awaddr (io_aw (up_wires k i s)) = awaddr (io_aw (up_in i))"
  "awid (io_aw (up_wires k i s)) = awid (io_aw (up_in i))"
  by (simp_all add: router_comb_defs)

lemma router_cycle_seq:
  "router_cycle k i s = router_seq k (fst (router_wires k i s)) (up_wires k i s) (ddr_wires k i s) (mmio_wires k i s)"
  by (simp add: router_cycle_def split: prod.split)

lemma cycle_route:
  "r_route_valid (router_cycle k i s) n \<longleftrightarrow>
     (r_route_valid s n \<or> read_sent k n i s \<noteq> []) \<and> read_answered k n i s = []"
  "r_route_to_mmio (router_cycle k i s) n \<longleftrightarrow>
     (if read_sent k n i s \<noteq> [] then is_mmio_addr k (araddr (io_ar (up_in i))) else r_route_to_mmio s n) \<and>
     read_answered k n i s = []"
  unfolding router_cycle_seq router_seq_tables wires_tables up_address read_sent_def read_answered_def
  by auto

lemma read_tick:
  assumes "fresh_ids k i s"
  shows "read_answered k n i s @ read_pending n (router_cycle k i s) = read_pending n s @ read_sent k n i s"
proof -
  have ans: "read_answered k n i s = [r_route_to_mmio s n] \<and> r_route_valid s n" if "read_answered k n i s \<noteq> []"
    using that r_payload [of k i s] r_routing(2) [of k i s]
    by (auto simp: read_answered_def split: if_splits)
  have sent: "read_sent k n i s = [is_mmio_addr k (araddr (io_ar (up_in i)))] \<and> \<not> r_route_valid s n"
    if "read_sent k n i s \<noteq> []"
    using that assms by (auto simp: read_sent_def fresh_ids_def split: if_splits)
  show ?thesis
    using ans sent cycle_route [of k i s n]
    by (cases "read_answered k n i s = []"; cases "read_sent k n i s = []") (auto simp: read_pending_def)
qed

interpretation router_reads:
  fifo_view router_init "router_cycle k" "fresh_ids k" "\<lambda>_. True" "read_pending n" "read_sent k n" "read_answered k n"
  for k n
  by unfold_locales (simp_all add: read_tick, simp add: read_pending_def router_init_def)

definition write_sent :: "kit_config \<Rightarrow> router_inputs \<Rightarrow> router \<Rightarrow> bool list" where
  "write_sent k i s =
     (if aw_fires (up_wires k i s) then [is_mmio_addr k (awaddr (io_aw (up_in i)))] else [])"

definition write_answered :: "kit_config \<Rightarrow> router_inputs \<Rightarrow> router \<Rightarrow> bool list" where
  "write_answered k i s = (if b_fires (up_wires k i s) then [b_fires (mmio_wires k i s)] else [])"

definition write_pending :: "router \<Rightarrow> bool list" where
  "write_pending s = (if rw_active s then [w_to_mmio s] else [])"

lemma router_seq_write:
  "rw_active (router_seq k s up ddr mmio) \<longleftrightarrow>
     (rw_active s \<or> aw_fires up) \<and>
     \<not> b_fires (if (if aw_fires up then is_mmio_addr k (awaddr (io_aw up)) else w_to_mmio s) then mmio else ddr)"
  "w_to_mmio (router_seq k s up ddr mmio) =
     (if aw_fires up then is_mmio_addr k (awaddr (io_aw up)) else w_to_mmio s)"
  unfolding router_seq_def Let_def
  by (cases "ar_fires up"; cases "r_fires up \<and> rlast (io_r up)"; cases "aw_fires up"; auto)+

lemma one_write:
  "aw_fires (up_wires k i s) \<Longrightarrow> \<not> rw_active s"
  "b_fires (up_wires k i s) \<Longrightarrow> rw_active s"
  by (auto simp: router_comb_defs fires_defs split: if_splits)

lemma write_tick:
  "write_answered k i s @ write_pending (router_cycle k i s) = write_pending s @ write_sent k i s"
proof -
  have c: "rw_active (router_cycle k i s) \<longleftrightarrow> (rw_active s \<or> aw_fires (up_wires k i s)) \<and>
      \<not> b_fires (if (if aw_fires (up_wires k i s) then is_mmio_addr k (awaddr (io_aw (up_in i))) else w_to_mmio s)
                 then mmio_wires k i s else ddr_wires k i s)"
    "w_to_mmio (router_cycle k i s) =
      (if aw_fires (up_wires k i s) then is_mmio_addr k (awaddr (io_aw (up_in i))) else w_to_mmio s)"
    unfolding router_cycle_seq router_seq_write wires_tables up_address by (rule refl)+
  show ?thesis
    using one_write [of k i s] b_routing [of k i s]
    by (cases "aw_fires (up_wires k i s)"; cases "b_fires (up_wires k i s)"; cases "rw_active s"; cases "w_to_mmio s")
      (auto simp: write_answered_def write_pending_def write_sent_def c)
qed

interpretation router_writes:
  fifo_view router_init "router_cycle k" "\<lambda>_ _. True" "\<lambda>_. True" write_pending "write_sent k" "write_answered k" for k
  by unfold_locales (simp_all add: write_tick, simp add: write_pending_def router_init_def)

section \<open>What the router promises\<close>

text \<open>C32: in every state and every cycle, a handshake of the master is a handshake of exactly one
  slave: the one its address selects for AR and AW, the one the current write goes to for W
  and B, the one the read table names for R.\<close>

theorem router_routes_every_handshake:
  "(ar_fires (mmio_wires k i s) \<longleftrightarrow> ar_fires (up_wires k i s) \<and> is_mmio_addr k (araddr (io_ar (up_in i)))) \<and>
   (ar_fires (ddr_wires k i s) \<longleftrightarrow> ar_fires (up_wires k i s) \<and> \<not> is_mmio_addr k (araddr (io_ar (up_in i)))) \<and>
   (aw_fires (mmio_wires k i s) \<longleftrightarrow> aw_fires (up_wires k i s) \<and> is_mmio_addr k (awaddr (io_aw (up_in i)))) \<and>
   (aw_fires (ddr_wires k i s) \<longleftrightarrow> aw_fires (up_wires k i s) \<and> \<not> is_mmio_addr k (awaddr (io_aw (up_in i)))) \<and>
   (w_fires (mmio_wires k i s) \<longleftrightarrow> w_fires (up_wires k i s) \<and> write_target k i s) \<and>
   (w_fires (ddr_wires k i s) \<longleftrightarrow> w_fires (up_wires k i s) \<and> \<not> write_target k i s) \<and>
   (r_fires (mmio_wires k i s) \<longleftrightarrow> r_fires (up_wires k i s) \<and> r_route_to_mmio s (rid (io_r (up_wires k i s)))) \<and>
   (r_fires (ddr_wires k i s) \<longleftrightarrow> r_fires (up_wires k i s) \<and> \<not> r_route_to_mmio s (rid (io_r (up_wires k i s)))) \<and>
   (b_fires (mmio_wires k i s) \<longleftrightarrow> b_fires (up_wires k i s) \<and> w_to_mmio s) \<and>
   (b_fires (ddr_wires k i s) \<longleftrightarrow> b_fires (up_wires k i s) \<and> \<not> w_to_mmio s)"
  using ar_routing aw_routing w_routing r_routing b_routing by (intro conjI)

text \<open>C33: reads are answered by the slave they were sent to, in any run in which no read is accepted under an id
  whose previous read still waits for its last beat (\<open>fresh_ids\<close>). For every id the slaves that gave the
  last beats, and then the one still owing it, are then exactly the slaves the accepted reads of that id were
  addressed to, in order. Without the condition this fails (\<open>router_reused_id_loses_answer\<close>). In any run at all
  the slaves that answered the writes, then the one still owing, are those the accepted writes were addressed to,
  in acceptance order.\<close>

theorem router_answers_from_target:
  "(allowed (fresh_ids k) (router_cycle k) ios router_init \<longrightarrow>
      collect (read_answered k n) (router_cycle k) ios router_init @
        read_pending n (run_cycles (router_cycle k) ios router_init) =
      collect (read_sent k n) (router_cycle k) ios router_init) \<and>
    collect (write_answered k) (router_cycle k) ios router_init @
      write_pending (run_cycles (router_cycle k) ios router_init) =
    collect (write_sent k) (router_cycle k) ios router_init"
  using router_reads.released_in_order [of k ios n] router_writes.released_in_order [of k ios] by simp

definition port_ready :: axi_io where
  "port_ready = axi_io_zero\<lparr>io_ar := (io_ar axi_io_zero)\<lparr>arready := True\<rparr>\<rparr>"

definition read_request :: "u8 \<Rightarrow> u32 \<Rightarrow> router_inputs" where
  "read_request n a = \<lparr>up_in = axi_io_zero\<lparr>io_ar := (io_ar axi_io_zero)\<lparr>arvalid := True, arid := n, araddr := a\<rparr>\<rparr>,
     ddr_in = port_ready, mmio_in = port_ready\<rparr>"

definition last_beat :: "u8 \<Rightarrow> axi_io" where
  "last_beat n = axi_io_zero\<lparr>io_r := (io_r axi_io_zero)\<lparr>rvalid := True, rid := n, rlast := True\<rparr>\<rparr>"

definition take_read :: "axi_io \<Rightarrow> axi_io \<Rightarrow> router_inputs" where
  "take_read ddr mmio = \<lparr>up_in = axi_io_zero\<lparr>io_r := (io_r axi_io_zero)\<lparr>rready := True\<rparr>\<rparr>,
     ddr_in = ddr, mmio_in = mmio\<rparr>"

definition two_targets :: "router_inputs list" where
  "two_targets = [read_request 3 0x80000000, read_request 4 0x10000000,
     take_read (last_beat 3) (last_beat 4), take_read (last_beat 3) axi_io_zero]"

theorem router_answers_from_target_witness:
  "collect (read_answered default_kit_config 4) (router_cycle default_kit_config) two_targets router_init = [True] \<and>
   collect (read_answered default_kit_config 4) (router_cycle default_kit_config) two_targets router_init @
      read_pending 4 (run_cycles (router_cycle default_kit_config) two_targets router_init) =
    collect (read_sent default_kit_config 4) (router_cycle default_kit_config) two_targets router_init"
proof -
  have h: "allowed (fresh_ids default_kit_config) (router_cycle default_kit_config) two_targets router_init"
    by code_simp
  have "collect (read_answered default_kit_config 4) (router_cycle default_kit_config) two_targets router_init = [True]"
    by code_simp
  with router_answers_from_target [of default_kit_config two_targets 4] h show ?thesis by blast
qed

definition reused_id :: "router_inputs list" where
  "reused_id = [read_request 3 0x80000000, read_request 3 0x80000040,
     take_read (last_beat 3) axi_io_zero, take_read (last_beat 3) axi_io_zero]"

text \<open>an id used by two outstanding reads loses one. AXI4 lets a master issue a second read
  with an id in use; the router keeps one entry per id, so the last beat of the first read
  clears it and the second answer never reaches the master: here both reads are accepted and
  the DDR offers both last beats, one of them again and again.\<close>

theorem router_reused_id_loses_answer:
  "collect (read_sent default_kit_config 3) (router_cycle default_kit_config) reused_id router_init = [False, False] \<and>
   collect (read_answered default_kit_config 3) (router_cycle default_kit_config) reused_id router_init = [False] \<and>
   \<not> rvalid (io_r (up_wires default_kit_config (take_read (last_beat 3) axi_io_zero)
       (run_cycles (router_cycle default_kit_config) reused_id router_init)))"
  by code_simp

end
