(* ===== verification/Uart16550.thy ===== *)
theory Uart16550
  imports Compat
begin

text \<open>
  \<^verbatim>\<open>mmio/UART16550_Device.cpp\<close>: the transmit-only UART. Its state is the record \<open>uart16550\<close>
  with the eight byte registers and the transmit buffer; standard output is the field
  \<open>uart_out\<close>, the bytes printed so far. A byte buffer a device reads into or writes from is a list,
  and the null pointers the code guards against do not arise. The operations are what the
  device interface \<^verbatim>\<open>mmio/include/MMIO_Device.h\<close> asks for; the interface is the locale
  \<open>mmio_device\<close>, in the theory of the bus.
\<close>

unbundle bit_operations_syntax

section \<open>The device\<close>

definition UART_REG_THR :: u32 where "UART_REG_THR = 0"
definition UART_REG_LSR :: u32 where "UART_REG_LSR = 5"
definition UART_LSR_THRE :: u8 where "UART_LSR_THRE = 0x20"
definition UART_LSR_TEMT :: u8 where "UART_LSR_TEMT = 0x40"

record uart16550 =
  uart_base :: u32
  uart_regs :: "u8 list"
  tx_buffer :: "u8 list"
  uart_out :: "u8 list"

definition uart_new :: "u32 \<Rightarrow> uart16550" where
  "uart_new base_addr = \<lparr>uart_base = base_addr, uart_regs = replicate 8 0, tx_buffer = [], uart_out = []\<rparr>"

definition flush_tx_buffer :: "bool \<Rightarrow> uart16550 \<Rightarrow> uart16550" where
  "flush_tx_buffer append_newline u =
     (if tx_buffer u = [] \<and> \<not> append_newline then u
      else u\<lparr>uart_out := uart_out u @ tx_buffer u @ (if append_newline then [10] else []),
             tx_buffer := []\<rparr>)"

definition uart_sync_from_backing :: "(u32 \<Rightarrow> u32) option \<Rightarrow> uart16550 \<Rightarrow> uart16550" where
  "uart_sync_from_backing memory u =
     (case memory of None \<Rightarrow> u
      | Some mem \<Rightarrow>
          let word0 = mem (drop_bit 2 (uart_base u)); word1 = mem (drop_bit 2 (uart_base u) + 1)
          in u\<lparr>uart_regs := [ucast (word0 AND 0xFF), ucast (drop_bit 8 word0 AND 0xFF),
                 ucast (drop_bit 16 word0 AND 0xFF), ucast (drop_bit 24 word0 AND 0xFF),
                 ucast (word1 AND 0xFF), ucast (drop_bit 8 word1 AND 0xFF),
                 ucast (drop_bit 16 word1 AND 0xFF), ucast (drop_bit 24 word1 AND 0xFF)]\<rparr>)"

definition uart_read_byte :: "uart16550 \<Rightarrow> u32 \<Rightarrow> u8" where
  "uart_read_byte u reg_off =
     (if reg_off \<ge> 8 then 0
      else let val = uart_regs u ! unat reg_off
           in if reg_off = UART_REG_LSR then val OR UART_LSR_THRE OR UART_LSR_TEMT else val)"

definition uart_read :: "uart16550 \<Rightarrow> u32 \<Rightarrow> u8 list \<Rightarrow> nat \<Rightarrow> u8 list \<times> uart16550" where
  "uart_read u addr data len =
     (let off = addr - uart_base u
      in (map (\<lambda>i. uart_read_byte u (off + of_nat i)) [0..<len] @ drop len data, u))"

definition uart_transmit :: "u8 \<Rightarrow> uart16550 \<Rightarrow> uart16550" where
  "uart_transmit ch u =
     (if ch = 10 then flush_tx_buffer True u
      else let u = u\<lparr>tx_buffer := tx_buffer u @ [ch]\<rparr>
           in if length (tx_buffer u) \<ge> 1024 then flush_tx_buffer False u else u)"

text \<open>One iteration of the byte-lane loop; a carriage return leaves it early.\<close>

definition uart_write_byte :: "u32 \<Rightarrow> u8 list \<Rightarrow> u32 \<Rightarrow> nat \<Rightarrow> uart16550 \<Rightarrow> uart16550" where
  "uart_write_byte off0 data wstrb i u =
     (let off = off0 + of_nat i in
      if drop_bit i wstrb AND 1 = 0 then u
      else if off \<ge> 8 then u
      else let ch = data ! i; u = u\<lparr>uart_regs := (uart_regs u)[unat off := ch]\<rparr>
           in if off = UART_REG_THR
              then if ch \<noteq> 27 \<and> ch = 13 then u
                   else let u = (if ch \<noteq> 27 then uart_transmit ch u else u)
                        in u\<lparr>uart_regs := (uart_regs u)[unat off := 0]\<rparr>
              else u)"

definition uart_write :: "uart16550 \<Rightarrow> u32 \<Rightarrow> u8 list \<Rightarrow> nat \<Rightarrow> u32 \<Rightarrow> uart16550" where
  "uart_write u addr data len wstrb =
     (if len = 0 then u
      else fold (uart_write_byte (addr - uart_base u) data wstrb) [0..<min len 32] u)"

definition uart_tick :: "uart16550 \<Rightarrow> uart16550" where "uart_tick u = u"

section \<open>Invariant and transcript\<close>

definition uart_ok :: "uart16550 \<Rightarrow> bool" where
  "uart_ok u \<longleftrightarrow> length (uart_regs u) = 8 \<and> length (tx_buffer u) < 1024 \<and>
     10 \<notin> set (tx_buffer u) \<and> 13 \<notin> set (tx_buffer u) \<and> 27 \<notin> set (tx_buffer u)"

text \<open>What has been printed and what waits to be.\<close>

definition uart_sent :: "uart16550 \<Rightarrow> u8 list" where
  "uart_sent u = uart_out u @ tx_buffer u"

text \<open>The bytes of a write that reach the transmit register, and those of them that print.\<close>

definition thr_bytes :: "u32 \<Rightarrow> u32 \<Rightarrow> u8 list \<Rightarrow> nat \<Rightarrow> u32 \<Rightarrow> u8 list" where
  "thr_bytes base addr data len wstrb =
     map ((!) data) (filter (\<lambda>i. bit wstrb i \<and> addr - base + of_nat i = UART_REG_THR) [0..<min len 32])"

definition printed :: "u8 list \<Rightarrow> u8 list" where
  "printed = filter (\<lambda>c. c \<noteq> 27 \<and> c \<noteq> 13)"

lemma strobe_bit: "drop_bit i wstrb AND 1 = 0 \<longleftrightarrow> \<not> bit wstrb i" for wstrb :: u32
  by (simp add: bit_iff_and_drop_bit_eq_1 and_one_eq mod_2_eq_odd)

lemma uart_transmit_sent: "uart_sent (uart_transmit ch u) = uart_sent u @ [ch]"
  by (simp add: uart_transmit_def flush_tx_buffer_def uart_sent_def Let_def)

lemma uart_transmit_fields [simp]:
  "uart_regs (uart_transmit ch u) = uart_regs u" "uart_base (uart_transmit ch u) = uart_base u"
  by (simp_all add: uart_transmit_def flush_tx_buffer_def Let_def)

lemma uart_transmit_ok: "uart_ok u \<Longrightarrow> ch \<noteq> 13 \<Longrightarrow> ch \<noteq> 27 \<Longrightarrow> uart_ok (uart_transmit ch u)"
  by (auto simp: uart_ok_def uart_transmit_def flush_tx_buffer_def Let_def)

lemma uart_regs_ok: "uart_ok (u\<lparr>uart_regs := rs\<rparr>) \<longleftrightarrow> length rs = 8 \<and> uart_ok (u\<lparr>uart_regs := replicate 8 0\<rparr>)"
  by (simp add: uart_ok_def)

lemma uart_sent_regs [simp]: "uart_sent (u\<lparr>uart_regs := rs\<rparr>) = uart_sent u"
  by (simp add: uart_sent_def)

lemma write_byte_sent:
  "uart_sent (uart_write_byte off0 data wstrb i u) =
   uart_sent u @ (if bit wstrb i \<and> off0 + of_nat i = UART_REG_THR then printed [data ! i] else [])"
  by (simp add: uart_write_byte_def strobe_bit Let_def uart_transmit_sent printed_def UART_REG_THR_def)

lemma write_byte_base [simp]: "uart_base (uart_write_byte off0 data wstrb i u) = uart_base u"
  by (simp add: uart_write_byte_def Let_def)

lemma write_byte_ok: "uart_ok u \<Longrightarrow> uart_ok (uart_write_byte off0 data wstrb i u)"
  using uart_transmit_ok [of "u\<lparr>uart_regs := (uart_regs u)[unat (off0 + of_nat i) := data ! i]\<rparr>" "data ! i"]
  by (auto simp: uart_write_byte_def Let_def uart_ok_def)

lemma uart_write_base [simp]: "uart_base (uart_write u addr data len wstrb) = uart_base u"
proof -
  have "uart_base (fold (uart_write_byte off0 data wstrb) is u) = uart_base u" for off0 "is"
    by (induction "is" arbitrary: u) simp_all
  then show ?thesis by (simp add: uart_write_def)
qed

lemma uart_write_ok: "uart_ok u \<Longrightarrow> uart_ok (uart_write u addr data len wstrb)"
proof -
  have "uart_ok u \<Longrightarrow> uart_ok (fold (uart_write_byte off0 data wstrb) is u)" for off0 "is"
    by (induction "is" arbitrary: u) (simp_all add: write_byte_ok)
  then show "uart_ok u \<Longrightarrow> uart_ok (uart_write u addr data len wstrb)" by (simp add: uart_write_def)
qed

lemma uart_write_sent:
  "uart_sent (uart_write u addr data len wstrb) =
   uart_sent u @ printed (thr_bytes (uart_base u) addr data len wstrb)"
proof -
  have "uart_sent (fold (uart_write_byte off0 data wstrb) is u) =
      uart_sent u @ printed (map ((!) data) (filter (\<lambda>i. bit wstrb i \<and> off0 + of_nat i = UART_REG_THR) is))"
    for off0 "is"
    by (induction "is" arbitrary: u) (simp_all add: write_byte_sent printed_def)
  then show ?thesis by (simp add: uart_write_def thr_bytes_def printed_def)
qed

section \<open>What the device promises\<close>

text \<open>A write access as the bus issues it: address, bytes, length, strobes.\<close>

type_synonym uart_access = "u32 \<times> u8 list \<times> nat \<times> u32"

definition uart_accesses :: "uart_access list \<Rightarrow> uart16550 \<Rightarrow> uart16550" where
  "uart_accesses = fold (\<lambda>(addr, data, len, wstrb) u. uart_write u addr data len wstrb)"

lemma uart_accesses_base [simp]: "uart_base (uart_accesses as u) = uart_base u"
  by (induction as arbitrary: u) (auto simp: uart_accesses_def)

lemma uart_accesses_ok: "uart_ok u \<Longrightarrow> uart_ok (uart_accesses as u)"
  by (induction as arbitrary: u) (auto simp: uart_accesses_def uart_write_ok)

lemma uart_new_ok: "uart_ok (uart_new base)"
  by (simp add: uart_ok_def uart_new_def)

text \<open>C35: nothing sent is lost or reordered. After any sequence of write accesses to a fresh
  device, what it has printed followed by what its buffer holds is the sequence of bytes
  strobed into THR without ESC and CR; the buffer stays below 1024 bytes, and no newline waits
  in it.\<close>

theorem uart_prints_what_is_sent:
  "let u = uart_accesses as (uart_new base)
   in uart_out u @ tx_buffer u =
        printed (concat (map (\<lambda>(addr, data, len, wstrb). thr_bytes base addr data len wstrb) as)) \<and>
      length (tx_buffer u) < 1024 \<and> 10 \<notin> set (tx_buffer u)"
proof -
  have "uart_sent (uart_accesses as u) = uart_sent u @
      printed (concat (map (\<lambda>(addr, data, len, wstrb). thr_bytes (uart_base u) addr data len wstrb) as))" for u
  proof (induction as arbitrary: u)
    case (Cons a as)
    obtain addr data len wstrb where a: "a = (addr, data, len, wstrb)" by (cases a) auto
    show ?case
      using Cons.IH [of "uart_write u addr data len wstrb"]
      by (simp add: uart_accesses_def a uart_write_sent printed_def)
  qed (simp add: uart_accesses_def printed_def)
  moreover have "uart_sent (uart_new base) = []" "uart_base (uart_new base) = base"
    by (simp_all add: uart_sent_def uart_new_def)
  ultimately have "uart_out (uart_accesses as (uart_new base)) @ tx_buffer (uart_accesses as (uart_new base)) =
      printed (concat (map (\<lambda>(addr, data, len, wstrb). thr_bytes base addr data len wstrb) as))"
    by (simp add: uart_sent_def [symmetric])
  with uart_accesses_ok [OF uart_new_ok, of as base] show ?thesis
    by (simp add: Let_def uart_ok_def)
qed

text \<open>a carriage return stays readable. The code's comment says that transmitted bytes do
  not remain readable from THR; every other byte written there reads back 0, but the early
  exit for CR skips the clearing, so CR reads back as 13.\<close>

theorem uart_carriage_return_stays:
  "fst (uart_read (uart_write (uart_new 0x10000000) 0x10000000 [13] 1 1) 0x10000000 [0xFF] 1) = [13] \<and>
   fst (uart_read (uart_write (uart_new 0x10000000) 0x10000000 [65] 1 1) 0x10000000 [0xFF] 1) = [0] \<and>
   uart_sent (uart_write (uart_new 0x10000000) 0x10000000 [13] 1 1) = []"
  by code_simp

end
