(* ===== verification/Mmio_Bus.thy ===== *)
theory Mmio_Bus
  imports Axi4_IO Uart16550
begin

text \<open>
  \<^verbatim>\<open>mmio/MMIO_Bus_AXI4.cpp\<close>: the AXI4 bus of the memory-mapped devices, with one read and one
  write in flight. The devices are kept by value in a list, a region names one by its index, and
  the virtual functions of \<^verbatim>\<open>mmio/include/MMIO_Device.h\<close> are the record \<open>mmio_ops\<close>, so the bus is
  generic in the devices' type. What it relies on is the locale \<open>mmio_device\<close>, interpreted on the UART.
\<close>

section \<open>State\<close>

record 'd mmio_ops =
  dev_read :: "'d \<Rightarrow> u32 \<Rightarrow> u8 list \<Rightarrow> nat \<Rightarrow> u8 list \<times> 'd"
  dev_write :: "'d \<Rightarrow> u32 \<Rightarrow> u8 list \<Rightarrow> nat \<Rightarrow> u32 \<Rightarrow> 'd"
  dev_tick :: "'d \<Rightarrow> 'd"

record mmio_region =
  rg_base :: u32
  rg_size :: u32
  rg_dev :: "nat option"

record mmio_pending_read =
  mr_active :: bool
  mr_id :: u8
  mr_addr :: u32
  mr_len :: u8
  mr_size :: u8
  mr_burst :: u8
  mr_beat_idx :: u8
  mr_latency_cnt :: u32
  mr_beat_valid :: bool
  mr_beat_data :: axi_data
  mr_beat_resp :: u8

record mmio_pending_write =
  mw_active :: bool
  mw_id :: u8
  mw_addr :: u32
  mw_len :: u8
  mw_size :: u8
  mw_burst :: u8
  mw_beat_idx :: u8
  mw_resp :: u8

record mmio_write_resp =
  mb_active :: bool
  mb_id :: u8
  mb_resp :: u8
  mb_latency_cnt :: u32

record 'd mmio_bus =
  bus_io :: axi_io
  regions :: "mmio_region list"
  devices :: "'d list"
  mr_pending :: mmio_pending_read
  mw_pending :: mmio_pending_write
  mw_resp_slot :: mmio_write_resp

definition MMIO_LATENCY :: u32 where "MMIO_LATENCY = 1"

definition pending_read_zero :: mmio_pending_read where
  "pending_read_zero = \<lparr>mr_active = False, mr_id = 0, mr_addr = 0, mr_len = 0, mr_size = 0, mr_burst = 0,
     mr_beat_idx = 0, mr_latency_cnt = 0, mr_beat_valid = False, mr_beat_data = 0, mr_beat_resp = 0\<rparr>"

definition pending_write_zero :: mmio_pending_write where
  "pending_write_zero = \<lparr>mw_active = False, mw_id = 0, mw_addr = 0, mw_len = 0, mw_size = 0, mw_burst = 0,
     mw_beat_idx = 0, mw_resp = 0\<rparr>"

definition write_resp_zero :: mmio_write_resp where
  "write_resp_zero = \<lparr>mb_active = False, mb_id = 0, mb_resp = 0, mb_latency_cnt = 0\<rparr>"

text \<open>\<^verbatim>\<open>init()\<close> resets every wire it names; \<^verbatim>\<open>bready\<close> and \<^verbatim>\<open>rready\<close> keep their value.\<close>

definition mmio_init :: "'d mmio_bus \<Rightarrow> 'd mmio_bus" where
  "mmio_init b = b\<lparr>
     regions := [],
     mr_pending := pending_read_zero,
     mw_pending := pending_write_zero,
     mw_resp_slot := write_resp_zero,
     bus_io := \<lparr>
       io_aw = \<lparr>awvalid = False, awready = False, awid = 0, awaddr = 0, awlen = 0,
                awsize = AXI_SIZE_CODE, awburst = AXI_BURST_INCR\<rparr>,
       io_w = \<lparr>wvalid = False, wready = False, wdata = 0, wstrb = 0, wlast = False\<rparr>,
       io_b = (io_b (bus_io b))\<lparr>bvalid := False, bid := 0, bresp := AXI_RESP_OKAY\<rparr>,
       io_ar = \<lparr>arvalid = False, arready = False, arid = 0, araddr = 0, arlen = 0,
                arsize = AXI_SIZE_CODE, arburst = AXI_BURST_INCR\<rparr>,
       io_r = (io_r (bus_io b))\<lparr>rvalid := False, rid := 0, rdata := 0, rresp := AXI_RESP_OKAY,
                rlast := False\<rparr>\<rparr>\<rparr>"

definition mmio_add_device :: "u32 \<Rightarrow> u32 \<Rightarrow> nat option \<Rightarrow> 'd mmio_bus \<Rightarrow> 'd mmio_bus" where
  "mmio_add_device base sz dev b =
     b\<lparr>regions := regions b @ [\<lparr>rg_base = base, rg_size = sz, rg_dev = dev\<rparr>]\<rparr>"

definition find_device :: "'d mmio_bus \<Rightarrow> u32 \<Rightarrow> nat option" where
  "find_device b addr =
     (case find (\<lambda>r. addr \<ge> rg_base r \<and> addr < rg_base r + rg_size r) (regions b) of
        None \<Rightarrow> None | Some r \<Rightarrow> rg_dev r)"

section \<open>Beats\<close>

definition mmio_beat_bytes :: "u8 \<Rightarrow> nat" where
  "mmio_beat_bytes sz = min (if sz < 8 then 2 ^ unat sz else 4) AXI_DATA_BYTES"

definition mmio_beat_addr :: "u32 \<Rightarrow> u8 \<Rightarrow> u8 \<Rightarrow> u8 \<Rightarrow> u32" where
  "mmio_beat_addr base_addr burst sz beat_idx =
     (if burst = AXI_BURST_FIXED then base_addr
      else base_addr + push_bit (unat sz) (ucast beat_idx))"

definition load_beat :: "u8 list \<Rightarrow> nat \<Rightarrow> axi_data" where
  "load_beat p nbytes = fold (\<lambda>i value. set_byte value i (p ! i)) [0..<nbytes] 0"

definition store_beat :: "u8 list \<Rightarrow> axi_data \<Rightarrow> nat \<Rightarrow> u8 list" where
  "store_beat p v nbytes = fold (\<lambda>i p. p[i := get_byte v i]) [0..<nbytes] p"

definition build_read_beat :: "'d mmio_ops \<Rightarrow> 'd mmio_bus \<Rightarrow> 'd mmio_bus" where
  "build_read_beat ops b =
     (let r = mr_pending b in
      if \<not> mr_active r \<or> mr_beat_valid r then b
      else let addr = mmio_beat_addr (mr_addr r) (mr_burst r) (mr_size r) (mr_beat_idx r);
               nbytes = mmio_beat_bytes (mr_size r);
               buf = replicate AXI_DATA_BYTES 0
           in case find_device b addr of
                Some d \<Rightarrow>
                  (case dev_read ops (devices b ! d) addr buf nbytes of
                     (bytes, dev') \<Rightarrow>
                       b\<lparr>devices := (devices b)[d := dev'],
                         mr_pending := r\<lparr>mr_beat_resp := AXI_RESP_OKAY,
                           mr_beat_data := load_beat bytes nbytes, mr_beat_valid := True\<rparr>\<rparr>)
              | None \<Rightarrow>
                  b\<lparr>mr_pending := r\<lparr>mr_beat_resp := AXI_RESP_DECERR,
                      mr_beat_data := load_beat buf nbytes, mr_beat_valid := True\<rparr>\<rparr>)"

section \<open>Combinational outputs\<close>

definition mmio_comb_outputs :: "'d mmio_bus \<Rightarrow> 'd mmio_bus" where
  "mmio_comb_outputs b =
     (let io = bus_io b; r = mr_pending b; w = mw_pending b; p = mw_resp_slot b;
          beat = mr_active r \<and> mr_beat_valid r;
          resp = mb_active p \<and> mb_latency_cnt p \<ge> MMIO_LATENCY
      in b\<lparr>bus_io := io\<lparr>
           io_ar := (io_ar io)\<lparr>arready := \<not> mr_active r\<rparr>,
           io_aw := (io_aw io)\<lparr>awready := \<not> mw_active w \<and> \<not> mb_active p\<rparr>,
           io_w := (io_w io)\<lparr>wready := mw_active w\<rparr>,
           io_r := (io_r io)\<lparr>rvalid := beat, rid := if beat then mr_id r else 0,
                     rdata := if beat then mr_beat_data r else 0,
                     rresp := if beat then mr_beat_resp r else AXI_RESP_OKAY,
                     rlast := beat \<and> mr_beat_idx r = mr_len r\<rparr>,
           io_b := (io_b io)\<lparr>bvalid := resp, bid := if resp then mb_id p else 0,
                     bresp := if resp then mb_resp p else AXI_RESP_OKAY\<rparr>\<rparr>\<rparr>)"

section \<open>The clock edge\<close>

definition mmio_seq_tick :: "'d mmio_ops \<Rightarrow> 'd mmio_bus \<Rightarrow> 'd mmio_bus" where
  "mmio_seq_tick ops b =
     b\<lparr>devices := fold (\<lambda>r ds. case rg_dev r of None \<Rightarrow> ds | Some d \<Rightarrow> ds[d := dev_tick ops (ds ! d)])
                    (regions b) (devices b)\<rparr>"

definition mmio_seq_ar :: "'d mmio_bus \<Rightarrow> 'd mmio_bus" where
  "mmio_seq_ar b =
     (let ar = io_ar (bus_io b) in
      if ar_fires (bus_io b)
      then b\<lparr>mr_pending := \<lparr>mr_active = True, mr_id = arid ar, mr_addr = araddr ar, mr_len = arlen ar,
               mr_size = arsize ar, mr_burst = arburst ar, mr_beat_idx = 0, mr_latency_cnt = 0,
               mr_beat_valid = False, mr_beat_data = 0, mr_beat_resp = AXI_RESP_OKAY\<rparr>\<rparr>
      else b)"

definition mmio_seq_read_build :: "'d mmio_ops \<Rightarrow> 'd mmio_bus \<Rightarrow> 'd mmio_bus" where
  "mmio_seq_read_build ops b =
     (let r = mr_pending b in
      if mr_active r \<and> \<not> mr_beat_valid r
      then let cnt = (if mr_latency_cnt r < MMIO_LATENCY then mr_latency_cnt r + 1 else mr_latency_cnt r);
               b = b\<lparr>mr_pending := r\<lparr>mr_latency_cnt := cnt\<rparr>\<rparr>
           in if cnt \<ge> MMIO_LATENCY then build_read_beat ops b else b
      else b)"

definition mmio_seq_r :: "'d mmio_bus \<Rightarrow> 'd mmio_bus" where
  "mmio_seq_r b =
     (let r = mr_pending b in
      if r_fires (bus_io b) \<and> mr_active r \<and> mr_beat_valid r
      then if rlast (io_r (bus_io b))
           then b\<lparr>mr_pending := r\<lparr>mr_active := False, mr_beat_valid := False\<rparr>\<rparr>
           else b\<lparr>mr_pending := r\<lparr>mr_beat_idx := mr_beat_idx r + 1, mr_latency_cnt := 0,
                    mr_beat_valid := False, mr_beat_data := 0, mr_beat_resp := AXI_RESP_OKAY\<rparr>\<rparr>
      else b)"

definition mmio_seq_aw :: "'d mmio_bus \<Rightarrow> 'd mmio_bus" where
  "mmio_seq_aw b =
     (let aw = io_aw (bus_io b) in
      if aw_fires (bus_io b)
      then b\<lparr>mw_pending := \<lparr>mw_active = True, mw_id = awid aw, mw_addr = awaddr aw, mw_len = awlen aw,
               mw_size = awsize aw, mw_burst = awburst aw, mw_beat_idx = 0, mw_resp = AXI_RESP_OKAY\<rparr>\<rparr>
      else b)"

definition mmio_seq_w :: "'d mmio_ops \<Rightarrow> 'd mmio_bus \<Rightarrow> 'd mmio_bus" where
  "mmio_seq_w ops b =
     (let w = mw_pending b; wch = io_w (bus_io b) in
      if w_fires (bus_io b) \<and> mw_active w
      then let addr = mmio_beat_addr (mw_addr w) (mw_burst w) (mw_size w) (mw_beat_idx w);
               nbytes = mmio_beat_bytes (mw_size w);
               in_bytes = store_beat (replicate AXI_DATA_BYTES 0) (wdata wch) nbytes;
               local_wstrb = fold (\<lambda>i s. if test_bit (wstrb wch) i then s OR push_bit i 1 else s)
                               [0..<min nbytes 32] 0;
               (ds, resp) = (case find_device b addr of
                   Some d \<Rightarrow> ((devices b)[d := dev_write ops (devices b ! d) addr in_bytes nbytes local_wstrb],
                             mw_resp w)
                 | None \<Rightarrow> (devices b, AXI_RESP_DECERR));
               last_beat = (mw_beat_idx w = mw_len w);
               w = w\<lparr>mw_resp := resp, mw_beat_idx := mw_beat_idx w + 1\<rparr>
           in if wlast wch \<or> last_beat
              then b\<lparr>devices := ds, mw_pending := w\<lparr>mw_active := False\<rparr>,
                     mw_resp_slot := \<lparr>mb_active = True, mb_id = mw_id w, mb_resp = resp, mb_latency_cnt = 0\<rparr>\<rparr>
              else b\<lparr>devices := ds, mw_pending := w\<rparr>
      else b)"

definition mmio_seq_resp_latency :: "'d mmio_bus \<Rightarrow> 'd mmio_bus" where
  "mmio_seq_resp_latency b =
     (let p = mw_resp_slot b in
      if mb_active p \<and> mb_latency_cnt p < MMIO_LATENCY
      then b\<lparr>mw_resp_slot := p\<lparr>mb_latency_cnt := mb_latency_cnt p + 1\<rparr>\<rparr> else b)"

definition mmio_seq_b :: "'d mmio_bus \<Rightarrow> 'd mmio_bus" where
  "mmio_seq_b b =
     (if b_fires (bus_io b) \<and> mb_active (mw_resp_slot b)
      then b\<lparr>mw_resp_slot := (mw_resp_slot b)\<lparr>mb_active := False\<rparr>\<rparr> else b)"

definition mmio_seq :: "'d mmio_ops \<Rightarrow> 'd mmio_bus \<Rightarrow> 'd mmio_bus" where
  "mmio_seq ops b =
     mmio_seq_b (mmio_seq_resp_latency (mmio_seq_w ops (mmio_seq_aw
       (mmio_seq_r (mmio_seq_read_build ops (mmio_seq_ar (mmio_seq_tick ops b)))))))"

text \<open>One clock cycle with the master's wires \<open>i\<close>.\<close>

definition mmio_sampled :: "axi_io \<Rightarrow> 'd mmio_bus \<Rightarrow> 'd mmio_bus" where
  "mmio_sampled i b = (let b' = mmio_comb_outputs b in b'\<lparr>bus_io := connect_master i (bus_io b')\<rparr>)"

definition mmio_cycle :: "'d mmio_ops \<Rightarrow> axi_io \<Rightarrow> 'd mmio_bus \<Rightarrow> 'd mmio_bus" where
  "mmio_cycle ops i b = mmio_seq ops (mmio_sampled i b)"

end
