(* ===== verification/Mmio_Props.thy ===== *)
theory Mmio_Props
  imports Mmio_Bus DDR_Memory
begin

text \<open>
  The MMIO bus: its device contract, the read and write streams as \<open>fifo_view\<close>, and what a read
  beat carries.
\<close>

section \<open>The device contract\<close>

text \<open>What the bus relies on: a read fills the buffer it is given without changing its length,
  and every operation keeps the device well-formed.\<close>

locale mmio_device =
  fixes rd :: "'d \<Rightarrow> u32 \<Rightarrow> u8 list \<Rightarrow> nat \<Rightarrow> u8 list \<times> 'd"
    and wr :: "'d \<Rightarrow> u32 \<Rightarrow> u8 list \<Rightarrow> nat \<Rightarrow> u32 \<Rightarrow> 'd"
    and tk :: "'d \<Rightarrow> 'd"
    and ok :: "'d \<Rightarrow> bool"
  assumes read_length: "n \<le> length buf \<Longrightarrow> length (fst (rd d a buf n)) = length buf"
    and ok_read: "ok d \<Longrightarrow> ok (snd (rd d a buf n))"
    and ok_write: "ok d \<Longrightarrow> ok (wr d a bytes n strb)"
    and ok_tick: "ok d \<Longrightarrow> ok (tk d)"
begin

abbreviation ops :: "'d mmio_ops" where
  "ops \<equiv> \<lparr>dev_read = rd, dev_write = wr, dev_tick = tk\<rparr>"

definition all_ok :: "'d mmio_bus \<Rightarrow> bool" where
  "all_ok b \<longleftrightarrow> list_all ok (devices b) \<and>
     (\<forall>r\<in>set (regions b). \<forall>d. rg_dev r = Some d \<longrightarrow> d < length (devices b))"

lemma find_device_bound:
  assumes "all_ok b" and "find_device b addr = Some d"
  shows "d < length (devices b)"
proof -
  from assms(2) obtain r where "find (\<lambda>r. addr \<ge> rg_base r \<and> addr < rg_base r + rg_size r) (regions b) = Some r"
    and d: "rg_dev r = Some d"
    by (auto simp: find_device_def split: option.splits)
  then have "r \<in> set (regions b)" by (auto simp: find_Some_iff)
  with d assms(1) show ?thesis unfolding all_ok_def by blast
qed

lemma tick_devices:
  "list_all ok ds \<Longrightarrow> (\<forall>r\<in>set rs. \<forall>d. rg_dev r = Some d \<longrightarrow> d < length ds) \<Longrightarrow>
   list_all ok (fold (\<lambda>r ds. case rg_dev r of None \<Rightarrow> ds | Some d \<Rightarrow> ds[d := tk (ds ! d)]) rs ds) \<and>
   length (fold (\<lambda>r ds. case rg_dev r of None \<Rightarrow> ds | Some d \<Rightarrow> ds[d := tk (ds ! d)]) rs ds) = length ds"
proof (induction rs arbitrary: ds)
  case (Cons r rs)
  let ?ds = "case rg_dev r of None \<Rightarrow> ds | Some d \<Rightarrow> ds[d := tk (ds ! d)]"
  have "list_all ok ?ds" "length ?ds = length ds"
    using Cons.prems by (auto split: option.split simp: list_all_length nth_list_update intro!: ok_tick)
  with Cons.IH [of ?ds] Cons.prems(2) show ?case by simp
qed simp

lemma all_ok_tick: "all_ok b \<Longrightarrow> all_ok (mmio_seq_tick ops b)"
  using tick_devices [of "devices b" "regions b"]
  unfolding all_ok_def mmio_seq_tick_def mmio_ops.select_convs by simp

lemma all_ok_devices:
  "all_ok b \<Longrightarrow> devices b' = devices b \<Longrightarrow> regions b' = regions b \<Longrightarrow> all_ok b'"
  by (simp add: all_ok_def)

lemma all_ok_one:
  assumes "all_ok b" and "devices b' = (devices b)[d := x]" and "regions b' = regions b" and "ok x"
  shows "all_ok b'"
  using assms by (simp add: all_ok_def list_all_update)

lemma all_ok_build:
  assumes "all_ok b" shows "all_ok (build_read_beat ops b)"
proof -
  let ?r = "mr_pending b"
  let ?addr = "mmio_beat_addr (mr_addr ?r) (mr_burst ?r) (mr_size ?r) (mr_beat_idx ?r)"
  show ?thesis
  proof (cases "find_device b ?addr")
    case None
    show ?thesis by (rule all_ok_devices [OF assms]) (simp_all add: build_read_beat_def Let_def None)
  next
    case (Some d)
    have "d < length (devices b)" by (rule find_device_bound [OF assms Some])
    then have "ok (devices b ! d)" using assms by (simp add: all_ok_def list_all_length)
    moreover obtain bytes dev' where read: "rd (devices b ! d) ?addr (replicate AXI_DATA_BYTES 0)
        (mmio_beat_bytes (mr_size ?r)) = (bytes, dev')"
      by force
    ultimately have "ok dev'" by (metis ok_read snd_conv)
    show ?thesis
    proof (cases "\<not> mr_active ?r \<or> mr_beat_valid ?r")
      case True
      then show ?thesis using assms by (simp add: build_read_beat_def Let_def)
    next
      case False
      then show ?thesis
        by (intro all_ok_one [OF assms _ _ \<open>ok dev'\<close>]) (simp_all add: build_read_beat_def Let_def Some read)
    qed
  qed
qed

lemma all_ok_w:
  assumes "all_ok b" shows "all_ok (mmio_seq_w ops b)"
proof (cases "w_fires (bus_io b) \<and> mw_active (mw_pending b)")
  case True
  let ?w = "mw_pending b"
  let ?addr = "mmio_beat_addr (mw_addr ?w) (mw_burst ?w) (mw_size ?w) (mw_beat_idx ?w)"
  show ?thesis
  proof (cases "find_device b ?addr")
    case None
    show ?thesis by (rule all_ok_devices [OF assms]) (simp_all add: mmio_seq_w_def Let_def None)
  next
    case (Some d)
    let ?n = "mmio_beat_bytes (mw_size ?w)"
    let ?x = "wr (devices b ! d) ?addr (store_beat (replicate AXI_DATA_BYTES 0) (wdata (io_w (bus_io b))) ?n) ?n
      (fold (\<lambda>i s. if test_bit (wstrb (io_w (bus_io b))) i then s OR push_bit i 1 else s) [0..<min ?n 32] 0)"
    have "ok (devices b ! d)"
      using find_device_bound [OF assms Some] assms by (simp add: all_ok_def list_all_length)
    then have "ok ?x" by (rule ok_write)
    with True show ?thesis
      by (intro all_ok_one [OF assms, of _ d ?x]) (simp_all add: mmio_seq_w_def Let_def Some)
  qed
next
  case False
  then have "mmio_seq_w ops b = b" unfolding mmio_seq_w_def Let_def by (rule if_not_P)
  with assms show ?thesis by simp
qed

lemma all_ok_read_build:
  assumes "all_ok b" shows "all_ok (mmio_seq_read_build ops b)"
proof -
  have "all_ok (b\<lparr>mr_pending := x\<rparr>)" for x by (rule all_ok_devices [OF assms]) simp_all
  with assms all_ok_build show ?thesis by (simp add: mmio_seq_read_build_def Let_def)
qed

lemma all_ok_controls:
  assumes "all_ok b"
  shows "all_ok (mmio_sampled i b)" "all_ok (mmio_seq_ar b)" "all_ok (mmio_seq_r b)" "all_ok (mmio_seq_aw b)"
    "all_ok (mmio_seq_resp_latency b)" "all_ok (mmio_seq_b b)"
  by (rule all_ok_devices [OF assms];
      simp add: mmio_sampled_def mmio_comb_outputs_def mmio_seq_ar_def mmio_seq_r_def mmio_seq_aw_def
        mmio_seq_resp_latency_def mmio_seq_b_def Let_def)+

lemma all_ok_cycle: "all_ok b \<Longrightarrow> all_ok (mmio_cycle ops i b)"
  unfolding mmio_cycle_def mmio_seq_def
  by (intro all_ok_controls all_ok_w all_ok_read_build all_ok_tick)

end

text \<open>The UART meets the contract.\<close>

definition uart_ops :: "uart16550 mmio_ops" where
  "uart_ops = \<lparr>dev_read = uart_read, dev_write = uart_write, dev_tick = uart_tick\<rparr>"

interpretation uart: mmio_device uart_read uart_write uart_tick uart_ok
  by unfold_locales (simp_all add: uart_read_def Let_def uart_write_ok uart_tick_def)

section \<open>Reads\<close>

text \<open>The response code a beat has to carry: OKAY where a device is mapped at the address of the beat.\<close>

definition beat_code :: "(u32 \<Rightarrow> nat option) \<Rightarrow> mmio_pending_read \<Rightarrow> u8 \<Rightarrow> u8" where
  "beat_code dev r j =
     (if dev (mmio_beat_addr (mr_addr r) (mr_burst r) (mr_size r) j) = None then AXI_RESP_DECERR else AXI_RESP_OKAY)"

text \<open>A read owes its remaining beats as (id, last, response).\<close>

definition beats_from :: "(u32 \<Rightarrow> nat option) \<Rightarrow> nat \<Rightarrow> mmio_pending_read \<Rightarrow> (u8 \<times> bool \<times> u8) list" where
  "beats_from dev j r = map (\<lambda>j. (mr_id r, j = unat (mr_len r), beat_code dev r (of_nat j))) [j..<Suc (unat (mr_len r))]"

definition beats_owed :: "'d mmio_bus \<Rightarrow> (u8 \<times> bool \<times> u8) list" where
  "beats_owed b = (let r = mr_pending b in
     if mr_active r then beats_from (find_device b) (unat (mr_beat_idx r)) r else [])"

text \<open>The request on the wires.\<close>

definition read_asked :: "axi4_ar \<Rightarrow> mmio_pending_read" where
  "read_asked ar = pending_read_zero\<lparr>mr_id := arid ar, mr_addr := araddr ar, mr_len := arlen ar, mr_size := arsize ar,
     mr_burst := arburst ar\<rparr>"

definition beats_asked :: "axi_io \<Rightarrow> 'd mmio_bus \<Rightarrow> (u8 \<times> bool \<times> u8) list" where
  "beats_asked i b = (if ar_fires (bus_io (mmio_sampled i b))
     then beats_from (find_device b) 0 (read_asked (io_ar i)) else [])"

definition beats_sent :: "axi_io \<Rightarrow> 'd mmio_bus \<Rightarrow> (u8 \<times> bool \<times> u8) list" where
  "beats_sent i b = (let io = bus_io (mmio_sampled i b) in
     if r_fires io then [(rid (io_r io), rlast (io_r io), rresp (io_r io))] else [])"

definition coded :: "'d mmio_bus \<Rightarrow> bool" where
  "coded b \<longleftrightarrow> (let r = mr_pending b in
     mr_active r \<and> mr_beat_valid r \<longrightarrow> mr_beat_resp r = beat_code (find_device b) r (mr_beat_idx r))"

definition mread_inv :: "'d mmio_bus \<Rightarrow> bool" where
  "mread_inv b \<longleftrightarrow> coded b \<and> (mr_active (mr_pending b) \<longrightarrow> mr_beat_idx (mr_pending b) \<le> mr_len (mr_pending b))"

lemma sampled_bus [simp]:
  "mr_pending (mmio_sampled i b) = mr_pending b" "mw_pending (mmio_sampled i b) = mw_pending b"
  "mw_resp_slot (mmio_sampled i b) = mw_resp_slot b" "regions (mmio_sampled i b) = regions b"
  "devices (mmio_sampled i b) = devices b"
  by (simp_all add: mmio_sampled_def mmio_comb_outputs_def Let_def)

lemma sampled_bus_wires:
  "ar_fires (bus_io (mmio_sampled i b)) \<longleftrightarrow> arvalid (io_ar i) \<and> \<not> mr_active (mr_pending b)"
  "r_fires (bus_io (mmio_sampled i b)) \<longleftrightarrow>
     rready (io_r i) \<and> mr_active (mr_pending b) \<and> mr_beat_valid (mr_pending b)"
  "aw_fires (bus_io (mmio_sampled i b)) \<longleftrightarrow>
     awvalid (io_aw i) \<and> \<not> mw_active (mw_pending b) \<and> \<not> mb_active (mw_resp_slot b)"
  "w_fires (bus_io (mmio_sampled i b)) \<longleftrightarrow> wvalid (io_w i) \<and> mw_active (mw_pending b)"
  "b_fires (bus_io (mmio_sampled i b)) \<longleftrightarrow>
     bready (io_b i) \<and> mb_active (mw_resp_slot b) \<and> mb_latency_cnt (mw_resp_slot b) \<ge> MMIO_LATENCY"
  "io_ar (bus_io (mmio_sampled i b)) = (io_ar i)\<lparr>arready := \<not> mr_active (mr_pending b)\<rparr>"
  "io_aw (bus_io (mmio_sampled i b)) =
     (io_aw i)\<lparr>awready := \<not> mw_active (mw_pending b) \<and> \<not> mb_active (mw_resp_slot b)\<rparr>"
  by (auto simp: mmio_sampled_def mmio_comb_outputs_def connect_master_def fires_defs Let_def)

lemma sampled_bus_r:
  "mr_active (mr_pending b) \<Longrightarrow> mr_beat_valid (mr_pending b) \<Longrightarrow>
   rid (io_r (bus_io (mmio_sampled i b))) = mr_id (mr_pending b) \<and>
   rlast (io_r (bus_io (mmio_sampled i b))) = (mr_beat_idx (mr_pending b) = mr_len (mr_pending b)) \<and>
   rresp (io_r (bus_io (mmio_sampled i b))) = mr_beat_resp (mr_pending b)"
  by (simp add: mmio_sampled_def mmio_comb_outputs_def connect_master_def Let_def)

lemma sampled_bus_b:
  "b_fires (bus_io (mmio_sampled i b)) \<Longrightarrow> bid (io_b (bus_io (mmio_sampled i b))) = mb_id (mw_resp_slot b)"
  by (auto simp: mmio_sampled_def mmio_comb_outputs_def connect_master_def b_fires_def Let_def)

text \<open>Which stage touches which part of the state.\<close>

lemma stage_frames [simp]:
  "mr_pending (mmio_seq_tick ops b) = mr_pending b"
  "mw_pending (mmio_seq_tick ops b) = mw_pending b"
  "mw_resp_slot (mmio_seq_tick ops b) = mw_resp_slot b"
  "bus_io (mmio_seq_tick ops b) = bus_io b"
  "mw_pending (mmio_seq_ar b) = mw_pending b"
  "mw_resp_slot (mmio_seq_ar b) = mw_resp_slot b"
  "bus_io (mmio_seq_ar b) = bus_io b"
  "mw_pending (mmio_seq_r b) = mw_pending b"
  "mw_resp_slot (mmio_seq_r b) = mw_resp_slot b"
  "bus_io (mmio_seq_r b) = bus_io b"
  "mr_pending (mmio_seq_aw b) = mr_pending b"
  "mw_resp_slot (mmio_seq_aw b) = mw_resp_slot b"
  "bus_io (mmio_seq_aw b) = bus_io b"
  "mr_pending (mmio_seq_resp_latency b) = mr_pending b"
  "mw_pending (mmio_seq_resp_latency b) = mw_pending b"
  "bus_io (mmio_seq_resp_latency b) = bus_io b"
  "mr_pending (mmio_seq_b b) = mr_pending b"
  "mw_pending (mmio_seq_b b) = mw_pending b"
  by (simp_all add: mmio_seq_tick_def mmio_seq_ar_def mmio_seq_r_def mmio_seq_aw_def
      mmio_seq_resp_latency_def mmio_seq_b_def Let_def)

lemma build_frames [simp]:
  "mw_pending (build_read_beat ops b) = mw_pending b"
  "mw_resp_slot (build_read_beat ops b) = mw_resp_slot b"
  "bus_io (build_read_beat ops b) = bus_io b"
  "mr_active (mr_pending (build_read_beat ops b)) = mr_active (mr_pending b)"
  "mr_id (mr_pending (build_read_beat ops b)) = mr_id (mr_pending b)"
  "mr_addr (mr_pending (build_read_beat ops b)) = mr_addr (mr_pending b)"
  "mr_size (mr_pending (build_read_beat ops b)) = mr_size (mr_pending b)"
  "mr_burst (mr_pending (build_read_beat ops b)) = mr_burst (mr_pending b)"
  "mr_len (mr_pending (build_read_beat ops b)) = mr_len (mr_pending b)"
  "mr_beat_idx (mr_pending (build_read_beat ops b)) = mr_beat_idx (mr_pending b)"
  unfolding build_read_beat_def Let_def
  by (auto split: option.split prod.split)

lemma read_build_frames [simp]:
  "mw_pending (mmio_seq_read_build ops b) = mw_pending b"
  "mw_resp_slot (mmio_seq_read_build ops b) = mw_resp_slot b"
  "bus_io (mmio_seq_read_build ops b) = bus_io b"
  "mr_active (mr_pending (mmio_seq_read_build ops b)) = mr_active (mr_pending b)"
  "mr_id (mr_pending (mmio_seq_read_build ops b)) = mr_id (mr_pending b)"
  "mr_addr (mr_pending (mmio_seq_read_build ops b)) = mr_addr (mr_pending b)"
  "mr_size (mr_pending (mmio_seq_read_build ops b)) = mr_size (mr_pending b)"
  "mr_burst (mr_pending (mmio_seq_read_build ops b)) = mr_burst (mr_pending b)"
  "mr_len (mr_pending (mmio_seq_read_build ops b)) = mr_len (mr_pending b)"
  "mr_beat_idx (mr_pending (mmio_seq_read_build ops b)) = mr_beat_idx (mr_pending b)"
  by (simp_all add: mmio_seq_read_build_def Let_def)

lemma seq_w_frames [simp]:
  "mr_pending (mmio_seq_w ops b) = mr_pending b" "bus_io (mmio_seq_w ops b) = bus_io b"
  unfolding mmio_seq_w_def Let_def by (auto split: prod.split)

text \<open>The map of the devices stays, and a beat that is ready carries its code.\<close>

lemma stage_regions [simp]:
  "regions (mmio_seq_tick ops b) = regions b" "regions (mmio_seq_ar b) = regions b"
  "regions (build_read_beat ops b) = regions b" "regions (mmio_seq_read_build ops b) = regions b"
  "regions (mmio_seq_r b) = regions b" "regions (mmio_seq_aw b) = regions b" "regions (mmio_seq_w ops b) = regions b"
  "regions (mmio_seq_resp_latency b) = regions b" "regions (mmio_seq_b b) = regions b"
  unfolding mmio_seq_tick_def mmio_seq_ar_def mmio_seq_read_build_def build_read_beat_def mmio_seq_r_def mmio_seq_aw_def
    mmio_seq_w_def mmio_seq_resp_latency_def mmio_seq_b_def Let_def
  by (auto split: option.split prod.split)

lemma regions_cycle: "regions (mmio_cycle ops i b) = regions b"
  by (simp add: mmio_cycle_def mmio_seq_def)

lemma find_device_regions: "regions a = regions b \<Longrightarrow> find_device a = find_device b"
  by (simp add: find_device_def fun_eq_iff)

lemma coded_same: "mr_pending a = mr_pending b \<Longrightarrow> regions a = regions b \<Longrightarrow> coded a = coded b"
  using find_device_regions [of a b] by (simp add: coded_def)

lemma coded_build: "coded b \<Longrightarrow> coded (build_read_beat ops b)"
proof -
  assume "coded b"
  moreover have "find_device (build_read_beat ops b) = find_device b" by (rule find_device_regions) simp
  ultimately show ?thesis
    unfolding coded_def build_read_beat_def Let_def
    by (auto simp: beat_code_def split: option.split prod.split)
qed

lemma coded_cycle:
  assumes "coded b"
  shows "coded (mmio_cycle ops i b)"
proof -
  let ?t = "mmio_seq_tick ops (mmio_sampled i b)"
  have "coded ?t" using assms coded_same [of ?t b] by simp
  then have "coded (mmio_seq_ar ?t)" by (simp add: coded_def mmio_seq_ar_def Let_def)
  moreover have "coded (c\<lparr>mr_pending := (mr_pending c)\<lparr>mr_latency_cnt := n\<rparr>\<rparr>) = coded c" for c :: "'a mmio_bus" and n
    using find_device_regions [of "c\<lparr>mr_pending := (mr_pending c)\<lparr>mr_latency_cnt := n\<rparr>\<rparr>" c]
    by (simp add: coded_def beat_code_def Let_def)
  ultimately have "coded (mmio_seq_read_build ops (mmio_seq_ar ?t))"
    by (simp add: mmio_seq_read_build_def Let_def coded_build)
  then have "coded (mmio_seq_r (mmio_seq_read_build ops (mmio_seq_ar ?t)))"
    by (simp add: coded_def mmio_seq_r_def Let_def)
  then show ?thesis
    unfolding mmio_cycle_def mmio_seq_def by (subst coded_same) simp_all
qed

abbreviation same_read :: "mmio_pending_read \<Rightarrow> mmio_pending_read \<Rightarrow> bool" where
  "same_read r q \<equiv> mr_id r = mr_id q \<and> mr_len r = mr_len q \<and> mr_addr r = mr_addr q \<and> mr_size r = mr_size q \<and>
     mr_burst r = mr_burst q"

lemma cycle_read_state:
  fixes b :: "'d mmio_bus" and i :: axi_io and ops :: "'d mmio_ops"
  defines "r \<equiv> mr_pending b" and "r' \<equiv> mr_pending (mmio_cycle ops i b)" and "io \<equiv> bus_io (mmio_sampled i b)"
  shows "r_fires io \<Longrightarrow> same_read r' r \<and>
      mr_active r' = (mr_beat_idx r \<noteq> mr_len r) \<and>
      (mr_active r' \<longrightarrow> mr_beat_idx r' = mr_beat_idx r + 1)"
    and "\<not> r_fires io \<Longrightarrow> ar_fires io \<Longrightarrow> mr_active r' \<and> same_read r' (read_asked (io_ar i)) \<and> mr_beat_idx r' = 0"
    and "\<not> r_fires io \<Longrightarrow> \<not> ar_fires io \<Longrightarrow> mr_active r' = mr_active r \<and> same_read r' r \<and>
      mr_beat_idx r' = mr_beat_idx r"
proof -
  let ?a = "mmio_seq_ar (mmio_seq_tick ops (mmio_sampled i b))"
  have r': "r' = mr_pending (mmio_seq_r (mmio_seq_read_build ops ?a))"
    by (simp add: r'_def mmio_cycle_def mmio_seq_def)
  show "same_read r' r \<and> mr_active r' = (mr_beat_idx r \<noteq> mr_len r) \<and>
      (mr_active r' \<longrightarrow> mr_beat_idx r' = mr_beat_idx r + 1)" if fires: "r_fires io"
  proof -
    have act: "mr_active r" "mr_beat_valid r" using fires by (simp_all add: io_def r_def sampled_bus_wires)
    then have "\<not> ar_fires io" by (simp add: io_def r_def sampled_bus_wires)
    then have "mr_pending ?a = r" by (simp add: mmio_seq_ar_def io_def r_def Let_def)
    moreover from this have "mmio_seq_read_build ops ?a = ?a"
      using act unfolding mmio_seq_read_build_def Let_def by simp
    ultimately show ?thesis
      using fires act sampled_bus_r [of b i] unfolding r'
      by (simp add: mmio_seq_r_def io_def r_def Let_def)
  qed
  have idle: "mmio_seq_r x = x" if "\<not> r_fires io" "bus_io x = io" for x :: "'d mmio_bus"
    using that by (simp add: mmio_seq_r_def Let_def)
  have still: "r' = mr_pending (mmio_seq_read_build ops ?a)" if "\<not> r_fires io"
    using idle [OF that, of "mmio_seq_read_build ops ?a"] by (simp add: r' io_def)
  show "mr_active r' \<and> same_read r' (read_asked (io_ar i)) \<and> mr_beat_idx r' = 0" if "\<not> r_fires io" "ar_fires io"
    using that still by (simp add: io_def mmio_seq_ar_def sampled_bus_wires(6) read_asked_def Let_def)
  show "mr_active r' = mr_active r \<and> same_read r' r \<and> mr_beat_idx r' = mr_beat_idx r" if "\<not> r_fires io" "\<not> ar_fires io"
    using that still by (simp add: io_def r_def mmio_seq_ar_def Let_def)
qed

lemma beats_from_step:
  assumes "j \<le> mr_len r"
  shows "beats_from dev (unat j) r = (mr_id r, j = mr_len r, beat_code dev r j) #
    (if j = mr_len r then [] else beats_from dev (unat (j + 1)) r)"
proof -
  let ?l = "mr_len r"
  have "unat j \<le> unat ?l" using assms by (simp add: word_le_nat_alt)
  moreover have "unat (j + 1) = Suc (unat j)" if "j \<noteq> ?l"
  proof -
    have "j < ?l" using assms that by simp
    then have "j \<noteq> - 1" using word_order.extremum_strict by blast
    then show ?thesis by (simp add: unat_add_one)
  qed
  moreover have "j = ?l \<longleftrightarrow> unat j = unat ?l" by (rule word_unat_eq_iff)
  ultimately show ?thesis by (cases "j = ?l") (simp_all add: beats_from_def upt_conv_Cons del: upt_Suc)
qed

lemma beats_from_same: "same_read r q \<Longrightarrow> beats_from dev j r = beats_from dev j q"
  by (simp add: beats_from_def beat_code_def)

lemma mread_inv_tick: "mread_inv b \<Longrightarrow> mread_inv (mmio_cycle ops i b)"
proof -
  assume inv: "mread_inv b"
  have "mr_beat_idx (mr_pending b) + 1 \<le> mr_len (mr_pending b)"
    if "mr_active (mr_pending b)" "mr_beat_idx (mr_pending b) \<noteq> mr_len (mr_pending b)"
    using that inv by (auto simp: mread_inv_def intro: inc_le)
  then show ?thesis
    using inv cycle_read_state [of i b ops] sampled_bus_wires(2) [of i b] coded_cycle [of b ops i]
    by (cases "r_fires (bus_io (mmio_sampled i b))"; cases "ar_fires (bus_io (mmio_sampled i b))")
      (auto simp: mread_inv_def)
qed

lemma beats_tick:
  assumes "mread_inv b"
  shows "beats_sent i b @ beats_owed (mmio_cycle ops i b) = beats_owed b @ beats_asked i b"
proof -
  let ?io = "bus_io (mmio_sampled i b)" and ?r = "mr_pending b"
  have find: "find_device (mmio_cycle ops i b) = find_device b" by (rule find_device_regions) (rule regions_cycle)
  consider "r_fires ?io" | "\<not> r_fires ?io" "ar_fires ?io" | "\<not> r_fires ?io" "\<not> ar_fires ?io" by blast
  then show ?thesis
  proof cases
    case 1
    then have act: "mr_active (mr_pending b)" "mr_beat_valid (mr_pending b)" "\<not> ar_fires ?io"
      by (simp_all add: sampled_bus_wires)
    let ?r' = "mr_pending (mmio_cycle ops i b)"
    note step = cycle_read_state(1) [OF 1, of ops]
    have "beats_from (find_device b) j ?r' = beats_from (find_device b) j ?r" for j
      by (rule beats_from_same) (use step in simp)
    moreover have "mr_beat_resp ?r = beat_code (find_device b) ?r (mr_beat_idx ?r)" "mr_beat_idx ?r \<le> mr_len ?r"
      using assms act by (simp_all add: mread_inv_def coded_def Let_def)
    ultimately show ?thesis
      using step 1 act sampled_bus_r [OF act(1,2), of i] beats_from_step [of "mr_beat_idx ?r" ?r "find_device b"]
      by (auto simp: beats_sent_def beats_owed_def beats_asked_def Let_def find)
  next
    case 2
    then show ?thesis
      using cycle_read_state(2) [OF 2, of ops] beats_from_same [of "mr_pending (mmio_cycle ops i b)" "read_asked (io_ar i)"]
      by (simp add: beats_sent_def beats_owed_def beats_asked_def sampled_bus_wires Let_def find)
  next
    case 3
    then show ?thesis
      using cycle_read_state(3) [OF 3, of ops] beats_from_same [of "mr_pending (mmio_cycle ops i b)" "mr_pending b"]
      by (simp add: beats_sent_def beats_owed_def beats_asked_def Let_def find)
  qed
qed

text \<open>A bus as the simulator builds it: reset, given its devices, then one call of \<^verbatim>\<open>add_device\<close> per region.\<close>

definition mmio_populated :: "(u32 \<times> u32 \<times> nat option) list \<Rightarrow> 'd list \<Rightarrow> 'd mmio_bus \<Rightarrow> 'd mmio_bus" where
  "mmio_populated rs ds b = fold (\<lambda>(base, sz, dev). mmio_add_device base sz dev) rs ((mmio_init b)\<lparr>devices := ds\<rparr>)"

lemma populated_state:
  "mr_pending (mmio_populated rs ds b) = pending_read_zero" "mw_pending (mmio_populated rs ds b) = pending_write_zero"
  "mw_resp_slot (mmio_populated rs ds b) = write_resp_zero" "devices (mmio_populated rs ds b) = ds"
  "regions (mmio_populated rs ds b) = map (\<lambda>(base, sz, dev). \<lparr>rg_base = base, rg_size = sz, rg_dev = dev\<rparr>) rs"
proof -
  have "mr_pending (fold (\<lambda>(base, sz, dev). mmio_add_device base sz dev) rs c) = mr_pending c \<and>
      mw_pending (fold (\<lambda>(base, sz, dev). mmio_add_device base sz dev) rs c) = mw_pending c \<and>
      mw_resp_slot (fold (\<lambda>(base, sz, dev). mmio_add_device base sz dev) rs c) = mw_resp_slot c \<and>
      devices (fold (\<lambda>(base, sz, dev). mmio_add_device base sz dev) rs c) = devices c \<and>
      regions (fold (\<lambda>(base, sz, dev). mmio_add_device base sz dev) rs c) =
        regions c @ map (\<lambda>(base, sz, dev). \<lparr>rg_base = base, rg_size = sz, rg_dev = dev\<rparr>) rs" for c :: "'d mmio_bus"
    by (induction rs arbitrary: c) (auto simp: mmio_add_device_def)
  from this [of "(mmio_init b)\<lparr>devices := ds\<rparr>"] show
    "mr_pending (mmio_populated rs ds b) = pending_read_zero" "mw_pending (mmio_populated rs ds b) = pending_write_zero"
    "mw_resp_slot (mmio_populated rs ds b) = write_resp_zero" "devices (mmio_populated rs ds b) = ds"
    "regions (mmio_populated rs ds b) = map (\<lambda>(base, sz, dev). \<lparr>rg_base = base, rg_size = sz, rg_dev = dev\<rparr>) rs"
    by (simp_all add: mmio_populated_def mmio_init_def)
qed

interpretation mmio_reads:
  fifo_view "mmio_populated rs ds b0" "mmio_cycle ops" "\<lambda>_ _. True" mread_inv beats_owed beats_asked beats_sent
  for rs :: "(u32 \<times> u32 \<times> nat option) list" and ds :: "'d list" and b0 :: "'d mmio_bus" and ops :: "'d mmio_ops"
  by unfold_locales (simp_all add: mread_inv_tick beats_tick,
    simp_all add: mread_inv_def coded_def beats_owed_def populated_state pending_read_zero_def)

section \<open>Writes\<close>

definition writes_owed :: "'d mmio_bus \<Rightarrow> u8 list" where
  "writes_owed b = (if mb_active (mw_resp_slot b) then [mb_id (mw_resp_slot b)] else []) @
     (if mw_active (mw_pending b) then [mw_id (mw_pending b)] else [])"

definition writes_taken :: "axi_io \<Rightarrow> 'd mmio_bus \<Rightarrow> u8 list" where
  "writes_taken i b = (if aw_fires (bus_io (mmio_sampled i b)) then [awid (io_aw i)] else [])"

definition writes_answered :: "axi_io \<Rightarrow> 'd mmio_bus \<Rightarrow> u8 list" where
  "writes_answered i b = (let io = bus_io (mmio_sampled i b) in if b_fires io then [bid (io_b io)] else [])"

definition mwrite_inv :: "'d mmio_bus \<Rightarrow> bool" where
  "mwrite_inv b \<longleftrightarrow> \<not> (mb_active (mw_resp_slot b) \<and> mw_active (mw_pending b))"

lemma seq_w_state:
  "mw_id (mw_pending (mmio_seq_w ops b)) = mw_id (mw_pending b)"
  "mw_resp_slot (mmio_seq_w ops b) = mw_resp_slot b \<and>
     mw_active (mw_pending (mmio_seq_w ops b)) = mw_active (mw_pending b) \<or>
   w_fires (bus_io b) \<and> mw_active (mw_pending b) \<and> \<not> mw_active (mw_pending (mmio_seq_w ops b)) \<and>
     mb_active (mw_resp_slot (mmio_seq_w ops b)) \<and>
     mb_id (mw_resp_slot (mmio_seq_w ops b)) = mw_id (mw_pending b)"
  unfolding mmio_seq_w_def Let_def by (auto split: prod.split)

lemma cycle_write_state:
  fixes b :: "'d mmio_bus" and i :: axi_io and ops :: "'d mmio_ops"
  defines "w \<equiv> mw_pending b" and "w' \<equiv> mw_pending (mmio_cycle ops i b)"
    and "p \<equiv> mw_resp_slot b" and "p' \<equiv> mw_resp_slot (mmio_cycle ops i b)"
    and "io \<equiv> bus_io (mmio_sampled i b)"
  assumes inv: "mwrite_inv b"
  shows "aw_fires io \<Longrightarrow> mw_active w' \<and> mw_id w' = awid (io_aw i) \<and> \<not> mb_active p'"
    and "\<not> aw_fires io \<Longrightarrow>
      (mw_active w' = mw_active w \<and> mw_id w' = mw_id w \<and> mb_id p' = mb_id p \<and>
       mb_active p' = (mb_active p \<and> \<not> b_fires io)) \<or>
      (mw_active w \<and> \<not> mw_active w' \<and> mb_active p' \<and> mb_id p' = mw_id w)"
proof -
  let ?a = "mmio_seq_aw (mmio_seq_r (mmio_seq_read_build ops (mmio_seq_ar (mmio_seq_tick ops (mmio_sampled i b)))))"
  let ?w = "mmio_seq_w ops ?a"
  have w': "w' = mw_pending ?w" and p': "p' = mw_resp_slot (mmio_seq_b (mmio_seq_resp_latency ?w))"
    by (simp_all add: w'_def p'_def mmio_cycle_def mmio_seq_def)
  have p'_eq: "mb_id p' = mb_id (mw_resp_slot ?w)" "mb_active p' \<longleftrightarrow> mb_active (mw_resp_slot ?w) \<and> \<not> b_fires io"
    unfolding p' by (auto simp: mmio_seq_b_def mmio_seq_resp_latency_def io_def Let_def)
  have a: "mw_resp_slot ?a = p" "bus_io ?a = io" by (simp_all add: p_def io_def)
  show "mw_active w' \<and> mw_id w' = awid (io_aw i) \<and> \<not> mb_active p'" if "aw_fires io"
  proof -
    have idle: "\<not> mb_active p" "\<not> w_fires io" using that by (simp_all add: io_def p_def sampled_bus_wires)
    have "mw_active (mw_pending ?a)" "mw_id (mw_pending ?a) = awid (io_aw i)"
      using that by (simp_all add: mmio_seq_aw_def io_def sampled_bus_wires(7) Let_def)
    then show ?thesis using idle seq_w_state [of ops ?a] p'_eq a unfolding w' by auto
  qed
  show "(mw_active w' = mw_active w \<and> mw_id w' = mw_id w \<and> mb_id p' = mb_id p \<and>
       mb_active p' = (mb_active p \<and> \<not> b_fires io)) \<or>
      (mw_active w \<and> \<not> mw_active w' \<and> mb_active p' \<and> mb_id p' = mw_id w)" if "\<not> aw_fires io"
  proof -
    have aw: "mw_pending ?a = w" using that by (simp add: mmio_seq_aw_def io_def w_def Let_def)
    have "\<not> b_fires io" if "mw_active w"
      using that inv by (auto simp: io_def w_def mwrite_inv_def sampled_bus_wires)
    then show ?thesis using seq_w_state(2) [of ops ?a] seq_w_state(1) [of ops ?a] p'_eq a aw unfolding w' by auto
  qed
qed

lemma mwrite_inv_tick: "mwrite_inv b \<Longrightarrow> mwrite_inv (mmio_cycle ops i b)"
  using cycle_write_state [of b i ops]
  by (cases "aw_fires (bus_io (mmio_sampled i b))") (auto simp: mwrite_inv_def)

lemma writes_tick:
  assumes "mwrite_inv b"
  shows "writes_answered i b @ writes_owed (mmio_cycle ops i b) = writes_owed b @ writes_taken i b"
proof (cases "aw_fires (bus_io (mmio_sampled i b))")
  case True
  then have "\<not> mw_active (mw_pending b)" "\<not> mb_active (mw_resp_slot b)" by (simp_all add: sampled_bus_wires)
  then show ?thesis
    using cycle_write_state(1) [OF assms True, of ops] True
    by (simp add: writes_answered_def writes_owed_def writes_taken_def sampled_bus_wires Let_def)
next
  case False
  have "b_fires (bus_io (mmio_sampled i b)) \<Longrightarrow> mb_active (mw_resp_slot b) \<and> \<not> mw_active (mw_pending b)"
    using assms by (simp add: sampled_bus_wires mwrite_inv_def)
  then show ?thesis
    using cycle_write_state(2) [OF assms False, of ops] False assms sampled_bus_b [of i b]
    by (auto simp: writes_answered_def writes_owed_def writes_taken_def mwrite_inv_def Let_def)
qed

interpretation mmio_writes:
  fifo_view "mmio_populated rs ds b0" "mmio_cycle ops" "\<lambda>_ _. True" mwrite_inv writes_owed writes_taken writes_answered
  for rs :: "(u32 \<times> u32 \<times> nat option) list" and ds :: "'d list" and b0 :: "'d mmio_bus" and ops :: "'d mmio_ops"
  by unfold_locales (simp_all add: mwrite_inv_tick writes_tick,
    simp_all add: mwrite_inv_def writes_owed_def populated_state pending_write_zero_def write_resp_zero_def)

section \<open>What the bus promises\<close>

text \<open>C34: the streams of the bus. After reset and any calls of \<^verbatim>\<open>add_device\<close>, with any devices behind any
  regions and whatever they do, in any run the R channel carries for each accepted read, in order of acceptance, its id
  on exactly \<^verbatim>\<open>arlen + 1\<close> beats with \<^verbatim>\<open>rlast\<close> on the last, each with OKAY if a device is mapped at the address of the
  beat and DECERR if none is; the B channel answers each accepted write once, in order; what is not answered
  is still held by the bus.\<close>

theorem mmio_streams_in_order:
  "let s = mmio_populated rs ds b; s' = run_cycles (mmio_cycle ops) ios s in
   collect beats_sent (mmio_cycle ops) ios s @ beats_owed s' = collect beats_asked (mmio_cycle ops) ios s \<and>
   collect writes_answered (mmio_cycle ops) ios s @ writes_owed s' = collect writes_taken (mmio_cycle ops) ios s"
  using mmio_reads.released_in_order [of ops ios rs ds b] mmio_writes.released_in_order [of ops ios rs ds b]
  by (simp add: Let_def)

text \<open>A bus of UARTs, each in a region of its own.\<close>

definition uart_bus :: "(u32 \<times> u32) list \<Rightarrow> uart16550 mmio_bus \<Rightarrow> uart16550 mmio_bus" where
  "uart_bus rs b = mmio_populated (map (\<lambda>(n, base, sz). (base, sz, Some n)) (enumerate 0 rs)) (map (uart_new \<circ> fst) rs) b"

lemma uart_bus_ok: "uart.all_ok (uart_bus rs b)"
  by (auto simp: uart_bus_def uart.all_ok_def populated_state list_all_iff uart_new_ok enumerate_eq_zip set_zip)

text \<open>the devices survive the bus. Whatever the master sends, in any run every UART behind the
  bus keeps its register file of eight bytes, its buffer below 1024 bytes and no newline
  waiting in it.\<close>

theorem uart_bus_devices_well_formed:
  "list_all uart_ok (devices (run_cycles (mmio_cycle uart_ops) ios (uart_bus rs b)))"
proof -
  have "uart.all_ok (run_cycles (mmio_cycle uart_ops) ios s)" if "uart.all_ok s" for s
    using that by (induction ios arbitrary: s) (simp_all add: uart.all_ok_cycle uart_ops_def)
  from this [OF uart_bus_ok] show ?thesis by (simp add: uart.all_ok_def)
qed

lemma load_beat_bytes:
  assumes "n \<le> 32" "j < 32"
  shows "get_byte (load_beat p n) j = (if j < n then p ! j else 0)"
proof -
  have "get_byte (0 :: axi_data) j = 0" by (simp add: get_byte_def)
  then show ?thesis using get_byte_read_fold [of n j "\<lambda>i. p ! i" 0] assms by (simp add: load_beat_def)
qed

text \<open>what a read beat carries. When the bus builds beat \<open>n\<close> of a read, lanes below the beat
  size carry the bytes the addressed device returns for the beat's address and the lanes above
  are 0, with OKAY; an address of no device gives zeroes and DECERR.\<close>

theorem mmio_read_beat_content:
  fixes b :: "'d mmio_bus" and ops :: "'d mmio_ops"
  assumes "mr_active (mr_pending b)" and "\<not> mr_beat_valid (mr_pending b)" and "j < AXI_DATA_BYTES"
  defines "r \<equiv> mr_pending b" and "r' \<equiv> mr_pending (build_read_beat ops b)"
  shows "mr_beat_valid r' \<and>
    (case find_device b (mmio_beat_addr (mr_addr r) (mr_burst r) (mr_size r) (mr_beat_idx r)) of
       Some d \<Rightarrow> mr_beat_resp r' = AXI_RESP_OKAY \<and>
         get_byte (mr_beat_data r') j =
           (if j < mmio_beat_bytes (mr_size r)
            then fst (dev_read ops (devices b ! d) (mmio_beat_addr (mr_addr r) (mr_burst r) (mr_size r) (mr_beat_idx r))
                   (replicate AXI_DATA_BYTES 0) (mmio_beat_bytes (mr_size r))) ! j
            else 0)
     | None \<Rightarrow> mr_beat_resp r' = AXI_RESP_DECERR \<and> get_byte (mr_beat_data r') j = 0)"
proof -
  have n: "mmio_beat_bytes (mr_size (mr_pending b)) \<le> 32" "j < 32"
    using assms(3) by (simp_all add: mmio_beat_bytes_def AXI_DATA_BYTES_def)
  show ?thesis
    using assms(1,2) n
    by (simp add: r_def r'_def build_read_beat_def Let_def load_beat_bytes AXI_DATA_BYTES_def
        split: option.split prod.split)
qed

definition one_uart :: "uart16550 mmio_bus" where
  "one_uart = uart_bus [(0x10000000, 8)] \<lparr>bus_io = axi_io_zero, regions = [], devices = [],
     mr_pending = pending_read_zero, mw_pending = pending_write_zero, mw_resp_slot = write_resp_zero\<rparr>"

definition lsr_read :: "uart16550 mmio_bus" where
  "lsr_read = one_uart\<lparr>mr_pending := pending_read_zero\<lparr>mr_active := True, mr_addr := 0x10000005\<rparr>\<rparr>"

theorem mmio_read_beat_content_witness:
  "mr_beat_resp (mr_pending (build_read_beat uart_ops lsr_read)) = AXI_RESP_OKAY \<and>
   get_byte (mr_beat_data (mr_pending (build_read_beat uart_ops lsr_read))) 0 = 0x60"
proof -
  have h: "mr_active (mr_pending lsr_read)" "\<not> mr_beat_valid (mr_pending lsr_read)" "0 < AXI_DATA_BYTES"
    by code_simp+
  have d: "find_device lsr_read (mmio_beat_addr (mr_addr (mr_pending lsr_read)) (mr_burst (mr_pending lsr_read))
      (mr_size (mr_pending lsr_read)) (mr_beat_idx (mr_pending lsr_read))) = Some 0"
    and n: "0 < mmio_beat_bytes (mr_size (mr_pending lsr_read))"
    and v: "fst (dev_read uart_ops (devices lsr_read ! 0) (mmio_beat_addr (mr_addr (mr_pending lsr_read))
        (mr_burst (mr_pending lsr_read)) (mr_size (mr_pending lsr_read)) (mr_beat_idx (mr_pending lsr_read)))
      (replicate AXI_DATA_BYTES 0) (mmio_beat_bytes (mr_size (mr_pending lsr_read)))) ! 0 = 0x60"
    by code_simp+
  show ?thesis using mmio_read_beat_content [OF h, of uart_ops] d n v by simp
qed

end
