(* ===== verification/LLC_Types.thy ===== *)
theory LLC_Types
  imports Compat
begin

text \<open>
  The data model of the last-level cache: \<^verbatim>\<open>axi_interconnect/include/AXI_LLC.h\<close>,
  \<^verbatim>\<open>AXI_LLC_Config.h\<close> and the payload types of \<^verbatim>\<open>AXI_Interconnect_IO.h\<close>.

  The registers keep the source's fields. Where the source has one array per field indexed by a
  master (\<^verbatim>\<open>read_resp_valid_r[m]\<close>, \<^verbatim>\<open>read_resp_id_r[m]\<close>, ...), the model has one list of records
  indexed by the master; the fields of the active lookup and of the active victim writeback are
  the records \<open>llc_lookup\<close> and \<open>llc_victim_wb\<close>. A byte vector is a list of bytes, the payloads
  \<^verbatim>\<open>WideReadData_t\<close> and \<^verbatim>\<open>WideWriteData_t\<close> are lists of 64 and 16 words, a strobe is the list of
  its 64 byte flags, and an index result of \<^verbatim>\<open>int\<close> with \<^verbatim>\<open>-1\<close> for none is an option.
\<close>

section \<open>Configuration\<close>

record llc_config =
  lc_enable :: bool
  lc_size_bytes :: u64
  lc_line_bytes :: u32
  lc_ways :: u32
  lc_mshr_num :: u32
  lc_lookup_latency :: u32
  lc_prefetch_enable :: bool
  lc_prefetch_degree :: u32
  lc_nine :: bool
  lc_unified :: bool
  lc_pipt :: bool

definition default_llc_config :: llc_config where
  "default_llc_config = \<lparr>lc_enable = False, lc_size_bytes = push_bit 20 8, lc_line_bytes = 64,
     lc_ways = 16, lc_mshr_num = 8, lc_lookup_latency = 3, lc_prefetch_enable = False,
     lc_prefetch_degree = 1, lc_nine = True, lc_unified = True, lc_pipt = True\<rparr>"

definition lc_valid :: "llc_config \<Rightarrow> bool" where
  "lc_valid c \<longleftrightarrow> lc_line_bytes c \<noteq> 0 \<and> lc_ways c \<noteq> 0 \<and> lc_mshr_num c \<noteq> 0 \<and>
     lc_size_bytes c mod (ucast (lc_line_bytes c) * ucast (lc_ways c)) = 0"

definition lc_set_count :: "llc_config \<Rightarrow> u32" where
  "lc_set_count c =
     (if \<not> lc_valid c then 0
      else ucast (lc_size_bytes c div (ucast (lc_line_bytes c) * ucast (lc_ways c))))"

section \<open>Payloads and constants\<close>

definition NUM_READ_MASTERS :: nat where "NUM_READ_MASTERS = 4"
definition NUM_WRITE_MASTERS :: nat where "NUM_WRITE_MASTERS = 2"
definition MAX_READ_TRANSACTION_WORDS :: nat where "MAX_READ_TRANSACTION_WORDS = 64"
definition MASTER_DCACHE_R :: u8 where "MASTER_DCACHE_R = 1"

definition MAX_WRITE_TRANSACTION_WORDS :: "kit_config \<Rightarrow> nat" where
  "MAX_WRITE_TRANSACTION_WORDS k = MAX_WRITE_TRANSACTION_BYTES k div 4"

type_synonym wide_data = "u32 list"
type_synonym wide_strb = "u8 list"
type_synonym llc_bytes = "u8 list"

definition read_data_clear :: wide_data where
  "read_data_clear = replicate MAX_READ_TRANSACTION_WORDS 0"

definition write_data_clear :: "kit_config \<Rightarrow> wide_data" where
  "write_data_clear k = replicate (MAX_WRITE_TRANSACTION_WORDS k) 0"

definition strb_clear :: "kit_config \<Rightarrow> wide_strb" where
  "strb_clear k = replicate (MAX_WRITE_TRANSACTION_BYTES k) 0"

definition strb_test :: "kit_config \<Rightarrow> wide_strb \<Rightarrow> u32 \<Rightarrow> bool" where
  "strb_test k s i \<longleftrightarrow> unat i < MAX_WRITE_TRANSACTION_BYTES k \<and> s ! unat i \<noteq> 0"

definition strb_set :: "kit_config \<Rightarrow> u32 \<Rightarrow> bool \<Rightarrow> wide_strb \<Rightarrow> wide_strb" where
  "strb_set k i enable s =
     (if unat i < MAX_WRITE_TRANSACTION_BYTES k then s[unat i := if enable then 1 else 0] else s)"

definition AXI_LLC_META_VALID :: u8 where "AXI_LLC_META_VALID = 1"
definition AXI_LLC_META_DIRTY :: u8 where "AXI_LLC_META_DIRTY = 2"
definition AXI_LLC_META_PREFETCH :: u8 where "AXI_LLC_META_PREFETCH = 4"
definition AXI_LLC_META_ENTRY_BYTES :: nat where "AXI_LLC_META_ENTRY_BYTES = 4"
definition AXI_LLC_REPL_BYTES :: nat where "AXI_LLC_REPL_BYTES = 4"
definition AXI_LLC_MAX_PREFETCH_QUEUE :: nat where "AXI_LLC_MAX_PREFETCH_QUEUE = 8"
definition AXI_LLC_INVALID_VICTIM_MSHR_SLOT :: u8 where "AXI_LLC_INVALID_VICTIM_MSHR_SLOT = 0xFF"

text \<open>Both queues of the read side are as deep as the MSHR file: \<^verbatim>\<open>MAX_OUTSTANDING\<close>.\<close>

abbreviation READ_RESP_QUEUE_DEPTH :: "kit_config \<Rightarrow> nat" where
  "READ_RESP_QUEUE_DEPTH k \<equiv> MAX_OUTSTANDING k"
abbreviation READ_VICTIM_WB_QUEUE_DEPTH :: "kit_config \<Rightarrow> nat" where
  "READ_VICTIM_WB_QUEUE_DEPTH k \<equiv> MAX_OUTSTANDING k"

record meta_entry =
  me_tag :: u32
  me_flags :: u8

section \<open>Wires\<close>

record llc_read_req =
  rq_valid :: bool
  rq_addr :: u32
  rq_total_size :: u8
  rq_id :: u8
  rq_bypass :: bool
  rq_direct_mapped :: bool
  rq_mode2 :: bool

record llc_write_req =
  wq_valid :: bool
  wq_addr :: u32
  wq_wdata :: wide_data
  wq_wstrb :: wide_strb
  wq_total_size :: u8
  wq_id :: u8
  wq_bypass :: bool
  wq_direct_mapped :: bool
  wq_mode2 :: bool

record llc_read_resp =
  rs_valid :: bool
  rs_data :: wide_data
  rs_id :: u8

record llc_write_resp =
  ws_valid :: bool
  ws_id :: u8
  ws_resp :: u8

record llc_mem_in =
  invalidate_all :: bool
  invalidate_line_valid :: bool
  invalidate_line_addr :: u32
  prefetch_allow :: bool
  mi_read_req_ready :: bool
  mi_read_resp_valid :: bool
  mi_read_resp_data :: wide_data
  mi_read_resp_id :: u8
  mi_write_req_ready :: bool
  mi_write_resp_valid :: bool
  mi_write_resp_id :: u8
  mi_write_resp :: u8

record llc_mem_out =
  invalidate_all_accepted :: bool
  invalidate_line_accepted :: bool
  mo_read_req_valid :: bool
  mo_read_req_addr :: u32
  mo_read_req_size :: u8
  mo_read_req_mode2 :: bool
  mo_read_req_id :: u8
  mo_read_resp_ready :: bool
  mo_write_req_valid :: bool
  mo_write_req_addr :: u32
  mo_write_req_data :: wide_data
  mo_write_req_strobe :: wide_strb
  mo_write_req_size :: u8
  mo_write_req_mode2 :: bool
  mo_write_req_id :: u8
  mo_write_resp_ready :: bool

record llc_ext_in =
  in_read_req :: "llc_read_req list"
  in_read_resp_ready :: "bool list"
  in_write_req :: "llc_write_req list"
  in_write_resp_ready :: "bool list"
  in_mem :: llc_mem_in

record llc_ext_out =
  out_read_req_ready :: "bool list"
  out_read_resp :: "llc_read_resp list"
  out_write_req_ready :: "bool list"
  out_write_resp :: "llc_write_resp list"
  out_mem :: llc_mem_out

record llc_lookup_in =
  li_data_valid :: bool
  li_meta_valid :: bool
  li_valid_valid :: bool
  li_repl_valid :: bool
  li_data :: llc_bytes
  li_meta :: llc_bytes
  li_valid :: llc_bytes
  li_repl :: llc_bytes

record llc_table_req =
  tr_enable :: bool
  tr_write :: bool
  tr_index :: u32
  tr_way :: u32
  tr_payload :: llc_bytes
  tr_byte_enable :: "u8 list"

record llc_table_out =
  to_data :: llc_table_req
  to_meta :: llc_table_req
  to_valid :: llc_table_req
  to_repl :: llc_table_req
  to_invalidate_all :: bool

section \<open>Registers\<close>

datatype llc_state = kDisabled | kIdle | kLookup | kMiss | kRefill

record llc_perf =
  read_access :: u64
  read_hit :: u64
  read_miss :: u64
  read_access_by_master :: "u64 list"
  read_hit_by_master :: "u64 list"
  read_miss_by_master :: "u64 list"
  bypass_read :: u64
  write_passthrough :: u64
  refill :: u64
  mshr_alloc :: u64
  mshr_merge :: u64
  prefetch_issue :: u64
  prefetch_hit :: u64
  prefetch_drop_inflight :: u64
  prefetch_drop_mshr_full :: u64
  prefetch_drop_queue_full :: u64
  prefetch_drop_table_hit :: u64
  ddr_read_total_cycles :: u64
  ddr_read_samples :: u64
  ddr_write_total_cycles :: u64
  ddr_write_samples :: u64
  lookup_active_cycles :: u64
  read_resp_block_cycles :: u64
  read_resp_pending_cycles :: u64
  mem_read_wait_cycles :: u64
  mem_read_block_cycles :: u64
  victim_writeback_wait_cycles :: u64
  write_lookup_wait_cycles :: u64
  write_victim_wait_cycles :: u64

record miss_entry =
  ms_valid :: bool
  ms_bypass :: bool
  ms_is_prefetch :: bool
  ms_is_write :: bool
  ms_mode2 :: bool
  ms_prefetch_train :: bool
  ms_mem_req_issued :: bool
  ms_refill_valid :: bool
  ms_refill_committed :: bool
  ms_addr :: u32
  ms_line_addr :: u32
  ms_set :: u32
  ms_tag :: u32
  ms_way :: u8
  ms_total_size :: u8
  ms_master :: u8
  ms_id :: u8
  ms_epoch :: u8
  ms_mem_issue_cycle :: u64
  ms_victim_dirty :: bool
  ms_victim_writeback_done :: bool
  ms_victim_addr :: u32
  ms_victim_data :: wide_data
  ms_refill_data :: wide_data

record prefetch_req =
  pf_valid :: bool
  pf_line_addr :: u32

record write_pending_req =
  wp_valid :: bool
  wp_bypass :: bool
  wp_direct_mapped :: bool
  wp_mode2 :: bool
  wp_master :: u8
  wp_id :: u8
  wp_total_size :: u8
  wp_addr :: u32
  wp_wdata :: wide_data
  wp_wstrb :: wide_strb

record write_ctx =
  wc_valid :: bool
  wc_bypass :: bool
  wc_direct_mapped :: bool
  wc_mode2 :: bool
  wc_lookup_pending :: bool
  wc_mem_issued :: bool
  wc_mem_done :: bool
  wc_cache_done :: bool
  wc_cache_pending :: bool
  wc_victim_mem_done :: bool
  wc_victim_dirty :: bool
  wc_id :: u8
  wc_total_size :: u8
  wc_mem_resp_code :: u8
  wc_addr :: u32
  wc_line_addr :: u32
  wc_victim_addr :: u32
  wc_set :: u32
  wc_way :: u8
  wc_repl_next_way :: u32
  wc_tag :: u32
  wc_mem_issue_cycle :: u64
  wc_data :: wide_data
  wc_strobe :: wide_strb
  wc_line :: wide_data

record victim_wb_req =
  vq_valid :: bool
  vq_owner_slot :: u8
  vq_victim_addr :: u32
  vq_victim_data :: wide_data
  vq_victim_strobe :: wide_strb

record llc_lookup =
  lk_valid :: bool
  lk_issued :: bool
  lk_addr :: u32
  lk_size :: u8
  lk_master :: u8
  lk_id :: u8
  lk_is_prefetch :: bool
  lk_is_invalidate :: bool
  lk_is_write :: bool
  lk_is_bypass :: bool
  lk_is_direct_mapped :: bool
  lk_is_mode2 :: bool

record llc_read_port =
  rp_valid :: bool
  rp_fresh :: bool
  rp_data :: wide_data
  rp_id :: u8
  rp_head :: u8
  rp_tail :: u8
  rp_count :: u8
  rp_q_data :: "wide_data list"
  rp_q_id :: "u8 list"

record llc_write_port =
  wo_head :: u8
  wo_tail :: u8
  wo_count :: u8
  wo_queue :: "write_pending_req list"
  wo_resp_valid :: bool
  wo_resp_id :: u8
  wo_resp_code :: u8
  wo_resp_line_addr :: u32

record llc_victim_wb =
  vb_valid :: bool
  vb_issued :: bool
  vb_for_write :: bool
  vb_write_master :: u8
  vb_mshr_slot :: u8
  vb_addr :: u32
  vb_issue_cycle :: u64
  vb_data :: wide_data
  vb_strobe :: wide_strb

record llc_regs =
  enable_r :: bool
  llc_st :: llc_state
  perf :: llc_perf
  lookup :: llc_lookup
  prefetch_stream_valid_r :: bool
  prefetch_last_miss_line_r :: u32
  prefetch_quiet_cycles_r :: u8
  prefetch_q :: "prefetch_req list"
  rr_read_master_r :: u8
  rr_write_master_r :: u8
  invalidate_epoch_r :: u8
  dirty_line_count_r :: u32
  read_ports :: "llc_read_port list"
  victim_q_head :: u8
  victim_q_tail :: u8
  victim_q_count :: u8
  victim_q :: "victim_wb_req list"
  write_ctxs :: "write_ctx list"
  write_ports :: "llc_write_port list"
  victim_wb :: llc_victim_wb
  mshr :: "miss_entry list"

text \<open>\<^verbatim>\<open>AXI_LLC_IO_t\<close>, with the cycle counter the code reads and the one way the code can end: \<open>aborted\<close>
  is set where \<^verbatim>\<open>encode_meta\<close> calls \<^verbatim>\<open>std::abort()\<close>, and a cycle that set it has no result.\<close>

record llc_io =
  ext_in :: llc_ext_in
  regs :: llc_regs
  lookup_in :: llc_lookup_in
  ext_out :: llc_ext_out
  reg_write :: llc_regs
  table_out :: llc_table_out
  sim_time :: u64
  aborted :: bool

section \<open>Initial values\<close>

definition llc_perf_zero :: llc_perf where
  "llc_perf_zero = \<lparr>read_access = 0, read_hit = 0, read_miss = 0,
     read_access_by_master = replicate NUM_READ_MASTERS 0, read_hit_by_master = replicate NUM_READ_MASTERS 0,
     read_miss_by_master = replicate NUM_READ_MASTERS 0, bypass_read = 0, write_passthrough = 0, refill = 0,
     mshr_alloc = 0, mshr_merge = 0, prefetch_issue = 0, prefetch_hit = 0, prefetch_drop_inflight = 0,
     prefetch_drop_mshr_full = 0, prefetch_drop_queue_full = 0, prefetch_drop_table_hit = 0,
     ddr_read_total_cycles = 0, ddr_read_samples = 0, ddr_write_total_cycles = 0, ddr_write_samples = 0,
     lookup_active_cycles = 0, read_resp_block_cycles = 0, read_resp_pending_cycles = 0,
     mem_read_wait_cycles = 0, mem_read_block_cycles = 0, victim_writeback_wait_cycles = 0,
     write_lookup_wait_cycles = 0, write_victim_wait_cycles = 0\<rparr>"

definition miss_entry_zero :: "kit_config \<Rightarrow> miss_entry" where
  "miss_entry_zero k = \<lparr>ms_valid = False, ms_bypass = False, ms_is_prefetch = False, ms_is_write = False,
     ms_mode2 = False, ms_prefetch_train = False, ms_mem_req_issued = False, ms_refill_valid = False,
     ms_refill_committed = False, ms_addr = 0, ms_line_addr = 0, ms_set = 0, ms_tag = 0, ms_way = 0,
     ms_total_size = 0, ms_master = 0, ms_id = 0, ms_epoch = 0, ms_mem_issue_cycle = 0,
     ms_victim_dirty = False, ms_victim_writeback_done = False, ms_victim_addr = 0,
     ms_victim_data = write_data_clear k, ms_refill_data = read_data_clear\<rparr>"

definition prefetch_req_zero :: prefetch_req where
  "prefetch_req_zero = \<lparr>pf_valid = False, pf_line_addr = 0\<rparr>"

definition write_pending_zero :: "kit_config \<Rightarrow> write_pending_req" where
  "write_pending_zero k = \<lparr>wp_valid = False, wp_bypass = False, wp_direct_mapped = False, wp_mode2 = False,
     wp_master = 0, wp_id = 0, wp_total_size = 0, wp_addr = 0, wp_wdata = write_data_clear k,
     wp_wstrb = strb_clear k\<rparr>"

definition write_ctx_zero :: "kit_config \<Rightarrow> write_ctx" where
  "write_ctx_zero k = \<lparr>wc_valid = False, wc_bypass = False, wc_direct_mapped = False, wc_mode2 = False,
     wc_lookup_pending = False, wc_mem_issued = False, wc_mem_done = False, wc_cache_done = False,
     wc_cache_pending = False, wc_victim_mem_done = False, wc_victim_dirty = False, wc_id = 0,
     wc_total_size = 0, wc_mem_resp_code = 0, wc_addr = 0, wc_line_addr = 0, wc_victim_addr = 0,
     wc_set = 0, wc_way = 0, wc_repl_next_way = 0, wc_tag = 0, wc_mem_issue_cycle = 0,
     wc_data = write_data_clear k, wc_strobe = strb_clear k, wc_line = write_data_clear k\<rparr>"

definition victim_wb_req_zero :: "kit_config \<Rightarrow> victim_wb_req" where
  "victim_wb_req_zero k = \<lparr>vq_valid = False, vq_owner_slot = AXI_LLC_INVALID_VICTIM_MSHR_SLOT,
     vq_victim_addr = 0, vq_victim_data = write_data_clear k, vq_victim_strobe = strb_clear k\<rparr>"

definition llc_lookup_zero :: llc_lookup where
  "llc_lookup_zero = \<lparr>lk_valid = False, lk_issued = False, lk_addr = 0, lk_size = 0, lk_master = 0, lk_id = 0,
     lk_is_prefetch = False, lk_is_invalidate = False, lk_is_write = False, lk_is_bypass = False,
     lk_is_direct_mapped = False, lk_is_mode2 = False\<rparr>"

definition llc_read_port_zero :: "kit_config \<Rightarrow> llc_read_port" where
  "llc_read_port_zero k = \<lparr>rp_valid = False, rp_fresh = False, rp_data = read_data_clear, rp_id = 0,
     rp_head = 0, rp_tail = 0, rp_count = 0,
     rp_q_data = replicate (READ_RESP_QUEUE_DEPTH k) read_data_clear,
     rp_q_id = replicate (READ_RESP_QUEUE_DEPTH k) 0\<rparr>"

definition llc_write_port_zero :: "kit_config \<Rightarrow> llc_write_port" where
  "llc_write_port_zero k = \<lparr>wo_head = 0, wo_tail = 0, wo_count = 0,
     wo_queue = replicate (MAX_WRITE_OUTSTANDING k) (write_pending_zero k), wo_resp_valid = False,
     wo_resp_id = 0, wo_resp_code = 0, wo_resp_line_addr = 0\<rparr>"

definition llc_victim_wb_zero :: "kit_config \<Rightarrow> llc_victim_wb" where
  "llc_victim_wb_zero k = \<lparr>vb_valid = False, vb_issued = False, vb_for_write = False, vb_write_master = 0,
     vb_mshr_slot = 0, vb_addr = 0, vb_issue_cycle = 0, vb_data = write_data_clear k,
     vb_strobe = strb_clear k\<rparr>"

definition llc_regs_zero :: "kit_config \<Rightarrow> llc_regs" where
  "llc_regs_zero k = \<lparr>enable_r = False, llc_st = kDisabled, perf = llc_perf_zero, lookup = llc_lookup_zero,
     prefetch_stream_valid_r = False, prefetch_last_miss_line_r = 0, prefetch_quiet_cycles_r = 0,
     prefetch_q = replicate AXI_LLC_MAX_PREFETCH_QUEUE prefetch_req_zero, rr_read_master_r = 0,
     rr_write_master_r = 0, invalidate_epoch_r = 0, dirty_line_count_r = 0,
     read_ports = replicate NUM_READ_MASTERS (llc_read_port_zero k), victim_q_head = 0,
     victim_q_tail = 0, victim_q_count = 0,
     victim_q = replicate (READ_VICTIM_WB_QUEUE_DEPTH k) (victim_wb_req_zero k),
     write_ctxs = replicate NUM_WRITE_MASTERS (write_ctx_zero k),
     write_ports = replicate NUM_WRITE_MASTERS (llc_write_port_zero k),
     victim_wb = llc_victim_wb_zero k, mshr = replicate (MAX_OUTSTANDING k) (miss_entry_zero k)\<rparr>"

definition llc_table_req_zero :: llc_table_req where
  "llc_table_req_zero = \<lparr>tr_enable = False, tr_write = False, tr_index = 0, tr_way = 0, tr_payload = [],
     tr_byte_enable = []\<rparr>"

definition llc_table_out_zero :: llc_table_out where
  "llc_table_out_zero = \<lparr>to_data = llc_table_req_zero, to_meta = llc_table_req_zero,
     to_valid = llc_table_req_zero, to_repl = llc_table_req_zero, to_invalidate_all = False\<rparr>"

definition llc_mem_out_zero :: "kit_config \<Rightarrow> llc_mem_out" where
  "llc_mem_out_zero k = \<lparr>invalidate_all_accepted = False, invalidate_line_accepted = False,
     mo_read_req_valid = False, mo_read_req_addr = 0, mo_read_req_size = 0, mo_read_req_mode2 = False,
     mo_read_req_id = 0, mo_read_resp_ready = False, mo_write_req_valid = False, mo_write_req_addr = 0,
     mo_write_req_data = write_data_clear k, mo_write_req_strobe = strb_clear k, mo_write_req_size = 0,
     mo_write_req_mode2 = False, mo_write_req_id = 0, mo_write_resp_ready = False\<rparr>"

definition llc_ext_out_zero :: "kit_config \<Rightarrow> llc_ext_out" where
  "llc_ext_out_zero k = \<lparr>out_read_req_ready = replicate NUM_READ_MASTERS False,
     out_read_resp = replicate NUM_READ_MASTERS \<lparr>rs_valid = False, rs_data = read_data_clear, rs_id = 0\<rparr>,
     out_write_req_ready = replicate NUM_WRITE_MASTERS False,
     out_write_resp = replicate NUM_WRITE_MASTERS \<lparr>ws_valid = False, ws_id = 0, ws_resp = 0\<rparr>,
     out_mem = llc_mem_out_zero k\<rparr>"

definition llc_mem_in_zero :: llc_mem_in where
  "llc_mem_in_zero = \<lparr>invalidate_all = False, invalidate_line_valid = False, invalidate_line_addr = 0,
     prefetch_allow = True, mi_read_req_ready = False, mi_read_resp_valid = False,
     mi_read_resp_data = read_data_clear, mi_read_resp_id = 0, mi_write_req_ready = False,
     mi_write_resp_valid = False, mi_write_resp_id = 0, mi_write_resp = 0\<rparr>"

definition llc_ext_in_zero :: "kit_config \<Rightarrow> llc_ext_in" where
  "llc_ext_in_zero k = \<lparr>
     in_read_req = replicate NUM_READ_MASTERS \<lparr>rq_valid = False, rq_addr = 0, rq_total_size = 0, rq_id = 0,
       rq_bypass = False, rq_direct_mapped = False, rq_mode2 = False\<rparr>,
     in_read_resp_ready = replicate NUM_READ_MASTERS False,
     in_write_req = replicate NUM_WRITE_MASTERS \<lparr>wq_valid = False, wq_addr = 0, wq_wdata = write_data_clear k,
       wq_wstrb = strb_clear k, wq_total_size = 0, wq_id = 0, wq_bypass = False, wq_direct_mapped = False,
       wq_mode2 = False\<rparr>,
     in_write_resp_ready = replicate NUM_WRITE_MASTERS False, in_mem = llc_mem_in_zero\<rparr>"

definition llc_lookup_in_zero :: llc_lookup_in where
  "llc_lookup_in_zero = \<lparr>li_data_valid = False, li_meta_valid = False, li_valid_valid = False,
     li_repl_valid = False, li_data = [], li_meta = [], li_valid = [], li_repl = []\<rparr>"

end
