(* ===== verification/LLC_Lines.thy ===== *)
theory LLC_Lines
  imports LLC_Types
begin

text \<open>
  The static and file-local functions of \<^verbatim>\<open>axi_interconnect/AXI_LLC.cpp\<close>: how an address splits
  into line, set and tag, how a metadata entry is packed, and how lines, responses and write
  payloads are converted into each other.
\<close>

section \<open>Addresses\<close>

definition line_words :: "llc_config \<Rightarrow> u32" where
  "line_words c = lc_line_bytes c div 4"

definition line_addr :: "llc_config \<Rightarrow> u32 \<Rightarrow> u32" where
  "line_addr c addr = (if lc_line_bytes c = 0 then addr else (addr div lc_line_bytes c) * lc_line_bytes c)"

definition set_index :: "llc_config \<Rightarrow> u32 \<Rightarrow> u32" where
  "set_index c addr =
     (if \<not> lc_valid c \<or> lc_line_bytes c = 0 then 0 else (addr div lc_line_bytes c) mod lc_set_count c)"

definition tag_of :: "llc_config \<Rightarrow> u32 \<Rightarrow> u32" where
  "tag_of c addr =
     (if \<not> lc_valid c \<or> lc_line_bytes c = 0 \<or> lc_set_count c = 0 then 0
      else (addr div lc_line_bytes c) div lc_set_count c)"

definition valid_row_bytes :: "llc_config \<Rightarrow> u32" where
  "valid_row_bytes c = lc_ways c"

definition build_line_addr_from_tag_set :: "llc_config \<Rightarrow> u32 \<Rightarrow> u32 \<Rightarrow> u32" where
  "build_line_addr_from_tag_set c tag idx =
     (if \<not> lc_valid c then 0 else (tag * lc_set_count c + idx) * lc_line_bytes c)"

definition direct_mapped_coords :: "llc_config \<Rightarrow> u32 \<Rightarrow> (u32 \<times> u8) option" where
  "direct_mapped_coords c addr =
     (if \<not> lc_valid c \<or> lc_line_bytes c = 0 \<or> lc_set_count c = 0 then None
      else let line_idx = addr div lc_line_bytes c;
               mapped_way = line_idx div lc_set_count c
           in if mapped_way \<ge> lc_ways c then None
              else Some (line_idx mod lc_set_count c, ucast mapped_way))"

section \<open>Bytes\<close>

definition read_u32_le :: "u8 list \<Rightarrow> nat \<Rightarrow> u32" where
  "read_u32_le p i =
     ucast (p ! i) OR push_bit 8 (ucast (p ! (i + 1))) OR push_bit 16 (ucast (p ! (i + 2))) OR
     push_bit 24 (ucast (p ! (i + 3)))"

definition write_u32_le :: "nat \<Rightarrow> u32 \<Rightarrow> u8 list \<Rightarrow> u8 list" where
  "write_u32_le i v p =
     p[i := ucast (v AND 0xFF), i + 1 := ucast (drop_bit 8 v AND 0xFF),
       i + 2 := ucast (drop_bit 16 v AND 0xFF), i + 3 := ucast (drop_bit 24 v AND 0xFF)]"

definition extract_line_response :: "llc_config \<Rightarrow> u32 \<Rightarrow> llc_bytes \<Rightarrow> wide_data" where
  "extract_line_response c addr line =
     (let line_bytes = lc_line_bytes c;
          byte_off = (if line_bytes = 0 then 0 else addr mod line_bytes);
          start_word = byte_off div 4;
          max_words = min (line_words c) (64 - start_word)
      in fold (\<lambda>i out.
           let byte_idx = unat (start_word + of_nat i) * 4
           in if byte_idx + 4 \<le> length line then out[i := read_u32_le line byte_idx] else out)
         [0..<unat max_words] read_data_clear)"

definition wide_to_line_bytes :: "llc_config \<Rightarrow> wide_data \<Rightarrow> llc_bytes" where
  "wide_to_line_bytes c data =
     fold (\<lambda>i bytes. write_u32_le (i * 4) (data ! i) bytes) [0..<unat (line_words c)]
       (replicate (unat (lc_line_bytes c)) 0)"

definition line_bytes_to_write_words :: "kit_config \<Rightarrow> llc_bytes \<Rightarrow> wide_data" where
  "line_bytes_to_write_words k line =
     fold (\<lambda>i out. out[i := read_u32_le line (i * 4)])
       [0..<min (MAX_WRITE_TRANSACTION_WORDS k) (length line div 4)] (write_data_clear k)"

definition full_line_strobe :: "kit_config \<Rightarrow> llc_config \<Rightarrow> wide_strb" where
  "full_line_strobe k c =
     fold (\<lambda>b out. strb_set k (of_nat b) True out)
       [0..<min (unat (lc_line_bytes c)) (MAX_WRITE_TRANSACTION_BYTES k)] (strb_clear k)"

definition write_words_to_line_bytes :: "llc_config \<Rightarrow> wide_data \<Rightarrow> llc_bytes" where
  "write_words_to_line_bytes c data =
     fold (\<lambda>i bytes. write_u32_le (i * 4) (data ! i) bytes) [0..<unat (line_words c)]
       (replicate (unat (lc_line_bytes c)) 0)"

definition extract_way_line_bytes :: "llc_config \<Rightarrow> llc_bytes \<Rightarrow> nat \<Rightarrow> llc_bytes" where
  "extract_way_line_bytes c payload way =
     (let line_bytes = unat (lc_line_bytes c); offset = way * line_bytes
      in if offset + line_bytes \<le> length payload then take line_bytes (drop offset payload)
         else replicate line_bytes 0)"

definition merge_write_into_line ::
  "kit_config \<Rightarrow> llc_config \<Rightarrow> u32 \<Rightarrow> llc_bytes \<Rightarrow> wide_data \<Rightarrow> wide_strb \<Rightarrow> u32 \<Rightarrow> llc_bytes" where
  "merge_write_into_line k c addr line data strobe total_size =
     (let line_bytes = lc_line_bytes c;
          line_off = (if line_bytes = 0 then 0 else addr mod line_bytes);
          lsize = (of_nat (length line) :: u32);
          limit = min (total_size + 1) (if lsize > line_off then lsize - line_off else 0)
      in fold (\<lambda>byte line.
           if \<not> strb_test k strobe (of_nat byte) then line
           else line[unat line_off + byte :=
                  ucast (drop_bit ((byte mod 4) * 8) (data ! (byte div 4)) AND 0xFF)])
         [0..<unat limit] line)"

definition is_full_line_write :: "kit_config \<Rightarrow> llc_config \<Rightarrow> u32 \<Rightarrow> wide_strb \<Rightarrow> u32 \<Rightarrow> bool" where
  "is_full_line_write k c addr strobe total_size \<longleftrightarrow>
     lc_line_bytes c \<noteq> 0 \<and> addr mod lc_line_bytes c = 0 \<and> total_size + 1 = lc_line_bytes c \<and>
     (\<forall>byte\<in>set [0..<unat (lc_line_bytes c)]. strb_test k strobe (of_nat byte))"

section \<open>Table rows\<close>

definition update_dirty_line_count :: "u32 \<Rightarrow> bool \<Rightarrow> bool \<Rightarrow> u32" where
  "update_dirty_line_count current old_dirty new_dirty =
     (if old_dirty = new_dirty then current
      else if new_dirty then current + 1
      else if current = 0 then 0 else current - 1)"

definition build_repl_payload :: "u32 \<Rightarrow> llc_bytes" where
  "build_repl_payload next_way = write_u32_le 0 next_way (replicate AXI_LLC_REPL_BYTES 0)"

definition decode_repl_way :: "llc_bytes \<Rightarrow> u32" where
  "decode_repl_way payload = (if length payload < AXI_LLC_REPL_BYTES then 0 else read_u32_le payload 0)"

definition decode_valid_bit :: "llc_bytes \<Rightarrow> nat \<Rightarrow> bool \<Rightarrow> bool" where
  "decode_valid_bit payload way fallback_valid =
     (if way \<ge> length payload then fallback_valid else payload ! way \<noteq> 0)"

definition encode_valid_bit_payload :: "u32 \<Rightarrow> nat \<Rightarrow> bool \<Rightarrow> llc_bytes \<times> u8 list" where
  "encode_valid_bit_payload ways way valid =
     (let row_bytes = unat ways; payload = replicate row_bytes 0; byte_enable = replicate row_bytes 0
      in if way \<ge> row_bytes then (payload, byte_enable)
         else (payload[way := if valid then 1 else 0], byte_enable[way := 1]))"

definition decode_meta :: "llc_bytes \<Rightarrow> nat \<Rightarrow> meta_entry" where
  "decode_meta payload way =
     (let offset = way * AXI_LLC_META_ENTRY_BYTES in
      if offset + AXI_LLC_META_ENTRY_BYTES > length payload then \<lparr>me_tag = 0, me_flags = 0\<rparr>
      else let packed = read_u32_le payload offset;
               flags = 0;
               flags = (if drop_bit 29 packed AND 1 \<noteq> 0 then flags OR AXI_LLC_META_VALID else flags);
               flags = (if drop_bit 30 packed AND 1 \<noteq> 0 then flags OR AXI_LLC_META_DIRTY else flags);
               flags = (if drop_bit 31 packed AND 1 \<noteq> 0 then flags OR AXI_LLC_META_PREFETCH else flags)
           in \<lparr>me_tag = packed AND 0x1fffffff, me_flags = flags\<rparr>)"

text \<open>\<open>None\<close> is the call of \<^verbatim>\<open>std::abort()\<close> on a tag of more than 29 bits.\<close>

definition encode_meta :: "meta_entry \<Rightarrow> llc_bytes option" where
  "encode_meta e =
     (if me_tag e AND 0xe0000000 \<noteq> 0 then None
      else let packed = me_tag e AND 0x1fffffff;
               packed = (if me_flags e AND AXI_LLC_META_VALID \<noteq> 0 then packed OR push_bit 29 1 else packed);
               packed = (if me_flags e AND AXI_LLC_META_DIRTY \<noteq> 0 then packed OR push_bit 30 1 else packed);
               packed = (if me_flags e AND AXI_LLC_META_PREFETCH \<noteq> 0 then packed OR push_bit 31 1 else packed)
           in Some (write_u32_le 0 packed (replicate AXI_LLC_META_ENTRY_BYTES 0)))"

text \<open>The first way that holds the tag, the first invalid way seen before it, and its entry.\<close>

fun scan_ways ::
  "llc_bytes \<Rightarrow> llc_bytes \<Rightarrow> u32 \<Rightarrow> nat list \<Rightarrow> nat option \<Rightarrow> nat option \<times> nat option \<times> meta_entry" where
  "scan_ways valid_payload meta_payload tag [] inv0 = (None, inv0, \<lparr>me_tag = 0, me_flags = 0\<rparr>)"
| "scan_ways valid_payload meta_payload tag (way # ways) inv0 =
     (let meta = decode_meta meta_payload way;
          v = decode_valid_bit valid_payload way False;
          first_inv = (if \<not> v \<and> inv0 = None then Some way else inv0)
      in if v \<and> me_tag meta = tag then (Some way, first_inv, meta)
         else scan_ways valid_payload meta_payload tag ways first_inv)"

definition line_has_valid_meta ::
  "llc_config \<Rightarrow> llc_bytes \<Rightarrow> llc_bytes \<Rightarrow> u32 \<Rightarrow> nat option \<times> nat option \<times> meta_entry" where
  "line_has_valid_meta c valid_payload meta_payload tag =
     scan_ways valid_payload meta_payload tag [0..<unat (lc_ways c)] None"

end
