(* ===== verification/LLC_Queries.thy ===== *)
theory LLC_Queries
  imports LLC_Lines
begin

text \<open>
  The \<^verbatim>\<open>const\<close> member functions of \<^verbatim>\<open>AXI_LLC\<close>: the searches of the miss entries, the queues and
  the write contexts, the hazards between reads, writes, victims and maintenance, and the
  arbiters. Each takes the registers it is asked about, as in the source, where most are called
  on the current registers by one caller and on the next ones by another.
\<close>

section \<open>Searches\<close>

text \<open>A counting loop that returns its index, and a round-robin loop over \<open>n\<close> masters.\<close>

definition first_below :: "nat \<Rightarrow> (nat \<Rightarrow> bool) \<Rightarrow> nat option" where
  "first_below n P = first_index P [0..<n]"

definition first_from :: "u8 \<Rightarrow> nat \<Rightarrow> (nat \<Rightarrow> bool) \<Rightarrow> nat option" where
  "first_from start n P =
     map_option (\<lambda>off. (unat start + off) mod n) (first_index (\<lambda>off. P ((unat start + off) mod n)) [0..<n])"

lemma first_below_Some: "first_below n P = Some i \<Longrightarrow> i < n \<and> P i \<and> (\<forall>j<i. \<not> P j)"
  unfolding first_below_def by (drule first_index_Some) auto

lemma first_below_None: "first_below n P = None \<longleftrightarrow> (\<forall>i<n. \<not> P i)"
  by (auto simp: first_below_def first_index_None)

lemma first_from_Some: "first_from s n P = Some i \<Longrightarrow> i < n \<and> P i"
  unfolding first_from_def by (auto dest!: first_index_Some intro: mod_less_divisor)

lemma first_from_None: "first_from s n P = None \<longleftrightarrow> (\<forall>i<n. \<not> P i)"
proof -
  have ex: "\<exists>off<n. (unat s + off) mod n = i" if "i < n" for i
  proof -
    let ?r = "unat s mod n"
    have r: "?r < n" using that by simp
    have eq: "(unat s + off) mod n = (?r + off) mod n" for off by (simp add: mod_add_left_eq)
    show ?thesis
    proof (cases "?r \<le> i")
      case True
      then have "(unat s + (i - ?r)) mod n = i"
        unfolding eq using that by (simp only: le_add_diff_inverse mod_less)
      moreover have "i - ?r < n" using that by simp
      ultimately show ?thesis by blast
    next
      case False
      then have "?r + (i + n - ?r) = i + n" using r by simp
      then have "(unat s + (i + n - ?r)) mod n = i" unfolding eq using that by simp
      moreover have "i + n - ?r < n" using that False by linarith
      ultimately show ?thesis by blast
    qed
  qed
  have "first_from s n P = None \<longleftrightarrow> (\<forall>off<n. \<not> P ((unat s + off) mod n))"
    by (auto simp: first_from_def first_index_None)
  also have "\<dots> \<longleftrightarrow> (\<forall>i<n. \<not> P i)"
  proof
    show "\<forall>i<n. \<not> P i" if "\<forall>off<n. \<not> P ((unat s + off) mod n)" using that ex by blast
    show "\<forall>off<n. \<not> P ((unat s + off) mod n)" if "\<forall>i<n. \<not> P i"
      using that by (auto intro: mod_less_divisor)
  qed
  finally show ?thesis .
qed

definition mshr_limit :: "kit_config \<Rightarrow> llc_config \<Rightarrow> nat" where
  "mshr_limit k c = min (unat (lc_mshr_num c)) (MAX_OUTSTANDING k)"

definition find_free_mshr :: "kit_config \<Rightarrow> llc_config \<Rightarrow> llc_regs \<Rightarrow> nat option" where
  "find_free_mshr k c r = first_below (mshr_limit k c) (\<lambda>i. \<not> ms_valid (mshr r ! i))"

definition find_mshr_by_line_addr :: "kit_config \<Rightarrow> llc_config \<Rightarrow> llc_regs \<Rightarrow> u32 \<Rightarrow> nat option" where
  "find_mshr_by_line_addr k c r line =
     first_below (mshr_limit k c)
       (\<lambda>i. ms_valid (mshr r ! i) \<and> \<not> ms_bypass (mshr r ! i) \<and> ms_line_addr (mshr r ! i) = line)"

definition find_mshr_by_victim_addr :: "kit_config \<Rightarrow> llc_config \<Rightarrow> llc_regs \<Rightarrow> u32 \<Rightarrow> nat option" where
  "find_mshr_by_victim_addr k c r victim =
     (if victim = 0 then None
      else first_below (mshr_limit k c) (\<lambda>i. let e = mshr r ! i in
        \<not> (\<not> ms_valid e \<or> \<not> ms_victim_dirty e \<or> ms_victim_writeback_done e) \<and> ms_victim_addr e = victim))"

definition has_mshr_for_master :: "kit_config \<Rightarrow> llc_config \<Rightarrow> llc_regs \<Rightarrow> u8 \<Rightarrow> bool" where
  "has_mshr_for_master k c r master \<longleftrightarrow>
     list_ex (\<lambda>i. ms_valid (mshr r ! i) \<and> \<not> ms_is_prefetch (mshr r ! i) \<and> ms_master (mshr r ! i) = master)
       [0..<mshr_limit k c]"

definition count_free_mshrs :: "kit_config \<Rightarrow> llc_config \<Rightarrow> llc_regs \<Rightarrow> nat" where
  "count_free_mshrs k c r = length (filter (\<lambda>i. \<not> ms_valid (mshr r ! i)) [0..<mshr_limit k c])"

definition has_demand_mshr :: "kit_config \<Rightarrow> llc_config \<Rightarrow> llc_regs \<Rightarrow> bool" where
  "has_demand_mshr k c r \<longleftrightarrow>
     list_ex (\<lambda>i. ms_valid (mshr r ! i) \<and> \<not> ms_is_prefetch (mshr r ! i)) [0..<mshr_limit k c]"

definition pick_mem_issue_slot :: "kit_config \<Rightarrow> llc_config \<Rightarrow> llc_regs \<Rightarrow> nat option" where
  "pick_mem_issue_slot k c r =
     (case first_below (mshr_limit k c) (\<lambda>i. ms_valid (mshr r ! i) \<and> \<not> ms_is_prefetch (mshr r ! i) \<and>
             \<not> ms_mem_req_issued (mshr r ! i)) of
        Some i \<Rightarrow> Some i
      | None \<Rightarrow> first_below (mshr_limit k c) (\<lambda>i. ms_valid (mshr r ! i) \<and> ms_is_prefetch (mshr r ! i) \<and>
             \<not> ms_mem_req_issued (mshr r ! i)))"

definition find_mshr_by_mem_id :: "kit_config \<Rightarrow> llc_config \<Rightarrow> llc_regs \<Rightarrow> u8 \<Rightarrow> nat option" where
  "find_mshr_by_mem_id k c r mem_id =
     first_below (mshr_limit k c) (\<lambda>i. ms_valid (mshr r ! i) \<and> of_nat i = mem_id)"

definition pick_refill_commit_slot :: "kit_config \<Rightarrow> llc_config \<Rightarrow> llc_regs \<Rightarrow> nat option" where
  "pick_refill_commit_slot k c r =
     first_below (mshr_limit k c) (\<lambda>i. ms_valid (mshr r ! i) \<and> ms_refill_valid (mshr r ! i))"

definition can_allocate_prefetch_mshr :: "kit_config \<Rightarrow> llc_config \<Rightarrow> llc_regs \<Rightarrow> bool" where
  "can_allocate_prefetch_mshr k c r \<longleftrightarrow>
     \<not> count_free_mshrs k c r \<le> 1 \<and>
     \<not> list_ex (\<lambda>i. ms_valid (mshr r ! i) \<and> ms_is_prefetch (mshr r ! i)) [0..<mshr_limit k c]"

definition find_prefetch_queue_slot :: "llc_regs \<Rightarrow> u32 \<Rightarrow> nat option" where
  "find_prefetch_queue_slot r line =
     first_below AXI_LLC_MAX_PREFETCH_QUEUE
       (\<lambda>i. pf_valid (prefetch_q r ! i) \<and> pf_line_addr (prefetch_q r ! i) = line)"

definition find_free_prefetch_queue_slot :: "llc_regs \<Rightarrow> nat option" where
  "find_free_prefetch_queue_slot r =
     first_below AXI_LLC_MAX_PREFETCH_QUEUE (\<lambda>i. \<not> pf_valid (prefetch_q r ! i))"

definition pick_prefetch_queue_slot :: "llc_regs \<Rightarrow> nat option" where
  "pick_prefetch_queue_slot r =
     first_below AXI_LLC_MAX_PREFETCH_QUEUE (\<lambda>i. pf_valid (prefetch_q r ! i))"

definition prefetch_candidate_exists :: "kit_config \<Rightarrow> llc_config \<Rightarrow> llc_regs \<Rightarrow> u32 \<Rightarrow> bool" where
  "prefetch_candidate_exists k c r line \<longleftrightarrow>
     find_prefetch_queue_slot r line \<noteq> None \<or>
     (lk_valid (lookup r) \<and> line_addr c (lk_addr (lookup r)) = line) \<or>
     find_mshr_by_line_addr k c r line \<noteq> None"

section \<open>Write queues and contexts\<close>

definition write_queue_full :: "kit_config \<Rightarrow> llc_regs \<Rightarrow> nat \<Rightarrow> bool" where
  "write_queue_full k r master \<longleftrightarrow>
     master < NUM_WRITE_MASTERS \<and> unat (wo_count (write_ports r ! master)) \<ge> MAX_WRITE_OUTSTANDING k"

definition write_queue_empty :: "llc_regs \<Rightarrow> nat \<Rightarrow> bool" where
  "write_queue_empty r master \<longleftrightarrow> master \<ge> NUM_WRITE_MASTERS \<or> wo_count (write_ports r ! master) = 0"

definition write_queue_front :: "kit_config \<Rightarrow> llc_regs \<Rightarrow> nat \<Rightarrow> write_pending_req option" where
  "write_queue_front k r master =
     (if write_queue_empty r master then None
      else let p = write_ports r ! master;
               entry = wo_queue p ! (unat (wo_head p) mod MAX_WRITE_OUTSTANDING k)
           in if wp_valid entry then Some entry else None)"

definition pick_write_lookup_master :: "llc_regs \<Rightarrow> nat option" where
  "pick_write_lookup_master r =
     first_from (rr_write_master_r r) NUM_WRITE_MASTERS
       (\<lambda>m. wc_valid (write_ctxs r ! m) \<and> wc_lookup_pending (write_ctxs r ! m))"

definition pick_bypass_write_issue_master :: "llc_regs \<Rightarrow> nat option" where
  "pick_bypass_write_issue_master r =
     first_from (rr_write_master_r r) NUM_WRITE_MASTERS
       (\<lambda>m. let ctx = write_ctxs r ! m in
            wc_valid ctx \<and> wc_bypass ctx \<and> \<not> wc_mem_done ctx \<and> \<not> wc_mem_issued ctx)"

definition find_bypass_write_mem_owner :: "llc_regs \<Rightarrow> nat option" where
  "find_bypass_write_mem_owner r =
     first_below NUM_WRITE_MASTERS
       (\<lambda>m. let ctx = write_ctxs r ! m in
            wc_valid ctx \<and> wc_bypass ctx \<and> wc_mem_issued ctx \<and> \<not> wc_mem_done ctx)"

section \<open>Hazards\<close>

definition has_pending_upstream_write_line :: "llc_config \<Rightarrow> llc_ext_in \<Rightarrow> u32 \<Rightarrow> bool" where
  "has_pending_upstream_write_line c x line \<longleftrightarrow>
     list_ex (\<lambda>m. let req = in_write_req x ! m in
        \<not> (\<not> wq_valid req \<or> wq_bypass req) \<and> line_addr c (wq_addr req) = line) [0..<NUM_WRITE_MASTERS]"

definition write_line_pending :: "kit_config \<Rightarrow> llc_config \<Rightarrow> llc_regs \<Rightarrow> u32 \<Rightarrow> bool" where
  "write_line_pending k c r line \<longleftrightarrow>
     list_ex (\<lambda>m. let ctx = write_ctxs r ! m in
        \<not> (\<not> wc_valid ctx \<or> wc_line_addr ctx \<noteq> line) \<and>
        (if wc_bypass ctx then \<not> wc_mem_done ctx else \<not> wc_cache_done ctx)) [0..<NUM_WRITE_MASTERS] \<or>
     list_ex (\<lambda>m. let p = write_ports r ! m in
        list_ex (\<lambda>i. let entry = wo_queue p ! ((unat (wo_head p) + i) mod MAX_WRITE_OUTSTANDING k) in
            wp_valid entry \<and> line_addr c (wp_addr entry) = line)
          [0..<min (unat (wo_count p)) (MAX_WRITE_OUTSTANDING k)]) [0..<NUM_WRITE_MASTERS]"

text \<open>The live entries of the queue of read victims, oldest first.\<close>

definition victim_q_live :: "kit_config \<Rightarrow> llc_regs \<Rightarrow> victim_wb_req list" where
  "victim_q_live k r =
     map (\<lambda>i. victim_q r ! ((unat (victim_q_head r) + i) mod READ_VICTIM_WB_QUEUE_DEPTH k))
       [0..<min (unat (victim_q_count r)) (READ_VICTIM_WB_QUEUE_DEPTH k)]"

definition read_victim_wb_queue_full :: "kit_config \<Rightarrow> llc_regs \<Rightarrow> bool" where
  "read_victim_wb_queue_full k r \<longleftrightarrow> unat (victim_q_count r) \<ge> READ_VICTIM_WB_QUEUE_DEPTH k"

definition read_victim_snapshot_queued :: "kit_config \<Rightarrow> llc_regs \<Rightarrow> u8 \<Rightarrow> u32 \<Rightarrow> bool" where
  "read_victim_snapshot_queued k r owner victim \<longleftrightarrow>
     list_ex (\<lambda>e. vq_valid e \<and> vq_owner_slot e = owner \<and> vq_victim_addr e = victim) (victim_q_live k r)"

definition read_victim_snapshot_present :: "kit_config \<Rightarrow> llc_regs \<Rightarrow> u32 \<Rightarrow> bool" where
  "read_victim_snapshot_present k r victim \<longleftrightarrow>
     victim \<noteq> 0 \<and>
     (vb_valid (victim_wb r) \<and> \<not> vb_for_write (victim_wb r) \<and> vb_addr (victim_wb r) = victim \<or>
      list_ex (\<lambda>e. vq_valid e \<and> vq_victim_addr e = victim) (victim_q_live k r))"

definition victim_snapshot_waits_for_write_resolution :: "llc_config \<Rightarrow> llc_regs \<Rightarrow> u32 \<Rightarrow> bool" where
  "victim_snapshot_waits_for_write_resolution c r victim \<longleftrightarrow>
     victim \<noteq> 0 \<and>
     (lk_valid (lookup r) \<and> lk_is_write (lookup r) \<and> lk_issued (lookup r) \<and> \<not> lk_is_bypass (lookup r) \<and>
        line_addr c (lk_addr (lookup r)) = victim \<or>
      list_ex (\<lambda>m. let ctx = write_ctxs r ! m in
        \<not> (\<not> wc_valid ctx \<or> wc_bypass ctx \<or> wc_line_addr ctx \<noteq> victim) \<and> wc_cache_pending ctx)
        [0..<NUM_WRITE_MASTERS])"

definition victim_line_pending :: "kit_config \<Rightarrow> llc_config \<Rightarrow> llc_regs \<Rightarrow> u32 \<Rightarrow> bool" where
  "victim_line_pending k c r line \<longleftrightarrow>
     vb_valid (victim_wb r) \<and> vb_addr (victim_wb r) = line \<or>
     list_ex (\<lambda>e. vq_valid e \<and> vq_victim_addr e = line) (victim_q_live k r) \<or>
     list_ex (\<lambda>m. let ctx = write_ctxs r ! m in
        \<not> (\<not> wc_valid ctx \<or> wc_bypass ctx \<or> \<not> wc_cache_pending ctx \<or> \<not> wc_victim_dirty ctx) \<and>
        wc_victim_addr ctx = line) [0..<NUM_WRITE_MASTERS] \<or>
     list_ex (\<lambda>slot. let e = mshr r ! slot in
        \<not> (\<not> ms_valid e \<or> ms_bypass e \<or> \<not> ms_victim_dirty e \<or> ms_refill_committed e) \<and>
        ms_victim_addr e = line \<and>
        (ms_refill_valid e \<or> ms_victim_writeback_done e \<or>
         (vb_valid (victim_wb r) \<and> \<not> vb_for_write (victim_wb r) \<and> vb_addr (victim_wb r) = line \<and>
          vb_mshr_slot (victim_wb r) = of_nat slot))) [0..<mshr_limit k c]"

definition way_reserved_by_pending_write :: "llc_regs \<Rightarrow> u32 \<Rightarrow> u8 \<Rightarrow> u32 \<Rightarrow> bool" where
  "way_reserved_by_pending_write r idx way line \<longleftrightarrow>
     list_ex (\<lambda>m. let ctx = write_ctxs r ! m in
        \<not> (\<not> wc_valid ctx \<or> wc_bypass ctx \<or> \<not> wc_cache_pending ctx) \<and>
        \<not> (wc_set ctx \<noteq> idx \<or> wc_way ctx \<noteq> way) \<and> wc_line_addr ctx \<noteq> line) [0..<NUM_WRITE_MASTERS]"

definition way_reserved_by_pending_refill ::
  "kit_config \<Rightarrow> llc_config \<Rightarrow> llc_regs \<Rightarrow> u32 \<Rightarrow> u8 \<Rightarrow> u32 \<Rightarrow> bool" where
  "way_reserved_by_pending_refill k c r idx way line \<longleftrightarrow>
     list_ex (\<lambda>slot. let e = mshr r ! slot in
        \<not> (\<not> ms_valid e \<or> ms_bypass e \<or> ms_refill_committed e) \<and>
        \<not> (ms_set e \<noteq> idx \<or> ms_way e \<noteq> way) \<and> ms_line_addr e \<noteq> line) [0..<mshr_limit k c]"

definition way_reserved :: "kit_config \<Rightarrow> llc_config \<Rightarrow> llc_regs \<Rightarrow> u32 \<Rightarrow> u32 \<Rightarrow> u8 \<Rightarrow> bool" where
  "way_reserved k c r idx line way \<longleftrightarrow>
     way_reserved_by_pending_write r idx way line \<or> way_reserved_by_pending_refill k c r idx way line"

definition repl_candidate :: "llc_config \<Rightarrow> u32 \<Rightarrow> nat \<Rightarrow> u8" where
  "repl_candidate c repl_way_raw off = ucast ((repl_way_raw + of_nat off) mod lc_ways c)"

definition pick_unreserved_way ::
  "kit_config \<Rightarrow> llc_config \<Rightarrow> llc_regs \<Rightarrow> u32 \<Rightarrow> nat option \<Rightarrow> u32 \<Rightarrow> u32 \<Rightarrow> nat option" where
  "pick_unreserved_way k c r idx first_invalid_way repl_way_raw line =
     (let rotate = map_option (\<lambda>off. unat (repl_candidate c repl_way_raw off))
            (first_below (unat (lc_ways c)) (\<lambda>off. \<not> way_reserved k c r idx line (repl_candidate c repl_way_raw off)))
      in case first_invalid_way of
           Some w \<Rightarrow> if \<not> way_reserved k c r idx line (of_nat w) then Some w else rotate
         | None \<Rightarrow> rotate)"

section \<open>Maintenance\<close>

definition can_accept_invalidate_line_now :: "kit_config \<Rightarrow> llc_config \<Rightarrow> llc_ext_in \<Rightarrow> llc_regs \<Rightarrow> u32 \<Rightarrow> bool" where
  "can_accept_invalidate_line_now k c x r line \<longleftrightarrow>
     \<not> list_ex (\<lambda>m. rp_valid (read_ports r ! m) \<or> rp_count (read_ports r ! m) \<noteq> 0) [0..<NUM_READ_MASTERS] \<and>
     find_mshr_by_line_addr k c r line = None \<and>
     \<not> (mi_write_resp_valid (in_mem x) \<and>
        (case find_bypass_write_mem_owner r of None \<Rightarrow> False
         | Some m \<Rightarrow> wc_valid (write_ctxs r ! m) \<and> wc_line_addr (write_ctxs r ! m) = line)) \<and>
     \<not> list_ex (\<lambda>m. wq_valid (in_write_req x ! m) \<and> line_addr c (wq_addr (in_write_req x ! m)) = line)
         [0..<NUM_WRITE_MASTERS] \<and>
     \<not> write_line_pending k c r line \<and>
     \<not> victim_line_pending k c r line \<and>
     \<not> list_ex (\<lambda>m. wc_valid (write_ctxs r ! m) \<and> wc_line_addr (write_ctxs r ! m) = line \<or>
          wo_resp_valid (write_ports r ! m) \<and> wo_resp_line_addr (write_ports r ! m) = line)
         [0..<NUM_WRITE_MASTERS] \<and>
     \<not> (lk_valid (lookup r) \<and> line_addr c (lk_addr (lookup r)) = line) \<and>
     \<not> (vb_valid (victim_wb r) \<and>
        (vb_addr (victim_wb r) = line \<or>
         vb_for_write (victim_wb r) \<and> unat (vb_write_master (victim_wb r)) < NUM_WRITE_MASTERS \<and>
         wc_valid (write_ctxs r ! unat (vb_write_master (victim_wb r))) \<and>
         wc_line_addr (write_ctxs r ! unat (vb_write_master (victim_wb r))) = line))"

definition has_dirty_or_write_hazard :: "kit_config \<Rightarrow> llc_config \<Rightarrow> llc_regs \<Rightarrow> bool" where
  "has_dirty_or_write_hazard k c r \<longleftrightarrow>
     dirty_line_count_r r \<noteq> 0 \<or> vb_valid (victim_wb r) \<or>
     list_ex (\<lambda>slot. let e = mshr r ! slot in
        ms_valid e \<and> (ms_is_write e \<or> ms_victim_dirty e \<and> \<not> ms_victim_writeback_done e)) [0..<mshr_limit k c] \<or>
     list_ex (\<lambda>m. wc_valid (write_ctxs r ! m) \<or> wo_count (write_ports r ! m) \<noteq> 0 \<or>
        wo_resp_valid (write_ports r ! m)) [0..<NUM_WRITE_MASTERS] \<or>
     lk_valid (lookup r) \<and> lk_is_write (lookup r)"

definition can_accept_invalidate_all_now :: "kit_config \<Rightarrow> llc_config \<Rightarrow> llc_regs \<Rightarrow> bool" where
  "can_accept_invalidate_all_now k c r \<longleftrightarrow> \<not> has_dirty_or_write_hazard k c r"

section \<open>Acceptance of requests\<close>

definition allow_parallel_demand_mshr :: "u8 \<Rightarrow> bool" where
  "allow_parallel_demand_mshr master \<longleftrightarrow> master = MASTER_DCACHE_R"

definition can_accept_read_now ::
  "kit_config \<Rightarrow> llc_config \<Rightarrow> llc_ext_in \<Rightarrow> llc_regs \<Rightarrow> nat \<Rightarrow> bool \<Rightarrow> u32 \<Rightarrow> bool" where
  "can_accept_read_now k c x r master bypass addr \<longleftrightarrow>
     \<not> (master \<ge> NUM_READ_MASTERS \<or> lc_mshr_num c = 0) \<and>
     \<not> rp_valid (read_ports r ! master) \<and>
     \<not> lk_valid (lookup r) \<and>
     \<not> has_pending_upstream_write_line c x (line_addr c addr) \<and>
     \<not> write_line_pending k c r (line_addr c addr) \<and>
     \<not> victim_line_pending k c r (line_addr c addr) \<and>
     find_mshr_by_line_addr k c r (line_addr c addr) = None \<and>
     \<not> (\<not> bypass \<and> \<not> allow_parallel_demand_mshr (of_nat master) \<and> has_mshr_for_master k c r (of_nat master)) \<and>
     find_free_mshr k c r \<noteq> None"

text \<open>\<open>r0\<close> are the current registers, \<open>r\<close> the next ones.\<close>

definition pick_new_read_master ::
  "kit_config \<Rightarrow> llc_config \<Rightarrow> llc_ext_in \<Rightarrow> llc_regs \<Rightarrow> llc_regs \<Rightarrow> nat option" where
  "pick_new_read_master k c x r0 r =
     first_from (rr_read_master_r r) NUM_READ_MASTERS (\<lambda>m.
       let req = in_read_req x ! m; line = line_addr c (rq_addr req) in
       rq_valid req \<and> \<not> rp_valid (read_ports r0 ! m) \<and> \<not> rp_valid (read_ports r ! m) \<and>
       \<not> lk_valid (lookup r) \<and>
       \<not> has_pending_upstream_write_line c x line \<and>
       \<not> write_line_pending k c r line \<and>
       \<not> victim_line_pending k c r line \<and>
       find_mshr_by_line_addr k c r line = None \<and>
       \<not> (\<not> rq_bypass req \<and> \<not> allow_parallel_demand_mshr (of_nat m) \<and> has_mshr_for_master k c r (of_nat m)) \<and>
       find_free_mshr k c r \<noteq> None)"

definition pick_new_write_master :: "kit_config \<Rightarrow> llc_config \<Rightarrow> llc_ext_in \<Rightarrow> llc_regs \<Rightarrow> nat option" where
  "pick_new_write_master k c x r =
     first_from (rr_write_master_r r) NUM_WRITE_MASTERS (\<lambda>m.
       let req = in_write_req x ! m in
       \<not> (\<not> wq_valid req \<or> write_queue_full k r m) \<and> \<not> victim_line_pending k c r (line_addr c (wq_addr req)))"

end
