(* ===== verification/LLC_Write.thy ===== *)
theory LLC_Write
  imports LLC_Queries
begin

text \<open>
  The response side and the write side of \<^verbatim>\<open>AXI_LLC::comb()\<close>: \<^verbatim>\<open>enqueue_read_response\<close>,
  \<^verbatim>\<open>enqueue_read_victim_snapshot\<close>, \<^verbatim>\<open>drive_read_responses\<close>, and \<^verbatim>\<open>drive_write_path\<close> in its stages with
  \<^verbatim>\<open>try_launch_pending_write_lookup\<close>. Every function takes and returns the whole \<open>llc_io\<close>: it reads
  the current registers \<open>regs\<close> and the next ones \<open>reg_write\<close> where the source does. The trace
  output, compiled out by \<^verbatim>\<open>CONFIG_AXI_LLC_DEBUG_LOG = 0\<close>, is left out.
\<close>

section \<open>Updates of the next registers and the outputs\<close>

definition upd :: "nat \<Rightarrow> ('a \<Rightarrow> 'a) \<Rightarrow> 'a list \<Rightarrow> 'a list" where
  "upd i f xs = xs[i := f (xs ! i)]"

lemma length_upd [simp]: "length (upd i f xs) = length xs"
  by (simp add: upd_def)

lemma nth_upd: "i < length xs \<Longrightarrow> upd i f xs ! j = (if i = j then f (xs ! j) else xs ! j)"
  by (simp add: upd_def nth_list_update)

lemma nth_upd_neq [simp]: "i \<noteq> j \<Longrightarrow> upd i f xs ! j = xs ! j"
  by (simp add: upd_def)

definition wr :: "(llc_regs \<Rightarrow> llc_regs) \<Rightarrow> llc_io \<Rightarrow> llc_io" where
  "wr f io = io\<lparr>reg_write := f (reg_write io)\<rparr>"

definition wr_lookup :: "(llc_lookup \<Rightarrow> llc_lookup) \<Rightarrow> llc_io \<Rightarrow> llc_io" where
  "wr_lookup f = wr (\<lambda>r. r\<lparr>lookup := f (lookup r)\<rparr>)"
definition wr_perf :: "(llc_perf \<Rightarrow> llc_perf) \<Rightarrow> llc_io \<Rightarrow> llc_io" where
  "wr_perf f = wr (\<lambda>r. r\<lparr>perf := f (perf r)\<rparr>)"
definition wr_victim :: "(llc_victim_wb \<Rightarrow> llc_victim_wb) \<Rightarrow> llc_io \<Rightarrow> llc_io" where
  "wr_victim f = wr (\<lambda>r. r\<lparr>victim_wb := f (victim_wb r)\<rparr>)"
definition wr_mshr :: "nat \<Rightarrow> (miss_entry \<Rightarrow> miss_entry) \<Rightarrow> llc_io \<Rightarrow> llc_io" where
  "wr_mshr i f = wr (\<lambda>r. r\<lparr>mshr := upd i f (mshr r)\<rparr>)"
definition wr_ctx :: "nat \<Rightarrow> (write_ctx \<Rightarrow> write_ctx) \<Rightarrow> llc_io \<Rightarrow> llc_io" where
  "wr_ctx m f = wr (\<lambda>r. r\<lparr>write_ctxs := upd m f (write_ctxs r)\<rparr>)"
definition wr_read_port :: "nat \<Rightarrow> (llc_read_port \<Rightarrow> llc_read_port) \<Rightarrow> llc_io \<Rightarrow> llc_io" where
  "wr_read_port m f = wr (\<lambda>r. r\<lparr>read_ports := upd m f (read_ports r)\<rparr>)"
definition wr_write_port :: "nat \<Rightarrow> (llc_write_port \<Rightarrow> llc_write_port) \<Rightarrow> llc_io \<Rightarrow> llc_io" where
  "wr_write_port m f = wr (\<lambda>r. r\<lparr>write_ports := upd m f (write_ports r)\<rparr>)"
definition wr_state :: "llc_state \<Rightarrow> llc_io \<Rightarrow> llc_io" where
  "wr_state st = wr (\<lambda>r. r\<lparr>llc_st := st\<rparr>)"
definition drive_mem :: "(llc_mem_out \<Rightarrow> llc_mem_out) \<Rightarrow> llc_io \<Rightarrow> llc_io" where
  "drive_mem f io = io\<lparr>ext_out := (ext_out io)\<lparr>out_mem := f (out_mem (ext_out io))\<rparr>\<rparr>"
definition drive_table :: "(llc_table_out \<Rightarrow> llc_table_out) \<Rightarrow> llc_io \<Rightarrow> llc_io" where
  "drive_table f io = io\<lparr>table_out := f (table_out io)\<rparr>"

section \<open>Table requests\<close>

definition llc_table_write_busy :: "llc_table_out \<Rightarrow> bool" where
  "llc_table_write_busy t \<longleftrightarrow> tr_enable (to_data t) \<or> tr_enable (to_meta t) \<or> tr_enable (to_valid t) \<or>
     tr_enable (to_repl t)"

definition table_write_data :: "llc_config \<Rightarrow> u32 \<Rightarrow> u32 \<Rightarrow> llc_bytes \<Rightarrow> llc_io \<Rightarrow> llc_io" where
  "table_write_data c idx way payload = drive_table (\<lambda>t. t\<lparr>to_data := \<lparr>tr_enable = True, tr_write = True,
     tr_index = idx, tr_way = way, tr_payload = payload,
     tr_byte_enable = replicate (unat (lc_line_bytes c)) 1\<rparr>\<rparr>)"

definition table_write_meta :: "u32 \<Rightarrow> u32 \<Rightarrow> meta_entry \<Rightarrow> llc_io \<Rightarrow> llc_io" where
  "table_write_meta idx way e io =
     (case encode_meta e of
        None \<Rightarrow> io\<lparr>aborted := True\<rparr>
      | Some payload \<Rightarrow> drive_table (\<lambda>t. t\<lparr>to_meta := \<lparr>tr_enable = True, tr_write = True, tr_index = idx,
          tr_way = way, tr_payload = payload, tr_byte_enable = replicate AXI_LLC_META_ENTRY_BYTES 1\<rparr>\<rparr>) io)"

definition table_write_valid :: "llc_config \<Rightarrow> u32 \<Rightarrow> u32 \<Rightarrow> bool \<Rightarrow> llc_io \<Rightarrow> llc_io" where
  "table_write_valid c idx way v =
     (case encode_valid_bit_payload (lc_ways c) (unat way) v of (payload, be) \<Rightarrow>
        drive_table (\<lambda>t. t\<lparr>to_valid := \<lparr>tr_enable = True, tr_write = True, tr_index = idx, tr_way = way,
          tr_payload = payload, tr_byte_enable = be\<rparr>\<rparr>))"

definition table_write_repl :: "u32 \<Rightarrow> u32 \<Rightarrow> llc_io \<Rightarrow> llc_io" where
  "table_write_repl idx next_way = drive_table (\<lambda>t. t\<lparr>to_repl := (to_repl t)\<lparr>tr_enable := True,
     tr_write := True, tr_index := idx, tr_payload := build_repl_payload next_way,
     tr_byte_enable := replicate AXI_LLC_REPL_BYTES 1\<rparr>\<rparr>)"

section \<open>Read responses\<close>

definition push_read_port :: "kit_config \<Rightarrow> u8 \<Rightarrow> wide_data \<Rightarrow> llc_read_port \<Rightarrow> bool \<times> llc_read_port" where
  "push_read_port k rid data p =
     (if \<not> rp_valid p
      then (True, p\<lparr>rp_valid := True, rp_fresh := True, rp_id := rid, rp_data := data\<rparr>)
      else if unat (rp_count p) \<ge> READ_RESP_QUEUE_DEPTH k then (False, p)
      else let tail = unat (rp_tail p) mod READ_RESP_QUEUE_DEPTH k
           in (True, p\<lparr>rp_q_id := (rp_q_id p)[tail := rid], rp_q_data := (rp_q_data p)[tail := data],
                 rp_tail := of_nat ((tail + 1) mod READ_RESP_QUEUE_DEPTH k), rp_count := rp_count p + 1\<rparr>))"

definition enqueue_read_response ::
  "kit_config \<Rightarrow> u8 \<Rightarrow> u8 \<Rightarrow> wide_data \<Rightarrow> llc_io \<Rightarrow> bool \<times> llc_io" where
  "enqueue_read_response k master rid data io =
     (if unat master \<ge> NUM_READ_MASTERS then (False, io)
      else case push_read_port k rid data (read_ports (reg_write io) ! unat master) of
             (ok, p) \<Rightarrow> (ok, wr_read_port (unat master) (\<lambda>_. p) io))"

text \<open>The block that moves the queue's head, as it is in the current registers, into the slot.\<close>

definition pop_read_port :: "kit_config \<Rightarrow> llc_read_port \<Rightarrow> llc_read_port \<Rightarrow> llc_read_port" where
  "pop_read_port k cur p =
     (let head = unat (rp_head cur) mod READ_RESP_QUEUE_DEPTH k
      in p\<lparr>rp_valid := True, rp_fresh := True, rp_id := rp_q_id cur ! head, rp_data := rp_q_data cur ! head,
           rp_q_id := (rp_q_id p)[head := 0], rp_q_data := (rp_q_data p)[head := read_data_clear],
           rp_head := of_nat ((head + 1) mod READ_RESP_QUEUE_DEPTH k), rp_count := rp_count p - 1\<rparr>)"

definition drive_read_port :: "kit_config \<Rightarrow> bool \<Rightarrow> llc_read_port \<Rightarrow> llc_read_port \<Rightarrow> llc_read_port" where
  "drive_read_port k ready cur p =
     (let p = (if rp_valid cur \<and> rp_fresh cur then p\<lparr>rp_fresh := False\<rparr>
               else if rp_valid cur \<and> ready
               then if rp_count cur \<noteq> 0 then pop_read_port k cur p
                    else p\<lparr>rp_valid := False, rp_fresh := False, rp_id := 0, rp_data := read_data_clear\<rparr>
               else p)
      in if \<not> rp_valid p \<and> rp_count cur \<noteq> 0 then pop_read_port k cur p else p)"

definition drive_read_response :: "kit_config \<Rightarrow> nat \<Rightarrow> llc_io \<Rightarrow> llc_io" where
  "drive_read_response k m io =
     (let cur = read_ports (regs io) ! m;
          io = io\<lparr>ext_out := (ext_out io)\<lparr>out_read_resp := (out_read_resp (ext_out io))[m :=
                 \<lparr>rs_valid = rp_valid cur, rs_data = rp_data cur, rs_id = rp_id cur\<rparr>]\<rparr>\<rparr>
      in wr_read_port m (drive_read_port k (in_read_resp_ready (ext_in io) ! m) cur) io)"

definition drive_read_responses :: "kit_config \<Rightarrow> llc_io \<Rightarrow> llc_io" where
  "drive_read_responses k = fold (drive_read_response k) [0..<NUM_READ_MASTERS]"

section \<open>Read victims\<close>

definition enqueue_read_victim_snapshot ::
  "kit_config \<Rightarrow> u8 \<Rightarrow> u32 \<Rightarrow> wide_data \<Rightarrow> wide_strb \<Rightarrow> llc_io \<Rightarrow> bool \<times> llc_io" where
  "enqueue_read_victim_snapshot k owner victim data strobe io =
     (let r = reg_write io in
      if read_victim_snapshot_queued k r owner victim then (True, io)
      else if read_victim_wb_queue_full k r then (False, io)
      else let tail = unat (victim_q_tail r) mod READ_VICTIM_WB_QUEUE_DEPTH k
           in (True, wr (\<lambda>r. r\<lparr>victim_q := (victim_q r)[tail := \<lparr>vq_valid = True, vq_owner_slot = owner,
                       vq_victim_addr = victim, vq_victim_data = data, vq_victim_strobe = strobe\<rparr>],
                     victim_q_tail := of_nat ((tail + 1) mod READ_VICTIM_WB_QUEUE_DEPTH k),
                     victim_q_count := victim_q_count r + 1\<rparr>) io))"

section \<open>The write path\<close>

definition try_commit_write_ctx_after_victim :: "llc_config \<Rightarrow> nat \<Rightarrow> llc_io \<Rightarrow> bool \<times> llc_io" where
  "try_commit_write_ctx_after_victim c master io =
     (if master \<ge> NUM_WRITE_MASTERS then (False, io)
      else let ctx = write_ctxs (reg_write io) ! master in
        if \<not> wc_valid ctx \<or> wc_bypass ctx \<or> \<not> wc_cache_pending ctx \<or> \<not> wc_victim_mem_done ctx \<or> wc_cache_done ctx
        then (False, io)
        else if llc_table_write_busy (table_out io) then (False, io)
        else let way = ucast (wc_way ctx);
                 io = table_write_data c (wc_set ctx) way (write_words_to_line_bytes c (wc_line ctx)) io;
                 io = table_write_meta (wc_set ctx) way
                        \<lparr>me_tag = wc_tag ctx, me_flags = AXI_LLC_META_VALID OR AXI_LLC_META_DIRTY\<rparr> io;
                 io = table_write_valid c (wc_set ctx) way True io;
                 io = table_write_repl (wc_set ctx) (wc_repl_next_way ctx) io
             in (True, wr_ctx master (\<lambda>x. x\<lparr>wc_cache_done := True, wc_cache_pending := False,
                         wc_victim_mem_done := False\<rparr>) io))"

definition write_resp_handshake :: "nat \<Rightarrow> llc_io \<Rightarrow> llc_io" where
  "write_resp_handshake m io =
     (let p = write_ports (regs io) ! m;
          io = io\<lparr>ext_out := (ext_out io)\<lparr>out_write_resp := (out_write_resp (ext_out io))[m :=
                 \<lparr>ws_valid = wo_resp_valid p, ws_id = wo_resp_id p, ws_resp = wo_resp_code p\<rparr>]\<rparr>\<rparr>
      in if wo_resp_valid p \<and> in_write_resp_ready (ext_in io) ! m
         then wr_write_port m (\<lambda>p. p\<lparr>wo_resp_valid := False, wo_resp_id := 0, wo_resp_code := 0,
                wo_resp_line_addr := 0\<rparr>) io
         else io)"

definition count_ddr_write :: "u64 \<Rightarrow> llc_io \<Rightarrow> llc_io" where
  "count_ddr_write issue_cycle io =
     (if issue_cycle \<noteq> 0
      then wr_perf (\<lambda>p. p\<lparr>ddr_write_total_cycles := ddr_write_total_cycles p + (sim_time io - issue_cycle),
             ddr_write_samples := ddr_write_samples p + 1\<rparr>) io
      else io)"

text \<open>The owner of a finished read victim: the head of the queue, or a miss entry.\<close>

definition read_victim_written :: "kit_config \<Rightarrow> llc_config \<Rightarrow> llc_io \<Rightarrow> llc_io" where
  "read_victim_written k c io =
     (let r = regs io; vb = victim_wb r; slot = vb_mshr_slot vb in
      if slot = AXI_LLC_INVALID_VICTIM_MSHR_SLOT
      then if victim_q_count r \<noteq> 0
           then let head = unat (victim_q_head r) mod READ_VICTIM_WB_QUEUE_DEPTH k;
                    queued = victim_q r ! head
                in if vq_valid queued \<and> vq_victim_addr queued = vb_addr vb
                   then wr (\<lambda>w. w\<lparr>victim_q := (victim_q w)[head := victim_wb_req_zero k],
                          victim_q_head := of_nat ((head + 1) mod READ_VICTIM_WB_QUEUE_DEPTH k),
                          victim_q_count := victim_q_count w - 1\<rparr>) io
                   else io
           else io
      else let own = (if unat slot < unat (lc_mshr_num c) \<and> unat slot < MAX_OUTSTANDING k \<and>
                         ms_valid (mshr r ! unat slot) \<and> ms_victim_dirty (mshr r ! unat slot) \<and>
                         ms_victim_addr (mshr r ! unat slot) = vb_addr vb
                      then Some (unat slot) else None);
               owner = (case own of Some i \<Rightarrow> Some i
                        | None \<Rightarrow> find_mshr_by_victim_addr k c r (vb_addr vb))
           in case owner of
                Some i \<Rightarrow> wr_mshr i (\<lambda>e. e\<lparr>ms_victim_writeback_done := True\<rparr>) io
              | None \<Rightarrow> io)"

definition write_mem_response :: "kit_config \<Rightarrow> llc_config \<Rightarrow> llc_io \<Rightarrow> llc_io" where
  "write_mem_response k c io =
     (let r = regs io; vb = victim_wb r;
          io = drive_mem (\<lambda>x. x\<lparr>mo_write_resp_ready := True\<rparr>) io
      in if \<not> mi_write_resp_valid (in_mem (ext_in io)) then io
         else if vb_valid vb \<and> vb_issued vb
         then let io = wr_victim (\<lambda>_. llc_victim_wb_zero k) io;
                  io = count_ddr_write (vb_issue_cycle vb) io
              in if vb_for_write vb
                 then let m = unat (vb_write_master vb);
                          io = wr_ctx m (\<lambda>x. x\<lparr>wc_victim_mem_done := True\<rparr>) io
                      in snd (try_commit_write_ctx_after_victim c m io)
                 else read_victim_written k c io
         else case find_bypass_write_mem_owner r of
                None \<Rightarrow> io
              | Some m \<Rightarrow> count_ddr_write (wc_mem_issue_cycle (write_ctxs r ! m))
                  (wr_ctx m (\<lambda>x. x\<lparr>wc_mem_done := True,
                     wc_mem_resp_code := mi_write_resp (in_mem (ext_in io))\<rparr>) io))"

text \<open>The loop that stops at the first context it commits.\<close>

fun commit_first :: "llc_config \<Rightarrow> nat list \<Rightarrow> llc_io \<Rightarrow> llc_io" where
  "commit_first c [] io = io"
| "commit_first c (m # ms) io =
     (case try_commit_write_ctx_after_victim c m io of
        (committed, io) \<Rightarrow> if committed then io else commit_first c ms io)"

definition promote_write_ctx :: "kit_config \<Rightarrow> nat \<Rightarrow> llc_io \<Rightarrow> llc_io" where
  "promote_write_ctx k m io =
     (let ctx = write_ctxs (reg_write io) ! m;
          fin = (if wc_bypass ctx then wc_mem_done ctx else wc_cache_done ctx \<and> \<not> wc_cache_pending ctx)
      in if \<not> wc_valid ctx \<or> wo_resp_valid (write_ports (reg_write io) ! m) then io
         else if \<not> fin then io
         else wr_ctx m (\<lambda>_. write_ctx_zero k)
                (wr_write_port m (\<lambda>p. p\<lparr>wo_resp_valid := True, wo_resp_id := wc_id ctx,
                   wo_resp_code := if wc_bypass ctx then wc_mem_resp_code ctx else 0,
                   wo_resp_line_addr := wc_line_addr ctx\<rparr>) io))"

definition arm_queued_victim :: "kit_config \<Rightarrow> llc_io \<Rightarrow> llc_io" where
  "arm_queued_victim k io =
     (let r = regs io in
      if \<not> vb_valid (victim_wb (reg_write io)) \<and> victim_q_count r \<noteq> 0 \<and> find_bypass_write_mem_owner r = None
      then let queued = victim_q r ! (unat (victim_q_head r) mod READ_VICTIM_WB_QUEUE_DEPTH k)
           in if vq_valid queued
              then wr_victim (\<lambda>v. v\<lparr>vb_valid := True, vb_issued := False, vb_for_write := False,
                     vb_write_master := 0, vb_mshr_slot := AXI_LLC_INVALID_VICTIM_MSHR_SLOT,
                     vb_addr := vq_victim_addr queued, vb_data := vq_victim_data queued,
                     vb_strobe := vq_victim_strobe queued\<rparr>) io
              else io
      else io)"

definition issue_victim :: "llc_config \<Rightarrow> llc_io \<Rightarrow> llc_io" where
  "issue_victim c io =
     (let vb = victim_wb (reg_write io) in
      if vb_issued vb \<or> find_bypass_write_mem_owner (regs io) \<noteq> None then io
      else let io = drive_mem (\<lambda>x. x\<lparr>mo_write_req_valid := True, mo_write_req_addr := vb_addr vb,
                  mo_write_req_data := vb_data vb, mo_write_req_strobe := vb_strobe vb,
                  mo_write_req_size := ucast (lc_line_bytes c - 1), mo_write_req_mode2 := False,
                  mo_write_req_id := 0\<rparr>) io
           in if mi_write_req_ready (in_mem (ext_in io))
              then wr_victim (\<lambda>v. v\<lparr>vb_issued := True, vb_issue_cycle := sim_time io\<rparr>) io
              else io)"

definition issue_bypass_write :: "llc_io \<Rightarrow> llc_io" where
  "issue_bypass_write io =
     (case pick_bypass_write_issue_master (regs io) of
        None \<Rightarrow> io
      | Some m \<Rightarrow>
          let ctx = write_ctxs (regs io) ! m;
              io = drive_mem (\<lambda>x. x\<lparr>mo_write_req_valid := True, mo_write_req_addr := wc_addr ctx,
                     mo_write_req_data := wc_data ctx, mo_write_req_strobe := wc_strobe ctx,
                     mo_write_req_size := wc_total_size ctx, mo_write_req_mode2 := wc_mode2 ctx,
                     mo_write_req_id := wc_id ctx\<rparr>) io
          in if mi_write_req_ready (in_mem (ext_in io))
             then wr_ctx m (\<lambda>x. x\<lparr>wc_mem_issued := True, wc_mem_issue_cycle := sim_time io\<rparr>) io
             else io)"

definition accept_write :: "kit_config \<Rightarrow> llc_config \<Rightarrow> llc_io \<Rightarrow> llc_io" where
  "accept_write k c io =
     (case pick_new_write_master k c (ext_in io) (regs io) of
        None \<Rightarrow> io
      | Some m \<Rightarrow>
          if write_queue_full k (regs io) m then io
          else let req = in_write_req (ext_in io) ! m;
                   cur = write_ports (regs io) ! m;
                   slot = unat (wo_tail cur) mod MAX_WRITE_OUTSTANDING k;
                   io = io\<lparr>ext_out := (ext_out io)\<lparr>out_write_req_ready :=
                          (out_write_req_ready (ext_out io))[m := True]\<rparr>\<rparr>
               in if wq_valid req
                  then wr (\<lambda>r. r\<lparr>rr_write_master_r := of_nat ((m + 1) mod NUM_WRITE_MASTERS)\<rparr>)
                         (wr_write_port m (\<lambda>p. p\<lparr>wo_queue := (wo_queue p)[slot :=
                              \<lparr>wp_valid = True, wp_bypass = wq_bypass req, wp_direct_mapped = wq_direct_mapped req,
                               wp_mode2 = wq_mode2 req, wp_master = of_nat m, wp_id = wq_id req,
                               wp_total_size = wq_total_size req, wp_addr = wq_addr req,
                               wp_wdata = wq_wdata req, wp_wstrb = wq_wstrb req\<rparr>],
                            wo_tail := of_nat ((slot + 1) mod MAX_WRITE_OUTSTANDING k),
                            wo_count := wo_count cur + 1\<rparr>) io)
                  else io)"

definition alloc_write_ctx :: "kit_config \<Rightarrow> llc_config \<Rightarrow> nat \<Rightarrow> llc_io \<Rightarrow> llc_io" where
  "alloc_write_ctx k c m io =
     (let r = reg_write io in
      if wc_valid (write_ctxs r ! m) \<or> wo_resp_valid (write_ports r ! m) then io
      else case write_queue_front k r m of
             None \<Rightarrow> io
           | Some entry \<Rightarrow>
               if victim_line_pending k c r (line_addr c (wp_addr entry)) then io
               else let head = unat (wo_head (write_ports r ! m));
                        io = wr_ctx m (\<lambda>_. (write_ctx_zero k)\<lparr>wc_valid := True, wc_bypass := wp_bypass entry,
                               wc_direct_mapped := wp_direct_mapped entry, wc_mode2 := wp_mode2 entry,
                               wc_lookup_pending := True, wc_id := wp_id entry,
                               wc_total_size := wp_total_size entry, wc_addr := wp_addr entry,
                               wc_line_addr := line_addr c (wp_addr entry), wc_data := wp_wdata entry,
                               wc_strobe := wp_wstrb entry\<rparr>) io;
                        io = (if wp_bypass entry
                              then wr_perf (\<lambda>p. p\<lparr>write_passthrough := write_passthrough p + 1\<rparr>) io else io)
                    in wr_write_port m (\<lambda>p. p\<lparr>
                         wo_queue := (wo_queue p)[head mod MAX_WRITE_OUTSTANDING k := write_pending_zero k],
                         wo_head := of_nat ((head + 1) mod MAX_WRITE_OUTSTANDING k),
                         wo_count := wo_count p - 1\<rparr>) io)"

definition try_launch_pending_write_lookup :: "llc_io \<Rightarrow> llc_io" where
  "try_launch_pending_write_lookup io =
     (if lk_valid (lookup (reg_write io)) then io
      else case pick_write_lookup_master (reg_write io) of
             None \<Rightarrow> io
           | Some m \<Rightarrow>
               let ctx = write_ctxs (reg_write io) ! m;
                   io = wr_lookup (\<lambda>_. \<lparr>lk_valid = True, lk_issued = False, lk_addr = wc_addr ctx,
                          lk_size = wc_total_size ctx, lk_master = of_nat m, lk_id = wc_id ctx,
                          lk_is_prefetch = False, lk_is_invalidate = False, lk_is_write = True,
                          lk_is_bypass = wc_bypass ctx, lk_is_direct_mapped = wc_direct_mapped ctx,
                          lk_is_mode2 = wc_mode2 ctx\<rparr>) io;
                   io = wr_ctx m (\<lambda>x. x\<lparr>wc_lookup_pending := False\<rparr>) io
               in wr (\<lambda>r. r\<lparr>llc_st := kLookup, rr_write_master_r := of_nat ((m + 1) mod NUM_WRITE_MASTERS)\<rparr>) io)"

definition drive_new_writes :: "kit_config \<Rightarrow> llc_config \<Rightarrow> llc_io \<Rightarrow> llc_io" where
  "drive_new_writes k c io =
     (let io = issue_bypass_write io;
          io = accept_write k c io;
          rr = unat (rr_write_master_r (regs io));
          io = fold (\<lambda>off. alloc_write_ctx k c ((rr + off) mod NUM_WRITE_MASTERS)) [0..<NUM_WRITE_MASTERS] io
      in try_launch_pending_write_lookup io)"

definition drive_write_path :: "kit_config \<Rightarrow> llc_config \<Rightarrow> llc_io \<Rightarrow> llc_io" where
  "drive_write_path k c io =
     (let io = fold write_resp_handshake [0..<NUM_WRITE_MASTERS] io;
          io = write_mem_response k c io;
          io = commit_first c [0..<NUM_WRITE_MASTERS] io;
          io = fold (promote_write_ctx k) [0..<NUM_WRITE_MASTERS] io;
          io = arm_queued_victim k io
      in if vb_valid (victim_wb (reg_write io)) then issue_victim c io
         else drive_new_writes k c io)"

end
