(* ===== verification/LLC_Lookup.thy ===== *)
theory LLC_Lookup
  imports LLC_Write
begin

text \<open>
  \<^verbatim>\<open>AXI_LLC::drive_lookup_request\<close> and \<^verbatim>\<open>try_complete_lookup\<close>, one definition per outcome of a
  lookup: direct-mapped access, hit of a write, of an invalidation, of a prefetch, of a bypass
  read and of a read, write miss, and read miss. \<open>try_complete_lookup\<close> chooses between them.
\<close>

section \<open>Issuing a lookup\<close>

definition drive_lookup_request :: "kit_config \<Rightarrow> llc_config \<Rightarrow> llc_io \<Rightarrow> llc_io" where
  "drive_lookup_request k c io =
     (let lk = lookup (reg_write io); line = line_addr c (lk_addr lk); t = table_out io in
      if \<not> lk_valid (lookup (regs io)) \<or> \<not> lk_valid lk then io
      else if lk_issued (lookup (regs io)) then io
      else if victim_line_pending k c (reg_write io) line then io
      else if tr_enable (to_data t) \<or> tr_enable (to_meta t) \<or> tr_enable (to_valid t) \<or> tr_enable (to_repl t) then io
      else if \<not> lk_is_prefetch lk \<and> \<not> lk_is_direct_mapped lk \<and>
              find_mshr_by_line_addr k c (reg_write io) line \<noteq> None then io
      else let index = set_index c (lk_addr lk);
               ask = (\<lambda>q. q\<lparr>tr_enable := True, tr_index := index\<rparr>);
               io = drive_table (\<lambda>t. t\<lparr>to_data := ask (to_data t), to_meta := ask (to_meta t),
                      to_valid := ask (to_valid t), to_repl := ask (to_repl t)\<rparr>) io
           in wr_state kLookup (wr_lookup (\<lambda>l. l\<lparr>lk_issued := True\<rparr>) io))"

section \<open>Leaving a lookup\<close>

text \<open>A lookup is either retried (it keeps its request and is issued again) or finished.\<close>

definition retry_lookup :: "llc_state \<Rightarrow> llc_io \<Rightarrow> llc_io" where
  "retry_lookup st io = wr_state st (wr_lookup (\<lambda>l. l\<lparr>lk_issued := False\<rparr>) io)"

definition finish_lookup :: "llc_state \<Rightarrow> llc_io \<Rightarrow> llc_io" where
  "finish_lookup st io =
     wr_state st (wr_lookup (\<lambda>l. l\<lparr>lk_valid := False, lk_issued := False, lk_is_prefetch := False,
       lk_is_invalidate := False, lk_is_write := False, lk_is_bypass := False\<rparr>) io)"

definition finish_direct_lookup :: "llc_io \<Rightarrow> llc_io" where
  "finish_direct_lookup io =
     wr_lookup (\<lambda>l. l\<lparr>lk_is_direct_mapped := False, lk_is_mode2 := False\<rparr>) (finish_lookup kIdle io)"

definition drop_prefetch_slot :: "u8 \<Rightarrow> llc_io \<Rightarrow> llc_io" where
  "drop_prefetch_slot slot io =
     (if unat slot < AXI_LLC_MAX_PREFETCH_QUEUE
      then wr (\<lambda>r. r\<lparr>prefetch_q := (prefetch_q r)[unat slot := prefetch_req_zero]\<rparr>) io else io)"

definition perf_count_read_access :: "nat \<Rightarrow> llc_perf \<Rightarrow> llc_perf" where
  "perf_count_read_access m p =
     (let p = p\<lparr>read_access := read_access p + 1\<rparr>
      in if m < NUM_READ_MASTERS
         then p\<lparr>read_access_by_master := upd m (\<lambda>n. n + 1) (read_access_by_master p)\<rparr> else p)"

definition perf_count_read_hit :: "nat \<Rightarrow> llc_perf \<Rightarrow> llc_perf" where
  "perf_count_read_hit m p =
     (let p = p\<lparr>read_hit := read_hit p + 1\<rparr>
      in if m < NUM_READ_MASTERS
         then p\<lparr>read_hit_by_master := upd m (\<lambda>n. n + 1) (read_hit_by_master p)\<rparr> else p)"

definition perf_count_read_miss :: "nat \<Rightarrow> llc_perf \<Rightarrow> llc_perf" where
  "perf_count_read_miss m p =
     (let p = p\<lparr>read_miss := read_miss p + 1\<rparr>
      in if m < NUM_READ_MASTERS
         then p\<lparr>read_miss_by_master := upd m (\<lambda>n. n + 1) (read_miss_by_master p)\<rparr> else p)"

section \<open>Direct-mapped lookups\<close>

definition complete_direct_write :: "kit_config \<Rightarrow> llc_config \<Rightarrow> llc_io \<Rightarrow> llc_io" where
  "complete_direct_write k c io =
     (let lk = lookup (regs io); m = unat (lk_master lk); ctx = write_ctxs (reg_write io) ! m;
          coords = direct_mapped_coords c (lk_addr lk)
      in if llc_table_write_busy (table_out io) then retry_lookup kLookup io
         else let line = (case coords of
                     Some (_, way) \<Rightarrow>
                       if decode_valid_bit (li_valid (lookup_in io)) (unat way) False
                       then extract_way_line_bytes c (li_data (lookup_in io)) (unat way)
                       else replicate (unat (lc_line_bytes c)) 0
                   | None \<Rightarrow> replicate (unat (lc_line_bytes c)) 0);
                  line = merge_write_into_line k c (lk_addr lk) line (wc_data ctx) (wc_strobe ctx)
                           (ucast (wc_total_size ctx));
                  io = (case coords of
                     Some (idx, way) \<Rightarrow> table_write_valid c idx (ucast way) True
                                          (table_write_data c idx (ucast way) line io)
                   | None \<Rightarrow> io)
              in wr_ctx m (\<lambda>x. x\<lparr>wc_cache_done := True\<rparr>) (finish_direct_lookup io))"

definition complete_direct_read :: "kit_config \<Rightarrow> llc_config \<Rightarrow> llc_io \<Rightarrow> llc_io" where
  "complete_direct_read k c io =
     (let lk = lookup (regs io);
          data = (case direct_mapped_coords c (lk_addr lk) of
             Some (_, way) \<Rightarrow>
               if decode_valid_bit (li_valid (lookup_in io)) (unat way) False
               then extract_line_response c (lk_addr lk)
                      (extract_way_line_bytes c (li_data (lookup_in io)) (unat way))
               else read_data_clear
           | None \<Rightarrow> read_data_clear)
      in case enqueue_read_response k (lk_master lk) (lk_id lk) data io of
           (ok, io) \<Rightarrow> if ok then finish_direct_lookup io else retry_lookup kLookup io)"

section \<open>Hits\<close>

text \<open>A write hit on the line a pending refill will replace refreshes the copy of the victim.\<close>

definition refresh_victim :: "kit_config \<Rightarrow> llc_config \<Rightarrow> u32 \<Rightarrow> nat \<Rightarrow> u32 \<Rightarrow> llc_bytes \<Rightarrow> nat \<Rightarrow> llc_io \<Rightarrow> llc_io" where
  "refresh_victim k c idx hit_way line_a line slot io =
     (let prev = mshr (regs io) ! slot in
      if \<not> ms_valid prev \<or> ms_bypass prev \<or> ms_is_write prev \<or> ms_refill_committed prev then io
      else if ms_set prev \<noteq> idx \<or> ms_way prev \<noteq> of_nat hit_way then io
      else if ms_line_addr prev = line_a then io
      else wr_mshr slot (\<lambda>e. e\<lparr>ms_victim_dirty := True, ms_victim_writeback_done := False,
             ms_victim_addr := line_a, ms_victim_data := line_bytes_to_write_words k line\<rparr>) io)"

definition complete_write_hit :: "kit_config \<Rightarrow> llc_config \<Rightarrow> nat \<Rightarrow> meta_entry \<Rightarrow> llc_io \<Rightarrow> llc_io" where
  "complete_write_hit k c hit_way hit_meta io =
     (let lk = lookup (regs io); m = unat (lk_master lk); ctx = write_ctxs (reg_write io) ! m;
          idx = set_index c (lk_addr lk); line_a = line_addr c (lk_addr lk); bypass = lk_is_bypass lk
      in if llc_table_write_busy (table_out io) then retry_lookup kLookup io
         else let line = merge_write_into_line k c (lk_addr lk)
                     (extract_way_line_bytes c (li_data (lookup_in io)) hit_way)
                     (wc_data ctx) (wc_strobe ctx) (ucast (wc_total_size ctx));
                  io = (if \<not> bypass
                        then fold (refresh_victim k c idx hit_way line_a line) [0..<mshr_limit k c] io
                        else io);
                  flags = AXI_LLC_META_VALID OR
                     (if bypass then me_flags hit_meta AND AXI_LLC_META_DIRTY else AXI_LLC_META_DIRTY);
                  io = table_write_data c idx (of_nat hit_way) line io;
                  io = table_write_meta idx (of_nat hit_way)
                         \<lparr>me_tag = tag_of c (lk_addr lk), me_flags = flags\<rparr> io;
                  io = table_write_valid c idx (of_nat hit_way) True io;
                  io = table_write_repl idx ((of_nat hit_way + 1) mod lc_ways c) io;
                  io = finish_lookup kIdle io;
                  io = wr (\<lambda>r. r\<lparr>dirty_line_count_r := update_dirty_line_count (dirty_line_count_r (regs io))
                         (me_flags hit_meta AND AXI_LLC_META_DIRTY \<noteq> 0) (flags AND AXI_LLC_META_DIRTY \<noteq> 0)\<rparr>) io
              in wr_ctx m (\<lambda>x. x\<lparr>wc_cache_done := True\<rparr>) io)"

definition complete_invalidate_hit :: "llc_config \<Rightarrow> nat \<Rightarrow> meta_entry \<Rightarrow> llc_io \<Rightarrow> llc_io" where
  "complete_invalidate_hit c hit_way hit_meta io =
     (if llc_table_write_busy (table_out io) then retry_lookup kLookup io
      else let io = table_write_valid c (set_index c (lk_addr (lookup (regs io)))) (of_nat hit_way) False io;
               io = finish_lookup kIdle io
           in wr (\<lambda>r. r\<lparr>dirty_line_count_r := update_dirty_line_count (dirty_line_count_r (regs io))
                   (me_flags hit_meta AND AXI_LLC_META_DIRTY \<noteq> 0) False\<rparr>) io)"

definition complete_prefetch_hit :: "llc_io \<Rightarrow> llc_io" where
  "complete_prefetch_hit io =
     wr_perf (\<lambda>p. p\<lparr>prefetch_drop_table_hit := prefetch_drop_table_hit p + 1\<rparr>)
       (finish_lookup kIdle (drop_prefetch_slot (lk_id (lookup (regs io))) io))"

definition complete_bypass_read_hit :: "kit_config \<Rightarrow> llc_config \<Rightarrow> nat \<Rightarrow> llc_io \<Rightarrow> llc_io" where
  "complete_bypass_read_hit k c hit_way io =
     (let lk = lookup (regs io);
          line = extract_way_line_bytes c (li_data (lookup_in io)) hit_way
      in case enqueue_read_response k (lk_master lk) (lk_id lk) (extract_line_response c (lk_addr lk) line) io of
           (ok, io) \<Rightarrow> if ok then finish_lookup kIdle io else retry_lookup kLookup io)"

definition complete_read_hit :: "kit_config \<Rightarrow> llc_config \<Rightarrow> nat \<Rightarrow> meta_entry \<Rightarrow> llc_io \<Rightarrow> llc_io" where
  "complete_read_hit k c hit_way hit_meta io =
     (let lk = lookup (regs io); idx = set_index c (lk_addr lk);
          line = extract_way_line_bytes c (li_data (lookup_in io)) hit_way
      in if llc_table_write_busy (table_out io) then retry_lookup kLookup io
         else case enqueue_read_response k (lk_master lk) (lk_id lk) (extract_line_response c (lk_addr lk) line) io of
           (ok, io) \<Rightarrow>
             if \<not> ok then retry_lookup kLookup io
             else let io = table_write_repl idx ((of_nat hit_way + 1) mod lc_ways c) io;
                      io = (if me_flags hit_meta AND AXI_LLC_META_PREFETCH \<noteq> 0
                            then wr_perf (\<lambda>p. p\<lparr>prefetch_hit := prefetch_hit p + 1\<rparr>)
                                   (table_write_meta idx (of_nat hit_way)
                                      (hit_meta\<lparr>me_flags := me_flags hit_meta AND NOT AXI_LLC_META_PREFETCH\<rparr>) io)
                            else io)
                  in wr_perf (perf_count_read_hit (unat (lk_master lk))) (finish_lookup kIdle io))"

section \<open>Misses\<close>

text \<open>The victim's fields of a new miss entry, from the tables' row.\<close>

definition victim_is_dirty :: "llc_lookup_in \<Rightarrow> nat \<Rightarrow> bool" where
  "victim_is_dirty t way \<longleftrightarrow>
     decode_valid_bit (li_valid t) way False \<and> me_flags (decode_meta (li_meta t) way) AND AXI_LLC_META_DIRTY \<noteq> 0"

definition with_victim :: "kit_config \<Rightarrow> llc_config \<Rightarrow> llc_lookup_in \<Rightarrow> u32 \<Rightarrow> nat \<Rightarrow> miss_entry \<Rightarrow> miss_entry" where
  "with_victim k c t idx way e =
     (let dirty = victim_is_dirty t way in
      e\<lparr>ms_victim_dirty := dirty, ms_victim_writeback_done := \<not> dirty,
        ms_victim_addr := if dirty then build_line_addr_from_tag_set c (me_tag (decode_meta (li_meta t) way)) idx else 0,
        ms_victim_data := if dirty then line_bytes_to_write_words k (extract_way_line_bytes c (li_data t) way)
                          else write_data_clear k\<rparr>)"

text \<open>A write of part of a line reads the line first; the write context waits for the refill.\<close>

definition alloc_write_miss ::
  "kit_config \<Rightarrow> llc_config \<Rightarrow> nat \<Rightarrow> llc_io \<Rightarrow> llc_io" where
  "alloc_write_miss k c way io =
     (let r = regs io; lk = lookup r; m = unat (lk_master lk); idx = set_index c (lk_addr lk);
          tag = tag_of c (lk_addr lk); line_a = line_addr c (lk_addr lk);
          ctx = write_ctxs (reg_write io) ! m
      in if find_mshr_by_line_addr k c r line_a \<noteq> None then retry_lookup kMiss io
         else case find_free_mshr k c r of
           None \<Rightarrow> retry_lookup kMiss io
         | Some slot \<Rightarrow>
             let io = wr_mshr slot (\<lambda>_. with_victim k c (lookup_in io) idx way
                        ((miss_entry_zero k)\<lparr>ms_valid := True, ms_is_write := True, ms_addr := lk_addr lk,
                           ms_line_addr := line_a, ms_set := idx, ms_tag := tag, ms_way := of_nat way,
                           ms_total_size := wc_total_size ctx, ms_master := lk_master lk, ms_id := lk_id lk,
                           ms_epoch := invalidate_epoch_r r\<rparr>)) io;
                 io = wr_ctx m (\<lambda>x. x\<lparr>wc_cache_pending := True, wc_set := idx, wc_way := of_nat way,
                        wc_repl_next_way := (of_nat way + 1) mod lc_ways c, wc_tag := tag\<rparr>) io
             in wr_perf (\<lambda>p. p\<lparr>mshr_alloc := mshr_alloc p + 1\<rparr>) (finish_lookup kMiss io))"

text \<open>A write of a whole line installs it, after the dirty victim is on its way to memory.\<close>

definition install_full_line :: "kit_config \<Rightarrow> llc_config \<Rightarrow> nat \<Rightarrow> llc_io \<Rightarrow> llc_io" where
  "install_full_line k c way io =
     (let r = regs io; lk = lookup r; m = unat (lk_master lk); idx = set_index c (lk_addr lk);
          tag = tag_of c (lk_addr lk); ctx = write_ctxs (reg_write io) ! m; t = lookup_in io;
          line = merge_write_into_line k c (lk_addr lk) (replicate (unat (lc_line_bytes c)) 0)
                   (wc_data ctx) (wc_strobe ctx) (ucast (wc_total_size ctx));
          next_way = (of_nat way + 1) mod lc_ways c;
          victim_a = build_line_addr_from_tag_set c (me_tag (decode_meta (li_meta t) way)) idx
      in if victim_is_dirty t way
         then if vb_valid (victim_wb (reg_write io)) then retry_lookup kLookup io
              else let io = wr_victim (\<lambda>_. \<lparr>vb_valid = True, vb_issued = False, vb_for_write = True,
                          vb_write_master = lk_master lk, vb_mshr_slot = 0, vb_addr = victim_a,
                          vb_issue_cycle = 0,
                          vb_data = line_bytes_to_write_words k (extract_way_line_bytes c (li_data t) way),
                          vb_strobe = full_line_strobe k c\<rparr>) io;
                       io = wr_ctx m (\<lambda>x. x\<lparr>wc_cache_pending := True, wc_victim_dirty := True,
                          wc_victim_addr := victim_a, wc_set := idx, wc_way := of_nat way,
                          wc_repl_next_way := next_way, wc_tag := tag,
                          wc_line := line_bytes_to_write_words k line\<rparr>) io
                   in finish_lookup kIdle io
         else if llc_table_write_busy (table_out io) then retry_lookup kLookup io
         else let io = table_write_data c idx (of_nat way) line io;
                  io = table_write_meta idx (of_nat way)
                         \<lparr>me_tag = tag, me_flags = AXI_LLC_META_VALID OR AXI_LLC_META_DIRTY\<rparr> io;
                  io = table_write_valid c idx (of_nat way) True io;
                  io = table_write_repl idx next_way io;
                  io = wr (\<lambda>w. w\<lparr>dirty_line_count_r := update_dirty_line_count (dirty_line_count_r r) False True\<rparr>) io;
                  io = wr_ctx m (\<lambda>x. x\<lparr>wc_cache_done := True\<rparr>) io
              in finish_lookup kIdle io)"

definition complete_write_miss :: "kit_config \<Rightarrow> llc_config \<Rightarrow> nat option \<Rightarrow> llc_io \<Rightarrow> llc_io" where
  "complete_write_miss k c first_invalid io =
     (let r = regs io; lk = lookup r; m = unat (lk_master lk); idx = set_index c (lk_addr lk);
          line_a = line_addr c (lk_addr lk); ctx = write_ctxs (reg_write io) ! m
      in if lk_is_bypass lk
         then wr_ctx m (\<lambda>x. x\<lparr>wc_cache_done := True\<rparr>) (finish_lookup kIdle io)
         else case pick_unreserved_way k c r idx first_invalid (decode_repl_way (li_repl (lookup_in io))) line_a of
           None \<Rightarrow> retry_lookup kMiss io
         | Some w \<Rightarrow>
             let way = unat (of_nat w :: u8) in
             if \<not> is_full_line_write k c (wc_addr ctx) (wc_strobe ctx) (ucast (wc_total_size ctx))
             then alloc_write_miss k c way io
             else install_full_line k c way io)"

text \<open>\<open>LLC_DCACHE_READ_MISS_NOALLOC\<close>: a data-cache read miss reads the whole line past the cache.\<close>

definition alloc_noalloc_read :: "kit_config \<Rightarrow> llc_config \<Rightarrow> nat \<Rightarrow> llc_io \<Rightarrow> llc_io" where
  "alloc_noalloc_read k c slot io =
     (let r = regs io; lk = lookup r;
          io = wr_mshr slot (\<lambda>_. (miss_entry_zero k)\<lparr>ms_valid := True, ms_bypass := True,
                 ms_addr := line_addr c (lk_addr lk), ms_line_addr := line_addr c (lk_addr lk),
                 ms_total_size := ucast (lc_line_bytes c - 1), ms_master := lk_master lk, ms_id := lk_id lk,
                 ms_epoch := invalidate_epoch_r r\<rparr>) io;
          io = finish_lookup kMiss io;
          io = wr_perf (perf_count_read_miss (unat (lk_master lk))) io
      in wr_perf (\<lambda>p. p\<lparr>mshr_alloc := mshr_alloc p + 1\<rparr>) io)"

definition alloc_read_miss :: "kit_config \<Rightarrow> llc_config \<Rightarrow> nat \<Rightarrow> nat \<Rightarrow> llc_io \<Rightarrow> llc_io" where
  "alloc_read_miss k c slot way io =
     (let r = regs io; lk = lookup r; idx = set_index c (lk_addr lk); pre = lk_is_prefetch lk;
          io = wr_mshr slot (\<lambda>_. with_victim k c (lookup_in io) idx way
                 ((miss_entry_zero k)\<lparr>ms_valid := True, ms_bypass := lk_is_bypass lk, ms_is_prefetch := pre,
                    ms_prefetch_train := \<not> pre, ms_mode2 := lk_is_mode2 lk, ms_addr := lk_addr lk,
                    ms_line_addr := if lk_is_bypass lk then lk_addr lk else line_addr c (lk_addr lk),
                    ms_set := idx, ms_tag := tag_of c (lk_addr lk), ms_way := of_nat way,
                    ms_total_size := lk_size lk, ms_master := lk_master lk,
                    ms_id := if pre then 0 else lk_id lk, ms_epoch := invalidate_epoch_r r\<rparr>)) io;
          io = finish_lookup kMiss io;
          io = (if pre
                then wr_perf (\<lambda>p. p\<lparr>prefetch_issue := prefetch_issue p + 1\<rparr>) (drop_prefetch_slot (lk_id lk) io)
                else wr_perf (perf_count_read_miss (unat (lk_master lk))) io)
      in wr_perf (\<lambda>p. p\<lparr>mshr_alloc := mshr_alloc p + 1\<rparr>) io)"

definition complete_read_miss :: "kit_config \<Rightarrow> llc_config \<Rightarrow> nat option \<Rightarrow> llc_io \<Rightarrow> llc_io" where
  "complete_read_miss k c first_invalid io =
     (let r = regs io; lk = lookup r; idx = set_index c (lk_addr lk); line_a = line_addr c (lk_addr lk);
          pre = lk_is_prefetch lk
      in if find_mshr_by_line_addr k c r line_a \<noteq> None
         then if pre
              then wr_perf (\<lambda>p. p\<lparr>prefetch_drop_inflight := prefetch_drop_inflight p + 1\<rparr>)
                     (finish_lookup kMiss (drop_prefetch_slot (lk_id lk) io))
              else wr_perf (\<lambda>p. p\<lparr>mshr_merge := mshr_merge p + 1\<rparr>) (retry_lookup kMiss io)
         else case find_free_mshr k c r of
           None \<Rightarrow>
             if pre
             then wr_perf (\<lambda>p. p\<lparr>prefetch_drop_mshr_full := prefetch_drop_mshr_full p + 1\<rparr>)
                    (finish_lookup kMiss (drop_prefetch_slot (lk_id lk) io))
             else retry_lookup kMiss io
         | Some slot \<Rightarrow>
             if pre \<and> \<not> can_allocate_prefetch_mshr k c r
             then wr_perf (\<lambda>p. p\<lparr>prefetch_drop_mshr_full := prefetch_drop_mshr_full p + 1\<rparr>)
                    (finish_lookup kMiss (drop_prefetch_slot (lk_id lk) io))
             else if LLC_DCACHE_READ_MISS_NOALLOC k \<and> \<not> pre \<and> \<not> lk_is_bypass lk \<and> lk_master lk = MASTER_DCACHE_R
             then alloc_noalloc_read k c slot io
             else case pick_unreserved_way k c r idx first_invalid (decode_repl_way (li_repl (lookup_in io))) line_a of
               None \<Rightarrow> retry_lookup kMiss io
             | Some w \<Rightarrow> alloc_read_miss k c slot (unat (of_nat w :: u8)) io)"

section \<open>Completing a lookup\<close>

definition lookup_ready :: "llc_config \<Rightarrow> llc_io \<Rightarrow> bool" where
  "lookup_ready c io \<longleftrightarrow>
     (let t = lookup_in io; lk = lookup (regs io) in
      lk_valid lk \<and> lk_issued lk \<and> li_data_valid t \<and> li_meta_valid t \<and>
      (li_valid_valid t \<and> length (li_valid t) \<ge> unat (valid_row_bytes c)) \<and> li_repl_valid t)"

definition try_complete_lookup :: "kit_config \<Rightarrow> llc_config \<Rightarrow> llc_io \<Rightarrow> llc_io" where
  "try_complete_lookup k c io =
     (let lk = lookup (regs io); t = lookup_in io in
      if \<not> lookup_ready c io then io
      else if lk_is_direct_mapped lk
      then if lk_is_write lk then complete_direct_write k c io else complete_direct_read k c io
      else case line_has_valid_meta c (li_valid t) (li_meta t) (tag_of c (lk_addr lk)) of
        (Some hit_way, _, hit_meta) \<Rightarrow>
          if lk_is_write lk then complete_write_hit k c hit_way hit_meta io
          else if lk_is_invalidate lk then complete_invalidate_hit c hit_way hit_meta io
          else if lk_is_prefetch lk then complete_prefetch_hit io
          else if lk_is_bypass lk then complete_bypass_read_hit k c hit_way io
          else complete_read_hit k c hit_way hit_meta io
      | (None, first_invalid, _) \<Rightarrow>
          if lk_is_write lk then complete_write_miss k c first_invalid io
          else if lk_is_invalidate lk then finish_lookup kIdle io
          else complete_read_miss k c first_invalid io)"

end
