(* ===== verification/LLC_Mem.thy ===== *)
theory LLC_Mem
  imports LLC_Lookup
begin

text \<open>
  The memory side of \<^verbatim>\<open>AXI_LLC\<close>: \<^verbatim>\<open>drive_mem_read_path\<close> in its three parts (the memory's
  response, the next request, the commit of a refill) and \<^verbatim>\<open>try_schedule_prefetch\<close>. The macros
  \<^verbatim>\<open>CONFIG_AXI_LLC_BYPASS_DIRECT_RESP\<close> and \<^verbatim>\<open>CONFIG_AXI_LLC_BYPASS_DIRECT_ISSUE\<close> have their
  default 1.
\<close>

section \<open>Prefetch\<close>

text \<open>The loop over the degree: skips a line in flight, stops at a full queue.\<close>

fun schedule_lines :: "kit_config \<Rightarrow> llc_config \<Rightarrow> u32 \<Rightarrow> nat list \<Rightarrow> llc_io \<Rightarrow> llc_io" where
  "schedule_lines k c line [] io = io"
| "schedule_lines k c line (d # ds) io =
     (let next = line + of_nat d * lc_line_bytes c in
      if prefetch_candidate_exists k c (reg_write io) next
      then schedule_lines k c line ds
             (wr_perf (\<lambda>p. p\<lparr>prefetch_drop_inflight := prefetch_drop_inflight p + 1\<rparr>) io)
      else case find_free_prefetch_queue_slot (reg_write io) of
             None \<Rightarrow> wr_perf (\<lambda>p. p\<lparr>prefetch_drop_queue_full := prefetch_drop_queue_full p + 1\<rparr>) io
           | Some slot \<Rightarrow> schedule_lines k c line ds
               (wr (\<lambda>r. r\<lparr>prefetch_q := (prefetch_q r)[slot := \<lparr>pf_valid = True, pf_line_addr = next\<rparr>]\<rparr>) io))"

definition note_miss_line :: "u32 \<Rightarrow> llc_io \<Rightarrow> llc_io" where
  "note_miss_line line = wr (\<lambda>r. r\<lparr>prefetch_stream_valid_r := True, prefetch_last_miss_line_r := line\<rparr>)"

definition try_schedule_prefetch :: "kit_config \<Rightarrow> llc_config \<Rightarrow> miss_entry \<Rightarrow> llc_io \<Rightarrow> llc_io" where
  "try_schedule_prefetch k c e io =
     (if \<not> lc_prefetch_enable c \<or> ms_bypass e \<or> ms_is_prefetch e \<or> \<not> ms_prefetch_train e \<or> lc_line_bytes c = 0
      then if \<not> ms_bypass e \<and> \<not> ms_is_prefetch e then note_miss_line (ms_line_addr e) io else io
      else if \<not> prefetch_stream_valid_r (regs io) \<or>
              prefetch_last_miss_line_r (regs io) + lc_line_bytes c \<noteq> ms_line_addr e
      then note_miss_line (ms_line_addr e) io
      else note_miss_line (ms_line_addr e)
             (schedule_lines k c (ms_line_addr e) [1..<Suc (unat (max 1 (lc_prefetch_degree c)))] io))"

section \<open>Responses and requests\<close>

definition idle_state :: "llc_io \<Rightarrow> llc_state" where
  "idle_state io = (if lk_valid (lookup (regs io)) then kLookup else kIdle)"

definition count_ddr_read :: "u64 \<Rightarrow> llc_io \<Rightarrow> llc_io" where
  "count_ddr_read issue_cycle io =
     (if issue_cycle \<noteq> 0
      then wr_perf (\<lambda>p. p\<lparr>ddr_read_total_cycles := ddr_read_total_cycles p + (sim_time io - issue_cycle),
             ddr_read_samples := ddr_read_samples p + 1\<rparr>) io
      else io)"

text \<open>A response that is not handed on at once is kept in its entry.\<close>

definition store_refill :: "wide_data \<Rightarrow> nat \<Rightarrow> llc_io \<Rightarrow> llc_io" where
  "store_refill data slot io =
     (let bypass = ms_bypass (mshr (reg_write io) ! slot);
          io = wr_mshr slot (\<lambda>e. e\<lparr>ms_refill_valid := True, ms_refill_data := data,
                 ms_refill_committed := bypass\<rparr>) io;
          io = wr_state kRefill io
      in if \<not> bypass then wr_perf (\<lambda>p. p\<lparr>refill := refill p + 1\<rparr>) io else io)"

definition mem_read_response :: "kit_config \<Rightarrow> llc_config \<Rightarrow> llc_io \<Rightarrow> llc_io" where
  "mem_read_response k c io =
     (let x = in_mem (ext_in io);
          io = drive_mem (\<lambda>m. m\<lparr>mo_read_resp_ready := True\<rparr>) io
      in if \<not> mi_read_resp_valid x then io
         else case find_mshr_by_mem_id k c (regs io) (mi_read_resp_id x) of
           None \<Rightarrow> io
         | Some slot \<Rightarrow>
             let prev = mshr (regs io) ! slot;
                 io = count_ddr_read (ms_mem_issue_cycle prev) io;
                 res = (if ms_bypass prev
                        then enqueue_read_response k (ms_master prev) (ms_id prev) (mi_read_resp_data x) io
                        else (False, io))
             in if fst res then wr_state (idle_state (snd res)) (wr_mshr slot (\<lambda>_. miss_entry_zero k) (snd res))
                else store_refill (mi_read_resp_data x) slot (snd res))"

definition pick_direct_issue :: "kit_config \<Rightarrow> llc_config \<Rightarrow> llc_io \<Rightarrow> nat option" where
  "pick_direct_issue k c io =
     first_below (mshr_limit k c) (\<lambda>i. let e = mshr (reg_write io) ! i in
       \<not> (\<not> ms_valid e \<or> \<not> ms_bypass e \<or> ms_mem_req_issued e \<or> ms_refill_valid e) \<and>
       \<not> (i < MAX_OUTSTANDING k \<and> ms_valid (mshr (regs io) ! i)))"

definition issue_read_entry :: "llc_config \<Rightarrow> nat \<Rightarrow> miss_entry \<Rightarrow> llc_io \<Rightarrow> llc_io" where
  "issue_read_entry c slot e io =
     (let io = drive_mem (\<lambda>m. m\<lparr>mo_read_req_valid := True, mo_read_req_addr := ms_line_addr e,
                 mo_read_req_size := if ms_bypass e then ms_total_size e else ucast (lc_line_bytes c - 1),
                 mo_read_req_mode2 := ms_bypass e \<and> ms_mode2 e, mo_read_req_id := of_nat slot\<rparr>) io
      in if mi_read_req_ready (in_mem (ext_in io))
         then wr_mshr slot (\<lambda>e. e\<lparr>ms_mem_req_issued := True, ms_mem_issue_cycle := sim_time io\<rparr>) io
         else wr_perf (\<lambda>p. p\<lparr>mem_read_block_cycles := mem_read_block_cycles p + 1\<rparr>) io)"

definition issue_mem_read :: "kit_config \<Rightarrow> llc_config \<Rightarrow> llc_io \<Rightarrow> llc_io" where
  "issue_mem_read k c io =
     (case pick_mem_issue_slot k c (regs io) of
        Some slot \<Rightarrow> issue_read_entry c slot (mshr (regs io) ! slot) io
      | None \<Rightarrow>
          (case pick_direct_issue k c io of
             Some slot \<Rightarrow> issue_read_entry c slot (mshr (reg_write io) ! slot) io
           | None \<Rightarrow> io))"

section \<open>Commit of a refill\<close>

text \<open>The dirty victim must be in the writeback slot or its queue before its way is overwritten.\<close>

definition ensure_read_victim_snapshot_externalized ::
  "kit_config \<Rightarrow> llc_config \<Rightarrow> nat \<Rightarrow> llc_io \<Rightarrow> bool \<times> llc_io" where
  "ensure_read_victim_snapshot_externalized k c slot io =
     (let e = mshr (reg_write io) ! slot; vb = victim_wb (reg_write io) in
      if \<not> ms_victim_dirty e \<or> ms_victim_writeback_done e then (True, io)
      else if victim_snapshot_waits_for_write_resolution c (regs io) (ms_victim_addr e) then (False, io)
      else if (vb_valid vb \<and> \<not> vb_for_write vb \<and> vb_addr vb = ms_victim_addr e \<and> vb_mshr_slot vb = of_nat slot) \<or>
              read_victim_snapshot_present k (reg_write io) (ms_victim_addr e)
      then (True, io)
      else if \<not> vb_valid vb
      then (True, wr_victim (\<lambda>_. \<lparr>vb_valid = True, vb_issued = False, vb_for_write = False,
              vb_write_master = 0, vb_mshr_slot = of_nat slot, vb_addr = ms_victim_addr e,
              vb_issue_cycle = 0, vb_data = ms_victim_data e, vb_strobe = full_line_strobe k c\<rparr>) io)
      else enqueue_read_victim_snapshot k (of_nat slot) (ms_victim_addr e) (ms_victim_data e)
             (full_line_strobe k c) io)"

definition detach_victim_owner :: "nat \<Rightarrow> llc_io \<Rightarrow> llc_io" where
  "detach_victim_owner slot io =
     (let vb = victim_wb (reg_write io) in
      if vb_valid vb \<and> \<not> vb_for_write vb \<and> vb_mshr_slot vb = of_nat slot
      then wr_victim (\<lambda>v. v\<lparr>vb_mshr_slot := AXI_LLC_INVALID_VICTIM_MSHR_SLOT\<rparr>) io else io)"

definition release_mshr :: "kit_config \<Rightarrow> nat \<Rightarrow> llc_io \<Rightarrow> llc_io" where
  "release_mshr k slot io = wr_state (idle_state io) (wr_mshr slot (\<lambda>_. miss_entry_zero k) io)"

definition refill_response :: "llc_config \<Rightarrow> miss_entry \<Rightarrow> wide_data" where
  "refill_response c e =
     (if ms_bypass e then ms_refill_data e
      else extract_line_response c (ms_addr e) (wide_to_line_bytes c (ms_refill_data e)))"

text \<open>A refill of an older epoch answers its master but is not installed.\<close>

definition drop_stale_refill :: "kit_config \<Rightarrow> llc_config \<Rightarrow> nat \<Rightarrow> llc_io \<Rightarrow> llc_io" where
  "drop_stale_refill k c slot io =
     (case ensure_read_victim_snapshot_externalized k c slot io of
        (ok, io) \<Rightarrow>
          let e = mshr (reg_write io) ! slot in
          if \<not> ok then io
          else if ms_is_prefetch e then release_mshr k slot io
          else case enqueue_read_response k (ms_master e) (ms_id e) (refill_response c e) io of
                 (sent, io) \<Rightarrow> if sent then release_mshr k slot (detach_victim_owner slot io) else io)"

text \<open>The four table writes of a refill, with a pending write merged into the line.\<close>

definition write_refill :: "kit_config \<Rightarrow> llc_config \<Rightarrow> miss_entry \<Rightarrow> llc_io \<Rightarrow> llc_io" where
  "write_refill k c e io =
     (let ctx = write_ctxs (reg_write io) ! unat (ms_master e); way = ucast (ms_way e);
          line = wide_to_line_bytes c (ms_refill_data e);
          line = (if ms_is_write e
                  then merge_write_into_line k c (ms_addr e) line (wc_data ctx) (wc_strobe ctx)
                         (ucast (wc_total_size ctx))
                  else line);
          flags = (if ms_is_write e then AXI_LLC_META_VALID OR AXI_LLC_META_DIRTY
                   else AXI_LLC_META_VALID OR (if ms_is_prefetch e then AXI_LLC_META_PREFETCH else 0));
          io = table_write_data c (ms_set e) way line io;
          io = table_write_meta (ms_set e) way \<lparr>me_tag = ms_tag e, me_flags = flags\<rparr> io;
          io = table_write_valid c (ms_set e) way True io;
          io = table_write_repl (ms_set e) ((way + 1) mod lc_ways c) io
      in wr (\<lambda>r. r\<lparr>dirty_line_count_r := update_dirty_line_count (dirty_line_count_r (regs io))
           (ms_victim_dirty e) (ms_is_write e)\<rparr>) io)"

definition install_refill :: "kit_config \<Rightarrow> llc_config \<Rightarrow> nat \<Rightarrow> llc_io \<Rightarrow> llc_io" where
  "install_refill k c slot io =
     (case ensure_read_victim_snapshot_externalized k c slot io of
        (ok, io) \<Rightarrow>
          if \<not> ok then io
          else if llc_table_write_busy (table_out io) then wr_state kRefill io
          else let e = mshr (reg_write io) ! slot; io = write_refill k c e io
               in if ms_is_write e
                  then release_mshr k slot (wr_ctx (unat (ms_master e))
                         (\<lambda>x. x\<lparr>wc_cache_done := True, wc_cache_pending := False\<rparr>) io)
                  else wr_mshr slot (\<lambda>e. e\<lparr>ms_refill_committed := True\<rparr>) io)"

definition answer_refill :: "kit_config \<Rightarrow> llc_config \<Rightarrow> nat \<Rightarrow> llc_io \<Rightarrow> llc_io" where
  "answer_refill k c slot io =
     (let e = mshr (reg_write io) ! slot in
      if ms_is_prefetch e then release_mshr k slot (detach_victim_owner slot io)
      else case enqueue_read_response k (ms_master e) (ms_id e) (refill_response c e) io of
             (sent, io) \<Rightarrow>
               if sent then release_mshr k slot (detach_victim_owner slot (try_schedule_prefetch k c e io))
               else io)"

definition commit_refill :: "kit_config \<Rightarrow> llc_config \<Rightarrow> llc_io \<Rightarrow> llc_io" where
  "commit_refill k c io =
     (case pick_refill_commit_slot k c (regs io) of
        None \<Rightarrow> io
      | Some slot \<Rightarrow>
          let e = mshr (reg_write io) ! slot;
              stale_refill_epoch = (ms_epoch e \<noteq> invalidate_epoch_r (regs io))
          in if ms_refill_valid e \<and> stale_refill_epoch \<and> \<not> ms_is_write e then drop_stale_refill k c slot io
             else if \<not> ms_refill_committed e \<and> \<not> ms_bypass e then install_refill k c slot io
             else answer_refill k c slot io)"

definition drive_mem_read_path :: "kit_config \<Rightarrow> llc_config \<Rightarrow> llc_io \<Rightarrow> llc_io" where
  "drive_mem_read_path k c io = commit_refill k c (issue_mem_read k c (mem_read_response k c io))"

end
