(* ===== verification/LLC_Comb.thy ===== *)
theory LLC_Comb
  imports LLC_Mem
begin

text \<open>
  The acceptance of requests and \<^verbatim>\<open>AXI_LLC::comb()\<close> and \<^verbatim>\<open>seq()\<close> themselves. \<open>llc_cycle\<close> is one
  clock cycle under the wires \<open>i\<close> of the masters, the memory and the tables; a cycle that calls
  \<^verbatim>\<open>abort\<close> is marked by \<open>aborted\<close>.
\<close>

section \<open>Acceptance\<close>

definition launch_lookup :: "llc_lookup \<Rightarrow> llc_io \<Rightarrow> llc_io" where
  "launch_lookup l io = wr_state kLookup (wr_lookup (\<lambda>_. l) io)"

definition accept_maintenance_request :: "kit_config \<Rightarrow> llc_config \<Rightarrow> llc_io \<Rightarrow> llc_io" where
  "accept_maintenance_request k c io =
     (let x = in_mem (ext_in io);
          io = drive_mem (\<lambda>m. m\<lparr>invalidate_line_accepted := False\<rparr>) io
      in if \<not> invalidate_line_valid x \<or> invalidate_all x then io
         else if \<not> can_accept_invalidate_line_now k c (ext_in io) (regs io) (line_addr c (invalidate_line_addr x)) then io
         else if lk_valid (lookup (reg_write io)) then io
         else drive_mem (\<lambda>m. m\<lparr>invalidate_line_accepted := True\<rparr>)
                (launch_lookup \<lparr>lk_valid = True, lk_issued = False, lk_addr = invalidate_line_addr x, lk_size = 0,
                   lk_master = 0, lk_id = 0, lk_is_prefetch = False, lk_is_invalidate = True,
                   lk_is_write = False, lk_is_bypass = False, lk_is_direct_mapped = False,
                   lk_is_mode2 = False\<rparr> io))"

definition try_launch_prefetch_lookup :: "kit_config \<Rightarrow> llc_config \<Rightarrow> llc_io \<Rightarrow> llc_io" where
  "try_launch_prefetch_lookup k c io =
     (let r = reg_write io in
      if lk_valid (lookup r) \<or> \<not> prefetch_allow (in_mem (ext_in io)) \<or> has_demand_mshr k c r \<or>
         count_free_mshrs k c r \<noteq> mshr_limit k c \<or> prefetch_quiet_cycles_r r = 0 then io
      else case pick_prefetch_queue_slot r of
             None \<Rightarrow> io
           | Some slot \<Rightarrow> launch_lookup \<lparr>lk_valid = True, lk_issued = False,
               lk_addr = pf_line_addr (prefetch_q r ! slot), lk_size = ucast (lc_line_bytes c - 1),
               lk_master = of_nat NUM_READ_MASTERS, lk_id = of_nat slot, lk_is_prefetch = True,
               lk_is_invalidate = False, lk_is_write = False, lk_is_bypass = False,
               lk_is_direct_mapped = False, lk_is_mode2 = False\<rparr> io)"

definition accept_read :: "nat \<Rightarrow> llc_read_req \<Rightarrow> llc_io \<Rightarrow> llc_io" where
  "accept_read m req io =
     (let io = io\<lparr>ext_out := (ext_out io)\<lparr>out_read_req_ready := (out_read_req_ready (ext_out io))[m := True]\<rparr>\<rparr>;
          io = wr (\<lambda>r. r\<lparr>rr_read_master_r := of_nat ((m + 1) mod NUM_READ_MASTERS)\<rparr>) io;
          io = (if rq_bypass req then wr_perf (\<lambda>p. p\<lparr>bypass_read := bypass_read p + 1\<rparr>) io
                else if \<not> rq_direct_mapped req then wr_perf (perf_count_read_access m) io
                else io);
          io = wr (\<lambda>r. r\<lparr>prefetch_q := map (\<lambda>_. prefetch_req_zero) (prefetch_q r)\<rparr>) io
      in launch_lookup \<lparr>lk_valid = True, lk_issued = False, lk_addr = rq_addr req,
           lk_size = rq_total_size req, lk_master = of_nat m, lk_id = rq_id req, lk_is_prefetch = False,
           lk_is_invalidate = False, lk_is_write = False, lk_is_bypass = rq_bypass req,
           lk_is_direct_mapped = rq_direct_mapped req, lk_is_mode2 = rq_mode2 req\<rparr> io)"

definition accept_new_requests :: "kit_config \<Rightarrow> llc_config \<Rightarrow> llc_io \<Rightarrow> llc_io" where
  "accept_new_requests k c io =
     (let r = reg_write io in
      case pick_new_read_master k c (ext_in io) (regs io) r of
        None \<Rightarrow> io
      | Some m \<Rightarrow>
          let req = in_read_req (ext_in io) ! m; line = line_addr c (rq_addr req) in
          if \<not> rq_valid req then io
          else if rp_valid (read_ports (regs io) ! m) then io
          else if has_pending_upstream_write_line c (ext_in io) line then io
          else if write_line_pending k c r line then io
          else if victim_line_pending k c r line then io
          else if \<not> rq_direct_mapped req \<and> find_mshr_by_line_addr k c r line \<noteq> None then io
          else accept_read m req io)"

section \<open>The combinational phase\<close>

text \<open>\<^verbatim>\<open>comb()\<close> clears the outputs first, so \<^verbatim>\<open>comb_disabled\<close> leaves them at their zero values.\<close>

definition comb_disabled :: "kit_config \<Rightarrow> llc_io \<Rightarrow> llc_io" where
  "comb_disabled k io =
     (let x = ext_out io in
      io\<lparr>ext_out := \<lparr>
        out_read_req_ready = map (\<lambda>_. False) (out_read_req_ready x),
        out_read_resp = map (\<lambda>_. \<lparr>rs_valid = False, rs_data = read_data_clear, rs_id = 0\<rparr>) (out_read_resp x),
        out_write_req_ready = map (\<lambda>_. False) (out_write_req_ready x),
        out_write_resp = map (\<lambda>_. \<lparr>ws_valid = False, ws_id = 0, ws_resp = 0\<rparr>) (out_write_resp x),
        out_mem = llc_mem_out_zero k\<rparr>\<rparr>)"

definition quiet_cycle :: "kit_config \<Rightarrow> llc_config \<Rightarrow> llc_io \<Rightarrow> bool" where
  "quiet_cycle k c io \<longleftrightarrow>
     prefetch_allow (in_mem (ext_in io)) \<and> \<not> lk_valid (lookup (regs io)) \<and>
     count_free_mshrs k c (regs io) = mshr_limit k c \<and> \<not> has_demand_mshr k c (regs io) \<and>
     \<not> list_ex (\<lambda>m. rp_valid (read_ports (regs io) ! m) \<or> rp_count (read_ports (regs io) ! m) \<noteq> 0)
         [0..<NUM_READ_MASTERS]"

definition count_cycle :: "kit_config \<Rightarrow> llc_config \<Rightarrow> llc_io \<Rightarrow> llc_perf \<Rightarrow> llc_perf" where
  "count_cycle k c io p =
     (let r = regs io;
          p = (if lk_valid (lookup r) then p\<lparr>lookup_active_cycles := lookup_active_cycles p + 1\<rparr> else p);
          p = fold (\<lambda>m p.
                let q = read_ports r ! m;
                    p = (if rp_valid q \<and> \<not> rp_fresh q \<and> \<not> in_read_resp_ready (ext_in io) ! m
                         then p\<lparr>read_resp_block_cycles := read_resp_block_cycles p + 1\<rparr> else p)
                in if rp_count q \<noteq> 0 then p\<lparr>read_resp_pending_cycles := read_resp_pending_cycles p + 1\<rparr> else p)
              [0..<NUM_READ_MASTERS] p;
          p = fold (\<lambda>i p.
                let e = mshr r ! i in
                if \<not> ms_valid e then p
                else let p = (if \<not> ms_bypass e \<and> ms_mem_req_issued e \<and> \<not> ms_refill_valid e
                              then p\<lparr>mem_read_wait_cycles := mem_read_wait_cycles p + 1\<rparr> else p)
                     in if ms_victim_dirty e \<and> \<not> ms_victim_writeback_done e
                        then p\<lparr>victim_writeback_wait_cycles := victim_writeback_wait_cycles p + 1\<rparr> else p)
              [0..<mshr_limit k c] p
      in fold (\<lambda>m p.
           let ctx = write_ctxs r ! m in
           if \<not> wc_valid ctx then p
           else let p = (if wc_lookup_pending ctx
                         then p\<lparr>write_lookup_wait_cycles := write_lookup_wait_cycles p + 1\<rparr> else p)
                in if wc_victim_dirty ctx \<and> \<not> wc_victim_mem_done ctx
                   then p\<lparr>write_victim_wait_cycles := write_victim_wait_cycles p + 1\<rparr> else p)
           [0..<NUM_WRITE_MASTERS] p)"

definition accept_invalidate_all :: "kit_config \<Rightarrow> llc_config \<Rightarrow> llc_io \<Rightarrow> llc_io" where
  "accept_invalidate_all k c io =
     (let t = table_out io; m = out_mem (ext_out io) in
      if invalidate_all (in_mem (ext_in io)) \<and> can_accept_invalidate_all_now k c (reg_write io) \<and>
         \<not> tr_enable (to_data t) \<and> \<not> tr_enable (to_meta t) \<and> \<not> tr_enable (to_repl t) \<and>
         \<not> mo_read_req_valid m \<and> \<not> mo_write_req_valid m
      then let io = drive_mem (\<lambda>m. m\<lparr>invalidate_all_accepted := True\<rparr>) io;
               io = drive_table (\<lambda>t. t\<lparr>to_invalidate_all := True\<rparr>) io;
               io = wr (\<lambda>r. r\<lparr>invalidate_epoch_r := invalidate_epoch_r (regs io) + 1, dirty_line_count_r := 0\<rparr>) io
           in if lk_valid (lookup (regs io))
              then wr_state kLookup (wr_lookup (\<lambda>l. l\<lparr>lk_issued := False\<rparr>) io)
              else io
      else io)"

text \<open>The state after the defaults at the head of \<^verbatim>\<open>comb()\<close>.\<close>

definition comb_begin :: "kit_config \<Rightarrow> llc_config \<Rightarrow> llc_io \<Rightarrow> llc_io" where
  "comb_begin k c io =
     (let io = io\<lparr>ext_out := llc_ext_out_zero k, table_out := llc_table_out_zero, reg_write := regs io\<rparr>;
          io = wr (\<lambda>r. r\<lparr>enable_r := True,
                 llc_st := if llc_st (regs io) = kDisabled then kIdle else llc_st r,
                 prefetch_quiet_cycles_r :=
                   if quiet_cycle k c io
                   then (ucast (min (ucast (prefetch_quiet_cycles_r (regs io)) + 1) (0xFF :: u32)) :: u8) else 0\<rparr>) io
      in wr_perf (count_cycle k c io) io)"

definition llc_comb :: "kit_config \<Rightarrow> llc_config \<Rightarrow> llc_io \<Rightarrow> llc_io" where
  "llc_comb k c io =
     (if \<not> lc_enable c \<or> \<not> lc_valid c
      then wr (\<lambda>r. r\<lparr>enable_r := False, llc_st := kDisabled\<rparr>)
             (comb_disabled k (io\<lparr>ext_out := llc_ext_out_zero k, table_out := llc_table_out_zero,
                reg_write := regs io\<rparr>))
      else let io = comb_begin k c io;
               io = drive_read_responses k io;
               io = drive_write_path k c io;
               io = try_complete_lookup k c io;
               io = drive_mem_read_path k c io;
               io = try_launch_pending_write_lookup io;
               io = accept_new_requests k c io;
               io = (if \<not> invalidate_all (in_mem (ext_in io))
                     then try_launch_prefetch_lookup k c (accept_maintenance_request k c io) else io);
               io = drive_lookup_request k c io
           in accept_invalidate_all k c io)"

section \<open>Clock cycles\<close>

definition llc_seq :: "llc_io \<Rightarrow> llc_io" where
  "llc_seq io = io\<lparr>regs := reg_write io\<rparr>"

definition llc_configured :: "llc_config \<Rightarrow> llc_regs \<Rightarrow> llc_regs" where
  "llc_configured c r = r\<lparr>enable_r := lc_enable c, llc_st := if lc_enable c then kIdle else kDisabled\<rparr>"

text \<open>\<^verbatim>\<open>reset()\<close> clears the whole interface.\<close>

definition llc_reset :: "kit_config \<Rightarrow> llc_config \<Rightarrow> llc_io" where
  "llc_reset k c = \<lparr>ext_in = llc_ext_in_zero k, regs = llc_configured c (llc_regs_zero k),
     lookup_in = llc_lookup_in_zero, ext_out = llc_ext_out_zero k, reg_write = llc_regs_zero k,
     table_out = llc_table_out_zero, sim_time = 0, aborted = False\<rparr>"

text \<open>What drives one cycle: the upstream and memory wires, the tables' rows, the cycle counter.\<close>

record llc_input =
  drv_ext :: llc_ext_in
  drv_rows :: llc_lookup_in
  drv_time :: u64

definition llc_drive :: "llc_input \<Rightarrow> llc_io \<Rightarrow> llc_io" where
  "llc_drive i io = io\<lparr>ext_in := drv_ext i, lookup_in := drv_rows i, sim_time := drv_time i\<rparr>"

definition llc_cycle :: "kit_config \<Rightarrow> llc_config \<Rightarrow> llc_input \<Rightarrow> llc_io \<Rightarrow> llc_io" where
  "llc_cycle k c i io = llc_seq (llc_comb k c (llc_drive i io))"

end
