(* ===== verification/LLC_Tables.thy ===== *)
theory LLC_Tables
  imports LLC_Comb
begin

text \<open>
  The tables the cache is wired to: \<^verbatim>\<open>FakeLlcTables\<close> of \<^verbatim>\<open>axi_interconnect/axi_test_axi4_llc_env.h\<close>,
  one row per set for data, metadata, valid bytes and replacement state. A read asked for in one
  cycle is answered in the next; a write takes the place of a read of the same table.
\<close>

record llc_tables =
  tb_data :: "llc_bytes list"
  tb_meta :: "llc_bytes list"
  tb_valid :: "llc_bytes list"
  tb_repl :: "llc_bytes list"
  pending_data :: "u32 option"
  pending_meta :: "u32 option"
  pending_valid :: "u32 option"
  pending_repl :: "u32 option"

definition tables_init :: "llc_config \<Rightarrow> llc_tables" where
  "tables_init c =
     (let sets = unat (lc_set_count c); ways = unat (lc_ways c) in
      \<lparr>tb_data = replicate sets (replicate (ways * unat (lc_line_bytes c)) 0),
       tb_meta = replicate sets (replicate (ways * AXI_LLC_META_ENTRY_BYTES) 0),
       tb_valid = replicate sets (replicate (unat (valid_row_bytes c)) 0),
       tb_repl = replicate sets (replicate AXI_LLC_REPL_BYTES 0),
       pending_data = None, pending_meta = None, pending_valid = None, pending_repl = None\<rparr>)"

definition pending_row :: "u32 option \<Rightarrow> llc_bytes list \<Rightarrow> bool \<times> llc_bytes" where
  "pending_row p rows =
     (case p of None \<Rightarrow> (False, [])
      | Some i \<Rightarrow> if unat i < length rows then (True, rows ! unat i) else (False, []))"

definition tables_comb_outputs :: "llc_tables \<Rightarrow> llc_lookup_in" where
  "tables_comb_outputs t =
     (let d = pending_row (pending_data t) (tb_data t); m = pending_row (pending_meta t) (tb_meta t);
          v = pending_row (pending_valid t) (tb_valid t); r = pending_row (pending_repl t) (tb_repl t)
      in \<lparr>li_data_valid = fst d, li_meta_valid = fst m, li_valid_valid = fst v, li_repl_valid = fst r,
          li_data = snd d, li_meta = snd m, li_valid = snd v, li_repl = snd r\<rparr>)"

text \<open>The loop body shared by the two payload writers: byte \<open>i\<close> of the payload goes to \<open>base + i\<close>
  unless its enable is 0.\<close>

definition write_byte_if_enabled :: "nat \<Rightarrow> llc_bytes \<Rightarrow> u8 list \<Rightarrow> nat \<Rightarrow> llc_bytes \<Rightarrow> llc_bytes" where
  "write_byte_if_enabled base payload byte_enable i dst =
     (if byte_enable \<noteq> [] \<and> i < length byte_enable \<and> byte_enable ! i = 0 then dst
      else dst[base + i := payload ! i])"

definition write_way_payload :: "nat \<Rightarrow> nat \<Rightarrow> llc_bytes \<Rightarrow> u8 list \<Rightarrow> llc_bytes \<Rightarrow> llc_bytes" where
  "write_way_payload way bytes_per_way payload byte_enable set_payload =
     (let base = way * bytes_per_way
      in fold (write_byte_if_enabled base payload byte_enable)
           [0..<min bytes_per_way (min (length set_payload - base) (length payload))] set_payload)"

definition write_plain_payload :: "llc_bytes \<Rightarrow> u8 list \<Rightarrow> llc_bytes \<Rightarrow> llc_bytes" where
  "write_plain_payload payload byte_enable dst =
     fold (write_byte_if_enabled 0 payload byte_enable) [0..<min (length dst) (length payload)] dst"

text \<open>One table in a clock edge: a write, a read to answer next cycle, or nothing.\<close>

definition table_seq :: "(llc_bytes \<Rightarrow> llc_bytes) \<Rightarrow> llc_table_req \<Rightarrow> llc_bytes list \<Rightarrow> llc_bytes list \<times> u32 option" where
  "table_seq write q rows =
     (if tr_write q \<and> unat (tr_index q) < length rows then (upd (unat (tr_index q)) write rows, None)
      else if tr_enable q \<and> unat (tr_index q) < length rows then (rows, Some (tr_index q))
      else (rows, None))"

definition tables_seq :: "llc_config \<Rightarrow> llc_table_out \<Rightarrow> llc_tables \<Rightarrow> llc_tables" where
  "tables_seq c out t =
     (let vals = (if to_invalidate_all out then map (\<lambda>_. replicate (unat (valid_row_bytes c)) 0) (tb_valid t)
                  else tb_valid t);
          d = to_data out; m = to_meta out; v = to_valid out; r = to_repl out;
          dres = table_seq (write_way_payload (unat (tr_way d)) (unat (lc_line_bytes c)) (tr_payload d)
                   (tr_byte_enable d)) d (tb_data t);
          mres = table_seq (write_way_payload (unat (tr_way m)) AXI_LLC_META_ENTRY_BYTES (tr_payload m)
                   (tr_byte_enable m)) m (tb_meta t);
          vres = table_seq (write_plain_payload (tr_payload v) (tr_byte_enable v)) v vals;
          rres = table_seq (write_plain_payload (tr_payload r) (tr_byte_enable r)) r (tb_repl t)
      in \<lparr>tb_data = fst dres, tb_meta = fst mres, tb_valid = fst vres, tb_repl = fst rres,
          pending_data = snd dres, pending_meta = snd mres, pending_valid = snd vres, pending_repl = snd rres\<rparr>)"

text \<open>The cache with its tables, one clock cycle: the rows are the tables' answer to the last
  request.\<close>

type_synonym llc_system = "llc_io \<times> llc_tables"

definition system_reset :: "kit_config \<Rightarrow> llc_config \<Rightarrow> llc_system" where
  "system_reset k c = (llc_reset k c, tables_init c)"

definition system_cycle :: "kit_config \<Rightarrow> llc_config \<Rightarrow> llc_ext_in \<times> u64 \<Rightarrow> llc_system \<Rightarrow> llc_system" where
  "system_cycle k c i s =
     (let io = llc_cycle k c \<lparr>drv_ext = fst i, drv_rows = tables_comb_outputs (snd s), drv_time = snd i\<rparr> (fst s)
      in (io, tables_seq c (table_out io) (snd s)))"

end
