(* ===== verification/LLC_Line_Props.thy ===== *)
theory LLC_Line_Props
  imports LLC_Tables
begin

text \<open>
  What the data layout of the cache guarantees: an address is rebuilt from its tag and set, a
  metadata entry and a line written into a table row are read back (and a lookup then hits that
  way), a write merges exactly its strobed bytes, and a response built from a refill is the one a
  hit on the installed line gives. The lemmas describe each byte-copying loop by its result, byte
  by byte.
\<close>

section \<open>Copying loops\<close>

lemma fold_update_length [simp]:
  "length (fold (\<lambda>i xs. if P i then xs[a + i := f i] else xs) is xs) = length xs"
  by (induction "is" arbitrary: xs) auto

lemma fold_update_nth:
  "j < length xs \<Longrightarrow>
   fold (\<lambda>i xs. if P i then xs[a + i := f i] else xs) [0..<n] xs ! j =
   (if a \<le> j \<and> j < a + n \<and> P (j - a) then f (j - a) else xs ! j)"
proof (induction n)
  case (Suc n)
  then show ?case by (auto simp: nth_list_update less_Suc_eq)
qed auto

definition word_byte :: "u32 \<Rightarrow> nat \<Rightarrow> u8" where
  "word_byte v m = ucast (drop_bit (8 * m) v)"

lemma ucast_mask_byte: "(ucast (v AND 0xFF) :: u8) = ucast (v :: u32)"
proof (rule bit_word_eqI)
  fix n assume "n < LENGTH(8)"
  moreover have "bit (0xFF :: u32) n" if "n < 8"
  proof -
    have "bit (mask 8 :: u32) n" using that by (simp add: bit_mask_iff)
    then show ?thesis by (simp add: mask_eq_exp_minus_1)
  qed
  ultimately show "bit (ucast (v AND 0xFF) :: u8) n = bit (ucast v :: u8) n"
    by (simp add: bit_simps)
qed

lemma write_u32_le_length [simp]: "length (write_u32_le i v p) = length p"
  by (simp add: write_u32_le_def)

lemma write_u32_le_nth:
  assumes "i + 3 < length p"
  shows "write_u32_le i v p ! j = (if i \<le> j \<and> j < i + 4 then word_byte v (j - i) else p ! j)"
proof -
  consider "j = i" | "j = i + 1" | "j = i + 2" | "j = i + 3" | "j < i \<or> i + 4 \<le> j" by linarith
  then show ?thesis
    by cases (use assms in \<open>auto simp: write_u32_le_def word_byte_def ucast_mask_byte nth_list_update\<close>)
qed

lemma read_u32_le_bytes:
  assumes "\<And>m. m < 4 \<Longrightarrow> p ! (i + m) = word_byte v m"
  shows "read_u32_le p i = v"
proof -
  have b: "p ! i = word_byte v 0" "p ! (i + 1) = word_byte v 1" "p ! (i + 2) = word_byte v 2"
    "p ! (i + 3) = word_byte v 3"
    using assms [of 0] assms [of 1] assms [of 2] assms [of 3] by simp_all
  show ?thesis unfolding read_u32_le_def b
  proof (rule bit_word_eqI)
    fix n assume n: "n < LENGTH(32)"
    consider "n < 8" | "8 \<le> n" "n < 16" | "16 \<le> n" "n < 24" | "24 \<le> n" "n < 32" using n by fastforce
    then show "bit ((ucast (word_byte v 0) :: u32) OR push_bit 8 (ucast (word_byte v 1)) OR
        push_bit 16 (ucast (word_byte v 2)) OR push_bit 24 (ucast (word_byte v 3))) n = bit v n"
      by cases (auto simp: word_byte_def bit_simps)
  qed
qed

lemma word_byte_read_u32_le:
  assumes "m < 4"
  shows "word_byte (read_u32_le p i) m = p ! (i + m)"
proof (rule bit_word_eqI)
  fix n assume "n < LENGTH(8)"
  then have n: "n < 8" by simp
  consider "m = 0" | "m = 1" | "m = 2" | "m = 3" using assms by linarith
  then show "bit (word_byte (read_u32_le p i) m) n = bit (p ! (i + m)) n"
  proof cases
  qed (use n in \<open>auto simp: read_u32_le_def word_byte_def bit_simps dest: bit_imp_le_length\<close>)
qed

lemma store_words_length [simp]:
  "length (fold (\<lambda>i bytes. write_u32_le (i * 4) (d ! i) bytes) is xs) = length xs"
  by (induction "is" arbitrary: xs) auto

lemma store_words_nth:
  "4 * n \<le> length xs \<Longrightarrow> j < length xs \<Longrightarrow>
   fold (\<lambda>i bytes. write_u32_le (i * 4) (d ! i) bytes) [0..<n] xs ! j =
   (if j < 4 * n then word_byte (d ! (j div 4)) (j mod 4) else xs ! j)"
proof (induction n)
  case (Suc n)
  have old: "fold (\<lambda>i bytes. write_u32_le (i * 4) (d ! i) bytes) [0..<n] xs ! j =
    (if j < 4 * n then word_byte (d ! (j div 4)) (j mod 4) else xs ! j)"
    using Suc by simp
  have last: "j div 4 = n \<and> j mod 4 = j - 4 * n" if "4 * n \<le> j" "j < 4 * n + 4"
    using that by (auto simp: div_nat_eqI modulo_nat_def)
  have "fold (\<lambda>i bytes. write_u32_le (i * 4) (d ! i) bytes) [0..<Suc n] xs ! j =
    (if n * 4 \<le> j \<and> j < n * 4 + 4 then word_byte (d ! n) (j - n * 4)
     else fold (\<lambda>i bytes. write_u32_le (i * 4) (d ! i) bytes) [0..<n] xs ! j)"
    using Suc.prems by (simp add: write_u32_le_nth)
  also have "\<dots> = (if j < 4 * Suc n then word_byte (d ! (j div 4)) (j mod 4) else xs ! j)"
    unfolding old using last by (auto simp: mult.commute [of n])
  finally show ?case .
qed simp

section \<open>Addresses\<close>

lemma word_div_mod: "(a div b) * b + a mod b = (a :: 'a::len word)"
  by (simp add: div_mult_mod_eq)

lemma set_count_valid: "lc_set_count c \<noteq> 0 \<Longrightarrow> lc_valid c \<and> lc_line_bytes c \<noteq> 0"
  by (cases "lc_valid c") (simp_all add: lc_set_count_def, simp add: lc_valid_def)

text \<open>A line's address is rebuilt from its tag and its set, and two addresses have the same tag
  and set exactly when they lie in the same line, for every configuration with at least one set.\<close>

theorem llc_line_addr_round_trip:
  assumes "lc_set_count c \<noteq> 0"
  shows "build_line_addr_from_tag_set c (tag_of c a) (set_index c a) = line_addr c a \<and>
    (tag_of c a = tag_of c b \<and> set_index c a = set_index c b \<longleftrightarrow> line_addr c a = line_addr c b)"
proof -
  have v: "lc_valid c" "lc_line_bytes c \<noteq> 0" using set_count_valid [OF assms] by auto
  let ?n = "\<lambda>x. x div lc_line_bytes c"
  have build: "build_line_addr_from_tag_set c (tag_of c x) (set_index c x) = line_addr c x" for x
    using v assms by (simp add: build_line_addr_from_tag_set_def tag_of_def set_index_def line_addr_def word_div_mod)
  have inj: "?n a = ?n b" if "?n a * lc_line_bytes c = ?n b * lc_line_bytes c"
  proof -
    have le: "unat (?n x) * unat (lc_line_bytes c) < 2 ^ LENGTH(32)" for x
    proof -
      have "unat (?n x) * unat (lc_line_bytes c) \<le> unat x"
        by (simp only: unat_div_distrib div_times_less_eq_dividend)
      also have "\<dots> < 2 ^ LENGTH(32)" by (rule unsigned_less)
      finally show ?thesis .
    qed
    have "unat (?n a) * unat (lc_line_bytes c) = unat (?n b) * unat (lc_line_bytes c)"
      using arg_cong [OF that, of unat] le [of a] le [of b]
      by (simp only: unat_word_ariths len_of_numeral_defs mod_less)
    moreover have "unat (lc_line_bytes c) \<noteq> 0" using v by (simp only: unat_eq_0 not_False_eq_True)
    ultimately have "unat (?n a) = unat (?n b)" by (simp only: mult_cancel2 simp_thms)
    then show ?thesis by (simp only: word_unat_eq_iff)
  qed
  have "line_addr c a = line_addr c b \<Longrightarrow> tag_of c a = tag_of c b \<and> set_index c a = set_index c b"
    using v assms inj by (simp add: line_addr_def tag_of_def set_index_def)
  then show ?thesis using build by metis
qed

theorem llc_line_addr_round_trip_witness:
  "build_line_addr_from_tag_set default_llc_config (tag_of default_llc_config 0x80001234)
     (set_index default_llc_config 0x80001234) = line_addr default_llc_config 0x80001234"
proof -
  have "lc_set_count default_llc_config \<noteq> 0"
    by (simp add: default_llc_config_def lc_set_count_def lc_valid_def)
  from llc_line_addr_round_trip [OF this] show ?thesis by blast
qed

section \<open>Metadata entries\<close>

lemma decode_bytes:
  assumes "\<And>m. m < 4 \<Longrightarrow> row ! (way * 4 + m) = word_byte v m" and "way * 4 + 4 \<le> length row"
  shows "read_u32_le row (way * 4) = v"
  using assms by (intro read_u32_le_bytes) auto

lemma flags_cases:
  assumes "f < (8 :: u8)"
  shows "f = 0 \<or> f = 1 \<or> f = 2 \<or> f = 3 \<or> f = 4 \<or> f = 5 \<or> f = 6 \<or> f = 7"
proof -
  have "unat f < 8" using assms by (simp add: word_less_nat_alt)
  then have "unat f \<in> {0, 1, 2, 3, 4, 5, 6, 7}" by auto
  then show ?thesis by (auto simp: word_unat_eq_iff)
qed

definition pack_meta :: "u32 \<Rightarrow> u8 \<Rightarrow> u32" where
  "pack_meta tag f = tag OR push_bit 29 (ucast f)"

lemma encode_meta_Some:
  assumes "encode_meta e = Some p" and "me_flags e < 8"
  shows "me_tag e AND 0xe0000000 = 0" and "length p = 4"
    and "m < 4 \<Longrightarrow> p ! m = word_byte (pack_meta (me_tag e) (me_flags e)) m"
proof -
  show hi: "me_tag e AND 0xe0000000 = 0" using assms(1) by (auto simp: encode_meta_def split: if_splits)
  have mask: "0x1fffffff = (mask 29 :: u32)" "0xe0000000 = (NOT (mask 29) :: u32)"
    by (simp_all add: mask_eq_exp_minus_1)
  have tag: "me_tag e AND 0x1fffffff = me_tag e"
  proof -
    have "me_tag e = (me_tag e AND mask 29) OR (me_tag e AND NOT (mask 29))"
      by (simp add: bit_eq_iff bit_simps) blast
    then show ?thesis using hi by (simp only: mask or.right_neutral)
  qed
  have p: "p = write_u32_le 0 (pack_meta (me_tag e) (me_flags e)) (replicate 4 0)"
    using assms(1) hi tag flags_cases [OF assms(2)]
    by (auto simp: encode_meta_def pack_meta_def AXI_LLC_META_VALID_def AXI_LLC_META_DIRTY_def
        AXI_LLC_META_PREFETCH_def AXI_LLC_META_ENTRY_BYTES_def Let_def or.assoc)
  show "length p = 4" by (simp add: p)
  show "m < 4 \<Longrightarrow> p ! m = word_byte (pack_meta (me_tag e) (me_flags e)) m"
    by (simp add: p write_u32_le_nth)
qed

lemma decode_meta_packed:
  assumes "tag AND 0xe0000000 = 0" and "f < 8" and "way * 4 + 4 \<le> length row"
    and "\<And>m. m < 4 \<Longrightarrow> row ! (way * 4 + m) = word_byte (pack_meta tag f) m"
  shows "decode_meta row way = \<lparr>me_tag = tag, me_flags = f\<rparr>"
proof -
  have mask: "0x1fffffff = (mask 29 :: u32)" "0xe0000000 = (NOT (mask 29) :: u32)"
    by (simp_all add: mask_eq_exp_minus_1)
  have hi: "\<not> bit tag n" if "29 \<le> n" for n
  proof
    assume b: "bit tag n"
    then have "n < 32" using bit_imp_le_length [of tag n] by simp
    with b that have "bit (tag AND 0xe0000000) n" by (simp add: mask bit_simps)
    then show False using assms(1) by simp
  qed
  have packed: "read_u32_le row (way * 4) = pack_meta tag f"
    using assms(3,4) by (intro decode_bytes) auto
  have tag: "pack_meta tag f AND 0x1fffffff = tag"
    unfolding mask pack_meta_def
    by (rule bit_word_eqI) (auto simp: bit_simps hi, use hi linorder_not_less in blast)
  have flag: "drop_bit (29 + b) (pack_meta tag f) AND 1 \<noteq> 0 \<longleftrightarrow> bit f b" if "b < 3" for b
  proof -
    have "drop_bit (29 + b) (pack_meta tag f) AND 1 \<noteq> 0 \<longleftrightarrow> bit (pack_meta tag f) (29 + b)"
      by (simp add: and_one_eq odd_iff_mod_2_eq_one [symmetric] bit_iff_odd_drop_bit)
    also have "\<dots> \<longleftrightarrow> bit f b" using that hi [of "29 + b"]
      by (auto simp: pack_meta_def bit_simps)
    finally show ?thesis .
  qed
  have "decode_meta row way = \<lparr>me_tag = tag, me_flags =
    (let a = (if bit f 0 then 1 else 0); a = (if bit f 1 then a OR 2 else a) in if bit f 2 then a OR 4 else a)\<rparr>"
    using assms(3) flag [of 0] flag [of 1] flag [of 2]
    by (simp add: decode_meta_def AXI_LLC_META_ENTRY_BYTES_def packed tag Let_def AXI_LLC_META_VALID_def
        AXI_LLC_META_DIRTY_def AXI_LLC_META_PREFETCH_def)
  also have "\<dots> = \<lparr>me_tag = tag, me_flags = f\<rparr>"
    using flags_cases [OF assms(2)] by (auto simp: Let_def)
  finally show ?thesis .
qed

section \<open>Rows\<close>

lemma write_byte_cond:
  "write_byte_if_enabled base p be =
   (\<lambda>i dst. if \<not> (be \<noteq> [] \<and> i < length be \<and> be ! i = 0) then dst[base + i := p ! i] else dst)"
  by (intro ext) (simp add: write_byte_if_enabled_def)

lemma write_way_payload_length [simp]: "length (write_way_payload w n p be row) = length row"
  unfolding write_way_payload_def Let_def write_byte_cond by simp

lemma write_way_payload_nth:
  assumes "j < length row" and "length p = n" and "(w + 1) * n \<le> length row"
  shows "write_way_payload w n p (replicate n 1) row ! j =
    (if w * n \<le> j \<and> j < w * n + n then p ! (j - w * n) else row ! j)"
proof -
  have "min n (min (length row - w * n) (length p)) = n" using assms by simp
  then show ?thesis
    using assms fold_update_nth [of j row "\<lambda>i. \<not> (replicate n (1::u8) \<noteq> [] \<and> i < length (replicate n (1::u8)) \<and>
        replicate n (1::u8) ! i = 0)" "w * n" "\<lambda>i. p ! i" n]
    by (auto simp: write_way_payload_def write_byte_cond)
qed

lemma way_slot_disjoint:
  assumes "(v :: nat) \<noteq> w" and "v * n \<le> j" and "j < v * n + n"
  shows "\<not> (w * n \<le> j \<and> j < w * n + n)"
proof
  assume "w * n \<le> j \<and> j < w * n + n"
  with assms have "v * n < (w + 1) * n" and "w * n < (v + 1) * n" by (simp_all add: algebra_simps)
  then have "v < w + 1" and "w < v + 1" by (metis mult_less_cancel2)+
  then show False using assms(1) by simp
qed

lemma way_fits: "w < ways \<Longrightarrow> (w + 1) * n \<le> ways * (n :: nat)"
  by (metis Suc_eq_plus1 Suc_leI mult_le_mono1)

lemma extract_way_written:
  assumes "length line = unat (lc_line_bytes c)" and "length row = ways * unat (lc_line_bytes c)"
    and "w < ways" and "v < ways"
  shows "extract_way_line_bytes c (write_way_payload w (unat (lc_line_bytes c)) line
      (replicate (unat (lc_line_bytes c)) 1) row) v = (if v = w then line else extract_way_line_bytes c row v)"
proof -
  let ?n = "unat (lc_line_bytes c)" let ?row = "write_way_payload w ?n line (replicate ?n 1) row"
  have fit: "v * ?n + ?n \<le> length row" "(w + 1) * ?n \<le> length row"
    using way_fits [OF assms(4), of ?n] way_fits [OF assms(3), of ?n] assms(2) by (simp_all add: algebra_simps)
  show ?thesis
  proof (rule nth_equalityI)
    show "length (extract_way_line_bytes c ?row v) =
      length (if v = w then line else extract_way_line_bytes c row v)"
      using fit assms by (simp add: extract_way_line_bytes_def Let_def)
    fix i assume "i < length (extract_way_line_bytes c ?row v)"
    then have i: "i < ?n" using fit by (simp add: extract_way_line_bytes_def Let_def)
    have "extract_way_line_bytes c ?row v ! i = ?row ! (v * ?n + i)"
      using fit i by (simp add: extract_way_line_bytes_def Let_def)
    also have "\<dots> = (if v = w then line else extract_way_line_bytes c row v) ! i"
      using write_way_payload_nth [of "v * ?n + i" row line ?n w] fit i assms(1)
        way_slot_disjoint [of v w ?n "v * ?n + i"]
      by (auto simp: extract_way_line_bytes_def Let_def)
    finally show "extract_way_line_bytes c ?row v ! i =
      (if v = w then line else extract_way_line_bytes c row v) ! i" .
  qed
qed

lemma decode_meta_written:
  assumes "encode_meta e = Some p" and "me_flags e < 8" and "length row = ways * 4" and "w < ways" and "v < ways"
  shows "decode_meta (write_way_payload w AXI_LLC_META_ENTRY_BYTES p (replicate AXI_LLC_META_ENTRY_BYTES 1) row) v =
    (if v = w then e else decode_meta row v)"
proof -
  note e = encode_meta_Some [OF assms(1,2)]
  let ?row = "write_way_payload w 4 p (replicate 4 1) row"
  have fit: "v * 4 + 4 \<le> length row" "(w + 1) * 4 \<le> length row" using assms by simp_all
  have nth: "?row ! (v * 4 + m) = (if v = w then p ! m else row ! (v * 4 + m))" if "m < 4" for m
    using write_way_payload_nth [of "v * 4 + m" row p 4 w] fit e(2) that
      way_slot_disjoint [of v w 4 "v * 4 + m"] by auto
  have "decode_meta ?row v = (if v = w then e else decode_meta row v)"
  proof (cases "v = w")
    case True
    then have "decode_meta ?row v = \<lparr>me_tag = me_tag e, me_flags = me_flags e\<rparr>"
      using nth e fit by (intro decode_meta_packed [OF _ assms(2)]) auto
    with True show ?thesis by simp
  next
    case False
    then have "read_u32_le ?row (v * 4) = read_u32_le row (v * 4)"
      using nth [of 0] nth [of 1] nth [of 2] nth [of 3] by (simp add: read_u32_le_def)
    with False show ?thesis by (simp add: decode_meta_def AXI_LLC_META_ENTRY_BYTES_def Let_def)
  qed
  then show ?thesis by (simp add: AXI_LLC_META_ENTRY_BYTES_def)
qed

lemma decode_valid_written:
  assumes "encode_valid_bit_payload n w b = (p, be)" and "length row = unat n" and "w < unat n"
  shows "decode_valid_bit (write_plain_payload p be row) v False =
    (if v = w then b else decode_valid_bit row v False)"
proof -
  have p: "p = (replicate (unat n) 0)[w := if b then 1 else 0]" "be = (replicate (unat n) 0)[w := 1]"
    using assms by (auto simp: encode_valid_bit_payload_def Let_def)
  have len: "length (write_plain_payload p be row) = length row"
    unfolding write_plain_payload_def write_byte_cond by simp
  have lp: "length p = length row" "length be = length row" using assms by (simp_all add: p)
  have "write_plain_payload p be row ! v = (if be ! v = 0 then row ! v else p ! v)" if "v < length row"
    using that lp fold_update_nth [of v row "\<lambda>i. \<not> (be \<noteq> [] \<and> i < length be \<and> be ! i = 0)" 0 "\<lambda>i. p ! i" "length row"]
    unfolding write_plain_payload_def write_byte_cond by auto
  moreover have "be ! v = (if v = w then 1 else 0)" "p ! v = (if v = w \<and> b then 1 else 0)" if "v < length row"
    using that assms by (auto simp: p nth_list_update)
  ultimately show ?thesis using len assms(2,3) by (auto simp: decode_valid_bit_def split: if_splits)
qed

section \<open>Lookups\<close>

abbreviation way_hit :: "llc_bytes \<Rightarrow> llc_bytes \<Rightarrow> u32 \<Rightarrow> nat \<Rightarrow> bool" where
  "way_hit vrow mrow tag v \<equiv> decode_valid_bit vrow v False \<and> me_tag (decode_meta mrow v) = tag"

lemma scan_ways_unique:
  assumes "w \<in> set ws" and "way_hit vrow mrow tag w"
    and "\<And>v. v \<in> set ws \<Longrightarrow> way_hit vrow mrow tag v \<Longrightarrow> v = w"
  shows "fst (scan_ways vrow mrow tag ws inv0) = Some w \<and>
    snd (snd (scan_ways vrow mrow tag ws inv0)) = decode_meta mrow w"
  using assms
proof (induction ws arbitrary: inv0)
  case (Cons v vs)
  show ?case
  proof (cases "way_hit vrow mrow tag v")
    case True
    then have "v = w" by (intro Cons.prems(3)) auto
    with True show ?thesis by (simp add: Let_def)
  next
    case False
    then have "w \<in> set vs" using Cons.prems(1,2) by auto
    then have "fst (scan_ways vrow mrow tag vs inv) = Some w \<and>
      snd (snd (scan_ways vrow mrow tag vs inv)) = decode_meta mrow w" for inv
      using Cons.prems(2,3) by (intro Cons.IH) auto
    with False show ?thesis by (auto simp: Let_def)
  qed
qed simp

lemma scan_ways_hit:
  "fst (scan_ways vrow mrow tag ws inv0) = Some w \<Longrightarrow>
   w \<in> set ws \<and> way_hit vrow mrow tag w \<and> snd (snd (scan_ways vrow mrow tag ws inv0)) = decode_meta mrow w"
  by (induction ws arbitrary: inv0) (auto simp: Let_def split: if_splits)

lemma scan_ways_miss:
  "fst (scan_ways vrow mrow tag ws inv0) = None \<Longrightarrow>
   (\<forall>v\<in>set ws. \<not> way_hit vrow mrow tag v) \<and>
   fst (snd (scan_ways vrow mrow tag ws inv0)) =
     (case inv0 of Some i \<Rightarrow> Some i | None \<Rightarrow> find (\<lambda>v. \<not> decode_valid_bit vrow v False) ws)"
  by (induction ws arbitrary: inv0) (auto simp: Let_def split: if_splits option.splits)

text \<open>C38: A line installed in a way of a set (its data, metadata and valid byte written as the cache
  writes them) is found there: when no other valid way of the set holds its tag, the next lookup of
  that tag hits this way with the metadata installed and reads the bytes installed, and the other
  ways keep their lines and entries.\<close>

theorem llc_installed_line_hits:
  assumes rows: "length data = unat (lc_ways c) * unat (lc_line_bytes c)" "length meta = unat (lc_ways c) * 4"
      "length val = unat (lc_ways c)"
    and w: "w < unat (lc_ways c)" and line: "length line = unat (lc_line_bytes c)"
    and enc: "encode_meta e = Some p" "me_flags e < 8" "encode_valid_bit_payload (lc_ways c) w True = (vp, be)"
    and other: "\<And>v. v < unat (lc_ways c) \<Longrightarrow> v \<noteq> w \<Longrightarrow> \<not> way_hit val meta (me_tag e) v"
    and new: "data' = write_way_payload w (unat (lc_line_bytes c)) line (replicate (unat (lc_line_bytes c)) 1) data"
      "meta' = write_way_payload w AXI_LLC_META_ENTRY_BYTES p (replicate AXI_LLC_META_ENTRY_BYTES 1) meta"
      "val' = write_plain_payload vp be val"
  shows "(\<exists>inv0. line_has_valid_meta c val' meta' (me_tag e) = (Some w, inv0, e)) \<and>
    extract_way_line_bytes c data' w = line \<and>
    (\<forall>v<unat (lc_ways c). v \<noteq> w \<longrightarrow> extract_way_line_bytes c data' v = extract_way_line_bytes c data v \<and>
       decode_meta meta' v = decode_meta meta v \<and> decode_valid_bit val' v False = decode_valid_bit val v False)"
proof -
  have meta: "decode_meta meta' v = (if v = w then e else decode_meta meta v)" if "v < unat (lc_ways c)" for v
    unfolding new by (rule decode_meta_written [OF enc(1,2) rows(2) w that])
  have val: "decode_valid_bit val' v False = (if v = w then True else decode_valid_bit val v False)" for v
    unfolding new by (rule decode_valid_written [OF enc(3) rows(3) w])
  have data: "extract_way_line_bytes c data' v = (if v = w then line else extract_way_line_bytes c data v)"
    if "v < unat (lc_ways c)" for v
    unfolding new by (rule extract_way_written [OF line rows(1) w that])
  have "fst (scan_ways val' meta' (me_tag e) [0..<unat (lc_ways c)] None) = Some w \<and>
    snd (snd (scan_ways val' meta' (me_tag e) [0..<unat (lc_ways c)] None)) = decode_meta meta' w"
    by (rule scan_ways_unique) (use w meta val other in \<open>auto split: if_splits\<close>)
  then have "\<exists>inv0. line_has_valid_meta c val' meta' (me_tag e) = (Some w, inv0, e)"
    using meta [OF w] unfolding line_has_valid_meta_def by (metis prod.collapse)
  then show ?thesis using w meta val data by simp
qed

text \<open>A small cache for the concrete instances: two sets of two ways of eight bytes.\<close>

definition tiny_llc :: llc_config where
  "tiny_llc = default_llc_config\<lparr>lc_enable := True, lc_size_bytes := 32, lc_line_bytes := 8, lc_ways := 2,
     lc_mshr_num := 2\<rparr>"

lemma tiny_llc_simps [simp]:
  "lc_line_bytes tiny_llc = 8" "lc_ways tiny_llc = 2" "lc_size_bytes tiny_llc = 32" "lc_mshr_num tiny_llc = 2"
  "lc_enable tiny_llc" "lc_valid tiny_llc" "lc_set_count tiny_llc = 2"
  by (simp_all add: tiny_llc_def default_llc_config_def lc_valid_def lc_set_count_def)

theorem llc_installed_line_hits_witness:
  "\<exists>inv0. line_has_valid_meta tiny_llc (write_plain_payload [0, 1] [0, 1] [1, 0])
    (write_way_payload 1 AXI_LLC_META_ENTRY_BYTES [5, 0, 0, 0x60] (replicate AXI_LLC_META_ENTRY_BYTES 1)
      (replicate 8 0)) 5 = (Some 1, inv0, \<lparr>me_tag = 5, me_flags = 3\<rparr>)"
proof -
  have enc: "encode_meta \<lparr>me_tag = 5, me_flags = 3\<rparr> = Some [5, 0, 0, 0x60]"
    "encode_valid_bit_payload (lc_ways tiny_llc) 1 True = ([0, 1], [0, 1])"
    by code_simp+
  have other: "\<not> way_hit [1, 0] (replicate 8 0) 5 v" if "v < unat (lc_ways tiny_llc)" "v \<noteq> 1" for v
  proof -
    have "v = 0" using that by simp
    moreover have "\<not> way_hit [1, 0] (replicate 8 0) 5 0" by code_simp
    ultimately show ?thesis by simp
  qed
  show ?thesis
    using llc_installed_line_hits [of "replicate 16 0" tiny_llc "replicate 8 0" "[1, 0]" 1 "[1, 2, 3, 4, 5, 6, 7, 8]"
        "\<lparr>me_tag = 5, me_flags = 3\<rparr>" "[5, 0, 0, 0x60]" "[0, 1]" "[0, 1]", OF _ _ _ _ _ enc(1) _ enc(2) _ refl refl refl] other
    by simp
qed

section \<open>Tags that do not fit\<close>

text \<open>Writing a metadata entry aborts exactly when its tag needs more than 29 bits. For the tag of
  an address this never happens when a way holds at least eight bytes per tag unit, that is when
  the line size times the number of sets is at least 8.\<close>

theorem llc_meta_abort_exactly:
  assumes "lc_set_count c \<noteq> 0"
  shows "(encode_meta e = None \<longleftrightarrow> 2 ^ 29 \<le> me_tag e) \<and>
    (8 \<le> unat (lc_line_bytes c) * unat (lc_set_count c) \<longrightarrow>
       encode_meta \<lparr>me_tag = tag_of c a, me_flags = f\<rparr> \<noteq> None)"
proof -
  have hi: "t AND 0xe0000000 = 0 \<longleftrightarrow> t < 2 ^ 29" for t :: u32
  proof -
    have "t AND 0xe0000000 = 0 \<longleftrightarrow> t AND mask 29 = t"
    proof -
      have "(0xe0000000 :: u32) = NOT (mask 29)" by (simp add: mask_eq_exp_minus_1)
      then show ?thesis by (auto simp: bit_eq_iff bit_simps)
    qed
    also have "\<dots> \<longleftrightarrow> t < 2 ^ 29" by (simp add: mask_eq_iff word_less_def)
    finally show ?thesis .
  qed
  have abort: "encode_meta x = None \<longleftrightarrow> 2 ^ 29 \<le> me_tag x" for x
    by (simp add: encode_meta_def hi linorder_not_less Let_def)
  have small: "tag_of c a < 2 ^ 29" if "8 \<le> unat (lc_line_bytes c) * unat (lc_set_count c)"
  proof -
    have v: "lc_valid c" "lc_line_bytes c \<noteq> 0" using set_count_valid [OF assms] by auto
    have "unat (tag_of c a) = unat a div (unat (lc_line_bytes c) * unat (lc_set_count c))"
      using v assms by (simp add: tag_of_def unat_div_distrib div_mult2_eq)
    also have "\<dots> \<le> unat a div 8" using that by (rule div_le_mono2 [rotated]) simp
    also have "\<dots> < 2 ^ 29"
    proof -
      have "unat a < 2 ^ LENGTH(32)" by (rule unsigned_less)
      then show ?thesis by simp
    qed
    finally show ?thesis by (simp add: word_less_nat_alt)
  qed
  show ?thesis using abort [of e] abort [of "\<lparr>me_tag = tag_of c a, me_flags = f\<rparr>"] small
    by (auto simp: linorder_not_le)
qed

theorem llc_meta_abort_exactly_witness:
  "encode_meta \<lparr>me_tag = tag_of tiny_llc 0xffffffff, me_flags = 7\<rparr> \<noteq> None"
proof -
  have "8 \<le> unat (lc_line_bytes tiny_llc) * unat (lc_set_count tiny_llc)" and "lc_set_count tiny_llc \<noteq> 0" by simp_all
  then show ?thesis using llc_meta_abort_exactly [where c = tiny_llc] by blast
qed

section \<open>Merging a write\<close>

lemma merge_length [simp]: "length (merge_write_into_line k c addr line data strobe n) = length line"
proof -
  have "merge_write_into_line k c addr line data strobe n =
    fold (\<lambda>i xs. if strb_test k strobe (of_nat i) then xs[unat (if lc_line_bytes c = 0 then 0 else addr mod lc_line_bytes c) + i :=
        ucast (drop_bit ((i mod 4) * 8) (data ! (i div 4)) AND 0xFF)] else xs)
      [0..<unat (min (n + 1) (if (of_nat (length line) :: u32) > (if lc_line_bytes c = 0 then 0 else addr mod lc_line_bytes c)
        then of_nat (length line) - (if lc_line_bytes c = 0 then 0 else addr mod lc_line_bytes c) else 0))] line"
    unfolding merge_write_into_line_def Let_def by (intro arg_cong2 [where f = "\<lambda>f xs. fold f xs line"] ext) auto
  then show ?thesis by simp
qed

text \<open>C40: Merging a write into a line changes exactly the bytes from the write's offset in the line that
  lie in the written size and in the line and whose strobe is set, each to the byte of the write
  data in its place.\<close>

theorem llc_merge_bytes:
  assumes "length line = unat (lc_line_bytes c)" and "lc_line_bytes c \<noteq> 0" and "j < length line"
  shows "merge_write_into_line k c addr line data strobe (ucast (n :: u8)) ! j =
    (let off = unat (addr mod lc_line_bytes c) in
     if off \<le> j \<and> j \<le> off + unat n \<and> strb_test k strobe (of_nat (j - off))
     then word_byte (data ! ((j - off) div 4)) ((j - off) mod 4) else line ! j)"
proof -
  let ?off = "addr mod lc_line_bytes c"
  let ?lim = "unat (min ((ucast n :: u32) + 1) (lc_line_bytes c - ?off))"
  have off: "?off < lc_line_bytes c" using assms(2) by (metis word_mod_less_divisor word_gt_0)
  have len: "(of_nat (length line) :: u32) = lc_line_bytes c" using assms(1) by simp
  have "merge_write_into_line k c addr line data strobe (ucast n) =
    fold (\<lambda>i xs. if strb_test k strobe (of_nat i)
        then xs[unat ?off + i := ucast (drop_bit ((i mod 4) * 8) (data ! (i div 4)) AND 0xFF)] else xs)
      [0..<?lim] line"
    unfolding merge_write_into_line_def Let_def len using assms(2) off
    by (intro fold_cong) auto
  also have "\<dots> ! j = (if unat ?off \<le> j \<and> j < unat ?off + ?lim \<and> strb_test k strobe (of_nat (j - unat ?off))
      then ucast (drop_bit (((j - unat ?off) mod 4) * 8) (data ! ((j - unat ?off) div 4)) AND 0xFF) else line ! j)"
    by (rule fold_update_nth [OF assms(3)])
  also have "j < unat ?off + ?lim \<longleftrightarrow> j \<le> unat ?off + unat n"
  proof -
    have n: "unat n < 2 ^ LENGTH(8)" by (rule unsigned_less)
    have "unat ((ucast n :: u32) + 1) = unat n + 1"
      using n unat_ucast_widen [of n, where 'b = 32]
      by (subst unat_add_lem [THEN iffD1]) simp_all
    moreover have "unat (lc_line_bytes c - ?off) = unat (lc_line_bytes c) - unat ?off"
      using off by (intro unat_sub) simp
    ultimately show ?thesis using assms(1,3) off
      by (auto simp: min_def word_le_nat_alt word_less_nat_alt)
  qed
  finally show ?thesis by (simp only: Let_def word_byte_def ucast_mask_byte mult.commute [of _ 8])
qed

theorem llc_merge_bytes_witness:
  "merge_write_into_line default_kit_config tiny_llc 0x1002 (replicate 8 0) [0x44332211, 0x88776655]
     (replicate 64 1) (ucast (3 :: u8)) ! 5 = 0x44"
proof -
  have "merge_write_into_line default_kit_config tiny_llc 0x1002 (replicate 8 0) [0x44332211, 0x88776655]
     (replicate 64 1) (ucast (3 :: u8)) ! 5 =
    (let off = unat ((0x1002 :: u32) mod lc_line_bytes tiny_llc) in
     if off \<le> 5 \<and> 5 \<le> off + unat (3 :: u8) \<and> strb_test default_kit_config (replicate 64 1) (of_nat (5 - off))
     then word_byte ([0x44332211, 0x88776655] ! ((5 - off) div 4)) ((5 - off) mod 4) else replicate 8 0 ! 5)"
    by (rule llc_merge_bytes) simp_all
  also have "\<dots> = 0x44" by code_simp
  finally show ?thesis .
qed

section \<open>Responses\<close>

lemma wide_to_line_bytes_nth:
  assumes "j < unat (lc_line_bytes c)"
  shows "wide_to_line_bytes c d ! j =
    (if j < 4 * (unat (lc_line_bytes c) div 4) then word_byte (d ! (j div 4)) (j mod 4) else 0)"
  using assms store_words_nth [of "unat (lc_line_bytes c) div 4" "replicate (unat (lc_line_bytes c)) 0" j d]
  by (simp add: wide_to_line_bytes_def line_words_def unat_div_distrib)

lemma wide_to_line_bytes_length [simp]: "length (wide_to_line_bytes c d) = unat (lc_line_bytes c)"
  by (simp add: wide_to_line_bytes_def)

lemma read_line_word:
  assumes "4 * i + 4 \<le> unat (lc_line_bytes c)"
  shows "read_u32_le (wide_to_line_bytes c d) (4 * i) = d ! i"
proof (rule read_u32_le_bytes)
  fix m :: nat assume m: "m < 4"
  have "(4 * i + m) div 4 = i \<and> (4 * i + m) mod 4 = m" using m by simp
  moreover have "4 * i + m < 4 * (unat (lc_line_bytes c) div 4)"
  proof -
    have "i < unat (lc_line_bytes c) div 4" using assms by linarith
    then show ?thesis using m by linarith
  qed
  ultimately show "wide_to_line_bytes c d ! (4 * i + m) = word_byte (d ! i) m"
    using assms m by (simp add: wide_to_line_bytes_nth)
qed

lemma extract_line_response_nth:
  assumes "lc_line_bytes c \<noteq> 0" and "unat (lc_line_bytes c) \<le> 256" and "i < 64"
  shows "extract_line_response c addr line ! i =
    (let s = unat (addr mod lc_line_bytes c) div 4 in
     if i < min (unat (lc_line_bytes c) div 4) (64 - s) \<and> (s + i) * 4 + 4 \<le> length line
     then read_u32_le line ((s + i) * 4) else 0)"
proof -
  let ?s = "(addr mod lc_line_bytes c) div 4"
  have off: "addr mod lc_line_bytes c < lc_line_bytes c"
    using assms(1) by (metis word_mod_less_divisor word_gt_0)
  have s: "unat ?s = unat (addr mod lc_line_bytes c) div 4" by (simp add: unat_div_distrib)
  have s64: "unat ?s < 64" using off assms(2) unfolding s by (simp add: word_less_nat_alt)
  have lim: "unat (min (line_words c) (64 - ?s)) = min (unat (lc_line_bytes c) div 4) (64 - unat ?s)"
  proof -
    have "unat (64 - ?s) = 64 - unat ?s" using s64 by (subst unat_sub) (simp_all add: word_le_nat_alt)
    then show ?thesis by (auto simp: min_def line_words_def unat_div_distrib word_le_nat_alt)
  qed
  have idx: "unat (?s + of_nat j) = unat ?s + j" if "j < 64" for j
    using that s64 by (simp add: unat_word_ariths unat_of_nat)
  have "extract_line_response c addr line =
    fold (\<lambda>i out. if (unat ?s + i) * 4 + 4 \<le> length line then out[0 + i := read_u32_le line ((unat ?s + i) * 4)] else out)
      [0..<min (unat (lc_line_bytes c) div 4) (64 - unat ?s)] read_data_clear"
    unfolding extract_line_response_def Let_def using assms(1)
    by (simp only: if_False lim) (intro fold_cong refl, auto simp: idx)
  then show ?thesis
    using assms(3) fold_update_nth [of i read_data_clear "\<lambda>i. (unat ?s + i) * 4 + 4 \<le> length line" 0
        "\<lambda>i. read_u32_le line ((unat ?s + i) * 4)"]
    by (simp add: read_data_clear_def MAX_READ_TRANSACTION_WORDS_def s Let_def)
qed

lemma word_fits: "(x :: nat) < n div 4 \<Longrightarrow> 4 * x + 4 \<le> n"
  by presburger

lemma word_does_not_fit: "\<not> (x :: nat) < n div 4 \<Longrightarrow> \<not> x * 4 + 4 \<le> n"
  by presburger

text \<open>C39: A master gets the same words from a line whether the response is built from the refill that
  brings the line or from a later hit on it: word \<open>i\<close> of the response is word \<open>i\<close> of the line
  counted from the requested address, and zero past the end of the line.\<close>

theorem llc_hit_answers_like_refill:
  assumes "lc_line_bytes c \<noteq> 0" and "unat (lc_line_bytes c) \<le> 256"
    and "length row = unat (lc_ways c) * unat (lc_line_bytes c)" and "way < unat (lc_ways c)"
    and "\<not> ms_bypass e" and "i < 64"
  shows "extract_line_response c (ms_addr e) (extract_way_line_bytes c
      (write_way_payload way (unat (lc_line_bytes c)) (wide_to_line_bytes c (ms_refill_data e))
        (replicate (unat (lc_line_bytes c)) 1) row) way) = refill_response c e \<and>
    refill_response c e ! i =
      (let s = unat (ms_addr e mod lc_line_bytes c) div 4 in
       if s + i < unat (lc_line_bytes c) div 4 then ms_refill_data e ! (s + i) else 0)"
proof -
  let ?n = "unat (lc_line_bytes c)" let ?line = "wide_to_line_bytes c (ms_refill_data e)"
  let ?s = "unat (ms_addr e mod lc_line_bytes c) div 4"
  have hit: "extract_way_line_bytes c (write_way_payload way ?n ?line (replicate ?n 1) row) way = ?line"
    using extract_way_written [of ?line c row "unat (lc_ways c)" way way] assms(3,4) by simp
  have "refill_response c e ! i =
    (if i < min (?n div 4) (64 - ?s) \<and> (?s + i) * 4 + 4 \<le> ?n then read_u32_le ?line ((?s + i) * 4) else 0)"
    using assms(5) extract_line_response_nth [OF assms(1,2,6)] by (simp add: refill_response_def Let_def)
  also have "\<dots> = (if ?s + i < ?n div 4 then ms_refill_data e ! (?s + i) else 0)"
  proof (cases "?s + i < ?n div 4")
    case True
    then have "4 * (?s + i) + 4 \<le> ?n" by (rule word_fits)
    moreover have "i < min (?n div 4) (64 - ?s)" using True assms(2) by simp
    ultimately show ?thesis using True read_line_word [of "?s + i" c] by (simp add: mult.commute [of _ 4])
  next
    case False
    then have "\<not> (?s + i) * 4 + 4 \<le> ?n" by (rule word_does_not_fit)
    with False show ?thesis by simp
  qed
  finally show ?thesis using hit assms(5) by (simp add: refill_response_def Let_def)
qed

theorem llc_hit_answers_like_refill_witness:
  "refill_response tiny_llc ((miss_entry_zero default_kit_config)\<lparr>ms_valid := True, ms_addr := 0x1004,
     ms_refill_data := [11, 22] @ replicate 62 0\<rparr>) ! 0 = 22"
  using llc_hit_answers_like_refill [where c = tiny_llc and row = "replicate 16 0" and way = 1 and i = 0
      and e = "(miss_entry_zero default_kit_config)\<lparr>ms_valid := True, ms_addr := 0x1004,
        ms_refill_data := [11, 22] @ replicate 62 0\<rparr>"]
  by (simp add: miss_entry_zero_def)

section \<open>Victims\<close>

lemma full_line_strobe_test:
  assumes "j < unat (lc_line_bytes c)" and "unat (lc_line_bytes c) \<le> 256"
    and "unat (lc_line_bytes c) \<le> MAX_WRITE_TRANSACTION_BYTES k"
  shows "strb_test k (full_line_strobe k c) (of_nat j)"
proof -
  have conv: "unat (of_nat i :: u32) = i" if "i < 256" for i using that by (simp add: unat_of_nat)
  have "full_line_strobe k c = fold (\<lambda>i xs. if True then xs[0 + i := 1] else xs)
      [0..<min (unat (lc_line_bytes c)) (MAX_WRITE_TRANSACTION_BYTES k)] (strb_clear k)"
    unfolding full_line_strobe_def using assms(2) by (intro fold_cong refl) (auto simp: strb_set_def conv)
  then have "full_line_strobe k c ! j = 1"
    using assms fold_update_nth [of j "strb_clear k" "\<lambda>_. True" 0 "\<lambda>_. 1"] by (simp add: strb_clear_def)
  then show ?thesis using assms conv [of j] by (simp add: strb_test_def)
qed

lemma line_bytes_to_write_words_nth:
  assumes "i < MAX_WRITE_TRANSACTION_WORDS k" and "i < length line div 4"
  shows "line_bytes_to_write_words k line ! i = read_u32_le line (i * 4)"
  using assms fold_update_nth [of i "write_data_clear k" "\<lambda>_. True" 0 "\<lambda>i. read_u32_le line (i * 4)"
      "min (MAX_WRITE_TRANSACTION_WORDS k) (length line div 4)"]
  by (simp add: line_bytes_to_write_words_def write_data_clear_def)

text \<open>A line written back carries exactly its bytes: the write payload the cache sends for a victim,
  with the strobe and size it sends, replaces any old line of memory by the victim's bytes, and a
  cache that received it would recognise a write of a whole line.\<close>

theorem llc_victim_payload_complete:
  assumes "lc_line_bytes c \<noteq> 0" and "unat (lc_line_bytes c) \<le> 256" and "unat (lc_line_bytes c) mod 4 = 0"
    and "unat (lc_line_bytes c) \<le> MAX_WRITE_TRANSACTION_BYTES k" and "length line = unat (lc_line_bytes c)"
    and "length old = unat (lc_line_bytes c)" and "a mod lc_line_bytes c = 0"
  shows "merge_write_into_line k c a old (line_bytes_to_write_words k line) (full_line_strobe k c)
      (ucast (ucast (lc_line_bytes c - 1) :: u8)) = line \<and>
    is_full_line_write k c a (full_line_strobe k c) (ucast (ucast (lc_line_bytes c - 1) :: u8))"
proof -
  let ?n = "unat (lc_line_bytes c)" let ?sz = "ucast (lc_line_bytes c - 1) :: u8"
  have pos: "0 < ?n" using assms(1) by (simp add: unat_eq_0 neq0_conv [symmetric] del: neq0_conv)
  have n4: "?n = 4 * (?n div 4)" using assms(3) by (metis add.right_neutral mult_div_mod_eq)
  have sz: "unat ?sz = ?n - 1"
  proof -
    have "unat (lc_line_bytes c - 1) = ?n - 1" using assms(1) by (simp add: unat_minus_one)
    then show ?thesis using assms(2) pos by (simp add: unsigned_ucast_eq take_bit_nat_eq_self)
  qed
  have words: "word_byte (line_bytes_to_write_words k line ! (j div 4)) (j mod 4) = line ! j" if "j < ?n" for j
  proof -
    have "j div 4 < ?n div 4" using that n4 by linarith
    moreover have "?n div 4 \<le> MAX_WRITE_TRANSACTION_WORDS k"
      unfolding MAX_WRITE_TRANSACTION_WORDS_def using assms(4) by (rule div_le_mono)
    ultimately have "line_bytes_to_write_words k line ! (j div 4) = read_u32_le line (j div 4 * 4)"
      using assms(5) by (intro line_bytes_to_write_words_nth) simp_all
    then show ?thesis by (simp add: word_byte_read_u32_le)
  qed
  have "merge_write_into_line k c a old (line_bytes_to_write_words k line) (full_line_strobe k c) (ucast ?sz) ! j = line ! j"
    if "j < ?n" for j
  proof -
    have "merge_write_into_line k c a old (line_bytes_to_write_words k line) (full_line_strobe k c) (ucast ?sz) ! j =
      word_byte (line_bytes_to_write_words k line ! (j div 4)) (j mod 4)"
      using llc_merge_bytes [OF assms(6,1), of j k a "line_bytes_to_write_words k line" "full_line_strobe k c" ?sz]
        that sz assms(6,7) full_line_strobe_test [OF that assms(2,4)] pos
      by (cases "j \<le> ?n - 1") (simp_all add: Let_def)
    with words [OF that] show ?thesis by simp
  qed
  then have "merge_write_into_line k c a old (line_bytes_to_write_words k line) (full_line_strobe k c) (ucast ?sz) = line"
    using assms(5,6) by (intro nth_equalityI) simp_all
  moreover have "(ucast ?sz :: u32) + 1 = lc_line_bytes c"
  proof -
    have "unat (ucast ?sz :: u32) = ?n - 1" using sz unat_ucast_widen [of ?sz, where 'b = 32] by simp
    then have "(ucast ?sz :: u32) = lc_line_bytes c - 1" using assms(1) by (simp add: word_unat_eq_iff unat_minus_one)
    then show ?thesis by simp
  qed
  ultimately show ?thesis using assms(1,7) full_line_strobe_test [OF _ assms(2,4)]
    by (simp add: is_full_line_write_def)
qed

theorem llc_victim_payload_complete_witness:
  "merge_write_into_line default_kit_config tiny_llc 0x80 (replicate 8 0)
     (line_bytes_to_write_words default_kit_config [1, 2, 3, 4, 5, 6, 7, 8]) (full_line_strobe default_kit_config tiny_llc)
     (ucast (ucast (lc_line_bytes tiny_llc - 1) :: u8)) = [1, 2, 3, 4, 5, 6, 7, 8]"
proof -
  have "unat (lc_line_bytes tiny_llc) \<le> MAX_WRITE_TRANSACTION_BYTES default_kit_config" by code_simp
  then show ?thesis
    using llc_victim_payload_complete [of tiny_llc default_kit_config "[1, 2, 3, 4, 5, 6, 7, 8]" "replicate 8 0" "0x80"]
    by simp
qed

end
