(* ===== verification/LLC_Frames.thy ===== *)
theory LLC_Frames
  imports LLC_Tables
begin

text \<open>
  Which stage of the cache's \<^verbatim>\<open>comb()\<close> touches which part of the state. Every function leaves the
  current registers and the inputs alone; the collection \<open>llc_frame\<close> says, per function, which
  fields of the next registers it does not change.
\<close>

named_theorems llc_frame

lemma fold_frame: "(\<And>x s. g (f x s) = g s) \<Longrightarrow> g (fold f xs s) = g s"
  by (induction xs arbitrary: s) simp_all

section \<open>The updating combinators\<close>

lemmas wr_defs = wr_def wr_lookup_def wr_perf_def wr_victim_def wr_mshr_def wr_ctx_def wr_read_port_def
  wr_write_port_def wr_state_def drive_mem_def drive_table_def

lemma wr_inputs [simp]:
  "regs (wr f io) = regs io" "ext_in (wr f io) = ext_in io" "lookup_in (wr f io) = lookup_in io"
  "sim_time (wr f io) = sim_time io" "ext_out (wr f io) = ext_out io" "table_out (wr f io) = table_out io"
  "aborted (wr f io) = aborted io" "reg_write (wr f io) = f (reg_write io)"
  by (simp_all add: wr_def)

lemma drive_mem_frames [simp]:
  "regs (drive_mem f io) = regs io" "ext_in (drive_mem f io) = ext_in io"
  "lookup_in (drive_mem f io) = lookup_in io" "sim_time (drive_mem f io) = sim_time io"
  "table_out (drive_mem f io) = table_out io" "aborted (drive_mem f io) = aborted io"
  "reg_write (drive_mem f io) = reg_write io"
  by (simp_all add: drive_mem_def)

lemma drive_table_frames [simp]:
  "regs (drive_table f io) = regs io" "ext_in (drive_table f io) = ext_in io"
  "lookup_in (drive_table f io) = lookup_in io" "sim_time (drive_table f io) = sim_time io"
  "ext_out (drive_table f io) = ext_out io" "aborted (drive_table f io) = aborted io"
  "reg_write (drive_table f io) = reg_write io" "table_out (drive_table f io) = f (table_out io)"
  by (simp_all add: drive_table_def)

lemma wr_inputs_derived [simp]:
  "regs (wr_lookup lf io) = regs io" "regs (wr_perf pf io) = regs io" "regs (wr_victim vf io) = regs io"
  "regs (wr_mshr i mf io) = regs io" "regs (wr_ctx m cf io) = regs io" "regs (wr_read_port m rf io) = regs io"
  "regs (wr_write_port m qf io) = regs io" "regs (wr_state st io) = regs io"
  "ext_in (wr_lookup lf io) = ext_in io" "ext_in (wr_perf pf io) = ext_in io" "ext_in (wr_victim vf io) = ext_in io"
  "ext_in (wr_mshr i mf io) = ext_in io" "ext_in (wr_ctx m cf io) = ext_in io"
  "ext_in (wr_read_port m rf io) = ext_in io" "ext_in (wr_write_port m qf io) = ext_in io"
  "ext_in (wr_state st io) = ext_in io"
  "lookup_in (wr_lookup lf io) = lookup_in io" "lookup_in (wr_perf pf io) = lookup_in io"
  "lookup_in (wr_victim vf io) = lookup_in io" "lookup_in (wr_mshr i mf io) = lookup_in io"
  "lookup_in (wr_ctx m cf io) = lookup_in io" "lookup_in (wr_read_port m rf io) = lookup_in io"
  "lookup_in (wr_write_port m qf io) = lookup_in io" "lookup_in (wr_state st io) = lookup_in io"
  "table_out (wr_lookup lf io) = table_out io" "table_out (wr_perf pf io) = table_out io"
  "table_out (wr_victim vf io) = table_out io" "table_out (wr_mshr i mf io) = table_out io"
  "table_out (wr_ctx m cf io) = table_out io" "table_out (wr_read_port m rf io) = table_out io"
  "table_out (wr_write_port m qf io) = table_out io" "table_out (wr_state st io) = table_out io"
  by (simp_all add: wr_lookup_def wr_perf_def wr_victim_def wr_mshr_def wr_ctx_def wr_read_port_def
      wr_write_port_def wr_state_def)

lemma ext_out_derived [simp]:
  "ext_out (wr_lookup lf io) = ext_out io" "ext_out (wr_perf pf io) = ext_out io" "ext_out (wr_victim vf io) = ext_out io"
  "ext_out (wr_mshr i mf io) = ext_out io" "ext_out (wr_ctx m cf io) = ext_out io" "ext_out (wr_read_port m rf io) = ext_out io"
  "ext_out (wr_write_port m qf io) = ext_out io" "ext_out (wr_state st io) = ext_out io"
  "out_read_req_ready (ext_out (drive_mem f io)) = out_read_req_ready (ext_out io)"
  "out_read_resp (ext_out (drive_mem f io)) = out_read_resp (ext_out io)"
  "out_write_req_ready (ext_out (drive_mem f io)) = out_write_req_ready (ext_out io)"
  "out_write_resp (ext_out (drive_mem f io)) = out_write_resp (ext_out io)"
  "out_mem (ext_out (drive_mem f io)) = f (out_mem (ext_out io))"
  "ext_out (table_write_data c x w p io) = ext_out io" "ext_out (table_write_meta x w e io) = ext_out io"
  "ext_out (table_write_valid c x w v io) = ext_out io" "ext_out (table_write_repl x n io) = ext_out io"
  by (simp_all add: wr_lookup_def wr_perf_def wr_victim_def wr_mshr_def wr_ctx_def wr_read_port_def
      wr_write_port_def wr_state_def drive_mem_def table_write_data_def table_write_meta_def table_write_valid_def
      table_write_repl_def split: option.split prod.split)

lemma reg_write_derived [simp]:
  "reg_write (wr_lookup lf io) = (reg_write io)\<lparr>lookup := lf (lookup (reg_write io))\<rparr>"
  "reg_write (wr_perf pf io) = (reg_write io)\<lparr>perf := pf (perf (reg_write io))\<rparr>"
  "reg_write (wr_victim vf io) = (reg_write io)\<lparr>victim_wb := vf (victim_wb (reg_write io))\<rparr>"
  "reg_write (wr_mshr i mf io) = (reg_write io)\<lparr>mshr := upd i mf (mshr (reg_write io))\<rparr>"
  "reg_write (wr_ctx m cf io) = (reg_write io)\<lparr>write_ctxs := upd m cf (write_ctxs (reg_write io))\<rparr>"
  "reg_write (wr_read_port m rf io) = (reg_write io)\<lparr>read_ports := upd m rf (read_ports (reg_write io))\<rparr>"
  "reg_write (wr_write_port m qf io) = (reg_write io)\<lparr>write_ports := upd m qf (write_ports (reg_write io))\<rparr>"
  "reg_write (wr_state st io) = (reg_write io)\<lparr>llc_st := st\<rparr>"
  by (simp_all add: wr_lookup_def wr_perf_def wr_victim_def wr_mshr_def wr_ctx_def wr_read_port_def
      wr_write_port_def wr_state_def)

lemma table_write_frames [simp]:
  "regs (table_write_data c x w p io) = regs io" "ext_in (table_write_data c x w p io) = ext_in io"
  "lookup_in (table_write_data c x w p io) = lookup_in io" "reg_write (table_write_data c x w p io) = reg_write io"
  "regs (table_write_meta x w e io) = regs io" "ext_in (table_write_meta x w e io) = ext_in io"
  "lookup_in (table_write_meta x w e io) = lookup_in io" "reg_write (table_write_meta x w e io) = reg_write io"
  "regs (table_write_valid c x w v io) = regs io" "ext_in (table_write_valid c x w v io) = ext_in io"
  "lookup_in (table_write_valid c x w v io) = lookup_in io" "reg_write (table_write_valid c x w v io) = reg_write io"
  "regs (table_write_repl x n io) = regs io" "ext_in (table_write_repl x n io) = ext_in io"
  "lookup_in (table_write_repl x n io) = lookup_in io" "reg_write (table_write_repl x n io) = reg_write io"
  by (simp_all add: table_write_data_def table_write_meta_def table_write_valid_def table_write_repl_def
      split: option.split prod.split)

section \<open>Current registers and inputs\<close>

text \<open>What no stage changes.\<close>

definition env_of :: "llc_io \<Rightarrow> llc_regs \<times> llc_ext_in \<times> llc_lookup_in" where
  "env_of io = (regs io, ext_in io, lookup_in io)"

lemma env_ofI: "regs a = regs b \<Longrightarrow> ext_in a = ext_in b \<Longrightarrow> lookup_in a = lookup_in b \<Longrightarrow> env_of a = env_of b"
  by (simp add: env_of_def)

lemma env_ofD: "env_of a = env_of b \<Longrightarrow> regs a = regs b \<and> ext_in a = ext_in b \<and> lookup_in a = lookup_in b"
  by (simp add: env_of_def)

lemma env_combinators [simp]:
  "env_of (wr f io) = env_of io" "env_of (wr_lookup lf io) = env_of io" "env_of (wr_perf pf io) = env_of io"
  "env_of (wr_victim vf io) = env_of io" "env_of (wr_mshr i mf io) = env_of io" "env_of (wr_ctx m cf io) = env_of io"
  "env_of (wr_read_port m rf io) = env_of io" "env_of (wr_write_port m qf io) = env_of io"
  "env_of (wr_state st io) = env_of io" "env_of (drive_mem df io) = env_of io" "env_of (drive_table tf io) = env_of io"
  "env_of (table_write_data c x w p io) = env_of io" "env_of (table_write_meta x w e io) = env_of io"
  "env_of (table_write_valid c x w v io) = env_of io" "env_of (table_write_repl x n io) = env_of io"
  "env_of (io\<lparr>ext_out := xo\<rparr>) = env_of io" "env_of (io\<lparr>aborted := ab\<rparr>) = env_of io"
  "env_of (io\<lparr>table_out := tb\<rparr>) = env_of io" "env_of (io\<lparr>reg_write := rw\<rparr>) = env_of io"
  by (simp_all add: env_of_def)

lemma env_enqueue [simp]:
  "env_of (snd (enqueue_read_response k m i d io)) = env_of io"
  "env_of (snd (enqueue_read_victim_snapshot k o' v d s io)) = env_of io"
  by (simp_all add: enqueue_read_response_def enqueue_read_victim_snapshot_def Let_def split: prod.split)

section \<open>Fields\<close>

lemma wr_fields:
  "lookup (reg_write (wr_lookup lf io)) = lf (lookup (reg_write io))"
  "mshr (reg_write (wr_lookup lf io)) = mshr (reg_write io)"
  "read_ports (reg_write (wr_lookup lf io)) = read_ports (reg_write io)"
  "write_ctxs (reg_write (wr_lookup lf io)) = write_ctxs (reg_write io)"
  "write_ports (reg_write (wr_lookup lf io)) = write_ports (reg_write io)"
  "victim_wb (reg_write (wr_lookup lf io)) = victim_wb (reg_write io)"
  "lookup (reg_write (wr_perf pf io)) = lookup (reg_write io)"
  "mshr (reg_write (wr_perf pf io)) = mshr (reg_write io)"
  "read_ports (reg_write (wr_perf pf io)) = read_ports (reg_write io)"
  "write_ctxs (reg_write (wr_perf pf io)) = write_ctxs (reg_write io)"
  "write_ports (reg_write (wr_perf pf io)) = write_ports (reg_write io)"
  "victim_wb (reg_write (wr_perf pf io)) = victim_wb (reg_write io)"
  "lookup (reg_write (wr_victim vf io)) = lookup (reg_write io)"
  "mshr (reg_write (wr_victim vf io)) = mshr (reg_write io)"
  "read_ports (reg_write (wr_victim vf io)) = read_ports (reg_write io)"
  "write_ctxs (reg_write (wr_victim vf io)) = write_ctxs (reg_write io)"
  "write_ports (reg_write (wr_victim vf io)) = write_ports (reg_write io)"
  "victim_wb (reg_write (wr_victim vf io)) = vf (victim_wb (reg_write io))"
  "lookup (reg_write (wr_mshr i mf io)) = lookup (reg_write io)"
  "mshr (reg_write (wr_mshr i mf io)) = upd i mf (mshr (reg_write io))"
  "read_ports (reg_write (wr_mshr i mf io)) = read_ports (reg_write io)"
  "write_ctxs (reg_write (wr_mshr i mf io)) = write_ctxs (reg_write io)"
  "write_ports (reg_write (wr_mshr i mf io)) = write_ports (reg_write io)"
  "victim_wb (reg_write (wr_mshr i mf io)) = victim_wb (reg_write io)"
  "lookup (reg_write (wr_ctx m cf io)) = lookup (reg_write io)"
  "mshr (reg_write (wr_ctx m cf io)) = mshr (reg_write io)"
  "read_ports (reg_write (wr_ctx m cf io)) = read_ports (reg_write io)"
  "write_ctxs (reg_write (wr_ctx m cf io)) = upd m cf (write_ctxs (reg_write io))"
  "write_ports (reg_write (wr_ctx m cf io)) = write_ports (reg_write io)"
  "victim_wb (reg_write (wr_ctx m cf io)) = victim_wb (reg_write io)"
  "lookup (reg_write (wr_read_port m rf io)) = lookup (reg_write io)"
  "mshr (reg_write (wr_read_port m rf io)) = mshr (reg_write io)"
  "read_ports (reg_write (wr_read_port m rf io)) = upd m rf (read_ports (reg_write io))"
  "write_ctxs (reg_write (wr_read_port m rf io)) = write_ctxs (reg_write io)"
  "write_ports (reg_write (wr_read_port m rf io)) = write_ports (reg_write io)"
  "victim_wb (reg_write (wr_read_port m rf io)) = victim_wb (reg_write io)"
  "lookup (reg_write (wr_write_port m qf io)) = lookup (reg_write io)"
  "mshr (reg_write (wr_write_port m qf io)) = mshr (reg_write io)"
  "read_ports (reg_write (wr_write_port m qf io)) = read_ports (reg_write io)"
  "write_ctxs (reg_write (wr_write_port m qf io)) = write_ctxs (reg_write io)"
  "write_ports (reg_write (wr_write_port m qf io)) = upd m qf (write_ports (reg_write io))"
  "victim_wb (reg_write (wr_write_port m qf io)) = victim_wb (reg_write io)"
  "lookup (reg_write (wr_state st io)) = lookup (reg_write io)"
  "mshr (reg_write (wr_state st io)) = mshr (reg_write io)"
  "read_ports (reg_write (wr_state st io)) = read_ports (reg_write io)"
  "write_ctxs (reg_write (wr_state st io)) = write_ctxs (reg_write io)"
  "write_ports (reg_write (wr_state st io)) = write_ports (reg_write io)"
  "victim_wb (reg_write (wr_state st io)) = victim_wb (reg_write io)"
  by simp_all

section \<open>Keys of miss entries and write contexts\<close>

text \<open>The fields that say what an entry stands for; the other fields change during its life.\<close>

definition ek :: "miss_entry \<Rightarrow> miss_entry" where
  "ek e = e\<lparr>ms_mode2 := undefined, ms_prefetch_train := undefined, ms_mem_req_issued := undefined, ms_addr := undefined, ms_tag := undefined, ms_total_size := undefined, ms_epoch := undefined, ms_mem_issue_cycle := undefined, ms_victim_dirty := undefined, ms_victim_writeback_done := undefined, ms_victim_addr := undefined, ms_victim_data := undefined, ms_refill_data := undefined\<rparr>"

definition wk :: "write_ctx \<Rightarrow> bool \<times> u8" where
  "wk x = (wc_valid x, wc_id x)"

lemma ek_update [simp]:
  "ek (e\<lparr>ms_mode2 := v0\<rparr>) = ek e"
  "ek (e\<lparr>ms_prefetch_train := v1\<rparr>) = ek e"
  "ek (e\<lparr>ms_mem_req_issued := v2\<rparr>) = ek e"
  "ek (e\<lparr>ms_addr := v3\<rparr>) = ek e"
  "ek (e\<lparr>ms_tag := v4\<rparr>) = ek e"
  "ek (e\<lparr>ms_total_size := v5\<rparr>) = ek e"
  "ek (e\<lparr>ms_epoch := v6\<rparr>) = ek e"
  "ek (e\<lparr>ms_mem_issue_cycle := v7\<rparr>) = ek e"
  "ek (e\<lparr>ms_victim_dirty := v8\<rparr>) = ek e"
  "ek (e\<lparr>ms_victim_writeback_done := v9\<rparr>) = ek e"
  "ek (e\<lparr>ms_victim_addr := v10\<rparr>) = ek e"
  "ek (e\<lparr>ms_victim_data := v11\<rparr>) = ek e"
  "ek (e\<lparr>ms_refill_data := v12\<rparr>) = ek e"
  by (simp_all add: ek_def)

lemma ek_select:
  "ms_valid (ek e) = ms_valid e"
  "ms_bypass (ek e) = ms_bypass e"
  "ms_is_prefetch (ek e) = ms_is_prefetch e"
  "ms_is_write (ek e) = ms_is_write e"
  "ms_refill_valid (ek e) = ms_refill_valid e"
  "ms_refill_committed (ek e) = ms_refill_committed e"
  "ms_line_addr (ek e) = ms_line_addr e"
  "ms_set (ek e) = ms_set e"
  "ms_way (ek e) = ms_way e"
  "ms_master (ek e) = ms_master e"
  "ms_id (ek e) = ms_id e"
  by (simp_all add: ek_def)

lemma wk_update [simp]:
  "wk (x\<lparr>wc_bypass := v0\<rparr>) = wk x"
  "wk (x\<lparr>wc_direct_mapped := v1\<rparr>) = wk x"
  "wk (x\<lparr>wc_mode2 := v2\<rparr>) = wk x"
  "wk (x\<lparr>wc_lookup_pending := v3\<rparr>) = wk x"
  "wk (x\<lparr>wc_mem_issued := v4\<rparr>) = wk x"
  "wk (x\<lparr>wc_mem_done := v5\<rparr>) = wk x"
  "wk (x\<lparr>wc_cache_done := v6\<rparr>) = wk x"
  "wk (x\<lparr>wc_cache_pending := v7\<rparr>) = wk x"
  "wk (x\<lparr>wc_victim_mem_done := v8\<rparr>) = wk x"
  "wk (x\<lparr>wc_victim_dirty := v9\<rparr>) = wk x"
  "wk (x\<lparr>wc_total_size := v10\<rparr>) = wk x"
  "wk (x\<lparr>wc_mem_resp_code := v11\<rparr>) = wk x"
  "wk (x\<lparr>wc_addr := v12\<rparr>) = wk x"
  "wk (x\<lparr>wc_line_addr := v13\<rparr>) = wk x"
  "wk (x\<lparr>wc_victim_addr := v14\<rparr>) = wk x"
  "wk (x\<lparr>wc_set := v15\<rparr>) = wk x"
  "wk (x\<lparr>wc_way := v16\<rparr>) = wk x"
  "wk (x\<lparr>wc_repl_next_way := v17\<rparr>) = wk x"
  "wk (x\<lparr>wc_tag := v18\<rparr>) = wk x"
  "wk (x\<lparr>wc_mem_issue_cycle := v19\<rparr>) = wk x"
  "wk (x\<lparr>wc_data := v20\<rparr>) = wk x"
  "wk (x\<lparr>wc_strobe := v21\<rparr>) = wk x"
  "wk (x\<lparr>wc_line := v22\<rparr>) = wk x"
  by (simp_all add: wk_def)

lemma map_upd_same [simp]: "(\<And>x. g (f x) = g x) \<Longrightarrow> map g (upd i f xs) = map g xs"
  by (cases "i < length xs") (simp_all add: upd_def map_update list_update_same_conv list_update_beyond)

section \<open>Stages\<close>

lemma masters_upt: "[0..<NUM_READ_MASTERS] = [0, 1, 2, 3]" "[0..<NUM_WRITE_MASTERS] = [0, 1]"
  by (simp_all add: NUM_READ_MASTERS_def NUM_WRITE_MASTERS_def upt_rec)

lemma enqueue_frame [llc_frame]:
  "env_of (snd (enqueue_read_response k m rid d io)) = env_of io"
  "lookup (reg_write (snd (enqueue_read_response k m rid d io))) = lookup (reg_write io)"
  "mshr (reg_write (snd (enqueue_read_response k m rid d io))) = mshr (reg_write io)"
  "write_ctxs (reg_write (snd (enqueue_read_response k m rid d io))) = write_ctxs (reg_write io)"
  "write_ports (reg_write (snd (enqueue_read_response k m rid d io))) = write_ports (reg_write io)"
  "victim_wb (reg_write (snd (enqueue_read_response k m rid d io))) = victim_wb (reg_write io)"
  "victim_q (reg_write (snd (enqueue_read_response k m rid d io))) = victim_q (reg_write io)"
  "invalidate_epoch_r (reg_write (snd (enqueue_read_response k m rid d io))) = invalidate_epoch_r (reg_write io)"
  "dirty_line_count_r (reg_write (snd (enqueue_read_response k m rid d io))) = dirty_line_count_r (reg_write io)"
  "out_read_req_ready (ext_out (snd (enqueue_read_response k m rid d io))) = out_read_req_ready (ext_out io)"
  "out_read_resp (ext_out (snd (enqueue_read_response k m rid d io))) = out_read_resp (ext_out io)"
  "out_write_req_ready (ext_out (snd (enqueue_read_response k m rid d io))) = out_write_req_ready (ext_out io)"
  "out_write_resp (ext_out (snd (enqueue_read_response k m rid d io))) = out_write_resp (ext_out io)"
  "mo_write_resp_ready (out_mem (ext_out (snd (enqueue_read_response k m rid d io)))) = mo_write_resp_ready (out_mem (ext_out io))"
  "invalidate_all_accepted (out_mem (ext_out (snd (enqueue_read_response k m rid d io)))) = invalidate_all_accepted (out_mem (ext_out io))"
  by (simp_all add: enqueue_read_response_def Let_def split: option.split prod.split)

lemma drive_read_response_frame [llc_frame]:
  "env_of (drive_read_response k m io) = env_of io"
  "lookup (reg_write (drive_read_response k m io)) = lookup (reg_write io)"
  "mshr (reg_write (drive_read_response k m io)) = mshr (reg_write io)"
  "write_ctxs (reg_write (drive_read_response k m io)) = write_ctxs (reg_write io)"
  "write_ports (reg_write (drive_read_response k m io)) = write_ports (reg_write io)"
  "victim_wb (reg_write (drive_read_response k m io)) = victim_wb (reg_write io)"
  "victim_q (reg_write (drive_read_response k m io)) = victim_q (reg_write io)"
  "invalidate_epoch_r (reg_write (drive_read_response k m io)) = invalidate_epoch_r (reg_write io)"
  "dirty_line_count_r (reg_write (drive_read_response k m io)) = dirty_line_count_r (reg_write io)"
  "out_read_req_ready (ext_out (drive_read_response k m io)) = out_read_req_ready (ext_out io)"
  "out_write_req_ready (ext_out (drive_read_response k m io)) = out_write_req_ready (ext_out io)"
  "out_write_resp (ext_out (drive_read_response k m io)) = out_write_resp (ext_out io)"
  "mo_write_resp_ready (out_mem (ext_out (drive_read_response k m io))) = mo_write_resp_ready (out_mem (ext_out io))"
  "invalidate_all_accepted (out_mem (ext_out (drive_read_response k m io))) = invalidate_all_accepted (out_mem (ext_out io))"
  by (simp_all add: drive_read_response_def Let_def split: option.split prod.split)

lemma drive_read_responses_frame [llc_frame]:
  "env_of (drive_read_responses k io) = env_of io"
  "lookup (reg_write (drive_read_responses k io)) = lookup (reg_write io)"
  "mshr (reg_write (drive_read_responses k io)) = mshr (reg_write io)"
  "write_ctxs (reg_write (drive_read_responses k io)) = write_ctxs (reg_write io)"
  "write_ports (reg_write (drive_read_responses k io)) = write_ports (reg_write io)"
  "victim_wb (reg_write (drive_read_responses k io)) = victim_wb (reg_write io)"
  "victim_q (reg_write (drive_read_responses k io)) = victim_q (reg_write io)"
  "invalidate_epoch_r (reg_write (drive_read_responses k io)) = invalidate_epoch_r (reg_write io)"
  "dirty_line_count_r (reg_write (drive_read_responses k io)) = dirty_line_count_r (reg_write io)"
  "out_read_req_ready (ext_out (drive_read_responses k io)) = out_read_req_ready (ext_out io)"
  "out_write_req_ready (ext_out (drive_read_responses k io)) = out_write_req_ready (ext_out io)"
  "out_write_resp (ext_out (drive_read_responses k io)) = out_write_resp (ext_out io)"
  "mo_write_resp_ready (out_mem (ext_out (drive_read_responses k io))) = mo_write_resp_ready (out_mem (ext_out io))"
  "invalidate_all_accepted (out_mem (ext_out (drive_read_responses k io))) = invalidate_all_accepted (out_mem (ext_out io))"
  by (simp_all add: drive_read_responses_def masters_upt llc_frame)

lemma enqueue_victim_frame [llc_frame]:
  "env_of (snd (enqueue_read_victim_snapshot k ow v d st io)) = env_of io"
  "lookup (reg_write (snd (enqueue_read_victim_snapshot k ow v d st io))) = lookup (reg_write io)"
  "mshr (reg_write (snd (enqueue_read_victim_snapshot k ow v d st io))) = mshr (reg_write io)"
  "read_ports (reg_write (snd (enqueue_read_victim_snapshot k ow v d st io))) = read_ports (reg_write io)"
  "write_ctxs (reg_write (snd (enqueue_read_victim_snapshot k ow v d st io))) = write_ctxs (reg_write io)"
  "write_ports (reg_write (snd (enqueue_read_victim_snapshot k ow v d st io))) = write_ports (reg_write io)"
  "victim_wb (reg_write (snd (enqueue_read_victim_snapshot k ow v d st io))) = victim_wb (reg_write io)"
  "invalidate_epoch_r (reg_write (snd (enqueue_read_victim_snapshot k ow v d st io))) = invalidate_epoch_r (reg_write io)"
  "dirty_line_count_r (reg_write (snd (enqueue_read_victim_snapshot k ow v d st io))) = dirty_line_count_r (reg_write io)"
  "out_read_req_ready (ext_out (snd (enqueue_read_victim_snapshot k ow v d st io))) = out_read_req_ready (ext_out io)"
  "out_read_resp (ext_out (snd (enqueue_read_victim_snapshot k ow v d st io))) = out_read_resp (ext_out io)"
  "out_write_req_ready (ext_out (snd (enqueue_read_victim_snapshot k ow v d st io))) = out_write_req_ready (ext_out io)"
  "out_write_resp (ext_out (snd (enqueue_read_victim_snapshot k ow v d st io))) = out_write_resp (ext_out io)"
  "mo_write_resp_ready (out_mem (ext_out (snd (enqueue_read_victim_snapshot k ow v d st io)))) = mo_write_resp_ready (out_mem (ext_out io))"
  "invalidate_all_accepted (out_mem (ext_out (snd (enqueue_read_victim_snapshot k ow v d st io)))) = invalidate_all_accepted (out_mem (ext_out io))"
  by (simp_all add: enqueue_read_victim_snapshot_def Let_def split: option.split prod.split)

lemma try_commit_frame [llc_frame]:
  "env_of (snd (try_commit_write_ctx_after_victim c m io)) = env_of io"
  "lookup (reg_write (snd (try_commit_write_ctx_after_victim c m io))) = lookup (reg_write io)"
  "mshr (reg_write (snd (try_commit_write_ctx_after_victim c m io))) = mshr (reg_write io)"
  "read_ports (reg_write (snd (try_commit_write_ctx_after_victim c m io))) = read_ports (reg_write io)"
  "write_ports (reg_write (snd (try_commit_write_ctx_after_victim c m io))) = write_ports (reg_write io)"
  "victim_wb (reg_write (snd (try_commit_write_ctx_after_victim c m io))) = victim_wb (reg_write io)"
  "victim_q (reg_write (snd (try_commit_write_ctx_after_victim c m io))) = victim_q (reg_write io)"
  "invalidate_epoch_r (reg_write (snd (try_commit_write_ctx_after_victim c m io))) = invalidate_epoch_r (reg_write io)"
  "dirty_line_count_r (reg_write (snd (try_commit_write_ctx_after_victim c m io))) = dirty_line_count_r (reg_write io)"
  "map wk (write_ctxs (reg_write (snd (try_commit_write_ctx_after_victim c m io)))) = map wk (write_ctxs (reg_write io))"
  "out_read_req_ready (ext_out (snd (try_commit_write_ctx_after_victim c m io))) = out_read_req_ready (ext_out io)"
  "out_read_resp (ext_out (snd (try_commit_write_ctx_after_victim c m io))) = out_read_resp (ext_out io)"
  "out_write_req_ready (ext_out (snd (try_commit_write_ctx_after_victim c m io))) = out_write_req_ready (ext_out io)"
  "out_write_resp (ext_out (snd (try_commit_write_ctx_after_victim c m io))) = out_write_resp (ext_out io)"
  "mo_write_resp_ready (out_mem (ext_out (snd (try_commit_write_ctx_after_victim c m io)))) = mo_write_resp_ready (out_mem (ext_out io))"
  "invalidate_all_accepted (out_mem (ext_out (snd (try_commit_write_ctx_after_victim c m io)))) = invalidate_all_accepted (out_mem (ext_out io))"
  by (simp_all add: try_commit_write_ctx_after_victim_def Let_def split: option.split prod.split)

lemma write_resp_handshake_frame [llc_frame]:
  "env_of (write_resp_handshake m io) = env_of io"
  "lookup (reg_write (write_resp_handshake m io)) = lookup (reg_write io)"
  "mshr (reg_write (write_resp_handshake m io)) = mshr (reg_write io)"
  "read_ports (reg_write (write_resp_handshake m io)) = read_ports (reg_write io)"
  "write_ctxs (reg_write (write_resp_handshake m io)) = write_ctxs (reg_write io)"
  "victim_wb (reg_write (write_resp_handshake m io)) = victim_wb (reg_write io)"
  "victim_q (reg_write (write_resp_handshake m io)) = victim_q (reg_write io)"
  "invalidate_epoch_r (reg_write (write_resp_handshake m io)) = invalidate_epoch_r (reg_write io)"
  "dirty_line_count_r (reg_write (write_resp_handshake m io)) = dirty_line_count_r (reg_write io)"
  "out_read_req_ready (ext_out (write_resp_handshake m io)) = out_read_req_ready (ext_out io)"
  "out_read_resp (ext_out (write_resp_handshake m io)) = out_read_resp (ext_out io)"
  "out_write_req_ready (ext_out (write_resp_handshake m io)) = out_write_req_ready (ext_out io)"
  "mo_write_resp_ready (out_mem (ext_out (write_resp_handshake m io))) = mo_write_resp_ready (out_mem (ext_out io))"
  "invalidate_all_accepted (out_mem (ext_out (write_resp_handshake m io))) = invalidate_all_accepted (out_mem (ext_out io))"
  by (simp_all add: write_resp_handshake_def Let_def split: option.split prod.split)

lemma count_ddr_write_frame [llc_frame]:
  "env_of (count_ddr_write n io) = env_of io"
  "lookup (reg_write (count_ddr_write n io)) = lookup (reg_write io)"
  "mshr (reg_write (count_ddr_write n io)) = mshr (reg_write io)"
  "read_ports (reg_write (count_ddr_write n io)) = read_ports (reg_write io)"
  "write_ctxs (reg_write (count_ddr_write n io)) = write_ctxs (reg_write io)"
  "write_ports (reg_write (count_ddr_write n io)) = write_ports (reg_write io)"
  "victim_wb (reg_write (count_ddr_write n io)) = victim_wb (reg_write io)"
  "victim_q (reg_write (count_ddr_write n io)) = victim_q (reg_write io)"
  "invalidate_epoch_r (reg_write (count_ddr_write n io)) = invalidate_epoch_r (reg_write io)"
  "dirty_line_count_r (reg_write (count_ddr_write n io)) = dirty_line_count_r (reg_write io)"
  "out_read_req_ready (ext_out (count_ddr_write n io)) = out_read_req_ready (ext_out io)"
  "out_read_resp (ext_out (count_ddr_write n io)) = out_read_resp (ext_out io)"
  "out_write_req_ready (ext_out (count_ddr_write n io)) = out_write_req_ready (ext_out io)"
  "out_write_resp (ext_out (count_ddr_write n io)) = out_write_resp (ext_out io)"
  "mo_write_resp_ready (out_mem (ext_out (count_ddr_write n io))) = mo_write_resp_ready (out_mem (ext_out io))"
  "invalidate_all_accepted (out_mem (ext_out (count_ddr_write n io))) = invalidate_all_accepted (out_mem (ext_out io))"
  by (simp_all add: count_ddr_write_def Let_def split: option.split prod.split)

lemma read_victim_written_frame [llc_frame]:
  "env_of (read_victim_written k c io) = env_of io"
  "lookup (reg_write (read_victim_written k c io)) = lookup (reg_write io)"
  "read_ports (reg_write (read_victim_written k c io)) = read_ports (reg_write io)"
  "write_ctxs (reg_write (read_victim_written k c io)) = write_ctxs (reg_write io)"
  "write_ports (reg_write (read_victim_written k c io)) = write_ports (reg_write io)"
  "victim_wb (reg_write (read_victim_written k c io)) = victim_wb (reg_write io)"
  "invalidate_epoch_r (reg_write (read_victim_written k c io)) = invalidate_epoch_r (reg_write io)"
  "dirty_line_count_r (reg_write (read_victim_written k c io)) = dirty_line_count_r (reg_write io)"
  "map ek (mshr (reg_write (read_victim_written k c io))) = map ek (mshr (reg_write io))"
  "out_read_req_ready (ext_out (read_victim_written k c io)) = out_read_req_ready (ext_out io)"
  "out_read_resp (ext_out (read_victim_written k c io)) = out_read_resp (ext_out io)"
  "out_write_req_ready (ext_out (read_victim_written k c io)) = out_write_req_ready (ext_out io)"
  "out_write_resp (ext_out (read_victim_written k c io)) = out_write_resp (ext_out io)"
  "mo_write_resp_ready (out_mem (ext_out (read_victim_written k c io))) = mo_write_resp_ready (out_mem (ext_out io))"
  "invalidate_all_accepted (out_mem (ext_out (read_victim_written k c io))) = invalidate_all_accepted (out_mem (ext_out io))"
  by (simp_all add: read_victim_written_def Let_def split: option.split prod.split)

lemma write_mem_response_frame [llc_frame]:
  "env_of (write_mem_response k c io) = env_of io"
  "lookup (reg_write (write_mem_response k c io)) = lookup (reg_write io)"
  "read_ports (reg_write (write_mem_response k c io)) = read_ports (reg_write io)"
  "write_ports (reg_write (write_mem_response k c io)) = write_ports (reg_write io)"
  "invalidate_epoch_r (reg_write (write_mem_response k c io)) = invalidate_epoch_r (reg_write io)"
  "dirty_line_count_r (reg_write (write_mem_response k c io)) = dirty_line_count_r (reg_write io)"
  "map ek (mshr (reg_write (write_mem_response k c io))) = map ek (mshr (reg_write io))"
  "map wk (write_ctxs (reg_write (write_mem_response k c io))) = map wk (write_ctxs (reg_write io))"
  "out_read_req_ready (ext_out (write_mem_response k c io)) = out_read_req_ready (ext_out io)"
  "out_read_resp (ext_out (write_mem_response k c io)) = out_read_resp (ext_out io)"
  "out_write_req_ready (ext_out (write_mem_response k c io)) = out_write_req_ready (ext_out io)"
  "out_write_resp (ext_out (write_mem_response k c io)) = out_write_resp (ext_out io)"
  "invalidate_all_accepted (out_mem (ext_out (write_mem_response k c io))) = invalidate_all_accepted (out_mem (ext_out io))"
  by (simp_all add: write_mem_response_def Let_def llc_frame split: option.split prod.split)

lemma commit_first_frame [llc_frame]:
  "env_of (commit_first c ms io) = env_of io"
  "lookup (reg_write (commit_first c ms io)) = lookup (reg_write io)"
  "mshr (reg_write (commit_first c ms io)) = mshr (reg_write io)"
  "read_ports (reg_write (commit_first c ms io)) = read_ports (reg_write io)"
  "write_ports (reg_write (commit_first c ms io)) = write_ports (reg_write io)"
  "victim_wb (reg_write (commit_first c ms io)) = victim_wb (reg_write io)"
  "victim_q (reg_write (commit_first c ms io)) = victim_q (reg_write io)"
  "invalidate_epoch_r (reg_write (commit_first c ms io)) = invalidate_epoch_r (reg_write io)"
  "dirty_line_count_r (reg_write (commit_first c ms io)) = dirty_line_count_r (reg_write io)"
  "map wk (write_ctxs (reg_write (commit_first c ms io))) = map wk (write_ctxs (reg_write io))"
  "out_read_req_ready (ext_out (commit_first c ms io)) = out_read_req_ready (ext_out io)"
  "out_read_resp (ext_out (commit_first c ms io)) = out_read_resp (ext_out io)"
  "out_write_req_ready (ext_out (commit_first c ms io)) = out_write_req_ready (ext_out io)"
  "out_write_resp (ext_out (commit_first c ms io)) = out_write_resp (ext_out io)"
  "mo_write_resp_ready (out_mem (ext_out (commit_first c ms io))) = mo_write_resp_ready (out_mem (ext_out io))"
  "invalidate_all_accepted (out_mem (ext_out (commit_first c ms io))) = invalidate_all_accepted (out_mem (ext_out io))"
  by (induction ms arbitrary: io;
      simp add: llc_frame split: prod.split; metis snd_conv try_commit_frame)+

lemma promote_frame [llc_frame]:
  "env_of (promote_write_ctx k m io) = env_of io"
  "lookup (reg_write (promote_write_ctx k m io)) = lookup (reg_write io)"
  "mshr (reg_write (promote_write_ctx k m io)) = mshr (reg_write io)"
  "read_ports (reg_write (promote_write_ctx k m io)) = read_ports (reg_write io)"
  "victim_wb (reg_write (promote_write_ctx k m io)) = victim_wb (reg_write io)"
  "victim_q (reg_write (promote_write_ctx k m io)) = victim_q (reg_write io)"
  "invalidate_epoch_r (reg_write (promote_write_ctx k m io)) = invalidate_epoch_r (reg_write io)"
  "dirty_line_count_r (reg_write (promote_write_ctx k m io)) = dirty_line_count_r (reg_write io)"
  "out_read_req_ready (ext_out (promote_write_ctx k m io)) = out_read_req_ready (ext_out io)"
  "out_read_resp (ext_out (promote_write_ctx k m io)) = out_read_resp (ext_out io)"
  "out_write_req_ready (ext_out (promote_write_ctx k m io)) = out_write_req_ready (ext_out io)"
  "out_write_resp (ext_out (promote_write_ctx k m io)) = out_write_resp (ext_out io)"
  "mo_write_resp_ready (out_mem (ext_out (promote_write_ctx k m io))) = mo_write_resp_ready (out_mem (ext_out io))"
  "invalidate_all_accepted (out_mem (ext_out (promote_write_ctx k m io))) = invalidate_all_accepted (out_mem (ext_out io))"
  by (simp_all add: promote_write_ctx_def Let_def split: option.split prod.split)

lemma arm_queued_victim_frame [llc_frame]:
  "env_of (arm_queued_victim k io) = env_of io"
  "lookup (reg_write (arm_queued_victim k io)) = lookup (reg_write io)"
  "mshr (reg_write (arm_queued_victim k io)) = mshr (reg_write io)"
  "read_ports (reg_write (arm_queued_victim k io)) = read_ports (reg_write io)"
  "write_ctxs (reg_write (arm_queued_victim k io)) = write_ctxs (reg_write io)"
  "write_ports (reg_write (arm_queued_victim k io)) = write_ports (reg_write io)"
  "victim_q (reg_write (arm_queued_victim k io)) = victim_q (reg_write io)"
  "invalidate_epoch_r (reg_write (arm_queued_victim k io)) = invalidate_epoch_r (reg_write io)"
  "dirty_line_count_r (reg_write (arm_queued_victim k io)) = dirty_line_count_r (reg_write io)"
  "out_read_req_ready (ext_out (arm_queued_victim k io)) = out_read_req_ready (ext_out io)"
  "out_read_resp (ext_out (arm_queued_victim k io)) = out_read_resp (ext_out io)"
  "out_write_req_ready (ext_out (arm_queued_victim k io)) = out_write_req_ready (ext_out io)"
  "out_write_resp (ext_out (arm_queued_victim k io)) = out_write_resp (ext_out io)"
  "mo_write_resp_ready (out_mem (ext_out (arm_queued_victim k io))) = mo_write_resp_ready (out_mem (ext_out io))"
  "invalidate_all_accepted (out_mem (ext_out (arm_queued_victim k io))) = invalidate_all_accepted (out_mem (ext_out io))"
  by (simp_all add: arm_queued_victim_def Let_def split: option.split prod.split)

lemma issue_victim_frame [llc_frame]:
  "env_of (issue_victim c io) = env_of io"
  "lookup (reg_write (issue_victim c io)) = lookup (reg_write io)"
  "mshr (reg_write (issue_victim c io)) = mshr (reg_write io)"
  "read_ports (reg_write (issue_victim c io)) = read_ports (reg_write io)"
  "write_ctxs (reg_write (issue_victim c io)) = write_ctxs (reg_write io)"
  "write_ports (reg_write (issue_victim c io)) = write_ports (reg_write io)"
  "victim_q (reg_write (issue_victim c io)) = victim_q (reg_write io)"
  "invalidate_epoch_r (reg_write (issue_victim c io)) = invalidate_epoch_r (reg_write io)"
  "dirty_line_count_r (reg_write (issue_victim c io)) = dirty_line_count_r (reg_write io)"
  "out_read_req_ready (ext_out (issue_victim c io)) = out_read_req_ready (ext_out io)"
  "out_read_resp (ext_out (issue_victim c io)) = out_read_resp (ext_out io)"
  "out_write_req_ready (ext_out (issue_victim c io)) = out_write_req_ready (ext_out io)"
  "out_write_resp (ext_out (issue_victim c io)) = out_write_resp (ext_out io)"
  "mo_write_resp_ready (out_mem (ext_out (issue_victim c io))) = mo_write_resp_ready (out_mem (ext_out io))"
  "invalidate_all_accepted (out_mem (ext_out (issue_victim c io))) = invalidate_all_accepted (out_mem (ext_out io))"
  by (simp_all add: issue_victim_def Let_def split: option.split prod.split)

lemma issue_bypass_write_frame [llc_frame]:
  "env_of (issue_bypass_write io) = env_of io"
  "lookup (reg_write (issue_bypass_write io)) = lookup (reg_write io)"
  "mshr (reg_write (issue_bypass_write io)) = mshr (reg_write io)"
  "read_ports (reg_write (issue_bypass_write io)) = read_ports (reg_write io)"
  "write_ports (reg_write (issue_bypass_write io)) = write_ports (reg_write io)"
  "victim_wb (reg_write (issue_bypass_write io)) = victim_wb (reg_write io)"
  "victim_q (reg_write (issue_bypass_write io)) = victim_q (reg_write io)"
  "invalidate_epoch_r (reg_write (issue_bypass_write io)) = invalidate_epoch_r (reg_write io)"
  "dirty_line_count_r (reg_write (issue_bypass_write io)) = dirty_line_count_r (reg_write io)"
  "map wk (write_ctxs (reg_write (issue_bypass_write io))) = map wk (write_ctxs (reg_write io))"
  "out_read_req_ready (ext_out (issue_bypass_write io)) = out_read_req_ready (ext_out io)"
  "out_read_resp (ext_out (issue_bypass_write io)) = out_read_resp (ext_out io)"
  "out_write_req_ready (ext_out (issue_bypass_write io)) = out_write_req_ready (ext_out io)"
  "out_write_resp (ext_out (issue_bypass_write io)) = out_write_resp (ext_out io)"
  "mo_write_resp_ready (out_mem (ext_out (issue_bypass_write io))) = mo_write_resp_ready (out_mem (ext_out io))"
  "invalidate_all_accepted (out_mem (ext_out (issue_bypass_write io))) = invalidate_all_accepted (out_mem (ext_out io))"
  by (simp_all add: issue_bypass_write_def Let_def split: option.split prod.split)

lemma accept_write_frame [llc_frame]:
  "env_of (accept_write k c io) = env_of io"
  "lookup (reg_write (accept_write k c io)) = lookup (reg_write io)"
  "mshr (reg_write (accept_write k c io)) = mshr (reg_write io)"
  "read_ports (reg_write (accept_write k c io)) = read_ports (reg_write io)"
  "write_ctxs (reg_write (accept_write k c io)) = write_ctxs (reg_write io)"
  "victim_wb (reg_write (accept_write k c io)) = victim_wb (reg_write io)"
  "victim_q (reg_write (accept_write k c io)) = victim_q (reg_write io)"
  "invalidate_epoch_r (reg_write (accept_write k c io)) = invalidate_epoch_r (reg_write io)"
  "dirty_line_count_r (reg_write (accept_write k c io)) = dirty_line_count_r (reg_write io)"
  "out_read_req_ready (ext_out (accept_write k c io)) = out_read_req_ready (ext_out io)"
  "out_read_resp (ext_out (accept_write k c io)) = out_read_resp (ext_out io)"
  "out_write_resp (ext_out (accept_write k c io)) = out_write_resp (ext_out io)"
  "mo_write_resp_ready (out_mem (ext_out (accept_write k c io))) = mo_write_resp_ready (out_mem (ext_out io))"
  "invalidate_all_accepted (out_mem (ext_out (accept_write k c io))) = invalidate_all_accepted (out_mem (ext_out io))"
  by (simp_all add: accept_write_def Let_def split: option.split prod.split)

lemma alloc_write_ctx_frame [llc_frame]:
  "env_of (alloc_write_ctx k c m io) = env_of io"
  "lookup (reg_write (alloc_write_ctx k c m io)) = lookup (reg_write io)"
  "mshr (reg_write (alloc_write_ctx k c m io)) = mshr (reg_write io)"
  "read_ports (reg_write (alloc_write_ctx k c m io)) = read_ports (reg_write io)"
  "victim_wb (reg_write (alloc_write_ctx k c m io)) = victim_wb (reg_write io)"
  "victim_q (reg_write (alloc_write_ctx k c m io)) = victim_q (reg_write io)"
  "invalidate_epoch_r (reg_write (alloc_write_ctx k c m io)) = invalidate_epoch_r (reg_write io)"
  "dirty_line_count_r (reg_write (alloc_write_ctx k c m io)) = dirty_line_count_r (reg_write io)"
  "out_read_req_ready (ext_out (alloc_write_ctx k c m io)) = out_read_req_ready (ext_out io)"
  "out_read_resp (ext_out (alloc_write_ctx k c m io)) = out_read_resp (ext_out io)"
  "out_write_req_ready (ext_out (alloc_write_ctx k c m io)) = out_write_req_ready (ext_out io)"
  "out_write_resp (ext_out (alloc_write_ctx k c m io)) = out_write_resp (ext_out io)"
  "mo_write_resp_ready (out_mem (ext_out (alloc_write_ctx k c m io))) = mo_write_resp_ready (out_mem (ext_out io))"
  "invalidate_all_accepted (out_mem (ext_out (alloc_write_ctx k c m io))) = invalidate_all_accepted (out_mem (ext_out io))"
  by (simp_all add: alloc_write_ctx_def Let_def split: option.split prod.split)

lemma launch_write_lookup_frame [llc_frame]:
  "env_of (try_launch_pending_write_lookup io) = env_of io"
  "mshr (reg_write (try_launch_pending_write_lookup io)) = mshr (reg_write io)"
  "read_ports (reg_write (try_launch_pending_write_lookup io)) = read_ports (reg_write io)"
  "write_ports (reg_write (try_launch_pending_write_lookup io)) = write_ports (reg_write io)"
  "victim_wb (reg_write (try_launch_pending_write_lookup io)) = victim_wb (reg_write io)"
  "victim_q (reg_write (try_launch_pending_write_lookup io)) = victim_q (reg_write io)"
  "invalidate_epoch_r (reg_write (try_launch_pending_write_lookup io)) = invalidate_epoch_r (reg_write io)"
  "dirty_line_count_r (reg_write (try_launch_pending_write_lookup io)) = dirty_line_count_r (reg_write io)"
  "map wk (write_ctxs (reg_write (try_launch_pending_write_lookup io))) = map wk (write_ctxs (reg_write io))"
  "out_read_req_ready (ext_out (try_launch_pending_write_lookup io)) = out_read_req_ready (ext_out io)"
  "out_read_resp (ext_out (try_launch_pending_write_lookup io)) = out_read_resp (ext_out io)"
  "out_write_req_ready (ext_out (try_launch_pending_write_lookup io)) = out_write_req_ready (ext_out io)"
  "out_write_resp (ext_out (try_launch_pending_write_lookup io)) = out_write_resp (ext_out io)"
  "mo_write_resp_ready (out_mem (ext_out (try_launch_pending_write_lookup io))) = mo_write_resp_ready (out_mem (ext_out io))"
  "invalidate_all_accepted (out_mem (ext_out (try_launch_pending_write_lookup io))) = invalidate_all_accepted (out_mem (ext_out io))"
  by (simp_all add: try_launch_pending_write_lookup_def Let_def split: option.split prod.split)

lemma drive_new_writes_frame [llc_frame]:
  "env_of (drive_new_writes k c io) = env_of io"
  "mshr (reg_write (drive_new_writes k c io)) = mshr (reg_write io)"
  "read_ports (reg_write (drive_new_writes k c io)) = read_ports (reg_write io)"
  "victim_wb (reg_write (drive_new_writes k c io)) = victim_wb (reg_write io)"
  "victim_q (reg_write (drive_new_writes k c io)) = victim_q (reg_write io)"
  "invalidate_epoch_r (reg_write (drive_new_writes k c io)) = invalidate_epoch_r (reg_write io)"
  "dirty_line_count_r (reg_write (drive_new_writes k c io)) = dirty_line_count_r (reg_write io)"
  "out_read_req_ready (ext_out (drive_new_writes k c io)) = out_read_req_ready (ext_out io)"
  "out_read_resp (ext_out (drive_new_writes k c io)) = out_read_resp (ext_out io)"
  "out_write_resp (ext_out (drive_new_writes k c io)) = out_write_resp (ext_out io)"
  "mo_write_resp_ready (out_mem (ext_out (drive_new_writes k c io))) = mo_write_resp_ready (out_mem (ext_out io))"
  "invalidate_all_accepted (out_mem (ext_out (drive_new_writes k c io))) = invalidate_all_accepted (out_mem (ext_out io))"
  by (simp_all add: drive_new_writes_def masters_upt Let_def llc_frame)

lemma drive_write_path_frame [llc_frame]:
  "env_of (drive_write_path k c io) = env_of io"
  "read_ports (reg_write (drive_write_path k c io)) = read_ports (reg_write io)"
  "invalidate_epoch_r (reg_write (drive_write_path k c io)) = invalidate_epoch_r (reg_write io)"
  "dirty_line_count_r (reg_write (drive_write_path k c io)) = dirty_line_count_r (reg_write io)"
  "map ek (mshr (reg_write (drive_write_path k c io))) = map ek (mshr (reg_write io))"
  "out_read_req_ready (ext_out (drive_write_path k c io)) = out_read_req_ready (ext_out io)"
  "out_read_resp (ext_out (drive_write_path k c io)) = out_read_resp (ext_out io)"
  "invalidate_all_accepted (out_mem (ext_out (drive_write_path k c io))) = invalidate_all_accepted (out_mem (ext_out io))"
  by (simp_all add: drive_write_path_def masters_upt Let_def llc_frame del: commit_first.simps)

lemma retry_lookup_frame [llc_frame]:
  "env_of (retry_lookup st io) = env_of io"
  "mshr (reg_write (retry_lookup st io)) = mshr (reg_write io)"
  "read_ports (reg_write (retry_lookup st io)) = read_ports (reg_write io)"
  "write_ctxs (reg_write (retry_lookup st io)) = write_ctxs (reg_write io)"
  "write_ports (reg_write (retry_lookup st io)) = write_ports (reg_write io)"
  "victim_wb (reg_write (retry_lookup st io)) = victim_wb (reg_write io)"
  "victim_q (reg_write (retry_lookup st io)) = victim_q (reg_write io)"
  "invalidate_epoch_r (reg_write (retry_lookup st io)) = invalidate_epoch_r (reg_write io)"
  "dirty_line_count_r (reg_write (retry_lookup st io)) = dirty_line_count_r (reg_write io)"
  "out_read_req_ready (ext_out (retry_lookup st io)) = out_read_req_ready (ext_out io)"
  "out_read_resp (ext_out (retry_lookup st io)) = out_read_resp (ext_out io)"
  "out_write_req_ready (ext_out (retry_lookup st io)) = out_write_req_ready (ext_out io)"
  "out_write_resp (ext_out (retry_lookup st io)) = out_write_resp (ext_out io)"
  "mo_write_resp_ready (out_mem (ext_out (retry_lookup st io))) = mo_write_resp_ready (out_mem (ext_out io))"
  "invalidate_all_accepted (out_mem (ext_out (retry_lookup st io))) = invalidate_all_accepted (out_mem (ext_out io))"
  by (simp_all add: retry_lookup_def Let_def split: option.split prod.split)

lemma finish_lookup_frame [llc_frame]:
  "env_of (finish_lookup st io) = env_of io"
  "mshr (reg_write (finish_lookup st io)) = mshr (reg_write io)"
  "read_ports (reg_write (finish_lookup st io)) = read_ports (reg_write io)"
  "write_ctxs (reg_write (finish_lookup st io)) = write_ctxs (reg_write io)"
  "write_ports (reg_write (finish_lookup st io)) = write_ports (reg_write io)"
  "victim_wb (reg_write (finish_lookup st io)) = victim_wb (reg_write io)"
  "victim_q (reg_write (finish_lookup st io)) = victim_q (reg_write io)"
  "invalidate_epoch_r (reg_write (finish_lookup st io)) = invalidate_epoch_r (reg_write io)"
  "dirty_line_count_r (reg_write (finish_lookup st io)) = dirty_line_count_r (reg_write io)"
  "out_read_req_ready (ext_out (finish_lookup st io)) = out_read_req_ready (ext_out io)"
  "out_read_resp (ext_out (finish_lookup st io)) = out_read_resp (ext_out io)"
  "out_write_req_ready (ext_out (finish_lookup st io)) = out_write_req_ready (ext_out io)"
  "out_write_resp (ext_out (finish_lookup st io)) = out_write_resp (ext_out io)"
  "mo_write_resp_ready (out_mem (ext_out (finish_lookup st io))) = mo_write_resp_ready (out_mem (ext_out io))"
  "invalidate_all_accepted (out_mem (ext_out (finish_lookup st io))) = invalidate_all_accepted (out_mem (ext_out io))"
  by (simp_all add: finish_lookup_def Let_def split: option.split prod.split)

lemma finish_direct_lookup_frame [llc_frame]:
  "env_of (finish_direct_lookup io) = env_of io"
  "mshr (reg_write (finish_direct_lookup io)) = mshr (reg_write io)"
  "read_ports (reg_write (finish_direct_lookup io)) = read_ports (reg_write io)"
  "write_ctxs (reg_write (finish_direct_lookup io)) = write_ctxs (reg_write io)"
  "write_ports (reg_write (finish_direct_lookup io)) = write_ports (reg_write io)"
  "victim_wb (reg_write (finish_direct_lookup io)) = victim_wb (reg_write io)"
  "victim_q (reg_write (finish_direct_lookup io)) = victim_q (reg_write io)"
  "invalidate_epoch_r (reg_write (finish_direct_lookup io)) = invalidate_epoch_r (reg_write io)"
  "dirty_line_count_r (reg_write (finish_direct_lookup io)) = dirty_line_count_r (reg_write io)"
  "out_read_req_ready (ext_out (finish_direct_lookup io)) = out_read_req_ready (ext_out io)"
  "out_read_resp (ext_out (finish_direct_lookup io)) = out_read_resp (ext_out io)"
  "out_write_req_ready (ext_out (finish_direct_lookup io)) = out_write_req_ready (ext_out io)"
  "out_write_resp (ext_out (finish_direct_lookup io)) = out_write_resp (ext_out io)"
  "mo_write_resp_ready (out_mem (ext_out (finish_direct_lookup io))) = mo_write_resp_ready (out_mem (ext_out io))"
  "invalidate_all_accepted (out_mem (ext_out (finish_direct_lookup io))) = invalidate_all_accepted (out_mem (ext_out io))"
  by (simp_all add: finish_direct_lookup_def llc_frame)

lemma drop_prefetch_slot_frame [llc_frame]:
  "env_of (drop_prefetch_slot n io) = env_of io"
  "lookup (reg_write (drop_prefetch_slot n io)) = lookup (reg_write io)"
  "mshr (reg_write (drop_prefetch_slot n io)) = mshr (reg_write io)"
  "read_ports (reg_write (drop_prefetch_slot n io)) = read_ports (reg_write io)"
  "write_ctxs (reg_write (drop_prefetch_slot n io)) = write_ctxs (reg_write io)"
  "write_ports (reg_write (drop_prefetch_slot n io)) = write_ports (reg_write io)"
  "victim_wb (reg_write (drop_prefetch_slot n io)) = victim_wb (reg_write io)"
  "victim_q (reg_write (drop_prefetch_slot n io)) = victim_q (reg_write io)"
  "invalidate_epoch_r (reg_write (drop_prefetch_slot n io)) = invalidate_epoch_r (reg_write io)"
  "dirty_line_count_r (reg_write (drop_prefetch_slot n io)) = dirty_line_count_r (reg_write io)"
  "out_read_req_ready (ext_out (drop_prefetch_slot n io)) = out_read_req_ready (ext_out io)"
  "out_read_resp (ext_out (drop_prefetch_slot n io)) = out_read_resp (ext_out io)"
  "out_write_req_ready (ext_out (drop_prefetch_slot n io)) = out_write_req_ready (ext_out io)"
  "out_write_resp (ext_out (drop_prefetch_slot n io)) = out_write_resp (ext_out io)"
  "mo_write_resp_ready (out_mem (ext_out (drop_prefetch_slot n io))) = mo_write_resp_ready (out_mem (ext_out io))"
  "invalidate_all_accepted (out_mem (ext_out (drop_prefetch_slot n io))) = invalidate_all_accepted (out_mem (ext_out io))"
  by (simp_all add: drop_prefetch_slot_def Let_def split: option.split prod.split)

lemma schedule_lines_frame [llc_frame]:
  "env_of (schedule_lines k c line ds io) = env_of io"
  "lookup (reg_write (schedule_lines k c line ds io)) = lookup (reg_write io)"
  "mshr (reg_write (schedule_lines k c line ds io)) = mshr (reg_write io)"
  "read_ports (reg_write (schedule_lines k c line ds io)) = read_ports (reg_write io)"
  "write_ctxs (reg_write (schedule_lines k c line ds io)) = write_ctxs (reg_write io)"
  "write_ports (reg_write (schedule_lines k c line ds io)) = write_ports (reg_write io)"
  "victim_wb (reg_write (schedule_lines k c line ds io)) = victim_wb (reg_write io)"
  "victim_q (reg_write (schedule_lines k c line ds io)) = victim_q (reg_write io)"
  "invalidate_epoch_r (reg_write (schedule_lines k c line ds io)) = invalidate_epoch_r (reg_write io)"
  "dirty_line_count_r (reg_write (schedule_lines k c line ds io)) = dirty_line_count_r (reg_write io)"
  "out_read_req_ready (ext_out (schedule_lines k c line ds io)) = out_read_req_ready (ext_out io)"
  "out_read_resp (ext_out (schedule_lines k c line ds io)) = out_read_resp (ext_out io)"
  "out_write_req_ready (ext_out (schedule_lines k c line ds io)) = out_write_req_ready (ext_out io)"
  "out_write_resp (ext_out (schedule_lines k c line ds io)) = out_write_resp (ext_out io)"
  "mo_write_resp_ready (out_mem (ext_out (schedule_lines k c line ds io))) = mo_write_resp_ready (out_mem (ext_out io))"
  "invalidate_all_accepted (out_mem (ext_out (schedule_lines k c line ds io))) = invalidate_all_accepted (out_mem (ext_out io))"
  by (induction ds arbitrary: io; simp add: Let_def split: option.split)+

lemma note_miss_line_frame [llc_frame]:
  "env_of (note_miss_line line io) = env_of io"
  "lookup (reg_write (note_miss_line line io)) = lookup (reg_write io)"
  "mshr (reg_write (note_miss_line line io)) = mshr (reg_write io)"
  "read_ports (reg_write (note_miss_line line io)) = read_ports (reg_write io)"
  "write_ctxs (reg_write (note_miss_line line io)) = write_ctxs (reg_write io)"
  "write_ports (reg_write (note_miss_line line io)) = write_ports (reg_write io)"
  "victim_wb (reg_write (note_miss_line line io)) = victim_wb (reg_write io)"
  "victim_q (reg_write (note_miss_line line io)) = victim_q (reg_write io)"
  "invalidate_epoch_r (reg_write (note_miss_line line io)) = invalidate_epoch_r (reg_write io)"
  "dirty_line_count_r (reg_write (note_miss_line line io)) = dirty_line_count_r (reg_write io)"
  "out_read_req_ready (ext_out (note_miss_line line io)) = out_read_req_ready (ext_out io)"
  "out_read_resp (ext_out (note_miss_line line io)) = out_read_resp (ext_out io)"
  "out_write_req_ready (ext_out (note_miss_line line io)) = out_write_req_ready (ext_out io)"
  "out_write_resp (ext_out (note_miss_line line io)) = out_write_resp (ext_out io)"
  "mo_write_resp_ready (out_mem (ext_out (note_miss_line line io))) = mo_write_resp_ready (out_mem (ext_out io))"
  "invalidate_all_accepted (out_mem (ext_out (note_miss_line line io))) = invalidate_all_accepted (out_mem (ext_out io))"
  by (simp_all add: note_miss_line_def)

lemma try_schedule_prefetch_frame [llc_frame]:
  "env_of (try_schedule_prefetch k c e io) = env_of io"
  "lookup (reg_write (try_schedule_prefetch k c e io)) = lookup (reg_write io)"
  "mshr (reg_write (try_schedule_prefetch k c e io)) = mshr (reg_write io)"
  "read_ports (reg_write (try_schedule_prefetch k c e io)) = read_ports (reg_write io)"
  "write_ctxs (reg_write (try_schedule_prefetch k c e io)) = write_ctxs (reg_write io)"
  "write_ports (reg_write (try_schedule_prefetch k c e io)) = write_ports (reg_write io)"
  "victim_wb (reg_write (try_schedule_prefetch k c e io)) = victim_wb (reg_write io)"
  "victim_q (reg_write (try_schedule_prefetch k c e io)) = victim_q (reg_write io)"
  "invalidate_epoch_r (reg_write (try_schedule_prefetch k c e io)) = invalidate_epoch_r (reg_write io)"
  "dirty_line_count_r (reg_write (try_schedule_prefetch k c e io)) = dirty_line_count_r (reg_write io)"
  "out_read_req_ready (ext_out (try_schedule_prefetch k c e io)) = out_read_req_ready (ext_out io)"
  "out_read_resp (ext_out (try_schedule_prefetch k c e io)) = out_read_resp (ext_out io)"
  "out_write_req_ready (ext_out (try_schedule_prefetch k c e io)) = out_write_req_ready (ext_out io)"
  "out_write_resp (ext_out (try_schedule_prefetch k c e io)) = out_write_resp (ext_out io)"
  "mo_write_resp_ready (out_mem (ext_out (try_schedule_prefetch k c e io))) = mo_write_resp_ready (out_mem (ext_out io))"
  "invalidate_all_accepted (out_mem (ext_out (try_schedule_prefetch k c e io))) = invalidate_all_accepted (out_mem (ext_out io))"
  by (simp_all add: try_schedule_prefetch_def llc_frame)

lemma issue_read_entry_frame [llc_frame]:
  "env_of (issue_read_entry c i e io) = env_of io"
  "lookup (reg_write (issue_read_entry c i e io)) = lookup (reg_write io)"
  "read_ports (reg_write (issue_read_entry c i e io)) = read_ports (reg_write io)"
  "write_ctxs (reg_write (issue_read_entry c i e io)) = write_ctxs (reg_write io)"
  "write_ports (reg_write (issue_read_entry c i e io)) = write_ports (reg_write io)"
  "victim_wb (reg_write (issue_read_entry c i e io)) = victim_wb (reg_write io)"
  "victim_q (reg_write (issue_read_entry c i e io)) = victim_q (reg_write io)"
  "invalidate_epoch_r (reg_write (issue_read_entry c i e io)) = invalidate_epoch_r (reg_write io)"
  "dirty_line_count_r (reg_write (issue_read_entry c i e io)) = dirty_line_count_r (reg_write io)"
  "map ek (mshr (reg_write (issue_read_entry c i e io))) = map ek (mshr (reg_write io))"
  "out_read_req_ready (ext_out (issue_read_entry c i e io)) = out_read_req_ready (ext_out io)"
  "out_read_resp (ext_out (issue_read_entry c i e io)) = out_read_resp (ext_out io)"
  "out_write_req_ready (ext_out (issue_read_entry c i e io)) = out_write_req_ready (ext_out io)"
  "out_write_resp (ext_out (issue_read_entry c i e io)) = out_write_resp (ext_out io)"
  "mo_write_resp_ready (out_mem (ext_out (issue_read_entry c i e io))) = mo_write_resp_ready (out_mem (ext_out io))"
  "invalidate_all_accepted (out_mem (ext_out (issue_read_entry c i e io))) = invalidate_all_accepted (out_mem (ext_out io))"
  by (simp_all add: issue_read_entry_def Let_def split: option.split prod.split)

lemma issue_mem_read_frame [llc_frame]:
  "env_of (issue_mem_read k c io) = env_of io"
  "lookup (reg_write (issue_mem_read k c io)) = lookup (reg_write io)"
  "read_ports (reg_write (issue_mem_read k c io)) = read_ports (reg_write io)"
  "write_ctxs (reg_write (issue_mem_read k c io)) = write_ctxs (reg_write io)"
  "write_ports (reg_write (issue_mem_read k c io)) = write_ports (reg_write io)"
  "victim_wb (reg_write (issue_mem_read k c io)) = victim_wb (reg_write io)"
  "victim_q (reg_write (issue_mem_read k c io)) = victim_q (reg_write io)"
  "invalidate_epoch_r (reg_write (issue_mem_read k c io)) = invalidate_epoch_r (reg_write io)"
  "dirty_line_count_r (reg_write (issue_mem_read k c io)) = dirty_line_count_r (reg_write io)"
  "map ek (mshr (reg_write (issue_mem_read k c io))) = map ek (mshr (reg_write io))"
  "out_read_req_ready (ext_out (issue_mem_read k c io)) = out_read_req_ready (ext_out io)"
  "out_read_resp (ext_out (issue_mem_read k c io)) = out_read_resp (ext_out io)"
  "out_write_req_ready (ext_out (issue_mem_read k c io)) = out_write_req_ready (ext_out io)"
  "out_write_resp (ext_out (issue_mem_read k c io)) = out_write_resp (ext_out io)"
  "mo_write_resp_ready (out_mem (ext_out (issue_mem_read k c io))) = mo_write_resp_ready (out_mem (ext_out io))"
  "invalidate_all_accepted (out_mem (ext_out (issue_mem_read k c io))) = invalidate_all_accepted (out_mem (ext_out io))"
  by (simp_all add: issue_mem_read_def llc_frame split: option.split)

lemma ensure_snapshot_frame [llc_frame]:
  "env_of (snd (ensure_read_victim_snapshot_externalized k c i io)) = env_of io"
  "lookup (reg_write (snd (ensure_read_victim_snapshot_externalized k c i io))) = lookup (reg_write io)"
  "mshr (reg_write (snd (ensure_read_victim_snapshot_externalized k c i io))) = mshr (reg_write io)"
  "read_ports (reg_write (snd (ensure_read_victim_snapshot_externalized k c i io))) = read_ports (reg_write io)"
  "write_ctxs (reg_write (snd (ensure_read_victim_snapshot_externalized k c i io))) = write_ctxs (reg_write io)"
  "write_ports (reg_write (snd (ensure_read_victim_snapshot_externalized k c i io))) = write_ports (reg_write io)"
  "invalidate_epoch_r (reg_write (snd (ensure_read_victim_snapshot_externalized k c i io))) = invalidate_epoch_r (reg_write io)"
  "dirty_line_count_r (reg_write (snd (ensure_read_victim_snapshot_externalized k c i io))) = dirty_line_count_r (reg_write io)"
  "out_read_req_ready (ext_out (snd (ensure_read_victim_snapshot_externalized k c i io))) = out_read_req_ready (ext_out io)"
  "out_read_resp (ext_out (snd (ensure_read_victim_snapshot_externalized k c i io))) = out_read_resp (ext_out io)"
  "out_write_req_ready (ext_out (snd (ensure_read_victim_snapshot_externalized k c i io))) = out_write_req_ready (ext_out io)"
  "out_write_resp (ext_out (snd (ensure_read_victim_snapshot_externalized k c i io))) = out_write_resp (ext_out io)"
  "mo_write_resp_ready (out_mem (ext_out (snd (ensure_read_victim_snapshot_externalized k c i io)))) = mo_write_resp_ready (out_mem (ext_out io))"
  "invalidate_all_accepted (out_mem (ext_out (snd (ensure_read_victim_snapshot_externalized k c i io)))) = invalidate_all_accepted (out_mem (ext_out io))"
  by (simp_all add: ensure_read_victim_snapshot_externalized_def Let_def llc_frame)

lemma detach_victim_owner_frame [llc_frame]:
  "env_of (detach_victim_owner i io) = env_of io"
  "lookup (reg_write (detach_victim_owner i io)) = lookup (reg_write io)"
  "mshr (reg_write (detach_victim_owner i io)) = mshr (reg_write io)"
  "read_ports (reg_write (detach_victim_owner i io)) = read_ports (reg_write io)"
  "write_ctxs (reg_write (detach_victim_owner i io)) = write_ctxs (reg_write io)"
  "write_ports (reg_write (detach_victim_owner i io)) = write_ports (reg_write io)"
  "victim_q (reg_write (detach_victim_owner i io)) = victim_q (reg_write io)"
  "invalidate_epoch_r (reg_write (detach_victim_owner i io)) = invalidate_epoch_r (reg_write io)"
  "dirty_line_count_r (reg_write (detach_victim_owner i io)) = dirty_line_count_r (reg_write io)"
  "out_read_req_ready (ext_out (detach_victim_owner i io)) = out_read_req_ready (ext_out io)"
  "out_read_resp (ext_out (detach_victim_owner i io)) = out_read_resp (ext_out io)"
  "out_write_req_ready (ext_out (detach_victim_owner i io)) = out_write_req_ready (ext_out io)"
  "out_write_resp (ext_out (detach_victim_owner i io)) = out_write_resp (ext_out io)"
  "mo_write_resp_ready (out_mem (ext_out (detach_victim_owner i io))) = mo_write_resp_ready (out_mem (ext_out io))"
  "invalidate_all_accepted (out_mem (ext_out (detach_victim_owner i io))) = invalidate_all_accepted (out_mem (ext_out io))"
  by (simp_all add: detach_victim_owner_def Let_def split: option.split prod.split)

lemma release_mshr_frame [llc_frame]:
  "env_of (release_mshr k i io) = env_of io"
  "lookup (reg_write (release_mshr k i io)) = lookup (reg_write io)"
  "read_ports (reg_write (release_mshr k i io)) = read_ports (reg_write io)"
  "write_ctxs (reg_write (release_mshr k i io)) = write_ctxs (reg_write io)"
  "write_ports (reg_write (release_mshr k i io)) = write_ports (reg_write io)"
  "victim_wb (reg_write (release_mshr k i io)) = victim_wb (reg_write io)"
  "victim_q (reg_write (release_mshr k i io)) = victim_q (reg_write io)"
  "invalidate_epoch_r (reg_write (release_mshr k i io)) = invalidate_epoch_r (reg_write io)"
  "dirty_line_count_r (reg_write (release_mshr k i io)) = dirty_line_count_r (reg_write io)"
  "out_read_req_ready (ext_out (release_mshr k i io)) = out_read_req_ready (ext_out io)"
  "out_read_resp (ext_out (release_mshr k i io)) = out_read_resp (ext_out io)"
  "out_write_req_ready (ext_out (release_mshr k i io)) = out_write_req_ready (ext_out io)"
  "out_write_resp (ext_out (release_mshr k i io)) = out_write_resp (ext_out io)"
  "mo_write_resp_ready (out_mem (ext_out (release_mshr k i io))) = mo_write_resp_ready (out_mem (ext_out io))"
  "invalidate_all_accepted (out_mem (ext_out (release_mshr k i io))) = invalidate_all_accepted (out_mem (ext_out io))"
  by (simp_all add: release_mshr_def Let_def split: option.split prod.split)

lemma launch_lookup_frame [llc_frame]:
  "env_of (launch_lookup l io) = env_of io"
  "mshr (reg_write (launch_lookup l io)) = mshr (reg_write io)"
  "read_ports (reg_write (launch_lookup l io)) = read_ports (reg_write io)"
  "write_ctxs (reg_write (launch_lookup l io)) = write_ctxs (reg_write io)"
  "write_ports (reg_write (launch_lookup l io)) = write_ports (reg_write io)"
  "victim_wb (reg_write (launch_lookup l io)) = victim_wb (reg_write io)"
  "victim_q (reg_write (launch_lookup l io)) = victim_q (reg_write io)"
  "invalidate_epoch_r (reg_write (launch_lookup l io)) = invalidate_epoch_r (reg_write io)"
  "dirty_line_count_r (reg_write (launch_lookup l io)) = dirty_line_count_r (reg_write io)"
  "out_read_req_ready (ext_out (launch_lookup l io)) = out_read_req_ready (ext_out io)"
  "out_read_resp (ext_out (launch_lookup l io)) = out_read_resp (ext_out io)"
  "out_write_req_ready (ext_out (launch_lookup l io)) = out_write_req_ready (ext_out io)"
  "out_write_resp (ext_out (launch_lookup l io)) = out_write_resp (ext_out io)"
  "mo_write_resp_ready (out_mem (ext_out (launch_lookup l io))) = mo_write_resp_ready (out_mem (ext_out io))"
  "invalidate_all_accepted (out_mem (ext_out (launch_lookup l io))) = invalidate_all_accepted (out_mem (ext_out io))"
  by (simp_all add: launch_lookup_def Let_def split: option.split prod.split)

lemma accept_maintenance_frame [llc_frame]:
  "env_of (accept_maintenance_request k c io) = env_of io"
  "mshr (reg_write (accept_maintenance_request k c io)) = mshr (reg_write io)"
  "read_ports (reg_write (accept_maintenance_request k c io)) = read_ports (reg_write io)"
  "write_ctxs (reg_write (accept_maintenance_request k c io)) = write_ctxs (reg_write io)"
  "write_ports (reg_write (accept_maintenance_request k c io)) = write_ports (reg_write io)"
  "victim_wb (reg_write (accept_maintenance_request k c io)) = victim_wb (reg_write io)"
  "victim_q (reg_write (accept_maintenance_request k c io)) = victim_q (reg_write io)"
  "invalidate_epoch_r (reg_write (accept_maintenance_request k c io)) = invalidate_epoch_r (reg_write io)"
  "dirty_line_count_r (reg_write (accept_maintenance_request k c io)) = dirty_line_count_r (reg_write io)"
  "out_read_req_ready (ext_out (accept_maintenance_request k c io)) = out_read_req_ready (ext_out io)"
  "out_read_resp (ext_out (accept_maintenance_request k c io)) = out_read_resp (ext_out io)"
  "out_write_req_ready (ext_out (accept_maintenance_request k c io)) = out_write_req_ready (ext_out io)"
  "out_write_resp (ext_out (accept_maintenance_request k c io)) = out_write_resp (ext_out io)"
  "mo_write_resp_ready (out_mem (ext_out (accept_maintenance_request k c io))) = mo_write_resp_ready (out_mem (ext_out io))"
  "invalidate_all_accepted (out_mem (ext_out (accept_maintenance_request k c io))) = invalidate_all_accepted (out_mem (ext_out io))"
  by (simp_all add: accept_maintenance_request_def Let_def llc_frame)

lemma launch_prefetch_frame [llc_frame]:
  "env_of (try_launch_prefetch_lookup k c io) = env_of io"
  "mshr (reg_write (try_launch_prefetch_lookup k c io)) = mshr (reg_write io)"
  "read_ports (reg_write (try_launch_prefetch_lookup k c io)) = read_ports (reg_write io)"
  "write_ctxs (reg_write (try_launch_prefetch_lookup k c io)) = write_ctxs (reg_write io)"
  "write_ports (reg_write (try_launch_prefetch_lookup k c io)) = write_ports (reg_write io)"
  "victim_wb (reg_write (try_launch_prefetch_lookup k c io)) = victim_wb (reg_write io)"
  "victim_q (reg_write (try_launch_prefetch_lookup k c io)) = victim_q (reg_write io)"
  "invalidate_epoch_r (reg_write (try_launch_prefetch_lookup k c io)) = invalidate_epoch_r (reg_write io)"
  "dirty_line_count_r (reg_write (try_launch_prefetch_lookup k c io)) = dirty_line_count_r (reg_write io)"
  "out_read_req_ready (ext_out (try_launch_prefetch_lookup k c io)) = out_read_req_ready (ext_out io)"
  "out_read_resp (ext_out (try_launch_prefetch_lookup k c io)) = out_read_resp (ext_out io)"
  "out_write_req_ready (ext_out (try_launch_prefetch_lookup k c io)) = out_write_req_ready (ext_out io)"
  "out_write_resp (ext_out (try_launch_prefetch_lookup k c io)) = out_write_resp (ext_out io)"
  "mo_write_resp_ready (out_mem (ext_out (try_launch_prefetch_lookup k c io))) = mo_write_resp_ready (out_mem (ext_out io))"
  "invalidate_all_accepted (out_mem (ext_out (try_launch_prefetch_lookup k c io))) = invalidate_all_accepted (out_mem (ext_out io))"
  by (simp_all add: try_launch_prefetch_lookup_def Let_def llc_frame split: option.split)

lemma accept_read_frame [llc_frame]:
  "env_of (accept_read m req io) = env_of io"
  "mshr (reg_write (accept_read m req io)) = mshr (reg_write io)"
  "read_ports (reg_write (accept_read m req io)) = read_ports (reg_write io)"
  "write_ctxs (reg_write (accept_read m req io)) = write_ctxs (reg_write io)"
  "write_ports (reg_write (accept_read m req io)) = write_ports (reg_write io)"
  "victim_wb (reg_write (accept_read m req io)) = victim_wb (reg_write io)"
  "victim_q (reg_write (accept_read m req io)) = victim_q (reg_write io)"
  "invalidate_epoch_r (reg_write (accept_read m req io)) = invalidate_epoch_r (reg_write io)"
  "dirty_line_count_r (reg_write (accept_read m req io)) = dirty_line_count_r (reg_write io)"
  "out_read_resp (ext_out (accept_read m req io)) = out_read_resp (ext_out io)"
  "out_write_req_ready (ext_out (accept_read m req io)) = out_write_req_ready (ext_out io)"
  "out_write_resp (ext_out (accept_read m req io)) = out_write_resp (ext_out io)"
  "mo_write_resp_ready (out_mem (ext_out (accept_read m req io))) = mo_write_resp_ready (out_mem (ext_out io))"
  "invalidate_all_accepted (out_mem (ext_out (accept_read m req io))) = invalidate_all_accepted (out_mem (ext_out io))"
  by (simp_all add: accept_read_def Let_def llc_frame)

lemma accept_new_requests_frame [llc_frame]:
  "env_of (accept_new_requests k c io) = env_of io"
  "mshr (reg_write (accept_new_requests k c io)) = mshr (reg_write io)"
  "read_ports (reg_write (accept_new_requests k c io)) = read_ports (reg_write io)"
  "write_ctxs (reg_write (accept_new_requests k c io)) = write_ctxs (reg_write io)"
  "write_ports (reg_write (accept_new_requests k c io)) = write_ports (reg_write io)"
  "victim_wb (reg_write (accept_new_requests k c io)) = victim_wb (reg_write io)"
  "victim_q (reg_write (accept_new_requests k c io)) = victim_q (reg_write io)"
  "invalidate_epoch_r (reg_write (accept_new_requests k c io)) = invalidate_epoch_r (reg_write io)"
  "dirty_line_count_r (reg_write (accept_new_requests k c io)) = dirty_line_count_r (reg_write io)"
  "out_read_resp (ext_out (accept_new_requests k c io)) = out_read_resp (ext_out io)"
  "out_write_req_ready (ext_out (accept_new_requests k c io)) = out_write_req_ready (ext_out io)"
  "out_write_resp (ext_out (accept_new_requests k c io)) = out_write_resp (ext_out io)"
  "mo_write_resp_ready (out_mem (ext_out (accept_new_requests k c io))) = mo_write_resp_ready (out_mem (ext_out io))"
  "invalidate_all_accepted (out_mem (ext_out (accept_new_requests k c io))) = invalidate_all_accepted (out_mem (ext_out io))"
  by (simp_all add: accept_new_requests_def Let_def llc_frame split: option.split)

lemma drive_lookup_request_frame [llc_frame]:
  "env_of (drive_lookup_request k c io) = env_of io"
  "mshr (reg_write (drive_lookup_request k c io)) = mshr (reg_write io)"
  "read_ports (reg_write (drive_lookup_request k c io)) = read_ports (reg_write io)"
  "write_ctxs (reg_write (drive_lookup_request k c io)) = write_ctxs (reg_write io)"
  "write_ports (reg_write (drive_lookup_request k c io)) = write_ports (reg_write io)"
  "victim_wb (reg_write (drive_lookup_request k c io)) = victim_wb (reg_write io)"
  "victim_q (reg_write (drive_lookup_request k c io)) = victim_q (reg_write io)"
  "invalidate_epoch_r (reg_write (drive_lookup_request k c io)) = invalidate_epoch_r (reg_write io)"
  "dirty_line_count_r (reg_write (drive_lookup_request k c io)) = dirty_line_count_r (reg_write io)"
  "out_read_req_ready (ext_out (drive_lookup_request k c io)) = out_read_req_ready (ext_out io)"
  "out_read_resp (ext_out (drive_lookup_request k c io)) = out_read_resp (ext_out io)"
  "out_write_req_ready (ext_out (drive_lookup_request k c io)) = out_write_req_ready (ext_out io)"
  "out_write_resp (ext_out (drive_lookup_request k c io)) = out_write_resp (ext_out io)"
  "mo_write_resp_ready (out_mem (ext_out (drive_lookup_request k c io))) = mo_write_resp_ready (out_mem (ext_out io))"
  "invalidate_all_accepted (out_mem (ext_out (drive_lookup_request k c io))) = invalidate_all_accepted (out_mem (ext_out io))"
  by (simp_all add: drive_lookup_request_def Let_def split: option.split prod.split)

lemma accept_invalidate_all_frame [llc_frame]:
  "env_of (accept_invalidate_all k c io) = env_of io"
  "mshr (reg_write (accept_invalidate_all k c io)) = mshr (reg_write io)"
  "read_ports (reg_write (accept_invalidate_all k c io)) = read_ports (reg_write io)"
  "write_ctxs (reg_write (accept_invalidate_all k c io)) = write_ctxs (reg_write io)"
  "write_ports (reg_write (accept_invalidate_all k c io)) = write_ports (reg_write io)"
  "victim_wb (reg_write (accept_invalidate_all k c io)) = victim_wb (reg_write io)"
  "victim_q (reg_write (accept_invalidate_all k c io)) = victim_q (reg_write io)"
  "out_read_req_ready (ext_out (accept_invalidate_all k c io)) = out_read_req_ready (ext_out io)"
  "out_read_resp (ext_out (accept_invalidate_all k c io)) = out_read_resp (ext_out io)"
  "out_write_req_ready (ext_out (accept_invalidate_all k c io)) = out_write_req_ready (ext_out io)"
  "out_write_resp (ext_out (accept_invalidate_all k c io)) = out_write_resp (ext_out io)"
  "mo_write_resp_ready (out_mem (ext_out (accept_invalidate_all k c io))) = mo_write_resp_ready (out_mem (ext_out io))"
  by (simp_all add: accept_invalidate_all_def Let_def split: option.split prod.split)

lemma complete_direct_write_frame [llc_frame]:
  "env_of (complete_direct_write k c io) = env_of io"
  "mshr (reg_write (complete_direct_write k c io)) = mshr (reg_write io)"
  "read_ports (reg_write (complete_direct_write k c io)) = read_ports (reg_write io)"
  "write_ports (reg_write (complete_direct_write k c io)) = write_ports (reg_write io)"
  "victim_wb (reg_write (complete_direct_write k c io)) = victim_wb (reg_write io)"
  "victim_q (reg_write (complete_direct_write k c io)) = victim_q (reg_write io)"
  "invalidate_epoch_r (reg_write (complete_direct_write k c io)) = invalidate_epoch_r (reg_write io)"
  "dirty_line_count_r (reg_write (complete_direct_write k c io)) = dirty_line_count_r (reg_write io)"
  "map wk (write_ctxs (reg_write (complete_direct_write k c io))) = map wk (write_ctxs (reg_write io))"
  "out_read_req_ready (ext_out (complete_direct_write k c io)) = out_read_req_ready (ext_out io)"
  "out_read_resp (ext_out (complete_direct_write k c io)) = out_read_resp (ext_out io)"
  "out_write_req_ready (ext_out (complete_direct_write k c io)) = out_write_req_ready (ext_out io)"
  "out_write_resp (ext_out (complete_direct_write k c io)) = out_write_resp (ext_out io)"
  "mo_write_resp_ready (out_mem (ext_out (complete_direct_write k c io))) = mo_write_resp_ready (out_mem (ext_out io))"
  "invalidate_all_accepted (out_mem (ext_out (complete_direct_write k c io))) = invalidate_all_accepted (out_mem (ext_out io))"
  by (simp_all add: complete_direct_write_def Let_def llc_frame split: option.split)

lemma complete_direct_read_frame [llc_frame]:
  "env_of (complete_direct_read k c io) = env_of io"
  "mshr (reg_write (complete_direct_read k c io)) = mshr (reg_write io)"
  "write_ctxs (reg_write (complete_direct_read k c io)) = write_ctxs (reg_write io)"
  "write_ports (reg_write (complete_direct_read k c io)) = write_ports (reg_write io)"
  "victim_wb (reg_write (complete_direct_read k c io)) = victim_wb (reg_write io)"
  "victim_q (reg_write (complete_direct_read k c io)) = victim_q (reg_write io)"
  "invalidate_epoch_r (reg_write (complete_direct_read k c io)) = invalidate_epoch_r (reg_write io)"
  "dirty_line_count_r (reg_write (complete_direct_read k c io)) = dirty_line_count_r (reg_write io)"
  "out_read_req_ready (ext_out (complete_direct_read k c io)) = out_read_req_ready (ext_out io)"
  "out_read_resp (ext_out (complete_direct_read k c io)) = out_read_resp (ext_out io)"
  "out_write_req_ready (ext_out (complete_direct_read k c io)) = out_write_req_ready (ext_out io)"
  "out_write_resp (ext_out (complete_direct_read k c io)) = out_write_resp (ext_out io)"
  "mo_write_resp_ready (out_mem (ext_out (complete_direct_read k c io))) = mo_write_resp_ready (out_mem (ext_out io))"
  "invalidate_all_accepted (out_mem (ext_out (complete_direct_read k c io))) = invalidate_all_accepted (out_mem (ext_out io))"
  by (simp_all add: complete_direct_read_def Let_def case_prod_beta llc_frame)

lemma refresh_victim_frame [llc_frame]:
  "env_of (refresh_victim k c idx w line_a line slot io) = env_of io"
  "lookup (reg_write (refresh_victim k c idx w line_a line slot io)) = lookup (reg_write io)"
  "read_ports (reg_write (refresh_victim k c idx w line_a line slot io)) = read_ports (reg_write io)"
  "write_ctxs (reg_write (refresh_victim k c idx w line_a line slot io)) = write_ctxs (reg_write io)"
  "write_ports (reg_write (refresh_victim k c idx w line_a line slot io)) = write_ports (reg_write io)"
  "victim_wb (reg_write (refresh_victim k c idx w line_a line slot io)) = victim_wb (reg_write io)"
  "victim_q (reg_write (refresh_victim k c idx w line_a line slot io)) = victim_q (reg_write io)"
  "invalidate_epoch_r (reg_write (refresh_victim k c idx w line_a line slot io)) = invalidate_epoch_r (reg_write io)"
  "dirty_line_count_r (reg_write (refresh_victim k c idx w line_a line slot io)) = dirty_line_count_r (reg_write io)"
  "map ek (mshr (reg_write (refresh_victim k c idx w line_a line slot io))) = map ek (mshr (reg_write io))"
  "out_read_req_ready (ext_out (refresh_victim k c idx w line_a line slot io)) = out_read_req_ready (ext_out io)"
  "out_read_resp (ext_out (refresh_victim k c idx w line_a line slot io)) = out_read_resp (ext_out io)"
  "out_write_req_ready (ext_out (refresh_victim k c idx w line_a line slot io)) = out_write_req_ready (ext_out io)"
  "out_write_resp (ext_out (refresh_victim k c idx w line_a line slot io)) = out_write_resp (ext_out io)"
  "mo_write_resp_ready (out_mem (ext_out (refresh_victim k c idx w line_a line slot io))) = mo_write_resp_ready (out_mem (ext_out io))"
  "invalidate_all_accepted (out_mem (ext_out (refresh_victim k c idx w line_a line slot io))) = invalidate_all_accepted (out_mem (ext_out io))"
  by (simp_all add: refresh_victim_def Let_def)

lemma refresh_victims_frame [llc_frame]:
  "env_of (fold (refresh_victim k c idx w line_a line) slots io) = env_of io"
  "map ek (mshr (reg_write (fold (refresh_victim k c idx w line_a line) slots io))) = map ek (mshr (reg_write io))"
  "lookup (reg_write (fold (refresh_victim k c idx w line_a line) slots io)) = lookup (reg_write io)"
  "read_ports (reg_write (fold (refresh_victim k c idx w line_a line) slots io)) = read_ports (reg_write io)"
  "write_ctxs (reg_write (fold (refresh_victim k c idx w line_a line) slots io)) = write_ctxs (reg_write io)"
  "write_ports (reg_write (fold (refresh_victim k c idx w line_a line) slots io)) = write_ports (reg_write io)"
  "victim_wb (reg_write (fold (refresh_victim k c idx w line_a line) slots io)) = victim_wb (reg_write io)"
  "victim_q (reg_write (fold (refresh_victim k c idx w line_a line) slots io)) = victim_q (reg_write io)"
  "invalidate_epoch_r (reg_write (fold (refresh_victim k c idx w line_a line) slots io)) = invalidate_epoch_r (reg_write io)"
  "dirty_line_count_r (reg_write (fold (refresh_victim k c idx w line_a line) slots io)) = dirty_line_count_r (reg_write io)"
  "out_read_req_ready (ext_out (fold (refresh_victim k c idx w line_a line) slots io)) = out_read_req_ready (ext_out io)"
  "out_read_resp (ext_out (fold (refresh_victim k c idx w line_a line) slots io)) = out_read_resp (ext_out io)"
  "out_write_req_ready (ext_out (fold (refresh_victim k c idx w line_a line) slots io)) = out_write_req_ready (ext_out io)"
  "out_write_resp (ext_out (fold (refresh_victim k c idx w line_a line) slots io)) = out_write_resp (ext_out io)"
  "mo_write_resp_ready (out_mem (ext_out (fold (refresh_victim k c idx w line_a line) slots io))) = mo_write_resp_ready (out_mem (ext_out io))"
  "invalidate_all_accepted (out_mem (ext_out (fold (refresh_victim k c idx w line_a line) slots io))) = invalidate_all_accepted (out_mem (ext_out io))"
  by (induction slots arbitrary: io) (simp_all add: llc_frame)

lemma complete_write_hit_frame [llc_frame]:
  "env_of (complete_write_hit k c w e io) = env_of io"
  "read_ports (reg_write (complete_write_hit k c w e io)) = read_ports (reg_write io)"
  "write_ports (reg_write (complete_write_hit k c w e io)) = write_ports (reg_write io)"
  "victim_wb (reg_write (complete_write_hit k c w e io)) = victim_wb (reg_write io)"
  "victim_q (reg_write (complete_write_hit k c w e io)) = victim_q (reg_write io)"
  "invalidate_epoch_r (reg_write (complete_write_hit k c w e io)) = invalidate_epoch_r (reg_write io)"
  "map ek (mshr (reg_write (complete_write_hit k c w e io))) = map ek (mshr (reg_write io))"
  "map wk (write_ctxs (reg_write (complete_write_hit k c w e io))) = map wk (write_ctxs (reg_write io))"
  "out_read_req_ready (ext_out (complete_write_hit k c w e io)) = out_read_req_ready (ext_out io)"
  "out_read_resp (ext_out (complete_write_hit k c w e io)) = out_read_resp (ext_out io)"
  "out_write_req_ready (ext_out (complete_write_hit k c w e io)) = out_write_req_ready (ext_out io)"
  "out_write_resp (ext_out (complete_write_hit k c w e io)) = out_write_resp (ext_out io)"
  "mo_write_resp_ready (out_mem (ext_out (complete_write_hit k c w e io))) = mo_write_resp_ready (out_mem (ext_out io))"
  "invalidate_all_accepted (out_mem (ext_out (complete_write_hit k c w e io))) = invalidate_all_accepted (out_mem (ext_out io))"
  by (simp_all add: complete_write_hit_def Let_def llc_frame)

lemma complete_invalidate_hit_frame [llc_frame]:
  "env_of (complete_invalidate_hit c w e io) = env_of io"
  "mshr (reg_write (complete_invalidate_hit c w e io)) = mshr (reg_write io)"
  "read_ports (reg_write (complete_invalidate_hit c w e io)) = read_ports (reg_write io)"
  "write_ctxs (reg_write (complete_invalidate_hit c w e io)) = write_ctxs (reg_write io)"
  "write_ports (reg_write (complete_invalidate_hit c w e io)) = write_ports (reg_write io)"
  "victim_wb (reg_write (complete_invalidate_hit c w e io)) = victim_wb (reg_write io)"
  "victim_q (reg_write (complete_invalidate_hit c w e io)) = victim_q (reg_write io)"
  "invalidate_epoch_r (reg_write (complete_invalidate_hit c w e io)) = invalidate_epoch_r (reg_write io)"
  "out_read_req_ready (ext_out (complete_invalidate_hit c w e io)) = out_read_req_ready (ext_out io)"
  "out_read_resp (ext_out (complete_invalidate_hit c w e io)) = out_read_resp (ext_out io)"
  "out_write_req_ready (ext_out (complete_invalidate_hit c w e io)) = out_write_req_ready (ext_out io)"
  "out_write_resp (ext_out (complete_invalidate_hit c w e io)) = out_write_resp (ext_out io)"
  "mo_write_resp_ready (out_mem (ext_out (complete_invalidate_hit c w e io))) = mo_write_resp_ready (out_mem (ext_out io))"
  "invalidate_all_accepted (out_mem (ext_out (complete_invalidate_hit c w e io))) = invalidate_all_accepted (out_mem (ext_out io))"
  by (simp_all add: complete_invalidate_hit_def Let_def llc_frame)

lemma complete_prefetch_hit_frame [llc_frame]:
  "env_of (complete_prefetch_hit io) = env_of io"
  "mshr (reg_write (complete_prefetch_hit io)) = mshr (reg_write io)"
  "read_ports (reg_write (complete_prefetch_hit io)) = read_ports (reg_write io)"
  "write_ctxs (reg_write (complete_prefetch_hit io)) = write_ctxs (reg_write io)"
  "write_ports (reg_write (complete_prefetch_hit io)) = write_ports (reg_write io)"
  "victim_wb (reg_write (complete_prefetch_hit io)) = victim_wb (reg_write io)"
  "victim_q (reg_write (complete_prefetch_hit io)) = victim_q (reg_write io)"
  "invalidate_epoch_r (reg_write (complete_prefetch_hit io)) = invalidate_epoch_r (reg_write io)"
  "dirty_line_count_r (reg_write (complete_prefetch_hit io)) = dirty_line_count_r (reg_write io)"
  "out_read_req_ready (ext_out (complete_prefetch_hit io)) = out_read_req_ready (ext_out io)"
  "out_read_resp (ext_out (complete_prefetch_hit io)) = out_read_resp (ext_out io)"
  "out_write_req_ready (ext_out (complete_prefetch_hit io)) = out_write_req_ready (ext_out io)"
  "out_write_resp (ext_out (complete_prefetch_hit io)) = out_write_resp (ext_out io)"
  "mo_write_resp_ready (out_mem (ext_out (complete_prefetch_hit io))) = mo_write_resp_ready (out_mem (ext_out io))"
  "invalidate_all_accepted (out_mem (ext_out (complete_prefetch_hit io))) = invalidate_all_accepted (out_mem (ext_out io))"
  by (simp_all add: complete_prefetch_hit_def llc_frame)

lemma complete_bypass_read_hit_frame [llc_frame]:
  "env_of (complete_bypass_read_hit k c w io) = env_of io"
  "mshr (reg_write (complete_bypass_read_hit k c w io)) = mshr (reg_write io)"
  "write_ctxs (reg_write (complete_bypass_read_hit k c w io)) = write_ctxs (reg_write io)"
  "write_ports (reg_write (complete_bypass_read_hit k c w io)) = write_ports (reg_write io)"
  "victim_wb (reg_write (complete_bypass_read_hit k c w io)) = victim_wb (reg_write io)"
  "victim_q (reg_write (complete_bypass_read_hit k c w io)) = victim_q (reg_write io)"
  "invalidate_epoch_r (reg_write (complete_bypass_read_hit k c w io)) = invalidate_epoch_r (reg_write io)"
  "dirty_line_count_r (reg_write (complete_bypass_read_hit k c w io)) = dirty_line_count_r (reg_write io)"
  "out_read_req_ready (ext_out (complete_bypass_read_hit k c w io)) = out_read_req_ready (ext_out io)"
  "out_read_resp (ext_out (complete_bypass_read_hit k c w io)) = out_read_resp (ext_out io)"
  "out_write_req_ready (ext_out (complete_bypass_read_hit k c w io)) = out_write_req_ready (ext_out io)"
  "out_write_resp (ext_out (complete_bypass_read_hit k c w io)) = out_write_resp (ext_out io)"
  "mo_write_resp_ready (out_mem (ext_out (complete_bypass_read_hit k c w io))) = mo_write_resp_ready (out_mem (ext_out io))"
  "invalidate_all_accepted (out_mem (ext_out (complete_bypass_read_hit k c w io))) = invalidate_all_accepted (out_mem (ext_out io))"
  by (simp_all add: complete_bypass_read_hit_def Let_def case_prod_beta llc_frame)

lemma complete_read_hit_frame [llc_frame]:
  "env_of (complete_read_hit k c w e io) = env_of io"
  "mshr (reg_write (complete_read_hit k c w e io)) = mshr (reg_write io)"
  "write_ctxs (reg_write (complete_read_hit k c w e io)) = write_ctxs (reg_write io)"
  "write_ports (reg_write (complete_read_hit k c w e io)) = write_ports (reg_write io)"
  "victim_wb (reg_write (complete_read_hit k c w e io)) = victim_wb (reg_write io)"
  "victim_q (reg_write (complete_read_hit k c w e io)) = victim_q (reg_write io)"
  "invalidate_epoch_r (reg_write (complete_read_hit k c w e io)) = invalidate_epoch_r (reg_write io)"
  "dirty_line_count_r (reg_write (complete_read_hit k c w e io)) = dirty_line_count_r (reg_write io)"
  "out_read_req_ready (ext_out (complete_read_hit k c w e io)) = out_read_req_ready (ext_out io)"
  "out_read_resp (ext_out (complete_read_hit k c w e io)) = out_read_resp (ext_out io)"
  "out_write_req_ready (ext_out (complete_read_hit k c w e io)) = out_write_req_ready (ext_out io)"
  "out_write_resp (ext_out (complete_read_hit k c w e io)) = out_write_resp (ext_out io)"
  "mo_write_resp_ready (out_mem (ext_out (complete_read_hit k c w e io))) = mo_write_resp_ready (out_mem (ext_out io))"
  "invalidate_all_accepted (out_mem (ext_out (complete_read_hit k c w e io))) = invalidate_all_accepted (out_mem (ext_out io))"
  by (simp_all add: complete_read_hit_def Let_def case_prod_beta llc_frame)

lemma alloc_write_miss_frame [llc_frame]:
  "env_of (alloc_write_miss k c w io) = env_of io"
  "read_ports (reg_write (alloc_write_miss k c w io)) = read_ports (reg_write io)"
  "write_ports (reg_write (alloc_write_miss k c w io)) = write_ports (reg_write io)"
  "victim_wb (reg_write (alloc_write_miss k c w io)) = victim_wb (reg_write io)"
  "victim_q (reg_write (alloc_write_miss k c w io)) = victim_q (reg_write io)"
  "invalidate_epoch_r (reg_write (alloc_write_miss k c w io)) = invalidate_epoch_r (reg_write io)"
  "dirty_line_count_r (reg_write (alloc_write_miss k c w io)) = dirty_line_count_r (reg_write io)"
  "map wk (write_ctxs (reg_write (alloc_write_miss k c w io))) = map wk (write_ctxs (reg_write io))"
  "out_read_req_ready (ext_out (alloc_write_miss k c w io)) = out_read_req_ready (ext_out io)"
  "out_read_resp (ext_out (alloc_write_miss k c w io)) = out_read_resp (ext_out io)"
  "out_write_req_ready (ext_out (alloc_write_miss k c w io)) = out_write_req_ready (ext_out io)"
  "out_write_resp (ext_out (alloc_write_miss k c w io)) = out_write_resp (ext_out io)"
  "mo_write_resp_ready (out_mem (ext_out (alloc_write_miss k c w io))) = mo_write_resp_ready (out_mem (ext_out io))"
  "invalidate_all_accepted (out_mem (ext_out (alloc_write_miss k c w io))) = invalidate_all_accepted (out_mem (ext_out io))"
  by (simp_all add: alloc_write_miss_def Let_def llc_frame split: option.split)

lemma install_full_line_frame [llc_frame]:
  "env_of (install_full_line k c w io) = env_of io"
  "mshr (reg_write (install_full_line k c w io)) = mshr (reg_write io)"
  "read_ports (reg_write (install_full_line k c w io)) = read_ports (reg_write io)"
  "write_ports (reg_write (install_full_line k c w io)) = write_ports (reg_write io)"
  "victim_q (reg_write (install_full_line k c w io)) = victim_q (reg_write io)"
  "invalidate_epoch_r (reg_write (install_full_line k c w io)) = invalidate_epoch_r (reg_write io)"
  "map wk (write_ctxs (reg_write (install_full_line k c w io))) = map wk (write_ctxs (reg_write io))"
  "out_read_req_ready (ext_out (install_full_line k c w io)) = out_read_req_ready (ext_out io)"
  "out_read_resp (ext_out (install_full_line k c w io)) = out_read_resp (ext_out io)"
  "out_write_req_ready (ext_out (install_full_line k c w io)) = out_write_req_ready (ext_out io)"
  "out_write_resp (ext_out (install_full_line k c w io)) = out_write_resp (ext_out io)"
  "mo_write_resp_ready (out_mem (ext_out (install_full_line k c w io))) = mo_write_resp_ready (out_mem (ext_out io))"
  "invalidate_all_accepted (out_mem (ext_out (install_full_line k c w io))) = invalidate_all_accepted (out_mem (ext_out io))"
  by (simp_all add: install_full_line_def Let_def llc_frame)

lemma complete_write_miss_frame [llc_frame]:
  "env_of (complete_write_miss k c w io) = env_of io"
  "read_ports (reg_write (complete_write_miss k c w io)) = read_ports (reg_write io)"
  "write_ports (reg_write (complete_write_miss k c w io)) = write_ports (reg_write io)"
  "victim_q (reg_write (complete_write_miss k c w io)) = victim_q (reg_write io)"
  "invalidate_epoch_r (reg_write (complete_write_miss k c w io)) = invalidate_epoch_r (reg_write io)"
  "map wk (write_ctxs (reg_write (complete_write_miss k c w io))) = map wk (write_ctxs (reg_write io))"
  "out_read_req_ready (ext_out (complete_write_miss k c w io)) = out_read_req_ready (ext_out io)"
  "out_read_resp (ext_out (complete_write_miss k c w io)) = out_read_resp (ext_out io)"
  "out_write_req_ready (ext_out (complete_write_miss k c w io)) = out_write_req_ready (ext_out io)"
  "out_write_resp (ext_out (complete_write_miss k c w io)) = out_write_resp (ext_out io)"
  "mo_write_resp_ready (out_mem (ext_out (complete_write_miss k c w io))) = mo_write_resp_ready (out_mem (ext_out io))"
  "invalidate_all_accepted (out_mem (ext_out (complete_write_miss k c w io))) = invalidate_all_accepted (out_mem (ext_out io))"
  by (simp_all add: complete_write_miss_def Let_def llc_frame split: option.split)

lemma alloc_noalloc_read_frame [llc_frame]:
  "env_of (alloc_noalloc_read k c i io) = env_of io"
  "read_ports (reg_write (alloc_noalloc_read k c i io)) = read_ports (reg_write io)"
  "write_ctxs (reg_write (alloc_noalloc_read k c i io)) = write_ctxs (reg_write io)"
  "write_ports (reg_write (alloc_noalloc_read k c i io)) = write_ports (reg_write io)"
  "victim_wb (reg_write (alloc_noalloc_read k c i io)) = victim_wb (reg_write io)"
  "victim_q (reg_write (alloc_noalloc_read k c i io)) = victim_q (reg_write io)"
  "invalidate_epoch_r (reg_write (alloc_noalloc_read k c i io)) = invalidate_epoch_r (reg_write io)"
  "dirty_line_count_r (reg_write (alloc_noalloc_read k c i io)) = dirty_line_count_r (reg_write io)"
  "out_read_req_ready (ext_out (alloc_noalloc_read k c i io)) = out_read_req_ready (ext_out io)"
  "out_read_resp (ext_out (alloc_noalloc_read k c i io)) = out_read_resp (ext_out io)"
  "out_write_req_ready (ext_out (alloc_noalloc_read k c i io)) = out_write_req_ready (ext_out io)"
  "out_write_resp (ext_out (alloc_noalloc_read k c i io)) = out_write_resp (ext_out io)"
  "mo_write_resp_ready (out_mem (ext_out (alloc_noalloc_read k c i io))) = mo_write_resp_ready (out_mem (ext_out io))"
  "invalidate_all_accepted (out_mem (ext_out (alloc_noalloc_read k c i io))) = invalidate_all_accepted (out_mem (ext_out io))"
  by (simp_all add: alloc_noalloc_read_def Let_def llc_frame)

lemma alloc_read_miss_frame [llc_frame]:
  "env_of (alloc_read_miss k c i w io) = env_of io"
  "read_ports (reg_write (alloc_read_miss k c i w io)) = read_ports (reg_write io)"
  "write_ctxs (reg_write (alloc_read_miss k c i w io)) = write_ctxs (reg_write io)"
  "write_ports (reg_write (alloc_read_miss k c i w io)) = write_ports (reg_write io)"
  "victim_wb (reg_write (alloc_read_miss k c i w io)) = victim_wb (reg_write io)"
  "victim_q (reg_write (alloc_read_miss k c i w io)) = victim_q (reg_write io)"
  "invalidate_epoch_r (reg_write (alloc_read_miss k c i w io)) = invalidate_epoch_r (reg_write io)"
  "dirty_line_count_r (reg_write (alloc_read_miss k c i w io)) = dirty_line_count_r (reg_write io)"
  "out_read_req_ready (ext_out (alloc_read_miss k c i w io)) = out_read_req_ready (ext_out io)"
  "out_read_resp (ext_out (alloc_read_miss k c i w io)) = out_read_resp (ext_out io)"
  "out_write_req_ready (ext_out (alloc_read_miss k c i w io)) = out_write_req_ready (ext_out io)"
  "out_write_resp (ext_out (alloc_read_miss k c i w io)) = out_write_resp (ext_out io)"
  "mo_write_resp_ready (out_mem (ext_out (alloc_read_miss k c i w io))) = mo_write_resp_ready (out_mem (ext_out io))"
  "invalidate_all_accepted (out_mem (ext_out (alloc_read_miss k c i w io))) = invalidate_all_accepted (out_mem (ext_out io))"
  by (simp_all add: alloc_read_miss_def Let_def llc_frame)

lemma complete_read_miss_frame [llc_frame]:
  "env_of (complete_read_miss k c v io) = env_of io"
  "read_ports (reg_write (complete_read_miss k c v io)) = read_ports (reg_write io)"
  "write_ctxs (reg_write (complete_read_miss k c v io)) = write_ctxs (reg_write io)"
  "write_ports (reg_write (complete_read_miss k c v io)) = write_ports (reg_write io)"
  "victim_wb (reg_write (complete_read_miss k c v io)) = victim_wb (reg_write io)"
  "victim_q (reg_write (complete_read_miss k c v io)) = victim_q (reg_write io)"
  "invalidate_epoch_r (reg_write (complete_read_miss k c v io)) = invalidate_epoch_r (reg_write io)"
  "dirty_line_count_r (reg_write (complete_read_miss k c v io)) = dirty_line_count_r (reg_write io)"
  "out_read_req_ready (ext_out (complete_read_miss k c v io)) = out_read_req_ready (ext_out io)"
  "out_read_resp (ext_out (complete_read_miss k c v io)) = out_read_resp (ext_out io)"
  "out_write_req_ready (ext_out (complete_read_miss k c v io)) = out_write_req_ready (ext_out io)"
  "out_write_resp (ext_out (complete_read_miss k c v io)) = out_write_resp (ext_out io)"
  "mo_write_resp_ready (out_mem (ext_out (complete_read_miss k c v io))) = mo_write_resp_ready (out_mem (ext_out io))"
  "invalidate_all_accepted (out_mem (ext_out (complete_read_miss k c v io))) = invalidate_all_accepted (out_mem (ext_out io))"
  by (simp_all add: complete_read_miss_def Let_def llc_frame split: option.split)

lemma try_complete_lookup_frame [llc_frame]:
  "env_of (try_complete_lookup k c io) = env_of io"
  "write_ports (reg_write (try_complete_lookup k c io)) = write_ports (reg_write io)"
  "victim_q (reg_write (try_complete_lookup k c io)) = victim_q (reg_write io)"
  "invalidate_epoch_r (reg_write (try_complete_lookup k c io)) = invalidate_epoch_r (reg_write io)"
  "map wk (write_ctxs (reg_write (try_complete_lookup k c io))) = map wk (write_ctxs (reg_write io))"
  "out_read_req_ready (ext_out (try_complete_lookup k c io)) = out_read_req_ready (ext_out io)"
  "out_read_resp (ext_out (try_complete_lookup k c io)) = out_read_resp (ext_out io)"
  "out_write_req_ready (ext_out (try_complete_lookup k c io)) = out_write_req_ready (ext_out io)"
  "out_write_resp (ext_out (try_complete_lookup k c io)) = out_write_resp (ext_out io)"
  "mo_write_resp_ready (out_mem (ext_out (try_complete_lookup k c io))) = mo_write_resp_ready (out_mem (ext_out io))"
  "invalidate_all_accepted (out_mem (ext_out (try_complete_lookup k c io))) = invalidate_all_accepted (out_mem (ext_out io))"
  by (simp_all add: try_complete_lookup_def Let_def llc_frame split: option.split prod.split)

lemma count_ddr_read_frame [llc_frame]:
  "env_of (count_ddr_read n io) = env_of io"
  "lookup (reg_write (count_ddr_read n io)) = lookup (reg_write io)"
  "mshr (reg_write (count_ddr_read n io)) = mshr (reg_write io)"
  "read_ports (reg_write (count_ddr_read n io)) = read_ports (reg_write io)"
  "write_ctxs (reg_write (count_ddr_read n io)) = write_ctxs (reg_write io)"
  "write_ports (reg_write (count_ddr_read n io)) = write_ports (reg_write io)"
  "victim_wb (reg_write (count_ddr_read n io)) = victim_wb (reg_write io)"
  "victim_q (reg_write (count_ddr_read n io)) = victim_q (reg_write io)"
  "invalidate_epoch_r (reg_write (count_ddr_read n io)) = invalidate_epoch_r (reg_write io)"
  "dirty_line_count_r (reg_write (count_ddr_read n io)) = dirty_line_count_r (reg_write io)"
  "out_read_req_ready (ext_out (count_ddr_read n io)) = out_read_req_ready (ext_out io)"
  "out_read_resp (ext_out (count_ddr_read n io)) = out_read_resp (ext_out io)"
  "out_write_req_ready (ext_out (count_ddr_read n io)) = out_write_req_ready (ext_out io)"
  "out_write_resp (ext_out (count_ddr_read n io)) = out_write_resp (ext_out io)"
  "mo_write_resp_ready (out_mem (ext_out (count_ddr_read n io))) = mo_write_resp_ready (out_mem (ext_out io))"
  "invalidate_all_accepted (out_mem (ext_out (count_ddr_read n io))) = invalidate_all_accepted (out_mem (ext_out io))"
  by (simp_all add: count_ddr_read_def Let_def split: option.split prod.split)

lemma store_refill_frame [llc_frame]:
  "env_of (store_refill d i io) = env_of io"
  "lookup (reg_write (store_refill d i io)) = lookup (reg_write io)"
  "read_ports (reg_write (store_refill d i io)) = read_ports (reg_write io)"
  "write_ctxs (reg_write (store_refill d i io)) = write_ctxs (reg_write io)"
  "write_ports (reg_write (store_refill d i io)) = write_ports (reg_write io)"
  "victim_wb (reg_write (store_refill d i io)) = victim_wb (reg_write io)"
  "victim_q (reg_write (store_refill d i io)) = victim_q (reg_write io)"
  "invalidate_epoch_r (reg_write (store_refill d i io)) = invalidate_epoch_r (reg_write io)"
  "dirty_line_count_r (reg_write (store_refill d i io)) = dirty_line_count_r (reg_write io)"
  "out_read_req_ready (ext_out (store_refill d i io)) = out_read_req_ready (ext_out io)"
  "out_read_resp (ext_out (store_refill d i io)) = out_read_resp (ext_out io)"
  "out_write_req_ready (ext_out (store_refill d i io)) = out_write_req_ready (ext_out io)"
  "out_write_resp (ext_out (store_refill d i io)) = out_write_resp (ext_out io)"
  "mo_write_resp_ready (out_mem (ext_out (store_refill d i io))) = mo_write_resp_ready (out_mem (ext_out io))"
  "invalidate_all_accepted (out_mem (ext_out (store_refill d i io))) = invalidate_all_accepted (out_mem (ext_out io))"
  by (simp_all add: store_refill_def Let_def split: option.split prod.split)

lemma mem_read_response_frame [llc_frame]:
  "env_of (mem_read_response k c io) = env_of io"
  "lookup (reg_write (mem_read_response k c io)) = lookup (reg_write io)"
  "write_ctxs (reg_write (mem_read_response k c io)) = write_ctxs (reg_write io)"
  "write_ports (reg_write (mem_read_response k c io)) = write_ports (reg_write io)"
  "victim_wb (reg_write (mem_read_response k c io)) = victim_wb (reg_write io)"
  "victim_q (reg_write (mem_read_response k c io)) = victim_q (reg_write io)"
  "invalidate_epoch_r (reg_write (mem_read_response k c io)) = invalidate_epoch_r (reg_write io)"
  "dirty_line_count_r (reg_write (mem_read_response k c io)) = dirty_line_count_r (reg_write io)"
  "out_read_req_ready (ext_out (mem_read_response k c io)) = out_read_req_ready (ext_out io)"
  "out_read_resp (ext_out (mem_read_response k c io)) = out_read_resp (ext_out io)"
  "out_write_req_ready (ext_out (mem_read_response k c io)) = out_write_req_ready (ext_out io)"
  "out_write_resp (ext_out (mem_read_response k c io)) = out_write_resp (ext_out io)"
  "mo_write_resp_ready (out_mem (ext_out (mem_read_response k c io))) = mo_write_resp_ready (out_mem (ext_out io))"
  "invalidate_all_accepted (out_mem (ext_out (mem_read_response k c io))) = invalidate_all_accepted (out_mem (ext_out io))"
  by (simp_all add: mem_read_response_def Let_def case_prod_beta llc_frame split: option.split)

lemma drop_stale_refill_frame [llc_frame]:
  "env_of (drop_stale_refill k c i io) = env_of io"
  "lookup (reg_write (drop_stale_refill k c i io)) = lookup (reg_write io)"
  "write_ctxs (reg_write (drop_stale_refill k c i io)) = write_ctxs (reg_write io)"
  "write_ports (reg_write (drop_stale_refill k c i io)) = write_ports (reg_write io)"
  "invalidate_epoch_r (reg_write (drop_stale_refill k c i io)) = invalidate_epoch_r (reg_write io)"
  "dirty_line_count_r (reg_write (drop_stale_refill k c i io)) = dirty_line_count_r (reg_write io)"
  "out_read_req_ready (ext_out (drop_stale_refill k c i io)) = out_read_req_ready (ext_out io)"
  "out_read_resp (ext_out (drop_stale_refill k c i io)) = out_read_resp (ext_out io)"
  "out_write_req_ready (ext_out (drop_stale_refill k c i io)) = out_write_req_ready (ext_out io)"
  "out_write_resp (ext_out (drop_stale_refill k c i io)) = out_write_resp (ext_out io)"
  "mo_write_resp_ready (out_mem (ext_out (drop_stale_refill k c i io))) = mo_write_resp_ready (out_mem (ext_out io))"
  "invalidate_all_accepted (out_mem (ext_out (drop_stale_refill k c i io))) = invalidate_all_accepted (out_mem (ext_out io))"
  by (simp_all add: drop_stale_refill_def Let_def case_prod_beta llc_frame)

lemma write_refill_frame [llc_frame]:
  "env_of (write_refill k c e io) = env_of io"
  "lookup (reg_write (write_refill k c e io)) = lookup (reg_write io)"
  "mshr (reg_write (write_refill k c e io)) = mshr (reg_write io)"
  "read_ports (reg_write (write_refill k c e io)) = read_ports (reg_write io)"
  "write_ctxs (reg_write (write_refill k c e io)) = write_ctxs (reg_write io)"
  "write_ports (reg_write (write_refill k c e io)) = write_ports (reg_write io)"
  "victim_wb (reg_write (write_refill k c e io)) = victim_wb (reg_write io)"
  "victim_q (reg_write (write_refill k c e io)) = victim_q (reg_write io)"
  "invalidate_epoch_r (reg_write (write_refill k c e io)) = invalidate_epoch_r (reg_write io)"
  "out_read_req_ready (ext_out (write_refill k c e io)) = out_read_req_ready (ext_out io)"
  "out_read_resp (ext_out (write_refill k c e io)) = out_read_resp (ext_out io)"
  "out_write_req_ready (ext_out (write_refill k c e io)) = out_write_req_ready (ext_out io)"
  "out_write_resp (ext_out (write_refill k c e io)) = out_write_resp (ext_out io)"
  "mo_write_resp_ready (out_mem (ext_out (write_refill k c e io))) = mo_write_resp_ready (out_mem (ext_out io))"
  "invalidate_all_accepted (out_mem (ext_out (write_refill k c e io))) = invalidate_all_accepted (out_mem (ext_out io))"
  by (simp_all add: write_refill_def Let_def)

lemma install_refill_frame [llc_frame]:
  "env_of (install_refill k c i io) = env_of io"
  "lookup (reg_write (install_refill k c i io)) = lookup (reg_write io)"
  "read_ports (reg_write (install_refill k c i io)) = read_ports (reg_write io)"
  "write_ports (reg_write (install_refill k c i io)) = write_ports (reg_write io)"
  "invalidate_epoch_r (reg_write (install_refill k c i io)) = invalidate_epoch_r (reg_write io)"
  "map wk (write_ctxs (reg_write (install_refill k c i io))) = map wk (write_ctxs (reg_write io))"
  "out_read_req_ready (ext_out (install_refill k c i io)) = out_read_req_ready (ext_out io)"
  "out_read_resp (ext_out (install_refill k c i io)) = out_read_resp (ext_out io)"
  "out_write_req_ready (ext_out (install_refill k c i io)) = out_write_req_ready (ext_out io)"
  "out_write_resp (ext_out (install_refill k c i io)) = out_write_resp (ext_out io)"
  "mo_write_resp_ready (out_mem (ext_out (install_refill k c i io))) = mo_write_resp_ready (out_mem (ext_out io))"
  "invalidate_all_accepted (out_mem (ext_out (install_refill k c i io))) = invalidate_all_accepted (out_mem (ext_out io))"
  by (simp_all add: install_refill_def Let_def case_prod_beta llc_frame)

lemma answer_refill_frame [llc_frame]:
  "env_of (answer_refill k c i io) = env_of io"
  "lookup (reg_write (answer_refill k c i io)) = lookup (reg_write io)"
  "write_ctxs (reg_write (answer_refill k c i io)) = write_ctxs (reg_write io)"
  "write_ports (reg_write (answer_refill k c i io)) = write_ports (reg_write io)"
  "victim_q (reg_write (answer_refill k c i io)) = victim_q (reg_write io)"
  "invalidate_epoch_r (reg_write (answer_refill k c i io)) = invalidate_epoch_r (reg_write io)"
  "dirty_line_count_r (reg_write (answer_refill k c i io)) = dirty_line_count_r (reg_write io)"
  "out_read_req_ready (ext_out (answer_refill k c i io)) = out_read_req_ready (ext_out io)"
  "out_read_resp (ext_out (answer_refill k c i io)) = out_read_resp (ext_out io)"
  "out_write_req_ready (ext_out (answer_refill k c i io)) = out_write_req_ready (ext_out io)"
  "out_write_resp (ext_out (answer_refill k c i io)) = out_write_resp (ext_out io)"
  "mo_write_resp_ready (out_mem (ext_out (answer_refill k c i io))) = mo_write_resp_ready (out_mem (ext_out io))"
  "invalidate_all_accepted (out_mem (ext_out (answer_refill k c i io))) = invalidate_all_accepted (out_mem (ext_out io))"
  by (simp_all add: answer_refill_def Let_def case_prod_beta llc_frame)

lemma commit_refill_frame [llc_frame]:
  "env_of (commit_refill k c io) = env_of io"
  "lookup (reg_write (commit_refill k c io)) = lookup (reg_write io)"
  "write_ports (reg_write (commit_refill k c io)) = write_ports (reg_write io)"
  "invalidate_epoch_r (reg_write (commit_refill k c io)) = invalidate_epoch_r (reg_write io)"
  "map wk (write_ctxs (reg_write (commit_refill k c io))) = map wk (write_ctxs (reg_write io))"
  "out_read_req_ready (ext_out (commit_refill k c io)) = out_read_req_ready (ext_out io)"
  "out_read_resp (ext_out (commit_refill k c io)) = out_read_resp (ext_out io)"
  "out_write_req_ready (ext_out (commit_refill k c io)) = out_write_req_ready (ext_out io)"
  "out_write_resp (ext_out (commit_refill k c io)) = out_write_resp (ext_out io)"
  "mo_write_resp_ready (out_mem (ext_out (commit_refill k c io))) = mo_write_resp_ready (out_mem (ext_out io))"
  "invalidate_all_accepted (out_mem (ext_out (commit_refill k c io))) = invalidate_all_accepted (out_mem (ext_out io))"
  by (simp_all add: commit_refill_def Let_def llc_frame split: option.split)

lemma drive_mem_read_path_frame [llc_frame]:
  "env_of (drive_mem_read_path k c io) = env_of io"
  "lookup (reg_write (drive_mem_read_path k c io)) = lookup (reg_write io)"
  "write_ports (reg_write (drive_mem_read_path k c io)) = write_ports (reg_write io)"
  "invalidate_epoch_r (reg_write (drive_mem_read_path k c io)) = invalidate_epoch_r (reg_write io)"
  "map wk (write_ctxs (reg_write (drive_mem_read_path k c io))) = map wk (write_ctxs (reg_write io))"
  "out_read_req_ready (ext_out (drive_mem_read_path k c io)) = out_read_req_ready (ext_out io)"
  "out_read_resp (ext_out (drive_mem_read_path k c io)) = out_read_resp (ext_out io)"
  "out_write_req_ready (ext_out (drive_mem_read_path k c io)) = out_write_req_ready (ext_out io)"
  "out_write_resp (ext_out (drive_mem_read_path k c io)) = out_write_resp (ext_out io)"
  "mo_write_resp_ready (out_mem (ext_out (drive_mem_read_path k c io))) = mo_write_resp_ready (out_mem (ext_out io))"
  "invalidate_all_accepted (out_mem (ext_out (drive_mem_read_path k c io))) = invalidate_all_accepted (out_mem (ext_out io))"
  by (simp_all add: drive_mem_read_path_def llc_frame)

end
