(* ===== verification/LLC_Rings.thy ===== *)
theory LLC_Rings
  imports LLC_Types
begin

text \<open>
  The ring buffers of the cache (read responses, write requests, read victims): an array of \<open>D\<close>
  slots, a head, a tail and a count. \<open>ring D q h n\<close> is the queue they stand for, oldest first;
  writing at the tail appends to it and moving the head takes its first element.
\<close>

definition ring :: "nat \<Rightarrow> 'a list \<Rightarrow> nat \<Rightarrow> nat \<Rightarrow> 'a list" where
  "ring D q h n = map (\<lambda>i. q ! ((h + i) mod D)) [0..<n]"

lemma ring_length [simp]: "length (ring D q h n) = n"
  by (simp add: ring_def)

lemma ring_0 [simp]: "ring D q h 0 = []"
  by (simp add: ring_def)

lemma slot_distinct:
  assumes "i < n" "n < (D :: nat)"
  shows "(h + i) mod D \<noteq> (h + n) mod D"
proof
  assume "(h + i) mod D = (h + n) mod D"
  then have "D dvd (h + n) - (h + i)" using assms by (intro mod_eq_dvd_iff_nat [THEN iffD1]) simp_all
  then show False using assms by (auto dest: dvd_imp_le)
qed

lemma ring_push:
  assumes "n < D" and "length q = D"
  shows "ring D (q[(h + n) mod D := x]) h (Suc n) = ring D q h n @ [x]"
  using assms slot_distinct [of _ n D h, THEN not_sym] by (auto simp: ring_def)

lemma ring_pop:
  assumes "0 < n" and "n \<le> D" and "length q = D" and "h < D"
  shows "ring D q h n = q ! h # ring D (q[h := z]) ((h + 1) mod D) (n - 1)"
proof -
  obtain m where n: "n = Suc m" using assms(1) by (cases n) auto
  have "((h + 1) mod D + i) mod D = (h + Suc i) mod D" for i by (simp add: mod_add_left_eq)
  moreover have "(h + Suc i) mod D \<noteq> h" if "i < m" for i
  proof -
    have "h mod D \<noteq> (h + Suc i) mod D" using that n assms(2)
    proof (intro notI)
      assume "h mod D = (h + Suc i) mod D"
      then have "D dvd (h + Suc i) - h" by (intro mod_eq_dvd_iff_nat [THEN iffD1]) simp_all
      then show False using that n assms(2) by (auto dest: dvd_imp_le)
    qed
    then show ?thesis using assms(4) by simp
  qed
  then have "q[h := z] ! (Suc (h + i) mod D) = q ! (Suc (h + i) mod D)" if "i < m" for i
    using that by (metis add_Suc_right nth_list_update_neq)
  ultimately show ?thesis
    using assms(4) by (simp add: ring_def n upt_conv_Cons map_Suc_upt [symmetric] del: upt_Suc map_Suc_upt)
qed

text \<open>The pointers of a ring of at most 128 slots in eight bits.\<close>

definition ptrs_ok :: "nat \<Rightarrow> u8 \<Rightarrow> u8 \<Rightarrow> u8 \<Rightarrow> bool" where
  "ptrs_ok D h t n \<longleftrightarrow> 0 < D \<and> D \<le> 128 \<and> unat n \<le> D \<and> unat h < D \<and> unat t = (unat h + unat n) mod D"

lemma ring_ok_start: "0 < D \<Longrightarrow> D \<le> 128 \<Longrightarrow> ptrs_ok D 0 0 0"
  by (simp add: ptrs_ok_def)

lemma small_u8: "x < D \<Longrightarrow> D \<le> 128 \<Longrightarrow> unat (of_nat x :: u8) = x"
  by (simp add: unat_of_nat)

lemma ptrs_ok_push:
  assumes "ptrs_ok D h t n" and "unat n < D"
  shows "ptrs_ok D h (of_nat ((unat t mod D + 1) mod D)) (n + 1)" and "unat (n + 1) = Suc (unat n)"
    and "unat t mod D = (unat h + unat n) mod D"
proof -
  have D: "0 < D" "D \<le> 128" and t: "unat t = (unat h + unat n) mod D" using assms(1) by (simp_all add: ptrs_ok_def)
  have n1: "unat (n + 1) = Suc (unat n)"
    using assms(2) D by (simp add: unat_word_ariths)
  then show "unat (n + 1) = Suc (unat n)" .
  have "(unat t mod D + 1) mod D < D" using D by simp
  then have "unat (of_nat ((unat t mod D + 1) mod D) :: u8) = (unat t mod D + 1) mod D" using D(2) by (rule small_u8)
  moreover have "(unat t mod D + 1) mod D = (unat h + Suc (unat n)) mod D"
    unfolding t by (simp add: mod_Suc_eq)
  ultimately show "ptrs_ok D h (of_nat ((unat t mod D + 1) mod D)) (n + 1)"
    using assms n1 by (simp add: ptrs_ok_def)
  show "unat t mod D = (unat h + unat n) mod D" using t by simp
qed

lemma ptrs_ok_pop:
  assumes "ptrs_ok D h t n" and "n \<noteq> 0"
  shows "ptrs_ok D (of_nat ((unat h mod D + 1) mod D)) t (n - 1)" and "unat (n - 1) = unat n - 1"
    and "unat (of_nat ((unat h mod D + 1) mod D) :: u8) = (unat h + 1) mod D" and "unat h mod D = unat h"
proof -
  have D: "0 < D" "D \<le> 128" and h: "unat h < D" and t: "unat t = (unat h + unat n) mod D"
    using assms(1) by (simp_all add: ptrs_ok_def)
  show n1: "unat (n - 1) = unat n - 1" using assms(2) by (simp add: unat_minus_one)
  have pos: "0 < unat n" using assms(2) by (simp add: unat_gt_0)
  have "(unat h + 1) mod D < D" using D by simp
  then show h1: "unat (of_nat ((unat h mod D + 1) mod D) :: u8) = (unat h + 1) mod D"
    using small_u8 [OF _ D(2)] h by simp
  show "unat h mod D = unat h" using h by simp
  have "((unat h + 1) mod D + (unat n - 1)) mod D = (unat h + unat n) mod D"
    using pos by (cases "unat n") (simp_all add: mod_add_left_eq)
  then show "ptrs_ok D (of_nat ((unat h mod D + 1) mod D)) t (n - 1)"
    using assms(1) D h1 n1 t by (auto simp: ptrs_ok_def)
qed

end
