(* ===== verification/LLC_Reads.thy ===== *)
theory LLC_Reads
  imports LLC_Frames LLC_Rings
begin

text \<open>
  Who is owed a read response. For one read master, the ids of its accepted and unanswered reads
  are found in the lookup, in the miss entries and in its response port (the slot and its queue).
  Every stage of the cache moves them between these three places; only the acceptance of a request
  adds one and only the hand-over of a response takes one. Over a run this makes the responses of
  a master exactly the requests accepted from it, each answered at most once.
\<close>

section \<open>The response port\<close>

definition port_live :: "kit_config \<Rightarrow> llc_read_port \<Rightarrow> u8 list" where
  "port_live k p = (if rp_valid p
     then rp_id p # ring (MAX_OUTSTANDING k) (rp_q_id p) (unat (rp_head p)) (unat (rp_count p)) else [])"

definition port_ok :: "kit_config \<Rightarrow> llc_read_port \<Rightarrow> bool" where
  "port_ok k p \<longleftrightarrow> ptrs_ok (MAX_OUTSTANDING k) (rp_head p) (rp_tail p) (rp_count p) \<and>
     length (rp_q_id p) = MAX_OUTSTANDING k \<and> length (rp_q_data p) = MAX_OUTSTANDING k \<and>
     (\<not> rp_valid p \<longrightarrow> rp_count p = 0)"

lemma push_read_port_live:
  assumes ok: "port_ok k p" and push: "push_read_port k i d p = (sent, p')"
  shows "port_ok k p' \<and> (if sent then port_live k p' = port_live k p @ [i] else p' = p)"
proof -
  let ?D = "MAX_OUTSTANDING k"
  have ring: "ptrs_ok ?D (rp_head p) (rp_tail p) (rp_count p)" and len: "length (rp_q_id p) = ?D" "length (rp_q_data p) = ?D"
    and idle: "\<not> rp_valid p \<Longrightarrow> rp_count p = 0"
    using ok by (simp_all add: port_ok_def)
  consider (slot) "\<not> rp_valid p" | (full) "rp_valid p" "?D \<le> unat (rp_count p)"
    | (queue) "rp_valid p" "unat (rp_count p) < ?D" by linarith
  then show ?thesis
  proof cases
    case slot
    then show ?thesis using push ok idle by (auto simp: push_read_port_def port_ok_def port_live_def)
  next
    case full
    then show ?thesis using push ok by (auto simp: push_read_port_def)
  next
    case queue
    note step = ptrs_ok_push [OF ring queue(2)]
    have p': "sent" "p' = p\<lparr>rp_q_id := (rp_q_id p)[unat (rp_tail p) mod ?D := i],
        rp_q_data := (rp_q_data p)[unat (rp_tail p) mod ?D := d],
        rp_tail := of_nat ((unat (rp_tail p) mod ?D + 1) mod ?D), rp_count := rp_count p + 1\<rparr>"
      using push queue by (auto simp: push_read_port_def Let_def)
    have "port_live k p' = port_live k p @ [i]"
      using queue(1) ring_push [OF queue(2) len(1), of "unat (rp_head p)" i] step(2,3)
      by (simp add: p' port_live_def)
    moreover have "port_ok k p'" using queue(1) len step(1) by (simp add: p' port_ok_def)
    ultimately show ?thesis using p'(1) by simp
  qed
qed

lemma pop_read_port_live:
  assumes ok: "port_ok k p" and "rp_valid p" and "rp_count p \<noteq> 0"
  shows "port_ok k (pop_read_port k p p) \<and> rp_id p # port_live k (pop_read_port k p p) = port_live k p"
proof -
  let ?D = "MAX_OUTSTANDING k"
  have ring: "ptrs_ok ?D (rp_head p) (rp_tail p) (rp_count p)" and len: "length (rp_q_id p) = ?D" "length (rp_q_data p) = ?D"
    using ok by (simp_all add: port_ok_def)
  note step = ptrs_ok_pop [OF ring assms(3)]
  have "ring ?D (rp_q_id p) (unat (rp_head p)) (unat (rp_count p)) =
    rp_q_id p ! unat (rp_head p) # ring ?D ((rp_q_id p)[unat (rp_head p) := 0]) ((unat (rp_head p) + 1) mod ?D) (unat (rp_count p) - 1)"
    using ring assms(3) len by (intro ring_pop) (auto simp: ptrs_ok_def unat_gt_0)
  then show ?thesis using assms(2) len step
    by (simp add: pop_read_port_def Let_def port_ok_def port_live_def)
qed

text \<open>The slot hands over its response, and the queue's first moves up, exactly when the slot is valid,
  not fresh, and the master is ready.\<close>

lemma drive_read_port_live:
  assumes ok: "port_ok k p"
  shows "port_ok k (drive_read_port k ready p p) \<and>
    (if rp_valid p \<and> \<not> rp_fresh p \<and> ready then [rp_id p] else []) @ port_live k (drive_read_port k ready p p) =
    port_live k p"
proof -
  have idle: "\<not> rp_valid p \<Longrightarrow> rp_count p = 0" using ok by (simp add: port_ok_def)
  consider (fresh) "rp_valid p \<and> rp_fresh p" | (pop) "rp_valid p" "\<not> rp_fresh p" ready "rp_count p \<noteq> 0"
    | (out) "rp_valid p" "\<not> rp_fresh p" ready "rp_count p = 0" | (hold) "\<not> rp_valid p \<or> \<not> rp_fresh p \<and> \<not> ready"
    by blast
  then show ?thesis
  proof cases
    case fresh
    then show ?thesis using ok by (simp add: drive_read_port_def Let_def port_ok_def port_live_def)
  next
    case pop
    have v: "rp_valid (pop_read_port k p p)" by (simp add: pop_read_port_def Let_def)
    from pop show ?thesis using pop_read_port_live [OF ok] v by (simp add: drive_read_port_def Let_def)
  next
    case out
    then show ?thesis using ok by (simp add: drive_read_port_def Let_def port_ok_def port_live_def)
  next
    case hold
    then have "drive_read_port k ready p p = p" using idle by (auto simp: drive_read_port_def Let_def)
    with hold ok show ?thesis by auto
  qed
qed

lemma port_ok_zero: "0 < MAX_OUTSTANDING k \<Longrightarrow> MAX_OUTSTANDING k \<le> 128 \<Longrightarrow> port_ok k (llc_read_port_zero k)"
  by (simp add: port_ok_def llc_read_port_zero_def ring_ok_start)

section \<open>What a master is owed\<close>

definition lookup_owed :: "nat \<Rightarrow> llc_lookup \<Rightarrow> u8 multiset" where
  "lookup_owed m l = (if lk_valid l \<and> \<not> lk_is_write l \<and> \<not> lk_is_prefetch l \<and> \<not> lk_is_invalidate l \<and>
     unat (lk_master l) = m then {#lk_id l#} else {#})"

definition entry_owed :: "nat \<Rightarrow> miss_entry \<Rightarrow> u8 multiset" where
  "entry_owed m e = (if ms_valid e \<and> \<not> ms_is_write e \<and> \<not> ms_is_prefetch e \<and> unat (ms_master e) = m
     then {#ms_id e#} else {#})"

definition entries_owed :: "nat \<Rightarrow> miss_entry list \<Rightarrow> u8 multiset" where
  "entries_owed m es = (\<Sum>e\<leftarrow>es. entry_owed m e)"

definition read_owed :: "kit_config \<Rightarrow> nat \<Rightarrow> llc_regs \<Rightarrow> u8 multiset" where
  "read_owed k m r = lookup_owed m (lookup r) + entries_owed m (map ek (mshr r)) + mset (port_live k (read_ports r ! m))"

definition lookup_ok :: "llc_lookup \<Rightarrow> bool" where
  "lookup_ok l \<longleftrightarrow> (lk_valid l \<longrightarrow>
     (lk_is_write l \<longrightarrow> \<not> lk_is_prefetch l \<and> \<not> lk_is_invalidate l) \<and> \<not> (lk_is_prefetch l \<and> lk_is_invalidate l) \<and>
     (lk_is_direct_mapped l \<longrightarrow> \<not> lk_is_prefetch l \<and> \<not> lk_is_invalidate l) \<and> (lk_is_prefetch l \<longrightarrow> \<not> lk_is_bypass l))"

definition entry_ok :: "miss_entry \<Rightarrow> bool" where
  "entry_ok e \<longleftrightarrow> (ms_refill_valid e \<longrightarrow> ms_valid e) \<and> (ms_valid e \<longrightarrow> (ms_bypass e \<longrightarrow> \<not> ms_is_write e \<and> \<not> ms_is_prefetch e) \<and>
     (ms_is_write e \<longrightarrow> \<not> ms_refill_committed e \<and> \<not> ms_is_prefetch e))"

definition entries_ok :: "kit_config \<Rightarrow> miss_entry list \<Rightarrow> bool" where
  "entries_ok k es \<longleftrightarrow> length es = MAX_OUTSTANDING k \<and> list_all entry_ok es"

definition ports_ok :: "kit_config \<Rightarrow> llc_read_port list \<Rightarrow> bool" where
  "ports_ok k ps \<longleftrightarrow> length ps = NUM_READ_MASTERS \<and> list_all (port_ok k) ps"

definition reads_ok :: "kit_config \<Rightarrow> llc_regs \<Rightarrow> bool" where
  "reads_ok k r \<longleftrightarrow> ports_ok k (read_ports r) \<and> entries_ok k (map ek (mshr r)) \<and> lookup_ok (lookup r)"

text \<open>The next registers follow the current ones: what the lookup and the entries stood for at the start
  of the cycle they still stand for.\<close>

definition follows :: "llc_io \<Rightarrow> bool" where
  "follows io \<longleftrightarrow> map ek (mshr (reg_write io)) = map ek (mshr (regs io)) \<and>
     (lk_valid (lookup (regs io)) \<longrightarrow> lookup (reg_write io) = lookup (regs io))"

text \<open>A stage moves reads without adding or losing one.\<close>

definition moves :: "kit_config \<Rightarrow> nat \<Rightarrow> llc_io \<Rightarrow> llc_io \<Rightarrow> bool" where
  "moves k m io io' \<longleftrightarrow> read_owed k m (reg_write io') = read_owed k m (reg_write io) \<and> reads_ok k (reg_write io')"

lemma sum_list_upd:
  assumes "i < length xs"
  shows "(\<Sum>x\<leftarrow>upd i g xs. f x) + f (xs ! i) = (\<Sum>x\<leftarrow>xs. f x) + (f (g (xs ! i)) :: 'a multiset)"
  using assms unfolding upd_def
proof (induction xs arbitrary: i)
  case (Cons x xs)
  then show ?case by (cases i) (auto simp: ac_simps)
qed simp

lemma map_ek_upd: "map ek (upd i g xs) = (map ek xs)[i := ek (g (xs ! i))]"
  by (simp add: upd_def map_update)

lemma entries_owed_update:
  assumes "i < length es"
  shows "entries_owed m (es[i := e]) + entry_owed m (es ! i) = entries_owed m es + entry_owed m e"
  using sum_list_upd [OF assms, of "entry_owed m" "\<lambda>_. e"] by (simp add: entries_owed_def upd_def)

lemma entries_ok_update: "entries_ok k es \<Longrightarrow> entry_ok e \<Longrightarrow> entries_ok k (es[i := e])"
  by (auto simp: entries_ok_def intro: list_all_update)

lemma entry_owed_ek [simp]: "entry_owed m (ek e) = entry_owed m e"
  by (simp add: entry_owed_def ek_select)

lemma entry_ok_ek [simp]: "entry_ok (ek e) = entry_ok e"
  by (simp add: entry_ok_def ek_select)

lemma entries_nth: "map ek xs = map ek ys \<Longrightarrow> i < length xs \<Longrightarrow> ek (xs ! i) = ek (ys ! i)"
  by (metis length_map nth_map)

lemma ek_eqD:
  assumes "ek a = ek b"
  shows "ms_valid a = ms_valid b" "ms_bypass a = ms_bypass b" "ms_is_prefetch a = ms_is_prefetch b"
    "ms_is_write a = ms_is_write b" "ms_refill_valid a = ms_refill_valid b" "ms_refill_committed a = ms_refill_committed b"
    "ms_line_addr a = ms_line_addr b" "ms_set a = ms_set b" "ms_way a = ms_way b" "ms_master a = ms_master b" "ms_id a = ms_id b"
  using ek_select [of a] ek_select [of b] assms by metis+

section \<open>Leaving a lookup\<close>

lemma finish_lookup_owed [simp]:
  "lookup_owed m (lookup (reg_write (finish_lookup st io))) = {#}" "lookup_ok (lookup (reg_write (finish_lookup st io)))"
  by (simp_all add: finish_lookup_def lookup_owed_def lookup_ok_def)

lemma finish_direct_lookup_owed [simp]:
  "lookup_owed m (lookup (reg_write (finish_direct_lookup io))) = {#}"
  "lookup_ok (lookup (reg_write (finish_direct_lookup io)))"
  by (simp_all add: finish_direct_lookup_def finish_lookup_def lookup_owed_def lookup_ok_def)

lemma retry_lookup_owed [simp]:
  "lookup_owed m (lookup (reg_write (retry_lookup st io))) = lookup_owed m (lookup (reg_write io))"
  "lookup_ok (lookup (reg_write (retry_lookup st io))) = lookup_ok (lookup (reg_write io))"
  by (simp_all add: retry_lookup_def lookup_owed_def lookup_ok_def)

lemma enqueue_live:
  assumes "ports_ok k (read_ports (reg_write io))" and "m < NUM_READ_MASTERS"
    and "enqueue_read_response k mm i d io = (sent, io')"
  shows "ports_ok k (read_ports (reg_write io')) \<and>
    port_live k (read_ports (reg_write io') ! m) =
      port_live k (read_ports (reg_write io) ! m) @ (if sent \<and> unat mm = m then [i] else [])"
proof (cases "unat mm < NUM_READ_MASTERS")
  case True
  let ?ps = "read_ports (reg_write io)"
  obtain p' where push: "push_read_port k i d (?ps ! unat mm) = (sent, p')"
    using assms(3) True by (auto simp: enqueue_read_response_def split: prod.splits)
  then have io': "io' = wr_read_port (unat mm) (\<lambda>_. p') io" using assms(3) True by (simp add: enqueue_read_response_def)
  have "port_ok k (?ps ! unat mm)" and len: "length ?ps = NUM_READ_MASTERS"
    using assms(1) True by (auto simp: ports_ok_def list_all_length)
  note eff = push_read_port_live [OF this(1) push]
  then show ?thesis using assms(1,2) True len
    by (auto simp: io' ports_ok_def nth_upd upd_def nth_list_update intro: list_all_update split: if_splits)
qed (use assms in \<open>auto simp: enqueue_read_response_def\<close>)

section \<open>Completing a lookup\<close>

lemma moves_refl: "reads_ok k (reg_write io) \<Longrightarrow> moves k m io io"
  by (simp add: moves_def)

lemma moves_retry: "reads_ok k (reg_write io) \<Longrightarrow> moves k m io (retry_lookup st io)"
  by (simp add: moves_def reads_ok_def read_owed_def llc_frame)

text \<open>A lookup that is not a read's ends without a response.\<close>

lemma moves_finish:
  assumes "reads_ok k (reg_write io)" and "lookup_owed m (lookup (reg_write io)) = {#}"
    and "lookup_owed m (lookup (reg_write io')) = {#}" and "lookup_ok (lookup (reg_write io'))"
    and "read_ports (reg_write io') = read_ports (reg_write io)"
    and "map ek (mshr (reg_write io')) = map ek (mshr (reg_write io))"
  shows "moves k m io io'"
  using assms by (simp add: moves_def reads_ok_def read_owed_def)

text \<open>A read that is answered: the response port takes it from the lookup.\<close>

lemma moves_answer:
  assumes ok: "reads_ok k (reg_write io)" and m: "m < NUM_READ_MASTERS"
    and lk: "lk_valid (lookup (reg_write io))" "\<not> lk_is_write (lookup (reg_write io))"
      "\<not> lk_is_prefetch (lookup (reg_write io))" "\<not> lk_is_invalidate (lookup (reg_write io))"
    and enq: "enqueue_read_response k (lk_master (lookup (reg_write io))) (lk_id (lookup (reg_write io))) d io = (True, io1)"
    and fin: "lookup_owed m (lookup (reg_write io')) = {#}" "lookup_ok (lookup (reg_write io'))"
      "read_ports (reg_write io') = read_ports (reg_write io1)"
      "map ek (mshr (reg_write io')) = map ek (mshr (reg_write io))"
  shows "moves k m io io'"
  using assms enqueue_live [OF _ m enq]
  by (auto simp: moves_def reads_ok_def read_owed_def lookup_owed_def)

lemma moves_refuse:
  assumes "reads_ok k (reg_write io)" and "m < NUM_READ_MASTERS" and "enqueue_read_response k mm i d io = (False, io1)"
  shows "moves k m io (retry_lookup st io1)"
proof -
  have io1: "io1 = snd (enqueue_read_response k mm i d io)" using assms(3) by simp
  show ?thesis using assms enqueue_live [OF _ assms(2,3)]
    by (auto simp: moves_def reads_ok_def read_owed_def llc_frame io1)
qed

text \<open>A read that misses: a free miss entry takes it from the lookup.\<close>

lemma moves_allocate:
  assumes ok: "reads_ok k (reg_write io)"
    and free: "i < MAX_OUTSTANDING k" "\<not> ms_valid (mshr (reg_write io) ! i)"
    and new: "map ek (mshr (reg_write io')) = (map ek (mshr (reg_write io)))[i := ek e]" "entry_ok e"
      "entry_owed m e = lookup_owed m (lookup (reg_write io))"
    and fin: "lookup_owed m (lookup (reg_write io')) = {#}" "lookup_ok (lookup (reg_write io'))"
      "read_ports (reg_write io') = read_ports (reg_write io)"
  shows "moves k m io io'"
proof -
  have len: "length (mshr (reg_write io)) = MAX_OUTSTANDING k" using ok by (simp add: reads_ok_def entries_ok_def)
  have "entry_owed m (map ek (mshr (reg_write io)) ! i) = {#}"
    using free len by (simp add: entry_owed_def ek_select)
  then have "entries_owed m (map ek (mshr (reg_write io'))) = entries_owed m (map ek (mshr (reg_write io))) + entry_owed m e"
    using entries_owed_update [of i "map ek (mshr (reg_write io))" m "ek e"] free len new(1) by simp
  moreover have "entries_ok k (map ek (mshr (reg_write io')))"
    using ok new(1,2) by (simp add: reads_ok_def entries_ok_update)
  ultimately show ?thesis using ok new(3) fin by (simp add: moves_def reads_ok_def read_owed_def ac_simps)
qed

text \<open>The three lookups that answer a read at once.\<close>

lemma moves_respond:
  assumes ok: "reads_ok k (reg_write io)" "m < NUM_READ_MASTERS" "follows io" "lk_valid (lookup (regs io))"
    and lk: "\<not> lk_is_write (lookup (regs io))" "\<not> lk_is_prefetch (lookup (regs io))" "\<not> lk_is_invalidate (lookup (regs io))"
    and sent: "\<And>io1. env_of io1 = env_of io \<Longrightarrow> lookup_owed m (lookup (reg_write (f io1))) = {#} \<and>
      lookup_ok (lookup (reg_write (f io1))) \<and> read_ports (reg_write (f io1)) = read_ports (reg_write io1) \<and>
      map ek (mshr (reg_write (f io1))) = map ek (mshr (reg_write io1))"
  shows "moves k m io (case enqueue_read_response k (lk_master (lookup (regs io))) (lk_id (lookup (regs io))) d io of
    (ok, io1) \<Rightarrow> if ok then f io1 else retry_lookup st io1)"
proof -
  let ?e = "enqueue_read_response k (lk_master (lookup (regs io))) (lk_id (lookup (regs io))) d io"
  obtain sent io1 where enq: "?e = (sent, io1)" by (cases ?e)
  then have io1: "io1 = snd ?e" by simp
  have same: "lookup (reg_write io) = lookup (regs io)" using ok(3,4) by (simp add: follows_def)
  show ?thesis
  proof (cases sent)
    case True
    have "env_of io1 = env_of io" by (simp add: io1)
    note fin = sent [OF this]
    have "moves k m io (f io1)"
      by (rule moves_answer [OF ok(1,2), of d io1]) (use ok lk same enq True fin in \<open>simp_all add: llc_frame io1\<close>)
    with True show ?thesis by (simp add: enq)
  next
    case False
    with enq moves_refuse [OF ok(1,2)] show ?thesis by simp
  qed
qed

lemma moves_direct_read:
  assumes "reads_ok k (reg_write io)" and "m < NUM_READ_MASTERS" and "follows io" and "lk_valid (lookup (regs io))"
    and "\<not> lk_is_write (lookup (regs io))" "\<not> lk_is_prefetch (lookup (regs io))" "\<not> lk_is_invalidate (lookup (regs io))"
  shows "moves k m io (complete_direct_read k c io)"
  unfolding complete_direct_read_def Let_def
  by (rule moves_respond [OF assms]) (simp add: llc_frame)

lemma moves_bypass_read_hit:
  assumes "reads_ok k (reg_write io)" and "m < NUM_READ_MASTERS" and "follows io" and "lk_valid (lookup (regs io))"
    and "\<not> lk_is_write (lookup (regs io))" "\<not> lk_is_prefetch (lookup (regs io))" "\<not> lk_is_invalidate (lookup (regs io))"
  shows "moves k m io (complete_bypass_read_hit k c w io)"
  unfolding complete_bypass_read_hit_def Let_def
  by (rule moves_respond [OF assms]) (simp add: llc_frame)

lemma moves_read_hit:
  assumes "reads_ok k (reg_write io)" and "m < NUM_READ_MASTERS" and "follows io" and "lk_valid (lookup (regs io))"
    and "\<not> lk_is_write (lookup (regs io))" "\<not> lk_is_prefetch (lookup (regs io))" "\<not> lk_is_invalidate (lookup (regs io))"
  shows "moves k m io (complete_read_hit k c w e io)"
proof (cases "llc_table_write_busy (table_out io)")
  case True
  then show ?thesis using moves_retry [OF assms(1)] by (simp add: complete_read_hit_def Let_def)
next
  case False
  have neg: "(if \<not> b then x else y) = (if b then y else x)" for b and x y :: llc_io by simp
  show ?thesis unfolding complete_read_hit_def Let_def if_not_P [OF False] neg
    by (rule moves_respond [OF assms]) (simp add: llc_frame)
qed

section \<open>Allocating a miss entry\<close>

lemma with_victim_fields [simp]:
  "ms_valid (with_victim k c t idx w e) = ms_valid e"
  "ms_bypass (with_victim k c t idx w e) = ms_bypass e"
  "ms_is_prefetch (with_victim k c t idx w e) = ms_is_prefetch e"
  "ms_is_write (with_victim k c t idx w e) = ms_is_write e"
  "ms_refill_valid (with_victim k c t idx w e) = ms_refill_valid e"
  "ms_refill_committed (with_victim k c t idx w e) = ms_refill_committed e"
  "ms_line_addr (with_victim k c t idx w e) = ms_line_addr e"
  "ms_set (with_victim k c t idx w e) = ms_set e"
  "ms_way (with_victim k c t idx w e) = ms_way e"
  "ms_master (with_victim k c t idx w e) = ms_master e"
  "ms_id (with_victim k c t idx w e) = ms_id e"
  by (simp_all add: with_victim_def Let_def)

lemma free_slot:
  assumes "find_free_mshr k c (regs io) = Some i" and "follows io" and "reads_ok k (reg_write io)"
  shows "i < MAX_OUTSTANDING k \<and> i < length (mshr (reg_write io)) \<and> \<not> ms_valid (mshr (reg_write io) ! i)"
proof -
  have i: "i < mshr_limit k c" "\<not> ms_valid (mshr (regs io) ! i)"
    using first_below_Some [OF assms(1) [unfolded find_free_mshr_def]] by auto
  have len: "length (mshr (reg_write io)) = MAX_OUTSTANDING k"
    using assms(3) by (simp add: reads_ok_def entries_ok_def)
  have "i < MAX_OUTSTANDING k" using i by (simp add: mshr_limit_def)
  moreover have "ek (mshr (reg_write io) ! i) = ek (mshr (regs io) ! i)"
    using assms(2) len calculation by (intro entries_nth) (simp_all add: follows_def)
  then have "\<not> ms_valid (mshr (reg_write io) ! i)" using i(2) ek_eqD(1) by blast
  ultimately show ?thesis using len by simp
qed

lemma moves_allocate_at:
  assumes ok: "reads_ok k (reg_write io)" "follows io" and i: "find_free_mshr k c (regs io) = Some i"
    and new: "mshr (reg_write io') = (mshr (reg_write io))[i := e]" "entry_ok e"
      "entry_owed m e = lookup_owed m (lookup (reg_write io))"
    and fin: "lookup_owed m (lookup (reg_write io')) = {#}" "lookup_ok (lookup (reg_write io'))"
      "read_ports (reg_write io') = read_ports (reg_write io)"
  shows "moves k m io io'"
  using free_slot [OF i ok(2,1)] new fin
  by (intro moves_allocate [OF ok(1), of i io' e]) (simp_all add: map_update)

lemma alloc_read_miss_mshr:
  "mshr (reg_write (alloc_read_miss k c i w io)) = upd i (\<lambda>_. with_victim k c (lookup_in io)
     (set_index c (lk_addr (lookup (regs io)))) w
     ((miss_entry_zero k)\<lparr>ms_valid := True, ms_bypass := lk_is_bypass (lookup (regs io)),
        ms_is_prefetch := lk_is_prefetch (lookup (regs io)),
        ms_prefetch_train := \<not> lk_is_prefetch (lookup (regs io)), ms_mode2 := lk_is_mode2 (lookup (regs io)),
        ms_addr := lk_addr (lookup (regs io)),
        ms_line_addr := if lk_is_bypass (lookup (regs io)) then lk_addr (lookup (regs io))
          else line_addr c (lk_addr (lookup (regs io))),
        ms_set := set_index c (lk_addr (lookup (regs io))), ms_tag := tag_of c (lk_addr (lookup (regs io))),
        ms_way := of_nat w, ms_total_size := lk_size (lookup (regs io)), ms_master := lk_master (lookup (regs io)),
        ms_id := if lk_is_prefetch (lookup (regs io)) then 0 else lk_id (lookup (regs io)),
        ms_epoch := invalidate_epoch_r (regs io)\<rparr>)) (mshr (reg_write io))"
  unfolding alloc_read_miss_def Let_def
  by (cases "lk_is_prefetch (lookup (regs io))") (simp_all only: if_True if_False wr_fields llc_frame wr_inputs_derived)

lemma alloc_noalloc_read_mshr:
  "mshr (reg_write (alloc_noalloc_read k c i io)) = upd i (\<lambda>_. (miss_entry_zero k)\<lparr>ms_valid := True, ms_bypass := True,
     ms_addr := line_addr c (lk_addr (lookup (regs io))), ms_line_addr := line_addr c (lk_addr (lookup (regs io))),
     ms_total_size := ucast (lc_line_bytes c - 1), ms_master := lk_master (lookup (regs io)),
     ms_id := lk_id (lookup (regs io)), ms_epoch := invalidate_epoch_r (regs io)\<rparr>) (mshr (reg_write io))"
  unfolding alloc_noalloc_read_def Let_def by (simp only: wr_fields llc_frame)

lemma alloc_read_miss_entry:
  assumes "i < length (mshr (reg_write io))"
  obtains e where "mshr (reg_write (alloc_read_miss k c i w io)) = (mshr (reg_write io))[i := e]"
    "ms_valid e" "\<not> ms_is_write e" "\<not> ms_refill_valid e" "\<not> ms_refill_committed e"
    "ms_bypass e = lk_is_bypass (lookup (regs io))" "ms_is_prefetch e = lk_is_prefetch (lookup (regs io))"
    "ms_master e = lk_master (lookup (regs io))"
    "ms_id e = (if lk_is_prefetch (lookup (regs io)) then 0 else lk_id (lookup (regs io)))"
    "ms_set e = set_index c (lk_addr (lookup (regs io)))" "ms_way e = of_nat w"
    "ms_line_addr e = (if lk_is_bypass (lookup (regs io)) then lk_addr (lookup (regs io))
       else line_addr c (lk_addr (lookup (regs io))))"
  using alloc_read_miss_mshr [of k c i w io, unfolded upd_def]
  by (rule that) (simp_all add: miss_entry_zero_def)

lemma alloc_noalloc_read_entry:
  assumes "i < length (mshr (reg_write io))"
  obtains e where "mshr (reg_write (alloc_noalloc_read k c i io)) = (mshr (reg_write io))[i := e]"
    "ms_valid e" "\<not> ms_is_write e" "\<not> ms_refill_valid e" "\<not> ms_refill_committed e" "ms_bypass e"
    "\<not> ms_is_prefetch e" "ms_master e = lk_master (lookup (regs io))" "ms_id e = lk_id (lookup (regs io))"
  using alloc_noalloc_read_mshr [of k c i io, unfolded upd_def]
  by (rule that) (simp_all add: miss_entry_zero_def)

lemma alloc_read_lookup [simp]:
  "lookup_owed m (lookup (reg_write (alloc_read_miss k c i w io))) = {#}"
  "lookup_ok (lookup (reg_write (alloc_read_miss k c i w io)))"
  "lookup_owed m (lookup (reg_write (alloc_noalloc_read k c i io))) = {#}"
  "lookup_ok (lookup (reg_write (alloc_noalloc_read k c i io)))"
  by (simp_all add: alloc_read_miss_def alloc_noalloc_read_def Let_def llc_frame)

lemma moves_alloc_read:
  assumes ok: "reads_ok k (reg_write io)" "follows io" "lk_valid (lookup (regs io))"
    and lk: "\<not> lk_is_write (lookup (regs io))" "\<not> lk_is_invalidate (lookup (regs io))"
    and i: "find_free_mshr k c (regs io) = Some i"
  shows "moves k m io (alloc_read_miss k c i w io)"
    and "\<not> lk_is_prefetch (lookup (regs io)) \<Longrightarrow> moves k m io (alloc_noalloc_read k c i io)"
proof -
  have same: "lookup (reg_write io) = lookup (regs io)" using ok(2,3) by (simp add: follows_def)
  have kind: "lk_is_prefetch (lookup (regs io)) \<Longrightarrow> \<not> lk_is_bypass (lookup (regs io))"
    using ok(1,3) same by (simp add: reads_ok_def lookup_ok_def)
  have len: "i < length (mshr (reg_write io))" using free_slot [OF i ok(2,1)] by simp
  obtain e where e: "mshr (reg_write (alloc_read_miss k c i w io)) = (mshr (reg_write io))[i := e]"
    "ms_valid e" "\<not> ms_is_write e" "ms_bypass e = lk_is_bypass (lookup (regs io))"
    "ms_is_prefetch e = lk_is_prefetch (lookup (regs io))" "ms_master e = lk_master (lookup (regs io))"
    "ms_id e = (if lk_is_prefetch (lookup (regs io)) then 0 else lk_id (lookup (regs io)))"
    by (rule alloc_read_miss_entry [OF len, of k c w])
  have "entry_ok e" using e(2-5) kind by (auto simp: entry_ok_def)
  moreover have "entry_owed m e = lookup_owed m (lookup (reg_write io))"
    using e(2-7) ok(3) lk by (auto simp: entry_owed_def lookup_owed_def same)
  ultimately show "moves k m io (alloc_read_miss k c i w io)"
    by (intro moves_allocate_at [OF ok(1,2) i e(1)]) (simp_all add: llc_frame)
  assume pre: "\<not> lk_is_prefetch (lookup (regs io))"
  obtain e where e: "mshr (reg_write (alloc_noalloc_read k c i io)) = (mshr (reg_write io))[i := e]"
    "ms_valid e" "\<not> ms_is_write e" "\<not> ms_is_prefetch e" "ms_master e = lk_master (lookup (regs io))"
    "ms_id e = lk_id (lookup (regs io))"
    by (rule alloc_noalloc_read_entry [OF len, of k c])
  have "entry_ok e" using e(2-4) by (auto simp: entry_ok_def)
  moreover have "entry_owed m e = lookup_owed m (lookup (reg_write io))"
    using e(2-6) ok(3) lk pre by (auto simp: entry_owed_def lookup_owed_def same)
  ultimately show "moves k m io (alloc_noalloc_read k c i io)"
    by (intro moves_allocate_at [OF ok(1,2) i e(1)]) (simp_all add: llc_frame)
qed

lemma not_read_owed:
  "lk_is_write l \<or> lk_is_prefetch l \<or> lk_is_invalidate l \<or> \<not> lk_valid l \<Longrightarrow> lookup_owed m l = {#}"
  by (auto simp: lookup_owed_def)

section \<open>The other outcomes of a lookup\<close>

definition idle_lookup :: "nat \<Rightarrow> llc_io \<Rightarrow> bool" where
  "idle_lookup m io \<longleftrightarrow> lookup_owed m (lookup (reg_write io)) = {#} \<and> lookup_ok (lookup (reg_write io))"

lemma idle_lookup_ends:
  "idle_lookup m (finish_lookup st io)" "idle_lookup m (finish_direct_lookup io)"
  "idle_lookup m io \<Longrightarrow> idle_lookup m (retry_lookup st io)"
  by (simp_all add: idle_lookup_def)

lemma idle_lookup_frames:
  "idle_lookup m (wr_ctx i cf io) = idle_lookup m io" "idle_lookup m (wr_perf pf io) = idle_lookup m io"
  "idle_lookup m (wr (\<lambda>r. r\<lparr>dirty_line_count_r := n\<rparr>) io) = idle_lookup m io"
  by (simp_all add: idle_lookup_def)

lemmas outcome_defs = complete_direct_write_def complete_write_hit_def complete_invalidate_hit_def
  complete_prefetch_hit_def install_full_line_def alloc_write_miss_def

lemma idle_lookup_outcomes:
  assumes "idle_lookup m io"
  shows "idle_lookup m (complete_direct_write k c io)" "idle_lookup m (complete_write_hit k c w e io)"
    "idle_lookup m (complete_invalidate_hit c w e io)" "idle_lookup m (complete_prefetch_hit io)"
    "idle_lookup m (install_full_line k c w io)" "idle_lookup m (alloc_write_miss k c w io)"
  using assms by (simp_all add: outcome_defs Let_def idle_lookup_ends idle_lookup_frames split: option.split)

lemma moves_idle:
  assumes "reads_ok k (reg_write io)" and "idle_lookup m io" and "idle_lookup m io'"
    and "read_ports (reg_write io') = read_ports (reg_write io)"
    and "map ek (mshr (reg_write io')) = map ek (mshr (reg_write io))"
  shows "moves k m io io'"
  using assms by (intro moves_finish) (simp_all add: idle_lookup_def)

lemma alloc_write_miss_cases:
  obtains (retry) "alloc_write_miss k c w io = retry_lookup kMiss io"
  | (alloc) i e where "find_free_mshr k c (regs io) = Some i"
      "find_mshr_by_line_addr k c (regs io) (line_addr c (lk_addr (lookup (regs io)))) = None"
      "mshr (reg_write (alloc_write_miss k c w io)) = (mshr (reg_write io))[i := e]"
      "ms_valid e" "ms_is_write e" "\<not> ms_bypass e" "\<not> ms_is_prefetch e" "\<not> ms_refill_valid e" "\<not> ms_refill_committed e"
      "ms_set e = set_index c (lk_addr (lookup (regs io)))" "ms_way e = of_nat w"
      "ms_line_addr e = line_addr c (lk_addr (lookup (regs io)))" "ms_master e = lk_master (lookup (regs io))"
proof (cases "find_mshr_by_line_addr k c (regs io) (line_addr c (lk_addr (lookup (regs io)))) = None")
  case False
  then show ?thesis by (intro retry) (simp add: alloc_write_miss_def Let_def)
next
  case line: True
  show ?thesis
  proof (cases "find_free_mshr k c (regs io)")
    case None
    then show ?thesis by (intro retry) (simp add: alloc_write_miss_def Let_def)
  next
    case (Some i)
    let ?lk = "lookup (regs io)"
    have "mshr (reg_write (alloc_write_miss k c w io)) = upd i (\<lambda>_. with_victim k c (lookup_in io) (set_index c (lk_addr ?lk)) w
      ((miss_entry_zero k)\<lparr>ms_valid := True, ms_is_write := True, ms_addr := lk_addr ?lk,
         ms_line_addr := line_addr c (lk_addr ?lk), ms_set := set_index c (lk_addr ?lk), ms_tag := tag_of c (lk_addr ?lk),
         ms_way := of_nat w, ms_total_size := wc_total_size (write_ctxs (reg_write io) ! unat (lk_master ?lk)),
         ms_master := lk_master ?lk, ms_id := lk_id ?lk, ms_epoch := invalidate_epoch_r (regs io)\<rparr>)) (mshr (reg_write io))"
      unfolding alloc_write_miss_def Let_def
      by (simp only: line Some not_True_eq_False if_False option.case wr_fields llc_frame simp_thms)
    then show ?thesis unfolding upd_def
      by (rule alloc [OF Some line]) (simp_all add: miss_entry_zero_def)
  qed
qed

lemma moves_write_miss:
  assumes ok: "reads_ok k (reg_write io)" "follows io" "idle_lookup m io"
  shows "moves k m io (complete_write_miss k c v io)"
proof -
  have alloc: "moves k m io (alloc_write_miss k c w io)" for w
  proof (cases rule: alloc_write_miss_cases [of k c w io])
    case retry
    then show ?thesis using moves_retry [OF ok(1)] by simp
  next
    case (alloc i e)
    have "entry_ok e" using alloc by (simp add: entry_ok_def)
    moreover have "entry_owed m e = {#}" using alloc by (simp add: entry_owed_def)
    ultimately show ?thesis
      using ok(3) idle_lookup_outcomes(6) [OF ok(3), of k c w]
      by (intro moves_allocate_at [OF ok(1,2) alloc(1,3)]) (simp_all add: idle_lookup_def llc_frame)
  qed
  have install: "moves k m io (install_full_line k c w io)" for w
    by (rule moves_idle [OF ok(1,3) idle_lookup_outcomes(5) [OF ok(3)]]) (simp_all add: llc_frame)
  have bypass: "moves k m io (wr_ctx i f (finish_lookup kIdle io))" for i f
    by (rule moves_idle [OF ok(1,3)]) (simp_all add: idle_lookup_ends idle_lookup_frames llc_frame)
  show ?thesis unfolding complete_write_miss_def Let_def
    using alloc install bypass moves_retry [OF ok(1)] by (auto split: option.split)
qed

lemma moves_read_miss:
  assumes ok: "reads_ok k (reg_write io)" "follows io" "lk_valid (lookup (regs io))"
    and lk: "\<not> lk_is_write (lookup (regs io))" "\<not> lk_is_invalidate (lookup (regs io))"
  shows "moves k m io (complete_read_miss k c v io)"
proof -
  have same: "lookup (reg_write io) = lookup (regs io)" using ok(2,3) by (simp add: follows_def)
  have drop: "moves k m io (wr_perf f (finish_lookup kMiss (drop_prefetch_slot n io)))"
    if "lk_is_prefetch (lookup (regs io))" for f n
    using ok(1) same that
    by (intro moves_idle) (simp_all add: idle_lookup_ends idle_lookup_frames llc_frame,
      simp add: idle_lookup_def not_read_owed reads_ok_def)
  have retry: "moves k m io (retry_lookup st io)" for st by (rule moves_retry [OF ok(1)])
  have retry': "moves k m io (wr_perf f (retry_lookup st io))" for f st
    using retry [of st] by (simp add: moves_def read_owed_def reads_ok_def)
  show ?thesis unfolding complete_read_miss_def Let_def
    using moves_alloc_read [OF ok lk] drop retry retry'
    by (auto split: option.split)
qed

lemma moves_try_complete_lookup:
  assumes ok: "reads_ok k (reg_write io)" "m < NUM_READ_MASTERS" "follows io"
  shows "moves k m io (try_complete_lookup k c io)"
proof (cases "lookup_ready c io")
  case False
  then show ?thesis using moves_refl [OF ok(1)] by (simp add: try_complete_lookup_def Let_def)
next
  case True
  then have v: "lk_valid (lookup (regs io))" by (simp add: lookup_ready_def Let_def)
  have same: "lookup (reg_write io) = lookup (regs io)" using ok(3) v by (simp add: follows_def)
  have lk: "lookup_ok (lookup (regs io))" using ok(1) same by (simp add: reads_ok_def)
  have idle: "idle_lookup m io" if "lk_is_write (lookup (regs io)) \<or> lk_is_prefetch (lookup (regs io)) \<or> lk_is_invalidate (lookup (regs io))"
    using that same lk by (auto simp: idle_lookup_def not_read_owed)
  note out = moves_idle [OF ok(1) idle]
  consider (w) "lk_is_write (lookup (regs io))" | (i) "\<not> lk_is_write (lookup (regs io))" "lk_is_invalidate (lookup (regs io))"
    | (p) "\<not> lk_is_write (lookup (regs io))" "\<not> lk_is_invalidate (lookup (regs io))" "lk_is_prefetch (lookup (regs io))"
    | (r) "\<not> lk_is_write (lookup (regs io))" "\<not> lk_is_invalidate (lookup (regs io))" "\<not> lk_is_prefetch (lookup (regs io))"
    by blast
  then show ?thesis
  proof cases
    case w
    have "moves k m io (complete_direct_write k c io)" "moves k m io (complete_write_hit k c n e io)" for n e
      by (rule out; use w idle_lookup_outcomes [OF idle] in \<open>simp add: llc_frame\<close>)+
    then show ?thesis using w moves_write_miss [OF ok(1,3) idle]
      by (auto simp: try_complete_lookup_def Let_def True split: option.split prod.split)
  next
    case i
    have "moves k m io (complete_invalidate_hit c n e io)" "moves k m io (finish_lookup kIdle io)" for n e
      by (rule out; use i idle_lookup_outcomes [OF idle] idle_lookup_ends in \<open>simp add: llc_frame\<close>)+
    moreover have "\<not> lk_is_direct_mapped (lookup (regs io))" using i lk v by (auto simp: lookup_ok_def)
    ultimately show ?thesis using i
      by (auto simp: try_complete_lookup_def Let_def True split: option.split prod.split)
  next
    case p
    have "moves k m io (complete_prefetch_hit io)"
      by (rule out; use p idle_lookup_outcomes [OF idle] in \<open>simp add: llc_frame\<close>)
    moreover have "\<not> lk_is_direct_mapped (lookup (regs io))" using p lk v by (auto simp: lookup_ok_def)
    ultimately show ?thesis using p moves_read_miss [OF ok(1,3) v]
      by (auto simp: try_complete_lookup_def Let_def True split: option.split prod.split)
  next
    case r
    then show ?thesis
      using moves_direct_read [OF ok v] moves_bypass_read_hit [OF ok v] moves_read_hit [OF ok v] moves_read_miss [OF ok(1,3) v]
      by (auto simp: try_complete_lookup_def Let_def True split: option.split prod.split)
  qed
qed

section \<open>The memory's answers\<close>

text \<open>An entry that is valid at the start of the cycle is still valid, or was released in this cycle.\<close>

definition valid_or_zero :: "kit_config \<Rightarrow> llc_io \<Rightarrow> bool" where
  "valid_or_zero k io \<longleftrightarrow> (\<forall>i<MAX_OUTSTANDING k. ms_valid (mshr (regs io) ! i) \<longrightarrow>
     ms_valid (mshr (reg_write io) ! i) \<or> ek (mshr (reg_write io) ! i) = ek (miss_entry_zero k))"

definition valid_kept :: "kit_config \<Rightarrow> llc_io \<Rightarrow> bool" where
  "valid_kept k io \<longleftrightarrow> (\<forall>i<MAX_OUTSTANDING k. ms_valid (mshr (regs io) ! i) \<longrightarrow>
     ek (mshr (reg_write io) ! i) = ek (mshr (regs io) ! i))"

lemma entry_ok_zero [simp]: "entry_ok (miss_entry_zero k)" "entry_owed m (miss_entry_zero k) = {#}"
  by (simp_all add: entry_ok_def entry_owed_def miss_entry_zero_def)

lemma entry_at:
  assumes "reads_ok k (reg_write io)" and "i < MAX_OUTSTANDING k"
  shows "entry_ok (mshr (reg_write io) ! i)" and "i < length (mshr (reg_write io))"
proof -
  show len: "i < length (mshr (reg_write io))" using assms by (simp add: reads_ok_def entries_ok_def)
  have "entry_ok (map ek (mshr (reg_write io)) ! i)"
    using assms by (simp add: reads_ok_def entries_ok_def list_all_length)
  then show "entry_ok (mshr (reg_write io) ! i)" using len by simp
qed

lemma balance:
  assumes "a' + b = a + c" and "p' + c = p + b"
  shows "a' + p' = a + (p :: 'a multiset)"
proof -
  have "(a' + p') + (b + c) = (a' + b) + (p' + c)" by (simp add: ac_simps)
  also have "\<dots> = (a + p) + (b + c)" unfolding assms by (simp add: ac_simps)
  finally show ?thesis by simp
qed

text \<open>A stage that changes one entry, and enqueues that entry's response when it stops being owed.\<close>

lemma moves_entry:
  assumes ok: "reads_ok k (reg_write io)" and i: "i < MAX_OUTSTANDING k"
    and new: "map ek (mshr (reg_write io')) = (map ek (mshr (reg_write io)))[i := ek e]" "entry_ok e"
    and rest: "lookup (reg_write io') = lookup (reg_write io)" "ports_ok k (read_ports (reg_write io'))"
    and bal: "mset (port_live k (read_ports (reg_write io') ! m)) + entry_owed m e =
      mset (port_live k (read_ports (reg_write io) ! m)) + entry_owed m (mshr (reg_write io) ! i)"
  shows "moves k m io io'"
proof -
  note at = entry_at [OF ok i]
  have "entries_owed m (map ek (mshr (reg_write io'))) + entry_owed m (mshr (reg_write io) ! i) =
    entries_owed m (map ek (mshr (reg_write io))) + entry_owed m e"
    using entries_owed_update [of i "map ek (mshr (reg_write io))" m "ek e"] at(2) new(1) by simp
  then have "entries_owed m (map ek (mshr (reg_write io'))) + mset (port_live k (read_ports (reg_write io') ! m)) =
    entries_owed m (map ek (mshr (reg_write io))) + mset (port_live k (read_ports (reg_write io) ! m))"
    using bal by (rule balance)
  moreover have "entries_ok k (map ek (mshr (reg_write io')))"
    using ok new by (simp add: reads_ok_def entries_ok_update)
  ultimately show ?thesis using ok rest by (simp add: moves_def reads_ok_def read_owed_def add.assoc)
qed

lemma moves_same:
  assumes "reads_ok k (reg_write io)" and "lookup (reg_write io') = lookup (reg_write io)"
    and "read_ports (reg_write io') = read_ports (reg_write io)"
    and "map ek (mshr (reg_write io')) = map ek (mshr (reg_write io))"
  shows "moves k m io io'"
  using assms by (simp add: moves_def reads_ok_def read_owed_def)

lemma moves_mem_read_response:
  assumes ok: "reads_ok k (reg_write io)" "m < NUM_READ_MASTERS" and kept: "valid_kept k io"
  shows "moves k m io (mem_read_response k c io) \<and> valid_or_zero k (mem_read_response k c io)"
proof -
  let ?x = "in_mem (ext_in io)"
  have start: "valid_or_zero k io'" if "mshr (reg_write io') = mshr (reg_write io)" "regs io' = regs io" for io'
    using kept unfolding valid_kept_def valid_or_zero_def that by (metis ek_eqD(1))
  have none: ?thesis if "mem_read_response k c io = drive_mem (\<lambda>m. m\<lparr>mo_read_resp_ready := True\<rparr>) io"
    using start [of "mem_read_response k c io"] that by (intro conjI moves_same [OF ok(1)]) simp_all
  show ?thesis
  proof (cases "mi_read_resp_valid ?x \<and> find_mshr_by_mem_id k c (regs io) (mi_read_resp_id ?x) \<noteq> None")
    case False
    then show ?thesis by (intro none) (auto simp: mem_read_response_def Let_def)
  next
    case True
    then obtain i where Some: "find_mshr_by_mem_id k c (regs io) (mi_read_resp_id ?x) = Some i" by blast
    let ?prev = "mshr (regs io) ! i" let ?e = "mshr (reg_write io) ! i"
    have i: "i < MAX_OUTSTANDING k" "ms_valid ?prev"
      using first_below_Some [OF Some [unfolded find_mshr_by_mem_id_def]] by (auto simp: mshr_limit_def)
    note at = entry_at [OF ok(1) i(1)]
    have key: "ms_valid ?e" "ms_bypass ?e = ms_bypass ?prev" "ms_master ?e = ms_master ?prev" "ms_id ?e = ms_id ?prev"
      using ek_eqD [of ?e ?prev] kept i by (simp_all add: valid_kept_def)
    define io1 where "io1 = count_ddr_read (ms_mem_issue_cycle ?prev) (drive_mem (\<lambda>m. m\<lparr>mo_read_resp_ready := True\<rparr>) io)"
    have io1: "lookup (reg_write io1) = lookup (reg_write io)" "mshr (reg_write io1) = mshr (reg_write io)"
      "read_ports (reg_write io1) = read_ports (reg_write io)" "regs io1 = regs io"
      using count_ddr_read_frame [of "ms_mem_issue_cycle ?prev" "drive_mem (\<lambda>m. m\<lparr>mo_read_resp_ready := True\<rparr>) io"]
      by (simp_all add: io1_def env_of_def)
    obtain sent io2 where res: "(if ms_bypass ?prev
        then enqueue_read_response k (ms_master ?prev) (ms_id ?prev) (mi_read_resp_data ?x) io1 else (False, io1)) = (sent, io2)"
      by (cases "if ms_bypass ?prev
        then enqueue_read_response k (ms_master ?prev) (ms_id ?prev) (mi_read_resp_data ?x) io1 else (False, io1)")
    have eq: "mem_read_response k c io = (if sent then wr_state (idle_state io2) (wr_mshr i (\<lambda>_. miss_entry_zero k) io2)
      else store_refill (mi_read_resp_data ?x) i io2)"
      using conjunct1 [OF True]
      by (simp only: mem_read_response_def Let_def drive_mem_frames Some option.case simp_thms if_False
          io1_def [symmetric] res fst_conv snd_conv)
    have io2: "lookup (reg_write io2) = lookup (reg_write io)" "mshr (reg_write io2) = mshr (reg_write io)" "regs io2 = regs io"
      using res io1 enqueue_frame [of k "ms_master ?prev" "ms_id ?prev" "mi_read_resp_data ?x" io1]
      by (auto split: if_splits simp: env_of_def)
    have ports: "ports_ok k (read_ports (reg_write io2)) \<and> port_live k (read_ports (reg_write io2) ! m) =
      port_live k (read_ports (reg_write io) ! m) @ (if sent \<and> unat (ms_master ?prev) = m then [ms_id ?prev] else [])"
      using res ok enqueue_live [of k io1 m "ms_master ?prev" "ms_id ?prev" "mi_read_resp_data ?x" sent io2] io1
      by (auto simp: reads_ok_def split: if_splits)
    have valid_else: "valid_or_zero k io'" if "\<And>j. j < MAX_OUTSTANDING k \<Longrightarrow> j \<noteq> i \<Longrightarrow> mshr (reg_write io') ! j = mshr (reg_write io) ! j"
      "ms_valid (mshr (reg_write io') ! i) \<or> mshr (reg_write io') ! i = miss_entry_zero k" "regs io' = regs io" for io'
      using that start [of io] unfolding valid_or_zero_def by metis
    show ?thesis
    proof (cases sent)
      case True
      then have b: "ms_bypass ?prev" using res by (auto split: if_splits)
      have "entry_owed m ?e = (if unat (ms_master ?prev) = m then {#ms_id ?prev#} else {#})"
        using at(1) key b by (simp add: entry_ok_def entry_owed_def)
      moreover have "mem_read_response k c io = wr_state (idle_state io2) (wr_mshr i (\<lambda>_. miss_entry_zero k) io2)"
        using True by (simp add: eq)
      ultimately show ?thesis using io2 ports at(2) True
        by (intro conjI moves_entry [OF ok(1) i(1), of _ "miss_entry_zero k"] valid_else)
          (simp_all add: map_ek_upd nth_upd)
    next
      case False
      define e where "e = ?e\<lparr>ms_refill_valid := True, ms_refill_data := mi_read_resp_data ?x, ms_refill_committed := ms_bypass ?prev\<rparr>"
      have fields: "mshr (reg_write (mem_read_response k c io)) = (mshr (reg_write io))[i := e]"
        "lookup (reg_write (mem_read_response k c io)) = lookup (reg_write io)"
        "read_ports (reg_write (mem_read_response k c io)) = read_ports (reg_write io2)"
        "regs (mem_read_response k c io) = regs io"
        using False io2 key(2) by (simp_all add: eq store_refill_def Let_def upd_def e_def)
      have "entry_ok e" "entry_owed m e = entry_owed m ?e" "ms_valid e"
        using at(1) key by (auto simp: e_def entry_ok_def entry_owed_def)
      then show ?thesis using fields ports False at(2)
        by (intro conjI moves_entry [OF ok(1) i(1), of _ e] valid_else) (simp_all add: map_update nth_list_update)
    qed
  qed
qed

section \<open>Committing a refill\<close>

lemma release_mshr_mshr: "mshr (reg_write (release_mshr k i io)) = upd i (\<lambda>_. miss_entry_zero k) (mshr (reg_write io))"
  by (simp add: release_mshr_def)

lemma moves_release_silent:
  assumes ok: "reads_ok k (reg_write io)" "i < MAX_OUTSTANDING k"
    and "ms_is_write (mshr (reg_write io) ! i) \<or> ms_is_prefetch (mshr (reg_write io) ! i)"
    and "lookup (reg_write io1) = lookup (reg_write io)" "mshr (reg_write io1) = mshr (reg_write io)"
      "read_ports (reg_write io1) = read_ports (reg_write io)"
  shows "moves k m io (release_mshr k i io1)"
  using assms(3-6) ok(1)
  by (intro moves_entry [OF ok, of _ "miss_entry_zero k"])
    (auto simp: release_mshr_mshr map_ek_upd llc_frame reads_ok_def entry_owed_def [of m "mshr (reg_write io) ! i"])

lemma moves_release_answered:
  assumes ok: "reads_ok k (reg_write io)" "m < NUM_READ_MASTERS" "i < MAX_OUTSTANDING k"
    and io1: "lookup (reg_write io1) = lookup (reg_write io)" "mshr (reg_write io1) = mshr (reg_write io)"
      "read_ports (reg_write io1) = read_ports (reg_write io)"
    and e: "ms_valid (mshr (reg_write io) ! i)" "\<not> ms_is_write (mshr (reg_write io) ! i)" "\<not> ms_is_prefetch (mshr (reg_write io) ! i)"
    and g: "\<And>x. lookup (reg_write (g x)) = lookup (reg_write x)" "\<And>x. mshr (reg_write (g x)) = mshr (reg_write x)"
      "\<And>x. read_ports (reg_write (g x)) = read_ports (reg_write x)"
    and res: "enqueue_read_response k (ms_master (mshr (reg_write io) ! i)) (ms_id (mshr (reg_write io) ! i)) d io1 = (sent, io2)"
  shows "moves k m io (if sent then release_mshr k i (g io2) else io2)"
proof -
  have io2: "lookup (reg_write io2) = lookup (reg_write io)" "mshr (reg_write io2) = mshr (reg_write io)"
    using enqueue_frame [of k "ms_master (mshr (reg_write io) ! i)" "ms_id (mshr (reg_write io) ! i)" d io1] res io1
    by simp_all
  have ports: "ports_ok k (read_ports (reg_write io2)) \<and> port_live k (read_ports (reg_write io2) ! m) =
    port_live k (read_ports (reg_write io) ! m) @
      (if sent \<and> unat (ms_master (mshr (reg_write io) ! i)) = m then [ms_id (mshr (reg_write io) ! i)] else [])"
    using enqueue_live [OF _ ok(2) res] io1 ok(1) by (simp add: reads_ok_def)
  show ?thesis
  proof (cases sent)
    case True
    then show ?thesis using io2 ports g e
      by (intro moves_entry [OF ok(1,3), of _ "miss_entry_zero k"])
        (auto simp: release_mshr_mshr map_ek_upd llc_frame entry_owed_def [of m "mshr (reg_write io) ! i"])
  next
    case False
    then show ?thesis using ok(1) io2 ports by (simp add: moves_def reads_ok_def read_owed_def)
  qed
qed

lemma moves_drop_stale:
  assumes ok: "reads_ok k (reg_write io)" "m < NUM_READ_MASTERS" "i < MAX_OUTSTANDING k"
    and e: "ms_refill_valid (mshr (reg_write io) ! i)" "\<not> ms_is_write (mshr (reg_write io) ! i)"
  shows "moves k m io (drop_stale_refill k c i io)"
proof -
  obtain sd io1 where ens: "ensure_read_victim_snapshot_externalized k c i io = (sd, io1)"
    by (cases "ensure_read_victim_snapshot_externalized k c i io")
  have io1: "lookup (reg_write io1) = lookup (reg_write io)" "mshr (reg_write io1) = mshr (reg_write io)"
    "read_ports (reg_write io1) = read_ports (reg_write io)"
    using ensure_snapshot_frame [of k c i io] by (simp_all add: ens)
  let ?e = "mshr (reg_write io) ! i"
  have valid: "ms_valid ?e" using entry_at(1) [OF ok(1,3)] e(1) by (simp add: entry_ok_def)
  obtain sent io2 where res: "enqueue_read_response k (ms_master ?e) (ms_id ?e) (refill_response c ?e) io1 = (sent, io2)"
    by (cases "enqueue_read_response k (ms_master ?e) (ms_id ?e) (refill_response c ?e) io1")
  have eq: "drop_stale_refill k c i io = (if \<not> sd then io1 else if ms_is_prefetch ?e then release_mshr k i io1
    else if sent then release_mshr k i (detach_victim_owner i io2) else io2)"
    using io1(2) res by (simp add: drop_stale_refill_def ens Let_def)
  have "moves k m io io1" by (rule moves_same [OF ok(1)]) (simp_all add: io1)
  moreover have "ms_is_prefetch ?e \<Longrightarrow> moves k m io (release_mshr k i io1)"
    using io1 by (intro moves_release_silent [OF ok(1,3)]) simp_all
  moreover have "\<not> ms_is_prefetch ?e \<Longrightarrow> moves k m io (if sent then release_mshr k i (detach_victim_owner i io2) else io2)"
    by (rule moves_release_answered [OF ok io1 valid e(2) _ _ _ _ res]) (simp_all add: llc_frame)
  ultimately show ?thesis unfolding eq by simp
qed

lemma moves_answer_refill:
  assumes ok: "reads_ok k (reg_write io)" "m < NUM_READ_MASTERS" "i < MAX_OUTSTANDING k"
    and e: "ms_valid (mshr (reg_write io) ! i)" "ms_refill_committed (mshr (reg_write io) ! i) \<or> ms_bypass (mshr (reg_write io) ! i)"
  shows "moves k m io (answer_refill k c i io)"
proof -
  let ?e = "mshr (reg_write io) ! i"
  have kind: "\<not> ms_is_write ?e" using entry_at(1) [OF ok(1,3)] e by (auto simp: entry_ok_def)
  obtain sent io2 where res: "enqueue_read_response k (ms_master ?e) (ms_id ?e) (refill_response c ?e) io = (sent, io2)"
    by (cases "enqueue_read_response k (ms_master ?e) (ms_id ?e) (refill_response c ?e) io")
  have eq: "answer_refill k c i io = (if ms_is_prefetch ?e then release_mshr k i (detach_victim_owner i io)
    else if sent then release_mshr k i (detach_victim_owner i (try_schedule_prefetch k c ?e io2)) else io2)"
    using res by (simp add: answer_refill_def Let_def)
  have "ms_is_prefetch ?e \<Longrightarrow> moves k m io (release_mshr k i (detach_victim_owner i io))"
    by (intro moves_release_silent [OF ok(1,3)]) (simp_all add: llc_frame)
  moreover have "\<not> ms_is_prefetch ?e \<Longrightarrow>
      moves k m io (if sent then release_mshr k i (detach_victim_owner i (try_schedule_prefetch k c ?e io2)) else io2)"
    by (rule moves_release_answered [OF ok refl refl refl e(1) kind _ _ _ _ res, of "\<lambda>x. detach_victim_owner i (try_schedule_prefetch k c ?e x)"])
      (simp_all add: llc_frame)
  ultimately show ?thesis unfolding eq by simp
qed

lemma install_refill_cases:
  obtains (same) "lookup (reg_write (install_refill k c i io)) = lookup (reg_write io)"
      "read_ports (reg_write (install_refill k c i io)) = read_ports (reg_write io)"
      "mshr (reg_write (install_refill k c i io)) = mshr (reg_write io)"
  | (store) io1 where "install_refill k c i io = release_mshr k i io1" "ms_is_write (mshr (reg_write io) ! i)"
      "lookup (reg_write io1) = lookup (reg_write io)" "mshr (reg_write io1) = mshr (reg_write io)"
      "read_ports (reg_write io1) = read_ports (reg_write io)"
  | (commit) io1 where "install_refill k c i io = wr_mshr i (\<lambda>e. e\<lparr>ms_refill_committed := True\<rparr>) io1"
      "\<not> ms_is_write (mshr (reg_write io) ! i)"
      "lookup (reg_write io1) = lookup (reg_write io)" "mshr (reg_write io1) = mshr (reg_write io)"
      "read_ports (reg_write io1) = read_ports (reg_write io)"
proof -
  obtain sd io1 where ens: "ensure_read_victim_snapshot_externalized k c i io = (sd, io1)"
    by (cases "ensure_read_victim_snapshot_externalized k c i io")
  have io1: "lookup (reg_write io1) = lookup (reg_write io)" "mshr (reg_write io1) = mshr (reg_write io)"
    "read_ports (reg_write io1) = read_ports (reg_write io)"
    using ensure_snapshot_frame [of k c i io] by (simp_all add: ens)
  show ?thesis
  proof (cases "\<not> sd \<or> llc_table_write_busy (table_out io1)")
    case True
    then show ?thesis using io1 by (intro same) (auto simp: install_refill_def ens)
  next
    case go: False
    show ?thesis
    proof (cases "ms_is_write (mshr (reg_write io) ! i)")
      case True
      show ?thesis
        by (rule store [of "wr_ctx (unat (ms_master (mshr (reg_write io) ! i)))
            (\<lambda>x. x\<lparr>wc_cache_done := True, wc_cache_pending := False\<rparr>) (write_refill k c (mshr (reg_write io) ! i) io1)"])
          (use go io1 True in \<open>simp_all add: install_refill_def ens Let_def llc_frame\<close>)
    next
      case False
      show ?thesis
        by (rule commit [of "write_refill k c (mshr (reg_write io) ! i) io1"])
          (use go io1 False in \<open>simp_all add: install_refill_def ens Let_def llc_frame\<close>)
    qed
  qed
qed

lemma moves_install_refill:
  assumes ok: "reads_ok k (reg_write io)" "m < NUM_READ_MASTERS" "i < MAX_OUTSTANDING k"
  shows "moves k m io (install_refill k c i io)"
proof (cases rule: install_refill_cases [of k c i io])
  case same
  then show ?thesis by (intro moves_same [OF ok(1)]) simp_all
next
  case (store io1)
  then show ?thesis using moves_release_silent [OF ok(1,3)] by simp
next
  case (commit io1)
  let ?e = "mshr (reg_write io) ! i"
  note at = entry_at [OF ok(1,3)]
  have "entry_ok (?e\<lparr>ms_refill_committed := True\<rparr>)" "entry_owed m (?e\<lparr>ms_refill_committed := True\<rparr>) = entry_owed m ?e"
    using at(1) commit(2) by (auto simp: entry_ok_def entry_owed_def)
  then show ?thesis using commit at(2) ok(1)
    by (intro moves_entry [OF ok(1,3), of _ "?e\<lparr>ms_refill_committed := True\<rparr>"]) (simp_all add: map_ek_upd reads_ok_def)
qed

lemma moves_commit_refill:
  assumes ok: "reads_ok k (reg_write io)" "m < NUM_READ_MASTERS" and v: "valid_or_zero k io"
  shows "moves k m io (commit_refill k c io)"
proof (cases "pick_refill_commit_slot k c (regs io)")
  case None
  then show ?thesis using moves_refl [OF ok(1)] by (simp add: commit_refill_def)
next
  case (Some i)
  then have i: "i < MAX_OUTSTANDING k" "ms_valid (mshr (regs io) ! i)"
    using first_below_Some [OF Some [unfolded pick_refill_commit_slot_def]] by (auto simp: mshr_limit_def)
  let ?e = "mshr (reg_write io) ! i"
  have valid: "ms_valid ?e" if "ms_refill_committed ?e \<or> ms_bypass ?e"
  proof (rule ccontr)
    assume "\<not> ms_valid ?e"
    then have "ek ?e = ek (miss_entry_zero k)" using v i by (auto simp: valid_or_zero_def)
    from ek_eqD [OF this] that show False by (simp add: miss_entry_zero_def)
  qed
  then show ?thesis
    using moves_drop_stale [OF ok i(1)] moves_install_refill [OF ok i(1)] moves_answer_refill [OF ok i(1)]
    by (auto simp: commit_refill_def Some Let_def)
qed

lemma moves_trans: "moves k m a b \<Longrightarrow> moves k m b c \<Longrightarrow> moves k m a c"
  by (simp add: moves_def)

lemma valid_or_zero_issue:
  assumes "valid_or_zero k io" and "reads_ok k (reg_write io)"
  shows "valid_or_zero k (issue_mem_read k c io)"
proof -
  have len: "length (mshr (reg_write io)) = MAX_OUTSTANDING k" using assms(2) by (simp add: reads_ok_def entries_ok_def)
  have same: "map ek (mshr (reg_write (issue_mem_read k c io))) = map ek (mshr (reg_write io))"
    and env: "regs (issue_mem_read k c io) = regs io"
    using issue_mem_read_frame [of k c io] by (simp_all add: env_of_def)
  have "ek (mshr (reg_write (issue_mem_read k c io)) ! i) = ek (mshr (reg_write io) ! i)" if "i < MAX_OUTSTANDING k" for i
    using entries_nth [OF same [symmetric]] that len by simp
  then show ?thesis using assms(1) unfolding valid_or_zero_def env by (metis ek_eqD(1))
qed

lemma moves_mem_read_path:
  assumes ok: "reads_ok k (reg_write io)" "m < NUM_READ_MASTERS" and kept: "valid_kept k io"
  shows "moves k m io (drive_mem_read_path k c io)"
proof -
  let ?a = "mem_read_response k c io" let ?b = "issue_mem_read k c ?a"
  have a: "moves k m io ?a" "valid_or_zero k ?a" using moves_mem_read_response [OF ok kept, of c] by simp_all
  then have oka: "reads_ok k (reg_write ?a)" by (simp add: moves_def)
  have b: "moves k m ?a ?b" by (rule moves_same [OF oka]) (simp_all add: llc_frame)
  then have okb: "reads_ok k (reg_write ?b)" by (simp add: moves_def)
  have "moves k m ?b (commit_refill k c ?b)"
    by (rule moves_commit_refill [OF okb ok(2) valid_or_zero_issue [OF a(2) oka]])
  with a b show ?thesis unfolding drive_mem_read_path_def by (blast intro: moves_trans)
qed

section \<open>Launching a lookup\<close>

text \<open>A lookup is only replaced when there is none, and then by one that answers no read.\<close>

definition launches :: "nat \<Rightarrow> llc_io \<Rightarrow> llc_io \<Rightarrow> bool" where
  "launches m io io' \<longleftrightarrow>
     (lk_valid (lookup (reg_write io)) \<longrightarrow> lookup (reg_write io') = lookup (reg_write io)) \<and>
     (\<not> lk_valid (lookup (reg_write io)) \<longrightarrow> lookup (reg_write io') = lookup (reg_write io) \<or>
        lookup_owed m (lookup (reg_write io')) = {#} \<and> lookup_ok (lookup (reg_write io')))"

lemma launches_refl: "lookup (reg_write io') = lookup (reg_write io) \<Longrightarrow> launches m io io'"
  by (simp add: launches_def)

lemma launches_write_lookup: "launches m io (try_launch_pending_write_lookup io)"
  by (auto simp: launches_def try_launch_pending_write_lookup_def Let_def lookup_owed_def lookup_ok_def wr_fields
      simp del: reg_write_derived split: option.split)

lemma launches_maintenance: "launches m io (accept_maintenance_request k c io)"
  by (simp add: launches_def accept_maintenance_request_def Let_def lookup_owed_def lookup_ok_def launch_lookup_def)

lemma launches_prefetch: "launches m io (try_launch_prefetch_lookup k c io)"
  by (simp add: launches_def try_launch_prefetch_lookup_def Let_def lookup_owed_def lookup_ok_def launch_lookup_def
      split: option.split)

lemma launches_write_path: "launches m io (drive_write_path k c io)"
proof -
  let ?b = "arm_queued_victim k (fold (promote_write_ctx k) [0..<NUM_WRITE_MASTERS]
    (commit_first c [0..<NUM_WRITE_MASTERS] (write_mem_response k c (fold write_resp_handshake [0..<NUM_WRITE_MASTERS] io))))"
  have b: "lookup (reg_write ?b) = lookup (reg_write io)"
    by (simp add: masters_upt llc_frame del: commit_first.simps)
  define a where "a = fold (\<lambda>off. alloc_write_ctx k c ((unat (rr_write_master_r (regs (accept_write k c (issue_bypass_write ?b)))) + off)
    mod NUM_WRITE_MASTERS)) [0..<NUM_WRITE_MASTERS] (accept_write k c (issue_bypass_write ?b))"
  have a: "lookup (reg_write a) = lookup (reg_write io)"
    using b by (simp add: a_def masters_upt llc_frame del: commit_first.simps)
  have eq: "drive_write_path k c io = (if vb_valid (victim_wb (reg_write ?b)) then issue_victim c ?b
    else try_launch_pending_write_lookup a)"
    unfolding drive_write_path_def drive_new_writes_def Let_def a_def ..
  have "launches m io (issue_victim c ?b)" using b by (intro launches_refl) (simp add: llc_frame)
  moreover have "launches m io (try_launch_pending_write_lookup a)"
    using launches_write_lookup [of m a] unfolding launches_def a by blast
  ultimately show ?thesis unfolding eq by simp
qed

lemma moves_launch:
  assumes ok: "reads_ok k (reg_write io)" and l: "launches m io io'"
    and rest: "read_ports (reg_write io') = read_ports (reg_write io)" "map ek (mshr (reg_write io')) = map ek (mshr (reg_write io))"
  shows "moves k m io io'"
proof (cases "lookup (reg_write io') = lookup (reg_write io)")
  case True
  then show ?thesis by (rule moves_same [OF ok _ rest])
next
  case False
  then have "lookup_owed m (lookup (reg_write io)) = {#}" "lookup_owed m (lookup (reg_write io')) = {#}"
    "lookup_ok (lookup (reg_write io'))"
    using l by (auto simp: launches_def lookup_owed_def)
  then show ?thesis by (intro moves_finish [OF ok _ _ _ rest]) simp_all
qed

lemma moves_reissue:
  assumes "reads_ok k (reg_write io)" and "lookup (reg_write io') = (lookup (reg_write io))\<lparr>lk_issued := b\<rparr>"
    and "read_ports (reg_write io') = read_ports (reg_write io)" "map ek (mshr (reg_write io')) = map ek (mshr (reg_write io))"
  shows "moves k m io io'"
  using assms by (simp add: moves_def reads_ok_def read_owed_def lookup_owed_def lookup_ok_def)

lemma moves_lookup_request: "reads_ok k (reg_write io) \<Longrightarrow> moves k m io (drive_lookup_request k c io)"
proof -
  assume ok: "reads_ok k (reg_write io)"
  have "lookup (reg_write (drive_lookup_request k c io)) = lookup (reg_write io) \<or>
    lookup (reg_write (drive_lookup_request k c io)) = (lookup (reg_write io))\<lparr>lk_issued := True\<rparr>"
    by (simp add: drive_lookup_request_def Let_def wr_fields)
  then show ?thesis using moves_same [OF ok] moves_reissue [OF ok] by (auto simp: llc_frame)
qed

lemma moves_invalidate_all: "reads_ok k (reg_write io) \<Longrightarrow> moves k m io (accept_invalidate_all k c io)"
proof -
  assume ok: "reads_ok k (reg_write io)"
  have "lookup (reg_write (accept_invalidate_all k c io)) = lookup (reg_write io) \<or>
    lookup (reg_write (accept_invalidate_all k c io)) = (lookup (reg_write io))\<lparr>lk_issued := False\<rparr>"
    by (simp add: accept_invalidate_all_def Let_def wr_fields)
  then show ?thesis using moves_same [OF ok] moves_reissue [OF ok] by (auto simp: llc_frame)
qed

section \<open>Accepting a read\<close>

lemma accept_read_wires:
  "lookup (reg_write (accept_read n req io)) =
     \<lparr>lk_valid = True, lk_issued = False, lk_addr = rq_addr req, lk_size = rq_total_size req, lk_master = of_nat n,
      lk_id = rq_id req, lk_is_prefetch = False, lk_is_invalidate = False, lk_is_write = False,
      lk_is_bypass = rq_bypass req, lk_is_direct_mapped = rq_direct_mapped req, lk_is_mode2 = rq_mode2 req\<rparr>"
  "out_read_req_ready (ext_out (accept_read n req io)) = (out_read_req_ready (ext_out io))[n := True]"
  by (simp_all add: accept_read_def Let_def launch_lookup_def wr_fields del: reg_write_derived)

lemma accept_new_requests_cases:
  obtains (none) "accept_new_requests k c io = io"
  | (accept) n where "n < NUM_READ_MASTERS" "rq_valid (in_read_req (ext_in io) ! n)" "\<not> lk_valid (lookup (reg_write io))"
      "lookup (reg_write (accept_new_requests k c io)) =
        \<lparr>lk_valid = True, lk_issued = False, lk_addr = rq_addr (in_read_req (ext_in io) ! n),
         lk_size = rq_total_size (in_read_req (ext_in io) ! n), lk_master = of_nat n, lk_id = rq_id (in_read_req (ext_in io) ! n),
         lk_is_prefetch = False, lk_is_invalidate = False, lk_is_write = False, lk_is_bypass = rq_bypass (in_read_req (ext_in io) ! n),
         lk_is_direct_mapped = rq_direct_mapped (in_read_req (ext_in io) ! n), lk_is_mode2 = rq_mode2 (in_read_req (ext_in io) ! n)\<rparr>"
      "out_read_req_ready (ext_out (accept_new_requests k c io)) = (out_read_req_ready (ext_out io))[n := True]"
proof (cases "pick_new_read_master k c (ext_in io) (regs io) (reg_write io)")
  case None
  then show ?thesis by (intro none) (simp add: accept_new_requests_def Let_def)
next
  case (Some n)
  have n: "n < NUM_READ_MASTERS" "rq_valid (in_read_req (ext_in io) ! n)" "\<not> lk_valid (lookup (reg_write io))"
    using first_from_Some [OF Some [unfolded pick_new_read_master_def]] by (auto simp: Let_def)
  have "accept_new_requests k c io = io \<or> accept_new_requests k c io = accept_read n (in_read_req (ext_in io) ! n) io"
    by (simp add: accept_new_requests_def Some Let_def)
  then show ?thesis
  proof
    assume eq: "accept_new_requests k c io = accept_read n (in_read_req (ext_in io) ! n) io"
    show ?thesis unfolding eq
      by (rule accept [OF n, unfolded eq]) (simp_all add: accept_read_wires)
  qed (rule none)
qed

end
