(* ===== verification/LLC_Read_Ledger.thy ===== *)
theory LLC_Read_Ledger
  imports LLC_Reads LLC_Line_Props
begin

text \<open>
  The read ledger over whole cycles and runs: the stages of \<^verbatim>\<open>AXI_LLC::comb()\<close> put together, and the
  interpretation of \<open>ledger_view\<close> on the cache. The wires observed are the ones a master sees: a
  request is taken when its \<^verbatim>\<open>valid\<close> meets \<^verbatim>\<open>ready\<close>, a response is handed over when its \<^verbatim>\<open>valid\<close> meets
  the master's \<^verbatim>\<open>ready\<close> in a cycle in which the response is not fresh.
\<close>

section \<open>The response wires\<close>

lemma drive_read_response_port:
  assumes "m < length (read_ports (reg_write io))" and "m < length (out_read_resp (ext_out io))"
  shows "read_ports (reg_write (drive_read_response k n io)) ! m =
      (if n = m then drive_read_port k (in_read_resp_ready (ext_in io) ! m) (read_ports (regs io) ! m)
         (read_ports (reg_write io) ! m) else read_ports (reg_write io) ! m)"
    and "out_read_resp (ext_out (drive_read_response k n io)) ! m =
      (if n = m then \<lparr>rs_valid = rp_valid (read_ports (regs io) ! m), rs_data = rp_data (read_ports (regs io) ! m),
         rs_id = rp_id (read_ports (regs io) ! m)\<rparr> else out_read_resp (ext_out io) ! m)"
  using assms by (simp_all add: drive_read_response_def Let_def wr_fields nth_upd del: reg_write_derived)

lemma drive_read_response_env:
  "length (read_ports (reg_write (drive_read_response k n io))) = length (read_ports (reg_write io))"
  "length (out_read_resp (ext_out (drive_read_response k n io))) = length (out_read_resp (ext_out io))"
  "regs (drive_read_response k n io) = regs io" "ext_in (drive_read_response k n io) = ext_in io"
  by (simp_all add: drive_read_response_def Let_def)

lemma drive_read_responses_port:
  assumes "m < NUM_READ_MASTERS" and "length (read_ports (reg_write io)) = NUM_READ_MASTERS"
    and "length (out_read_resp (ext_out io)) = NUM_READ_MASTERS"
  shows "read_ports (reg_write (drive_read_responses k io)) ! m =
      drive_read_port k (in_read_resp_ready (ext_in io) ! m) (read_ports (regs io) ! m) (read_ports (reg_write io) ! m)"
    and "out_read_resp (ext_out (drive_read_responses k io)) ! m =
      \<lparr>rs_valid = rp_valid (read_ports (regs io) ! m), rs_data = rp_data (read_ports (regs io) ! m),
       rs_id = rp_id (read_ports (regs io) ! m)\<rparr>"
    and "length (read_ports (reg_write (drive_read_responses k io))) = NUM_READ_MASTERS"
proof -
  have four: "NUM_READ_MASTERS = 4" by (simp add: NUM_READ_MASTERS_def)
  have m: "m = 0 \<or> m = 1 \<or> m = 2 \<or> m = 3" using assms(1) four by linarith
  show "read_ports (reg_write (drive_read_responses k io)) ! m =
      drive_read_port k (in_read_resp_ready (ext_in io) ! m) (read_ports (regs io) ! m) (read_ports (reg_write io) ! m)"
    "out_read_resp (ext_out (drive_read_responses k io)) ! m =
      \<lparr>rs_valid = rp_valid (read_ports (regs io) ! m), rs_data = rp_data (read_ports (regs io) ! m),
       rs_id = rp_id (read_ports (regs io) ! m)\<rparr>"
    "length (read_ports (reg_write (drive_read_responses k io))) = NUM_READ_MASTERS"
    using m assms(2,3) four
    by (auto simp: drive_read_responses_def masters_upt drive_read_response_port drive_read_response_env)
qed

section \<open>One cycle\<close>

lemma comb_begin_fields:
  "regs (comb_begin k c io) = regs io" "ext_in (comb_begin k c io) = ext_in io" "lookup_in (comb_begin k c io) = lookup_in io"
  "lookup (reg_write (comb_begin k c io)) = lookup (regs io)" "mshr (reg_write (comb_begin k c io)) = mshr (regs io)"
  "read_ports (reg_write (comb_begin k c io)) = read_ports (regs io)"
  "write_ctxs (reg_write (comb_begin k c io)) = write_ctxs (regs io)"
  "write_ports (reg_write (comb_begin k c io)) = write_ports (regs io)"
  "victim_wb (reg_write (comb_begin k c io)) = victim_wb (regs io)"
  "ext_out (comb_begin k c io) = llc_ext_out_zero k"
  by (simp_all add: comb_begin_def Let_def)

text \<open>The stages of an enabled cycle, by name.\<close>

definition stage_respond :: "kit_config \<Rightarrow> llc_config \<Rightarrow> llc_io \<Rightarrow> llc_io" where
  "stage_respond k c io = drive_read_responses k (comb_begin k c io)"

definition stage_lookup :: "kit_config \<Rightarrow> llc_config \<Rightarrow> llc_io \<Rightarrow> llc_io" where
  "stage_lookup k c io = try_complete_lookup k c (drive_write_path k c io)"

definition stage_accept :: "kit_config \<Rightarrow> llc_config \<Rightarrow> llc_io \<Rightarrow> llc_io" where
  "stage_accept k c io = accept_new_requests k c (try_launch_pending_write_lookup (drive_mem_read_path k c io))"

definition stage_close :: "kit_config \<Rightarrow> llc_config \<Rightarrow> llc_io \<Rightarrow> llc_io" where
  "stage_close k c io =
     (let io = (if \<not> invalidate_all (in_mem (ext_in io))
                then try_launch_prefetch_lookup k c (accept_maintenance_request k c io) else io)
      in accept_invalidate_all k c (drive_lookup_request k c io))"

lemma llc_comb_stages:
  "lc_enable c \<Longrightarrow> lc_valid c \<Longrightarrow>
   llc_comb k c io = stage_close k c (stage_accept k c (stage_lookup k c (stage_respond k c io)))"
  by (simp add: llc_comb_def stage_respond_def stage_lookup_def stage_accept_def stage_close_def Let_def)

lemma follows_write_path:
  assumes "follows io"
  shows "follows (drive_write_path k c io)"
proof -
  have env: "regs (drive_write_path k c io) = regs io"
    using drive_write_path_frame(1) [of k c io] by (simp add: env_of_def)
  have "lk_valid (lookup (reg_write io)) \<longrightarrow> lookup (reg_write (drive_write_path k c io)) = lookup (reg_write io)"
    using launches_write_path [of 0 io k c] by (simp add: launches_def)
  then show ?thesis using assms by (auto simp: follows_def env llc_frame)
qed

text \<open>A completed lookup changes no entry that was valid.\<close>

lemma valid_kept_same:
  assumes "follows io" and "map ek (mshr (reg_write io')) = map ek (mshr (reg_write io))" and "regs io' = regs io"
    and "length (mshr (reg_write io)) = MAX_OUTSTANDING k"
  shows "valid_kept k io'"
proof -
  have same: "map ek (mshr (reg_write io')) = map ek (mshr (regs io'))" using assms(1-3) by (simp add: follows_def)
  have "length (mshr (reg_write io')) = MAX_OUTSTANDING k" using map_eq_imp_length_eq [OF assms(2)] assms(4) by simp
  then show ?thesis using entries_nth [OF same] by (simp add: valid_kept_def)
qed

lemma valid_kept_alloc:
  assumes ok: "reads_ok k (reg_write io)" "follows io" and i: "find_free_mshr k c (regs io) = Some i"
    and new: "mshr (reg_write io') = (mshr (reg_write io))[i := e]" "regs io' = regs io"
  shows "valid_kept k io'"
proof -
  have len: "length (mshr (reg_write io)) = MAX_OUTSTANDING k" using ok by (simp add: reads_ok_def entries_ok_def)
  have "\<not> ms_valid (mshr (regs io) ! i)" using first_below_Some [OF i [unfolded find_free_mshr_def]] by auto
  moreover have "ek (mshr (reg_write io) ! j) = ek (mshr (regs io) ! j)" if "j < MAX_OUTSTANDING k" for j
    using ok(2) len that by (intro entries_nth) (simp_all add: follows_def)
  ultimately show ?thesis using new len unfolding valid_kept_def by (metis nth_list_update_neq)
qed

lemma valid_kept_lookup:
  assumes ok: "reads_ok k (reg_write io)" "follows io"
  shows "valid_kept k (try_complete_lookup k c io)"
proof -
  have env: "regs (try_complete_lookup k c io) = regs io"
    using try_complete_lookup_frame(1) [of k c io] by (simp add: env_of_def)
  have len: "length (mshr (reg_write io)) = MAX_OUTSTANDING k" using ok by (simp add: reads_ok_def entries_ok_def)
  note same = valid_kept_same [OF ok(2) _ env len]
  note alloc = valid_kept_alloc [OF ok _ _ env]
  let ?io = "try_complete_lookup k c io"
  have w: "map ek (mshr (reg_write (alloc_write_miss k c n io))) = map ek (mshr (reg_write io)) \<or>
      (\<exists>i e. find_free_mshr k c (regs io) = Some i \<and> mshr (reg_write (alloc_write_miss k c n io)) = (mshr (reg_write io))[i := e])" for n
    by (cases rule: alloc_write_miss_cases [of k c n io]) (auto simp: llc_frame)
  have wm: "map ek (mshr (reg_write (complete_write_miss k c v io))) = map ek (mshr (reg_write io)) \<or>
      (\<exists>i e. find_free_mshr k c (regs io) = Some i \<and> mshr (reg_write (complete_write_miss k c v io)) = (mshr (reg_write io))[i := e])" for v
    using w by (simp add: complete_write_miss_def Let_def llc_frame split: option.split)
  have rm: "map ek (mshr (reg_write (complete_read_miss k c v io))) = map ek (mshr (reg_write io)) \<or>
      (\<exists>i e. find_free_mshr k c (regs io) = Some i \<and> mshr (reg_write (complete_read_miss k c v io)) = (mshr (reg_write io))[i := e])" for v
    by (auto simp: complete_read_miss_def Let_def llc_frame alloc_read_miss_mshr alloc_noalloc_read_mshr upd_def split: option.split)
  have "map ek (mshr (reg_write ?io)) = map ek (mshr (reg_write io)) \<or>
      (\<exists>i e. find_free_mshr k c (regs io) = Some i \<and> mshr (reg_write ?io) = (mshr (reg_write io))[i := e])"
    using wm rm by (simp add: try_complete_lookup_def Let_def llc_frame split: option.split prod.split)
  then show ?thesis using same alloc by blast
qed

text \<open>The response phase takes what it hands over from the port; nothing else moves.\<close>

definition answered :: "nat \<Rightarrow> llc_regs \<Rightarrow> llc_ext_in \<Rightarrow> u8 list" where
  "answered m r x = (let p = read_ports r ! m in
     if rp_valid p \<and> \<not> rp_fresh p \<and> in_read_resp_ready x ! m then [rp_id p] else [])"

lemma stage_respond_reads:
  assumes ok: "reads_ok k (regs io)" "m < NUM_READ_MASTERS"
  shows "mset (answered m (regs io) (ext_in io)) + read_owed k m (reg_write (stage_respond k c io)) = read_owed k m (regs io)"
    and "reads_ok k (reg_write (stage_respond k c io))" and "follows (stage_respond k c io)"
proof -
  let ?b = "comb_begin k c io"
  have len: "length (read_ports (reg_write ?b)) = NUM_READ_MASTERS" "length (out_read_resp (ext_out ?b)) = NUM_READ_MASTERS"
    using ok by (simp_all add: comb_begin_fields reads_ok_def ports_ok_def llc_ext_out_zero_def)
  have port: "read_ports (reg_write (stage_respond k c io)) ! n =
      drive_read_port k (in_read_resp_ready (ext_in io) ! n) (read_ports (regs io) ! n) (read_ports (regs io) ! n)"
    if "n < NUM_READ_MASTERS" for n
    using drive_read_responses_port(1) [OF that len, of k] by (simp add: stage_respond_def comb_begin_fields)
  have portok: "port_ok k (read_ports (regs io) ! n)" if "n < NUM_READ_MASTERS" for n
    using ok that by (simp add: reads_ok_def ports_ok_def list_all_length)
  note live = drive_read_port_live [OF portok]
  have same: "lookup (reg_write (stage_respond k c io)) = lookup (regs io)" "mshr (reg_write (stage_respond k c io)) = mshr (regs io)"
    by (simp_all add: stage_respond_def llc_frame comb_begin_fields)
  show okr: "reads_ok k (reg_write (stage_respond k c io))"
    using ok live port same drive_read_responses_port(3) [OF ok(2) len, of k]
    by (auto simp: reads_ok_def ports_ok_def list_all_length stage_respond_def)
  have "answered m (regs io) (ext_in io) @ port_live k (read_ports (reg_write (stage_respond k c io)) ! m) =
      port_live k (read_ports (regs io) ! m)"
    unfolding port [OF ok(2)] answered_def Let_def using live [OF ok(2)] by blast
  then have "mset (answered m (regs io) (ext_in io)) + mset (port_live k (read_ports (reg_write (stage_respond k c io)) ! m)) =
      mset (port_live k (read_ports (regs io) ! m))"
    by (metis mset_append)
  then show "mset (answered m (regs io) (ext_in io)) + read_owed k m (reg_write (stage_respond k c io)) = read_owed k m (regs io)"
    by (simp add: read_owed_def same ac_simps)
  show "follows (stage_respond k c io)"
    using same drive_read_responses_frame(1) [of k ?b]
    by (simp add: follows_def stage_respond_def env_of_def comb_begin_fields)
qed

lemma stage_lookup_reads:
  assumes ok: "reads_ok k (reg_write io)" "m < NUM_READ_MASTERS" "follows io"
  shows "moves k m io (stage_lookup k c io)" and "valid_kept k (stage_lookup k c io)"
proof -
  let ?a = "drive_write_path k c io"
  have a: "moves k m io ?a" by (rule moves_launch [OF ok(1) launches_write_path]) (simp_all add: llc_frame)
  then have oka: "reads_ok k (reg_write ?a)" by (simp add: moves_def)
  note fa = follows_write_path [OF ok(3), of k c]
  show "moves k m io (stage_lookup k c io)"
    using moves_trans [OF a moves_try_complete_lookup [OF oka ok(2) fa]] by (simp add: stage_lookup_def)
  show "valid_kept k (stage_lookup k c io)" using valid_kept_lookup [OF oka fa] by (simp add: stage_lookup_def)
qed

definition taken :: "nat \<Rightarrow> llc_ext_in \<Rightarrow> llc_ext_out \<Rightarrow> u8 list" where
  "taken m x y = (if rq_valid (in_read_req x ! m) \<and> out_read_req_ready y ! m then [rq_id (in_read_req x ! m)] else [])"

lemma stage_accept_reads:
  assumes ok: "reads_ok k (reg_write io)" "m < NUM_READ_MASTERS" "valid_kept k io"
    and wires: "out_read_req_ready (ext_out io) = replicate NUM_READ_MASTERS False"
  shows "read_owed k m (reg_write (stage_accept k c io)) =
      read_owed k m (reg_write io) + mset (taken m (ext_in io) (ext_out (stage_accept k c io)))"
    and "reads_ok k (reg_write (stage_accept k c io))"
proof -
  let ?a = "drive_mem_read_path k c io" let ?b = "try_launch_pending_write_lookup ?a"
  have a: "moves k m io ?a" by (rule moves_mem_read_path [OF ok])
  then have oka: "reads_ok k (reg_write ?a)" by (simp add: moves_def)
  have b: "moves k m ?a ?b" by (rule moves_launch [OF oka launches_write_lookup]) (simp_all add: llc_frame)
  then have okb: "reads_ok k (reg_write ?b)" by (simp add: moves_def)
  have ab: "read_owed k m (reg_write ?b) = read_owed k m (reg_write io)" using a b by (simp add: moves_def)
  have env: "ext_in ?b = ext_in io" using launch_write_lookup_frame(1) [of ?a] drive_mem_read_path_frame(1) [of k c io]
    by (simp add: env_of_def)
  have ready: "out_read_req_ready (ext_out ?b) = replicate NUM_READ_MASTERS False" using wires by (simp add: llc_frame)
  have "read_owed k m (reg_write (accept_new_requests k c ?b)) =
      read_owed k m (reg_write ?b) + mset (taken m (ext_in io) (ext_out (accept_new_requests k c ?b))) \<and>
      reads_ok k (reg_write (accept_new_requests k c ?b))"
  proof (cases rule: accept_new_requests_cases [of k c ?b])
    case none
    then show ?thesis using okb ready ok(2) by (simp add: taken_def)
  next
    case (accept n)
    have n: "unat (of_nat n :: u8) = n" using accept(1) by (simp add: unat_of_nat NUM_READ_MASTERS_def)
    have old: "lookup_owed m (lookup (reg_write ?b)) = {#}" using accept(3) by (simp add: lookup_owed_def)
    have new: "lookup_owed m (lookup (reg_write (accept_new_requests k c ?b))) =
        (if n = m then {#rq_id (in_read_req (ext_in io) ! m)#} else {#})"
      using n by (simp add: accept(4) lookup_owed_def env)
    have "taken m (ext_in io) (ext_out (accept_new_requests k c ?b)) =
        (if n = m then [rq_id (in_read_req (ext_in io) ! m)] else [])"
      using accept(1,2) ok(2) by (auto simp: taken_def accept(5) ready env nth_list_update)
    moreover have "lookup_ok (lookup (reg_write (accept_new_requests k c ?b)))"
      by (simp add: accept(4) lookup_ok_def)
    ultimately show ?thesis using okb old new by (simp add: read_owed_def reads_ok_def llc_frame ac_simps)
  qed
  then show "read_owed k m (reg_write (stage_accept k c io)) =
      read_owed k m (reg_write io) + mset (taken m (ext_in io) (ext_out (stage_accept k c io)))"
    "reads_ok k (reg_write (stage_accept k c io))"
    using ab by (simp_all add: stage_accept_def)
qed

lemma stage_close_reads:
  assumes ok: "reads_ok k (reg_write io)"
  shows "moves k m io (stage_close k c io)"
proof -
  define a where "a = (if \<not> invalidate_all (in_mem (ext_in io))
    then try_launch_prefetch_lookup k c (accept_maintenance_request k c io) else io)"
  have a: "moves k m io a"
  proof (cases "invalidate_all (in_mem (ext_in io))")
    case True
    then show ?thesis using moves_refl [OF ok] by (simp add: a_def)
  next
    case False
    let ?m = "accept_maintenance_request k c io"
    have m: "moves k m io ?m" by (rule moves_launch [OF ok launches_maintenance]) (simp_all add: llc_frame)
    then have okm: "reads_ok k (reg_write ?m)" by (simp add: moves_def)
    have "moves k m ?m (try_launch_prefetch_lookup k c ?m)"
      by (rule moves_launch [OF okm launches_prefetch]) (simp_all add: llc_frame)
    with m False show ?thesis by (simp add: a_def moves_def)
  qed
  then have oka: "reads_ok k (reg_write a)" by (simp add: moves_def)
  have r: "moves k m a (drive_lookup_request k c a)" by (rule moves_lookup_request [OF oka])
  then have okr: "reads_ok k (reg_write (drive_lookup_request k c a))" by (simp add: moves_def)
  have "moves k m io (accept_invalidate_all k c (drive_lookup_request k c a))"
    using moves_trans [OF moves_trans [OF a r] moves_invalidate_all [OF okr]] .
  then show ?thesis by (simp add: stage_close_def a_def Let_def)
qed

lemma disabled_comb:
  assumes "\<not> (lc_enable c \<and> lc_valid c)"
  shows "lookup (reg_write (llc_comb k c io)) = lookup (regs io)" "mshr (reg_write (llc_comb k c io)) = mshr (regs io)"
    "read_ports (reg_write (llc_comb k c io)) = read_ports (regs io)"
    "write_ctxs (reg_write (llc_comb k c io)) = write_ctxs (regs io)"
    "write_ports (reg_write (llc_comb k c io)) = write_ports (regs io)"
    "out_read_req_ready (ext_out (llc_comb k c io)) = replicate NUM_READ_MASTERS False"
    "m < NUM_READ_MASTERS \<Longrightarrow> \<not> rs_valid (out_read_resp (ext_out (llc_comb k c io)) ! m)"
    "out_write_req_ready (ext_out (llc_comb k c io)) = replicate NUM_WRITE_MASTERS False"
    "n < NUM_WRITE_MASTERS \<Longrightarrow> \<not> ws_valid (out_write_resp (ext_out (llc_comb k c io)) ! n)"
proof -
  have eq: "llc_comb k c io = wr (\<lambda>r. r\<lparr>enable_r := False, llc_st := kDisabled\<rparr>)
      (comb_disabled k (io\<lparr>ext_out := llc_ext_out_zero k, table_out := llc_table_out_zero, reg_write := regs io\<rparr>))"
    using assms by (auto simp: llc_comb_def)
  show "lookup (reg_write (llc_comb k c io)) = lookup (regs io)" "mshr (reg_write (llc_comb k c io)) = mshr (regs io)"
    "read_ports (reg_write (llc_comb k c io)) = read_ports (regs io)"
    "write_ctxs (reg_write (llc_comb k c io)) = write_ctxs (regs io)"
    "write_ports (reg_write (llc_comb k c io)) = write_ports (regs io)"
    "out_read_req_ready (ext_out (llc_comb k c io)) = replicate NUM_READ_MASTERS False"
    "m < NUM_READ_MASTERS \<Longrightarrow> \<not> rs_valid (out_read_resp (ext_out (llc_comb k c io)) ! m)"
    "out_write_req_ready (ext_out (llc_comb k c io)) = replicate NUM_WRITE_MASTERS False"
    "n < NUM_WRITE_MASTERS \<Longrightarrow> \<not> ws_valid (out_write_resp (ext_out (llc_comb k c io)) ! n)"
    by (simp_all add: eq comb_disabled_def Let_def llc_ext_out_zero_def)
qed

definition given :: "nat \<Rightarrow> llc_regs \<Rightarrow> llc_ext_in \<Rightarrow> llc_ext_out \<Rightarrow> u8 list" where
  "given m r x y = (let resp = out_read_resp y ! m in
     if rs_valid resp \<and> in_read_resp_ready x ! m \<and> \<not> rp_fresh (read_ports r ! m) then [rs_id resp] else [])"

lemma enabled_given:
  assumes "lc_enable c" "lc_valid c" and "reads_ok k (regs io)" "m < NUM_READ_MASTERS"
  shows "given m (regs io) (ext_in io) (ext_out (llc_comb k c io)) = answered m (regs io) (ext_in io)"
proof -
  let ?b = "comb_begin k c io"
  have len: "length (read_ports (reg_write ?b)) = NUM_READ_MASTERS" "length (out_read_resp (ext_out ?b)) = NUM_READ_MASTERS"
    using assms by (simp_all add: comb_begin_fields reads_ok_def ports_ok_def llc_ext_out_zero_def)
  have "out_read_resp (ext_out (llc_comb k c io)) = out_read_resp (ext_out (stage_respond k c io))"
    using assms(1,2) by (simp add: llc_comb_stages stage_lookup_def stage_accept_def stage_close_def Let_def llc_frame)
  then show ?thesis
    using drive_read_responses_port(2) [OF assms(4) len, of k]
    by (auto simp: given_def answered_def Let_def stage_respond_def comb_begin_fields)
qed

lemma llc_comb_reads:
  assumes ok: "reads_ok k (regs io)" "m < NUM_READ_MASTERS"
  shows "reads_ok k (reg_write (llc_comb k c io)) \<and>
    mset (given m (regs io) (ext_in io) (ext_out (llc_comb k c io))) + read_owed k m (reg_write (llc_comb k c io)) =
    read_owed k m (regs io) + mset (taken m (ext_in io) (ext_out (llc_comb k c io)))"
proof (cases "lc_enable c \<and> lc_valid c")
  case False
  then show ?thesis using ok disabled_comb [where c = c and k = k and io = io]
    by (simp add: reads_ok_def read_owed_def given_def taken_def Let_def)
next
  case True
  let ?r = "stage_respond k c io"
  let ?l = "stage_lookup k c ?r" let ?a = "stage_accept k c ?l" let ?z = "stage_close k c ?a"
  note r = stage_respond_reads [OF ok, of c]
  have l: "moves k m ?r ?l" "valid_kept k ?l" using stage_lookup_reads [OF r(2) ok(2) r(3)] by simp_all
  then have okl: "reads_ok k (reg_write ?l)" by (simp add: moves_def)
  have envl: "ext_in ?l = ext_in io"
    using drive_read_responses_frame(1) [of k "comb_begin k c io"] drive_write_path_frame(1) [of k c ?r]
      try_complete_lookup_frame(1) [of k c "drive_write_path k c ?r"]
    by (simp add: env_of_def stage_lookup_def stage_respond_def comb_begin_fields)
  have wires: "out_read_req_ready (ext_out ?l) = replicate NUM_READ_MASTERS False"
    by (simp add: stage_lookup_def stage_respond_def llc_frame comb_begin_fields llc_ext_out_zero_def)
  note a = stage_accept_reads [OF okl ok(2) l(2) wires, of c]
  have z: "moves k m ?a ?z" by (rule stage_close_reads [OF a(2)])
  have comb: "llc_comb k c io = ?z" using True by (simp add: llc_comb_stages)
  have out: "out_read_req_ready (ext_out ?z) = out_read_req_ready (ext_out ?a)"
    by (simp add: stage_close_def Let_def llc_frame)
  have "given m (regs io) (ext_in io) (ext_out ?z) = answered m (regs io) (ext_in io)"
    using enabled_given [OF _ _ ok] True comb by metis
  moreover have "taken m (ext_in io) (ext_out ?z) = taken m (ext_in io) (ext_out ?a)"
    by (simp add: taken_def out)
  ultimately show ?thesis using r(1) l(1) a(1) z unfolding comb
    by (simp add: moves_def envl add.assoc [symmetric])
qed

section \<open>Runs\<close>

text \<open>The sizes the static assertions and the array declarations of the source require.\<close>

definition llc_sized :: "kit_config \<Rightarrow> bool" where
  "llc_sized k \<longleftrightarrow> 0 < MAX_OUTSTANDING k \<and> MAX_OUTSTANDING k \<le> 128 \<and>
     0 < MAX_WRITE_OUTSTANDING k \<and> MAX_WRITE_OUTSTANDING k \<le> 128"

lemma kit_config_ok_sized:
  assumes "kit_config_ok k" and "0 < MAX_OUTSTANDING k" "0 < MAX_WRITE_OUTSTANDING k"
  shows "llc_sized k"
proof -
  have "(2 :: nat) ^ AXI_ID_WIDTH k \<le> 2 ^ 7" using assms(1) by (intro power_increasing) (simp_all add: kit_config_ok_def)
  then show ?thesis using assms by (simp add: llc_sized_def kit_config_ok_def)
qed

definition llc_reads_taken :: "kit_config \<Rightarrow> llc_config \<Rightarrow> nat \<Rightarrow> llc_input \<Rightarrow> llc_io \<Rightarrow> u8 list" where
  "llc_reads_taken k c m i s = taken m (drv_ext i) (ext_out (llc_cycle k c i s))"

definition llc_reads_given :: "kit_config \<Rightarrow> llc_config \<Rightarrow> nat \<Rightarrow> llc_input \<Rightarrow> llc_io \<Rightarrow> u8 list" where
  "llc_reads_given k c m i s = given m (regs s) (drv_ext i) (ext_out (llc_cycle k c i s))"

definition reads_waiting :: "kit_config \<Rightarrow> nat \<Rightarrow> llc_io \<Rightarrow> u8 multiset" where
  "reads_waiting k m s = (if llc_sized k \<and> m < NUM_READ_MASTERS then read_owed k m (regs s) else {#})"

lemma reads_ok_reset: "llc_sized k \<Longrightarrow> reads_ok k (regs (llc_reset k c))"
  by (simp add: llc_reset_def llc_configured_def llc_regs_zero_def reads_ok_def ports_ok_def entries_ok_def list_all_length
      lookup_ok_def llc_lookup_zero_def llc_sized_def port_ok_zero)

lemma sum_list_empty [simp]: "sum_list (replicate n ({#} :: 'a multiset)) = {#}"
  by (induction n) simp_all

lemma reads_waiting_reset: "reads_waiting k m (llc_reset k c) = {#}"
  by (simp add: reads_waiting_def llc_reset_def llc_configured_def llc_regs_zero_def read_owed_def lookup_owed_def
      llc_lookup_zero_def entries_owed_def port_live_def llc_read_port_zero_def)

lemma llc_cycle_reads:
  assumes "reads_ok k (regs s)" and "m < NUM_READ_MASTERS"
  shows "reads_ok k (regs (llc_cycle k c i s)) \<and>
    mset (llc_reads_given k c m i s) + read_owed k m (regs (llc_cycle k c i s)) =
    read_owed k m (regs s) + mset (llc_reads_taken k c m i s)"
  using llc_comb_reads [of k "llc_drive i s" m c] assms
  by (simp add: llc_cycle_def llc_seq_def llc_drive_def llc_reads_given_def llc_reads_taken_def)

interpretation llc_reads: ledger_view "llc_reset k c" "llc_cycle k c"
  "\<lambda>_ _. llc_sized k \<and> m < NUM_READ_MASTERS"
  "\<lambda>s. llc_sized k \<longrightarrow> reads_ok k (regs s)" "reads_waiting k m" "llc_reads_taken k c m" "llc_reads_given k c m"
  for k c m
  by unfold_locales
    (use reads_ok_reset reads_waiting_reset llc_cycle_reads in \<open>auto simp: reads_waiting_def\<close>)

section \<open>What a read master is promised\<close>

text \<open>C36: In any run of the cache from reset, whatever the masters, the memory and the tables do, the
  read responses handed to a master and the ones still owed to it (in the lookup, in a miss entry
  or in its response port) are together exactly the requests accepted from it, by id: no response
  is invented, duplicated or given to another master, and no accepted read is forgotten.\<close>

theorem llc_reads_answered_once:
  assumes "kit_config_ok k" and "0 < MAX_OUTSTANDING k" and "0 < MAX_WRITE_OUTSTANDING k" and "m < NUM_READ_MASTERS"
  shows "mset (collect (llc_reads_given k c m) (llc_cycle k c) is (llc_reset k c)) +
      read_owed k m (regs (run_cycles (llc_cycle k c) is (llc_reset k c))) =
    mset (collect (llc_reads_taken k c m) (llc_cycle k c) is (llc_reset k c))"
proof -
  have "llc_sized k" using assms by (intro kit_config_ok_sized)
  moreover have "allowed (\<lambda>_ _. llc_sized k \<and> m < NUM_READ_MASTERS) (llc_cycle k c) is (llc_reset k c)"
    using \<open>llc_sized k\<close> assms(4) by simp
  ultimately show ?thesis using llc_reads.paid_once [of k m c "is"] assms(4) by (simp add: reads_waiting_def)
qed

theorem llc_reads_answered_once_witness:
  "\<forall>is. mset (collect (llc_reads_given default_kit_config tiny_llc 1) (llc_cycle default_kit_config tiny_llc) is
       (llc_reset default_kit_config tiny_llc)) \<subseteq>#
     mset (collect (llc_reads_taken default_kit_config tiny_llc 1) (llc_cycle default_kit_config tiny_llc) is
       (llc_reset default_kit_config tiny_llc))"
proof
  fix "is"
  have pos: "0 < MAX_OUTSTANDING default_kit_config" "0 < MAX_WRITE_OUTSTANDING default_kit_config" "1 < NUM_READ_MASTERS"
    by (simp_all add: default_kit_config_def NUM_READ_MASTERS_def)
  show "mset (collect (llc_reads_given default_kit_config tiny_llc 1) (llc_cycle default_kit_config tiny_llc) is
       (llc_reset default_kit_config tiny_llc)) \<subseteq>#
     mset (collect (llc_reads_taken default_kit_config tiny_llc 1) (llc_cycle default_kit_config tiny_llc) is
       (llc_reset default_kit_config tiny_llc))"
    using llc_reads_answered_once [OF default_kit_config_ok pos, of tiny_llc "is"] by (metis mset_subset_eq_add_left)
qed

end
