(* ===== verification/LLC_Writes.thy ===== *)
theory LLC_Writes
  imports LLC_Read_Ledger
begin

text \<open>
  Write responses come in order. For one write master, the ids of its accepted and unanswered
  writes are, oldest first, the one in the response slot, the one in the write context, and the
  ones in its request queue. Every stage keeps this list, except that the acceptance of a request
  appends to it and the handshake of a response takes its first element.
\<close>

section \<open>What a master waits for\<close>

definition resp_live :: "llc_write_port \<Rightarrow> u8 list" where
  "resp_live p = (if wo_resp_valid p then [wo_resp_id p] else [])"

definition ctx_live :: "bool \<times> u8 \<Rightarrow> u8 list" where
  "ctx_live x = (if fst x then [snd x] else [])"

definition queue_live :: "kit_config \<Rightarrow> llc_write_port \<Rightarrow> write_pending_req list" where
  "queue_live k p = ring (MAX_WRITE_OUTSTANDING k) (wo_queue p) (unat (wo_head p)) (unat (wo_count p))"

definition write_owed :: "kit_config \<Rightarrow> nat \<Rightarrow> llc_regs \<Rightarrow> u8 list" where
  "write_owed k m r = resp_live (write_ports r ! m) @ ctx_live (map wk (write_ctxs r) ! m) @
     map wp_id (queue_live k (write_ports r ! m))"

definition write_port_ok :: "kit_config \<Rightarrow> llc_write_port \<Rightarrow> bool" where
  "write_port_ok k p \<longleftrightarrow> ptrs_ok (MAX_WRITE_OUTSTANDING k) (wo_head p) (wo_tail p) (wo_count p) \<and>
     length (wo_queue p) = MAX_WRITE_OUTSTANDING k \<and> list_all wp_valid (queue_live k p)"

definition writes_ok :: "kit_config \<Rightarrow> llc_regs \<Rightarrow> bool" where
  "writes_ok k r \<longleftrightarrow> length (write_ports r) = NUM_WRITE_MASTERS \<and> length (write_ctxs r) = NUM_WRITE_MASTERS \<and>
     list_all (write_port_ok k) (write_ports r)"

definition wmoves :: "kit_config \<Rightarrow> nat \<Rightarrow> llc_io \<Rightarrow> llc_io \<Rightarrow> bool" where
  "wmoves k m io io' \<longleftrightarrow> write_owed k m (reg_write io') = write_owed k m (reg_write io) \<and> writes_ok k (reg_write io')"

lemma wmoves_same:
  assumes "writes_ok k (reg_write io)" and "write_ports (reg_write io') = write_ports (reg_write io)"
    and "map wk (write_ctxs (reg_write io')) = map wk (write_ctxs (reg_write io))"
  shows "wmoves k m io io'"
  using assms map_eq_imp_length_eq [OF assms(3)] by (simp add: wmoves_def write_owed_def writes_ok_def)

lemma wmoves_trans: "wmoves k m a b \<Longrightarrow> wmoves k m b c \<Longrightarrow> wmoves k m a c"
  by (simp add: wmoves_def)

text \<open>The queue of a port as it was at the start of the cycle.\<close>

definition queue_of :: "llc_write_port \<Rightarrow> u8 \<times> u8 \<times> u8 \<times> write_pending_req list" where
  "queue_of p = (wo_head p, wo_tail p, wo_count p, wo_queue p)"

definition queues_kept :: "llc_io \<Rightarrow> bool" where
  "queues_kept io \<longleftrightarrow> map queue_of (write_ports (reg_write io)) = map queue_of (write_ports (regs io))"

lemma queue_of_update [simp]:
  "queue_of (p\<lparr>wo_resp_valid := a\<rparr>) = queue_of p" "queue_of (p\<lparr>wo_resp_id := b\<rparr>) = queue_of p"
  "queue_of (p\<lparr>wo_resp_code := c\<rparr>) = queue_of p" "queue_of (p\<lparr>wo_resp_line_addr := d\<rparr>) = queue_of p"
  by (simp_all add: queue_of_def)

lemma queue_live_update [simp]:
  "queue_live k (p\<lparr>wo_resp_valid := a\<rparr>) = queue_live k p" "queue_live k (p\<lparr>wo_resp_id := b\<rparr>) = queue_live k p"
  "queue_live k (p\<lparr>wo_resp_code := c\<rparr>) = queue_live k p" "queue_live k (p\<lparr>wo_resp_line_addr := d\<rparr>) = queue_live k p"
  by (simp_all add: queue_live_def)

lemma write_port_ok_update [simp]:
  "write_port_ok k (p\<lparr>wo_resp_valid := a\<rparr>) = write_port_ok k p" "write_port_ok k (p\<lparr>wo_resp_id := b\<rparr>) = write_port_ok k p"
  "write_port_ok k (p\<lparr>wo_resp_code := c\<rparr>) = write_port_ok k p" "write_port_ok k (p\<lparr>wo_resp_line_addr := d\<rparr>) = write_port_ok k p"
  by (simp_all add: write_port_ok_def)

lemma write_port_at:
  "writes_ok k r \<Longrightarrow> m < NUM_WRITE_MASTERS \<Longrightarrow>
   write_port_ok k (write_ports r ! m) \<and> m < length (write_ports r) \<and> m < length (write_ctxs r)"
  by (simp add: writes_ok_def list_all_length)

lemma list_all_upd: "list_all P xs \<Longrightarrow> P (f (xs ! i)) \<Longrightarrow> list_all P (upd i f xs)"
  unfolding upd_def by (rule list_all_update)

section \<open>The response slot\<close>

text \<open>The handshake of master \<open>n\<close> takes the id in its slot, and touches no other master.\<close>

lemma write_resp_handshake_owed:
  assumes ok: "writes_ok k (reg_write io)" and m: "m < NUM_WRITE_MASTERS" "n < NUM_WRITE_MASTERS"
    and same: "n = m \<Longrightarrow> write_ports (reg_write io) ! m = write_ports (regs io) ! m"
  shows "(if n = m \<and> wo_resp_valid (write_ports (regs io) ! m) \<and> in_write_resp_ready (ext_in io) ! m
      then [wo_resp_id (write_ports (regs io) ! m)] else []) @ write_owed k m (reg_write (write_resp_handshake n io)) =
      write_owed k m (reg_write io)"
    and "writes_ok k (reg_write (write_resp_handshake n io))"
    and "map queue_of (write_ports (reg_write (write_resp_handshake n io))) = map queue_of (write_ports (reg_write io))"
    and "n \<noteq> m \<Longrightarrow> write_ports (reg_write (write_resp_handshake n io)) ! m = write_ports (reg_write io) ! m"
proof -
  note at = write_port_at [OF ok m(1)] write_port_at [OF ok m(2)]
  show "(if n = m \<and> wo_resp_valid (write_ports (regs io) ! m) \<and> in_write_resp_ready (ext_in io) ! m
      then [wo_resp_id (write_ports (regs io) ! m)] else []) @ write_owed k m (reg_write (write_resp_handshake n io)) =
      write_owed k m (reg_write io)"
    using at same by (auto simp: write_resp_handshake_def Let_def write_owed_def resp_live_def nth_upd)
  show "writes_ok k (reg_write (write_resp_handshake n io))"
    using ok at by (simp add: write_resp_handshake_def Let_def writes_ok_def list_all_upd)
  show "map queue_of (write_ports (reg_write (write_resp_handshake n io))) = map queue_of (write_ports (reg_write io))"
    by (simp add: write_resp_handshake_def Let_def)
  show "n \<noteq> m \<Longrightarrow> write_ports (reg_write (write_resp_handshake n io)) ! m = write_ports (reg_write io) ! m"
    by (simp add: write_resp_handshake_def Let_def)
qed

text \<open>A finished context moves into the empty slot in front of it.\<close>

lemma wmoves_promote:
  assumes ok: "writes_ok k (reg_write io)" and m: "m < NUM_WRITE_MASTERS" "n < NUM_WRITE_MASTERS"
  shows "wmoves k m io (promote_write_ctx k n io)"
    and "map queue_of (write_ports (reg_write (promote_write_ctx k n io))) = map queue_of (write_ports (reg_write io))"
proof -
  note at = write_port_at [OF ok m(1)] write_port_at [OF ok m(2)]
  show "wmoves k m io (promote_write_ctx k n io)"
    using ok at
    by (auto simp: promote_write_ctx_def Let_def wmoves_def write_owed_def writes_ok_def resp_live_def ctx_live_def wk_def
        nth_upd list_all_upd write_ctx_zero_def)
  show "map queue_of (write_ports (reg_write (promote_write_ctx k n io))) = map queue_of (write_ports (reg_write io))"
    by (simp add: promote_write_ctx_def Let_def)
qed

section \<open>The request queue\<close>

lemma queue_push:
  assumes ok: "write_port_ok k p" and room: "unat (wo_count p) < MAX_WRITE_OUTSTANDING k" and e: "wp_valid e"
    and p': "p' = p\<lparr>wo_queue := (wo_queue p)[unat (wo_tail p) mod MAX_WRITE_OUTSTANDING k := e],
      wo_tail := of_nat ((unat (wo_tail p) mod MAX_WRITE_OUTSTANDING k + 1) mod MAX_WRITE_OUTSTANDING k),
      wo_count := wo_count p + 1\<rparr>"
  shows "write_port_ok k p' \<and> queue_live k p' = queue_live k p @ [e] \<and> resp_live p' = resp_live p"
proof -
  have ring: "ptrs_ok (MAX_WRITE_OUTSTANDING k) (wo_head p) (wo_tail p) (wo_count p)"
    and len: "length (wo_queue p) = MAX_WRITE_OUTSTANDING k" using ok by (simp_all add: write_port_ok_def)
  note step = ptrs_ok_push [OF ring room]
  have live: "queue_live k p' = queue_live k p @ [e]"
    using ring_push [OF room len, of "unat (wo_head p)" e] step(2,3) by (simp add: p' queue_live_def)
  then show ?thesis using ok len step(1) e by (simp add: write_port_ok_def p' resp_live_def)
qed

lemma queue_pop:
  assumes ok: "write_port_ok k p" and some: "wo_count p \<noteq> 0"
    and p': "p' = p\<lparr>wo_queue := (wo_queue p)[unat (wo_head p) mod MAX_WRITE_OUTSTANDING k := z],
      wo_head := of_nat ((unat (wo_head p) + 1) mod MAX_WRITE_OUTSTANDING k), wo_count := wo_count p - 1\<rparr>"
  shows "write_port_ok k p' \<and> resp_live p' = resp_live p \<and>
    queue_live k p = wo_queue p ! (unat (wo_head p) mod MAX_WRITE_OUTSTANDING k) # queue_live k p'"
proof -
  let ?D = "MAX_WRITE_OUTSTANDING k"
  have ring: "ptrs_ok ?D (wo_head p) (wo_tail p) (wo_count p)"
    and len: "length (wo_queue p) = ?D" using ok by (simp_all add: write_port_ok_def)
  note step = ptrs_ok_pop [OF ring some]
  have h: "(unat (wo_head p) mod ?D + 1) mod ?D = (unat (wo_head p) + 1) mod ?D" by (simp add: mod_Suc_eq)
  have live: "queue_live k p = wo_queue p ! unat (wo_head p) # queue_live k p'"
    using ring_pop [of "unat (wo_count p)" ?D "wo_queue p" "unat (wo_head p)" z] ring some len step(2,3,4)
    by (auto simp: p' queue_live_def ptrs_ok_def unat_gt_0 h)
  then show ?thesis using ok len step(1,4) unfolding h by (simp add: write_port_ok_def p' resp_live_def)
qed

lemma accept_write_cases:
  obtains (none) "write_ports (reg_write (accept_write k c io)) = write_ports (reg_write io)"
      "out_write_req_ready (ext_out (accept_write k c io)) = out_write_req_ready (ext_out io)"
  | (take) n e where "n < NUM_WRITE_MASTERS" "wq_valid (in_write_req (ext_in io) ! n)"
      "unat (wo_count (write_ports (regs io) ! n)) < MAX_WRITE_OUTSTANDING k"
      "wp_valid e" "wp_id e = wq_id (in_write_req (ext_in io) ! n)"
      "write_ports (reg_write (accept_write k c io)) = upd n (\<lambda>p. p\<lparr>
         wo_queue := (wo_queue p)[unat (wo_tail (write_ports (regs io) ! n)) mod MAX_WRITE_OUTSTANDING k := e],
         wo_tail := of_nat ((unat (wo_tail (write_ports (regs io) ! n)) mod MAX_WRITE_OUTSTANDING k + 1) mod MAX_WRITE_OUTSTANDING k),
         wo_count := wo_count (write_ports (regs io) ! n) + 1\<rparr>) (write_ports (reg_write io))"
      "out_write_req_ready (ext_out (accept_write k c io)) = (out_write_req_ready (ext_out io))[n := True]"
proof (cases "pick_new_write_master k c (ext_in io) (regs io)")
  case None
  then show ?thesis by (intro none) (simp_all add: accept_write_def)
next
  case (Some n)
  let ?req = "in_write_req (ext_in io) ! n"
  have n: "n < NUM_WRITE_MASTERS" "wq_valid ?req" "\<not> write_queue_full k (regs io) n"
    using first_from_Some [OF Some [unfolded pick_new_write_master_def]] by (auto simp: Let_def)
  have room: "unat (wo_count (write_ports (regs io) ! n)) < MAX_WRITE_OUTSTANDING k"
    using n(1,3) by (simp add: write_queue_full_def)
  let ?e = "\<lparr>wp_valid = True, wp_bypass = wq_bypass ?req, wp_direct_mapped = wq_direct_mapped ?req,
    wp_mode2 = wq_mode2 ?req, wp_master = of_nat n, wp_id = wq_id ?req, wp_total_size = wq_total_size ?req,
    wp_addr = wq_addr ?req, wp_wdata = wq_wdata ?req, wp_wstrb = wq_wstrb ?req\<rparr>"
  show ?thesis
    by (rule take [OF n(1,2) room, of ?e]) (use n in \<open>simp_all add: accept_write_def Some Let_def\<close>)
qed

lemma wmoves_accept_write:
  assumes ok: "writes_ok k (reg_write io)" "m < NUM_WRITE_MASTERS" and kept: "queues_kept io"
    and wires: "out_write_req_ready (ext_out io) = replicate NUM_WRITE_MASTERS False"
  shows "write_owed k m (reg_write (accept_write k c io)) = write_owed k m (reg_write io) @
      (if wq_valid (in_write_req (ext_in io) ! m) \<and> out_write_req_ready (ext_out (accept_write k c io)) ! m
       then [wq_id (in_write_req (ext_in io) ! m)] else [])"
    and "writes_ok k (reg_write (accept_write k c io))"
proof -
  have ctx: "write_ctxs (reg_write (accept_write k c io)) = write_ctxs (reg_write io)" by (simp add: llc_frame)
  have "write_owed k m (reg_write (accept_write k c io)) = write_owed k m (reg_write io) @
      (if wq_valid (in_write_req (ext_in io) ! m) \<and> out_write_req_ready (ext_out (accept_write k c io)) ! m
       then [wq_id (in_write_req (ext_in io) ! m)] else []) \<and> writes_ok k (reg_write (accept_write k c io))"
  proof (cases rule: accept_write_cases [of k c io])
    case none
    then show ?thesis using ok wires ctx by (simp add: write_owed_def writes_ok_def)
  next
    case (take n e)
    let ?p = "write_ports (reg_write io) ! n"
    note at = write_port_at [OF ok(1) take(1)] write_port_at [OF ok]
    have "map queue_of (write_ports (reg_write io)) ! n = map queue_of (write_ports (regs io)) ! n"
      using kept by (simp add: queues_kept_def)
    moreover have "length (write_ports (regs io)) = length (write_ports (reg_write io))"
      using map_eq_imp_length_eq [OF kept [unfolded queues_kept_def]] by simp
    ultimately have same: "wo_tail (write_ports (regs io) ! n) = wo_tail ?p" "wo_count (write_ports (regs io) ! n) = wo_count ?p"
      using at by (simp_all add: queue_of_def)
    obtain p' where p': "p' = ?p\<lparr>wo_queue := (wo_queue ?p)[unat (wo_tail ?p) mod MAX_WRITE_OUTSTANDING k := e],
      wo_tail := of_nat ((unat (wo_tail ?p) mod MAX_WRITE_OUTSTANDING k + 1) mod MAX_WRITE_OUTSTANDING k),
      wo_count := wo_count ?p + 1\<rparr>" by blast
    have room: "unat (wo_count ?p) < MAX_WRITE_OUTSTANDING k" using take(3) same by simp
    have pok: "write_port_ok k ?p" using at by simp
    note push = queue_push [OF pok room take(4) p']
    have ports: "write_ports (reg_write (accept_write k c io)) = (write_ports (reg_write io))[n := p']"
      unfolding take(6) upd_def same p' ..
    have ready: "out_write_req_ready (ext_out (accept_write k c io)) ! m \<longleftrightarrow> m = n"
      using take(1) ok(2) by (simp add: take(7) wires nth_list_update)
    show ?thesis using push at ok ctx take(2,5) ready
      by (auto simp: ports write_owed_def writes_ok_def nth_list_update intro: list_all_update)
  qed
  then show "write_owed k m (reg_write (accept_write k c io)) = write_owed k m (reg_write io) @
      (if wq_valid (in_write_req (ext_in io) ! m) \<and> out_write_req_ready (ext_out (accept_write k c io)) ! m
       then [wq_id (in_write_req (ext_in io) ! m)] else [])" "writes_ok k (reg_write (accept_write k c io))"
    by simp_all
qed

lemma wmoves_alloc:
  assumes ok: "writes_ok k (reg_write io)" and m: "m < NUM_WRITE_MASTERS" "n < NUM_WRITE_MASTERS"
  shows "wmoves k m io (alloc_write_ctx k c n io)"
proof (cases "wc_valid (write_ctxs (reg_write io) ! n) \<or> wo_resp_valid (write_ports (reg_write io) ! n) \<or>
    write_queue_front k (reg_write io) n = None")
  case True
  then have "alloc_write_ctx k c n io = io" by (auto simp: alloc_write_ctx_def Let_def)
  then show ?thesis using ok by (simp add: wmoves_def)
next
  case free: False
  then obtain e where e: "write_queue_front k (reg_write io) n = Some e" by blast
  show ?thesis
  proof (cases "victim_line_pending k c (reg_write io) (line_addr c (wp_addr e))")
    case True
    then have "alloc_write_ctx k c n io = io" using free e by (auto simp: alloc_write_ctx_def Let_def)
    then show ?thesis using ok by (simp add: wmoves_def)
  next
    case False
    let ?p = "write_ports (reg_write io) ! n"
    note at = write_port_at [OF ok m(1)] write_port_at [OF ok m(2)]
    have front: "wo_count ?p \<noteq> 0" "e = wo_queue ?p ! (unat (wo_head ?p) mod MAX_WRITE_OUTSTANDING k)"
      using e m(2) by (auto simp: write_queue_front_def write_queue_empty_def Let_def split: if_splits)
    obtain p' where p': "p' = ?p\<lparr>wo_queue := (wo_queue ?p)[unat (wo_head ?p) mod MAX_WRITE_OUTSTANDING k := write_pending_zero k],
      wo_head := of_nat ((unat (wo_head ?p) + 1) mod MAX_WRITE_OUTSTANDING k), wo_count := wo_count ?p - 1\<rparr>" by blast
    have pok: "write_port_ok k ?p" using at by simp
    note pop = queue_pop [OF pok front(1) p', folded front(2)]
    have ports: "write_ports (reg_write (alloc_write_ctx k c n io)) = (write_ports (reg_write io))[n := p']"
      using free e False by (simp add: alloc_write_ctx_def Let_def wr_fields upd_def p' del: reg_write_derived)
    obtain x where x: "write_ctxs (reg_write (alloc_write_ctx k c n io)) = (write_ctxs (reg_write io))[n := x]" "wk x = (True, wp_id e)"
    proof (cases "wp_bypass e")
      case True
      then show ?thesis using free e False
        by - (rule that, simp add: alloc_write_ctx_def Let_def wr_fields upd_def del: reg_write_derived, simp add: wk_def)
    next
      case nb: False
      then show ?thesis using free e False
        by - (rule that, simp add: alloc_write_ctx_def Let_def wr_fields upd_def del: reg_write_derived, simp add: wk_def)
    qed
    show ?thesis using pop at ok x free
      by (auto simp: wmoves_def ports write_owed_def writes_ok_def map_update nth_list_update resp_live_def ctx_live_def wk_def
          intro: list_all_update)
  qed
qed

section \<open>The stages of the write path\<close>

definition resp_handed :: "nat \<Rightarrow> llc_regs \<Rightarrow> llc_ext_in \<Rightarrow> u8 list" where
  "resp_handed m r x = (let p = write_ports r ! m in
     if wo_resp_valid p \<and> in_write_resp_ready x ! m then [wo_resp_id p] else [])"

definition write_handshakes :: "llc_io \<Rightarrow> llc_io" where
  "write_handshakes io = fold write_resp_handshake [0..<NUM_WRITE_MASTERS] io"

lemma write_handshakes_owed:
  assumes ok: "writes_ok k (reg_write io)" and m: "m < NUM_WRITE_MASTERS"
    and same: "write_ports (reg_write io) = write_ports (regs io)"
  shows "resp_handed m (regs io) (ext_in io) @ write_owed k m (reg_write (write_handshakes io)) = write_owed k m (reg_write io)"
    and "writes_ok k (reg_write (write_handshakes io))" and "queues_kept (write_handshakes io)"
proof -
  have two: "0 < NUM_WRITE_MASTERS" "1 < NUM_WRITE_MASTERS" and m01: "m = 0 \<or> m = 1"
    using m by (auto simp: NUM_WRITE_MASTERS_def)
  let ?a = "write_resp_handshake 0 io" let ?b = "write_resp_handshake 1 ?a"
  have eq: "write_handshakes io = ?b" by (simp add: write_handshakes_def masters_upt)
  have env: "regs ?a = regs io" "ext_in ?a = ext_in io" "regs ?b = regs io"
    using write_resp_handshake_frame(1) [of 0 io] write_resp_handshake_frame(1) [of 1 ?a] by (simp_all add: env_of_def)
  note h0 = write_resp_handshake_owed [OF ok m two(1)]
  have oka: "writes_ok k (reg_write ?a)" using write_resp_handshake_owed(2) [OF ok two(2) two(1)] same by simp
  note h1 = write_resp_handshake_owed [OF oka m two(2)]
  have sa: "1 = m \<Longrightarrow> write_ports (reg_write ?a) ! m = write_ports (regs ?a) ! m"
    using h0(4) same by (auto simp: env)
  show "resp_handed m (regs io) (ext_in io) @ write_owed k m (reg_write (write_handshakes io)) = write_owed k m (reg_write io)"
    using h0(1) h1(1) [OF sa] m01 same unfolding eq by (auto simp: resp_handed_def Let_def env)
  show "writes_ok k (reg_write (write_handshakes io))" using h1(2) [OF sa] unfolding eq by simp
  show "queues_kept (write_handshakes io)"
    using h0(3) h1(3) [OF sa] same unfolding eq queues_kept_def env by simp
qed

definition write_promotions :: "kit_config \<Rightarrow> llc_io \<Rightarrow> llc_io" where
  "write_promotions k io = fold (promote_write_ctx k) [0..<NUM_WRITE_MASTERS] io"

lemma wmoves_promotions:
  assumes ok: "writes_ok k (reg_write io)" and m: "m < NUM_WRITE_MASTERS"
  shows "wmoves k m io (write_promotions k io)"
    and "map queue_of (write_ports (reg_write (write_promotions k io))) = map queue_of (write_ports (reg_write io))"
proof -
  have two: "0 < NUM_WRITE_MASTERS" "1 < NUM_WRITE_MASTERS" by (simp_all add: NUM_WRITE_MASTERS_def)
  let ?a = "promote_write_ctx k 0 io"
  note a = wmoves_promote [OF ok m two(1)]
  have oka: "writes_ok k (reg_write ?a)" using a(1) by (simp add: wmoves_def)
  note b = wmoves_promote [OF oka m two(2)]
  show "wmoves k m io (write_promotions k io)"
    using wmoves_trans [OF a(1) b(1)] by (simp add: write_promotions_def masters_upt)
  show "map queue_of (write_ports (reg_write (write_promotions k io))) = map queue_of (write_ports (reg_write io))"
    using a(2) b(2) by (simp add: write_promotions_def masters_upt)
qed

definition write_allocs :: "kit_config \<Rightarrow> llc_config \<Rightarrow> nat \<Rightarrow> llc_io \<Rightarrow> llc_io" where
  "write_allocs k c rr io = fold (\<lambda>off. alloc_write_ctx k c ((rr + off) mod NUM_WRITE_MASTERS)) [0..<NUM_WRITE_MASTERS] io"

lemma wmoves_allocs:
  assumes ok: "writes_ok k (reg_write io)" and m: "m < NUM_WRITE_MASTERS"
  shows "wmoves k m io (write_allocs k c rr io)"
proof -
  have n: "(rr + off) mod NUM_WRITE_MASTERS < NUM_WRITE_MASTERS" for off by (simp add: NUM_WRITE_MASTERS_def)
  let ?a = "alloc_write_ctx k c ((rr + 0) mod NUM_WRITE_MASTERS) io"
  have a: "wmoves k m io ?a" by (rule wmoves_alloc [OF ok m n])
  then have oka: "writes_ok k (reg_write ?a)" by (simp add: wmoves_def)
  show ?thesis using wmoves_trans [OF a wmoves_alloc [OF oka m n [of 1], of c]] by (simp add: write_allocs_def masters_upt)
qed

definition write_mem_side :: "kit_config \<Rightarrow> llc_config \<Rightarrow> llc_io \<Rightarrow> llc_io" where
  "write_mem_side k c io = commit_first c [0..<NUM_WRITE_MASTERS] (write_mem_response k c io)"

lemma drive_write_path_stages:
  "drive_write_path k c io =
     (let io = arm_queued_victim k (write_promotions k (write_mem_side k c (write_handshakes io)))
      in if vb_valid (victim_wb (reg_write io)) then issue_victim c io
         else try_launch_pending_write_lookup
                (write_allocs k c (unat (rr_write_master_r (regs io))) (accept_write k c (issue_bypass_write io))))"
proof -
  have env: "regs (accept_write k c (issue_bypass_write io)) = regs io" for io
    using accept_write_frame(1) [of k c "issue_bypass_write io"] issue_bypass_write_frame(1) [of io] by (simp add: env_of_def)
  show ?thesis
    by (simp add: drive_write_path_def drive_new_writes_def write_promotions_def write_mem_side_def write_handshakes_def
        write_allocs_def Let_def env del: commit_first.simps)
qed

definition write_taken :: "nat \<Rightarrow> llc_ext_in \<Rightarrow> llc_ext_out \<Rightarrow> u8 list" where
  "write_taken m x y = (if wq_valid (in_write_req x ! m) \<and> out_write_req_ready y ! m then [wq_id (in_write_req x ! m)] else [])"

lemma new_writes_owed:
  assumes ok: "writes_ok k (reg_write io)" "m < NUM_WRITE_MASTERS" and kept: "queues_kept io"
    and wires: "out_write_req_ready (ext_out io) = replicate NUM_WRITE_MASTERS False"
    and new: "io' = try_launch_pending_write_lookup (write_allocs k c rr (accept_write k c (issue_bypass_write io)))"
  shows "write_owed k m (reg_write io') = write_owed k m (reg_write io) @ write_taken m (ext_in io) (ext_out io')"
    and "writes_ok k (reg_write io')"
proof -
  let ?b = "issue_bypass_write io" let ?c = "accept_write k c ?b" let ?d = "write_allocs k c rr ?c"
  have b: "wmoves k m io ?b" by (rule wmoves_same [OF ok(1)]) (simp_all add: llc_frame)
  then have okb: "writes_ok k (reg_write ?b)" by (simp add: wmoves_def)
  have envb: "ext_in ?b = ext_in io" "regs ?b = regs io"
    using issue_bypass_write_frame(1) [of io] by (simp_all add: env_of_def)
  have keptb: "queues_kept ?b" using kept by (simp add: queues_kept_def envb llc_frame)
  have wiresb: "out_write_req_ready (ext_out ?b) = replicate NUM_WRITE_MASTERS False" using wires by (simp add: llc_frame)
  note c = wmoves_accept_write [OF okb ok(2) keptb wiresb, of c]
  have d: "wmoves k m ?c ?d" by (rule wmoves_allocs [OF c(2) ok(2)])
  then have okd: "writes_ok k (reg_write ?d)" by (simp add: wmoves_def)
  have e: "wmoves k m ?d io'" unfolding new by (rule wmoves_same [OF okd]) (simp_all add: llc_frame)
  have out: "out_write_req_ready (ext_out io') = out_write_req_ready (ext_out ?c)"
    by (simp add: new write_allocs_def masters_upt llc_frame)
  show "write_owed k m (reg_write io') = write_owed k m (reg_write io) @ write_taken m (ext_in io) (ext_out io')"
    using b c(1) d e by (simp add: wmoves_def write_taken_def out envb)
  show "writes_ok k (reg_write io')" using e by (simp add: wmoves_def)
qed

lemma write_path_owed:
  assumes ok: "writes_ok k (reg_write io)" and m: "m < NUM_WRITE_MASTERS"
    and same: "write_ports (reg_write io) = write_ports (regs io)"
    and wires: "out_write_req_ready (ext_out io) = replicate NUM_WRITE_MASTERS False"
  shows "resp_handed m (regs io) (ext_in io) @ write_owed k m (reg_write (drive_write_path k c io)) =
      write_owed k m (reg_write io) @ write_taken m (ext_in io) (ext_out (drive_write_path k c io))"
    and "writes_ok k (reg_write (drive_write_path k c io))"
proof -
  let ?h = "write_handshakes io" let ?s = "write_mem_side k c ?h" let ?p = "write_promotions k ?s"
  let ?q = "arm_queued_victim k ?p"
  note h = write_handshakes_owed [OF ok m same]
  have s: "wmoves k m ?h ?s"
    by (rule wmoves_same [OF h(2)]) (simp_all add: write_mem_side_def llc_frame del: commit_first.simps)
  then have oks: "writes_ok k (reg_write ?s)" by (simp add: wmoves_def)
  note p = wmoves_promotions [OF oks m]
  have okp: "writes_ok k (reg_write ?p)" using p(1) by (simp add: wmoves_def)
  have q: "wmoves k m ?p ?q" by (rule wmoves_same [OF okp]) (simp_all add: llc_frame)
  then have okq: "writes_ok k (reg_write ?q)" by (simp add: wmoves_def)
  have before: "write_owed k m (reg_write ?q) = write_owed k m (reg_write ?h)" using s p(1) q by (simp add: wmoves_def)
  have env: "env_of ?h = env_of io" by (simp add: write_handshakes_def masters_upt llc_frame)
  have env': "env_of ?q = env_of ?h"
    by (simp add: write_promotions_def write_mem_side_def masters_upt llc_frame del: commit_first.simps)
  have ext: "ext_in ?q = ext_in io" "regs ?q = regs ?h" using env env' by (auto simp: env_of_def)
  have kept: "queues_kept ?q"
    using h(3) p(2) unfolding queues_kept_def ext(2) by (simp add: llc_frame write_mem_side_def del: commit_first.simps)
  have wq: "out_write_req_ready (ext_out ?q) = replicate NUM_WRITE_MASTERS False"
    using wires by (simp add: write_promotions_def write_mem_side_def write_handshakes_def masters_upt llc_frame del: commit_first.simps)
  have "write_owed k m (reg_write (drive_write_path k c io)) =
      write_owed k m (reg_write ?q) @ write_taken m (ext_in io) (ext_out (drive_write_path k c io)) \<and>
    writes_ok k (reg_write (drive_write_path k c io))"
  proof (cases "vb_valid (victim_wb (reg_write ?q))")
    case True
    then have eq: "drive_write_path k c io = issue_victim c ?q" by (simp add: drive_write_path_stages Let_def)
    have "wmoves k m ?q (issue_victim c ?q)" by (rule wmoves_same [OF okq]) (simp_all add: llc_frame)
    then show ?thesis using wq m by (simp add: eq wmoves_def write_taken_def llc_frame)
  next
    case False
    have eq: "drive_write_path k c io = try_launch_pending_write_lookup
        (write_allocs k c (unat (rr_write_master_r (regs ?q))) (accept_write k c (issue_bypass_write ?q)))"
      using False by (simp add: drive_write_path_stages Let_def)
    show ?thesis using new_writes_owed [OF okq m kept wq eq] by (simp add: ext(1))
  qed
  then show "resp_handed m (regs io) (ext_in io) @ write_owed k m (reg_write (drive_write_path k c io)) =
      write_owed k m (reg_write io) @ write_taken m (ext_in io) (ext_out (drive_write_path k c io))"
    "writes_ok k (reg_write (drive_write_path k c io))"
    using h(1) before by (metis append.assoc)+
qed

section \<open>One cycle\<close>

definition write_given :: "nat \<Rightarrow> llc_ext_in \<Rightarrow> llc_ext_out \<Rightarrow> u8 list" where
  "write_given m x y = (let resp = out_write_resp y ! m in if ws_valid resp \<and> in_write_resp_ready x ! m then [ws_id resp] else [])"

text \<open>The response wires show the slots as they were at the start of the cycle.\<close>

lemma write_resp_wire:
  assumes "m < NUM_WRITE_MASTERS" and "length (out_write_resp (ext_out io)) = NUM_WRITE_MASTERS"
  shows "out_write_resp (ext_out (drive_write_path k c io)) ! m =
    (let p = write_ports (regs io) ! m in \<lparr>ws_valid = wo_resp_valid p, ws_id = wo_resp_id p, ws_resp = wo_resp_code p\<rparr>)"
proof -
  have m01: "m = 0 \<or> m = 1" using assms(1) by (auto simp: NUM_WRITE_MASTERS_def)
  have "out_write_resp (ext_out (drive_write_path k c io)) = out_write_resp (ext_out (write_handshakes io))"
    by (simp add: drive_write_path_stages Let_def write_promotions_def write_mem_side_def write_allocs_def masters_upt llc_frame
        del: commit_first.simps)
  moreover have "length (out_write_resp (ext_out io)) = 2" using assms(2) by (simp add: NUM_WRITE_MASTERS_def)
  ultimately show ?thesis using m01
    by (auto simp: write_handshakes_def masters_upt write_resp_handshake_def Let_def)
qed

lemma stages_after_write_path:
  "write_ports (reg_write (stage_lookup k c io)) = write_ports (reg_write (drive_write_path k c io))"
  "map wk (write_ctxs (reg_write (stage_lookup k c io))) = map wk (write_ctxs (reg_write (drive_write_path k c io)))"
  "write_ports (reg_write (stage_accept k c io)) = write_ports (reg_write io)"
  "map wk (write_ctxs (reg_write (stage_accept k c io))) = map wk (write_ctxs (reg_write io))"
  "write_ports (reg_write (stage_close k c io)) = write_ports (reg_write io)"
  "map wk (write_ctxs (reg_write (stage_close k c io))) = map wk (write_ctxs (reg_write io))"
  "out_write_req_ready (ext_out (stage_lookup k c io)) = out_write_req_ready (ext_out (drive_write_path k c io))"
  "out_write_req_ready (ext_out (stage_accept k c io)) = out_write_req_ready (ext_out io)"
  "out_write_req_ready (ext_out (stage_close k c io)) = out_write_req_ready (ext_out io)"
  "out_write_resp (ext_out (stage_lookup k c io)) = out_write_resp (ext_out (drive_write_path k c io))"
  "out_write_resp (ext_out (stage_accept k c io)) = out_write_resp (ext_out io)"
  "out_write_resp (ext_out (stage_close k c io)) = out_write_resp (ext_out io)"
  by (simp_all add: stage_lookup_def stage_accept_def stage_close_def Let_def llc_frame)

lemma stage_respond_writes:
  "write_ports (reg_write (stage_respond k c io)) = write_ports (regs io)"
  "write_ctxs (reg_write (stage_respond k c io)) = write_ctxs (regs io)"
  "regs (stage_respond k c io) = regs io" "ext_in (stage_respond k c io) = ext_in io"
  "out_write_req_ready (ext_out (stage_respond k c io)) = replicate NUM_WRITE_MASTERS False"
  "length (out_write_resp (ext_out (stage_respond k c io))) = NUM_WRITE_MASTERS"
  using drive_read_responses_frame(1) [of k "comb_begin k c io"]
  by (simp_all add: stage_respond_def llc_frame comb_begin_fields env_of_def llc_ext_out_zero_def)

lemma llc_comb_writes:
  assumes ok: "writes_ok k (regs io)" and m: "m < NUM_WRITE_MASTERS"
  shows "writes_ok k (reg_write (llc_comb k c io)) \<and>
    write_given m (ext_in io) (ext_out (llc_comb k c io)) @ write_owed k m (reg_write (llc_comb k c io)) =
    write_owed k m (regs io) @ write_taken m (ext_in io) (ext_out (llc_comb k c io))"
proof (cases "lc_enable c \<and> lc_valid c")
  case False
  then show ?thesis using ok m disabled_comb [where c = c and k = k and io = io]
    by (simp add: writes_ok_def write_owed_def write_given_def write_taken_def Let_def)
next
  case True
  let ?r = "stage_respond k c io" let ?w = "drive_write_path k c ?r" let ?z = "llc_comb k c io"
  note r = stage_respond_writes [of k c io]
  have start: "writes_ok k (reg_write ?r)" "write_owed k m (reg_write ?r) = write_owed k m (regs io)"
    using ok by (simp_all add: writes_ok_def write_owed_def r)
  have same: "write_ports (reg_write ?r) = write_ports (regs ?r)" by (simp add: r)
  note w = write_path_owed [OF start(1) m same r(5), of c]
  have z: "?z = stage_close k c (stage_accept k c (stage_lookup k c ?r))" using True by (simp add: llc_comb_stages)
  have "wmoves k m ?w ?z" by (rule wmoves_same [OF w(2)]) (simp_all add: z stages_after_write_path)
  moreover have "out_write_req_ready (ext_out ?z) = out_write_req_ready (ext_out ?w)"
    "out_write_resp (ext_out ?z) = out_write_resp (ext_out ?w)" by (simp_all add: z stages_after_write_path)
  moreover have "write_given m (ext_in io) (ext_out ?w) = resp_handed m (regs io) (ext_in io)"
    using write_resp_wire [OF m r(6), of k c] by (simp add: write_given_def resp_handed_def Let_def r)
  ultimately show ?thesis using w(1) start(2) by (simp add: wmoves_def write_given_def write_taken_def r)
qed

section \<open>Runs\<close>

definition llc_writes_taken :: "kit_config \<Rightarrow> llc_config \<Rightarrow> nat \<Rightarrow> llc_input \<Rightarrow> llc_io \<Rightarrow> u8 list" where
  "llc_writes_taken k c m i s = write_taken m (drv_ext i) (ext_out (llc_cycle k c i s))"

definition llc_writes_given :: "kit_config \<Rightarrow> llc_config \<Rightarrow> nat \<Rightarrow> llc_input \<Rightarrow> llc_io \<Rightarrow> u8 list" where
  "llc_writes_given k c m i s = write_given m (drv_ext i) (ext_out (llc_cycle k c i s))"

definition writes_waiting :: "kit_config \<Rightarrow> nat \<Rightarrow> llc_io \<Rightarrow> u8 list" where
  "writes_waiting k m s = (if llc_sized k \<and> m < NUM_WRITE_MASTERS then write_owed k m (regs s) else [])"

lemma writes_ok_reset: "llc_sized k \<Longrightarrow> writes_ok k (regs (llc_reset k c))"
  by (simp add: llc_reset_def llc_configured_def llc_regs_zero_def writes_ok_def list_all_length write_port_ok_def
      llc_write_port_zero_def queue_live_def ptrs_ok_def llc_sized_def)

lemma writes_waiting_reset: "writes_waiting k m (llc_reset k c) = []"
  by (simp add: writes_waiting_def llc_reset_def llc_configured_def llc_regs_zero_def write_owed_def resp_live_def
      llc_write_port_zero_def queue_live_def ctx_live_def wk_def write_ctx_zero_def)

lemma llc_cycle_writes:
  assumes "writes_ok k (regs s)" and "m < NUM_WRITE_MASTERS"
  shows "writes_ok k (regs (llc_cycle k c i s)) \<and>
    llc_writes_given k c m i s @ write_owed k m (regs (llc_cycle k c i s)) = write_owed k m (regs s) @ llc_writes_taken k c m i s"
  using llc_comb_writes [of k "llc_drive i s" m c] assms
  by (simp add: llc_cycle_def llc_seq_def llc_drive_def llc_writes_given_def llc_writes_taken_def)

interpretation llc_writes: fifo_view "llc_reset k c" "llc_cycle k c"
  "\<lambda>_ _. llc_sized k \<and> m < NUM_WRITE_MASTERS"
  "\<lambda>s. llc_sized k \<longrightarrow> writes_ok k (regs s)" "writes_waiting k m" "llc_writes_taken k c m" "llc_writes_given k c m"
  for k c m
  by unfold_locales
    (use writes_ok_reset writes_waiting_reset llc_cycle_writes in \<open>auto simp: writes_waiting_def\<close>)

section \<open>What a write master is promised\<close>

text \<open>C37: In any run of the cache from reset, whatever the masters, the memory and the tables do, the
  write responses handed to a master, followed by the ids still owed to it (the response slot, the
  write context, the request queue, in this order), are exactly the ids of the writes accepted from
  it: every accepted write is answered once, with its own id, in the order of acceptance.\<close>

theorem llc_write_responses_in_order:
  assumes "kit_config_ok k" and "0 < MAX_OUTSTANDING k" and "0 < MAX_WRITE_OUTSTANDING k" and "m < NUM_WRITE_MASTERS"
  shows "collect (llc_writes_given k c m) (llc_cycle k c) is (llc_reset k c) @
      write_owed k m (regs (run_cycles (llc_cycle k c) is (llc_reset k c))) =
    collect (llc_writes_taken k c m) (llc_cycle k c) is (llc_reset k c)"
proof -
  have "llc_sized k" using assms by (intro kit_config_ok_sized)
  moreover have "allowed (\<lambda>_ _. llc_sized k \<and> m < NUM_WRITE_MASTERS) (llc_cycle k c) is (llc_reset k c)"
    using \<open>llc_sized k\<close> assms(4) by simp
  ultimately show ?thesis using llc_writes.released_in_order [of k m c "is"] assms(4) by (simp add: writes_waiting_def)
qed

theorem llc_write_responses_in_order_witness:
  "\<forall>is. length (collect (llc_writes_given default_kit_config tiny_llc 1) (llc_cycle default_kit_config tiny_llc) is
       (llc_reset default_kit_config tiny_llc)) \<le>
     length (collect (llc_writes_taken default_kit_config tiny_llc 1) (llc_cycle default_kit_config tiny_llc) is
       (llc_reset default_kit_config tiny_llc))"
proof
  fix "is"
  have pos: "0 < MAX_OUTSTANDING default_kit_config" "0 < MAX_WRITE_OUTSTANDING default_kit_config" "1 < NUM_WRITE_MASTERS"
    by (simp_all add: default_kit_config_def NUM_WRITE_MASTERS_def)
  show "length (collect (llc_writes_given default_kit_config tiny_llc 1) (llc_cycle default_kit_config tiny_llc) is
       (llc_reset default_kit_config tiny_llc)) \<le>
     length (collect (llc_writes_taken default_kit_config tiny_llc 1) (llc_cycle default_kit_config tiny_llc) is
       (llc_reset default_kit_config tiny_llc))"
    using arg_cong [OF llc_write_responses_in_order [OF default_kit_config_ok pos, of tiny_llc "is"], of length] by simp
qed

end
