(* ===== verification/IC_Types.thy ===== *)
theory IC_Types
  imports LLC_Comb Axi4_IO Phys_Mem Route_Shape
begin

text \<open>
  The data model of \<^verbatim>\<open>AXI_Interconnect\<close>: \<^verbatim>\<open>AXI_Interconnect.h\<close> and the master ports of
  \<^verbatim>\<open>AXI_Interconnect_IO.h\<close>.

  Where the class has one array per field indexed by a master, the model has one list of records,
  \<open>readers\<close> and \<open>writers\<close>; the members that exist once for the DDR and once for the MMIO port
  (\<^verbatim>\<open>axi_ddr_io\<close> and \<^verbatim>\<open>axi_mmio_io\<close>, the AR and AW latches, the active write) are the two
  \<open>ic_dport\<close> records, reached through \<open>dport\<close> and \<open>upd_dport\<close> as the class reaches them through
  \<^verbatim>\<open>downstream_io(port)\<close>, \<^verbatim>\<open>ar_latch(port)\<close> and so on. A \<^verbatim>\<open>std::vector\<close> or \<^verbatim>\<open>std::deque\<close> is a list.

  Members that are only ever assigned or printed are left out: \<^verbatim>\<open>r_current_master\<close>,
  \<^verbatim>\<open>w_current_master\<close>, \<^verbatim>\<open>w_current_master_mmio\<close>, \<^verbatim>\<open>ar_port_c\<close>, \<^verbatim>\<open>aw_port_c\<close>, \<^verbatim>\<open>ar_from_llc_c\<close>,
  \<^verbatim>\<open>ar_llc_*_c\<close>, \<^verbatim>\<open>ar_master_c\<close>, \<^verbatim>\<open>ar_orig_id_c\<close>, \<^verbatim>\<open>req_drop_warned\<close> and \<^verbatim>\<open>timeout_warned\<close>.
\<close>

section \<open>Master ports\<close>

definition MASTER_ICACHE :: nat where "MASTER_ICACHE = 0"
definition MAX_READ_TRANSACTION_BYTES :: nat where "MAX_READ_TRANSACTION_BYTES = 256"

record read_master_port =
  mr_valid :: bool
  mr_ready :: bool
  mr_accepted :: bool
  mr_accepted_id :: u8
  mr_addr :: u32
  mr_total_size :: u8
  mr_id :: u8
  mr_bypass :: bool
  mr_resp_valid :: bool
  mr_resp_ready :: bool
  mr_resp_data :: wide_data
  mr_resp_id :: u8

record write_master_port =
  mw_valid :: bool
  mw_ready :: bool
  mw_accepted :: bool
  mw_addr :: u32
  mw_wdata :: wide_data
  mw_wstrb :: wide_strb
  mw_total_size :: u8
  mw_id :: u8
  mw_bypass :: bool
  mw_resp_valid :: bool
  mw_resp_ready :: bool
  mw_resp_id :: u8
  mw_resp_resp :: u8

section \<open>Downstream requests\<close>

datatype downstream_port = PortDDR | PortMMIO

record ar_latch =
  al_valid :: bool
  al_accepted_upstream :: bool
  al_to_llc :: bool
  al_extract :: bool
  al_port :: downstream_port
  al_addr :: u32
  al_upstream_addr :: u32
  al_len :: u8
  al_size :: u8
  al_burst :: u8
  al_id :: u8
  al_master :: u8
  al_orig_id :: u8
  al_upstream_size :: u8

record aw_latch =
  wl_valid :: bool
  wl_port :: downstream_port
  wl_addr :: u32
  wl_len :: u8
  wl_size :: u8
  wl_burst :: u8
  wl_id :: u8

record ar_issue_meta =
  am_valid :: bool
  am_from_llc :: bool
  am_extract :: bool
  am_llc_mem_id :: u8
  am_upstream_addr :: u32
  am_upstream_size :: u8
  am_master :: int
  am_orig_id :: u8

definition ar_issue_meta_zero :: ar_issue_meta where
  "ar_issue_meta_zero = \<lparr>am_valid = False, am_from_llc = False, am_extract = False, am_llc_mem_id = 0,
     am_upstream_addr = 0, am_upstream_size = 0, am_master = - 1, am_orig_id = 0\<rparr>"

section \<open>Pending transactions\<close>

record read_pending_txn =
  rt_axi_id :: u8
  rt_master :: u8
  rt_orig_id :: u8
  rt_total_beats :: u8
  rt_beats_done :: u8
  rt_port :: downstream_port
  rt_addr :: u32
  rt_upstream_addr :: u32
  rt_upstream_size :: u8
  rt_extract :: bool
  rt_to_llc :: bool
  rt_data :: wide_data
  rt_stall_cycles :: u32
  rt_last_beats_done :: u8
  rt_completion_queued :: bool
  rt_completion_seq :: u32

record llc_upstream_req =
  ur_valid :: bool
  ur_addr :: u32
  ur_total_size :: u8
  ur_id :: u8
  ur_bypass :: bool
  ur_direct_mapped :: bool
  ur_mode2 :: bool

definition llc_upstream_req_zero :: llc_upstream_req where
  "llc_upstream_req_zero = \<lparr>ur_valid = False, ur_addr = 0, ur_total_size = 0, ur_id = 0, ur_bypass = False,
     ur_direct_mapped = False, ur_mode2 = False\<rparr>"

record read_req_hold =
  rh_valid :: bool
  rh_addr :: u32
  rh_total_size :: u8
  rh_id :: u8
  rh_bypass :: bool

definition read_req_hold_zero :: read_req_hold where
  "read_req_hold_zero = \<lparr>rh_valid = False, rh_addr = 0, rh_total_size = 0, rh_id = 0, rh_bypass = False\<rparr>"

record llc_upstream_write_req =
  uw_valid :: bool
  uw_addr :: u32
  uw_total_size :: u8
  uw_id :: u8
  uw_wdata :: wide_data
  uw_wstrb :: wide_strb
  uw_bypass :: bool
  uw_direct_mapped :: bool
  uw_mode2 :: bool

definition llc_upstream_write_req_zero :: "kit_config \<Rightarrow> llc_upstream_write_req" where
  "llc_upstream_write_req_zero k = \<lparr>uw_valid = False, uw_addr = 0, uw_total_size = 0, uw_id = 0,
     uw_wdata = write_data_clear k, uw_wstrb = strb_clear k, uw_bypass = False,
     uw_direct_mapped = False, uw_mode2 = False\<rparr>"

record llc_core_req_stage =
  cs_valid :: bool
  cs_is_write :: bool
  cs_master :: u8
  cs_read :: llc_upstream_req
  cs_write :: llc_upstream_write_req

definition llc_core_req_stage_zero :: "kit_config \<Rightarrow> llc_core_req_stage" where
  "llc_core_req_stage_zero k = \<lparr>cs_valid = False, cs_is_write = False, cs_master = 0,
     cs_read = llc_upstream_req_zero, cs_write = llc_upstream_write_req_zero k\<rparr>"

record write_pending_txn =
  wx_axi_id :: u8
  wx_master :: u8
  wx_orig_id :: u8
  wx_port :: downstream_port
  wx_addr :: u32
  wx_wdata :: wide_data
  wx_wstrb :: wide_strb
  wx_total_beats :: u8
  wx_beats_sent :: u8
  wx_aw_done :: bool
  wx_w_done :: bool
  wx_to_llc_mem :: bool
  wx_llc_victim :: bool

definition write_pending_txn_zero :: "kit_config \<Rightarrow> write_pending_txn" where
  "write_pending_txn_zero k = \<lparr>wx_axi_id = 0, wx_master = 0, wx_orig_id = 0, wx_port = PortDDR, wx_addr = 0,
     wx_wdata = write_data_clear k, wx_wstrb = strb_clear k, wx_total_beats = 0, wx_beats_sent = 0,
     wx_aw_done = False, wx_w_done = False, wx_to_llc_mem = False, wx_llc_victim = False\<rparr>"

record write_resp_entry =
  we_id :: u8
  we_resp :: u8
  we_line_valid :: bool
  we_line_addr :: u32

record delayed_write_resp =
  de_entry :: write_resp_entry
  de_age :: u8

section \<open>The state\<close>

record ic_reader =
  rm_port :: read_master_port
  rm_accepted :: bool
  rm_accepted_id :: u8
  rm_req_ready :: bool
  rm_hold :: read_req_hold
  rm_up :: llc_upstream_req
  rm_capture :: llc_upstream_req
  rm_accept :: bool
  rm_resp_valid :: bool
  rm_resp_data :: wide_data
  rm_resp_id :: u8

record ic_writer =
  wm_port :: write_master_port
  wm_accepted :: bool
  wm_req_ready :: bool
  wm_fire :: bool
  wm_up :: llc_upstream_write_req
  wm_capture :: llc_upstream_write_req
  wm_accept :: bool
  wm_up_q :: "llc_upstream_write_req list"
  wm_resp_valid :: bool
  wm_resp_id :: u8
  wm_resp_resp :: u8
  wm_resp_q :: "write_resp_entry list"
  wm_delay :: "delayed_write_resp list"

record ic_dport =
  dp_io :: axi_io
  dp_ar :: ar_latch
  dp_aw :: aw_latch
  dp_w_active :: bool
  dp_w_current :: write_pending_txn
  dp_issue :: ar_issue_meta

text \<open>The runtime mode and its transition.\<close>

record ic_control =
  ct_mode :: u8
  ct_offset :: u32
  ct_runtime_mode :: u8
  ct_mapped_offset :: u32
  ct_offset_override :: bool
  ct_reconfig_pending :: bool
  ct_target_mode :: u8
  ct_target_offset :: u32

text \<open>The boundary between the cache and the two ports.\<close>

record ic_mem_side =
  mb_write_resp_valid :: bool
  mb_write_resp :: u8
  mb_ignored_b :: u32
  mb_synth_valid :: bool
  mb_synth_id :: u8
  mb_synth_data :: wide_data
  mb_seen_valid :: bool
  mb_seen_id :: u8
  mb_seen_addr :: u32
  mb_seen_size :: u8

record ic_maintenance =
  mt_all :: bool
  mt_line_valid :: bool
  mt_line_addr :: u32

text \<open>\<open>exited\<close> is set where the consistency check calls \<^verbatim>\<open>std::exit(1)\<close>; \<open>backing\<close> is the memory behind the
  weak symbols \<^verbatim>\<open>pmem_read\<close> and \<^verbatim>\<open>pmem_write\<close>.\<close>

record ic =
  readers :: "ic_reader list"
  writers :: "ic_writer list"
  ddr_side :: ic_dport
  mmio_side :: ic_dport
  r_arb_rr_idx :: u8
  r_pending :: "read_pending_txn list"
  direct_completion_seq :: u32
  w_arb_rr_idx :: u8
  w_pending :: "write_pending_txn list"
  control :: ic_control
  cache_config :: llc_config
  cache :: llc_io
  maintenance :: ic_maintenance
  core_stage :: llc_core_req_stage
  dispatch_rr :: u8
  mem_side :: ic_mem_side
  backing :: pmem
  exited :: bool

definition dport :: "downstream_port \<Rightarrow> ic \<Rightarrow> ic_dport" where
  "dport p s = (case p of PortDDR \<Rightarrow> ddr_side s | PortMMIO \<Rightarrow> mmio_side s)"

definition upd_dport :: "downstream_port \<Rightarrow> (ic_dport \<Rightarrow> ic_dport) \<Rightarrow> ic \<Rightarrow> ic" where
  "upd_dport p f s = (case p of PortDDR \<Rightarrow> s\<lparr>ddr_side := f (ddr_side s)\<rparr>
     | PortMMIO \<Rightarrow> s\<lparr>mmio_side := f (mmio_side s)\<rparr>)"

abbreviation both_ports :: "downstream_port list" where
  "both_ports \<equiv> [PortDDR, PortMMIO]"

definition upd_reader :: "nat \<Rightarrow> (ic_reader \<Rightarrow> ic_reader) \<Rightarrow> ic \<Rightarrow> ic" where
  "upd_reader m f s = s\<lparr>readers := upd m f (readers s)\<rparr>"

definition upd_writer :: "nat \<Rightarrow> (ic_writer \<Rightarrow> ic_writer) \<Rightarrow> ic \<Rightarrow> ic" where
  "upd_writer m f s = s\<lparr>writers := upd m f (writers s)\<rparr>"

section \<open>Initial values\<close>

definition read_master_port_zero :: read_master_port where
  "read_master_port_zero = \<lparr>mr_valid = False, mr_ready = False, mr_accepted = False, mr_accepted_id = 0,
     mr_addr = 0, mr_total_size = 0, mr_id = 0, mr_bypass = False, mr_resp_valid = False,
     mr_resp_ready = False, mr_resp_data = read_data_clear, mr_resp_id = 0\<rparr>"

definition write_master_port_zero :: "kit_config \<Rightarrow> write_master_port" where
  "write_master_port_zero k = \<lparr>mw_valid = False, mw_ready = False, mw_accepted = False, mw_addr = 0,
     mw_wdata = write_data_clear k, mw_wstrb = strb_clear k, mw_total_size = 0, mw_id = 0,
     mw_bypass = False, mw_resp_valid = False, mw_resp_ready = False, mw_resp_id = 0, mw_resp_resp = 0\<rparr>"

definition ic_reader_zero :: ic_reader where
  "ic_reader_zero = \<lparr>rm_port = read_master_port_zero, rm_accepted = False, rm_accepted_id = 0,
     rm_req_ready = False, rm_hold = read_req_hold_zero, rm_up = llc_upstream_req_zero,
     rm_capture = llc_upstream_req_zero, rm_accept = False, rm_resp_valid = False,
     rm_resp_data = read_data_clear, rm_resp_id = 0\<rparr>"

definition ic_writer_zero :: "kit_config \<Rightarrow> ic_writer" where
  "ic_writer_zero k = \<lparr>wm_port = write_master_port_zero k, wm_accepted = False, wm_req_ready = False,
     wm_fire = False, wm_up = llc_upstream_write_req_zero k, wm_capture = llc_upstream_write_req_zero k,
     wm_accept = False, wm_up_q = [], wm_resp_valid = False, wm_resp_id = 0, wm_resp_resp = 0,
     wm_resp_q = [], wm_delay = []\<rparr>"

end
