(* ===== verification/IC_Data.thy ===== *)
theory IC_Data
  imports IC_Types
begin

text \<open>
  The file-local functions of \<^verbatim>\<open>AXI_Interconnect.cpp\<close>: the beats of a burst against the words of a
  payload, the alignment of small DDR requests to a beat, the shape of a downstream request, and
  the byte writes to the backing memory behind an MMIO range the ports do not support. A loop with
  the bound \<^verbatim>\<open>dst + byte_off < MAX\<close> on unsigned values ends at its first failure, so it runs
  \<open>MAX - byte_off\<close> times, and not at all when the offset is not below \<^verbatim>\<open>MAX\<close>.
\<close>

section \<open>Ports and sizes\<close>

definition kDownstreamBeatBytes :: nat where "kDownstreamBeatBytes = AXI_DATA_BYTES"
definition kDownstreamBeatWords :: nat where "kDownstreamBeatWords = kDownstreamBeatBytes div 4"
definition kDownstreamAxiSize :: u8 where "kDownstreamAxiSize = AXI_SIZE_CODE"
definition kMmioAxiSize :: u8 where "kMmioAxiSize = AXI_DUAL_PORT_AXI_SIZE_32B"

definition kAxiIdMask :: "kit_config \<Rightarrow> u8" where
  "kAxiIdMask k = ucast (AXI_DUAL_PORT_AXI_ID_MASK_FOR_WIDTH (of_nat (AXI_ID_WIDTH k)))"

definition port_axi_size :: "downstream_port \<Rightarrow> u8" where
  "port_axi_size p = (if p = PortMMIO then kMmioAxiSize else kDownstreamAxiSize)"

definition mmio_request_supported :: "u8 \<Rightarrow> bool" where
  "mmio_request_supported total_size = axi_dual_port_mmio_request_supported total_size"

definition downstream_request_supported :: "downstream_port \<Rightarrow> u8 \<Rightarrow> bool" where
  "downstream_request_supported p total_size \<longleftrightarrow> p \<noteq> PortMMIO \<or> mmio_request_supported total_size"

definition unsupported_mmio_request :: "downstream_port \<Rightarrow> u8 \<Rightarrow> bool" where
  "unsupported_mmio_request p total_size \<longleftrightarrow> p = PortMMIO \<and> \<not> mmio_request_supported total_size"

definition write_size_supported :: "kit_config \<Rightarrow> u8 \<Rightarrow> bool" where
  "write_size_supported k total_size \<longleftrightarrow> unat total_size + 1 \<le> MAX_WRITE_TRANSACTION_BYTES k"

definition calc_burst_len :: "u8 \<Rightarrow> u8" where
  "calc_burst_len total_size = axi_dual_port_axi_len_for_beat_bytes total_size (of_nat kDownstreamBeatBytes)"

section \<open>Bytes of a payload\<close>

definition get_wide_byte :: "nat \<Rightarrow> wide_data \<Rightarrow> u32 \<Rightarrow> u8" where
  "get_wide_byte words data byte_idx =
     (let word_idx = unat byte_idx div 4; byte_off = unat byte_idx mod 4
      in if word_idx \<ge> words then 0 else ucast (drop_bit (byte_off * 8) (data ! word_idx) AND 0xFF))"

definition set_wide_byte :: "nat \<Rightarrow> u32 \<Rightarrow> u8 \<Rightarrow> wide_data \<Rightarrow> wide_data" where
  "set_wide_byte words byte_idx value data =
     (let word_idx = unat byte_idx div 4; shift = (unat byte_idx mod 4) * 8;
          msk = (push_bit shift 0xFF :: u32)
      in if word_idx \<ge> words then data
         else data[word_idx := (data ! word_idx AND NOT msk) OR push_bit shift (ucast value)])"

definition get_wide_read_byte :: "wide_data \<Rightarrow> u32 \<Rightarrow> u8" where
  "get_wide_read_byte = get_wide_byte MAX_READ_TRANSACTION_WORDS"

definition set_wide_read_byte :: "u32 \<Rightarrow> u8 \<Rightarrow> wide_data \<Rightarrow> wide_data" where
  "set_wide_read_byte = set_wide_byte MAX_READ_TRANSACTION_WORDS"

definition get_wide_write_byte :: "kit_config \<Rightarrow> wide_data \<Rightarrow> u32 \<Rightarrow> u8" where
  "get_wide_write_byte k = get_wide_byte (MAX_WRITE_TRANSACTION_WORDS k)"

definition set_wide_write_byte :: "kit_config \<Rightarrow> u32 \<Rightarrow> u8 \<Rightarrow> wide_data \<Rightarrow> wide_data" where
  "set_wide_write_byte k = set_wide_byte (MAX_WRITE_TRANSACTION_WORDS k)"

section \<open>Beats\<close>

definition pack_downstream_write_beat :: "kit_config \<Rightarrow> wide_data \<Rightarrow> u8 \<Rightarrow> axi_data" where
  "pack_downstream_write_beat k payload beat_idx =
     (let base = unat beat_idx * kDownstreamBeatWords
      in fold (\<lambda>word value. if base + word \<ge> MAX_WRITE_TRANSACTION_WORDS k then value
                            else set_u32 value word (payload ! (base + word)))
           [0..<kDownstreamBeatWords] 0)"

definition pack_downstream_write_strobe :: "kit_config \<Rightarrow> wide_strb \<Rightarrow> u8 \<Rightarrow> axi_strb" where
  "pack_downstream_write_strobe k strobe beat_idx =
     (let first_byte = unat beat_idx * kDownstreamBeatBytes
      in fold (\<lambda>byte msk. if strb_test k strobe (of_nat (first_byte + byte)) then Compat.set_bit msk byte True else msk)
           [0..<kDownstreamBeatBytes] 0)"

definition unpack_downstream_read_beat :: "read_pending_txn \<Rightarrow> axi_data \<Rightarrow> read_pending_txn" where
  "unpack_downstream_read_beat txn beat =
     (let base = unat (rt_beats_done txn) * kDownstreamBeatWords
      in txn\<lparr>rt_data := fold (\<lambda>word data. if base + word \<ge> MAX_READ_TRANSACTION_WORDS then data
                                          else data[base + word := get_u32 beat word])
                          [0..<kDownstreamBeatWords] (rt_data txn)\<rparr>)"

section \<open>Alignment\<close>

definition align_downstream_addr :: "u32 \<Rightarrow> u32 \<Rightarrow> u32" where
  "align_downstream_addr addr align_bytes = (if align_bytes = 0 then addr else (addr div align_bytes) * align_bytes)"

definition shift_count :: "nat \<Rightarrow> u32 \<Rightarrow> nat" where
  "shift_count limit byte_off = limit - unat byte_off"

definition extract_aligned_downstream_read :: "read_pending_txn \<Rightarrow> wide_data" where
  "extract_aligned_downstream_read txn =
     (let byte_off = rt_upstream_addr txn - rt_addr txn
      in fold (\<lambda>dst. set_wide_read_byte (of_nat dst) (get_wide_read_byte (rt_data txn) (byte_off + of_nat dst)))
           [0..<shift_count MAX_READ_TRANSACTION_BYTES byte_off] read_data_clear)"

definition align_mode2_downstream_write_data :: "kit_config \<Rightarrow> wide_data \<Rightarrow> u32 \<Rightarrow> u32 \<Rightarrow> wide_data" where
  "align_mode2_downstream_write_data k src addr issued_addr =
     (let byte_off = addr - issued_addr
      in fold (\<lambda>byte. set_wide_write_byte k (of_nat byte + byte_off) (get_wide_write_byte k src (of_nat byte)))
           [0..<shift_count (MAX_WRITE_TRANSACTION_BYTES k) byte_off] (write_data_clear k))"

definition align_mode2_downstream_write_strobe :: "kit_config \<Rightarrow> wide_strb \<Rightarrow> u32 \<Rightarrow> u32 \<Rightarrow> wide_strb" where
  "align_mode2_downstream_write_strobe k src addr issued_addr =
     (let byte_off = addr - issued_addr
      in fold (\<lambda>byte out. if strb_test k src (of_nat byte) then strb_set k (of_nat byte + byte_off) True out else out)
           [0..<shift_count (MAX_WRITE_TRANSACTION_BYTES k) byte_off] (strb_clear k))"

section \<open>The shape of a downstream request\<close>

record downstream_read_issue =
  ri_port :: downstream_port
  ri_addr :: u32
  ri_total_size :: u8
  ri_extract :: bool

record downstream_write_issue =
  wi_port :: downstream_port
  wi_addr :: u32
  wi_total_size :: u8
  wi_wdata :: wide_data
  wi_wstrb :: wide_strb

definition make_downstream_read_issue ::
  "downstream_port \<Rightarrow> u32 \<Rightarrow> u8 \<Rightarrow> u32 \<Rightarrow> bool \<Rightarrow> downstream_read_issue" where
  "make_downstream_read_issue p addr total_size line_bytes force_line_aligned =
     (let shape = axi_bridge_downstream_read_issue_shape (p = PortMMIO) addr total_size (ucast line_bytes)
                    (of_nat kDownstreamBeatBytes) force_line_aligned
      in \<lparr>ri_port = p, ri_addr = ds_issue_addr shape, ri_total_size = ds_issue_size shape,
           ri_extract = ds_extract_from_aligned_beat shape\<rparr>)"

definition make_downstream_write_issue ::
  "kit_config \<Rightarrow> downstream_port \<Rightarrow> u32 \<Rightarrow> u8 \<Rightarrow> wide_data \<Rightarrow> wide_strb \<Rightarrow> u32 \<Rightarrow> bool \<Rightarrow> downstream_write_issue" where
  "make_downstream_write_issue k p addr total_size payload strobe line_bytes force_line_aligned =
     (let shape = axi_bridge_downstream_write_issue_shape (p = PortMMIO) addr total_size (ucast line_bytes)
                    (of_nat kDownstreamBeatBytes) force_line_aligned;
          iaddr = ds_issue_addr shape;
          bytes = unat total_size + 1;
          shift = (p \<noteq> PortMMIO \<and> (force_line_aligned \<or> bytes \<le> kDownstreamBeatBytes))
      in \<lparr>wi_port = p, wi_addr = iaddr, wi_total_size = ds_issue_size shape,
           wi_wdata = (if shift then align_mode2_downstream_write_data k payload addr iaddr else payload),
           wi_wstrb = (if shift then align_mode2_downstream_write_strobe k strobe addr iaddr else strobe)\<rparr>)"

section \<open>The backing memory\<close>

definition load_legacy_mmio_backing_line :: "pmem \<Rightarrow> u32 \<Rightarrow> wide_data" where
  "load_legacy_mmio_backing_line mem addr =
     map (\<lambda>word. pmem_read mem (addr + of_nat (word * 4))) [0..<MAX_READ_TRANSACTION_WORDS]"

definition store_backing_byte :: "u32 \<Rightarrow> wide_data \<Rightarrow> nat \<Rightarrow> pmem \<Rightarrow> pmem" where
  "store_backing_byte addr payload byte mem =
     (let payload_shift = (byte mod 4) * 8;
          shift = unat ((addr + of_nat byte) mod 4) * 8;
          word_addr = (addr + of_nat byte) AND NOT 3;
          msk = push_bit shift 0xFF;
          new_byte = drop_bit payload_shift (payload ! (byte div 4)) AND 0xFF;
          old_word = pmem_read mem word_addr
      in pmem_write mem word_addr ((old_word AND NOT msk) OR push_bit shift new_byte))"

definition store_legacy_mmio_backing_line ::
  "kit_config \<Rightarrow> u32 \<Rightarrow> wide_data \<Rightarrow> wide_strb \<Rightarrow> u8 \<Rightarrow> pmem \<Rightarrow> pmem" where
  "store_legacy_mmio_backing_line k addr payload strobe total_size mem =
     fold (\<lambda>byte mem. if strb_test k strobe (of_nat byte) then store_backing_byte addr payload byte mem else mem)
       [0..<min (unat total_size + 1) (MAX_WRITE_TRANSACTION_BYTES k)] mem"

section \<open>Clearing the wires\<close>

definition clear_downstream_master_outputs :: "axi_io \<Rightarrow> axi_io" where
  "clear_downstream_master_outputs io = io\<lparr>
     io_ar := (io_ar io)\<lparr>arvalid := False, arid := 0, araddr := 0, arlen := 0, arsize := kDownstreamAxiSize,
       arburst := AXI_BURST_INCR\<rparr>,
     io_r := (io_r io)\<lparr>rready := True\<rparr>,
     io_aw := (io_aw io)\<lparr>awvalid := False, awid := 0, awaddr := 0, awlen := 0, awsize := kDownstreamAxiSize,
       awburst := AXI_BURST_INCR\<rparr>,
     io_w := (io_w io)\<lparr>wvalid := False, wdata := 0, wstrb := 0, wlast := False\<rparr>,
     io_b := (io_b io)\<lparr>bready := True\<rparr>\<rparr>"

definition clear_downstream_slave_inputs :: "axi_io \<Rightarrow> axi_io" where
  "clear_downstream_slave_inputs io = io\<lparr>
     io_ar := (io_ar io)\<lparr>arready := False\<rparr>, io_aw := (io_aw io)\<lparr>awready := False\<rparr>,
     io_w := (io_w io)\<lparr>wready := False\<rparr>,
     io_r := (io_r io)\<lparr>rvalid := False, rid := 0, rdata := 0, rresp := AXI_RESP_OKAY, rlast := False\<rparr>,
     io_b := (io_b io)\<lparr>bvalid := False, bid := 0, bresp := AXI_RESP_OKAY\<rparr>\<rparr>"

end
