(* ===== verification/IC_Queries.thy ===== *)
theory IC_Queries
  imports IC_Data
begin

text \<open>
  The \<^verbatim>\<open>const\<close> member functions of \<^verbatim>\<open>AXI_Interconnect\<close>: the runtime mode and the mapped window, the
  classification of an address, the allocation of AXI ids, the conditions under which the paths
  are quiet, and the hazards that keep a read and a write of one line apart. An index result with
  \<^verbatim>\<open>-1\<close> for none, or an aid with \<^verbatim>\<open>0xFF\<close> for none, is an option.
\<close>

section \<open>Modes\<close>

definition kDefaultMappedLlcOffset :: u32 where "kDefaultMappedLlcOffset = 0x30000000"
definition kMappedLlcWindowBytes :: u32 where "kMappedLlcWindowBytes = push_bit 20 4"

definition llc_enabled :: "ic \<Rightarrow> bool" where
  "llc_enabled s \<longleftrightarrow> ct_runtime_mode (control s) \<noteq> 0 \<and> lc_enable (cache_config s) \<and> lc_valid (cache_config s)"

definition requested_mode :: "ic_control \<Rightarrow> u8" where
  "requested_mode c = (let encoded = ct_mode c AND 3 in if encoded = 3 then 0 else encoded)"

definition requested_llc_mapped_offset :: "ic_control \<Rightarrow> u32" where
  "requested_llc_mapped_offset c =
     (if \<not> ct_offset_override c \<and> ct_offset c = 0 then kDefaultMappedLlcOffset else ct_offset c)"

definition requested_config_differs_from_active :: "ic_control \<Rightarrow> bool" where
  "requested_config_differs_from_active c \<longleftrightarrow>
     requested_mode c \<noteq> ct_runtime_mode c \<or>
     (requested_mode c = 2 \<and> requested_llc_mapped_offset c \<noteq> ct_mapped_offset c)"

definition mode_transition_needs_flush :: "ic \<Rightarrow> bool" where
  "mode_transition_needs_flush s \<longleftrightarrow>
     ct_reconfig_pending (control s) \<or> requested_config_differs_from_active (control s)"

definition request_in_mapped_window :: "ic_control \<Rightarrow> u32 \<Rightarrow> u8 \<Rightarrow> bool" where
  "request_in_mapped_window c addr total_size \<longleftrightarrow>
     ct_runtime_mode c = 2 \<and>
     (let start = (ucast addr :: u64); fin = start + ucast total_size + 1;
          base = ucast (ct_mapped_offset c); limit = base + ucast kMappedLlcWindowBytes
      in start \<ge> base \<and> fin \<le> limit)"

definition request_uses_direct_mapped_llc :: "ic_control \<Rightarrow> u32 \<Rightarrow> u8 \<Rightarrow> bool" where
  "request_uses_direct_mapped_llc c addr total_size \<longleftrightarrow>
     ct_runtime_mode c = 2 \<and> request_in_mapped_window c addr total_size"

definition classify_downstream_port :: "kit_config \<Rightarrow> u32 \<Rightarrow> u8 \<Rightarrow> downstream_port" where
  "classify_downstream_port k addr total_size =
     (if rp_ddr_port (axi_dual_port_route_support addr total_size (DDR_BASE k)) then PortDDR else PortMMIO)"

definition request_uses_ddr_port :: "kit_config \<Rightarrow> ic_control \<Rightarrow> u32 \<Rightarrow> u8 \<Rightarrow> bool" where
  "request_uses_ddr_port k c addr total_size \<longleftrightarrow>
     \<not> request_uses_direct_mapped_llc c addr total_size \<and> classify_downstream_port k addr total_size = PortDDR"

definition request_uses_mmio_port :: "kit_config \<Rightarrow> ic_control \<Rightarrow> u32 \<Rightarrow> u8 \<Rightarrow> bool" where
  "request_uses_mmio_port k c addr total_size \<longleftrightarrow>
     \<not> request_uses_direct_mapped_llc c addr total_size \<and> classify_downstream_port k addr total_size = PortMMIO"

definition translate_llc_addr :: "ic_control \<Rightarrow> u32 \<Rightarrow> u8 \<Rightarrow> u32" where
  "translate_llc_addr c addr total_size =
     (if \<not> request_uses_direct_mapped_llc c addr total_size then addr
      else ucast ((ucast addr :: u64) - ucast (ct_mapped_offset c)))"

definition effective_llc_bypass :: "kit_config \<Rightarrow> ic_control \<Rightarrow> u32 \<Rightarrow> u8 \<Rightarrow> bool \<Rightarrow> bool" where
  "effective_llc_bypass k c addr total_size upstream_bypass =
     (if request_uses_mmio_port k c addr total_size then True
      else if ct_runtime_mode c = 2 then \<not> request_in_mapped_window c addr total_size
      else if ct_runtime_mode c = 0 then True
      else if ct_runtime_mode c = 1 then upstream_bypass
      else True)"

section \<open>Latches and buffers\<close>

abbreviation latch_ar :: "downstream_port \<Rightarrow> ic \<Rightarrow> ar_latch" where
  "latch_ar p s \<equiv> dp_ar (dport p s)"
abbreviation latch_aw :: "downstream_port \<Rightarrow> ic \<Rightarrow> aw_latch" where
  "latch_aw p s \<equiv> dp_aw (dport p s)"
abbreviation w_active :: "downstream_port \<Rightarrow> ic \<Rightarrow> bool" where
  "w_active p s \<equiv> dp_w_active (dport p s)"
abbreviation w_current :: "downstream_port \<Rightarrow> ic \<Rightarrow> write_pending_txn" where
  "w_current p s \<equiv> dp_w_current (dport p s)"

definition any_ar_latched :: "ic \<Rightarrow> bool" where
  "any_ar_latched s \<longleftrightarrow> al_valid (latch_ar PortDDR s) \<or> al_valid (latch_ar PortMMIO s)"

definition any_aw_latched :: "ic \<Rightarrow> bool" where
  "any_aw_latched s \<longleftrightarrow> wl_valid (latch_aw PortDDR s) \<or> wl_valid (latch_aw PortMMIO s)"

definition any_w_active :: "ic \<Rightarrow> bool" where
  "any_w_active s \<longleftrightarrow> w_active PortDDR s \<or> w_active PortMMIO s"

definition external_write_busy :: "ic \<Rightarrow> bool" where
  "external_write_busy s \<longleftrightarrow> any_w_active s \<or> any_aw_latched s"

definition write_resp_buffer_count :: "ic_writer \<Rightarrow> u8" where
  "write_resp_buffer_count w = of_nat ((if wm_resp_valid w then 1 else 0) + length (wm_resp_q w))"

definition write_resp_buffer_has_space :: "kit_config \<Rightarrow> ic \<Rightarrow> nat \<Rightarrow> bool" where
  "write_resp_buffer_has_space k s m \<longleftrightarrow>
     m < NUM_WRITE_MASTERS \<and> unat (write_resp_buffer_count (writers s ! m)) < MAX_WRITE_OUTSTANDING k"

definition any_write_resp_buffered :: "ic \<Rightarrow> bool" where
  "any_write_resp_buffered s \<longleftrightarrow>
     list_ex (\<lambda>m. wm_resp_valid (writers s ! m) \<or> wm_resp_q (writers s ! m) \<noteq> []) [0..<NUM_WRITE_MASTERS]"

definition enqueue_write_resp :: "kit_config \<Rightarrow> nat \<Rightarrow> u8 \<Rightarrow> u8 \<Rightarrow> bool \<Rightarrow> u32 \<Rightarrow> ic \<Rightarrow> ic" where
  "enqueue_write_resp k m aid resp line_valid line s =
     (if m \<ge> NUM_WRITE_MASTERS then s
      else if \<not> wm_resp_valid (writers s ! m)
      then upd_writer m (\<lambda>w. w\<lparr>wm_resp_valid := True, wm_resp_id := aid, wm_resp_resp := resp\<rparr>) s
      else if write_resp_buffer_has_space k s m
      then upd_writer m (\<lambda>w. w\<lparr>wm_resp_q := wm_resp_q w @
             [\<lparr>we_id = aid, we_resp = resp, we_line_valid = line_valid, we_line_addr = line\<rparr>]\<rparr>) s
      else s)"

definition promote_write_resp :: "ic_writer \<Rightarrow> ic_writer" where
  "promote_write_resp w =
     (if \<not> wm_resp_valid w
      then case wm_resp_q w of
             [] \<Rightarrow> w
           | e # es \<Rightarrow> w\<lparr>wm_resp_q := es, wm_resp_valid := True, wm_resp_id := we_id e, wm_resp_resp := we_resp e\<rparr>
      else w)"

definition promote_write_resp_queue :: "ic \<Rightarrow> ic" where
  "promote_write_resp_queue s = fold (\<lambda>m. upd_writer m promote_write_resp) [0..<NUM_WRITE_MASTERS] s"

section \<open>AXI ids\<close>

definition axi_id_bits :: "kit_config \<Rightarrow> u8 \<Rightarrow> u8" where
  "axi_id_bits k aid = aid AND (push_bit (AXI_ID_WIDTH k) 1 - 1)"

text \<open>The first aid whose mark is not set.\<close>

definition first_free_id :: "kit_config \<Rightarrow> u8 list \<Rightarrow> u8 option" where
  "first_free_id k used = map_option of_nat (first_below (2 ^ AXI_ID_WIDTH k) (\<lambda>i. of_nat i \<notin> set used))"

definition latched_ar_ids :: "kit_config \<Rightarrow> downstream_port \<Rightarrow> ic \<Rightarrow> u8 list" where
  "latched_ar_ids k p s = (if al_valid (latch_ar p s) then [axi_id_bits k (al_id (latch_ar p s))] else [])"

definition alloc_read_axi_id :: "kit_config \<Rightarrow> ic \<Rightarrow> u8 option" where
  "alloc_read_axi_id k s =
     first_free_id k (map (axi_id_bits k \<circ> rt_axi_id) (r_pending s) @ latched_ar_ids k PortDDR s @
       latched_ar_ids k PortMMIO s)"

definition count_master_read_pending :: "ic \<Rightarrow> nat \<Rightarrow> u8" where
  "count_master_read_pending s m =
     of_nat (length (filter (\<lambda>t. unat (rt_master t) = m) (r_pending s))) +
     (if al_valid (latch_ar PortDDR s) \<and> unat (al_master (latch_ar PortDDR s)) = m then 1 else 0) +
     (if al_valid (latch_ar PortMMIO s) \<and> unat (al_master (latch_ar PortMMIO s)) = m then 1 else 0)"

definition count_total_read_inflight :: "ic \<Rightarrow> u8" where
  "count_total_read_inflight s =
     of_nat (length (r_pending s)) + (if al_valid (latch_ar PortDDR s) then 1 else 0) +
     (if al_valid (latch_ar PortMMIO s) then 1 else 0)"

definition write_ids_of_port :: "kit_config \<Rightarrow> downstream_port \<Rightarrow> ic \<Rightarrow> u8 list" where
  "write_ids_of_port k p s =
     (if w_active p s then [axi_id_bits k (wx_axi_id (w_current p s))] else []) @
     (if wl_valid (latch_aw p s) then [axi_id_bits k (wl_id (latch_aw p s))] else [])"

definition alloc_any_write_axi_id :: "kit_config \<Rightarrow> ic \<Rightarrow> u8 option" where
  "alloc_any_write_axi_id k s =
     first_free_id k (map (axi_id_bits k \<circ> wx_axi_id) (w_pending s) @ write_ids_of_port k PortDDR s @
       write_ids_of_port k PortMMIO s)"

definition alloc_write_axi_id :: "kit_config \<Rightarrow> downstream_port \<Rightarrow> ic \<Rightarrow> u8 option" where
  "alloc_write_axi_id k p s =
     first_free_id k (map (axi_id_bits k \<circ> wx_axi_id) (filter (\<lambda>t. wx_port t = p) (w_pending s)) @
       write_ids_of_port k p s)"

definition can_accept_write_now :: "kit_config \<Rightarrow> ic \<Rightarrow> bool" where
  "can_accept_write_now k s \<longleftrightarrow> \<not> llc_enabled s \<and> length (w_pending s) < MAX_WRITE_OUTSTANDING k \<and>
     alloc_any_write_axi_id k s \<noteq> None"

definition count_llc_write_pending :: "ic \<Rightarrow> u32" where
  "count_llc_write_pending s =
     (if cs_valid (core_stage s) \<and> cs_is_write (core_stage s) then 1 else 0) +
     sum_list (map (\<lambda>m. (if uw_valid (wm_up (writers s ! m)) then 1 else 0) + of_nat (length (wm_up_q (writers s ! m))))
       [0..<NUM_WRITE_MASTERS])"

section \<open>Quiescence\<close>

definition no_reader_waits :: "ic \<Rightarrow> bool" where
  "no_reader_waits s \<longleftrightarrow>
     list_all (\<lambda>m. \<not> rm_req_ready (readers s ! m) \<and> \<not> rh_valid (rm_hold (readers s ! m))) [0..<NUM_READ_MASTERS]"

definition non_llc_path_quiescent :: "ic \<Rightarrow> bool" where
  "non_llc_path_quiescent s \<longleftrightarrow>
     \<not> any_ar_latched s \<and> r_pending s = [] \<and> \<not> any_aw_latched s \<and> \<not> any_w_active s \<and> w_pending s = [] \<and>
     no_reader_waits s \<and>
     list_all (\<lambda>m. \<not> wm_req_ready (writers s ! m) \<and> \<not> mw_ready (wm_port (writers s ! m))) [0..<NUM_WRITE_MASTERS]"

text \<open>The cache itself holds no request.\<close>

definition llc_registers_quiet :: "kit_config \<Rightarrow> ic \<Rightarrow> bool" where
  "llc_registers_quiet k s \<longleftrightarrow>
     (let r = regs (cache s); m = out_mem (ext_out (cache s)) in
      list_all (\<lambda>i. \<not> ur_valid (rm_up (readers s ! i)) \<and> \<not> rp_valid (LLC_Types.read_ports r ! i) \<and>
         rp_count (LLC_Types.read_ports r ! i) = 0) [0..<NUM_READ_MASTERS] \<and>
      list_all (\<lambda>i. \<not> uw_valid (wm_up (writers s ! i)) \<and> wm_up_q (writers s ! i) = [] \<and>
         \<not> wc_valid (write_ctxs r ! i) \<and> wo_count (LLC_Types.write_ports r ! i) = 0 \<and>
         \<not> wo_resp_valid (LLC_Types.write_ports r ! i)) [0..<NUM_WRITE_MASTERS] \<and>
      \<not> lk_valid (lookup r) \<and> \<not> vb_valid (victim_wb r) \<and> victim_q_count r = 0 \<and>
      \<not> mo_read_req_valid m \<and> \<not> mo_write_req_valid m \<and>
      list_all (\<lambda>i. \<not> ms_valid (mshr r ! i)) [0..<mshr_limit k (cache_config s)])"

definition llc_path_quiescent :: "kit_config \<Rightarrow> ic \<Rightarrow> bool" where
  "llc_path_quiescent k s \<longleftrightarrow>
     \<not> llc_enabled s \<or>
     (\<not> any_ar_latched s \<and> r_pending s = [] \<and> \<not> any_w_active s \<and> \<not> any_aw_latched s \<and>
      \<not> mb_write_resp_valid (mem_side s) \<and> mb_ignored_b (mem_side s) = 0 \<and> w_pending s = [] \<and>
      no_reader_waits s \<and>
      list_all (\<lambda>m. \<not> rm_resp_valid (readers s ! m)) [0..<NUM_READ_MASTERS] \<and>
      list_all (\<lambda>m. \<not> wm_req_ready (writers s ! m) \<and> \<not> mw_ready (wm_port (writers s ! m)) \<and>
         \<not> wm_resp_valid (writers s ! m) \<and> wm_resp_q (writers s ! m) = []) [0..<NUM_WRITE_MASTERS] \<and>
      \<not> cs_valid (core_stage s) \<and> llc_registers_quiet k s)"

definition reconfig_path_quiescent :: "kit_config \<Rightarrow> ic \<Rightarrow> bool" where
  "reconfig_path_quiescent k s = (if llc_enabled s then llc_path_quiescent k s else non_llc_path_quiescent s)"

definition mode_transition_invalidate_requested :: "kit_config \<Rightarrow> ic \<Rightarrow> bool" where
  "mode_transition_invalidate_requested k s \<longleftrightarrow>
     ct_reconfig_pending (control s) \<and> requested_config_differs_from_active (control s) \<and> reconfig_path_quiescent k s"

definition invalidate_all_requested :: "kit_config \<Rightarrow> ic \<Rightarrow> bool" where
  "invalidate_all_requested k s \<longleftrightarrow> mt_all (maintenance s) \<or> mode_transition_invalidate_requested k s"

section \<open>Hazards of the cached path\<close>

abbreviation cline :: "ic \<Rightarrow> u32 \<Rightarrow> u32" where
  "cline s a \<equiv> line_addr (cache_config s) a"

text \<open>The occupied entries of the request queue of write master \<open>m\<close> inside the cache.\<close>

definition cache_write_queue :: "kit_config \<Rightarrow> llc_regs \<Rightarrow> nat \<Rightarrow> write_pending_req list" where
  "cache_write_queue k r m =
     (let p = LLC_Types.write_ports r ! m
      in map (\<lambda>i. wo_queue p ! ((unat (wo_head p) + i) mod MAX_WRITE_OUTSTANDING k))
           [0..<min (unat (wo_count p)) (MAX_WRITE_OUTSTANDING k)])"

definition has_same_line_write_hazard :: "kit_config \<Rightarrow> ic \<Rightarrow> u32 \<Rightarrow> bool" where
  "has_same_line_write_hazard k s line \<longleftrightarrow>
     llc_enabled s \<and>
     (let r = regs (cache s) in
      list_ex (\<lambda>m. let w = writers s ! m in
        (uw_valid (wm_up w) \<and> cline s (uw_addr (wm_up w)) = line) \<or>
        list_ex (\<lambda>e. uw_valid e \<and> cline s (uw_addr e) = line) (wm_up_q w) \<or>
        list_ex (\<lambda>e. we_line_valid (de_entry e) \<and> we_line_addr (de_entry e) = line) (wm_delay w) \<or>
        list_ex (\<lambda>e. we_line_valid e \<and> we_line_addr e = line) (wm_resp_q w) \<or>
        (mw_valid (wm_port w) \<and> cline s (mw_addr (wm_port w)) = line)) [0..<NUM_WRITE_MASTERS] \<or>
      (cs_valid (core_stage s) \<and> cs_is_write (core_stage s) \<and> cline s (uw_addr (cs_write (core_stage s))) = line) \<or>
      list_ex (\<lambda>m. (wc_valid (write_ctxs r ! m) \<and> wc_line_addr (write_ctxs r ! m) = line) \<or>
        (wo_resp_valid (LLC_Types.write_ports r ! m) \<and> wo_resp_line_addr (LLC_Types.write_ports r ! m) = line))
        [0..<NUM_WRITE_MASTERS] \<or>
      list_ex (\<lambda>m. list_ex (\<lambda>e. wp_valid e \<and> cline s (wp_addr e) = line) (cache_write_queue k r m))
        [0..<NUM_WRITE_MASTERS] \<or>
      list_ex (\<lambda>p. w_active p s \<and> cline s (wx_addr (w_current p s)) = line) both_ports \<or>
      list_ex (\<lambda>p. wl_valid (latch_aw p s) \<and> cline s (wl_addr (latch_aw p s)) = line) both_ports)"

definition request_hits_line :: "ic \<Rightarrow> u32 \<Rightarrow> u8 \<Rightarrow> u32 \<Rightarrow> bool" where
  "request_hits_line s addr total_size line \<longleftrightarrow> cline s (translate_llc_addr (control s) addr total_size) = line"

definition has_same_line_read_hazard :: "kit_config \<Rightarrow> ic \<Rightarrow> u32 \<Rightarrow> bool" where
  "has_same_line_read_hazard k s line \<longleftrightarrow>
     llc_enabled s \<and>
     (let r = regs (cache s); mem = out_mem (ext_out (cache s)) in
      list_ex (\<lambda>m. let q = readers s ! m; p = rm_port q; h = rm_hold q in
        (ur_valid (rm_up q) \<and> request_hits_line s (ur_addr (rm_up q)) (ur_total_size (rm_up q)) line) \<or>
        (rh_valid h \<and> \<not> request_uses_mmio_port k (control s) (rh_addr h) (rh_total_size h) \<and>
           request_hits_line s (rh_addr h) (rh_total_size h) line) \<or>
        (mr_valid p \<and> \<not> request_uses_mmio_port k (control s) (mr_addr p) (mr_total_size p) \<and>
           request_hits_line s (mr_addr p) (mr_total_size p) line)) [0..<NUM_READ_MASTERS] \<or>
      (cs_valid (core_stage s) \<and> \<not> cs_is_write (core_stage s) \<and>
         request_hits_line s (ur_addr (cs_read (core_stage s))) (ur_total_size (cs_read (core_stage s))) line) \<or>
      (lk_valid (lookup r) \<and> \<not> lk_is_write (lookup r) \<and> cline s (lk_addr (lookup r)) = line) \<or>
      (mo_read_req_valid mem \<and> cline s (mo_read_req_addr mem) = line) \<or>
      list_ex (\<lambda>i. let e = mshr r ! i in ms_valid e \<and> \<not> ms_is_write e \<and> ms_line_addr e = line)
        [0..<mshr_limit k (cache_config s)] \<or>
      list_ex (\<lambda>p. al_valid (latch_ar p s) \<and> al_to_llc (latch_ar p s) \<and>
        cline s (al_upstream_addr (latch_ar p s)) = line) both_ports \<or>
      list_ex (\<lambda>t. rt_to_llc t \<and> rt_beats_done t < rt_total_beats t \<and> cline s (rt_upstream_addr t) = line) (r_pending s))"

section \<open>Hazards of the ports\<close>

definition external_hazard_line_addr :: "kit_config \<Rightarrow> u32 \<Rightarrow> u32" where
  "external_hazard_line_addr k addr = addr AND NOT (of_nat (MAX_WRITE_TRANSACTION_BYTES k) - 1)"

definition has_external_pending_read_hazard :: "kit_config \<Rightarrow> ic \<Rightarrow> u32 \<Rightarrow> bool" where
  "has_external_pending_read_hazard k s addr \<longleftrightarrow>
     (let line = external_hazard_line_addr k addr in
      list_ex (\<lambda>p. arvalid (io_ar (dp_io (dport p s))) \<and> am_valid (dp_issue (dport p s)) \<and>
        external_hazard_line_addr k (am_upstream_addr (dp_issue (dport p s))) = line) both_ports \<or>
      list_ex (\<lambda>p. al_valid (latch_ar p s) \<and>
        external_hazard_line_addr k (al_upstream_addr (latch_ar p s)) = line) both_ports \<or>
      list_ex (\<lambda>t. rt_beats_done t < rt_total_beats t \<and>
        external_hazard_line_addr k (rt_upstream_addr t) = line) (r_pending s))"

definition has_external_pending_write_hazard :: "kit_config \<Rightarrow> ic \<Rightarrow> u32 \<Rightarrow> bool" where
  "has_external_pending_write_hazard k s addr \<longleftrightarrow>
     (let line = external_hazard_line_addr k addr in
      list_ex (\<lambda>p. wl_valid (latch_aw p s) \<and> external_hazard_line_addr k (wl_addr (latch_aw p s)) = line) both_ports \<or>
      list_ex (\<lambda>p. w_active p s \<and> external_hazard_line_addr k (wx_addr (w_current p s)) = line) both_ports \<or>
      list_ex (\<lambda>t. external_hazard_line_addr k (wx_addr t) = line) (w_pending s))"

definition can_issue_external_read :: "kit_config \<Rightarrow> ic \<Rightarrow> u32 \<Rightarrow> bool" where
  "can_issue_external_read k s addr \<longleftrightarrow>
     axi_arvalid (axi_dual_port_issue_gate True True (external_hazard_line_addr k addr) False
       (has_external_pending_write_hazard k s addr) False True 0 False False)"

definition can_issue_external_write :: "kit_config \<Rightarrow> ic \<Rightarrow> u32 \<Rightarrow> bool" where
  "can_issue_external_write k s addr \<longleftrightarrow>
     axi_awvalid (axi_dual_port_issue_gate False True 0 False False True True (external_hazard_line_addr k addr) False
       (has_external_pending_read_hazard k s addr))"

section \<open>Searches and acceptance\<close>

definition has_direct_read_response :: "ic \<Rightarrow> nat \<Rightarrow> bool" where
  "has_direct_read_response s m \<longleftrightarrow>
     list_ex (\<lambda>t. \<not> rt_to_llc t \<and> unat (rt_master t) = m \<and> rt_beats_done t = rt_total_beats t) (r_pending s)"

definition find_write_pending_by_axi_id :: "downstream_port \<Rightarrow> u8 \<Rightarrow> write_pending_txn list \<Rightarrow> nat option" where
  "find_write_pending_by_axi_id p aid q =
     first_below (length q) (\<lambda>i. wx_port (q ! i) = p \<and> wx_axi_id (q ! i) = aid)"

definition find_next_aw_pending :: "downstream_port \<Rightarrow> write_pending_txn list \<Rightarrow> nat option" where
  "find_next_aw_pending p q = first_below (length q) (\<lambda>i. \<not> wx_aw_done (q ! i) \<and> wx_port (q ! i) = p)"

definition find_next_w_pending :: "downstream_port \<Rightarrow> write_pending_txn list \<Rightarrow> nat option" where
  "find_next_w_pending p q =
     first_below (length q) (\<lambda>i. wx_port (q ! i) = p \<and> wx_aw_done (q ! i) \<and> \<not> wx_w_done (q ! i))"

definition refresh_non_llc_w_active :: "kit_config \<Rightarrow> downstream_port \<Rightarrow> ic \<Rightarrow> ic" where
  "refresh_non_llc_w_active k p s =
     (if llc_enabled s then s
      else if w_active p s then s
      else case find_next_w_pending p (w_pending s) of
             None \<Rightarrow> upd_dport p (\<lambda>d. d\<lparr>dp_w_current := write_pending_txn_zero k\<rparr>) s
           | Some i \<Rightarrow> upd_dport p (\<lambda>d. d\<lparr>dp_w_current := w_pending s ! i, dp_w_active := True\<rparr>) s)"

definition can_accept_read_master :: "kit_config \<Rightarrow> ic \<Rightarrow> nat \<Rightarrow> bool" where
  "can_accept_read_master k s m \<longleftrightarrow>
     m < NUM_READ_MASTERS \<and> unat (count_total_read_inflight s) < MAX_OUTSTANDING k \<and>
     unat (count_master_read_pending s m) < MAX_READ_OUTSTANDING_PER_MASTER k \<and> alloc_read_axi_id k s \<noteq> None"

definition has_read_id_conflict :: "kit_config \<Rightarrow> ic \<Rightarrow> nat \<Rightarrow> u8 \<Rightarrow> bool" where
  "has_read_id_conflict k s m aid \<longleftrightarrow>
     list_ex (\<lambda>p. let l = latch_ar p s in al_valid l \<and> \<not> al_to_llc l \<and> unat (al_master l) = m \<and> al_orig_id l = aid)
       both_ports \<or>
     list_ex (\<lambda>t. unat (rt_master t) = m \<and> rt_orig_id t = aid) (r_pending s) \<or>
     (llc_enabled s \<and>
      (let r = regs (cache s); q = readers s ! m; c = core_stage s in
       (cs_valid c \<and> \<not> cs_is_write c \<and> unat (cs_master c) = m \<and> ur_id (cs_read c) = aid) \<or>
       (ur_valid (rm_up q) \<and> ur_id (rm_up q) = aid) \<or>
       (rm_resp_valid q \<and> rm_resp_id q = aid) \<or>
       (rp_valid (LLC_Types.read_ports r ! m) \<and> rp_id (LLC_Types.read_ports r ! m) = aid) \<or>
       (lk_valid (lookup r) \<and> unat (lk_master (lookup r)) = m \<and> lk_id (lookup r) = aid) \<or>
       list_ex (\<lambda>i. let e = mshr r ! i in ms_valid e \<and> \<not> ms_is_prefetch e \<and> unat (ms_master e) = m \<and> ms_id e = aid)
         [0..<mshr_limit k (cache_config s)]))"

definition can_issue_llc_read_req :: "kit_config \<Rightarrow> ic \<Rightarrow> bool" where
  "can_issue_llc_read_req k s \<longleftrightarrow>
     \<not> any_ar_latched s \<and> unat (count_total_read_inflight s) < MAX_OUTSTANDING k \<and> alloc_read_axi_id k s \<noteq> None"

end
