(* ===== verification/IC_Reads.thy ===== *)
theory IC_Reads
  imports IC_Queries
begin

text \<open>
  \<^verbatim>\<open>comb_read_arbiter\<close> and \<^verbatim>\<open>comb_read_response\<close>. The arbiter's local variables (the busy flags of the
  two ports, the AXI ids and the reads it has handed out in this call) and the object are the
  record \<open>arb\<close>; a loop body with \<^verbatim>\<open>continue\<close> is a function on it, a loop with \<^verbatim>\<open>break\<close> a
  \<open>until_stop\<close> over a body that also tells whether it breaks.
\<close>

section \<open>Access\<close>

definition upd_rport :: "nat \<Rightarrow> (read_master_port \<Rightarrow> read_master_port) \<Rightarrow> ic \<Rightarrow> ic" where
  "upd_rport m f = upd_reader m (\<lambda>q. q\<lparr>rm_port := f (rm_port q)\<rparr>)"

definition upd_wport :: "nat \<Rightarrow> (write_master_port \<Rightarrow> write_master_port) \<Rightarrow> ic \<Rightarrow> ic" where
  "upd_wport m f = upd_writer m (\<lambda>w. w\<lparr>wm_port := f (wm_port w)\<rparr>)"

definition upd_io :: "downstream_port \<Rightarrow> (axi_io \<Rightarrow> axi_io) \<Rightarrow> ic \<Rightarrow> ic" where
  "upd_io p f = upd_dport p (\<lambda>d. d\<lparr>dp_io := f (dp_io d)\<rparr>)"

abbreviation rport :: "ic \<Rightarrow> nat \<Rightarrow> read_master_port" where
  "rport s m \<equiv> rm_port (readers s ! m)"
abbreviation wport :: "ic \<Rightarrow> nat \<Rightarrow> write_master_port" where
  "wport s m \<equiv> wm_port (writers s ! m)"

fun until_stop :: "('i \<Rightarrow> 'a \<Rightarrow> bool \<times> 'a) \<Rightarrow> 'i list \<Rightarrow> 'a \<Rightarrow> 'a" where
  "until_stop f [] a = a"
| "until_stop f (i # is) a = (case f i a of (stop, a) \<Rightarrow> if stop then a else until_stop f is a)"

section \<open>The local state of the arbiter\<close>

record arb =
  arb_s :: ic
  arb_busy :: "downstream_port \<Rightarrow> bool"
  arb_ids :: "downstream_port \<Rightarrow> u8 list"
  arb_count :: "nat list"

definition arb_do :: "(ic \<Rightarrow> ic) \<Rightarrow> arb \<Rightarrow> arb" where
  "arb_do f a = a\<lparr>arb_s := f (arb_s a)\<rparr>"

definition arb_counted :: "nat \<Rightarrow> arb \<Rightarrow> arb" where
  "arb_counted m a = a\<lparr>arb_count := upd m Suc (arb_count a)\<rparr>"

definition alloc_comb_read_axi_id :: "kit_config \<Rightarrow> downstream_port \<Rightarrow> arb \<Rightarrow> u8 option \<times> arb" where
  "alloc_comb_read_axi_id k p a =
     (let s = arb_s a;
          used = map (\<lambda>t. rt_axi_id t AND kAxiIdMask k) (filter (\<lambda>t. rt_port t = p) (r_pending s)) @
            (if al_valid (latch_ar p s) then [al_id (latch_ar p s) AND kAxiIdMask k] else []) @ arb_ids a p
      in case first_free_id k used of
           None \<Rightarrow> (None, a)
         | Some aid \<Rightarrow> (Some aid, a\<lparr>arb_ids := (arb_ids a)(p := aid # arb_ids a p)\<rparr>))"

definition can_accept_read_master_comb :: "kit_config \<Rightarrow> arb \<Rightarrow> nat \<Rightarrow> bool" where
  "can_accept_read_master_comb k a m \<longleftrightarrow>
     m < NUM_READ_MASTERS \<and>
     unat (count_total_read_inflight (arb_s a)) + sum_list (arb_count a) < MAX_OUTSTANDING k \<and>
     unat (count_master_read_pending (arb_s a) m) + arb_count a ! m < MAX_READ_OUTSTANDING_PER_MASTER k"

definition ic_drive_ar :: "downstream_read_issue \<Rightarrow> u8 \<Rightarrow> ar_issue_meta \<Rightarrow> arb \<Rightarrow> arb" where
  "ic_drive_ar iss axi_id meta a =
     (let p = ri_port iss in
      a\<lparr>arb_s := upd_dport p (\<lambda>d. d\<lparr>
            dp_io := (dp_io d)\<lparr>io_ar := (io_ar (dp_io d))\<lparr>arvalid := True, araddr := ri_addr iss,
              arlen := calc_burst_len (ri_total_size iss), arsize := port_axi_size p,
              arburst := AXI_BURST_INCR, arid := axi_id\<rparr>\<rparr>,
            dp_issue := meta\<lparr>am_valid := True\<rparr>\<rparr>) (arb_s a),
         arb_busy := (arb_busy a)(p := True)\<rparr>)"

section \<open>Defaults and latched requests\<close>

definition arbiter_begin_reader :: "ic_reader \<Rightarrow> ic_reader" where
  "arbiter_begin_reader q = q\<lparr>rm_accept := False, rm_capture := llc_upstream_req_zero, rm_req_ready := False,
     rm_hold := if rm_req_ready q \<and> \<not> mr_valid (rm_port q) then read_req_hold_zero else rm_hold q,
     rm_port := (rm_port q)\<lparr>mr_ready := False\<rparr>\<rparr>"

definition arbiter_begin_port :: "ic_dport \<Rightarrow> ic_dport" where
  "arbiter_begin_port d = d\<lparr>dp_issue := ar_issue_meta_zero,
     dp_io := (dp_io d)\<lparr>io_ar := (io_ar (dp_io d))\<lparr>arvalid := False\<rparr>\<rparr>\<rparr>"

definition arbiter_begin :: "ic \<Rightarrow> arb" where
  "arbiter_begin s = \<lparr>arb_s = s\<lparr>readers := map arbiter_begin_reader (readers s),
       ddr_side := arbiter_begin_port (ddr_side s), mmio_side := arbiter_begin_port (mmio_side s)\<rparr>,
     arb_busy = (\<lambda>_. False), arb_ids = (\<lambda>_. []), arb_count = replicate NUM_READ_MASTERS 0\<rparr>"

definition ready_latched_master :: "ar_latch \<Rightarrow> ic \<Rightarrow> ic" where
  "ready_latched_master l s =
     (if \<not> al_to_llc l \<and> \<not> al_accepted_upstream l \<and> unat (al_master l) < NUM_READ_MASTERS
      then upd_reader (unat (al_master l)) (\<lambda>q. q\<lparr>rm_req_ready := True, rm_port := (rm_port q)\<lparr>mr_ready := True\<rparr>\<rparr>) s
      else s)"

definition drive_ar_latch :: "downstream_port \<Rightarrow> arb \<Rightarrow> arb" where
  "drive_ar_latch p a =
     (let l = latch_ar p (arb_s a) in
      if \<not> al_valid l then a
      else a\<lparr>arb_s := ready_latched_master l (upd_io p (\<lambda>io. io\<lparr>io_ar := (io_ar io)\<lparr>arvalid := True,
                 araddr := al_addr l, arlen := al_len l, arsize := al_size l, arburst := al_burst l,
                 arid := al_id l\<rparr>\<rparr>) (arb_s a)),
              arb_busy := (arb_busy a)(p := True)\<rparr>)"

section \<open>With the cache\<close>

text \<open>The read request of the cache goes to a port, once.\<close>

definition llc_read_seen :: "ic \<Rightarrow> bool" where
  "llc_read_seen s \<longleftrightarrow>
     (let m = out_mem (ext_out (cache s)); b = mem_side s in
      mb_seen_valid b \<and> mb_seen_id b = mo_read_req_id m \<and> mb_seen_addr b = mo_read_req_addr m \<and>
      mb_seen_size b = mo_read_req_size m)"

definition issue_llc_read :: "kit_config \<Rightarrow> arb \<Rightarrow> arb" where
  "issue_llc_read k a =
     (let s = arb_s a; m = out_mem (ext_out (cache s)) in
      if \<not> (mo_read_req_valid m \<and> \<not> llc_read_seen s \<and> can_issue_llc_read_req k s \<and>
            can_issue_external_read k s (mo_read_req_addr m)) then a
      else let sz = mo_read_req_size m; p = classify_downstream_port k (mo_read_req_addr m) sz in
        if arb_busy a p \<or> \<not> downstream_request_supported p sz then a
        else case alloc_comb_read_axi_id k p a of
               (None, a) \<Rightarrow> a
             | (Some axi_id, a) \<Rightarrow>
                 let iss = make_downstream_read_issue p (mo_read_req_addr m) sz (lc_line_bytes (cache_config s))
                             (mo_read_req_mode2 m);
                     meta = ar_issue_meta_zero\<lparr>am_from_llc := True, am_llc_mem_id := mo_read_req_id m,
                       am_extract := ri_extract iss, am_upstream_addr := mo_read_req_addr m,
                       am_upstream_size := sz, am_master := 0, am_orig_id := mo_read_req_id m\<rparr>
                 in arb_do (\<lambda>s. s\<lparr>mem_side := (mem_side s)\<lparr>mb_seen_valid := True, mb_seen_id := mo_read_req_id m,
                      mb_seen_addr := mo_read_req_addr m, mb_seen_size := sz\<rparr>\<rparr>) (ic_drive_ar iss axi_id meta a))"

definition current_request :: "read_master_port \<Rightarrow> read_req_hold" where
  "current_request p = \<lparr>rh_valid = True, rh_addr = mr_addr p, rh_total_size = mr_total_size p, rh_id = mr_id p,
     rh_bypass = mr_bypass p\<rparr>"

definition upstream_meta :: "downstream_read_issue \<Rightarrow> u32 \<Rightarrow> u8 \<Rightarrow> nat \<Rightarrow> u8 \<Rightarrow> ar_issue_meta" where
  "upstream_meta iss addr total_size m orig_id = ar_issue_meta_zero\<lparr>am_extract := ri_extract iss,
     am_upstream_addr := addr, am_upstream_size := total_size, am_master := int m, am_orig_id := orig_id\<rparr>"

text \<open>Ready is given for a request of the next cycle, which is held.\<close>

definition hold_request :: "nat \<Rightarrow> ic \<Rightarrow> ic" where
  "hold_request m = upd_reader m (\<lambda>q. q\<lparr>rm_req_ready := True, rm_port := (rm_port q)\<lparr>mr_ready := True\<rparr>,
     rm_hold := current_request (rm_port q)\<rparr>)"

definition direct_mmio_read :: "kit_config \<Rightarrow> bool \<Rightarrow> nat \<Rightarrow> arb \<Rightarrow> bool \<times> arb" where
  "direct_mmio_read k ready m a =
     (let s = arb_s a; q = readers s ! m in
      if \<not> ready \<and> m \<noteq> unat MASTER_DCACHE_R then (False, arb_do (hold_request m) a)
      else let cap = (if rh_valid (rm_hold q) then rm_hold q else current_request (rm_port q)) in
        if has_read_id_conflict k s m (rh_id cap) then (False, a)
        else case alloc_comb_read_axi_id k PortMMIO a of
               (None, a) \<Rightarrow> (False, a)
             | (Some axi_id, a) \<Rightarrow>
                 let iss = make_downstream_read_issue PortMMIO (rh_addr cap) (rh_total_size cap)
                             (lc_line_bytes (cache_config s)) False;
                     a = ic_drive_ar iss axi_id (upstream_meta iss (rh_addr cap) (rh_total_size cap) m (rh_id cap)) a;
                     a = arb_do (upd_reader m (\<lambda>q. q\<lparr>rm_hold := read_req_hold_zero,
                           rm_port := (rm_port q)\<lparr>mr_ready := True\<rparr>\<rparr>)) a;
                     a = arb_counted m a
                 in (arb_busy a PortDDR \<and> arb_busy a PortMMIO, a))"

text \<open>The capture of a request for the cache, translated into the mapped window.\<close>

definition captured_read :: "kit_config \<Rightarrow> ic_control \<Rightarrow> read_master_port \<Rightarrow> llc_upstream_req" where
  "captured_read k c p = \<lparr>ur_valid = True, ur_addr = translate_llc_addr c (mr_addr p) (mr_total_size p),
     ur_total_size = mr_total_size p, ur_id = mr_id p,
     ur_bypass = effective_llc_bypass k c (mr_addr p) (mr_total_size p) (mr_bypass p),
     ur_direct_mapped = request_uses_direct_mapped_llc c (mr_addr p) (mr_total_size p),
     ur_mode2 = (ct_runtime_mode c = 2 \<and> request_uses_ddr_port k c (mr_addr p) (mr_total_size p) \<and>
       \<not> request_in_mapped_window c (mr_addr p) (mr_total_size p))\<rparr>"

definition core_stage_reads :: "ic \<Rightarrow> nat \<Rightarrow> bool" where
  "core_stage_reads s m \<longleftrightarrow>
     cs_valid (core_stage s) \<and> \<not> cs_is_write (core_stage s) \<and> unat (cs_master (core_stage s)) = m"

definition llc_read_master :: "kit_config \<Rightarrow> bool list \<Rightarrow> nat \<Rightarrow> arb \<Rightarrow> bool \<times> arb" where
  "llc_read_master k ready_curr m a =
     (let s = arb_s a; q = readers s ! m; p = rm_port q; c = control s;
          rport = classify_downstream_port k (mr_addr p) (mr_total_size p);
          supported = downstream_request_supported rport (mr_total_size p);
          direct = (request_uses_mmio_port k c (mr_addr p) (mr_total_size p) \<and> supported)
      in if ur_valid (rm_up q) \<or> core_stage_reads s m \<or> \<not> mr_valid p \<or> invalidate_all_requested k s \<or>
            mode_transition_needs_flush s then (False, a)
         else if has_read_id_conflict k s m (mr_id p) then (False, a)
         else if \<not> request_uses_direct_mapped_llc c (mr_addr p) (mr_total_size p) \<and> \<not> supported then (False, a)
         else if direct \<and> can_issue_external_read k s (mr_addr p) \<and> \<not> arb_busy a PortMMIO \<and>
                 can_accept_read_master_comb k a m
         then direct_mmio_read k (ready_curr ! m) m a
         else if direct then (False, a)
         else if ready_curr ! m \<or> m = unat MASTER_DCACHE_R
         then (False, arb_do (upd_reader m (\<lambda>q. q\<lparr>rm_accept := True, rm_capture := captured_read k c p,
                rm_port := (rm_port q)\<lparr>mr_ready := True\<rparr>\<rparr>)) a)
         else (False, arb_do (upd_reader m (\<lambda>q. q\<lparr>rm_req_ready := True, rm_port := (rm_port q)\<lparr>mr_ready := True\<rparr>\<rparr>)) a))"

section \<open>Without the cache\<close>

text \<open>The AR of a request is driven, if an AXI id is free.\<close>

definition issue_read :: "kit_config \<Rightarrow> nat \<Rightarrow> read_req_hold \<Rightarrow> downstream_port \<Rightarrow> u8 \<Rightarrow> arb \<Rightarrow> arb" where
  "issue_read k m cap p axi_id a =
     (let iss = make_downstream_read_issue p (rh_addr cap) (rh_total_size cap)
                  (lc_line_bytes (cache_config (arb_s a))) False;
          a = ic_drive_ar iss axi_id (upstream_meta iss (rh_addr cap) (rh_total_size cap) m (rh_id cap)) a
      in arb_counted m (arb_do (upd_rport m (\<lambda>p. p\<lparr>mr_ready := True\<rparr>)) a))"

definition complete_ready_read :: "kit_config \<Rightarrow> bool list \<Rightarrow> nat \<Rightarrow> arb \<Rightarrow> arb" where
  "complete_ready_read k ready_curr m a =
     (let q = readers (arb_s a) ! m; now = current_request (rm_port q) in
      if \<not> ready_curr ! m \<or> \<not> mr_valid (rm_port q) then a
      else let a = (if rh_valid (rm_hold q) \<and> rm_hold q \<noteq> now
                    then arb_do (upd_reader m (\<lambda>q. q\<lparr>rm_hold := now\<rparr>)) a else a);
               cap = (if rh_valid (rm_hold q) \<and> rm_hold q = now then rm_hold q else now);
               s = arb_s a;
               p = classify_downstream_port k (rh_addr cap) (rh_total_size cap)
           in if has_read_id_conflict k s m (rh_id cap) then a
              else if \<not> can_issue_external_read k s (rh_addr cap) then a
              else if \<not> downstream_request_supported p (rh_total_size cap) then a
              else if arb_busy a p then a
              else if \<not> can_accept_read_master_comb k a m then a
              else case alloc_comb_read_axi_id k p a of
                     (None, a) \<Rightarrow> a
                   | (Some axi_id, a) \<Rightarrow> issue_read k m cap p axi_id a)"

definition round_robin_read :: "kit_config \<Rightarrow> bool list \<Rightarrow> nat \<Rightarrow> arb \<Rightarrow> bool \<times> arb" where
  "round_robin_read k ready_curr m a =
     (let s = arb_s a; port = rport s m; now = current_request port;
          p = classify_downstream_port k (mr_addr port) (mr_total_size port)
      in if \<not> mr_valid port then (False, a)
         else if \<not> can_accept_read_master k s m then (False, a)
         else if has_read_id_conflict k s m (mr_id port) then (False, a)
         else if \<not> can_issue_external_read k s (mr_addr port) then (False, a)
         else if \<not> downstream_request_supported p (mr_total_size port) then (False, a)
         else if arb_busy a p then (False, a)
         else if \<not> can_accept_read_master_comb k a m then (False, a)
         else case alloc_comb_read_axi_id k p a of
                (None, a) \<Rightarrow> (False, a)
              | (Some axi_id, a) \<Rightarrow>
                  if m \<noteq> unat MASTER_DCACHE_R \<and> \<not> ready_curr ! m then (False, arb_do (hold_request m) a)
                  else let a = issue_read k m now p axi_id a
                       in (arb_busy a PortDDR \<and> arb_busy a PortMMIO, a))"

section \<open>The arbiter\<close>

definition comb_read_arbiter :: "kit_config \<Rightarrow> ic \<Rightarrow> ic" where
  "comb_read_arbiter k s =
     (let ready_curr = map rm_req_ready (readers s);
          a = fold drive_ar_latch both_ports (arbiter_begin s)
      in arb_s (if llc_enabled s
                then until_stop (llc_read_master k ready_curr) [0..<NUM_READ_MASTERS] (issue_llc_read k a)
                else if mode_transition_needs_flush s then a
                else let a = fold (complete_ready_read k ready_curr) [0..<NUM_READ_MASTERS] a
                     in until_stop (\<lambda>i. round_robin_read k ready_curr ((unat (r_arb_rr_idx s) + i) mod NUM_READ_MASTERS))
                          [0..<NUM_READ_MASTERS] a))"

section \<open>Responses\<close>

text \<open>The completed direct transaction of a master with the least completion number, the first of them.\<close>

definition completed_direct :: "nat \<Rightarrow> read_pending_txn \<Rightarrow> bool" where
  "completed_direct m t \<longleftrightarrow> \<not> rt_to_llc t \<and> rt_beats_done t = rt_total_beats t \<and> unat (rt_master t) = m"

definition select_response :: "read_pending_txn list \<Rightarrow> nat \<Rightarrow> read_pending_txn option" where
  "select_response q m =
     fold (\<lambda>t best. if \<not> completed_direct m t then best
                    else case best of None \<Rightarrow> Some t
                         | Some b \<Rightarrow> if rt_completion_seq t < rt_completion_seq b then Some t else best)
       q None"

definition present_response :: "read_pending_txn option \<Rightarrow> read_master_port \<Rightarrow> read_master_port" where
  "present_response sel p =
     (case sel of
        None \<Rightarrow> p\<lparr>mr_resp_valid := False\<rparr>
      | Some t \<Rightarrow> p\<lparr>mr_resp_valid := True,
          mr_resp_data := if rt_extract t then extract_aligned_downstream_read t else rt_data t,
          mr_resp_id := rt_orig_id t\<rparr>)"

definition comb_read_response :: "ic \<Rightarrow> ic" where
  "comb_read_response s =
     (let s = fold (\<lambda>p. upd_io p (\<lambda>io. io\<lparr>io_r := (io_r io)\<lparr>rready := True\<rparr>\<rparr>)) both_ports s
      in fold (\<lambda>m. upd_rport m (present_response (select_response (r_pending s) m))) [0..<NUM_READ_MASTERS] s)"

end
