(* ===== verification/IC_Writes.thy ===== *)
theory IC_Writes
  imports IC_Reads
begin

text \<open>
  \<^verbatim>\<open>comb_write_request\<close> and \<^verbatim>\<open>comb_write_response\<close>: the AW and W channels of the two ports and the
  ready wires of the write masters. A loop over the masters that ends with its first candidate is
  \<open>until_stop\<close>.
\<close>

section \<open>Channels\<close>

definition ic_drive_aw :: "downstream_port \<Rightarrow> u32 \<Rightarrow> u8 \<Rightarrow> u8 \<Rightarrow> u8 \<Rightarrow> u8 \<Rightarrow> ic \<Rightarrow> ic" where
  "ic_drive_aw p addr len sz burst aid = upd_io p (\<lambda>io. io\<lparr>io_aw := (io_aw io)\<lparr>awvalid := True, awaddr := addr,
     awlen := len, awsize := sz, awburst := burst, awid := aid\<rparr>\<rparr>)"

definition drive_aw_latch :: "downstream_port \<Rightarrow> ic \<Rightarrow> ic" where
  "drive_aw_latch p s =
     (let l = latch_aw p s in
      if \<not> wl_valid l then s else ic_drive_aw p (wl_addr l) (wl_len l) (wl_size l) (wl_burst l) (wl_id l) s)"

definition drive_aw_txn :: "write_pending_txn \<Rightarrow> ic \<Rightarrow> ic" where
  "drive_aw_txn t = ic_drive_aw (wx_port t) (wx_addr t) (wx_total_beats t - 1) (port_axi_size (wx_port t))
     AXI_BURST_INCR (wx_axi_id t)"

definition drive_w_current :: "kit_config \<Rightarrow> downstream_port \<Rightarrow> ic \<Rightarrow> ic" where
  "drive_w_current k p s =
     (let cur = w_current p s in
      if \<not> w_active p s \<or> \<not> wx_aw_done cur \<or> wx_w_done cur then s
      else upd_io p (\<lambda>io. io\<lparr>io_w := (io_w io)\<lparr>wvalid := True,
             wdata := pack_downstream_write_beat k (wx_wdata cur) (wx_beats_sent cur),
             wstrb := pack_downstream_write_strobe k (wx_wstrb cur) (wx_beats_sent cur),
             wlast := (unat (wx_beats_sent cur) + 1 = unat (wx_total_beats cur))\<rparr>\<rparr>) s)"

section \<open>Defaults\<close>

definition write_begin_writer :: "kit_config \<Rightarrow> ic_writer \<Rightarrow> ic_writer" where
  "write_begin_writer k w = w\<lparr>wm_req_ready := False, wm_fire := False, wm_accept := False,
     wm_capture := llc_upstream_write_req_zero k\<rparr>"

definition write_begin_port :: "ic_dport \<Rightarrow> ic_dport" where
  "write_begin_port d = d\<lparr>dp_io := (dp_io d)\<lparr>io_aw := (io_aw (dp_io d))\<lparr>awvalid := False\<rparr>,
     io_w := (io_w (dp_io d))\<lparr>wvalid := False\<rparr>\<rparr>\<rparr>"

definition write_begin :: "kit_config \<Rightarrow> ic \<Rightarrow> ic" where
  "write_begin k s = s\<lparr>writers := map (write_begin_writer k) (writers s),
     ddr_side := write_begin_port (ddr_side s), mmio_side := write_begin_port (mmio_side s)\<rparr>"

section \<open>With the cache\<close>

text \<open>The write request of the cache, on the port of its address when that port is free.\<close>

definition llc_write_issue :: "kit_config \<Rightarrow> ic \<Rightarrow> downstream_write_issue option" where
  "llc_write_issue k s =
     (let m = out_mem (ext_out (cache s)); p = classify_downstream_port k (mo_write_req_addr m) (mo_write_req_size m) in
      if \<not> w_active p s \<and> \<not> wl_valid (latch_aw p s) \<and> downstream_request_supported p (mo_write_req_size m)
      then Some (make_downstream_write_issue k p (mo_write_req_addr m) (mo_write_req_size m) (mo_write_req_data m)
             (mo_write_req_strobe m) (lc_line_bytes (cache_config s)) (mo_write_req_mode2 m))
      else None)"

definition drive_llc_write :: "kit_config \<Rightarrow> ic \<Rightarrow> ic" where
  "drive_llc_write k s =
     (let m = out_mem (ext_out (cache s)) in
      if \<not> mb_write_resp_valid (mem_side s) \<and> mo_write_req_valid m \<and> can_issue_external_write k s (mo_write_req_addr m)
      then case llc_write_issue k s of
             None \<Rightarrow> s
           | Some iss \<Rightarrow> ic_drive_aw (wi_port iss) (wi_addr iss) (calc_burst_len (wi_total_size iss))
               (port_axi_size (wi_port iss)) AXI_BURST_INCR (mo_write_req_id m AND kAxiIdMask k) s
      else s)"

definition ready_write :: "nat \<Rightarrow> ic \<Rightarrow> ic" where
  "ready_write m = upd_writer m (\<lambda>w. w\<lparr>wm_req_ready := True, wm_port := (wm_port w)\<lparr>mw_ready := True\<rparr>\<rparr>)"

definition fire_write :: "nat \<Rightarrow> ic \<Rightarrow> ic" where
  "fire_write m = upd_writer m (\<lambda>w. w\<lparr>wm_fire := True, wm_port := (wm_port w)\<lparr>mw_ready := True\<rparr>\<rparr>)"

text \<open>A write outside the cache: whether one was found, and the state.\<close>

definition direct_write_master :: "kit_config \<Rightarrow> bool list \<Rightarrow> nat \<Rightarrow> bool \<times> ic \<Rightarrow> bool \<times> bool \<times> ic" where
  "direct_write_master k ready_curr m acc =
     (case acc of (found, s) \<Rightarrow>
       let q = wport s m; p = classify_downstream_port k (mw_addr q) (mw_total_size q);
           direct = (request_uses_mmio_port k (control s) (mw_addr q) (mw_total_size q) \<and>
             downstream_request_supported p (mw_total_size q))
       in if \<not> mw_valid q then (False, found, s)
          else if has_external_pending_read_hazard k s (mw_addr q) then (False, found, s)
          else if \<not> direct then (False, found, s)
          else if ws_valid (out_write_resp (ext_out (cache s)) ! m) \<or> w_active p s \<or> wl_valid (latch_aw p s) \<or>
                  \<not> can_issue_external_write k s (mw_addr q) then (True, True, s)
          else if ready_curr ! m then (True, True, fire_write m s)
          else (True, True, ready_write m s))"

definition captured_write :: "kit_config \<Rightarrow> ic_control \<Rightarrow> write_master_port \<Rightarrow> llc_upstream_write_req" where
  "captured_write k c q = \<lparr>uw_valid = True, uw_addr = translate_llc_addr c (mw_addr q) (mw_total_size q),
     uw_total_size = mw_total_size q, uw_id = mw_id q, uw_wdata = mw_wdata q, uw_wstrb = mw_wstrb q,
     uw_bypass = effective_llc_bypass k c (mw_addr q) (mw_total_size q) (mw_bypass q),
     uw_direct_mapped = request_uses_direct_mapped_llc c (mw_addr q) (mw_total_size q),
     uw_mode2 = (ct_runtime_mode c = 2 \<and> request_uses_ddr_port k c (mw_addr q) (mw_total_size q) \<and>
       \<not> request_in_mapped_window c (mw_addr q) (mw_total_size q))\<rparr>"

definition llc_write_blocked :: "kit_config \<Rightarrow> ic \<Rightarrow> write_master_port \<Rightarrow> bool" where
  "llc_write_blocked k s q \<longleftrightarrow>
     (let line = cline s (translate_llc_addr (control s) (mw_addr q) (mw_total_size q)) in
      (mt_line_valid (maintenance s) \<and> line = cline s (mt_line_addr (maintenance s))) \<or>
      (\<not> request_uses_mmio_port k (control s) (mw_addr q) (mw_total_size q) \<and> has_same_line_read_hazard k s line))"

definition llc_write_master :: "kit_config \<Rightarrow> bool list \<Rightarrow> nat \<Rightarrow> ic \<Rightarrow> bool \<times> ic" where
  "llc_write_master k ready_curr m s =
     (let q = wport s m; p = classify_downstream_port k (mw_addr q) (mw_total_size q) in
      if \<not> mw_valid q then (False, s)
      else if llc_write_blocked k s q then (False, s)
      else if \<not> request_uses_direct_mapped_llc (control s) (mw_addr q) (mw_total_size q) \<and>
              \<not> downstream_request_supported p (mw_total_size q) then (False, s)
      else if ready_curr ! m
      then (True, upd_writer m (\<lambda>w. w\<lparr>wm_accept := True, wm_capture := captured_write k (control s) q,
             wm_port := (wm_port w)\<lparr>mw_ready := True\<rparr>\<rparr>) s)
      else (True, ready_write m s))"

definition rotated_writers :: "ic \<Rightarrow> nat list" where
  "rotated_writers s = map (\<lambda>i. (unat (w_arb_rr_idx s) + i) mod NUM_WRITE_MASTERS) [0..<NUM_WRITE_MASTERS]"

definition accept_direct_write :: "kit_config \<Rightarrow> bool list \<Rightarrow> bool \<Rightarrow> ic \<Rightarrow> bool \<times> ic" where
  "accept_direct_write k ready_curr any_resp s =
     (if \<not> any_resp \<and> \<not> mb_write_resp_valid (mem_side s) \<and> \<not> invalidate_all_requested k s \<and>
         \<not> mode_transition_needs_flush s
      then until_stop (direct_write_master k ready_curr) (rotated_writers s) (False, s)
      else (False, s))"

definition accept_llc_write :: "kit_config \<Rightarrow> bool list \<Rightarrow> bool \<Rightarrow> ic \<Rightarrow> ic" where
  "accept_llc_write k ready_curr direct_selected s =
     (if \<not> direct_selected \<and> unat (count_llc_write_pending s) < MAX_WRITE_OUTSTANDING k \<and>
         \<not> invalidate_all_requested k s \<and> \<not> mode_transition_needs_flush s
      then until_stop (llc_write_master k ready_curr) (rotated_writers s) s
      else s)"

section \<open>Without the cache\<close>

definition drive_pending_aw :: "kit_config \<Rightarrow> bool \<Rightarrow> downstream_port \<Rightarrow> ic \<Rightarrow> ic" where
  "drive_pending_aw k any_resp p s =
     (if wl_valid (latch_aw p s) then drive_aw_latch p s
      else if any_resp then s
      else case find_next_aw_pending p (w_pending s) of
             None \<Rightarrow> s
           | Some i \<Rightarrow> let t = w_pending s ! i in
               if can_issue_external_write k s (wx_addr t) then drive_aw_txn t s else s)"

definition direct_ready_master :: "kit_config \<Rightarrow> bool list \<Rightarrow> nat \<Rightarrow> ic \<Rightarrow> bool \<times> ic" where
  "direct_ready_master k ready_curr m s =
     (let q = wport s m in
      if \<not> mw_valid q then (False, s)
      else if \<not> write_size_supported k (mw_total_size q) then (False, s)
      else if \<not> downstream_request_supported (classify_downstream_port k (mw_addr q) (mw_total_size q)) (mw_total_size q)
      then (False, s)
      else if ready_curr ! m then (True, fire_write m s)
      else (True, ready_write m s))"

section \<open>Requests\<close>

definition comb_write_request :: "kit_config \<Rightarrow> ic \<Rightarrow> ic" where
  "comb_write_request k s =
     (let ready_curr = map wm_req_ready (writers s);
          any_resp = any_write_resp_buffered s;
          s = write_begin k s
      in if llc_enabled s
         then let s = drive_llc_write k (fold drive_aw_latch both_ports s)
              in case accept_direct_write k ready_curr any_resp s of
                   (direct_selected, s) \<Rightarrow>
                     fold (drive_w_current k) both_ports (accept_llc_write k ready_curr direct_selected s)
         else let s = fold (drive_pending_aw k any_resp) both_ports s;
                  s = (if \<not> mode_transition_needs_flush s \<and> can_accept_write_now k s \<and> \<not> any_resp
                       then until_stop (direct_ready_master k ready_curr) (rotated_writers s) s else s)
              in fold (drive_w_current k) both_ports s)"

section \<open>Responses\<close>

definition llc_bready :: "kit_config \<Rightarrow> ic \<Rightarrow> downstream_port \<Rightarrow> bool" where
  "llc_bready k s p =
     (let cur = w_current p s; act = w_active p s in
      if act \<and> wx_w_done cur \<and> wx_axi_id cur = bid (io_b (dp_io (dport p s))) AND kAxiIdMask k
      then if wx_to_llc_mem cur then \<not> mb_write_resp_valid (mem_side s)
           else unat (wx_master cur) < NUM_WRITE_MASTERS \<and> write_resp_buffer_has_space k s (unat (wx_master cur))
      else \<not> act \<and> mb_ignored_b (mem_side s) > 0)"

text \<open>The master a B response is for: \<open>None\<close> without a response, \<open>Some None\<close> without a target.\<close>

definition b_target_master :: "kit_config \<Rightarrow> ic \<Rightarrow> downstream_port \<Rightarrow> nat option option" where
  "b_target_master k s p =
     (let b = io_b (dp_io (dport p s)) in
      if \<not> bvalid b then None
      else Some (map_option (\<lambda>i. unat (wx_master (w_pending s ! i)))
             (first_below (length (w_pending s)) (\<lambda>i. let t = w_pending s ! i in
                wx_port t = p \<and> wx_axi_id t = bid b AND kAxiIdMask k \<and> wx_w_done t \<and>
                unat (wx_master t) < NUM_WRITE_MASTERS))))"

definition can_accept_b_for_master :: "kit_config \<Rightarrow> ic \<Rightarrow> nat option option \<Rightarrow> bool" where
  "can_accept_b_for_master k s t =
     (case t of None \<Rightarrow> True | Some None \<Rightarrow> False | Some (Some m) \<Rightarrow> write_resp_buffer_has_space k s m)"

definition set_bready :: "downstream_port \<Rightarrow> bool \<Rightarrow> ic \<Rightarrow> ic" where
  "set_bready p b = upd_io p (\<lambda>io. io\<lparr>io_b := (io_b io)\<lparr>bready := b\<rparr>\<rparr>)"

definition show_write_response :: "ic_writer \<Rightarrow> ic_writer" where
  "show_write_response w = w\<lparr>wm_port := (wm_port w)\<lparr>mw_accepted := wm_accepted w, mw_resp_valid := wm_resp_valid w,
     mw_resp_id := wm_resp_id w, mw_resp_resp := wm_resp_resp w\<rparr>\<rparr>"

definition comb_write_response :: "kit_config \<Rightarrow> ic \<Rightarrow> ic" where
  "comb_write_response k s =
     (if llc_enabled s
      then let ddr = llc_bready k s PortDDR; mmio = llc_bready k s PortMMIO
           in set_bready PortMMIO mmio (set_bready PortDDR ddr s)
      else let s = s\<lparr>writers := map show_write_response (writers s)\<rparr>;
               ddr_m = b_target_master k s PortDDR; mmio_m = b_target_master k s PortMMIO;
               ddr = can_accept_b_for_master k s ddr_m;
               mmio = can_accept_b_for_master k s mmio_m;
               mmio = (if (\<exists>m\<in>set [0..<NUM_WRITE_MASTERS]. ddr_m = Some (Some m)) \<and> ddr_m = mmio_m \<and> ddr \<and> mmio
                       then False else mmio)
           in set_bready PortMMIO mmio (set_bready PortDDR ddr s))"

end
