(* ===== verification/IC_Comb.thy ===== *)
theory IC_Comb
  imports IC_Writes
begin

text \<open>
  The wires between the interconnect and the cache (\<^verbatim>\<open>prepare_llc_inputs\<close>), the two combinational
  phases \<^verbatim>\<open>comb_outputs\<close> and \<^verbatim>\<open>comb_inputs\<close>, and \<^verbatim>\<open>init\<close>. The cache is the model of \<open>LLC_Comb\<close>: its
  \<^verbatim>\<open>comb()\<close> is \<open>llc_comb\<close> on the \<open>cache\<close> of the state.
\<close>

section \<open>The inputs of the cache\<close>

definition llc_external_read_line_pending :: "ic \<Rightarrow> u32 \<Rightarrow> bool" where
  "llc_external_read_line_pending s line \<longleftrightarrow>
     list_ex (\<lambda>p. al_valid (latch_ar p s) \<and> al_to_llc (latch_ar p s) \<and>
       cline s (al_upstream_addr (latch_ar p s)) = line) both_ports \<or>
     list_ex (\<lambda>t. rt_to_llc t \<and> cline s (rt_upstream_addr t) = line) (r_pending s)"

definition llc_external_write_busy :: "ic \<Rightarrow> bool" where
  "llc_external_write_busy s \<longleftrightarrow>
     external_write_busy s \<or> mb_write_resp_valid (mem_side s) \<or> mb_ignored_b (mem_side s) \<noteq> 0"

definition llc_maintenance_quiescent :: "kit_config \<Rightarrow> ic \<Rightarrow> bool" where
  "llc_maintenance_quiescent k s \<longleftrightarrow> reconfig_path_quiescent k s \<and> \<not> llc_external_write_busy s"

definition invalidate_all_now :: "kit_config \<Rightarrow> ic \<Rightarrow> bool" where
  "invalidate_all_now k s \<longleftrightarrow>
     (mt_all (maintenance s) \<and> \<not> llc_external_write_busy s) \<or>
     (mode_transition_invalidate_requested k s \<and> llc_maintenance_quiescent k s)"

definition invalidate_line_now :: "kit_config \<Rightarrow> ic \<Rightarrow> bool" where
  "invalidate_line_now k s \<longleftrightarrow>
     (let line = cline s (mt_line_addr (maintenance s)) in
      mt_line_valid (maintenance s) \<and> llc_maintenance_quiescent k s \<and>
      \<not> (has_same_line_write_hazard k s line \<or> llc_external_read_line_pending s line \<or> llc_external_write_busy s))"

definition staged_read :: "ic \<Rightarrow> nat \<Rightarrow> llc_read_req" where
  "staged_read s m =
     (if core_stage_reads s m
      then let r = cs_read (core_stage s) in \<lparr>rq_valid = True, rq_addr = ur_addr r, rq_total_size = ur_total_size r,
             rq_id = ur_id r, rq_bypass = ur_bypass r, rq_direct_mapped = ur_direct_mapped r, rq_mode2 = ur_mode2 r\<rparr>
      else \<lparr>rq_valid = False, rq_addr = 0, rq_total_size = 0, rq_id = 0, rq_bypass = False,
             rq_direct_mapped = False, rq_mode2 = False\<rparr>)"

definition staged_write :: "kit_config \<Rightarrow> ic \<Rightarrow> nat \<Rightarrow> llc_write_req" where
  "staged_write k s m =
     (if cs_valid (core_stage s) \<and> cs_is_write (core_stage s) \<and> unat (cs_master (core_stage s)) = m
      then let w = cs_write (core_stage s) in \<lparr>wq_valid = True, wq_addr = uw_addr w, wq_wdata = uw_wdata w,
             wq_wstrb = uw_wstrb w, wq_total_size = uw_total_size w, wq_id = uw_id w, wq_bypass = uw_bypass w,
             wq_direct_mapped = uw_direct_mapped w, wq_mode2 = uw_mode2 w\<rparr>
      else \<lparr>wq_valid = False, wq_addr = 0, wq_wdata = write_data_clear k, wq_wstrb = strb_clear k,
             wq_total_size = 0, wq_id = 0, wq_bypass = False, wq_direct_mapped = False, wq_mode2 = False\<rparr>)"

definition upstream_idle :: "ic \<Rightarrow> bool" where
  "upstream_idle s \<longleftrightarrow> \<not> cs_valid (core_stage s) \<and>
     list_all (\<lambda>m. \<not> ur_valid (rm_up (readers s ! m)) \<and> \<not> mr_valid (rport s m)) [0..<NUM_READ_MASTERS] \<and>
     list_all (\<lambda>m. \<not> uw_valid (wm_up (writers s ! m)) \<and> wm_up_q (writers s ! m) = [] \<and> \<not> mw_valid (wport s m))
       [0..<NUM_WRITE_MASTERS]"

definition llc_read_req_ready :: "kit_config \<Rightarrow> ic \<Rightarrow> bool" where
  "llc_read_req_ready k s \<longleftrightarrow>
     (let m = out_mem (ext_out (cache s)); sz = mo_read_req_size m;
          p = classify_downstream_port k (mo_read_req_addr m) sz
      in if mo_read_req_valid m \<and> unsupported_mmio_request p sz then \<not> mb_synth_valid (mem_side s)
         else can_issue_llc_read_req k s \<and>
              (\<not> mo_read_req_valid m \<or>
               (downstream_request_supported p sz \<and> can_issue_external_read k s (mo_read_req_addr m))))"

definition llc_write_req_ready :: "kit_config \<Rightarrow> ic \<Rightarrow> bool" where
  "llc_write_req_ready k s \<longleftrightarrow>
     (let m = out_mem (ext_out (cache s)); sz = mo_write_req_size m;
          p = classify_downstream_port k (mo_write_req_addr m) sz
      in \<not> any_w_active s \<and> \<not> any_aw_latched s \<and> \<not> mb_write_resp_valid (mem_side s) \<and>
         (\<not> mo_write_req_valid m \<or> unsupported_mmio_request p sz \<or>
          (downstream_request_supported p sz \<and> can_issue_external_write k s (mo_write_req_addr m))))"

text \<open>The response shown to the cache: a synthesised one, or the first finished transaction for it.\<close>

definition finished_for_llc :: "read_pending_txn \<Rightarrow> bool" where
  "finished_for_llc t \<longleftrightarrow> rt_to_llc t \<and> rt_beats_done t = rt_total_beats t"

definition llc_mem_response :: "ic \<Rightarrow> (wide_data \<times> u8) option" where
  "llc_mem_response s =
     (if mb_synth_valid (mem_side s) then Some (mb_synth_data (mem_side s), mb_synth_id (mem_side s))
      else map_option (\<lambda>t. (if rt_extract t then extract_aligned_downstream_read t else rt_data t, rt_orig_id t))
             (find finished_for_llc (r_pending s)))"

definition llc_mem_inputs :: "kit_config \<Rightarrow> ic \<Rightarrow> llc_mem_in" where
  "llc_mem_inputs k s =
     (let m = llc_mem_in_zero\<lparr>invalidate_all := invalidate_all_now k s,
            invalidate_line_valid := invalidate_line_now k s,
            invalidate_line_addr := mt_line_addr (maintenance s), prefetch_allow := upstream_idle s,
            mi_read_req_ready := llc_read_req_ready k s, mi_write_req_ready := llc_write_req_ready k s,
            mi_write_resp_valid := mb_write_resp_valid (mem_side s), mi_write_resp := mb_write_resp (mem_side s)\<rparr>
      in case llc_mem_response s of
           None \<Rightarrow> m
         | Some (data, aid) \<Rightarrow> m\<lparr>mi_read_resp_valid := True, mi_read_resp_data := data, mi_read_resp_id := aid\<rparr>)"

definition llc_inputs :: "kit_config \<Rightarrow> bool \<Rightarrow> ic \<Rightarrow> llc_ext_in" where
  "llc_inputs k sample s =
     (if \<not> llc_enabled s \<and> \<not> mode_transition_needs_flush s then llc_ext_in_zero k
      else \<lparr>in_read_req = map (staged_read s) [0..<NUM_READ_MASTERS],
        in_read_resp_ready = map (\<lambda>m. sample \<and> \<not> rm_resp_valid (readers s ! m) \<and>
          \<not> rp_fresh (LLC_Types.read_ports (regs (cache s)) ! m) \<and> \<not> has_direct_read_response s m) [0..<NUM_READ_MASTERS],
        in_write_req = map (staged_write k s) [0..<NUM_WRITE_MASTERS],
        in_write_resp_ready = map (\<lambda>m. sample \<and> \<not> wm_resp_valid (writers s ! m) \<and> length (wm_delay (writers s ! m)) < 2)
          [0..<NUM_WRITE_MASTERS],
        in_mem = llc_mem_inputs k s\<rparr>)"

definition prepare_llc_inputs :: "kit_config \<Rightarrow> bool \<Rightarrow> ic \<Rightarrow> ic" where
  "prepare_llc_inputs k sample s = s\<lparr>cache := (cache s)\<lparr>ext_in := llc_inputs k sample s\<rparr>\<rparr>"

definition run_llc_comb :: "kit_config \<Rightarrow> ic \<Rightarrow> ic" where
  "run_llc_comb k s = s\<lparr>cache := llc_comb k (cache_config s) (cache s)\<rparr>"

section \<open>The output phase\<close>

definition llc_slot_busy :: "ic \<Rightarrow> nat \<Rightarrow> bool" where
  "llc_slot_busy s m \<longleftrightarrow>
     llc_enabled s \<and> (ur_valid (rm_up (readers s ! m)) \<or> core_stage_reads s m) \<and> \<not> any_ar_latched s"

definition show_read_ready :: "kit_config \<Rightarrow> ic \<Rightarrow> nat \<Rightarrow> ic_reader \<Rightarrow> ic_reader" where
  "show_read_ready k s m q = q\<lparr>rm_port := (rm_port q)\<lparr>
     mr_ready := (rm_req_ready q \<and> \<not> llc_slot_busy s m \<and> \<not> (llc_enabled s \<and> invalidate_all_requested k s) \<and>
       \<not> mode_transition_needs_flush s),
     mr_accepted := rm_accepted q, mr_accepted_id := rm_accepted_id q\<rparr>\<rparr>"

definition keep_latched_ready :: "downstream_port \<Rightarrow> ic \<Rightarrow> ic" where
  "keep_latched_ready p s =
     (let l = latch_ar p s in
      if al_valid l \<and> \<not> al_to_llc l \<and> unat (al_master l) < NUM_READ_MASTERS
      then upd_rport (unat (al_master l)) (\<lambda>q. q\<lparr>mr_ready := True\<rparr>) s else s)"

text \<open>The readies are computed one master after the other, each on the ones already shown.\<close>

definition show_write_ready :: "kit_config \<Rightarrow> nat \<Rightarrow> ic \<Rightarrow> ic" where
  "show_write_ready k m s =
     (let s = upd_wport m (\<lambda>p. p\<lparr>mw_accepted := wm_accepted (writers s ! m)\<rparr>) s;
          p = wport s m; line = cline s (translate_llc_addr (control s) (mw_addr p) (mw_total_size p));
          blocked_by_line = (mt_line_valid (maintenance s) \<and> mw_valid p \<and> line = cline s (mt_line_addr (maintenance s)));
          through_llc = (mw_valid p \<and> \<not> request_uses_mmio_port k (control s) (mw_addr p) (mw_total_size p));
          blocked_by_read = (mw_valid p \<and> (has_external_pending_read_hazard k s (mw_addr p) \<or>
             (through_llc \<and> has_same_line_read_hazard k s line)))
      in upd_wport m (\<lambda>p. p\<lparr>mw_ready :=
           (if llc_enabled s
            then \<not> invalidate_all_requested k s \<and> \<not> blocked_by_line \<and> \<not> blocked_by_read \<and> wm_req_ready (writers s ! m)
            else wm_req_ready (writers s ! m) \<and> \<not> mode_transition_needs_flush s)\<rparr>) s)"

definition show_llc_read_response :: "ic_reader \<Rightarrow> ic_reader" where
  "show_llc_read_response q =
     (if mr_resp_valid (rm_port q) then q
      else q\<lparr>rm_port := (rm_port q)\<lparr>mr_resp_valid := rm_resp_valid q, mr_resp_data := rm_resp_data q,
             mr_resp_id := rm_resp_id q\<rparr>\<rparr>)"

definition show_llc_write_response :: "ic_writer \<Rightarrow> ic_writer" where
  "show_llc_write_response w = w\<lparr>wm_port := (wm_port w)\<lparr>mw_resp_valid := wm_resp_valid w,
     mw_resp_id := if wm_resp_valid w then wm_resp_id w else 0,
     mw_resp_resp := if wm_resp_valid w then wm_resp_resp w else 0\<rparr>\<rparr>"

definition comb_outputs :: "kit_config \<Rightarrow> ic \<Rightarrow> ic" where
  "comb_outputs k s =
     (let s = run_llc_comb k (prepare_llc_inputs k False s);
          s = comb_write_response k (comb_read_response s);
          s = fold (\<lambda>m s. upd_reader m (show_read_ready k s m) s) [0..<NUM_READ_MASTERS] s;
          s = fold keep_latched_ready both_ports s;
          s = fold (show_write_ready k) [0..<NUM_WRITE_MASTERS] s
      in if llc_enabled s
         then s\<lparr>readers := map show_llc_read_response (readers s), writers := map show_llc_write_response (writers s)\<rparr>
         else s)"

section \<open>The input phase\<close>

definition comb_inputs :: "kit_config \<Rightarrow> ic \<Rightarrow> ic" where
  "comb_inputs k s =
     (let s = comb_write_request k (comb_read_arbiter k s)
      in if llc_enabled s \<or> mode_transition_needs_flush s
         then run_llc_comb k (prepare_llc_inputs k True s) else s)"

section \<open>Initialisation\<close>

text \<open>\<^verbatim>\<open>sample_runtime_controls\<close>: the values of the two environment variables, when they are set and
  parse, are arguments.\<close>

definition sample_runtime_controls :: "u64 option \<Rightarrow> u64 option \<Rightarrow> ic_control \<Rightarrow> ic_control" where
  "sample_runtime_controls env_mode env_offset c =
     (let c = (case env_mode of None \<Rightarrow> c | Some v \<Rightarrow> c\<lparr>ct_mode := ucast (v AND 3)\<rparr>);
          c = (case env_offset of None \<Rightarrow> c\<lparr>ct_offset_override := False\<rparr>
               | Some v \<Rightarrow> c\<lparr>ct_offset := ucast v, ct_offset_override := True\<rparr>);
          md = requested_mode c; off = requested_llc_mapped_offset c
      in c\<lparr>ct_runtime_mode := md, ct_mapped_offset := off, ct_reconfig_pending := False, ct_target_mode := md,
           ct_target_offset := off\<rparr>)"

definition clear_ar_latch :: "downstream_port \<Rightarrow> ar_latch" where
  "clear_ar_latch p = \<lparr>al_valid = False, al_accepted_upstream = False, al_to_llc = False, al_extract = False,
     al_port = p, al_addr = 0, al_upstream_addr = 0, al_len = 0, al_size = port_axi_size p,
     al_burst = AXI_BURST_INCR, al_id = 0, al_master = 0, al_orig_id = 0, al_upstream_size = 0\<rparr>"

definition clear_aw_latch :: "downstream_port \<Rightarrow> aw_latch" where
  "clear_aw_latch p = \<lparr>wl_valid = False, wl_port = p, wl_addr = 0, wl_len = 0, wl_size = port_axi_size p,
     wl_burst = AXI_BURST_INCR, wl_id = 0\<rparr>"

definition init_port :: "kit_config \<Rightarrow> downstream_port \<Rightarrow> axi_io \<Rightarrow> ic_dport" where
  "init_port k p io = \<lparr>dp_io = (let io = clear_downstream_slave_inputs (clear_downstream_master_outputs io)
       in io\<lparr>io_w := (io_w io)\<lparr>wstrb := fold (\<lambda>byte msk. Compat.set_bit msk byte True)
            [0..<kDownstreamBeatBytes] (wstrb (io_w io))\<rparr>\<rparr>),
     dp_ar = clear_ar_latch p, dp_aw = clear_aw_latch p, dp_w_active = False,
     dp_w_current = write_pending_txn_zero k, dp_issue = ar_issue_meta_zero\<rparr>"

definition init_reader :: "ic_reader \<Rightarrow> ic_reader" where
  "init_reader q = ic_reader_zero\<lparr>rm_port := (rm_port q)\<lparr>mr_ready := False, mr_accepted := False,
     mr_accepted_id := 0, mr_resp_valid := False, mr_resp_data := read_data_clear, mr_resp_id := 0\<rparr>\<rparr>"

definition init_writer :: "kit_config \<Rightarrow> ic_writer \<Rightarrow> ic_writer" where
  "init_writer k w = (ic_writer_zero k)\<lparr>wm_port := (wm_port w)\<lparr>mw_ready := False, mw_accepted := False,
     mw_resp_valid := False, mw_resp_id := 0, mw_resp_resp := 0\<rparr>\<rparr>"

definition mem_side_zero :: ic_mem_side where
  "mem_side_zero = \<lparr>mb_write_resp_valid = False, mb_write_resp = 0, mb_ignored_b = 0, mb_synth_valid = False,
     mb_synth_id = 0, mb_synth_data = read_data_clear, mb_seen_valid = False, mb_seen_id = 0,
     mb_seen_addr = 0, mb_seen_size = 0\<rparr>"

definition ic_init :: "kit_config \<Rightarrow> u64 option \<Rightarrow> u64 option \<Rightarrow> ic \<Rightarrow> ic" where
  "ic_init k env_mode env_offset s = s\<lparr>
     control := sample_runtime_controls env_mode env_offset (control s),
     cache := llc_reset k (cache_config s),
     r_arb_rr_idx := 0, r_pending := [], direct_completion_seq := 0,
     readers := map init_reader (readers s), writers := map (init_writer k) (writers s),
     core_stage := llc_core_req_stage_zero k, dispatch_rr := 0, mem_side := mem_side_zero,
     w_pending := [], w_arb_rr_idx := 0,
     ddr_side := init_port k PortDDR (dp_io (ddr_side s)),
     mmio_side := init_port k PortMMIO (dp_io (mmio_side s))\<rparr>"

end
