(* ===== verification/IC_Seq_Reads.thy ===== *)
theory IC_Seq_Reads
  imports IC_Comb
begin

text \<open>
  The part of \<^verbatim>\<open>AXI_Interconnect::seq\<close> that both modes share: the AR handshakes, the queues in front
  of the cache, the R handshakes and the retirement of answered reads. Each lambda of the source
  is a definition.
\<close>

section \<open>Lists\<close>

fun erase_first :: "('a \<Rightarrow> bool) \<Rightarrow> 'a list \<Rightarrow> 'a list" where
  "erase_first P [] = []"
| "erase_first P (x # xs) = (if P x then xs else x # erase_first P xs)"

section \<open>The AR channel\<close>

definition seq_clear_accepted :: "ic \<Rightarrow> ic" where
  "seq_clear_accepted s = s\<lparr>
     readers := map (\<lambda>q. q\<lparr>rm_accepted := False, rm_accepted_id := 0\<rparr>) (readers s),
     writers := map (\<lambda>w. w\<lparr>wm_accepted := False\<rparr>) (writers s)\<rparr>"

definition latched_ar :: "downstream_port \<Rightarrow> axi4_ar \<Rightarrow> ar_issue_meta \<Rightarrow> ar_latch" where
  "latched_ar p ar m = \<lparr>al_valid = True, al_accepted_upstream = False, al_to_llc = am_from_llc m,
     al_extract = am_extract m, al_port = p, al_addr = araddr ar, al_upstream_addr = am_upstream_addr m,
     al_len = arlen ar, al_size = arsize ar, al_burst = arburst ar, al_id = arid ar,
     al_master = (if am_master m < 0 then 0 else of_int (am_master m)), al_orig_id = am_orig_id m,
     al_upstream_size = am_upstream_size m\<rparr>"

definition new_txn :: "u8 \<Rightarrow> u8 \<Rightarrow> u8 \<Rightarrow> u8 \<Rightarrow> downstream_port \<Rightarrow> u32 \<Rightarrow> u32 \<Rightarrow> u8 \<Rightarrow> bool \<Rightarrow> bool \<Rightarrow> read_pending_txn" where
  "new_txn axi_id m orig_id beats p addr up_addr up_size extract to_llc = \<lparr>rt_axi_id = axi_id, rt_master = m,
     rt_orig_id = orig_id, rt_total_beats = beats, rt_beats_done = 0, rt_port = p, rt_addr = addr,
     rt_upstream_addr = up_addr, rt_upstream_size = up_size, rt_extract = extract, rt_to_llc = to_llc,
     rt_data = read_data_clear, rt_stall_cycles = 0, rt_last_beats_done = 0, rt_completion_queued = False,
     rt_completion_seq = 0\<rparr>"

definition txn_of_latch :: "ar_latch \<Rightarrow> read_pending_txn" where
  "txn_of_latch l = new_txn (al_id l) (al_master l) (al_orig_id l) (al_len l + 1) (al_port l) (al_addr l)
     (al_upstream_addr l) (al_upstream_size l) (al_extract l) (al_to_llc l)"

definition txn_of_wires :: "downstream_port \<Rightarrow> axi4_ar \<Rightarrow> ar_issue_meta \<Rightarrow> read_pending_txn" where
  "txn_of_wires p ar m = new_txn (arid ar) (of_int (am_master m)) (am_orig_id m) (arlen ar + 1) p (araddr ar)
     (am_upstream_addr m) (am_upstream_size m) (am_extract m) (am_from_llc m)"

definition note_read_accepted :: "read_pending_txn \<Rightarrow> ic \<Rightarrow> ic" where
  "note_read_accepted t s =
     (if \<not> rt_to_llc t \<and> unat (rt_master t) < NUM_READ_MASTERS
      then upd_reader (unat (rt_master t)) (\<lambda>q. q\<lparr>rm_accepted := True, rm_accepted_id := rt_orig_id t,
             rm_hold := read_req_hold_zero\<rparr>) s
      else s)"

definition finish_ar_txn :: "read_pending_txn \<Rightarrow> ic \<Rightarrow> ic" where
  "finish_ar_txn t s =
     note_read_accepted t (s\<lparr>r_pending := r_pending s @ [t],
       r_arb_rr_idx := of_nat ((unat (rt_master t) + 1) mod NUM_READ_MASTERS)\<rparr>)"

definition release_ar_latch :: "downstream_port \<Rightarrow> ar_latch \<Rightarrow> ar_latch" where
  "release_ar_latch p l = l\<lparr>al_valid := False, al_accepted_upstream := False, al_to_llc := False,
     al_extract := False, al_port := p, al_upstream_addr := 0, al_upstream_size := 0\<rparr>"

text \<open>A request that is not taken is latched; one that is taken becomes a pending transaction, from the
  latch if there was one, from the wires otherwise.\<close>

definition latch_ar_request :: "downstream_port \<Rightarrow> ic \<Rightarrow> ic" where
  "latch_ar_request p s =
     (let ar = io_ar (dp_io (dport p s)); m = dp_issue (dport p s) in
      if arvalid ar \<and> \<not> al_valid (latch_ar p s) \<and> \<not> arready ar \<and> am_valid m
      then upd_dport p (\<lambda>d. d\<lparr>dp_ar := latched_ar p ar m\<rparr>) s else s)"

definition take_latched_ar :: "downstream_port \<Rightarrow> ic \<Rightarrow> ic" where
  "take_latched_ar p s =
     (let l = latch_ar p s; t = txn_of_latch l;
          s = upd_dport p (\<lambda>d. d\<lparr>dp_ar := release_ar_latch p (dp_ar d)\<rparr>) s
      in finish_ar_txn t (if \<not> al_accepted_upstream l then note_read_accepted t s else s))"

definition take_driven_ar :: "downstream_port \<Rightarrow> ic \<Rightarrow> ic" where
  "take_driven_ar p s =
     (let ar = io_ar (dp_io (dport p s)); m = dp_issue (dport p s) in
      if \<not> am_valid m \<or> am_master m < 0 then s
      else finish_ar_txn (txn_of_wires p ar m)
             (if \<not> am_from_llc m then upd_reader (nat (am_master m)) (\<lambda>q. q\<lparr>rm_hold := read_req_hold_zero\<rparr>) s else s))"

definition process_ar_port :: "downstream_port \<Rightarrow> ic \<Rightarrow> ic" where
  "process_ar_port p s =
     (let ar = io_ar (dp_io (dport p s)); s = latch_ar_request p s in
      if \<not> arvalid ar \<or> \<not> arready ar then s
      else if al_valid (latch_ar p s) then take_latched_ar p s else take_driven_ar p s)"

section \<open>The queues in front of the cache\<close>

definition promote_write_head :: "ic_writer \<Rightarrow> ic_writer" where
  "promote_write_head w =
     (if uw_valid (wm_up w) then w
      else case wm_up_q w of [] \<Rightarrow> w | e # es \<Rightarrow> w\<lparr>wm_up := e, wm_up_q := es\<rparr>)"

definition promote_write_heads :: "ic \<Rightarrow> ic" where
  "promote_write_heads s = s\<lparr>writers := map promote_write_head (writers s)\<rparr>"

definition stage_write :: "kit_config \<Rightarrow> nat \<Rightarrow> ic \<Rightarrow> ic" where
  "stage_write k m s =
     (upd_writer m (\<lambda>w. w\<lparr>wm_up := llc_upstream_write_req_zero k\<rparr>) s)\<lparr>
       core_stage := \<lparr>cs_valid = True, cs_is_write = True, cs_master = of_nat m, cs_read = llc_upstream_req_zero,
         cs_write = wm_up (writers s ! m)\<rparr>,
       dispatch_rr := of_nat ((NUM_READ_MASTERS + m + 1) mod (NUM_READ_MASTERS + NUM_WRITE_MASTERS))\<rparr>"

definition stage_read :: "kit_config \<Rightarrow> nat \<Rightarrow> ic \<Rightarrow> ic" where
  "stage_read k m s =
     (upd_reader m (\<lambda>q. q\<lparr>rm_up := llc_upstream_req_zero\<rparr>) s)\<lparr>
       core_stage := \<lparr>cs_valid = True, cs_is_write = False, cs_master = of_nat m, cs_read = rm_up (readers s ! m),
         cs_write = llc_upstream_write_req_zero k\<rparr>,
       dispatch_rr := of_nat ((m + 1) mod (NUM_READ_MASTERS + NUM_WRITE_MASTERS))\<rparr>"

text \<open>A write of another line overtakes a read the cache does not take.\<close>

definition preempt_stalled_read_for_write :: "kit_config \<Rightarrow> ic \<Rightarrow> ic" where
  "preempt_stalled_read_for_write k s =
     (let c = core_stage s; m = unat (cs_master c); line = cline s (ur_addr (cs_read c)) in
      if \<not> cs_valid c \<or> cs_is_write c \<or> m \<ge> NUM_READ_MASTERS \<or> out_read_req_ready (ext_out (cache s)) ! m \<or>
         ur_valid (rm_up (readers s ! m)) then s
      else case first_from (dispatch_rr s) NUM_WRITE_MASTERS (\<lambda>i. uw_valid (wm_up (writers s ! i)) \<and>
                  cline s (uw_addr (wm_up (writers s ! i))) \<noteq> line) of
             None \<Rightarrow> s
           | Some i \<Rightarrow> upd_reader m (\<lambda>q. q\<lparr>rm_up := cs_read c\<rparr>) (stage_write k i s))"

definition core_stage_pops :: "ic \<Rightarrow> bool" where
  "core_stage_pops s \<longleftrightarrow>
     (let c = core_stage s; m = unat (cs_master c); x = ext_out (cache s) in
      cs_valid c \<and>
      (if cs_is_write c then m < NUM_WRITE_MASTERS \<and> out_write_req_ready x ! m
       else m < NUM_READ_MASTERS \<and> out_read_req_ready x ! m))"

definition dispatch_core_stage :: "kit_config \<Rightarrow> ic \<Rightarrow> ic" where
  "dispatch_core_stage k s =
     (if cs_valid (core_stage s) then s
      else case first_from (dispatch_rr s) (NUM_READ_MASTERS + NUM_WRITE_MASTERS) (\<lambda>p.
                  if p < NUM_READ_MASTERS then ur_valid (rm_up (readers s ! p))
                  else uw_valid (wm_up (writers s ! (p - NUM_READ_MASTERS)))) of
             None \<Rightarrow> s
           | Some p \<Rightarrow> if p < NUM_READ_MASTERS then stage_read k p s else stage_write k (p - NUM_READ_MASTERS) s)"

definition capture_upstream_read :: "ic_reader \<Rightarrow> ic_reader" where
  "capture_upstream_read q =
     (if \<not> ur_valid (rm_up q) \<and> rm_accept q
      then q\<lparr>rm_up := rm_capture q, rm_accepted := True, rm_accepted_id := ur_id (rm_capture q)\<rparr> else q)"

definition capture_upstream_write :: "ic_writer \<Rightarrow> ic_writer" where
  "capture_upstream_write w =
     (if wm_accept w
      then (if \<not> uw_valid (wm_up w) then w\<lparr>wm_up := wm_capture w\<rparr> else w\<lparr>wm_up_q := wm_up_q w @ [wm_capture w]\<rparr>)
             \<lparr>wm_accepted := True\<rparr>
      else w)"

definition seq_llc_queues :: "kit_config \<Rightarrow> ic \<Rightarrow> ic" where
  "seq_llc_queues k s =
     (let s = (if core_stage_pops s then s\<lparr>core_stage := llc_core_req_stage_zero k\<rparr> else s);
          s = preempt_stalled_read_for_write k (promote_write_heads s);
          s = promote_write_heads (dispatch_core_stage k s)
      in s\<lparr>readers := map capture_upstream_read (readers s), writers := map capture_upstream_write (writers s)\<rparr>)"

section \<open>The R channel\<close>

definition take_read_beat :: "axi_data \<Rightarrow> u32 \<Rightarrow> read_pending_txn \<Rightarrow> read_pending_txn" where
  "take_read_beat beat seqno t =
     (let t = unpack_downstream_read_beat t beat;
          t = t\<lparr>rt_beats_done := rt_beats_done t + 1\<rparr>
      in if \<not> rt_to_llc t \<and> rt_beats_done t = rt_total_beats t \<and> \<not> rt_completion_queued t
         then t\<lparr>rt_completion_queued := True, rt_completion_seq := seqno\<rparr> else t)"

definition handle_r_handshake :: "kit_config \<Rightarrow> downstream_port \<Rightarrow> ic \<Rightarrow> ic" where
  "handle_r_handshake k p s =
     (let r = io_r (dp_io (dport p s)); q = r_pending s in
      if \<not> rvalid r \<or> \<not> rready r then s
      else case first_below (length q) (\<lambda>i. rt_port (q ! i) = p \<and> rt_axi_id (q ! i) = rid r AND kAxiIdMask k \<and>
                  rt_beats_done (q ! i) < rt_total_beats (q ! i)) of
             None \<Rightarrow> s
           | Some i \<Rightarrow>
               let t = take_read_beat (rdata r) (direct_completion_seq s) (q ! i);
                   completes = (rt_completion_queued t \<and> \<not> rt_completion_queued (q ! i))
               in s\<lparr>r_pending := q[i := t],
                    direct_completion_seq := direct_completion_seq s + (if completes then 1 else 0)\<rparr>)"

section \<open>Retirement\<close>

definition answered_txn :: "nat \<Rightarrow> u8 \<Rightarrow> read_pending_txn \<Rightarrow> bool" where
  "answered_txn m orig_id t \<longleftrightarrow>
     unat (rt_master t) = m \<and> \<not> rt_to_llc t \<and> rt_beats_done t = rt_total_beats t \<and> rt_orig_id t = orig_id"

definition retire_direct_read :: "nat \<Rightarrow> ic \<Rightarrow> ic" where
  "retire_direct_read m s =
     (let p = rport s m in
      if mr_resp_valid p \<and> mr_resp_ready p
      then s\<lparr>r_pending := erase_first (answered_txn m (mr_resp_id p AND 0xFF)) (r_pending s)\<rparr> else s)"

definition retire_llc_read :: "bool \<Rightarrow> ic \<Rightarrow> ic" where
  "retire_llc_read synth_prev s =
     (let mem_in = in_mem (ext_in (cache s)); aid = mi_read_resp_id mem_in;
          exact = (\<lambda>t. finished_for_llc t \<and> rt_orig_id t = aid)
      in if llc_enabled s \<and> \<not> synth_prev \<and> mi_read_resp_valid mem_in \<and>
            mo_read_resp_ready (out_mem (ext_out (cache s)))
         then s\<lparr>r_pending := erase_first (if list_ex exact (r_pending s) then exact else finished_for_llc) (r_pending s)\<rparr>
         else s)"

definition watch_progress :: "read_pending_txn \<Rightarrow> read_pending_txn" where
  "watch_progress t =
     (if rt_beats_done t \<ge> rt_total_beats t \<or> rt_beats_done t \<noteq> rt_last_beats_done t
      then t\<lparr>rt_stall_cycles := 0, rt_last_beats_done := rt_beats_done t\<rparr>
      else t\<lparr>rt_stall_cycles := rt_stall_cycles t + 1\<rparr>)"

definition seq_reads :: "kit_config \<Rightarrow> bool \<Rightarrow> ic \<Rightarrow> ic" where
  "seq_reads k synth_prev s =
     (let s = fold (handle_r_handshake k) both_ports s;
          s = retire_llc_read synth_prev (fold retire_direct_read [0..<NUM_READ_MASTERS] s)
      in s\<lparr>r_pending := map watch_progress (r_pending s)\<rparr>)"

end
