(* ===== verification/IC_Seq.thy ===== *)
theory IC_Seq
  imports IC_Seq_Reads
begin

text \<open>
  The rest of \<^verbatim>\<open>AXI_Interconnect::seq\<close>: the write channels with and without the cache, the responses
  on the boundary of the cache, the change of the runtime mode and the consistency check; and one
  cycle of the interconnect.
\<close>

section \<open>Responses of the cache\<close>

definition consume_llc_read_response :: "nat \<Rightarrow> ic \<Rightarrow> ic" where
  "consume_llc_read_response m s =
     (let q = readers s ! m; p = rm_port q in
      if rm_resp_valid q \<and> mr_resp_valid p \<and> mr_resp_ready p \<and> \<not> has_direct_read_response s m \<and>
         mr_resp_id p = rm_resp_id q
      then upd_reader m (\<lambda>q. q\<lparr>rm_resp_valid := False, rm_resp_data := read_data_clear, rm_resp_id := 0\<rparr>) s
      else s)"

definition llc_read_resp_accepts :: "ic \<Rightarrow> nat \<Rightarrow> bool" where
  "llc_read_resp_accepts s m \<longleftrightarrow>
     (let c = cache s in rs_valid (out_read_resp (ext_out c) ! m) \<and> in_read_resp_ready (ext_in c) ! m \<and>
        \<not> rp_fresh (LLC_Types.read_ports (regs c) ! m))"

definition take_llc_read_response :: "nat \<Rightarrow> ic \<Rightarrow> ic" where
  "take_llc_read_response m s =
     (let resp = out_read_resp (ext_out (cache s)) ! m in
      if llc_read_resp_accepts s m
      then upd_reader m (\<lambda>q. q\<lparr>rm_resp_valid := True, rm_resp_data := rs_data resp, rm_resp_id := rs_id resp\<rparr>) s
      else s)"

definition hand_over_write_response :: "ic_writer \<Rightarrow> ic_writer" where
  "hand_over_write_response w =
     (if wm_resp_valid w \<and> mw_resp_ready (wm_port w)
      then w\<lparr>wm_resp_valid := False, wm_resp_id := 0, wm_resp_resp := 0\<rparr> else w)"

definition age_write_responses :: "ic_writer \<Rightarrow> ic_writer" where
  "age_write_responses w = w\<lparr>wm_delay := map (\<lambda>e. if de_age e < 1 then e\<lparr>de_age := de_age e + 1\<rparr> else e) (wm_delay w)\<rparr>"

definition release_delayed_response :: "kit_config \<Rightarrow> nat \<Rightarrow> ic \<Rightarrow> ic" where
  "release_delayed_response k m s =
     (let w = writers s ! m in
      case wm_delay w of
        [] \<Rightarrow> s
      | e # es \<Rightarrow> if de_age e \<ge> 1 \<and> \<not> wm_resp_valid w
                  then enqueue_write_resp k m (we_id (de_entry e)) (we_resp (de_entry e)) False 0
                         (upd_writer m (\<lambda>w. w\<lparr>wm_delay := es\<rparr>) s)
                  else s)"

definition take_llc_write_response :: "nat \<Rightarrow> ic \<Rightarrow> ic" where
  "take_llc_write_response m s =
     (let c = cache s; resp = out_write_resp (ext_out c) ! m in
      if ws_valid resp \<and> in_write_resp_ready (ext_in c) ! m
      then let s = upd_writer m (\<lambda>w. w\<lparr>wm_delay := wm_delay w @ [\<lparr>de_entry = \<lparr>we_id = ws_id resp,
                   we_resp = ws_resp resp, we_line_valid = True,
                   we_line_addr = wo_resp_line_addr (LLC_Types.write_ports (regs c) ! m)\<rparr>, de_age = 0\<rparr>]\<rparr>) s
           in s\<lparr>cache := wr_write_port m (\<lambda>p. p\<lparr>wo_resp_valid := False, wo_resp_id := 0, wo_resp_code := 0,
                  wo_resp_line_addr := 0\<rparr>) c\<rparr>
      else s)"

definition seq_write_responses :: "kit_config \<Rightarrow> nat \<Rightarrow> ic \<Rightarrow> ic" where
  "seq_write_responses k m s =
     take_llc_write_response m (release_delayed_response k m
       (upd_writer m (\<lambda>w. age_write_responses (hand_over_write_response w)) s))"

section \<open>Writes with the cache\<close>

definition active_write :: "kit_config \<Rightarrow> downstream_write_issue \<Rightarrow> u8 \<Rightarrow> u8 \<Rightarrow> u8 \<Rightarrow> bool \<Rightarrow> bool \<Rightarrow> write_pending_txn" where
  "active_write k iss axi_id m orig_id to_llc victim = (write_pending_txn_zero k)\<lparr>wx_axi_id := axi_id,
     wx_master := m, wx_orig_id := orig_id, wx_port := wi_port iss, wx_addr := wi_addr iss,
     wx_wdata := wi_wdata iss, wx_wstrb := wi_wstrb iss,
     wx_total_beats := calc_burst_len (wi_total_size iss) + 1, wx_beats_sent := 0, wx_aw_done := False,
     wx_w_done := False, wx_to_llc_mem := to_llc, wx_llc_victim := victim\<rparr>"

definition latch_of_write :: "u8 \<Rightarrow> write_pending_txn \<Rightarrow> aw_latch" where
  "latch_of_write sz t = \<lparr>wl_valid = True, wl_port = wx_port t, wl_addr = wx_addr t, wl_len = wx_total_beats t - 1,
     wl_size = sz, wl_burst = AXI_BURST_INCR, wl_id = wx_axi_id t\<rparr>"

definition start_write :: "u8 \<Rightarrow> write_pending_txn \<Rightarrow> ic \<Rightarrow> ic" where
  "start_write sz t = upd_dport (wx_port t) (\<lambda>d. d\<lparr>dp_w_active := True, dp_w_current := t, dp_aw := latch_of_write sz t\<rparr>)"

definition seq_direct_write :: "kit_config \<Rightarrow> nat \<Rightarrow> ic \<Rightarrow> bool \<times> ic" where
  "seq_direct_write k m s =
     (let q = wport s m; p = classify_downstream_port k (mw_addr q) (mw_total_size q) in
      if \<not> mw_valid q \<or> \<not> wm_fire (writers s ! m) then (False, s)
      else if \<not> request_uses_mmio_port k (control s) (mw_addr q) (mw_total_size q) \<or>
              \<not> downstream_request_supported p (mw_total_size q) \<or> w_active p s \<or> wl_valid (latch_aw p s) \<or>
              \<not> can_issue_external_write k s (mw_addr q) then (False, s)
      else case alloc_write_axi_id k p s of
             None \<Rightarrow> (True, s)
           | Some axi_id \<Rightarrow>
               let iss = make_downstream_write_issue k p (mw_addr q) (mw_total_size q) (mw_wdata q) (mw_wstrb q)
                           (lc_line_bytes (cache_config s)) False;
                   s = start_write kMmioAxiSize (active_write k iss axi_id (of_nat m) (mw_id q) False False) s;
                   s = upd_writer m (\<lambda>w. w\<lparr>wm_accepted := True\<rparr>) s
               in (True, s\<lparr>w_arb_rr_idx := of_nat ((m + 1) mod NUM_WRITE_MASTERS)\<rparr>))"

definition seq_llc_write :: "kit_config \<Rightarrow> ic \<Rightarrow> ic" where
  "seq_llc_write k s =
     (let c = cache s; m = out_mem (ext_out c) in
      if mo_write_req_valid m \<and> mi_write_req_ready (in_mem (ext_in c)) \<and> can_issue_external_write k s (mo_write_req_addr m)
      then case llc_write_issue k s of
             None \<Rightarrow> s
           | Some iss \<Rightarrow> start_write (port_axi_size (wi_port iss))
               (active_write k iss (mo_write_req_id m AND kAxiIdMask k) 0 (mo_write_req_id m) True
                  (vb_valid (victim_wb (regs c)) \<or> vb_valid (victim_wb (reg_write c)))) s
      else s)"

definition seq_llc_write_channel :: "ic_dport \<Rightarrow> ic_dport" where
  "seq_llc_write_channel d =
     (let io = dp_io d;
          d = (if aw_fires io then d\<lparr>dp_aw := (dp_aw d)\<lparr>wl_valid := False\<rparr>,
                 dp_w_current := (dp_w_current d)\<lparr>wx_aw_done := True\<rparr>\<rparr> else d)
      in if dp_w_active d \<and> w_fires io
         then d\<lparr>dp_w_current := (dp_w_current d)\<lparr>wx_beats_sent := wx_beats_sent (dp_w_current d) + 1,
                wx_w_done := wx_w_done (dp_w_current d) \<or> wlast (io_w io)\<rparr>\<rparr>
         else d)"

definition seq_llc_write_port :: "downstream_port \<Rightarrow> ic \<Rightarrow> ic" where
  "seq_llc_write_port p =
     upd_dport p (\<lambda>d. let d' = seq_llc_write_channel d
       in if aw_fires (dp_io d) then d'\<lparr>dp_aw := (dp_aw d')\<lparr>wl_port := p\<rparr>\<rparr> else d')"

definition end_write :: "kit_config \<Rightarrow> ic_dport \<Rightarrow> ic_dport" where
  "end_write k d = d\<lparr>dp_w_active := False, dp_w_current := write_pending_txn_zero k\<rparr>"

definition upd_mem_side :: "(ic_mem_side \<Rightarrow> ic_mem_side) \<Rightarrow> ic \<Rightarrow> ic" where
  "upd_mem_side f s = s\<lparr>mem_side := f (mem_side s)\<rparr>"

definition handle_llc_b :: "kit_config \<Rightarrow> downstream_port \<Rightarrow> ic \<Rightarrow> ic" where
  "handle_llc_b k p s =
     (let io = dp_io (dport p s); b = io_b io; cur = w_current p s in
      if \<not> b_fires io then s
      else if w_active p s \<and> wx_w_done cur \<and> wx_axi_id cur = bid b AND kAxiIdMask k
      then upd_dport p (end_write k)
             (if wx_to_llc_mem cur then upd_mem_side (\<lambda>m. m\<lparr>mb_write_resp_valid := True, mb_write_resp := bresp b\<rparr>) s
              else if unat (wx_master cur) < NUM_WRITE_MASTERS
              then enqueue_write_resp k (unat (wx_master cur)) (wx_orig_id cur) (bresp b) False 0 s
              else s)
      else if mb_ignored_b (mem_side s) > 0 then upd_mem_side (\<lambda>m. m\<lparr>mb_ignored_b := mb_ignored_b m - 1\<rparr>) s
      else s)"

definition seq_llc_write_done :: "kit_config \<Rightarrow> bool \<Rightarrow> ic \<Rightarrow> ic" where
  "seq_llc_write_done k resp_prev s =
     (if resp_prev \<and> mo_write_resp_ready (out_mem (ext_out (cache s)))
      then fold (\<lambda>p s. if w_active p s then upd_dport p (end_write k) s else s) both_ports
             (upd_mem_side (\<lambda>m. m\<lparr>mb_write_resp_valid := False, mb_write_resp := 0\<rparr>) s)
      else s)"

text \<open>Requests of the cache for an MMIO range the ports do not support are served from the backing memory.\<close>

definition seq_synth_done :: "bool \<Rightarrow> ic \<Rightarrow> ic" where
  "seq_synth_done synth_prev s =
     (if synth_prev \<and> mo_read_resp_ready (out_mem (ext_out (cache s)))
      then upd_mem_side (\<lambda>m. m\<lparr>mb_synth_valid := False, mb_synth_id := 0, mb_synth_data := read_data_clear\<rparr>) s else s)"

definition seq_synth_read :: "kit_config \<Rightarrow> ic \<Rightarrow> ic" where
  "seq_synth_read k s =
     (let c = cache s; m = out_mem (ext_out c) in
      if mo_read_req_valid m \<and> mi_read_req_ready (in_mem (ext_in c)) \<and>
         unsupported_mmio_request (classify_downstream_port k (mo_read_req_addr m) (mo_read_req_size m)) (mo_read_req_size m)
      then upd_mem_side (\<lambda>b. b\<lparr>mb_synth_valid := True, mb_synth_id := mo_read_req_id m,
             mb_synth_data := load_legacy_mmio_backing_line (backing s) (mo_read_req_addr m)\<rparr>) s
      else s)"

definition seq_synth_write :: "kit_config \<Rightarrow> ic \<Rightarrow> ic" where
  "seq_synth_write k s =
     (let c = cache s; m = out_mem (ext_out c) in
      if mo_write_req_valid m \<and> mi_write_req_ready (in_mem (ext_in c)) \<and>
         unsupported_mmio_request (classify_downstream_port k (mo_write_req_addr m) (mo_write_req_size m)) (mo_write_req_size m)
      then upd_mem_side (\<lambda>b. b\<lparr>mb_write_resp_valid := True, mb_write_resp := AXI_RESP_OKAY\<rparr>)
             (s\<lparr>backing := store_legacy_mmio_backing_line k (mo_write_req_addr m) (mo_write_req_data m)
                  (mo_write_req_strobe m) (mo_write_req_size m) (backing s)\<rparr>)
      else s)"

definition seq_with_llc :: "kit_config \<Rightarrow> bool \<Rightarrow> bool \<Rightarrow> ic \<Rightarrow> ic" where
  "seq_with_llc k resp_prev synth_prev s =
     (let s = fold consume_llc_read_response [0..<NUM_READ_MASTERS] s;
          s = promote_write_resp_queue (fold (seq_write_responses k) [0..<NUM_WRITE_MASTERS] s);
          s = fold take_llc_read_response [0..<NUM_READ_MASTERS] s;
          s = until_stop (seq_direct_write k) (rotated_writers s) s;
          s = fold seq_llc_write_port both_ports (seq_llc_write k s);
          s = fold (handle_llc_b k) both_ports s
      in seq_synth_write k (seq_synth_read k (seq_synth_done synth_prev (seq_llc_write_done k resp_prev s))))"

section \<open>Writes without the cache\<close>

definition seq_accept_write :: "kit_config \<Rightarrow> nat \<Rightarrow> ic \<Rightarrow> bool \<times> ic" where
  "seq_accept_write k m s =
     (let q = wport s m; p = classify_downstream_port k (mw_addr q) (mw_total_size q) in
      if \<not> mw_valid q \<or> \<not> wm_fire (writers s ! m) \<or> \<not> can_accept_write_now k s then (False, s)
      else if \<not> downstream_request_supported p (mw_total_size q) then (False, s)
      else case alloc_write_axi_id k p s of
             None \<Rightarrow> (True, s)
           | Some axi_id \<Rightarrow>
               let iss = make_downstream_write_issue k p (mw_addr q) (mw_total_size q) (mw_wdata q) (mw_wstrb q)
                           (lc_line_bytes (cache_config s)) False;
                   t = active_write k iss axi_id (of_nat m) (mw_id q) False False
               in (True, upd_writer m (\<lambda>w. w\<lparr>wm_accepted := True\<rparr>)
                           (s\<lparr>w_pending := w_pending s @ [t], w_arb_rr_idx := of_nat ((m + 1) mod NUM_WRITE_MASTERS)\<rparr>)))"

definition upd_pending_write :: "downstream_port \<Rightarrow> u8 \<Rightarrow> (write_pending_txn \<Rightarrow> write_pending_txn) \<Rightarrow>
    write_pending_txn list \<Rightarrow> write_pending_txn list" where
  "upd_pending_write p aid f q =
     (case find_write_pending_by_axi_id p aid q of None \<Rightarrow> q | Some i \<Rightarrow> q[i := f (q ! i)])"

definition ic_aw_handshake :: "downstream_port \<Rightarrow> ic \<Rightarrow> ic" where
  "ic_aw_handshake p s =
     (let io = dp_io (dport p s); l = latch_aw p s;
          axi_id = (if wl_valid l then wl_id l else awid (io_aw io))
      in if aw_fires io
         then upd_dport p (\<lambda>d. d\<lparr>dp_aw := (dp_aw d)\<lparr>wl_valid := False, wl_port := p\<rparr>\<rparr>)
                (s\<lparr>w_pending := upd_pending_write p axi_id (\<lambda>t. t\<lparr>wx_aw_done := True\<rparr>) (w_pending s)\<rparr>)
         else s)"

definition ic_w_handshake :: "kit_config \<Rightarrow> downstream_port \<Rightarrow> ic \<Rightarrow> ic" where
  "ic_w_handshake k p s =
     (let io = dp_io (dport p s); aid = wx_axi_id (w_current p s) in
      if w_active p s \<and> w_fires io
      then let s = (case find_write_pending_by_axi_id p aid (w_pending s) of
                      None \<Rightarrow> s
                    | Some i \<Rightarrow> let n = wx_beats_sent (w_pending s ! i) + 1 in
                        upd_dport p (\<lambda>d. d\<lparr>dp_w_current := (dp_w_current d)\<lparr>wx_beats_sent := n\<rparr>\<rparr>)
                          (s\<lparr>w_pending := (w_pending s)[i := (w_pending s ! i)\<lparr>wx_beats_sent := n\<rparr>]\<rparr>))
           in if wlast (io_w io)
              then upd_dport p (end_write k)
                     (s\<lparr>w_pending := upd_pending_write p aid (\<lambda>t. t\<lparr>wx_w_done := True\<rparr>) (w_pending s)\<rparr>)
              else s
      else s)"

definition handle_b_handshake :: "kit_config \<Rightarrow> downstream_port \<Rightarrow> ic \<Rightarrow> ic" where
  "handle_b_handshake k p s =
     (let io = dp_io (dport p s); b = io_b io in
      if \<not> b_fires io then s
      else case find_write_pending_by_axi_id p (bid b AND kAxiIdMask k) (w_pending s) of
             None \<Rightarrow> s
           | Some i \<Rightarrow>
               let t = w_pending s ! i;
                   s = (if unat (wx_master t) < NUM_WRITE_MASTERS
                        then enqueue_write_resp k (unat (wx_master t)) (wx_orig_id t) (bresp b) False 0 s else s)
               in s\<lparr>w_pending := take i (w_pending s) @ drop (Suc i) (w_pending s)\<rparr>)"

definition seq_upstream_write_resp :: "ic_writer \<Rightarrow> ic_writer" where
  "seq_upstream_write_resp w =
     (if mw_resp_valid (wm_port w) \<and> mw_resp_ready (wm_port w)
      then w\<lparr>wm_resp_valid := False, wm_resp_id := 0, wm_resp_resp := 0\<rparr> else w)"

definition seq_latch_aw :: "kit_config \<Rightarrow> downstream_port \<Rightarrow> ic \<Rightarrow> ic" where
  "seq_latch_aw k p s =
     (if wl_valid (latch_aw p s) then s
      else case find_next_aw_pending p (w_pending s) of
             None \<Rightarrow> s
           | Some i \<Rightarrow> let t = w_pending s ! i in
               if can_issue_external_write k s (wx_addr t)
               then upd_dport p (\<lambda>d. d\<lparr>dp_aw := (latch_of_write (port_axi_size p) t)\<lparr>wl_port := p\<rparr>\<rparr>) s else s)"

definition seq_without_llc :: "kit_config \<Rightarrow> ic \<Rightarrow> ic" where
  "seq_without_llc k s =
     (let s = until_stop (seq_accept_write k) (rotated_writers s) s;
          s = fold (\<lambda>p s. ic_w_handshake k p (ic_aw_handshake p s)) both_ports s;
          s = fold (handle_b_handshake k) both_ports s;
          s = promote_write_resp_queue (s\<lparr>writers := map seq_upstream_write_resp (writers s)\<rparr>);
          s = fold (seq_latch_aw k) both_ports s
      in fold (refresh_non_llc_w_active k) both_ports s)"

section \<open>The end of a cycle\<close>

definition forget_seen_read :: "ic \<Rightarrow> ic" where
  "forget_seen_read s =
     (if \<not> mo_read_req_valid (out_mem (ext_out (cache s)))
      then upd_mem_side (\<lambda>m. m\<lparr>mb_seen_valid := False, mb_seen_id := 0, mb_seen_addr := 0, mb_seen_size := 0\<rparr>) s
      else s)"

definition seq_reconfig :: "bool \<Rightarrow> u8 \<Rightarrow> u32 \<Rightarrow> bool \<Rightarrow> ic_control \<Rightarrow> ic_control" where
  "seq_reconfig requested_diff req_mode req_offset accepted c =
     (let c = (if requested_diff
               then c\<lparr>ct_reconfig_pending := True, ct_target_mode := req_mode, ct_target_offset := req_offset\<rparr>
               else if ct_reconfig_pending c
               then c\<lparr>ct_reconfig_pending := False, ct_target_mode := ct_runtime_mode c,
                      ct_target_offset := ct_mapped_offset c\<rparr>
               else c)
      in if ct_reconfig_pending c \<and> accepted
         then c\<lparr>ct_runtime_mode := ct_target_mode c, ct_mapped_offset := ct_target_offset c, ct_reconfig_pending := False\<rparr>
         else c)"

text \<open>A read request the cache took must be somewhere in the cache.\<close>

definition read_retained :: "kit_config \<Rightarrow> ic \<Rightarrow> nat \<Rightarrow> u8 \<Rightarrow> bool" where
  "read_retained k s m aid \<longleftrightarrow>
     (let r = regs (cache s); p = LLC_Types.read_ports r ! m in
      (lk_valid (lookup r) \<and> lk_master (lookup r) = of_nat m \<and> lk_id (lookup r) = aid) \<or>
      list_ex (\<lambda>i. let e = mshr r ! i in ms_valid e \<and> \<not> ms_is_prefetch e \<and> ms_master e = of_nat m \<and> ms_id e = aid)
        [0..<mshr_limit k (cache_config s)] \<or>
      (rp_valid p \<and> rp_id p = aid) \<or>
      list_ex (\<lambda>off. rp_q_id p ! ((unat (rp_head p) + off) mod READ_RESP_QUEUE_DEPTH k) = aid) [0..<unat (rp_count p)])"

definition assert_llc_consumed_reads :: "kit_config \<Rightarrow> llc_core_req_stage \<Rightarrow> ic \<Rightarrow> ic" where
  "assert_llc_consumed_reads k prev s =
     (let m = unat (cs_master prev) in
      if llc_enabled s \<and> cs_valid prev \<and> \<not> cs_is_write prev \<and> m < NUM_READ_MASTERS \<and>
         out_read_req_ready (ext_out (cache s)) ! m \<and> \<not> read_retained k s m (ur_id (cs_read prev))
      then s\<lparr>exited := True\<rparr> else s)"

definition ic_seq :: "kit_config \<Rightarrow> ic \<Rightarrow> ic" where
  "ic_seq k s =
     (let prev = core_stage s;
          resp_prev = mb_write_resp_valid (mem_side s); synth_prev = mb_synth_valid (mem_side s);
          req_mode = requested_mode (control s); req_offset = requested_llc_mapped_offset (control s);
          diff = requested_config_differs_from_active (control s);
          s = fold process_ar_port both_ports (seq_clear_accepted s);
          s = (if llc_enabled s then seq_llc_queues k s else s);
          s = seq_reads k synth_prev s;
          s = (if llc_enabled s then seq_with_llc k resp_prev synth_prev s else seq_without_llc k s);
          s = forget_seen_read (s\<lparr>cache := llc_seq (cache s)\<rparr>);
          s = s\<lparr>control := seq_reconfig diff req_mode req_offset
                 (invalidate_all_accepted (out_mem (ext_out (cache s)))) (control s)\<rparr>
      in assert_llc_consumed_reads k prev s)"

section \<open>A cycle\<close>

text \<open>
  What drives one cycle. Before the output phase the slaves drive their response wires and the
  tables their rows; the masters then see the outputs and drive their requests and readies; after
  the input phase the slaves answer with their readies.
\<close>

record ic_input =
  i_responses :: "downstream_port \<Rightarrow> axi4_r \<times> axi4_b"
  i_rows :: llc_lookup_in
  i_time :: u64
  i_mode :: u8
  i_offset :: u32
  i_maintenance :: ic_maintenance
  i_reads :: "nat \<Rightarrow> read_master_port"
  i_writes :: "nat \<Rightarrow> write_master_port"
  i_ready :: "downstream_port \<Rightarrow> bool \<times> bool \<times> bool"

definition slave_responses :: "axi4_r \<times> axi4_b \<Rightarrow> axi_io \<Rightarrow> axi_io" where
  "slave_responses rb io = (case rb of (r, b) \<Rightarrow>
     io\<lparr>io_r := r\<lparr>rready := rready (io_r io)\<rparr>, io_b := b\<lparr>bready := bready (io_b io)\<rparr>\<rparr>)"

definition drive_first :: "ic_input \<Rightarrow> ic \<Rightarrow> ic" where
  "drive_first i s =
     (let s = fold (\<lambda>p. upd_io p (slave_responses (i_responses i p))) both_ports s
      in s\<lparr>control := (control s)\<lparr>ct_mode := i_mode i, ct_offset := i_offset i\<rparr>, maintenance := i_maintenance i,
           cache := (cache s)\<lparr>lookup_in := i_rows i, sim_time := i_time i\<rparr>\<rparr>)"

definition drive_read_master :: "read_master_port \<Rightarrow> read_master_port \<Rightarrow> read_master_port" where
  "drive_read_master d p = p\<lparr>mr_valid := mr_valid d, mr_addr := mr_addr d, mr_total_size := mr_total_size d,
     mr_id := mr_id d, mr_bypass := mr_bypass d, mr_resp_ready := mr_resp_ready d\<rparr>"

definition drive_write_master :: "write_master_port \<Rightarrow> write_master_port \<Rightarrow> write_master_port" where
  "drive_write_master d p = p\<lparr>mw_valid := mw_valid d, mw_addr := mw_addr d, mw_wdata := mw_wdata d,
     mw_wstrb := mw_wstrb d, mw_total_size := mw_total_size d, mw_id := mw_id d, mw_bypass := mw_bypass d,
     mw_resp_ready := mw_resp_ready d\<rparr>"

definition drive_masters :: "ic_input \<Rightarrow> ic \<Rightarrow> ic" where
  "drive_masters i s =
     fold (\<lambda>m. upd_wport m (drive_write_master (i_writes i m))) [0..<NUM_WRITE_MASTERS]
       (fold (\<lambda>m. upd_rport m (drive_read_master (i_reads i m))) [0..<NUM_READ_MASTERS] s)"

definition slave_readies :: "bool \<times> bool \<times> bool \<Rightarrow> axi_io \<Rightarrow> axi_io" where
  "slave_readies r io = (case r of (ar, aw, w) \<Rightarrow>
     io\<lparr>io_ar := (io_ar io)\<lparr>arready := ar\<rparr>, io_aw := (io_aw io)\<lparr>awready := aw\<rparr>, io_w := (io_w io)\<lparr>wready := w\<rparr>\<rparr>)"

definition drive_readies :: "ic_input \<Rightarrow> ic \<Rightarrow> ic" where
  "drive_readies i s = fold (\<lambda>p. upd_io p (slave_readies (i_ready i p))) both_ports s"

definition ic_before_edge :: "kit_config \<Rightarrow> ic_input \<Rightarrow> ic \<Rightarrow> ic" where
  "ic_before_edge k i s =
     drive_readies i (comb_inputs k (drive_masters i (comb_outputs k (drive_first i s))))"

definition ic_cycle :: "kit_config \<Rightarrow> ic_input \<Rightarrow> ic \<Rightarrow> ic" where
  "ic_cycle k i s = ic_seq k (ic_before_edge k i s)"

end
