(* ===== verification/IC_Frames.thy ===== *)
theory IC_Frames
  imports IC_Seq LLC_Frames
begin

text \<open>
  Which stage of the interconnect touches which part of its state. The state of the two ports is
  looked at channel by channel: \<open>ar_view\<close> (the AR wires, latches and what is being issued),
  \<open>aw_view\<close> (the AW and W wires, latches and active writes) and \<open>rb_view\<close> (the response wires). The
  collection \<open>ic_frame\<close> says, per function, which views and fields it does not change.
\<close>

named_theorems ic_frame

definition ar_of :: "ic_dport \<Rightarrow> axi4_ar \<times> ar_latch \<times> ar_issue_meta" where
  "ar_of d = (io_ar (dp_io d), dp_ar d, dp_issue d)"

definition aw_of :: "ic_dport \<Rightarrow> axi4_aw \<times> axi4_w \<times> aw_latch \<times> bool \<times> write_pending_txn" where
  "aw_of d = (io_aw (dp_io d), io_w (dp_io d), dp_aw d, dp_w_active d, dp_w_current d)"

definition rb_of :: "ic_dport \<Rightarrow> axi4_r \<times> axi4_b" where
  "rb_of d = (io_r (dp_io d), io_b (dp_io d))"

definition ar_view :: "ic \<Rightarrow> downstream_port \<Rightarrow> axi4_ar \<times> ar_latch \<times> ar_issue_meta" where
  "ar_view s p = ar_of (dport p s)"

definition aw_view :: "ic \<Rightarrow> downstream_port \<Rightarrow> axi4_aw \<times> axi4_w \<times> aw_latch \<times> bool \<times> write_pending_txn" where
  "aw_view s p = aw_of (dport p s)"

definition rb_view :: "ic \<Rightarrow> downstream_port \<Rightarrow> axi4_r \<times> axi4_b" where
  "rb_view s p = rb_of (dport p s)"

lemma dport_upd [simp]: "dport q (upd_dport p f s) = (if p = q then f (dport p s) else dport q s)"
  by (cases p; cases q; simp add: dport_def upd_dport_def)

lemma dport_fields [simp]:
  "dport p (s\<lparr>readers := a1\<rparr>) = dport p s" "dport p (s\<lparr>writers := a2\<rparr>) = dport p s"
  "dport p (s\<lparr>r_arb_rr_idx := a3\<rparr>) = dport p s" "dport p (s\<lparr>r_pending := a4\<rparr>) = dport p s"
  "dport p (s\<lparr>direct_completion_seq := a5\<rparr>) = dport p s" "dport p (s\<lparr>w_arb_rr_idx := a6\<rparr>) = dport p s"
  "dport p (s\<lparr>w_pending := a7\<rparr>) = dport p s" "dport p (s\<lparr>control := a8\<rparr>) = dport p s"
  "dport p (s\<lparr>cache := a9\<rparr>) = dport p s" "dport p (s\<lparr>maintenance := a10\<rparr>) = dport p s"
  "dport p (s\<lparr>core_stage := a11\<rparr>) = dport p s" "dport p (s\<lparr>dispatch_rr := a12\<rparr>) = dport p s"
  "dport p (s\<lparr>mem_side := a13\<rparr>) = dport p s" "dport p (s\<lparr>backing := a14\<rparr>) = dport p s"
  "dport p (s\<lparr>exited := a15\<rparr>) = dport p s" "dport p (upd_reader m f1 s) = dport p s"
  "dport p (upd_writer m f2 s) = dport p s"
  by (cases p; simp add: dport_def upd_reader_def upd_writer_def)+

lemma dport_sides [simp]: "dport p (s\<lparr>ddr_side := a, mmio_side := b\<rparr>) = (case p of PortDDR \<Rightarrow> a | PortMMIO \<Rightarrow> b)"
  by (cases p; simp add: dport_def)

lemma upd_dport_fields [simp]:
  "readers (upd_dport p f s) = readers s" "writers (upd_dport p f s) = writers s"
  "r_pending (upd_dport p f s) = r_pending s" "w_pending (upd_dport p f s) = w_pending s"
  "r_arb_rr_idx (upd_dport p f s) = r_arb_rr_idx s" "w_arb_rr_idx (upd_dport p f s) = w_arb_rr_idx s"
  "direct_completion_seq (upd_dport p f s) = direct_completion_seq s" "control (upd_dport p f s) = control s"
  "cache_config (upd_dport p f s) = cache_config s" "cache (upd_dport p f s) = cache s"
  "maintenance (upd_dport p f s) = maintenance s" "core_stage (upd_dport p f s) = core_stage s"
  "dispatch_rr (upd_dport p f s) = dispatch_rr s" "mem_side (upd_dport p f s) = mem_side s"
  "backing (upd_dport p f s) = backing s" "exited (upd_dport p f s) = exited s"
  by (cases p; simp add: upd_dport_def)+

lemma upd_side_fields [simp]:
  "writers (upd_reader m f s) = writers s" "readers (upd_writer m g s) = readers s"
  "r_pending (upd_reader m f s) = r_pending s" "r_pending (upd_writer m g s) = r_pending s"
  "w_pending (upd_reader m f s) = w_pending s" "w_pending (upd_writer m g s) = w_pending s"
  "r_arb_rr_idx (upd_reader m f s) = r_arb_rr_idx s" "r_arb_rr_idx (upd_writer m g s) = r_arb_rr_idx s"
  "w_arb_rr_idx (upd_reader m f s) = w_arb_rr_idx s" "w_arb_rr_idx (upd_writer m g s) = w_arb_rr_idx s"
  "direct_completion_seq (upd_reader m f s) = direct_completion_seq s"
  "direct_completion_seq (upd_writer m g s) = direct_completion_seq s"
  "control (upd_reader m f s) = control s" "control (upd_writer m g s) = control s"
  "cache_config (upd_reader m f s) = cache_config s" "cache_config (upd_writer m g s) = cache_config s"
  "cache (upd_reader m f s) = cache s" "cache (upd_writer m g s) = cache s"
  "maintenance (upd_reader m f s) = maintenance s" "maintenance (upd_writer m g s) = maintenance s"
  "core_stage (upd_reader m f s) = core_stage s" "core_stage (upd_writer m g s) = core_stage s"
  "dispatch_rr (upd_reader m f s) = dispatch_rr s" "dispatch_rr (upd_writer m g s) = dispatch_rr s"
  "mem_side (upd_reader m f s) = mem_side s" "mem_side (upd_writer m g s) = mem_side s"
  "backing (upd_reader m f s) = backing s" "backing (upd_writer m g s) = backing s"
  "exited (upd_reader m f s) = exited s" "exited (upd_writer m g s) = exited s"
  by (simp_all add: upd_reader_def upd_writer_def)

lemma readers_upd_reader [simp]: "readers (upd_reader m f s) = upd m f (readers s)"
  and writers_upd_writer [simp]: "writers (upd_writer m g s) = upd m g (writers s)"
  by (simp_all add: upd_reader_def upd_writer_def)

lemmas ports_defs [ic_frame] = upd_io_def upd_rport_def upd_wport_def

lemma view_fields [simp]:
  "ar_view (s\<lparr>readers := a1\<rparr>) = ar_view s" "ar_view (s\<lparr>writers := a2\<rparr>) = ar_view s" "ar_view (s\<lparr>r_arb_rr_idx := a3\<rparr>) = ar_view s"
  "ar_view (s\<lparr>r_pending := a4\<rparr>) = ar_view s" "ar_view (s\<lparr>direct_completion_seq := a5\<rparr>) = ar_view s" "ar_view (s\<lparr>w_arb_rr_idx := a6\<rparr>) = ar_view s"
  "ar_view (s\<lparr>w_pending := a7\<rparr>) = ar_view s" "ar_view (s\<lparr>control := a8\<rparr>) = ar_view s" "ar_view (s\<lparr>cache := a9\<rparr>) = ar_view s"
  "ar_view (s\<lparr>maintenance := a10\<rparr>) = ar_view s" "ar_view (s\<lparr>core_stage := a11\<rparr>) = ar_view s" "ar_view (s\<lparr>dispatch_rr := a12\<rparr>) = ar_view s"
  "ar_view (s\<lparr>mem_side := a13\<rparr>) = ar_view s" "ar_view (s\<lparr>backing := a14\<rparr>) = ar_view s" "ar_view (s\<lparr>exited := a15\<rparr>) = ar_view s"
  "ar_view (upd_reader m f1 s) = ar_view s" "ar_view (upd_writer m f2 s) = ar_view s"
  "aw_view (s\<lparr>readers := a1\<rparr>) = aw_view s" "aw_view (s\<lparr>writers := a2\<rparr>) = aw_view s" "aw_view (s\<lparr>r_arb_rr_idx := a3\<rparr>) = aw_view s"
  "aw_view (s\<lparr>r_pending := a4\<rparr>) = aw_view s" "aw_view (s\<lparr>direct_completion_seq := a5\<rparr>) = aw_view s" "aw_view (s\<lparr>w_arb_rr_idx := a6\<rparr>) = aw_view s"
  "aw_view (s\<lparr>w_pending := a7\<rparr>) = aw_view s" "aw_view (s\<lparr>control := a8\<rparr>) = aw_view s" "aw_view (s\<lparr>cache := a9\<rparr>) = aw_view s"
  "aw_view (s\<lparr>maintenance := a10\<rparr>) = aw_view s" "aw_view (s\<lparr>core_stage := a11\<rparr>) = aw_view s" "aw_view (s\<lparr>dispatch_rr := a12\<rparr>) = aw_view s"
  "aw_view (s\<lparr>mem_side := a13\<rparr>) = aw_view s" "aw_view (s\<lparr>backing := a14\<rparr>) = aw_view s" "aw_view (s\<lparr>exited := a15\<rparr>) = aw_view s"
  "aw_view (upd_reader m f1 s) = aw_view s" "aw_view (upd_writer m f2 s) = aw_view s"
  "rb_view (s\<lparr>readers := a1\<rparr>) = rb_view s" "rb_view (s\<lparr>writers := a2\<rparr>) = rb_view s" "rb_view (s\<lparr>r_arb_rr_idx := a3\<rparr>) = rb_view s"
  "rb_view (s\<lparr>r_pending := a4\<rparr>) = rb_view s" "rb_view (s\<lparr>direct_completion_seq := a5\<rparr>) = rb_view s" "rb_view (s\<lparr>w_arb_rr_idx := a6\<rparr>) = rb_view s"
  "rb_view (s\<lparr>w_pending := a7\<rparr>) = rb_view s" "rb_view (s\<lparr>control := a8\<rparr>) = rb_view s" "rb_view (s\<lparr>cache := a9\<rparr>) = rb_view s"
  "rb_view (s\<lparr>maintenance := a10\<rparr>) = rb_view s" "rb_view (s\<lparr>core_stage := a11\<rparr>) = rb_view s" "rb_view (s\<lparr>dispatch_rr := a12\<rparr>) = rb_view s"
  "rb_view (s\<lparr>mem_side := a13\<rparr>) = rb_view s" "rb_view (s\<lparr>backing := a14\<rparr>) = rb_view s" "rb_view (s\<lparr>exited := a15\<rparr>) = rb_view s"
  "rb_view (upd_reader m f1 s) = rb_view s" "rb_view (upd_writer m f2 s) = rb_view s"
  by (simp_all add: ar_view_def aw_view_def rb_view_def fun_eq_iff)

lemma view_upd [simp]:
  "(\<And>d. ar_of (f d) = ar_of d) \<Longrightarrow> ar_view (upd_dport p f s) = ar_view s"
  "(\<And>d. aw_of (f d) = aw_of d) \<Longrightarrow> aw_view (upd_dport p f s) = aw_view s"
  "(\<And>d. rb_of (f d) = rb_of d) \<Longrightarrow> rb_view (upd_dport p f s) = rb_view s"
  by (simp_all add: ar_view_def aw_view_def rb_view_def fun_eq_iff)

lemma of_fields [simp]:
  "ar_of (d\<lparr>dp_aw := a\<rparr>) = ar_of d" "ar_of (d\<lparr>dp_w_active := b\<rparr>) = ar_of d" "ar_of (d\<lparr>dp_w_current := t\<rparr>) = ar_of d"
  "aw_of (d\<lparr>dp_ar := l\<rparr>) = aw_of d" "aw_of (d\<lparr>dp_issue := i\<rparr>) = aw_of d"
  "rb_of (d\<lparr>dp_ar := l\<rparr>) = rb_of d" "rb_of (d\<lparr>dp_issue := i\<rparr>) = rb_of d" "rb_of (d\<lparr>dp_aw := a\<rparr>) = rb_of d"
  "rb_of (d\<lparr>dp_w_active := b\<rparr>) = rb_of d" "rb_of (d\<lparr>dp_w_current := t\<rparr>) = rb_of d"
  by (simp_all add: ar_of_def aw_of_def rb_of_def)

lemma of_io [simp]:
  "io_ar x = io_ar (dp_io d) \<Longrightarrow> ar_of (d\<lparr>dp_io := x\<rparr>) = ar_of d"
  "io_aw x = io_aw (dp_io d) \<Longrightarrow> io_w x = io_w (dp_io d) \<Longrightarrow> aw_of (d\<lparr>dp_io := x\<rparr>) = aw_of d"
  "io_r x = io_r (dp_io d) \<Longrightarrow> io_b x = io_b (dp_io d) \<Longrightarrow> rb_of (d\<lparr>dp_io := x\<rparr>) = rb_of d"
  by (simp_all add: ar_of_def aw_of_def rb_of_def)

lemma until_stop_frame: "(\<And>x s. g (snd (f x s)) = g s) \<Longrightarrow> g (until_stop f xs s) = g s"
proof (induction xs arbitrary: s)
  case (Cons x xs)
  then show ?case by (cases "f x s") (simp, metis snd_conv)
qed simp


section \<open>Stages\<close>

lemma prepare_frame [ic_frame]:
  "ar_view (prepare_llc_inputs k b s) = ar_view s"
  "aw_view (prepare_llc_inputs k b s) = aw_view s"
  "rb_view (prepare_llc_inputs k b s) = rb_view s"
  "readers (prepare_llc_inputs k b s) = readers s"
  "writers (prepare_llc_inputs k b s) = writers s"
  "r_pending (prepare_llc_inputs k b s) = r_pending s"
  "direct_completion_seq (prepare_llc_inputs k b s) = direct_completion_seq s"
  "w_pending (prepare_llc_inputs k b s) = w_pending s"
  "control (prepare_llc_inputs k b s) = control s"
  "cache_config (prepare_llc_inputs k b s) = cache_config s"
  "maintenance (prepare_llc_inputs k b s) = maintenance s"
  "core_stage (prepare_llc_inputs k b s) = core_stage s"
  "mem_side (prepare_llc_inputs k b s) = mem_side s"
  "exited (prepare_llc_inputs k b s) = exited s"
  by (simp_all add: prepare_llc_inputs_def Let_def ic_frame )

lemma run_llc_frame [ic_frame]:
  "ar_view (run_llc_comb k s) = ar_view s"
  "aw_view (run_llc_comb k s) = aw_view s"
  "rb_view (run_llc_comb k s) = rb_view s"
  "readers (run_llc_comb k s) = readers s"
  "writers (run_llc_comb k s) = writers s"
  "r_pending (run_llc_comb k s) = r_pending s"
  "direct_completion_seq (run_llc_comb k s) = direct_completion_seq s"
  "w_pending (run_llc_comb k s) = w_pending s"
  "control (run_llc_comb k s) = control s"
  "cache_config (run_llc_comb k s) = cache_config s"
  "maintenance (run_llc_comb k s) = maintenance s"
  "core_stage (run_llc_comb k s) = core_stage s"
  "mem_side (run_llc_comb k s) = mem_side s"
  "exited (run_llc_comb k s) = exited s"
  by (simp_all add: run_llc_comb_def Let_def ic_frame )

lemma read_response_frame [ic_frame]:
  "ar_view (comb_read_response s) = ar_view s"
  "aw_view (comb_read_response s) = aw_view s"
  "writers (comb_read_response s) = writers s"
  "r_pending (comb_read_response s) = r_pending s"
  "direct_completion_seq (comb_read_response s) = direct_completion_seq s"
  "w_pending (comb_read_response s) = w_pending s"
  "control (comb_read_response s) = control s"
  "cache_config (comb_read_response s) = cache_config s"
  "cache (comb_read_response s) = cache s"
  "maintenance (comb_read_response s) = maintenance s"
  "core_stage (comb_read_response s) = core_stage s"
  "mem_side (comb_read_response s) = mem_side s"
  "exited (comb_read_response s) = exited s"
  by (simp_all add: comb_read_response_def masters_upt Let_def ic_frame )

lemma set_bready_frame [ic_frame]:
  "ar_view (set_bready p b s) = ar_view s"
  "aw_view (set_bready p b s) = aw_view s"
  "readers (set_bready p b s) = readers s"
  "writers (set_bready p b s) = writers s"
  "r_pending (set_bready p b s) = r_pending s"
  "direct_completion_seq (set_bready p b s) = direct_completion_seq s"
  "w_pending (set_bready p b s) = w_pending s"
  "control (set_bready p b s) = control s"
  "cache_config (set_bready p b s) = cache_config s"
  "cache (set_bready p b s) = cache s"
  "maintenance (set_bready p b s) = maintenance s"
  "core_stage (set_bready p b s) = core_stage s"
  "mem_side (set_bready p b s) = mem_side s"
  "exited (set_bready p b s) = exited s"
  by (simp_all add: set_bready_def Let_def ic_frame )

lemma write_response_frame [ic_frame]:
  "ar_view (comb_write_response k s) = ar_view s"
  "aw_view (comb_write_response k s) = aw_view s"
  "readers (comb_write_response k s) = readers s"
  "r_pending (comb_write_response k s) = r_pending s"
  "direct_completion_seq (comb_write_response k s) = direct_completion_seq s"
  "w_pending (comb_write_response k s) = w_pending s"
  "control (comb_write_response k s) = control s"
  "cache_config (comb_write_response k s) = cache_config s"
  "cache (comb_write_response k s) = cache s"
  "maintenance (comb_write_response k s) = maintenance s"
  "core_stage (comb_write_response k s) = core_stage s"
  "mem_side (comb_write_response k s) = mem_side s"
  "exited (comb_write_response k s) = exited s"
  by (simp_all add: comb_write_response_def Let_def ic_frame )

lemma keep_latched_frame [ic_frame]:
  "ar_view (keep_latched_ready p s) = ar_view s"
  "aw_view (keep_latched_ready p s) = aw_view s"
  "rb_view (keep_latched_ready p s) = rb_view s"
  "writers (keep_latched_ready p s) = writers s"
  "r_pending (keep_latched_ready p s) = r_pending s"
  "direct_completion_seq (keep_latched_ready p s) = direct_completion_seq s"
  "w_pending (keep_latched_ready p s) = w_pending s"
  "control (keep_latched_ready p s) = control s"
  "cache_config (keep_latched_ready p s) = cache_config s"
  "cache (keep_latched_ready p s) = cache s"
  "maintenance (keep_latched_ready p s) = maintenance s"
  "core_stage (keep_latched_ready p s) = core_stage s"
  "mem_side (keep_latched_ready p s) = mem_side s"
  "exited (keep_latched_ready p s) = exited s"
  by (simp_all add: keep_latched_ready_def Let_def ic_frame )

lemma show_write_frame [ic_frame]:
  "ar_view (show_write_ready k m s) = ar_view s"
  "aw_view (show_write_ready k m s) = aw_view s"
  "rb_view (show_write_ready k m s) = rb_view s"
  "readers (show_write_ready k m s) = readers s"
  "r_pending (show_write_ready k m s) = r_pending s"
  "direct_completion_seq (show_write_ready k m s) = direct_completion_seq s"
  "w_pending (show_write_ready k m s) = w_pending s"
  "control (show_write_ready k m s) = control s"
  "cache_config (show_write_ready k m s) = cache_config s"
  "cache (show_write_ready k m s) = cache s"
  "maintenance (show_write_ready k m s) = maintenance s"
  "core_stage (show_write_ready k m s) = core_stage s"
  "mem_side (show_write_ready k m s) = mem_side s"
  "exited (show_write_ready k m s) = exited s"
  by (simp_all add: show_write_ready_def Let_def ic_frame )

lemma outputs_frame [ic_frame]:
  "ar_view (comb_outputs k s) = ar_view s"
  "aw_view (comb_outputs k s) = aw_view s"
  "r_pending (comb_outputs k s) = r_pending s"
  "direct_completion_seq (comb_outputs k s) = direct_completion_seq s"
  "w_pending (comb_outputs k s) = w_pending s"
  "control (comb_outputs k s) = control s"
  "cache_config (comb_outputs k s) = cache_config s"
  "maintenance (comb_outputs k s) = maintenance s"
  "core_stage (comb_outputs k s) = core_stage s"
  "mem_side (comb_outputs k s) = mem_side s"
  "exited (comb_outputs k s) = exited s"
  by (simp_all add: comb_outputs_def masters_upt Let_def ic_frame )

lemmas until_stop_views =
  until_stop_frame [where g = ar_view]
  until_stop_frame [where g = aw_view]
  until_stop_frame [where g = rb_view]
  until_stop_frame [where g = readers]
  until_stop_frame [where g = writers]
  until_stop_frame [where g = r_pending]
  until_stop_frame [where g = direct_completion_seq]
  until_stop_frame [where g = w_pending]
  until_stop_frame [where g = control]
  until_stop_frame [where g = cache_config]
  until_stop_frame [where g = cache]
  until_stop_frame [where g = maintenance]
  until_stop_frame [where g = core_stage]
  until_stop_frame [where g = mem_side]
  until_stop_frame [where g = exited]

lemma begin_write_frame [ic_frame]:
  "ar_view (write_begin k s) = ar_view s"
  "rb_view (write_begin k s) = rb_view s"
  "readers (write_begin k s) = readers s"
  "r_pending (write_begin k s) = r_pending s"
  "direct_completion_seq (write_begin k s) = direct_completion_seq s"
  "w_pending (write_begin k s) = w_pending s"
  "control (write_begin k s) = control s"
  "cache_config (write_begin k s) = cache_config s"
  "cache (write_begin k s) = cache s"
  "maintenance (write_begin k s) = maintenance s"
  "core_stage (write_begin k s) = core_stage s"
  "mem_side (write_begin k s) = mem_side s"
  "exited (write_begin k s) = exited s"
  by (simp_all add: write_begin_def write_begin_port_def ar_view_def rb_view_def fun_eq_iff dport_def Let_def ic_frame split: downstream_port.split)

lemma drive_aw_frame [ic_frame]:
  "ar_view (ic_drive_aw p a l z b i s) = ar_view s"
  "rb_view (ic_drive_aw p a l z b i s) = rb_view s"
  "readers (ic_drive_aw p a l z b i s) = readers s"
  "writers (ic_drive_aw p a l z b i s) = writers s"
  "r_pending (ic_drive_aw p a l z b i s) = r_pending s"
  "direct_completion_seq (ic_drive_aw p a l z b i s) = direct_completion_seq s"
  "w_pending (ic_drive_aw p a l z b i s) = w_pending s"
  "control (ic_drive_aw p a l z b i s) = control s"
  "cache_config (ic_drive_aw p a l z b i s) = cache_config s"
  "cache (ic_drive_aw p a l z b i s) = cache s"
  "maintenance (ic_drive_aw p a l z b i s) = maintenance s"
  "core_stage (ic_drive_aw p a l z b i s) = core_stage s"
  "mem_side (ic_drive_aw p a l z b i s) = mem_side s"
  "exited (ic_drive_aw p a l z b i s) = exited s"
  by (simp_all add: ic_drive_aw_def Let_def ic_frame )

lemma drive_aw_latch_frame [ic_frame]:
  "ar_view (drive_aw_latch p s) = ar_view s"
  "rb_view (drive_aw_latch p s) = rb_view s"
  "readers (drive_aw_latch p s) = readers s"
  "writers (drive_aw_latch p s) = writers s"
  "r_pending (drive_aw_latch p s) = r_pending s"
  "direct_completion_seq (drive_aw_latch p s) = direct_completion_seq s"
  "w_pending (drive_aw_latch p s) = w_pending s"
  "control (drive_aw_latch p s) = control s"
  "cache_config (drive_aw_latch p s) = cache_config s"
  "cache (drive_aw_latch p s) = cache s"
  "maintenance (drive_aw_latch p s) = maintenance s"
  "core_stage (drive_aw_latch p s) = core_stage s"
  "mem_side (drive_aw_latch p s) = mem_side s"
  "exited (drive_aw_latch p s) = exited s"
  by (simp_all add: drive_aw_latch_def Let_def ic_frame )

lemma drive_aw_txn_frame [ic_frame]:
  "ar_view (drive_aw_txn t s) = ar_view s"
  "rb_view (drive_aw_txn t s) = rb_view s"
  "readers (drive_aw_txn t s) = readers s"
  "writers (drive_aw_txn t s) = writers s"
  "r_pending (drive_aw_txn t s) = r_pending s"
  "direct_completion_seq (drive_aw_txn t s) = direct_completion_seq s"
  "w_pending (drive_aw_txn t s) = w_pending s"
  "control (drive_aw_txn t s) = control s"
  "cache_config (drive_aw_txn t s) = cache_config s"
  "cache (drive_aw_txn t s) = cache s"
  "maintenance (drive_aw_txn t s) = maintenance s"
  "core_stage (drive_aw_txn t s) = core_stage s"
  "mem_side (drive_aw_txn t s) = mem_side s"
  "exited (drive_aw_txn t s) = exited s"
  by (simp_all add: drive_aw_txn_def Let_def ic_frame )

lemma drive_w_frame [ic_frame]:
  "ar_view (drive_w_current k p s) = ar_view s"
  "rb_view (drive_w_current k p s) = rb_view s"
  "readers (drive_w_current k p s) = readers s"
  "writers (drive_w_current k p s) = writers s"
  "r_pending (drive_w_current k p s) = r_pending s"
  "direct_completion_seq (drive_w_current k p s) = direct_completion_seq s"
  "w_pending (drive_w_current k p s) = w_pending s"
  "control (drive_w_current k p s) = control s"
  "cache_config (drive_w_current k p s) = cache_config s"
  "cache (drive_w_current k p s) = cache s"
  "maintenance (drive_w_current k p s) = maintenance s"
  "core_stage (drive_w_current k p s) = core_stage s"
  "mem_side (drive_w_current k p s) = mem_side s"
  "exited (drive_w_current k p s) = exited s"
  by (simp_all add: drive_w_current_def Let_def ic_frame )

lemma drive_llc_write_frame [ic_frame]:
  "ar_view (drive_llc_write k s) = ar_view s"
  "rb_view (drive_llc_write k s) = rb_view s"
  "readers (drive_llc_write k s) = readers s"
  "writers (drive_llc_write k s) = writers s"
  "r_pending (drive_llc_write k s) = r_pending s"
  "direct_completion_seq (drive_llc_write k s) = direct_completion_seq s"
  "w_pending (drive_llc_write k s) = w_pending s"
  "control (drive_llc_write k s) = control s"
  "cache_config (drive_llc_write k s) = cache_config s"
  "cache (drive_llc_write k s) = cache s"
  "maintenance (drive_llc_write k s) = maintenance s"
  "core_stage (drive_llc_write k s) = core_stage s"
  "mem_side (drive_llc_write k s) = mem_side s"
  "exited (drive_llc_write k s) = exited s"
  by (simp_all add: drive_llc_write_def Let_def ic_frame split: option.split prod.split list.split)

lemma ready_write_frame [ic_frame]:
  "ar_view (ready_write m s) = ar_view s"
  "aw_view (ready_write m s) = aw_view s"
  "rb_view (ready_write m s) = rb_view s"
  "readers (ready_write m s) = readers s"
  "r_pending (ready_write m s) = r_pending s"
  "direct_completion_seq (ready_write m s) = direct_completion_seq s"
  "w_pending (ready_write m s) = w_pending s"
  "control (ready_write m s) = control s"
  "cache_config (ready_write m s) = cache_config s"
  "cache (ready_write m s) = cache s"
  "maintenance (ready_write m s) = maintenance s"
  "core_stage (ready_write m s) = core_stage s"
  "mem_side (ready_write m s) = mem_side s"
  "exited (ready_write m s) = exited s"
  by (simp_all add: ready_write_def Let_def ic_frame )

lemma fire_write_frame [ic_frame]:
  "ar_view (fire_write m s) = ar_view s"
  "aw_view (fire_write m s) = aw_view s"
  "rb_view (fire_write m s) = rb_view s"
  "readers (fire_write m s) = readers s"
  "r_pending (fire_write m s) = r_pending s"
  "direct_completion_seq (fire_write m s) = direct_completion_seq s"
  "w_pending (fire_write m s) = w_pending s"
  "control (fire_write m s) = control s"
  "cache_config (fire_write m s) = cache_config s"
  "cache (fire_write m s) = cache s"
  "maintenance (fire_write m s) = maintenance s"
  "core_stage (fire_write m s) = core_stage s"
  "mem_side (fire_write m s) = mem_side s"
  "exited (fire_write m s) = exited s"
  by (simp_all add: fire_write_def Let_def ic_frame )

lemma direct_write_frame [ic_frame]:
  "ar_view (snd (snd (direct_write_master k rc m acc))) = ar_view (snd acc)"
  "aw_view (snd (snd (direct_write_master k rc m acc))) = aw_view (snd acc)"
  "rb_view (snd (snd (direct_write_master k rc m acc))) = rb_view (snd acc)"
  "readers (snd (snd (direct_write_master k rc m acc))) = readers (snd acc)"
  "r_pending (snd (snd (direct_write_master k rc m acc))) = r_pending (snd acc)"
  "direct_completion_seq (snd (snd (direct_write_master k rc m acc))) = direct_completion_seq (snd acc)"
  "w_pending (snd (snd (direct_write_master k rc m acc))) = w_pending (snd acc)"
  "control (snd (snd (direct_write_master k rc m acc))) = control (snd acc)"
  "cache_config (snd (snd (direct_write_master k rc m acc))) = cache_config (snd acc)"
  "cache (snd (snd (direct_write_master k rc m acc))) = cache (snd acc)"
  "maintenance (snd (snd (direct_write_master k rc m acc))) = maintenance (snd acc)"
  "core_stage (snd (snd (direct_write_master k rc m acc))) = core_stage (snd acc)"
  "mem_side (snd (snd (direct_write_master k rc m acc))) = mem_side (snd acc)"
  "exited (snd (snd (direct_write_master k rc m acc))) = exited (snd acc)"
  by (cases acc, simp add: direct_write_master_def Let_def ic_frame)+

lemma llc_write_master_frame [ic_frame]:
  "ar_view (snd (llc_write_master k rc m s)) = ar_view s"
  "aw_view (snd (llc_write_master k rc m s)) = aw_view s"
  "rb_view (snd (llc_write_master k rc m s)) = rb_view s"
  "readers (snd (llc_write_master k rc m s)) = readers s"
  "r_pending (snd (llc_write_master k rc m s)) = r_pending s"
  "direct_completion_seq (snd (llc_write_master k rc m s)) = direct_completion_seq s"
  "w_pending (snd (llc_write_master k rc m s)) = w_pending s"
  "control (snd (llc_write_master k rc m s)) = control s"
  "cache_config (snd (llc_write_master k rc m s)) = cache_config s"
  "cache (snd (llc_write_master k rc m s)) = cache s"
  "maintenance (snd (llc_write_master k rc m s)) = maintenance s"
  "core_stage (snd (llc_write_master k rc m s)) = core_stage s"
  "mem_side (snd (llc_write_master k rc m s)) = mem_side s"
  "exited (snd (llc_write_master k rc m s)) = exited s"
  by (simp_all add: llc_write_master_def Let_def ic_frame )

lemma accept_direct_frame [ic_frame]:
  "ar_view (snd (accept_direct_write k rc b s)) = ar_view s"
  "aw_view (snd (accept_direct_write k rc b s)) = aw_view s"
  "rb_view (snd (accept_direct_write k rc b s)) = rb_view s"
  "readers (snd (accept_direct_write k rc b s)) = readers s"
  "r_pending (snd (accept_direct_write k rc b s)) = r_pending s"
  "direct_completion_seq (snd (accept_direct_write k rc b s)) = direct_completion_seq s"
  "w_pending (snd (accept_direct_write k rc b s)) = w_pending s"
  "control (snd (accept_direct_write k rc b s)) = control s"
  "cache_config (snd (accept_direct_write k rc b s)) = cache_config s"
  "cache (snd (accept_direct_write k rc b s)) = cache s"
  "maintenance (snd (accept_direct_write k rc b s)) = maintenance s"
  "core_stage (snd (accept_direct_write k rc b s)) = core_stage s"
  "mem_side (snd (accept_direct_write k rc b s)) = mem_side s"
  "exited (snd (accept_direct_write k rc b s)) = exited s"
  by (simp_all add: accept_direct_write_def direct_write_frame
    until_stop_frame [where g = "\<lambda>x. ar_view (snd x)"]
    until_stop_frame [where g = "\<lambda>x. aw_view (snd x)"]
    until_stop_frame [where g = "\<lambda>x. rb_view (snd x)"]
    until_stop_frame [where g = "\<lambda>x. readers (snd x)"]
    until_stop_frame [where g = "\<lambda>x. r_pending (snd x)"]
    until_stop_frame [where g = "\<lambda>x. direct_completion_seq (snd x)"]
    until_stop_frame [where g = "\<lambda>x. w_pending (snd x)"]
    until_stop_frame [where g = "\<lambda>x. control (snd x)"]
    until_stop_frame [where g = "\<lambda>x. cache_config (snd x)"]
    until_stop_frame [where g = "\<lambda>x. cache (snd x)"]
    until_stop_frame [where g = "\<lambda>x. maintenance (snd x)"]
    until_stop_frame [where g = "\<lambda>x. core_stage (snd x)"]
    until_stop_frame [where g = "\<lambda>x. mem_side (snd x)"]
    until_stop_frame [where g = "\<lambda>x. exited (snd x)"])

lemma accept_llc_frame [ic_frame]:
  "ar_view (accept_llc_write k rc b s) = ar_view s"
  "aw_view (accept_llc_write k rc b s) = aw_view s"
  "rb_view (accept_llc_write k rc b s) = rb_view s"
  "readers (accept_llc_write k rc b s) = readers s"
  "r_pending (accept_llc_write k rc b s) = r_pending s"
  "direct_completion_seq (accept_llc_write k rc b s) = direct_completion_seq s"
  "w_pending (accept_llc_write k rc b s) = w_pending s"
  "control (accept_llc_write k rc b s) = control s"
  "cache_config (accept_llc_write k rc b s) = cache_config s"
  "cache (accept_llc_write k rc b s) = cache s"
  "maintenance (accept_llc_write k rc b s) = maintenance s"
  "core_stage (accept_llc_write k rc b s) = core_stage s"
  "mem_side (accept_llc_write k rc b s) = mem_side s"
  "exited (accept_llc_write k rc b s) = exited s"
  by (simp_all add: accept_llc_write_def until_stop_views Let_def ic_frame )

lemma pending_aw_frame [ic_frame]:
  "ar_view (drive_pending_aw k b p s) = ar_view s"
  "rb_view (drive_pending_aw k b p s) = rb_view s"
  "readers (drive_pending_aw k b p s) = readers s"
  "writers (drive_pending_aw k b p s) = writers s"
  "r_pending (drive_pending_aw k b p s) = r_pending s"
  "direct_completion_seq (drive_pending_aw k b p s) = direct_completion_seq s"
  "w_pending (drive_pending_aw k b p s) = w_pending s"
  "control (drive_pending_aw k b p s) = control s"
  "cache_config (drive_pending_aw k b p s) = cache_config s"
  "cache (drive_pending_aw k b p s) = cache s"
  "maintenance (drive_pending_aw k b p s) = maintenance s"
  "core_stage (drive_pending_aw k b p s) = core_stage s"
  "mem_side (drive_pending_aw k b p s) = mem_side s"
  "exited (drive_pending_aw k b p s) = exited s"
  by (simp_all add: drive_pending_aw_def Let_def ic_frame split: option.split prod.split list.split)

lemma direct_ready_frame [ic_frame]:
  "ar_view (snd (direct_ready_master k rc m s)) = ar_view s"
  "aw_view (snd (direct_ready_master k rc m s)) = aw_view s"
  "rb_view (snd (direct_ready_master k rc m s)) = rb_view s"
  "readers (snd (direct_ready_master k rc m s)) = readers s"
  "r_pending (snd (direct_ready_master k rc m s)) = r_pending s"
  "direct_completion_seq (snd (direct_ready_master k rc m s)) = direct_completion_seq s"
  "w_pending (snd (direct_ready_master k rc m s)) = w_pending s"
  "control (snd (direct_ready_master k rc m s)) = control s"
  "cache_config (snd (direct_ready_master k rc m s)) = cache_config s"
  "cache (snd (direct_ready_master k rc m s)) = cache s"
  "maintenance (snd (direct_ready_master k rc m s)) = maintenance s"
  "core_stage (snd (direct_ready_master k rc m s)) = core_stage s"
  "mem_side (snd (direct_ready_master k rc m s)) = mem_side s"
  "exited (snd (direct_ready_master k rc m s)) = exited s"
  by (simp_all add: direct_ready_master_def Let_def ic_frame )

lemma write_request_frame [ic_frame]:
  "ar_view (comb_write_request k s) = ar_view s"
  "rb_view (comb_write_request k s) = rb_view s"
  "readers (comb_write_request k s) = readers s"
  "r_pending (comb_write_request k s) = r_pending s"
  "direct_completion_seq (comb_write_request k s) = direct_completion_seq s"
  "w_pending (comb_write_request k s) = w_pending s"
  "control (comb_write_request k s) = control s"
  "cache_config (comb_write_request k s) = cache_config s"
  "cache (comb_write_request k s) = cache s"
  "maintenance (comb_write_request k s) = maintenance s"
  "core_stage (comb_write_request k s) = core_stage s"
  "mem_side (comb_write_request k s) = mem_side s"
  "exited (comb_write_request k s) = exited s"
  by (simp_all add: comb_write_request_def until_stop_views case_prod_beta Let_def ic_frame )

lemma clear_accepted_frame [ic_frame]:
  "ar_view (seq_clear_accepted s) = ar_view s"
  "aw_view (seq_clear_accepted s) = aw_view s"
  "rb_view (seq_clear_accepted s) = rb_view s"
  "r_pending (seq_clear_accepted s) = r_pending s"
  "direct_completion_seq (seq_clear_accepted s) = direct_completion_seq s"
  "w_pending (seq_clear_accepted s) = w_pending s"
  "control (seq_clear_accepted s) = control s"
  "cache_config (seq_clear_accepted s) = cache_config s"
  "cache (seq_clear_accepted s) = cache s"
  "maintenance (seq_clear_accepted s) = maintenance s"
  "core_stage (seq_clear_accepted s) = core_stage s"
  "mem_side (seq_clear_accepted s) = mem_side s"
  "exited (seq_clear_accepted s) = exited s"
  by (simp_all add: seq_clear_accepted_def Let_def ic_frame )

lemma note_accepted_frame [ic_frame]:
  "ar_view (note_read_accepted t s) = ar_view s"
  "aw_view (note_read_accepted t s) = aw_view s"
  "rb_view (note_read_accepted t s) = rb_view s"
  "writers (note_read_accepted t s) = writers s"
  "r_pending (note_read_accepted t s) = r_pending s"
  "direct_completion_seq (note_read_accepted t s) = direct_completion_seq s"
  "w_pending (note_read_accepted t s) = w_pending s"
  "control (note_read_accepted t s) = control s"
  "cache_config (note_read_accepted t s) = cache_config s"
  "cache (note_read_accepted t s) = cache s"
  "maintenance (note_read_accepted t s) = maintenance s"
  "core_stage (note_read_accepted t s) = core_stage s"
  "mem_side (note_read_accepted t s) = mem_side s"
  "exited (note_read_accepted t s) = exited s"
  by (simp_all add: note_read_accepted_def Let_def ic_frame )

lemma finish_ar_frame [ic_frame]:
  "ar_view (finish_ar_txn t s) = ar_view s"
  "aw_view (finish_ar_txn t s) = aw_view s"
  "rb_view (finish_ar_txn t s) = rb_view s"
  "writers (finish_ar_txn t s) = writers s"
  "direct_completion_seq (finish_ar_txn t s) = direct_completion_seq s"
  "w_pending (finish_ar_txn t s) = w_pending s"
  "control (finish_ar_txn t s) = control s"
  "cache_config (finish_ar_txn t s) = cache_config s"
  "cache (finish_ar_txn t s) = cache s"
  "maintenance (finish_ar_txn t s) = maintenance s"
  "core_stage (finish_ar_txn t s) = core_stage s"
  "mem_side (finish_ar_txn t s) = mem_side s"
  "exited (finish_ar_txn t s) = exited s"
  by (simp_all add: finish_ar_txn_def Let_def ic_frame )

lemma latch_ar_request_frame [ic_frame]:
  "aw_view (latch_ar_request p s) = aw_view s"
  "rb_view (latch_ar_request p s) = rb_view s"
  "readers (latch_ar_request p s) = readers s"
  "writers (latch_ar_request p s) = writers s"
  "r_pending (latch_ar_request p s) = r_pending s"
  "direct_completion_seq (latch_ar_request p s) = direct_completion_seq s"
  "w_pending (latch_ar_request p s) = w_pending s"
  "control (latch_ar_request p s) = control s"
  "cache_config (latch_ar_request p s) = cache_config s"
  "cache (latch_ar_request p s) = cache s"
  "maintenance (latch_ar_request p s) = maintenance s"
  "core_stage (latch_ar_request p s) = core_stage s"
  "mem_side (latch_ar_request p s) = mem_side s"
  "exited (latch_ar_request p s) = exited s"
  by (simp_all add: latch_ar_request_def Let_def ic_frame )

lemma take_latched_frame [ic_frame]:
  "aw_view (take_latched_ar p s) = aw_view s"
  "rb_view (take_latched_ar p s) = rb_view s"
  "writers (take_latched_ar p s) = writers s"
  "direct_completion_seq (take_latched_ar p s) = direct_completion_seq s"
  "w_pending (take_latched_ar p s) = w_pending s"
  "control (take_latched_ar p s) = control s"
  "cache_config (take_latched_ar p s) = cache_config s"
  "cache (take_latched_ar p s) = cache s"
  "maintenance (take_latched_ar p s) = maintenance s"
  "core_stage (take_latched_ar p s) = core_stage s"
  "mem_side (take_latched_ar p s) = mem_side s"
  "exited (take_latched_ar p s) = exited s"
  by (simp_all add: take_latched_ar_def Let_def ic_frame )

lemma take_driven_frame [ic_frame]:
  "ar_view (take_driven_ar p s) = ar_view s"
  "aw_view (take_driven_ar p s) = aw_view s"
  "rb_view (take_driven_ar p s) = rb_view s"
  "writers (take_driven_ar p s) = writers s"
  "direct_completion_seq (take_driven_ar p s) = direct_completion_seq s"
  "w_pending (take_driven_ar p s) = w_pending s"
  "control (take_driven_ar p s) = control s"
  "cache_config (take_driven_ar p s) = cache_config s"
  "cache (take_driven_ar p s) = cache s"
  "maintenance (take_driven_ar p s) = maintenance s"
  "core_stage (take_driven_ar p s) = core_stage s"
  "mem_side (take_driven_ar p s) = mem_side s"
  "exited (take_driven_ar p s) = exited s"
  by (simp_all add: take_driven_ar_def Let_def ic_frame )

lemma process_ar_frame [ic_frame]:
  "aw_view (process_ar_port p s) = aw_view s"
  "rb_view (process_ar_port p s) = rb_view s"
  "writers (process_ar_port p s) = writers s"
  "direct_completion_seq (process_ar_port p s) = direct_completion_seq s"
  "w_pending (process_ar_port p s) = w_pending s"
  "control (process_ar_port p s) = control s"
  "cache_config (process_ar_port p s) = cache_config s"
  "cache (process_ar_port p s) = cache s"
  "maintenance (process_ar_port p s) = maintenance s"
  "core_stage (process_ar_port p s) = core_stage s"
  "mem_side (process_ar_port p s) = mem_side s"
  "exited (process_ar_port p s) = exited s"
  by (simp_all add: process_ar_port_def Let_def ic_frame )

lemma promote_heads_frame [ic_frame]:
  "ar_view (promote_write_heads s) = ar_view s"
  "aw_view (promote_write_heads s) = aw_view s"
  "rb_view (promote_write_heads s) = rb_view s"
  "readers (promote_write_heads s) = readers s"
  "r_pending (promote_write_heads s) = r_pending s"
  "direct_completion_seq (promote_write_heads s) = direct_completion_seq s"
  "w_pending (promote_write_heads s) = w_pending s"
  "control (promote_write_heads s) = control s"
  "cache_config (promote_write_heads s) = cache_config s"
  "cache (promote_write_heads s) = cache s"
  "maintenance (promote_write_heads s) = maintenance s"
  "core_stage (promote_write_heads s) = core_stage s"
  "mem_side (promote_write_heads s) = mem_side s"
  "exited (promote_write_heads s) = exited s"
  by (simp_all add: promote_write_heads_def Let_def ic_frame )

lemma stage_write_frame [ic_frame]:
  "ar_view (stage_write k m s) = ar_view s"
  "aw_view (stage_write k m s) = aw_view s"
  "rb_view (stage_write k m s) = rb_view s"
  "readers (stage_write k m s) = readers s"
  "r_pending (stage_write k m s) = r_pending s"
  "direct_completion_seq (stage_write k m s) = direct_completion_seq s"
  "w_pending (stage_write k m s) = w_pending s"
  "control (stage_write k m s) = control s"
  "cache_config (stage_write k m s) = cache_config s"
  "cache (stage_write k m s) = cache s"
  "maintenance (stage_write k m s) = maintenance s"
  "mem_side (stage_write k m s) = mem_side s"
  "exited (stage_write k m s) = exited s"
  by (simp_all add: stage_write_def Let_def ic_frame )

lemma stage_read_frame [ic_frame]:
  "ar_view (stage_read k m s) = ar_view s"
  "aw_view (stage_read k m s) = aw_view s"
  "rb_view (stage_read k m s) = rb_view s"
  "writers (stage_read k m s) = writers s"
  "r_pending (stage_read k m s) = r_pending s"
  "direct_completion_seq (stage_read k m s) = direct_completion_seq s"
  "w_pending (stage_read k m s) = w_pending s"
  "control (stage_read k m s) = control s"
  "cache_config (stage_read k m s) = cache_config s"
  "cache (stage_read k m s) = cache s"
  "maintenance (stage_read k m s) = maintenance s"
  "mem_side (stage_read k m s) = mem_side s"
  "exited (stage_read k m s) = exited s"
  by (simp_all add: stage_read_def Let_def ic_frame )

lemma preempt_frame [ic_frame]:
  "ar_view (preempt_stalled_read_for_write k s) = ar_view s"
  "aw_view (preempt_stalled_read_for_write k s) = aw_view s"
  "rb_view (preempt_stalled_read_for_write k s) = rb_view s"
  "r_pending (preempt_stalled_read_for_write k s) = r_pending s"
  "direct_completion_seq (preempt_stalled_read_for_write k s) = direct_completion_seq s"
  "w_pending (preempt_stalled_read_for_write k s) = w_pending s"
  "control (preempt_stalled_read_for_write k s) = control s"
  "cache_config (preempt_stalled_read_for_write k s) = cache_config s"
  "cache (preempt_stalled_read_for_write k s) = cache s"
  "maintenance (preempt_stalled_read_for_write k s) = maintenance s"
  "mem_side (preempt_stalled_read_for_write k s) = mem_side s"
  "exited (preempt_stalled_read_for_write k s) = exited s"
  by (simp_all add: preempt_stalled_read_for_write_def Let_def ic_frame split: option.split prod.split list.split)

lemma dispatch_frame [ic_frame]:
  "ar_view (dispatch_core_stage k s) = ar_view s"
  "aw_view (dispatch_core_stage k s) = aw_view s"
  "rb_view (dispatch_core_stage k s) = rb_view s"
  "r_pending (dispatch_core_stage k s) = r_pending s"
  "direct_completion_seq (dispatch_core_stage k s) = direct_completion_seq s"
  "w_pending (dispatch_core_stage k s) = w_pending s"
  "control (dispatch_core_stage k s) = control s"
  "cache_config (dispatch_core_stage k s) = cache_config s"
  "cache (dispatch_core_stage k s) = cache s"
  "maintenance (dispatch_core_stage k s) = maintenance s"
  "mem_side (dispatch_core_stage k s) = mem_side s"
  "exited (dispatch_core_stage k s) = exited s"
  by (simp_all add: dispatch_core_stage_def Let_def ic_frame split: option.split prod.split list.split)

lemma queues_frame [ic_frame]:
  "ar_view (seq_llc_queues k s) = ar_view s"
  "aw_view (seq_llc_queues k s) = aw_view s"
  "rb_view (seq_llc_queues k s) = rb_view s"
  "r_pending (seq_llc_queues k s) = r_pending s"
  "direct_completion_seq (seq_llc_queues k s) = direct_completion_seq s"
  "w_pending (seq_llc_queues k s) = w_pending s"
  "control (seq_llc_queues k s) = control s"
  "cache_config (seq_llc_queues k s) = cache_config s"
  "cache (seq_llc_queues k s) = cache s"
  "maintenance (seq_llc_queues k s) = maintenance s"
  "mem_side (seq_llc_queues k s) = mem_side s"
  "exited (seq_llc_queues k s) = exited s"
  by (simp_all add: seq_llc_queues_def Let_def ic_frame )

lemma r_handshake_frame [ic_frame]:
  "ar_view (handle_r_handshake k p s) = ar_view s"
  "aw_view (handle_r_handshake k p s) = aw_view s"
  "rb_view (handle_r_handshake k p s) = rb_view s"
  "readers (handle_r_handshake k p s) = readers s"
  "writers (handle_r_handshake k p s) = writers s"
  "w_pending (handle_r_handshake k p s) = w_pending s"
  "control (handle_r_handshake k p s) = control s"
  "cache_config (handle_r_handshake k p s) = cache_config s"
  "cache (handle_r_handshake k p s) = cache s"
  "maintenance (handle_r_handshake k p s) = maintenance s"
  "core_stage (handle_r_handshake k p s) = core_stage s"
  "mem_side (handle_r_handshake k p s) = mem_side s"
  "exited (handle_r_handshake k p s) = exited s"
  by (simp_all add: handle_r_handshake_def Let_def ic_frame split: option.split prod.split list.split)

lemma retire_direct_frame [ic_frame]:
  "ar_view (retire_direct_read m s) = ar_view s"
  "aw_view (retire_direct_read m s) = aw_view s"
  "rb_view (retire_direct_read m s) = rb_view s"
  "readers (retire_direct_read m s) = readers s"
  "writers (retire_direct_read m s) = writers s"
  "direct_completion_seq (retire_direct_read m s) = direct_completion_seq s"
  "w_pending (retire_direct_read m s) = w_pending s"
  "control (retire_direct_read m s) = control s"
  "cache_config (retire_direct_read m s) = cache_config s"
  "cache (retire_direct_read m s) = cache s"
  "maintenance (retire_direct_read m s) = maintenance s"
  "core_stage (retire_direct_read m s) = core_stage s"
  "mem_side (retire_direct_read m s) = mem_side s"
  "exited (retire_direct_read m s) = exited s"
  by (simp_all add: retire_direct_read_def Let_def ic_frame )

lemma retire_llc_frame [ic_frame]:
  "ar_view (retire_llc_read b s) = ar_view s"
  "aw_view (retire_llc_read b s) = aw_view s"
  "rb_view (retire_llc_read b s) = rb_view s"
  "readers (retire_llc_read b s) = readers s"
  "writers (retire_llc_read b s) = writers s"
  "direct_completion_seq (retire_llc_read b s) = direct_completion_seq s"
  "w_pending (retire_llc_read b s) = w_pending s"
  "control (retire_llc_read b s) = control s"
  "cache_config (retire_llc_read b s) = cache_config s"
  "cache (retire_llc_read b s) = cache s"
  "maintenance (retire_llc_read b s) = maintenance s"
  "core_stage (retire_llc_read b s) = core_stage s"
  "mem_side (retire_llc_read b s) = mem_side s"
  "exited (retire_llc_read b s) = exited s"
  by (simp_all add: retire_llc_read_def Let_def ic_frame )

lemma seq_reads_frame [ic_frame]:
  "ar_view (seq_reads k b s) = ar_view s"
  "aw_view (seq_reads k b s) = aw_view s"
  "rb_view (seq_reads k b s) = rb_view s"
  "readers (seq_reads k b s) = readers s"
  "writers (seq_reads k b s) = writers s"
  "w_pending (seq_reads k b s) = w_pending s"
  "control (seq_reads k b s) = control s"
  "cache_config (seq_reads k b s) = cache_config s"
  "cache (seq_reads k b s) = cache s"
  "maintenance (seq_reads k b s) = maintenance s"
  "core_stage (seq_reads k b s) = core_stage s"
  "mem_side (seq_reads k b s) = mem_side s"
  "exited (seq_reads k b s) = exited s"
  by (simp_all add: seq_reads_def masters_upt Let_def ic_frame )

lemma consume_frame [ic_frame]:
  "ar_view (consume_llc_read_response m s) = ar_view s"
  "aw_view (consume_llc_read_response m s) = aw_view s"
  "rb_view (consume_llc_read_response m s) = rb_view s"
  "writers (consume_llc_read_response m s) = writers s"
  "r_pending (consume_llc_read_response m s) = r_pending s"
  "direct_completion_seq (consume_llc_read_response m s) = direct_completion_seq s"
  "w_pending (consume_llc_read_response m s) = w_pending s"
  "control (consume_llc_read_response m s) = control s"
  "cache_config (consume_llc_read_response m s) = cache_config s"
  "cache (consume_llc_read_response m s) = cache s"
  "maintenance (consume_llc_read_response m s) = maintenance s"
  "core_stage (consume_llc_read_response m s) = core_stage s"
  "mem_side (consume_llc_read_response m s) = mem_side s"
  "exited (consume_llc_read_response m s) = exited s"
  by (simp_all add: consume_llc_read_response_def Let_def ic_frame )

lemma take_read_frame [ic_frame]:
  "ar_view (take_llc_read_response m s) = ar_view s"
  "aw_view (take_llc_read_response m s) = aw_view s"
  "rb_view (take_llc_read_response m s) = rb_view s"
  "writers (take_llc_read_response m s) = writers s"
  "r_pending (take_llc_read_response m s) = r_pending s"
  "direct_completion_seq (take_llc_read_response m s) = direct_completion_seq s"
  "w_pending (take_llc_read_response m s) = w_pending s"
  "control (take_llc_read_response m s) = control s"
  "cache_config (take_llc_read_response m s) = cache_config s"
  "cache (take_llc_read_response m s) = cache s"
  "maintenance (take_llc_read_response m s) = maintenance s"
  "core_stage (take_llc_read_response m s) = core_stage s"
  "mem_side (take_llc_read_response m s) = mem_side s"
  "exited (take_llc_read_response m s) = exited s"
  by (simp_all add: take_llc_read_response_def Let_def ic_frame )

lemma enqueue_resp_frame [ic_frame]:
  "ar_view (enqueue_write_resp k m a r b l s) = ar_view s"
  "aw_view (enqueue_write_resp k m a r b l s) = aw_view s"
  "rb_view (enqueue_write_resp k m a r b l s) = rb_view s"
  "readers (enqueue_write_resp k m a r b l s) = readers s"
  "r_pending (enqueue_write_resp k m a r b l s) = r_pending s"
  "direct_completion_seq (enqueue_write_resp k m a r b l s) = direct_completion_seq s"
  "w_pending (enqueue_write_resp k m a r b l s) = w_pending s"
  "control (enqueue_write_resp k m a r b l s) = control s"
  "cache_config (enqueue_write_resp k m a r b l s) = cache_config s"
  "cache (enqueue_write_resp k m a r b l s) = cache s"
  "maintenance (enqueue_write_resp k m a r b l s) = maintenance s"
  "core_stage (enqueue_write_resp k m a r b l s) = core_stage s"
  "mem_side (enqueue_write_resp k m a r b l s) = mem_side s"
  "exited (enqueue_write_resp k m a r b l s) = exited s"
  by (simp_all add: enqueue_write_resp_def Let_def ic_frame )

lemma promote_resp_frame [ic_frame]:
  "ar_view (promote_write_resp_queue s) = ar_view s"
  "aw_view (promote_write_resp_queue s) = aw_view s"
  "rb_view (promote_write_resp_queue s) = rb_view s"
  "readers (promote_write_resp_queue s) = readers s"
  "r_pending (promote_write_resp_queue s) = r_pending s"
  "direct_completion_seq (promote_write_resp_queue s) = direct_completion_seq s"
  "w_pending (promote_write_resp_queue s) = w_pending s"
  "control (promote_write_resp_queue s) = control s"
  "cache_config (promote_write_resp_queue s) = cache_config s"
  "cache (promote_write_resp_queue s) = cache s"
  "maintenance (promote_write_resp_queue s) = maintenance s"
  "core_stage (promote_write_resp_queue s) = core_stage s"
  "mem_side (promote_write_resp_queue s) = mem_side s"
  "exited (promote_write_resp_queue s) = exited s"
  by (simp_all add: promote_write_resp_queue_def masters_upt Let_def ic_frame )

lemma release_delayed_frame [ic_frame]:
  "ar_view (release_delayed_response k m s) = ar_view s"
  "aw_view (release_delayed_response k m s) = aw_view s"
  "rb_view (release_delayed_response k m s) = rb_view s"
  "readers (release_delayed_response k m s) = readers s"
  "r_pending (release_delayed_response k m s) = r_pending s"
  "direct_completion_seq (release_delayed_response k m s) = direct_completion_seq s"
  "w_pending (release_delayed_response k m s) = w_pending s"
  "control (release_delayed_response k m s) = control s"
  "cache_config (release_delayed_response k m s) = cache_config s"
  "cache (release_delayed_response k m s) = cache s"
  "maintenance (release_delayed_response k m s) = maintenance s"
  "core_stage (release_delayed_response k m s) = core_stage s"
  "mem_side (release_delayed_response k m s) = mem_side s"
  "exited (release_delayed_response k m s) = exited s"
  by (simp_all add: release_delayed_response_def Let_def ic_frame split: option.split prod.split list.split)

lemma take_write_frame [ic_frame]:
  "ar_view (take_llc_write_response m s) = ar_view s"
  "aw_view (take_llc_write_response m s) = aw_view s"
  "rb_view (take_llc_write_response m s) = rb_view s"
  "readers (take_llc_write_response m s) = readers s"
  "r_pending (take_llc_write_response m s) = r_pending s"
  "direct_completion_seq (take_llc_write_response m s) = direct_completion_seq s"
  "w_pending (take_llc_write_response m s) = w_pending s"
  "control (take_llc_write_response m s) = control s"
  "cache_config (take_llc_write_response m s) = cache_config s"
  "maintenance (take_llc_write_response m s) = maintenance s"
  "core_stage (take_llc_write_response m s) = core_stage s"
  "mem_side (take_llc_write_response m s) = mem_side s"
  "exited (take_llc_write_response m s) = exited s"
  by (simp_all add: take_llc_write_response_def Let_def ic_frame )

lemma write_responses_frame [ic_frame]:
  "ar_view (seq_write_responses k m s) = ar_view s"
  "aw_view (seq_write_responses k m s) = aw_view s"
  "rb_view (seq_write_responses k m s) = rb_view s"
  "readers (seq_write_responses k m s) = readers s"
  "r_pending (seq_write_responses k m s) = r_pending s"
  "direct_completion_seq (seq_write_responses k m s) = direct_completion_seq s"
  "w_pending (seq_write_responses k m s) = w_pending s"
  "control (seq_write_responses k m s) = control s"
  "cache_config (seq_write_responses k m s) = cache_config s"
  "maintenance (seq_write_responses k m s) = maintenance s"
  "core_stage (seq_write_responses k m s) = core_stage s"
  "mem_side (seq_write_responses k m s) = mem_side s"
  "exited (seq_write_responses k m s) = exited s"
  by (simp_all add: seq_write_responses_def Let_def ic_frame )

lemma start_write_frame [ic_frame]:
  "ar_view (start_write z t s) = ar_view s"
  "rb_view (start_write z t s) = rb_view s"
  "readers (start_write z t s) = readers s"
  "writers (start_write z t s) = writers s"
  "r_pending (start_write z t s) = r_pending s"
  "direct_completion_seq (start_write z t s) = direct_completion_seq s"
  "w_pending (start_write z t s) = w_pending s"
  "control (start_write z t s) = control s"
  "cache_config (start_write z t s) = cache_config s"
  "cache (start_write z t s) = cache s"
  "maintenance (start_write z t s) = maintenance s"
  "core_stage (start_write z t s) = core_stage s"
  "mem_side (start_write z t s) = mem_side s"
  "exited (start_write z t s) = exited s"
  by (simp_all add: start_write_def Let_def ic_frame )

lemma direct_write_seq_frame [ic_frame]:
  "ar_view (snd (seq_direct_write k m s)) = ar_view s"
  "rb_view (snd (seq_direct_write k m s)) = rb_view s"
  "readers (snd (seq_direct_write k m s)) = readers s"
  "r_pending (snd (seq_direct_write k m s)) = r_pending s"
  "direct_completion_seq (snd (seq_direct_write k m s)) = direct_completion_seq s"
  "w_pending (snd (seq_direct_write k m s)) = w_pending s"
  "control (snd (seq_direct_write k m s)) = control s"
  "cache_config (snd (seq_direct_write k m s)) = cache_config s"
  "cache (snd (seq_direct_write k m s)) = cache s"
  "maintenance (snd (seq_direct_write k m s)) = maintenance s"
  "core_stage (snd (seq_direct_write k m s)) = core_stage s"
  "mem_side (snd (seq_direct_write k m s)) = mem_side s"
  "exited (snd (seq_direct_write k m s)) = exited s"
  by (simp_all add: seq_direct_write_def Let_def ic_frame split: option.split prod.split list.split)

lemma llc_write_seq_frame [ic_frame]:
  "ar_view (seq_llc_write k s) = ar_view s"
  "rb_view (seq_llc_write k s) = rb_view s"
  "readers (seq_llc_write k s) = readers s"
  "writers (seq_llc_write k s) = writers s"
  "r_pending (seq_llc_write k s) = r_pending s"
  "direct_completion_seq (seq_llc_write k s) = direct_completion_seq s"
  "w_pending (seq_llc_write k s) = w_pending s"
  "control (seq_llc_write k s) = control s"
  "cache_config (seq_llc_write k s) = cache_config s"
  "cache (seq_llc_write k s) = cache s"
  "maintenance (seq_llc_write k s) = maintenance s"
  "core_stage (seq_llc_write k s) = core_stage s"
  "mem_side (seq_llc_write k s) = mem_side s"
  "exited (seq_llc_write k s) = exited s"
  by (simp_all add: seq_llc_write_def Let_def ic_frame split: option.split prod.split list.split)

lemma llc_write_port_frame [ic_frame]:
  "ar_view (seq_llc_write_port p s) = ar_view s"
  "rb_view (seq_llc_write_port p s) = rb_view s"
  "readers (seq_llc_write_port p s) = readers s"
  "writers (seq_llc_write_port p s) = writers s"
  "r_pending (seq_llc_write_port p s) = r_pending s"
  "direct_completion_seq (seq_llc_write_port p s) = direct_completion_seq s"
  "w_pending (seq_llc_write_port p s) = w_pending s"
  "control (seq_llc_write_port p s) = control s"
  "cache_config (seq_llc_write_port p s) = cache_config s"
  "cache (seq_llc_write_port p s) = cache s"
  "maintenance (seq_llc_write_port p s) = maintenance s"
  "core_stage (seq_llc_write_port p s) = core_stage s"
  "mem_side (seq_llc_write_port p s) = mem_side s"
  "exited (seq_llc_write_port p s) = exited s"
  by (simp_all add: seq_llc_write_port_def seq_llc_write_channel_def if_distrib [of dp_ar] if_distrib [of dp_io] if_distrib [of dp_issue] Let_def ic_frame )

lemma mem_side_frame [ic_frame]:
  "ar_view (upd_mem_side f s) = ar_view s"
  "aw_view (upd_mem_side f s) = aw_view s"
  "rb_view (upd_mem_side f s) = rb_view s"
  "readers (upd_mem_side f s) = readers s"
  "writers (upd_mem_side f s) = writers s"
  "r_pending (upd_mem_side f s) = r_pending s"
  "direct_completion_seq (upd_mem_side f s) = direct_completion_seq s"
  "w_pending (upd_mem_side f s) = w_pending s"
  "control (upd_mem_side f s) = control s"
  "cache_config (upd_mem_side f s) = cache_config s"
  "cache (upd_mem_side f s) = cache s"
  "maintenance (upd_mem_side f s) = maintenance s"
  "core_stage (upd_mem_side f s) = core_stage s"
  "exited (upd_mem_side f s) = exited s"
  by (simp_all add: upd_mem_side_def Let_def ic_frame )

lemma llc_b_frame [ic_frame]:
  "ar_view (handle_llc_b k p s) = ar_view s"
  "rb_view (handle_llc_b k p s) = rb_view s"
  "readers (handle_llc_b k p s) = readers s"
  "r_pending (handle_llc_b k p s) = r_pending s"
  "direct_completion_seq (handle_llc_b k p s) = direct_completion_seq s"
  "w_pending (handle_llc_b k p s) = w_pending s"
  "control (handle_llc_b k p s) = control s"
  "cache_config (handle_llc_b k p s) = cache_config s"
  "cache (handle_llc_b k p s) = cache s"
  "maintenance (handle_llc_b k p s) = maintenance s"
  "core_stage (handle_llc_b k p s) = core_stage s"
  "exited (handle_llc_b k p s) = exited s"
  by (simp_all add: handle_llc_b_def end_write_def Let_def ic_frame )

lemma write_done_frame [ic_frame]:
  "ar_view (seq_llc_write_done k b s) = ar_view s"
  "rb_view (seq_llc_write_done k b s) = rb_view s"
  "readers (seq_llc_write_done k b s) = readers s"
  "writers (seq_llc_write_done k b s) = writers s"
  "r_pending (seq_llc_write_done k b s) = r_pending s"
  "direct_completion_seq (seq_llc_write_done k b s) = direct_completion_seq s"
  "w_pending (seq_llc_write_done k b s) = w_pending s"
  "control (seq_llc_write_done k b s) = control s"
  "cache_config (seq_llc_write_done k b s) = cache_config s"
  "cache (seq_llc_write_done k b s) = cache s"
  "maintenance (seq_llc_write_done k b s) = maintenance s"
  "core_stage (seq_llc_write_done k b s) = core_stage s"
  "exited (seq_llc_write_done k b s) = exited s"
  by (simp_all add: seq_llc_write_done_def end_write_def Let_def ic_frame )

lemma synth_done_frame [ic_frame]:
  "ar_view (seq_synth_done b s) = ar_view s"
  "aw_view (seq_synth_done b s) = aw_view s"
  "rb_view (seq_synth_done b s) = rb_view s"
  "readers (seq_synth_done b s) = readers s"
  "writers (seq_synth_done b s) = writers s"
  "r_pending (seq_synth_done b s) = r_pending s"
  "direct_completion_seq (seq_synth_done b s) = direct_completion_seq s"
  "w_pending (seq_synth_done b s) = w_pending s"
  "control (seq_synth_done b s) = control s"
  "cache_config (seq_synth_done b s) = cache_config s"
  "cache (seq_synth_done b s) = cache s"
  "maintenance (seq_synth_done b s) = maintenance s"
  "core_stage (seq_synth_done b s) = core_stage s"
  "exited (seq_synth_done b s) = exited s"
  by (simp_all add: seq_synth_done_def Let_def ic_frame )

lemma synth_read_frame [ic_frame]:
  "ar_view (seq_synth_read k s) = ar_view s"
  "aw_view (seq_synth_read k s) = aw_view s"
  "rb_view (seq_synth_read k s) = rb_view s"
  "readers (seq_synth_read k s) = readers s"
  "writers (seq_synth_read k s) = writers s"
  "r_pending (seq_synth_read k s) = r_pending s"
  "direct_completion_seq (seq_synth_read k s) = direct_completion_seq s"
  "w_pending (seq_synth_read k s) = w_pending s"
  "control (seq_synth_read k s) = control s"
  "cache_config (seq_synth_read k s) = cache_config s"
  "cache (seq_synth_read k s) = cache s"
  "maintenance (seq_synth_read k s) = maintenance s"
  "core_stage (seq_synth_read k s) = core_stage s"
  "exited (seq_synth_read k s) = exited s"
  by (simp_all add: seq_synth_read_def Let_def ic_frame )

lemma synth_write_frame [ic_frame]:
  "ar_view (seq_synth_write k s) = ar_view s"
  "aw_view (seq_synth_write k s) = aw_view s"
  "rb_view (seq_synth_write k s) = rb_view s"
  "readers (seq_synth_write k s) = readers s"
  "writers (seq_synth_write k s) = writers s"
  "r_pending (seq_synth_write k s) = r_pending s"
  "direct_completion_seq (seq_synth_write k s) = direct_completion_seq s"
  "w_pending (seq_synth_write k s) = w_pending s"
  "control (seq_synth_write k s) = control s"
  "cache_config (seq_synth_write k s) = cache_config s"
  "cache (seq_synth_write k s) = cache s"
  "maintenance (seq_synth_write k s) = maintenance s"
  "core_stage (seq_synth_write k s) = core_stage s"
  "exited (seq_synth_write k s) = exited s"
  by (simp_all add: seq_synth_write_def Let_def ic_frame )

lemma with_llc_frame [ic_frame]:
  "ar_view (seq_with_llc k a b s) = ar_view s"
  "rb_view (seq_with_llc k a b s) = rb_view s"
  "r_pending (seq_with_llc k a b s) = r_pending s"
  "direct_completion_seq (seq_with_llc k a b s) = direct_completion_seq s"
  "w_pending (seq_with_llc k a b s) = w_pending s"
  "control (seq_with_llc k a b s) = control s"
  "cache_config (seq_with_llc k a b s) = cache_config s"
  "maintenance (seq_with_llc k a b s) = maintenance s"
  "core_stage (seq_with_llc k a b s) = core_stage s"
  "exited (seq_with_llc k a b s) = exited s"
  by (simp_all add: seq_with_llc_def until_stop_views masters_upt Let_def ic_frame )

lemma accept_write_seq_frame [ic_frame]:
  "ar_view (snd (seq_accept_write k m s)) = ar_view s"
  "aw_view (snd (seq_accept_write k m s)) = aw_view s"
  "rb_view (snd (seq_accept_write k m s)) = rb_view s"
  "readers (snd (seq_accept_write k m s)) = readers s"
  "r_pending (snd (seq_accept_write k m s)) = r_pending s"
  "direct_completion_seq (snd (seq_accept_write k m s)) = direct_completion_seq s"
  "control (snd (seq_accept_write k m s)) = control s"
  "cache_config (snd (seq_accept_write k m s)) = cache_config s"
  "cache (snd (seq_accept_write k m s)) = cache s"
  "maintenance (snd (seq_accept_write k m s)) = maintenance s"
  "core_stage (snd (seq_accept_write k m s)) = core_stage s"
  "mem_side (snd (seq_accept_write k m s)) = mem_side s"
  "exited (snd (seq_accept_write k m s)) = exited s"
  by (simp_all add: seq_accept_write_def Let_def ic_frame split: option.split prod.split list.split)

lemma aw_handshake_frame [ic_frame]:
  "ar_view (ic_aw_handshake p s) = ar_view s"
  "rb_view (ic_aw_handshake p s) = rb_view s"
  "readers (ic_aw_handshake p s) = readers s"
  "writers (ic_aw_handshake p s) = writers s"
  "r_pending (ic_aw_handshake p s) = r_pending s"
  "direct_completion_seq (ic_aw_handshake p s) = direct_completion_seq s"
  "control (ic_aw_handshake p s) = control s"
  "cache_config (ic_aw_handshake p s) = cache_config s"
  "cache (ic_aw_handshake p s) = cache s"
  "maintenance (ic_aw_handshake p s) = maintenance s"
  "core_stage (ic_aw_handshake p s) = core_stage s"
  "mem_side (ic_aw_handshake p s) = mem_side s"
  "exited (ic_aw_handshake p s) = exited s"
  by (simp_all add: ic_aw_handshake_def Let_def ic_frame )

lemma w_handshake_frame [ic_frame]:
  "ar_view (ic_w_handshake k p s) = ar_view s"
  "rb_view (ic_w_handshake k p s) = rb_view s"
  "readers (ic_w_handshake k p s) = readers s"
  "writers (ic_w_handshake k p s) = writers s"
  "r_pending (ic_w_handshake k p s) = r_pending s"
  "direct_completion_seq (ic_w_handshake k p s) = direct_completion_seq s"
  "control (ic_w_handshake k p s) = control s"
  "cache_config (ic_w_handshake k p s) = cache_config s"
  "cache (ic_w_handshake k p s) = cache s"
  "maintenance (ic_w_handshake k p s) = maintenance s"
  "core_stage (ic_w_handshake k p s) = core_stage s"
  "mem_side (ic_w_handshake k p s) = mem_side s"
  "exited (ic_w_handshake k p s) = exited s"
  by (simp_all add: ic_w_handshake_def end_write_def Let_def ic_frame split: option.split prod.split list.split)

lemma b_handshake_frame [ic_frame]:
  "ar_view (handle_b_handshake k p s) = ar_view s"
  "aw_view (handle_b_handshake k p s) = aw_view s"
  "rb_view (handle_b_handshake k p s) = rb_view s"
  "readers (handle_b_handshake k p s) = readers s"
  "r_pending (handle_b_handshake k p s) = r_pending s"
  "direct_completion_seq (handle_b_handshake k p s) = direct_completion_seq s"
  "control (handle_b_handshake k p s) = control s"
  "cache_config (handle_b_handshake k p s) = cache_config s"
  "cache (handle_b_handshake k p s) = cache s"
  "maintenance (handle_b_handshake k p s) = maintenance s"
  "core_stage (handle_b_handshake k p s) = core_stage s"
  "mem_side (handle_b_handshake k p s) = mem_side s"
  "exited (handle_b_handshake k p s) = exited s"
  by (simp_all add: handle_b_handshake_def Let_def ic_frame split: option.split prod.split list.split)

lemma latch_aw_frame [ic_frame]:
  "ar_view (seq_latch_aw k p s) = ar_view s"
  "rb_view (seq_latch_aw k p s) = rb_view s"
  "readers (seq_latch_aw k p s) = readers s"
  "writers (seq_latch_aw k p s) = writers s"
  "r_pending (seq_latch_aw k p s) = r_pending s"
  "direct_completion_seq (seq_latch_aw k p s) = direct_completion_seq s"
  "w_pending (seq_latch_aw k p s) = w_pending s"
  "control (seq_latch_aw k p s) = control s"
  "cache_config (seq_latch_aw k p s) = cache_config s"
  "cache (seq_latch_aw k p s) = cache s"
  "maintenance (seq_latch_aw k p s) = maintenance s"
  "core_stage (seq_latch_aw k p s) = core_stage s"
  "mem_side (seq_latch_aw k p s) = mem_side s"
  "exited (seq_latch_aw k p s) = exited s"
  by (simp_all add: seq_latch_aw_def Let_def ic_frame split: option.split prod.split list.split)

lemma refresh_frame [ic_frame]:
  "ar_view (refresh_non_llc_w_active k p s) = ar_view s"
  "rb_view (refresh_non_llc_w_active k p s) = rb_view s"
  "readers (refresh_non_llc_w_active k p s) = readers s"
  "writers (refresh_non_llc_w_active k p s) = writers s"
  "r_pending (refresh_non_llc_w_active k p s) = r_pending s"
  "direct_completion_seq (refresh_non_llc_w_active k p s) = direct_completion_seq s"
  "w_pending (refresh_non_llc_w_active k p s) = w_pending s"
  "control (refresh_non_llc_w_active k p s) = control s"
  "cache_config (refresh_non_llc_w_active k p s) = cache_config s"
  "cache (refresh_non_llc_w_active k p s) = cache s"
  "maintenance (refresh_non_llc_w_active k p s) = maintenance s"
  "core_stage (refresh_non_llc_w_active k p s) = core_stage s"
  "mem_side (refresh_non_llc_w_active k p s) = mem_side s"
  "exited (refresh_non_llc_w_active k p s) = exited s"
  by (simp_all add: refresh_non_llc_w_active_def Let_def ic_frame split: option.split prod.split list.split)

lemma without_llc_frame [ic_frame]:
  "ar_view (seq_without_llc k s) = ar_view s"
  "rb_view (seq_without_llc k s) = rb_view s"
  "readers (seq_without_llc k s) = readers s"
  "r_pending (seq_without_llc k s) = r_pending s"
  "direct_completion_seq (seq_without_llc k s) = direct_completion_seq s"
  "control (seq_without_llc k s) = control s"
  "cache_config (seq_without_llc k s) = cache_config s"
  "cache (seq_without_llc k s) = cache s"
  "maintenance (seq_without_llc k s) = maintenance s"
  "core_stage (seq_without_llc k s) = core_stage s"
  "mem_side (seq_without_llc k s) = mem_side s"
  "exited (seq_without_llc k s) = exited s"
  by (simp_all add: seq_without_llc_def until_stop_views Let_def ic_frame )

lemma forget_frame [ic_frame]:
  "ar_view (forget_seen_read s) = ar_view s"
  "aw_view (forget_seen_read s) = aw_view s"
  "rb_view (forget_seen_read s) = rb_view s"
  "readers (forget_seen_read s) = readers s"
  "writers (forget_seen_read s) = writers s"
  "r_pending (forget_seen_read s) = r_pending s"
  "direct_completion_seq (forget_seen_read s) = direct_completion_seq s"
  "w_pending (forget_seen_read s) = w_pending s"
  "control (forget_seen_read s) = control s"
  "cache_config (forget_seen_read s) = cache_config s"
  "cache (forget_seen_read s) = cache s"
  "maintenance (forget_seen_read s) = maintenance s"
  "core_stage (forget_seen_read s) = core_stage s"
  "exited (forget_seen_read s) = exited s"
  by (simp_all add: forget_seen_read_def Let_def ic_frame )

lemma check_reads_frame [ic_frame]:
  "ar_view (assert_llc_consumed_reads k c s) = ar_view s"
  "aw_view (assert_llc_consumed_reads k c s) = aw_view s"
  "rb_view (assert_llc_consumed_reads k c s) = rb_view s"
  "readers (assert_llc_consumed_reads k c s) = readers s"
  "writers (assert_llc_consumed_reads k c s) = writers s"
  "r_pending (assert_llc_consumed_reads k c s) = r_pending s"
  "direct_completion_seq (assert_llc_consumed_reads k c s) = direct_completion_seq s"
  "w_pending (assert_llc_consumed_reads k c s) = w_pending s"
  "control (assert_llc_consumed_reads k c s) = control s"
  "cache_config (assert_llc_consumed_reads k c s) = cache_config s"
  "cache (assert_llc_consumed_reads k c s) = cache s"
  "maintenance (assert_llc_consumed_reads k c s) = maintenance s"
  "core_stage (assert_llc_consumed_reads k c s) = core_stage s"
  "mem_side (assert_llc_consumed_reads k c s) = mem_side s"
  by (simp_all add: assert_llc_consumed_reads_def Let_def ic_frame )

lemma drive_first_frame [ic_frame]:
  "ar_view (drive_first i s) = ar_view s"
  "aw_view (drive_first i s) = aw_view s"
  "readers (drive_first i s) = readers s"
  "writers (drive_first i s) = writers s"
  "r_pending (drive_first i s) = r_pending s"
  "direct_completion_seq (drive_first i s) = direct_completion_seq s"
  "w_pending (drive_first i s) = w_pending s"
  "cache_config (drive_first i s) = cache_config s"
  "core_stage (drive_first i s) = core_stage s"
  "mem_side (drive_first i s) = mem_side s"
  "exited (drive_first i s) = exited s"
  by (simp_all add: drive_first_def slave_responses_def case_prod_beta Let_def ic_frame )

lemma drive_masters_frame [ic_frame]:
  "ar_view (drive_masters i s) = ar_view s"
  "aw_view (drive_masters i s) = aw_view s"
  "rb_view (drive_masters i s) = rb_view s"
  "r_pending (drive_masters i s) = r_pending s"
  "direct_completion_seq (drive_masters i s) = direct_completion_seq s"
  "w_pending (drive_masters i s) = w_pending s"
  "control (drive_masters i s) = control s"
  "cache_config (drive_masters i s) = cache_config s"
  "cache (drive_masters i s) = cache s"
  "maintenance (drive_masters i s) = maintenance s"
  "core_stage (drive_masters i s) = core_stage s"
  "mem_side (drive_masters i s) = mem_side s"
  "exited (drive_masters i s) = exited s"
  by (simp_all add: drive_masters_def masters_upt Let_def ic_frame )

section \<open>Numbers of masters\<close>

lemma read_response_size [ic_frame]: "length (readers (comb_read_response s)) = length (readers s)"
  by (simp_all add: comb_read_response_def masters_upt Let_def ic_frame )

lemma write_response_size [ic_frame]: "length (writers (comb_write_response k s)) = length (writers s)"
  by (simp_all add: comb_write_response_def Let_def ic_frame )

lemma keep_latched_size [ic_frame]: "length (readers (keep_latched_ready p s)) = length (readers s)"
  by (simp_all add: keep_latched_ready_def Let_def ic_frame )

lemma show_write_size [ic_frame]: "length (writers (show_write_ready k m s)) = length (writers s)"
  by (simp_all add: show_write_ready_def Let_def ic_frame )

lemma outputs_size [ic_frame]: "length (readers (comb_outputs k s)) = length (readers s)" "length (writers (comb_outputs k s)) = length (writers s)"
  by (simp_all add: comb_outputs_def masters_upt Let_def ic_frame )

lemma begin_write_size [ic_frame]: "length (writers (write_begin k s)) = length (writers s)"
  by (simp_all add: write_begin_def Let_def ic_frame )

lemma ready_write_size [ic_frame]: "length (writers (ready_write m s)) = length (writers s)"
  by (simp_all add: ready_write_def Let_def ic_frame )

lemma fire_write_size [ic_frame]: "length (writers (fire_write m s)) = length (writers s)"
  by (simp_all add: fire_write_def Let_def ic_frame )

lemma direct_write_size [ic_frame]:
  "length (writers (snd (snd (direct_write_master k rc m acc)))) = length (writers (snd acc))"
  by (cases acc) (simp add: direct_write_master_def Let_def ic_frame)

lemma llc_write_master_size [ic_frame]: "length (writers (snd (llc_write_master k rc m s))) = length (writers s)"
  by (simp_all add: llc_write_master_def Let_def ic_frame )

lemma accept_direct_size [ic_frame]: "length (writers (snd (accept_direct_write k rc b s))) = length (writers s)"
  by (simp_all add: accept_direct_write_def direct_write_size until_stop_frame [where g = "\<lambda>x. length (writers (snd x))"] Let_def ic_frame )

lemma accept_llc_size [ic_frame]: "length (writers (accept_llc_write k rc b s)) = length (writers s)"
  by (simp_all add: accept_llc_write_def until_stop_frame [where g = "\<lambda>x. length (writers x)"] Let_def ic_frame )

lemma direct_ready_size [ic_frame]: "length (writers (snd (direct_ready_master k rc m s))) = length (writers s)"
  by (simp_all add: direct_ready_master_def Let_def ic_frame )

lemma write_request_size [ic_frame]: "length (writers (comb_write_request k s)) = length (writers s)"
  by (simp_all add: comb_write_request_def case_prod_beta until_stop_frame [where g = "\<lambda>x. length (writers x)"] Let_def ic_frame )

lemma clear_accepted_size [ic_frame]: "length (readers (seq_clear_accepted s)) = length (readers s)" "length (writers (seq_clear_accepted s)) = length (writers s)"
  by (simp_all add: seq_clear_accepted_def Let_def ic_frame )

lemma note_accepted_size [ic_frame]: "length (readers (note_read_accepted t s)) = length (readers s)"
  by (simp_all add: note_read_accepted_def Let_def ic_frame )

lemma finish_ar_size [ic_frame]: "length (readers (finish_ar_txn t s)) = length (readers s)"
  by (simp_all add: finish_ar_txn_def Let_def ic_frame )

lemma take_latched_size [ic_frame]: "length (readers (take_latched_ar p s)) = length (readers s)"
  by (simp_all add: take_latched_ar_def Let_def ic_frame )

lemma take_driven_size [ic_frame]: "length (readers (take_driven_ar p s)) = length (readers s)"
  by (simp_all add: take_driven_ar_def Let_def ic_frame )

lemma process_ar_size [ic_frame]: "length (readers (process_ar_port p s)) = length (readers s)"
  by (simp_all add: process_ar_port_def Let_def ic_frame )

lemma promote_heads_size [ic_frame]: "length (writers (promote_write_heads s)) = length (writers s)"
  by (simp_all add: promote_write_heads_def Let_def ic_frame )

lemma stage_write_size [ic_frame]: "length (writers (stage_write k m s)) = length (writers s)"
  by (simp_all add: stage_write_def Let_def ic_frame )

lemma stage_read_size [ic_frame]: "length (readers (stage_read k m s)) = length (readers s)"
  by (simp_all add: stage_read_def Let_def ic_frame )

lemma preempt_size [ic_frame]: "length (readers (preempt_stalled_read_for_write k s)) = length (readers s)" "length (writers (preempt_stalled_read_for_write k s)) = length (writers s)"
  by (simp_all add: preempt_stalled_read_for_write_def Let_def ic_frame split: option.split list.split)

lemma dispatch_size [ic_frame]: "length (readers (dispatch_core_stage k s)) = length (readers s)" "length (writers (dispatch_core_stage k s)) = length (writers s)"
  by (simp_all add: dispatch_core_stage_def Let_def ic_frame split: option.split list.split)

lemma queues_size [ic_frame]: "length (readers (seq_llc_queues k s)) = length (readers s)" "length (writers (seq_llc_queues k s)) = length (writers s)"
  by (simp_all add: seq_llc_queues_def Let_def ic_frame )

lemma consume_size [ic_frame]: "length (readers (consume_llc_read_response m s)) = length (readers s)"
  by (simp_all add: consume_llc_read_response_def Let_def ic_frame )

lemma take_read_size [ic_frame]: "length (readers (take_llc_read_response m s)) = length (readers s)"
  by (simp_all add: take_llc_read_response_def Let_def ic_frame )

lemma enqueue_resp_size [ic_frame]: "length (writers (enqueue_write_resp k m a r b l s)) = length (writers s)"
  by (simp_all add: enqueue_write_resp_def Let_def ic_frame )

lemma promote_resp_size [ic_frame]: "length (writers (promote_write_resp_queue s)) = length (writers s)"
  by (simp_all add: promote_write_resp_queue_def masters_upt Let_def ic_frame )

lemma release_delayed_size [ic_frame]: "length (writers (release_delayed_response k m s)) = length (writers s)"
  by (simp_all add: release_delayed_response_def Let_def ic_frame split: option.split list.split)

lemma take_write_size [ic_frame]: "length (writers (take_llc_write_response m s)) = length (writers s)"
  by (simp_all add: take_llc_write_response_def Let_def ic_frame )

lemma write_responses_size [ic_frame]: "length (writers (seq_write_responses k m s)) = length (writers s)"
  by (simp_all add: seq_write_responses_def Let_def ic_frame )

lemma direct_write_seq_size [ic_frame]: "length (writers (snd (seq_direct_write k m s))) = length (writers s)"
  by (simp_all add: seq_direct_write_def Let_def ic_frame split: option.split list.split)

lemma llc_b_size [ic_frame]: "length (writers (handle_llc_b k p s)) = length (writers s)"
  by (simp_all add: handle_llc_b_def Let_def ic_frame )

lemma with_llc_size [ic_frame]: "length (readers (seq_with_llc k a b s)) = length (readers s)" "length (writers (seq_with_llc k a b s)) = length (writers s)"
  by (simp_all add: seq_with_llc_def masters_upt until_stop_frame [where g = "\<lambda>x. length (writers x)"] until_stop_frame [where g = readers] Let_def ic_frame )

lemma accept_write_seq_size [ic_frame]: "length (writers (snd (seq_accept_write k m s))) = length (writers s)"
  by (simp_all add: seq_accept_write_def Let_def ic_frame split: option.split list.split)

lemma b_handshake_size [ic_frame]: "length (writers (handle_b_handshake k p s)) = length (writers s)"
  by (simp_all add: handle_b_handshake_def Let_def ic_frame split: option.split list.split)

lemma without_llc_size [ic_frame]: "length (writers (seq_without_llc k s)) = length (writers s)"
  by (simp_all add: seq_without_llc_def until_stop_frame [where g = "\<lambda>x. length (writers x)"] Let_def ic_frame )

lemma drive_masters_size [ic_frame]: "length (readers (drive_masters i s)) = length (readers s)" "length (writers (drive_masters i s)) = length (writers s)"
  by (simp_all add: drive_masters_def masters_upt Let_def ic_frame )

end
