(* ===== verification/IC_Arbiter.thy ===== *)
theory IC_Arbiter
  imports IC_Frames
begin

text \<open>
  What one call of \<^verbatim>\<open>comb_read_arbiter\<close> may do. A stage of the arbiter leaves everything but the AR
  channel and the handshake wires of the readers alone (\<open>arb_env\<close>), never touches a port that is
  busy, and makes a port busy only by driving a request that satisfies \<open>issue_ok\<close>: a free AXI id, a
  request of some master, no other read of that master with the same id.
\<close>

section \<open>What stays\<close>

text \<open>The parts of a reader the hazard and conflict checks look at.\<close>

definition resp_wires :: "read_master_port \<Rightarrow> bool \<times> bool \<times> wide_data \<times> u8" where
  "resp_wires p = (mr_resp_valid p, mr_resp_ready p, mr_resp_data p, mr_resp_id p)"

definition rq_of :: "ic_reader \<Rightarrow> read_req_hold \<times> bool \<times> llc_upstream_req \<times> bool \<times> u8 \<times> bool \<times> bool \<times> wide_data \<times> u8" where
  "rq_of q = (current_request (rm_port q), mr_valid (rm_port q), rm_up q, rm_resp_valid q, rm_resp_id q,
     resp_wires (rm_port q))"

definition arb_env where
  "arb_env s = (aw_view s, rb_view s, writers s, r_pending s, direct_completion_seq s, w_pending s,
     (control s, cache_config s, cache s, maintenance s, core_stage s, exited s),
     map rq_of (readers s), (\<lambda>p. latch_ar p s))"

lemma arb_envI:
  "\<lbrakk>aw_view a = aw_view b; rb_view a = rb_view b; writers a = writers b; r_pending a = r_pending b;
    direct_completion_seq a = direct_completion_seq b; w_pending a = w_pending b; control a = control b;
    cache_config a = cache_config b; cache a = cache b; maintenance a = maintenance b; core_stage a = core_stage b;
    exited a = exited b; map rq_of (readers a) = map rq_of (readers b); \<And>p. latch_ar p a = latch_ar p b\<rbrakk>
   \<Longrightarrow> arb_env a = arb_env b"
  by (simp add: arb_env_def)

lemma rq_upd [simp]: "(\<And>q. rq_of (f q) = rq_of q) \<Longrightarrow> map rq_of (upd m f rs) = map rq_of rs"
  by (rule map_upd_same)

lemma current_request_ready [simp]:
  "current_request (p\<lparr>mr_ready := b\<rparr>) = current_request p" "resp_wires (p\<lparr>mr_ready := b\<rparr>) = resp_wires p"
  by (simp_all add: current_request_def resp_wires_def)

lemma arb_envD:
  assumes "arb_env a = arb_env b"
  shows "aw_view a = aw_view b" "rb_view a = rb_view b" "writers a = writers b" "r_pending a = r_pending b"
    "direct_completion_seq a = direct_completion_seq b" "w_pending a = w_pending b" "control a = control b"
    "cache_config a = cache_config b" "cache a = cache b" "maintenance a = maintenance b"
    "core_stage a = core_stage b" "exited a = exited b" "map rq_of (readers a) = map rq_of (readers b)"
    "latch_ar p a = latch_ar p b"
  using assms by (simp_all add: arb_env_def fun_eq_iff)

lemma arb_env_reader: "(\<And>q. rq_of (f q) = rq_of q) \<Longrightarrow> arb_env (upd_reader m f s) = arb_env s"
  by (rule arb_envI) simp_all

lemma arb_env_rq: "arb_env a = arb_env b \<Longrightarrow> m < length (readers b) \<Longrightarrow> rq_of (readers a ! m) = rq_of (readers b ! m)"
  by (simp add: arb_env_def) (metis length_map nth_map)

text \<open>The checks of the arbiter only look at what stays.\<close>

lemma llc_enabled_env: "arb_env a = arb_env b \<Longrightarrow> llc_enabled a = llc_enabled b"
  by (simp add: arb_env_def llc_enabled_def)

lemma has_read_id_conflict_env:
  assumes "arb_env a = arb_env b" "m < length (readers b)"
  shows "has_read_id_conflict k a m i = has_read_id_conflict k b m i"
  using arb_env_rq [OF assms] llc_enabled_env [OF assms(1)] assms(1)
  by (simp add: arb_env_def has_read_id_conflict_def rq_of_def fun_eq_iff Let_def)

section \<open>What the arbiter issues\<close>

definition ar_shape :: "kit_config \<Rightarrow> ic \<Rightarrow> downstream_port \<Rightarrow> axi4_ar \<Rightarrow> ar_issue_meta \<Rightarrow> bool" where
  "ar_shape k s p ar m \<longleftrightarrow>
     (\<exists>mode2. let iss = make_downstream_read_issue p (am_upstream_addr m) (am_upstream_size m)
                       (lc_line_bytes (cache_config s)) mode2
        in (mode2 \<longrightarrow> am_from_llc m) \<and> araddr ar = ri_addr iss \<and> arlen ar = calc_burst_len (ri_total_size iss) \<and>
           arsize ar = port_axi_size p \<and> arburst ar = AXI_BURST_INCR \<and> am_extract m = ri_extract iss)"

definition pending_ids :: "kit_config \<Rightarrow> ic \<Rightarrow> downstream_port \<Rightarrow> u8 list" where
  "pending_ids k s p = map (\<lambda>t. rt_axi_id t AND kAxiIdMask k) (filter (\<lambda>t. rt_port t = p) (r_pending s))"

text \<open>A read of a master: in the cached mode only past the cache, else the master's present request.\<close>

definition direct_ok :: "kit_config \<Rightarrow> ic \<Rightarrow> downstream_port \<Rightarrow> ar_issue_meta \<Rightarrow> nat \<Rightarrow> bool" where
  "direct_ok k s p m i \<longleftrightarrow>
     am_master m = int i \<and> i < NUM_READ_MASTERS \<and> \<not> has_read_id_conflict k s i (am_orig_id m) \<and>
     (if llc_enabled s then p = PortMMIO
      else p = classify_downstream_port k (am_upstream_addr m) (am_upstream_size m) \<and>
           can_issue_external_read k s (am_upstream_addr m) \<and> mr_valid (rport s i) \<and>
           current_request (rport s i) = \<lparr>rh_valid = True, rh_addr = am_upstream_addr m,
             rh_total_size = am_upstream_size m, rh_id = am_orig_id m, rh_bypass = mr_bypass (rport s i)\<rparr>)"

definition issue_ok :: "kit_config \<Rightarrow> ic \<Rightarrow> downstream_port \<Rightarrow> axi4_ar \<Rightarrow> ar_issue_meta \<Rightarrow> bool" where
  "issue_ok k s p ar m \<longleftrightarrow>
     arvalid ar \<and> am_valid m \<and> unat (arid ar) < 2 ^ AXI_ID_WIDTH k \<and> arid ar \<notin> set (pending_ids k s p) \<and>
     ar_shape k s p ar m \<and>
     (if am_from_llc m then llc_enabled s \<and> am_master m = 0 else \<exists>i. direct_ok k s p m i)"

definition port_moves :: "kit_config \<Rightarrow> ic \<Rightarrow> downstream_port \<Rightarrow> arb \<Rightarrow> arb \<Rightarrow> bool" where
  "port_moves k s p a b \<longleftrightarrow>
     (ar_view (arb_s b) p = ar_view (arb_s a) p \<and> arb_busy b p = arb_busy a p) \<or>
     (\<not> arb_busy a p \<and> arb_busy b p \<and>
      (\<exists>ar m. ar_view (arb_s b) p = (ar, fst (snd (ar_view (arb_s a) p)), m) \<and> issue_ok k s p ar m \<and>
         arready ar = arready (fst (ar_view (arb_s a) p))))"

definition arb_moves :: "kit_config \<Rightarrow> ic \<Rightarrow> arb \<Rightarrow> arb \<Rightarrow> bool" where
  "arb_moves k s a b \<longleftrightarrow> arb_env (arb_s b) = arb_env (arb_s a) \<and> (\<forall>p. port_moves k s p a b)"

lemma arb_moves_env: "arb_moves k s a b \<Longrightarrow> arb_env (arb_s a) = arb_env s \<Longrightarrow> arb_env (arb_s b) = arb_env s"
  by (simp add: arb_moves_def)

lemma arb_moves_quiet:
  "arb_env (arb_s b) = arb_env (arb_s a) \<Longrightarrow> ar_view (arb_s b) = ar_view (arb_s a) \<Longrightarrow> arb_busy b = arb_busy a
   \<Longrightarrow> arb_moves k s a b"
  by (simp add: arb_moves_def port_moves_def)

lemma arb_moves_refl [simp]: "arb_moves k s a a"
  by (simp add: arb_moves_quiet)

lemma port_moves_trans: "port_moves k s p a b \<Longrightarrow> port_moves k s p b c \<Longrightarrow> port_moves k s p a c"
  unfolding port_moves_def by (elim disjE conjE exE) simp_all

lemma arb_moves_trans: "arb_moves k s a b \<Longrightarrow> arb_moves k s b c \<Longrightarrow> arb_moves k s a c"
  by (auto simp: arb_moves_def intro: port_moves_trans)

text \<open>Once a port is busy, its channel stays; in particular a latched request is not overwritten.\<close>

lemma arb_moves_busy: "arb_moves k s a b \<Longrightarrow> arb_busy a p \<Longrightarrow> ar_view (arb_s b) p = ar_view (arb_s a) p"
  by (auto simp: arb_moves_def port_moves_def)

section \<open>The stages of the arbiter\<close>

lemma arb_do_simps [simp]:
  "arb_s (arb_do f a) = f (arb_s a)" "arb_busy (arb_do f a) = arb_busy a"
  "arb_s (arb_counted m a) = arb_s a" "arb_busy (arb_counted m a) = arb_busy a"
  by (simp_all add: arb_do_def arb_counted_def)

lemma first_free_id_Some: "first_free_id k used = Some i \<Longrightarrow> unat i < 2 ^ AXI_ID_WIDTH k \<and> i \<notin> set used"
  by (auto simp: first_free_id_def dest!: first_below_Some simp: unat_of_nat
      intro: le_less_trans [OF mod_less_eq_dividend])

lemma pending_ids_env: "arb_env a = arb_env b \<Longrightarrow> pending_ids k a p = pending_ids k b p"
  by (simp add: pending_ids_def arb_env_def)

lemma alloc_comb_read_axi_id:
  assumes "alloc_comb_read_axi_id k p a = (r, b)"
  shows "arb_s b = arb_s a \<and> arb_busy b = arb_busy a \<and> arb_count b = arb_count a"
    and "r = Some i \<Longrightarrow> unat i < 2 ^ AXI_ID_WIDTH k \<and> i \<notin> set (pending_ids k (arb_s a) p)"
  using assms by (auto simp: alloc_comb_read_axi_id_def Let_def pending_ids_def split: option.splits
      dest: first_free_id_Some)

lemma moves_reader: "(\<And>q. rq_of (f q) = rq_of q) \<Longrightarrow> arb_moves k s a (arb_do (upd_reader m f) a)"
  by (rule arb_moves_quiet) (simp_all add: arb_env_reader)

lemma moves_counted: "arb_moves k s a b \<Longrightarrow> arb_moves k s a (arb_counted m b)"
  by (simp add: arb_moves_def port_moves_def)

lemma ic_drive_ar_env: "arb_env (arb_s (ic_drive_ar iss i m a)) = arb_env (arb_s a)"
  by (rule arb_envI) (simp_all add: ic_drive_ar_def Let_def)

lemma moves_drive:
  assumes "\<not> arb_busy a (ri_port iss)"
    and "issue_ok k s (ri_port iss) ((io_ar (dp_io (dport (ri_port iss) (arb_s a))))\<lparr>arvalid := True, araddr := ri_addr iss,
           arlen := calc_burst_len (ri_total_size iss), arsize := port_axi_size (ri_port iss),
           arburst := AXI_BURST_INCR, arid := i\<rparr>) (m\<lparr>am_valid := True\<rparr>)"
  shows "arb_moves k s a (ic_drive_ar iss i m a)"
proof -
  have "port_moves k s p a (ic_drive_ar iss i m a)" for p
    using assms by (simp add: port_moves_def ic_drive_ar_def Let_def ar_view_def ar_of_def)
  then show ?thesis by (simp add: arb_moves_def ic_drive_ar_env)
qed

lemma make_issue_port [simp]: "ri_port (make_downstream_read_issue p a z l b) = p"
  by (simp add: make_downstream_read_issue_def Let_def)

lemma issue_upstream:
  assumes "arb_env (arb_s a) = arb_env s" "\<not> arb_busy a p"
    and "alloc_comb_read_axi_id k p b = (Some i, a)" "arb_s a = arb_s b"
    and "iss = make_downstream_read_issue p addr z (lc_line_bytes (cache_config (arb_s a))) False"
    and "direct_ok k s p ((upstream_meta iss addr z m orig)\<lparr>am_valid := True\<rparr>) m"
  shows "arb_moves k s a (ic_drive_ar iss i (upstream_meta iss addr z m orig) a)"
proof (rule moves_drive)
  have "lc_line_bytes (cache_config s) = lc_line_bytes (cache_config (arb_s a))"
    by (simp add: arb_envD(8) [OF assms(1)])
  moreover have "unat i < 2 ^ AXI_ID_WIDTH k \<and> i \<notin> set (pending_ids k s p)"
    using alloc_comb_read_axi_id(2) [OF assms(3) refl] unfolding assms(4) [symmetric] pending_ids_env [OF assms(1)]
    by simp
  ultimately show "issue_ok k s (ri_port iss) ((io_ar (dp_io (dport (ri_port iss) (arb_s a))))\<lparr>arvalid := True,
      araddr := ri_addr iss, arlen := calc_burst_len (ri_total_size iss), arsize := port_axi_size (ri_port iss),
      arburst := AXI_BURST_INCR, arid := i\<rparr>) (upstream_meta iss addr z m orig\<lparr>am_valid := True\<rparr>)"
    using assms(5,6)
    by (auto simp: issue_ok_def ar_shape_def upstream_meta_def ar_issue_meta_zero_def Let_def)
qed (use assms in simp)

lemma moves_issue_llc:
  assumes env: "arb_env (arb_s a) = arb_env s" and on: "llc_enabled s"
  shows "arb_moves k s a (issue_llc_read k a)"
proof -
  define m where "m = out_mem (ext_out (cache (arb_s a)))"
  define p where "p = classify_downstream_port k (mo_read_req_addr m) (mo_read_req_size m)"
  show ?thesis
  proof (cases "issue_llc_read k a = a \<or> arb_busy a p")
    case True
    then show ?thesis by (auto simp: issue_llc_read_def Let_def m_def p_def split: if_splits)
  next
    case False
    obtain r b where r: "alloc_comb_read_axi_id k p a = (r, b)" by fastforce
    note b = alloc_comb_read_axi_id(1) [OF r]
    show ?thesis
    proof (cases r)
      case None
      then show ?thesis using r b by (simp add: issue_llc_read_def Let_def m_def p_def arb_moves_quiet)
    next
      case (Some i)
      define iss where "iss = make_downstream_read_issue p (mo_read_req_addr m) (mo_read_req_size m)
        (lc_line_bytes (cache_config (arb_s a))) (mo_read_req_mode2 m)"
      define meta where "meta = ar_issue_meta_zero\<lparr>am_from_llc := True, am_llc_mem_id := mo_read_req_id m,
        am_extract := ri_extract iss, am_upstream_addr := mo_read_req_addr m,
        am_upstream_size := mo_read_req_size m, am_master := 0, am_orig_id := mo_read_req_id m\<rparr>"
      have i: "unat i < 2 ^ AXI_ID_WIDTH k \<and> i \<notin> set (pending_ids k s p)"
        using alloc_comb_read_axi_id(2) [OF r Some] unfolding pending_ids_env [OF env] .
      have "arb_moves k s b (ic_drive_ar iss i meta b)"
        using False b i on by (intro moves_drive)
          (auto simp: iss_def meta_def issue_ok_def ar_shape_def ar_issue_meta_zero_def Let_def
             arb_envD(8) [OF env])
      then have "arb_moves k s a (ic_drive_ar iss i meta b)"
        using b by (simp add: arb_moves_def port_moves_def)
      moreover have "issue_llc_read k a = arb_do (\<lambda>s. s\<lparr>mem_side := (mem_side s)\<lparr>mb_seen_valid := True,
          mb_seen_id := mo_read_req_id m, mb_seen_addr := mo_read_req_addr m, mb_seen_size := mo_read_req_size m\<rparr>\<rparr>)
          (ic_drive_ar iss i meta b)"
        using False r Some by (auto simp: issue_llc_read_def Let_def m_def p_def iss_def meta_def split: if_splits)
      ultimately show ?thesis
        using arb_moves_trans [OF _ arb_moves_quiet] by (simp add: arb_moves_def arb_env_def port_moves_def)
    qed
  qed
qed

lemma rq_of_updates [simp]:
  "rq_of (q\<lparr>rm_hold := h\<rparr>) = rq_of q" "rq_of (q\<lparr>rm_req_ready := b\<rparr>) = rq_of q"
  "rq_of (q\<lparr>rm_accept := b\<rparr>) = rq_of q" "rq_of (q\<lparr>rm_capture := u\<rparr>) = rq_of q"
  "rq_of (q\<lparr>rm_port := (rm_port q)\<lparr>mr_ready := b\<rparr>\<rparr>) = rq_of q"
  "rq_of (q\<lparr>rm_req_ready := b, rm_port := (rm_port q)\<lparr>mr_ready := c\<rparr>\<rparr>) = rq_of q"
  "rq_of (q\<lparr>rm_hold := h, rm_port := (rm_port q)\<lparr>mr_ready := c\<rparr>\<rparr>) = rq_of q"
  by (simp_all add: rq_of_def)

lemma moves_reader' [simp]:
  "arb_moves k s a (arb_do (upd_reader m (\<lambda>q. q\<lparr>rm_hold := h q\<rparr>)) a)"
  "arb_moves k s a (arb_do (upd_rport m (\<lambda>p. p\<lparr>mr_ready := b\<rparr>)) a)"
  "arb_moves k s a (arb_do (upd_reader m (\<lambda>q. q\<lparr>rm_req_ready := b, rm_port := (rm_port q)\<lparr>mr_ready := c\<rparr>\<rparr>)) a)"
  "arb_moves k s a (arb_do (upd_reader m (\<lambda>q. q\<lparr>rm_hold := h q, rm_port := (rm_port q)\<lparr>mr_ready := c\<rparr>\<rparr>)) a)"
  "arb_moves k s a (arb_do (hold_request m) a)"
  "arb_moves k s a (arb_do (upd_reader m (\<lambda>q. q\<lparr>rm_accept := b, rm_capture := r,
     rm_port := (rm_port q)\<lparr>mr_ready := c\<rparr>\<rparr>)) a)"
  by (rule moves_reader arb_moves_quiet; simp add: upd_rport_def hold_request_def rq_of_def arb_env_reader)+

lemma moves_direct_mmio:
  assumes env: "arb_env (arb_s a) = arb_env s" and "llc_enabled s" "\<not> arb_busy a PortMMIO"
    and m: "m < NUM_READ_MASTERS" "length (readers s) = NUM_READ_MASTERS"
  shows "arb_moves k s a (snd (direct_mmio_read k ready m a))"
proof -
  define q where "q = readers (arb_s a) ! m"
  define cap where "cap = (if rh_valid (rm_hold q) then rm_hold q else current_request (rm_port q))"
  have conflict: "has_read_id_conflict k (arb_s a) m i = has_read_id_conflict k s m i" for i
    using has_read_id_conflict_env [OF env] m by simp
  obtain r b where r: "alloc_comb_read_axi_id k PortMMIO a = (r, b)" by fastforce
  note b = alloc_comb_read_axi_id(1) [OF r]
  define iss where "iss = make_downstream_read_issue PortMMIO (rh_addr cap) (rh_total_size cap)
    (lc_line_bytes (cache_config (arb_s a))) False"
  define c where "c i = ic_drive_ar iss i (upstream_meta iss (rh_addr cap) (rh_total_size cap) m (rh_id cap)) b" for i
  define d where "d i = arb_counted m (arb_do (upd_reader m (\<lambda>q. q\<lparr>rm_hold := read_req_hold_zero,
    rm_port := (rm_port q)\<lparr>mr_ready := True\<rparr>\<rparr>)) (c i))" for i
  have eq: "direct_mmio_read k ready m a =
      (if \<not> ready \<and> m \<noteq> unat MASTER_DCACHE_R then (False, arb_do (hold_request m) a)
       else if has_read_id_conflict k s m (rh_id cap) then (False, a)
       else case r of None \<Rightarrow> (False, b) | Some i \<Rightarrow> (arb_busy (d i) PortDDR \<and> arb_busy (d i) PortMMIO, d i))"
    unfolding direct_mmio_read_def Let_def d_def c_def iss_def cap_def q_def r conflict
    by (simp split: option.split)
  have "arb_moves k s a (d i)" if "\<not> has_read_id_conflict k s m (rh_id cap)" "r = Some i" for i
  proof -
    have "arb_moves k s b (c i)"
      unfolding c_def
      by (rule issue_upstream [where b = a and p = PortMMIO])
        (use assms that r b in \<open>auto simp: iss_def direct_ok_def upstream_meta_def ar_issue_meta_zero_def\<close>)
    then have "arb_moves k s a (c i)" using b by (simp add: arb_moves_def port_moves_def)
    then show ?thesis unfolding d_def by (intro moves_counted) (erule arb_moves_trans, simp)
  qed
  moreover have "arb_moves k s a b" using b by (simp add: arb_moves_quiet)
  ultimately show ?thesis unfolding eq by (simp split: option.split)
qed

lemma moves_llc_read_master:
  assumes env: "arb_env (arb_s a) = arb_env s" and "llc_enabled s"
    and m: "m < NUM_READ_MASTERS" "length (readers s) = NUM_READ_MASTERS"
  shows "arb_moves k s a (snd (llc_read_master k rc m a))"
  using moves_direct_mmio [OF env _ _ m] assms(2) unfolding llc_read_master_def Let_def
  by (auto simp del: moves_reader'(6) intro!: moves_reader'(6) split: if_splits)

lemma moves_issue_read:
  assumes "arb_env (arb_s a) = arb_env s" "\<not> arb_busy a p"
    and "alloc_comb_read_axi_id k p a = (Some i, b)"
    and "direct_ok k s p ((upstream_meta (make_downstream_read_issue p (rh_addr cap) (rh_total_size cap)
      (lc_line_bytes (cache_config (arb_s a))) False) (rh_addr cap) (rh_total_size cap) m (rh_id cap))\<lparr>am_valid := True\<rparr>) m"
  shows "arb_moves k s a (issue_read k m cap p i b)"
proof -
  note b = alloc_comb_read_axi_id(1) [OF assms(3)]
  define iss where "iss = make_downstream_read_issue p (rh_addr cap) (rh_total_size cap)
      (lc_line_bytes (cache_config (arb_s a))) False"
  define c where "c = ic_drive_ar iss i (upstream_meta iss (rh_addr cap) (rh_total_size cap) m (rh_id cap)) b"
  have "arb_moves k s b c"
    unfolding c_def by (rule issue_upstream [where b = a and p = p]) (use assms b in \<open>simp_all add: iss_def\<close>)
  then have "arb_moves k s a c" using b by (simp add: arb_moves_def port_moves_def)
  then have "arb_moves k s a (arb_counted m (arb_do (upd_rport m (\<lambda>p. p\<lparr>mr_ready := True\<rparr>)) c))"
    by (intro moves_counted) (erule arb_moves_trans, simp)
  then show ?thesis using b by (simp add: issue_read_def Let_def c_def iss_def)
qed

text \<open>In the uncached mode a request is issued as the master presents it.\<close>

lemma direct_ok_current:
  assumes env: "arb_env (arb_s a) = arb_env s" and "\<not> llc_enabled s"
    and m: "m < NUM_READ_MASTERS" "length (readers s) = NUM_READ_MASTERS"
    and "cap = current_request (rport (arb_s a) m)" "p = classify_downstream_port k (rh_addr cap) (rh_total_size cap)"
    and "\<not> has_read_id_conflict k (arb_s a) m (rh_id cap)" "can_issue_external_read k s (rh_addr cap)"
    and "mr_valid (rport (arb_s a) m)"
  shows "direct_ok k s p ((upstream_meta iss (rh_addr cap) (rh_total_size cap) m (rh_id cap))\<lparr>am_valid := True\<rparr>) m"
proof -
  have "current_request (rport (arb_s a) m) = current_request (rport s m)" "mr_valid (rport s m)"
    using arb_env_rq [OF env, of m] m assms(9) by (simp_all add: rq_of_def)
  then show ?thesis
    using assms(2-) has_read_id_conflict_env [OF env, of m]
    by (simp add: direct_ok_def upstream_meta_def ar_issue_meta_zero_def current_request_def)
qed

lemma write_hazard_env:
  "arb_env a = arb_env b \<Longrightarrow> can_issue_external_read k a x = can_issue_external_read k b x"
proof -
  assume "arb_env a = arb_env b"
  then have "aw_of (dport p a) = aw_of (dport p b)" "w_pending a = w_pending b" for p
    by (simp_all add: arb_env_def aw_view_def fun_eq_iff)
  then show ?thesis
    by (simp add: can_issue_external_read_def has_external_pending_write_hazard_def aw_of_def)
qed

text \<open>One attempt to issue a master's present request.\<close>

lemma moves_attempt:
  assumes env: "arb_env (arb_s a) = arb_env s" and "\<not> llc_enabled s"
    and m: "m < NUM_READ_MASTERS" "length (readers s) = NUM_READ_MASTERS"
    and "cap = current_request (rport (arb_s a) m)" "p = classify_downstream_port k (rh_addr cap) (rh_total_size cap)"
    and "\<not> has_read_id_conflict k (arb_s a) m (rh_id cap)" "can_issue_external_read k (arb_s a) (rh_addr cap)"
    and "\<not> arb_busy a p" "alloc_comb_read_axi_id k p a = (Some i, b)" "mr_valid (rport (arb_s a) m)"
  shows "arb_moves k s a (issue_read k m cap p i b)"
  using env assms(9,10)
proof (rule moves_issue_read)
  show "direct_ok k s p ((upstream_meta (make_downstream_read_issue p (rh_addr cap) (rh_total_size cap)
      (lc_line_bytes (cache_config (arb_s a))) False) (rh_addr cap) (rh_total_size cap) m (rh_id cap))\<lparr>am_valid := True\<rparr>) m"
    using env assms(2-7) by (rule direct_ok_current) (use assms(8,11) write_hazard_env [OF env] in simp_all)
qed

lemma moves_alloc: "alloc_comb_read_axi_id k p a = (r, b) \<Longrightarrow> arb_moves k s a b"
  by (drule alloc_comb_read_axi_id(1)) (simp add: arb_moves_quiet)

lemma moves_complete_ready:
  assumes env: "arb_env (arb_s a) = arb_env s" and off: "\<not> llc_enabled s"
    and m: "m < NUM_READ_MASTERS" "length (readers s) = NUM_READ_MASTERS"
  shows "arb_moves k s a (complete_ready_read k rc m a)"
proof -
  define q where "q = readers (arb_s a) ! m"
  define now where "now = current_request (rm_port q)"
  define b where "b = (if rh_valid (rm_hold q) \<and> rm_hold q \<noteq> now
    then arb_do (upd_reader m (\<lambda>q. q\<lparr>rm_hold := now\<rparr>)) a else a)"
  define p where "p = classify_downstream_port k (rh_addr now) (rh_total_size now)"
  have b: "arb_moves k s a b" by (simp add: b_def)
  then have env': "arb_env (arb_s b) = arb_env s" using env by (rule arb_moves_env)
  have cap: "(if rh_valid (rm_hold q) \<and> rm_hold q = now then rm_hold q else now) = now" by simp
  have "rq_of (readers (arb_s b) ! m) = rq_of (readers (arb_s a) ! m)"
    using arb_env_rq [OF env, of m] arb_env_rq [OF env', of m] m by simp
  then have now: "now = current_request (rport (arb_s b) m)" "mr_valid (rport (arb_s b) m) = mr_valid (rm_port q)"
    by (simp_all add: now_def q_def rq_of_def)
  obtain r c where r: "alloc_comb_read_axi_id k p b = (r, c)" by fastforce
  have eq: "complete_ready_read k rc m a =
    (if \<not> rc ! m \<or> \<not> mr_valid (rm_port q) then a
     else if has_read_id_conflict k (arb_s b) m (rh_id now) then b
     else if \<not> can_issue_external_read k (arb_s b) (rh_addr now) then b
     else if \<not> downstream_request_supported p (rh_total_size now) then b
     else if arb_busy b p then b
     else if \<not> can_accept_read_master_comb k b m then b
     else case r of None \<Rightarrow> c | Some i \<Rightarrow> issue_read k m now p i c)"
    unfolding complete_ready_read_def Let_def q_def [symmetric] now_def [symmetric] b_def [symmetric] cap
      p_def [symmetric] r by (cases r) (simp_all only: prod.case option.case)
  have "arb_moves k s b (issue_read k m now p i c)"
    if "\<not> has_read_id_conflict k (arb_s b) m (rh_id now)" "can_issue_external_read k (arb_s b) (rh_addr now)"
      "\<not> arb_busy b p" "r = Some i" "mr_valid (rm_port q)" for i
    by (rule moves_attempt [OF env' off m now(1) p_def]) (use that r now(2) in auto)
  moreover have "arb_moves k s a c" using b moves_alloc [OF r] by (rule arb_moves_trans)
  ultimately show ?thesis
    unfolding eq using b arb_moves_trans [OF b] by (simp split: option.split)
qed

lemma moves_round_robin:
  assumes env: "arb_env (arb_s a) = arb_env s" and off: "\<not> llc_enabled s"
    and m: "m < NUM_READ_MASTERS" "length (readers s) = NUM_READ_MASTERS"
  shows "arb_moves k s a (snd (round_robin_read k rc m a))"
proof -
  define now where "now = current_request (rport (arb_s a) m)"
  define p where "p = classify_downstream_port k (rh_addr now) (rh_total_size now)"
  obtain r b where r: "alloc_comb_read_axi_id k p a = (r, b)" by fastforce
  have fields: "mr_addr (rport (arb_s a) m) = rh_addr now" "mr_total_size (rport (arb_s a) m) = rh_total_size now"
    "mr_id (rport (arb_s a) m) = rh_id now"
    by (simp_all add: now_def current_request_def)
  have eq: "round_robin_read k rc m a =
    (if \<not> mr_valid (rport (arb_s a) m) then (False, a)
     else if \<not> can_accept_read_master k (arb_s a) m then (False, a)
     else if has_read_id_conflict k (arb_s a) m (rh_id now) then (False, a)
     else if \<not> can_issue_external_read k (arb_s a) (rh_addr now) then (False, a)
     else if \<not> downstream_request_supported p (rh_total_size now) then (False, a)
     else if arb_busy a p then (False, a)
     else if \<not> can_accept_read_master_comb k a m then (False, a)
     else case r of None \<Rightarrow> (False, b)
        | Some i \<Rightarrow> if m \<noteq> unat MASTER_DCACHE_R \<and> \<not> rc ! m then (False, arb_do (hold_request m) b)
                    else (arb_busy (issue_read k m now p i b) PortDDR \<and> arb_busy (issue_read k m now p i b) PortMMIO,
                          issue_read k m now p i b))"
    unfolding round_robin_read_def Let_def now_def [symmetric] fields p_def [symmetric] r
    by (cases r) (simp_all only: prod.case option.case)
  have "arb_moves k s a (issue_read k m now p i b)"
    if "\<not> has_read_id_conflict k (arb_s a) m (rh_id now)" "can_issue_external_read k (arb_s a) (rh_addr now)"
      "\<not> arb_busy a p" "r = Some i" "mr_valid (rport (arb_s a) m)" for i
    by (rule moves_attempt [OF env off m now_def p_def]) (use that r in auto)
  moreover have "arb_moves k s a (arb_do (hold_request m) b)"
    using moves_alloc [OF r] by (rule arb_moves_trans) simp
  ultimately show ?thesis
    unfolding eq using moves_alloc [OF r, of s] by (simp split: option.split)
qed

section \<open>The arbiter\<close>

lemma moves_fold:
  assumes "\<And>m a. m \<in> set ms \<Longrightarrow> arb_env (arb_s a) = arb_env s \<Longrightarrow> arb_moves k s a (f m a)"
  shows "arb_env (arb_s a) = arb_env s \<Longrightarrow> arb_moves k s a (fold f ms a)"
  using assms
proof (induction ms arbitrary: a)
  case (Cons m ms)
  have a: "arb_moves k s a (f m a)" using Cons.prems by simp
  have "arb_moves k s (f m a) (fold f ms (f m a))"
    using Cons.IH Cons.prems(2) arb_moves_env [OF a Cons.prems(1)] by simp
  then show ?case using arb_moves_trans [OF a] by simp
qed simp

lemma moves_until_stop:
  assumes "\<And>m a. m \<in> set ms \<Longrightarrow> arb_env (arb_s a) = arb_env s \<Longrightarrow> arb_moves k s a (snd (f m a))"
  shows "arb_env (arb_s a) = arb_env s \<Longrightarrow> arb_moves k s a (until_stop f ms a)"
  using assms
proof (induction ms arbitrary: a)
  case (Cons m ms)
  obtain stop b where f: "f m a = (stop, b)" by fastforce
  have "arb_moves k s a b" using Cons.prems(1) Cons.prems(2) [of m a] f by simp
  moreover have "arb_moves k s b (until_stop f ms b)"
    using Cons.IH Cons.prems arb_moves_env [OF \<open>arb_moves k s a b\<close>] by simp
  ultimately show ?case using f arb_moves_trans by simp
qed simp

text \<open>The AR wires that repeat a latch.\<close>

definition latch_wires :: "ar_latch \<Rightarrow> axi4_ar \<Rightarrow> axi4_ar" where
  "latch_wires l ar = ar\<lparr>arvalid := True, araddr := al_addr l, arlen := al_len l, arsize := al_size l,
     arburst := al_burst l, arid := al_id l\<rparr>"

definition arb_start :: "ic \<Rightarrow> arb" where
  "arb_start s = fold drive_ar_latch both_ports (arbiter_begin s)"

lemma arbiter_begin_simps:
  "arb_env (arb_s (arbiter_begin s)) = arb_env s" "arb_busy (arbiter_begin s) p = False"
  "ar_view (arb_s (arbiter_begin s)) p = ((io_ar (dp_io (dport p s)))\<lparr>arvalid := False\<rparr>, latch_ar p s, ar_issue_meta_zero)"
  by (rule arb_envI; simp add: arbiter_begin_def aw_view_def rb_view_def arbiter_begin_port_def arbiter_begin_reader_def
        rq_of_def dport_def fun_eq_iff aw_of_def rb_of_def split: downstream_port.split)
    (simp_all add: arbiter_begin_def ar_view_def ar_of_def arbiter_begin_port_def dport_def split: downstream_port.split)

lemma drive_ar_latch_simps:
  "arb_env (arb_s (drive_ar_latch p a)) = arb_env (arb_s a)"
  "arb_busy (drive_ar_latch p a) q = (arb_busy a q \<or> p = q \<and> al_valid (latch_ar p (arb_s a)))"
  "ar_view (arb_s (drive_ar_latch p a)) q =
     (if p = q \<and> al_valid (latch_ar p (arb_s a))
      then (latch_wires (latch_ar p (arb_s a)) (io_ar (dp_io (dport p (arb_s a)))), latch_ar p (arb_s a),
            dp_issue (dport p (arb_s a)))
      else ar_view (arb_s a) q)"
proof -
  show "arb_env (arb_s (drive_ar_latch p a)) = arb_env (arb_s a)"
    by (rule arb_envI) (simp_all add: drive_ar_latch_def Let_def ready_latched_master_def upd_io_def)
  show "arb_busy (drive_ar_latch p a) q = (arb_busy a q \<or> p = q \<and> al_valid (latch_ar p (arb_s a)))"
    by (auto simp: drive_ar_latch_def Let_def)
  show "ar_view (arb_s (drive_ar_latch p a)) q =
     (if p = q \<and> al_valid (latch_ar p (arb_s a))
      then (latch_wires (latch_ar p (arb_s a)) (io_ar (dp_io (dport p (arb_s a)))), latch_ar p (arb_s a),
            dp_issue (dport p (arb_s a)))
      else ar_view (arb_s a) q)"
    by (cases "al_valid (latch_ar p (arb_s a))"; cases "p = q")
      (simp_all add: drive_ar_latch_def Let_def ready_latched_master_def upd_io_def ar_view_def ar_of_def latch_wires_def)
qed

lemma arb_start_simps:
  "arb_env (arb_s (arb_start s)) = arb_env s"
  "arb_busy (arb_start s) p = al_valid (latch_ar p s)"
  "ar_view (arb_s (arb_start s)) p =
     (if al_valid (latch_ar p s) then (latch_wires (latch_ar p s) (io_ar (dp_io (dport p s))), latch_ar p s, ar_issue_meta_zero)
      else ((io_ar (dp_io (dport p s)))\<lparr>arvalid := False\<rparr>, latch_ar p s, ar_issue_meta_zero))"
proof -
  note b = arbiter_begin_simps [of s]
  have latch: "latch_ar q (arb_s (arbiter_begin s)) = latch_ar q s" for q
    using b(1) by (rule arb_envD(14))
  have wires: "dp_issue (dport q (arb_s (arbiter_begin s))) = ar_issue_meta_zero"
    "latch_wires l (io_ar (dp_io (dport q (arb_s (arbiter_begin s))))) = latch_wires l (io_ar (dp_io (dport q s)))" for q l
    using b(3) [of q] by (simp_all add: ar_view_def ar_of_def latch_wires_def)
  have step: "latch_ar q (arb_s (drive_ar_latch PortDDR (arbiter_begin s))) = latch_ar q s"
    "ar_view (arb_s (drive_ar_latch PortDDR (arbiter_begin s))) PortMMIO = ar_view (arb_s (arbiter_begin s)) PortMMIO" for q
    using arb_envD(14) [OF drive_ar_latch_simps(1)] by (simp_all add: latch drive_ar_latch_simps)
  then have mmio: "dp_issue (dport PortMMIO (arb_s (drive_ar_latch PortDDR (arbiter_begin s)))) = ar_issue_meta_zero"
    "latch_wires l (io_ar (dp_io (dport PortMMIO (arb_s (drive_ar_latch PortDDR (arbiter_begin s)))))) =
     latch_wires l (io_ar (dp_io (dport PortMMIO s)))" for l
    using b(3) [of PortMMIO] by (simp_all add: ar_view_def ar_of_def latch_wires_def)
  show "arb_env (arb_s (arb_start s)) = arb_env s"
    "arb_busy (arb_start s) p = al_valid (latch_ar p s)"
    by (cases p; simp add: arb_start_def drive_ar_latch_simps b(1,2) latch step)+
  show "ar_view (arb_s (arb_start s)) p =
     (if al_valid (latch_ar p s) then (latch_wires (latch_ar p s) (io_ar (dp_io (dport p s))), latch_ar p s, ar_issue_meta_zero)
      else ((io_ar (dp_io (dport p s)))\<lparr>arvalid := False\<rparr>, latch_ar p s, ar_issue_meta_zero))"
    by (cases p) (simp_all add: arb_start_def drive_ar_latch_simps b(3) latch step wires mmio)
qed

text \<open>What the arbiter leaves on a port: the latched request, a new request, or none.\<close>

definition arbited :: "kit_config \<Rightarrow> ic \<Rightarrow> downstream_port \<Rightarrow> axi4_ar \<Rightarrow> ar_issue_meta \<Rightarrow> bool" where
  "arbited k s p ar m \<longleftrightarrow>
     arready ar = arready (io_ar (dp_io (dport p s))) \<and>
     (if al_valid (latch_ar p s) then ar = latch_wires (latch_ar p s) (io_ar (dp_io (dport p s))) \<and> m = ar_issue_meta_zero
      else (\<not> arvalid ar \<and> m = ar_issue_meta_zero) \<or> issue_ok k s p ar m)"

lemma comb_read_arbiter_moves:
  assumes "length (readers s) = NUM_READ_MASTERS"
  shows "\<exists>a. arb_moves k s (arb_start s) a \<and> comb_read_arbiter k s = arb_s a"
proof -
  have below: "m \<in> set [0..<NUM_READ_MASTERS] \<Longrightarrow> m < NUM_READ_MASTERS" for m by simp
  have turn: "(unat (r_arb_rr_idx s) + i) mod NUM_READ_MASTERS < NUM_READ_MASTERS" for i
    by (simp add: NUM_READ_MASTERS_def)
  note start = arb_start_simps(1) [of s]
  consider "llc_enabled s" | "\<not> llc_enabled s" "mode_transition_needs_flush s"
    | "\<not> llc_enabled s" "\<not> mode_transition_needs_flush s" by blast
  then show ?thesis
  proof cases
    case 1
    let ?b = "issue_llc_read k (arb_start s)"
    let ?c = "until_stop (llc_read_master k (map rm_req_ready (readers s))) [0..<NUM_READ_MASTERS] ?b"
    have b: "arb_moves k s (arb_start s) ?b" using start 1 by (rule moves_issue_llc)
    moreover have "arb_moves k s ?b ?c"
      using arb_moves_env [OF b start] by (intro moves_until_stop moves_llc_read_master) (use 1 assms in auto)
    ultimately have "arb_moves k s (arb_start s) ?c" by (rule arb_moves_trans)
    moreover have "comb_read_arbiter k s = arb_s ?c"
      using 1 by (simp add: comb_read_arbiter_def arb_start_def)
    ultimately show ?thesis by blast
  next
    case 2
    then have "comb_read_arbiter k s = arb_s (arb_start s)" by (simp add: comb_read_arbiter_def arb_start_def)
    then show ?thesis using arb_moves_refl by blast
  next
    case 3
    let ?rc = "map rm_req_ready (readers s)"
    let ?b = "fold (complete_ready_read k ?rc) [0..<NUM_READ_MASTERS] (arb_start s)"
    let ?c = "until_stop (\<lambda>i. round_robin_read k ?rc ((unat (r_arb_rr_idx s) + i) mod NUM_READ_MASTERS)) [0..<NUM_READ_MASTERS] ?b"
    have b: "arb_moves k s (arb_start s) ?b"
      using start by (intro moves_fold moves_complete_ready) (use 3 assms in auto)
    moreover have "arb_moves k s ?b ?c"
      using arb_moves_env [OF b start] by (intro moves_until_stop moves_round_robin turn) (use 3 assms in auto)
    ultimately have "arb_moves k s (arb_start s) ?c" by (rule arb_moves_trans)
    moreover have "comb_read_arbiter k s = arb_s ?c"
      using 3 by (simp add: comb_read_arbiter_def arb_start_def Let_def)
    ultimately show ?thesis by blast
  qed
qed

theorem comb_read_arbiter_spec:
  assumes "length (readers s) = NUM_READ_MASTERS"
  shows "arb_env (comb_read_arbiter k s) = arb_env s"
    and "\<exists>ar m. ar_view (comb_read_arbiter k s) p = (ar, latch_ar p s, m) \<and> arbited k s p ar m"
proof -
  obtain a where a: "arb_moves k s (arb_start s) a" "comb_read_arbiter k s = arb_s a"
    using comb_read_arbiter_moves [OF assms] by blast
  show "arb_env (comb_read_arbiter k s) = arb_env s"
    using arb_moves_env [OF a(1) arb_start_simps(1)] a(2) by simp
  have "port_moves k s p (arb_start s) a" using a(1) by (simp add: arb_moves_def)
  then show "\<exists>ar m. ar_view (comb_read_arbiter k s) p = (ar, latch_ar p s, m) \<and> arbited k s p ar m"
    unfolding a(2) port_moves_def arbited_def by (auto simp: arb_start_simps latch_wires_def)
qed

end
