(* ===== verification/IC_Start.thy ===== *)
theory IC_Start
  imports IC_Seq
begin

text \<open>
  The interconnect after its construction and \<^verbatim>\<open>init\<close>, the start of the runs, and inputs that leave
  every wire low: what the concrete runs of the witnesses begin with.
\<close>

definition dport_zero :: "kit_config \<Rightarrow> downstream_port \<Rightarrow> ic_dport" where
  "dport_zero k p = \<lparr>dp_io = axi_io_zero, dp_ar = clear_ar_latch p, dp_aw = clear_aw_latch p, dp_w_active = False,
     dp_w_current = write_pending_txn_zero k, dp_issue = ar_issue_meta_zero\<rparr>"

definition ic_constructed :: "kit_config \<Rightarrow> llc_config \<Rightarrow> ic" where
  "ic_constructed k c = \<lparr>readers = replicate NUM_READ_MASTERS ic_reader_zero,
     writers = replicate NUM_WRITE_MASTERS (ic_writer_zero k),
     ddr_side = dport_zero k PortDDR, mmio_side = dport_zero k PortMMIO,
     r_arb_rr_idx = 0, r_pending = [], direct_completion_seq = 0, w_arb_rr_idx = 0, w_pending = [],
     control = \<lparr>ct_mode = 1, ct_offset = 0, ct_runtime_mode = 0, ct_mapped_offset = 0, ct_offset_override = False,
       ct_reconfig_pending = False, ct_target_mode = 0, ct_target_offset = 0\<rparr>,
     cache_config = c, cache = llc_reset k c,
     maintenance = \<lparr>mt_all = False, mt_line_valid = False, mt_line_addr = 0\<rparr>,
     core_stage = llc_core_req_stage_zero k, dispatch_rr = 0, mem_side = mem_side_zero, backing = None,
     exited = False\<rparr>"

definition ic_power_on :: "kit_config \<Rightarrow> llc_config \<Rightarrow> u64 option \<Rightarrow> ic" where
  "ic_power_on k c env_mode = ic_init k env_mode None (ic_constructed k c)"

definition quiet_input :: "kit_config \<Rightarrow> u8 \<Rightarrow> ic_input" where
  "quiet_input k mode = \<lparr>i_responses = (\<lambda>_. (io_r axi_io_zero, io_b axi_io_zero)), i_rows = llc_lookup_in_zero,
     i_time = 0, i_mode = mode, i_offset = 0,
     i_maintenance = \<lparr>mt_all = False, mt_line_valid = False, mt_line_addr = 0\<rparr>,
     i_reads = (\<lambda>_. read_master_port_zero), i_writes = (\<lambda>_. write_master_port_zero k),
     i_ready = (\<lambda>_. (False, False, False))\<rparr>"

lemma ic_power_on_sizes:
  "length (readers (ic_power_on k c e)) = NUM_READ_MASTERS" "length (writers (ic_power_on k c e)) = NUM_WRITE_MASTERS"
  by (simp_all add: ic_power_on_def ic_init_def ic_constructed_def)

lemma ic_power_on_control:
  "ct_runtime_mode (control (ic_power_on k c None)) = 1" "\<not> ct_reconfig_pending (control (ic_power_on k c e))"
  by (simp_all add: ic_power_on_def ic_init_def ic_constructed_def sample_runtime_controls_def requested_mode_def Let_def)

lemma ic_power_on_runs: "\<not> exited (ic_power_on k c e)"
  by (simp add: ic_power_on_def ic_init_def ic_constructed_def)

end
