(* ===== verification/IC_Handshake.thy ===== *)
theory IC_Handshake
  imports IC_Arbiter IC_Start
begin

text \<open>
  The handshakes of the interconnect towards its slaves. A cycle is followed channel by channel:
  what the AR channel of a port shows at the clock edge (\<open>ic_before_edge\<close>), and what the edge makes of
  the latch. An AR request stays on the wires until its ready, in both modes.
\<close>

section \<open>Up to the clock edge\<close>

text \<open>The state the input phase starts from: the masters have driven their requests.\<close>

definition ic_requested :: "kit_config \<Rightarrow> ic_input \<Rightarrow> ic \<Rightarrow> ic" where
  "ic_requested k i s = drive_masters i (comb_outputs k (drive_first i s))"

lemma drive_first_sizes [ic_frame]:
  "readers (drive_first i s) = readers s" "writers (drive_first i s) = writers s"
  by (simp_all add: ic_frame)

lemma ic_requested_frame [ic_frame]:
  "ar_view (ic_requested k i s) = ar_view s" "aw_view (ic_requested k i s) = aw_view s"
  "r_pending (ic_requested k i s) = r_pending s" "w_pending (ic_requested k i s) = w_pending s"
  "direct_completion_seq (ic_requested k i s) = direct_completion_seq s"
  "cache_config (ic_requested k i s) = cache_config s" "core_stage (ic_requested k i s) = core_stage s"
  "mem_side (ic_requested k i s) = mem_side s" "exited (ic_requested k i s) = exited s"
  "length (readers (ic_requested k i s)) = length (readers s)"
  "length (writers (ic_requested k i s)) = length (writers s)"
  by (simp_all add: ic_requested_def ic_frame)

lemma ic_requested_controls:
  "control (ic_requested k i s) = (control s)\<lparr>ct_mode := i_mode i, ct_offset := i_offset i\<rparr>"
  "maintenance (ic_requested k i s) = i_maintenance i"
  by (simp_all add: ic_requested_def drive_first_def Let_def ic_frame)

lemma drive_readies_frame [ic_frame]:
  "readers (drive_readies i s) = readers s" "writers (drive_readies i s) = writers s"
  "r_pending (drive_readies i s) = r_pending s" "w_pending (drive_readies i s) = w_pending s"
  "direct_completion_seq (drive_readies i s) = direct_completion_seq s" "control (drive_readies i s) = control s"
  "cache_config (drive_readies i s) = cache_config s" "cache (drive_readies i s) = cache s"
  "core_stage (drive_readies i s) = core_stage s" "mem_side (drive_readies i s) = mem_side s"
  "exited (drive_readies i s) = exited s" "rb_view (drive_readies i s) = rb_view s"
  by (simp_all add: drive_readies_def slave_readies_def upd_io_def split: prod.split)

lemma drive_readies_dport:
  "dport p (drive_readies i s) = (dport p s)\<lparr>dp_io := slave_readies (i_ready i p) (dp_io (dport p s))\<rparr>"
  by (cases p) (simp_all add: drive_readies_def upd_io_def)

lemma drive_readies_ar:
  "ar_view (drive_readies i s) p = ((fst (ar_view s p))\<lparr>arready := fst (i_ready i p)\<rparr>, snd (ar_view s p))"
  by (simp add: ar_view_def ar_of_def drive_readies_dport slave_readies_def split: prod.split)

lemma comb_inputs_ar_view: "ar_view (comb_inputs k s) = ar_view (comb_read_arbiter k s)"
  by (simp add: comb_inputs_def Let_def ic_frame)

lemma comb_inputs_frame [ic_frame]:
  assumes "length (readers s) = NUM_READ_MASTERS"
  shows "rb_view (comb_inputs k s) = rb_view s" "r_pending (comb_inputs k s) = r_pending s"
    "direct_completion_seq (comb_inputs k s) = direct_completion_seq s" "w_pending (comb_inputs k s) = w_pending s"
    "control (comb_inputs k s) = control s" "cache_config (comb_inputs k s) = cache_config s"
    "core_stage (comb_inputs k s) = core_stage s" "exited (comb_inputs k s) = exited s"
    "length (readers (comb_inputs k s)) = length (readers s)"
    "length (writers (comb_inputs k s)) = length (writers s)"
proof -
  note env = arb_envD [OF comb_read_arbiter_spec(1) [OF assms, of k]]
  show "length (readers (comb_inputs k s)) = length (readers s)"
    using arg_cong [OF env(13), of length] by (simp add: comb_inputs_def Let_def ic_frame)
  show "length (writers (comb_inputs k s)) = length (writers s)"
    by (simp add: comb_inputs_def Let_def ic_frame env)
qed (simp_all add: comb_inputs_def Let_def ic_frame arb_envD [OF comb_read_arbiter_spec(1) [OF assms, of k]])

lemma before_edge_ar:
  assumes "length (readers s) = NUM_READ_MASTERS"
  shows "\<exists>ar m. ar_view (ic_before_edge k i s) p = (ar\<lparr>arready := fst (i_ready i p)\<rparr>, latch_ar p s, m) \<and>
    arbited k (ic_requested k i s) p ar m"
proof -
  let ?s = "ic_requested k i s"
  have "length (readers ?s) = NUM_READ_MASTERS" using assms by (simp add: ic_frame)
  then obtain ar m where "ar_view (comb_read_arbiter k ?s) p = (ar, latch_ar p ?s, m)" "arbited k ?s p ar m"
    using comb_read_arbiter_spec(2) by blast
  moreover have "latch_ar p ?s = latch_ar p s"
    using fun_cong [OF ic_requested_frame(1), of k i s p] by (simp add: ar_view_def ar_of_def)
  ultimately show ?thesis
    by (auto simp: ic_before_edge_def ic_requested_def [symmetric] drive_readies_ar comb_inputs_ar_view)
qed

section \<open>The clock edge\<close>

definition next_ar_latch :: "downstream_port \<Rightarrow> axi4_ar \<Rightarrow> ar_latch \<Rightarrow> ar_issue_meta \<Rightarrow> ar_latch" where
  "next_ar_latch p ar l m =
     (if arvalid ar \<and> \<not> arready ar \<and> \<not> al_valid l \<and> am_valid m then latched_ar p ar m
      else if arvalid ar \<and> arready ar \<and> al_valid l then release_ar_latch p l else l)"

lemma finish_dport [simp]:
  "dport p (note_read_accepted t s) = dport p s" "dport p (finish_ar_txn t s) = dport p s"
  by (simp_all add: note_read_accepted_def finish_ar_txn_def)

lemma ar_steps_dport:
  "dport q (latch_ar_request p s) = (if p = q \<and> arvalid (io_ar (dp_io (dport p s))) \<and> \<not> al_valid (latch_ar p s) \<and>
       \<not> arready (io_ar (dp_io (dport p s))) \<and> am_valid (dp_issue (dport p s))
     then (dport p s)\<lparr>dp_ar := latched_ar p (io_ar (dp_io (dport p s))) (dp_issue (dport p s))\<rparr> else dport q s)"
  "dport q (take_latched_ar p s) = (if p = q then (dport p s)\<lparr>dp_ar := release_ar_latch p (latch_ar p s)\<rparr> else dport q s)"
  "dport q (take_driven_ar p s) = dport q s"
  by (auto simp: latch_ar_request_def take_latched_ar_def take_driven_ar_def Let_def)

lemma process_ar_port_dport:
  "dport q (process_ar_port p s) =
     (if p = q then (dport p s)\<lparr>dp_ar := next_ar_latch p (io_ar (dp_io (dport p s))) (latch_ar p s) (dp_issue (dport p s))\<rparr>
      else dport q s)"
  by (simp add: process_ar_port_def Let_def ar_steps_dport next_ar_latch_def)

lemma process_ar_port_view:
  "ar_view (process_ar_port q s) p =
     (if p = q then (fst (ar_view s p), next_ar_latch p (fst (ar_view s p)) (fst (snd (ar_view s p))) (snd (snd (ar_view s p))),
                     snd (snd (ar_view s p)))
      else ar_view s p)"
  by (simp add: ar_view_def ar_of_def process_ar_port_dport)

lemma ic_seq_ar:
  assumes "ar_view s p = (ar, l, m)"
  shows "ar_view (ic_seq k s) p = (ar, next_ar_latch p ar l m, m)"
proof -
  have "ar_view (ic_seq k s) = ar_view (process_ar_port PortMMIO (process_ar_port PortDDR (seq_clear_accepted s)))"
    by (simp add: ic_seq_def Let_def ic_frame)
  then show ?thesis using assms by (cases p) (simp_all add: process_ar_port_view ic_frame)
qed

section \<open>AR stays until ready\<close>

definition same_ar :: "axi4_ar \<Rightarrow> axi4_ar \<Rightarrow> bool" where
  "same_ar a b \<longleftrightarrow> arvalid a = arvalid b \<and> araddr a = araddr b \<and> arlen a = arlen b \<and> arsize a = arsize b \<and>
     arburst a = arburst b \<and> arid a = arid b"

abbreviation ar_wires :: "downstream_port \<Rightarrow> ic \<Rightarrow> axi4_ar" where
  "ar_wires p s \<equiv> io_ar (dp_io (dport p s))"

lemma ar_wires_view: "ar_wires p s = fst (ar_view s p)" "latch_ar p s = fst (snd (ar_view s p))"
  by (simp_all add: ar_view_def ar_of_def)

lemma ic_seq_sizes:
  "length (readers (ic_seq k s)) = length (readers s)" "length (writers (ic_seq k s)) = length (writers s)"
  by (simp_all add: ic_seq_def Let_def ic_frame)

lemma ic_before_edge_sizes:
  assumes "length (readers s) = NUM_READ_MASTERS"
  shows "length (readers (ic_before_edge k i s)) = length (readers s)"
    and "length (writers (ic_before_edge k i s)) = length (writers s)"
  using comb_inputs_frame(9,10) [of "ic_requested k i s" k] assms
  by (simp_all add: ic_before_edge_def ic_requested_def [symmetric] ic_frame)

lemma ic_cycle_sizes:
  assumes "length (readers s) = NUM_READ_MASTERS"
  shows "length (readers (ic_cycle k i s)) = NUM_READ_MASTERS" "length (writers (ic_cycle k i s)) = length (writers s)"
  using assms by (simp_all add: ic_cycle_def ic_seq_sizes ic_before_edge_sizes)

lemma run_ic_sizes:
  assumes "length (readers s) = NUM_READ_MASTERS"
  shows "length (readers (run_cycles (ic_cycle k) inputs s)) = NUM_READ_MASTERS"
    "length (writers (run_cycles (ic_cycle k) inputs s)) = length (writers s)"
  using assms by (induction inputs arbitrary: s) (simp_all add: ic_cycle_sizes)

text \<open>C5: an AR request stays until it is taken. When a port shows a request at the clock edge and the
  slave is not ready, the port shows the same address, length, size, burst and id at the next edge,
  whatever the masters, the other port and the responses do in between.\<close>

theorem ic_ar_stable:
  assumes "length (readers s) = NUM_READ_MASTERS"
    and edge: "e = ic_before_edge k i s" "arvalid (ar_wires p e)" "\<not> arready (ar_wires p e)"
  shows "same_ar (ar_wires p (ic_before_edge k j (ic_seq k e))) (ar_wires p e)"
proof -
  obtain ar m where now: "ar_view e p = (ar\<lparr>arready := fst (i_ready i p)\<rparr>, latch_ar p s, m)"
    "arbited k (ic_requested k i s) p ar m"
    using before_edge_ar [OF assms(1), of k i p] edge(1) by blast
  have "length (readers (ic_seq k e)) = NUM_READ_MASTERS"
    using assms(1) edge(1) by (simp add: ic_seq_sizes ic_before_edge_sizes)
  then obtain ar' m' where later:
    "ar_view (ic_before_edge k j (ic_seq k e)) p = (ar'\<lparr>arready := fst (i_ready j p)\<rparr>, latch_ar p (ic_seq k e), m')"
    "arbited k (ic_requested k j (ic_seq k e)) p ar' m'"
    using before_edge_ar by blast
  have latch: "latch_ar p (ic_requested k i s) = latch_ar p s"
    "latch_ar p (ic_requested k j (ic_seq k e)) = latch_ar p (ic_seq k e)"
    by (simp_all add: ar_wires_view ic_frame)
  have "latch_ar p (ic_seq k e) =
      next_ar_latch p (ar\<lparr>arready := fst (i_ready i p)\<rparr>) (latch_ar p s) m"
    using ic_seq_ar [OF now(1)] by (simp add: ar_wires_view)
  then show ?thesis
    using now later edge(2,3) latch
    by (auto simp: ar_wires_view(1) same_ar_def arbited_def issue_ok_def next_ar_latch_def latched_ar_def latch_wires_def
        split: if_splits)
qed

text \<open>A read waits in the latch of the DDR port, and stays on its wires whatever the next cycle brings.\<close>

definition waiting_read :: ic where
  "waiting_read = (ic_power_on default_kit_config default_llc_config None)\<lparr>ddr_side :=
     (dport_zero default_kit_config PortDDR)\<lparr>dp_ar := (clear_ar_latch PortDDR)\<lparr>al_valid := True,
       al_addr := 0x80000040, al_id := 5\<rparr>\<rparr>\<rparr>"

theorem ic_ar_stable_witness:
  "\<forall>j. araddr (ar_wires PortDDR (ic_before_edge default_kit_config j
     (ic_seq default_kit_config (ic_before_edge default_kit_config (quiet_input default_kit_config 1) waiting_read)))) =
     0x80000040"
proof
  fix j
  let ?i = "quiet_input default_kit_config 1"
  let ?e = "ic_before_edge default_kit_config ?i waiting_read"
  have sizes: "length (readers waiting_read) = NUM_READ_MASTERS" by (simp add: waiting_read_def ic_power_on_sizes)
  have latch: "latch_ar PortDDR waiting_read = (clear_ar_latch PortDDR)\<lparr>al_valid := True, al_addr := 0x80000040, al_id := 5\<rparr>"
    by (simp add: waiting_read_def dport_def)
  moreover have "latch_ar PortDDR (ic_requested default_kit_config ?i waiting_read) = latch_ar PortDDR waiting_read"
    by (simp add: ar_wires_view ic_frame)
  ultimately have "arvalid (ar_wires PortDDR ?e)" "\<not> arready (ar_wires PortDDR ?e)" "araddr (ar_wires PortDDR ?e) = 0x80000040"
    using before_edge_ar [OF sizes, of default_kit_config ?i PortDDR]
    by (auto simp: ar_wires_view(1) arbited_def latch_wires_def quiet_input_def)
  with ic_ar_stable [OF sizes refl this(1,2), of j]
  show "araddr (ar_wires PortDDR (ic_before_edge default_kit_config j (ic_seq default_kit_config ?e))) = 0x80000040"
    by (simp add: same_ar_def)
qed

end
