(* ===== verification/IC_Cache.thy ===== *)
theory IC_Cache
  imports IC_Handshake LLC_Read_Ledger LLC_Line_Props
begin

text \<open>
  What the interconnect relies on from the cache, as the locale \<open>cache_port\<close>: the cache leaves its
  registers and inputs alone, acknowledges an invalidation only when one is asked for, is always
  ready for a write response, and keeps every read request it takes. The laws are proved for
  \<open>llc_comb\<close>; on them rest two properties of the interconnect: its consistency check never fires,
  and the runtime mode changes only when the paths are quiet or an invalidation was asked for.
\<close>

section \<open>The contract\<close>

definition holds_read :: "llc_regs \<Rightarrow> nat \<Rightarrow> u8 \<Rightarrow> bool" where
  "holds_read r m aid \<longleftrightarrow> lk_valid (lookup r) \<and> lk_master (lookup r) = of_nat m \<and> lk_id (lookup r) = aid"

locale cache_port =
  fixes comb :: "llc_io \<Rightarrow> llc_io" and on :: bool
  assumes inputs_kept: "regs (comb io) = regs io" "ext_in (comb io) = ext_in io"
    and ack_only_if_asked: "invalidate_all_accepted (out_mem (ext_out (comb io))) \<Longrightarrow> invalidate_all (in_mem (ext_in io))"
    and takes_write_response: "on \<Longrightarrow> mo_write_resp_ready (out_mem (ext_out (comb io)))"
    and keeps_taken_read: "m < NUM_READ_MASTERS \<Longrightarrow> out_read_req_ready (ext_out (comb io)) ! m \<Longrightarrow>
      holds_read (reg_write (comb io)) m (rq_id (in_read_req (ext_in io) ! m))"
begin

text \<open>After the clock edge the read is in the registers, whatever else the edge writes.\<close>

lemma taken_read_after_edge:
  assumes "m < NUM_READ_MASTERS" "out_read_req_ready (ext_out (comb io)) ! m"
    and "lookup (reg_write io') = lookup (reg_write (comb io))"
  shows "holds_read (regs (llc_seq io')) m (rq_id (in_read_req (ext_in io) ! m))"
  using keeps_taken_read [OF assms(1,2)] assms(3) by (simp add: holds_read_def llc_seq_def)

lemma no_ack_unasked: "\<not> invalidate_all (in_mem (ext_in io)) \<Longrightarrow> \<not> invalidate_all_accepted (out_mem (ext_out (comb io)))"
  using ack_only_if_asked by blast

end

section \<open>The cache keeps it\<close>

lemma llc_comb_env: "env_of (llc_comb k c io) = env_of io"
proof (cases "lc_enable c \<and> lc_valid c")
  case True
  have "env_of (comb_begin k c io) = env_of io" by (simp add: env_of_def comb_begin_fields)
  then show ?thesis
    using True by (simp add: llc_comb_stages stage_close_def stage_accept_def stage_lookup_def stage_respond_def Let_def
        llc_frame)
next
  case False
  then show ?thesis by (auto simp: llc_comb_def comb_disabled_def env_of_def Let_def)
qed

lemma stage_acks:
  "invalidate_all_accepted (out_mem (ext_out (stage_lookup k c io))) = invalidate_all_accepted (out_mem (ext_out io))"
  "invalidate_all_accepted (out_mem (ext_out (stage_accept k c io))) = invalidate_all_accepted (out_mem (ext_out io))"
  "invalidate_all_accepted (out_mem (ext_out (stage_respond k c io))) = False"
  "mo_write_resp_ready (out_mem (ext_out (stage_close k c io))) = mo_write_resp_ready (out_mem (ext_out io))"
  "mo_write_resp_ready (out_mem (ext_out (stage_accept k c io))) = mo_write_resp_ready (out_mem (ext_out io))"
  by (simp_all add: stage_close_def stage_accept_def stage_lookup_def stage_respond_def Let_def llc_frame
      comb_begin_fields llc_ext_out_zero_def llc_mem_out_zero_def)

lemma invalidate_ack: 
  "invalidate_all_accepted (out_mem (ext_out (accept_invalidate_all k c io))) \<Longrightarrow>
   invalidate_all_accepted (out_mem (ext_out io)) \<or> invalidate_all (in_mem (ext_in io))"
  by (auto simp: accept_invalidate_all_def Let_def split: if_splits)

lemma write_resp_ready: "mo_write_resp_ready (out_mem (ext_out (drive_write_path k c io)))"
  by (simp add: drive_write_path_def masters_upt Let_def llc_frame write_mem_response_def del: commit_first.simps
      split: option.split)

lemma lookup_kept:
  assumes "lk_valid (lookup (reg_write io))"
  shows "holds_read (reg_write (stage_close k c io)) m aid = holds_read (reg_write io) m aid"
proof -
  have request: "holds_read (reg_write (drive_lookup_request k c io)) m aid = holds_read (reg_write io) m aid" for io
  proof -
    have "lookup (reg_write (drive_lookup_request k c io)) = lookup (reg_write io) \<or>
      lookup (reg_write (drive_lookup_request k c io)) = (lookup (reg_write io))\<lparr>lk_issued := True\<rparr>"
      by (simp add: drive_lookup_request_def Let_def wr_fields)
    then show ?thesis by (auto simp: holds_read_def)
  qed
  have ack: "holds_read (reg_write (accept_invalidate_all k c io)) m aid = holds_read (reg_write io) m aid" for io
    by (simp add: accept_invalidate_all_def Let_def holds_read_def)
  have "lookup (reg_write (accept_maintenance_request k c io)) = lookup (reg_write io)"
    using launches_maintenance [of 0 io k c] assms by (simp add: launches_def)
  moreover from this have "lookup (reg_write (try_launch_prefetch_lookup k c (accept_maintenance_request k c io))) =
      lookup (reg_write io)"
    using launches_prefetch [of 0 "accept_maintenance_request k c io" k c] assms by (simp add: launches_def)
  ultimately show ?thesis by (simp add: stage_close_def Let_def ack request) (simp add: holds_read_def)
qed

lemma stage_accept_keeps_read:
  assumes "out_read_req_ready (ext_out io) = replicate NUM_READ_MASTERS False" "m < NUM_READ_MASTERS"
    and "out_read_req_ready (ext_out (stage_accept k c io)) ! m"
  shows "lk_valid (lookup (reg_write (stage_accept k c io)))"
    and "holds_read (reg_write (stage_accept k c io)) m (rq_id (in_read_req (ext_in io) ! m))"
proof -
  let ?w = "try_launch_pending_write_lookup (drive_mem_read_path k c io)"
  have w: "out_read_req_ready (ext_out ?w) = replicate NUM_READ_MASTERS False" "ext_in ?w = ext_in io"
    using assms(1) launch_write_lookup_frame(1) [of "drive_mem_read_path k c io"] drive_mem_read_path_frame(1) [of k c io]
    by (simp_all add: llc_frame env_of_def)
  have "lk_valid (lookup (reg_write (accept_new_requests k c ?w))) \<and>
    holds_read (reg_write (accept_new_requests k c ?w)) m (rq_id (in_read_req (ext_in io) ! m))"
  proof (rule accept_new_requests_cases [of k c ?w])
    fix n assume n: "n < NUM_READ_MASTERS"
      "lookup (reg_write (accept_new_requests k c ?w)) =
        \<lparr>lk_valid = True, lk_issued = False, lk_addr = rq_addr (in_read_req (ext_in ?w) ! n),
         lk_size = rq_total_size (in_read_req (ext_in ?w) ! n), lk_master = of_nat n, lk_id = rq_id (in_read_req (ext_in ?w) ! n),
         lk_is_prefetch = False, lk_is_invalidate = False, lk_is_write = False, lk_is_bypass = rq_bypass (in_read_req (ext_in ?w) ! n),
         lk_is_direct_mapped = rq_direct_mapped (in_read_req (ext_in ?w) ! n), lk_is_mode2 = rq_mode2 (in_read_req (ext_in ?w) ! n)\<rparr>"
      "out_read_req_ready (ext_out (accept_new_requests k c ?w)) = (out_read_req_ready (ext_out ?w))[n := True]"
    then have "n = m" using assms(2,3) w(1) by (cases "n = m") (simp_all add: stage_accept_def)
    then show ?thesis using n(2) w(2) by (simp add: holds_read_def)
  next
    assume "accept_new_requests k c ?w = ?w"
    then show ?thesis using assms(2,3) w(1) by (simp add: stage_accept_def)
  qed
  then show "lk_valid (lookup (reg_write (stage_accept k c io)))"
    "holds_read (reg_write (stage_accept k c io)) m (rq_id (in_read_req (ext_in io) ! m))"
    by (simp_all add: stage_accept_def)
qed

interpretation llc: cache_port "llc_comb k c" "lc_enable c \<and> lc_valid c" for k c
proof unfold_locales
  fix io m
  show "regs (llc_comb k c io) = regs io" "ext_in (llc_comb k c io) = ext_in io"
    using llc_comb_env [of k c io] by (simp_all add: env_of_def)
  let ?r = "stage_lookup k c (stage_respond k c io)"
  have r: "ext_in ?r = ext_in io" "out_read_req_ready (ext_out ?r) = replicate NUM_READ_MASTERS False"
    using drive_read_responses_frame(1) [of k "comb_begin k c io"] drive_write_path_frame(1) [of k c "stage_respond k c io"]
      try_complete_lookup_frame(1) [of k c "drive_write_path k c (stage_respond k c io)"]
    by (simp_all add: env_of_def stage_lookup_def stage_respond_def comb_begin_fields llc_frame llc_ext_out_zero_def)
  have disabled: "\<not> (lc_enable c \<and> lc_valid c) \<Longrightarrow>
      \<not> invalidate_all_accepted (out_mem (ext_out (llc_comb k c io)))"
    by (auto simp: llc_comb_def comb_disabled_def Let_def llc_ext_out_zero_def llc_mem_out_zero_def)
  {
    assume "invalidate_all_accepted (out_mem (ext_out (llc_comb k c io)))"
    with disabled have on: "lc_enable c \<and> lc_valid c" by blast
    show "invalidate_all (in_mem (ext_in io))"
    proof (rule ccontr)
      assume off: "\<not> invalidate_all (in_mem (ext_in io))"
      have env: "ext_in (stage_accept k c ?r) = ext_in io"
        using r(1) accept_new_requests_frame(1) [of k c "try_launch_pending_write_lookup (drive_mem_read_path k c ?r)"]
          launch_write_lookup_frame(1) [of "drive_mem_read_path k c ?r"] drive_mem_read_path_frame(1) [of k c ?r]
        by (simp add: stage_accept_def env_of_def)
      let ?a = "stage_accept k c ?r"
      let ?z = "drive_lookup_request k c (try_launch_prefetch_lookup k c (accept_maintenance_request k c ?a))"
      have z: "ext_in ?z = ext_in ?a"
        using drive_lookup_request_frame(1) [of k c "try_launch_prefetch_lookup k c (accept_maintenance_request k c ?a)"]
          launch_prefetch_frame(1) [of k c "accept_maintenance_request k c ?a"] accept_maintenance_frame(1) [of k c ?a]
        by (simp add: env_of_def)
      have "llc_comb k c io = accept_invalidate_all k c ?z"
        using on off env by (simp add: llc_comb_stages stage_close_def Let_def)
      moreover have "\<not> invalidate_all_accepted (out_mem (ext_out ?z))"
        by (simp add: llc_frame stage_acks)
      ultimately show False
        using \<open>invalidate_all_accepted (out_mem (ext_out (llc_comb k c io)))\<close> invalidate_ack off env z by metis
    qed
  }
  {
    assume "lc_enable c \<and> lc_valid c"
    then show "mo_write_resp_ready (out_mem (ext_out (llc_comb k c io)))"
      by (simp add: llc_comb_stages stage_acks) (simp add: stage_lookup_def llc_frame write_resp_ready)
  }
  {
    assume m: "m < NUM_READ_MASTERS" and ready: "out_read_req_ready (ext_out (llc_comb k c io)) ! m"
    then have on: "lc_enable c \<and> lc_valid c" using disabled_comb(6) [of c k io] by (metis nth_replicate)
    have "out_read_req_ready (ext_out (stage_accept k c ?r)) ! m"
      using ready on by (simp add: llc_comb_stages stage_close_def Let_def llc_frame split: if_splits)
    from stage_accept_keeps_read [OF r(2) m this]
    show "holds_read (reg_write (llc_comb k c io)) m (rq_id (in_read_req (ext_in io) ! m))"
      using on r(1) by (simp add: llc_comb_stages lookup_kept)
  }
qed

end
