(* ===== verification/IC_Modes.thy ===== *)
theory IC_Modes
  imports IC_Cache IC_Start
begin

text \<open>
  The runtime mode and the consistency check, on the contract of the cache: in every run the check
  in \<^verbatim>\<open>seq\<close> that calls \<^verbatim>\<open>std::exit(1)\<close> finds what it looks for, and the active mode changes only in a
  cycle in which the interconnect was quiet, or an invalidation was requested from outside.
\<close>

section \<open>The cache in a cycle\<close>

text \<open>The state whose requests the cache samples.\<close>

definition ic_sampled :: "kit_config \<Rightarrow> ic_input \<Rightarrow> ic \<Rightarrow> ic" where
  "ic_sampled k i s = comb_write_request k (comb_read_arbiter k (ic_requested k i s))"

lemma ic_sampled_frame [ic_frame]:
  assumes "length (readers s) = NUM_READ_MASTERS"
  shows "control (ic_sampled k i s) = control (ic_requested k i s)" "core_stage (ic_sampled k i s) = core_stage s"
    "cache_config (ic_sampled k i s) = cache_config s" "maintenance (ic_sampled k i s) = maintenance (ic_requested k i s)"
proof -
  have "length (readers (ic_requested k i s)) = NUM_READ_MASTERS" using assms by (simp add: ic_frame)
  note env = arb_envD [OF comb_read_arbiter_spec(1) [OF this, of k]]
  show "control (ic_sampled k i s) = control (ic_requested k i s)" "core_stage (ic_sampled k i s) = core_stage s"
    "cache_config (ic_sampled k i s) = cache_config s" "maintenance (ic_sampled k i s) = maintenance (ic_requested k i s)"
    by (simp_all add: ic_sampled_def ic_frame env)
qed

definition llc_sampling :: "ic \<Rightarrow> bool" where
  "llc_sampling s \<longleftrightarrow> llc_enabled s \<or> mode_transition_needs_flush s"

lemma ic_before_edge_sampled:
  "ic_before_edge k i s = drive_readies i (let t = ic_sampled k i s in
     if llc_sampling t then run_llc_comb k (prepare_llc_inputs k True t) else t)"
  by (simp add: ic_before_edge_def comb_inputs_def ic_sampled_def ic_requested_def llc_sampling_def Let_def)

lemma ic_before_edge_frame:
  assumes "length (readers s) = NUM_READ_MASTERS"
  shows "control (ic_before_edge k i s) = control (ic_requested k i s)" "core_stage (ic_before_edge k i s) = core_stage s"
    "cache_config (ic_before_edge k i s) = cache_config s" "exited (ic_before_edge k i s) = exited s"
proof -
  have "length (readers (ic_requested k i s)) = NUM_READ_MASTERS" using assms by (simp add: ic_frame)
  note env = arb_envD [OF comb_read_arbiter_spec(1) [OF this, of k]]
  show "control (ic_before_edge k i s) = control (ic_requested k i s)" "core_stage (ic_before_edge k i s) = core_stage s"
    "cache_config (ic_before_edge k i s) = cache_config s"
    by (simp_all add: ic_before_edge_sampled Let_def ic_frame assms)
  show "exited (ic_before_edge k i s) = exited s"
    by (simp add: ic_before_edge_sampled Let_def ic_frame ic_sampled_def env)
qed

lemma ic_before_edge_cache:
  assumes "length (readers s) = NUM_READ_MASTERS" "llc_sampling (ic_sampled k i s)"
  shows "cache (ic_before_edge k i s) =
     llc_comb k (cache_config s) ((cache (ic_sampled k i s))\<lparr>ext_in := llc_inputs k True (ic_sampled k i s)\<rparr>)"
  using assms by (simp add: ic_before_edge_sampled run_llc_comb_def prepare_llc_inputs_def ic_frame Let_def)

text \<open>The edge, up to the consistency check.\<close>

definition ic_seq_body :: "kit_config \<Rightarrow> ic \<Rightarrow> ic" where
  "ic_seq_body k s =
     (let t = fold process_ar_port both_ports (seq_clear_accepted s);
          t = seq_reads k (mb_synth_valid (mem_side s)) (if llc_enabled t then seq_llc_queues k t else t);
          t = (if llc_enabled t then seq_with_llc k (mb_write_resp_valid (mem_side s)) (mb_synth_valid (mem_side s)) t
               else seq_without_llc k t);
          t = forget_seen_read (t\<lparr>cache := llc_seq (cache t)\<rparr>)
      in t\<lparr>control := seq_reconfig (requested_config_differs_from_active (control s)) (requested_mode (control s))
            (requested_llc_mapped_offset (control s)) (invalidate_all_accepted (out_mem (ext_out (cache t)))) (control t)\<rparr>)"

lemma ic_seq_split: "ic_seq k s = assert_llc_consumed_reads k (core_stage s) (ic_seq_body k s)"
  by (simp add: ic_seq_def ic_seq_body_def Let_def)

lemma write_responses_cache:
  "ext_out (cache (take_llc_write_response m s)) = ext_out (cache s)"
  "lookup (reg_write (cache (take_llc_write_response m s))) = lookup (reg_write (cache s))"
  "ext_out (cache (seq_write_responses k m s)) = ext_out (cache s)"
  "lookup (reg_write (cache (seq_write_responses k m s))) = lookup (reg_write (cache s))"
  by (simp_all add: take_llc_write_response_def seq_write_responses_def Let_def ic_frame)

lemma with_llc_cache:
  "ext_out (cache (seq_with_llc k a b s)) = ext_out (cache s)"
  "lookup (reg_write (cache (seq_with_llc k a b s))) = lookup (reg_write (cache s))"
  by (simp_all add: seq_with_llc_def Let_def until_stop_views masters_upt write_responses_cache ic_frame)

lemma ic_seq_body_cache:
  obtains io where "cache (ic_seq_body k s) = llc_seq io" "ext_out io = ext_out (cache s)"
    "lookup (reg_write io) = lookup (reg_write (cache s))"
proof -
  let ?t = "fold process_ar_port both_ports (seq_clear_accepted s)"
  let ?u = "seq_reads k (mb_synth_valid (mem_side s)) (if llc_enabled ?t then seq_llc_queues k ?t else ?t)"
  let ?v = "if llc_enabled ?u then seq_with_llc k (mb_write_resp_valid (mem_side s)) (mb_synth_valid (mem_side s)) ?u
    else seq_without_llc k ?u"
  have "cache (ic_seq_body k s) = llc_seq (cache ?v)" by (simp add: ic_seq_body_def Let_def ic_frame)
  moreover have "cache ?u = cache s" by (simp add: ic_frame)
  then have "ext_out (cache ?v) = ext_out (cache s)" "lookup (reg_write (cache ?v)) = lookup (reg_write (cache s))"
    by (simp_all add: with_llc_cache ic_frame)
  ultimately show ?thesis using that by blast
qed

lemma ic_seq_body_frame:
  "cache_config (ic_seq_body k s) = cache_config s" "exited (ic_seq_body k s) = exited s"
  "control (ic_seq_body k s) = seq_reconfig (requested_config_differs_from_active (control s)) (requested_mode (control s))
     (requested_llc_mapped_offset (control s)) (invalidate_all_accepted (out_mem (ext_out (cache s)))) (control s)"
  by (simp_all add: ic_seq_body_def Let_def ic_frame llc_seq_def with_llc_cache)

section \<open>The consistency check of the reads\<close>

text \<open>In a cycle in which the cache samples, the read it takes is the staged one, and stays in its registers.\<close>

lemma sampled_read_retained:
  assumes "length (readers s) = NUM_READ_MASTERS" "llc_sampling (ic_sampled k i s)"
    and m: "m < NUM_READ_MASTERS" "core_stage_reads s m"
    and "out_read_req_ready (ext_out (cache (ic_seq_body k (ic_before_edge k i s)))) ! m"
  shows "read_retained k (ic_seq_body k (ic_before_edge k i s)) m (ur_id (cs_read (core_stage s)))"
proof -
  let ?t = "ic_sampled k i s"
  let ?in = "(cache ?t)\<lparr>ext_in := llc_inputs k True ?t\<rparr>"
  obtain io where io: "cache (ic_seq_body k (ic_before_edge k i s)) = llc_seq io"
    "ext_out io = ext_out (cache (ic_before_edge k i s))"
    "lookup (reg_write io) = lookup (reg_write (cache (ic_before_edge k i s)))"
    by (rule ic_seq_body_cache)
  note comb = ic_before_edge_cache [OF assms(1,2)]
  have "out_read_req_ready (ext_out (llc_comb k (cache_config s) ?in)) ! m"
    using assms(5) by (simp add: io llc_seq_def comb)
  from llc.taken_read_after_edge [OF m(1) this io(3) [unfolded comb]]
  have "holds_read (regs (llc_seq io)) m (rq_id (staged_read ?t m))"
    using assms(2) m(1) by (auto simp: llc_inputs_def llc_sampling_def)
  moreover have "core_stage_reads ?t m"
    using m(2) by (simp add: core_stage_reads_def ic_sampled_frame [OF assms(1)])
  ultimately show ?thesis
    by (simp add: read_retained_def holds_read_def staged_read_def io(1) Let_def ic_sampled_frame [OF assms(1)])
qed

lemma unsampled_stays_off:
  assumes "length (readers s) = NUM_READ_MASTERS" "\<not> llc_sampling (ic_sampled k i s)"
  shows "\<not> llc_enabled (ic_seq_body k (ic_before_edge k i s))"
proof -
  have t: "\<not> llc_enabled (ic_sampled k i s)" "\<not> mode_transition_needs_flush (ic_sampled k i s)"
    using assms(2) by (simp_all add: llc_sampling_def)
  have "control (ic_before_edge k i s) = control (ic_sampled k i s)"
    "cache_config (ic_before_edge k i s) = cache_config (ic_sampled k i s)"
    by (simp_all add: ic_before_edge_frame [OF assms(1)] ic_sampled_frame [OF assms(1)])
  then show ?thesis
    using t by (simp add: llc_enabled_def mode_transition_needs_flush_def ic_seq_body_frame seq_reconfig_def)
qed

lemma ic_cycle_exited:
  assumes "length (readers s) = NUM_READ_MASTERS"
  shows "exited (ic_cycle k i s) = exited s"
proof -
  let ?e = "ic_before_edge k i s"
  let ?b = "ic_seq_body k ?e"
  have "exited ?b = exited s" by (simp add: ic_seq_body_frame ic_before_edge_frame [OF assms])
  moreover have "core_stage ?e = core_stage s" by (simp add: ic_before_edge_frame [OF assms])
  ultimately show ?thesis
    using sampled_read_retained [OF assms, of k i "unat (cs_master (core_stage s))"] unsampled_stays_off [OF assms, of k i]
    by (auto simp: ic_cycle_def ic_seq_split assert_llc_consumed_reads_def Let_def core_stage_reads_def)
qed

text \<open>C8: the consistency check of the interconnect never fires. The check at the clock edge looks for every read
  request the cache has taken in the cache's registers and ends the program with
  \<^verbatim>\<open>std::exit(1)\<close> when one is missing; no run does, for all configurations and inputs.\<close>

theorem ic_never_exits:
  assumes "length (readers s) = NUM_READ_MASTERS" "\<not> exited s"
  shows "\<not> exited (run_cycles (ic_cycle k) inputs s)"
  using assms by (induction inputs arbitrary: s) (simp_all add: ic_cycle_sizes ic_cycle_exited)

theorem ic_never_exits_witness:
  "\<forall>inputs. \<not> exited (run_cycles (ic_cycle default_kit_config) inputs (ic_power_on default_kit_config tiny_llc None))"
  using ic_never_exits [OF ic_power_on_sizes(1) ic_power_on_runs] by blast

section \<open>Changes of the mode\<close>

text \<open>An acknowledged invalidation was asked for in the same cycle.\<close>

lemma invalidation_was_asked:
  assumes "length (readers s) = NUM_READ_MASTERS" "llc_sampling (ic_sampled k i s)"
    and "invalidate_all_accepted (out_mem (ext_out (cache (ic_before_edge k i s))))"
  shows "invalidate_all_now k (ic_sampled k i s)"
proof -
  have "invalidate_all (in_mem (llc_inputs k True (ic_sampled k i s)))"
    using assms(3) llc.ack_only_if_asked
    by (fastforce simp: ic_before_edge_cache [OF assms(1,2)])
  then show ?thesis
    using assms(2) by (auto simp: llc_inputs_def llc_sampling_def llc_mem_inputs_def Let_def split: option.splits)
qed

lemma reconfig_changes:
  assumes "ct_runtime_mode (seq_reconfig d m off ack c) \<noteq> ct_runtime_mode c \<or>
    ct_mapped_offset (seq_reconfig d m off ack c) \<noteq> ct_mapped_offset c"
  shows "d" "ack" "ct_runtime_mode (seq_reconfig d m off ack c) = m" "ct_mapped_offset (seq_reconfig d m off ack c) = off"
  using assms by (auto simp: seq_reconfig_def Let_def split: if_splits)

lemma ic_cycle_control:
  assumes "length (readers s) = NUM_READ_MASTERS"
  shows "control (ic_cycle k i s) = seq_reconfig (requested_config_differs_from_active (control (ic_sampled k i s)))
      (requested_mode (control (ic_sampled k i s))) (requested_llc_mapped_offset (control (ic_sampled k i s)))
      (invalidate_all_accepted (out_mem (ext_out (cache (ic_before_edge k i s))))) (control (ic_sampled k i s))"
    and "control (ic_sampled k i s) = (control s)\<lparr>ct_mode := i_mode i, ct_offset := i_offset i\<rparr>"
    and "maintenance (ic_sampled k i s) = i_maintenance i"
  by (simp_all add: ic_cycle_def ic_seq_split ic_seq_body_frame ic_frame ic_before_edge_frame [OF assms]
      ic_sampled_frame [OF assms] ic_requested_controls)

text \<open>C7: the mode and the offset of the mapped window change together and in safe cycles only. In a cycle they
  stay, or become the requested ones; then no write is busy outside the cache, and either an
  invalidation was requested from outside in this cycle or a change was pending and all paths
  through the interconnect and the cache were quiet.\<close>

theorem ic_mode_changes_when_quiet:
  assumes "length (readers s) = NUM_READ_MASTERS"
  shows "(ct_runtime_mode (control (ic_cycle k i s)) = ct_runtime_mode (control s) \<and>
      ct_mapped_offset (control (ic_cycle k i s)) = ct_mapped_offset (control s)) \<or>
    (ct_runtime_mode (control (ic_cycle k i s)) = requested_mode (control (ic_sampled k i s)) \<and>
      ct_mapped_offset (control (ic_cycle k i s)) = requested_llc_mapped_offset (control (ic_sampled k i s)) \<and>
      \<not> llc_external_write_busy (ic_sampled k i s) \<and>
      (mt_all (i_maintenance i) \<or> ct_reconfig_pending (control s) \<and> reconfig_path_quiescent k (ic_sampled k i s)))"
    (is "?same \<or> _")
proof (cases ?same)
  case False
  let ?t = "ic_sampled k i s"
  note c = ic_cycle_control [OF assms, of k i]
  have "ct_runtime_mode (control (ic_cycle k i s)) \<noteq> ct_runtime_mode (control ?t) \<or>
      ct_mapped_offset (control (ic_cycle k i s)) \<noteq> ct_mapped_offset (control ?t)"
    using False by (auto simp: c(2))
  note change = reconfig_changes [OF this [unfolded c(1)], folded c(1)]
  have "llc_sampling ?t" using change(1) by (simp add: llc_sampling_def mode_transition_needs_flush_def)
  from invalidation_was_asked [OF assms this change(2)] change(3,4) show ?thesis
    by (auto simp: invalidate_all_now_def llc_maintenance_quiescent_def mode_transition_invalidate_requested_def c(2,3))
qed simp

theorem ic_mode_changes_when_quiet_witness:
  "\<forall>i. ct_runtime_mode (control (ic_cycle default_kit_config i (ic_power_on default_kit_config tiny_llc None))) = 1 \<or>
     mt_all (i_maintenance i)"
proof
  fix i
  let ?s = "ic_power_on default_kit_config tiny_llc None"
  have "ct_runtime_mode (control ?s) = 1" "\<not> ct_reconfig_pending (control ?s)" by (simp_all add: ic_power_on_control)
  then show "ct_runtime_mode (control (ic_cycle default_kit_config i ?s)) = 1 \<or> mt_all (i_maintenance i)"
    using ic_mode_changes_when_quiet [OF ic_power_on_sizes(1) [of default_kit_config tiny_llc None], of default_kit_config i]
    by metis
qed

end
