(* ===== verification/IC_Write_Gaps.thy ===== *)
theory IC_Write_Gaps
  imports IC_Handshake LLC_Line_Props
begin

text \<open>
  A situation in which the cached mode loses a write: a write past the cache on the MMIO port at
  the same time as a write of the cache on the DDR port. The two ports are independent on the
  wires, but the handover of a memory response in \<^verbatim>\<open>seq\<close> ends the active write of both.
\<close>

section \<open>The write channel at an edge of the cached mode\<close>

lemma aw_of_view: "w_active p s = fst (snd (snd (snd (aw_view s p))))" "latch_aw p s = fst (snd (snd (aw_view s p)))"
    "w_current p s = snd (snd (snd (snd (aw_view s p))))" "io_aw (dp_io (dport p s)) = fst (aw_view s p)"
    "io_w (dp_io (dport p s)) = fst (snd (aw_view s p))"
  by (simp_all add: aw_view_def aw_of_def)

lemma write_responses_ext [simp]:
  "ext_out (cache (take_llc_write_response m s)) = ext_out (cache s)"
  "ext_in (cache (take_llc_write_response m s)) = ext_in (cache s)"
  "ext_out (cache (seq_write_responses k m s)) = ext_out (cache s)"
  "ext_in (cache (seq_write_responses k m s)) = ext_in (cache s)"
  by (simp_all add: take_llc_write_response_def seq_write_responses_def Let_def ic_frame)

text \<open>The state in which the responses have been handed on and the write channels are served.\<close>

definition llc_write_stage :: "kit_config \<Rightarrow> ic \<Rightarrow> ic" where
  "llc_write_stage k s =
     (let s = fold consume_llc_read_response [0..<NUM_READ_MASTERS] s;
          s = promote_write_resp_queue (fold (seq_write_responses k) [0..<NUM_WRITE_MASTERS] s)
      in fold take_llc_read_response [0..<NUM_READ_MASTERS] s)"

lemma llc_write_stage_frame [ic_frame]:
  "aw_view (llc_write_stage k s) = aw_view s" "ext_out (cache (llc_write_stage k s)) = ext_out (cache s)"
  "ext_in (cache (llc_write_stage k s)) = ext_in (cache s)" "control (llc_write_stage k s) = control s"
  "mem_side (llc_write_stage k s) = mem_side s"
  by (simp_all add: llc_write_stage_def masters_upt ic_frame)

definition llc_channel_stage :: "kit_config \<Rightarrow> ic \<Rightarrow> ic" where
  "llc_channel_stage k s =
     (let s = until_stop (seq_direct_write k) (rotated_writers s) s
      in fold (handle_llc_b k) both_ports (fold seq_llc_write_port both_ports (seq_llc_write k s)))"

lemma llc_channel_stage_frame [ic_frame]: "cache (llc_channel_stage k s) = cache s"
  by (simp add: llc_channel_stage_def until_stop_views ic_frame)

text \<open>What \<^verbatim>\<open>seq\<close> does before the writes.\<close>

definition ic_seq_front :: "kit_config \<Rightarrow> ic \<Rightarrow> ic" where
  "ic_seq_front k s =
     (let t = fold process_ar_port both_ports (seq_clear_accepted s)
      in seq_reads k (mb_synth_valid (mem_side s)) (if llc_enabled t then seq_llc_queues k t else t))"

lemma ic_seq_front_frame [ic_frame]:
  "aw_view (ic_seq_front k s) = aw_view s" "cache (ic_seq_front k s) = cache s" "control (ic_seq_front k s) = control s"
  "cache_config (ic_seq_front k s) = cache_config s" "mem_side (ic_seq_front k s) = mem_side s"
  "w_pending (ic_seq_front k s) = w_pending s" "llc_enabled (ic_seq_front k s) = llc_enabled s"
  by (simp_all add: ic_seq_front_def Let_def ic_frame llc_enabled_def)

lemma ic_seq_cached_aw:
  assumes "llc_enabled s"
  shows "aw_view (ic_seq k s) = aw_view (seq_llc_write_done k (mb_write_resp_valid (mem_side s))
           (llc_channel_stage k (llc_write_stage k (ic_seq_front k s))))"
proof -
  have on: "llc_enabled (ic_seq_front k s)" using assms by (simp add: ic_frame)
  have "ic_seq k s = (let t = ic_seq_front k s;
      t = seq_with_llc k (mb_write_resp_valid (mem_side s)) (mb_synth_valid (mem_side s)) t;
      t = forget_seen_read (t\<lparr>cache := llc_seq (cache t)\<rparr>);
      t = t\<lparr>control := seq_reconfig (requested_config_differs_from_active (control s)) (requested_mode (control s))
            (requested_llc_mapped_offset (control s)) (invalidate_all_accepted (out_mem (ext_out (cache t)))) (control t)\<rparr>
    in assert_llc_consumed_reads k (core_stage s) t)"
    using on by (simp add: ic_seq_def Let_def ic_seq_front_def)
  then have "aw_view (ic_seq k s) =
      aw_view (seq_with_llc k (mb_write_resp_valid (mem_side s)) (mb_synth_valid (mem_side s)) (ic_seq_front k s))"
    by (simp add: Let_def ic_frame)
  then show ?thesis
    by (simp add: seq_with_llc_def Let_def llc_write_stage_def llc_channel_stage_def ic_frame)
qed

section \<open>The handover of a memory response\<close>

text \<open>
  When the response to a write of the cache is handed over, the edge ends the active write of both
  ports. A write past the cache whose address the MMIO port has taken, and whose data it still has to
  send, is then forgotten: the port no longer counts it as active.
\<close>

theorem ic_handover_drops_writes:
  assumes "llc_enabled s" "mb_write_resp_valid (mem_side s)" "mo_write_resp_ready (out_mem (ext_out (cache s)))"
  shows "\<not> w_active p (ic_seq k s)"
proof -
  let ?x = "llc_channel_stage k (llc_write_stage k (ic_seq_front k s))"
  have "ext_out (cache ?x) = ext_out (cache s)" by (simp add: ic_frame)
  then have "\<not> w_active p (seq_llc_write_done k True ?x)"
    using assms(3) by (cases p) (simp_all add: seq_llc_write_done_def end_write_def upd_mem_side_def)
  then show ?thesis
    using ic_seq_cached_aw [OF assms(1), of k] assms(2) by (simp add: aw_of_view(1))
qed

end
