(* ===== verification/IC_Read_Ledger.thy ===== *)
theory IC_Read_Ledger
  imports IC_Handshake
begin

text \<open>
  The reads outside the cache, counted over a run: every AR handshake made for a read master is
  answered to that master, under the id the master gave it, exactly once. The state owes what its
  table of pending transactions holds; what falls due is read off the wires by a watcher that runs
  beside the interconnect and never looks at the latches or at the table: it finds out whose request
  a new AR carries from the request wires of the master, and remembers it while the AR waits.
\<close>

section \<open>Tokens\<close>

definition read_token :: "read_pending_txn \<Rightarrow> u8 \<times> u8" where
  "read_token t = (rt_master t, rt_orig_id t)"

definition direct_tokens :: "read_pending_txn list \<Rightarrow> (u8 \<times> u8) list" where
  "direct_tokens q = map read_token (filter (\<lambda>t. \<not> rt_to_llc t) q)"

lemma direct_tokens_simps [simp]:
  "direct_tokens [] = []" "direct_tokens (a @ b) = direct_tokens a @ direct_tokens b"
  by (simp_all add: direct_tokens_def)

lemma direct_tokens_map:
  "(\<And>t. read_token (f t) = read_token t \<and> rt_to_llc (f t) = rt_to_llc t) \<Longrightarrow> direct_tokens (map f q) = direct_tokens q"
  by (induction q) (simp_all add: direct_tokens_def)

lemma direct_tokens_update:
  "read_token t = read_token (q ! i) \<Longrightarrow> rt_to_llc t = rt_to_llc (q ! i) \<Longrightarrow> direct_tokens (q[i := t]) = direct_tokens q"
proof (induction q arbitrary: i)
  case (Cons x q)
  then show ?case by (cases i) (simp_all add: direct_tokens_def)
qed simp

lemma erase_first_mset:
  assumes "\<exists>x\<in>set xs. P x"
  shows "\<exists>y. P y \<and> y \<in> set xs \<and> mset xs = add_mset y (mset (erase_first P xs))"
  using assms by (induction xs) auto

lemma erase_first_keeps: "x \<in> set xs \<Longrightarrow> \<not> P x \<Longrightarrow> x \<in> set (erase_first P xs)"
  by (induction xs) auto

text \<open>What the AR handshakes at the edge of a cycle add to the table.\<close>

definition ar_taken :: "ic \<Rightarrow> downstream_port \<Rightarrow> read_pending_txn list" where
  "ar_taken s p =
     (let ar = ar_wires p s; m = dp_issue (dport p s) in
      if \<not> arvalid ar \<or> \<not> arready ar then []
      else if al_valid (latch_ar p s) then [txn_of_latch (latch_ar p s)]
      else if \<not> am_valid m \<or> am_master m < 0 then [] else [txn_of_wires p ar m])"

text \<open>The responses the read masters take at the edge.\<close>

definition response_taken :: "ic \<Rightarrow> nat \<Rightarrow> bool" where
  "response_taken s m \<longleftrightarrow> mr_resp_valid (rport s m) \<and> mr_resp_ready (rport s m)"

definition reads_paid :: "kit_config \<Rightarrow> ic_input \<Rightarrow> ic \<Rightarrow> (u8 \<times> u8) list" where
  "reads_paid k i s = (let e = ic_before_edge k i s in
     map (\<lambda>m. (of_nat m, mr_resp_id (rport e m))) (filter (response_taken e) [0..<NUM_READ_MASTERS]))"

section \<open>The edge\<close>

lemma process_ar_pending: "r_pending (process_ar_port p s) = r_pending s @ ar_taken s p"
  by (simp add: process_ar_port_def Let_def ar_taken_def latch_ar_request_def take_latched_ar_def take_driven_ar_def
      finish_ar_txn_def note_read_accepted_def)

lemma ar_taken_view: "ar_view a p = ar_view b p \<Longrightarrow> ar_taken a p = ar_taken b p"
  by (simp add: ar_taken_def ar_view_def ar_of_def Let_def)

lemma process_ar_both:
  "r_pending (fold process_ar_port both_ports (seq_clear_accepted s)) = r_pending s @ concat (map (ar_taken s) both_ports)"
proof -
  have "ar_taken (process_ar_port PortDDR (seq_clear_accepted s)) PortMMIO = ar_taken s PortMMIO"
    "ar_taken (seq_clear_accepted s) PortDDR = ar_taken s PortDDR"
    by (rule ar_taken_view; simp add: process_ar_port_view ic_frame)+
  then show ?thesis by (simp add: process_ar_pending seq_clear_accepted_def)
qed

text \<open>The edge does not touch the wires of the read masters.\<close>

lemma map_port_upd: "(\<And>q. rm_port (f q) = rm_port q) \<Longrightarrow> map rm_port (upd m f rs) = map rm_port rs"
  by (rule map_upd_same)

lemma process_ar_ports: "map rm_port (readers (process_ar_port p s)) = map rm_port (readers s)"
  by (simp add: process_ar_port_def Let_def latch_ar_request_def take_latched_ar_def take_driven_ar_def
      finish_ar_txn_def note_read_accepted_def map_port_upd)

lemma take_beat_token:
  "read_token (take_read_beat b n t) = read_token t" "rt_to_llc (take_read_beat b n t) = rt_to_llc t"
  by (simp_all add: take_read_beat_def Let_def unpack_downstream_read_beat_def read_token_def)

lemma r_handshake_tokens: "direct_tokens (r_pending (handle_r_handshake k p s)) = direct_tokens (r_pending s)"
  by (simp add: handle_r_handshake_def Let_def direct_tokens_update take_beat_token split: option.split)

lemma nth_update_keeps: "x \<in> set xs \<Longrightarrow> x \<noteq> xs ! i \<Longrightarrow> x \<in> set (xs[i := y])"
  by (metis in_set_conv_nth length_list_update nth_list_update_neq)

lemma r_handshake_keeps:
  assumes "t \<in> set (r_pending s)" "rt_beats_done t = rt_total_beats t"
  shows "t \<in> set (r_pending (handle_r_handshake k p s))"
proof -
  have "t \<in> set ((r_pending s)[i := x])"
    if "first_below (length (r_pending s)) (\<lambda>i. rt_port (r_pending s ! i) = p \<and> rt_axi_id (r_pending s ! i) = a \<and>
        rt_beats_done (r_pending s ! i) < rt_total_beats (r_pending s ! i)) = Some i" for i x a
    using first_below_Some [OF that] assms by (intro nth_update_keeps) auto
  then show ?thesis using assms(1) by (auto simp: handle_r_handshake_def Let_def split: option.split)
qed

section \<open>Retirement\<close>

lemma and_u8_mask [simp]: "(x :: u8) AND 0xFF = x"
proof -
  have "(0xFF :: u8) = - 1" by simp
  then show ?thesis by (simp only: and.right_neutral)
qed

lemma retire_ports [simp]: "readers (retire_direct_read m s) = readers s"
  by (simp add: retire_direct_read_def Let_def)

lemma retire_fold:
  assumes "distinct ms" "\<forall>m\<in>set ms. m < 256 \<and> (response_taken s m \<longrightarrow>
      (\<exists>t\<in>set (r_pending s). answered_txn m (mr_resp_id (rport s m)) t))"
  shows "mset (direct_tokens (r_pending s)) = mset (direct_tokens (r_pending (fold retire_direct_read ms s))) +
      mset (map (\<lambda>m. (of_nat m, mr_resp_id (rport s m))) (filter (response_taken s) ms))"
  using assms
proof (induction ms arbitrary: s)
  case (Cons m ms)
  let ?t = "retire_direct_read m s"
  let ?P = "answered_txn m (mr_resp_id (rport s m))"
  have pending: "r_pending ?t = (if response_taken s m then erase_first ?P (r_pending s) else r_pending s)"
    by (simp add: retire_direct_read_def Let_def response_taken_def and_u8_mask)
  have taken: "response_taken ?t = response_taken s" by (simp add: response_taken_def fun_eq_iff)
  have one: "mset (direct_tokens (r_pending s)) = mset (direct_tokens (r_pending ?t)) +
      (if response_taken s m then {#(of_nat m, mr_resp_id (rport s m))#} else {#})"
  proof (cases "response_taken s m")
    case True
    then obtain y where y: "?P y" "mset (r_pending s) = add_mset y (mset (erase_first ?P (r_pending s)))"
      using erase_first_mset [of "r_pending s" ?P] Cons.prems(2) by auto
    have "rt_master y = of_nat m"
      using y(1) Cons.prems(2) by (auto simp: answered_txn_def)
    then have "read_token y = (of_nat m, mr_resp_id (rport s m))" "\<not> rt_to_llc y"
      using y(1) by (simp_all add: answered_txn_def read_token_def)
    then show ?thesis
      using True y(2) by (simp add: pending direct_tokens_def)
  qed (simp add: pending)
  have keep: "\<exists>t\<in>set (r_pending ?t). answered_txn n (mr_resp_id (rport s n)) t"
    if n: "n \<in> set ms" "response_taken s n" for n
  proof -
    obtain t where t: "t \<in> set (r_pending s)" "answered_txn n (mr_resp_id (rport s n)) t"
      using Cons.prems(2) n by auto
    moreover have "\<not> ?P t" using t(2) n(1) Cons.prems(1) by (auto simp: answered_txn_def)
    ultimately show ?thesis by (auto simp: pending intro: erase_first_keeps)
  qed
  have "mset (direct_tokens (r_pending ?t)) = mset (direct_tokens (r_pending (fold retire_direct_read ms ?t))) +
      mset (map (\<lambda>m. (of_nat m, mr_resp_id (rport ?t m))) (filter (response_taken ?t) ms))"
    using Cons.prems keep by (intro Cons.IH) (auto simp: taken)
  then show ?case by (simp add: one taken)
qed simp

section \<open>Up to the edge\<close>

text \<open>The valid and the id of the responses shown to the read masters.\<close>

definition shown :: "read_master_port \<Rightarrow> bool \<times> u8" where
  "shown p = (mr_resp_valid p, mr_resp_id p)"

definition shown_view :: "ic \<Rightarrow> (bool \<times> u8) list" where
  "shown_view s = map (\<lambda>q. shown (rm_port q)) (readers s)"

lemma shown_upd [simp]: "(\<And>q. shown (rm_port (f q)) = shown (rm_port q)) \<Longrightarrow> shown_view (upd_reader m f s) = shown_view s"
  by (simp add: shown_view_def map_upd_same)

lemma shown_ready [simp]:
  "shown (p\<lparr>mr_ready := a\<rparr>) = shown p" "shown (p\<lparr>mr_ready := a, mr_accepted := b, mr_accepted_id := c\<rparr>) = shown p"
  "shown (drive_read_master d p) = shown p"
  by (simp_all add: shown_def drive_read_master_def)

lemma shown_views:
  "shown_view (keep_latched_ready p s) = shown_view s" "shown_view (show_write_ready k m s) = shown_view s"
  "shown_view (upd_wport m f s) = shown_view s" "shown_view (upd_reader m (show_read_ready k t n) s) = shown_view s"
  "shown_view (upd_rport m (drive_read_master d) s) = shown_view s"
  by (simp_all add: keep_latched_ready_def show_write_ready_def Let_def upd_rport_def upd_wport_def show_read_ready_def)
    (simp_all add: shown_view_def)

lemma arbiter_shown:
  assumes "length (readers s) = NUM_READ_MASTERS"
  shows "shown_view (comb_read_arbiter k s) = shown_view s"
proof -
  let ?g = "\<lambda>t. case t of (a, b, c, d, e, v, r, x, aid) \<Rightarrow> (v, aid)"
  have "shown (rm_port q) = ?g (rq_of q)" for q by (simp add: shown_def rq_of_def resp_wires_def)
  then have "shown_view t = map ?g (map rq_of (readers t))" for t by (simp add: shown_view_def)
  then show ?thesis using arb_envD(13) [OF comb_read_arbiter_spec(1) [OF assms, of k]] by (simp only:)
qed

lemma drive_masters_shown: "shown_view (drive_masters i s) = shown_view s"
  by (simp add: drive_masters_def masters_upt shown_views)

lemma comb_inputs_shown:
  assumes "length (readers s) = NUM_READ_MASTERS"
  shows "shown_view (comb_inputs k s) = shown_view s"
proof -
  have "shown_view (comb_inputs k s) = shown_view (comb_read_arbiter k s)"
    by (simp add: comb_inputs_def Let_def shown_view_def ic_frame)
  then show ?thesis using arbiter_shown [OF assms] by simp
qed

lemma present_fold:
  assumes "distinct ms" "m < length (readers s)"
  shows "rm_port (readers (fold (\<lambda>m. upd_rport m (f m)) ms s) ! m) =
    (if m \<in> set ms then f m (rm_port (readers s ! m)) else rm_port (readers s ! m))"
  using assms
proof (induction ms arbitrary: s)
  case (Cons n ms)
  then show ?case by (cases "m = n") (auto simp: upd_rport_def nth_upd)
qed simp

lemma read_response_port:
  assumes "m < length (readers s)" "m < NUM_READ_MASTERS"
  shows "rm_port (readers (comb_read_response s) ! m) = present_response (select_response (r_pending s) m) (rport s m)"
  using assms by (simp add: comb_read_response_def Let_def present_fold upd_io_def)

lemma comb_outputs_shown:
  assumes "\<not> llc_enabled s" "length (readers s) = NUM_READ_MASTERS" "m < NUM_READ_MASTERS"
  shows "shown_view (comb_outputs k s) ! m = shown (present_response (select_response (r_pending s) m) (rport s m))"
proof -
  let ?s = "comb_read_response (run_llc_comb k (prepare_llc_inputs k False s))"
  have "\<not> llc_enabled (fold (show_write_ready k) [0..<NUM_WRITE_MASTERS] (fold keep_latched_ready both_ports
      (fold (\<lambda>m s. upd_reader m (show_read_ready k s m) s) [0..<NUM_READ_MASTERS] (comb_write_response k ?s))))"
    using assms(1) by (simp add: llc_enabled_def masters_upt ic_frame)
  then have "shown_view (comb_outputs k s) = shown_view (comb_write_response k ?s)"
    by (simp add: comb_outputs_def Let_def masters_upt shown_views)
  also have "\<dots> ! m = shown (rm_port (readers (comb_write_response k ?s) ! m))"
    using assms(2,3) by (simp add: shown_view_def ic_frame)
  also have "readers (comb_write_response k ?s) = readers ?s" by (simp add: ic_frame)
  finally show ?thesis using assms by (simp add: read_response_port ic_frame)
qed

lemma edge_shown:
  assumes "\<not> llc_enabled s" "length (readers s) = NUM_READ_MASTERS" "m < NUM_READ_MASTERS"
  shows "shown (rport (ic_before_edge k i s) m) = shown (present_response (select_response (r_pending s) m) (rport s m))"
proof -
  let ?d = "drive_first i s"
  have len: "length (readers (ic_requested k i s)) = NUM_READ_MASTERS" using assms(2) by (simp add: ic_frame)
  have "shown_view (ic_before_edge k i s) = shown_view (ic_requested k i s)"
    using comb_inputs_shown [OF len, of k]
    by (simp add: ic_before_edge_def ic_requested_def [symmetric] shown_view_def ic_frame)
  then have "shown_view (ic_before_edge k i s) = shown_view (comb_outputs k ?d)"
    by (simp add: ic_requested_def drive_masters_shown)
  moreover have "shown_view (comb_outputs k ?d) ! m = shown (present_response (select_response (r_pending ?d) m) (rport ?d m))"
    using assms by (intro comb_outputs_shown) (simp_all add: llc_enabled_def drive_first_def Let_def ic_frame)
  moreover have "shown (rport (ic_before_edge k i s) m) = shown_view (ic_before_edge k i s) ! m"
    using ic_before_edge_sizes [OF assms(2)] assms(2,3) by (simp add: shown_view_def)
  moreover have "r_pending ?d = r_pending s" "readers ?d = readers s" by (simp_all add: ic_frame)
  ultimately show ?thesis by simp
qed

text \<open>The response shown belongs to a finished transaction of the master.\<close>

lemma select_response_sound:
  assumes "select_response q m = Some t"
  shows "t \<in> set q \<and> completed_direct m t"
proof -
  have "fold (\<lambda>t best. if \<not> completed_direct m t then best
            else case best of None \<Rightarrow> Some t | Some b \<Rightarrow> if rt_completion_seq t < rt_completion_seq b then Some t else best)
          q best = Some t \<Longrightarrow> (t \<in> set q \<and> completed_direct m t) \<or> best = Some t" for best
  proof (induction q arbitrary: best)
    case (Cons x q)
    from Cons.IH [OF Cons.prems [simplified]] show ?case by (auto split: if_splits option.splits)
  qed simp
  from this [of None] assms show ?thesis by (simp add: select_response_def)
qed

lemma edge_response:
  assumes "\<not> llc_enabled s" "length (readers s) = NUM_READ_MASTERS" "m < NUM_READ_MASTERS"
    and "mr_resp_valid (rport (ic_before_edge k i s) m)"
  obtains t where "t \<in> set (r_pending s)" "rt_beats_done t = rt_total_beats t"
    "answered_txn m (mr_resp_id (rport (ic_before_edge k i s) m)) t"
proof -
  from edge_shown [OF assms(1-3), of k i] assms(4)
  obtain t where "select_response (r_pending s) m = Some t" "mr_resp_id (rport (ic_before_edge k i s) m) = rt_orig_id t"
    by (cases "select_response (r_pending s) m") (auto simp: shown_def present_response_def)
  with select_response_sound [OF this(1)] that show ?thesis
    by (auto simp: completed_direct_def answered_txn_def)
qed

section \<open>A cycle\<close>

lemma watch_token: "read_token (watch_progress t) = read_token t \<and> rt_to_llc (watch_progress t) = rt_to_llc t"
  by (simp add: watch_progress_def read_token_def)

lemma seq_read_tokens:
  assumes "\<not> llc_enabled e" "\<forall>m<NUM_READ_MASTERS. mr_resp_valid (rport e m) \<longrightarrow>
      (\<exists>t\<in>set (r_pending e). rt_beats_done t = rt_total_beats t \<and> answered_txn m (mr_resp_id (rport e m)) t)"
    and "length (readers e) = NUM_READ_MASTERS"
  shows "mset (direct_tokens (r_pending (ic_seq k e))) +
      mset (map (\<lambda>m. (of_nat m, mr_resp_id (rport e m))) (filter (response_taken e) [0..<NUM_READ_MASTERS])) =
    mset (direct_tokens (r_pending e)) + mset (direct_tokens (concat (map (ar_taken e) both_ports)))"
proof -
  let ?u = "fold process_ar_port both_ports (seq_clear_accepted e)"
  let ?v = "fold (handle_r_handshake k) both_ports ?u"
  let ?w = "fold retire_direct_read [0..<NUM_READ_MASTERS] ?v"
  let ?s = "seq_reads k (mb_synth_valid (mem_side e)) ?u"
  have off: "\<not> llc_enabled ?u" "\<not> llc_enabled ?w" "\<not> llc_enabled ?s"
    using assms(1) by (simp_all add: llc_enabled_def masters_upt ic_frame)
  have "r_pending (ic_seq k e) = r_pending ?s"
    using off(1,3) by (simp add: ic_seq_def Let_def ic_frame)
  also have "\<dots> = map watch_progress (r_pending ?w)"
    using off(2) by (simp add: seq_reads_def Let_def retire_llc_read_def)
  finally have fin: "direct_tokens (r_pending (ic_seq k e)) = direct_tokens (r_pending ?w)"
    by (simp add: direct_tokens_map watch_token)
  have "map rm_port (readers ?u) = map rm_port (readers e)"
    by (simp add: process_ar_ports) (simp add: seq_clear_accepted_def)
  moreover have "readers ?v = readers ?u" by (simp add: ic_frame)
  ultimately have ports: "map rm_port (readers ?v) = map rm_port (readers e)" by simp
  have port: "rport ?v m = rport e m" if "m < NUM_READ_MASTERS" for m
    using ports that assms(3) by (metis length_map nth_map)
  have pending: "r_pending ?u = r_pending e @ concat (map (ar_taken e) both_ports)" by (rule process_ar_both)
  have stay: "t \<in> set (r_pending ?v)" if "t \<in> set (r_pending e)" "rt_beats_done t = rt_total_beats t" for t
  proof -
    have "t \<in> set (r_pending ?u)" using that(1) pending by simp
    then show ?thesis using that(2) by (simp add: r_handshake_keeps)
  qed
  have "mset (direct_tokens (r_pending ?v)) = mset (direct_tokens (r_pending ?w)) +
      mset (map (\<lambda>m. (of_nat m, mr_resp_id (rport ?v m))) (filter (response_taken ?v) [0..<NUM_READ_MASTERS]))"
  proof (rule retire_fold)
    show "\<forall>m\<in>set [0..<NUM_READ_MASTERS]. m < 256 \<and> (response_taken ?v m \<longrightarrow>
        (\<exists>t\<in>set (r_pending ?v). answered_txn m (mr_resp_id (rport ?v m)) t))"
    proof (intro ballI conjI impI)
      fix m assume "m \<in> set [0..<NUM_READ_MASTERS]"
      then have m: "m < NUM_READ_MASTERS" by simp
      then show "m < 256" by (simp add: NUM_READ_MASTERS_def)
      assume "response_taken ?v m"
      then have "mr_resp_valid (rport e m)" by (simp only: response_taken_def port [OF m])
      with assms(2) m stay show "\<exists>t\<in>set (r_pending ?v). answered_txn m (mr_resp_id (rport ?v m)) t"
        unfolding port [OF m] by blast
    qed
  qed simp
  moreover have "map (\<lambda>m. (of_nat m, mr_resp_id (rport ?v m))) (filter (response_taken ?v) [0..<NUM_READ_MASTERS]) =
      map (\<lambda>m. (of_nat m :: u8, mr_resp_id (rport e m))) (filter (response_taken e) [0..<NUM_READ_MASTERS])"
    by (rule map_cong [OF filter_cong [OF refl]]) (simp_all only: response_taken_def port set_filter mem_Collect_eq atLeastLessThan_upt [symmetric] atLeastLessThan_iff)
  moreover have "direct_tokens (r_pending ?v) = direct_tokens (r_pending e) @ direct_tokens (concat (map (ar_taken e) both_ports))"
    using pending by (simp add: r_handshake_tokens)
  ultimately show ?thesis by (simp only: fin mset_append)
qed

lemma ic_read_tick:
  assumes "\<not> llc_enabled s" "length (readers s) = NUM_READ_MASTERS"
  shows "mset (reads_paid k i s) + mset (direct_tokens (r_pending (ic_cycle k i s))) =
    mset (direct_tokens (r_pending s)) + mset (direct_tokens (concat (map (ar_taken (ic_before_edge k i s)) both_ports)))"
proof -
  let ?e = "ic_before_edge k i s"
  have e: "\<not> llc_enabled ?e" "r_pending ?e = r_pending s" "length (readers ?e) = NUM_READ_MASTERS"
    using assms comb_inputs_frame [of "ic_requested k i s" k]
    by (simp_all add: ic_before_edge_def ic_requested_def [symmetric] llc_enabled_def ic_frame ic_requested_controls)
  have "\<forall>m<NUM_READ_MASTERS. mr_resp_valid (rport ?e m) \<longrightarrow>
      (\<exists>t\<in>set (r_pending ?e). rt_beats_done t = rt_total_beats t \<and> answered_txn m (mr_resp_id (rport ?e m)) t)"
    using edge_response [OF assms] e(2) by metis
  from seq_read_tokens [OF e(1) this e(3), of k] show ?thesis
    by (simp add: ic_cycle_def reads_paid_def Let_def e(2) add.commute)
qed

section \<open>The watcher\<close>

text \<open>Whose request a new AR carries: the arbiter names the master, the wires decide. The master
  must be asking, for this port, and its address and size must give the address and length of the AR; the
  master and the id of its request wires are the token.\<close>

definition asker :: "kit_config \<Rightarrow> ic \<Rightarrow> downstream_port \<Rightarrow> (u8 \<times> u8) option" where
  "asker k e p =
     (let i = am_master (dp_issue (dport p e)); q = rport e (nat i); ar = ar_wires p e;
          iss = make_downstream_read_issue p (mr_addr q) (mr_total_size q) (lc_line_bytes (cache_config e)) False
      in if 0 \<le> i \<and> i < int NUM_READ_MASTERS \<and> mr_valid q \<and>
            p = classify_downstream_port k (mr_addr q) (mr_total_size q) \<and>
            araddr ar = ri_addr iss \<and> arlen ar = calc_burst_len (ri_total_size iss)
         then Some (of_int i, mr_id q) else None)"

type_synonym ar_owners = "downstream_port \<Rightarrow> (u8 \<times> u8) option"

definition ar_owner :: "kit_config \<Rightarrow> ar_owners \<Rightarrow> ic \<Rightarrow> downstream_port \<Rightarrow> (u8 \<times> u8) option" where
  "ar_owner k w e p = (case w p of Some t \<Rightarrow> Some t | None \<Rightarrow> asker k e p)"

definition ar_waits :: "ic \<Rightarrow> downstream_port \<Rightarrow> bool" where
  "ar_waits e p \<longleftrightarrow> arvalid (ar_wires p e) \<and> \<not> arready (ar_wires p e)"

definition ar_fires :: "ic \<Rightarrow> downstream_port \<Rightarrow> bool" where
  "ar_fires e p \<longleftrightarrow> arvalid (ar_wires p e) \<and> arready (ar_wires p e)"

definition watch_cycle :: "kit_config \<Rightarrow> ic_input \<Rightarrow> ic \<times> ar_owners \<Rightarrow> ic \<times> ar_owners" where
  "watch_cycle k i x = (let e = ic_before_edge k i (fst x) in
     (ic_cycle k i (fst x), \<lambda>p. if ar_waits e p then ar_owner k (snd x) e p else None))"

text \<open>The AR handshakes of a cycle, and the reads they make due.\<close>

definition ars_fired :: "kit_config \<Rightarrow> ic_input \<Rightarrow> ic \<Rightarrow> downstream_port list" where
  "ars_fired k i s = filter (ar_fires (ic_before_edge k i s)) both_ports"

definition reads_due :: "kit_config \<Rightarrow> ic_input \<Rightarrow> ic \<times> ar_owners \<Rightarrow> (u8 \<times> u8) list" where
  "reads_due k i x = List.map_filter (ar_owner k (snd x) (ic_before_edge k i (fst x))) (ars_fired k i (fst x))"

text \<open>What the watcher remembers is what the latches hold.\<close>

definition watched :: "ic \<times> ar_owners \<Rightarrow> bool" where
  "watched x \<longleftrightarrow> length (readers (fst x)) = NUM_READ_MASTERS \<and>
     (\<forall>p. let l = latch_ar p (fst x) in
        if al_valid l then \<not> al_to_llc l \<and> snd x p = Some (al_master l, al_orig_id l) else snd x p = None)"

lemma edge_requests:
  assumes "length (readers s) = NUM_READ_MASTERS" "m < NUM_READ_MASTERS"
  shows "current_request (rport (ic_before_edge k i s) m) = current_request (rport (ic_requested k i s) m)"
    "mr_valid (rport (ic_before_edge k i s) m) = mr_valid (rport (ic_requested k i s) m)"
proof -
  let ?r = "ic_requested k i s"
  have len: "length (readers ?r) = NUM_READ_MASTERS" using assms(1) by (simp add: ic_frame)
  have "readers (ic_before_edge k i s) = readers (comb_read_arbiter k ?r)"
    by (simp add: ic_before_edge_def ic_requested_def [symmetric] comb_inputs_def Let_def ic_frame)
  then have "rq_of (readers (ic_before_edge k i s) ! m) = rq_of (readers ?r ! m)"
    using arb_env_rq [OF comb_read_arbiter_spec(1) [OF len, of k], of m] len assms(2) by simp
  then show "current_request (rport (ic_before_edge k i s) m) = current_request (rport ?r m)"
    "mr_valid (rport (ic_before_edge k i s) m) = mr_valid (rport ?r m)"
    by (simp_all add: rq_of_def)
qed

text \<open>An AR that did not wait before belongs to the master whose token the watcher finds.\<close>

lemma new_ar:
  assumes "\<not> llc_enabled s" "length (readers s) = NUM_READ_MASTERS" "\<not> al_valid (latch_ar p s)"
    and e: "e = ic_before_edge k i s" "arvalid (ar_wires p e)" "m = dp_issue (dport p e)"
  shows "am_valid m" "\<not> am_from_llc m" "0 \<le> am_master m"
    "asker k e p = Some (of_int (am_master m), am_orig_id m)"
proof -
  let ?r = "ic_requested k i s"
  have off: "\<not> llc_enabled ?r" using assms(1) by (simp add: llc_enabled_def ic_requested_controls ic_frame)
  have config: "cache_config e = cache_config ?r"
    using comb_inputs_frame(6) [of "?r" k] assms(2)
    by (simp add: e(1) ic_before_edge_def ic_requested_def [symmetric] ic_frame)
  obtain ar m' where view: "ar_view e p = (ar\<lparr>arready := fst (i_ready i p)\<rparr>, latch_ar p s, m')" and arb: "arbited k ?r p ar m'"
    using before_edge_ar [OF assms(2), of k i p] e(1) by blast
  then have m: "m' = m" "ar_wires p e = ar\<lparr>arready := fst (i_ready i p)\<rparr>"
    by (simp_all add: ar_view_def ar_of_def e(3))
  have "latch_ar p ?r = latch_ar p s" by (simp add: ar_wires_view ic_frame)
  then have ok: "issue_ok k ?r p ar m" using arb assms(3) e(2) m by (auto simp: arbited_def)
  then show "am_valid m" "\<not> am_from_llc m" using off by (auto simp: issue_ok_def)
  with ok off obtain n where n: "am_master m = int n" "n < NUM_READ_MASTERS"
    "p = classify_downstream_port k (am_upstream_addr m) (am_upstream_size m)" "mr_valid (rport ?r n)"
    "current_request (rport ?r n) = \<lparr>rh_valid = True, rh_addr = am_upstream_addr m,
       rh_total_size = am_upstream_size m, rh_id = am_orig_id m, rh_bypass = mr_bypass (rport ?r n)\<rparr>"
    by (auto simp: issue_ok_def direct_ok_def)
  then have req: "mr_valid (rport e n)" "mr_addr (rport e n) = am_upstream_addr m"
    "mr_total_size (rport e n) = am_upstream_size m" "mr_id (rport e n) = am_orig_id m"
    using edge_requests [OF assms(2) n(2), of k i] by (auto simp: e(1) current_request_def)
  have "ar_shape k ?r p ar m" using ok by (simp add: issue_ok_def)
  then have shape: "araddr ar = ri_addr (make_downstream_read_issue p (am_upstream_addr m) (am_upstream_size m)
      (lc_line_bytes (cache_config ?r)) False)"
    "arlen ar = calc_burst_len (ri_total_size (make_downstream_read_issue p (am_upstream_addr m) (am_upstream_size m)
      (lc_line_bytes (cache_config ?r)) False))"
    using \<open>\<not> am_from_llc m\<close> by (auto simp: ar_shape_def Let_def)
  show "0 \<le> am_master m" using n(1) by simp
  show "asker k e p = Some (of_int (am_master m), am_orig_id m)"
    using n(1,2) n(3) [symmetric] req shape by (simp add: asker_def Let_def e(3) [symmetric] config m(2))
qed

text \<open>At the edge the transaction a port records is the read its AR was made for, and a request put into
  the latch is remembered with it.\<close>

lemma edge_owner:
  assumes "\<not> llc_enabled s" "watched (s, w)" and e: "e = ic_before_edge k i s"
  shows "direct_tokens (ar_taken e p) = (if ar_fires e p then [the (ar_owner k w e p)] else [])"
    and "ar_fires e p \<Longrightarrow> ar_owner k w e p \<noteq> None"
    and "let l = latch_ar p (ic_seq k e) in
      if al_valid l then \<not> al_to_llc l \<and> ar_waits e p \<and> ar_owner k w e p = Some (al_master l, al_orig_id l)
      else \<not> ar_waits e p"
proof -
  let ?l = "latch_ar p s" and ?m = "dp_issue (dport p e)" and ?ar = "ar_wires p e"
  have len: "length (readers s) = NUM_READ_MASTERS" using assms(2) by (simp add: watched_def)
  obtain ar m where view: "ar_view e p = (ar\<lparr>arready := fst (i_ready i p)\<rparr>, ?l, m)" and
    arb: "arbited k (ic_requested k i s) p ar m"
    using before_edge_ar [OF len, of k i p] e by blast
  then have l: "latch_ar p e = ?l" and v: "ar_view e p = (?ar, ?l, ?m)" by (simp_all add: ar_view_def ar_of_def)
  have next_l: "latch_ar p (ic_seq k e) = next_ar_latch p ?ar ?l ?m"
    using ic_seq_ar [OF v] by (simp add: ar_wires_view)
  have keeps: "al_valid ?l \<Longrightarrow> arvalid ?ar"
    using view arb by (auto simp: ar_wires_view arbited_def latch_wires_def ic_frame)
  have own: "ar_owner k w e p = (if al_valid ?l then Some (al_master ?l, al_orig_id ?l)
      else Some (of_int (am_master ?m), am_orig_id ?m))" if "arvalid ?ar"
  proof -
    have "w p = (if al_valid ?l then Some (al_master ?l, al_orig_id ?l) else None)"
      using conjunct2 [OF assms(2) [unfolded watched_def], THEN spec, of p] by (simp add: Let_def split: if_splits)
    then show ?thesis using new_ar(4) [OF assms(1) len _ e that refl] by (simp add: ar_owner_def)
  qed
  have direct: "\<not> al_to_llc ?l" if "al_valid ?l" using assms(2) that by (auto simp: watched_def Let_def)
  have new: "am_valid ?m" "\<not> am_from_llc ?m" "0 \<le> am_master ?m" if "arvalid ?ar" "\<not> al_valid ?l"
    using new_ar(1-3) [OF assms(1) len that(2) e that(1) refl] by simp_all
  show "direct_tokens (ar_taken e p) = (if ar_fires e p then [the (ar_owner k w e p)] else [])"
    using new own direct by (auto simp: ar_taken_def Let_def ar_fires_def l direct_tokens_def read_token_def
        txn_of_latch_def txn_of_wires_def new_txn_def)
  show "ar_owner k w e p \<noteq> None" if "ar_fires e p" using own that by (auto simp: ar_fires_def)
  show "let l = latch_ar p (ic_seq k e) in
      if al_valid l then \<not> al_to_llc l \<and> ar_waits e p \<and> ar_owner k w e p = Some (al_master l, al_orig_id l)
      else \<not> ar_waits e p"
    using own direct new keeps
    by (auto simp: next_l next_ar_latch_def ar_waits_def Let_def latched_ar_def release_ar_latch_def)
qed

lemma watched_cycle:
  assumes "watched x" "\<not> llc_enabled (fst x)"
  shows "watched (watch_cycle k i x)"
proof (cases x)
  case (Pair s w)
  have w: "\<not> llc_enabled s" "watched (s, w)" using assms Pair by simp_all
  show ?thesis
    using edge_owner(3) [OF w refl, where k = k and i = i] assms(1)
    by (auto simp: Pair watch_cycle_def watched_def Let_def ic_cycle_sizes, simp_all add: ic_cycle_def split: if_splits)
qed

lemma watch_tick:
  assumes "watched x" "\<not> llc_enabled (fst x)"
  shows "reads_due k i x = direct_tokens (concat (map (ar_taken (ic_before_edge k i (fst x))) both_ports))"
    and "length (reads_due k i x) = length (ars_fired k i (fst x))"
proof -
  have w: "\<not> llc_enabled (fst x)" "watched (fst x, snd x)" using assms by simp_all
  note own = edge_owner(1,2) [OF w refl, where k = k and i = i]
  show "reads_due k i x = direct_tokens (concat (map (ar_taken (ic_before_edge k i (fst x))) both_ports))"
    "length (reads_due k i x) = length (ars_fired k i (fst x))"
    using own(2) by (auto simp: reads_due_def ars_fired_def own(1) List.map_filter_def)
qed

text \<open>The interconnect does not see the watcher.\<close>

lemma watch_fst [simp]: "fst (watch_cycle k i x) = ic_cycle k i (fst x)"
  by (simp add: watch_cycle_def Let_def)

lemma watch_run:
  "fst (run_cycles (watch_cycle k) inputs x) = run_cycles (ic_cycle k) inputs (fst x)"
  "collect (\<lambda>i x. f i (fst x)) (watch_cycle k) inputs x = collect f (ic_cycle k) inputs (fst x)"
  "allowed (\<lambda>i x. g i (fst x)) (watch_cycle k) inputs x = allowed g (ic_cycle k) inputs (fst x)"
  by (induction inputs arbitrary: x) simp_all

definition watched_power_on :: "kit_config \<Rightarrow> llc_config \<Rightarrow> u64 option \<Rightarrow> ic \<times> ar_owners" where
  "watched_power_on k c env_mode = (ic_power_on k c env_mode, \<lambda>_. None)"

interpretation ic_reads: ledger_view "watched_power_on k c e" "watch_cycle k" "\<lambda>i x. \<not> llc_enabled (fst x)"
    watched "\<lambda>x. mset (direct_tokens (r_pending (fst x)))" "reads_due k" "\<lambda>i x. reads_paid k i (fst x)"
  for k c e
proof unfold_locales
  show "watched (watched_power_on k c e)"
    by (auto simp: watched_def watched_power_on_def ic_power_on_sizes Let_def)
      (simp_all add: ic_power_on_def ic_init_def init_port_def clear_ar_latch_def dport_def split: downstream_port.splits)
  show "mset (direct_tokens (r_pending (fst (watched_power_on k c e)))) = {#}"
    by (simp add: watched_power_on_def ic_power_on_def ic_init_def)
next
  fix x i assume "watched x" "\<not> llc_enabled (fst x)"
  then show "mset (reads_paid k i (fst x)) + mset (direct_tokens (r_pending (fst (watch_cycle k i x)))) =
      mset (direct_tokens (r_pending (fst x))) + mset (reads_due k i x)"
    using ic_read_tick [of "fst x" k i] watch_tick(1) [of x k i] by (simp add: watched_def)
qed (rule watched_cycle)

lemma reads_due_count:
  "\<lbrakk>watched x; allowed (\<lambda>i x. \<not> llc_enabled (fst x)) (watch_cycle k) inputs x\<rbrakk>
   \<Longrightarrow> length (collect (reads_due k) (watch_cycle k) inputs x) = length (collect (ars_fired k) (ic_cycle k) inputs (fst x))"
  by (induction inputs arbitrary: x) (simp_all add: watch_tick(2) watched_cycle)

text \<open>C1: every read is answered exactly once. In any run from power-on without the cache, under arbitrary
  behaviour of masters and slaves, the responses the read masters took, together with the reads
  still pending, are, as multisets of master and id, the reads that became due, one for each AR handshake:
  no answer is lost, duplicated, or given to another master or under another id. Whose read an AR
  handshake makes due is read off the wires when the AR appears, from the request the master drives then, and
  remembered by the watcher while the AR waits; the interconnect's own latches and table take no part.\<close>

theorem ic_reads_answered_once:
  assumes "allowed (\<lambda>i s. \<not> llc_enabled s) (ic_cycle k) inputs (ic_power_on k c env_mode)"
  shows "mset (collect (reads_paid k) (ic_cycle k) inputs (ic_power_on k c env_mode)) +
      mset (direct_tokens (r_pending (run_cycles (ic_cycle k) inputs (ic_power_on k c env_mode)))) =
    mset (collect (reads_due k) (watch_cycle k) inputs (watched_power_on k c env_mode)) \<and>
    length (collect (reads_due k) (watch_cycle k) inputs (watched_power_on k c env_mode)) =
    length (collect (ars_fired k) (ic_cycle k) inputs (ic_power_on k c env_mode))"
proof
  let ?x = "watched_power_on k c env_mode"
  have run: "allowed (\<lambda>i x. \<not> llc_enabled (fst x)) (watch_cycle k) inputs ?x"
    using assms watch_run(3) [of "\<lambda>i s. \<not> llc_enabled s"] by (simp add: watched_power_on_def)
  show "mset (collect (reads_paid k) (ic_cycle k) inputs (ic_power_on k c env_mode)) +
      mset (direct_tokens (r_pending (run_cycles (ic_cycle k) inputs (ic_power_on k c env_mode)))) =
    mset (collect (reads_due k) (watch_cycle k) inputs ?x)"
    using ic_reads.paid_once [OF run] by (simp add: watch_run(1,2) watched_power_on_def)
  show "length (collect (reads_due k) (watch_cycle k) inputs ?x) =
      length (collect (ars_fired k) (ic_cycle k) inputs (ic_power_on k c env_mode))"
    using reads_due_count [OF ic_reads.inv_start run] by (simp add: watched_power_on_def)
qed

text \<open>With the cache configured off, every run is one without the cache.\<close>

lemma ic_cycle_config:
  assumes "length (readers s) = NUM_READ_MASTERS"
  shows "cache_config (ic_cycle k i s) = cache_config s"
  using assms comb_inputs_frame(6) [of "ic_requested k i s" k]
  by (simp add: ic_cycle_def ic_seq_def Let_def ic_before_edge_def ic_requested_def [symmetric] ic_frame)

lemma off_allowed:
  assumes "length (readers s) = NUM_READ_MASTERS" "\<not> lc_enable (cache_config s)"
  shows "allowed (\<lambda>i s. \<not> llc_enabled s) (ic_cycle k) inputs s"
  using assms by (induction inputs arbitrary: s) (simp_all add: llc_enabled_def ic_cycle_sizes ic_cycle_config)

theorem ic_reads_answered_once_witness:
  "\<forall>inputs. mset (collect (reads_paid default_kit_config) (ic_cycle default_kit_config) inputs
       (ic_power_on default_kit_config default_llc_config None)) \<subseteq>#
     mset (collect (reads_due default_kit_config) (watch_cycle default_kit_config) inputs
       (watched_power_on default_kit_config default_llc_config None))"
proof
  fix inputs
  have "cache_config (ic_power_on default_kit_config default_llc_config None) = default_llc_config"
    by (simp add: ic_power_on_def ic_init_def ic_constructed_def)
  then have "allowed (\<lambda>i s. \<not> llc_enabled s) (ic_cycle default_kit_config) inputs
      (ic_power_on default_kit_config default_llc_config None)"
    by (intro off_allowed ic_power_on_sizes) (simp add: default_llc_config_def)
  from ic_reads_answered_once [OF this]
  show "mset (collect (reads_paid default_kit_config) (ic_cycle default_kit_config) inputs
       (ic_power_on default_kit_config default_llc_config None)) \<subseteq>#
     mset (collect (reads_due default_kit_config) (watch_cycle default_kit_config) inputs
       (watched_power_on default_kit_config default_llc_config None))"
    by (metis mset_subset_eq_add_left)
qed

end
