(* ===== verification/IC_Lanes.thy ===== *)
theory IC_Lanes
  imports IC_Seq Route_Props LLC_Line_Props
begin

text \<open>
  The bytes of a request on their way through the beats of a burst: the answer to a read holds the
  bytes of the requested addresses as far as the issued burst reaches and zeros past it, and the strobed lanes
  of a write's beats are exactly the strobed bytes of the request inside the burst, at their
  addresses. Requests that do not start on a beat, the widened single-beat requests and the requests of
  the MMIO port included. The burst reaches the end of the request unless one aligned beat or line
  is issued for a request that crosses its end (\<open>request_in_issue\<close>).
\<close>

section \<open>Bytes of a payload\<close>

lemma get_wide_byte_eq:
  "get_wide_byte n d i = (if unat i div 4 < n then get_byte (d ! (unat i div 4)) (unat i mod 4) else 0)"
proof -
  have "unat i mod 4 < 4" by simp
  then show ?thesis by (simp add: get_wide_byte_def get_byte_def Let_def del: mod_less_divisor)
qed

lemma set_wide_byte_eq:
  "set_wide_byte n i v d = (if unat i div 4 < n then d[unat i div 4 := set_byte (d ! (unat i div 4)) (unat i mod 4) v] else d)"
proof -
  have "unat i mod 4 < 4" by simp
  then show ?thesis by (simp add: set_wide_byte_def set_byte_def Let_def del: mod_less_divisor)
qed

lemma set_wide_length [simp]: "length (set_wide_byte n i v d) = length d"
  by (simp add: set_wide_byte_eq)

lemma same_byte: "unat (i :: u32) div 4 = unat j div 4 \<Longrightarrow> unat i mod 4 = unat j mod 4 \<Longrightarrow> i = j"
  by (metis div_mult_mod_eq word_unat_eq_iff)

lemma get_set_wide:
  assumes "length d = n"
  shows "get_wide_byte n (set_wide_byte n i v d) j = (if i = j \<and> unat i div 4 < n then v else get_wide_byte n d j)"
proof -
  have "unat j mod 4 < 4" by simp
  then show ?thesis
    using assms same_byte [of i j] by (auto simp: get_wide_byte_eq set_wide_byte_eq nth_list_update get_set_byte)
qed

lemma fold_set_wide_length [simp]: "length (fold (\<lambda>x. set_wide_byte n (g x) (h x)) xs d) = length d"
  by (induction xs arbitrary: d) simp_all

lemma fold_set_wide:
  assumes "length d = n" "\<And>x. x \<in> set xs \<Longrightarrow> g x = j \<Longrightarrow> x = y"
  shows "get_wide_byte n (fold (\<lambda>x. set_wide_byte n (g x) (h x)) xs d) j =
    (if y \<in> set xs \<and> g y = j \<and> unat j div 4 < n then h y else get_wide_byte n d j)"
  using assms
proof (induction xs arbitrary: d)
  case (Cons x xs)
  have "get_wide_byte n (fold (\<lambda>x. set_wide_byte n (g x) (h x)) xs (set_wide_byte n (g x) (h x) d)) j =
    (if y \<in> set xs \<and> g y = j \<and> unat j div 4 < n then h y else get_wide_byte n (set_wide_byte n (g x) (h x) d) j)"
    using Cons.prems by (intro Cons.IH) auto
  then show ?case using Cons.prems(2) [of x] by (auto simp: get_set_wide Cons.prems(1))
qed simp

text \<open>The byte of index \<open>i\<close>.\<close>

abbreviation read_byte :: "wide_data \<Rightarrow> nat \<Rightarrow> u8" where
  "read_byte d i \<equiv> get_wide_read_byte d (of_nat i)"

lemma unat_of_nat_small: "n < 2 ^ 32 \<Longrightarrow> unat (of_nat n :: u32) = n"
  by (simp add: unat_of_nat)

lemma unat_index: "i < 256 \<Longrightarrow> unat (of_nat i :: u32) = i"
  by (rule unat_of_nat_small) simp

lemma read_byte_eq: "i < 256 \<Longrightarrow> read_byte d i = get_byte (d ! (i div 4)) (i mod 4)"
  by (simp add: get_wide_read_byte_def get_wide_byte_eq unat_index MAX_READ_TRANSACTION_WORDS_def less_mult_imp_div_less)

section \<open>Read beats\<close>

lemma unpack_length [simp]: "length (rt_data (unpack_downstream_read_beat t b)) = length (rt_data t)"
proof -
  have "length (fold (\<lambda>word data. if base + word \<ge> MAX_READ_TRANSACTION_WORDS then data
      else data[base + word := get_u32 b word]) ws d) = length d" for base ws and d :: wide_data
    by (induction ws arbitrary: d) auto
  then show ?thesis by (simp add: unpack_downstream_read_beat_def Let_def)
qed

lemma lane_of_index: "(i div 4 - i div 32 * 8) * 4 + i mod 4 = i mod (32 :: nat)"
proof -
  have "i div 4 div 8 = i div 32" by (simp add: div_mult2_eq [symmetric])
  then have "i div 4 mod 8 = i div 4 - i div 32 * 8" by (metis minus_div_mult_eq_mod)
  then show ?thesis using mod_mult2_eq [of i 4 8] by simp
qed

lemma unpack_byte:
  assumes "length (rt_data t) = 64" "i < 256"
  shows "read_byte (rt_data (unpack_downstream_read_beat t b)) i =
    (if i div 32 = unat (rt_beats_done t) then get_byte b (i mod 32) else read_byte (rt_data t) i)"
proof -
  let ?base = "unat (rt_beats_done t) * 8"
  have flip: "(\<lambda>word data. if 64 \<le> ?base + word then data else data[?base + word := get_u32 b word]) =
      (\<lambda>word data :: wide_data. if \<not> 64 \<le> ?base + word then data[?base + word := get_u32 b word] else data)"
    by (simp add: fun_eq_iff)
  have "rt_data (unpack_downstream_read_beat t b) ! (i div 4) =
      (if ?base \<le> i div 4 \<and> i div 4 < ?base + 8 then get_u32 b (i div 4 - ?base) else rt_data t ! (i div 4))"
    using assms by (auto simp: unpack_downstream_read_beat_def Let_def kDownstreamBeatWords_def kDownstreamBeatBytes_def
        AXI_DATA_BYTES_def MAX_READ_TRANSACTION_WORDS_def flip fold_update_nth)
  moreover have "?base \<le> i div 4 \<and> i div 4 < ?base + 8 \<longleftrightarrow> i div 32 = unat (rt_beats_done t)" by linarith
  moreover have "(i div 4 - ?base) * 4 + i mod 4 = i mod 32" if "i div 32 = unat (rt_beats_done t)"
    using lane_of_index [of i] that by simp
  ultimately show ?thesis
    using assms(2) by (simp add: read_byte_eq get_u32_byte)
qed

text \<open>A transaction is handed beat after beat.\<close>

definition deliver :: "(nat \<Rightarrow> axi_data) \<Rightarrow> nat \<Rightarrow> u32 \<Rightarrow> read_pending_txn \<Rightarrow> read_pending_txn" where
  "deliver beat n seqno = fold (\<lambda>j. take_read_beat (beat j) seqno) [0..<n]"

lemma read_beat_fields:
  "rt_beats_done (take_read_beat b q t) = rt_beats_done t + 1" "rt_total_beats (take_read_beat b q t) = rt_total_beats t"
  "rt_addr (take_read_beat b q t) = rt_addr t" "rt_upstream_addr (take_read_beat b q t) = rt_upstream_addr t"
  "rt_extract (take_read_beat b q t) = rt_extract t" "rt_port (take_read_beat b q t) = rt_port t"
  "rt_axi_id (take_read_beat b q t) = rt_axi_id t"
  "rt_data (take_read_beat b q t) = rt_data (unpack_downstream_read_beat t b)"
  by (simp_all add: take_read_beat_def unpack_downstream_read_beat_def Let_def)

lemma deliver_fields:
  "rt_beats_done (deliver beat n q t) = rt_beats_done t + of_nat n" "rt_total_beats (deliver beat n q t) = rt_total_beats t"
  "rt_addr (deliver beat n q t) = rt_addr t" "rt_upstream_addr (deliver beat n q t) = rt_upstream_addr t"
  "rt_extract (deliver beat n q t) = rt_extract t" "length (rt_data (deliver beat n q t)) = length (rt_data t)"
  by (induction n) (simp_all add: deliver_def read_beat_fields)

lemma deliver_byte:
  assumes "rt_beats_done t = 0" "length (rt_data t) = 64" "n \<le> 8" "i < 256"
  shows "read_byte (rt_data (deliver beat n q t)) i =
    (if i < 32 * n then get_byte (beat (i div 32)) (i mod 32) else read_byte (rt_data t) i)"
  using assms(3)
proof (induction n)
  case 0
  then show ?case by (simp add: deliver_def)
next
  case (Suc n)
  let ?d = "deliver beat n q t"
  have "unat (rt_beats_done ?d) = n"
    using Suc.prems assms(1) by (simp add: deliver_fields unat_of_nat)
  moreover have "read_byte (rt_data (deliver beat (Suc n) q t)) i = read_byte (rt_data (unpack_downstream_read_beat ?d (beat n))) i"
    by (simp add: deliver_def read_beat_fields)
  moreover have "i div 32 = n \<longleftrightarrow> 32 * n \<le> i \<and> i < 32 * Suc n"
    using div_mult_mod_eq [of i 32] mod_less_divisor [of 32 i] by (intro iffI conjI) (simp_all, linarith)
  ultimately show ?case
    using Suc assms(2,4) by (auto simp: unpack_byte deliver_fields)
qed

section \<open>The answer to a read\<close>

definition read_answer :: "read_pending_txn \<Rightarrow> wide_data" where
  "read_answer t = (if rt_extract t then extract_aligned_downstream_read t else rt_data t)"

lemma clear_byte: "get_wide_read_byte read_data_clear i = 0"
  by (simp add: get_wide_read_byte_def get_wide_byte_eq read_data_clear_def)

lemma extract_byte:
  assumes "i < 256"
  shows "read_byte (extract_aligned_downstream_read t) i =
    (if unat (rt_upstream_addr t - rt_addr t) + i < 256
     then read_byte (rt_data t) (unat (rt_upstream_addr t - rt_addr t) + i) else 0)"
proof -
  let ?off = "rt_upstream_addr t - rt_addr t"
  have inj: "x = i" if "x \<in> set [0..<shift_count MAX_READ_TRANSACTION_BYTES ?off]" "of_nat x = (of_nat i :: u32)" for x
  proof -
    have "x < 256" using that(1) by (simp add: shift_count_def MAX_READ_TRANSACTION_BYTES_def)
    then show ?thesis using that(2) assms(1) unat_index by metis
  qed
  have mem: "i \<in> set [0..<shift_count MAX_READ_TRANSACTION_BYTES ?off] \<longleftrightarrow> unat ?off + i < 256"
    by (auto simp: shift_count_def MAX_READ_TRANSACTION_BYTES_def)
  have len: "length read_data_clear = MAX_READ_TRANSACTION_WORDS" by (simp add: read_data_clear_def)
  have small: "unat (of_nat i :: u32) div 4 < MAX_READ_TRANSACTION_WORDS"
    using assms(1) by (simp add: unat_index MAX_READ_TRANSACTION_WORDS_def)
  have "read_byte (extract_aligned_downstream_read t) i =
      (if unat ?off + i < 256 then get_wide_read_byte (rt_data t) (?off + of_nat i) else read_byte read_data_clear i)"
    using fold_set_wide [where xs = "[0..<shift_count MAX_READ_TRANSACTION_BYTES ?off]" and g = of_nat and j = "of_nat i" and h = "\<lambda>x. get_wide_read_byte (rt_data t) (?off + of_nat x)",
        OF len inj] mem small
    by (simp add: extract_aligned_downstream_read_def Let_def set_wide_read_byte_def)
      (simp add: get_wide_read_byte_def)
  then show ?thesis by (simp add: clear_byte)
qed

section \<open>Reads return the requested bytes\<close>

text \<open>The shape of a read issue, for both ports.\<close>

lemma read_issue_fields:
  "ri_addr (make_downstream_read_issue p a z line f) =
     ds_issue_addr (axi_bridge_downstream_read_issue_shape (p = PortMMIO) a z (ucast line) 32 f)"
  "ri_total_size (make_downstream_read_issue p a z line f) =
     ds_issue_size (axi_bridge_downstream_read_issue_shape (p = PortMMIO) a z (ucast line) 32 f)"
  "ri_extract (make_downstream_read_issue p a z line f) =
     ds_extract_from_aligned_beat (axi_bridge_downstream_read_issue_shape (p = PortMMIO) a z (ucast line) 32 f)"
  by (simp_all add: make_downstream_read_issue_def Let_def kDownstreamBeatBytes_def AXI_DATA_BYTES_def)

lemma unextracted_at_address:
  "\<not> ds_extract_from_aligned_beat (axi_bridge_downstream_read_issue_shape m a z l d f) \<Longrightarrow>
   ds_issue_addr (axi_bridge_downstream_read_issue_shape m a z l d f) = a"
  by (simp add: axi_bridge_downstream_read_issue_shape_def Let_def split: if_splits)

lemma ddr_beats:
  "ds_total_beats (axi_bridge_downstream_read_issue_shape False a z l 32 f) =
   calc_burst_len (ds_issue_size (axi_bridge_downstream_read_issue_shape False a z l 32 f)) + 1"
  by (simp add: axi_bridge_downstream_read_issue_shape_def Let_def axi_dual_port_axi_beat_shape_def calc_burst_len_def
      kDownstreamBeatBytes_def AXI_DATA_BYTES_def)

lemma burst_len_bound: "unat (calc_burst_len z + 1) = unat z div 32 + 1"
proof -
  have "unat (ucast z + 1 + 32 - 1 :: u32) = unat z + 32"
    using u8_le_255 [of z] by (simp add: unat_word_ariths unat_ucast_widen)
  then have "unat ((ucast z + 1 + 32 - 1 :: u32) div 32) = unat z div 32 + 1" by (simp add: unat_div)
  moreover define w where "w = (ucast z + 1 + 32 - 1 :: u32) div 32"
  ultimately have w: "unat w = unat z div 32 + 1" by simp
  have le: "unat z div 32 < 8" using u8_le_255 [of z] by simp
  have "w > 0" using w by (simp add: word_less_nat_alt)
  then have "unat (w - 1) = unat z div 32" using w by (simp add: unat_minus_one word_gt_0)
  then have "unat (ucast (w - 1) :: u8) = unat z div 32" using le by (simp add: unsigned_ucast_eq take_bit_nat_eq_self)
  moreover have "calc_burst_len z = ucast (w - 1)"
    using \<open>w > 0\<close> by (simp add: calc_burst_len_def axi_dual_port_axi_len_for_beat_bytes_def kDownstreamBeatBytes_def
        AXI_DATA_BYTES_def Let_def w_def)
  ultimately show ?thesis using le by (simp add: unat_word_ariths)
qed

text \<open>
  The request lies in what is issued for it: in its aligned line under a forced alignment, in its aligned beat
  when it is no longer than one. A longer request is issued at its own address. The code does not check this.
\<close>

definition request_in_issue :: "u32 \<Rightarrow> u8 \<Rightarrow> u8 \<Rightarrow> bool \<Rightarrow> bool" where
  "request_in_issue addr total_size line aligned \<longleftrightarrow>
     (if aligned then unat addr mod unat line + unat total_size < unat line
      else unat total_size \<ge> 32 \<or> unat addr mod 32 + unat total_size < 32)"

text \<open>No burst starts past its request.\<close>

lemma issue_starts_before:
  assumes "(ucast line :: u8) \<noteq> 0"
  shows "unat (ds_issue_addr (axi_bridge_downstream_read_issue_shape m addr z (ucast line) 32 f)) \<le> unat addr"
  using unat_align_down [of 32 addr] unat_align_down [OF assms, of addr]
  by (auto simp: axi_bridge_downstream_read_issue_shape_def axi_bridge_mode2_shape_def Let_def)

text \<open>On both ports the issued burst covers the request that lies in it.\<close>

lemma issue_covers:
  fixes addr line :: u32 and size :: u8
  assumes "downstream_request_supported p size" "(ucast line :: u8) \<noteq> 0" "request_in_issue addr size (ucast line) mode2"
  defines "s \<equiv> axi_bridge_downstream_read_issue_shape (p = PortMMIO) addr size (ucast line) 32 mode2"
  shows "unat (ds_issue_addr s) \<le> unat addr" "unat addr + unat size \<le> unat (ds_issue_addr s) + unat (ds_issue_size s)"
proof -
  have "unat (ds_issue_addr s) \<le> unat addr \<and> unat addr + unat size \<le> unat (ds_issue_addr s) + unat (ds_issue_size s)"
  proof (cases p)
    case PortDDR
    have "mode2 \<Longrightarrow> unat addr mod unat (ucast line :: u8) + unat size < unat (ucast line :: u8)"
      "\<not> mode2 \<Longrightarrow> unat size < unat (32 :: u8) \<Longrightarrow> unat addr mod unat (32 :: u8) + unat size < unat (32 :: u8)"
      using assms(3) by (auto simp: request_in_issue_def)
    from issue_shape_covers_request [OF _ assms(2) this] show ?thesis
      by (simp add: PortDDR s_def Let_def word_le_nat_alt)
  next
    case PortMMIO
    then show ?thesis using assms(1)
      by (simp add: s_def axi_bridge_downstream_read_issue_shape_def Let_def downstream_request_supported_def
          mmio_request_supported_def axi_dual_port_mmio_request_supported_def)
  qed
  then show "unat (ds_issue_addr s) \<le> unat addr"
    "unat addr + unat size \<le> unat (ds_issue_addr s) + unat (ds_issue_size s)" by simp_all
qed

text \<open>C3: a read returns the bytes it asked for, as far as its burst reaches. A request is turned into an
  issue, its transaction entered, and as many beats delivered as were asked for, beat j with the 32
  bytes of the memory from the issued address plus 32 j. Then the transaction is complete and byte i of the
  answer, extracted from the aligned beats where the issue was widened, is the byte at the requested
  address plus i if that address lies in the burst, and 0 otherwise. Every byte of the request lies in the burst
  when the request lies in what is issued for it (\<open>request_in_issue\<close>); a request of at most 32
  bytes that crosses the end of its beat, and a line-aligned one that crosses the end of its line, lose their
  tails.\<close>

theorem ic_read_returns_memory:
  fixes M :: "nat \<Rightarrow> u8" and addr line :: u32 and size :: u8
  assumes t0: "t0 = new_txn axi_id m orig_id (calc_burst_len (ri_total_size iss) + 1) p (ri_addr iss) addr size
      (ri_extract iss) to_llc" "iss = make_downstream_read_issue p addr size line mode2"
    and beats: "\<forall>j b. b < 32 \<longrightarrow> get_byte (beat j) b = M (unat (ri_addr iss) + 32 * j + b)"
    and sizes: "downstream_request_supported p size" "(ucast line :: u8) \<noteq> 0"
    and t: "t = deliver beat (unat (rt_total_beats t0)) seqno t0"
    and reach: "reach = unat (ri_addr iss) + 32 * unat (rt_total_beats t0)"
  shows "rt_beats_done t = rt_total_beats t \<and>
    (\<forall>i\<le>unat size. read_byte (read_answer t) i = (if unat addr + i < reach then M (unat addr + i) else 0)) \<and>
    (request_in_issue addr size (ucast line) mode2 \<longrightarrow> (\<forall>i\<le>unat size. unat addr + i < reach))"
proof (intro conjI impI allI)
  let ?s = "axi_bridge_downstream_read_issue_shape (p = PortMMIO) addr size (ucast line) 32 mode2"
  let ?n = "unat (rt_total_beats t0)"
  have n: "?n = unat (ds_issue_size ?s) div 32 + 1"
    by (simp add: t0 new_txn_def burst_len_bound read_issue_fields)
  then have n8: "?n \<le> 8" using u8_le_255 [of "ds_issue_size ?s"] by simp
  have start: "unat (ds_issue_addr ?s) \<le> unat addr" by (rule issue_starts_before [OF sizes(2)])
  have t0': "rt_beats_done t0 = 0" "length (rt_data t0) = 64" "rt_addr t0 = ds_issue_addr ?s" "rt_upstream_addr t0 = addr"
    "rt_extract t0 = ds_extract_from_aligned_beat ?s" "rt_data t0 = read_data_clear"
    by (simp_all add: t0 new_txn_def read_data_clear_def MAX_READ_TRANSACTION_WORDS_def read_issue_fields)
  have reach': "reach = unat (ds_issue_addr ?s) + 32 * ?n" by (simp add: reach t0(2) read_issue_fields)
  define off where "off = unat addr - unat (ds_issue_addr ?s)"
  have off: "unat addr = unat (ds_issue_addr ?s) + off" using start by (simp add: off_def)
  have data: "read_byte (rt_data t) (off + i) = (if unat addr + i < reach then M (unat addr + i) else 0)" if "off + i < 256" for i
  proof -
    have "get_byte (beat ((off + i) div 32)) ((off + i) mod 32) =
        M (unat (ds_issue_addr ?s) + 32 * ((off + i) div 32) + (off + i) mod 32)"
      using beats by (simp add: t0(2) read_issue_fields)
    moreover have "unat (ds_issue_addr ?s) + 32 * ((off + i) div 32) + (off + i) mod 32 = unat addr + i"
      by (simp add: off add.assoc)
    ultimately show ?thesis
      using deliver_byte [OF t0'(1,2) n8 that] by (simp add: t t0'(6) clear_byte reach' off)
  qed
  show "rt_beats_done t = rt_total_beats t" by (simp add: t deliver_fields t0'(1))
  fix i assume "i \<le> unat size"
  then have i: "i < 256" using u8_le_255 [of size] by simp
  show "read_byte (read_answer t) i = (if unat addr + i < reach then M (unat addr + i) else 0)"
  proof (cases "rt_extract t")
    case True
    have "unat (rt_upstream_addr t - rt_addr t) = off"
      using start by (simp add: t deliver_fields t0' off_def unat_sub word_le_nat_alt)
    moreover have "\<not> unat addr + i < reach" if "\<not> off + i < 256"
      using that n8 by (simp add: reach' off)
    ultimately show ?thesis using True data by (simp add: read_answer_def extract_byte [OF i])
  next
    case False
    then have "off = 0" using unextracted_at_address by (simp add: t deliver_fields t0' off_def)
    then show ?thesis using False data [of i] i by (simp add: read_answer_def)
  qed
next
  fix i assume inside: "request_in_issue addr size (ucast line) mode2" and i: "i \<le> unat size"
  let ?s = "axi_bridge_downstream_read_issue_shape (p = PortMMIO) addr size (ucast line) 32 mode2"
  have "unat addr + i \<le> unat (ds_issue_addr ?s) + unat (ds_issue_size ?s)"
    using issue_covers(2) [OF sizes inside] i by simp
  then show "unat addr + i < reach"
    by (simp add: reach t0 new_txn_def burst_len_bound read_issue_fields)
qed

text \<open>Eight bytes at 0x80000024 are fetched as one aligned beat; the first of them is the beat's byte 4.\<close>

theorem ic_read_returns_memory_witness:
  "let iss = make_downstream_read_issue PortDDR 0x80000024 7 64 False;
       t0 = new_txn 3 1 9 (calc_burst_len (ri_total_size iss) + 1) PortDDR (ri_addr iss) 0x80000024 7 (ri_extract iss) False
   in read_byte (read_answer (deliver (\<lambda>j. if j = 0 then set_byte 0 4 5 else 0) (unat (rt_total_beats t0)) 0 t0)) 0 = 5"
proof -
  let ?iss = "make_downstream_read_issue PortDDR 0x80000024 7 64 False"
  let ?t0 = "new_txn 3 1 9 (calc_burst_len (ri_total_size ?iss) + 1) PortDDR (ri_addr ?iss) 0x80000024 7 (ri_extract ?iss) False"
  have addr: "unat (ri_addr ?iss) = 0x80000020"
    by (simp add: read_issue_fields axi_bridge_downstream_read_issue_shape_def axi_bridge_align_down_addr_def Let_def word_le_nat_alt)
  let ?M = "\<lambda>a :: nat. if a = 0x80000024 then 5 else 0 :: u8"
  have beat: "\<forall>j b. b < 32 \<longrightarrow> get_byte (if j = 0 then set_byte (0 :: axi_data) 4 5 else 0) b =
      ?M (unat (ri_addr ?iss) + 32 * j + b)"
  proof (intro allI impI)
    fix j b :: nat assume "b < 32"
    moreover have "0x80000020 + 32 * j + b = 0x80000024 \<longleftrightarrow> 32 * j + b = (4 :: nat)" by linarith
    moreover have "32 * j + b = 4 \<longleftrightarrow> j = 0 \<and> b = 4" by (cases j) simp_all
    ultimately show "get_byte (if j = 0 then set_byte (0 :: axi_data) 4 5 else 0) b = ?M (unat (ri_addr ?iss) + 32 * j + b)"
      unfolding addr by (simp add: get_set_byte)
  qed
  have sizes: "downstream_request_supported PortDDR 7" "(ucast (64 :: u32) :: u8) \<noteq> 0"
    "request_in_issue 0x80000024 7 (ucast (64 :: u32)) False"
    by (simp_all add: downstream_request_supported_def request_in_issue_def)
  have "(0 :: nat) \<le> unat (7 :: u8)" by simp
  note bytes = ic_read_returns_memory [OF refl refl beat sizes(1,2) refl refl, THEN conjunct2]
  have inside: "unat (0x80000024 :: u32) + 0 < unat (ri_addr ?iss) + 32 * unat (rt_total_beats ?t0)"
    using conjunct2 [OF bytes, THEN mp, OF sizes(3), THEN spec, of 0, THEN mp, OF \<open>0 \<le> unat (7 :: u8)\<close>] .
  have "read_byte (read_answer (deliver (\<lambda>j. if j = 0 then set_byte 0 4 5 else 0) (unat (rt_total_beats ?t0)) 0 ?t0)) 0 =
      ?M (unat (0x80000024 :: u32) + 0)"
    using conjunct1 [OF bytes, THEN spec, of 0, THEN mp, OF \<open>0 \<le> unat (7 :: u8)\<close>] by (simp only: inside if_True)
  then show ?thesis by (simp add: Let_def)
qed

section \<open>Write beats\<close>

lemma pack_beat_byte:
  assumes "b < 32" "32 * unat j + b < 2 ^ 32"
  shows "get_byte (pack_downstream_write_beat k d j) b = get_wide_write_byte k d (of_nat (32 * unat j + b))"
proof -
  let ?base = "unat j * 8"
  let ?f = "\<lambda>word v. if ?base + word \<ge> MAX_WRITE_TRANSACTION_WORDS k then v else set_u32 v word (d ! (?base + word))"
  have fold: "get_byte (fold ?f [0..<n] 0 :: axi_data) b =
      (if b div 4 < n \<and> ?base + b div 4 < MAX_WRITE_TRANSACTION_WORDS k then get_byte (d ! (?base + b div 4)) (b mod 4) else 0)"
    if "n \<le> 8" for n
    using that
  proof (induction n)
    case (Suc n)
    have "n * 4 \<le> b \<and> b < n * 4 + 4 \<longleftrightarrow> b div 4 = n" by linarith
    moreover have "b div 4 = n \<Longrightarrow> b - n * 4 = b mod 4" by (metis minus_div_mult_eq_mod)
    ultimately show ?case using Suc assms(1) by (auto simp: set_u32_byte)
  qed simp
  have idx: "unat (of_nat (32 * unat j + b) :: u32) = 32 * unat j + b" by (rule unat_of_nat_small [OF assms(2)])
  have q: "(32 * unat j + b) div 4 = ?base + b div 4" "(32 * unat j + b) mod 4 = b mod 4" by presburger+
  have "b div 4 < 8" using assms(1) by linarith
  with fold [of 8] show ?thesis
    by (simp add: pack_downstream_write_beat_def Let_def kDownstreamBeatWords_def kDownstreamBeatBytes_def AXI_DATA_BYTES_def
        get_wide_write_byte_def get_wide_byte_eq idx q del: of_nat_add)
qed

lemma bit_set_bit:
  "i < LENGTH('a) \<Longrightarrow> 8 dvd LENGTH('a) \<Longrightarrow> bit (Compat.set_bit (w :: 'a::len word) i True) j = (bit w j \<or> i = j)"
proof -
  assume i: "i < LENGTH('a)" "8 dvd LENGTH('a)"
  then have len: "i div 8 < LENGTH('a) div 8" by (metis less_mult_imp_div_less dvd_div_mult_self)
  have one: "bit (2 ^ (i mod 8) :: u8) n \<longleftrightarrow> n = i mod 8" for n
    by (auto simp: bit_exp_iff)
  show ?thesis
  proof (cases "8 * (i div 8) \<le> j \<and> j < 8 * (i div 8) + 8")
    case True
    then have "j - 8 * (i div 8) = i mod 8 \<longleftrightarrow> i = j" by (metis add_diff_cancel_left' div_mult_mod_eq le_add_diff_inverse mult.commute)
    with True len show ?thesis by (auto simp: Compat.set_bit_def Let_def kit_bytes bit_or_iff one)
  next
    case False
    moreover from this have "i \<noteq> j" by presburger
    ultimately show ?thesis by (auto simp: Compat.set_bit_def Let_def kit_bytes)
  qed
qed

lemma pack_strobe_bit:
  assumes "b < 32"
  shows "bit (pack_downstream_write_strobe k st j) b = strb_test k st (of_nat (32 * unat j + b))"
proof -
  have "bit (fold (\<lambda>byte msk. if strb_test k st (of_nat (unat j * 32 + byte)) then Compat.set_bit msk byte True else msk)
      [0..<n] (0 :: axi_strb)) b = (b < n \<and> strb_test k st (of_nat (unat j * 32 + b)))" if "n \<le> 32" for n
    using that assms by (induction n) (auto simp: bit_set_bit less_Suc_eq)
  from this [of 32] assms show ?thesis
    by (simp add: pack_downstream_write_strobe_def Let_def kDownstreamBeatBytes_def AXI_DATA_BYTES_def mult.commute)
qed

section \<open>Shifted payloads\<close>

lemma strb_set_length [simp]: "length (strb_set k i e s) = length s"
  by (simp add: strb_set_def)

lemma align_data_byte:
  assumes "j < MAX_WRITE_TRANSACTION_BYTES k" "MAX_WRITE_TRANSACTION_BYTES k < 2 ^ 31" "4 dvd MAX_WRITE_TRANSACTION_BYTES k"
  shows "get_wide_write_byte k (align_mode2_downstream_write_data k d addr iaddr) (of_nat j) =
    (if unat (addr - iaddr) \<le> j then get_wide_write_byte k d (of_nat (j - unat (addr - iaddr))) else 0)"
proof -
  let ?off = "addr - iaddr" and ?n = "MAX_WRITE_TRANSACTION_BYTES k"
  let ?xs = "[0..<shift_count ?n ?off]"
  have g: "unat (of_nat x + ?off) = x + unat ?off" if "x \<in> set ?xs" for x
  proof -
    have "x + unat ?off < ?n" using that by (auto simp: shift_count_def)
    then show ?thesis using assms(2) by (simp add: unat_word_ariths unat_of_nat)
  qed
  have j: "unat (of_nat j :: u32) = j" using assms(1,2) by (intro unat_of_nat_small) simp
  have inj: "x = j - unat ?off" if "x \<in> set ?xs" "of_nat x + ?off = of_nat j" for x
    using g [OF that(1)] that(2) j by simp
  have len: "length (write_data_clear k) = MAX_WRITE_TRANSACTION_WORDS k" by (simp add: write_data_clear_def)
  have clear: "get_wide_byte (MAX_WRITE_TRANSACTION_WORDS k) (write_data_clear k) (of_nat j) = 0"
    by (simp add: get_wide_byte_eq write_data_clear_def)
  have small: "j div 4 < MAX_WRITE_TRANSACTION_WORDS k"
    using assms(1,3) by (auto simp: MAX_WRITE_TRANSACTION_WORDS_def less_mult_imp_div_less)
  have mem: "j - unat ?off \<in> set ?xs \<and> of_nat (j - unat ?off) + ?off = of_nat j \<longleftrightarrow> unat ?off \<le> j"
  proof
    assume "j - unat ?off \<in> set ?xs \<and> of_nat (j - unat ?off) + ?off = of_nat j"
    then show "unat ?off \<le> j" using g [of "j - unat ?off"] j by simp
  next
    assume "unat ?off \<le> j"
    then have "j - unat ?off \<in> set ?xs" using assms(1) by (auto simp: shift_count_def)
    moreover from g [OF this] \<open>unat ?off \<le> j\<close> have "unat (of_nat (j - unat ?off) + ?off) = unat (of_nat j :: u32)"
      by (simp add: j)
    ultimately show "j - unat ?off \<in> set ?xs \<and> of_nat (j - unat ?off) + ?off = of_nat j"
      unfolding word_unat_eq_iff by blast
  qed
  show ?thesis
    using fold_set_wide [where xs = ?xs and g = "\<lambda>x. of_nat x + ?off" and j = "of_nat j" and
        h = "\<lambda>x. get_wide_write_byte k d (of_nat x)", OF len inj] mem small
    by (simp add: align_mode2_downstream_write_data_def Let_def set_wide_write_byte_def j clear)
      (simp add: get_wide_write_byte_def clear)
qed

lemma align_strobe_bit:
  assumes "j < MAX_WRITE_TRANSACTION_BYTES k" "MAX_WRITE_TRANSACTION_BYTES k < 2 ^ 31"
  shows "strb_test k (align_mode2_downstream_write_strobe k st addr iaddr) (of_nat j) \<longleftrightarrow>
    unat (addr - iaddr) \<le> j \<and> strb_test k st (of_nat (j - unat (addr - iaddr)))"
proof -
  let ?off = "addr - iaddr" and ?n = "MAX_WRITE_TRANSACTION_BYTES k"
  have j: "unat (of_nat j :: u32) = j" using assms by (intro unat_of_nat_small) simp
  have "strb_test k (fold (\<lambda>byte out. if strb_test k st (of_nat byte) then strb_set k (of_nat byte + ?off) True out else out)
      [0..<m] (strb_clear k)) (of_nat j) \<longleftrightarrow> unat ?off \<le> j \<and> j - unat ?off < m \<and> strb_test k st (of_nat (j - unat ?off))"
    if "m \<le> shift_count ?n ?off" for m
    using that
  proof (induction m)
    case 0
    then show ?case using assms(1) by (simp add: strb_test_def strb_clear_def j)
  next
    case (Suc m)
    let ?f = "fold (\<lambda>byte out. if strb_test k st (of_nat byte) then strb_set k (of_nat byte + ?off) True out else out)
      [0..<m] (strb_clear k)"
    have len: "length ?f = ?n"
    proof -
      have "length (fold (\<lambda>byte out. if strb_test k st (of_nat byte) then strb_set k (of_nat byte + ?off) True out else out)
          xs s) = length s" for xs s
        by (induction xs arbitrary: s) simp_all
      then show ?thesis by (simp add: strb_clear_def)
    qed
    have "m + unat ?off < ?n" using Suc.prems by (auto simp: shift_count_def)
    then have at: "unat (of_nat m + ?off) = m + unat ?off" using assms(2) by (simp add: unat_word_ariths unat_of_nat)
    have "strb_test k (strb_set k (of_nat m + ?off) True ?f) (of_nat j) \<longleftrightarrow> j = m + unat ?off \<or> strb_test k ?f (of_nat j)"
      using \<open>m + unat ?off < ?n\<close> assms(1) len by (auto simp: strb_test_def strb_set_def at j nth_list_update)
    then show ?case using Suc by (auto simp: less_Suc_eq)
  qed
  from this [OF order_refl] show ?thesis
    using assms(1) by (auto simp: align_mode2_downstream_write_strobe_def Let_def shift_count_def)
qed

section \<open>Writes carry the requested bytes\<close>

lemma write_issue_fields:
  "wi_addr (make_downstream_write_issue k p a z d st line f) =
     ds_issue_addr (axi_bridge_downstream_read_issue_shape (p = PortMMIO) a z (ucast line) 32 f)"
  "wi_total_size (make_downstream_write_issue k p a z d st line f) =
     ds_issue_size (axi_bridge_downstream_read_issue_shape (p = PortMMIO) a z (ucast line) 32 f)"
  by (simp_all add: make_downstream_write_issue_def axi_bridge_downstream_write_issue_shape_def Let_def
      kDownstreamBeatBytes_def AXI_DATA_BYTES_def)

text \<open>The shift of the payload is the distance of the request from the issued address.\<close>

lemma write_issue_payload:
  fixes line addr :: u32 and size :: u8
  assumes k: "MAX_WRITE_TRANSACTION_BYTES k < 2 ^ 31" "4 dvd MAX_WRITE_TRANSACTION_BYTES k"
    and iss: "iss = make_downstream_write_issue k p addr size d st line f"
    and j: "j < MAX_WRITE_TRANSACTION_BYTES k"
  shows "get_wide_write_byte k (wi_wdata iss) (of_nat j) =
      (if unat (addr - wi_addr iss) \<le> j then get_wide_write_byte k d (of_nat (j - unat (addr - wi_addr iss))) else 0)"
    and "strb_test k (wi_wstrb iss) (of_nat j) \<longleftrightarrow>
      unat (addr - wi_addr iss) \<le> j \<and> strb_test k st (of_nat (j - unat (addr - wi_addr iss)))"
proof -
  let ?shift = "p \<noteq> PortMMIO \<and> (f \<or> unat size + 1 \<le> kDownstreamBeatBytes)"
  have w: "wi_wdata iss = (if ?shift then align_mode2_downstream_write_data k d addr (wi_addr iss) else d)"
    "wi_wstrb iss = (if ?shift then align_mode2_downstream_write_strobe k st addr (wi_addr iss) else st)"
    by (simp_all add: iss make_downstream_write_issue_def Let_def)
  have flat: "wi_addr iss = addr" if "\<not> ?shift"
  proof -
    have "unat (ucast size + 1 :: u16) = unat size + 1"
      using u8_le_255 [of size] by (simp add: unat_word_ariths unat_ucast_widen)
    then show ?thesis using that
      by (auto simp: iss write_issue_fields axi_bridge_downstream_read_issue_shape_def Let_def word_le_nat_alt
          kDownstreamBeatBytes_def AXI_DATA_BYTES_def unat_ucast_widen)
  qed
  show "get_wide_write_byte k (wi_wdata iss) (of_nat j) =
      (if unat (addr - wi_addr iss) \<le> j then get_wide_write_byte k d (of_nat (j - unat (addr - wi_addr iss))) else 0)"
    using align_data_byte [OF j k] flat by (simp add: w(1))
  show "strb_test k (wi_wstrb iss) (of_nat j) \<longleftrightarrow>
      unat (addr - wi_addr iss) \<le> j \<and> strb_test k st (of_nat (j - unat (addr - wi_addr iss)))"
    using align_strobe_bit [OF j k(1)] flat by (simp add: w(2))
qed

text \<open>C4: the beats of a write carry exactly the bytes of the request that its burst reaches. A strobed byte i
  of the request is strobed in some beat, in the lane of the requested address plus i, exactly when that
  address lies in the burst; and every strobed lane of a beat is that of a strobed byte of the
  request and holds its value. So the alignment to the issued address neither invents nor displaces a byte, and
  loses one only past the end of the burst, which cannot happen when the request lies in what is
  issued for it (\<open>request_in_issue\<close>): only a request of at most 32 bytes that crosses the end of its beat, and a
  line-aligned one that crosses the end of its line, lose their tails. The payload buffer is assumed to
  hold the beats of the burst.\<close>

theorem ic_write_carries_bytes:
  fixes addr line :: u32 and size :: u8
  assumes k: "MAX_WRITE_TRANSACTION_BYTES k < 2 ^ 31" "4 dvd MAX_WRITE_TRANSACTION_BYTES k"
    and iss: "iss = make_downstream_write_issue k p addr size d st line mode2"
    and sizes: "downstream_request_supported p size" "(ucast line :: u8) \<noteq> 0"
    and beats: "n = unat (calc_burst_len (wi_total_size iss) + 1)"
    and fits: "32 * n \<le> MAX_WRITE_TRANSACTION_BYTES k"
  shows "(\<forall>i\<le>unat size. strb_test k st (of_nat i) \<longrightarrow>
      ((\<exists>j<n. \<exists>b<32. unat (wi_addr iss) + 32 * j + b = unat addr + i \<and>
         bit (pack_downstream_write_strobe k (wi_wstrb iss) (of_nat j)) b) \<longleftrightarrow>
       unat addr + i < unat (wi_addr iss) + 32 * n)) \<and>
    (\<forall>j<n. \<forall>b<32. bit (pack_downstream_write_strobe k (wi_wstrb iss) (of_nat j)) b \<longrightarrow>
      (\<exists>i. unat (wi_addr iss) + 32 * j + b = unat addr + i \<and> strb_test k st (of_nat i) \<and>
         get_byte (pack_downstream_write_beat k (wi_wdata iss) (of_nat j)) b = get_wide_write_byte k d (of_nat i))) \<and>
    (request_in_issue addr size (ucast line) mode2 \<longrightarrow>
      (\<forall>i\<le>unat size. unat addr + i < unat (wi_addr iss) + 32 * n))"
proof -
  note fold = write_issue_fields(1) [of k p addr size d st line mode2] write_issue_fields(2) [of k p addr size d st line mode2]
  note start = issue_starts_before [OF sizes(2), where m = "p = PortMMIO" and addr = addr and z = size and f = mode2, folded fold, folded iss]
  note cover = issue_covers [OF sizes, of addr mode2, folded fold, folded iss]
  define off where "off = unat addr - unat (wi_addr iss)"
  have addr: "unat addr = unat (wi_addr iss) + off" using start by (simp add: off_def)
  have off: "unat (addr - wi_addr iss) = off" using start by (simp add: off_def unat_sub word_le_nat_alt)
  have n: "n = unat (wi_total_size iss) div 32 + 1" by (simp add: beats burst_len_bound)
  then have n8: "n \<le> 8" using u8_le_255 [of "wi_total_size iss"] by simp
  have j: "unat (of_nat j :: u8) = j" if "j < n" for j using that n8 by (simp add: unat_of_nat)
  have strobe: "bit (pack_downstream_write_strobe k (wi_wstrb iss) (of_nat j)) b \<longleftrightarrow>
      32 * j + b < MAX_WRITE_TRANSACTION_BYTES k \<and> off \<le> 32 * j + b \<and> strb_test k st (of_nat (32 * j + b - off))"
    if "j < n" "b < 32" for j b
  proof -
    have small: "unat (of_nat (32 * j + b) :: u32) = 32 * j + b" using that n8 by (intro unat_of_nat_small) simp
    have "bit (pack_downstream_write_strobe k (wi_wstrb iss) (of_nat j)) b = strb_test k (wi_wstrb iss) (of_nat (32 * j + b))"
      using that by (simp add: pack_strobe_bit j)
    also have "\<dots> \<longleftrightarrow> 32 * j + b < MAX_WRITE_TRANSACTION_BYTES k \<and> strb_test k (wi_wstrb iss) (of_nat (32 * j + b))"
      unfolding strb_test_def small by blast
    finally show ?thesis using write_issue_payload(2) [OF k iss, of "32 * j + b"] by (auto simp: off simp del: of_nat_add)
  qed
  have "\<exists>j<n. \<exists>b<32. unat (wi_addr iss) + 32 * j + b = unat addr + i \<and>
      bit (pack_downstream_write_strobe k (wi_wstrb iss) (of_nat j)) b"
    if i: "strb_test k st (of_nat i)" "unat addr + i < unat (wi_addr iss) + 32 * n" for i
  proof (intro exI conjI)
    have le: "off + i < 32 * n" using i(2) addr by simp
    then show lt: "(off + i) div 32 < n" by (simp add: less_mult_imp_div_less mult.commute)
    show "(off + i) mod 32 < 32" by simp
    show "unat (wi_addr iss) + 32 * ((off + i) div 32) + (off + i) mod 32 = unat addr + i" by (simp add: addr add.assoc)
    show "bit (pack_downstream_write_strobe k (wi_wstrb iss) (of_nat ((off + i) div 32))) ((off + i) mod 32)"
      using strobe [OF lt] fits le i(1) by simp
  qed
  moreover have "unat addr + i < unat (wi_addr iss) + 32 * n" if "request_in_issue addr size (ucast line) mode2" "i \<le> unat size" for i
    using cover [OF that(1)] that(2) by (simp add: n)
  moreover have "unat addr + i < unat (wi_addr iss) + 32 * n"
    if "\<exists>j<n. \<exists>b<32. unat (wi_addr iss) + 32 * j + b = unat addr + i \<and>
      bit (pack_downstream_write_strobe k (wi_wstrb iss) (of_nat j)) b" for i
    using that by (elim exE conjE) linarith
  moreover have "\<exists>i. unat (wi_addr iss) + 32 * j + b = unat addr + i \<and> strb_test k st (of_nat i) \<and>
      get_byte (pack_downstream_write_beat k (wi_wdata iss) (of_nat j)) b = get_wide_write_byte k d (of_nat i)"
    if jb: "j < n" "b < 32" "bit (pack_downstream_write_strobe k (wi_wstrb iss) (of_nat j)) b" for j b
  proof (intro exI conjI)
    from strobe [OF jb(1,2)] jb(3) have at: "32 * j + b < MAX_WRITE_TRANSACTION_BYTES k" "off \<le> 32 * j + b"
      "strb_test k st (of_nat (32 * j + b - off))" by blast+
    show "strb_test k st (of_nat (32 * j + b - off))" by (rule at(3))
    show "unat (wi_addr iss) + 32 * j + b = unat addr + (32 * j + b - off)" using at(2) by (simp add: addr)
    have "get_byte (pack_downstream_write_beat k (wi_wdata iss) (of_nat j)) b =
        get_wide_write_byte k (wi_wdata iss) (of_nat (32 * j + b))"
      using jb(1,2) n8 by (simp add: pack_beat_byte j)
    then show "get_byte (pack_downstream_write_beat k (wi_wdata iss) (of_nat j)) b =
        get_wide_write_byte k d (of_nat (32 * j + b - off))"
      using write_issue_payload(1) [OF k iss at(1)] at(2) by (simp add: off)
  qed
  ultimately show ?thesis by blast
qed

text \<open>The last of four bytes written at 0x80000024 is strobed in the one aligned beat issued for them.\<close>

theorem ic_write_carries_bytes_witness:
  "\<exists>j<1. \<exists>b<32. unat (0x80000020 :: u32) + 32 * j + b = unat (0x80000024 :: u32) + 3 \<and>
     bit (pack_downstream_write_strobe default_kit_config (wi_wstrb (make_downstream_write_issue default_kit_config
       PortDDR 0x80000024 3 (replicate 16 0x11) (replicate 64 1) 64 False)) (of_nat j)) b"
proof -
  let ?iss = "make_downstream_write_issue default_kit_config PortDDR 0x80000024 3 (replicate 16 0x11) (replicate 64 1) 64 False"
  have fields: "wi_addr ?iss = 0x80000020" "wi_total_size ?iss = 31"
    by (simp_all add: write_issue_fields axi_bridge_downstream_read_issue_shape_def axi_bridge_align_down_addr_def Let_def
        word_le_nat_alt)
  have k: "MAX_WRITE_TRANSACTION_BYTES default_kit_config = 64" by (simp add: default_kit_config_def)
  have st: "strb_test default_kit_config (replicate 64 1) (of_nat 3)" by (simp add: strb_test_def k)
  have n: "1 = unat (calc_burst_len (wi_total_size ?iss) + 1)" by (simp add: fields burst_len_bound)
  have sizes: "downstream_request_supported PortDDR 3" "(ucast (64 :: u32) :: u8) \<noteq> 0"
    by (simp_all add: downstream_request_supported_def)
  have "(3 :: nat) \<le> unat (3 :: u8)" "unat (0x80000024 :: u32) + 3 < unat (0x80000020 :: u32) + 32 * 1" by simp_all
  with st ic_write_carries_bytes [OF _ _ refl sizes n, unfolded k fields(1), THEN conjunct1] show ?thesis
    by fastforce
qed

end
