(* ===== verification/IC_Read_Ids.thy ===== *)
theory IC_Read_Ids
  imports IC_Read_Ledger IC_Lanes
begin

text \<open>
  The table of pending reads is well formed in every run, in all modes: the AXI ids in use on a port,
  of the pending transactions and of the latched request, differ, so an R beat belongs to one
  transaction at most; and every entry has a whole payload, a burst of at most eight beats that
  is not exceeded, and a read master.
\<close>

section \<open>Well-formed entries\<close>

definition read_txn_ok :: "kit_config \<Rightarrow> read_pending_txn \<Rightarrow> bool" where
  "read_txn_ok k t \<longleftrightarrow> length (rt_data t) = MAX_READ_TRANSACTION_WORDS \<and> rt_beats_done t \<le> rt_total_beats t \<and>
     0 < rt_total_beats t \<and> rt_total_beats t \<le> 8 \<and> unat (rt_master t) < NUM_READ_MASTERS \<and>
     unat (rt_axi_id t) < 2 ^ AXI_ID_WIDTH k"

definition ar_latch_ok :: "kit_config \<Rightarrow> downstream_port \<Rightarrow> ar_latch \<Rightarrow> bool" where
  "ar_latch_ok k p l \<longleftrightarrow> (al_valid l \<longrightarrow> al_port l = p \<and> al_len l < 8 \<and> unat (al_master l) < NUM_READ_MASTERS \<and>
     unat (al_id l) < 2 ^ AXI_ID_WIDTH k)"

definition ids_of :: "downstream_port \<Rightarrow> read_pending_txn list \<Rightarrow> u8 list" where
  "ids_of p q = map rt_axi_id (filter (\<lambda>t. rt_port t = p) q)"

definition latched_id :: "ar_latch \<Rightarrow> u8 list" where
  "latched_id l = (if al_valid l then [al_id l] else [])"

definition reads_ok :: "kit_config \<Rightarrow> read_pending_txn list \<Rightarrow> (downstream_port \<Rightarrow> ar_latch) \<Rightarrow> bool" where
  "reads_ok k q L \<longleftrightarrow> (\<forall>t\<in>set q. read_txn_ok k t) \<and> (\<forall>p. ar_latch_ok k p (L p) \<and> distinct (latched_id (L p) @ ids_of p q))"

abbreviation ic_reads_ok :: "kit_config \<Rightarrow> ic \<Rightarrow> bool" where
  "ic_reads_ok k s \<equiv> reads_ok k (r_pending s) (\<lambda>p. latch_ar p s)"

lemma ids_of_simps [simp]:
  "ids_of p [] = []" "ids_of p (t # q) = (if rt_port t = p then [rt_axi_id t] else []) @ ids_of p q"
  "ids_of p (a @ b) = ids_of p a @ ids_of p b"
  by (simp_all add: ids_of_def)

text \<open>Changes of the table that keep it well formed.\<close>

lemma ids_of_map: "(\<And>t. rt_port (f t) = rt_port t \<and> rt_axi_id (f t) = rt_axi_id t) \<Longrightarrow> ids_of p (map f q) = ids_of p q"
  by (induction q) simp_all

lemma ids_of_update:
  "rt_port t = rt_port (q ! i) \<Longrightarrow> rt_axi_id t = rt_axi_id (q ! i) \<Longrightarrow> ids_of p (q[i := t]) = ids_of p q"
  by (induction q arbitrary: i) (auto split: nat.split)

lemma erase_first_ids: "set (ids_of p (erase_first P q)) \<subseteq> set (ids_of p q)"
  "distinct (ids_of p q) \<Longrightarrow> distinct (ids_of p (erase_first P q))"
proof -
  show sub: "set (ids_of p (erase_first P q)) \<subseteq> set (ids_of p q)" for q
    by (induction q) auto
  show "distinct (ids_of p q) \<Longrightarrow> distinct (ids_of p (erase_first P q))"
    using sub by (induction q) fastforce+
qed

lemma erase_first_subset: "x \<in> set (erase_first P q) \<Longrightarrow> x \<in> set q"
  by (induction q) (auto split: if_splits)

lemma reads_ok_erase: "reads_ok k q L \<Longrightarrow> reads_ok k (erase_first P q) L"
proof -
  assume ok: "reads_ok k q L"
  have "distinct (latched_id (L p) @ ids_of p (erase_first P q))" for p
    using ok erase_first_ids [where p = p and P = P and q = q] by (auto simp: reads_ok_def)
  moreover have "read_txn_ok k t" if "t \<in> set (erase_first P q)" for t
    using ok erase_first_subset [OF that] by (simp add: reads_ok_def)
  ultimately show ?thesis using ok by (simp add: reads_ok_def)
qed

lemma reads_ok_map:
  "reads_ok k q L \<Longrightarrow> (\<And>t. rt_port (f t) = rt_port t \<and> rt_axi_id (f t) = rt_axi_id t) \<Longrightarrow>
   (\<And>t. read_txn_ok k t \<Longrightarrow> read_txn_ok k (f t)) \<Longrightarrow> reads_ok k (map f q) L"
  by (simp add: reads_ok_def ids_of_map)

lemma reads_ok_update:
  assumes "reads_ok k q L" "rt_port t = rt_port (q ! i)" "rt_axi_id t = rt_axi_id (q ! i)" "i < length q \<Longrightarrow> read_txn_ok k t"
  shows "reads_ok k (q[i := t]) L"
proof (cases "i < length q")
  case True
  then show ?thesis using assms by (auto simp: reads_ok_def ids_of_update dest!: subsetD [OF set_update_subset_insert])
qed (simp add: assms(1) list_update_beyond)

section \<open>The steps of the edge\<close>

lemma take_beat_ok:
  assumes "read_txn_ok k t" "rt_beats_done t < rt_total_beats t"
  shows "read_txn_ok k (take_read_beat b n t)"
proof -
  have "rt_beats_done t + 1 \<le> rt_total_beats t" using assms(2) by (rule inc_le)
  then show ?thesis
    using assms(1) by (simp add: read_txn_ok_def take_read_beat_def Let_def) (simp add: unpack_downstream_read_beat_def Let_def)
qed

lemma watch_ok: "read_txn_ok k t \<Longrightarrow> read_txn_ok k (watch_progress t)"
  by (auto simp: read_txn_ok_def watch_progress_def)

lemma r_handshake_ok:
  assumes "reads_ok k (r_pending s) L"
  shows "reads_ok k (r_pending (handle_r_handshake k p s)) L"
proof -
  have "reads_ok k ((r_pending s)[i := take_read_beat b n (r_pending s ! i)]) L"
    if "first_below (length (r_pending s)) (\<lambda>i. rt_port (r_pending s ! i) = p \<and> rt_axi_id (r_pending s ! i) = a \<and>
        rt_beats_done (r_pending s ! i) < rt_total_beats (r_pending s ! i)) = Some i" for i b n a
    using first_below_Some [OF that] assms
    by (intro reads_ok_update) (auto simp: read_beat_fields reads_ok_def intro: take_beat_ok)
  then show ?thesis using assms by (simp add: handle_r_handshake_def Let_def split: option.split)
qed

lemma retire_direct_ok: "reads_ok k (r_pending s) L \<Longrightarrow> reads_ok k (r_pending (retire_direct_read m s)) L"
  by (simp add: retire_direct_read_def Let_def reads_ok_erase)

lemma retire_llc_ok: "reads_ok k (r_pending s) L \<Longrightarrow> reads_ok k (r_pending (retire_llc_read b s)) L"
  by (simp add: retire_llc_read_def Let_def reads_ok_erase)

text \<open>A new request on the wires of a port, and the AR step.\<close>

definition new_ar_ok :: "kit_config \<Rightarrow> downstream_port \<Rightarrow> read_pending_txn list \<Rightarrow> ar_latch \<Rightarrow> axi4_ar \<Rightarrow> ar_issue_meta \<Rightarrow> bool" where
  "new_ar_ok k p q l ar m \<longleftrightarrow> (arvalid ar \<and> \<not> al_valid l \<longrightarrow>
     arid ar \<notin> set (ids_of p q) \<and> unat (arid ar) < 2 ^ AXI_ID_WIDTH k \<and> arlen ar < 8 \<and>
     0 \<le> am_master m \<and> am_master m < int NUM_READ_MASTERS)"

lemma len_beats: "(n :: u8) < 8 \<Longrightarrow> 0 < n + 1 \<and> n + 1 \<le> 8"
proof -
  assume "n < 8"
  then have "n + 1 \<le> 8" by (rule inc_le)
  moreover have "n + 1 \<noteq> 0" using \<open>n < 8\<close> by (metis add.commute max_word_wrap not_less_iff_gr_or_eq word_order.extremum_strict)
  ultimately show ?thesis by (simp add: word_gt_0)
qed

lemma new_txn_ok:
  assumes "unat m < NUM_READ_MASTERS" "unat aid < 2 ^ AXI_ID_WIDTH k" "n < 8"
  shows "read_txn_ok k (new_txn aid m oid (n + 1) p a u z x c)"
  using assms len_beats [of n]
  by (simp add: read_txn_ok_def new_txn_def read_data_clear_def)

lemma taken_txn_ok:
  assumes "ar_latch_ok k p (latch_ar p s)" "new_ar_ok k p q (latch_ar p s) (ar_wires p s) (dp_issue (dport p s))"
    and "t \<in> set (ar_taken s p)"
  shows "read_txn_ok k t \<and> rt_port t = p \<and>
    rt_axi_id t = (if al_valid (latch_ar p s) then al_id (latch_ar p s) else arid (ar_wires p s))"
proof (cases "al_valid (latch_ar p s)")
  case True
  then show ?thesis using assms(1,3)
    by (auto simp: ar_taken_def Let_def txn_of_latch_def ar_latch_ok_def new_txn_ok split: if_splits) (simp_all add: new_txn_def)
next
  case False
  let ?m = "am_master (dp_issue (dport p s))"
  have t: "arvalid (ar_wires p s)" "t = txn_of_wires p (ar_wires p s) (dp_issue (dport p s))"
    using False assms(3) by (auto simp: ar_taken_def Let_def split: if_splits)
  have "unat (of_int ?m :: u8) < NUM_READ_MASTERS"
  proof -
    have "0 \<le> ?m" "?m < 4" using assms(2) t(1) False by (simp_all add: new_ar_ok_def NUM_READ_MASTERS_def)
    then have "unat (of_int ?m :: u8) = nat ?m" by (simp add: unsigned_of_int take_bit_int_eq_self)
    then show ?thesis using \<open>?m < 4\<close> by (simp add: NUM_READ_MASTERS_def)
  qed
  then show ?thesis using False assms(2) t
    by (simp add: txn_of_wires_def new_ar_ok_def new_txn_ok) (simp add: new_txn_def)
qed

text \<open>What the AR step makes of the latch and the table.\<close>

lemma process_ar_latch:
  "latch_ar q (process_ar_port p s) =
    (if q = p then next_ar_latch p (ar_wires p s) (latch_ar p s) (dp_issue (dport p s)) else latch_ar q s)"
  by (simp add: process_ar_port_dport)

lemma process_ar_ok:
  assumes ok: "ic_reads_ok k s"
    and new: "new_ar_ok k p (r_pending s) (latch_ar p s) (ar_wires p s) (dp_issue (dport p s))"
  shows "ic_reads_ok k (process_ar_port p s)"
proof -
  let ?l = "latch_ar p s" and ?ar = "ar_wires p s" and ?m = "dp_issue (dport p s)"
  have l: "ar_latch_ok k p ?l" "distinct (latched_id ?l @ ids_of p (r_pending s))"
    using ok by (auto simp: reads_ok_def)
  note taken = taken_txn_ok [OF l(1) new]
  have q: "ids_of q (ar_taken s p) = (if q = p then map rt_axi_id (ar_taken s p) else [])" for q
    using taken by (auto simp: ids_of_def filter_id_conv filter_empty_conv)
  have ids: "distinct (latched_id (next_ar_latch p ?ar ?l ?m) @ ids_of p (r_pending s) @ map rt_axi_id (ar_taken s p))"
    using l(2) taken new
    by (auto simp: next_ar_latch_def ar_taken_def Let_def latched_id_def latched_ar_def release_ar_latch_def new_ar_ok_def
        split: if_splits)
  have latch: "ar_latch_ok k p (next_ar_latch p ?ar ?l ?m)"
    using l(1) new
    by (auto simp: next_ar_latch_def ar_latch_ok_def latched_ar_def release_ar_latch_def new_ar_ok_def NUM_READ_MASTERS_def
        unsigned_of_int take_bit_int_eq_self)
  show ?thesis
    using ok taken ids latch by (auto simp: reads_ok_def process_ar_pending process_ar_latch q)
qed

section \<open>Requests of the arbiter\<close>

lemma id_mask:
  assumes "AXI_ID_WIDTH k \<le> 7" "unat x < 2 ^ AXI_ID_WIDTH k"
  shows "x AND kAxiIdMask k = x"
proof -
  let ?w = "AXI_ID_WIDTH k"
  have w: "unat (of_nat ?w :: u8) = ?w" "\<not> (of_nat ?w :: u8) \<ge> 8"
    using assms(1) by (simp_all add: unat_of_nat word_le_nat_alt)
  then have "kAxiIdMask k = ucast (mask ?w :: u32)"
    by (simp add: kAxiIdMask_def AXI_DUAL_PORT_AXI_ID_MASK_FOR_WIDTH_def mask_eq_exp_minus_1)
  also have "\<dots> = mask ?w"
    using assms(1) by (intro bit_word_eqI) (simp add: bit_simps)
  finally have m: "kAxiIdMask k = mask ?w" .
  have "unat (take_bit ?w x) = unat x" using assms(2) by (simp add: unsigned_take_bit_eq take_bit_nat_eq_self)
  then show ?thesis by (simp only: m take_bit_eq_mask [symmetric] word_unat_eq_iff)
qed

lemma calc_burst_len_small: "calc_burst_len z < 8"
proof -
  have "unat (calc_burst_len z + 1) = unat z div 32 + 1" by (rule burst_len_bound)
  moreover from this have "calc_burst_len z + 1 \<noteq> 0" by auto
  then have "unat (calc_burst_len z + 1) = Suc (unat (calc_burst_len z))" by (rule unatSuc [unfolded add.commute [of 1]])
  ultimately show ?thesis using u8_le_255 [of z] by (simp add: word_less_nat_alt)
qed

lemma arbited_new_ar:
  assumes "kit_config_ok k" "\<forall>t\<in>set (r_pending s). read_txn_ok k t" "arbited k s p ar m"
  shows "new_ar_ok k p (r_pending s) (latch_ar p s) ar m"
proof -
  have W: "AXI_ID_WIDTH k \<le> 7" using assms(1) by (simp add: kit_config_ok_def)
  have ids: "pending_ids k s p = ids_of p (r_pending s)"
    using assms(2) by (auto simp: pending_ids_def ids_of_def read_txn_ok_def id_mask [OF W])
  have "arlen ar < 8 \<and> 0 \<le> am_master m \<and> am_master m < int NUM_READ_MASTERS" if "issue_ok k s p ar m"
    using that calc_burst_len_small
    by (auto simp: issue_ok_def ar_shape_def direct_ok_def Let_def NUM_READ_MASTERS_def split: if_splits)
  then show ?thesis
    using assms(3) by (auto simp: new_ar_ok_def arbited_def issue_ok_def ids)
qed

section \<open>Every run\<close>

lemma edge_new_ar:
  assumes "kit_config_ok k" "ic_reads_ok k s" "length (readers s) = NUM_READ_MASTERS"
  shows "new_ar_ok k p (r_pending s) (latch_ar p s) (ar_wires p (ic_before_edge k i s)) (dp_issue (dport p (ic_before_edge k i s)))"
    and "latch_ar p (ic_before_edge k i s) = latch_ar p s"
proof -
  let ?s = "ic_requested k i s"
  obtain ar m where e: "ar_view (ic_before_edge k i s) p = (ar\<lparr>arready := fst (i_ready i p)\<rparr>, latch_ar p s, m)" "arbited k ?s p ar m"
    using before_edge_ar [OF assms(3)] by blast
  have same: "r_pending ?s = r_pending s" "latch_ar p ?s = latch_ar p s" by (simp_all add: ar_wires_view ic_frame)
  have "new_ar_ok k p (r_pending s) (latch_ar p s) ar m"
    using arbited_new_ar [OF assms(1) _ e(2)] assms(2) by (simp add: same reads_ok_def)
  then show "new_ar_ok k p (r_pending s) (latch_ar p s) (ar_wires p (ic_before_edge k i s)) (dp_issue (dport p (ic_before_edge k i s)))"
    "latch_ar p (ic_before_edge k i s) = latch_ar p s"
    using e(1) by (simp_all add: new_ar_ok_def ar_view_def ar_of_def)
qed

lemma seq_pending:
  "r_pending (ic_seq k s) = (let u = fold process_ar_port both_ports (seq_clear_accepted s)
     in r_pending (seq_reads k (mb_synth_valid (mem_side s)) (if llc_enabled u then seq_llc_queues k u else u)))"
  by (simp add: ic_seq_def Let_def ic_frame)

lemma seq_reads_ok: "reads_ok k (r_pending s) L \<Longrightarrow> reads_ok k (r_pending (seq_reads k b s)) L"
  by (simp add: seq_reads_def Let_def masters_upt)
    (intro reads_ok_map retire_llc_ok retire_direct_ok r_handshake_ok, simp_all add: watch_ok, simp_all add: watch_progress_def)

lemma process_ar_new:
  assumes "ic_reads_ok k s" "p \<noteq> r" "new_ar_ok k r (r_pending s) (latch_ar r s) (ar_wires r s) (dp_issue (dport r s))"
    and "new_ar_ok k p (r_pending s) (latch_ar p s) (ar_wires p s) (dp_issue (dport p s))"
  shows "new_ar_ok k p (r_pending (process_ar_port r s)) (latch_ar p (process_ar_port r s))
    (ar_wires p (process_ar_port r s)) (dp_issue (dport p (process_ar_port r s)))"
proof -
  have "ar_latch_ok k r (latch_ar r s)" using assms(1) by (simp add: reads_ok_def)
  then have "\<forall>t\<in>set (ar_taken s r). rt_port t = r" using taken_txn_ok assms(3) by blast
  then have "ids_of p (ar_taken s r) = []" using assms(2) by (auto simp: ids_of_def filter_empty_conv)
  then show ?thesis
    using assms(2,4) by (simp add: new_ar_ok_def process_ar_pending process_ar_port_dport)
qed

lemma ic_cycle_reads_ok:
  assumes "kit_config_ok k" "length (readers s) = NUM_READ_MASTERS" "ic_reads_ok k s"
  shows "ic_reads_ok k (ic_cycle k i s)"
proof -
  let ?e = "ic_before_edge k i s"
  let ?c = "seq_clear_accepted ?e"
  let ?d = "process_ar_port PortDDR ?c"
  let ?u = "process_ar_port PortMMIO ?d"
  note edge = edge_new_ar [OF assms(1,3,2), where i = i]
  have pending: "r_pending ?e = r_pending s"
    using assms(2) comb_inputs_frame(2) [of "ic_requested k i s" k]
    by (simp add: ic_before_edge_def ic_requested_def [symmetric] ic_frame)
  have c: "r_pending ?c = r_pending s" "dport p ?c = dport p ?e" for p
    by (simp_all add: seq_clear_accepted_def pending)
  have "ic_reads_ok k ?c" using assms(3) by (simp add: c edge(2))
  moreover have new: "new_ar_ok k p (r_pending ?c) (latch_ar p ?c) (ar_wires p ?c) (dp_issue (dport p ?c))" for p
    using edge(1) by (simp add: c edge(2))
  ultimately have "ic_reads_ok k ?d" "new_ar_ok k PortMMIO (r_pending ?d) (latch_ar PortMMIO ?d) (ar_wires PortMMIO ?d) (dp_issue (dport PortMMIO ?d))"
    by (blast intro: process_ar_ok process_ar_new)+
  then have u: "ic_reads_ok k ?u" by (rule process_ar_ok)
  have "latch_ar p (ic_seq k ?e) = latch_ar p ?u" for p
    using ic_seq_ar [of ?e p _ _ _ k] by (cases p) (auto simp: ar_view_def ar_of_def process_ar_port_dport seq_clear_accepted_def)
  moreover have "reads_ok k (r_pending (ic_seq k ?e)) (\<lambda>p. latch_ar p ?u)"
    unfolding seq_pending Let_def using u by (intro seq_reads_ok) (simp add: ic_frame)
  ultimately show ?thesis by (simp add: ic_cycle_def)
qed

text \<open>C6: the table of pending reads is well formed in every run, with and without the cache. On each port
  the AXI ids of the pending reads and of the latched request differ, so a beat belongs to one
  read; every entry has a payload of 64 words, one to eight beats of which no more than all
  have arrived, an existing master and an id of the configured width.\<close>

theorem ic_reads_well_formed:
  assumes "kit_config_ok k"
  shows "let s = run_cycles (ic_cycle k) inputs (ic_power_on k c env_mode)
    in (\<forall>p. distinct (latched_id (latch_ar p s) @ ids_of p (r_pending s))) \<and> (\<forall>t\<in>set (r_pending s). read_txn_ok k t)"
proof -
  have "ic_reads_ok k (ic_power_on k c env_mode)"
  proof -
    have "\<not> al_valid (latch_ar p (ic_power_on k c env_mode))" for p
      by (cases p) (simp_all add: ic_power_on_def ic_init_def init_port_def clear_ar_latch_def dport_def)
    moreover have "r_pending (ic_power_on k c env_mode) = []" by (simp add: ic_power_on_def ic_init_def)
    ultimately show ?thesis by (simp add: reads_ok_def ar_latch_ok_def latched_id_def)
  qed
  moreover have "ic_reads_ok k s \<Longrightarrow> length (readers s) = NUM_READ_MASTERS \<Longrightarrow> ic_reads_ok k (run_cycles (ic_cycle k) inputs s)" for s
    by (induction inputs arbitrary: s) (simp_all add: ic_cycle_reads_ok [OF assms] ic_cycle_sizes)
  ultimately have "ic_reads_ok k (run_cycles (ic_cycle k) inputs (ic_power_on k c env_mode))"
    by (simp add: ic_power_on_sizes)
  then show ?thesis by (simp add: reads_ok_def Let_def)
qed

theorem ic_reads_well_formed_witness:
  "\<forall>inputs. list_all (\<lambda>t. rt_beats_done t \<le> rt_total_beats t)
     (r_pending (run_cycles (ic_cycle default_kit_config) inputs (ic_power_on default_kit_config tiny_llc None)))"
  using ic_reads_well_formed [OF default_kit_config_ok, of _ tiny_llc None] by (simp add: Let_def read_txn_ok_def list_all_iff)

end
