(* ===== verification/IC_Write_Ledger.thy ===== *)
theory IC_Write_Ledger
  imports IC_Read_Ids
begin

text \<open>
  The writes without the cache, counted over a run: every write a master is told to be accepted is
  answered to that master, under the id the master gave it, exactly once. The state owes the pending
  transactions and the buffered responses; no response is dropped, as a B is only taken when the
  buffer of its master has room, also when both ports answer in one cycle.
\<close>

section \<open>Tokens\<close>

definition write_token :: "write_pending_txn \<Rightarrow> u8 \<times> u8" where
  "write_token t = (wx_master t, wx_orig_id t)"

definition buffered :: "nat \<Rightarrow> ic_writer \<Rightarrow> (u8 \<times> u8) list" where
  "buffered m w = (if wm_resp_valid w then [(of_nat m, wm_resp_id w)] else []) @ map (\<lambda>e. (of_nat m, we_id e)) (wm_resp_q w)"

definition all_buffered :: "ic_writer list \<Rightarrow> (u8 \<times> u8) multiset" where
  "all_buffered ws = (\<Sum>m\<leftarrow>[0..<NUM_WRITE_MASTERS]. mset (buffered m (ws ! m)))"

definition writes_owed :: "ic \<Rightarrow> (u8 \<times> u8) multiset" where
  "writes_owed s = mset (map write_token (w_pending s)) + all_buffered (writers s)"

text \<open>The accepted pulses of the next cycle, with the id on the wires; the responses the masters take.\<close>

definition writes_due :: "kit_config \<Rightarrow> ic_input \<Rightarrow> ic \<Rightarrow> (u8 \<times> u8) list" where
  "writes_due k i s = map (\<lambda>m. (of_nat m, mw_id (wport (ic_before_edge k i s) m)))
     (filter (\<lambda>m. wm_accepted (writers (ic_cycle k i s) ! m)) [0..<NUM_WRITE_MASTERS])"

definition write_response_taken :: "ic_writer \<Rightarrow> bool" where
  "write_response_taken w \<longleftrightarrow> mw_resp_valid (wm_port w) \<and> mw_resp_ready (wm_port w)"

definition writes_paid :: "kit_config \<Rightarrow> ic_input \<Rightarrow> ic \<Rightarrow> (u8 \<times> u8) list" where
  "writes_paid k i s = (let ws = writers (ic_before_edge k i s) in
     map (\<lambda>m. (of_nat m, mw_resp_id (wm_port (ws ! m)))) (filter (\<lambda>m. write_response_taken (ws ! m)) [0..<NUM_WRITE_MASTERS]))"

section \<open>Up to the edge\<close>

text \<open>What the responses of a writer look like, in the buffer and on the wires.\<close>

definition wresp_of :: "ic_writer \<Rightarrow> bool \<times> u8 \<times> write_resp_entry list" where
  "wresp_of w = (wm_resp_valid w, wm_resp_id w, wm_resp_q w)"

definition wwire_of :: "ic_writer \<Rightarrow> bool \<times> u8" where
  "wwire_of w = (mw_resp_valid (wm_port w), mw_resp_id (wm_port w))"

definition wresp_view :: "ic \<Rightarrow> ((bool \<times> u8 \<times> write_resp_entry list) \<times> bool \<times> u8) list" where
  "wresp_view s = map (\<lambda>w. (wresp_of w, wwire_of w)) (writers s)"

lemma wresp_upd [simp]:
  "(\<And>w. wresp_of (f w) = wresp_of w) \<Longrightarrow> (\<And>w. wwire_of (f w) = wwire_of w) \<Longrightarrow> wresp_view (upd_writer m f s) = wresp_view s"
  by (simp add: wresp_view_def map_upd_same)

lemma wresp_map: "(\<And>w. wresp_of (f w) = wresp_of w \<and> wwire_of (f w) = wwire_of w) \<Longrightarrow>
   map (\<lambda>w. (wresp_of w, wwire_of w)) (map f ws) = map (\<lambda>w. (wresp_of w, wwire_of w)) ws"
  by (induction ws) simp_all

lemma wresp_views:
  "wresp_view (show_write_ready k m s) = wresp_view s" "wresp_view (keep_latched_ready p s) = wresp_view s"
  "wresp_view (ready_write m s) = wresp_view s" "wresp_view (fire_write m s) = wresp_view s"
  "wresp_view (upd_reader m f s) = wresp_view s" "wresp_view (upd_dport p g s) = wresp_view s"
  "wresp_view (upd_wport m (drive_write_master d) s) = wresp_view s"
  "wresp_view (write_begin k s) = wresp_view s"
  by (simp_all add: show_write_ready_def keep_latched_ready_def ready_write_def fire_write_def upd_wport_def upd_rport_def
      Let_def wresp_of_def wwire_of_def drive_write_master_def)
    (simp_all add: wresp_view_def write_begin_def write_begin_writer_def wresp_of_def wwire_of_def)

lemma channel_writers [simp]:
  "writers (drive_aw_latch p s) = writers s" "writers (drive_pending_aw k b p s) = writers s"
  "writers (drive_w_current k p s) = writers s" "writers (drive_llc_write k s) = writers s"
  by (simp_all add: ic_frame)

lemma wresp_writers: "writers a = writers b \<Longrightarrow> wresp_view a = wresp_view b"
  by (simp add: wresp_view_def)

lemma direct_ready_view: "wresp_view (snd (direct_ready_master k rc m s)) = wresp_view s"
  by (simp add: direct_ready_master_def Let_def wresp_views)

lemma write_request_view:
  assumes "\<not> llc_enabled s"
  shows "wresp_view (comb_write_request k s) = wresp_view s"
proof -
  have "\<not> llc_enabled (write_begin k s)" using assms by (simp add: llc_enabled_def ic_frame)
  then show ?thesis
    by (simp add: comb_write_request_def Let_def wresp_writers [OF channel_writers(2)] wresp_writers [OF channel_writers(3)]
        wresp_views until_stop_frame [where g = wresp_view, OF direct_ready_view])
qed

lemma comb_inputs_wresp:
  assumes "\<not> llc_enabled s" "length (readers s) = NUM_READ_MASTERS"
  shows "wresp_view (comb_inputs k s) = wresp_view s"
proof -
  note env = arb_envD [OF comb_read_arbiter_spec(1) [OF assms(2), of k]]
  have "\<not> llc_enabled (comb_read_arbiter k s)" using assms(1) by (simp add: llc_enabled_def env)
  from write_request_view [OF this, of k] have "wresp_view (comb_write_request k (comb_read_arbiter k s)) = wresp_view s"
    by (simp add: wresp_view_def env)
  moreover have "wresp_view (comb_inputs k s) = wresp_view (comb_write_request k (comb_read_arbiter k s))"
    by (rule wresp_writers) (simp add: comb_inputs_def Let_def ic_frame)
  ultimately show ?thesis by simp
qed

lemma write_response_view:
  assumes "\<not> llc_enabled s"
  shows "writers (comb_write_response k s) = map show_write_response (writers s)"
  using assms by (simp add: comb_write_response_def Let_def ic_frame)

text \<open>The \<^verbatim>\<open>bready\<close> of the two ports.\<close>

lemma b_target_writers: "b_target_master k (s\<lparr>writers := ws\<rparr>) p = b_target_master k s p"
  by (simp add: b_target_master_def Let_def)

lemma has_space_wresp:
  "map wresp_of (writers a) = map wresp_of (writers b) \<Longrightarrow> length (writers b) = NUM_WRITE_MASTERS \<Longrightarrow>
   write_resp_buffer_has_space k a m = write_resp_buffer_has_space k b m"
proof (cases "m < NUM_WRITE_MASTERS")
  case True
  assume "map wresp_of (writers a) = map wresp_of (writers b)" "length (writers b) = NUM_WRITE_MASTERS"
  then have "wresp_of (writers a ! m) = wresp_of (writers b ! m)"
    using True by (metis length_map nth_map)
  then show ?thesis by (simp add: write_resp_buffer_has_space_def write_resp_buffer_count_def wresp_of_def)
qed (simp add: write_resp_buffer_has_space_def)

lemma write_response_b:
  fixes k :: kit_config and s :: ic
  assumes "\<not> llc_enabled s" "length (writers s) = NUM_WRITE_MASTERS"
  defines "t \<equiv> comb_write_response k s"
  shows "bready (io_b (dp_io (dport p t))) \<Longrightarrow> can_accept_b_for_master k s (b_target_master k s p)"
    and "bready (io_b (dp_io (dport PortDDR t))) \<Longrightarrow> bready (io_b (dp_io (dport PortMMIO t))) \<Longrightarrow>
      b_target_master k s PortDDR = Some (Some m) \<Longrightarrow> b_target_master k s PortMMIO = Some (Some m) \<Longrightarrow> m \<ge> NUM_WRITE_MASTERS"
    and "bvalid (io_b (dp_io (dport p t))) = bvalid (io_b (dp_io (dport p s)))"
    and "bid (io_b (dp_io (dport p t))) = bid (io_b (dp_io (dport p s)))"
proof -
  have space: "can_accept_b_for_master k (s\<lparr>writers := map show_write_response (writers s)\<rparr>) x = can_accept_b_for_master k s x" for x
    using has_space_wresp [of "s\<lparr>writers := map show_write_response (writers s)\<rparr>" s k] assms(2)
    by (simp add: can_accept_b_for_master_def show_write_response_def wresp_of_def comp_def split: option.split)
  show "bready (io_b (dp_io (dport p t))) \<Longrightarrow> can_accept_b_for_master k s (b_target_master k s p)"
    using assms(1) by (cases p) (auto simp: t_def comb_write_response_def Let_def set_bready_def upd_io_def b_target_writers space
        split: if_splits)
  show "bready (io_b (dp_io (dport PortDDR t))) \<Longrightarrow> bready (io_b (dp_io (dport PortMMIO t))) \<Longrightarrow>
      b_target_master k s PortDDR = Some (Some m) \<Longrightarrow> b_target_master k s PortMMIO = Some (Some m) \<Longrightarrow> m \<ge> NUM_WRITE_MASTERS"
    using assms(1) by (auto simp: t_def comb_write_response_def Let_def set_bready_def upd_io_def b_target_writers space
        split: if_splits)
  show "bvalid (io_b (dp_io (dport p t))) = bvalid (io_b (dp_io (dport p s)))"
    "bid (io_b (dp_io (dport p t))) = bid (io_b (dp_io (dport p s)))"
    using assms(1) by (cases p; simp add: t_def comb_write_response_def Let_def set_bready_def upd_io_def)+
qed

text \<open>What the output phase shows, and what of it the edge sees.\<close>

lemma comb_outputs_w:
  fixes k :: kit_config and s :: ic
  assumes "\<not> llc_enabled s"
  defines "t \<equiv> comb_write_response k (comb_read_response (run_llc_comb k (prepare_llc_inputs k False s)))"
  shows "wresp_view (comb_outputs k s) = wresp_view t" "rb_view (comb_outputs k s) = rb_view t"
proof -
  let ?u = "fold (show_write_ready k) [0..<NUM_WRITE_MASTERS] (fold keep_latched_ready both_ports
      (fold (\<lambda>m s. upd_reader m (show_read_ready k s m) s) [0..<NUM_READ_MASTERS] t))"
  have "\<not> llc_enabled ?u" using assms(1) by (simp add: t_def llc_enabled_def masters_upt ic_frame)
  then have "comb_outputs k s = ?u" by (simp add: comb_outputs_def Let_def t_def)
  then show "wresp_view (comb_outputs k s) = wresp_view t" "rb_view (comb_outputs k s) = rb_view t"
    by (simp_all add: masters_upt wresp_views ic_frame)
qed

text \<open>The transaction a B is taken for, and the conditions under which it is taken.\<close>

definition finished_write :: "kit_config \<Rightarrow> downstream_port \<Rightarrow> u8 \<Rightarrow> write_pending_txn \<Rightarrow> bool" where
  "finished_write k p aid t \<longleftrightarrow> wx_port t = p \<and> wx_axi_id t = aid AND kAxiIdMask k \<and> wx_w_done t \<and>
     unat (wx_master t) < NUM_WRITE_MASTERS"

definition b_index :: "kit_config \<Rightarrow> write_pending_txn list \<Rightarrow> downstream_port \<Rightarrow> u8 \<Rightarrow> nat option" where
  "b_index k q p aid = first_below (length q) (\<lambda>i. finished_write k p aid (q ! i))"

lemma b_target_index:
  "b_target_master k s p = (if bvalid (io_b (dp_io (dport p s)))
     then Some (map_option (\<lambda>i. unat (wx_master (w_pending s ! i))) (b_index k (w_pending s) p (bid (io_b (dp_io (dport p s))))))
     else None)"
  by (simp add: b_target_master_def b_index_def finished_write_def Let_def)

lemma edge_writes:
  assumes "\<not> llc_enabled s" "length (readers s) = NUM_READ_MASTERS"
  shows "map wresp_of (writers (ic_before_edge k i s)) = map wresp_of (writers s)"
    and "map wwire_of (writers (ic_before_edge k i s)) = map (\<lambda>w. (wm_resp_valid w, wm_resp_id w)) (writers s)"
    and "rb_view (ic_before_edge k i s) =
      rb_view (comb_write_response k (comb_read_response (run_llc_comb k (prepare_llc_inputs k False (drive_first i s)))))"
proof -
  let ?d = "drive_first i s" and ?r = "ic_requested k i s"
  let ?t = "comb_write_response k (comb_read_response (run_llc_comb k (prepare_llc_inputs k False ?d)))"
  have off: "\<not> llc_enabled ?d" "\<not> llc_enabled ?r"
    using assms(1) by (simp_all add: llc_enabled_def drive_first_def Let_def ic_requested_controls ic_frame)
  have len: "length (readers ?r) = NUM_READ_MASTERS" using assms(2) by (simp add: ic_frame)
  have "wresp_view (ic_before_edge k i s) = wresp_view (comb_inputs k ?r)"
    by (rule wresp_writers) (simp add: ic_before_edge_def ic_requested_def ic_frame)
  also have "\<dots> = wresp_view ?r" by (rule comb_inputs_wresp [OF off(2) len])
  also have "\<dots> = wresp_view (comb_outputs k ?d)"
    by (simp add: ic_requested_def drive_masters_def masters_upt wresp_views upd_rport_def)
  also have "\<dots> = wresp_view ?t" by (rule comb_outputs_w [OF off(1)])
  finally have v: "wresp_view (ic_before_edge k i s) = wresp_view ?t" .
  have "writers ?t = map show_write_response (writers s)"
    using off(1) by (subst write_response_view) (simp_all add: llc_enabled_def ic_frame)
  then have t: "map wresp_of (writers ?t) = map wresp_of (writers s)"
    "map wwire_of (writers ?t) = map (\<lambda>w. (wm_resp_valid w, wm_resp_id w)) (writers s)"
    by (simp_all add: show_write_response_def wresp_of_def wwire_of_def comp_def)
  have "map fst (wresp_view x) = map wresp_of (writers x)" "map snd (wresp_view x) = map wwire_of (writers x)" for x
    by (simp_all add: wresp_view_def comp_def)
  with v t show "map wresp_of (writers (ic_before_edge k i s)) = map wresp_of (writers s)"
    "map wwire_of (writers (ic_before_edge k i s)) = map (\<lambda>w. (wm_resp_valid w, wm_resp_id w)) (writers s)"
    by metis+
  show "rb_view (ic_before_edge k i s) = rb_view ?t"
    using comb_inputs_frame(1) [OF len, of k] comb_outputs_w(2) [OF off(1), of k]
    by (simp add: ic_before_edge_def ic_requested_def [symmetric] ic_frame) (simp add: ic_requested_def ic_frame)
qed

lemma edge_b:
  fixes k :: kit_config and s :: ic and i :: ic_input
  assumes "\<not> llc_enabled s" "length (readers s) = NUM_READ_MASTERS" "length (writers s) = NUM_WRITE_MASTERS"
  defines "e \<equiv> ic_before_edge k i s"
  defines "idx \<equiv> (\<lambda>p. b_index k (w_pending s) p (bid (io_b (dp_io (dport p e)))))"
  shows "b_fires (dp_io (dport p e)) \<Longrightarrow>
      \<exists>n. idx p = Some n \<and> write_resp_buffer_has_space k s (unat (wx_master (w_pending s ! n)))"
    and "b_fires (dp_io (dport PortDDR e)) \<Longrightarrow> b_fires (dp_io (dport PortMMIO e)) \<Longrightarrow> idx PortDDR = Some n \<Longrightarrow>
      idx PortMMIO = Some n' \<Longrightarrow> wx_master (w_pending s ! n) \<noteq> wx_master (w_pending s ! n')"
proof -
  let ?x = "comb_read_response (run_llc_comb k (prepare_llc_inputs k False (drive_first i s)))"
  let ?t = "comb_write_response k ?x"
  have x: "writers ?x = writers s" "w_pending ?x = w_pending s" "\<not> llc_enabled ?x"
    using assms(1) by (simp_all add: llc_enabled_def drive_first_def Let_def ic_frame)
  have len: "length (writers ?x) = NUM_WRITE_MASTERS" by (simp add: x assms(3))
  have b: "io_b (dp_io (dport p e)) = io_b (dp_io (dport p ?t))" for p
    using fun_cong [OF edge_writes(3) [OF assms(1,2), of k i], of p] by (simp add: e_def rb_view_def rb_of_def)
  note w = write_response_b [where k = k, OF x(3) len]
  have target: "b_target_master k ?x p = Some (map_option (\<lambda>i. unat (wx_master (w_pending s ! i))) (idx p))"
    if "b_fires (dp_io (dport p e))" for p
    using that by (simp add: b_target_index b_fires_def b w(3,4) idx_def x(2))
  have space: "write_resp_buffer_has_space k ?x m = write_resp_buffer_has_space k s m" for m
    by (simp add: write_resp_buffer_has_space_def x(1))
  show "b_fires (dp_io (dport p e)) \<Longrightarrow>
      \<exists>n. idx p = Some n \<and> write_resp_buffer_has_space k s (unat (wx_master (w_pending s ! n)))"
    using w(1) [where p = p] target [of p] by (cases "idx p") (simp_all add: b_fires_def b can_accept_b_for_master_def space)
  show "b_fires (dp_io (dport PortDDR e)) \<Longrightarrow> b_fires (dp_io (dport PortMMIO e)) \<Longrightarrow> idx PortDDR = Some n \<Longrightarrow>
      idx PortMMIO = Some n' \<Longrightarrow> wx_master (w_pending s ! n) \<noteq> wx_master (w_pending s ! n')"
  proof
    assume f: "b_fires (dp_io (dport PortDDR e))" "b_fires (dp_io (dport PortMMIO e))"
      and idx: "idx PortDDR = Some n" "idx PortMMIO = Some n'" and eq: "wx_master (w_pending s ! n) = wx_master (w_pending s ! n')"
    have "unat (wx_master (w_pending s ! n)) < NUM_WRITE_MASTERS"
      using first_below_Some [OF idx(1) [unfolded idx_def b_index_def]] by (simp add: finished_write_def)
    moreover have "unat (wx_master (w_pending s ! n)) \<ge> NUM_WRITE_MASTERS"
      using w(2) [where m = "unat (wx_master (w_pending s ! n))"] target f idx eq by (simp add: b_fires_def b)
    ultimately show False by simp
  qed
qed

section \<open>The table of pending writes\<close>

definition wkey :: "write_pending_txn \<Rightarrow> downstream_port \<times> u8 \<times> u8 \<times> u8" where
  "wkey t = (wx_port t, wx_axi_id t, wx_master t, wx_orig_id t)"

definition slot :: "write_pending_txn \<Rightarrow> downstream_port \<times> u8" where
  "slot t = (wx_port t, wx_axi_id t)"

definition writes_ok :: "kit_config \<Rightarrow> write_pending_txn list \<Rightarrow> bool" where
  "writes_ok k q \<longleftrightarrow> distinct (map slot q) \<and> (\<forall>t\<in>set q. unat (wx_master t) < NUM_WRITE_MASTERS \<and>
     unat (wx_axi_id t) < 2 ^ AXI_ID_WIDTH k)"

text \<open>Port, id, master and the master's id never change; tokens, slots and well-formedness depend on nothing else.\<close>

lemma keys_eq:
  assumes "map wkey a = map wkey b"
  shows "map write_token a = map write_token b" "map slot a = map slot b" "writes_ok k a = writes_ok k b"
proof -
  have "map write_token q = map (\<lambda>(p, i, m, o'). (m, o')) (map wkey q)" "map slot q = map (\<lambda>(p, i, m, o'). (p, i)) (map wkey q)"
    "(\<forall>t\<in>set q. unat (wx_master t) < NUM_WRITE_MASTERS \<and> unat (wx_axi_id t) < 2 ^ AXI_ID_WIDTH k) =
     list_all (\<lambda>(p, i, m, o'). unat m < NUM_WRITE_MASTERS \<and> unat i < 2 ^ AXI_ID_WIDTH k) (map wkey q)" for q
    by (simp_all add: write_token_def slot_def wkey_def list_all_iff)
  then show "map write_token a = map write_token b" "map slot a = map slot b" "writes_ok k a = writes_ok k b"
    unfolding writes_ok_def by (simp_all only: assms)
qed

lemma keys_update: "wkey t = wkey (q ! i) \<Longrightarrow> map wkey (q[i := t]) = map wkey q"
  by (cases "i < length q") (simp_all add: map_update list_update_same_conv list_update_beyond)

lemma same_slot: "writes_ok k q \<Longrightarrow> t \<in> set q \<Longrightarrow> t' \<in> set q \<Longrightarrow> slot t = slot t' \<Longrightarrow> t = t'"
  by (auto simp: writes_ok_def distinct_map dest: inj_onD)

section \<open>Acceptance\<close>

lemma until_stop_cases:
  assumes "\<And>x. fst (f x s) \<or> snd (f x s) = s"
  shows "until_stop f xs s = s \<or> (\<exists>x\<in>set xs. f x s = (True, until_stop f xs s))"
proof (induction xs)
  case (Cons x xs)
  then show ?case using assms [of x] by (cases "f x s") auto
qed simp

lemma write_id_bits:
  assumes "AXI_ID_WIDTH k \<le> 7" "unat x < 2 ^ AXI_ID_WIDTH k"
  shows "axi_id_bits k x = x"
proof -
  have "axi_id_bits k x = take_bit (AXI_ID_WIDTH k) x"
    by (simp add: axi_id_bits_def take_bit_eq_mask mask_eq_exp_minus_1)
  moreover have "unat (take_bit (AXI_ID_WIDTH k) x) = unat x" using assms(2) by (simp add: unsigned_take_bit_eq take_bit_nat_eq_self)
  ultimately show ?thesis by (simp only: word_unat_eq_iff)
qed

lemma accept_write_step:
  assumes "AXI_ID_WIDTH k \<le> 7" "writes_ok k (w_pending s)" "m < NUM_WRITE_MASTERS" "seq_accept_write k m s = (True, t)"
  obtains "w_pending t = w_pending s" "writers t = writers s"
  | x where "w_pending t = w_pending s @ [x]" "writers t = upd m (\<lambda>w. w\<lparr>wm_accepted := True\<rparr>) (writers s)"
      "write_token x = (of_nat m, mw_id (wport s m))" "writes_ok k (w_pending s @ [x])"
proof -
  let ?p = "classify_downstream_port k (mw_addr (wport s m)) (mw_total_size (wport s m))"
  show thesis
  proof (cases "alloc_write_axi_id k ?p s")
    case None
    then show thesis using assms(4) that(1) by (auto simp: seq_accept_write_def Let_def split: if_splits)
  next
    case (Some aid)
    let ?iss = "make_downstream_write_issue k ?p (mw_addr (wport s m)) (mw_total_size (wport s m)) (mw_wdata (wport s m))
        (mw_wstrb (wport s m)) (lc_line_bytes (cache_config s)) False"
    let ?x = "active_write k ?iss aid (of_nat m) (mw_id (wport s m)) False False"
    have t: "w_pending t = w_pending s @ [?x]" "writers t = upd m (\<lambda>w. w\<lparr>wm_accepted := True\<rparr>) (writers s)"
      using assms(4) Some by (auto simp: seq_accept_write_def Let_def split: if_splits)
    have free: "unat aid < 2 ^ AXI_ID_WIDTH k" "\<forall>y\<in>set (w_pending s). wx_port y = ?p \<longrightarrow> axi_id_bits k (wx_axi_id y) \<noteq> aid"
      using first_free_id_Some [OF Some [unfolded alloc_write_axi_id_def]] by auto
    have x: "wx_port ?x = ?p" "wx_axi_id ?x = aid" "wx_master ?x = of_nat m" "wx_orig_id ?x = mw_id (wport s m)"
      by (simp_all add: active_write_def make_downstream_write_issue_def Let_def)
    have "slot ?x \<notin> set (map slot (w_pending s))"
      using free(2) assms(1,2) write_id_bits by (auto simp: slot_def x writes_ok_def)
    moreover have "unat (of_nat m :: u8) < NUM_WRITE_MASTERS" using assms(3) by (simp add: NUM_WRITE_MASTERS_def unat_of_nat)
    ultimately have "writes_ok k (w_pending s @ [?x])" using assms(2) free(1) by (auto simp: writes_ok_def x)
    moreover have "write_token ?x = (of_nat m, mw_id (wport s m))" by (simp add: write_token_def x)
    ultimately show thesis using that(2) t by blast
  qed
qed

section \<open>The channels\<close>

lemma upd_pending_keys: "(\<And>t. wkey (f t) = wkey t) \<Longrightarrow> map wkey (upd_pending_write p a f q) = map wkey q"
  by (simp add: upd_pending_write_def keys_update split: option.split)

lemma handshake_keys:
  "map wkey (w_pending (ic_aw_handshake p s)) = map wkey (w_pending s)"
  "map wkey (w_pending (ic_w_handshake k p s)) = map wkey (w_pending s)"
  by (simp_all add: ic_aw_handshake_def ic_w_handshake_def Let_def upd_pending_keys wkey_def keys_update split: option.split)

lemma handshake_frame [simp]:
  "writers (ic_aw_handshake p s) = writers s" "writers (ic_w_handshake k p s) = writers s"
  "rb_view (ic_aw_handshake p s) = rb_view s" "rb_view (ic_w_handshake k p s) = rb_view s"
  by (simp_all add: ic_frame)

section \<open>Responses\<close>

lemma all_buffered_upd:
  assumes "m < NUM_WRITE_MASTERS" "length ws = NUM_WRITE_MASTERS" "mset (buffered m (f (ws ! m))) = add_mset x (mset (buffered m (ws ! m)))"
  shows "all_buffered (upd m f ws) = add_mset x (all_buffered ws)"
proof -
  have "m = 0 \<or> m = 1" "length ws = 2" using assms(1,2) by (auto simp: NUM_WRITE_MASTERS_def)
  then show ?thesis using assms(3) by (auto simp: all_buffered_def masters_upt upd_def nth_list_update)
qed

lemma all_buffered_map:
  assumes "length ws = NUM_WRITE_MASTERS" "\<And>m. m < NUM_WRITE_MASTERS \<Longrightarrow> mset (buffered m (f (ws ! m))) = mset (buffered m (ws ! m))"
  shows "all_buffered (map f ws) = all_buffered ws"
proof -
  have "0 < NUM_WRITE_MASTERS" "Suc 0 < NUM_WRITE_MASTERS" by (simp_all add: NUM_WRITE_MASTERS_def)
  then show ?thesis using assms(1) assms(2) [of 0] assms(2) [of "Suc 0"] by (simp add: all_buffered_def masters_upt)
qed

lemma all_buffered_wresp:
  assumes "map wresp_of a = map wresp_of b" "length b = NUM_WRITE_MASTERS"
  shows "all_buffered a = all_buffered b"
proof -
  have "0 < NUM_WRITE_MASTERS" "Suc 0 < NUM_WRITE_MASTERS" by (simp_all add: NUM_WRITE_MASTERS_def)
  then have "wresp_of (a ! 0) = wresp_of (b ! 0)" "wresp_of (a ! Suc 0) = wresp_of (b ! Suc 0)"
    using assms by (metis length_map nth_map)+
  then show ?thesis by (simp add: all_buffered_def masters_upt buffered_def wresp_of_def)
qed

text \<open>Room for a response: the slot is free or the queue is not full.\<close>

definition room :: "kit_config \<Rightarrow> ic \<Rightarrow> nat \<Rightarrow> bool" where
  "room k s m \<longleftrightarrow> \<not> wm_resp_valid (writers s ! m) \<or> write_resp_buffer_has_space k s m"

lemma enqueue_buffered:
  assumes "m < NUM_WRITE_MASTERS" "length (writers s) = NUM_WRITE_MASTERS" "room k s m"
  shows "all_buffered (writers (enqueue_write_resp k m aid resp lv line s)) =
    add_mset (of_nat m, aid) (all_buffered (writers s))"
  using assms by (auto simp: enqueue_write_resp_def room_def buffered_def intro!: all_buffered_upd split: if_splits)

lemma enqueue_other:
  "n \<noteq> m \<Longrightarrow> writers (enqueue_write_resp k m aid resp lv line s) ! n = writers s ! n"
  by (simp add: enqueue_write_resp_def nth_upd)

text \<open>A response at the head of the buffer stays there.\<close>

lemma enqueue_head:
  assumes "wm_resp_valid (writers s ! n)"
  shows "wm_resp_valid (writers (enqueue_write_resp k m aid resp lv line s) ! n)"
    "wm_resp_id (writers (enqueue_write_resp k m aid resp lv line s) ! n) = wm_resp_id (writers s ! n)"
proof -
  let ?t = "enqueue_write_resp k m aid resp lv line s"
  have "wm_resp_valid (writers ?t ! n) \<and> wm_resp_id (writers ?t ! n) = wm_resp_id (writers s ! n)"
  proof (cases "n = m")
    case True
    with assms show ?thesis by (cases "m < length (writers s)") (simp_all add: enqueue_write_resp_def upd_def list_update_beyond)
  next
    case False
    then show ?thesis using assms by (simp add: enqueue_other)
  qed
  then show "wm_resp_valid (writers ?t ! n)" "wm_resp_id (writers ?t ! n) = wm_resp_id (writers s ! n)" by simp_all
qed

lemma enqueue_port:
  "map wm_port (writers (enqueue_write_resp k m aid resp lv line s)) = map wm_port (writers s)"
  "map wm_accepted (writers (enqueue_write_resp k m aid resp lv line s)) = map wm_accepted (writers s)"
  by (simp_all add: enqueue_write_resp_def map_upd_same)

text \<open>The B step of a port: the answered transaction becomes a response of its master.\<close>

lemma find_slot:
  assumes "writes_ok k q" "t \<in> set q" "wx_port t = p" "wx_axi_id t = a"
  obtains i where "find_write_pending_by_axi_id p a q = Some i" "i < length q" "q ! i = t"
proof (cases "find_write_pending_by_axi_id p a q")
  case None
  then show thesis using assms by (auto simp: find_write_pending_by_axi_id_def first_below_None in_set_conv_nth)
next
  case (Some i)
  then have "i < length q" "slot (q ! i) = slot t"
    using first_below_Some [OF Some [unfolded find_write_pending_by_axi_id_def]] assms(3,4) by (simp_all add: slot_def)
  then show thesis using that Some same_slot [OF assms(1) _ assms(2)] by simp
qed

lemma take_drop_mset: "i < length q \<Longrightarrow> add_mset (q ! i) (mset (take i q @ drop (Suc i) q)) = mset q"
  by (metis add_mset_add_single id_take_nth_drop mset.simps(2) mset_append union_mset_add_mset_right)

lemma handle_b_step:
  assumes "writes_ok k (w_pending s)" "length (writers s) = NUM_WRITE_MASTERS" "b_fires (dp_io (dport p s))"
    and t: "t \<in> set (w_pending s)" "wx_port t = p" "wx_axi_id t = bid (io_b (dp_io (dport p s))) AND kAxiIdMask k"
      "room k s (unat (wx_master t))"
  shows "writes_owed (handle_b_handshake k p s) = writes_owed s"
    and "mset (w_pending (handle_b_handshake k p s)) = mset (w_pending s) - {#t#}"
    and "writers (handle_b_handshake k p s) =
      writers (enqueue_write_resp k (unat (wx_master t)) (wx_orig_id t) (bresp (io_b (dp_io (dport p s)))) False 0 s)"
    and "writes_ok k (w_pending (handle_b_handshake k p s))"
proof -
  let ?q = "w_pending s" and ?m = "unat (wx_master t)"
  let ?enq = "enqueue_write_resp k ?m (wx_orig_id t) (bresp (io_b (dp_io (dport p s)))) False 0 s"
  obtain i where i: "find_write_pending_by_axi_id p (bid (io_b (dp_io (dport p s))) AND kAxiIdMask k) ?q = Some i"
    "i < length ?q" "?q ! i = t"
    by (rule find_slot [OF assms(1) t(1-3)])
  have m: "?m < NUM_WRITE_MASTERS" using assms(1) t(1) by (simp add: writes_ok_def)
  have h: "handle_b_handshake k p s = ?enq\<lparr>w_pending := take i ?q @ drop (Suc i) ?q\<rparr>"
    using assms(3) i m by (simp add: handle_b_handshake_def Let_def ic_frame)
  have "?q = take i ?q @ t # drop (Suc i) ?q" using id_take_nth_drop [OF i(2)] i(3) by simp
  then have "writes_ok k (take i ?q @ t # drop (Suc i) ?q)" using assms(1) by simp
  then show "writes_ok k (w_pending (handle_b_handshake k p s))" by (auto simp: h writes_ok_def)
  have rest: "mset ?q = add_mset t (mset (take i ?q @ drop (Suc i) ?q))" using take_drop_mset [OF i(2)] i(3) by simp
  show "mset (w_pending (handle_b_handshake k p s)) = mset ?q - {#t#}" using rest by (simp add: h)
  show "writers (handle_b_handshake k p s) = writers ?enq" by (simp add: h)
  have "mset (map write_token ?q) = mset (map write_token (take i ?q @ drop (Suc i) ?q)) + {#write_token t#}"
    using rest by (metis add_mset_add_single image_mset_add_mset mset_map)
  then show "writes_owed (handle_b_handshake k p s) = writes_owed s"
    using enqueue_buffered [OF m assms(2) t(4), of "wx_orig_id t" "bresp (io_b (dp_io (dport p s)))" False 0]
    by (simp add: writes_owed_def h write_token_def)
qed

lemma room_cong: "writers a ! m = writers b ! m \<Longrightarrow> room k a m = room k b m"
  by (simp add: room_def write_resp_buffer_has_space_def)

definition heads_stay :: "ic \<Rightarrow> ic \<Rightarrow> bool" where
  "heads_stay a b \<longleftrightarrow> map wm_port (writers b) = map wm_port (writers a) \<and> map wm_accepted (writers b) = map wm_accepted (writers a) \<and>
     (\<forall>m. wm_resp_valid (writers a ! m) \<longrightarrow> wm_resp_valid (writers b ! m) \<and> wm_resp_id (writers b ! m) = wm_resp_id (writers a ! m))"

lemma heads_stay_trans: "heads_stay a b \<Longrightarrow> heads_stay b c \<Longrightarrow> heads_stay a c"
  by (simp add: heads_stay_def)

lemma handle_b_heads: "heads_stay s (handle_b_handshake k p s)"
proof -
  have "heads_stay s (enqueue_write_resp k m a r lv l s)" for m a r lv l
    by (simp add: heads_stay_def enqueue_port enqueue_head)
  moreover have "heads_stay s (t\<lparr>w_pending := q\<rparr>) = heads_stay s t" for t q by (simp add: heads_stay_def)
  moreover have "heads_stay s s" by (simp add: heads_stay_def)
  ultimately show ?thesis by (simp add: handle_b_handshake_def Let_def split: option.split)
qed

text \<open>Transaction \<open>t\<close> is the one the B of port \<open>p\<close> answers.\<close>

definition answers :: "kit_config \<Rightarrow> ic \<Rightarrow> downstream_port \<Rightarrow> write_pending_txn \<Rightarrow> bool" where
  "answers k s p t \<longleftrightarrow> t \<in> set (w_pending s) \<and> wx_port t = p \<and> wx_axi_id t = bid (io_b (dp_io (dport p s))) AND kAxiIdMask k"

text \<open>Every B that is taken answers a transaction whose master has room, and two taken in one cycle answer two masters.\<close>

definition b_ready_ok :: "kit_config \<Rightarrow> ic \<Rightarrow> bool" where
  "b_ready_ok k s \<longleftrightarrow>
     (\<forall>p. b_fires (dp_io (dport p s)) \<longrightarrow> (\<exists>t. answers k s p t \<and> room k s (unat (wx_master t)))) \<and>
     (b_fires (dp_io (dport PortDDR s)) \<and> b_fires (dp_io (dport PortMMIO s)) \<longrightarrow>
       (\<forall>t t'. answers k s PortDDR t \<longrightarrow> answers k s PortMMIO t' \<longrightarrow> wx_master t \<noteq> wx_master t'))"

lemma b_phase:
  fixes k :: kit_config
  assumes ok: "writes_ok k (w_pending s)" and len: "length (writers s) = NUM_WRITE_MASTERS" and ready: "b_ready_ok k s"
  defines "s' \<equiv> fold (handle_b_handshake k) both_ports s"
  shows "writes_owed s' = writes_owed s" "writes_ok k (w_pending s')"
proof -
  let ?a = "handle_b_handshake k PortDDR s"
  have answered: "\<exists>t. answers k s p t \<and> room k s (unat (wx_master t))" if "b_fires (dp_io (dport p s))" for p
    using ready that by (simp add: b_ready_ok_def)
  have apart: "wx_master t \<noteq> wx_master t'" if "b_fires (dp_io (dport PortDDR s))" "b_fires (dp_io (dport PortMMIO s))"
    "answers k s PortDDR t" "answers k s PortMMIO t'" for t t'
    using ready that by (simp add: b_ready_ok_def)
  have still: "handle_b_handshake k p x = x" if "\<not> b_fires (dp_io (dport p x))" for p x
    using that by (simp add: handle_b_handshake_def Let_def)
  have rb: "rb_view ?a = rb_view s" by (simp add: ic_frame)
  then have io: "io_b (dp_io (dport p ?a)) = io_b (dp_io (dport p s))" for p by (simp add: rb_view_def rb_of_def fun_eq_iff)
  then have fires: "b_fires (dp_io (dport p ?a)) = b_fires (dp_io (dport p s))" for p by (simp add: b_fires_def)
  have a: "writes_owed ?a = writes_owed s \<and> writes_ok k (w_pending ?a) \<and> length (writers ?a) = NUM_WRITE_MASTERS \<and>
      (b_fires (dp_io (dport PortMMIO s)) \<longrightarrow> (\<exists>t. answers k ?a PortMMIO t \<and> room k ?a (unat (wx_master t))))"
  proof (cases "b_fires (dp_io (dport PortDDR s))")
    case False
    then show ?thesis using still [OF False] ok len answered by simp
  next
    case True
    then obtain t where t: "answers k s PortDDR t" "room k s (unat (wx_master t))" using answered by blast
    note step = handle_b_step [OF ok len True t(1) [unfolded answers_def, THEN conjunct1]
        t(1) [unfolded answers_def, THEN conjunct2, THEN conjunct1]
        t(1) [unfolded answers_def, THEN conjunct2, THEN conjunct2] t(2)]
    have "\<exists>t. answers k ?a PortMMIO t \<and> room k ?a (unat (wx_master t))" if mmio: "b_fires (dp_io (dport PortMMIO s))"
    proof -
      obtain t' where t': "answers k s PortMMIO t'" "room k s (unat (wx_master t'))" using answered mmio by blast
      have "unat (wx_master t') \<noteq> unat (wx_master t)" using apart [OF True mmio t(1) t'(1)] by (simp add: word_unat_eq_iff)
      then have "writers ?a ! unat (wx_master t') = writers s ! unat (wx_master t')" by (simp add: step(3) enqueue_other)
      then have "room k ?a (unat (wx_master t'))" using t'(2) room_cong by blast
      moreover have "t' \<in># mset (w_pending ?a)"
        using t(1) t'(1) by (auto simp: step(2) answers_def in_diff_count in_multiset_in_set)
      ultimately show ?thesis using t'(1) by (auto simp: answers_def io)
    qed
    moreover have "length (writers ?a) = NUM_WRITE_MASTERS" using len by (simp add: ic_frame)
    ultimately show ?thesis using step(1,4) by simp
  qed
  have "writes_owed (handle_b_handshake k PortMMIO ?a) = writes_owed ?a \<and> writes_ok k (w_pending (handle_b_handshake k PortMMIO ?a))"
  proof (cases "b_fires (dp_io (dport PortMMIO ?a))")
    case False
    then show ?thesis using still [OF False] a by simp
  next
    case True
    then obtain t where t: "answers k ?a PortMMIO t" "room k ?a (unat (wx_master t))" using a fires by blast
    from a have "writes_ok k (w_pending ?a)" "length (writers ?a) = NUM_WRITE_MASTERS" by simp_all
    from handle_b_step [OF this True _ _ _ t(2)] t(1) show ?thesis by (simp add: answers_def)
  qed
  then show "writes_owed s' = writes_owed s" "writes_ok k (w_pending s')" using a by (simp_all add: s'_def)
qed

section \<open>The masters take their responses\<close>

lemma retire_buffered:
  assumes "mw_resp_valid (wm_port w) \<longrightarrow> wm_resp_valid w \<and> wm_resp_id w = mw_resp_id (wm_port w)"
  shows "mset (buffered m (seq_upstream_write_resp w)) +
    (if write_response_taken w then {#(of_nat m, mw_resp_id (wm_port w))#} else {#}) = mset (buffered m w)"
  using assms by (simp add: seq_upstream_write_resp_def buffered_def write_response_taken_def)

lemma retire_all:
  assumes "length ws = NUM_WRITE_MASTERS" "\<forall>m<NUM_WRITE_MASTERS. mw_resp_valid (wm_port (ws ! m)) \<longrightarrow>
      wm_resp_valid (ws ! m) \<and> wm_resp_id (ws ! m) = mw_resp_id (wm_port (ws ! m))"
  shows "all_buffered (map seq_upstream_write_resp ws) +
      mset (map (\<lambda>m. (of_nat m, mw_resp_id (wm_port (ws ! m)))) (filter (\<lambda>m. write_response_taken (ws ! m)) [0..<NUM_WRITE_MASTERS])) =
    all_buffered ws"
proof -
  have two: "0 < NUM_WRITE_MASTERS" "Suc 0 < NUM_WRITE_MASTERS" by (simp_all add: NUM_WRITE_MASTERS_def)
  have one: "mset (buffered m (seq_upstream_write_resp (ws ! m))) +
      (if write_response_taken (ws ! m) then {#(of_nat m, mw_resp_id (wm_port (ws ! m)))#} else {#}) = mset (buffered m (ws ! m))"
    if "m < NUM_WRITE_MASTERS" for m
    using assms(2) that by (intro retire_buffered) blast
  show ?thesis
    using two assms(1)
    by (simp add: all_buffered_def masters_upt one [OF two(1), symmetric] one [OF two(2), symmetric] union_ac)
qed

lemma promote_buffered: "buffered m (promote_write_resp w) = buffered m w"
  by (simp add: promote_write_resp_def buffered_def split: list.split)

lemma promote_all:
  assumes "length (writers s) = NUM_WRITE_MASTERS"
  shows "all_buffered (writers (promote_write_resp_queue s)) = all_buffered (writers s)"
    "map wm_accepted (writers (promote_write_resp_queue s)) = map wm_accepted (writers s)"
    "w_pending (promote_write_resp_queue s) = w_pending s"
proof -
  have acc: "wm_accepted (promote_write_resp w) = wm_accepted w" for w by (simp add: promote_write_resp_def split: list.split)
  have "length (writers s) = 2" using assms by (simp add: NUM_WRITE_MASTERS_def)
  then obtain a b where ws: "writers s = [a, b]" by (metis (no_types) One_nat_def Suc_1 length_0_conv length_Suc_conv)
  have "writers (promote_write_resp_queue s) = map promote_write_resp (writers s)"
    by (simp add: promote_write_resp_queue_def masters_upt ws upd_def)
  then show "all_buffered (writers (promote_write_resp_queue s)) = all_buffered (writers s)"
    "map wm_accepted (writers (promote_write_resp_queue s)) = map wm_accepted (writers s)"
    using all_buffered_map [OF assms, of promote_write_resp] by (simp_all add: promote_buffered acc comp_def)
  show "w_pending (promote_write_resp_queue s) = w_pending s" by (simp add: ic_frame)
qed

section \<open>The write side of the edge\<close>

definition accepted_tokens :: "ic_writer list \<Rightarrow> ic_writer list \<Rightarrow> (u8 \<times> u8) list" where
  "accepted_tokens ws after = map (\<lambda>m. (of_nat m, mw_id (wm_port (ws ! m)))) (filter (\<lambda>m. wm_accepted (after ! m)) [0..<NUM_WRITE_MASTERS])"

lemma accepted_tokens_cong:
  assumes "map wm_accepted a = map wm_accepted b" "length b = NUM_WRITE_MASTERS"
  shows "accepted_tokens ws a = accepted_tokens ws b"
proof -
  have "wm_accepted (a ! m) = wm_accepted (b ! m)" if "m < NUM_WRITE_MASTERS" for m
    using assms that by (metis length_map nth_map)
  then have "filter (\<lambda>m. wm_accepted (a ! m)) [0..<NUM_WRITE_MASTERS] = filter (\<lambda>m. wm_accepted (b ! m)) [0..<NUM_WRITE_MASTERS]"
    by (intro filter_cong) simp_all
  then show ?thesis by (simp add: accepted_tokens_def)
qed

lemma accept_phase:
  assumes "AXI_ID_WIDTH k \<le> 7" "writes_ok k (w_pending s)" "length (writers s) = NUM_WRITE_MASTERS"
    and "\<forall>w\<in>set (writers s). \<not> wm_accepted w"
  defines "t \<equiv> until_stop (seq_accept_write k) (rotated_writers s) s"
  shows "writes_ok k (w_pending t)" "\<exists>x. w_pending t = w_pending s @ x"
    "map wresp_of (writers t) = map wresp_of (writers s)" "map wm_port (writers t) = map wm_port (writers s)"
    "writes_owed t = writes_owed s + mset (accepted_tokens (writers s) (writers t))"
proof -
  have two: "0 < NUM_WRITE_MASTERS" "Suc 0 < NUM_WRITE_MASTERS" by (simp_all add: NUM_WRITE_MASTERS_def)
  have none: "accepted_tokens (writers s) (writers s) = []"
    using assms(3,4) by (auto simp: accepted_tokens_def filter_empty_conv)
  have "fst (seq_accept_write k m s) \<or> snd (seq_accept_write k m s) = s" for m
    by (simp add: seq_accept_write_def Let_def split: option.split)
  from until_stop_cases [where f = "seq_accept_write k" and s = s and xs = "rotated_writers s", OF this]
  have "writes_ok k (w_pending t) \<and> (\<exists>x. w_pending t = w_pending s @ x) \<and>
    map wresp_of (writers t) = map wresp_of (writers s) \<and> map wm_port (writers t) = map wm_port (writers s) \<and>
    writes_owed t = writes_owed s + mset (accepted_tokens (writers s) (writers t))"
  proof
    assume "until_stop (seq_accept_write k) (rotated_writers s) s = s"
    then show ?thesis using assms(2) none by (simp add: t_def)
  next
    assume "\<exists>m\<in>set (rotated_writers s). seq_accept_write k m s = (True, until_stop (seq_accept_write k) (rotated_writers s) s)"
    then obtain m where m: "m \<in> set (rotated_writers s)" "seq_accept_write k m s = (True, t)" by (auto simp: t_def)
    have "m < NUM_WRITE_MASTERS" using m(1) two(1) by (auto simp: rotated_writers_def)
    from accept_write_step [OF assms(1,2) this m(2)] show ?thesis
    proof cases
      case 1
      then show ?thesis using assms(2) none by (simp add: writes_owed_def)
    next
      case (2 x)
      have "accepted_tokens (writers s) (writers t) = [(of_nat m, mw_id (wport s m))]"
      proof -
        have "m = 0 \<or> m = 1" "length (writers s) = 2" using \<open>m < NUM_WRITE_MASTERS\<close> assms(3) by (auto simp: NUM_WRITE_MASTERS_def)
        moreover have "\<not> wm_accepted (writers s ! 0)" "\<not> wm_accepted (writers s ! Suc 0)"
          using assms(3,4) two by simp_all
        ultimately show ?thesis by (auto simp: accepted_tokens_def masters_upt 2(2) upd_def nth_list_update)
      qed
      moreover have same: "map wresp_of (writers t) = map wresp_of (writers s)" "map wm_port (writers t) = map wm_port (writers s)"
        by (simp_all add: 2(2) map_upd_same wresp_of_def)
      moreover have "all_buffered (writers t) = all_buffered (writers s)" by (rule all_buffered_wresp [OF same(1) assms(3)])
      ultimately show ?thesis using 2 by (simp add: writes_owed_def)
    qed
  qed
  then show "writes_ok k (w_pending t)" "\<exists>x. w_pending t = w_pending s @ x"
    "map wresp_of (writers t) = map wresp_of (writers s)" "map wm_port (writers t) = map wm_port (writers s)"
    "writes_owed t = writes_owed s + mset (accepted_tokens (writers s) (writers t))" by blast+
qed

lemma rb_view_b: "rb_view a = rb_view b \<Longrightarrow> io_b (dp_io (dport p a)) = io_b (dp_io (dport p b))"
proof -
  assume "rb_view a = rb_view b"
  then have "rb_view a p = rb_view b p" by (rule fun_cong)
  then show ?thesis by (simp add: rb_view_def rb_of_def)
qed

lemma room_wresp: "wresp_of (writers a ! m) = wresp_of (writers b ! m) \<Longrightarrow> room k a m = room k b m"
  by (simp add: room_def write_resp_buffer_has_space_def write_resp_buffer_count_def wresp_of_def)

lemma map_nth_eq: "map f a = map f b \<Longrightarrow> m < length b \<Longrightarrow> f (a ! m) = f (b ! m)"
  by (metis length_map nth_map)

text \<open>The handshakes of AW and W do not change what the Bs answer.\<close>

lemma b_ready_transfer:
  assumes keys: "map wkey (w_pending b) = map wkey (w_pending a) @ xs" and ok: "writes_ok k (w_pending b)" "writes_ok k (w_pending a)"
    and io: "\<And>p. io_b (dp_io (dport p b)) = io_b (dp_io (dport p a))"
    and buf: "\<And>m. m < NUM_WRITE_MASTERS \<Longrightarrow> wresp_of (writers b ! m) = wresp_of (writers a ! m)"
    and ready: "b_ready_ok k a"
  shows "b_ready_ok k b"
proof -
  have fires: "b_fires (dp_io (dport p b)) = b_fires (dp_io (dport p a))" for p by (simp only: b_fires_def io)
  have fwd: "\<exists>t'. answers k b p t' \<and> wkey t' = wkey t" if "answers k a p t" for p t
  proof -
    have "wkey t \<in> set (map wkey (w_pending b))" using that by (simp add: keys answers_def)
    then obtain t' where "t' \<in> set (w_pending b)" "wkey t' = wkey t" by auto
    then show ?thesis using that by (intro exI [of _ t']) (auto simp: answers_def io wkey_def)
  qed
  have bwd: "\<exists>t0. answers k a p t0 \<and> wkey t0 = wkey t" if ans: "answers k b p t" and f: "b_fires (dp_io (dport p a))" for p t
  proof -
    obtain t0 where t0: "answers k a p t0" using ready f by (auto simp: b_ready_ok_def)
    from fwd [OF this] obtain t' where t': "answers k b p t'" "wkey t' = wkey t0" by blast
    then have "t' = t" using same_slot [OF ok(1)] ans by (simp add: answers_def slot_def)
    then show ?thesis using t0 t'(2) by auto
  qed
  have "\<exists>t. answers k b p t \<and> room k b (unat (wx_master t))" if f: "b_fires (dp_io (dport p a))" for p
  proof -
    obtain t where t: "answers k a p t" "room k a (unat (wx_master t))" using ready f by (auto simp: b_ready_ok_def)
    obtain t' where t': "answers k b p t'" "wkey t' = wkey t" using fwd [OF t(1)] by blast
    have "wx_master t' = wx_master t" using t'(2) by (simp add: wkey_def)
    moreover have "unat (wx_master t) < NUM_WRITE_MASTERS" using ok(2) t(1) by (simp add: writes_ok_def answers_def)
    ultimately have "room k b (unat (wx_master t'))" using t(2) room_wresp [OF buf] by metis
    then show ?thesis using t'(1) by blast
  qed
  moreover have "wx_master t \<noteq> wx_master t'" if f: "b_fires (dp_io (dport PortDDR a))" "b_fires (dp_io (dport PortMMIO a))"
    and ans: "answers k b PortDDR t" "answers k b PortMMIO t'" for t t'
  proof -
    obtain t0 t1 where t: "answers k a PortDDR t0" "wkey t0 = wkey t" "answers k a PortMMIO t1" "wkey t1 = wkey t'"
      using bwd [OF ans(1) f(1)] bwd [OF ans(2) f(2)] by blast
    then have "wx_master t0 \<noteq> wx_master t1" using ready f by (auto simp: b_ready_ok_def)
    then show ?thesis using t by (simp add: wkey_def)
  qed
  ultimately show ?thesis unfolding b_ready_ok_def fires by blast
qed

text \<open>The responses shown at the edge are the heads of the buffers, and stay there until they are taken.\<close>

definition shown_ok :: "ic_writer list \<Rightarrow> bool" where
  "shown_ok ws \<longleftrightarrow> (\<forall>m<NUM_WRITE_MASTERS. mw_resp_valid (wm_port (ws ! m)) \<longrightarrow>
     wm_resp_valid (ws ! m) \<and> wm_resp_id (ws ! m) = mw_resp_id (wm_port (ws ! m)))"

definition taken_tokens :: "ic_writer list \<Rightarrow> (u8 \<times> u8) list" where
  "taken_tokens ws = map (\<lambda>m. (of_nat m, mw_resp_id (wm_port (ws ! m))))
     (filter (\<lambda>m. write_response_taken (ws ! m)) [0..<NUM_WRITE_MASTERS])"

lemma taken_tokens_cong:
  assumes "map wm_port a = map wm_port b" "length b = NUM_WRITE_MASTERS"
  shows "taken_tokens a = taken_tokens b"
proof -
  have port: "wm_port (a ! m) = wm_port (b ! m)" if "m < NUM_WRITE_MASTERS" for m
    using map_nth_eq [OF assms(1)] assms(2) that by simp
  show ?thesis unfolding taken_tokens_def
    by (rule map_cong [OF filter_cong [OF refl]])
      (simp_all only: write_response_taken_def port set_filter mem_Collect_eq atLeastLessThan_upt [symmetric] atLeastLessThan_iff)
qed

lemma shown_stays:
  assumes "shown_ok (writers a)" "length (writers a) = NUM_WRITE_MASTERS" "heads_stay a b"
  shows "shown_ok (writers b)"
proof -
  have "wport b m = wport a m" if "m < NUM_WRITE_MASTERS" for m
    using map_nth_eq [of wm_port "writers b" "writers a" m] assms(2,3) that by (simp add: heads_stay_def)
  then show ?thesis using assms(1,3) by (simp add: shown_ok_def heads_stay_def)
qed

lemma shown_wresp:
  assumes "shown_ok a" "length a = NUM_WRITE_MASTERS" "map wresp_of b = map wresp_of a" "map wm_port b = map wm_port a"
  shows "shown_ok b"
proof -
  have "wm_port (b ! m) = wm_port (a ! m)" "wresp_of (b ! m) = wresp_of (a ! m)" if "m < NUM_WRITE_MASTERS" for m
    using map_nth_eq [OF assms(3)] map_nth_eq [OF assms(4)] assms(2) that by simp_all
  then show ?thesis using assms(1) by (simp add: shown_ok_def wresp_of_def)
qed

text \<open>The write side of the edge without the cache, as one equation.\<close>

lemma channels_phase:
  assumes k: "AXI_ID_WIDTH k \<le> 7" and ok: "writes_ok k (w_pending s)" and len: "length (writers s) = NUM_WRITE_MASTERS"
    and fresh: "\<forall>w\<in>set (writers s). \<not> wm_accepted w" and shown: "shown_ok (writers s)" and ready: "b_ready_ok k s"
  defines "c \<equiv> fold (handle_b_handshake k) both_ports (fold (\<lambda>p s. ic_w_handshake k p (ic_aw_handshake p s)) both_ports
      (until_stop (seq_accept_write k) (rotated_writers s) s))"
  shows "writes_ok k (w_pending c)" "length (writers c) = NUM_WRITE_MASTERS" "shown_ok (writers c)"
    "map wm_port (writers c) = map wm_port (writers s)"
    "writes_owed c = writes_owed s + mset (accepted_tokens (writers s) (writers c))"
proof -
  let ?a = "until_stop (seq_accept_write k) (rotated_writers s) s"
  let ?b = "fold (\<lambda>p s. ic_w_handshake k p (ic_aw_handshake p s)) both_ports ?a"
  note a = accept_phase [OF k ok len fresh]
  have lens: "length (writers ?a) = NUM_WRITE_MASTERS" "length (writers ?b) = NUM_WRITE_MASTERS"
    using len arg_cong [OF a(4), of length] by (simp_all add: ic_frame)
  have keys: "map wkey (w_pending ?b) = map wkey (w_pending ?a)" by (simp add: handshake_keys)
  note same = keys_eq [OF keys]
  have bw: "writers ?b = writers ?a" by simp
  have okb: "writes_ok k (w_pending ?b)" using a(1) same(3) by simp
  have "b_ready_ok k ?b"
  proof -
    obtain xs where "w_pending ?a = w_pending s @ xs" using a(2) by blast
    then have x: "map wkey (w_pending ?b) = map wkey (w_pending s) @ map wkey xs" using keys by simp
    have io: "io_b (dp_io (dport p ?b)) = io_b (dp_io (dport p s))" for p
      by (rule rb_view_b) (simp add: until_stop_frame [where g = rb_view] ic_frame)
    have buf: "wresp_of (writers ?b ! m) = wresp_of (writers s ! m)" if "m < NUM_WRITE_MASTERS" for m
      using map_nth_eq [OF a(3)] that len by (simp add: bw)
    show ?thesis by (rule b_ready_transfer [OF x okb ok io buf ready])
  qed
  from b_phase [OF okb lens(2) this]
  have c: "writes_owed c = writes_owed ?b" "writes_ok k (w_pending c)" by (simp_all only: c_def)
  have heads: "heads_stay ?b c"
    using heads_stay_trans [OF handle_b_heads handle_b_heads] by (simp add: c_def)
  show "writes_ok k (w_pending c)" by (rule c(2))
  show lenc: "length (writers c) = NUM_WRITE_MASTERS" using lens(2) arg_cong [OF heads [unfolded heads_stay_def, THEN conjunct1], of length] by simp
  show "shown_ok (writers c)"
    using shown_stays [OF _ lens(2) heads] shown_wresp [OF shown len a(3,4)] by (simp only: bw)
  show "map wm_port (writers c) = map wm_port (writers s)" using heads a(4) bw by (simp only: heads_stay_def)
  have "map wm_accepted (writers c) = map wm_accepted (writers ?a)" using heads bw by (simp only: heads_stay_def)
  moreover have "writes_owed ?b = writes_owed ?a" by (simp only: writes_owed_def same(1) bw)
  ultimately show "writes_owed c = writes_owed s + mset (accepted_tokens (writers s) (writers c))"
    using c(1) a(5) accepted_tokens_cong [OF _ lens(1)] by metis
qed

lemma seq_without_writes:
  assumes "AXI_ID_WIDTH k \<le> 7" "writes_ok k (w_pending s)" "length (writers s) = NUM_WRITE_MASTERS"
    "\<forall>w\<in>set (writers s). \<not> wm_accepted w" "shown_ok (writers s)" "b_ready_ok k s"
  defines "u \<equiv> seq_without_llc k s"
  shows "writes_ok k (w_pending u)"
    and "writes_owed u + mset (taken_tokens (writers s)) = writes_owed s + mset (accepted_tokens (writers s) (writers u))"
proof -
  let ?c = "fold (handle_b_handshake k) both_ports (fold (\<lambda>p s. ic_w_handshake k p (ic_aw_handshake p s)) both_ports
      (until_stop (seq_accept_write k) (rotated_writers s) s))"
  let ?r = "?c\<lparr>writers := map seq_upstream_write_resp (writers ?c)\<rparr>"
  note c = channels_phase [OF assms(1-6)]
  have u: "writers u = writers (promote_write_resp_queue ?r)" "w_pending u = w_pending (promote_write_resp_queue ?r)"
    by (simp_all add: u_def seq_without_llc_def Let_def ic_frame)
  have "length (writers ?r) = NUM_WRITE_MASTERS" using c(2) by simp
  note d = promote_all [OF this]
  have pend: "w_pending u = w_pending ?c" using u(2) d(3) by simp
  show "writes_ok k (w_pending u)" using c(1) pend by simp
  have "map wm_accepted (map seq_upstream_write_resp ws) = map wm_accepted ws" for ws
    by (induction ws) (simp_all add: seq_upstream_write_resp_def)
  then have "map wm_accepted (writers u) = map wm_accepted (writers ?c)" using u(1) d(2) by simp
  then have acc: "accepted_tokens (writers s) (writers u) = accepted_tokens (writers s) (writers ?c)"
    by (rule accepted_tokens_cong [OF _ c(2)])
  have "all_buffered (writers u) + mset (taken_tokens (writers ?c)) = all_buffered (writers ?c)"
    using retire_all [OF c(2)] c(3) d(1) u(1) by (simp add: taken_tokens_def shown_ok_def)
  then have "writes_owed u + mset (taken_tokens (writers s)) = writes_owed ?c"
    using pend taken_tokens_cong [OF c(4) assms(3)] by (simp only: writes_owed_def) (simp only: union_assoc)
  then show "writes_owed u + mset (taken_tokens (writers s)) = writes_owed s + mset (accepted_tokens (writers s) (writers u))"
    using c(5) acc by simp
qed

section \<open>A cycle\<close>

definition writes_inv :: "kit_config \<Rightarrow> ic \<Rightarrow> bool" where
  "writes_inv k s \<longleftrightarrow> length (readers s) = NUM_READ_MASTERS \<and> length (writers s) = NUM_WRITE_MASTERS \<and> writes_ok k (w_pending s)"

lemma edge_b_ready:
  assumes "\<not> llc_enabled s" "writes_inv k s"
  shows "b_ready_ok k (ic_before_edge k i s)"
proof -
  let ?e = "ic_before_edge k i s"
  let ?idx = "\<lambda>p. b_index k (w_pending s) p (bid (io_b (dp_io (dport p ?e))))"
  have inv: "length (readers s) = NUM_READ_MASTERS" "length (writers s) = NUM_WRITE_MASTERS" "writes_ok k (w_pending s)"
    using assms(2) by (simp_all add: writes_inv_def)
  note b = edge_b [where k = k and i = i, OF assms(1) inv(1,2)]
  have pend: "w_pending ?e = w_pending s"
    using comb_inputs_frame(4) [of "ic_requested k i s" k] inv(1)
    by (simp add: ic_before_edge_def ic_requested_def [symmetric] ic_frame)
  have lene: "length (writers ?e) = NUM_WRITE_MASTERS" using ic_before_edge_sizes(2) [OF inv(1)] inv(2) by simp
  have ans: "answers k ?e p (w_pending s ! n)" if "?idx p = Some n" for p n
    using first_below_Some [OF that [unfolded b_index_def]] by (simp add: answers_def finished_write_def pend)
  have space: "write_resp_buffer_has_space k ?e m = write_resp_buffer_has_space k s m" for m
    using has_space_wresp [OF edge_writes(1) [OF assms(1) inv(1)] inv(2)] .
  have uniq: "t = w_pending s ! n" if "?idx p = Some n" "answers k ?e p t" for p n t
    using same_slot [OF inv(3)] ans [OF that(1)] that(2) by (simp add: answers_def slot_def pend)
  have "\<exists>t. answers k ?e p t \<and> room k ?e (unat (wx_master t))" if "b_fires (dp_io (dport p ?e))" for p
    using b(1) [OF that] ans by (auto simp: room_def space)
  moreover have "wx_master t \<noteq> wx_master t'" if f: "b_fires (dp_io (dport PortDDR ?e))" "b_fires (dp_io (dport PortMMIO ?e))"
    and t: "answers k ?e PortDDR t" "answers k ?e PortMMIO t'" for t t'
  proof -
    obtain n n' where "?idx PortDDR = Some n" "?idx PortMMIO = Some n'" using b(1) [OF f(1)] b(1) [OF f(2)] by blast
    with b(2) [OF f this] uniq t show ?thesis by blast
  qed
  ultimately show ?thesis unfolding b_ready_ok_def by blast
qed

text \<open>The state the write side of the edge starts from.\<close>

definition before_writes :: "kit_config \<Rightarrow> ic \<Rightarrow> ic" where
  "before_writes k s = seq_reads k (mb_synth_valid (mem_side s)) (fold process_ar_port both_ports (seq_clear_accepted s))"

lemma before_writes_frame:
  "w_pending (before_writes k s) = w_pending s"
  "writers (before_writes k s) = map (\<lambda>w. w\<lparr>wm_accepted := False\<rparr>) (writers s)"
  "rb_view (before_writes k s) = rb_view s"
  by (simp_all add: before_writes_def ic_frame) (simp_all add: seq_clear_accepted_def)

lemma seq_writes:
  assumes "\<not> llc_enabled s"
  shows "w_pending (ic_seq k s) = w_pending (seq_without_llc k (before_writes k s))"
    "writers (ic_seq k s) = writers (seq_without_llc k (before_writes k s))"
proof -
  let ?u = "fold process_ar_port both_ports (seq_clear_accepted s)"
  have "\<not> llc_enabled ?u" "\<not> llc_enabled (before_writes k s)"
    using assms by (simp_all add: before_writes_def llc_enabled_def ic_frame)
  then show "w_pending (ic_seq k s) = w_pending (seq_without_llc k (before_writes k s))"
    "writers (ic_seq k s) = writers (seq_without_llc k (before_writes k s))"
    by (simp_all add: ic_seq_def Let_def ic_frame before_writes_def)
qed

lemma ic_write_tick:
  assumes "\<not> llc_enabled s" "writes_inv k s" "AXI_ID_WIDTH k \<le> 7"
  shows "mset (writes_paid k i s) + writes_owed (ic_cycle k i s) = writes_owed s + mset (writes_due k i s)"
    and "writes_inv k (ic_cycle k i s)"
proof -
  let ?e = "ic_before_edge k i s"
  let ?v = "before_writes k ?e"
  have inv: "length (readers s) = NUM_READ_MASTERS" "length (writers s) = NUM_WRITE_MASTERS" "writes_ok k (w_pending s)"
    using assms(2) by (simp_all add: writes_inv_def)
  have pend: "w_pending ?e = w_pending s" and off: "\<not> llc_enabled ?e"
    using comb_inputs_frame(4-6) [of "ic_requested k i s" k] inv(1) assms(1)
    by (simp_all add: ic_before_edge_def ic_requested_def [symmetric] ic_frame llc_enabled_def ic_requested_controls)
  note edge = edge_writes [OF assms(1) inv(1), of k i]
  note v = before_writes_frame [of k ?e]
  have wv: "map wresp_of (writers ?v) = map wresp_of (writers ?e)" "map wm_port (writers ?v) = map wm_port (writers ?e)"
    "map wwire_of (writers ?v) = map wwire_of (writers ?e)"
    by (simp_all add: v(2) wresp_of_def wwire_of_def comp_def)
  have lenv: "length (writers ?e) = NUM_WRITE_MASTERS" "length (writers ?v) = NUM_WRITE_MASTERS"
    using ic_before_edge_sizes(2) [OF inv(1)] inv(2) by (simp_all add: v(2))
  have okv: "writes_ok k (w_pending ?v)" using inv(3) by (simp add: v(1) pend)
  have fresh: "\<forall>w\<in>set (writers ?v). \<not> wm_accepted w" by (simp add: v(2))
  have shown: "shown_ok (writers ?v)"
  proof -
    have "wwire_of (writers ?v ! m) = (wm_resp_valid (writers s ! m), wm_resp_id (writers s ! m)) \<and>
        wresp_of (writers ?v ! m) = wresp_of (writers s ! m)" if "m < NUM_WRITE_MASTERS" for m
      using edge wv that inv(2) lenv by (metis (no_types, lifting) length_map nth_map)
    then show ?thesis by (simp add: shown_ok_def wwire_of_def wresp_of_def)
  qed
  have ready: "b_ready_ok k ?v"
  proof (rule b_ready_transfer [where xs = "[]", OF _ okv _ rb_view_b [OF v(3)] _ edge_b_ready [OF assms(1,2)]])
    show "map wkey (w_pending ?v) = map wkey (w_pending ?e) @ []" by (simp add: v(1))
    show "writes_ok k (w_pending ?e)" using okv by (simp add: v(1))
    show "m < NUM_WRITE_MASTERS \<Longrightarrow> wresp_of (writers ?v ! m) = wresp_of (writers ?e ! m)" for m
      using map_nth_eq [OF wv(1)] lenv(1) by simp
  qed
  note step = seq_without_writes [OF assms(3) okv lenv(2) fresh shown ready]
  note cyc = seq_writes [OF off, of k, folded ic_cycle_def]
  have "taken_tokens (writers ?v) = writes_paid k i s"
    using taken_tokens_cong [OF wv(2) lenv(1)] by (simp add: writes_paid_def taken_tokens_def Let_def)
  moreover have "accepted_tokens (writers ?v) (writers (ic_cycle k i s)) = writes_due k i s"
    using map_nth_eq [OF wv(2)] lenv(1) by (simp add: accepted_tokens_def writes_due_def)
  moreover have "writes_owed ?v = writes_owed s"
    using all_buffered_wresp [OF wv(1) [unfolded edge(1)] inv(2)] by (simp add: writes_owed_def v(1) pend)
  moreover have "writes_owed (ic_cycle k i s) = writes_owed (seq_without_llc k ?v)"
    by (simp add: writes_owed_def cyc)
  ultimately show "mset (writes_paid k i s) + writes_owed (ic_cycle k i s) = writes_owed s + mset (writes_due k i s)"
    using step(2) cyc(2) by (simp add: add.commute)
  show "writes_inv k (ic_cycle k i s)"
    using step(1) cyc(1) ic_cycle_sizes [OF inv(1)] inv(2) by (simp add: writes_inv_def)
qed

interpretation ic_writes: ledger_view "ic_power_on k c e" "ic_cycle k" "\<lambda>i s. \<not> llc_enabled s \<and> AXI_ID_WIDTH k \<le> 7"
    "writes_inv k" writes_owed "writes_due k" "writes_paid k"
  for k c e
proof unfold_locales
  have two: "writers (ic_power_on k c e) = replicate NUM_WRITE_MASTERS (init_writer k (ic_writer_zero k))"
    by (simp add: ic_power_on_def ic_init_def ic_constructed_def)
  have "0 < NUM_WRITE_MASTERS" "Suc 0 < NUM_WRITE_MASTERS" by (simp_all add: NUM_WRITE_MASTERS_def)
  moreover have "buffered m (init_writer k w) = []" for m w by (simp add: buffered_def init_writer_def ic_writer_zero_def)
  ultimately have "all_buffered (replicate NUM_WRITE_MASTERS (init_writer k (ic_writer_zero k))) = {#}"
    by (simp add: all_buffered_def masters_upt)
  then show "writes_owed (ic_power_on k c e) = {#}"
    by (simp add: writes_owed_def two) (simp add: ic_power_on_def ic_init_def)
  show "writes_inv k (ic_power_on k c e)"
    by (simp add: writes_inv_def ic_power_on_sizes writes_ok_def) (simp add: ic_power_on_def ic_init_def)
qed (simp_all add: ic_write_tick)

text \<open>C2: every write is answered exactly once. In any run from power-on without the cache, under
  arbitrary behaviour of masters and slaves, the responses the write masters took, together with
  the pending writes and the buffered responses, are, as multisets of master and id, the writes
  the masters were told to be accepted. In particular no buffered response is overwritten when
  both ports answer in one cycle.\<close>

theorem ic_writes_answered_once:
  assumes "kit_config_ok k" and "allowed (\<lambda>i s. \<not> llc_enabled s) (ic_cycle k) inputs (ic_power_on k c env_mode)"
  shows "mset (collect (writes_paid k) (ic_cycle k) inputs (ic_power_on k c env_mode)) +
      writes_owed (run_cycles (ic_cycle k) inputs (ic_power_on k c env_mode)) =
    mset (collect (writes_due k) (ic_cycle k) inputs (ic_power_on k c env_mode))"
proof -
  have "AXI_ID_WIDTH k \<le> 7" using assms(1) by (simp add: kit_config_ok_def)
  then have "allowed (\<lambda>i s. \<not> llc_enabled s \<and> AXI_ID_WIDTH k \<le> 7) (ic_cycle k) inputs (ic_power_on k c env_mode)"
    using assms(2) by simp
  from ic_writes.paid_once [OF this] show ?thesis .
qed

theorem ic_writes_answered_once_witness:
  "\<forall>inputs. mset (collect (writes_paid default_kit_config) (ic_cycle default_kit_config) inputs
       (ic_power_on default_kit_config default_llc_config None)) \<subseteq>#
     mset (collect (writes_due default_kit_config) (ic_cycle default_kit_config) inputs
       (ic_power_on default_kit_config default_llc_config None))"
proof
  fix inputs
  have "cache_config (ic_power_on default_kit_config default_llc_config None) = default_llc_config"
    by (simp add: ic_power_on_def ic_init_def ic_constructed_def)
  then have "allowed (\<lambda>i s. \<not> llc_enabled s) (ic_cycle default_kit_config) inputs
      (ic_power_on default_kit_config default_llc_config None)"
    by (intro off_allowed ic_power_on_sizes) (simp add: default_llc_config_def)
  from ic_writes_answered_once [OF default_kit_config_ok this]
  show "mset (collect (writes_paid default_kit_config) (ic_cycle default_kit_config) inputs
       (ic_power_on default_kit_config default_llc_config None)) \<subseteq>#
     mset (collect (writes_due default_kit_config) (ic_cycle default_kit_config) inputs
       (ic_power_on default_kit_config default_llc_config None))"
    by (metis mset_subset_eq_add_left)
qed

end
