(* ===== verification/RV_Types.thy ===== *)
theory RV_Types
  imports Kit_Prelude "HOL-Library.Signed_Division"
begin

text \<open>
  The state of the demonstration processor (\<^verbatim>\<open>demos/single_cycle\<close>): constants and masks of
  \<^verbatim>\<open>CSR.h\<close> and \<^verbatim>\<open>RISCV.h\<close>, the record of \<^verbatim>\<open>SingleCycleCpu\<close>, and what the processor gets from
  outside: the memory hooks (\<open>mem_hooks\<close>, over any type of memory), the SoftFloat library
  (\<open>softfloat\<close>), and the values C++ leaves undefined (\<open>undefined_values\<close>): shifts by the width of
  the operand or more, and one variable that is read without having been assigned.
\<close>

section \<open>Instruction fields\<close>

definition INST_EBREAK :: u32 where "INST_EBREAK = 0x00100073"
definition INST_ECALL :: u32 where "INST_ECALL = 0x00000073"
definition INST_MRET :: u32 where "INST_MRET = 0x30200073"
definition INST_SRET :: u32 where "INST_SRET = 0x10200073"
definition INST_WFI :: u32 where "INST_WFI = 0x10500073"

definition number_0_opcode_lui :: u32 where "number_0_opcode_lui = 0b0110111"
definition number_1_opcode_auipc :: u32 where "number_1_opcode_auipc = 0b0010111"
definition number_2_opcode_jal :: u32 where "number_2_opcode_jal = 0b1101111"
definition number_3_opcode_jalr :: u32 where "number_3_opcode_jalr = 0b1100111"
definition number_4_opcode_beq :: u32 where "number_4_opcode_beq = 0b1100011"
definition number_5_opcode_lb :: u32 where "number_5_opcode_lb = 0b0000011"
definition number_6_opcode_sb :: u32 where "number_6_opcode_sb = 0b0100011"
definition number_7_opcode_addi :: u32 where "number_7_opcode_addi = 0b0010011"
definition number_8_opcode_add :: u32 where "number_8_opcode_add = 0b0110011"
definition number_9_opcode_fence :: u32 where "number_9_opcode_fence = 0b0001111"
definition number_10_opcode_ecall :: u32 where "number_10_opcode_ecall = 0b1110011"
definition number_11_opcode_lrw :: u32 where "number_11_opcode_lrw = 0b0101111"
definition number_12_opcode_float :: u32 where "number_12_opcode_float = 0b1010011"
definition number_13_opcode_fmadd :: u32 where "number_13_opcode_fmadd = 0b1000011"
definition number_14_opcode_fmsub :: u32 where "number_14_opcode_fmsub = 0b1000111"
definition number_15_opcode_fnmsub :: u32 where "number_15_opcode_fnmsub = 0b1001011"
definition number_16_opcode_fnmadd :: u32 where "number_16_opcode_fnmadd = 0b1001111"

lemmas opcode_defs = number_0_opcode_lui_def number_1_opcode_auipc_def number_2_opcode_jal_def
  number_3_opcode_jalr_def number_4_opcode_beq_def number_5_opcode_lb_def number_6_opcode_sb_def
  number_7_opcode_addi_def number_8_opcode_add_def number_9_opcode_fence_def number_10_opcode_ecall_def
  number_11_opcode_lrw_def number_12_opcode_float_def number_13_opcode_fmadd_def number_14_opcode_fmsub_def
  number_15_opcode_fnmsub_def number_16_opcode_fnmadd_def

text \<open>The macros compute in 64 bits, on an instruction of 32.\<close>

definition BITS :: "u32 \<Rightarrow> nat \<Rightarrow> nat \<Rightarrow> u64" where
  "BITS x hi lo = ucast (drop_bit lo x) AND mask (hi - lo + 1)"

definition SEXT :: "u64 \<Rightarrow> nat \<Rightarrow> u64" where
  "SEXT x bits = signed_take_bit (bits - 1) x"

definition field :: "u32 \<Rightarrow> nat \<Rightarrow> nat \<Rightarrow> u32" where
  "field x hi lo = ucast (BITS x hi lo)"

definition immI :: "u32 \<Rightarrow> u64" where "immI i = SEXT (BITS i 31 20) 12"
definition immU :: "u32 \<Rightarrow> u64" where "immU i = push_bit 12 (SEXT (BITS i 31 12) 20)"
definition immS :: "u32 \<Rightarrow> u64" where "immS i = push_bit 5 (SEXT (BITS i 31 25) 7) OR BITS i 11 7"
definition immJ :: "u32 \<Rightarrow> u64" where
  "immJ i = push_bit 20 (SEXT (BITS i 31 31) 1) OR push_bit 12 (BITS i 19 12) OR
     push_bit 11 (BITS i 20 20) OR push_bit 1 (BITS i 30 21)"
definition immB :: "u32 \<Rightarrow> u64" where
  "immB i = push_bit 12 (SEXT (BITS i 31 31) 1) OR push_bit 11 (BITS i 7 7) OR
     push_bit 5 (BITS i 30 25) OR push_bit 1 (BITS i 11 8)"

section \<open>Control and status registers\<close>

definition csr_mtvec :: nat where "csr_mtvec = 0"
definition csr_mepc :: nat where "csr_mepc = 1"
definition csr_mcause :: nat where "csr_mcause = 2"
definition csr_mie :: nat where "csr_mie = 3"
definition csr_mip :: nat where "csr_mip = 4"
definition csr_mtval :: nat where "csr_mtval = 5"
definition csr_mscratch :: nat where "csr_mscratch = 6"
definition csr_mstatus :: nat where "csr_mstatus = 7"
definition csr_mideleg :: nat where "csr_mideleg = 8"
definition csr_medeleg :: nat where "csr_medeleg = 9"
definition csr_sepc :: nat where "csr_sepc = 10"
definition csr_stvec :: nat where "csr_stvec = 11"
definition csr_scause :: nat where "csr_scause = 12"
definition csr_sscratch :: nat where "csr_sscratch = 13"
definition csr_stval :: nat where "csr_stval = 14"
definition csr_sstatus :: nat where "csr_sstatus = 15"
definition csr_sie :: nat where "csr_sie = 16"
definition csr_sip :: nat where "csr_sip = 17"
definition csr_satp :: nat where "csr_satp = 18"
definition csr_mhartid :: nat where "csr_mhartid = 19"
definition csr_misa :: nat where "csr_misa = 20"

lemmas csr_indices [simp] = csr_mtvec_def csr_mepc_def csr_mcause_def csr_mie_def csr_mip_def csr_mtval_def csr_mscratch_def
  csr_mstatus_def csr_mideleg_def csr_medeleg_def csr_sepc_def csr_stvec_def csr_scause_def csr_sscratch_def
  csr_stval_def csr_sstatus_def csr_sie_def csr_sip_def csr_satp_def csr_mhartid_def csr_misa_def

definition number_mip :: nat where "number_mip = 0x344"
definition number_sip :: nat where "number_sip = 0x144"
definition number_time :: u32 where "number_time = 0xc01"
definition number_timeh :: u32 where "number_timeh = 0xc81"

text \<open>The index of a register number; a number the switch does not know is an assertion failure.\<close>

definition cvt_number_to_csr :: "u32 \<Rightarrow> nat option" where
  "cvt_number_to_csr n =
     (if n = 0x305 then Some csr_mtvec else if n = 0x341 then Some csr_mepc
      else if n = 0x342 then Some csr_mcause else if n = 0x304 then Some csr_mie
      else if n = 0x344 then Some csr_mip else if n = 0x343 then Some csr_mtval
      else if n = 0x340 then Some csr_mscratch else if n = 0x300 then Some csr_mstatus
      else if n = 0x303 then Some csr_mideleg else if n = 0x302 then Some csr_medeleg
      else if n = 0x141 then Some csr_sepc else if n = 0x105 then Some csr_stvec
      else if n = 0x142 then Some csr_scause else if n = 0x140 then Some csr_sscratch
      else if n = 0x143 then Some csr_stval else if n = 0x100 then Some csr_sstatus
      else if n = 0x104 then Some csr_sie else if n = 0x144 then Some csr_sip
      else if n = 0x180 then Some csr_satp else if n = 0xf14 then Some csr_mhartid
      else if n = 0x301 then Some csr_misa else if n = 0xc01 then Some 21
      else if n = 0xc81 then Some 22 else None)"

definition CSR_W :: u32 where "CSR_W = 1"
definition CSR_S :: u32 where "CSR_S = 2"
definition CSR_C :: u32 where "CSR_C = 3"

definition MSTATUS_SIE :: u32 where "MSTATUS_SIE = 0x2"
definition MSTATUS_MIE :: u32 where "MSTATUS_MIE = 0x8"
definition MSTATUS_SPIE :: u32 where "MSTATUS_SPIE = 0x20"
definition MSTATUS_MPIE :: u32 where "MSTATUS_MPIE = 0x80"
definition MSTATUS_SPP :: u32 where "MSTATUS_SPP = 0x100"
definition MSTATUS_MPP :: u32 where "MSTATUS_MPP = 0x1800"
definition MSTATUS_MPRV :: u32 where "MSTATUS_MPRV = 0x20000"
definition MSTATUS_SUM :: u32 where "MSTATUS_SUM = 0x40000"
definition MSTATUS_MXR :: u32 where "MSTATUS_MXR = 0x80000"

definition GET_MPP :: "u32 \<Rightarrow> u32" where "GET_MPP x = drop_bit 11 x AND 3"
definition GET_SPP :: "u32 \<Rightarrow> u32" where "GET_SPP x = drop_bit 8 x AND 1"

definition MIP_SSIP :: u32 where "MIP_SSIP = 0x2"
definition MIP_MSIP :: u32 where "MIP_MSIP = 0x8"
definition MIP_STIP :: u32 where "MIP_STIP = 0x20"
definition MIP_MTIP :: u32 where "MIP_MTIP = 0x80"
definition MIP_SEIP :: u32 where "MIP_SEIP = 0x200"
definition MIP_MEIP :: u32 where "MIP_MEIP = 0x800"

definition PTE_V :: u32 where "PTE_V = 0x1"
definition PTE_R :: u32 where "PTE_R = 0x2"
definition PTE_W :: u32 where "PTE_W = 0x4"
definition PTE_X :: u32 where "PTE_X = 0x8"
definition PTE_U :: u32 where "PTE_U = 0x10"
definition PTE_A :: u32 where "PTE_A = 0x40"
definition PTE_D :: u32 where "PTE_D = 0x80"

abbreviation flag :: "u32 \<Rightarrow> u32 \<Rightarrow> bool" where
  "flag x m \<equiv> x AND m \<noteq> 0"

lemma flag_power: "flag x (2 ^ n) \<longleftrightarrow> bit x n"
  by (simp add: and_exp_eq_0_iff_not_bit)

lemma flag_of_power: "m = 2 ^ n \<Longrightarrow> flag x m \<longleftrightarrow> bit x n"
  using flag_power by simp

section \<open>The processor\<close>

record cpu_state =
  gpr :: "u32 list"
  csr :: "u32 list"
  pc :: u32
  store_addr :: u32
  store_data :: u32
  store_strb :: u32
  store_flag :: bool

record ptw_cache =
  ptw_valid :: "bool list"
  ptw_tag :: "u32 list"
  ptw_data :: "u32 list"

record irq_lines =
  M_software_interrupt :: bool
  M_timer_interrupt :: bool
  M_external_interrupt :: bool
  S_software_interrupt :: bool
  S_timer_interrupt :: bool
  S_external_interrupt :: bool

text \<open>
  The fields of the class; \<open>fp_mode\<close> and \<open>fp_flags\<close> are SoftFloat's globals, \<open>sim_clock\<close> is the global
  \<^verbatim>\<open>sim_time\<close>, \<open>console\<close> what the UART has written to \<^verbatim>\<open>std::cout\<close>, \<open>exit_code\<close> the argument of \<^verbatim>\<open>exit\<close>.
\<close>

record 'm cpu =
  state :: cpu_state
  instruction :: u32
  privilege :: u8
  asy :: bool
  page_fault_inst :: bool
  page_fault_load :: bool
  page_fault_store :: bool
  illegal_exception :: bool
  translation_pending :: bool
  irqs :: irq_lines
  sim_end :: bool
  fast_run :: bool
  is_br :: bool
  br_taken :: bool
  is_csr :: bool
  is_exception :: bool
  ptw :: ptw_cache
  fp_mode :: u8
  fp_flags :: u8
  sim_clock :: u64
  console :: "u8 list"
  exit_code :: "int option"
  memory :: 'm

datatype mem_read_result = CPU_MEM_READ_OK | CPU_MEM_READ_PENDING | CPU_MEM_READ_FAULT

text \<open>A null hook is \<open>None\<close>. The word of \<open>walk_read\<close> counts when its result is \<open>CPU_MEM_READ_OK\<close>.\<close>

record 'm mem_hooks =
  walk_hook :: "(u32 \<Rightarrow> 'm \<Rightarrow> (mem_read_result \<times> u32) \<times> 'm) option"
  read_now_hook :: "(u32 \<Rightarrow> 'm \<Rightarrow> u32 option) option"
  write_now_hook :: "(u32 \<Rightarrow> u32 \<Rightarrow> u32 \<Rightarrow> 'm \<Rightarrow> 'm option) option"

text \<open>
  SoftFloat, from the rounding mode and the operands; the second component is what an operation
  raises in the exception flags.
\<close>

record softfloat =
  sf_add :: "u8 \<Rightarrow> u32 \<Rightarrow> u32 \<Rightarrow> u32 \<times> u8"
  sf_sub :: "u8 \<Rightarrow> u32 \<Rightarrow> u32 \<Rightarrow> u32 \<times> u8"
  sf_mul :: "u8 \<Rightarrow> u32 \<Rightarrow> u32 \<Rightarrow> u32 \<times> u8"
  sf_div :: "u8 \<Rightarrow> u32 \<Rightarrow> u32 \<Rightarrow> u32 \<times> u8"
  sf_sqrt :: "u8 \<Rightarrow> u32 \<Rightarrow> u32 \<times> u8"
  sf_mulAdd :: "u8 \<Rightarrow> u32 \<Rightarrow> u32 \<Rightarrow> u32 \<Rightarrow> u32 \<times> u8"
  sf_eq :: "u32 \<Rightarrow> u32 \<Rightarrow> bool \<times> u8"
  sf_lt :: "u32 \<Rightarrow> u32 \<Rightarrow> bool \<times> u8"
  sf_le :: "u32 \<Rightarrow> u32 \<Rightarrow> bool \<times> u8"
  sf_to_i32 :: "u32 \<Rightarrow> u8 \<Rightarrow> bool \<Rightarrow> u32 \<times> u8"
  sf_to_ui32 :: "u32 \<Rightarrow> u8 \<Rightarrow> bool \<Rightarrow> u32 \<times> u8"
  sf_of_i32 :: "u8 \<Rightarrow> u32 \<Rightarrow> u32 \<times> u8"
  sf_of_ui32 :: "u8 \<Rightarrow> u32 \<Rightarrow> u32 \<times> u8"

record undefined_values =
  wide_shl :: "u32 \<Rightarrow> u64 \<Rightarrow> u32"
  wide_shr :: "u32 \<Rightarrow> u64 \<Rightarrow> u32"
  wide_sar :: "u32 \<Rightarrow> u64 \<Rightarrow> u32"
  unassigned_wdata :: u32

section \<open>Access\<close>

definition upd_state :: "(cpu_state \<Rightarrow> cpu_state) \<Rightarrow> 'm cpu \<Rightarrow> 'm cpu" where
  "upd_state f c = c\<lparr>state := f (state c)\<rparr>"

definition set_gpr :: "u32 \<Rightarrow> u32 \<Rightarrow> 'm cpu \<Rightarrow> 'm cpu" where
  "set_gpr rd v = upd_state (\<lambda>s. s\<lparr>gpr := (gpr s)[unat rd := v]\<rparr>)"

definition set_pc :: "u32 \<Rightarrow> 'm cpu \<Rightarrow> 'm cpu" where
  "set_pc a = upd_state (\<lambda>s. s\<lparr>pc := a\<rparr>)"

definition set_csr :: "nat \<Rightarrow> u32 \<Rightarrow> 'm cpu \<Rightarrow> 'm cpu" where
  "set_csr i v = upd_state (\<lambda>s. s\<lparr>csr := (csr s)[i := v]\<rparr>)"

abbreviation reg :: "'m cpu \<Rightarrow> u32 \<Rightarrow> u32" where
  "reg c i \<equiv> gpr (state c) ! unat i"

abbreviation creg :: "'m cpu \<Rightarrow> nat \<Rightarrow> u32" where
  "creg c i \<equiv> csr (state c) ! i"

lemma upd_state_simps [simp]:
  "state (upd_state f c) = f (state c)" "instruction (upd_state f c) = instruction c" "privilege (upd_state f c) = privilege c"
  "asy (upd_state f c) = asy c" "page_fault_inst (upd_state f c) = page_fault_inst c"
  "page_fault_load (upd_state f c) = page_fault_load c" "page_fault_store (upd_state f c) = page_fault_store c"
  "illegal_exception (upd_state f c) = illegal_exception c" "translation_pending (upd_state f c) = translation_pending c"
  "irqs (upd_state f c) = irqs c" "sim_end (upd_state f c) = sim_end c" "fast_run (upd_state f c) = fast_run c"
  "ptw (upd_state f c) = ptw c" "fp_mode (upd_state f c) = fp_mode c" "fp_flags (upd_state f c) = fp_flags c"
  "sim_clock (upd_state f c) = sim_clock c" "console (upd_state f c) = console c" "exit_code (upd_state f c) = exit_code c"
  "memory (upd_state f c) = memory c" "is_exception (upd_state f c) = is_exception c"
  by (simp_all add: upd_state_def)

section \<open>Memory\<close>

definition cpu_phys_read32 :: "'m mem_hooks \<Rightarrow> u32 \<Rightarrow> 'm cpu \<Rightarrow> (mem_read_result \<times> u32) \<times> 'm cpu" where
  "cpu_phys_read32 h paddr c =
     (case walk_hook h of None \<Rightarrow> ((CPU_MEM_READ_FAULT, 0), c)
      | Some f \<Rightarrow> (case f paddr (memory c) of (r, m) \<Rightarrow> (r, c\<lparr>memory := m\<rparr>)))"

definition cpu_mem_read32_now :: "'m mem_hooks \<Rightarrow> u32 \<Rightarrow> 'm cpu \<Rightarrow> u32 option" where
  "cpu_mem_read32_now h paddr c = (case read_now_hook h of None \<Rightarrow> None | Some f \<Rightarrow> f paddr (memory c))"

definition cpu_mem_write32_now :: "'m mem_hooks \<Rightarrow> u32 \<Rightarrow> u32 \<Rightarrow> u32 \<Rightarrow> 'm cpu \<Rightarrow> 'm cpu option" where
  "cpu_mem_write32_now h paddr data wstrb c =
     (case write_now_hook h of None \<Rightarrow> None
      | Some f \<Rightarrow> (case f paddr data wstrb (memory c) of None \<Rightarrow> None | Some m \<Rightarrow> Some (c\<lparr>memory := m\<rparr>)))"

section \<open>The cache of page table words\<close>

definition kPtwCacheSize :: nat where "kPtwCacheSize = 512"

definition ptw_cache_index :: "u32 \<Rightarrow> nat" where
  "ptw_cache_index paddr = unat (drop_bit 2 paddr AND (of_nat kPtwCacheSize - 1))"

definition ptw_cache_reset :: ptw_cache where
  "ptw_cache_reset = \<lparr>ptw_valid = replicate kPtwCacheSize False, ptw_tag = replicate kPtwCacheSize 0,
     ptw_data = replicate kPtwCacheSize 0\<rparr>"

definition ptw_cache_read :: "ptw_cache \<Rightarrow> u32 \<Rightarrow> u32 option" where
  "ptw_cache_read p paddr =
     (let aligned = paddr AND NOT 3; idx = ptw_cache_index aligned in
      if \<not> ptw_valid p ! idx \<or> ptw_tag p ! idx \<noteq> aligned then None else Some (ptw_data p ! idx))"

definition ptw_cache_fill :: "u32 \<Rightarrow> u32 \<Rightarrow> ptw_cache \<Rightarrow> ptw_cache" where
  "ptw_cache_fill paddr data p =
     (let aligned = paddr AND NOT 3; idx = ptw_cache_index aligned in
      p\<lparr>ptw_valid := (ptw_valid p)[idx := True], ptw_tag := (ptw_tag p)[idx := aligned], ptw_data := (ptw_data p)[idx := data]\<rparr>)"

definition ptw_cache_invalidate_word :: "u32 \<Rightarrow> ptw_cache \<Rightarrow> ptw_cache" where
  "ptw_cache_invalidate_word paddr p =
     (let aligned = paddr AND NOT 3; idx = ptw_cache_index aligned in
      if ptw_valid p ! idx \<and> ptw_tag p ! idx = aligned then p\<lparr>ptw_valid := (ptw_valid p)[idx := False]\<rparr> else p)"

end
