(* ===== verification/RV_Mmu.thy ===== *)
theory RV_Mmu
  imports RV_Types
begin

text \<open>
  \<^verbatim>\<open>SingleCycleCpu::va2pa\<close>: the two-level Sv32 page table walk through the direct-mapped cache of
  page table words, and \<^verbatim>\<open>store_data\<close>, which keeps that cache up to date.
\<close>

section \<open>Translation\<close>

text \<open>The checks of a leaf entry, in the order of the code; \<open>type\<close> is 0 for a fetch, 1 for a load, 2 for a store.\<close>

definition pte_permits :: "bool \<Rightarrow> bool \<Rightarrow> u32 \<Rightarrow> u32 \<Rightarrow> u32 \<Rightarrow> bool" where
  "pte_permits mxr sum_bit eff_priv type pte \<longleftrightarrow>
     \<not> (type = 0 \<and> \<not> flag pte PTE_X) \<and>
     \<not> (type = 1 \<and> \<not> flag pte PTE_R \<and> \<not> (mxr \<and> flag pte PTE_X)) \<and>
     \<not> (type = 2 \<and> \<not> flag pte PTE_W) \<and>
     \<not> (eff_priv = 0 \<and> \<not> flag pte PTE_U) \<and>
     \<not> (eff_priv = 1 \<and> flag pte PTE_U \<and> \<not> sum_bit)"

definition pte_accessed :: "u32 \<Rightarrow> u32 \<Rightarrow> bool" where
  "pte_accessed type pte \<longleftrightarrow> flag pte PTE_A \<and> \<not> (type = 2 \<and> \<not> flag pte PTE_D)"

definition pte_invalid :: "u32 \<Rightarrow> bool" where
  "pte_invalid pte \<longleftrightarrow> \<not> flag pte PTE_V \<or> (\<not> flag pte PTE_R \<and> flag pte PTE_W)"

definition pte_leaf :: "u32 \<Rightarrow> bool" where
  "pte_leaf pte \<longleftrightarrow> flag pte PTE_R \<or> flag pte PTE_X"

text \<open>A page table word, from the cache or by the hook; \<open>None\<close> when the walk ends here.\<close>

definition read_pte :: "'m mem_hooks \<Rightarrow> u32 \<Rightarrow> 'm cpu \<Rightarrow> u32 option \<times> 'm cpu" where
  "read_pte h a c =
     (case ptw_cache_read (ptw c) a of
        Some pte \<Rightarrow> (Some pte, c)
      | None \<Rightarrow>
          (case cpu_phys_read32 h a c of
             ((r, pte), c) \<Rightarrow>
               if r = CPU_MEM_READ_PENDING then (None, c\<lparr>translation_pending := True\<rparr>)
               else if r \<noteq> CPU_MEM_READ_OK then (None, c)
               else (Some pte, c\<lparr>ptw := ptw_cache_fill a pte (ptw c)\<rparr>)))"

definition effective_privilege :: "u32 \<Rightarrow> 'm cpu \<Rightarrow> u32" where
  "effective_privilege type c =
     (let mstatus = creg c csr_mstatus in
      if type \<noteq> 0 \<and> flag mstatus MSTATUS_MPRV then drop_bit 11 mstatus AND 3 else ucast (privilege c))"

definition pte1_address :: "u32 \<Rightarrow> u32 \<Rightarrow> u32" where
  "pte1_address satp v_addr = push_bit 12 (satp AND 0x3FFFFF) OR push_bit 2 (drop_bit 22 v_addr AND 0x3FF)"

definition pte2_address :: "u32 \<Rightarrow> u32 \<Rightarrow> u32" where
  "pte2_address pte1 v_addr = push_bit 12 (drop_bit 10 pte1 AND 0x3FFFFF) OR push_bit 2 (drop_bit 12 v_addr AND 0x3FF)"

definition superpage_address :: "u32 \<Rightarrow> u32 \<Rightarrow> u32" where
  "superpage_address pte1 v_addr = (push_bit 2 pte1 AND 0xFFC00000) OR (v_addr AND 0x3FFFFF)"

definition page_address :: "u32 \<Rightarrow> u32 \<Rightarrow> u32" where
  "page_address pte2 v_addr = push_bit 12 (drop_bit 10 pte2) OR (v_addr AND 0xFFF)"

text \<open>The physical address, or \<open>None\<close> where the function returns false.\<close>

definition va2pa :: "'m mem_hooks \<Rightarrow> u32 \<Rightarrow> u32 \<Rightarrow> 'm cpu \<Rightarrow> u32 option \<times> 'm cpu" where
  "va2pa h v_addr type c =
     (let c = c\<lparr>translation_pending := False\<rparr>;
          mstatus = creg c csr_mstatus;
          mxr = flag mstatus MSTATUS_MXR;
          sum_bit = flag mstatus MSTATUS_SUM;
          eff_priv = effective_privilege type c
      in case read_pte h (pte1_address (creg c csr_satp) v_addr) c of
           (None, c) \<Rightarrow> (None, c)
         | (Some pte1, c) \<Rightarrow>
             if pte_invalid pte1 then (None, c)
             else if pte_leaf pte1
             then (if \<not> pte_permits mxr sum_bit eff_priv type pte1 \<or> drop_bit 10 pte1 AND 0x3FF \<noteq> 0 \<or> \<not> pte_accessed type pte1
                   then (None, c) else (Some (superpage_address pte1 v_addr), c))
             else (case read_pte h (pte2_address pte1 v_addr) c of
                     (None, c) \<Rightarrow> (None, c)
                   | (Some pte2, c) \<Rightarrow>
                       if pte_invalid pte2 then (None, c)
                       else if pte_leaf pte2
                       then (if \<not> pte_permits mxr sum_bit eff_priv type pte2 \<or> \<not> pte_accessed type pte2
                             then (None, c) else (Some (page_address pte2 v_addr), c))
                       else (None, c)))"

definition translates :: "'m cpu \<Rightarrow> bool" where
  "translates c \<longleftrightarrow> flag (creg c csr_satp) 0x80000000 \<and> privilege c \<noteq> 3"

section \<open>Stores\<close>

definition strobe_mask :: "u32 \<Rightarrow> u32" where
  "strobe_mask wstrb =
     (if flag wstrb 1 then 0xFF else 0) OR (if flag wstrb 2 then 0xFF00 else 0) OR
     (if flag wstrb 4 then 0xFF0000 else 0) OR (if flag wstrb 8 then 0xFF000000 else 0)"

definition UART_BASE :: u32 where "UART_BASE = 0x10000000"

definition store_fails :: "'m cpu \<Rightarrow> bool \<times> 'm cpu" where
  "store_fails c = (False, c\<lparr>illegal_exception := True\<rparr>)"

definition forget_word :: "u32 \<Rightarrow> 'm cpu \<Rightarrow> 'm cpu" where
  "forget_word a c = c\<lparr>ptw := ptw_cache_invalidate_word a (ptw c)\<rparr>"

text \<open>
  A store goes through stages, each of which may end it; the flag says whether to go on. The merge
  into the word, the echo of the UART, and the three device registers.
\<close>

definition store_merge :: "'m mem_hooks \<Rightarrow> 'm cpu \<Rightarrow> bool \<times> 'm cpu" where
  "store_merge h c =
     (let s = state c; word_addr = store_addr s AND NOT 3; offset = unat (store_addr s AND 3);
          wstrb = push_bit offset (store_strb s); wdata = push_bit (offset * 8) (store_data s); mask = strobe_mask wstrb
      in case cpu_mem_read32_now h word_addr c of
           None \<Rightarrow> store_fails c
         | Some old_data \<Rightarrow>
             (case cpu_mem_write32_now h word_addr ((mask AND wdata) OR (NOT mask AND old_data)) 0xF c of
                None \<Rightarrow> store_fails c
              | Some c \<Rightarrow> (True, forget_word word_addr c)))"

definition store_uart :: "'m mem_hooks \<Rightarrow> 'm cpu \<Rightarrow> bool \<times> 'm cpu" where
  "store_uart h c =
     (let s = state c; offset = unat (store_addr s AND 3); wdata = push_bit (offset * 8) (store_data s) in
      if store_addr s = UART_BASE
      then (case cpu_mem_read32_now h 0x10000000 c of
              None \<Rightarrow> store_fails c
            | Some uart_reg \<Rightarrow>
                (case cpu_mem_write32_now h 0x10000000 (uart_reg AND 0xffffff00) 0xF c of
                   None \<Rightarrow> store_fails c
                 | Some c \<Rightarrow>
                     let c = forget_word 0x10000000 c
                     in (True, if fast_run c then c\<lparr>console := console c @ [ucast (wdata AND 0xff)]\<rparr> else c)))
      else (True, c))"

definition store_uart_request :: "'m mem_hooks \<Rightarrow> 'm cpu \<Rightarrow> bool \<times> 'm cpu" where
  "store_uart_request h c =
     (if store_addr (state c) = 0x10000001 \<and> store_data (state c) AND 0xff = 7
      then (case cpu_mem_write32_now h 0x0c201004 0xa 0xF c of
              None \<Rightarrow> store_fails c
            | Some c1 \<Rightarrow>
                (case cpu_mem_read32_now h 0x10000000 c1 of
                   None \<Rightarrow> store_fails c1
                 | Some uart_reg \<Rightarrow>
                     (case cpu_mem_write32_now h 0x10000000 (uart_reg AND 0xfff0ffff) 0xF c1 of
                        None \<Rightarrow> store_fails c1
                      | Some c2 \<Rightarrow>
                          let c3 = forget_word 0x10000000 (forget_word 0x0c201004 c2);
                              c4 = set_csr csr_mip (creg c3 csr_mip OR 0x200) c3
                          in (True, set_csr csr_sip (creg c4 csr_sip OR 0x200) c4))))
      else (True, c))"

definition store_uart_ready :: "'m mem_hooks \<Rightarrow> 'm cpu \<Rightarrow> bool \<times> 'm cpu" where
  "store_uart_ready h c =
     (if store_addr (state c) = 0x10000001 \<and> store_data (state c) AND 0xff = 5
      then (case cpu_mem_read32_now h 0x10000000 c of
              None \<Rightarrow> store_fails c
            | Some uart_reg \<Rightarrow>
                (case cpu_mem_write32_now h 0x10000000 ((uart_reg AND 0xfff0ffff) OR 0x00030000) 0xF c of
                   None \<Rightarrow> store_fails c
                 | Some c \<Rightarrow> (True, forget_word 0x10000000 c)))
      else (True, c))"

definition store_irq_complete :: "'m mem_hooks \<Rightarrow> 'm cpu \<Rightarrow> bool \<times> 'm cpu" where
  "store_irq_complete h c =
     (if store_addr (state c) = 0xc201004 \<and> store_data (state c) AND 0xff = 0xa
      then (case cpu_mem_write32_now h 0x0c201004 0 0xF c of
              None \<Rightarrow> store_fails c
            | Some c1 \<Rightarrow>
                let c2 = forget_word 0x0c201004 c1;
                    c3 = set_csr csr_mip (creg c2 csr_mip AND NOT 0x200) c2
                in (True, set_csr csr_sip (creg c3 csr_sip AND NOT 0x200) c3))
      else (True, c))"

definition store_shift :: "'m cpu \<Rightarrow> 'm cpu" where
  "store_shift = upd_state (\<lambda>s. let offset = unat (store_addr s AND 3) in
     s\<lparr>store_data := push_bit (offset * 8) (store_data s), store_strb := push_bit (offset * 8) (store_strb s)\<rparr>)"

definition and_then :: "('m cpu \<Rightarrow> bool \<times> 'm cpu) \<Rightarrow> bool \<times> 'm cpu \<Rightarrow> bool \<times> 'm cpu" where
  "and_then f r = (if fst r then f (snd r) else r)"

definition cpu_store_data :: "'m mem_hooks \<Rightarrow> 'm cpu \<Rightarrow> 'm cpu" where
  "cpu_store_data h c =
     (let r = and_then (store_irq_complete h) (and_then (store_uart_ready h) (and_then (store_uart_request h)
                (and_then (store_uart h) (store_merge h c))))
      in if fst r then store_shift (snd r) else snd r)"

end
