(* ===== verification/RV_Exec.thy ===== *)
theory RV_Exec
  imports RV_Mmu
begin

text \<open>
  \<^verbatim>\<open>single_cycle_cpu.cpp\<close>: traps and returns (\<^verbatim>\<open>exception\<close>), the instruction groups and \<^verbatim>\<open>exec\<close>.
  A C++ function that returns early is a function whose result is the processor at that point.
\<close>

section \<open>Traps\<close>

definition is_ecall :: "'m cpu \<Rightarrow> bool" where "is_ecall c \<longleftrightarrow> instruction c = INST_ECALL"
definition is_mret :: "'m cpu \<Rightarrow> bool" where "is_mret c \<longleftrightarrow> instruction c = INST_MRET"
definition is_sret :: "'m cpu \<Rightarrow> bool" where "is_sret c \<longleftrightarrow> instruction c = INST_SRET"

definition delegated :: "'m cpu \<Rightarrow> nat \<Rightarrow> bool" where
  "delegated c n \<longleftrightarrow> drop_bit n (creg c csr_medeleg) AND 1 \<noteq> 0"

definition m_interrupt :: "'m cpu \<Rightarrow> bool" where
  "m_interrupt c \<longleftrightarrow> M_software_interrupt (irqs c) \<or> M_timer_interrupt (irqs c) \<or> M_external_interrupt (irqs c)"

definition s_interrupt :: "'m cpu \<Rightarrow> bool" where
  "s_interrupt c \<longleftrightarrow> S_software_interrupt (irqs c) \<or> S_timer_interrupt (irqs c) \<or> S_external_interrupt (irqs c)"

definition MTrap :: "'m cpu \<Rightarrow> bool" where
  "MTrap c \<longleftrightarrow> m_interrupt c \<or>
     (privilege c = 0 \<and> \<not> delegated c 8 \<and> is_ecall c) \<or> (is_ecall c \<and> privilege c = 1 \<and> \<not> delegated c 9) \<or>
     (is_ecall c \<and> privilege c = 3) \<or>
     (page_fault_inst c \<and> \<not> delegated c 12) \<or> (page_fault_load c \<and> \<not> delegated c 13) \<or>
     (page_fault_store c \<and> \<not> delegated c 15) \<or> illegal_exception c"

definition STrap :: "'m cpu \<Rightarrow> bool" where
  "STrap c \<longleftrightarrow> s_interrupt c \<or>
     (is_ecall c \<and> privilege c = 0 \<and> delegated c 8) \<or> (is_ecall c \<and> privilege c = 1 \<and> delegated c 9) \<or>
     (page_fault_inst c \<and> delegated c 12) \<or> (page_fault_load c \<and> delegated c 13) \<or> (page_fault_store c \<and> delegated c 15)"

definition m_exception_code :: "'m cpu \<Rightarrow> u32" where
  "m_exception_code c =
     (if M_software_interrupt (irqs c) then 3
      else if M_timer_interrupt (irqs c) then 7
      else if M_external_interrupt (irqs c) \<or> (is_ecall c \<and> privilege c = 3 \<and> \<not> delegated c 8) then 11
      else if is_ecall c \<and> privilege c = 0 \<and> \<not> delegated c 8 then 8
      else if is_ecall c \<and> privilege c = 1 \<and> \<not> delegated c 9 then 9
      else if page_fault_inst c \<and> \<not> delegated c 12 then 12
      else if page_fault_load c \<and> \<not> delegated c 13 then 13
      else if page_fault_store c \<and> \<not> delegated c 15 then 15
      else if illegal_exception c then 2 else 0)"

definition s_exception_code :: "'m cpu \<Rightarrow> u32" where
  "s_exception_code c =
     (if S_external_interrupt (irqs c) \<or> (is_ecall c \<and> privilege c = 1 \<and> delegated c 9) then 9
      else if S_timer_interrupt (irqs c) then 5
      else if is_ecall c \<and> privilege c = 0 \<and> delegated c 8 then 8
      else if S_software_interrupt (irqs c) then 1
      else if page_fault_inst c \<and> delegated c 12 then 12
      else if page_fault_load c \<and> delegated c 13 then 13
      else if page_fault_store c \<and> delegated c 15 then 15 else 0)"

definition trap_vector :: "u32 \<Rightarrow> u32 \<Rightarrow> u32" where
  "trap_vector tvec cause =
     (if flag tvec 1 \<and> flag cause 0x80000000 then (tvec AND 0xfffffffc) + 4 * (cause AND 0x7fffffff)
      else tvec AND 0xfffffffc)"

text \<open>Copy a bit of the status register to another one, and set or clear a bit.\<close>

definition put_bit :: "u32 \<Rightarrow> bool \<Rightarrow> u32 \<Rightarrow> u32" where
  "put_bit m b x = (if b then x OR m else x AND NOT m)"

definition set_status :: "u32 \<Rightarrow> 'm cpu \<Rightarrow> 'm cpu" where
  "set_status v c = set_csr csr_mstatus v (set_csr csr_sstatus v c)"

definition enter_m :: "u32 \<Rightarrow> 'm cpu \<Rightarrow> u32 \<times> 'm cpu" where
  "enter_m trap_val c =
     (let cause = (if m_interrupt c then 0x80000000 else 0) OR m_exception_code c;
          mstatus = creg c csr_mstatus;
          next_pc = trap_vector (creg c csr_mtvec) cause;
          mstatus = (mstatus AND NOT MSTATUS_MPP) OR push_bit 11 (ucast (privilege c) AND 3);
          mstatus = put_bit MSTATUS_MPIE (flag mstatus MSTATUS_MIE) mstatus;
          mstatus = mstatus AND NOT MSTATUS_MIE;
          c = set_csr csr_mcause cause (set_csr csr_mepc (pc (state c)) c);
          c = (set_status mstatus c)\<lparr>privilege := 3\<rparr>
      in (next_pc, set_csr csr_mtval trap_val c))"

definition enter_s :: "u32 \<Rightarrow> 'm cpu \<Rightarrow> u32 \<times> 'm cpu" where
  "enter_s trap_val c =
     (let cause = (if s_interrupt c then 0x80000000 else 0) OR s_exception_code c;
          sstatus = creg c csr_sstatus;
          next_pc = trap_vector (creg c csr_stvec) cause;
          sstatus = put_bit MSTATUS_SPP (privilege c = 1) sstatus;
          sstatus = put_bit MSTATUS_SPIE (flag sstatus MSTATUS_SIE) sstatus;
          sstatus = sstatus AND NOT MSTATUS_SIE;
          c = set_csr csr_scause cause (set_csr csr_sepc (pc (state c)) c);
          c = (set_status sstatus c)\<lparr>privilege := 1\<rparr>
      in (next_pc, set_csr csr_stval trap_val c))"

definition leave_m :: "'m cpu \<Rightarrow> u32 \<times> 'm cpu" where
  "leave_m c =
     (let mstatus = creg c csr_mstatus;
          mstatus = put_bit MSTATUS_MIE (flag mstatus MSTATUS_MPIE) mstatus;
          priv = GET_MPP mstatus;
          mstatus = (mstatus OR MSTATUS_MPIE) AND NOT MSTATUS_MPP
      in (creg c csr_mepc, (set_status mstatus c)\<lparr>privilege := ucast priv\<rparr>))"

definition leave_s :: "'m cpu \<Rightarrow> u32 \<times> 'm cpu" where
  "leave_s c =
     (let sstatus = creg c csr_sstatus;
          sstatus = put_bit MSTATUS_SIE (flag sstatus MSTATUS_SPIE) sstatus;
          priv = GET_SPP sstatus;
          sstatus = (sstatus OR MSTATUS_SPIE) AND NOT MSTATUS_SPP
      in (creg c csr_sepc, (set_status sstatus c)\<lparr>privilege := ucast priv\<rparr>))"

definition cpu_exception :: "u32 \<Rightarrow> 'm cpu \<Rightarrow> 'm cpu" where
  "cpu_exception trap_val c =
     (let c = c\<lparr>is_exception := True\<rparr>;
          r = (if MTrap c then enter_m trap_val c
               else if STrap c then enter_s trap_val c
               else if is_mret c then leave_m c
               else if is_sret c then leave_s c
               else (pc (state c) + 4, c))
      in set_pc (fst r) (snd r))"

section \<open>Control and status registers\<close>

definition csr_numbers :: "u32 list" where
  "csr_numbers = [0x305, 0x341, 0x342, 0x304, 0x344, 0x343, 0x340, 0x300, 0x303, 0x302, 0x141, 0x105, 0x142, 0x140, 0x143,
     0x100, 0x104, 0x144, 0x180, 0xf14, 0x301, 0xc01, 0xc81]"

definition write_csr :: "nat \<Rightarrow> u32 \<Rightarrow> 'm cpu \<Rightarrow> 'm cpu" where
  "write_csr idx v c =
     (if idx = csr_mie \<or> idx = csr_sie
      then (let v = (if idx = csr_sie then (creg c csr_mie AND 0xfffffccc) OR (v AND 0x333)
                     else (creg c csr_mie AND 0xfffff444) OR (v AND 0xbbb))
            in set_csr csr_sie v (set_csr csr_mie v c))
      else if idx = number_mip \<or> idx = number_sip
      then (let v = (if idx = number_mip then (creg c csr_mip AND 0xfffffccc) OR (v AND 0x333)
                     else (creg c csr_mip AND 0xfffff444) OR (v AND 0xbbb))
            in set_csr csr_sip v (set_csr csr_mip v c))
      else if idx = csr_mstatus \<or> idx = csr_sstatus
      then (let v = (if idx = csr_sstatus then (creg c csr_sstatus AND 0x7ff21ecc) OR (v AND NOT 0x7ff21ecc)
                     else (creg c csr_mstatus AND 0x7f800644) OR (v AND NOT 0x7f800644))
            in set_csr csr_sstatus v (set_csr csr_mstatus v c))
      else (let c = set_csr idx v c in if idx = csr_satp then c\<lparr>ptw := ptw_cache_reset\<rparr> else c))"

definition csr_value :: "undefined_values \<Rightarrow> u32 \<Rightarrow> u32 \<Rightarrow> u32 \<Rightarrow> u32" where
  "csr_value u wcmd wdata old =
     (if wcmd = CSR_W then wdata else if wcmd = CSR_S then wdata OR (NOT wdata AND old)
      else if wcmd = CSR_C then NOT wdata AND old else unassigned_wdata u)"

definition RV32CSR :: "undefined_values \<Rightarrow> 'm cpu \<Rightarrow> 'm cpu" where
  "RV32CSR u c =
     (let i = instruction c; next_pc = pc (state c) + 4; rd = field i 11 7; rs1 = field i 19 15;
          csr_addr = field i 31 20; funct3 = field i 14 12; reg_rdata1 = reg c rs1;
          we = (funct3 = 1 \<or> rs1 \<noteq> 0); re = (funct3 \<noteq> 1 \<or> rd \<noteq> 0); wcmd = funct3 AND 3;
          wdata = (if flag funct3 4 then rs1 else reg_rdata1)
      in if csr_addr \<notin> set csr_numbers then set_pc next_pc c
         else if csr_addr = number_time \<or> csr_addr = number_timeh
         then cpu_exception i (c\<lparr>illegal_exception := True\<rparr>)
         else let idx = the (cvt_number_to_csr csr_addr);
                  c = (if re then set_gpr rd (creg c idx) c else c);
                  c = (if we then write_csr idx (csr_value u wcmd wdata (creg c idx)) c else c)
              in set_pc next_pc c)"

section \<open>Atomic memory operations\<close>

text \<open>The operation on the word in memory and the second operand: what is written back, if anything.\<close>

definition amo_value :: "u32 \<Rightarrow> u32 \<Rightarrow> u32 \<Rightarrow> u32 option" where
  "amo_value funct5 old b =
     (if funct5 = 0 then Some (old + b)
      else if funct5 = 1 then Some b
      else if funct5 = 3 then Some b
      else if funct5 = 4 then Some (old XOR b)
      else if funct5 = 8 then Some (old OR b)
      else if funct5 = 12 then Some (old AND b)
      else if funct5 = 16 then Some (if sint old > sint b then b else old)
      else if funct5 = 20 then Some (if sint old > sint b then old else b)
      else if funct5 = 24 then Some (if old < b then old else b)
      else if funct5 = 28 then Some (if old > b then old else b)
      else None)"

definition amo_result :: "u32 \<Rightarrow> u32 \<Rightarrow> u32 option" where
  "amo_result funct5 old =
     (if funct5 = 3 then Some 0
      else if funct5 \<in> {0, 1, 2, 4, 8, 12, 16, 20, 24, 28} then Some old else None)"

definition amo_execute :: "'m mem_hooks \<Rightarrow> u32 \<Rightarrow> u32 \<Rightarrow> 'm cpu \<Rightarrow> 'm cpu" where
  "amo_execute h v_addr p_addr c =
     (let i = instruction c; next_pc = pc (state c) + 4; funct5 = field i 31 27; rd = field i 11 7;
          b = reg c (field i 24 20);
          c = (if funct5 \<noteq> 2 then upd_state (\<lambda>s. s\<lparr>store_flag := True, store_addr := p_addr, store_strb := 0xF\<rparr>) c else c)
      in case cpu_mem_read32_now h p_addr c of
           None \<Rightarrow> cpu_exception v_addr (c\<lparr>illegal_exception := True\<rparr>)
         | Some old_word \<Rightarrow>
             let c = (case amo_result funct5 old_word of None \<Rightarrow> c | Some v \<Rightarrow> set_gpr rd v c);
                 c = (case amo_value funct5 old_word b of None \<Rightarrow> c
                      | Some v \<Rightarrow> upd_state (\<lambda>s. s\<lparr>store_data := v\<rparr>) c)
             in set_pc next_pc (cpu_store_data h c))"

definition RV32A :: "'m mem_hooks \<Rightarrow> 'm cpu \<Rightarrow> 'm cpu" where
  "RV32A h c =
     (let i = instruction c; funct5 = field i 31 27; v_addr = reg c (field i 19 15) in
      if translates c
      then (case va2pa h v_addr (if funct5 = 2 then 1 else 2) c of
              (pa, c) \<Rightarrow>
                if translation_pending c then c
                else let c = (if pa = None then (if funct5 = 2 then c\<lparr>page_fault_load := True\<rparr> else c\<lparr>page_fault_store := True\<rparr>)
                              else c)
                     in if page_fault_load c \<or> page_fault_store c then cpu_exception v_addr c
                        else amo_execute h v_addr (the pa) c)
      else amo_execute h v_addr v_addr c)"

section \<open>Integer instructions\<close>

text \<open>Shifts by the width or more are undefined in C++.\<close>

definition c_shl :: "undefined_values \<Rightarrow> u32 \<Rightarrow> u64 \<Rightarrow> u32" where
  "c_shl u a n = (if n < 32 then push_bit (unat n) a else wide_shl u a n)"

definition c_shr :: "undefined_values \<Rightarrow> u32 \<Rightarrow> u64 \<Rightarrow> u32" where
  "c_shr u a n = (if n < 32 then drop_bit (unat n) a else wide_shr u a n)"

definition c_sar :: "undefined_values \<Rightarrow> u32 \<Rightarrow> u64 \<Rightarrow> u32" where
  "c_sar u a n = (if n < 32 then signed_drop_bit (unat n) a else wide_sar u a n)"

definition c_bool :: "bool \<Rightarrow> u32" where "c_bool b = (if b then 1 else 0)"

text \<open>\<^verbatim>\<open>addi\<close> and its group, from the operand, \<open>funct3\<close>, \<open>funct7\<close> and the immediate.\<close>

definition alu_immediate :: "undefined_values \<Rightarrow> u32 \<Rightarrow> u32 \<Rightarrow> u32 \<Rightarrow> u64 \<Rightarrow> u32 option" where
  "alu_immediate u funct3 funct7 a imm =
     (if funct3 = 0 then Some (ucast (ucast a + imm))
      else if funct3 = 2 then Some (c_bool (sint a < sint (ucast imm :: u32)))
      else if funct3 = 3 then Some (c_bool (a < ucast imm))
      else if funct3 = 4 then Some (ucast (ucast a XOR imm))
      else if funct3 = 6 then Some (ucast (ucast a OR imm))
      else if funct3 = 7 then Some (ucast (ucast a AND imm))
      else if funct3 = 1 then Some (c_shl u a imm)
      else if funct3 = 5 then (if funct7 = 0 then Some (c_shr u a imm) else if funct7 = 32 then Some (c_sar u a imm) else None)
      else None)"

definition alu_muldiv :: "u32 \<Rightarrow> u32 \<Rightarrow> u32 \<Rightarrow> u32 option" where
  "alu_muldiv funct3 a b =
     (let s1 = scast a :: u64; s2 = scast b :: u64; u1 = ucast a :: u64; u2 = ucast b :: u64 in
      if funct3 = 0 then Some (ucast (u1 * u2))
      else if funct3 = 1 then Some (ucast (signed_drop_bit 32 (s1 * s2)))
      else if funct3 = 2 then Some (ucast (signed_drop_bit 32 (s1 * u2)))
      else if funct3 = 3 then Some (ucast (drop_bit 32 (u1 * u2)))
      else if funct3 = 4
      then Some (if b = 0 then - 1 else if a = 0x80000000 \<and> b = - 1 then 0x80000000 else word_of_int (sint a sdiv sint b))
      else if funct3 = 5 then Some (if b = 0 then 0xFFFFFFFF else a div b)
      else if funct3 = 6 then Some (if b = 0 then a else if a = 0x80000000 \<and> b = - 1 then 0 else word_of_int (sint a smod sint b))
      else if funct3 = 7 then Some (if b = 0 then a else a mod b)
      else None)"

definition alu_register :: "undefined_values \<Rightarrow> u32 \<Rightarrow> u32 \<Rightarrow> u32 \<Rightarrow> u32 \<Rightarrow> u32 option" where
  "alu_register u funct3 funct7 a b =
     (if funct7 = 1 then alu_muldiv funct3 a b
      else if funct3 = 0 then (if funct7 = 0 then Some (a + b) else if funct7 = 32 then Some (a - b) else None)
      else if funct3 = 1 then Some (c_shl u a (ucast b))
      else if funct3 = 2 then Some (c_bool (sint a < sint b))
      else if funct3 = 3 then Some (c_bool (a < b))
      else if funct3 = 4 then Some (a XOR b)
      else if funct3 = 5 then (if funct7 = 0 then Some (c_shr u a (ucast b)) else if funct7 = 32 then Some (c_sar u a (ucast b)) else None)
      else if funct3 = 6 then Some (a OR b)
      else if funct3 = 7 then Some (a AND b)
      else None)"

definition branch_taken :: "u32 \<Rightarrow> u32 \<Rightarrow> u32 \<Rightarrow> bool" where
  "branch_taken funct3 a b \<longleftrightarrow>
     (funct3 = 0 \<and> a = b) \<or> (funct3 = 1 \<and> a \<noteq> b) \<or> (funct3 = 4 \<and> sint a < sint b) \<or> (funct3 = 5 \<and> sint a \<ge> sint b) \<or>
     (funct3 = 6 \<and> a < b) \<or> (funct3 = 7 \<and> a \<ge> b)"

definition relative :: "u32 \<Rightarrow> u64 \<Rightarrow> u32" where
  "relative a off = ucast (ucast a + off)"

definition write_reg :: "u32 \<Rightarrow> u32 option \<Rightarrow> 'm cpu \<Rightarrow> 'm cpu" where
  "write_reg rd v c = (case v of None \<Rightarrow> c | Some v \<Rightarrow> set_gpr rd v c)"

text \<open>The value of a load, from the word at the address.\<close>

definition load_value :: "u32 \<Rightarrow> u32 \<Rightarrow> u64 \<Rightarrow> u32 \<Rightarrow> u32" where
  "load_value funct3 p_addr clock word =
     (let data = drop_bit (unat (p_addr AND 3) * 8) word; sz = funct3 AND 3;
          msk = (if sz = 0 then 0xFF else if sz = 1 then 0xFFFF else 0xFFFFFFFF);
          sign = (if sz = 0 \<and> flag data 0x80 then 0xFFFFFF00 else if sz = 1 \<and> flag data 0x8000 then 0xFFFF0000 else 0);
          data = data AND msk;
          data = (if \<not> flag funct3 4 then data OR sign else data);
          data = (if p_addr = 0x1fd0e000 then ucast clock else data)
      in if p_addr = 0x1fd0e004 then 0 else data)"

definition load_execute :: "'m mem_hooks \<Rightarrow> u32 \<Rightarrow> u32 \<Rightarrow> 'm cpu \<Rightarrow> 'm cpu" where
  "load_execute h v_addr p_addr c =
     (let i = instruction c in
      case cpu_mem_read32_now h p_addr c of
        None \<Rightarrow> cpu_exception v_addr (c\<lparr>illegal_exception := True\<rparr>)
      | Some word \<Rightarrow> set_pc (pc (state c) + 4) (set_gpr (field i 11 7) (load_value (field i 14 12) p_addr (sim_clock c) word) c))"

definition cpu_load :: "'m mem_hooks \<Rightarrow> 'm cpu \<Rightarrow> 'm cpu" where
  "cpu_load h c =
     (let i = instruction c; v_addr = relative (reg c (field i 19 15)) (immI i) in
      if translates c
      then (case va2pa h v_addr 1 c of
              (pa, c) \<Rightarrow>
                let c = c\<lparr>page_fault_load := (pa = None)\<rparr>
                in if translation_pending c then c else if page_fault_load c then cpu_exception v_addr c
                   else load_execute h v_addr (the pa) c)
      else if translation_pending c then c
      else if page_fault_load c then cpu_exception v_addr c
      else load_execute h v_addr v_addr c)"

definition store_execute :: "'m mem_hooks \<Rightarrow> u32 \<Rightarrow> 'm cpu \<Rightarrow> 'm cpu" where
  "store_execute h p_addr c =
     (let i = instruction c; funct3 = field i 14 12; v = reg c (field i 24 20); next_pc = pc (state c) + 4;
          c = upd_state (\<lambda>s. s\<lparr>store_flag := True, store_addr := p_addr,
                store_strb := if funct3 = 0 then 1 else if funct3 = 1 then 3 else 0xF,
                store_data := if funct3 = 0 then v AND 0xFF else if funct3 = 1 then v AND 0xFFFF else v\<rparr>) c
      in set_pc next_pc (cpu_store_data h c))"

definition cpu_store :: "'m mem_hooks \<Rightarrow> 'm cpu \<Rightarrow> 'm cpu" where
  "cpu_store h c =
     (let i = instruction c; v_addr = relative (reg c (field i 19 15)) (immS i) in
      if translates c
      then (case va2pa h v_addr 2 c of
              (pa, c) \<Rightarrow>
                let c = c\<lparr>page_fault_store := (pa = None)\<rparr>
                in if translation_pending c then c else if page_fault_store c then cpu_exception v_addr c
                   else store_execute h (the pa) c)
      else if translation_pending c then c
      else if page_fault_store c then cpu_exception v_addr c
      else store_execute h v_addr c)"

definition RV32IM :: "undefined_values \<Rightarrow> 'm mem_hooks \<Rightarrow> 'm cpu \<Rightarrow> 'm cpu" where
  "RV32IM u h c =
     (let i = instruction c; here = pc (state c); next_pc = here + 4; opcode = field i 6 0; funct3 = field i 14 12;
          funct7 = field i 31 25; rd = field i 11 7; a = reg c (field i 19 15); b = reg c (field i 24 20)
      in if opcode = number_0_opcode_lui then set_pc next_pc (set_gpr rd (ucast (immU i)) c)
         else if opcode = number_1_opcode_auipc then set_pc next_pc (set_gpr rd (relative here (immU i)) c)
         else if opcode = number_2_opcode_jal
         then set_pc (relative here (immJ i)) (set_gpr rd next_pc (c\<lparr>is_br := True, br_taken := True\<rparr>))
         else if opcode = number_3_opcode_jalr
         then set_pc (ucast ((ucast a + immI i) AND 0xFFFFFFFC)) (set_gpr rd next_pc (c\<lparr>is_br := True, br_taken := True\<rparr>))
         else if opcode = number_4_opcode_beq
         then (let c = c\<lparr>is_br := True\<rparr> in
               if branch_taken funct3 a b then set_pc (relative here (immB i)) (c\<lparr>br_taken := True\<rparr>) else set_pc next_pc c)
         else if opcode = number_5_opcode_lb then cpu_load h c
         else if opcode = number_6_opcode_sb then cpu_store h c
         else if opcode = number_7_opcode_addi
         then set_pc next_pc (write_reg rd (alu_immediate u funct3 funct7 a (immI i)) c)
         else if opcode = number_8_opcode_add
         then set_pc next_pc (write_reg rd (alu_register u funct3 funct7 a b) c)
         else set_pc next_pc c)"

section \<open>Floating point in the integer registers\<close>

definition is_nan :: "u32 \<Rightarrow> bool" where
  "is_nan v \<longleftrightarrow> v AND 0x7F800000 = 0x7F800000 \<and> flag v 0x007FFFFF"

definition is_snan :: "u32 \<Rightarrow> bool" where
  "is_snan v \<longleftrightarrow> is_nan v \<and> drop_bit 22 v AND 1 = 0"

definition softfloat_flag_invalid :: u8 where "softfloat_flag_invalid = 16"

definition snan_flag :: "u32 \<Rightarrow> u32 \<Rightarrow> u8" where
  "snan_flag a b = (if is_snan a \<or> is_snan b then softfloat_flag_invalid else 0)"

text \<open>The result and what is added to the exception flags.\<close>

definition f32_min_riscv :: "softfloat \<Rightarrow> u32 \<Rightarrow> u32 \<Rightarrow> u32 \<times> u8" where
  "f32_min_riscv sf a b =
     (let f = snan_flag a b; ab = sf_lt sf a b; ba = sf_lt sf b a in
      if is_nan a \<and> is_nan b then (0x7fc00000, f)
      else if is_nan a then (b, f)
      else if is_nan b then (a, f)
      else if fst ab then (a, f OR snd ab)
      else if fst ba then (b, f OR snd ab OR snd ba)
      else (a OR b, f OR snd ab OR snd ba))"

definition f32_max_riscv :: "softfloat \<Rightarrow> u32 \<Rightarrow> u32 \<Rightarrow> u32 \<times> u8" where
  "f32_max_riscv sf a b =
     (let f = snan_flag a b; ab = sf_lt sf a b; ba = sf_lt sf b a in
      if is_nan a \<and> is_nan b then (0x7fc00000, f)
      else if is_nan a then (b, f)
      else if is_nan b then (a, f)
      else if fst ab then (b, f OR snd ab)
      else if fst ba then (a, f OR snd ab OR snd ba)
      else (a AND b, f OR snd ab OR snd ba))"

definition f32_classify :: "u32 \<Rightarrow> u32" where
  "f32_classify bits =
     (let sign = drop_bit 31 bits AND 1 \<noteq> 0; exp = drop_bit 23 bits AND 0xFF; mant = bits AND 0x7FFFFF;
          subnormal = (exp = 0 \<and> mant \<noteq> 0); zero = (exp = 0 \<and> mant = 0);
          infinite = (exp = 0xFF \<and> mant = 0); nan = (exp = 0xFF \<and> mant \<noteq> 0);
          snan = (nan \<and> drop_bit 22 mant AND 1 = 0); qnan = (nan \<and> drop_bit 22 mant AND 1 \<noteq> 0);
          res = (if infinite \<and> sign then 1
                 else if \<not> infinite \<and> \<not> zero \<and> \<not> nan \<and> \<not> subnormal \<and> sign then 2
                 else if subnormal \<and> sign then 4
                 else if zero \<and> sign then 8
                 else if zero \<and> \<not> sign then 0x10
                 else if subnormal \<and> \<not> sign then 0x20
                 else if \<not> infinite \<and> \<not> zero \<and> \<not> nan \<and> \<not> subnormal \<and> \<not> sign then 0x40
                 else if infinite \<and> \<not> sign then 0x80 else 0);
          res = (if snan then res OR 0x100 else res)
      in if qnan then res OR 0x200 else res)"

text \<open>
  An instruction is refused before anything is written (\<open>Fp_abort\<close>), or gives a value for the
  destination, which is written even when the flag says that the encoding is illegal.
\<close>

datatype fp_outcome = Fp_abort | Fp_result u32 u8 bool

definition rounding_mode :: "u32 \<Rightarrow> u8 option" where
  "rounding_mode funct3 =
     (let rm = (if funct3 = 7 then 0 else funct3) in if rm \<le> 4 then Some (ucast rm) else None)"

definition fp_value :: "u32 \<times> u8 \<Rightarrow> fp_outcome" where
  "fp_value r = Fp_result (fst r) (snd r) False"

definition fp_truth :: "bool \<times> u8 \<Rightarrow> fp_outcome" where
  "fp_truth r = Fp_result (c_bool (fst r)) (snd r) False"

definition fp_illegal :: fp_outcome where "fp_illegal = Fp_result 0 0 True"

definition fp_compute :: "softfloat \<Rightarrow> u8 \<Rightarrow> u32 \<Rightarrow> u32 \<Rightarrow> u32 \<Rightarrow> u32 \<Rightarrow> u32 \<Rightarrow> fp_outcome" where
  "fp_compute sf rm funct3 funct7 rs2 a b =
     (if funct7 = 0x00 then fp_value (sf_add sf rm a b)
      else if funct7 = 0x04 then fp_value (sf_sub sf rm a b)
      else if funct7 = 0x08 then fp_value (sf_mul sf rm a b)
      else if funct7 = 0x0C then fp_value (sf_div sf rm a b)
      else if funct7 = 0x2C then (if rs2 \<noteq> 0 then Fp_abort else fp_value (sf_sqrt sf rm a))
      else if funct7 = 0x10
      then (if funct3 = 0 then fp_value ((a AND NOT 0x80000000) OR (b AND 0x80000000), 0)
            else if funct3 = 1 then fp_value ((a AND NOT 0x80000000) OR (NOT b AND 0x80000000), 0)
            else if funct3 = 2 then fp_value (a XOR (b AND 0x80000000), 0)
            else fp_illegal)
      else if funct7 = 0x50
      then (if funct3 = 2 then fp_truth (sf_eq sf a b)
            else if funct3 = 1 then fp_truth (sf_lt sf a b)
            else if funct3 = 0 then fp_truth (sf_le sf a b)
            else fp_illegal)
      else if funct7 = 0x14
      then (if funct3 = 0 then fp_value (f32_min_riscv sf a b)
            else if funct3 = 1 then fp_value (f32_max_riscv sf a b)
            else fp_illegal)
      else if funct7 = 0x60
      then (if rs2 = 0 then fp_value (sf_to_i32 sf a rm True)
            else if rs2 = 1 then fp_value (sf_to_ui32 sf a rm True)
            else fp_illegal)
      else if funct7 = 0x68
      then (if rs2 = 0 then fp_value (sf_of_i32 sf rm a)
            else if rs2 = 1 then fp_value (sf_of_ui32 sf rm a)
            else Fp_abort)
      else if funct7 = 0x70
      then (if funct3 = 0 then fp_illegal
            else if funct3 = 1 then fp_value (f32_classify a, 0)
            else fp_illegal)
      else Fp_abort)"

definition fp_outcome_of :: "softfloat \<Rightarrow> u8 \<Rightarrow> 'm cpu \<Rightarrow> fp_outcome" where
  "fp_outcome_of sf rm c =
     (let i = instruction c; opcode = i AND 0x7F; funct3 = drop_bit 12 i AND 7; rs2 = drop_bit 20 i AND 0x1F;
          funct7 = drop_bit 25 i AND 0x7F;
          a = reg c (drop_bit 15 i AND 0x1F); b = reg c rs2; d = reg c (drop_bit 27 i AND 0x1F)
      in if opcode = 0x53 then fp_compute sf rm funct3 funct7 rs2 a b
         else if opcode = 0x43 then fp_value (sf_mulAdd sf rm a b d)
         else if opcode = 0x47 then fp_value (sf_mulAdd sf rm a b (d XOR 0x80000000))
         else if opcode = 0x4B then fp_value (sf_mulAdd sf rm (a XOR 0x80000000) b d)
         else if opcode = 0x4F then fp_value (sf_mulAdd sf rm (a XOR 0x80000000) b (d XOR 0x80000000))
         else Fp_abort)"

definition RV32Zfinx :: "softfloat \<Rightarrow> 'm cpu \<Rightarrow> 'm cpu" where
  "RV32Zfinx sf c =
     (case rounding_mode (drop_bit 12 (instruction c) AND 7) of
        None \<Rightarrow> c\<lparr>illegal_exception := True\<rparr>
      | Some rm \<Rightarrow>
          let c = c\<lparr>fp_mode := rm, fp_flags := 0\<rparr>; rd = drop_bit 7 (instruction c) AND 0x1F in
          (case fp_outcome_of sf rm c of
             Fp_abort \<Rightarrow> c\<lparr>illegal_exception := True\<rparr>
           | Fp_result v flags bad \<Rightarrow>
               let next_pc = pc (state c) + 4;
                   c = c\<lparr>fp_flags := flags, illegal_exception := illegal_exception c \<or> bad\<rparr>
               in set_pc next_pc (if rd \<noteq> 0 then set_gpr rd v c else c)))"

section \<open>One instruction\<close>

definition irq_wanted :: "'m cpu \<Rightarrow> u32 \<Rightarrow> bool" where
  "irq_wanted c m \<longleftrightarrow> flag (creg c csr_mip) m \<and> flag (creg c csr_mie) m"

definition sample_irqs :: "'m cpu \<Rightarrow> 'm cpu" where
  "sample_irqs c =
     (let mideleg = creg c csr_mideleg;
          m_enable = (privilege c < 3 \<or> flag (creg c csr_mstatus) MSTATUS_MIE);
          s_irq_enable = (privilege c < 1 \<or> (privilege c = 1 \<and> flag (creg c csr_mstatus) MSTATUS_SIE));
          m = (\<lambda>b. irq_wanted c b \<and> \<not> flag mideleg b \<and> m_enable);
          s = (\<lambda>mb sb. ((irq_wanted c mb \<and> flag mideleg mb) \<or> irq_wanted c sb) \<and> privilege c < 2 \<and> s_irq_enable)
      in c\<lparr>irqs := \<lparr>M_software_interrupt = m MIP_MSIP, M_timer_interrupt = m MIP_MTIP, M_external_interrupt = m MIP_MEIP,
          S_software_interrupt = s MIP_MSIP MIP_SSIP, S_timer_interrupt = s MIP_MTIP MIP_STIP,
          S_external_interrupt = s MIP_MEIP MIP_SEIP\<rparr>\<rparr>)"

text \<open>The trap conditions of \<^verbatim>\<open>RISCV\<close>, which leave out the page faults of data accesses.\<close>

definition asynchronous :: "'m cpu \<Rightarrow> bool" where
  "asynchronous c \<longleftrightarrow>
     (m_interrupt c \<or> (privilege c = 0 \<and> \<not> delegated c 8 \<and> is_ecall c) \<or> (privilege c = 1 \<and> \<not> delegated c 9 \<and> is_ecall c) \<or>
      (privilege c = 3 \<and> is_ecall c) \<or> (page_fault_inst c \<and> \<not> delegated c 12) \<or> illegal_exception c) \<or>
     (s_interrupt c \<or> (privilege c = 0 \<and> delegated c 8 \<and> is_ecall c) \<or> (privilege c = 1 \<and> delegated c 9 \<and> is_ecall c) \<or>
      (page_fault_inst c \<and> delegated c 12)) \<or>
     is_mret c \<or> is_sret c"

definition dispatch :: "softfloat \<Rightarrow> undefined_values \<Rightarrow> 'm mem_hooks \<Rightarrow> 'm cpu \<Rightarrow> 'm cpu" where
  "dispatch sf u h c =
     (let i = instruction c; opcode = field i 6 0 in
      if page_fault_inst c then cpu_exception (pc (state c)) c
      else if illegal_exception c then cpu_exception i c
      else if asy c \<or> i = INST_ECALL then cpu_exception 0 c
      else if opcode = number_10_opcode_ecall then RV32CSR u (c\<lparr>is_csr := (i \<noteq> INST_WFI)\<rparr>)
      else if opcode = number_11_opcode_lrw then RV32A h c
      else if opcode = number_12_opcode_float \<or> opcode = number_13_opcode_fmadd \<or>
          opcode = number_15_opcode_fnmsub \<or> opcode = number_16_opcode_fnmadd \<or> opcode = number_14_opcode_fmsub
      then RV32Zfinx sf c
      else RV32IM u h c)"

definition RISCV :: "softfloat \<Rightarrow> undefined_values \<Rightarrow> 'm mem_hooks \<Rightarrow> 'm cpu \<Rightarrow> 'm cpu" where
  "RISCV sf u h c =
     (let c = sample_irqs c; c = c\<lparr>asy := asynchronous c\<rparr> in
      if instruction c = INST_WFI \<and> \<not> asy c \<and> \<not> page_fault_inst c \<and> \<not> page_fault_load c \<and> \<not> page_fault_store c
      then c\<lparr>exit_code := Some 1\<rparr>
      else set_gpr 0 0 (dispatch sf u h c))"

definition exec_begin :: "'m cpu \<Rightarrow> 'm cpu" where
  "exec_begin c = upd_state (\<lambda>s. s\<lparr>store_flag := False\<rparr>)
     (c\<lparr>is_csr := False, is_exception := False, is_br := False, br_taken := False, illegal_exception := False,
        page_fault_load := False, page_fault_inst := False, page_fault_store := False, asy := False,
        translation_pending := False\<rparr>)"

definition exec_fetched :: "softfloat \<Rightarrow> undefined_values \<Rightarrow> 'm mem_hooks \<Rightarrow> u32 \<Rightarrow> 'm cpu \<Rightarrow> 'm cpu" where
  "exec_fetched sf u h p_addr c =
     (case cpu_mem_read32_now h p_addr c of
        None \<Rightarrow> cpu_exception (pc (state c)) (c\<lparr>illegal_exception := True\<rparr>)
      | Some i \<Rightarrow>
          let c = c\<lparr>instruction := i\<rparr> in
          if i = INST_EBREAK
          then (let c = set_pc (pc (state c) + 4) c in if fast_run c then c\<lparr>sim_end := True, exit_code := Some 0\<rparr> else c)
          else RISCV sf u h c)"

definition cpu_exec :: "softfloat \<Rightarrow> undefined_values \<Rightarrow> 'm mem_hooks \<Rightarrow> 'm cpu \<Rightarrow> 'm cpu" where
  "cpu_exec sf u h c =
     (let c = exec_begin c in
      if translates c
      then (case va2pa h (pc (state c)) 0 c of
              (pa, c) \<Rightarrow>
                let c = c\<lparr>page_fault_inst := (pa = None)\<rparr>
                in if translation_pending c then c
                   else if page_fault_inst c then cpu_exception (pc (state c)) c
                   else exec_fetched sf u h (the pa) c)
      else exec_fetched sf u h (pc (state c)) c)"

section \<open>Reset\<close>

text \<open>A value-initialised object, over some memory, and \<^verbatim>\<open>init\<close>.\<close>

definition cpu_zero :: "'m \<Rightarrow> 'm cpu" where
  "cpu_zero m = \<lparr>state = \<lparr>gpr = replicate 32 0, csr = replicate 21 0, pc = 0, store_addr = 0, store_data = 0, store_strb = 0,
       store_flag = False\<rparr>, instruction = 0, privilege = 0, asy = False, page_fault_inst = False, page_fault_load = False,
     page_fault_store = False, illegal_exception = False, translation_pending = False,
     irqs = \<lparr>M_software_interrupt = False, M_timer_interrupt = False, M_external_interrupt = False,
       S_software_interrupt = False, S_timer_interrupt = False, S_external_interrupt = False\<rparr>,
     sim_end = False, fast_run = False, is_br = False, br_taken = False, is_csr = False, is_exception = False,
     ptw = ptw_cache_reset, fp_mode = 0, fp_flags = 0, sim_clock = 0, console = [], exit_code = None, memory = m\<rparr>"

definition cpu_init :: "u32 \<Rightarrow> 'm cpu \<Rightarrow> 'm cpu" where
  "cpu_init reset_pc c =
     (upd_state (\<lambda>s. s\<lparr>pc := reset_pc, gpr := replicate 32 0, csr := (replicate 21 0)[csr_misa := 0x40141101],
        store_flag := False\<rparr>) c)\<lparr>privilege := 3, asy := False, page_fault_inst := False, page_fault_load := False,
        page_fault_store := False, translation_pending := False, ptw := ptw_cache_reset\<rparr>"

end
