(* ===== verification/RV_Frames.thy ===== *)
theory RV_Frames
  imports RV_Exec
begin

text \<open>
  What the operations of the processor leave alone, and its invariant: the register files have their
  sizes, register 0 reads as zero between instructions, the status and interrupt enable registers
  agree with their supervisor views, the cache of page table words has its size.
\<close>

named_theorems rv_frame

section \<open>Translation\<close>

text \<open>A walk changes the memory behind the hooks, the cache of page table words and one flag.\<close>

definition walked :: "'m cpu \<Rightarrow> 'm cpu \<Rightarrow> bool" where
  "walked c c' \<longleftrightarrow> c' = c\<lparr>translation_pending := translation_pending c', memory := memory c', ptw := ptw c'\<rparr>"

lemma walked_refl: "walked c c"
  by (simp add: walked_def)

lemma walked_trans: "walked a b \<Longrightarrow> walked b c \<Longrightarrow> walked a c"
  by (cases a, cases b, cases c) (simp add: walked_def)

lemma walked_updates:
  "walked c (c\<lparr>translation_pending := b\<rparr>)" "walked c (c\<lparr>memory := m\<rparr>)" "walked c (c\<lparr>ptw := p\<rparr>)"
  by (cases c, simp add: walked_def)+

lemma phys_read_walked: "walked c (snd (cpu_phys_read32 h a c))"
  by (simp add: cpu_phys_read32_def walked_refl walked_updates split: option.split prod.split)

lemma read_pte_walked: "walked c (snd (read_pte h a c))"
proof (cases "ptw_cache_read (ptw c) a")
  case None
  obtain r pte d where d: "cpu_phys_read32 h a c = ((r, pte), d)" by (metis prod.exhaust)
  then have "walked c d" using phys_read_walked [of c h a] by simp
  then show ?thesis using None d by (auto simp: read_pte_def intro: walked_trans walked_updates)
qed (simp add: read_pte_def walked_refl)

lemma va2pa_walked: "walked c (snd (va2pa h v type c))"
proof -
  let ?c = "c\<lparr>translation_pending := False\<rparr>"
  obtain p1 c1 where 1: "read_pte h (pte1_address (creg c csr_satp) v) ?c = (p1, c1)" by (metis prod.exhaust)
  have w1: "walked c c1" using read_pte_walked [of ?c h] 1 walked_trans walked_updates(1) by (metis snd_conv)
  show ?thesis
  proof (cases p1)
    case None
    then show ?thesis using 1 w1 by (simp add: va2pa_def Let_def)
  next
    case (Some pte1)
    obtain p2 c2 where 2: "read_pte h (pte2_address pte1 v) c1 = (p2, c2)" by (metis prod.exhaust)
    have "walked c c2" using read_pte_walked [of c1 h] 2 w1 walked_trans by (metis snd_conv)
    then show ?thesis using 1 2 Some w1 by (simp add: va2pa_def Let_def split: option.split)
  qed
qed

lemma walkedD:
  assumes "walked c c'"
  shows "state c' = state c" "instruction c' = instruction c" "privilege c' = privilege c" "console c' = console c"
    "exit_code c' = exit_code c" "irqs c' = irqs c" "illegal_exception c' = illegal_exception c"
    "page_fault_inst c' = page_fault_inst c" "page_fault_load c' = page_fault_load c"
    "page_fault_store c' = page_fault_store c" "sim_clock c' = sim_clock c" "fast_run c' = fast_run c"
  using assms by (cases c, cases c', simp add: walked_def)+

section \<open>The invariant\<close>

definition regs_ok :: "cpu_state \<Rightarrow> bool" where
  "regs_ok s \<longleftrightarrow> length (gpr s) = 32 \<and> length (csr s) = 21 \<and> csr s ! csr_mstatus = csr s ! csr_sstatus \<and>
     csr s ! csr_mie = csr s ! csr_sie"

definition ptw_ok :: "ptw_cache \<Rightarrow> bool" where
  "ptw_ok p \<longleftrightarrow> length (ptw_valid p) = kPtwCacheSize \<and> length (ptw_tag p) = kPtwCacheSize \<and>
     length (ptw_data p) = kPtwCacheSize"

lemma regs_ok_set_gpr [simp]: "regs_ok (state (set_gpr r v c)) = regs_ok (state c)"
  by (simp add: regs_ok_def set_gpr_def)

lemma regs_ok_set_pc [simp]: "regs_ok (state (set_pc a c)) = regs_ok (state c)"
  by (simp add: regs_ok_def set_pc_def)

lemma regs_ok_store_fields [simp]:
  "regs_ok (s\<lparr>store_addr := a\<rparr>) = regs_ok s" "regs_ok (s\<lparr>store_data := d\<rparr>) = regs_ok s"
  "regs_ok (s\<lparr>store_strb := b\<rparr>) = regs_ok s" "regs_ok (s\<lparr>store_flag := f\<rparr>) = regs_ok s"
  by (simp_all add: regs_ok_def)

lemma regs_ok_set_csr:
  "i \<notin> {csr_mstatus, csr_sstatus, csr_mie, csr_sie} \<Longrightarrow> regs_ok (state (set_csr i v c)) = regs_ok (state c)"
  by (simp add: regs_ok_def set_csr_def)

lemma regs_ok_set_status: "regs_ok (state c) \<Longrightarrow> regs_ok (state (set_status v c))"
  by (simp add: regs_ok_def set_status_def set_csr_def)

lemma gpr_frames [rv_frame]:
  "gpr (state (set_pc a c)) = gpr (state c)" "gpr (state (set_csr i v c)) = gpr (state c)"
  "gpr (state (set_status v c)) = gpr (state c)"
  by (simp_all add: set_pc_def set_csr_def set_status_def)

lemma ptw_frames [rv_frame]:
  "ptw (set_pc a c) = ptw c" "ptw (set_csr i v c) = ptw c" "ptw (set_status v c) = ptw c" "ptw (set_gpr r v c) = ptw c"
  by (simp_all add: set_pc_def set_csr_def set_status_def set_gpr_def)

lemma set_simps [rv_frame]:
  "privilege (set_pc a c) = privilege c" "privilege (set_csr i v c) = privilege c" "privilege (set_gpr r v c) = privilege c"
  "memory (set_pc a c) = memory c" "memory (set_csr i v c) = memory c" "memory (set_status v c) = memory c"
  "memory (set_gpr r v c) = memory c" "csr (state (set_gpr r v c)) = csr (state c)" "csr (state (set_pc a c)) = csr (state c)"
  "pc (state (set_gpr r v c)) = pc (state c)" "pc (state (set_csr i v c)) = pc (state c)" "pc (state (set_pc a c)) = a"
  "pc (state (set_status v c)) = pc (state c)"
  by (simp_all add: set_pc_def set_csr_def set_status_def set_gpr_def)

lemma exception_frame [rv_frame]:
  "gpr (state (cpu_exception v c)) = gpr (state c)" "ptw (cpu_exception v c) = ptw c" "memory (cpu_exception v c) = memory c"
  by (simp_all add: cpu_exception_def Let_def rv_frame enter_m_def enter_s_def leave_m_def leave_s_def)

lemma exception_regs_ok: "regs_ok (state c) \<Longrightarrow> regs_ok (state (cpu_exception v c))"
  by (simp add: cpu_exception_def Let_def enter_m_def enter_s_def leave_m_def leave_s_def regs_ok_set_status regs_ok_set_csr)

section \<open>Stores\<close>

lemma ptw_ok_updates:
  "ptw_ok p \<Longrightarrow> ptw_ok (ptw_cache_invalidate_word a p)" "ptw_ok p \<Longrightarrow> ptw_ok (ptw_cache_fill a d p)" "ptw_ok ptw_cache_reset"
  by (simp_all add: ptw_ok_def ptw_cache_invalidate_word_def ptw_cache_fill_def ptw_cache_reset_def Let_def)

text \<open>A stage of a store, with what it may change.\<close>

definition stored :: "'m cpu \<Rightarrow> 'm cpu \<Rightarrow> bool" where
  "stored c c' \<longleftrightarrow> gpr (state c') = gpr (state c) \<and> pc (state c') = pc (state c) \<and> privilege c' = privilege c \<and>
     exit_code c' = exit_code c \<and> sim_clock c' = sim_clock c \<and> instruction c' = instruction c \<and> translation_pending c' = translation_pending c \<and>
     (regs_ok (state c) \<longrightarrow> regs_ok (state c')) \<and> (ptw_ok (ptw c) \<longrightarrow> ptw_ok (ptw c'))"

lemma stored_refl [simp]: "stored c c"
  by (simp add: stored_def)

lemma stored_trans: "stored a b \<Longrightarrow> stored b c \<Longrightarrow> stored a c"
  by (simp add: stored_def)

lemma stored_fails: "stored c d \<Longrightarrow> stored c (snd (store_fails d))"
  by (simp add: stored_def store_fails_def)

lemma stored_console: "stored c d \<Longrightarrow> stored c (d\<lparr>console := t\<rparr>)"
  by (simp add: stored_def)

lemma stored_forget: "stored c d \<Longrightarrow> stored c (forget_word a d)"
  by (simp add: stored_def forget_word_def ptw_ok_updates)

lemma stored_write: "cpu_mem_write32_now h a v s d = Some c' \<Longrightarrow> stored c d \<Longrightarrow> stored c c'"
  by (auto simp: stored_def cpu_mem_write32_now_def split: option.splits)

lemma stored_set_csr: "stored c d \<Longrightarrow> i = 4 \<or> i = 17 \<Longrightarrow> stored c (set_csr i v d)"
  by (auto simp: stored_def set_csr_def regs_ok_def)

lemmas stored_intros = stored_fails stored_forget stored_set_csr stored_console

lemma store_stages:
  "stored c (snd (store_merge h c))" "stored c (snd (store_uart h c))" "stored c (snd (store_uart_request h c))"
  "stored c (snd (store_uart_ready h c))" "stored c (snd (store_irq_complete h c))"
  by (auto simp: store_merge_def store_uart_def store_uart_request_def store_uart_ready_def store_irq_complete_def Let_def
      split: option.split) ((rule stored_intros | erule stored_write | simp)+)

lemma and_then_stored: "(\<And>d. stored d (snd (f d))) \<Longrightarrow> stored c (snd r) \<Longrightarrow> stored c (snd (and_then f r))"
  by (auto simp: and_then_def intro: stored_trans)

lemma store_shift_stored: "stored c (store_shift c)"
  by (simp add: stored_def store_shift_def Let_def regs_ok_def)

lemma cpu_store_data_stored: "stored c (cpu_store_data h c)"
proof -
  have "stored c (snd (and_then (store_irq_complete h) (and_then (store_uart_ready h) (and_then (store_uart_request h)
      (and_then (store_uart h) (store_merge h c))))))"
    by (intro and_then_stored store_stages)
  then show ?thesis by (auto simp: cpu_store_data_def Let_def intro: stored_trans store_shift_stored)
qed

section \<open>Instructions\<close>

definition cpu_ok :: "'m cpu \<Rightarrow> bool" where
  "cpu_ok c \<longleftrightarrow> regs_ok (state c) \<and> ptw_ok (ptw c)"

lemma cpu_ok_updates [simp]:
  "cpu_ok (c\<lparr>illegal_exception := b\<rparr>) = cpu_ok c" "cpu_ok (c\<lparr>page_fault_inst := b\<rparr>) = cpu_ok c"
  "cpu_ok (c\<lparr>page_fault_load := b\<rparr>) = cpu_ok c" "cpu_ok (c\<lparr>page_fault_store := b\<rparr>) = cpu_ok c"
  "cpu_ok (c\<lparr>memory := m\<rparr>) = cpu_ok c" "cpu_ok (c\<lparr>translation_pending := b\<rparr>) = cpu_ok c"
  "cpu_ok (c\<lparr>instruction := i\<rparr>) = cpu_ok c" "cpu_ok (c\<lparr>asy := b\<rparr>) = cpu_ok c" "cpu_ok (c\<lparr>irqs := q\<rparr>) = cpu_ok c"
  "cpu_ok (c\<lparr>is_br := b\<rparr>) = cpu_ok c" "cpu_ok (c\<lparr>br_taken := b\<rparr>) = cpu_ok c" "cpu_ok (c\<lparr>is_csr := b\<rparr>) = cpu_ok c"
  "cpu_ok (c\<lparr>is_exception := b\<rparr>) = cpu_ok c" "cpu_ok (c\<lparr>fp_mode := x\<rparr>) = cpu_ok c" "cpu_ok (c\<lparr>fp_flags := x\<rparr>) = cpu_ok c"
  "cpu_ok (c\<lparr>exit_code := e\<rparr>) = cpu_ok c" "cpu_ok (c\<lparr>sim_end := b\<rparr>) = cpu_ok c" "cpu_ok (c\<lparr>sim_clock := t\<rparr>) = cpu_ok c"
  "cpu_ok (set_gpr r v c) = cpu_ok c" "cpu_ok (set_pc a c) = cpu_ok c"
  "cpu_ok (write_reg r w c) = cpu_ok c"
  by (simp_all add: cpu_ok_def rv_frame write_reg_def split: option.split)

lemma cpu_ok_store_fields [simp]:
  "cpu_ok (upd_state (\<lambda>s. s\<lparr>store_flag := f, store_addr := a, store_strb := b\<rparr>) c) = cpu_ok c"
  "cpu_ok (upd_state (\<lambda>s. s\<lparr>store_flag := f, store_addr := a, store_strb := b, store_data := d\<rparr>) c) = cpu_ok c"
  "cpu_ok (upd_state (\<lambda>s. s\<lparr>store_data := d\<rparr>) c) = cpu_ok c" "cpu_ok (upd_state (\<lambda>s. s\<lparr>store_flag := f\<rparr>) c) = cpu_ok c"
  by (simp_all add: cpu_ok_def)

lemma cpu_ok_stored: "stored c c' \<Longrightarrow> cpu_ok c \<Longrightarrow> cpu_ok c'"
  by (simp add: stored_def cpu_ok_def)

lemma cpu_ok_exception [simp]: "cpu_ok c \<Longrightarrow> cpu_ok (cpu_exception v c)"
  by (simp add: cpu_ok_def exception_regs_ok rv_frame)

lemma cpu_ok_store_data [simp]: "cpu_ok c \<Longrightarrow> cpu_ok (cpu_store_data h c)"
  by (rule cpu_ok_stored [OF cpu_store_data_stored])

lemma cpu_ok_phys_read: "cpu_phys_read32 h a c = (r, d) \<Longrightarrow> cpu_ok c \<Longrightarrow> cpu_ok d"
  by (auto simp: cpu_phys_read32_def split: option.splits prod.splits)

lemma cpu_ok_fill: "cpu_ok c \<Longrightarrow> cpu_ok (c\<lparr>ptw := ptw_cache_fill a d (ptw c)\<rparr>)"
  by (simp add: cpu_ok_def ptw_ok_updates)

lemma cpu_ok_read_pte: "read_pte h a c = (r, d) \<Longrightarrow> cpu_ok c \<Longrightarrow> cpu_ok d"
  by (auto simp: read_pte_def cpu_ok_fill dest: cpu_ok_phys_read split: option.splits prod.splits if_splits)

lemma cpu_ok_va2pa: "va2pa h v t c = (r, d) \<Longrightarrow> cpu_ok c \<Longrightarrow> cpu_ok d"
  by (auto simp: va2pa_def Let_def dest!: cpu_ok_read_pte split: option.splits prod.splits if_splits)

lemma cpu_ok_write_csr: "cpu_ok c \<Longrightarrow> cpu_ok (write_csr i v c)"
proof -
  assume ok: "cpu_ok c"
  consider "i = csr_mie \<or> i = csr_sie" | "i = csr_mstatus \<or> i = csr_sstatus" | "i \<notin> {csr_mstatus, csr_sstatus, csr_mie, csr_sie}"
    by blast
  then show ?thesis
  proof cases
    case 1
    then show ?thesis using ok by (auto simp: write_csr_def Let_def cpu_ok_def rv_frame regs_ok_def set_csr_def)
  next
    case 2
    then show ?thesis using ok
      by (auto simp: write_csr_def Let_def cpu_ok_def rv_frame regs_ok_def set_csr_def number_mip_def number_sip_def)
  next
    case 3
    then show ?thesis using ok
      by (auto simp: write_csr_def Let_def cpu_ok_def rv_frame regs_ok_set_csr ptw_ok_updates)
  qed
qed

lemma cpu_ok_csr [simp]: "cpu_ok c \<Longrightarrow> cpu_ok (RV32CSR u c)"
  by (simp add: RV32CSR_def Let_def cpu_ok_write_csr)

lemma cpu_ok_amo_execute: "cpu_ok c \<Longrightarrow> cpu_ok (amo_execute h v p c)"
  by (simp add: amo_execute_def Let_def split: option.split)

lemma cpu_ok_amo [simp]: "cpu_ok c \<Longrightarrow> cpu_ok (RV32A h c)"
  by (auto simp: RV32A_def Let_def cpu_ok_amo_execute dest: cpu_ok_va2pa split: prod.split)

lemma cpu_ok_load: "cpu_ok c \<Longrightarrow> cpu_ok (cpu_load h c)"
  by (auto simp: cpu_load_def load_execute_def Let_def dest: cpu_ok_va2pa split: prod.split option.split)

lemma cpu_ok_store: "cpu_ok c \<Longrightarrow> cpu_ok (cpu_store h c)"
  by (auto simp: cpu_store_def store_execute_def Let_def dest: cpu_ok_va2pa split: prod.split option.split)

lemma cpu_ok_integer [simp]: "cpu_ok c \<Longrightarrow> cpu_ok (RV32IM u h c)"
  by (simp add: RV32IM_def Let_def cpu_ok_load cpu_ok_store)

lemma cpu_ok_float [simp]: "cpu_ok c \<Longrightarrow> cpu_ok (RV32Zfinx sf c)"
  by (simp add: RV32Zfinx_def Let_def split: option.split fp_outcome.split)

lemma cpu_ok_sample [simp]: "cpu_ok (sample_irqs c) = cpu_ok c"
  by (simp add: sample_irqs_def Let_def)

lemma cpu_ok_dispatch [simp]: "cpu_ok c \<Longrightarrow> cpu_ok (dispatch sf u h c)"
  by (simp add: dispatch_def Let_def)

lemma cpu_ok_riscv: "cpu_ok c \<Longrightarrow> cpu_ok (RISCV sf u h c)"
  by (simp add: RISCV_def Let_def)

lemma cpu_ok_fetched: "cpu_ok c \<Longrightarrow> cpu_ok (exec_fetched sf u h p c)"
  by (simp add: exec_fetched_def Let_def cpu_ok_riscv split: option.split)

lemma cpu_ok_begin [simp]: "cpu_ok (exec_begin c) = cpu_ok c"
  by (simp add: exec_begin_def)

lemma cpu_ok_exec: "cpu_ok c \<Longrightarrow> cpu_ok (cpu_exec sf u h c)"
  by (auto simp: cpu_exec_def Let_def cpu_ok_fetched dest: cpu_ok_va2pa split: prod.split)

section \<open>Register zero\<close>

lemma sample_irqs_frame [rv_frame]:
  "state (sample_irqs c) = state c" "instruction (sample_irqs c) = instruction c" "privilege (sample_irqs c) = privilege c"
  "memory (sample_irqs c) = memory c" "ptw (sample_irqs c) = ptw c" "translation_pending (sample_irqs c) = translation_pending c"
  "illegal_exception (sample_irqs c) = illegal_exception c" "page_fault_inst (sample_irqs c) = page_fault_inst c"
  "page_fault_load (sample_irqs c) = page_fault_load c" "page_fault_store (sample_irqs c) = page_fault_store c"
  "console (sample_irqs c) = console c" "exit_code (sample_irqs c) = exit_code c"
  by (simp_all add: sample_irqs_def Let_def)

lemma set_gpr_zero: "cpu_ok c \<Longrightarrow> gpr (state (set_gpr 0 0 c)) ! 0 = 0"
  by (simp add: set_gpr_def cpu_ok_def regs_ok_def)

lemma riscv_zero:
  assumes "cpu_ok c" "gpr (state c) ! 0 = 0"
  shows "gpr (state (RISCV sf u h c)) ! 0 = 0"
  using assms by (simp add: RISCV_def Let_def rv_frame set_gpr_zero)

lemma fetched_zero:
  assumes "cpu_ok c" "gpr (state c) ! 0 = 0"
  shows "gpr (state (exec_fetched sf u h p c)) ! 0 = 0"
  using assms by (simp add: exec_fetched_def Let_def rv_frame riscv_zero split: option.split)

lemma exec_begin_frame [rv_frame]:
  "gpr (state (exec_begin c)) = gpr (state c)" "csr (state (exec_begin c)) = csr (state c)" "pc (state (exec_begin c)) = pc (state c)"
  "privilege (exec_begin c) = privilege c" "memory (exec_begin c) = memory c" "ptw (exec_begin c) = ptw c"
  "instruction (exec_begin c) = instruction c" "console (exec_begin c) = console c" "exit_code (exec_begin c) = exit_code c"
  "translates (exec_begin c) = translates c" "irqs (exec_begin c) = irqs c"
  by (simp_all add: exec_begin_def translates_def)

lemma exec_zero:
  assumes "cpu_ok c" "gpr (state c) ! 0 = 0"
  shows "gpr (state (cpu_exec sf u h c)) ! 0 = 0"
proof -
  let ?c = "exec_begin c"
  obtain pa d where d: "va2pa h (pc (state ?c)) 0 ?c = (pa, d)" by (metis prod.exhaust)
  have "cpu_ok d" using cpu_ok_va2pa [OF d] assms(1) by simp
  moreover have "gpr (state d) = gpr (state c)"
    using walkedD(1) [OF va2pa_walked [of ?c h "pc (state ?c)" 0]] d by (simp add: rv_frame)
  ultimately show ?thesis
    using assms d by (simp add: cpu_exec_def Let_def fetched_zero rv_frame)
qed

end
