(* ===== verification/RV_Control.thy ===== *)
theory RV_Control
  imports RV_Frames
begin

text \<open>
  Control of the processor: the invariant over runs, and instructions that wait for a page table word.
\<close>

section \<open>Runs\<close>

text \<open>Between two instructions the memory and the clock may change.\<close>

definition cpu_cycle ::
  "softfloat \<Rightarrow> undefined_values \<Rightarrow> 'm mem_hooks \<Rightarrow> ('m \<Rightarrow> 'm) \<times> u64 \<Rightarrow> 'm cpu \<Rightarrow> 'm cpu" where
  "cpu_cycle sf u h i c = cpu_exec sf u h (c\<lparr>memory := fst i (memory c), sim_clock := snd i\<rparr>)"

definition cpu_inv :: "'m cpu \<Rightarrow> bool" where
  "cpu_inv c \<longleftrightarrow> cpu_ok c \<and> gpr (state c) ! 0 = 0"

lemma cpu_inv_init: "cpu_inv (cpu_init a c)"
  by (simp add: cpu_inv_def cpu_init_def cpu_ok_def regs_ok_def ptw_ok_updates)

lemma cpu_inv_exec: "cpu_inv c \<Longrightarrow> cpu_inv (cpu_exec sf u h c)"
  by (simp add: cpu_inv_def cpu_ok_exec exec_zero)

lemma cpu_inv_cycle: "cpu_inv c \<Longrightarrow> cpu_inv (cpu_cycle sf u h i c)"
  unfolding cpu_cycle_def by (rule cpu_inv_exec) (simp add: cpu_inv_def)

interpretation cpu: clocked_machine "cpu_init a c" "cpu_cycle sf u h" "\<lambda>_ _. True" cpu_inv
  by unfold_locales (simp_all add: cpu_inv_init cpu_inv_cycle)

text \<open>C25: In any run, over any memory, the register files keep their sizes, register 0 reads as zero and the status and interrupt enable registers agree with their supervisor views.\<close>

theorem rv_runs_well_formed:
  "let c = run_cycles (cpu_cycle sf u h) inputs (cpu_init a c0)
   in length (gpr (state c)) = 32 \<and> gpr (state c) ! 0 = 0 \<and> length (csr (state c)) = 21 \<and>
      creg c csr_mstatus = creg c csr_sstatus \<and> creg c csr_mie = creg c csr_sie"
  using cpu.inv_reachable [of sf u h inputs a c0] by (simp add: Let_def cpu_inv_def cpu_ok_def regs_ok_def)

section \<open>Waiting for a page table word\<close>

lemma pending_frame [rv_frame]:
  "translation_pending (set_pc a c) = translation_pending c" "translation_pending (set_csr i v c) = translation_pending c"
  "translation_pending (set_gpr r v c) = translation_pending c" "translation_pending (set_status v c) = translation_pending c"
  "translation_pending (write_reg r w c) = translation_pending c"
  by (simp_all add: set_pc_def set_csr_def set_gpr_def set_status_def write_reg_def split: option.split)

lemma exception_pending [rv_frame]: "translation_pending (cpu_exception v c) = translation_pending c"
  by (simp add: cpu_exception_def Let_def rv_frame enter_m_def enter_s_def leave_m_def leave_s_def)

lemma store_data_pending [rv_frame]: "translation_pending (cpu_store_data h c) = translation_pending c"
  using cpu_store_data_stored [of c h] by (simp add: stored_def)

lemma execute_pending [rv_frame]:
  "translation_pending (amo_execute h v p c) = translation_pending c"
  "translation_pending (load_execute h v p c) = translation_pending c"
  "translation_pending (store_execute h p c) = translation_pending c"
  "translation_pending (RV32CSR u c) = translation_pending c"
  "translation_pending (RV32Zfinx sf c) = translation_pending c"
  by (simp_all add: amo_execute_def load_execute_def store_execute_def RV32CSR_def RV32Zfinx_def write_csr_def Let_def rv_frame
      split: option.split fp_outcome.split)

text \<open>What an instruction that waits does not touch.\<close>

definition same_context :: "'m cpu \<Rightarrow> 'm cpu \<Rightarrow> bool" where
  "same_context c c' \<longleftrightarrow> gpr (state c') = gpr (state c) \<and> csr (state c') = csr (state c) \<and> pc (state c') = pc (state c) \<and>
     privilege c' = privilege c \<and> console c' = console c \<and> exit_code c' = exit_code c"

lemma same_context_walked: "walked c c' \<Longrightarrow> same_context c c'"
  by (simp add: same_context_def walkedD)

lemma va2pa_same: "va2pa h v t c = (pa, d) \<Longrightarrow> same_context c d"
  using va2pa_walked [of c h v t] by (auto intro: same_context_walked)

lemma same_context_faults [simp]:
  "same_context c (d\<lparr>page_fault_load := b\<rparr>) = same_context c d" "same_context c (d\<lparr>page_fault_store := b\<rparr>) = same_context c d"
  "same_context c (d\<lparr>page_fault_inst := b\<rparr>) = same_context c d"
  by (simp_all add: same_context_def)

lemma load_waits:
  assumes "\<not> translation_pending c" "translation_pending (cpu_load h c)"
  shows "same_context c (cpu_load h c)"
proof -
  obtain pa d where d: "va2pa h (relative (reg c (field (instruction c) 19 15)) (immI (instruction c))) 1 c = (pa, d)"
    by (metis prod.exhaust)
  show ?thesis using assms va2pa_same [OF d]
    by (cases "translates c"; cases "translation_pending d"; simp add: cpu_load_def Let_def d rv_frame split: if_splits)
qed

lemma store_waits:
  assumes "\<not> translation_pending c" "translation_pending (cpu_store h c)"
  shows "same_context c (cpu_store h c)"
proof -
  obtain pa d where d: "va2pa h (relative (reg c (field (instruction c) 19 15)) (immS (instruction c))) 2 c = (pa, d)"
    by (metis prod.exhaust)
  show ?thesis using assms va2pa_same [OF d]
    by (cases "translates c"; cases "translation_pending d"; simp add: cpu_store_def Let_def d rv_frame split: if_splits)
qed

lemma amo_waits:
  assumes "\<not> translation_pending c" "translation_pending (RV32A h c)"
  shows "same_context c (RV32A h c)"
proof -
  let ?load = "field (instruction c) 31 27 = 2"
  obtain pa d where d: "va2pa h (reg c (field (instruction c) 19 15)) (if ?load then 1 else 2) c = (pa, d)"
    by (metis prod.exhaust)
  define e where "e = (if pa = None then (if ?load then d\<lparr>page_fault_load := True\<rparr> else d\<lparr>page_fault_store := True\<rparr>) else d)"
  have "translation_pending e = translation_pending d" by (simp add: e_def)
  then show ?thesis using assms va2pa_same [OF d]
    by (cases "translates c"; cases "translation_pending d"; simp add: RV32A_def Let_def d rv_frame flip: e_def split: if_splits)
qed

lemma integer_pending:
  "field (instruction c) 6 0 \<notin> {number_5_opcode_lb, number_6_opcode_sb} \<Longrightarrow> translation_pending (RV32IM u h c) = translation_pending c"
  by (simp add: RV32IM_def Let_def rv_frame if_distrib [of translation_pending] cong: if_cong)

lemma integer_waits:
  assumes "\<not> translation_pending c" "translation_pending (RV32IM u h c)"
  shows "same_context c (RV32IM u h c)"
proof -
  have "field (instruction c) 6 0 \<in> {number_5_opcode_lb, number_6_opcode_sb}" using integer_pending assms by blast
  then have "RV32IM u h c = cpu_load h c \<or> RV32IM u h c = cpu_store h c"
    by (elim insertE) (simp_all add: RV32IM_def Let_def opcode_defs)
  then show ?thesis using assms load_waits store_waits by metis
qed

lemma dispatch_cases:
  "dispatch sf u h c = RV32A h c \<or> dispatch sf u h c = RV32IM u h c \<or> translation_pending (dispatch sf u h c) = translation_pending c"
  by (simp add: dispatch_def Let_def rv_frame)

lemma dispatch_waits:
  assumes "\<not> translation_pending c" "translation_pending (dispatch sf u h c)"
  shows "same_context c (dispatch sf u h c)"
  using assms integer_waits amo_waits dispatch_cases by metis

lemma set_zero_same: "cpu_inv c \<Longrightarrow> same_context c d \<Longrightarrow> same_context c (set_gpr 0 0 d)"
  by (auto simp: same_context_def set_gpr_def cpu_inv_def list_update_same_conv cpu_ok_def regs_ok_def)

lemma riscv_waits:
  assumes "cpu_inv c" "\<not> translation_pending c" "translation_pending (RISCV sf u h c)"
  shows "same_context c (RISCV sf u h c)"
proof -
  let ?s = "(sample_irqs c)\<lparr>asy := asynchronous (sample_irqs c)\<rparr>"
  have "RISCV sf u h c = set_gpr 0 0 (dispatch sf u h ?s)"
    using assms(2,3) by (auto simp: RISCV_def Let_def rv_frame split: if_splits)
  moreover have "same_context c ?s" by (simp add: same_context_def rv_frame)
  ultimately show ?thesis
    using dispatch_waits [of ?s] assms by (auto simp: rv_frame intro!: set_zero_same) (auto simp: same_context_def)
qed

text \<open>C24: An instruction that waits for a page table word changes no register, control register, address, privilege or output.\<close>

theorem rv_waiting_has_no_effect:
  assumes "cpu_inv c" "translation_pending (cpu_exec sf u h c)"
  shows "same_context c (cpu_exec sf u h c)"
proof -
  let ?c = "exec_begin c"
  obtain pa d where d: "va2pa h (pc (state ?c)) 0 ?c = (pa, d)" by (metis prod.exhaust)
  have start: "same_context c ?c" "cpu_inv ?c" "\<not> translation_pending ?c"
    using assms(1) by (simp_all add: same_context_def rv_frame cpu_inv_def) (simp add: exec_begin_def)
  have fetch: "same_context c (exec_fetched sf u h p e)"
    if w: "same_context c e" "cpu_inv e" "\<not> translation_pending e" "translation_pending (exec_fetched sf u h p e)" for p e
  proof -
    obtain i where "cpu_mem_read32_now h p e = Some i" "i \<noteq> INST_EBREAK"
      using w(3,4) by (auto simp: exec_fetched_def Let_def rv_frame split: option.splits if_splits)
    then show ?thesis using w riscv_waits [of "e\<lparr>instruction := i\<rparr>" sf u h]
      by (simp add: exec_fetched_def Let_def same_context_def cpu_inv_def)
  qed
  show ?thesis
  proof (cases "translates ?c")
    case True
    have "cpu_inv d" using cpu_ok_va2pa [OF d] start va2pa_same [OF d] by (simp add: cpu_inv_def same_context_def)
    moreover have "same_context c d" using va2pa_same [OF d] start(1) by (simp add: same_context_def)
    moreover have "cpu_inv (d\<lparr>page_fault_inst := b\<rparr>) = cpu_inv d" for b by (simp add: cpu_inv_def)
    ultimately show ?thesis using True assms(2) d fetch [of "d\<lparr>page_fault_inst := pa = None\<rparr>" "the pa"]
      by (cases "translation_pending d"; cases pa) (simp_all add: cpu_exec_def Let_def rv_frame)
  next
    case False
    then show ?thesis using assms(2) fetch [OF start] by (simp add: cpu_exec_def Let_def)
  qed
qed

text \<open>A supervisor under translation, whose walk is never answered.\<close>

definition never_answers :: "unit mem_hooks" where
  "never_answers = \<lparr>walk_hook = Some (\<lambda>_ m. ((CPU_MEM_READ_PENDING, 0), m)), read_now_hook = None, write_now_hook = None\<rparr>"

definition translated :: "unit cpu" where
  "translated = set_csr csr_satp 0x80000000 ((cpu_init 0x1000 (cpu_zero ()))\<lparr>privilege := 1\<rparr>)"

theorem rv_waiting_has_no_effect_witness:
  "\<forall>sf u. same_context translated (cpu_exec sf u never_answers translated)"
proof (intro allI rv_waiting_has_no_effect)
  have init: "cpu_inv (cpu_init 0x1000 (cpu_zero ()))" by (rule cpu_inv_init)
  then show "cpu_inv translated"
    by (simp add: translated_def cpu_inv_def cpu_ok_def set_csr_def regs_ok_def)
  show "translation_pending (cpu_exec sf u never_answers translated)" for sf u
  proof -
    have "ptw_cache_read ptw_cache_reset 0 = None"
      by (simp add: ptw_cache_read_def ptw_cache_reset_def ptw_cache_index_def kPtwCacheSize_def)
    then show ?thesis
      by (simp add: cpu_exec_def translated_def exec_begin_def set_csr_def cpu_init_def translates_def va2pa_def pte1_address_def
          read_pte_def cpu_phys_read32_def never_answers_def Let_def)
  qed
qed

end
