(* ===== verification/RV_Traps.thy ===== *)
theory RV_Traps
  imports RV_Control
begin

text \<open>
  Traps and returns, on the bits of the status register: a return undoes a trap, and what the
  cause is when several conditions hold.
\<close>

section \<open>The status register, bit by bit\<close>

named_theorems status_simps

lemma bit_of_power: "m = (2 ^ k :: u32) \<Longrightarrow> k < 32 \<Longrightarrow> bit m n \<longleftrightarrow> n = k"
  by (auto simp: bit_simps)

lemma status_bit [status_simps]:
  "bit MSTATUS_SIE n \<longleftrightarrow> n = 1" "bit MSTATUS_MIE n \<longleftrightarrow> n = 3" "bit MSTATUS_SPIE n \<longleftrightarrow> n = 5" "bit MSTATUS_MPIE n \<longleftrightarrow> n = 7"
  "bit MSTATUS_SPP n \<longleftrightarrow> n = 8"
  by (rule bit_of_power; simp add: MSTATUS_SIE_def MSTATUS_MIE_def MSTATUS_SPIE_def MSTATUS_MPIE_def MSTATUS_SPP_def)+

lemma mpp_bit [status_simps]: "bit MSTATUS_MPP n \<longleftrightarrow> n = 11 \<or> n = 12"
proof -
  have *: "MSTATUS_MPP = 2 ^ 11 OR 2 ^ 12" by (simp add: MSTATUS_MPP_def)
  show ?thesis unfolding * bit_or_iff bit_of_power [OF refl, of 11, simplified] bit_of_power [OF refl, of 12, simplified]
    using bit_of_power [OF refl, of 11 n] bit_of_power [OF refl, of 12 n] by simp
qed

lemma flag_bit [status_simps]:
  "flag x MSTATUS_SIE \<longleftrightarrow> bit x 1" "flag x MSTATUS_MIE \<longleftrightarrow> bit x 3" "flag x MSTATUS_SPIE \<longleftrightarrow> bit x 5" "flag x MSTATUS_MPIE \<longleftrightarrow> bit x 7"
  "flag x MSTATUS_SPP \<longleftrightarrow> bit x 8"
  by (rule flag_of_power; simp add: MSTATUS_SIE_def MSTATUS_MIE_def MSTATUS_SPIE_def MSTATUS_MPIE_def MSTATUS_SPP_def)+

lemma bit_put_bit [status_simps]: "n < 32 \<Longrightarrow> bit (put_bit m b x) n \<longleftrightarrow> (if bit m n then b else bit x n)"
  by (auto simp: put_bit_def bit_and_iff bit_or_iff bit_not_iff)

lemma bit_three: "bit (3 :: 'a::len word) n \<longleftrightarrow> n < 2 \<and> n < LENGTH('a)"
proof -
  have *: "(3 :: 'a word) = mask 2" by (simp add: mask_eq_exp_minus_1)
  show ?thesis unfolding * bit_mask_iff by auto
qed

lemma mpp_value_bit [status_simps]: "n < 32 \<Longrightarrow> bit (push_bit 11 (ucast (p :: u8) AND 3) :: u32) n \<longleftrightarrow> (n = 11 \<or> n = 12) \<and> bit p (n - 11)"
  unfolding bit_push_bit_iff bit_and_iff bit_three by (auto simp: bit_simps)

lemma GET_MPP_bit [status_simps]: "bit (GET_MPP x) n \<longleftrightarrow> n < 2 \<and> bit x (n + 11)"
  unfolding GET_MPP_def bit_and_iff bit_three by (auto simp: bit_simps add.commute)

lemmas word_bits = bit_and_iff bit_or_iff bit_not_iff

lemma privilege_bits:
  assumes "r < (4 :: u8)" "bit r n"
  shows "n < 2"
proof -
  have "r = take_bit 2 r" using assms(1) by (simp add: take_bit_eq_mod word_less_nat_alt word_unat_eq_iff unat_mod)
  then show ?thesis using assms(2) by (metis bit_take_bit_iff)
qed

section \<open>Into machine mode and back\<close>

text \<open>The status register after a trap into machine mode, and after a return from it.\<close>

definition m_trap_status :: "u8 \<Rightarrow> u32 \<Rightarrow> u32" where
  "m_trap_status p x =
     (let y = (x AND NOT MSTATUS_MPP) OR push_bit 11 (ucast p AND 3)
      in put_bit MSTATUS_MPIE (flag y MSTATUS_MIE) y AND NOT MSTATUS_MIE)"

lemma m_trap_status_bit:
  "n < 32 \<Longrightarrow> bit (m_trap_status p x) n \<longleftrightarrow>
     n \<noteq> 3 \<and> (if n = 7 then bit x 3 else if n = 11 \<or> n = 12 then bit p (n - 11) else bit x n)"
proof -
  assume n: "n < 32"
  define q :: u32 where "q = push_bit 11 (ucast p AND 3)"
  have q: "i < 32 \<Longrightarrow> bit q i \<longleftrightarrow> (i = 11 \<or> i = 12) \<and> bit p (i - 11)" for i
    unfolding q_def by (rule mpp_value_bit)
  have "m_trap_status p x = put_bit MSTATUS_MPIE (flag ((x AND NOT MSTATUS_MPP) OR q) MSTATUS_MIE)
      ((x AND NOT MSTATUS_MPP) OR q) AND NOT MSTATUS_MIE"
    by (simp only: m_trap_status_def Let_def q_def)
  then show ?thesis using n q [OF n] q [of 3] by (auto simp: status_simps word_bits)
qed

lemma read_csrs [simp]:
  "csr (state (set_csr i v c)) = (csr (state c))[i := v]" "csr (state (set_status v c)) = (csr (state c))[15 := v, 7 := v]"
  by (simp_all add: set_csr_def set_status_def)

lemma trap_conditions [simp]:
  "MTrap (c\<lparr>is_exception := b\<rparr>) = MTrap c" "STrap (c\<lparr>is_exception := b\<rparr>) = STrap c"
  "m_interrupt (c\<lparr>is_exception := b\<rparr>) = m_interrupt c" "s_interrupt (c\<lparr>is_exception := b\<rparr>) = s_interrupt c"
  "m_exception_code (c\<lparr>is_exception := b\<rparr>) = m_exception_code c" "s_exception_code (c\<lparr>is_exception := b\<rparr>) = s_exception_code c"
  "is_mret (c\<lparr>is_exception := b\<rparr>) = is_mret c" "is_sret (c\<lparr>is_exception := b\<rparr>) = is_sret c"
  by (simp_all add: MTrap_def STrap_def m_interrupt_def s_interrupt_def m_exception_code_def s_exception_code_def
      is_ecall_def is_mret_def is_sret_def delegated_def)

lemma enter_m_trap:
  assumes "MTrap c"
  shows "privilege (cpu_exception v c) = 3"
    "pc (state (cpu_exception v c)) = trap_vector (creg c csr_mtvec) ((if m_interrupt c then 0x80000000 else 0) OR m_exception_code c)"
    "csr (state (cpu_exception v c)) = (csr (state c))[csr_mepc := pc (state c),
       csr_mcause := (if m_interrupt c then 0x80000000 else 0) OR m_exception_code c,
       csr_sstatus := m_trap_status (privilege c) (creg c csr_mstatus), csr_mstatus := m_trap_status (privilege c) (creg c csr_mstatus),
       csr_mtval := v]"
  using assms by (simp_all add: cpu_exception_def enter_m_def Let_def m_trap_status_def rv_frame)

lemma leave_m_return:
  assumes "\<not> MTrap c" "\<not> STrap c" "is_mret c"
  shows "pc (state (cpu_exception v c)) = creg c csr_mepc" "privilege (cpu_exception v c) = ucast (GET_MPP (creg c csr_mstatus))"
    "n < 32 \<Longrightarrow> length (csr (state c)) = 21 \<Longrightarrow> bit (creg (cpu_exception v c) csr_mstatus) n \<longleftrightarrow>
       (if n = 3 then bit (creg c csr_mstatus) 7 else n = 7 \<or> n \<noteq> 11 \<and> n \<noteq> 12 \<and> bit (creg c csr_mstatus) n)"
proof -
  have put: "GET_MPP (put_bit MSTATUS_MIE b x) = GET_MPP x" for b x
    by (rule bit_word_eqI) (auto simp: status_simps)
  show "pc (state (cpu_exception v c)) = creg c csr_mepc" "privilege (cpu_exception v c) = ucast (GET_MPP (creg c csr_mstatus))"
    using assms by (simp_all add: cpu_exception_def leave_m_def Let_def put rv_frame)
  show "bit (creg (cpu_exception v c) csr_mstatus) n \<longleftrightarrow>
       (if n = 3 then bit (creg c csr_mstatus) 7 else n = 7 \<or> n \<noteq> 11 \<and> n \<noteq> 12 \<and> bit (creg c csr_mstatus) n)"
    if "n < 32" "length (csr (state c)) = 21"
    using assms that by (auto simp: cpu_exception_def leave_m_def Let_def rv_frame status_simps word_bits)
qed

text \<open>C23: A return from a trap into machine mode restores the address, the privilege and the interrupt enable bit the trap saved.\<close>

theorem rv_return_undoes_trap:
  assumes "cpu_ok c" "privilege c < 4" "MTrap c"
    and handler: "csr (state e) = csr (state (cpu_exception v c))" "is_mret e" "\<not> MTrap e" "\<not> STrap e"
  shows "(privilege (cpu_exception v c) = 3 \<and> \<not> flag (creg (cpu_exception v c) csr_mstatus) MSTATUS_MIE) \<and>
    pc (state (cpu_exception w e)) = pc (state c) \<and> privilege (cpu_exception w e) = privilege c \<and>
    (flag (creg (cpu_exception w e) csr_mstatus) MSTATUS_MIE \<longleftrightarrow> flag (creg c csr_mstatus) MSTATUS_MIE)"
proof (intro conjI)
  have len: "length (csr (state c)) = 21" using assms(1) by (simp add: cpu_ok_def regs_ok_def)
  let ?d = "cpu_exception v c"
  note d = enter_m_trap [OF assms(3), of v]
  have st: "creg ?d csr_mstatus = m_trap_status (privilege c) (creg c csr_mstatus)" "creg ?d csr_mepc = pc (state c)"
    by (simp_all add: d(3) len)
  note r = leave_m_return [OF handler(3,4,2), where v = w]
  show "privilege ?d = 3" "\<not> flag (creg ?d csr_mstatus) MSTATUS_MIE"
    using d(1) st(1) m_trap_status_bit [of 3] by (simp_all add: status_simps)
  show "pc (state (cpu_exception w e)) = pc (state c)" using r(1) handler(1) st(2) by simp
  have "length (csr (state e)) = 21" using handler(1) d(3) len by simp
  then show "flag (creg (cpu_exception w e) csr_mstatus) MSTATUS_MIE \<longleftrightarrow> flag (creg c csr_mstatus) MSTATUS_MIE"
    using r(3) [where n = 3] handler(1) st(1) m_trap_status_bit [of 7] by (simp add: status_simps)
  have mpp: "bit (GET_MPP (creg ?d csr_mstatus)) n \<longleftrightarrow> n < 2 \<and> bit (privilege c) n" for n
    using m_trap_status_bit [of "n + 11"] st(1) by (cases "n = 0"; cases "n = 1") (auto simp: status_simps)
  have "ucast (GET_MPP (creg ?d csr_mstatus)) = privilege c"
    using privilege_bits [OF assms(2)] by (intro bit_word_eqI) (auto simp: mpp [unfolded csr_indices] bit_ucast_iff)
  then show "privilege (cpu_exception w e) = privilege c" using r(2) handler(1) by simp
qed

text \<open>A system call from user mode, and the return from it.\<close>

definition user_call :: "unit cpu" where
  "user_call = (cpu_init 0x80000000 (cpu_zero ()))\<lparr>instruction := INST_ECALL, privilege := 0\<rparr>"

definition user_call_return :: "unit cpu" where
  "user_call_return = (cpu_exception 0 user_call)\<lparr>instruction := INST_MRET\<rparr>"

theorem rv_return_undoes_trap_witness:
  "pc (state (cpu_exception 0 user_call_return)) = 0x80000000 \<and> privilege (cpu_exception 0 user_call_return) = 0"
proof -
  have ok: "cpu_ok user_call" "privilege user_call < 4" "pc (state user_call) = 0x80000000" "privilege user_call = 0"
    using cpu_inv_init [where a = "0x80000000" and c = "cpu_zero ()"]
    by (simp_all add: user_call_def cpu_inv_def cpu_ok_def cpu_init_def)
  have trap: "MTrap user_call" "\<not> MTrap user_call_return" "\<not> STrap user_call_return" "is_mret user_call_return"
    "csr (state user_call_return) = csr (state (cpu_exception 0 user_call))"
    by (simp_all add: user_call_return_def cpu_exception_def enter_m_def Let_def MTrap_def STrap_def user_call_def
        cpu_init_def cpu_zero_def m_interrupt_def s_interrupt_def delegated_def is_ecall_def is_mret_def INST_ECALL_def
        INST_MRET_def set_pc_def set_csr_def set_status_def)
  show ?thesis using rv_return_undoes_trap [OF ok(1,2) trap(1,5,4,2,3), where w = 0] ok(3,4) by simp
qed

end
