(* ===== verification/RV_Faults.thy ===== *)
theory RV_Faults
  imports RV_Control
begin

text \<open>
  What the processor does against the instruction set: a floating point instruction with a reserved
  rounding mode raises no trap and does not move on, so it is executed again for ever; a load-reserved
  repeats the last store; a write to \<^verbatim>\<open>mip\<close> does not reach \<^verbatim>\<open>sip\<close>.
\<close>

text \<open>Interrupts, as \<open>sample_irqs\<close> finds them.\<close>

definition quiet_irqs :: "'m cpu \<Rightarrow> bool" where
  "quiet_irqs c \<longleftrightarrow> \<not> m_interrupt (sample_irqs c) \<and> \<not> s_interrupt (sample_irqs c)"

definition float_opcodes :: "u32 set" where
  "float_opcodes = {number_12_opcode_float, number_13_opcode_fmadd, number_14_opcode_fmsub, number_15_opcode_fnmsub, number_16_opcode_fnmadd}"

text \<open>The processor is at an instruction of this kind, without translation and without interrupts.\<close>

definition at_reserved_rounding :: "'m mem_hooks \<Rightarrow> u32 \<Rightarrow> 'm cpu \<Rightarrow> bool" where
  "at_reserved_rounding h i c \<longleftrightarrow> cpu_inv c \<and> \<not> translates c \<and> quiet_irqs c \<and> cpu_mem_read32_now h (pc (state c)) c = Some i \<and>
     field i 6 0 \<in> float_opcodes \<and> drop_bit 12 i AND 7 \<in> {5, 6}"

lemma quiet_same: "csr (state d) = csr (state c) \<Longrightarrow> privilege d = privilege c \<Longrightarrow> quiet_irqs d = quiet_irqs c"
  by (simp add: quiet_irqs_def m_interrupt_def s_interrupt_def sample_irqs_def irq_wanted_def Let_def)

lemma translates_same: "csr (state d) = csr (state c) \<Longrightarrow> privilege d = privilege c \<Longrightarrow> translates d = translates c"
  by (simp add: translates_def)

lemma system_opcode:
  "field INST_EBREAK 6 0 = number_10_opcode_ecall" "field INST_ECALL 6 0 = number_10_opcode_ecall"
  "field INST_MRET 6 0 = number_10_opcode_ecall" "field INST_SRET 6 0 = number_10_opcode_ecall"
  "field INST_WFI 6 0 = number_10_opcode_ecall"
  by (simp_all add: field_def BITS_def INST_EBREAK_def INST_ECALL_def INST_MRET_def INST_SRET_def INST_WFI_def
      number_10_opcode_ecall_def mask_eq_exp_minus_1)

lemma float_is_not_system:
  assumes "field i 6 0 \<in> float_opcodes"
  shows "i \<notin> {INST_EBREAK, INST_ECALL, INST_MRET, INST_SRET, INST_WFI}" "field i 6 0 \<noteq> number_10_opcode_ecall"
    "field i 6 0 \<noteq> number_11_opcode_lrw"
proof -
  show ne: "field i 6 0 \<noteq> number_10_opcode_ecall" "field i 6 0 \<noteq> number_11_opcode_lrw"
    using assms by (auto simp: float_opcodes_def opcode_defs)
  then show "i \<notin> {INST_EBREAK, INST_ECALL, INST_MRET, INST_SRET, INST_WFI}" using system_opcode by auto
qed

lemma reserved_rounding: "r \<in> {5, 6} \<Longrightarrow> rounding_mode r = None"
  by (auto simp: rounding_mode_def)

lemma reserved_riscv:
  assumes "field (instruction c) 6 0 \<in> float_opcodes" "drop_bit 12 (instruction c) AND 7 \<in> {5, 6}" "quiet_irqs c"
    "\<not> page_fault_inst c" "\<not> illegal_exception c"
  shows "RISCV sf u h c = set_gpr 0 0 ((sample_irqs c)\<lparr>asy := False, illegal_exception := True\<rparr>)"
proof -
  let ?s = "sample_irqs c"
  note ins = float_is_not_system [OF assms(1)]
  have "\<not> asynchronous ?s"
    using assms(3-5) ins(1) by (simp add: asynchronous_def quiet_irqs_def is_ecall_def is_mret_def is_sret_def rv_frame)
  moreover have "RV32Zfinx sf d = d\<lparr>illegal_exception := True\<rparr>" if "instruction d = instruction c" for d :: "'a cpu"
    using reserved_rounding [OF assms(2)] by (simp add: RV32Zfinx_def that)
  moreover have "field (instruction c) 6 0 = number_12_opcode_float \<or> field (instruction c) 6 0 = number_13_opcode_fmadd \<or>
      field (instruction c) 6 0 = number_15_opcode_fnmsub \<or> field (instruction c) 6 0 = number_16_opcode_fnmadd \<or>
      field (instruction c) 6 0 = number_14_opcode_fmsub"
    using assms(1) by (auto simp: float_opcodes_def)
  ultimately show ?thesis using ins assms(4,5) by (simp add: RISCV_def dispatch_def Let_def rv_frame)
qed

lemma reserved_exec:
  assumes "at_reserved_rounding h i c"
  shows "at_reserved_rounding h i (cpu_exec sf u h c) \<and> same_context c (cpu_exec sf u h c) \<and> illegal_exception (cpu_exec sf u h c) \<and>
    \<not> is_exception (cpu_exec sf u h c)"
proof -
  let ?e = "(exec_begin c)\<lparr>instruction := i\<rparr>"
  have c: "cpu_inv c" "\<not> translates c" "quiet_irqs c" "cpu_mem_read32_now h (pc (state c)) c = Some i"
    "field i 6 0 \<in> float_opcodes" "drop_bit 12 i AND 7 \<in> {5, 6}" using assms by (simp_all add: at_reserved_rounding_def)
  have e: "csr (state ?e) = csr (state c)" "privilege ?e = privilege c" "pc (state ?e) = pc (state c)" "memory ?e = memory c"
    "gpr (state ?e) = gpr (state c)" "\<not> page_fault_inst ?e" "\<not> illegal_exception ?e" "\<not> is_exception ?e"
    "console ?e = console c" "exit_code ?e = exit_code c"
    by (simp_all add: exec_begin_def)
  have quiet: "\<not> translates (exec_begin c)" "quiet_irqs ?e"
    using c(2,3) translates_same [of "exec_begin c" c] quiet_same [of ?e c] e(1,2) by simp_all
  have read: "cpu_mem_read32_now h (pc (state c)) (exec_begin c) = Some i" "pc (state (exec_begin c)) = pc (state c)"
    using c(4) by (cases "read_now_hook h"; simp add: cpu_mem_read32_now_def exec_begin_def)+
  define d where "d = (sample_irqs ?e)\<lparr>asy := False, illegal_exception := True\<rparr>"
  have ins: "i \<noteq> INST_EBREAK" using float_is_not_system(1) [OF c(5)] by blast
  have "RISCV sf u h ?e = set_gpr 0 0 d"
    unfolding d_def by (rule reserved_riscv) (use c(5,6) quiet(2) e(6,7) in simp_all)
  then have x: "cpu_exec sf u h c = set_gpr 0 0 d"
    using quiet(1) read ins by (simp add: cpu_exec_def exec_fetched_def Let_def)
  have zero: "(gpr (state c))[0 := 0] = gpr (state c)"
    using c(1) by (simp add: cpu_inv_def cpu_ok_def regs_ok_def list_update_same_conv)
  have d: "state d = state ?e" "privilege d = privilege c" "memory d = memory c" "console d = console c" "exit_code d = exit_code c"
    "illegal_exception d" "\<not> is_exception d"
    using e by (simp_all add: d_def sample_irqs_def Let_def)
  have same: "same_context c (set_gpr 0 0 d)" "memory (set_gpr 0 0 d) = memory c"
    using d e zero by (simp_all add: same_context_def set_gpr_def)
  then have "at_reserved_rounding h i (set_gpr 0 0 d)"
    using c cpu_inv_exec [OF c(1), of sf u h] x translates_same [of "set_gpr 0 0 d" c] quiet_same [of "set_gpr 0 0 d" c]
    by (cases "read_now_hook h") (simp_all add: at_reserved_rounding_def same_context_def cpu_mem_read32_now_def)
  then show ?thesis using x same d(6,7) by (simp add: set_gpr_def)
qed

text \<open>C28: A floating point instruction with a reserved rounding mode raises no trap and does not move on: it is executed again for ever.\<close>

theorem rv_reserved_rounding_never_traps:
  assumes "at_reserved_rounding h i c"
  shows "same_context c ((cpu_exec sf u h ^^ n) c) \<and> at_reserved_rounding h i ((cpu_exec sf u h ^^ n) c)"
proof (induction n)
  case 0
  then show ?case using assms by (simp add: same_context_def)
next
  case (Suc n)
  then show ?case using reserved_exec [of h i "(cpu_exec sf u h ^^ n) c" sf u] by (simp add: same_context_def)
qed

text \<open>\<^verbatim>\<open>fadd.s\<close> with rounding mode 5, everywhere in memory.\<close>

definition reserved_fadd :: "unit mem_hooks" where
  "reserved_fadd = \<lparr>walk_hook = None, read_now_hook = Some (\<lambda>_ _. Some 0x00005053), write_now_hook = None\<rparr>"

theorem rv_reserved_rounding_never_traps_witness:
  "\<forall>sf u. pc (state ((cpu_exec sf u reserved_fadd ^^ 1000) (cpu_init 0x80000000 (cpu_zero ())))) = 0x80000000"
proof -
  let ?c = "cpu_init 0x80000000 (cpu_zero ()) :: unit cpu"
  have "quiet_irqs ?c"
    by (simp add: quiet_irqs_def m_interrupt_def s_interrupt_def sample_irqs_def irq_wanted_def Let_def cpu_init_def)
  then have "at_reserved_rounding reserved_fadd 0x00005053 ?c"
    using cpu_inv_init [of "0x80000000" "cpu_zero ()"]
    by (simp add: at_reserved_rounding_def reserved_fadd_def cpu_mem_read32_now_def field_def BITS_def float_opcodes_def opcode_defs
        mask_eq_exp_minus_1) (simp add: translates_def cpu_init_def)
  then show ?thesis using rv_reserved_rounding_never_traps [of reserved_fadd "0x00005053" ?c] by (simp add: same_context_def) (simp add: cpu_init_def)
qed

section \<open>Stores and registers\<close>

text \<open>\<^verbatim>\<open>lr.w\<close> leaves the address and the data of the last store in place and stores them again.\<close>

lemma load_reserved_stores_again:
  assumes "field (instruction c) 31 27 = 2" "cpu_mem_read32_now h p c = Some w"
  shows "amo_execute h v p c = set_pc (pc (state c) + 4) (cpu_store_data h (set_gpr (field (instruction c) 11 7) w c))"
  using assms by (simp add: amo_execute_def amo_result_def amo_value_def Let_def)

text \<open>The test for \<^verbatim>\<open>mip\<close> and \<^verbatim>\<open>sip\<close> compares an index with a register number, so it never holds.\<close>

lemma write_mip_is_plain:
  "write_csr csr_mip v c = set_csr csr_mip v c" "write_csr csr_sip v c = set_csr csr_sip v c"
  by (simp_all add: write_csr_def number_mip_def number_sip_def Let_def)

end
