(* ===== verification/SC_Memory.thy ===== *)
theory SC_Memory
  imports RV_Types
begin

text \<open>
  The memory the demonstration program gives its processor (\<^verbatim>\<open>sc_axi4_sim_api.cpp\<close>): the array
  \<^verbatim>\<open>p_memory\<close> of words, read and written at once by instructions, and the hook of the page table
  walk, which answers \<open>CPU_MEM_READ_PENDING\<close> until a read over AXI has come back. The three hooks
  are the functions \<^verbatim>\<open>cpu_mem_read_hook\<close>, \<^verbatim>\<open>cpu_mem_read_now_hook\<close> and \<^verbatim>\<open>cpu_mem_write_now_hook\<close>.
\<close>

record read_req_state =
  rr_active :: bool
  rr_issued :: bool
  rr_master :: u8
  rr_id :: u8
  rr_addr :: u32
  rr_total_size :: u8
  rr_beats_total :: u8
  rr_beats_seen :: u8

definition read_req_zero :: read_req_state where
  "read_req_zero = \<lparr>rr_active = False, rr_issued = False, rr_master = 0, rr_id = 0, rr_addr = 0, rr_total_size = 0,
     rr_beats_total = 0, rr_beats_seen = 0\<rparr>"

record mmu_hook_state =
  mh_pending :: bool
  mh_response_valid :: bool
  mh_addr :: u32
  mh_data :: u32

definition mmu_hook_zero :: mmu_hook_state where
  "mmu_hook_zero = \<lparr>mh_pending = False, mh_response_valid = False, mh_addr = 0, mh_data = 0\<rparr>"

text \<open>The array by word index, \<open>None\<close> for a null pointer, with the state of the walk.\<close>

record sc_memory =
  p_memory :: "(u32 \<Rightarrow> u32) option"
  mmu_hook :: mmu_hook_state
  mmu_req :: read_req_state

definition kMmuReqId :: u8 where "kMmuReqId = 2"
definition PORT_MMU :: u8 where "PORT_MMU = 2"

definition calc_beats :: "u8 \<Rightarrow> u8" where
  "calc_beats total_size = ucast ((ucast (total_size + 1 :: u8) + 3 :: u32) div 4)"

definition setup_read :: "u8 \<Rightarrow> u8 \<Rightarrow> u32 \<Rightarrow> u8 \<Rightarrow> read_req_state" where
  "setup_read master rid addr total_size = read_req_zero\<lparr>rr_active := True, rr_master := master, rr_id := rid,
     rr_addr := addr, rr_total_size := total_size, rr_beats_total := calc_beats total_size\<rparr>"

definition wstrb_mask :: "u8 \<Rightarrow> u32" where
  "wstrb_mask wstrb =
     (if wstrb AND 1 \<noteq> 0 then 0xFF else 0) OR (if wstrb AND 2 \<noteq> 0 then 0xFF00 else 0) OR
     (if wstrb AND 4 \<noteq> 0 then 0xFF0000 else 0) OR (if wstrb AND 8 \<noteq> 0 then 0xFF000000 else 0)"

definition apply_wstrb_write :: "u32 \<Rightarrow> u32 \<Rightarrow> u8 \<Rightarrow> sc_memory \<Rightarrow> sc_memory" where
  "apply_wstrb_write addr data wstrb m =
     (case p_memory m of None \<Rightarrow> m
      | Some ram \<Rightarrow>
          let i = drop_bit 2 addr; msk = wstrb_mask wstrb
          in m\<lparr>p_memory := Some (ram(i := (data AND msk) OR (ram i AND NOT msk)))\<rparr>)"

text \<open>
  An answer for another address is dropped; an answer for this one is handed over; otherwise a
  read is under way or is started.
\<close>

definition on_cpu_mem_read :: "u32 \<Rightarrow> sc_memory \<Rightarrow> (mem_read_result \<times> u32) \<times> sc_memory" where
  "on_cpu_mem_read paddr m =
     (if p_memory m = None then ((CPU_MEM_READ_FAULT, 0), m)
      else let aligned_addr = paddr AND NOT 3;
               k = mmu_hook m;
               k = (if mh_response_valid k \<and> mh_addr k \<noteq> aligned_addr
                    then k\<lparr>mh_response_valid := False, mh_pending := False\<rparr> else k)
           in if mh_response_valid k \<and> mh_addr k = aligned_addr
              then ((CPU_MEM_READ_OK, mh_data k), m\<lparr>mmu_hook := k\<lparr>mh_response_valid := False, mh_pending := False\<rparr>\<rparr>)
              else let k = (if mh_pending k \<and> \<not> rr_active (mmu_req m) \<and> \<not> mh_response_valid k then k\<lparr>mh_pending := False\<rparr> else k)
                   in if mh_pending k then ((CPU_MEM_READ_PENDING, 0), m\<lparr>mmu_hook := k\<rparr>)
                      else ((CPU_MEM_READ_PENDING, 0),
                            m\<lparr>mmu_hook := \<lparr>mh_pending = True, mh_response_valid = False, mh_addr = aligned_addr, mh_data = 0\<rparr>,
                              mmu_req := setup_read PORT_MMU kMmuReqId aligned_addr 3\<rparr>))"

text \<open>What the clock edge does to the walk, from the handshakes of its read port in this cycle.\<close>

definition update_mmu_request_state :: "bool \<Rightarrow> bool \<Rightarrow> sc_memory \<Rightarrow> sc_memory" where
  "update_mmu_request_state req_ready resp_valid m =
     (if \<not> rr_active (mmu_req m) then m
      else let r = mmu_req m;
               r = (if \<not> rr_issued r \<and> req_ready then r\<lparr>rr_issued := True\<rparr> else r)
           in if rr_issued r \<and> resp_valid
              then m\<lparr>mmu_req := r\<lparr>rr_active := False\<rparr>,
                     mmu_hook := (mmu_hook m)\<lparr>mh_response_valid := True,
                       mh_data := (case p_memory m of None \<Rightarrow> mh_data (mmu_hook m)
                                   | Some ram \<Rightarrow> ram (drop_bit 2 (mh_addr (mmu_hook m))))\<rparr>\<rparr>
              else m\<lparr>mmu_req := r\<rparr>)"

definition cpu_mem_read_now_hook :: "u32 \<Rightarrow> sc_memory \<Rightarrow> u32 option" where
  "cpu_mem_read_now_hook paddr m = map_option (\<lambda>ram. ram (drop_bit 2 (paddr AND NOT 3))) (p_memory m)"

definition cpu_mem_write_now_hook :: "u32 \<Rightarrow> u32 \<Rightarrow> u32 \<Rightarrow> sc_memory \<Rightarrow> sc_memory option" where
  "cpu_mem_write_now_hook paddr data wstrb m =
     (if p_memory m = None then None else Some (apply_wstrb_write paddr data (ucast wstrb) m))"

definition sc_hooks :: "sc_memory mem_hooks" where
  "sc_hooks = \<lparr>walk_hook = Some on_cpu_mem_read, read_now_hook = Some cpu_mem_read_now_hook,
     write_now_hook = Some cpu_mem_write_now_hook\<rparr>"

end
