(* ===== verification/SC_Sim.thy ===== *)
theory SC_Sim
  imports SC_Memory RV_Exec
begin

text \<open>
  The demonstration program (\<^verbatim>\<open>sc_axi4_sim_api.cpp\<close>): the processor as a master of the interconnect.
  Every instruction goes through stages; its fetch, its load or store and the write of an atomic
  operation are requests on the ports of the interconnect, whose beats are mirrored into the array
  the processor computes on. The interconnect is a parameter (\<open>interconnect_ops\<close>): the program compiles
  \<^verbatim>\<open>AXI_Interconnect\<close> with beats of 4 bytes and uses its ports and three calls only.
\<close>

section \<open>Types\<close>

record sc_axi4_in =
  in_arready :: u8
  in_awready :: u8
  in_wready :: u8
  in_rvalid :: u8
  in_rid :: u8
  in_rdata :: u32
  in_rresp :: u8
  in_rlast :: u8
  in_bvalid :: u8
  in_bid :: u8
  in_bresp :: u8

record sc_axi4_out =
  out_arvalid :: u8
  out_arid :: u8
  out_araddr :: u32
  out_arlen :: u8
  out_arsize :: u8
  out_arburst :: u8
  out_awvalid :: u8
  out_awid :: u8
  out_awaddr :: u32
  out_awlen :: u8
  out_awsize :: u8
  out_awburst :: u8
  out_wvalid :: u8
  out_wdata :: u32
  out_wstrb :: u8
  out_wlast :: u8
  out_rready :: u8
  out_bready :: u8

definition axi_out_zero :: sc_axi4_out where
  "axi_out_zero = \<lparr>out_arvalid = 0, out_arid = 0, out_araddr = 0, out_arlen = 0, out_arsize = 0, out_arburst = 0,
     out_awvalid = 0, out_awid = 0, out_awaddr = 0, out_awlen = 0, out_awsize = 0, out_awburst = 0,
     out_wvalid = 0, out_wdata = 0, out_wstrb = 0, out_wlast = 0, out_rready = 0, out_bready = 0\<rparr>"

record sc_sim_status =
  st_sim_time :: u64
  st_inst_count :: u64
  st_halted :: u8
  st_success :: u8
  st_wait_axi :: u8
  st_uart_valid :: u8
  st_uart_ch :: u8

record decoded_mem_req =
  dm_valid :: bool
  dm_is_read :: bool
  dm_paddr :: u32
  dm_total_size :: u8
  dm_wdata :: u32
  dm_wstrb :: u32

definition decoded_zero :: decoded_mem_req where
  "decoded_zero = \<lparr>dm_valid = False, dm_is_read = True, dm_paddr = 0, dm_total_size = 0, dm_wdata = 0, dm_wstrb = 0\<rparr>"

record write_req_state =
  wq_active :: bool
  wq_issued :: bool
  wq_id :: u8
  wq_addr :: u32
  wq_wdata :: u32
  wq_wstrb :: u8
  wq_total_size :: u8
  wq_beats_total :: u8
  wq_beats_seen :: u8

definition write_req_zero :: write_req_state where
  "write_req_zero = \<lparr>wq_active = False, wq_issued = False, wq_id = 0, wq_addr = 0, wq_wdata = 0, wq_wstrb = 0,
     wq_total_size = 0, wq_beats_total = 0, wq_beats_seen = 0\<rparr>"

datatype exec_stage = PrepareFetch | WaitFetch | PrepareData | WaitData | Execute | WaitAmoWrite | Halted

text \<open>The inputs of the master ports: four read ports and the write port of the data cache.\<close>

record port_read_in =
  pr_valid :: bool
  pr_addr :: u32
  pr_total_size :: u8
  pr_id :: u8
  pr_ready :: bool

record port_write_in =
  pw_valid :: bool
  pw_addr :: u32
  pw_wdata :: u32
  pw_wstrb :: u8
  pw_total_size :: u8
  pw_id :: u8
  pw_ready :: bool

definition NUM_READ_PORTS :: nat where "NUM_READ_PORTS = 4"
definition PORT_ICACHE :: u8 where "PORT_ICACHE = 0"
definition PORT_DCACHE_R :: u8 where "PORT_DCACHE_R = 1"

text \<open>
  What the program uses of the interconnect: \<^verbatim>\<open>init\<close>; \<^verbatim>\<open>comb_outputs\<close> after the AXI inputs are set; the
  ready and response signals of the ports; \<^verbatim>\<open>comb_inputs\<close> after the port inputs are set; the AXI
  outputs; \<^verbatim>\<open>seq\<close>.
\<close>

record 'i interconnect_ops =
  op_init :: "'i \<Rightarrow> 'i"
  op_comb_outputs :: "sc_axi4_in \<Rightarrow> 'i \<Rightarrow> 'i"
  op_read_ready :: "'i \<Rightarrow> u8 \<Rightarrow> bool"
  op_read_resp :: "'i \<Rightarrow> u8 \<Rightarrow> bool"
  op_write_ready :: "'i \<Rightarrow> bool"
  op_write_resp :: "'i \<Rightarrow> bool"
  op_comb_inputs :: "port_read_in list \<Rightarrow> port_write_in \<Rightarrow> 'i \<Rightarrow> 'i"
  op_axi_out :: "'i \<Rightarrow> sc_axi4_out"
  op_seq :: "'i \<Rightarrow> 'i"

text \<open>
  The members of the class. The processor's record holds the globals \<^verbatim>\<open>p_memory\<close> and \<^verbatim>\<open>sim_time\<close> and the
  members \<^verbatim>\<open>mmu_hook_\<close> and \<^verbatim>\<open>mmu_req_\<close>, which the hooks of the processor change.
\<close>

record 'i sim =
  cpu_core :: "sc_memory cpu"
  interconnect :: 'i
  stage :: exec_stage
  image_loaded :: bool
  success :: bool
  halted_reason_max_inst :: bool
  halted_reason_ebreak :: bool
  max_inst :: u64
  max_cycles :: u64
  inst_count :: u64
  last_inst_count :: u64
  last_progress_time :: u64
  stall_reported :: bool
  fetch_ok :: bool
  fetch_vaddr :: u32
  fetch_paddr :: u32
  inst_word :: u32
  pre_req :: decoded_mem_req
  fetch_req :: read_req_state
  data_req :: read_req_state
  write_req :: write_req_state
  mmu_req_ready :: bool
  mmu_resp_valid :: bool
  uart_valid :: bool
  uart_ch :: u8
  last_error :: string

abbreviation sim_memory :: "'i sim \<Rightarrow> sc_memory" where
  "sim_memory s \<equiv> memory (cpu_core s)"

definition upd_memory :: "(sc_memory \<Rightarrow> sc_memory) \<Rightarrow> 'i sim \<Rightarrow> 'i sim" where
  "upd_memory f s = s\<lparr>cpu_core := (cpu_core s)\<lparr>memory := f (sim_memory s)\<rparr>\<rparr>"

abbreviation sim_time :: "'i sim \<Rightarrow> u64" where
  "sim_time s \<equiv> sim_clock (cpu_core s)"

section \<open>Decoding the access of an instruction\<close>

definition sext :: "u32 \<Rightarrow> nat \<Rightarrow> u32" where
  "sext v bits = (let sign_bit = push_bit (bits - 1) 1 in (v XOR sign_bit) - sign_bit)"

definition translate_addr :: "sc_memory cpu \<Rightarrow> u32 \<Rightarrow> u32 \<Rightarrow> u32 option \<times> sc_memory cpu" where
  "translate_addr c vaddr type = (if translates c then va2pa sc_hooks vaddr type c else (Some vaddr, c))"

definition decode_load :: "u32 \<Rightarrow> u32 \<Rightarrow> decoded_mem_req" where
  "decode_load funct3 paddr =
     (let req = decoded_zero\<lparr>dm_valid := True, dm_is_read := True, dm_paddr := paddr\<rparr> in
      if funct3 = 0 \<or> funct3 = 4 then req\<lparr>dm_total_size := 0\<rparr>
      else if funct3 = 1 \<or> funct3 = 5 then req\<lparr>dm_total_size := 1\<rparr>
      else if funct3 = 2 then req\<lparr>dm_total_size := 3\<rparr>
      else req\<lparr>dm_valid := False\<rparr>)"

definition decode_store :: "u32 \<Rightarrow> u32 \<Rightarrow> u32 \<Rightarrow> decoded_mem_req" where
  "decode_store funct3 rs2_data paddr =
     (let offset = unat (paddr AND 3);
          req = decoded_zero\<lparr>dm_valid := True, dm_is_read := False, dm_paddr := paddr\<rparr> in
      if funct3 = 0
      then req\<lparr>dm_total_size := 0, dm_wstrb := push_bit offset 1, dm_wdata := push_bit (offset * 8) (rs2_data AND 0xff)\<rparr>
      else if funct3 = 1
      then req\<lparr>dm_total_size := 1, dm_wstrb := push_bit offset 3 AND 0xf, dm_wdata := push_bit (offset * 8) (rs2_data AND 0xffff)\<rparr>
      else if funct3 = 2
      then req\<lparr>dm_total_size := 3, dm_wstrb := push_bit offset 0xf AND 0xf, dm_wdata := push_bit (offset * 8) rs2_data\<rparr>
      else req\<lparr>dm_valid := False\<rparr>)"

text \<open>A translation that fails or waits gives the invalid request.\<close>

definition decode_mem_req_pre_exec :: "sc_memory cpu \<Rightarrow> u32 \<Rightarrow> decoded_mem_req \<times> sc_memory cpu" where
  "decode_mem_req_pre_exec c i =
     (let opcode = i AND 0x7f; rs1 = drop_bit 15 i AND 0x1f; rs2 = drop_bit 20 i AND 0x1f; funct3 = drop_bit 12 i AND 7 in
      if opcode = 0x03
      then (case translate_addr c (reg c rs1 + sext (drop_bit 20 i AND 0xfff) 12) 1 of
              (None, c) \<Rightarrow> (decoded_zero, c)
            | (Some paddr, c) \<Rightarrow> (decode_load funct3 paddr, c))
      else if opcode = 0x23
      then (let imm = push_bit 5 (drop_bit 25 i) OR (drop_bit 7 i AND 0x1f); rs2_data = reg c rs2
            in case translate_addr c (reg c rs1 + sext imm 12) 2 of
                 (None, c) \<Rightarrow> (decoded_zero, c)
               | (Some paddr, c) \<Rightarrow> (decode_store funct3 rs2_data paddr, c))
      else if opcode = 0x2f
      then (case translate_addr c (reg c rs1) 1 of
              (None, c) \<Rightarrow> (decoded_zero, c)
            | (Some paddr, c) \<Rightarrow> (decoded_zero\<lparr>dm_valid := True, dm_is_read := True, dm_paddr := paddr, dm_total_size := 3\<rparr>, c))
      else (decoded_zero, c))"

definition encode_axi_id :: "u8 \<Rightarrow> u8 \<Rightarrow> u8" where
  "encode_axi_id master rid = push_bit 2 master OR (rid AND 3)"

definition setup_write :: "u8 \<Rightarrow> u32 \<Rightarrow> u32 \<Rightarrow> u8 \<Rightarrow> u8 \<Rightarrow> write_req_state" where
  "setup_write wid addr data strb total_size = write_req_zero\<lparr>wq_active := True, wq_id := wid, wq_addr := addr,
     wq_wdata := data, wq_wstrb := strb, wq_total_size := total_size, wq_beats_total := calc_beats total_size\<rparr>"

definition kFetchReqId :: u8 where "kFetchReqId = 0"
definition kDataReqId :: u8 where "kDataReqId = 1"

section \<open>Driving the ports\<close>

definition port_read_zero :: port_read_in where
  "port_read_zero = \<lparr>pr_valid = False, pr_addr = 0, pr_total_size = 0, pr_id = 0, pr_ready = False\<rparr>"

definition port_write_zero :: port_write_in where
  "port_write_zero = \<lparr>pw_valid = False, pw_addr = 0, pw_wdata = 0, pw_wstrb = 0, pw_total_size = 0, pw_id = 0, pw_ready = False\<rparr>"

text \<open>The inputs of the ports after \<^verbatim>\<open>clear_master_inputs\<close>.\<close>

definition clear_master_inputs :: "port_read_in list \<times> port_write_in" where
  "clear_master_inputs = (replicate NUM_READ_PORTS port_read_zero, port_write_zero)"

definition sc_read_request :: "read_req_state \<Rightarrow> port_read_in" where
  "sc_read_request r =
     (if \<not> rr_issued r
      then \<lparr>pr_valid = True, pr_addr = rr_addr r, pr_total_size = rr_total_size r, pr_id = rr_id r, pr_ready = True\<rparr>
      else port_read_zero\<lparr>pr_ready := True\<rparr>)"

definition sc_write_request :: "write_req_state \<Rightarrow> port_write_in" where
  "sc_write_request w =
     (if \<not> wq_issued w
      then \<lparr>pw_valid = True, pw_addr = wq_addr w, pw_wdata = wq_wdata w, pw_wstrb = wq_wstrb w, pw_total_size = wq_total_size w,
             pw_id = wq_id w, pw_ready = True\<rparr>
      else port_write_zero\<lparr>pw_ready := True\<rparr>)"

text \<open>The read of the walk keeps its request valid as long as it is active.\<close>

definition drive_mmu_request ::
  "'i interconnect_ops \<Rightarrow> port_read_in list \<Rightarrow> 'i sim \<Rightarrow> port_read_in list \<times> 'i sim" where
  "drive_mmu_request ops rs s =
     (let r = mmu_req (sim_memory s) in
      if \<not> rr_active r then (rs, s\<lparr>mmu_req_ready := False, mmu_resp_valid := False\<rparr>)
      else (rs[unat PORT_MMU := \<lparr>pr_valid = True, pr_addr = rr_addr r, pr_total_size = rr_total_size r, pr_id = rr_id r, pr_ready = True\<rparr>],
            s\<lparr>mmu_req_ready := op_read_ready ops (interconnect s) PORT_MMU, mmu_resp_valid := op_read_resp ops (interconnect s) PORT_MMU\<rparr>))"

text \<open>The ready and response signals the stage has seen, and the inputs of the ports.\<close>

definition drive_current_stage ::
  "'i interconnect_ops \<Rightarrow> 'i sim \<Rightarrow> (bool \<times> bool) \<times> (port_read_in list \<times> port_write_in) \<times> 'i sim" where
  "drive_current_stage ops s =
     (let ic = interconnect s; (rs, w) = clear_master_inputs;
          writing = ((op_write_ready ops ic, op_write_resp ops ic), rs, sc_write_request (write_req s));
          reading = (\<lambda>p r. ((op_read_ready ops ic p, op_read_resp ops ic p), rs[unat p := sc_read_request r], w));
          (seen, rs, w) =
            (case stage s of
               WaitFetch \<Rightarrow> reading PORT_ICACHE (fetch_req s)
             | WaitData \<Rightarrow> if dm_is_read (pre_req s) then reading PORT_DCACHE_R (data_req s) else writing
             | WaitAmoWrite \<Rightarrow> writing
             | _ \<Rightarrow> ((False, False), rs, w));
          (rs, s) = drive_mmu_request ops rs s
      in (seen, (rs, w), s))"

section \<open>Mirroring the beats\<close>

definition beat_of :: "sc_axi4_in \<Rightarrow> read_req_state \<Rightarrow> bool" where
  "beat_of i r \<longleftrightarrow> rr_active r \<and> rr_issued r \<and> in_rid i = encode_axi_id (rr_master r) (rr_id r) \<and>
     rr_beats_seen r < rr_beats_total r"

definition mirror_word :: "u32 \<Rightarrow> u32 \<Rightarrow> sc_memory \<Rightarrow> sc_memory" where
  "mirror_word i d m = m\<lparr>p_memory := map_option (\<lambda>ram. ram(i := d)) (p_memory m)\<rparr>"

definition mirror_read_data :: "sc_axi4_in \<Rightarrow> sc_axi4_out \<Rightarrow> 'i sim \<Rightarrow> 'i sim" where
  "mirror_read_data i out s =
     (if in_rvalid i = 0 \<or> out_rready out = 0 \<or> p_memory (sim_memory s) = None then s
      else if beat_of i (fetch_req s)
      then (let r = fetch_req s in
            upd_memory (mirror_word (drop_bit 2 (rr_addr r) + ucast (rr_beats_seen r)) (in_rdata i))
              (s\<lparr>fetch_req := r\<lparr>rr_beats_seen := rr_beats_seen r + 1\<rparr>\<rparr>))
      else if beat_of i (mmu_req (sim_memory s))
      then (let r = mmu_req (sim_memory s) in
            upd_memory (\<lambda>m. (mirror_word (drop_bit 2 (rr_addr r) + ucast (rr_beats_seen r)) (in_rdata i) m)
              \<lparr>mmu_hook := (mmu_hook m)\<lparr>mh_data := in_rdata i\<rparr>, mmu_req := r\<lparr>rr_beats_seen := rr_beats_seen r + 1\<rparr>\<rparr>) s)
      else if beat_of i (data_req s)
      then (let r = data_req s in
            upd_memory (mirror_word (drop_bit 2 (rr_addr r) + ucast (rr_beats_seen r)) (in_rdata i))
              (s\<lparr>data_req := r\<lparr>rr_beats_seen := rr_beats_seen r + 1\<rparr>\<rparr>))
      else s)"

text \<open>The bytes of the beat that go to the UART; the last one in the order of the lanes is kept.\<close>

definition uart_lane :: "u32 \<Rightarrow> sc_axi4_out \<Rightarrow> nat \<Rightarrow> 'i sim \<Rightarrow> 'i sim" where
  "uart_lane word_base out lane s =
     (if \<not> bit (out_wstrb out) lane then s
      else if word_base + of_nat lane = UART_BASE
      then s\<lparr>uart_valid := True, uart_ch := ucast (drop_bit (lane * 8) (out_wdata out) AND 0xff)\<rparr>
      else s)"

definition mirror_write_data :: "sc_axi4_in \<Rightarrow> sc_axi4_out \<Rightarrow> 'i sim \<Rightarrow> 'i sim" where
  "mirror_write_data i out s =
     (if out_wvalid out = 0 \<or> in_wready i = 0 \<or> \<not> wq_active (write_req s) then s
      else let w = write_req s;
               current_addr = wq_addr w + ucast (wq_beats_seen w) * 4;
               s = upd_memory (apply_wstrb_write current_addr (out_wdata out) (out_wstrb out)) s;
               s = fold (uart_lane (current_addr AND NOT 3) out) [0..<4] s
           in if wq_beats_seen w < 255 then s\<lparr>write_req := w\<lparr>wq_beats_seen := wq_beats_seen w + 1\<rparr>\<rparr> else s)"

section \<open>The stages\<close>

definition prepare_fetch :: "'i sim \<Rightarrow> 'i sim" where
  "prepare_fetch s =
     (let v = pc (state (cpu_core s)); (pa, c) = translate_addr (cpu_core s) v 0;
          s = s\<lparr>fetch_vaddr := v, fetch_ok := (pa \<noteq> None), fetch_paddr := (case pa of None \<Rightarrow> fetch_paddr s | Some a \<Rightarrow> a), cpu_core := c\<rparr>
      in if translation_pending c then s
         else if \<not> fetch_ok s then s\<lparr>inst_word := 0, pre_req := decoded_zero, stage := Execute\<rparr>
         else s\<lparr>fetch_req := setup_read PORT_ICACHE kFetchReqId (fetch_paddr s) 3, stage := WaitFetch\<rparr>)"

definition prepare_data_request :: "'i sim \<Rightarrow> 'i sim" where
  "prepare_data_request s =
     (let (req, c) = decode_mem_req_pre_exec (cpu_core s) (inst_word s);
          s = s\<lparr>pre_req := req, cpu_core := c\<rparr>
      in if translation_pending c then s
         else if dm_valid req
         then (if dm_is_read req
               then s\<lparr>data_req := setup_read PORT_DCACHE_R kDataReqId (dm_paddr req) (dm_total_size req), stage := WaitData\<rparr>
               else s\<lparr>write_req := setup_write kDataReqId (dm_paddr req) (dm_wdata req) (ucast (dm_wstrb req)) (dm_total_size req),
                      stage := WaitData\<rparr>)
         else s\<lparr>stage := Execute\<rparr>)"

definition send_read :: "bool \<Rightarrow> read_req_state \<Rightarrow> read_req_state" where
  "send_read req_ready r = (if \<not> rr_issued r \<and> req_ready then r\<lparr>rr_issued := True\<rparr> else r)"

definition send_write :: "bool \<Rightarrow> write_req_state \<Rightarrow> write_req_state" where
  "send_write req_ready w = (if \<not> wq_issued w \<and> req_ready then w\<lparr>wq_issued := True\<rparr> else w)"

definition wait_fetch :: "bool \<Rightarrow> bool \<Rightarrow> 'i sim \<Rightarrow> 'i sim" where
  "wait_fetch req_ready resp_valid s =
     (let r = send_read req_ready (fetch_req s) in
      if rr_issued r \<and> resp_valid
      then s\<lparr>fetch_req := r\<lparr>rr_active := False\<rparr>,
             inst_word := (if fetch_ok s then the (p_memory (sim_memory s)) (drop_bit 2 (fetch_paddr s)) else 0),
             stage := PrepareData\<rparr>
      else s\<lparr>fetch_req := r\<rparr>)"

definition wait_data_read :: "bool \<Rightarrow> bool \<Rightarrow> 'i sim \<Rightarrow> 'i sim" where
  "wait_data_read req_ready resp_valid s =
     (let r = send_read req_ready (data_req s) in
      if rr_issued r \<and> resp_valid then s\<lparr>data_req := r\<lparr>rr_active := False\<rparr>, stage := Execute\<rparr>
      else s\<lparr>data_req := r\<rparr>)"

definition wait_write :: "exec_stage \<Rightarrow> bool \<Rightarrow> bool \<Rightarrow> 'i sim \<Rightarrow> 'i sim" where
  "wait_write next_stage req_ready resp_valid s =
     (let w = send_write req_ready (write_req s) in
      if wq_issued w \<and> resp_valid then s\<lparr>write_req := w\<lparr>wq_active := False\<rparr>, stage := next_stage\<rparr>
      else s\<lparr>write_req := w\<rparr>)"

text \<open>
  One instruction. When it ends the program (\<open>exit_code\<close>) nothing after it happens. An atomic
  operation that has stored sends its store out.
\<close>

definition execute_stage :: "softfloat \<Rightarrow> undefined_values \<Rightarrow> 'i sim \<Rightarrow> 'i sim" where
  "execute_stage sf u s =
     (let c = cpu_exec sf u sc_hooks (cpu_core s); s = s\<lparr>cpu_core := c\<rparr> in
      if exit_code c \<noteq> None then s
      else if translation_pending c then s
      else let n = inst_count s + 1;
               s = s\<lparr>inst_count := n, last_progress_time := sim_clock c,
                     stall_reported := (if n \<noteq> last_inst_count s then False else stall_reported s), last_inst_count := n\<rparr>
           in if inst_word s = INST_EBREAK then s\<lparr>halted_reason_ebreak := True, stage := Halted, success := True\<rparr>
              else if inst_word s AND 0x7f = 0x2f \<and> store_flag (state c)
              then (let amo_wstrb = ucast (store_strb (state c) AND 0xf) :: u8
                    in s\<lparr>write_req := setup_write kDataReqId (store_addr (state c)) (store_data (state c))
                           (if amo_wstrb = 0 then 0xf else amo_wstrb) 3, stage := WaitAmoWrite\<rparr>)
              else s\<lparr>stage := PrepareFetch\<rparr>)"

definition update_stage_after_cycle :: "softfloat \<Rightarrow> undefined_values \<Rightarrow> bool \<Rightarrow> bool \<Rightarrow> 'i sim \<Rightarrow> 'i sim" where
  "update_stage_after_cycle sf u req_ready resp_valid s =
     (let s = upd_memory (update_mmu_request_state (mmu_req_ready s) (mmu_resp_valid s)) s in
      case stage s of
        PrepareFetch \<Rightarrow> prepare_fetch s
      | WaitFetch \<Rightarrow> wait_fetch req_ready resp_valid s
      | PrepareData \<Rightarrow> prepare_data_request s
      | WaitData \<Rightarrow> if dm_is_read (pre_req s) then wait_data_read req_ready resp_valid s else wait_write Execute req_ready resp_valid s
      | Execute \<Rightarrow> execute_stage sf u s
      | WaitAmoWrite \<Rightarrow> wait_write PrepareFetch req_ready resp_valid s
      | Halted \<Rightarrow> s)"

text \<open>The limits; the report of a stall is the flag that it has been printed.\<close>

definition kStallCycles :: u64 where "kStallCycles = 2000000"

definition check_limits :: "'i sim \<Rightarrow> 'i sim" where
  "check_limits s =
     (if stage s = Halted then s
      else if inst_count s \<ge> max_inst s then s\<lparr>halted_reason_max_inst := True, stage := Halted, success := True\<rparr>
      else let s = (if sim_time s \<ge> max_cycles s
                    then s\<lparr>last_error := ''max_cycles reached'', stage := Halted, success := False\<rparr> else s)
           in if \<not> stall_reported s \<and> sim_time s > last_progress_time s + kStallCycles \<and> stage s \<noteq> Halted
              then s\<lparr>stall_reported := True\<rparr> else s)"

definition fill_status :: "'i sim \<Rightarrow> sc_sim_status" where
  "fill_status s = \<lparr>st_sim_time = sim_time s, st_inst_count = inst_count s, st_halted = of_bool (stage s = Halted),
     st_success = of_bool (success s),
     st_wait_axi = of_bool (stage s \<in> {WaitFetch, WaitData, WaitAmoWrite} \<or> rr_active (mmu_req (sim_memory s))),
     st_uart_valid = of_bool (uart_valid s), st_uart_ch = uart_ch s\<rparr>"

section \<open>A cycle\<close>

text \<open>
  The combinational phase and the clock edge of the interconnect: what the stage has seen of its
  port, the AXI outputs, and the state before the stage is updated.
\<close>

definition sim_wires :: "'i interconnect_ops \<Rightarrow> sc_axi4_in \<Rightarrow> 'i sim \<Rightarrow> (bool \<times> bool) \<times> sc_axi4_out \<times> 'i sim" where
  "sim_wires ops i s =
     (let s = s\<lparr>interconnect := op_comb_outputs ops i (interconnect s)\<rparr>;
          (seen, (rs, w), s) = drive_current_stage ops s;
          s = s\<lparr>interconnect := op_comb_inputs ops rs w (interconnect s)\<rparr>;
          out = op_axi_out ops (interconnect s);
          s = mirror_write_data i out (mirror_read_data i out s)
      in (seen, out, s\<lparr>interconnect := op_seq ops (interconnect s), cpu_core := (cpu_core s)\<lparr>sim_clock := sim_time s + 1\<rparr>\<rparr>))"

definition sim_edge :: "softfloat \<Rightarrow> undefined_values \<Rightarrow> bool \<times> bool \<Rightarrow> 'i sim \<Rightarrow> 'i sim" where
  "sim_edge sf u seen s =
     (let s = update_stage_after_cycle sf u (fst seen) (snd seen) s
      in if exit_code (cpu_core s) \<noteq> None then s else check_limits s)"

definition step_begin :: "'i sim \<Rightarrow> 'i sim" where
  "step_begin s =
     (let s = s\<lparr>uart_valid := False, uart_ch := 0\<rparr> in if stage s \<noteq> Halted then s\<lparr>last_error := []\<rparr> else s)"

text \<open>The result code, the AXI outputs and the new state; the status is that of the new state.\<close>

definition result_code :: "'i sim \<Rightarrow> int" where
  "result_code s = (if success s then 1 else - 1)"

definition sim_step ::
  "softfloat \<Rightarrow> undefined_values \<Rightarrow> 'i interconnect_ops \<Rightarrow> sc_axi4_in \<Rightarrow> 'i sim \<Rightarrow> int \<times> sc_axi4_out \<times> 'i sim" where
  "sim_step sf u ops i s =
     (let s = step_begin s
      in if \<not> image_loaded s then (- 1, axi_out_zero, s\<lparr>last_error := ''image not loaded''\<rparr>)
         else if stage s = Halted then (result_code s, op_axi_out ops (interconnect s), s)
         else let (seen, out, s) = sim_wires ops i s; s = sim_edge sf u seen s
              in (if stage s = Halted then result_code s else 0, out, s))"

section \<open>Construction and loading\<close>

definition MAX_COMMIT_INST :: u64 where "MAX_COMMIT_INST = 150000000"
definition kImageBase :: u32 where "kImageBase = 0x80000000"

text \<open>The clock \<^verbatim>\<open>sim_time\<close> and the state of the walk are part of the processor's record.\<close>

definition reset_machine_state :: "'i interconnect_ops \<Rightarrow> 'i sim \<Rightarrow> 'i sim" where
  "reset_machine_state ops s =
     (let c = (cpu_core s)\<lparr>sim_clock := 0, memory := (sim_memory s)\<lparr>mmu_req := read_req_zero, mmu_hook := mmu_hook_zero\<rparr>\<rparr>
      in s\<lparr>inst_count := 0, success := False, halted_reason_max_inst := False, halted_reason_ebreak := False, stage := PrepareFetch,
           fetch_ok := False, fetch_vaddr := 0, fetch_paddr := 0, inst_word := 0, pre_req := decoded_zero,
           fetch_req := read_req_zero, data_req := read_req_zero, write_req := write_req_zero, mmu_req_ready := False,
           mmu_resp_valid := False, uart_valid := False, uart_ch := 0, last_inst_count := 0, last_progress_time := 0,
           stall_reported := False, cpu_core := cpu_init 0 c, interconnect := op_init ops (interconnect s)\<rparr>)"

text \<open>The members as they are declared, over the array that was allocated, if any.\<close>

definition sim_members :: "(u32 \<Rightarrow> u32) option \<Rightarrow> 'i \<Rightarrow> 'i sim" where
  "sim_members ram ic = \<lparr>cpu_core = cpu_zero \<lparr>p_memory = ram, mmu_hook = mmu_hook_zero, mmu_req = read_req_zero\<rparr>,
     interconnect = ic, stage = Halted, image_loaded = False, success = False, halted_reason_max_inst = False,
     halted_reason_ebreak = False, max_inst = MAX_COMMIT_INST, max_cycles = 12000000000, inst_count = 0, last_inst_count = 0,
     last_progress_time = 0, stall_reported = False, fetch_ok = False, fetch_vaddr = 0, fetch_paddr = 0, inst_word = 0,
     pre_req = decoded_zero, fetch_req = read_req_zero, data_req = read_req_zero, write_req = write_req_zero,
     mmu_req_ready = False, mmu_resp_valid = False, uart_valid = False, uart_ch = 0, last_error = []\<rparr>"

definition init_runtime :: "'i interconnect_ops \<Rightarrow> 'i sim \<Rightarrow> 'i sim" where
  "init_runtime ops s =
     (if p_memory (sim_memory s) = None
      then s\<lparr>last_error := ''failed to allocate physical memory'', stage := Halted, success := False\<rparr>
      else reset_machine_state ops (s\<lparr>image_loaded := False, max_inst := MAX_COMMIT_INST, max_cycles := 12000000000\<rparr>))"

definition sc_sim_create :: "'i interconnect_ops \<Rightarrow> (u32 \<Rightarrow> u32) option \<Rightarrow> 'i \<Rightarrow> 'i sim" where
  "sc_sim_create ops ram ic = init_runtime ops (sim_members ram ic)"

definition set_limits :: "u64 \<Rightarrow> u64 \<Rightarrow> 'i sim \<Rightarrow> 'i sim" where
  "set_limits m n s = s\<lparr>max_inst := m, max_cycles := n\<rparr>"

text \<open>
  The file of an image: its name, and what reading it gives: nothing, a failure after some bytes, or
  all bytes.
\<close>

datatype image_file = No_path | Not_found string | Unreadable string "u8 list" | Image "u8 list"

definition put_image_byte :: "nat \<Rightarrow> u8 \<Rightarrow> (u32 \<Rightarrow> u32) \<Rightarrow> u32 \<Rightarrow> u32" where
  "put_image_byte i b ram =
     (let w = drop_bit 2 kImageBase + of_nat (i div 4); k = 8 * (i mod 4)
      in ram(w := (ram w AND NOT (push_bit k 0xff)) OR push_bit k (ucast b)))"

definition put_image :: "u8 list \<Rightarrow> (u32 \<Rightarrow> u32) \<Rightarrow> u32 \<Rightarrow> u32" where
  "put_image bs ram = fold (\<lambda>(i, b). put_image_byte i b) (zip [0..<length bs] bs) ram"

definition boot_words :: "(u32 \<Rightarrow> u32) \<Rightarrow> u32 \<Rightarrow> u32" where
  "boot_words ram = ram(0x0 := 0xf1402573, 0x1 := 0x83e005b7, 0x2 := 0x800002b7, 0x3 := 0x00028067, 0x04000001 := 0x00006000)"

definition load_image :: "'i interconnect_ops \<Rightarrow> image_file \<Rightarrow> 'i sim \<Rightarrow> (int \<times> nat option) \<times> 'i sim" where
  "load_image ops f s =
     (case p_memory (sim_memory s) of
        None \<Rightarrow> ((- 1, None), s\<lparr>last_error := (if f = No_path then ''image path is null'' else ''memory not initialized'')\<rparr>)
      | Some ram \<Rightarrow>
          (case f of
             No_path \<Rightarrow> ((- 1, None), s\<lparr>last_error := ''image path is null''\<rparr>)
           | Not_found path \<Rightarrow> ((- 1, None), s\<lparr>last_error := ''image not found: '' @ path\<rparr>)
           | Unreadable path bs \<Rightarrow>
               ((- 1, None), (upd_memory (\<lambda>m. m\<lparr>p_memory := Some (put_image bs ram)\<rparr>) s)\<lparr>last_error := ''failed to read image: '' @ path\<rparr>)
           | Image bs \<Rightarrow>
               ((0, Some (length bs)), reset_machine_state ops
                  ((upd_memory (\<lambda>m. m\<lparr>p_memory := Some (boot_words (put_image bs ram))\<rparr>) s)\<lparr>image_loaded := True\<rparr>))))"

text \<open>A call of \<^verbatim>\<open>sc_sim_step\<close>, unless an instruction has ended the program.\<close>

definition sim_cycle :: "softfloat \<Rightarrow> undefined_values \<Rightarrow> 'i interconnect_ops \<Rightarrow> sc_axi4_in \<Rightarrow> 'i sim \<Rightarrow> 'i sim" where
  "sim_cycle sf u ops i s = (if exit_code (cpu_core s) \<noteq> None then s else snd (snd (sim_step sf u ops i s)))"

end
