(* ===== verification/RV_Memory.thy ===== *)
theory RV_Memory
  imports RV_Frames SC_Memory
begin

text \<open>
  A property of the memory that its hooks keep is kept by the processor (locale \<open>kept_memory\<close>); the
  memory of the demonstration program never loses its array.
\<close>

named_theorems rv_memory

lemma memory_frames [rv_memory]:
  "memory (set_pc a c) = memory c" "memory (set_csr i v c) = memory c" "memory (set_gpr r v c) = memory c"
  "memory (set_status v c) = memory c" "memory (write_reg r w c) = memory c" "memory (forget_word a c) = memory c"
  "memory (exec_begin c) = memory c" "memory (sample_irqs c) = memory c" "memory (store_shift c) = memory c"
  "memory (snd (store_fails c)) = memory c"
  by (simp_all add: set_pc_def set_csr_def set_gpr_def set_status_def write_reg_def forget_word_def exec_begin_def
      sample_irqs_def store_shift_def store_fails_def Let_def split: option.split)

lemma exception_memory [rv_memory]: "memory (cpu_exception v c) = memory c"
  by (simp add: cpu_exception_def Let_def rv_memory enter_m_def enter_s_def leave_m_def leave_s_def)

lemma csr_memory [rv_memory]: "memory (write_csr i v c) = memory c" "memory (RV32CSR u c) = memory c"
proof -
  show *: "memory (write_csr i v c) = memory c" for i v and c :: "'a cpu" by (simp add: write_csr_def Let_def rv_memory)
  show "memory (RV32CSR u c) = memory c" by (simp add: RV32CSR_def Let_def rv_memory *)
qed

lemma float_memory [rv_memory]: "memory (RV32Zfinx sf c) = memory c"
  by (simp add: RV32Zfinx_def Let_def rv_memory split: option.split fp_outcome.split)

locale kept_memory =
  fixes hooks :: "'m mem_hooks" and good :: "'m \<Rightarrow> bool"
  assumes walk_good: "walk_hook hooks = Some f \<Longrightarrow> good m \<Longrightarrow> good (snd (f a m))"
    and write_good: "write_now_hook hooks = Some g \<Longrightarrow> good m \<Longrightarrow> g a d w m = Some m' \<Longrightarrow> good m'"
begin

lemma read_good: "good (memory c) \<Longrightarrow> good (memory (snd (read_pte hooks a c)))"
  using walk_good by (auto simp: read_pte_def cpu_phys_read32_def split: option.split prod.split) (metis snd_conv)+

lemma va2pa_good:
  assumes "good (memory c)" "va2pa hooks v t c = (pa, d)"
  shows "good (memory d)"
proof -
  let ?c = "c\<lparr>translation_pending := False\<rparr>"
  obtain p1 c1 where 1: "read_pte hooks (pte1_address (creg c csr_satp) v) ?c = (p1, c1)" by (metis prod.exhaust)
  have "good (memory (snd (read_pte hooks (pte1_address (creg c csr_satp) v) ?c)))" by (rule read_good) (simp add: assms(1))
  then have g1: "good (memory c1)" unfolding 1 by simp
  show ?thesis
  proof (cases p1)
    case None
    then show ?thesis using 1 g1 assms(2) by (simp add: va2pa_def Let_def)
  next
    case (Some pte1)
    obtain p2 c2 where 2: "read_pte hooks (pte2_address pte1 v) c1 = (p2, c2)" by (metis prod.exhaust)
    have "good (memory c2)" using read_good [OF g1] 2 by (metis snd_conv)
    then show ?thesis using 1 2 Some g1 assms(2) by (auto simp: va2pa_def Let_def split: option.splits if_splits)
  qed
qed

lemma write_now_good: "cpu_mem_write32_now hooks a d w c = Some c' \<Longrightarrow> good (memory c) \<Longrightarrow> good (memory c')"
  using write_good by (auto simp: cpu_mem_write32_now_def split: option.splits)

lemma stages_good:
  assumes "good (memory c)"
  shows "good (memory (snd (store_merge hooks c)))" "good (memory (snd (store_uart hooks c)))"
    "good (memory (snd (store_uart_request hooks c)))" "good (memory (snd (store_uart_ready hooks c)))"
    "good (memory (snd (store_irq_complete hooks c)))"
  using assms write_now_good
  by (auto simp: store_merge_def store_uart_def store_uart_request_def store_uart_ready_def store_irq_complete_def Let_def rv_memory
      split: option.split)

lemma and_then_good: "(\<And>d. good (memory d) \<Longrightarrow> good (memory (snd (f d)))) \<Longrightarrow> good (memory (snd r)) \<Longrightarrow> good (memory (snd (and_then f r)))"
  by (simp add: and_then_def)

lemma store_data_good: "good (memory c) \<Longrightarrow> good (memory (cpu_store_data hooks c))"
proof -
  assume "good (memory c)"
  then have "good (memory (snd (and_then (store_irq_complete hooks) (and_then (store_uart_ready hooks) (and_then (store_uart_request hooks)
      (and_then (store_uart hooks) (store_merge hooks c)))))))"
    by (intro and_then_good stages_good)
  then show ?thesis by (simp add: cpu_store_data_def Let_def rv_memory)
qed

lemma execute_good:
  assumes "good (memory c)"
  shows "good (memory (amo_execute hooks v p c))" "good (memory (load_execute hooks v p c))" "good (memory (store_execute hooks p c))"
  using assms by (simp_all add: amo_execute_def load_execute_def store_execute_def Let_def rv_memory store_data_good split: option.split)

lemma access_good:
  assumes "good (memory c)"
  shows "good (memory (RV32A hooks c))" "good (memory (cpu_load hooks c))" "good (memory (cpu_store hooks c))"
  using assms by (auto simp: RV32A_def cpu_load_def cpu_store_def Let_def rv_memory execute_good dest: va2pa_good split: prod.split)

lemma riscv_good: "good (memory c) \<Longrightarrow> good (memory (RISCV sf u hooks c))"
  by (simp add: RISCV_def dispatch_def RV32IM_def Let_def rv_memory access_good)

lemma exec_good:
  assumes "good (memory c)"
  shows "good (memory (cpu_exec sf u hooks c))"
proof -
  have fetched: "good (memory (exec_fetched sf u hooks p e))" if "good (memory e)" for p e
    using that by (simp add: exec_fetched_def Let_def rv_memory riscv_good split: option.split)
  obtain pa d where d: "va2pa hooks (pc (state (exec_begin c))) 0 (exec_begin c) = (pa, d)" by (metis prod.exhaust)
  have "good (memory d)" by (rule va2pa_good [OF _ d]) (simp add: assms rv_memory)
  then show ?thesis using assms d by (simp add: cpu_exec_def Let_def rv_memory fetched)
qed

end

lemma walk_keeps_array: "(p_memory (snd (on_cpu_mem_read a m)) = None) = (p_memory m = None)"
  by (simp add: on_cpu_mem_read_def Let_def)

interpretation sc_array: kept_memory sc_hooks "\<lambda>m. p_memory m \<noteq> None"
  by unfold_locales (auto simp: sc_hooks_def walk_keeps_array cpu_mem_write_now_hook_def apply_wstrb_write_def Let_def split: if_splits)

end
