(* ===== verification/SC_Run.thy ===== *)
theory SC_Run
  imports SC_Sim RV_Control RV_Memory
begin

text \<open>
  Runs of the demonstration program, over any interconnect and any answers of the memory system: every
  run halts within its limits, the requests under way are those of the stage, and what the program
  sends out for a store is what the processor writes.
\<close>

section \<open>The clock\<close>

lemma clock_frames [rv_frame]:
  "sim_clock (set_pc a c) = sim_clock c" "sim_clock (set_csr i v c) = sim_clock c"
  "sim_clock (set_gpr r v c) = sim_clock c" "sim_clock (set_status v c) = sim_clock c"
  "sim_clock (write_reg r w c) = sim_clock c"
  by (simp_all add: set_pc_def set_csr_def set_gpr_def set_status_def write_reg_def split: option.split)

lemma exception_clock [rv_frame]: "sim_clock (cpu_exception v c) = sim_clock c"
  by (simp add: cpu_exception_def Let_def rv_frame enter_m_def enter_s_def leave_m_def leave_s_def)

lemma store_data_clock [rv_frame]: "sim_clock (cpu_store_data h c) = sim_clock c"
  using cpu_store_data_stored [of c h] by (simp add: stored_def)

lemma execute_clock [rv_frame]:
  "sim_clock (amo_execute h v p c) = sim_clock c" "sim_clock (load_execute h v p c) = sim_clock c"
  "sim_clock (store_execute h p c) = sim_clock c" "sim_clock (RV32CSR u c) = sim_clock c"
  "sim_clock (RV32Zfinx sf c) = sim_clock c"
  by (simp_all add: amo_execute_def load_execute_def store_execute_def RV32CSR_def RV32Zfinx_def write_csr_def Let_def rv_frame
      split: option.split fp_outcome.split)

lemma va2pa_clock: "va2pa h v t c = (pa, d) \<Longrightarrow> sim_clock d = sim_clock c"
  using va2pa_walked [of c h v t] walkedD(11) by (metis snd_conv)

lemma access_clock [rv_frame]:
  "sim_clock (RV32A h c) = sim_clock c" "sim_clock (cpu_load h c) = sim_clock c" "sim_clock (cpu_store h c) = sim_clock c"
  by (auto simp: RV32A_def cpu_load_def cpu_store_def Let_def rv_frame dest: va2pa_clock split: prod.split)

lemma integer_clock [rv_frame]: "sim_clock (RV32IM u h c) = sim_clock c"
  by (simp add: RV32IM_def Let_def rv_frame)

lemma riscv_clock [rv_frame]: "sim_clock (RISCV sf u h c) = sim_clock c"
  by (simp add: RISCV_def dispatch_def Let_def rv_frame) (simp add: sample_irqs_def Let_def)

lemma exec_clock: "sim_clock (cpu_exec sf u h c) = sim_clock c"
proof -
  have start: "sim_clock (exec_begin c) = sim_clock c" by (simp add: exec_begin_def)
  have fetched: "sim_clock (exec_fetched sf u h p e) = sim_clock e" for p e
    by (simp add: exec_fetched_def Let_def rv_frame split: option.split)
  show ?thesis using start by (auto simp: cpu_exec_def Let_def rv_frame fetched dest: va2pa_clock split: prod.split)
qed

section \<open>The phases of a cycle\<close>

text \<open>Up to the edge, a cycle changes wires, beats and the memory behind the processor, and the clock.\<close>

definition core_same :: "'m cpu \<Rightarrow> 'm cpu \<Rightarrow> bool" where
  "core_same c d \<longleftrightarrow> d = c\<lparr>memory := memory d, sim_clock := sim_clock d\<rparr>"

lemma core_same_updates [simp]:
  "core_same c c" "core_same c (d\<lparr>memory := m\<rparr>) = core_same c d" "core_same c (d\<lparr>sim_clock := t\<rparr>) = core_same c d"
  by (cases c, cases d, simp add: core_same_def)+

lemma core_same_trans: "core_same a b \<Longrightarrow> core_same b c \<Longrightarrow> core_same a c"
  by (cases a, cases b, cases c) (simp add: core_same_def)

definition same_progress :: "'i sim \<Rightarrow> 'i sim \<Rightarrow> bool" where
  "same_progress s s' \<longleftrightarrow>
     stage s' = stage s \<and> image_loaded s' = image_loaded s \<and> success s' = success s \<and> max_inst s' = max_inst s \<and> max_cycles s' = max_cycles s \<and>
     inst_count s' = inst_count s \<and> fetch_ok s' = fetch_ok s \<and> fetch_paddr s' = fetch_paddr s \<and> inst_word s' = inst_word s \<and>
     pre_req s' = pre_req s \<and>
     rr_active (fetch_req s') = rr_active (fetch_req s) \<and> rr_addr (fetch_req s') = rr_addr (fetch_req s) \<and>
     rr_active (data_req s') = rr_active (data_req s) \<and> rr_addr (data_req s') = rr_addr (data_req s) \<and>
     rr_total_size (data_req s') = rr_total_size (data_req s) \<and>
     wq_active (write_req s') = wq_active (write_req s) \<and> wq_addr (write_req s') = wq_addr (write_req s) \<and>
     wq_wdata (write_req s') = wq_wdata (write_req s) \<and> wq_wstrb (write_req s') = wq_wstrb (write_req s) \<and>
     wq_total_size (write_req s') = wq_total_size (write_req s) \<and>
     (p_memory (sim_memory s') = None \<longleftrightarrow> p_memory (sim_memory s) = None) \<and>
     core_same (cpu_core s) (cpu_core s')"

lemma same_progress_refl: "same_progress s s"
  by (simp add: same_progress_def)

lemma same_progress_trans: "same_progress a b \<Longrightarrow> same_progress b c \<Longrightarrow> same_progress a c"
  unfolding same_progress_def by (auto dest: core_same_trans)

lemma drive_mmu_frame: "drive_mmu_request ops rs s = (rs', s') \<Longrightarrow> same_progress s s' \<and> cpu_core s' = cpu_core s"
  by (auto simp: drive_mmu_request_def Let_def same_progress_def split: if_splits)

lemma drive_frame: "drive_current_stage ops s = (seen, io, s') \<Longrightarrow> same_progress s s' \<and> cpu_core s' = cpu_core s"
  by (auto simp: drive_current_stage_def Let_def split: prod.splits dest: drive_mmu_frame)

lemma ram_kept:
  "(p_memory (mirror_word i d m) = None) = (p_memory m = None)" "(p_memory (apply_wstrb_write a d w m) = None) = (p_memory m = None)"
  by (auto simp: mirror_word_def apply_wstrb_write_def Let_def split: option.split)

lemma mirror_read_frame: "same_progress s (mirror_read_data i out s) \<and> sim_time (mirror_read_data i out s) = sim_time s"
  by (simp add: mirror_read_data_def Let_def same_progress_def upd_memory_def ram_kept)

lemma uart_lanes_frame: "same_progress s (fold (uart_lane b out) ls s) \<and> cpu_core (fold (uart_lane b out) ls s) = cpu_core s"
proof (induction ls arbitrary: s)
  case (Cons l ls)
  have "same_progress s (uart_lane b out l s) \<and> cpu_core (uart_lane b out l s) = cpu_core s"
    by (simp add: uart_lane_def same_progress_def)
  then show ?case using Cons.IH [of "uart_lane b out l s"] same_progress_trans by auto
qed (simp add: same_progress_refl)

lemma mirror_write_frame: "same_progress s (mirror_write_data i out s) \<and> sim_time (mirror_write_data i out s) = sim_time s"
proof -
  let ?a = "wq_addr (write_req s) + ucast (wq_beats_seen (write_req s)) * 4"
  let ?m = "upd_memory (apply_wstrb_write ?a (out_wdata out) (out_wstrb out)) s"
  let ?l = "fold (uart_lane (?a AND NOT 3) out) [0..<4] ?m"
  have m: "same_progress s ?m" "sim_time ?m = sim_time s"
    by (simp_all add: same_progress_def upd_memory_def ram_kept)
  have l: "same_progress s ?l" "sim_time ?l = sim_time s" "write_req ?m = write_req s"
    using same_progress_trans [OF m(1)] uart_lanes_frame [of ?m] m(2) by (auto simp: upd_memory_def)
  have w: "same_progress s (x\<lparr>write_req := (write_req s)\<lparr>wq_beats_seen := n\<rparr>\<rparr>)" if "same_progress s x" for x n
    using that by (auto simp: same_progress_def)
  show ?thesis unfolding mirror_write_data_def Let_def using l(1,2) w [OF l(1)] by (simp add: same_progress_refl)
qed

lemma wires_frame:
  assumes "sim_wires ops i s = (seen, out, s')"
  shows "same_progress s s' \<and> sim_time s' = sim_time s + 1"
proof -
  let ?s = "s\<lparr>interconnect := op_comb_outputs ops i (interconnect s)\<rparr>"
  obtain rs w d where d: "drive_current_stage ops ?s = (seen, (rs, w), d)" "out = op_axi_out ops (op_comb_inputs ops rs w (interconnect d))"
    "s' = (let e = mirror_write_data i out (mirror_read_data i out (d\<lparr>interconnect := op_comb_inputs ops rs w (interconnect d)\<rparr>))
           in e\<lparr>interconnect := op_seq ops (interconnect e), cpu_core := (cpu_core e)\<lparr>sim_clock := sim_time e + 1\<rparr>\<rparr>)"
    using assms by (auto simp: sim_wires_def Let_def split: prod.splits)
  have ic: "same_progress x (y\<lparr>interconnect := j\<rparr>) = same_progress x y" for x y j by (simp add: same_progress_def)
  have s: "same_progress s ?s" by (simp add: ic same_progress_refl)
  have d': "same_progress s (d\<lparr>interconnect := op_comb_inputs ops rs w (interconnect d)\<rparr>)" "cpu_core d = cpu_core s"
    using drive_frame [OF d(1)] same_progress_trans [OF s] by (simp_all add: ic)
  define e where "e = mirror_write_data i out (mirror_read_data i out (d\<lparr>interconnect := op_comb_inputs ops rs w (interconnect d)\<rparr>))"
  have e: "same_progress s e" "sim_time e = sim_time s"
    using same_progress_trans [OF d'(1)] same_progress_trans mirror_read_frame mirror_write_frame d'(2) unfolding e_def by (metis, simp add: mirror_read_frame mirror_write_frame)
  show ?thesis using e unfolding d(3) Let_def e_def [symmetric] by (auto simp: same_progress_def)
qed

section \<open>Every run halts\<close>

lemma translate_clock: "translate_addr c v t = (pa, d) \<Longrightarrow> sim_clock d = sim_clock c"
  by (auto simp: translate_addr_def dest: va2pa_clock split: if_splits)

lemma decode_clock: "decode_mem_req_pre_exec c i = (req, d) \<Longrightarrow> sim_clock d = sim_clock c"
  by (auto simp: decode_mem_req_pre_exec_def Let_def dest: translate_clock split: if_splits prod.splits option.splits)

text \<open>What no stage changes, and the count of instructions.\<close>

definition same_limits :: "'i sim \<Rightarrow> 'i sim \<Rightarrow> bool" where
  "same_limits s s' \<longleftrightarrow> image_loaded s' = image_loaded s \<and> max_inst s' = max_inst s \<and> max_cycles s' = max_cycles s \<and>
     sim_time s' = sim_time s \<and> (inst_count s' = inst_count s \<or> stage s = Execute \<and> inst_count s' = inst_count s + 1)"

lemma prepare_limits: "same_limits s (prepare_fetch s)" "same_limits s (prepare_data_request s)"
  by (auto simp: prepare_fetch_def prepare_data_request_def same_limits_def Let_def dest: translate_clock decode_clock
      split: prod.split)

lemma execute_limits: "stage s = Execute \<Longrightarrow> same_limits s (execute_stage sf u s)"
  by (simp add: execute_stage_def same_limits_def Let_def exec_clock)

lemma wait_limits:
  "same_limits s (wait_fetch a b s)" "same_limits s (wait_data_read a b s)" "same_limits s (wait_write st a b s)"
  by (simp_all add: wait_fetch_def wait_data_read_def wait_write_def same_limits_def Let_def)

lemma update_limits: "same_limits s (update_stage_after_cycle sf u a b s)"
proof -
  let ?s = "upd_memory (update_mmu_request_state (mmu_req_ready s) (mmu_resp_valid s)) s"
  have same: "same_limits ?s x \<Longrightarrow> same_limits s x" for x by (simp add: same_limits_def upd_memory_def)
  have "same_limits ?s ?s" by (simp add: same_limits_def)
  then show ?thesis unfolding update_stage_after_cycle_def Let_def
    by (cases "stage ?s") (simp_all add: same prepare_limits wait_limits execute_limits)
qed

abbreviation running :: "'i sim \<Rightarrow> bool" where
  "running s \<equiv> stage s \<noteq> Halted \<and> exit_code (cpu_core s) = None"

lemma check_limits_running:
  "running (check_limits s) \<Longrightarrow> inst_count s < max_inst s \<and> sim_time s < max_cycles s"
  "sim_time (check_limits s) = sim_time s" "image_loaded (check_limits s) = image_loaded s"
  "max_inst (check_limits s) = max_inst s" "max_cycles (check_limits s) = max_cycles s"
  "inst_count (check_limits s) = inst_count s"
  by (simp_all add: check_limits_def Let_def not_le split: if_splits)

text \<open>The invariant: what has been counted, and when the run goes on.\<close>

definition within_limits :: "nat \<Rightarrow> u64 \<Rightarrow> u64 \<Rightarrow> 'i sim \<Rightarrow> bool" where
  "within_limits n m k s \<longleftrightarrow> image_loaded s \<and> max_inst s = m \<and> max_cycles s = k \<and> inst_count s \<le> m \<and>
     (running s \<and> stage s = Execute \<longrightarrow> inst_count s < m) \<and>
     (running s \<longrightarrow> sim_time s = of_nat n \<and> (n \<noteq> 0 \<longrightarrow> n < unat k))"

lemma step_begin_simps [simp]:
  "stage (step_begin s) = stage s" "image_loaded (step_begin s) = image_loaded s" "cpu_core (step_begin s) = cpu_core s"
  "inst_count (step_begin s) = inst_count s" "max_inst (step_begin s) = max_inst s" "max_cycles (step_begin s) = max_cycles s"
  by (simp_all add: step_begin_def Let_def)

lemma cycle_running:
  assumes "running s" "image_loaded s" "sim_wires ops i (step_begin s) = (seen, out, e)"
  shows "sim_cycle sf u ops i s = sim_edge sf u seen e"
  using assms by (simp add: sim_cycle_def sim_step_def Let_def)

lemma cycle_halted: "\<not> running s \<Longrightarrow> image_loaded s \<Longrightarrow> sim_cycle sf u ops i s = (if exit_code (cpu_core s) \<noteq> None then s else step_begin s)"
  by (auto simp: sim_cycle_def sim_step_def Let_def)

lemma within_step:
  assumes "within_limits n m k s"
  shows "within_limits (Suc n) m k (sim_cycle sf u ops i s)"
proof (cases "running s")
  case False
  then show ?thesis using assms by (auto simp: cycle_halted within_limits_def)
next
  case True
  obtain seen out e where e: "sim_wires ops i (step_begin s) = (seen, out, e)" by (metis prod.exhaust)
  have loaded: "image_loaded s" using assms by (simp add: within_limits_def)
  note w = wires_frame [OF e]
  let ?x = "update_stage_after_cycle sf u (fst seen) (snd seen) e"
  have e': "stage e = stage s" "image_loaded e" "max_inst e = m" "max_cycles e = k" "inst_count e = inst_count s"
    "sim_time e = of_nat (Suc n)"
    using w assms True loaded by (auto simp: same_progress_def within_limits_def)
  note x = update_limits [of e sf u "fst seen" "snd seen"]
  have count: "inst_count ?x \<le> m"
  proof (cases "stage s = Execute")
    case True
    then have "inst_count s < m" using assms \<open>running s\<close> by (simp add: within_limits_def)
    then show ?thesis using x e' by (auto simp: same_limits_def intro: inc_le)
  next
    case False
    then show ?thesis using x e' assms by (auto simp: same_limits_def within_limits_def)
  qed
  have cycle: "sim_cycle sf u ops i s = (if exit_code (cpu_core ?x) \<noteq> None then ?x else check_limits ?x)"
    using cycle_running [OF True loaded e] by (simp add: sim_edge_def Let_def)
  show ?thesis
  proof (cases "exit_code (cpu_core ?x) = None")
    case False
    then show ?thesis using cycle count x e' by (auto simp: within_limits_def same_limits_def)
  next
    case True
    have time: "Suc n < unat k" if "running (check_limits ?x)"
    proof -
      have "of_nat (Suc n) < k" using check_limits_running(1) [OF that] x e' by (simp add: same_limits_def)
      moreover have n: "n < 2 ^ 64 - 1"
        using assms \<open>running s\<close> unsigned_less [of k, where 'a = nat] by (cases "n = 0") (auto simp: within_limits_def)
      moreover have "unat (of_nat (Suc n) :: u64) = Suc n" using n by (simp only: unat_of_nat) simp
      ultimately show ?thesis by (simp only: word_less_nat_alt)
    qed
    show ?thesis using cycle True count x e' time check_limits_running [of ?x]
      by (simp add: within_limits_def same_limits_def)
  qed
qed

lemma within_run: "within_limits n m k s \<Longrightarrow> within_limits (n + length inputs) m k (run_cycles (sim_cycle sf u ops) inputs s)"
proof (induction inputs arbitrary: n s)
  case (Cons i inputs)
  show ?case using Cons.IH [OF within_step [OF Cons.prems]] by simp
qed simp

lemma reset_within: "image_loaded s \<Longrightarrow> within_limits 0 (max_inst s) (max_cycles s) (reset_machine_state ops s)"
  by (simp add: within_limits_def reset_machine_state_def Let_def cpu_init_def)

text \<open>The run is over when the machine has halted or an instruction has ended the program.\<close>

definition run_over :: "'i sim \<Rightarrow> bool" where
  "run_over s \<longleftrightarrow> stage s = Halted \<or> exit_code (cpu_core s) \<noteq> None"

text \<open>Every run of the demonstration program is over after as many cycles as its limit says, whatever the interconnect and the memory do, and has counted no more instructions than its limit.\<close>

theorem sc_run_halts:
  assumes "image_loaded s" "inputs \<noteq> []" "unat (max_cycles s) \<le> length inputs"
  shows "let s' = run_cycles (sim_cycle sf u ops) inputs (reset_machine_state ops s)
    in run_over s' \<and> inst_count s' \<le> max_inst s"
  using within_run [OF reset_within [OF assms(1)], where inputs = inputs and sf = sf and u = u and ops = ops] assms(2,3)
  by (auto simp: Let_def within_limits_def run_over_def)

theorem sc_run_halts_witness:
  "\<forall>sf u ops. run_over (run_cycles (sim_cycle sf u ops)
     [\<lparr>in_arready = 0, in_awready = 0, in_wready = 0, in_rvalid = 0, in_rid = 0, in_rdata = 0, in_rresp = 0, in_rlast = 0,
       in_bvalid = 0, in_bid = 0, in_bresp = 0\<rparr>]
     (reset_machine_state ops ((set_limits 5 1 (sim_members (Some (\<lambda>_. 0)) ()))\<lparr>image_loaded := True\<rparr>)))"
  using sc_run_halts [of "(set_limits 5 1 (sim_members (Some (\<lambda>_. 0)) ()))\<lparr>image_loaded := True\<rparr>"]
  by (simp add: set_limits_def Let_def del: run_cycles.simps)

section \<open>Requests and stages\<close>

text \<open>The requests under way are those of the stage, with the address and the data that were decoded.\<close>

definition requests_match :: "'i sim \<Rightarrow> bool" where
  "requests_match s \<longleftrightarrow>
     (stage s = WaitFetch \<longrightarrow> fetch_ok s \<and> rr_active (fetch_req s) \<and> rr_addr (fetch_req s) = fetch_paddr s) \<and>
     (stage s = WaitData \<longrightarrow> dm_valid (pre_req s)) \<and>
     (stage s = WaitData \<and> dm_is_read (pre_req s) \<longrightarrow> rr_active (data_req s) \<and> rr_addr (data_req s) = dm_paddr (pre_req s) \<and>
        rr_total_size (data_req s) = dm_total_size (pre_req s)) \<and>
     (stage s = WaitData \<and> \<not> dm_is_read (pre_req s) \<longrightarrow> wq_active (write_req s) \<and> wq_addr (write_req s) = dm_paddr (pre_req s) \<and>
        wq_wdata (write_req s) = dm_wdata (pre_req s) \<and> wq_wstrb (write_req s) = ucast (dm_wstrb (pre_req s)) \<and>
        wq_total_size (write_req s) = dm_total_size (pre_req s)) \<and>
     (stage s = WaitAmoWrite \<longrightarrow> wq_active (write_req s) \<and> wq_addr (write_req s) = store_addr (state (cpu_core s)) \<and>
        wq_wdata (write_req s) = store_data (state (cpu_core s)) \<and> inst_word s AND 0x7f = 0x2f) \<and>
     (rr_active (fetch_req s) \<longrightarrow> stage s = WaitFetch \<or> stage s = Halted) \<and>
     (rr_active (data_req s) \<longrightarrow> stage s = WaitData \<and> dm_is_read (pre_req s) \<or> stage s = Halted) \<and>
     (wq_active (write_req s) \<longrightarrow> stage s = WaitData \<and> \<not> dm_is_read (pre_req s) \<or> stage s = WaitAmoWrite \<or> stage s = Halted)"

lemma core_same_state: "core_same c d \<Longrightarrow> state d = state c"
  by (cases c, cases d) (simp add: core_same_def)

lemma matches_progress: "same_progress s s' \<Longrightarrow> requests_match s' = requests_match s"
proof -
  assume p: "same_progress s s'"
  then have "state (cpu_core s') = state (cpu_core s)" by (simp add: same_progress_def core_same_state)
  with p show ?thesis by (simp add: same_progress_def requests_match_def)
qed

lemma matches_stages:
  assumes "requests_match s"
  shows "stage s = PrepareFetch \<Longrightarrow> requests_match (prepare_fetch s)"
    "stage s = WaitFetch \<Longrightarrow> requests_match (wait_fetch a b s)"
    "stage s = PrepareData \<Longrightarrow> requests_match (prepare_data_request s)"
    "stage s = WaitData \<Longrightarrow> dm_is_read (pre_req s) \<Longrightarrow> requests_match (wait_data_read a b s)"
    "stage s = WaitData \<Longrightarrow> \<not> dm_is_read (pre_req s) \<Longrightarrow> requests_match (wait_write Execute a b s)"
    "stage s = WaitAmoWrite \<Longrightarrow> requests_match (wait_write PrepareFetch a b s)"
    "stage s = Execute \<Longrightarrow> requests_match (execute_stage sf u s)"
  using assms
  by (auto simp: requests_match_def prepare_fetch_def prepare_data_request_def wait_fetch_def wait_data_read_def wait_write_def
      execute_stage_def send_read_def send_write_def setup_read_def setup_write_def Let_def split: prod.split)

lemma matches_update: "requests_match s \<Longrightarrow> requests_match (update_stage_after_cycle sf u a b s)"
proof -
  let ?s = "upd_memory (update_mmu_request_state (mmu_req_ready s) (mmu_resp_valid s)) s"
  assume "requests_match s"
  then have m: "requests_match ?s" by (simp add: requests_match_def upd_memory_def)
  show ?thesis unfolding update_stage_after_cycle_def Let_def
    by (cases "stage ?s") (simp_all add: m matches_stages)
qed

lemma matches_limits: "requests_match s \<Longrightarrow> requests_match (check_limits s)"
  by (auto simp: check_limits_def Let_def requests_match_def)

text \<open>The processor and its array.\<close>

definition core_ok :: "sc_memory cpu \<Rightarrow> bool" where
  "core_ok c \<longleftrightarrow> cpu_inv c \<and> p_memory (memory c) \<noteq> None"

lemma core_ok_same: "core_same c d \<Longrightarrow> core_ok c \<Longrightarrow> p_memory (memory d) \<noteq> None \<Longrightarrow> core_ok d"
  by (cases c, cases d) (auto simp: core_same_def core_ok_def cpu_inv_def cpu_ok_def)

lemma core_ok_translate: "translate_addr c v t = (pa, d) \<Longrightarrow> core_ok c \<Longrightarrow> core_ok d"
proof -
  assume t: "translate_addr c v t = (pa, d)" and c: "core_ok c"
  have "core_ok e" if "va2pa sc_hooks v t c = (pa, e)" for e
    using cpu_ok_va2pa [OF that] va2pa_same [OF that] sc_array.va2pa_good [OF _ that] c
    by (simp add: core_ok_def cpu_inv_def same_context_def)
  then show "core_ok d" using t c by (auto simp: translate_addr_def split: if_splits)
qed

lemma core_ok_decode: "decode_mem_req_pre_exec c i = (req, d) \<Longrightarrow> core_ok c \<Longrightarrow> core_ok d"
  by (auto simp: decode_mem_req_pre_exec_def Let_def dest: core_ok_translate split: if_splits prod.splits option.splits)

lemma core_ok_exec: "core_ok c \<Longrightarrow> core_ok (cpu_exec sf u sc_hooks c)"
  using sc_array.exec_good by (simp add: core_ok_def cpu_inv_exec)

lemma core_ok_update:
  assumes "core_ok (cpu_core s)"
  shows "core_ok (cpu_core (update_stage_after_cycle sf u a b s))"
proof -
  let ?s = "upd_memory (update_mmu_request_state (mmu_req_ready s) (mmu_resp_valid s)) s"
  have m: "core_ok (cpu_core ?s)"
    using assms by (simp add: core_ok_def upd_memory_def cpu_inv_def) (simp add: update_mmu_request_state_def Let_def)
  have "core_ok (cpu_core (prepare_fetch ?s))" "core_ok (cpu_core (prepare_data_request ?s))" "core_ok (cpu_core (execute_stage sf u ?s))"
    using m by (auto simp: prepare_fetch_def prepare_data_request_def execute_stage_def Let_def core_ok_exec
        dest: core_ok_translate core_ok_decode split: prod.split)
  moreover have "core_ok (cpu_core (wait_fetch a b ?s))" "core_ok (cpu_core (wait_data_read a b ?s))" "core_ok (cpu_core (wait_write st a b ?s))" for st
    using m by (simp_all add: wait_fetch_def wait_data_read_def wait_write_def Let_def)
  ultimately show ?thesis unfolding update_stage_after_cycle_def Let_def using m by (cases "stage ?s") simp_all
qed

definition sim_inv :: "'i sim \<Rightarrow> bool" where
  "sim_inv s \<longleftrightarrow> image_loaded s \<and> core_ok (cpu_core s) \<and> requests_match s"

lemma sim_inv_edge: "sim_inv s \<Longrightarrow> sim_inv (sim_edge sf u seen s)"
proof -
  assume s: "sim_inv s"
  let ?x = "update_stage_after_cycle sf u (fst seen) (snd seen) s"
  have x: "sim_inv ?x" using s update_limits [of s sf u] by (simp add: sim_inv_def core_ok_update matches_update same_limits_def)
  moreover have "cpu_core (check_limits ?x) = cpu_core ?x" by (simp add: check_limits_def Let_def)
  ultimately show ?thesis by (simp add: sim_edge_def Let_def sim_inv_def matches_limits check_limits_running)
qed

lemma sim_inv_cycle: "sim_inv s \<Longrightarrow> sim_inv (sim_cycle sf u ops i s)"
proof -
  assume s: "sim_inv s"
  have b: "sim_inv (step_begin s)" using s by (auto simp: sim_inv_def step_begin_def Let_def requests_match_def)
  show ?thesis
  proof (cases "running s")
    case True
    obtain seen out e where e: "sim_wires ops i (step_begin s) = (seen, out, e)" by (metis prod.exhaust)
    have p: "same_progress (step_begin s) e" using wires_frame [OF e] by blast
    have old: "core_ok (cpu_core s)" using b by (simp add: sim_inv_def)
    then have "p_memory (sim_memory s) \<noteq> None" by (simp add: core_ok_def)
    then have "core_same (cpu_core s) (cpu_core e)" "p_memory (sim_memory e) \<noteq> None"
      using p by (simp_all add: same_progress_def)
    then have "core_ok (cpu_core e)" using core_ok_same old by blast
    then have "sim_inv e" using b p matches_progress [OF p] by (simp add: sim_inv_def same_progress_def)
    moreover have "image_loaded s" using s by (simp add: sim_inv_def)
    ultimately show ?thesis using cycle_running [OF True _ e] sim_inv_edge by simp
  next
    case False
    then show ?thesis using s b cycle_halted [OF False] by (simp add: sim_inv_def)
  qed
qed

definition sc_start :: "'i interconnect_ops \<Rightarrow> (u32 \<Rightarrow> u32) \<Rightarrow> 'i \<Rightarrow> u64 \<Rightarrow> u64 \<Rightarrow> u8 list \<Rightarrow> 'i sim" where
  "sc_start ops ram ic m n img = snd (load_image ops (Image img) (set_limits m n (sc_sim_create ops (Some ram) ic)))"

lemma init_memory [rv_memory]: "memory (cpu_init a c) = memory c"
  by (simp add: cpu_init_def)

lemma sim_inv_start: "sim_inv (sc_start ops ram ic m n img)"
proof -
  have ok: "core_ok (cpu_init 0 c)" if "p_memory (memory c) \<noteq> None" for c
    using that cpu_inv_init [of 0 c] by (simp add: core_ok_def rv_memory)
  show ?thesis
    by (simp add: sc_start_def load_image_def sc_sim_create_def init_runtime_def sim_members_def set_limits_def upd_memory_def
        reset_machine_state_def Let_def sim_inv_def ok requests_match_def read_req_zero_def write_req_zero_def cpu_zero_def rv_memory)
qed

interpretation demo: clocked_machine "sc_start ops ram ic m n img" "sim_cycle sf u ops" "\<lambda>_ _. True" sim_inv
  by unfold_locales (simp_all add: sim_inv_start sim_inv_cycle)

text \<open>C20: In any run of the demonstration program, over any interconnect, the requests under way are exactly those of the stage, with the decoded address and data; register 0 is zero and the memory array is there.\<close>

theorem sc_requests_match_stage:
  "let s = run_cycles (sim_cycle sf u ops) inputs (sc_start ops ram ic m n img)
   in requests_match s \<and> p_memory (sim_memory s) \<noteq> None \<and> length (gpr (state (cpu_core s))) = 32 \<and> gpr (state (cpu_core s)) ! 0 = 0"
  using demo.inv_reachable [of sf u ops inputs ram ic m n img]
  by (simp add: Let_def sim_inv_def core_ok_def cpu_inv_def cpu_ok_def regs_ok_def)

end
