(* ===== verification/RV_Sv32.thy ===== *)
theory RV_Sv32
  imports RV_Frames SC_Memory
begin

text \<open>
  The page table walk against its specification, the address translation algorithm of the RISC-V
  privileged architecture (\<open>sv32\<close>, by levels, in natural numbers, over a physical memory of 34-bit addresses). The
  code departs from it in two ways: it lets a supervisor that has SUM set fetch instructions from a page of the
  user, and it keeps 32 bits of an address. So the walk is first described as the code computes it (\<open>walk32\<close>), and
  \<open>sv32_exact\<close> states the conditions under which this is the algorithm. What the walk needs of the memory is the
  locale \<open>page_memory\<close>, interpreted on the hooks of the demonstration program; under it the cache of
  page table words agrees with the memory but for words changed behind its back.
\<close>

section \<open>The specification\<close>

definition vpn :: "nat \<Rightarrow> u32 \<Rightarrow> nat" where
  "vpn level va = unat va div 2 ^ (12 + 10 * level) mod 2 ^ 10"

definition pte_ppn :: "u32 \<Rightarrow> nat" where
  "pte_ppn pte = unat pte div 2 ^ 10"

text \<open>Bits of an entry: 0 valid, 1 read, 2 write, 3 execute, 4 user, 6 accessed, 7 dirty. A supervisor reads and writes
  pages of the user under SUM, and never executes them. An access without the accessed bit, or a store without the
  dirty bit, faults (the other choice the architecture gives is to set them).\<close>

definition leaf_grants :: "bool \<Rightarrow> bool \<Rightarrow> u32 \<Rightarrow> u32 \<Rightarrow> u32 \<Rightarrow> bool" where
  "leaf_grants mxr sm priv type pte \<longleftrightarrow>
     (type = 0 \<longrightarrow> bit pte 3) \<and> (type = 1 \<longrightarrow> bit pte 1 \<or> mxr \<and> bit pte 3) \<and> (type = 2 \<longrightarrow> bit pte 2) \<and>
     (priv = 0 \<longrightarrow> bit pte 4) \<and> (priv = 1 \<longrightarrow> bit pte 4 \<longrightarrow> type \<noteq> 0 \<and> sm) \<and> bit pte 6 \<and> (type = 2 \<longrightarrow> bit pte 7)"

text \<open>
  One level reads the entry of the page number of this level. A leaf above level 0 must be aligned;
  its page number takes the place of the upper part of the address. Otherwise the entry points to
  the table of the level below, and there is none below level 0.
\<close>

fun sv32 :: "(nat \<Rightarrow> u32) \<Rightarrow> bool \<Rightarrow> bool \<Rightarrow> u32 \<Rightarrow> u32 \<Rightarrow> u32 \<Rightarrow> nat \<Rightarrow> nat \<Rightarrow> nat option" where
  "sv32 P mxr sm priv type va level table =
     (let pte = P (table * 2 ^ 12 + vpn level va * 4) in
      if \<not> bit pte 0 \<or> \<not> bit pte 1 \<and> bit pte 2 then None
      else if bit pte 1 \<or> bit pte 3
      then (if leaf_grants mxr sm priv type pte \<and> pte_ppn pte mod 2 ^ (10 * level) = 0
            then Some (pte_ppn pte div 2 ^ (10 * level) * 2 ^ (12 + 10 * level) + unat va mod 2 ^ (12 + 10 * level))
            else None)
      else case level of 0 \<Rightarrow> None | Suc below \<Rightarrow> sv32 P mxr sm priv type va below (pte_ppn pte))"

declare sv32.simps [simp del]

definition root_table :: "'m cpu \<Rightarrow> nat" where
  "root_table c = unat (creg c csr_satp) mod 2 ^ 22"

definition sv32_translation :: "(nat \<Rightarrow> u32) \<Rightarrow> u32 \<Rightarrow> u32 \<Rightarrow> 'm cpu \<Rightarrow> nat option" where
  "sv32_translation P va type c =
     (let status = creg c csr_mstatus in
      sv32 P (bit status 19) (bit status 18) (effective_privilege type c) type va 1 (root_table c))"

text \<open>The entries the algorithm reads.\<close>

fun sv32_entries :: "(nat \<Rightarrow> u32) \<Rightarrow> u32 \<Rightarrow> nat \<Rightarrow> nat \<Rightarrow> u32 list" where
  "sv32_entries P va level table =
     (let pte = P (table * 2 ^ 12 + vpn level va * 4) in
      pte # (if \<not> bit pte 0 \<or> bit pte 1 \<or> bit pte 3 then []
             else case level of 0 \<Rightarrow> [] | Suc below \<Rightarrow> sv32_entries P va below (pte_ppn pte)))"

declare sv32_entries.simps [simp del]

text \<open>
  Where the code does what the algorithm says: the access is one of the user or the supervisor; the tables and the page lie
  below 4 GiB; and it is not a fetch by a supervisor, with SUM set, from a page of the user.
\<close>

definition sv32_exact :: "(nat \<Rightarrow> u32) \<Rightarrow> u32 \<Rightarrow> u32 \<Rightarrow> 'm cpu \<Rightarrow> bool" where
  "sv32_exact P va type c \<longleftrightarrow>
     (let ptes = sv32_entries P va 1 (root_table c); priv = effective_privilege type c in
      priv \<le> 1 \<and> root_table c < 2 ^ 20 \<and> (\<forall>pte\<in>set ptes. bit pte 0 \<longrightarrow> pte_ppn pte < 2 ^ 20) \<and>
      \<not> (type = 0 \<and> priv = 1 \<and> bit (creg c csr_mstatus) 18 \<and> (\<exists>pte\<in>set ptes. (bit pte 1 \<or> bit pte 3) \<and> bit pte 4)))"

section \<open>The walk in 32 bits\<close>

definition grants32 :: "bool \<Rightarrow> bool \<Rightarrow> u32 \<Rightarrow> u32 \<Rightarrow> u32 \<Rightarrow> bool" where
  "grants32 mxr sm priv type pte \<longleftrightarrow>
     (type = 0 \<longrightarrow> bit pte 3) \<and> (type = 1 \<longrightarrow> bit pte 1 \<or> mxr \<and> bit pte 3) \<and> (type = 2 \<longrightarrow> bit pte 2) \<and>
     (priv = 0 \<longrightarrow> bit pte 4) \<and> (priv = 1 \<longrightarrow> bit pte 4 \<longrightarrow> sm) \<and> bit pte 6 \<and> (type = 2 \<longrightarrow> bit pte 7)"

fun walk32 :: "(u32 \<Rightarrow> u32) \<Rightarrow> bool \<Rightarrow> bool \<Rightarrow> u32 \<Rightarrow> u32 \<Rightarrow> u32 \<Rightarrow> nat \<Rightarrow> nat \<Rightarrow> u32 option" where
  "walk32 W mxr sm priv type va level table =
     (let pte = W (of_nat (table * 2 ^ 12 + vpn level va * 4)) in
      if \<not> bit pte 0 \<or> \<not> bit pte 1 \<and> bit pte 2 then None
      else if bit pte 1 \<or> bit pte 3
      then (if grants32 mxr sm priv type pte \<and> pte_ppn pte mod 2 ^ (10 * level) = 0
            then Some (of_nat (pte_ppn pte div 2 ^ (10 * level) * 2 ^ (12 + 10 * level) + unat va mod 2 ^ (12 + 10 * level)))
            else None)
      else case level of 0 \<Rightarrow> None | Suc below \<Rightarrow> walk32 W mxr sm priv type va below (pte_ppn pte))"

declare walk32.simps [simp del]

definition walk32_translation :: "(u32 \<Rightarrow> u32) \<Rightarrow> u32 \<Rightarrow> u32 \<Rightarrow> 'm cpu \<Rightarrow> u32 option" where
  "walk32_translation W va type c =
     (let status = creg c csr_mstatus in
      walk32 W (bit status 19) (bit status 18) (effective_privilege type c) type va 1 (root_table c))"

lemma vpn_bound: "vpn level va < 2 ^ 10"
  by (simp add: vpn_def)

lemma unat_small: "n < 2 ^ 32 \<Longrightarrow> unat (of_nat n :: u32) = n"
  by (simp add: unat_of_nat)

lemma page_below_4G:
  fixes va :: u32
  assumes "level \<le> 1" "p < (2 :: nat) ^ 20"
  shows "p div 2 ^ (10 * level) * 2 ^ (12 + 10 * level) + unat va mod 2 ^ (12 + 10 * level) < 2 ^ 32"
proof -
  have "unat va mod 2 ^ 12 < 2 ^ 12" "unat va mod 2 ^ 22 < 2 ^ 22" "p div 2 ^ 10 < 2 ^ 10"
    using assms(2) by (simp_all add: less_mult_imp_div_less)
  moreover have "level = 0 \<or> level = 1" using assms(1) by linarith
  ultimately show ?thesis using assms(2) by (elim disjE) simp_all
qed

text \<open>While nothing is cut off, and the permissions agree on the leaf, the walk is the algorithm.\<close>

lemma walk32_exact:
  assumes "\<forall>a. P (unat a) = W a" "level \<le> 1" "table < 2 ^ 20"
    and "\<forall>pte\<in>set (sv32_entries P va level table). bit pte 0 \<longrightarrow> pte_ppn pte < 2 ^ 20"
    and "\<forall>pte\<in>set (sv32_entries P va level table). bit pte 1 \<or> bit pte 3 \<longrightarrow>
      grants32 mxr sm priv type pte = leaf_grants mxr sm priv type pte"
  shows "map_option unat (walk32 W mxr sm priv type va level table) = sv32 P mxr sm priv type va level table"
  using assms(2-)
proof (induction level arbitrary: table)
  case (0 table)
  note at = 0
  define a where "a = table * 2 ^ 12 + vpn 0 va * 4"
  have "unat (of_nat a :: u32) = a"
    using at(2) vpn_bound [of 0 va] by (intro unat_small) (simp add: a_def)
  then have pte: "W (of_nat a) = P a" using assms(1) by metis
  have "P a \<in> set (sv32_entries P va 0 table)" by (simp add: sv32_entries.simps [of P va 0] a_def Let_def)
  then have g: "bit (P a) 0 \<Longrightarrow> pte_ppn (P a) < 2 ^ 20"
    "bit (P a) 1 \<or> bit (P a) 3 \<Longrightarrow> grants32 mxr sm priv type (P a) = leaf_grants mxr sm priv type (P a)" using at(3,4) by blast+
  have small: "unat (of_nat (pte_ppn (P a) * 2 ^ 12 + unat va mod 2 ^ 12) :: u32) = pte_ppn (P a) * 2 ^ 12 + unat va mod 2 ^ 12"
    if "bit (P a) 0" using page_below_4G [OF _ g(1) [OF that], of 0 va] by (intro unat_small) simp
  show ?case
    unfolding walk32.simps [of W mxr sm priv type va 0] sv32.simps [of P mxr sm priv type va 0] Let_def a_def [symmetric] pte
    using g(2) small by auto
next
  case (Suc below table)
  then have below: "below = 0" by simp
  define a where "a = table * 2 ^ 12 + vpn (Suc below) va * 4"
  have "unat (of_nat a :: u32) = a"
    using Suc.prems(2) vpn_bound [of "Suc below" va] by (intro unat_small) (simp add: a_def)
  then have pte: "W (of_nat a) = P a" using assms(1) by metis
  have "P a \<in> set (sv32_entries P va (Suc below) table)" by (simp add: sv32_entries.simps [of P va "Suc below"] a_def Let_def)
  then have g: "bit (P a) 0 \<Longrightarrow> pte_ppn (P a) < 2 ^ 20"
    "bit (P a) 1 \<or> bit (P a) 3 \<Longrightarrow> grants32 mxr sm priv type (P a) = leaf_grants mxr sm priv type (P a)"
    using Suc.prems(3,4) by blast+
  let ?page = "pte_ppn (P a) div 2 ^ (10 * Suc below) * 2 ^ (12 + 10 * Suc below) + unat va mod 2 ^ (12 + 10 * Suc below)"
  have small: "unat (of_nat ?page :: u32) = ?page" if "bit (P a) 0"
    using page_below_4G [OF Suc.prems(1) g(1) [OF that], of va] by (intro unat_small) simp
  have next_level: "map_option unat (walk32 W mxr sm priv type va below (pte_ppn (P a))) = sv32 P mxr sm priv type va below (pte_ppn (P a))"
    if "bit (P a) 0" "\<not> bit (P a) 1" "\<not> bit (P a) 3"
  proof (rule Suc.IH)
    have "set (sv32_entries P va below (pte_ppn (P a))) \<subseteq> set (sv32_entries P va (Suc below) table)"
      unfolding sv32_entries.simps [of P va "Suc below"] Let_def a_def [symmetric] using that by auto
    then show "\<forall>pte\<in>set (sv32_entries P va below (pte_ppn (P a))). bit pte 0 \<longrightarrow> pte_ppn pte < 2 ^ 20"
      "\<forall>pte\<in>set (sv32_entries P va below (pte_ppn (P a))). bit pte 1 \<or> bit pte 3 \<longrightarrow>
        grants32 mxr sm priv type pte = leaf_grants mxr sm priv type pte"
      using Suc.prems(3,4) by blast+
  qed (use below g(1) that in simp_all)
  show ?case
    unfolding walk32.simps [of W mxr sm priv type va "Suc below"] sv32.simps [of P mxr sm priv type va "Suc below"] Let_def
      a_def [symmetric] pte
    using g(2) small next_level by (auto simp del: mult_Suc_right)
qed

lemma walk32_translation_exact:
  assumes "\<forall>a. P (unat a) = W a" "sv32_exact P va type c"
  shows "map_option unat (walk32_translation W va type c) = sv32_translation P va type c"
proof -
  have exact: "root_table c < 2 ^ 20" "\<forall>pte\<in>set (sv32_entries P va 1 (root_table c)). bit pte 0 \<longrightarrow> pte_ppn pte < 2 ^ 20"
    "\<not> (type = 0 \<and> effective_privilege type c = 1 \<and> bit (creg c csr_mstatus) 18 \<and>
       (\<exists>pte\<in>set (sv32_entries P va 1 (root_table c)). (bit pte 1 \<or> bit pte 3) \<and> bit pte 4))"
    using assms(2) unfolding sv32_exact_def Let_def by - (elim conjE, assumption)+
  show ?thesis
    unfolding walk32_translation_def sv32_translation_def Let_def
    by (rule walk32_exact [OF assms(1) order_refl exact(1,2)])
      (use exact(3) in \<open>auto simp: grants32_def leaf_grants_def\<close>)
qed

section \<open>The words of the code\<close>

lemma pte_flags:
  "flag x PTE_V \<longleftrightarrow> bit x 0" "flag x PTE_R \<longleftrightarrow> bit x 1" "flag x PTE_W \<longleftrightarrow> bit x 2" "flag x PTE_X \<longleftrightarrow> bit x 3"
  "flag x PTE_U \<longleftrightarrow> bit x 4" "flag x PTE_A \<longleftrightarrow> bit x 6" "flag x PTE_D \<longleftrightarrow> bit x 7"
  "flag x MSTATUS_SUM \<longleftrightarrow> bit x 18" "flag x MSTATUS_MXR \<longleftrightarrow> bit x 19"
  by (rule flag_of_power; simp add: PTE_V_def PTE_R_def PTE_W_def PTE_X_def PTE_U_def PTE_A_def PTE_D_def
      MSTATUS_SUM_def MSTATUS_MXR_def)+

lemma checks_agree:
  "pte_invalid pte \<longleftrightarrow> \<not> bit pte 0 \<or> \<not> bit pte 1 \<and> bit pte 2" "pte_leaf pte \<longleftrightarrow> bit pte 1 \<or> bit pte 3"
  "pte_permits mxr sm priv type pte \<and> pte_accessed type pte \<longleftrightarrow> grants32 mxr sm priv type pte"
  unfolding pte_invalid_def pte_leaf_def pte_permits_def pte_accessed_def grants32_def pte_flags by blast+

text \<open>Masks, shifts and disjoint unions as arithmetic.\<close>

lemma mask_mod: "unat (x AND m :: u32) = unat x mod 2 ^ n" if "m = mask n"
proof -
  have "unat (x AND m) = unat (take_bit n x)" by (simp only: that take_bit_eq_mask)
  also have "\<dots> = take_bit n (unat x)" by (rule unsigned_take_bit_eq)
  finally show ?thesis by (simp only: take_bit_eq_mod)
qed

lemma unat_drop: "unat (drop_bit k x :: u32) = unat x div 2 ^ k"
proof -
  have "take_bit 32 (unat x) = unat x" by (rule take_bit_nat_eq_self) (use unsigned_less [of x, where 'a = nat] in simp)
  then show ?thesis unfolding unsigned_drop_bit_eq by (simp add: drop_bit_eq_div)
qed

lemma or_is_plus:
  fixes a b :: u32
  assumes "\<And>i. bit a i \<Longrightarrow> \<not> bit b i"
  shows "a OR b = a + b"
proof -
  have "a AND b = 0" by (rule bit_word_eqI) (use assms in \<open>auto simp: bit_and_iff\<close>)
  then show ?thesis by (simp add: disjunctive_add_eq_or)
qed

lemma push_bit_nat: "push_bit k (x :: u32) = of_nat (unat x * 2 ^ k)"
  by (simp add: push_bit_eq_mult mult.commute)

text \<open>A value above another one is their sum.\<close>

lemma word_split_or:
  fixes x y :: u32
  assumes "unat y < 2 ^ k"
  shows "push_bit k x OR y = of_nat (unat x * 2 ^ k + unat y)"
proof -
  have small: "n < k" if "bit y n" for n
  proof -
    have "bit (unat y) n" using that by (simp add: bit_unsigned_iff)
    moreover have "take_bit k (unat y) = unat y" by (rule take_bit_nat_eq_self [OF assms])
    ultimately show ?thesis by (metis bit_take_bit_iff)
  qed
  have "push_bit k x OR y = push_bit k x + y"
    by (rule or_is_plus) (auto simp: bit_push_bit_iff dest: small)
  then show ?thesis by (simp only: push_bit_nat of_nat_add) simp
qed

text \<open>A table address: page number times the page size plus four times the index.\<close>

lemma table_address:
  fixes p i :: u32
  assumes "unat i < 2 ^ 10"
  shows "push_bit 12 p OR push_bit 2 i = of_nat (unat p * 2 ^ 12 + unat i * 4)"
proof -
  have "unat (push_bit 2 i) = unat i * 4"
    unfolding push_bit_nat by (subst unat_of_nat) (use assms in simp)
  then show ?thesis using word_split_or [of "push_bit 2 i" 12 p] assms by simp
qed

lemma pte1_address_nat: "pte1_address satp va = of_nat (unat satp mod 2 ^ 22 * 2 ^ 12 + vpn 1 va * 4)"
proof -
  have "unat (satp AND 0x3FFFFF) = unat satp mod 2 ^ 22" by (rule mask_mod) (simp add: mask_eq_exp_minus_1)
  moreover have "unat (drop_bit 22 va AND 0x3FF) = vpn 1 va"
    by (subst mask_mod [of _ 10]) (simp_all add: mask_eq_exp_minus_1 unat_drop vpn_def)
  ultimately show ?thesis
    using table_address [of "drop_bit 22 va AND 0x3FF" "satp AND 0x3FFFFF"] vpn_bound [of 1 va] by (simp add: pte1_address_def)
qed

lemma pte2_address_nat: "pte2_address pte va = of_nat (pte_ppn pte * 2 ^ 12 + vpn 0 va * 4)"
proof -
  have "unat (drop_bit 10 pte AND 0x3FFFFF) = pte_ppn pte mod 2 ^ 22"
    by (subst mask_mod [of _ 22]) (simp_all add: mask_eq_exp_minus_1 unat_drop pte_ppn_def)
  moreover have "pte_ppn pte < 2 ^ 22"
    using unsigned_less [of pte, where 'a = nat] by (simp add: pte_ppn_def less_mult_imp_div_less)
  moreover have "unat (drop_bit 12 va AND 0x3FF) = vpn 0 va"
    by (subst mask_mod [of _ 10]) (simp_all add: mask_eq_exp_minus_1 unat_drop vpn_def)
  ultimately show ?thesis
    using table_address [of "drop_bit 12 va AND 0x3FF" "drop_bit 10 pte AND 0x3FFFFF"] vpn_bound [of 0 va]
    by (simp add: pte2_address_def)
qed

lemma superpage_aligned: "drop_bit 10 pte AND 0x3FF = (0 :: u32) \<longleftrightarrow> pte_ppn pte mod 2 ^ 10 = 0"
proof -
  have "unat (drop_bit 10 pte AND 0x3FF) = pte_ppn pte mod 2 ^ 10"
    by (subst mask_mod [of _ 10]) (simp_all add: mask_eq_exp_minus_1 unat_drop pte_ppn_def)
  then show ?thesis by (metis unat_0 unat_eq_zero)
qed

lemma page_address_nat: "page_address pte va = of_nat (pte_ppn pte * 2 ^ 12 + unat va mod 2 ^ 12)"
proof -
  have off: "unat (va AND 0xFFF) = unat va mod 2 ^ 12" by (rule mask_mod) (simp add: mask_eq_exp_minus_1)
  then show ?thesis
    using word_split_or [of "va AND 0xFFF" 12 "drop_bit 10 pte"] by (simp add: page_address_def unat_drop pte_ppn_def)
qed

lemma superpage_address_nat:
  "superpage_address pte va = of_nat (pte_ppn pte div 2 ^ 10 * 2 ^ 22 + unat va mod 2 ^ 22)"
proof -
  have off: "unat (va AND 0x3FFFFF) = unat va mod 2 ^ 22" by (rule mask_mod) (simp add: mask_eq_exp_minus_1)
  have "(push_bit 2 pte AND 0xFFC00000 :: u32) = push_bit 22 (drop_bit 20 pte)"
  proof (rule bit_word_eqI)
    fix n
    have "(0xFFC00000 :: u32) = push_bit 22 (mask 10)" by (simp add: mask_eq_exp_minus_1)
    then show "bit (push_bit 2 pte AND 0xFFC00000) n = bit (push_bit 22 (drop_bit 20 pte)) n"
      by (simp only: bit_and_iff bit_push_bit_iff bit_drop_bit_eq bit_mask_iff) auto
  qed
  then show ?thesis
    using word_split_or [of "va AND 0x3FFFFF" 22 "drop_bit 20 pte"] off
    by (simp add: superpage_address_def unat_drop pte_ppn_def flip: div_mult2_eq)
qed

text \<open>The two levels, in the words of the code.\<close>

lemma walk32_level_0:
  assumes "pte = W (of_nat (table * 2 ^ 12 + vpn 0 va * 4))"
  shows "walk32 W mxr sm priv type va 0 table =
    (if pte_invalid pte then None
     else if pte_leaf pte then (if grants32 mxr sm priv type pte then Some (page_address pte va) else None)
     else None)"
  unfolding walk32.simps [of W mxr sm priv type va 0] assms [symmetric] Let_def checks_agree
  by (simp add: page_address_nat)

lemma walk32_level_1:
  assumes "pte = W (of_nat (table * 2 ^ 12 + vpn 1 va * 4))"
  shows "walk32 W mxr sm priv type va 1 table =
    (if pte_invalid pte then None
     else if pte_leaf pte
     then (if grants32 mxr sm priv type pte \<and> pte_ppn pte mod 2 ^ 10 = 0 then Some (superpage_address pte va) else None)
     else walk32 W mxr sm priv type va 0 (pte_ppn pte))"
  unfolding walk32.simps [of W mxr sm priv type va 1] assms [symmetric] Let_def checks_agree
  by (simp add: superpage_address_nat)

lemma effective_privilege_pending: "effective_privilege type (c\<lparr>translation_pending := b\<rparr>) = effective_privilege type c"
  by (simp add: effective_privilege_def Let_def)

text \<open>The walk of the code, once its two entries are known.\<close>

lemma va2pa_steps:
  fixes type va :: u32
  assumes "read_pte h (pte1_address (creg c csr_satp) va) (c\<lparr>translation_pending := False\<rparr>) = (Some pte1, c1)"
    and "read_pte h (pte2_address pte1 va) c1 = (p2, c2)"
  defines "grants \<equiv> grants32 (bit (creg c csr_mstatus) 19) (bit (creg c csr_mstatus) 18) (effective_privilege type c) type"
  shows "va2pa h va type c =
    (if pte_invalid pte1 then (None, c1)
     else if pte_leaf pte1
     then (if grants pte1 \<and> pte_ppn pte1 mod 2 ^ 10 = 0 then Some (superpage_address pte1 va) else None, c1)
     else (case p2 of None \<Rightarrow> None
       | Some pte2 \<Rightarrow> if pte_invalid pte2 then None else if pte_leaf pte2 then (if grants pte2 then Some (page_address pte2 va) else None)
           else None, c2))"
proof -
  have "grants = (\<lambda>pte. pte_permits (flag (creg c csr_mstatus) MSTATUS_MXR) (flag (creg c csr_mstatus) MSTATUS_SUM)
      (effective_privilege type c) type pte \<and> pte_accessed type pte)"
    by (simp add: grants_def checks_agree(3) pte_flags)
  then show ?thesis using assms(1,2)
    by (cases "pte_invalid pte1"; cases "pte_leaf pte1"; cases p2)
      (simp_all add: va2pa_def Let_def effective_privilege_pending superpage_aligned)
qed

section \<open>The memory of the walk\<close>

text \<open>Every valid entry of the cache holds the word of the memory at its tag.\<close>

definition coherent :: "(u32 \<Rightarrow> u32) \<Rightarrow> ptw_cache \<Rightarrow> bool" where
  "coherent W p \<longleftrightarrow> ptw_ok p \<and>
     (\<forall>i<kPtwCacheSize. ptw_valid p ! i \<longrightarrow> ptw_cache_index (ptw_tag p ! i) = i \<and>
       ptw_tag p ! i AND NOT 3 = ptw_tag p ! i \<and> ptw_data p ! i = W (ptw_tag p ! i))"

lemma index_bound [simp]: "ptw_cache_index a < kPtwCacheSize"
proof -
  have "drop_bit 2 a AND (511 :: u32) \<le> 511" by (rule word_and_le1)
  then show ?thesis by (simp add: ptw_cache_index_def kPtwCacheSize_def word_le_nat_alt)
qed

lemma coherent_read:
  "coherent W p \<Longrightarrow> ptw_cache_read p a = Some d \<Longrightarrow> d = W (a AND NOT 3)"
  by (auto simp: coherent_def ptw_cache_read_def Let_def split: if_splits)

lemma coherent_fill: "coherent W p \<Longrightarrow> d = W (a AND NOT 3) \<Longrightarrow> coherent W (ptw_cache_fill a d p)"
  by (auto simp: coherent_def ptw_cache_fill_def Let_def ptw_ok_def nth_list_update)

lemma coherent_reset: "coherent W ptw_cache_reset"
  by (simp add: coherent_def ptw_ok_updates) (simp add: ptw_cache_reset_def)

text \<open>The same but for some words, which have been written and not yet dropped.\<close>

definition coherent_but :: "u32 set \<Rightarrow> (u32 \<Rightarrow> u32) \<Rightarrow> ptw_cache \<Rightarrow> bool" where
  "coherent_but A W p \<longleftrightarrow> ptw_ok p \<and>
     (\<forall>i<kPtwCacheSize. ptw_valid p ! i \<longrightarrow> ptw_cache_index (ptw_tag p ! i) = i \<and>
       ptw_tag p ! i AND NOT 3 = ptw_tag p ! i \<and> (ptw_tag p ! i \<notin> A \<longrightarrow> ptw_data p ! i = W (ptw_tag p ! i)))"

lemma coherent_but_fill:
  "coherent_but A W p \<Longrightarrow> (a AND NOT 3 \<notin> A \<longrightarrow> d = W (a AND NOT 3)) \<Longrightarrow> coherent_but A W (ptw_cache_fill a d p)"
  by (auto simp: coherent_but_def ptw_cache_fill_def Let_def ptw_ok_def nth_list_update)

lemma coherent_but_reset: "coherent_but A W ptw_cache_reset"
  by (simp add: coherent_but_def ptw_ok_updates) (simp add: ptw_cache_reset_def)

lemma coherent_but_mono: "coherent_but A W p \<Longrightarrow> A \<subseteq> B \<Longrightarrow> coherent_but B W p"
  by (auto simp: coherent_but_def)

lemma coherent_but_changed: "coherent_but A W p \<Longrightarrow> (\<And>x. x AND NOT 3 = x \<Longrightarrow> x \<notin> B \<Longrightarrow> W' x = W x) \<Longrightarrow> coherent_but (A \<union> B) W' p"
  by (auto simp: coherent_but_def)

lemma coherent_but_none: "coherent_but {} W p = coherent W p"
  by (simp add: coherent_but_def coherent_def)

lemma coherent_but_written:
  "coherent_but A W p \<Longrightarrow> (\<And>x. x AND NOT 3 \<noteq> a \<Longrightarrow> W' x = W x) \<Longrightarrow> coherent_but (insert a A) W' p"
  by (auto simp: coherent_but_def)

lemma coherent_but_invalidate:
  assumes "coherent_but A W p"
  shows "coherent_but (A - {a AND NOT 3}) W (ptw_cache_invalidate_word a p)"
proof -
  let ?q = "ptw_cache_invalidate_word a p"
  have same: "ptw_tag ?q = ptw_tag p" "ptw_data ?q = ptw_data p" by (simp_all add: ptw_cache_invalidate_word_def Let_def)
  have "ptw_valid p ! i \<and> ptw_tag p ! i \<noteq> a AND NOT 3" if i: "i < kPtwCacheSize" "ptw_valid ?q ! i" for i
  proof -
    have v: "ptw_valid p ! i" using i assms
      by (cases "i = ptw_cache_index (a AND NOT 3)")
        (auto simp: ptw_cache_invalidate_word_def Let_def coherent_but_def ptw_ok_def split: if_splits)
    moreover have "\<not> ptw_valid ?q ! i" if "ptw_tag p ! i = a AND NOT 3"
    proof -
      have "i = ptw_cache_index (a AND NOT 3)" using assms i(1) v that by (auto simp: coherent_but_def)
      then show ?thesis using assms that v i(1)
        by (simp add: ptw_cache_invalidate_word_def Let_def coherent_but_def ptw_ok_def)
    qed
    ultimately show ?thesis using i(2) by blast
  qed
  then show ?thesis using assms by (simp add: coherent_but_def same ptw_ok_updates)
qed

text \<open>
  What the processor relies on: \<open>word\<close> is the word of the memory at an address, \<open>present\<close> that there is a memory,
  \<open>waiting\<close> the address and the word of an answer to the walk that has not been fetched. A read of the walk hands over
  the answer that waits for its address, or drops it, or leaves it, and changes no word.
\<close>

locale page_memory =
  fixes hooks :: "'m mem_hooks" and word :: "'m \<Rightarrow> u32 \<Rightarrow> u32" and present :: "'m \<Rightarrow> bool"
    and waiting :: "'m \<Rightarrow> (u32 \<times> u32) option"
  assumes aligned: "word m a = word m (a AND NOT 3)"
    and walk: "\<exists>f. walk_hook hooks = Some f \<and> (\<forall>m a r d m'. present m \<longrightarrow> f a m = ((r, d), m') \<longrightarrow>
        present m' \<and> word m' = word m \<and> r \<noteq> CPU_MEM_READ_FAULT \<and>
        (r = CPU_MEM_READ_OK \<longrightarrow> waiting m = Some (a AND NOT 3, d)) \<and> (waiting m' = None \<or> waiting m' = waiting m))"
    and read_now: "\<exists>f. read_now_hook hooks = Some f \<and> (\<forall>m a. present m \<longrightarrow> f a m = Some (word m a))"
    and write_now: "\<exists>f. write_now_hook hooks = Some f \<and> (\<forall>m a d. present m \<longrightarrow>
        (\<exists>m'. f a d 0xF m = Some m' \<and> present m' \<and> waiting m' = waiting m \<and>
           (\<forall>x. word m' x = (if x AND NOT 3 = a AND NOT 3 then d else word m x))))"
begin

text \<open>The answer that waits is the word of the memory, but for some addresses.\<close>

definition answers_but :: "u32 set \<Rightarrow> 'm \<Rightarrow> bool" where
  "answers_but A m \<longleftrightarrow> present m \<and> (\<forall>a d. waiting m = Some (a, d) \<longrightarrow> a \<notin> A \<longrightarrow> d = word m a)"

definition run_ok :: "u32 set \<Rightarrow> 'm cpu \<Rightarrow> bool" where
  "run_ok A c \<longleftrightarrow> answers_but A (memory c) \<and> coherent_but A (word (memory c)) (ptw c)"

text \<open>A walk keeps the words, and fetches, drops or leaves the answer that waits.\<close>

definition walk_keeps :: "'m cpu \<Rightarrow> 'm cpu \<Rightarrow> bool" where
  "walk_keeps c d \<longleftrightarrow> word (memory d) = word (memory c) \<and> (waiting (memory d) = None \<or> waiting (memory d) = waiting (memory c))"

lemma walk_keeps_trans: "walk_keeps c d \<Longrightarrow> walk_keeps d e \<Longrightarrow> walk_keeps c e"
  by (auto simp: walk_keeps_def)

lemma walk_keeps_same [simp]: "memory d = memory c \<Longrightarrow> walk_keeps c d"
  by (simp add: walk_keeps_def)

lemma read_pte_keeps:
  assumes "run_ok A c" "read_pte hooks a c = (r, d)"
  shows "run_ok A d \<and> walk_keeps c d"
proof (cases "ptw_cache_read (ptw c) a")
  case None
  obtain f where f: "walk_hook hooks = Some f" "\<And>m a r d m'. present m \<Longrightarrow> f a m = ((r, d), m') \<Longrightarrow>
      present m' \<and> word m' = word m \<and> r \<noteq> CPU_MEM_READ_FAULT \<and>
      (r = CPU_MEM_READ_OK \<longrightarrow> waiting m = Some (a AND NOT 3, d)) \<and> (waiting m' = None \<or> waiting m' = waiting m)"
    using walk by blast
  obtain q v m' where q: "f a (memory c) = ((q, v), m')" by (metis prod.exhaust)
  have ok: "answers_but A (memory c)" "coherent_but A (word (memory c)) (ptw c)" using assms(1) by (simp_all add: run_ok_def)
  then have law: "present m'" "word m' = word (memory c)" "q \<noteq> CPU_MEM_READ_FAULT"
      "q = CPU_MEM_READ_OK \<Longrightarrow> waiting (memory c) = Some (a AND NOT 3, v)" "waiting m' = None \<or> waiting m' = waiting (memory c)"
    using f(2) [OF _ q] by (simp_all add: answers_but_def)
  have "answers_but A m'" using ok(1) law(1,2,5) by (auto simp: answers_but_def)
  moreover have "coherent_but A (word m') (ptw_cache_fill a v (ptw c))" if "q = CPU_MEM_READ_OK"
    using ok law(2) law(4) [OF that] by (intro coherent_but_fill) (auto simp: answers_but_def)
  ultimately show ?thesis using assms(2) None f(1) q ok(2) law(2,3,5)
    by (cases q) (auto simp: read_pte_def cpu_phys_read32_def run_ok_def walk_keeps_def)
next
  case (Some v)
  then show ?thesis using assms by (auto simp: read_pte_def)
qed

lemma run_ok_updates [simp]:
  "run_ok A (c\<lparr>translation_pending := b\<rparr>) = run_ok A c" "run_ok A (c\<lparr>page_fault_inst := b\<rparr>) = run_ok A c"
  "run_ok A (c\<lparr>instruction := i\<rparr>) = run_ok A c" "run_ok A (c\<lparr>asy := b\<rparr>) = run_ok A c"
  "run_ok A (sample_irqs c) = run_ok A c" "run_ok A (exec_begin c) = run_ok A c"
  by (simp_all add: run_ok_def rv_frame)

lemma va2pa_keeps:
  assumes "run_ok A c" "va2pa hooks va type c = (pa, d)"
  shows "run_ok A d \<and> walk_keeps c d"
proof -
  let ?c = "c\<lparr>translation_pending := False\<rparr>"
  obtain p1 c1 where 1: "read_pte hooks (pte1_address (creg c csr_satp) va) ?c = (p1, c1)" by (metis prod.exhaust)
  obtain p2 c2 where 2: "read_pte hooks (pte2_address (the p1) va) c1 = (p2, c2)" by (metis prod.exhaust)
  have "walk_keeps c ?c" by simp
  moreover have k1: "run_ok A c1 \<and> walk_keeps ?c c1" by (rule read_pte_keeps [OF _ 1]) (use assms(1) in simp)
  moreover have k2: "run_ok A c2 \<and> walk_keeps c1 c2" by (rule read_pte_keeps [OF _ 2]) (use k1 in simp)
  moreover have "d = c1 \<or> d = c2"
    using assms(2) 1 2 by (cases p1; cases p2) (auto simp: va2pa_def Let_def split: if_splits)
  ultimately show ?thesis using walk_keeps_trans by metis
qed

abbreviation sound :: "'m \<Rightarrow> bool" where
  "sound \<equiv> answers_but {}"

lemma read_pte_result:
  assumes "sound (memory c)" "coherent (word (memory c)) (ptw c)" "\<not> translation_pending c" "read_pte hooks a c = (r, d)"
  shows "sound (memory d) \<and> word (memory d) = word (memory c) \<and> coherent (word (memory c)) (ptw d)"
    and "r = (if translation_pending d then None else Some (word (memory c) a))"
proof -
  have run: "run_ok {} c" using assms(1,2) by (simp add: run_ok_def coherent_but_none)
  then have d: "run_ok {} d \<and> walk_keeps c d" using assms(4) by (rule read_pte_keeps)
  then show "sound (memory d) \<and> word (memory d) = word (memory c) \<and> coherent (word (memory c)) (ptw d)"
    unfolding run_ok_def coherent_but_none walk_keeps_def by metis
  show "r = (if translation_pending d then None else Some (word (memory c) a))"
  proof (cases "ptw_cache_read (ptw c) a")
    case None
    obtain f where f: "walk_hook hooks = Some f" "\<And>m a r d m'. present m \<Longrightarrow> f a m = ((r, d), m') \<Longrightarrow>
        r \<noteq> CPU_MEM_READ_FAULT \<and> (r = CPU_MEM_READ_OK \<longrightarrow> waiting m = Some (a AND NOT 3, d))"
      using walk by blast
    obtain q v m' where q: "f a (memory c) = ((q, v), m')" by (metis prod.exhaust)
    have law: "q \<noteq> CPU_MEM_READ_FAULT" "q = CPU_MEM_READ_OK \<Longrightarrow> v = word (memory c) a"
      using f(2) [OF _ q] assms(1) aligned [of "memory c" a] by (auto simp: answers_but_def)
    then show ?thesis using assms(3,4) None f(1) q
      by (cases q) (auto simp: read_pte_def cpu_phys_read32_def)
  next
    case (Some v)
    have "word (memory c) a = word (memory c) (a AND NOT 3)" by (rule aligned)
    then show ?thesis using assms coherent_read [OF assms(2) Some] Some by (auto simp: read_pte_def)
  qed
qed

text \<open>The state of the memory and the cache in which the walk is right.\<close>

abbreviation walk_ok :: "'m cpu \<Rightarrow> bool" where
  "walk_ok \<equiv> run_ok {}"

lemma walk_ok_def: "walk_ok c \<longleftrightarrow> sound (memory c) \<and> coherent (word (memory c)) (ptw c)"
  by (simp add: run_ok_def coherent_but_none)

lemma va2pa_result:
  assumes "walk_ok c" "va2pa hooks va type c = (pa, d)"
  shows "walk_ok d \<and> word (memory d) = word (memory c) \<and>
    (\<not> translation_pending d \<longrightarrow> pa = walk32_translation (word (memory c)) va type c)"
proof -
  let ?W = "word (memory c)" and ?c = "c\<lparr>translation_pending := False\<rparr>"
  define a1 where "a1 = pte1_address (creg c csr_satp) va"
  obtain p1 c1 where 1: "read_pte hooks a1 ?c = (p1, c1)" by (metis prod.exhaust)
  have start: "sound (memory ?c)" "coherent (word (memory ?c)) (ptw ?c)" "\<not> translation_pending ?c"
    using assms(1) by (simp_all add: walk_ok_def)
  note r1 = read_pte_result [OF start 1, simplified]
  define pte1 where "pte1 = ?W a1"
  define a2 where "a2 = pte2_address pte1 va"
  let ?sm = "bit (creg c csr_mstatus) 18" and ?mxr = "bit (creg c csr_mstatus) 19" and ?priv = "effective_privilege type c"
  have spec: "walk32_translation ?W va type c =
      (if pte_invalid pte1 then None
       else if pte_leaf pte1 then (if grants32 ?mxr ?sm ?priv type pte1 \<and> pte_ppn pte1 mod 2 ^ 10 = 0
         then Some (superpage_address pte1 va) else None)
       else if pte_invalid (?W a2) then None
       else if pte_leaf (?W a2) then (if grants32 ?mxr ?sm ?priv type (?W a2) then Some (page_address (?W a2) va) else None)
       else None)"
    unfolding walk32_translation_def Let_def
    by (simp only: walk32_level_1 [where W = ?W and pte = pte1, OF pte1_def [unfolded a1_def pte1_address_nat, folded root_table_def]]
        walk32_level_0 [where W = ?W and table = "pte_ppn pte1", OF refl] a2_def pte2_address_nat)
  show ?thesis
  proof (cases "translation_pending c1")
    case True
    then have "(pa, d) = (None, c1)" using assms(2) 1 r1(2) by (simp add: va2pa_def Let_def a1_def)
    then show ?thesis using True r1(1) by (simp add: walk_ok_def)
  next
    case False
    obtain p2 c2 where 2: "read_pte hooks a2 c1 = (p2, c2)" by (metis prod.exhaust)
    have 3: "sound (memory c1)" "coherent (word (memory c1)) (ptw c1)" "word (memory c1) = ?W" using r1(1) by simp_all
    note r2 = read_pte_result [OF 3(1,2) False 2, unfolded 3(3)]
    have "read_pte hooks (pte1_address (creg c csr_satp) va) ?c = (Some pte1, c1)"
      using 1 r1(2) False by (simp add: a1_def pte1_def)
    note va = va2pa_steps [OF this 2 [unfolded a2_def], of type, unfolded assms(2)]
    show ?thesis
      using va r1(1) r2 False unfolding spec by (cases "translation_pending c2") (auto simp: walk_ok_def split: if_splits)
  qed
qed

text \<open>Reads and writes of instructions, when there is a memory; the answer that waits is \<open>w\<close> or has gone.\<close>

definition agrees_but :: "u32 set \<Rightarrow> (u32 \<times> u32) option \<Rightarrow> 'm cpu \<Rightarrow> bool" where
  "agrees_but A w c \<longleftrightarrow> present (memory c) \<and> coherent_but A (word (memory c)) (ptw c) \<and>
     (waiting (memory c) = None \<or> waiting (memory c) = w)"

lemma agrees_but_mono: "agrees_but A w c \<Longrightarrow> A \<subseteq> B \<Longrightarrow> agrees_but B w c"
  using coherent_but_mono by (auto simp: agrees_but_def)

lemma read_now_value: "agrees_but A w c \<Longrightarrow> cpu_mem_read32_now hooks a c = Some (word (memory c) a)"
  using read_now by (auto simp: agrees_but_def cpu_mem_read32_now_def)

lemma write_now_value:
  assumes "agrees_but A w c"
  obtains c' where "cpu_mem_write32_now hooks a d 0xF c = Some c'" "agrees_but (insert (a AND NOT 3) A) w c'"
    "state c' = state c"
proof -
  obtain f where f: "write_now_hook hooks = Some f" "\<And>m a d. present m \<Longrightarrow>
      \<exists>m'. f a d 0xF m = Some m' \<and> present m' \<and> waiting m' = waiting m \<and>
        (\<forall>x. word m' x = (if x AND NOT 3 = a AND NOT 3 then d else word m x))"
    using write_now by blast
  obtain m' where m': "f a d 0xF (memory c) = Some m'" "present m'" "waiting m' = waiting (memory c)"
      "\<And>x. word m' x = (if x AND NOT 3 = a AND NOT 3 then d else word (memory c) x)"
    using f(2) assms unfolding agrees_but_def by blast
  show ?thesis
  proof (rule that [of "c\<lparr>memory := m'\<rparr>"])
    show "cpu_mem_write32_now hooks a d 0xF c = Some (c\<lparr>memory := m'\<rparr>)" using f(1) m'(1) by (simp add: cpu_mem_write32_now_def)
    show "agrees_but (insert (a AND NOT 3) A) w (c\<lparr>memory := m'\<rparr>)"
      using assms m'(2-) by (auto simp: agrees_but_def intro!: coherent_but_written)
  qed simp
qed

lemma forget_agrees: "agrees_but A w c \<Longrightarrow> agrees_but (A - {a AND NOT 3}) w (forget_word a c)"
  using coherent_but_invalidate [of A "word (memory c)" "ptw c" a] by (simp add: agrees_but_def forget_word_def)

lemma agrees_updates [simp]:
  "agrees_but A w (c\<lparr>console := t\<rparr>) = agrees_but A w c" "agrees_but A w (set_csr i v c) = agrees_but A w c"
  "agrees_but A w (set_gpr r v c) = agrees_but A w c" "agrees_but A w (set_pc a c) = agrees_but A w c"
  "agrees_but A w (cpu_exception v c) = agrees_but A w c" "agrees_but A w (upd_state f c) = agrees_but A w c"
  "agrees_but A w (c\<lparr>illegal_exception := b\<rparr>) = agrees_but A w c" "agrees_but A w (c\<lparr>page_fault_inst := b\<rparr>) = agrees_but A w c"
  "agrees_but A w (c\<lparr>page_fault_load := b\<rparr>) = agrees_but A w c" "agrees_but A w (c\<lparr>page_fault_store := b\<rparr>) = agrees_but A w c"
  "agrees_but A w (c\<lparr>instruction := i'\<rparr>) = agrees_but A w c" "agrees_but A w (c\<lparr>asy := b\<rparr>) = agrees_but A w c"
  "agrees_but A w (c\<lparr>is_br := b\<rparr>) = agrees_but A w c" "agrees_but A w (c\<lparr>br_taken := b\<rparr>) = agrees_but A w c"
  "agrees_but A w (c\<lparr>is_csr := b\<rparr>) = agrees_but A w c" "agrees_but A w (c\<lparr>fp_mode := x\<rparr>) = agrees_but A w c"
  "agrees_but A w (c\<lparr>fp_flags := x\<rparr>) = agrees_but A w c" "agrees_but A w (c\<lparr>exit_code := e\<rparr>) = agrees_but A w c"
  "agrees_but A w (c\<lparr>sim_end := b\<rparr>) = agrees_but A w c" "agrees_but A w (sample_irqs c) = agrees_but A w c"
  "agrees_but A w (exec_begin c) = agrees_but A w c" "agrees_but A w (write_reg r x' c) = agrees_but A w c"
  "agrees_but A w (snd (store_fails c)) = agrees_but A w c"
  by (simp_all add: agrees_but_def rv_frame write_reg_def store_fails_def split: option.split)

lemma stages_agree:
  assumes "agrees_but A w c"
  shows "agrees_but A w (snd (store_merge hooks c))" "agrees_but A w (snd (store_uart hooks c))"
    "agrees_but A w (snd (store_uart_ready hooks c))" "agrees_but A w (snd (store_irq_complete hooks c))"
proof -
  have go: "agrees_but A w (forget_word a c')" if "cpu_mem_write32_now hooks a d 0xF c = Some c'" for a d c'
  proof -
    obtain c'' where "cpu_mem_write32_now hooks a d 0xF c = Some c''" "agrees_but (insert (a AND NOT 3) A) w c''"
      using write_now_value [OF assms] by metis
    then show ?thesis using that forget_agrees [of "insert (a AND NOT 3) A" w c'' a]
      by (auto elim: agrees_but_mono)
  qed
  have reads: "cpu_mem_read32_now hooks a c = Some (word (memory c) a)" for a by (rule read_now_value [OF assms])
  have writes: "cpu_mem_write32_now hooks a d 0xF c \<noteq> None" for a d using write_now_value [OF assms] by (metis option.discI)
  show "agrees_but A w (snd (store_merge hooks c))"
    using assms writes by (auto simp: store_merge_def Let_def reads dest: go split: option.split)
  show "agrees_but A w (snd (store_uart hooks c))"
    using assms writes by (auto simp: store_uart_def Let_def reads dest: go split: option.split)
  show "agrees_but A w (snd (store_uart_ready hooks c))"
    using assms writes by (auto simp: store_uart_ready_def Let_def reads dest: go split: option.split)
  show "agrees_but A w (snd (store_irq_complete hooks c))"
    using assms writes by (auto simp: store_irq_complete_def Let_def dest: go split: option.split)
qed

lemma request_agrees:
  assumes "agrees_but A w c"
  shows "agrees_but A w (snd (store_uart_request hooks c))"
proof -
  obtain c1 where 1: "cpu_mem_write32_now hooks 0x0c201004 0xa 0xF c = Some c1" "agrees_but (insert 0x0c201004 A) w c1"
    using write_now_value [OF assms, where a = "0x0c201004" and d = "0xa"] by auto
  note r = read_now_value [OF 1(2), of "0x10000000"]
  obtain c2 where 2: "cpu_mem_write32_now hooks 0x10000000 (word (memory c1) 0x10000000 AND 0xfff0ffff) 0xF c1 = Some c2"
      "agrees_but (insert 0x10000000 (insert 0x0c201004 A)) w c2"
    using write_now_value [OF 1(2), where a = "0x10000000"] by auto
  have "agrees_but (insert 0x10000000 A) w (forget_word 0x0c201004 c2)"
    using forget_agrees [OF 2(2), of "0x0c201004"] by (auto elim: agrees_but_mono)
  then have "agrees_but (insert 0x10000000 A - {0x10000000}) w (forget_word 0x10000000 (forget_word 0x0c201004 c2))"
    using forget_agrees [of "insert 0x10000000 A" w "forget_word 0x0c201004 c2" "0x10000000"] by simp
  then have "agrees_but A w (forget_word 0x10000000 (forget_word 0x0c201004 c2))"
    by (rule agrees_but_mono) blast
  then show ?thesis using assms 1(1) r 2(1) by (simp add: store_uart_request_def Let_def)
qed

lemma and_then_agrees:
  "(\<And>d. agrees_but A w d \<Longrightarrow> agrees_but A w (snd (f d))) \<Longrightarrow> agrees_but A w (snd r) \<Longrightarrow> agrees_but A w (snd (and_then f r))"
  by (simp add: and_then_def)

lemma store_data_agrees: "agrees_but A w c \<Longrightarrow> agrees_but A w (cpu_store_data hooks c)"
proof -
  assume "agrees_but A w c"
  then have "agrees_but A w (snd (and_then (store_irq_complete hooks) (and_then (store_uart_ready hooks)
      (and_then (store_uart_request hooks) (and_then (store_uart hooks) (store_merge hooks c))))))"
    by (intro and_then_agrees stages_agree request_agrees)
  then show ?thesis by (simp add: cpu_store_data_def Let_def store_shift_def)
qed

section \<open>The cache of page table words along a run\<close>

text \<open>At the start of an instruction, and through its walks.\<close>

definition begins :: "u32 set \<Rightarrow> (u32 \<times> u32) option \<Rightarrow> 'm cpu \<Rightarrow> bool" where
  "begins A w c \<longleftrightarrow> run_ok A c \<and> (waiting (memory c) = None \<or> waiting (memory c) = w)"

lemma begins_agrees: "begins A w c \<Longrightarrow> agrees_but A w c"
  by (simp add: begins_def run_ok_def answers_but_def agrees_but_def)

lemma va2pa_begins: "va2pa hooks va type c = (pa, d) \<Longrightarrow> begins A w c \<Longrightarrow> begins A w d"
  using va2pa_keeps [of A c va type pa d] by (auto simp: begins_def walk_keeps_def)

lemma begins_updates [simp]:
  "begins A w (c\<lparr>page_fault_inst := b\<rparr>) = begins A w c" "begins A w (c\<lparr>instruction := i\<rparr>) = begins A w c"
  "begins A w (c\<lparr>asy := b\<rparr>) = begins A w c" "begins A w (sample_irqs c) = begins A w c" "begins A w (exec_begin c) = begins A w c"
  by (simp_all add: begins_def rv_frame)

lemma csr_agrees: "agrees_but A w c \<Longrightarrow> agrees_but A w (RV32CSR u c)"
proof -
  have "agrees_but A w (write_csr i v c)" if "agrees_but A w c" for i v c
    using that by (simp add: write_csr_def Let_def) (simp add: agrees_but_def rv_frame coherent_but_reset)
  then show "agrees_but A w c \<Longrightarrow> agrees_but A w (RV32CSR u c)" by (simp add: RV32CSR_def Let_def)
qed

lemma execute_agrees:
  "agrees_but A w c \<Longrightarrow> agrees_but A w (amo_execute hooks v p c)" "agrees_but A w c \<Longrightarrow> agrees_but A w (load_execute hooks v p c)"
  "agrees_but A w c \<Longrightarrow> agrees_but A w (store_execute hooks p c)"
  by (simp_all add: amo_execute_def load_execute_def store_execute_def Let_def store_data_agrees split: option.split)

lemma amo_agrees: "begins A w c \<Longrightarrow> agrees_but A w (RV32A hooks c)"
  by (auto simp: RV32A_def Let_def execute_agrees begins_agrees dest: va2pa_begins split: prod.split)

lemma load_agrees: "begins A w c \<Longrightarrow> agrees_but A w (cpu_load hooks c)"
  by (auto simp: cpu_load_def Let_def execute_agrees begins_agrees dest: va2pa_begins split: prod.split)

lemma store_agrees: "begins A w c \<Longrightarrow> agrees_but A w (cpu_store hooks c)"
  by (auto simp: cpu_store_def Let_def execute_agrees begins_agrees dest: va2pa_begins split: prod.split)

lemma integer_agrees: "begins A w c \<Longrightarrow> agrees_but A w (RV32IM u hooks c)"
  by (simp add: RV32IM_def Let_def load_agrees store_agrees begins_agrees)

lemma float_agrees: "agrees_but A w c \<Longrightarrow> agrees_but A w (RV32Zfinx sf c)"
  by (simp add: RV32Zfinx_def Let_def split: option.split fp_outcome.split)

lemma riscv_agrees: "begins A w c \<Longrightarrow> agrees_but A w (RISCV sf u hooks c)"
  by (simp add: RISCV_def dispatch_def Let_def csr_agrees amo_agrees integer_agrees float_agrees begins_agrees)

lemma exec_agrees:
  assumes "run_ok A c"
  shows "agrees_but A (waiting (memory c)) (cpu_exec sf u hooks c)"
proof -
  let ?w = "waiting (memory c)"
  have c: "begins A ?w c" using assms by (simp add: begins_def)
  have fetched: "agrees_but A ?w (exec_fetched sf u hooks p e)" if "begins A ?w e" for p e
    using that by (simp add: exec_fetched_def Let_def riscv_agrees begins_agrees split: option.split)
  obtain pa d where d: "va2pa hooks (pc (state (exec_begin c))) 0 (exec_begin c) = (pa, d)" by (metis prod.exhaust)
  then have "begins A ?w d" using va2pa_begins c by (metis begins_updates(5))
  then show ?thesis using c d by (simp add: cpu_exec_def Let_def fetched begins_agrees)
qed

text \<open>
  The words that have changed behind the back of the cache: each step of a run adds those it changes by a copy into the
  memory, and those an instruction changes while their answer waits.
\<close>

lemma exec_run_ok:
  assumes "run_ok A c" and d_def: "d = cpu_exec sf u hooks c"
  shows "run_ok (A \<union> {a. (\<exists>x. waiting (memory d) = Some (a, x)) \<and> word (memory d) a \<noteq> word (memory c) a}) d"
proof -
  let ?B = "{a. (\<exists>x. waiting (memory d) = Some (a, x)) \<and> word (memory d) a \<noteq> word (memory c) a}"
  have d: "agrees_but A (waiting (memory c)) d" unfolding d_def by (rule exec_agrees [OF assms(1)])
  have "x = word (memory d) a" if "waiting (memory d) = Some (a, x)" "a \<notin> A \<union> ?B" for a x
    using that d assms(1) by (auto simp: agrees_but_def run_ok_def answers_but_def)
  then show ?thesis using d coherent_but_mono [of A "word (memory d)" "ptw d" "A \<union> ?B"]
    by (auto simp: agrees_but_def run_ok_def answers_but_def)
qed

lemma run_ok_mono: "run_ok A c \<Longrightarrow> A \<subseteq> B \<Longrightarrow> run_ok B c"
  using coherent_but_mono by (auto simp: run_ok_def answers_but_def)

lemma changed_run_ok:
  assumes "run_ok A c" "present m"
  shows "run_ok (A \<union> {a. word m a \<noteq> word (memory c) a} \<union> {a. \<exists>x. waiting m = Some (a, x) \<and> waiting m \<noteq> waiting (memory c)})
    (c\<lparr>memory := m\<rparr>)"
proof -
  let ?B = "{a. word m a \<noteq> word (memory c) a}"
  have "coherent_but (A \<union> ?B) (word m) (ptw c)"
    by (rule coherent_but_changed) (use assms(1) in \<open>auto simp: run_ok_def\<close>)
  then have "coherent_but (A \<union> ?B \<union> {a. \<exists>x. waiting m = Some (a, x) \<and> waiting m \<noteq> waiting (memory c)}) (word m) (ptw c)"
    by (rule coherent_but_mono) blast
  then show ?thesis using assms by (auto simp: run_ok_def answers_but_def)
qed

end

end
