(* ===== verification/SC_Walks.thy ===== *)
theory SC_Walks
  imports RV_Sv32
begin

text \<open>
  The page table walk over the memory of the demonstration program: its hooks meet the interface
  \<open>page_memory\<close>, so the walk computes the translation of the architecture and the cache of page table
  words never holds a stale word; and every translation comes to an end once its reads are answered.
\<close>

section \<open>The hooks as a memory of pages\<close>

lemma aligned_index: "a AND NOT 3 = push_bit 2 (drop_bit 2 (a :: u32))"
proof -
  have three: "(3 :: u32) = mask 2" by (simp add: mask_eq_exp_minus_1)
  have low: "Suc (Suc (n - 2)) = n" if "2 \<le> n" for n using that by simp
  show ?thesis unfolding three
    by (rule bit_word_eqI) (auto simp: bit_drop_bit_eq bit_push_bit_iff bit_and_iff bit_not_iff bit_mask_iff low)
qed

lemma index_aligned: "drop_bit 2 (a AND NOT 3) = drop_bit 2 (a :: u32)"
  unfolding aligned_index
  by (rule bit_word_eqI) (auto simp: bit_drop_bit_eq bit_push_bit_iff dest: bit_imp_le_length)

lemma same_index: "drop_bit 2 x = drop_bit 2 a \<longleftrightarrow> x AND NOT 3 = a AND NOT (3 :: u32)"
  using index_aligned aligned_index by metis

definition sc_word :: "sc_memory \<Rightarrow> u32 \<Rightarrow> u32" where
  "sc_word m a = (case p_memory m of None \<Rightarrow> 0 | Some ram \<Rightarrow> ram (drop_bit 2 a))"

text \<open>An answer that waits to be fetched is the word at its address.\<close>

definition sc_sound :: "sc_memory \<Rightarrow> bool" where
  "sc_sound m \<longleftrightarrow> p_memory m \<noteq> None \<and>
     (mh_response_valid (mmu_hook m) \<longrightarrow> mh_data (mmu_hook m) = sc_word m (mh_addr (mmu_hook m)))"

lemma sc_word_ram: "p_memory m = Some ram \<Longrightarrow> sc_word m a = ram (drop_bit 2 a)"
  by (simp add: sc_word_def)

lemma sc_word_aligned: "sc_word m (a AND NOT 3) = sc_word m a"
  by (simp only: sc_word_def index_aligned)

lemma wstrb_mask_full: "wstrb_mask 15 = - 1"
  by (simp add: wstrb_mask_def)

definition sc_waiting :: "sc_memory \<Rightarrow> (u32 \<times> u32) option" where
  "sc_waiting m = (let k = mmu_hook m in if mh_response_valid k then Some (mh_addr k, mh_data k) else None)"

lemma sc_walk:
  assumes "p_memory m \<noteq> None" "on_cpu_mem_read a m = ((r, d), m')"
  shows "p_memory m' \<noteq> None \<and> sc_word m' = sc_word m \<and> r \<noteq> CPU_MEM_READ_FAULT \<and>
    (r = CPU_MEM_READ_OK \<longrightarrow> sc_waiting m = Some (a AND NOT 3, d)) \<and> (sc_waiting m' = None \<or> sc_waiting m' = sc_waiting m)"
proof -
  have word: "sc_word m' = sc_word m" if "p_memory m' = p_memory m" using that by (simp add: sc_word_def fun_eq_iff)
  show ?thesis using assms word
    by (cases "mh_response_valid (mmu_hook m)"; cases "mh_addr (mmu_hook m) = a AND NOT 3")
      (auto simp: on_cpu_mem_read_def Let_def sc_waiting_def split: if_splits)
qed

lemma sc_write:
  assumes "p_memory m \<noteq> None"
  shows "\<exists>m'. cpu_mem_write_now_hook a d 0xF m = Some m' \<and> p_memory m' \<noteq> None \<and> sc_waiting m' = sc_waiting m \<and>
    (\<forall>x. sc_word m' x = (if x AND NOT 3 = a AND NOT 3 then d else sc_word m x))"
proof -
  obtain ram where ram: "p_memory m = Some ram" using assms by blast
  show ?thesis
    by (simp add: cpu_mem_write_now_hook_def apply_wstrb_write_def ram Let_def wstrb_mask_full sc_word_def same_index sc_waiting_def)
qed

definition has_ram :: "sc_memory \<Rightarrow> bool" where
  "has_ram m \<longleftrightarrow> p_memory m \<noteq> None"

interpretation sc_pages: page_memory sc_hooks sc_word has_ram sc_waiting
proof (unfold_locales, unfold has_ram_def)
  show "sc_word m a = sc_word m (a AND NOT 3)" for m a by (simp only: sc_word_aligned)
  show "\<exists>f. walk_hook sc_hooks = Some f \<and> (\<forall>m a r d m'. p_memory m \<noteq> None \<longrightarrow> f a m = ((r, d), m') \<longrightarrow>
      p_memory m' \<noteq> None \<and> sc_word m' = sc_word m \<and> r \<noteq> CPU_MEM_READ_FAULT \<and>
      (r = CPU_MEM_READ_OK \<longrightarrow> sc_waiting m = Some (a AND NOT 3, d)) \<and> (sc_waiting m' = None \<or> sc_waiting m' = sc_waiting m))"
    using sc_walk by (auto simp: sc_hooks_def)
  show "\<exists>f. read_now_hook sc_hooks = Some f \<and> (\<forall>m a. p_memory m \<noteq> None \<longrightarrow> f a m = Some (sc_word m a))"
    by (auto simp: sc_hooks_def cpu_mem_read_now_hook_def sc_word_def index_aligned [simplified])
  show "\<exists>f. write_now_hook sc_hooks = Some f \<and> (\<forall>m a d. p_memory m \<noteq> None \<longrightarrow>
      (\<exists>m'. f a d 0xF m = Some m' \<and> p_memory m' \<noteq> None \<and> sc_waiting m' = sc_waiting m \<and>
        (\<forall>x. sc_word m' x = (if x AND NOT 3 = a AND NOT 3 then d else sc_word m x))))"
    using sc_write by (auto simp: sc_hooks_def)
qed

text \<open>What the interface says of these hooks, with \<open>sc_sound\<close>.\<close>

lemma sc_sound_answers: "sc_pages.answers_but {} m = sc_sound m"
  by (auto simp: sc_pages.answers_but_def sc_sound_def sc_waiting_def has_ram_def Let_def)

lemmas sc_read_pte_result = sc_pages.read_pte_result [unfolded sc_sound_answers]
lemmas sc_va2pa_result = sc_pages.va2pa_result [unfolded sc_pages.walk_ok_def sc_sound_answers]

section \<open>Translations end\<close>

text \<open>The memory after the read of the walk has been answered.\<close>

abbreviation word_mirrored :: "sc_memory \<Rightarrow> sc_memory" where
  "word_mirrored \<equiv> update_mmu_request_state True True"

lemma answered_ram [simp]: "p_memory (update_mmu_request_state b b' m) = p_memory m"
  by (simp add: update_mmu_request_state_def Let_def)

lemma answered_word [simp]: "sc_word (update_mmu_request_state b b' m) = sc_word m"
  by (simp add: sc_word_def fun_eq_iff)

lemma answered_sound: "sc_sound m \<Longrightarrow> sc_sound (update_mmu_request_state b b' m)"
  by (auto simp: sc_sound_def) (auto simp: update_mmu_request_state_def sc_word_def Let_def)

text \<open>A translation is tried again after each answered read, at most so often.\<close>

fun walk_tries :: "nat \<Rightarrow> u32 \<Rightarrow> u32 \<Rightarrow> sc_memory cpu \<Rightarrow> u32 option \<times> sc_memory cpu" where
  "walk_tries 0 va type c = va2pa sc_hooks va type c"
| "walk_tries (Suc n) va type c =
     (case va2pa sc_hooks va type c of
        (pa, d) \<Rightarrow> if translation_pending d then walk_tries n va type (d\<lparr>memory := word_mirrored (memory d)\<rparr>) else (pa, d))"

text \<open>The answer that waits is the one for an address.\<close>

definition hook_at :: "u32 \<Rightarrow> sc_memory \<Rightarrow> bool" where
  "hook_at a m \<longleftrightarrow> mh_response_valid (mmu_hook m) \<and> mh_addr (mmu_hook m) = a AND NOT 3"

lemma read_waits:
  assumes "sc_sound (memory c)" "read_pte sc_hooks a c = (None, d)"
  shows "ptw_cache_read (ptw c) a = None" "ptw d = ptw c" "\<not> hook_at a (memory c)" "mh_response_valid (mmu_hook (word_mirrored (memory d)))"
    "mh_response_valid (mmu_hook (memory c)) \<or> \<not> mh_pending (mmu_hook (memory c)) \<Longrightarrow> hook_at a (word_mirrored (memory d))"
proof -
  obtain ram where ram: "p_memory (memory c) = Some ram" using assms(1) by (auto simp: sc_sound_def)
  obtain r v m' where m': "on_cpu_mem_read a (memory c) = ((r, v), m')" by (metis prod.exhaust)
  have miss: "ptw_cache_read (ptw c) a = None" using assms(2) by (cases "ptw_cache_read (ptw c) a") (auto simp: read_pte_def)
  have fault: "r \<noteq> CPU_MEM_READ_FAULT" using sc_walk [OF _ m'] ram by simp
  have d: "r = CPU_MEM_READ_PENDING" "d = c\<lparr>memory := m', translation_pending := True\<rparr>"
    using fault assms(2) by (cases r; simp add: read_pte_def cpu_phys_read32_def sc_hooks_def miss m')+
  show "ptw_cache_read (ptw c) a = None" "ptw d = ptw c" using miss d by simp_all
  have out: "\<not> hook_at a (memory c) \<and> mh_response_valid (mmu_hook (word_mirrored m')) \<and>
    (mh_response_valid (mmu_hook (memory c)) \<or> \<not> mh_pending (mmu_hook (memory c)) \<longrightarrow> hook_at a (word_mirrored m'))"
    using m' d(1) ram unfolding hook_at_def
    by (auto simp: on_cpu_mem_read_def update_mmu_request_state_def setup_read_def read_req_zero_def Let_def split: if_splits)
  then show "\<not> hook_at a (memory c)" "mh_response_valid (mmu_hook (word_mirrored (memory d)))"
    "mh_response_valid (mmu_hook (memory c)) \<or> \<not> mh_pending (mmu_hook (memory c)) \<Longrightarrow> hook_at a (word_mirrored (memory d))"
    using d(2) by simp_all
qed

lemma fill_read: "ptw_ok p \<Longrightarrow> ptw_cache_read (ptw_cache_fill a d p) a = Some d"
  by (simp add: ptw_cache_read_def ptw_cache_fill_def Let_def ptw_ok_def)

lemma read_gets:
  assumes "sc_sound (memory c)" "coherent W (ptw c)" "read_pte sc_hooks a c = (Some v, d)"
  shows "ptw_cache_read (ptw d) a = Some v"
    "memory d = memory c \<or> \<not> mh_response_valid (mmu_hook (memory d)) \<and> \<not> mh_pending (mmu_hook (memory d))"
proof -
  obtain ram where ram: "p_memory (memory c) = Some ram" using assms(1) by (auto simp: sc_sound_def)
  obtain r w m' where m': "on_cpu_mem_read a (memory c) = ((r, w), m')" by (metis prod.exhaust)
  have taken: "r = CPU_MEM_READ_OK \<Longrightarrow> \<not> mh_response_valid (mmu_hook m') \<and> \<not> mh_pending (mmu_hook m')"
    using m' ram by (auto simp: on_cpu_mem_read_def Let_def split: if_splits)
  have size: "ptw_ok (ptw c)" using assms(2) by (simp add: coherent_def)
  have "ptw_cache_read (ptw d) a = Some v \<and>
    (memory d = memory c \<or> \<not> mh_response_valid (mmu_hook (memory d)) \<and> \<not> mh_pending (mmu_hook (memory d)))"
    using assms(3) m' taken fill_read [OF size]
    by (cases "ptw_cache_read (ptw c) a") (auto simp: read_pte_def cpu_phys_read32_def sc_hooks_def split: if_splits)
  then show "ptw_cache_read (ptw d) a = Some v"
    "memory d = memory c \<or> \<not> mh_response_valid (mmu_hook (memory d)) \<and> \<not> mh_pending (mmu_hook (memory d))" by blast+
qed

text \<open>A walk that waits does so at its first or its second entry.\<close>

lemma waits_at:
  assumes "sc_sound (memory c)" "coherent (sc_word (memory c)) (ptw c)" "va2pa sc_hooks va type c = (pa, d)" "translation_pending d"
    and a1: "a1 = pte1_address (creg c csr_satp) va" and a2: "a2 = pte2_address (sc_word (memory c) a1) va"
  obtains (first) "read_pte sc_hooks a1 (c\<lparr>translation_pending := False\<rparr>) = (None, d)"
    | (second) c1 where "read_pte sc_hooks a1 (c\<lparr>translation_pending := False\<rparr>) = (Some (sc_word (memory c) a1), c1)"
        "sc_sound (memory c1)" "read_pte sc_hooks a2 c1 = (None, d)"
proof -
  let ?c = "c\<lparr>translation_pending := False\<rparr>"
  obtain p1 c1 where 1: "read_pte sc_hooks a1 ?c = (p1, c1)" by (metis prod.exhaust)
  note r1 = sc_read_pte_result [of ?c a1, simplified, OF assms(1,2) 1]
  show thesis
  proof (cases "translation_pending c1")
    case True
    then have "(pa, d) = (None, c1)" using assms(3) 1 r1(2) by (simp add: va2pa_def Let_def a1)
    then show thesis using first 1 r1(2) True by simp
  next
    case False
    obtain p2 c2 where 2: "read_pte sc_hooks a2 c1 = (p2, c2)" by (metis prod.exhaust)
    have ok1: "sc_sound (memory c1)" "coherent (sc_word (memory c1)) (ptw c1)" using r1(1) by simp_all
    note r2 = sc_read_pte_result [OF ok1 False 2]
    have p1: "read_pte sc_hooks a1 ?c = (Some (sc_word (memory c) a1), c1)" using 1 r1(2) False by simp
    note va = va2pa_steps [OF p1 [unfolded a1] 2 [unfolded a2 a1], of type, unfolded assms(3)]
    have "d = c2" using va False assms(4) by (auto split: if_splits)
    then show thesis using second [OF p1 ok1(1)] 2 r2(2) assms(4) by simp
  qed
qed

text \<open>What holds when at most so many answers are still needed.\<close>

definition entries_at_hand :: "u32 \<Rightarrow> sc_memory cpu \<Rightarrow> bool" where
  "entries_at_hand va c \<longleftrightarrow>
     (let a1 = pte1_address (creg c csr_satp) va; pte1 = sc_word (memory c) a1
      in ptw_cache_read (ptw c) a1 = Some pte1 \<and> hook_at (pte2_address pte1 va) (memory c))"

definition first_at_hand :: "u32 \<Rightarrow> sc_memory cpu \<Rightarrow> bool" where
  "first_at_hand va c \<longleftrightarrow> hook_at (pte1_address (creg c csr_satp) va) (memory c)"

fun needs :: "nat \<Rightarrow> u32 \<Rightarrow> sc_memory cpu \<Rightarrow> bool" where
  "needs 0 va c = entries_at_hand va c"
| "needs (Suc 0) va c = (entries_at_hand va c \<or> first_at_hand va c)"
| "needs (Suc (Suc 0)) va c = mh_response_valid (mmu_hook (memory c))"
| "needs (Suc (Suc (Suc n))) va c = True"

lemma needs_step:
  assumes "sc_sound (memory c)" "coherent (sc_word (memory c)) (ptw c)" "va2pa sc_hooks va type c = (pa, d)" "translation_pending d"
    "needs n va c"
  shows "n \<noteq> 0 \<and> needs (n - 1) va (d\<lparr>memory := word_mirrored (memory d)\<rparr>)"
proof -
  define a1 where "a1 = pte1_address (creg c csr_satp) va"
  define a2 where "a2 = pte2_address (sc_word (memory c) a1) va"
  have "walked c d" using va2pa_walked [of c sc_hooks va type] assms(3) by simp
  then have state: "state d = state c" by (rule walkedD)
  have word: "sc_word (memory d) = sc_word (memory c)"
    using sc_va2pa_result [OF _ assms(3)] assms(1,2) by blast
  let ?c = "c\<lparr>translation_pending := False\<rparr>" and ?d = "d\<lparr>memory := word_mirrored (memory d)\<rparr>"
  have at: "entries_at_hand va c \<longleftrightarrow> ptw_cache_read (ptw c) a1 = Some (sc_word (memory c) a1) \<and> hook_at a2 (memory c)"
    "entries_at_hand va ?d \<longleftrightarrow> ptw_cache_read (ptw d) a1 = Some (sc_word (memory c) a1) \<and> hook_at a2 (word_mirrored (memory d))"
    "first_at_hand va c \<longleftrightarrow> hook_at a1 (memory c)" "first_at_hand va ?d \<longleftrightarrow> hook_at a1 (word_mirrored (memory d))"
    by (simp_all add: entries_at_hand_def first_at_hand_def Let_def a1_def a2_def state word)
  have sound: "sc_sound (memory ?c)" using assms(1) by simp
  have later: "needs (n - 1) va ?d" if "n \<noteq> 0" "mh_response_valid (mmu_hook (word_mirrored (memory d)))"
    "n \<le> 2 \<Longrightarrow> entries_at_hand va ?d \<or> first_at_hand va ?d" "n = 1 \<Longrightarrow> entries_at_hand va ?d"
  proof (cases "n \<le> 2")
    case True
    then have "n = 1 \<or> n = 2" using that(1) by auto
    then show ?thesis using that by (auto simp: numeral_2_eq_2)
  next
    case False
    then have "n - 1 = Suc (Suc (n - 3))" by simp
    then show ?thesis using that(2) by (cases "n - 3") simp_all
  qed
  from assms(1-4) a1_def a2_def show ?thesis
  proof (cases rule: waits_at)
    case first
    note w = read_waits [OF sound first]
    have "n > 1" using assms(5) w(1,3) at by (cases "(n, va, c)" rule: needs.cases) auto
    moreover have "mh_response_valid (mmu_hook (memory c))" if "n = 2" using assms(5) that by (simp add: numeral_2_eq_2)
    ultimately show ?thesis using later w(4,5) at(4) by auto
  next
    case (second c1)
    note g = read_gets [OF sound _ second(1)] and w = read_waits [OF second(2,3)]
    have coh: "coherent (sc_word (memory c)) (ptw ?c)" using assms(2) by simp
    have hit: "ptw_cache_read (ptw d) a1 = Some (sc_word (memory c) a1)" using g(1) [OF coh] w(2) by simp
    have fresh: "hook_at a2 (word_mirrored (memory d))" if "n \<noteq> 0" "n \<le> 2"
      using g(2) [OF coh] w(5) assms(5) that at by (cases "(n, va, c)" rule: needs.cases) (auto simp: hook_at_def)
    have "n \<noteq> 0"
    proof
      assume "n = 0"
      then have "entries_at_hand va c" using assms(5) by simp
      then have "ptw_cache_read (ptw ?c) a1 = Some (sc_word (memory c) a1)" "hook_at a2 (memory c)" using at(1) by simp_all
      then have "c1 = ?c" using second(1) by (simp add: read_pte_def)
      then show False using w(3) \<open>hook_at a2 (memory c)\<close> by simp
    qed
    then show ?thesis using later w(4) fresh hit at(2) by simp
  qed
qed

lemma walk32_translation_cong: "state d = state c \<Longrightarrow> privilege d = privilege c \<Longrightarrow> walk32_translation W va type d = walk32_translation W va type c"
  by (simp add: walk32_translation_def root_table_def effective_privilege_def Let_def)

lemma walk_tries_result:
  assumes "sc_sound (memory c)" "coherent (sc_word (memory c)) (ptw c)" "needs n va c" "walk_tries n va type c = (pa, d)"
  shows "\<not> translation_pending d \<and> pa = walk32_translation (sc_word (memory c)) va type c \<and>
    sc_word (memory d) = sc_word (memory c) \<and> coherent (sc_word (memory c)) (ptw d)"
  using assms
proof (induction n arbitrary: c)
  case 0
  then have va: "va2pa sc_hooks va type c = (pa, d)" by simp
  have "\<not> translation_pending d" using needs_step [OF 0(1,2) va _ 0(3)] by blast
  then show ?case using sc_va2pa_result [OF conjI [OF 0(1,2)] va] by metis
next
  case (Suc n)
  obtain pa1 d1 where va: "va2pa sc_hooks va type c = (pa1, d1)" by (metis prod.exhaust)
  note r = sc_va2pa_result [OF conjI [OF Suc.prems(1,2)] va]
  have w: "walked c d1" using va2pa_walked [of c sc_hooks va type] va by simp
  show ?case
  proof (cases "translation_pending d1")
    case False
    then have "pa1 = pa" "d1 = d" using va Suc.prems(4) by simp_all
    then show ?thesis using r False by metis
  next
    case True
    let ?d = "d1\<lparr>memory := word_mirrored (memory d1)\<rparr>"
    have coh: "coherent (sc_word (memory c)) (ptw d1)" using r by metis
    have "walk_tries n va type ?d = (pa, d)" using Suc.prems(4) va True by simp
    moreover have "needs n va ?d" using needs_step [OF Suc.prems(1,2) va True Suc.prems(3)] by simp
    moreover have "sc_sound (memory ?d)" "coherent (sc_word (memory ?d)) (ptw ?d)" "sc_word (memory ?d) = sc_word (memory c)"
      using r answered_sound coh by simp_all
    moreover have "walk32_translation (sc_word (memory c)) va type ?d = walk32_translation (sc_word (memory c)) va type c"
      using walkedD(1,3) [OF w] by (intro walk32_translation_cong) simp_all
    ultimately show ?thesis using Suc.IH [of ?d] by simp
  qed
qed

section \<open>The properties\<close>

text \<open>C17: a translation that does not wait gives the result of the Sv32 algorithm of the architecture, where the code
  follows it. \<open>P\<close> is any physical memory of 34-bit addresses whose first 4 GiB are the array. Provided that the answer
  waiting for the walk, if any, and the cached page table words are the words in memory (\<open>sc_sound\<close>, \<open>coherent\<close>),
  that the access is made for the user or the supervisor, that the tables and the page lie below 4 GiB, and that it
  is not a fetch of the supervisor from a page of the user with SUM set (\<open>sv32_exact\<close>), the physical address, or the
  page fault, is that of the algorithm, and no word of the memory changes.\<close>

theorem rv_va2pa_refines_sv32:
  assumes "sc_sound (memory c)" "coherent (sc_word (memory c)) (ptw c)"
    and "va2pa sc_hooks va type c = (pa, d)" "\<not> translation_pending d"
    and "\<forall>a. P (unat a) = sc_word (memory c) a" "sv32_exact P va type c"
  shows "map_option unat pa = sv32_translation P va type c \<and> sc_word (memory d) = sc_word (memory c)"
  using sc_va2pa_result [OF conjI [OF assms(1,2)] assms(3)] assms(4) walk32_translation_exact [OF assms(5,6)] by metis

text \<open>C18: whatever read is under way, a translation is through after at most three answered reads. Tried again
  after each answer, it does not wait in the fourth try at the latest, provided the answer waiting at the start and the
  cached words are those in memory; and where the code follows the algorithm of the architecture (\<open>sv32_exact\<close>, as
  above) its result is the algorithm's.\<close>

theorem rv_translation_completes:
  assumes "sc_sound (memory c)" "coherent (sc_word (memory c)) (ptw c)" "walk_tries 3 va type c = (pa, d)"
  shows "\<not> translation_pending d \<and>
    ((\<forall>a. P (unat a) = sc_word (memory c) a) \<and> sv32_exact P va type c \<longrightarrow> map_option unat pa = sv32_translation P va type c)"
  using walk_tries_result [OF assms(1,2) _ assms(3)] walk32_translation_exact [of P "sc_word (memory c)" va type c]
  by (simp add: numeral_3_eq_3)

text \<open>
  A supervisor whose root table, at the page 1, maps the first four megabytes to themselves; the
  answer to the read of its first entry has come.
\<close>

definition page_table_memory :: sc_memory where
  "page_table_memory = \<lparr>p_memory = Some (\<lambda>i. if i = 0x400 then 0xCF else 0),
     mmu_hook = \<lparr>mh_pending = True, mh_response_valid = True, mh_addr = 0x1000, mh_data = 0xCF\<rparr>, mmu_req = read_req_zero\<rparr>"

definition supervisor :: "sc_memory cpu" where
  "supervisor = set_csr csr_satp 0x80000001 ((cpu_init 0x1234 (cpu_zero page_table_memory))\<lparr>privilege := 1\<rparr>)"

lemma supervisor_starts: "sc_sound (memory supervisor)" "coherent (sc_word (memory supervisor)) (ptw supervisor)"
  by (simp_all add: supervisor_def set_csr_def cpu_init_def cpu_zero_def page_table_memory_def sc_sound_def sc_word_def coherent_reset)

lemma supervisor_entry: "sc_word (memory supervisor) = (\<lambda>a. if drop_bit 2 a = 0x400 then 0xCF else 0)"
  "creg supervisor csr_satp = 0x80000001" "creg supervisor csr_mstatus = 0" "effective_privilege 0 supervisor = 1"
  by (simp_all add: supervisor_def set_csr_def cpu_init_def cpu_zero_def page_table_memory_def sc_word_def fun_eq_iff
      effective_privilege_def)

text \<open>The physical memory: the array, and nothing above 4 GiB.\<close>

definition supervisor_ram :: "nat \<Rightarrow> u32" where
  "supervisor_ram n = (if n div 4 = 0x400 then 0xCF else 0)"

lemma supervisor_ram_words: "\<forall>a. supervisor_ram (unat a) = sc_word (memory supervisor) a"
proof
  fix a :: u32
  have "drop_bit 2 a = 0x400 \<longleftrightarrow> unat (drop_bit 2 a) = unat (0x400 :: u32)" by (simp only: word_unat_eq_iff)
  then show "supervisor_ram (unat a) = sc_word (memory supervisor) a"
    by (simp add: supervisor_ram_def supervisor_entry unat_drop)
qed

lemma supervisor_table: "root_table supervisor = 1"
  by (simp add: root_table_def supervisor_entry [unfolded csr_indices])

lemma supervisor_exact: "sv32_exact supervisor_ram 0x1234 0 supervisor"
  by (simp add: sv32_exact_def supervisor_table supervisor_entry [unfolded csr_indices] supervisor_entry sv32_entries.simps vpn_def
      pte_ppn_def supervisor_ram_def Let_def)

lemma supervisor_translation: "sv32_translation supervisor_ram 0x1234 0 supervisor = Some 0x1234"
  by (simp add: sv32_translation_def supervisor_table supervisor_entry [unfolded csr_indices] sv32.simps vpn_def pte_ppn_def leaf_grants_def
      Let_def supervisor_entry supervisor_ram_def)

lemma supervisor_walk: "\<not> translation_pending (snd (va2pa sc_hooks 0x1234 0 supervisor))"
proof -
  have mem: "memory supervisor = page_table_memory" "ptw supervisor = ptw_cache_reset"
    by (simp_all add: supervisor_def set_csr_def cpu_init_def cpu_zero_def)
  have "pte1_address (creg supervisor csr_satp) 0x1234 = 0x1000" by (simp add: supervisor_entry [unfolded csr_indices] pte1_address_def)
  moreover have "ptw_cache_read ptw_cache_reset 0x1000 = None"
    by (simp add: ptw_cache_read_def ptw_cache_reset_def ptw_cache_index_def kPtwCacheSize_def Let_def)
  ultimately obtain c1 where "read_pte sc_hooks (pte1_address (creg supervisor csr_satp) 0x1234)
      (supervisor\<lparr>translation_pending := False\<rparr>) = (Some 0xCF, c1)" "\<not> translation_pending c1"
    by (simp add: read_pte_def cpu_phys_read32_def sc_hooks_def on_cpu_mem_read_def mem page_table_memory_def Let_def)
  moreover have "pte_leaf 0xCF" by (simp add: pte_leaf_def PTE_R_def)
  ultimately show ?thesis by (simp add: va2pa_def Let_def)
qed

theorem rv_va2pa_refines_sv32_witness:
  "map_option unat (fst (va2pa sc_hooks 0x1234 0 supervisor)) = Some 0x1234"
  using rv_va2pa_refines_sv32 [OF supervisor_starts surjective_pairing supervisor_walk supervisor_ram_words supervisor_exact]
    supervisor_translation by simp

theorem rv_translation_completes_witness:
  "\<not> translation_pending (snd (walk_tries 3 0x1234 0 supervisor)) \<and>
   map_option unat (fst (walk_tries 3 0x1234 0 supervisor)) = Some 0x1234"
  using rv_translation_completes [OF supervisor_starts surjective_pairing, where P = supervisor_ram] supervisor_ram_words supervisor_exact
    supervisor_translation by metis

section \<open>Where the code departs from the architecture\<close>

text \<open>The same supervisor with SUM set and the page given to the user: the algorithm forbids the fetch, the code allows it.\<close>

definition user_page_memory :: sc_memory where
  "user_page_memory = \<lparr>p_memory = Some (\<lambda>i. if i = 0x400 then 0xDF else 0),
     mmu_hook = \<lparr>mh_pending = True, mh_response_valid = True, mh_addr = 0x1000, mh_data = 0xDF\<rparr>, mmu_req = read_req_zero\<rparr>"

definition fetching_supervisor :: "sc_memory cpu" where
  "fetching_supervisor = set_csr csr_mstatus 0x40000 (set_csr csr_satp 0x80000001
     ((cpu_init 0x1234 (cpu_zero user_page_memory))\<lparr>privilege := 1\<rparr>))"

lemma supervisor_fetches_user_page:
  "fst (va2pa sc_hooks 0x1234 0 fetching_supervisor) = Some 0x1234"
  "sv32_translation (\<lambda>n. if n div 4 = 0x400 then 0xDF else 0) 0x1234 0 fetching_supervisor = None"
proof -
  have mem: "memory fetching_supervisor = user_page_memory" "ptw fetching_supervisor = ptw_cache_reset"
    "creg fetching_supervisor csr_satp = 0x80000001" "creg fetching_supervisor csr_mstatus = 0x40000"
    "effective_privilege 0 fetching_supervisor = 1"
    by (simp_all add: fetching_supervisor_def set_csr_def cpu_init_def cpu_zero_def effective_privilege_def)
  have "pte1_address (creg fetching_supervisor csr_satp) 0x1234 = 0x1000"
    by (simp add: mem [unfolded csr_indices] pte1_address_def)
  moreover have "ptw_cache_read ptw_cache_reset 0x1000 = None"
    by (simp add: ptw_cache_read_def ptw_cache_reset_def ptw_cache_index_def kPtwCacheSize_def Let_def)
  ultimately obtain c1 where "read_pte sc_hooks (pte1_address (creg fetching_supervisor csr_satp) 0x1234)
      (fetching_supervisor\<lparr>translation_pending := False\<rparr>) = (Some 0xDF, c1)"
    by (simp add: read_pte_def cpu_phys_read32_def sc_hooks_def on_cpu_mem_read_def mem user_page_memory_def Let_def)
  then show "fst (va2pa sc_hooks 0x1234 0 fetching_supervisor) = Some 0x1234"
    by (simp add: va2pa_def Let_def mem [unfolded csr_indices] effective_privilege_pending mem(5) pte_invalid_def pte_leaf_def pte_permits_def
        pte_accessed_def superpage_address_def pte_flags)
  show "sv32_translation (\<lambda>n. if n div 4 = 0x400 then 0xDF else 0) 0x1234 0 fetching_supervisor = None"
    by (simp add: sv32_translation_def root_table_def mem [unfolded csr_indices] mem(5) sv32.simps vpn_def pte_ppn_def leaf_grants_def Let_def)
qed

end
