(* ===== verification/RV_Alu.thy ===== *)
theory RV_Alu
  imports RV_Control
begin

text \<open>
  Integer instructions against the instruction set: multiplication and division in the integers, and
  jumps and branches assembled from their offsets.
\<close>

section \<open>Multiplication and division\<close>

definition muldiv_spec :: "u32 \<Rightarrow> u32 \<Rightarrow> u32 \<Rightarrow> int" where
  "muldiv_spec funct3 a b =
     (if funct3 = 0 then sint a * sint b
      else if funct3 = 1 then sint a * sint b div 2 ^ 32
      else if funct3 = 2 then sint a * uint b div 2 ^ 32
      else if funct3 = 3 then uint a * uint b div 2 ^ 32
      else if funct3 = 4 then (if b = 0 then - 1 else sint a sdiv sint b)
      else if funct3 = 5 then (if b = 0 then 2 ^ 32 - 1 else uint a div uint b)
      else if funct3 = 6 then (if b = 0 then sint a else sint a smod sint b)
      else (if b = 0 then uint a else uint a mod uint b))"

lemma low_word: "ucast (x :: u64) = (word_of_int (sint x) :: u32)"
  by (rule bit_word_eqI) (auto simp: bit_simps min_def)

lemma low_word_unsigned: "ucast (x :: u64) = (word_of_int (uint x) :: u32)"
  by (rule bit_word_eqI) (auto simp: bit_simps)

lemma signed_range: "- (2 ^ 31) \<le> sint (a :: u32) \<and> sint a \<le> 2 ^ 31 - 1"
  using sint_ge [of a] sint_lt [of a] by simp

lemma unsigned_range: "0 \<le> uint (a :: u32) \<and> uint a \<le> 2 ^ 32 - 1"
  using unsigned_less [of a, where 'a = int] by simp

lemma product_range:
  fixes x y m n :: int
  assumes "\<bar>x\<bar> \<le> m" "\<bar>y\<bar> \<le> n"
  shows "\<bar>x * y\<bar> \<le> m * n"
  unfolding abs_mult using assms by (intro mult_mono) auto

lemma signed_product: "sint (word_of_int (x * y) :: u64) = x * y" if "\<bar>x\<bar> \<le> 2 ^ 31" "\<bar>y\<bar> \<le> 2 ^ 32 - 1"
proof -
  have "\<bar>x * y\<bar> \<le> 2 ^ 31 * (2 ^ 32 - 1)" by (rule product_range [OF that])
  then show ?thesis by (simp only: signed_of_int) (auto simp: signed_take_bit_int_eq_self_iff)
qed

lemma high_word: "ucast (signed_drop_bit 32 (word_of_int (x * y) :: u64)) = (word_of_int (x * y div 2 ^ 32) :: u32)"
  if "\<bar>x\<bar> \<le> 2 ^ 31" "\<bar>y\<bar> \<le> 2 ^ 32 - 1"
  unfolding low_word sint_signed_drop_bit_eq signed_product [OF that] drop_bit_eq_div ..

lemma eight_cases: "f < 8 \<Longrightarrow> f = 0 \<or> f = 1 \<or> f = 2 \<or> f = 3 \<or> f = 4 \<or> f = 5 \<or> f = 6 \<or> f = (7 :: u32)"
proof -
  assume "f < 8"
  then have "unat f < 8" by (simp add: word_less_nat_alt)
  then have "unat f \<in> {0, 1, 2, 3, 4, 5, 6, 7}" by auto
  then show ?thesis by (auto simp: word_unat_eq_iff)
qed

text \<open>The quotient that leaves the range wraps to what the code gives for it.\<close>

lemma overflowing_division: "word_of_int (sint (0x80000000 :: u32) sdiv sint (- 1 :: u32)) = (0x80000000 :: u32)"
  "sint (0x80000000 :: u32) smod sint (- 1 :: u32) = 0"
  by (simp_all add: signed_modulo_int_def)

lemma low_product: "ucast (ucast a * ucast b :: u64) = (a * b :: u32)"
proof -
  have "ucast (x * y :: u64) = (ucast x * ucast y :: u32)" for x y
    by (simp add: word_unat_eq_iff unsigned_ucast_eq unat_word_ariths take_bit_eq_mod mod_mod_cancel mod_simps)
  moreover have "ucast (ucast x :: u64) = x" for x :: u32 by (rule bit_word_eqI) (auto simp: bit_simps)
  ultimately show ?thesis by simp
qed

lemma words_of_products:
  fixes a b :: u32
  shows "(scast a :: u64) * scast b = word_of_int (sint a * sint b)" "(scast a :: u64) * ucast b = word_of_int (sint a * uint b)"
proof -
  have w: "scast x = (word_of_int (sint x) :: u64)" "ucast x = (word_of_int (uint x) :: u64)" for x :: u32
    by (rule bit_word_eqI; auto simp: bit_simps min_def)+
  show "(scast a :: u64) * scast b = word_of_int (sint a * sint b)" "(scast a :: u64) * ucast b = word_of_int (sint a * uint b)"
    unfolding w wi_hom_mult by (rule refl)+
qed

lemma high_unsigned: "ucast (drop_bit 32 (ucast a * ucast b :: u64)) = (word_of_int (uint (a :: u32) * uint (b :: u32) div 2 ^ 32) :: u32)"
proof -
  have r: "0 \<le> uint a * uint b" "uint a * uint b < 2 ^ 64"
  proof -
    have "uint a * uint b \<le> (2 ^ 32 - 1) * (2 ^ 32 - 1)" using unsigned_range [of a] unsigned_range [of b] by (intro mult_mono) auto
    then show "uint a * uint b < 2 ^ 64" by simp
  qed simp
  have wide: "uint (ucast x :: u64) = uint x" for x :: u32
    using unsigned_range [of x] by (simp add: unsigned_ucast_eq take_bit_int_eq_self)
  have e: "uint (ucast a * ucast b :: u64) = uint a * uint b"
    using r by (simp add: uint_word_ariths wide)
  show ?thesis unfolding low_word_unsigned unsigned_drop_bit_eq e using r by (simp add: drop_bit_eq_div take_bit_int_eq_self)
qed

text \<open>C26: Multiplication and division give the results of the instruction set, computed in the integers, with division by zero and overflow.\<close>

theorem rv_muldiv_spec:
  assumes "funct3 < 8"
  shows "alu_muldiv funct3 a b = Some (word_of_int (muldiv_spec funct3 a b))"
proof -
  have abs: "\<bar>sint a\<bar> \<le> 2 ^ 31" "\<bar>sint b\<bar> \<le> 2 ^ 32 - 1" "\<bar>uint b\<bar> \<le> 2 ^ 32 - 1"
    using signed_range [of a] signed_range [of b] unsigned_range [of b] by auto
  have low: "word_of_int (sint a * sint b) = a * b" by (simp flip: wi_hom_mult)
  note open_defs = alu_muldiv_def muldiv_spec_def Let_def
  have "alu_muldiv 0 a b = Some (word_of_int (muldiv_spec 0 a b))" by (simp add: open_defs low_product low)
  moreover have "alu_muldiv 1 a b = Some (word_of_int (muldiv_spec 1 a b))"
    by (simp add: open_defs high_word [OF abs(1,2), folded words_of_products])
  moreover have "alu_muldiv 2 a b = Some (word_of_int (muldiv_spec 2 a b))"
    by (simp add: open_defs high_word [OF abs(1,3), folded words_of_products])
  moreover have "alu_muldiv 3 a b = Some (word_of_int (muldiv_spec 3 a b))" using high_unsigned [of a b] by (simp add: open_defs)
  moreover have "alu_muldiv 4 a b = Some (word_of_int (muldiv_spec 4 a b))" "alu_muldiv 6 a b = Some (word_of_int (muldiv_spec 6 a b))"
    using overflowing_division by (simp_all add: open_defs)
  moreover have "alu_muldiv 5 a b = Some (word_of_int (muldiv_spec 5 a b))" "alu_muldiv 7 a b = Some (word_of_int (muldiv_spec 7 a b))"
    by (simp_all add: open_defs word_div_def word_mod_def)
  ultimately show ?thesis using eight_cases [OF assms] by blast
qed

theorem rv_muldiv_spec_witness:
  "alu_muldiv 4 0x80000000 (- 1) = Some 0x80000000 \<and> alu_muldiv 6 (- 7) 2 = Some (- 1)"
  using rv_muldiv_spec [of 4 "0x80000000" "- 1"] rv_muldiv_spec [of 6 "- 7" 2] by (simp add: muldiv_spec_def signed_modulo_int_def)

section \<open>Jumps and branches\<close>

lemma relative_add: "relative a off = a + ucast off"
proof -
  have "ucast (x + y :: u64) = (ucast x + ucast y :: u32)" for x y
    by (simp add: word_unat_eq_iff unsigned_ucast_eq unat_word_ariths take_bit_eq_mod mod_mod_cancel mod_simps)
  moreover have "ucast (ucast a :: u64) = a" by (rule bit_word_eqI) (auto simp: bit_simps)
  ultimately show ?thesis by (simp add: relative_def)
qed

text \<open>The instruction words an assembler gives, field by field.\<close>

definition put_field :: "nat \<Rightarrow> nat \<Rightarrow> nat \<Rightarrow> u32 \<Rightarrow> u32" where
  "put_field at hi lo x = push_bit at (drop_bit lo x AND mask (hi - lo + 1))"

definition encode_jal :: "u32 \<Rightarrow> u32 \<Rightarrow> u32" where
  "encode_jal rd off = put_field 31 20 20 off OR put_field 21 10 1 off OR put_field 20 11 11 off OR put_field 12 19 12 off OR
     put_field 7 4 0 rd OR put_field 0 6 0 number_2_opcode_jal"

definition encode_branch :: "u32 \<Rightarrow> u32 \<Rightarrow> u32 \<Rightarrow> u32 \<Rightarrow> u32" where
  "encode_branch funct3 rs1 rs2 off = put_field 31 12 12 off OR put_field 25 10 5 off OR put_field 20 4 0 rs2 OR
     put_field 15 4 0 rs1 OR put_field 12 2 0 funct3 OR put_field 8 4 1 off OR put_field 7 11 11 off OR
     put_field 0 6 0 number_4_opcode_beq"

lemma put_field_bit: "bit (put_field at hi lo x) n \<longleftrightarrow> n < 32 \<and> at \<le> n \<and> n - at < hi - lo + 1 \<and> bit x (n - at + lo)"
  by (auto simp: put_field_def bit_simps add.commute)

lemma field_bit: "bit (field i hi lo) n \<longleftrightarrow> n < 32 \<and> n < hi - lo + 1 \<and> bit i (lo + n)"
  by (auto simp: field_def BITS_def bit_simps dest: bit_imp_le_length)

lemma BITS_bit: "bit (BITS i hi lo) n \<longleftrightarrow> n < hi - lo + 1 \<and> bit i (lo + n)"
  by (auto simp: BITS_def bit_simps dest: bit_imp_le_length)

lemma SEXT_bit: "bit (SEXT x k) n \<longleftrightarrow> n < 64 \<and> bit x (min n (k - 1))"
  by (simp add: SEXT_def bit_simps min.commute)

lemmas imm_bits = BITS_bit SEXT_bit bit_or_iff bit_push_bit_iff

lemma immJ_bit:
  assumes "n < 32"
  shows "bit (ucast (immJ i) :: u32) n \<longleftrightarrow>
     (if n = 0 then False else if n < 11 then bit i (n + 20) else if n = 11 then bit i 20 else if n < 20 then bit i n else bit i 31)"
proof -
  have "bit (ucast (immJ i) :: u32) n \<longleftrightarrow> bit (immJ i) n" using assms by (simp add: bit_simps)
  also have "\<dots> \<longleftrightarrow> 20 \<le> n \<and> bit i 31 \<or> 12 \<le> n \<and> n < 20 \<and> bit i n \<or> n = 11 \<and> bit i 20 \<or> 1 \<le> n \<and> n < 11 \<and> bit i (n + 20)"
    unfolding immJ_def imm_bits using assms by (auto simp: add.commute)
  finally show ?thesis by auto
qed

lemma immB_bit:
  assumes "n < 32"
  shows "bit (ucast (immB i) :: u32) n \<longleftrightarrow>
     (if n = 0 then False else if n < 5 then bit i (n + 7) else if n < 11 then bit i (n + 20) else if n = 11 then bit i 7 else bit i 31)"
proof -
  have "bit (ucast (immB i) :: u32) n \<longleftrightarrow> bit (immB i) n" using assms by (simp add: bit_simps)
  also have "\<dots> \<longleftrightarrow> 12 \<le> n \<and> bit i 31 \<or> n = 11 \<and> bit i 7 \<or> 5 \<le> n \<and> n < 11 \<and> bit i (n + 20) \<or> 1 \<le> n \<and> n < 5 \<and> bit i (n + 7)"
    unfolding immB_def imm_bits using assms by (auto simp: add.commute)
  finally show ?thesis by auto
qed

lemma shifts: "21 \<le> n \<Longrightarrow> Suc (n - 21) = n - 20" "8 \<le> n \<Longrightarrow> Suc (n - 8) = n - 7"
  by simp_all

lemma jal_bit: "bit (encode_jal rd off) n \<longleftrightarrow> n < 32 \<and>
    (if n = 31 then bit off 20 else if 21 \<le> n then bit off (n - 20) else if n = 20 then bit off 11 else if 12 \<le> n then bit off n
     else if 7 \<le> n then bit rd (n - 7) else bit number_2_opcode_jal n)"
  unfolding encode_jal_def bit_or_iff put_field_bit
  by (cases "21 \<le> n"; cases "n < 20"; cases "12 \<le> n"; cases "7 \<le> n") (auto simp: shifts)

lemma branch_bit: "bit (encode_branch f rs1 rs2 off) n \<longleftrightarrow> n < 32 \<and>
    (if n = 31 then bit off 12 else if 25 \<le> n then bit off (n - 20) else if 20 \<le> n then bit rs2 (n - 20)
     else if 15 \<le> n then bit rs1 (n - 15) else if 12 \<le> n then bit f (n - 12) else if 8 \<le> n then bit off (n - 7)
     else if n = 7 then bit off 11 else bit number_4_opcode_beq n)"
  unfolding encode_branch_def bit_or_iff put_field_bit by (auto simp: Suc_diff_le shifts)

lemma signed_bits: "signed_take_bit k off = off \<Longrightarrow> n < 32 \<Longrightarrow> bit off n = bit off (min k n)" for off :: u32
proof -
  assume e: "signed_take_bit k off = off" and n: "n < 32"
  have "bit (signed_take_bit k off) n = bit off (min k n)" by (simp add: bit_signed_take_bit_iff n min.commute)
  then show ?thesis by (simp only: e)
qed

lemma jal_offset:
  assumes "signed_take_bit 20 off = off" "\<not> bit off 0"
  shows "ucast (immJ (encode_jal rd off)) = off"
proof (rule bit_word_eqI)
  show "bit (ucast (immJ (encode_jal rd off)) :: u32) n = bit off n" if n: "n < LENGTH(32)" for n
  proof (cases "20 \<le> n")
    case True
    then have "bit off n = bit off 20" using signed_bits [OF assms(1), of n] n by (simp add: min_def)
    then show ?thesis using True n by (simp add: immJ_bit jal_bit)
  next
    case False
    then show ?thesis using assms(2) by (cases "n = 0"; cases "n < 11"; cases "n = 11") (simp_all add: immJ_bit jal_bit)
  qed
qed

lemma branch_offset:
  assumes "signed_take_bit 12 off = off" "\<not> bit off 0"
  shows "ucast (immB (encode_branch f rs1 rs2 off)) = off"
proof (rule bit_word_eqI)
  show "bit (ucast (immB (encode_branch f rs1 rs2 off)) :: u32) n = bit off n" if n: "n < LENGTH(32)" for n
  proof (cases "12 \<le> n")
    case True
    then have "bit off n = bit off 12" using signed_bits [OF assms(1), of n] n by (simp add: min_def)
    then show ?thesis using True n by (simp add: immB_bit branch_bit)
  next
    case False
    then show ?thesis using assms(2) by (cases "n = 0"; cases "n < 5"; cases "n < 11"; cases "n = 11") (simp_all add: immB_bit branch_bit)
  qed
qed

lemma small_bits:
  fixes x :: u32
  assumes "unat x < 2 ^ k" "bit x n"
  shows "n < k"
proof -
  have "bit (unat x) n" using assms(2) by (simp add: bit_unsigned_iff)
  moreover have "take_bit k (unat x) = unat x" by (rule take_bit_nat_eq_self [OF assms(1)])
  ultimately show ?thesis by (metis bit_take_bit_iff)
qed

lemma branch_fields:
  assumes "funct3 < 8" "rs1 < 32" "rs2 < 32"
  shows "field (encode_branch funct3 rs1 rs2 off) 6 0 = number_4_opcode_beq" "field (encode_branch funct3 rs1 rs2 off) 14 12 = funct3"
    "field (encode_branch funct3 rs1 rs2 off) 19 15 = rs1" "field (encode_branch funct3 rs1 rs2 off) 24 20 = rs2"
proof -
  have nats: "unat funct3 < 2 ^ 3" "unat rs1 < 2 ^ 5" "unat rs2 < 2 ^ 5" "unat number_4_opcode_beq < 2 ^ 7"
    using assms by (simp_all add: word_less_nat_alt number_4_opcode_beq_def)
  note small = nats [THEN small_bits]
  show "field (encode_branch funct3 rs1 rs2 off) 6 0 = number_4_opcode_beq" "field (encode_branch funct3 rs1 rs2 off) 14 12 = funct3"
    "field (encode_branch funct3 rs1 rs2 off) 19 15 = rs1" "field (encode_branch funct3 rs1 rs2 off) 24 20 = rs2"
    by (rule bit_word_eqI; auto simp: field_bit branch_bit dest: small)+
qed

lemma jal_fields:
  assumes "rd < 32"
  shows "field (encode_jal rd off) 6 0 = number_2_opcode_jal" "field (encode_jal rd off) 11 7 = rd"
proof -
  have nats: "unat rd < 2 ^ 5" "unat number_2_opcode_jal < 2 ^ 7"
    using assms by (simp_all add: word_less_nat_alt number_2_opcode_jal_def)
  note small = nats [THEN small_bits]
  show "field (encode_jal rd off) 6 0 = number_2_opcode_jal" "field (encode_jal rd off) 11 7 = rd"
    by (rule bit_word_eqI; auto simp: field_bit jal_bit dest: small)+
qed

text \<open>C27: A branch assembled with an offset moves by exactly that offset when its condition holds, and by four otherwise.\<close>

theorem rv_branch_round_trip:
  assumes "signed_take_bit 12 off = off" "\<not> bit off 0" "funct3 < 8" "rs1 < 32" "rs2 < 32"
  shows "pc (state (RV32IM u h (c\<lparr>instruction := encode_branch funct3 rs1 rs2 off\<rparr>))) =
    pc (state c) + (if branch_taken funct3 (reg c rs1) (reg c rs2) then off else 4)"
proof -
  have "relative a (immB (encode_branch funct3 rs1 rs2 off)) = a + off" for a
    unfolding relative_add branch_offset [OF assms(1,2)] ..
  then show ?thesis using branch_fields [OF assms(3-5), of off]
    by (simp add: RV32IM_def Let_def) (simp add: opcode_defs rv_frame)
qed

lemma rv_jump_round_trip:
  assumes "signed_take_bit 20 off = off" "\<not> bit off 0" "rd < 32"
  shows "RV32IM u h (c\<lparr>instruction := encode_jal rd off\<rparr>) =
    set_pc (pc (state c) + off) (set_gpr rd (pc (state c) + 4) (c\<lparr>instruction := encode_jal rd off, is_br := True, br_taken := True\<rparr>))"
proof -
  have "relative a (immJ (encode_jal rd off)) = a + off" for a
    unfolding relative_add jal_offset [OF assms(1,2)] ..
  then show ?thesis using jal_fields [OF assms(3), of off]
    by (simp add: RV32IM_def Let_def) (simp add: opcode_defs)
qed

theorem rv_branch_round_trip_witness:
  "\<forall>u h. pc (state (RV32IM u h ((cpu_init 0x80000000 (cpu_zero ()))\<lparr>instruction := encode_branch 0 1 2 (- 8)\<rparr>))) = 0x7FFFFFF8"
  using rv_branch_round_trip [of "- 8" 0 1 2 _ _ "cpu_init 0x80000000 (cpu_zero ())"]
  by (simp add: cpu_init_def branch_taken_def)

end
