(* ===== verification/SC_Decode.thy ===== *)
theory SC_Decode
  imports SC_Run SC_Walks RV_Alu
begin

text \<open>
  The access the demonstration program decodes before an instruction is executed, against the access
  the processor makes: the same address, and for a store the same bytes in memory.
\<close>

section \<open>Fields and immediates\<close>

lemma field_bits: "field i hi lo = drop_bit lo i AND mask (hi - lo + 1)"
  by (rule bit_word_eqI) (auto simp: field_def BITS_def bit_ucast_iff bit_and_iff bit_drop_bit_eq bit_mask_iff
      dest: bit_imp_le_length)

lemma low_mask: "mask 7 = (0x7f :: u32)" "mask 5 = (0x1f :: u32)" "mask 3 = (7 :: u32)" "mask 12 = (0xfff :: u32)"
  by (simp_all add: mask_eq_exp_minus_1)

lemma fields:
  "field i 6 0 = i AND 0x7f" "field i 19 15 = drop_bit 15 i AND 0x1f" "field i 24 20 = drop_bit 20 i AND 0x1f"
  "field i 14 12 = drop_bit 12 i AND 7"
  by (simp_all add: field_bits low_mask)

text \<open>Sign extension by exclusive or and subtraction.\<close>

lemma sext_signed: "sext v 12 = signed_take_bit 11 v" if v: "v AND mask 12 = (v :: u32)"
proof -
  have low: "bit v n \<Longrightarrow> n < 12" for n using v by (metis bit_and_iff bit_mask_iff)
  have b: "bit (2048 :: int) n \<longleftrightarrow> n = 11" for n using bit_exp_iff [where 'a = int, of 11 n] by auto
  show ?thesis
  proof (cases "bit v 11")
    case True
    have x: "v = (v XOR 2048) + 2048"
      by (subst disjunctive_add_eq_or) (auto intro!: bit_word_eqI simp: bit_simps b True)
    have "signed_take_bit 11 v = (v XOR 2048) OR NOT (mask 11)"
    proof (rule bit_word_eqI)
      show "bit (signed_take_bit 11 v) n = bit ((v XOR 2048) OR NOT (mask 11)) n" if "n < LENGTH(32)" for n
        using that True low [of n] by (cases "n < 11") (auto simp: bit_simps b min_def)
    qed
    also have "\<dots> = (v XOR 2048) + NOT (mask 11)"
    proof -
      have "(v XOR 2048) AND NOT (mask 11) = 0"
      proof (rule bit_word_eqI)
        show "bit ((v XOR 2048) AND NOT (mask 11)) n = bit 0 n" if "n < LENGTH(32)" for n
          using that True low [of n] by (cases "n < 11") (auto simp: bit_simps b)
      qed
      then show ?thesis by (simp only: disjunctive_add_eq_or)
    qed
    finally show ?thesis by (simp add: sext_def mask_eq_exp_minus_1)
  next
    case False
    have "v XOR 2048 = v + 2048"
      by (subst disjunctive_add_eq_or) (auto intro!: bit_word_eqI simp: bit_simps b False)
    moreover have "signed_take_bit 11 v = v"
    proof (rule bit_word_eqI)
      show "bit (signed_take_bit 11 v) n = bit v n" if "n < LENGTH(32)" for n
        using that False low [of n] by (cases "n < 11"; cases "n = 11") (auto simp: bit_simps min_def)
    qed
    ultimately show ?thesis by (simp add: sext_def)
  qed
qed

lemma immI_low: "ucast (immI i) = signed_take_bit 11 (drop_bit 20 i AND (mask 12 :: u32))"
  by (rule bit_word_eqI) (auto simp: immI_def SEXT_def BITS_def bit_simps min_def not_le dest: bit_imp_le_length)

lemma immS_low: "ucast (immS i) = signed_take_bit 11 (push_bit 5 (drop_bit 25 i) OR (drop_bit 7 i AND (mask 5 :: u32)))"
  by (rule bit_word_eqI) (auto simp: immS_def SEXT_def BITS_def bit_simps min_def not_le dest: bit_imp_le_length)

lemma load_address: "a + sext (drop_bit 20 i AND 0xfff) 12 = relative a (immI i)"
proof -
  have "(drop_bit 20 i AND 0xfff) AND mask 12 = drop_bit 20 i AND 0xfff" by (simp add: low_mask flip: and.assoc)
  then show ?thesis by (simp add: relative_add immI_low sext_signed low_mask)
qed

lemma store_address: "a + sext (push_bit 5 (drop_bit 25 i) OR (drop_bit 7 i AND 0x1f)) 12 = relative a (immS i)"
proof -
  have "(push_bit 5 (drop_bit 25 i) OR (drop_bit 7 i AND mask 5)) AND mask 12 = push_bit 5 (drop_bit 25 i) OR (drop_bit 7 i AND (mask 5 :: u32))"
    by (rule bit_word_eqI) (auto simp: bit_simps dest: bit_imp_le_length)
  then show ?thesis by (simp add: relative_add immS_low sext_signed flip: low_mask)
qed

section \<open>Stores\<close>

lemma read_pte_some: "read_pte h a c = (Some p, d) \<Longrightarrow> \<not> translation_pending c \<Longrightarrow> \<not> translation_pending d"
  by (auto simp: read_pte_def cpu_phys_read32_def split: option.splits prod.splits if_splits)

lemma va2pa_some: "va2pa h v t c = (Some p, d) \<Longrightarrow> \<not> translation_pending d"
  by (auto simp: va2pa_def Let_def dest!: read_pte_some split: option.splits prod.splits if_splits)

text \<open>What a store writes, away from the registers of the devices.\<close>

definition device_registers :: "u32 set" where
  "device_registers = {0x10000000, 0x10000001, 0xc201004}"

definition merged_word :: "u32 \<Rightarrow> u32 \<Rightarrow> u32 \<Rightarrow> u32 \<Rightarrow> u32" where
  "merged_word offset strb data old =
     (let mask = strobe_mask (push_bit (unat offset) strb)
      in (mask AND push_bit (unat offset * 8) data) OR (NOT mask AND old))"

lemma store_data_memory:
  assumes "p_memory (memory c) = Some ram" "store_addr (state c) \<notin> device_registers"
  shows "memory (cpu_store_data sc_hooks c) = (memory c)\<lparr>p_memory := Some (ram(drop_bit 2 (store_addr (state c)) :=
    merged_word (store_addr (state c) AND 3) (store_strb (state c)) (store_data (state c)) (ram (drop_bit 2 (store_addr (state c))))))\<rparr>"
proof -
  have other: "store_addr (state c) \<noteq> UART_BASE" "store_addr (state c) \<noteq> 0x10000001" "store_addr (state c) \<noteq> 0xc201004"
    using assms(2) by (simp_all add: device_registers_def UART_BASE_def)
  let ?a = "store_addr (state c)"
  let ?v = "merged_word (?a AND 3) (store_strb (state c)) (store_data (state c)) (ram (drop_bit 2 ?a))"
  have merge: "store_merge sc_hooks c = (True, forget_word (?a AND NOT 3) (c\<lparr>memory := (memory c)\<lparr>p_memory := Some (ram(drop_bit 2 ?a := ?v))\<rparr>\<rparr>))"
    unfolding store_merge_def Let_def merged_word_def
    by (simp add: cpu_mem_read32_now_def cpu_mem_write32_now_def sc_hooks_def cpu_mem_read_now_hook_def
        cpu_mem_write_now_hook_def apply_wstrb_write_def assms(1) index_aligned [simplified] wstrb_mask_full Let_def)
  show ?thesis
    by (simp add: cpu_store_data_def and_then_def merge store_uart_def store_uart_request_def store_uart_ready_def store_irq_complete_def
        forget_word_def other rv_memory Let_def)
qed

text \<open>Lane by lane, the strobes that are sent select the bytes that are merged.\<close>

lemma offset_cases: "x AND 3 = 0 \<or> x AND 3 = 1 \<or> x AND 3 = 2 \<or> x AND 3 = (3 :: u32)"
proof -
  have "unat (x AND 3) < 2 ^ 2" using mask_mod [of 3 2 x] by (simp add: mask_eq_exp_minus_1)
  then have "unat (x AND 3) \<in> {0, 1, 2, 3}" by auto
  then show ?thesis by (auto simp: word_unat_eq_iff)
qed

lemma sent_is_merged:
  assumes "dm_valid (decode_store f v p)"
  shows "apply_wstrb_write (dm_paddr (decode_store f v p)) (dm_wdata (decode_store f v p)) (ucast (dm_wstrb (decode_store f v p))) m =
    m\<lparr>p_memory := map_option (\<lambda>ram. ram(drop_bit 2 p := merged_word (p AND 3) (if f = 0 then 1 else if f = 1 then 3 else 0xF)
      (if f = 0 then v AND 0xFF else if f = 1 then v AND 0xFFFF else v) (ram (drop_bit 2 p)))) (p_memory m)\<rparr>"
proof -
  have f: "f = 0 \<or> f = 1 \<or> f = 2" using assms by (auto simp: decode_store_def Let_def split: if_splits)
  have masks: "wstrb_mask (ucast (dm_wstrb (decode_store f v p))) =
    strobe_mask (push_bit (unat (p AND 3)) (if f = 0 then 1 else if f = 1 then 3 else 0xF))"
    using f offset_cases [of p] by (elim disjE) (simp_all add: decode_store_def Let_def wstrb_mask_def strobe_mask_def)
  have data: "dm_paddr (decode_store f v p) = p" "dm_wdata (decode_store f v p) =
    push_bit (unat (p AND 3) * 8) (if f = 0 then v AND 0xFF else if f = 1 then v AND 0xFFFF else v)"
    using f by (auto simp: decode_store_def Let_def)
  show ?thesis unfolding apply_wstrb_write_def merged_word_def Let_def masks data
    by (cases "p_memory m") (simp_all add: and.commute)
qed

text \<open>C22: the bytes the program sends out for a store outside the device registers are those the processor
  writes. When the decoder of the program, run on the state before the instruction, gives a valid request
  for a store that neither waits for its translation nor faults, mirroring the request gives exactly the memory the
  instruction leaves. Excluded are the stores to the three registers for which the processor writes further
  words of its own (\<open>device_registers\<close>: UART data 0x10000000, UART interrupt enable 0x10000001, interrupt
  completion 0xc201004); nothing is claimed of those.\<close>

theorem sc_store_sent_is_store_done:
  assumes "instruction c = i" "i AND 0x7f = 0x23" "\<not> translation_pending c" "\<not> page_fault_store c" "p_memory (memory c) \<noteq> None"
    and "decode_mem_req_pre_exec c i = (req, d)" "dm_valid req" "dm_paddr req \<notin> device_registers"
  shows "\<not> dm_is_read req \<and>
    memory (cpu_store sc_hooks c) = apply_wstrb_write (dm_paddr req) (dm_wdata req) (ucast (dm_wstrb req)) (memory d)"
proof -
  define v_addr where "v_addr = relative (reg c (field i 19 15)) (immS i)"
  define f where "f = field i 14 12"
  define v where "v = reg c (field i 24 20)"
  have dec: "decode_mem_req_pre_exec c i =
      (case translate_addr c v_addr 2 of (None, c) \<Rightarrow> (decoded_zero, c) | (Some paddr, c) \<Rightarrow> (decode_store f v paddr, c))"
    unfolding decode_mem_req_pre_exec_def v_addr_def store_address [symmetric] f_def v_def fields Let_def using assms(2) by simp
  obtain p where t: "translate_addr c v_addr 2 = (Some p, d)" "req = decode_store f v p"
    using assms(6,7) unfolding dec by (auto simp: decoded_zero_def split: prod.splits option.splits)
  have paddr: "dm_paddr req = p" "\<not> dm_is_read req" by (simp_all add: t(2) decode_store_def Let_def)
  obtain e where e: "cpu_store sc_hooks c = store_execute sc_hooks p e" "memory e = memory d" "state e = state c" "instruction e = i"
  proof (cases "translates c")
    case True
    then have va: "va2pa sc_hooks v_addr 2 c = (Some p, d)" using t(1) by (simp add: translate_addr_def)
    have "walked c d" using va2pa_walked [of c sc_hooks v_addr 2] va by simp
    note w = walkedD [OF this]
    show thesis using True va va2pa_some [OF va] w(1,2) assms(1)
      by (intro that [of "d\<lparr>page_fault_store := False\<rparr>"]) (simp_all add: cpu_store_def v_addr_def Let_def)
  next
    case False
    then have "p = v_addr" "d = c" using t(1) by (simp_all add: translate_addr_def)
    then show thesis using False assms(1,3,4) by (intro that [of c]) (simp_all add: cpu_store_def v_addr_def Let_def)
  qed
  have ram: "p_memory (memory d) \<noteq> None"
    using t(1) assms(5) sc_array.va2pa_good [OF assms(5)] by (auto simp: translate_addr_def simp del: not_None_eq split: if_splits)
  then obtain ram where ram: "p_memory (memory d) = Some ram" by blast
  define x where "x = upd_state (\<lambda>s. s\<lparr>store_flag := True, store_addr := p, store_strb := if f = 0 then 1 else if f = 1 then 3 else 0xF,
      store_data := if f = 0 then v AND 0xFF else if f = 1 then v AND 0xFFFF else v\<rparr>) e"
  have "cpu_store sc_hooks c = set_pc (pc (state e) + 4) (cpu_store_data sc_hooks x)"
    unfolding e(1) store_execute_def Let_def x_def by (simp add: e(3,4) f_def v_def)
  moreover have "memory x = memory d" "store_addr (state x) = p" by (simp_all add: x_def e(2))
  moreover have "store_strb (state x) = (if f = 0 then 1 else if f = 1 then 3 else 0xF)"
    "store_data (state x) = (if f = 0 then v AND 0xFF else if f = 1 then v AND 0xFFFF else v)" by (simp_all add: x_def)
  ultimately have "memory (cpu_store sc_hooks c) = (memory d)\<lparr>p_memory := Some (ram(drop_bit 2 p := merged_word (p AND 3)
      (if f = 0 then 1 else if f = 1 then 3 else 0xF) (if f = 0 then v AND 0xFF else if f = 1 then v AND 0xFFFF else v) (ram (drop_bit 2 p))))\<rparr>"
    using store_data_memory [of x ram] ram assms(8) paddr by (simp add: rv_memory)
  then show ?thesis using sent_is_merged [of f v p "memory d"] assms(7) t(2) ram paddr by simp
qed

text \<open>\<^verbatim>\<open>sh x2, 2(x1)\<close> with 0x100 in x1 and 0xabcd1234 in x2, on a memory of ones.\<close>

definition store_half :: "sc_memory cpu" where
  "store_half = (set_gpr 1 0x100 (set_gpr 2 0xabcd1234 (cpu_init 0x80000000 (cpu_zero
     \<lparr>p_memory = Some (\<lambda>_. 0x11111111), mmu_hook = mmu_hook_zero, mmu_req = read_req_zero\<rparr>))))\<lparr>instruction := 0x00209123\<rparr>"

lemma store_half_facts:
  "instruction store_half = 0x00209123" "\<not> translation_pending store_half" "\<not> page_fault_store store_half"
  "p_memory (memory store_half) = Some (\<lambda>_. 0x11111111)" "gpr (state store_half) ! Suc 0 = 0x100" "gpr (state store_half) ! 2 = 0xabcd1234"
  "\<not> translates store_half"
  by (simp_all add: store_half_def set_gpr_def cpu_init_def cpu_zero_def translates_def)

lemma store_half_decoded:
  "decode_mem_req_pre_exec store_half 0x00209123 =
    (\<lparr>dm_valid = True, dm_is_read = False, dm_paddr = 0x102, dm_total_size = 1, dm_wdata = 0x12340000, dm_wstrb = 0xC\<rparr>, store_half)"
  by (simp add: decode_mem_req_pre_exec_def translate_addr_def decode_store_def decoded_zero_def sext_def store_half_facts Let_def)

theorem sc_store_sent_is_store_done_witness:
  "map_option (\<lambda>ram. ram 0x40) (p_memory (memory (cpu_store sc_hooks store_half))) = Some 0x12341111"
  using sc_store_sent_is_store_done [OF store_half_facts(1) _ store_half_facts(2,3) _ store_half_decoded]
  by (simp add: store_half_facts device_registers_def apply_wstrb_write_def wstrb_mask_def Let_def)

end
