(* ===== verification/SC_Coherence.thy ===== *)
theory SC_Coherence
  imports SC_Run SC_Walks
begin

text \<open>
  The cache of page table words over whole runs of the demonstration program, with any interconnect behind
  it. Instructions drop the words they store. Two things change a word behind the back of the cache: a beat
  that is copied into the array (\<^verbatim>\<open>mirror_read_data\<close>, \<^verbatim>\<open>mirror_write_data\<close>), and an instruction that stores to the
  word whose answer to the walk is waiting. The words for which this happens are collected beside the run; every
  other word in the cache, and every other answer, is the word in memory.
\<close>

section \<open>What changes behind the cache\<close>

text \<open>The state between the copies and the clock edge of a cycle.\<close>

definition sim_middle :: "'i interconnect_ops \<Rightarrow> sc_axi4_in \<Rightarrow> 'i sim \<Rightarrow> 'i sim" where
  "sim_middle ops i s =
     (if exit_code (cpu_core s) \<noteq> None \<or> \<not> image_loaded s \<or> stage s = Halted then s
      else snd (snd (sim_wires ops i (step_begin s))))"

text \<open>By copies: the words that differ, and the address of an answer that was overwritten.\<close>

definition copies_change :: "sc_memory \<Rightarrow> sc_memory \<Rightarrow> u32 set" where
  "copies_change m m' = {a. sc_word m' a \<noteq> sc_word m a} \<union>
     {a. \<exists>x. sc_waiting m' = Some (a, x) \<and> sc_waiting m' \<noteq> sc_waiting m}"

text \<open>By an instruction: the word whose answer waits, if it differs.\<close>

definition waits_change :: "sc_memory \<Rightarrow> sc_memory \<Rightarrow> u32 set" where
  "waits_change m m' = {a. (\<exists>x. sc_waiting m' = Some (a, x)) \<and> sc_word m' a \<noteq> sc_word m a}"

definition changed_behind ::
  "softfloat \<Rightarrow> undefined_values \<Rightarrow> 'i interconnect_ops \<Rightarrow> sc_axi4_in \<Rightarrow> 'i sim \<Rightarrow> u32 set" where
  "changed_behind sf u ops i s =
     (let m = sim_memory (sim_middle ops i s)
      in copies_change (sim_memory s) m \<union> waits_change m (sim_memory (sim_cycle sf u ops i s)))"

definition watched_sim ::
  "softfloat \<Rightarrow> undefined_values \<Rightarrow> 'i interconnect_ops \<Rightarrow> sc_axi4_in \<Rightarrow> u32 set \<times> 'i sim \<Rightarrow> u32 set \<times> 'i sim" where
  "watched_sim sf u ops i x = (fst x \<union> changed_behind sf u ops i (snd x), sim_cycle sf u ops i (snd x))"

section \<open>The copies\<close>

definition only_memory :: "sc_memory cpu \<Rightarrow> sc_memory cpu \<Rightarrow> bool" where
  "only_memory c d \<longleftrightarrow> ptw d = ptw c \<and> has_ram (memory d) = has_ram (memory c)"

lemma only_memory_refl [simp]: "only_memory c c"
  by (simp add: only_memory_def)

lemma only_memory_trans: "only_memory c d \<Longrightarrow> only_memory d e \<Longrightarrow> only_memory c e"
  by (simp add: only_memory_def)

lemma copy_ram [simp]:
  "has_ram (mirror_word j d m) = has_ram m" "has_ram (apply_wstrb_write a d w m) = has_ram m"
  "has_ram (m\<lparr>mmu_hook := k\<rparr>) = has_ram m" "has_ram (m\<lparr>mmu_hook := k, mmu_req := r\<rparr>) = has_ram m"
  by (auto simp: has_ram_def mirror_word_def apply_wstrb_write_def Let_def split: option.split)

lemma read_copies: "only_memory (cpu_core s) (cpu_core (mirror_read_data i out s))"
  by (simp add: mirror_read_data_def upd_memory_def only_memory_def Let_def)

lemma lane_core [simp]: "cpu_core (uart_lane b out l s) = cpu_core s"
  by (simp add: uart_lane_def)

lemma lanes_core [simp]: "cpu_core (fold (uart_lane b out) ls s) = cpu_core s"
  by (induction ls arbitrary: s) simp_all

lemma write_copies: "only_memory (cpu_core s) (cpu_core (mirror_write_data i out s))"
  by (simp add: mirror_write_data_def upd_memory_def only_memory_def Let_def del: upt_conv_Cons)

lemma driven_core: "drive_current_stage ops s = (seen, p, s') \<Longrightarrow> cpu_core s' = cpu_core s"
  by (auto simp: drive_current_stage_def drive_mmu_request_def Let_def split: prod.splits exec_stage.splits if_splits)

lemma wires_copy: "only_memory (cpu_core s) (cpu_core (snd (snd (sim_wires ops i s))))"
proof -
  define s1 where "s1 = s\<lparr>interconnect := op_comb_outputs ops i (interconnect s)\<rparr>"
  obtain seen rs w s2 where d: "drive_current_stage ops s1 = (seen, (rs, w), s2)" by (metis prod.exhaust)
  define s3 where "s3 = s2\<lparr>interconnect := op_comb_inputs ops rs w (interconnect s2)\<rparr>"
  define out where "out = op_axi_out ops (interconnect s3)"
  define s4 where "s4 = mirror_write_data i out (mirror_read_data i out s3)"
  have "only_memory (cpu_core s3) (cpu_core s4)"
    unfolding s4_def using read_copies write_copies by (rule only_memory_trans)
  moreover have "cpu_core s3 = cpu_core s" using driven_core [OF d] by (simp add: s1_def s3_def)
  moreover have "snd (snd (sim_wires ops i s)) = s4\<lparr>interconnect := op_seq ops (interconnect s4),
      cpu_core := (cpu_core s4)\<lparr>sim_clock := sim_time s4 + 1\<rparr>\<rparr>"
    unfolding sim_wires_def Let_def s1_def [symmetric] d prod.case s3_def [symmetric] out_def [symmetric] s4_def [symmetric] by simp
  ultimately show ?thesis by (simp add: only_memory_def)
qed

lemma middle_copy: "only_memory (cpu_core s) (cpu_core (sim_middle ops i s))"
  using wires_copy [of "step_begin s" ops i] by (simp add: sim_middle_def step_begin_def Let_def split: if_splits)

lemma copied_ok:
  assumes "sc_pages.run_ok A c" "only_memory c d"
  shows "sc_pages.run_ok (A \<union> copies_change (memory c) (memory d)) d"
proof -
  have "has_ram (memory d)" using assms by (simp add: only_memory_def sc_pages.run_ok_def sc_pages.answers_but_def)
  then have "sc_pages.run_ok (A \<union> copies_change (memory c) (memory d)) (c\<lparr>memory := memory d\<rparr>)"
    using sc_pages.changed_run_ok [OF assms(1), of "memory d"] by (simp add: copies_change_def Un_assoc)
  then show ?thesis using assms(2) by (simp add: only_memory_def sc_pages.run_ok_def)
qed

section \<open>The clock edge\<close>

lemma answered_ok:
  assumes "sc_pages.run_ok A c"
  shows "sc_pages.run_ok A (c\<lparr>memory := update_mmu_request_state b b' (memory c)\<rparr>)"
proof -
  obtain ram where ram: "p_memory (memory c) = Some ram"
    using assms by (auto simp: sc_pages.run_ok_def sc_pages.answers_but_def has_ram_def)
  have "sc_waiting (update_mmu_request_state b b' (memory c)) = sc_waiting (memory c) \<or>
      (\<exists>a. sc_waiting (update_mmu_request_state b b' (memory c)) = Some (a, sc_word (memory c) a))"
    by (auto simp: update_mmu_request_state_def sc_waiting_def sc_word_def ram Let_def)
  then show ?thesis using assms by (auto simp: sc_pages.run_ok_def sc_pages.answers_but_def has_ram_def)
qed

lemma translated_ok: "sc_pages.run_ok A c \<Longrightarrow> sc_pages.run_ok A (snd (translate_addr c va type))"
  using sc_pages.va2pa_keeps [of A c va type] by (cases "va2pa sc_hooks va type c") (simp add: translate_addr_def)

lemma decoded_ok: "sc_pages.run_ok A c \<Longrightarrow> sc_pages.run_ok A (snd (decode_mem_req_pre_exec c j))"
  using translated_ok [of A c] by (auto simp: decode_mem_req_pre_exec_def Let_def split: prod.splits option.splits) (metis snd_conv)+

lemma fetch_ok_core: "cpu_core (prepare_fetch s) = snd (translate_addr (cpu_core s) (pc (state (cpu_core s))) 0)"
  by (simp add: prepare_fetch_def Let_def split: prod.split)

lemma data_core: "cpu_core (prepare_data_request s) = snd (decode_mem_req_pre_exec (cpu_core s) (inst_word s))"
  by (simp add: prepare_data_request_def Let_def split: prod.split)

lemma wait_core [simp]:
  "cpu_core (wait_fetch a b s) = cpu_core s" "cpu_core (wait_data_read a b s) = cpu_core s"
  "cpu_core (wait_write st a b s) = cpu_core s" "cpu_core (check_limits s) = cpu_core s"
  by (simp_all add: wait_fetch_def wait_data_read_def wait_write_def check_limits_def Let_def)

lemma execute_core: "cpu_core (execute_stage sf u s) = cpu_exec sf u sc_hooks (cpu_core s)"
  by (simp add: execute_stage_def Let_def)

lemma edge_core: "cpu_core (sim_edge sf u seen s) = cpu_core (update_stage_after_cycle sf u (fst seen) (snd seen) s)"
  by (simp add: sim_edge_def Let_def)

lemma edge_ok:
  assumes "sc_pages.run_ok A (cpu_core s)"
  shows "sc_pages.run_ok (A \<union> waits_change (sim_memory s) (sim_memory (sim_edge sf u seen s))) (cpu_core (sim_edge sf u seen s))"
proof -
  define e where "e = upd_memory (update_mmu_request_state (mmu_req_ready s) (mmu_resp_valid s)) s"
  define d where "d = cpu_core (sim_edge sf u seen s)"
  have e: "sc_pages.run_ok A (cpu_core e)" "sc_word (sim_memory e) = sc_word (sim_memory s)"
    using answered_ok [OF assms] by (simp_all add: e_def upd_memory_def)
  have d_eq: "d = (case stage e of PrepareFetch \<Rightarrow> cpu_core (prepare_fetch e) | PrepareData \<Rightarrow> cpu_core (prepare_data_request e)
      | Execute \<Rightarrow> cpu_core (execute_stage sf u e) | _ \<Rightarrow> cpu_core e)"
    by (simp add: d_def edge_core update_stage_after_cycle_def e_def [symmetric] Let_def split: exec_stage.split)
  show ?thesis
  proof (cases "stage e = Execute")
    case True
    then have "d = cpu_exec sf u sc_hooks (cpu_core e)" using d_eq by (simp add: execute_core)
    from sc_pages.exec_run_ok [OF e(1) this] show ?thesis unfolding d_def [symmetric] waits_change_def e(2) .
  next
    case False
    then have "sc_pages.run_ok A d"
      using e(1) translated_ok [OF e(1)] decoded_ok [OF e(1)] unfolding d_eq by (cases "stage e") (simp_all add: fetch_ok_core data_core)
    then show ?thesis unfolding d_def [symmetric] by (rule sc_pages.run_ok_mono) blast
  qed
qed

section \<open>Runs\<close>

lemma cycle_middle: "cpu_core (sim_cycle sf u ops i s) =
    (if exit_code (cpu_core s) \<noteq> None \<or> \<not> image_loaded s \<or> stage s = Halted then cpu_core s
     else cpu_core (sim_edge sf u (fst (sim_wires ops i (step_begin s))) (sim_middle ops i s)))"
  by (simp add: sim_cycle_def sim_step_def sim_middle_def step_begin_def Let_def split: prod.split)

lemma watched_ok:
  assumes "sc_pages.run_ok (fst x) (cpu_core (snd x))"
  shows "sc_pages.run_ok (fst (watched_sim sf u ops i x)) (cpu_core (snd (watched_sim sf u ops i x)))"
proof -
  let ?s = "snd x" and ?m = "sim_middle ops i (snd x)" and ?d = "sim_cycle sf u ops i (snd x)"
  have mid: "sc_pages.run_ok (fst x \<union> copies_change (sim_memory ?s) (sim_memory ?m)) (cpu_core ?m)"
    by (rule copied_ok [OF assms middle_copy])
  have "sc_pages.run_ok (fst x \<union> copies_change (sim_memory ?s) (sim_memory ?m) \<union> waits_change (sim_memory ?m) (sim_memory ?d)) (cpu_core ?d)"
  proof (cases "exit_code (cpu_core ?s) \<noteq> None \<or> \<not> image_loaded ?s \<or> stage ?s = Halted")
    case True
    then have "cpu_core ?d = cpu_core ?m" unfolding cycle_middle by (simp add: sim_middle_def)
    then show ?thesis using mid by (auto intro: sc_pages.run_ok_mono)
  next
    case False
    then have "cpu_core ?d = cpu_core (sim_edge sf u (fst (sim_wires ops i (step_begin ?s))) ?m)" unfolding cycle_middle by simp
    then show ?thesis using edge_ok [OF mid] by simp
  qed
  then show ?thesis by (simp add: watched_sim_def changed_behind_def Let_def Un_assoc)
qed

lemma reset_ok: "p_memory (sim_memory s) \<noteq> None \<Longrightarrow> sc_pages.run_ok {} (cpu_core (reset_machine_state ops s))"
  by (simp add: reset_machine_state_def cpu_init_def sc_pages.run_ok_def sc_pages.answers_but_def sc_waiting_def mmu_hook_zero_def
      has_ram_def coherent_but_reset Let_def)

text \<open>Over an array that has been allocated.\<close>

definition sim_from_reset :: "'i interconnect_ops \<Rightarrow> (u32 \<Rightarrow> u32) \<Rightarrow> 'i sim \<Rightarrow> u32 set \<times> 'i sim" where
  "sim_from_reset ops ram s = ({}, reset_machine_state ops (upd_memory (\<lambda>m. m\<lparr>p_memory := Some ram\<rparr>) s))"

interpretation sim_runs: clocked_machine "sim_from_reset ops ram s" "watched_sim sf u ops" "\<lambda>_ _. True"
    "\<lambda>x. sc_pages.run_ok (fst x) (cpu_core (snd x))" for ops :: "'i interconnect_ops" and ram s sf u
proof unfold_locales
  show "sc_pages.run_ok (fst (sim_from_reset ops ram s)) (cpu_core (snd (sim_from_reset ops ram s)))"
    unfolding sim_from_reset_def fst_conv snd_conv by (rule reset_ok) (simp add: upd_memory_def)
qed (rule watched_ok)

text \<open>C19: the cache of page table words over runs of the program. From the reset, whatever the array holds and
  whatever the interconnect and the AXI inputs do, at any time every valid word of the cache is the word in memory at
  its tag, and so is an answer that waits for the walk, except for addresses that have been changed behind the cache in
  the run (\<open>changed_behind\<close>): words a beat copied into the array has changed, answers such a beat has
  overwritten, and words an instruction has changed while their answer was waiting. As long as there is none,
  the hypotheses of the translation theorems hold (\<open>sc_sound\<close>, \<open>coherent\<close>).\<close>

theorem rv_ptw_cache_coherent:
  "let (A, s) = run_cycles (watched_sim sf u ops) ios (sim_from_reset ops ram s0); p = ptw (cpu_core s); m = sim_memory s
   in (\<forall>i<kPtwCacheSize. ptw_valid p ! i \<longrightarrow> ptw_tag p ! i \<notin> A \<longrightarrow> ptw_data p ! i = sc_word m (ptw_tag p ! i)) \<and>
      (mh_response_valid (mmu_hook m) \<longrightarrow> mh_addr (mmu_hook m) \<notin> A \<longrightarrow> mh_data (mmu_hook m) = sc_word m (mh_addr (mmu_hook m))) \<and>
      (A = {} \<longrightarrow> sc_sound m \<and> coherent (sc_word m) p)"
proof -
  obtain A s where run: "run_cycles (watched_sim sf u ops) ios (sim_from_reset ops ram s0) = (A, s)" by (metis prod.exhaust)
  then have ok: "sc_pages.run_ok A (cpu_core s)" using sim_runs.inv_reachable [of sf u ops ios ram s0] by simp
  then have "A = {} \<longrightarrow> sc_sound (sim_memory s) \<and> coherent (sc_word (sim_memory s)) (ptw (cpu_core s))"
    by (auto simp: sc_pages.walk_ok_def sc_sound_answers)
  moreover have "ptw_data (ptw (cpu_core s)) ! i = sc_word (sim_memory s) (ptw_tag (ptw (cpu_core s)) ! i)"
    if "i < kPtwCacheSize" "ptw_valid (ptw (cpu_core s)) ! i" "ptw_tag (ptw (cpu_core s)) ! i \<notin> A" for i
    using ok that by (auto simp: sc_pages.run_ok_def coherent_but_def)
  moreover have "mh_data (mmu_hook (sim_memory s)) = sc_word (sim_memory s) (mh_addr (mmu_hook (sim_memory s)))"
    if "mh_response_valid (mmu_hook (sim_memory s))" "mh_addr (mmu_hook (sim_memory s)) \<notin> A"
    using ok that by (auto simp: sc_pages.run_ok_def sc_pages.answers_but_def sc_waiting_def Let_def)
  ultimately show ?thesis unfolding run by (simp add: Let_def)
qed

text \<open>Before any cycle nothing has changed behind the cache.\<close>

theorem rv_ptw_cache_coherent_witness:
  "\<forall>(ops :: unit interconnect_ops) ram s0.
     let s = snd (sim_from_reset ops ram s0) in sc_sound (sim_memory s) \<and> coherent (sc_word (sim_memory s)) (ptw (cpu_core s))"
proof (intro allI)
  fix ops :: "unit interconnect_ops" and ram s0
  show "let s = snd (sim_from_reset ops ram s0) in sc_sound (sim_memory s) \<and> coherent (sc_word (sim_memory s)) (ptw (cpu_core s))"
    using rv_ptw_cache_coherent [where ios = "[]" and ops = ops and ram = ram and ?s0.0 = s0] by (simp add: sim_from_reset_def Let_def)
qed

end
