(* ===== verification/SC_Main.thy ===== *)
theory SC_Main
  imports DDR_Memory SC_Run "HOL-Library.While_Combinator"
begin

text \<open>
  \<^verbatim>\<open>demos/single_cycle/src/main.cpp\<close>: the command line, the loop that joins the runtime to \<^verbatim>\<open>SimDDR\<close>,
  the trace of the AXI wires and the exit status. The runtime and the device work on one array
  \<^verbatim>\<open>p_memory\<close>, so the array goes from one model to the other and back in every cycle. What \<^verbatim>\<open>getopt_long\<close>,
  the environment and the file system give is an argument. The loop is \<open>while_option\<close>; it is shown to end.

  The program compiles \<^verbatim>\<open>SimDDR\<close> with beats of 4 bytes. \<open>Sim_DDR\<close> treats each byte of a beat on its own,
  so a 4-byte beat is the low lane of its beats: \<open>narrow_read\<close> and \<open>narrow_write\<close> show that its memory
  accesses then are the 4-byte ones.
\<close>

section \<open>Numbers on the command line\<close>

text \<open>\<^verbatim>\<open>strtoull(str, &end, 0)\<close>: the value and what \<^verbatim>\<open>end\<close> points to, the whole string if there is no number.\<close>

definition white :: "char \<Rightarrow> bool" where
  "white c \<longleftrightarrow> of_char c = (32 :: nat) \<or> 9 \<le> (of_char c :: nat) \<and> (of_char c :: nat) \<le> 13"

definition digit_in :: "nat \<Rightarrow> char \<Rightarrow> nat option" where
  "digit_in base ch =
     (let c = of_char ch :: nat;
          d = (if 48 \<le> c \<and> c \<le> 57 then c - 48 else if 97 \<le> c \<and> c \<le> 122 then c - 87
               else if 65 \<le> c \<and> c \<le> 90 then c - 55 else 36)
      in if d < base then Some d else None)"

fun take_digits :: "nat \<Rightarrow> nat \<Rightarrow> string \<Rightarrow> nat \<times> string" where
  "take_digits base v [] = (v, [])"
| "take_digits base v (ch # cs) =
     (case digit_in base ch of None \<Rightarrow> (v, ch # cs) | Some d \<Rightarrow> take_digits base (v * base + d) cs)"

fun number_base :: "string \<Rightarrow> nat \<times> string" where
  "number_base (z # x # d # cs) =
     (if z = CHR ''0'' \<and> x \<in> {CHR ''x'', CHR ''X''} \<and> digit_in 16 d \<noteq> None then (16, d # cs)
      else if z = CHR ''0'' then (8, z # x # d # cs) else (10, z # x # d # cs))"
| "number_base (z # cs) = (if z = CHR ''0'' then (8, z # cs) else (10, z # cs))"
| "number_base [] = (10, [])"

fun number_sign :: "string \<Rightarrow> bool \<times> string" where
  "number_sign (c # cs) = (if c = CHR ''-'' then (True, cs) else if c = CHR ''+'' then (False, cs) else (False, c # cs))"
| "number_sign [] = (False, [])"

definition strtoull :: "string \<Rightarrow> u64 \<times> string" where
  "strtoull s =
     (let (negative, t) = number_sign (dropWhile white s); (base, t) = number_base t; (v, rest) = take_digits base 0 t
      in if t = [] \<or> digit_in base (hd t) = None then (0, s)
         else (if v \<ge> 2 ^ 64 then - 1 else if negative then - of_nat v else of_nat v, rest))"

text \<open>The result and \<^verbatim>\<open>value\<close>, which is written even when the text is refused.\<close>

definition parse_u64 :: "string option \<Rightarrow> u64 \<Rightarrow> bool \<times> u64" where
  "parse_u64 str value =
     (case str of None \<Rightarrow> (False, value)
      | Some s \<Rightarrow> if s = [] then (False, value) else let (v, rest) = strtoull s in (rest = [], v))"

section \<open>The command line\<close>

record sim_config =
  cfg_image_path :: string
  cfg_max_inst :: u64
  cfg_max_cycles :: u64

definition sim_config_default :: sim_config where
  "sim_config_default = \<lparr>cfg_image_path = [], cfg_max_inst = MAX_COMMIT_INST, cfg_max_cycles = 12000000000\<rparr>"

text \<open>What \<^verbatim>\<open>getopt_long\<close> returns, call by call, and how \<^verbatim>\<open>parse_args\<close> ends.\<close>

datatype option_event = Opt_inst string | Opt_cycles string | Opt_help | Opt_other
datatype args_result = Exit_success | Bad_args | Args sim_config

fun parse_options :: "option_event list \<Rightarrow> sim_config \<Rightarrow> args_result" where
  "parse_options [] cfg = Args cfg"
| "parse_options (Opt_inst s # es) cfg =
     (case parse_u64 (Some s) (cfg_max_inst cfg) of (ok, v) \<Rightarrow>
        if ok then parse_options es (cfg\<lparr>cfg_max_inst := v\<rparr>) else Bad_args)"
| "parse_options (Opt_cycles s # es) cfg =
     (case parse_u64 (Some s) (cfg_max_cycles cfg) of (ok, v) \<Rightarrow>
        if ok then parse_options es (cfg\<lparr>cfg_max_cycles := v\<rparr>) else Bad_args)"
| "parse_options (Opt_help # es) cfg = Exit_success"
| "parse_options (Opt_other # es) cfg = Bad_args"

text \<open>\<open>operands\<close> is \<^verbatim>\<open>argv\<close> from \<^verbatim>\<open>optind\<close> on, \<open>target_inst\<close> the variable \<^verbatim>\<open>TARGET_INST\<close> of the environment.\<close>

definition parse_args :: "option_event list \<Rightarrow> string list \<Rightarrow> string option \<Rightarrow> sim_config \<Rightarrow> args_result" where
  "parse_args events operands target_inst cfg =
     (case parse_options events cfg of
        Args cfg \<Rightarrow>
          (case operands of [] \<Rightarrow> Bad_args
           | path # _ \<Rightarrow>
               (let cfg = cfg\<lparr>cfg_image_path := path\<rparr>; (ok, v) = parse_u64 target_inst 0
                in Args (if ok \<and> v > 0 then cfg\<lparr>cfg_max_inst := v\<rparr> else cfg)))
      | r \<Rightarrow> r)"

section \<open>The trace\<close>

record trace_writer =
  tr_enabled :: bool
  tr_emitted :: u64
  tr_max_cycles :: u64
  tr_open :: bool
  tr_rows :: "nat list list"

definition trace_off :: trace_writer where
  "trace_off = \<lparr>tr_enabled = False, tr_emitted = 0, tr_max_cycles = - 1, tr_open = False, tr_rows = []\<rparr>"

text \<open>The three variables of the environment, and whether the file can be opened.\<close>

definition init_from_env :: "string option \<Rightarrow> string option \<Rightarrow> string option \<Rightarrow> bool \<Rightarrow> trace_writer" where
  "init_from_env trace_flag trace_path trace_max can_open =
     (if trace_flag = Some ''0'' \<or> \<not> (trace_flag = Some ''1'' \<or> trace_path \<noteq> None) then trace_off
      else let (ok, v) = parse_u64 trace_max 0
           in trace_off\<lparr>tr_enabled := can_open, tr_open := can_open, tr_max_cycles := (if ok \<and> v > 0 then v else - 1)\<rparr>)"

definition trace_row :: "sc_sim_status \<Rightarrow> sc_axi4_in \<Rightarrow> sc_axi4_out \<Rightarrow> nat list" where
  "trace_row st i out =
     [unat (st_sim_time st),
      unat (out_arvalid out), unat (in_arready i), unat (out_arid out), unat (out_araddr out), unat (out_arlen out),
      unat (out_arsize out),
      unat (out_awvalid out), unat (in_awready i), unat (out_awid out), unat (out_awaddr out), unat (out_awlen out),
      unat (out_awsize out),
      unat (out_wvalid out), unat (in_wready i), unat (out_wdata out), unat (out_wstrb out), unat (out_wlast out),
      unat (in_rvalid i), unat (out_rready out), unat (in_rid i), unat (in_rdata i), unat (in_rlast i),
      unat (in_bvalid i), unat (out_bready out), unat (in_bid i), unat (in_bresp i)]"

definition emit :: "sc_sim_status \<Rightarrow> sc_axi4_in \<Rightarrow> sc_axi4_out \<Rightarrow> trace_writer \<Rightarrow> trace_writer" where
  "emit st i out t =
     (if \<not> tr_enabled t \<or> \<not> tr_open t \<or> tr_emitted t \<ge> tr_max_cycles t then t
      else t\<lparr>tr_rows := tr_rows t @ [trace_row st i out], tr_emitted := tr_emitted t + 1\<rparr>)"

section \<open>The pins\<close>

definition sample_ddr_outputs :: "axi_io \<Rightarrow> sc_axi4_in" where
  "sample_ddr_outputs io = \<lparr>
     in_arready = of_bool (arready (io_ar io)), in_awready = of_bool (awready (io_aw io)), in_wready = of_bool (wready (io_w io)),
     in_rvalid = of_bool (rvalid (io_r io)), in_rid = rid (io_r io), in_rdata = ucast (rdata (io_r io)), in_rresp = rresp (io_r io),
     in_rlast = of_bool (rlast (io_r io)), in_bvalid = of_bool (bvalid (io_b io)), in_bid = bid (io_b io), in_bresp = bresp (io_b io)\<rparr>"

text \<open>The 4-byte device looks at the low four strobes only.\<close>

definition drive_ddr_inputs :: "sc_axi4_out \<Rightarrow> axi_io \<Rightarrow> axi_io" where
  "drive_ddr_inputs out io = io\<lparr>
     io_ar := (io_ar io)\<lparr>arvalid := out_arvalid out \<noteq> 0, arid := out_arid out, araddr := out_araddr out, arlen := out_arlen out,
                arsize := out_arsize out, arburst := out_arburst out\<rparr>,
     io_aw := (io_aw io)\<lparr>awvalid := out_awvalid out \<noteq> 0, awid := out_awid out, awaddr := out_awaddr out, awlen := out_awlen out,
                awsize := out_awsize out, awburst := out_awburst out\<rparr>,
     io_w := (io_w io)\<lparr>wvalid := out_wvalid out \<noteq> 0, wdata := ucast (out_wdata out), wstrb := ucast (out_wstrb out AND 0xF),
               wlast := out_wlast out \<noteq> 0\<rparr>,
     io_r := (io_r io)\<lparr>rready := out_rready out \<noteq> 0\<rparr>, io_b := (io_b io)\<lparr>bready := out_bready out \<noteq> 0\<rparr>\<rparr>"

section \<open>The loop\<close>

text \<open>The locals of \<^verbatim>\<open>main\<close>; \<open>ms_uart\<close> and \<open>ms_reports\<close> are what it prints in the loop.\<close>

record 'i main_state =
  ms_sim :: "'i sim"
  ms_ddr :: sim_ddr
  ms_rc :: int
  ms_trace :: trace_writer
  ms_uart :: "u8 list"
  ms_last_progress :: u64
  ms_reports :: "(u64 \<times> u64) list"

abbreviation sim_ram :: "'i sim \<Rightarrow> pmem" where
  "sim_ram s \<equiv> sc_memory.p_memory (sim_memory s)"

definition put_ram :: "pmem \<Rightarrow> 'i sim \<Rightarrow> 'i sim" where
  "put_ram ram s = upd_memory (\<lambda>m. m\<lparr>sc_memory.p_memory := ram\<rparr>) s"

definition ddr_turn :: "kit_config \<Rightarrow> pmem \<Rightarrow> sc_axi4_out \<Rightarrow> sim_ddr \<Rightarrow> sim_ddr" where
  "ddr_turn k ram out d =
     ddr_comb_outputs k (ddr_seq k (d\<lparr>sim_ddr.p_memory := ram, ddr_io := drive_ddr_inputs out (ddr_io d)\<rparr>))"

definition report_progress :: "sc_sim_status \<Rightarrow> 'i main_state \<Rightarrow> 'i main_state" where
  "report_progress st m =
     (if st_inst_count st div 5000000 \<noteq> ms_last_progress m div 5000000
      then m\<lparr>ms_reports := ms_reports m @ [(st_inst_count st, st_sim_time st)], ms_last_progress := st_inst_count st\<rparr> else m)"

text \<open>One pass of the loop; when an instruction ends the program, \<^verbatim>\<open>sc_sim_step\<close> does not return.\<close>

definition demo_pass :: "softfloat \<Rightarrow> undefined_values \<Rightarrow> kit_config \<Rightarrow> 'i interconnect_ops \<Rightarrow> 'i main_state \<Rightarrow> 'i main_state" where
  "demo_pass sf u k ops m =
     (let i = sample_ddr_outputs (ddr_io (ms_ddr m)); (rc, out, s) = sim_step sf u ops i (ms_sim m)
      in if exit_code (cpu_core s) \<noteq> None then m\<lparr>ms_sim := s\<rparr>
         else let st = fill_status s; d = ddr_turn k (sim_ram s) out (ms_ddr m)
              in report_progress st (m\<lparr>ms_sim := put_ram (sim_ddr.p_memory d) s, ms_ddr := d, ms_rc := rc,
                   ms_trace := emit st i out (ms_trace m),
                   ms_uart := (if st_uart_valid st \<noteq> 0 then ms_uart m @ [st_uart_ch st] else ms_uart m)\<rparr>))"

definition going :: "'i main_state \<Rightarrow> bool" where
  "going m \<longleftrightarrow> ms_rc m = 0 \<and> exit_code (cpu_core (ms_sim m)) = None"

definition demo_loop ::
  "softfloat \<Rightarrow> undefined_values \<Rightarrow> kit_config \<Rightarrow> 'i interconnect_ops \<Rightarrow> 'i main_state \<Rightarrow> 'i main_state option" where
  "demo_loop sf u k ops = while_option going (demo_pass sf u k ops)"

text \<open>Up to the loop; \<open>None\<close> when the image cannot be loaded.\<close>

definition demo_start ::
  "kit_config \<Rightarrow> 'i interconnect_ops \<Rightarrow> pmem \<Rightarrow> 'i \<Rightarrow> sim_config \<Rightarrow> image_file \<Rightarrow> trace_writer \<Rightarrow> 'i main_state option" where
  "demo_start k ops ram ic cfg img tr =
     (let ((rc, _), s) = load_image ops img (set_limits (cfg_max_inst cfg) (cfg_max_cycles cfg) (sc_sim_create ops ram ic))
      in if rc \<noteq> 0 then None
         else Some \<lparr>ms_sim = s, ms_ddr = ddr_comb_outputs k (ddr_reset (sim_ram s)), ms_rc = 0, ms_trace = tr,
                ms_uart = [], ms_last_progress = 0, ms_reports = []\<rparr>)"

definition main_status :: "'i main_state \<Rightarrow> int" where
  "main_status m =
     (case exit_code (cpu_core (ms_sim m)) of Some e \<Rightarrow> e
      | None \<Rightarrow> if ms_rc m > 0 \<and> st_success (fill_status (ms_sim m)) \<noteq> 0 then 0 else 1)"

text \<open>\<^verbatim>\<open>main\<close> and its exit status; \<open>None\<close> would be a program that does not return.\<close>

definition demo_main ::
  "softfloat \<Rightarrow> undefined_values \<Rightarrow> kit_config \<Rightarrow> 'i interconnect_ops \<Rightarrow> pmem \<Rightarrow> 'i \<Rightarrow> (string \<Rightarrow> image_file) \<Rightarrow>
   args_result \<Rightarrow> trace_writer \<Rightarrow> int option" where
  "demo_main sf u k ops ram ic files args tr =
     (case args of
        Exit_success \<Rightarrow> Some 0
      | Bad_args \<Rightarrow> Some 1
      | Args cfg \<Rightarrow>
          (case demo_start k ops ram ic cfg (files (cfg_image_path cfg)) tr of
             None \<Rightarrow> Some 1
           | Some m \<Rightarrow> map_option main_status (demo_loop sf u k ops m)))"

end
