(* ===== verification/SC_Return.thy ===== *)
theory SC_Return
  imports SC_Main
begin

text \<open>
  The demonstration program returns: its loop ends whatever the interconnect, the device and the
  image are, and the exit status says how. The 4-byte beats it exchanges with the device, the numbers
  on its command line, and where the runtime and the device disagree on the index of a word.
\<close>

section \<open>A pass of the loop\<close>

lemma sim_step_cycle:
  "exit_code (cpu_core s) = None \<Longrightarrow> sim_step sf u ops i s = (rc, out, s') \<Longrightarrow> s' = sim_cycle sf u ops i s"
  by (simp add: sim_cycle_def)

lemma put_ram_frames [simp]:
  "within_limits n m k (put_ram r s) = within_limits n m k s" "stage (put_ram r s) = stage s" "success (put_ram r s) = success s"
  "inst_count (put_ram r s) = inst_count s" "inst_word (put_ram r s) = inst_word s" "sim_time (put_ram r s) = sim_time s"
  "exit_code (cpu_core (put_ram r s)) = exit_code (cpu_core s)" "max_inst (put_ram r s) = max_inst s" "max_cycles (put_ram r s) = max_cycles s"
  by (simp_all add: put_ram_def upd_memory_def within_limits_def)

lemma report_frames [simp]: "ms_sim (report_progress st m) = ms_sim m" "ms_rc (report_progress st m) = ms_rc m"
  by (simp_all add: report_progress_def)

text \<open>What a pass leaves in the runtime, up to the array it shares with the device.\<close>

lemma pass_sim:
  assumes "exit_code (cpu_core (ms_sim m)) = None" "stage (ms_sim m) \<noteq> Halted" "image_loaded (ms_sim m)"
  obtains i r where "ms_sim (demo_pass sf u k ops m) = put_ram r (sim_cycle sf u ops i (ms_sim m))"
    "exit_code (cpu_core (sim_cycle sf u ops i (ms_sim m))) = None \<Longrightarrow>
     ms_rc (demo_pass sf u k ops m) = (if stage (sim_cycle sf u ops i (ms_sim m)) = Halted then result_code (sim_cycle sf u ops i (ms_sim m)) else 0)"
proof -
  let ?i = "sample_ddr_outputs (ddr_io (ms_ddr m))"
  obtain rc out s where s: "sim_step sf u ops ?i (ms_sim m) = (rc, out, s)" by (metis prod.exhaust)
  have eq: "s = sim_cycle sf u ops ?i (ms_sim m)" by (rule sim_step_cycle [OF assms(1) s])
  have rc: "rc = (if stage s = Halted then result_code s else 0)"
    using s assms(2,3) by (auto simp: sim_step_def Let_def split: prod.splits)
  have same: "put_ram (sim_ram s) s = s" by (cases s) (simp add: put_ram_def upd_memory_def)
  show ?thesis
  proof (cases "exit_code (cpu_core s) = None")
    case True
    let ?d = "ddr_turn k (sim_ram s) out (ms_ddr m)"
    show ?thesis
      by (rule that [of "sim_ddr.p_memory ?d" ?i]) (use s True rc in \<open>simp_all add: demo_pass_def Let_def eq\<close>)
  next
    case False
    show ?thesis
      by (rule that [of "sim_ram s" ?i]) (use s False same in \<open>simp_all add: demo_pass_def Let_def eq\<close>)
  qed
qed

section \<open>How a run ends\<close>

text \<open>A halted run has succeeded, by \<^verbatim>\<open>ebreak\<close> or the limit of instructions, or has used up its cycles.\<close>

definition ends_well :: "'i sim \<Rightarrow> bool" where
  "ends_well s \<longleftrightarrow> inst_count s = max_inst s \<or> inst_word s = INST_EBREAK"

definition outcome_ok :: "'i sim \<Rightarrow> bool" where
  "outcome_ok s \<longleftrightarrow> (if stage s = Halted then (if success s then ends_well s else max_cycles s \<le> sim_time s) else \<not> success s)"

lemma prepare_outcome:
  "stage s \<noteq> Halted \<Longrightarrow> stage (prepare_fetch s) \<noteq> Halted" "success (prepare_fetch s) = success s"
  "stage s \<noteq> Halted \<Longrightarrow> stage (prepare_data_request s) \<noteq> Halted" "success (prepare_data_request s) = success s"
  by (auto simp: prepare_fetch_def prepare_data_request_def Let_def split: prod.split)

lemma wait_outcome:
  "stage s \<noteq> Halted \<Longrightarrow> stage (wait_fetch a b s) \<noteq> Halted" "success (wait_fetch a b s) = success s"
  "stage s \<noteq> Halted \<Longrightarrow> stage (wait_data_read a b s) \<noteq> Halted" "success (wait_data_read a b s) = success s"
  "stage s \<noteq> Halted \<Longrightarrow> st \<noteq> Halted \<Longrightarrow> stage (wait_write st a b s) \<noteq> Halted" "success (wait_write st a b s) = success s"
  by (simp_all add: wait_fetch_def wait_data_read_def wait_write_def Let_def)

lemma execute_outcome: "\<not> success s \<Longrightarrow> stage s = Execute \<Longrightarrow> outcome_ok (execute_stage sf u s)"
  by (simp add: execute_stage_def outcome_ok_def ends_well_def Let_def)

lemma update_outcome:
  assumes "\<not> success s" "stage s \<noteq> Halted"
  shows "outcome_ok (update_stage_after_cycle sf u a b s)"
proof -
  let ?s = "upd_memory (update_mmu_request_state (mmu_req_ready s) (mmu_resp_valid s)) s"
  have "\<not> success ?s" "stage ?s \<noteq> Halted" using assms by (simp_all add: upd_memory_def)
  then show ?thesis unfolding update_stage_after_cycle_def Let_def
    by (cases "stage ?s")
      (simp_all add: execute_outcome, simp_all add: outcome_ok_def prepare_outcome wait_outcome)
qed

lemma limits_outcome:
  assumes "outcome_ok s" "inst_count s \<le> max_inst s"
  shows "outcome_ok (check_limits s)"
  using assms by (auto simp: check_limits_def outcome_ok_def ends_well_def Let_def)

text \<open>The invariant of the loop after \<open>n\<close> passes.\<close>

definition loop_inv :: "nat \<Rightarrow> u64 \<Rightarrow> u64 \<Rightarrow> 'i sim \<Rightarrow> bool" where
  "loop_inv n m k s \<longleftrightarrow> within_limits n m k s \<and> outcome_ok s"

lemma loop_inv_put_ram [simp]: "loop_inv n m k (put_ram r s) = loop_inv n m k s"
  by (simp add: loop_inv_def outcome_ok_def ends_well_def)

lemma loop_inv_cycle:
  assumes "loop_inv n m k s" "running s"
  shows "loop_inv (Suc n) m k (sim_cycle sf u ops i s)"
proof -
  obtain seen out e where e: "sim_wires ops i (step_begin s) = (seen, out, e)" by (metis prod.exhaust)
  let ?x = "update_stage_after_cycle sf u (fst seen) (snd seen) e"
  have w: "within_limits (Suc n) m k (sim_cycle sf u ops i s)" using assms(1) by (simp add: loop_inv_def within_step)
  have cycle: "sim_cycle sf u ops i s = (if exit_code (cpu_core ?x) \<noteq> None then ?x else check_limits ?x)"
    using cycle_running [OF assms(2) _ e] assms(1) by (simp add: loop_inv_def within_limits_def sim_edge_def Let_def)
  have "success (step_begin s) = success s" by (simp add: step_begin_def Let_def)
  then have "\<not> success e" "stage e \<noteq> Halted"
    using wires_frame [OF e] assms by (auto simp: same_progress_def loop_inv_def outcome_ok_def)
  then have x: "outcome_ok ?x" by (rule update_outcome)
  have "inst_count ?x \<le> max_inst ?x"
    using w unfolding cycle within_limits_def by (auto simp: check_limits_running split: if_splits)
  then have "outcome_ok (sim_cycle sf u ops i s)" using x limits_outcome cycle by auto
  then show ?thesis using w by (simp add: loop_inv_def)
qed

section \<open>The program returns\<close>

definition main_inv :: "u64 \<Rightarrow> u64 \<Rightarrow> 'i main_state \<Rightarrow> bool" where
  "main_inv m k s \<longleftrightarrow> (\<exists>n. loop_inv n m k (ms_sim s)) \<and>
     (exit_code (cpu_core (ms_sim s)) = None \<longrightarrow>
        ms_rc s = (if stage (ms_sim s) = Halted then result_code (ms_sim s) else 0))"

lemma going_running: "main_inv m k s \<Longrightarrow> going s \<Longrightarrow> running (ms_sim s)"
  by (auto simp: main_inv_def going_def result_code_def split: if_splits)

lemma main_inv_pass:
  assumes "loop_inv n m k (ms_sim s)" "running (ms_sim s)"
  shows "main_inv m k (demo_pass sf u kit ops s)" "loop_inv (Suc n) m k (ms_sim (demo_pass sf u kit ops s))"
proof -
  have pre: "exit_code (cpu_core (ms_sim s)) = None" "stage (ms_sim s) \<noteq> Halted" "image_loaded (ms_sim s)"
    using assms by (simp_all add: loop_inv_def within_limits_def)
  show l: "loop_inv (Suc n) m k (ms_sim (demo_pass sf u kit ops s))"
    by (rule pass_sim [OF pre, of sf u kit ops])
      (use loop_inv_cycle [OF assms] in simp)
  show "main_inv m k (demo_pass sf u kit ops s)"
    by (rule pass_sim [OF pre, of sf u kit ops]) (use l in \<open>auto simp: main_inv_def result_code_def\<close>)
qed

text \<open>The passes that are left, at most.\<close>

definition passes_left :: "u64 \<Rightarrow> 'i main_state \<Rightarrow> nat" where
  "passes_left k s = (if going s then unat k + 2 - unat (sim_time (ms_sim s)) else 0)"

lemma running_time: "within_limits n m k s \<Longrightarrow> running s \<Longrightarrow> unat (sim_time s) = n \<and> n \<le> unat k"
proof -
  assume w: "within_limits n m k s" "running s"
  then have t: "sim_time s = of_nat n" "n \<noteq> 0 \<longrightarrow> n < unat k" by (simp_all add: within_limits_def)
  then have "n < 2 ^ 64" using unsigned_less [of k, where 'a = nat] by (cases "n = 0") auto
  then have "unat (of_nat n :: u64) = n" by (simp only: unat_of_nat) simp
  then show ?thesis using t by auto
qed

lemma passes_decrease:
  assumes "main_inv m k s" "going s"
  shows "main_inv m k (demo_pass sf u kit ops s) \<and> passes_left k (demo_pass sf u kit ops s) < passes_left k s"
proof -
  obtain n where n: "loop_inv n m k (ms_sim s)" using assms(1) by (auto simp: main_inv_def)
  note r = going_running [OF assms]
  note p = main_inv_pass [OF n r, of sf u kit ops]
  have now: "unat (sim_time (ms_sim s)) = n" "n \<le> unat k"
    using running_time n r by (auto simp: loop_inv_def)
  have next_time: "unat (sim_time (ms_sim (demo_pass sf u kit ops s))) = Suc n" if "going (demo_pass sf u kit ops s)"
    using running_time p(2) going_running [OF p(1) that] by (auto simp: loop_inv_def)
  show ?thesis using p(1) now next_time assms(2) by (auto simp: passes_left_def)
qed

lemma loop_ends:
  assumes "main_inv m k s"
  obtains t where "demo_loop sf u kit ops s = Some t" "main_inv m k t" "\<not> going t"
proof -
  obtain t where t: "while_option going (demo_pass sf u kit ops) s = Some t"
    using measure_while_option_Some [where P = "main_inv m k" and f = "passes_left k" and b = going and c = "demo_pass sf u kit ops", OF passes_decrease assms] by blast
  have "main_inv m k t"
    using while_option_rule [where P = "main_inv m k", OF _ t assms] passes_decrease by blast
  then show ?thesis using that t while_option_stop [OF t] by (simp add: demo_loop_def)
qed

lemma start_inv:
  assumes "demo_start kit ops ram ic cfg img tr = Some s"
  shows "main_inv (cfg_max_inst cfg) (cfg_max_cycles cfg) s"
proof -
  have "\<exists>x. ms_sim s = reset_machine_state ops x \<and> image_loaded x \<and> max_inst x = cfg_max_inst cfg \<and> max_cycles x = cfg_max_cycles cfg"
    and rc: "ms_rc s = 0"
    using assms by (auto simp: demo_start_def load_image_def set_limits_def upd_memory_def Let_def split: option.splits image_file.splits)
  then obtain x where x: "ms_sim s = reset_machine_state ops x" "image_loaded x" "max_inst x = cfg_max_inst cfg"
    "max_cycles x = cfg_max_cycles cfg" by blast
  have "stage (ms_sim s) \<noteq> Halted" "\<not> success (ms_sim s)" using x by (simp_all add: reset_machine_state_def Let_def)
  then show ?thesis using x rc reset_within [OF x(2), of ops] by (auto simp: main_inv_def loop_inv_def outcome_ok_def)
qed

lemma demo_starts:
  obtains s where "demo_start kit ops (Some ram) ic cfg (Image img) tr = Some s" "main_inv (cfg_max_inst cfg) (cfg_max_cycles cfg) s"
proof -
  have "demo_start kit ops (Some ram) ic cfg (Image img) tr \<noteq> None"
    by (simp add: demo_start_def load_image_def sc_sim_create_def init_runtime_def sim_members_def reset_machine_state_def
        cpu_zero_def init_memory set_limits_def upd_memory_def Let_def)
  then obtain s where s: "demo_start kit ops (Some ram) ic cfg (Image img) tr = Some s" by blast
  show ?thesis by (rule that [OF s start_inv [OF s]])
qed

text \<open>C21: Once an image is loaded the program returns, whatever the interconnect and the instructions do: with the status an instruction gave, with 0 after an ebreak or as many instructions as its limit says, or with 1 after as many cycles as its limit says.\<close>

theorem demo_main_returns:
  "\<exists>s t. demo_start kit ops (Some ram) ic cfg (Image img) tr = Some s \<and> demo_loop sf u kit ops s = Some t \<and>
     inst_count (ms_sim t) \<le> cfg_max_inst cfg \<and>
     ((\<exists>e. exit_code (cpu_core (ms_sim t)) = Some e \<and> main_status t = e) \<or>
      main_status t = 0 \<and> (inst_count (ms_sim t) = cfg_max_inst cfg \<or> inst_word (ms_sim t) = INST_EBREAK) \<or>
      main_status t = 1 \<and> cfg_max_cycles cfg \<le> sim_time (ms_sim t))"
proof -
  obtain s where s: "demo_start kit ops (Some ram) ic cfg (Image img) tr = Some s" "main_inv (cfg_max_inst cfg) (cfg_max_cycles cfg) s"
    by (rule demo_starts)
  obtain t where t: "demo_loop sf u kit ops s = Some t" "main_inv (cfg_max_inst cfg) (cfg_max_cycles cfg) t" "\<not> going t"
    by (rule loop_ends [OF s(2)])
  have l: "inst_count (ms_sim t) \<le> cfg_max_inst cfg" "max_inst (ms_sim t) = cfg_max_inst cfg" "max_cycles (ms_sim t) = cfg_max_cycles cfg"
    "outcome_ok (ms_sim t)"
    using t(2) by (auto simp: main_inv_def loop_inv_def within_limits_def)
  have "(\<exists>e. exit_code (cpu_core (ms_sim t)) = Some e \<and> main_status t = e) \<or>
      main_status t = 0 \<and> ends_well (ms_sim t) \<or> main_status t = 1 \<and> max_cycles (ms_sim t) \<le> sim_time (ms_sim t)"
  proof (cases "exit_code (cpu_core (ms_sim t))")
    case None
    then have "stage (ms_sim t) = Halted" "ms_rc t = result_code (ms_sim t)"
      using t(2,3) by (auto simp: main_inv_def going_def split: if_splits)
    then show ?thesis using None l(4) by (auto simp: main_status_def fill_status_def result_code_def outcome_ok_def split: if_splits)
  qed (simp add: main_status_def)
  then show ?thesis using s(1) t(1) l by (auto simp: ends_well_def)
qed

section \<open>Narrow beats\<close>

lemma get_byte_narrow: "i < 4 \<Longrightarrow> get_byte (ucast (w :: axi_data) :: u32) i = get_byte w i"
  by (rule bit_word_eqI) (auto simp: kit_bytes bit_ucast_iff)

lemma get_byte_wide: "i < 4 \<Longrightarrow> get_byte (ucast (w :: u32) :: axi_data) i = get_byte w i"
  by (rule bit_word_eqI) (auto simp: kit_bytes bit_ucast_iff)

text \<open>A 4-byte beat is read and written byte by byte, as the loops over \<^verbatim>\<open>AXI_DATA_BYTES = 4\<close> do.\<close>

lemma narrow_read:
  assumes "ram_present m" "i < 4"
  shows "get_byte (ucast (do_memory_read m a) :: u32) i = mem_load_byte m (a + of_nat i)"
  using assms by (simp add: get_byte_narrow get_byte_do_memory_read)

lemma low_strobe: "test_bit (ucast (s AND 0xF :: u8) :: axi_strb) i \<longleftrightarrow> i < 4 \<and> bit s i"
proof -
  have four: "(0xF :: u8) = mask 4" by (simp add: mask_eq_exp_minus_1)
  show ?thesis unfolding four by (auto simp: test_bit_iff bit_ucast_iff bit_and_iff bit_mask_iff dest: bit_imp_le_length)
qed

lemma narrow_write:
  assumes "ram_present m"
  shows "do_memory_write m a (ucast (d :: u32)) (ucast (s AND 0xF :: u8)) =
    fold (\<lambda>i m. if bit s i then mem_store_byte m (a + of_nat i) (get_byte d i) else m) [0..<4] m"
proof -
  let ?f = "\<lambda>i m. if test_bit (ucast (s AND 0xF) :: axi_strb) i then mem_store_byte m (a + of_nat i) (get_byte (ucast d :: axi_data) i) else m"
  have split: "[0..<32] = [0..<4] @ [4..<32]" using upt_add_eq_append [of 0 4 28] by simp
  have rest: "fold ?f [4..<32] m = m" for m
    by (rule fold_invariant [where Q = "\<lambda>i. 4 \<le> i" and P = "\<lambda>x. x = m"]) (simp_all only: set_upt atLeastLessThan_iff low_strobe, simp_all)
  have "fold ?f [0..<4] m = fold (\<lambda>i m. if bit s i then mem_store_byte m (a + of_nat i) (get_byte d i) else m) [0..<4] m"
    by (rule fold_cong) (auto simp: low_strobe get_byte_wide)
  then show ?thesis using rest by (simp only: do_memory_write_fold [OF assms] split fold_append o_apply)
qed

section \<open>One array, two indices\<close>

text \<open>
  The device takes the base of the RAM off an address (\<^verbatim>\<open>axi_kit_pmem_offset\<close>), the runtime does not.
  For an address in the RAM the word of the device is another word of the array they share.
\<close>

lemma aligned_byte:
  assumes "a AND 3 = (0 :: u32)" "i < 4"
  shows "(a + of_nat i) AND NOT 3 = a" "unat ((a + of_nat i) AND 3) = i"
proof -
  let ?i = "of_nat i :: u32"
  have "i \<in> {0, 1, 2, 3}" using assms(2) by auto
  then have i: "?i AND 3 = ?i" "unat ?i = i" by auto
  have "a AND ?i = a AND (3 AND ?i)" by (simp only: i(1) and.commute [of 3])
  then have "a AND ?i = 0" by (simp only: and.assoc [symmetric] assms(1) and_zero_eq and.commute [of 0])
  then have plus: "a + ?i = a OR ?i" by (rule disjunctive_add_eq_or)
  have "?i AND NOT 3 = ?i AND (3 AND NOT 3)" by (simp only: and.assoc [symmetric] i(1))
  then have high: "?i AND NOT 3 = 0" by (simp only: bit.conj_cancel_right and_zero_eq)
  have "a = (a AND 3) OR (a AND NOT 3)" by (simp only: bit.conj_disj_distrib [symmetric] bit.disj_cancel_right and.right_neutral)
  then have "a AND NOT 3 = a" by (simp only: assms(1) or.left_neutral)
  then show "(a + ?i) AND NOT 3 = a" by (simp only: plus bit.conj_disj_distrib2 high or.right_neutral)
  show "unat ((a + ?i) AND 3) = i" by (simp only: plus bit.conj_disj_distrib2 assms(1) i or.left_neutral)
qed

lemma index_of_word: "drop_bit 2 (a AND NOT 3) = drop_bit 2 (a :: u32)"
proof -
  have three: "(3 :: u32) = mask 2" by (simp add: mask_eq_exp_minus_1)
  show ?thesis unfolding three by (rule bit_word_eqI) (auto simp: bit_drop_bit_eq bit_and_iff bit_not_iff bit_mask_iff dest: bit_imp_le_length)
qed

lemma device_word:
  assumes "a AND 3 = 0"
  shows "ucast (do_memory_read (Some ram) a) = ram (drop_bit 2 (axi_kit_pmem_offset a))"
proof (rule word_eq_bytesI)
  fix i assume "i < LENGTH(32) div 8"
  then have i: "i < 4" by simp
  have "drop_bit 2 (axi_kit_pmem_offset a AND NOT 3) = drop_bit 2 (axi_kit_pmem_offset a)"
    by (rule index_of_word)
  then show "get_byte (ucast (do_memory_read (Some ram) a) :: u32) i = get_byte (ram (drop_bit 2 (axi_kit_pmem_offset a))) i"
    using narrow_read [of "Some ram" i a] aligned_byte [OF assms i] i
    by (simp add: ram_present_def mem_load_byte_get pmem_read_def pmem_word_index_def)
qed simp

lemma fetch_mirrors_other_word:
  assumes "sim_ram s = Some ram" "beat_of i (fetch_req s)" "rr_beats_seen (fetch_req s) = 0" "in_rvalid i \<noteq> 0" "out_rready out \<noteq> 0"
    and "rr_addr (fetch_req s) = a" "a AND 3 = 0" "0x80000000 \<le> a" "in_rdata i = ucast (do_memory_read (Some ram) a)"
  shows "sim_ram (mirror_read_data i out s) = Some (ram(drop_bit 2 a := ram (drop_bit 2 (a - 0x80000000))))"
  using assms by (simp add: mirror_read_data_def mirror_word_def upd_memory_def Let_def device_word axi_kit_pmem_offset_def PMEM_RAM_BASE_def)

section \<open>Numbers\<close>

text \<open>A number is read back from its decimal digits; one that is too large gives the largest value, and a minus sign is taken.\<close>

abbreviation digit_of :: "nat \<Rightarrow> char" where
  "digit_of d \<equiv> char_of (48 + d)"

fun decimal :: "nat \<Rightarrow> string" where
  "decimal n = (if n < 10 then [digit_of n] else decimal (n div 10) @ [digit_of (n mod 10)])"

declare decimal.simps [simp del]

lemma digit_char: "d < 10 \<Longrightarrow> of_char (digit_of d) = 48 + d"
  by simp

lemma digit_in_char: "d < 10 \<Longrightarrow> digit_in 10 (digit_of d) = Some d"
  by (simp only: digit_in_def digit_char Let_def) simp

lemma take_digits_append: "take_digits b v xs = (w, []) \<Longrightarrow> take_digits b v (xs @ ys) = take_digits b w ys"
  by (induction xs arbitrary: v) (auto split: option.splits)

lemma take_decimal: "take_digits 10 0 (decimal n) = (n, [])"
proof (induction n rule: decimal.induct)
  case (1 n)
  show ?case
  proof (cases "n < 10")
    case True
    then show ?thesis by (simp add: decimal.simps [of n] digit_in_char)
  next
    case False
    have "n mod 10 < 10" by simp
    then show ?thesis using False 1 by (simp add: decimal.simps [of n] take_digits_append digit_in_char)
  qed
qed

lemma hd_decimal: "\<exists>d cs. d < 10 \<and> decimal n = digit_of d # cs \<and> (d = 0 \<longrightarrow> n = 0 \<and> cs = [])"
proof (induction n rule: decimal.induct)
  case (1 n)
  show ?case
  proof (cases "n < 10")
    case True
    then show ?thesis by (intro exI [of _ n] exI [of _ "[]"]) (simp add: decimal.simps [of n])
  next
    case False
    then obtain d cs where "d < 10" "decimal (n div 10) = digit_of d # cs" "d = 0 \<longrightarrow> n div 10 = 0 \<and> cs = []"
      using 1 by blast
    then show ?thesis using False by (auto simp: decimal.simps [of n])
  qed
qed

lemma plain_digit:
  assumes "d < 10"
  shows "\<not> white (digit_of d)" "digit_of d \<noteq> CHR ''-''" "digit_of d \<noteq> CHR ''+''"
    "d \<noteq> 0 \<Longrightarrow> digit_of d \<noteq> CHR ''0''"
proof -
  have c: "of_char (digit_of d) = 48 + d" using assms by (rule digit_char)
  show "\<not> white (digit_of d)" unfolding white_def c by simp
  have other: "of_char (digit_of d) \<noteq> (of_char x :: nat) \<Longrightarrow> digit_of d \<noteq> x" for x by metis
  show "digit_of d \<noteq> CHR ''-''" "digit_of d \<noteq> CHR ''+''" by (rule other, unfold c, simp)+
  show "d \<noteq> 0 \<Longrightarrow> digit_of d \<noteq> CHR ''0''" by (rule other, unfold c, simp)
qed

lemma white_minus: "\<not> white CHR ''-''"
  by (simp add: white_def)

lemma base_ten: "c \<noteq> CHR ''0'' \<Longrightarrow> number_base (c # cs) = (10, c # cs)"
  by (cases "c # cs" rule: number_base.cases) auto

lemma strtoull_digits:
  "let (base, t) = number_base (decimal n); (v, rest) = take_digits base 0 t
   in v = n \<and> rest = [] \<and> t \<noteq> [] \<and> digit_in base (hd t) \<noteq> None"
proof -
  obtain d cs where d: "d < 10" "decimal n = digit_of d # cs" "d = 0 \<longrightarrow> n = 0 \<and> cs = []" using hd_decimal by blast
  show ?thesis
  proof (cases "d = 0")
    case True
    then show ?thesis using d(2,3) by (simp add: digit_in_def)
  next
    case False
    then show ?thesis using take_decimal [of n] digit_in_char [OF d(1)] plain_digit(4) [OF d(1)] by (simp add: d(2) base_ten)
  qed
qed

lemma parse_decimal:
  "parse_u64 (Some (decimal n)) v = (True, if n \<ge> 2 ^ 64 then - 1 else of_nat n)"
  "parse_u64 (Some (CHR ''-'' # decimal n)) v = (True, if n \<ge> 2 ^ 64 then - 1 else - of_nat n)"
proof -
  obtain d cs where d: "d < 10" "decimal n = digit_of d # cs" using hd_decimal by blast
  have s: "number_sign (dropWhile white (decimal n)) = (False, decimal n)"
    "number_sign (dropWhile white (CHR ''-'' # decimal n)) = (True, decimal n)"
    using plain_digit [OF d(1)] by (simp_all add: d(2) white_minus del: of_char_of)
  obtain base t where b: "number_base (decimal n) = (base, t)" by (metis prod.exhaust)
  have t: "take_digits base 0 t = (n, [])" "\<not> (t = [] \<or> digit_in base (hd t) = None)"
    using strtoull_digits [of n] unfolding b by (auto split: prod.splits)
  have v: "strtoull (decimal n) = (if n \<ge> 2 ^ 64 then - 1 else of_nat n, [])"
    "strtoull (CHR ''-'' # decimal n) = (if n \<ge> 2 ^ 64 then - 1 else - of_nat n, [])"
    by (simp_all only: strtoull_def s b t Let_def prod.case if_False if_True)
  show "parse_u64 (Some (decimal n)) v = (True, if n \<ge> 2 ^ 64 then - 1 else of_nat n)"
    "parse_u64 (Some (CHR ''-'' # decimal n)) v = (True, if n \<ge> 2 ^ 64 then - 1 else - of_nat n)"
    by (simp_all only: parse_u64_def v d(2) [symmetric] option.case Let_def prod.case) (simp_all only: d(2) list.distinct if_False simp_thms)
qed

end
