(* ===== verification/Spec2Isabelle.thy ===== *)
theory Spec2Isabelle
  imports DDR_Props Route_Props Axi_Router Mmio_Props LLC_Line_Props LLC_Writes
    IC_Modes IC_Write_Gaps IC_Write_Ledger RV_Traps RV_Faults SC_Decode SC_Coherence SC_Return
begin

text \<open>
  The kit connects the masters of a processor (instruction and data cache, uncached load/store) to
  an AXI4 memory system. This library models its parts one by one, as the C++ classes are written,
  and proves what each promises.

  \<^bold>\<open>The program.\<close> Masters send requests of up to a cache line to \<^verbatim>\<open>AXI_Interconnect\<close>, which may pass them
  through the last level cache \<^verbatim>\<open>AXI_LLC\<close> and issues AXI4 bursts. \<^verbatim>\<open>AXI_Router_AXI4\<close> sends a burst to
  one of two slaves by address: the memory \<^verbatim>\<open>sim_ddr::SimDDR\<close>, a DDR device with latency, an outstanding
  read set, a write data FIFO and turnaround cycles, or the bus \<^verbatim>\<open>mmio::MMIO_Bus_AXI4\<close> with devices such
  as \<^verbatim>\<open>UART16550_Device\<close>. In the dual-port build the decisions of the bridge are the pure functions of
  \<^verbatim>\<open>axi_dual_port_route_shape.h\<close>. The demonstration program \<^verbatim>\<open>demos/single_cycle\<close> is a RISC-V processor
  that uses the interconnect as its memory system, one instruction at a time. Every class of hardware has
  combinational phases, which read registers and wires and drive wires (and the next registers), and a
  clock edge \<^verbatim>\<open>seq\<close>; a cycle of the model is the composition of both under the inputs of the cycle.

  \<^bold>\<open>Foundations.\<close>
    \<^item> \<open>Kit_Prelude\<close>: words, lists, runs of cycles (\<open>run_cycles\<close>, \<open>collect\<close>) and the interfaces
      \<open>clocked_machine\<close>, \<open>fifo_view\<close> (released then waiting is what was accepted, in order) and
      \<open>ledger_view\<close> (the same up to order), each interpreted on the components below.
    \<^item> \<open>Compat\<close> (\<^verbatim>\<open>include/axi_interconnect_compat.h\<close>): the configuration macros as the record \<open>kit_config\<close>
      with the static assertions as \<open>kit_config_ok\<close>, and wide values as lanes; they refine words.
    \<^item> \<open>Axi4_IO\<close>, \<open>Phys_Mem\<close>: the five channels and the word addressed backing memory.

  \<^bold>\<open>SimDDR\<close> (\<^verbatim>\<open>sim_ddr/SimDDR.cpp\<close>). \<open>Sim_DDR\<close> has the state and every stage of \<^verbatim>\<open>comb_outputs\<close> and
  \<^verbatim>\<open>seq\<close>. \<open>DDR_Protocol\<close> and \<open>DDR_Writes\<close> hold the invariants of the write side, \<open>DDR_Reads\<close> of the
  read side, \<open>DDR_Timing\<close> latency and turnaround, \<open>DDR_Memory\<close> beats against the memory; \<open>DDR_Props\<close>
  the properties: responses in order and after commit, memory contents as a prefix of the accepted
  beats, whole bursts without interleaving, latency, bounds.

  \<^bold>\<open>Bridge and router.\<close> \<open>Route_Shape\<close> is the whole header of bridge decisions, \<open>Route_Props\<close> its
  properties (hazard gate, pending scan, ring pointers, burst shapes, packing of words into beats).
  \<open>Axi_Router\<close> (\<^verbatim>\<open>AXI_Router_AXI4.cpp\<close>) shows that every handshake goes to one slave and every answer
  comes from the slave the request was sent to, for reads as long as no id is used again before the last beat.

  \<^bold>\<open>MMIO.\<close> \<open>Uart16550\<close>, \<open>Mmio_Bus\<close> (generic in the device type) and \<open>Mmio_Props\<close>: the streams of a bus after any
  calls of \<^verbatim>\<open>add_device\<close>, with the response code of every beat.

  \<^bold>\<open>The cache\<close> (\<^verbatim>\<open>axi_interconnect/AXI_LLC.cpp\<close>, \<^verbatim>\<open>AXI_LLC.h\<close>, \<^verbatim>\<open>AXI_LLC_Config.h\<close>).
    \<^item> \<open>LLC_Types\<close>: registers, wires and their reset values; \<open>LLC_Lines\<close>: addresses, line bytes, meta
      entries and replacement payloads; \<open>LLC_Queries\<close>: the searches and hazard checks;
    \<^item> \<open>LLC_Write\<close>: read response ports and \<^verbatim>\<open>drive_write_path\<close>; \<open>LLC_Lookup\<close>: prefetching and
      \<^verbatim>\<open>try_complete_lookup\<close>, one definition per outcome; \<open>LLC_Mem\<close>: \<^verbatim>\<open>drive_mem_read_path\<close>;
      \<open>LLC_Comb\<close>: acceptance, \<^verbatim>\<open>comb\<close> and \<^verbatim>\<open>seq\<close>; \<open>llc_cycle\<close> is one cycle under arbitrary wires;
    \<^item> \<open>LLC_Tables\<close>: the table memories the tests run the cache with (\<^verbatim>\<open>axi_test_axi4_llc_env.h\<close>);
    \<^item> \<open>LLC_Frames\<close>: what each stage leaves unchanged, field by field (\<open>llc_frame\<close>); \<open>LLC_Rings\<close>: the
      ring buffers of the ports;
    \<^item> \<open>LLC_Line_Props\<close>: addresses, meta entries, merging, answering from a line;
    \<^item> \<open>LLC_Reads\<close> and \<open>LLC_Read_Ledger\<close>: no read response is lost, invented or duplicated;
      \<open>LLC_Writes\<close>: write responses come in the order of acceptance.
  The C++ registers are \<^verbatim>\<open>regs\<close> (this cycle) and \<^verbatim>\<open>reg_write\<close> (the next); a stage is a function on the
  whole interface \<open>llc_io\<close>. \<^verbatim>\<open>std::abort\<close> is the flag \<open>aborted\<close>. The run theorems quantify over all wires
  of the masters, the memory and the tables, so they also hold for tables that answer wrongly.

  \<^bold>\<open>The interconnect\<close> (\<^verbatim>\<open>axi_interconnect/AXI_Interconnect.cpp\<close>, \<^verbatim>\<open>AXI_Interconnect.h\<close>,
  \<^verbatim>\<open>AXI_Interconnect_IO.h\<close>). It arbitrates the masters, passes cacheable requests to the cache when the
  mode says so, and issues bursts on two ports, DDR and MMIO.
    \<^item> \<open>IC_Types\<close>: latches, tables, per-master and per-port state (\<open>ic\<close>); \<open>IC_Data\<close>: bytes of the wide
      payloads, beats and alignment, the shaping of requests; \<open>IC_Queries\<close>: modes, routing, id
      allocation, quiescence and hazards;
    \<^item> \<open>IC_Reads\<close>, \<open>IC_Writes\<close>: the arbiter and the responses of reads and writes; \<open>IC_Comb\<close>: the inputs of
      the cache and both combinational phases; \<open>IC_Seq_Reads\<close>, \<open>IC_Seq\<close>: the clock edge. \<open>ic_cycle\<close> is one
      cycle: \<open>ic_before_edge\<close>, then \<open>ic_seq\<close>, under arbitrary wires of masters and slaves;
    \<^item> \<open>IC_Start\<close>: construction and \<^verbatim>\<open>init\<close>; \<open>IC_Frames\<close>: what each stage leaves unchanged (\<open>ic_frame\<close>);
    \<^item> \<open>IC_Arbiter\<close> and \<open>IC_Handshake\<close>: what the arbiter may drive, and that a shown AR request stays;
    \<^item> \<open>IC_Cache\<close>: the contract \<open>cache_port\<close> with the cache, interpreted on \<open>llc_comb\<close>; on it \<open>IC_Modes\<close>:
      no run ends the program, the mode changes only in quiet cycles;
    \<^item> \<open>IC_Read_Ledger\<close>, \<open>IC_Write_Ledger\<close> (interpretations of \<open>ledger_view\<close>): without the cache every read and
      write is answered exactly once. The reads that fall due are found by a watcher of the wires that runs beside the
      interconnect (\<open>watch_cycle\<close>), not read off its tables. \<open>IC_Read_Ids\<close>: the read table is well formed, with
      the cache too;
    \<^item> \<open>IC_Lanes\<close>: the bytes of a request through issue, beats and answer, as far as the issued burst reaches; a
      request that crosses the end of the one aligned beat or line issued for it loses its tail;
    \<^item> \<open>IC_Write_Gaps\<close>: a write the cached mode loses.
  The ledgers are for runs without the cache: with it, \<^verbatim>\<open>has_read_id_conflict\<close> lets a request reuse an
  id whose response is still queued in the cache, so the id does not tell the answers of a master apart.

  \<^bold>\<open>The processor\<close> (\<^verbatim>\<open>demos/single_cycle/src/single_cycle_cpu.cpp\<close>): RV32IMAF with Sv32 paging, one
  instruction per call of \<^verbatim>\<open>exec\<close>.
    \<^item> \<open>RV_Types\<close>: registers, CSR bits and tables of \<^verbatim>\<open>CSR.h\<close>, the hooks into the memory; \<open>RV_Mmu\<close>: \<^verbatim>\<open>va2pa\<close>;
      \<open>RV_Exec\<close>: traps, every instruction group, stores with the device registers, \<open>cpu_exec\<close>;
    \<^item> \<open>RV_Frames\<close>, \<open>RV_Control\<close>: the invariant, kept by every run; an instruction that waits for a page
      table word changes nothing and is executed again; \<open>RV_Traps\<close>: a return undoes a trap, bit by bit;
    \<^item> \<open>RV_Sv32\<close>: the translation algorithm of the architecture (\<open>sv32\<close>), the walk as the code computes it
      (\<open>walk32\<close>) over every memory that meets the locale \<open>page_memory\<close>, and where the two agree (\<open>sv32_exact\<close>: not
      for a supervisor fetching from a page of the user under SUM, nor above 4 GiB);
    \<^item> \<open>RV_Alu\<close>: multiplication, division, branches and jumps in the integers; \<open>RV_Faults\<close>: where the
      processor departs from the instruction set;
    \<^item> \<open>RV_Memory\<close>: the locale \<open>kept_memory\<close>: what the hooks keep of the memory the processor keeps.
  Type variables stand for the memory behind the hooks. The SoftFloat functions and the values that C++
  leaves undefined (shifts by the width or more, a variable without a value) are parameters, so the
  theorems hold for every choice of them.

  \<^bold>\<open>The program around it\<close> (\<^verbatim>\<open>demos/single_cycle/src/sc_axi4_sim_api.cpp\<close>): fetch, decode, data access
  and execution as stages over the ports of the interconnect.
    \<^item> \<open>SC_Memory\<close>: the hooks on the array \<^verbatim>\<open>p_memory\<close>, with the request for a page table word that is not
      mirrored yet; \<open>SC_Walks\<close>: they meet \<open>page_memory\<close>, so a walk over sound answers and a coherent cache
      gives the translation of the architecture where \<open>sv32_exact\<close> holds, and retries come to an end;
    \<^item> \<open>SC_Sim\<close>: the class \<^verbatim>\<open>SingleCycleAxi4Sim\<close>, with the interconnect as the parameter record
      \<open>interconnect_ops\<close> (the wires and the calls of its class that are used);
    \<^item> \<open>SC_Run\<close>: every run halts within its limits, the requests on the wires are those of the stage;
      \<open>SC_Decode\<close>: the store sent out before execution is the store the processor makes, outside the three
      device registers; \<open>SC_Coherence\<close>: in any run the cached page table words are the words in memory, except
      those a copied beat changed, or an instruction while their answer waited;
    \<^item> \<open>SC_Main\<close> (\<^verbatim>\<open>main.cpp\<close>): the loop that joins the runtime to \<open>Sim_DDR\<close> on their common array, the command
      line and the trace; \<open>SC_Return\<close>: the program returns, and what its exit status says. The device has
      beats of 4 bytes there, the low lane of the beats of \<open>Sim_DDR\<close> (\<open>narrow_read\<close>, \<open>narrow_write\<close>).

  \<^bold>\<open>Bounds.\<close> Machine integers keep their widths. Loops of the source run over fixed ranges and are
  folds over \<open>[0..<n]\<close> or structural recursions on such a list; no definition uses fuel. Executing a
  translation again until its page table words are there ends after two words at most, one for each
  level, and a run of the demonstration program ends by its limit of cycles: its loop is \<open>while_option\<close>, shown
  to give a result.

  \<^bold>\<open>Not modelled.\<close> Debug and trace output and members that are only printed, the AXI3 style ports
  of the dual port build outside the bridge decisions, the statistics printing, \<^verbatim>\<open>memcpy\<close> image
  loading of the bench, the test programs apart from the table memories; of the demonstration the
  files, the texts it prints apart from the characters of the UART and the trace, the null checks of its
  C interface, and the SoftFloat library.
\<close>

end
